(* ===== verification/HL_Prelude.thy ===== *)
theory HL_Prelude
  imports Complex_Main
begin

text \<open>
  Shared vocabulary of the development: errors and results, tables of rows as lists, the
  \<open>update\<close> / \<open>updateMany\<close> / \<open>create\<close> / \<open>find\<close> primitives the services use on them, loops that
  stop at the first error, and the generic lemmas on all of these. A thrown exception is the
  left injection of a sum; inside a database transaction it also stands for the rollback,
  because no new state is returned with it.
\<close>

section \<open>Errors and results\<close>

text \<open>
  \<open>AppError status message\<close> is the class of \<open>backend/src/lib/errors.ts\<close>; the \<open>details\<close>
  object that some calls attach is diagnostic only and is not modelled. \<open>RecordNotFound\<close> is what
  a row update by id raises when there is no such row, \<open>UniqueViolation\<close> what an insert raises
  when a unique key is taken, and \<open>JsError\<close> a plain JavaScript \<open>Error\<close>.
\<close>

datatype error =
    AppError nat string
  | RecordNotFound
  | UniqueViolation
  | JsError string

type_synonym 'a result = "error + 'a"

definition bindE :: "'e + 'a \<Rightarrow> ('a \<Rightarrow> 'e + 'b) \<Rightarrow> 'e + 'b" where
  "bindE m f = (case m of Inl e \<Rightarrow> Inl e | Inr x \<Rightarrow> f x)"

lemma bindE_simps [simp]:
  "bindE (Inl e) f = Inl e"
  "bindE (Inr x) f = f x"
  by (simp_all add: bindE_def)

lemma bindE_Inr_iff: "bindE m f = Inr y \<longleftrightarrow> (\<exists>x. m = Inr x \<and> f x = Inr y)"
  by (cases m) auto

lemma bindE_InrE:
  assumes "bindE m f = Inr y" obtains x where "m = Inr x" "f x = Inr y"
  using assms by (auto simp: bindE_Inr_iff)

lemma bindE_Inl_iff: "bindE m f = Inl e \<longleftrightarrow> m = Inl e \<or> (\<exists>x. m = Inr x \<and> f x = Inl e)"
  by (cases m) auto

text \<open>A \<open>for\<close> loop over a list whose body may throw; the state is threaded through.\<close>

fun forE :: "'a list \<Rightarrow> ('a \<Rightarrow> 's \<Rightarrow> 'e + 's) \<Rightarrow> 's \<Rightarrow> 'e + 's" where
  "forE [] f s = Inr s"
| "forE (x # xs) f s = bindE (f x s) (forE xs f)"

lemma forE_append: "forE (xs @ ys) f s = bindE (forE xs f s) (forE ys f)"
  by (induction xs arbitrary: s) (auto simp: bindE_def split: sum.splits)

text \<open>
  The contract of a loop body: under its precondition it does not throw, keeps an invariant, and
  leaves the precondition of the other iterations true. The loop then returns and keeps the
  invariant.
\<close>

locale loop_body =
  fixes body :: "'a \<Rightarrow> 's \<Rightarrow> 'e + 's"
    and pre :: "'a \<Rightarrow> 's \<Rightarrow> bool"
    and inv :: "'s \<Rightarrow> bool"
  assumes body_total:
    "inv s \<Longrightarrow> pre x s \<Longrightarrow> \<exists>s'. body x s = Inr s' \<and> inv s' \<and> (\<forall>y. pre y s \<longrightarrow> pre y s')"
begin

lemma loop_total:
  "inv s \<Longrightarrow> \<forall>x \<in> set xs. pre x s \<Longrightarrow> \<exists>s'. forE xs body s = Inr s' \<and> inv s'"
proof (induction xs arbitrary: s)
  case Nil
  then show ?case by simp
next
  case (Cons x xs)
  then obtain t where t: "body x s = Inr t" "inv t" "\<forall>y. pre y s \<longrightarrow> pre y t"
    using body_total [of s x] by auto
  then have "\<exists>s'. forE xs body t = Inr s' \<and> inv s'" using Cons by simp
  with t(1) show ?case by simp
qed

end

section \<open>Tables\<close>

text \<open>
  A database table is the list of its rows, in insertion order; a unique key is a function on
  rows. The primitives below are the Prisma calls the services make.
\<close>

definition find_row :: "('r \<Rightarrow> 'k) \<Rightarrow> 'k \<Rightarrow> 'r list \<Rightarrow> 'r option" where
  "find_row key k xs = List.find (\<lambda>r. key r = k) xs"

definition has_row :: "('r \<Rightarrow> 'k) \<Rightarrow> 'k \<Rightarrow> 'r list \<Rightarrow> bool" where
  "has_row key k xs \<longleftrightarrow> k \<in> key ` set xs"

definition upd_row :: "('r \<Rightarrow> 'k) \<Rightarrow> 'k \<Rightarrow> ('r \<Rightarrow> 'r) \<Rightarrow> 'r list \<Rightarrow> 'r list" where
  "upd_row key k f xs = map (\<lambda>r. if key r = k then f r else r) xs"

definition update_row :: "('r \<Rightarrow> 'k) \<Rightarrow> 'k \<Rightarrow> ('r \<Rightarrow> 'r) \<Rightarrow> 'r list \<Rightarrow> 'r list result" where
  "update_row key k f xs = (if has_row key k xs then Inr (upd_row key k f xs) else Inl RecordNotFound)"

definition updateMany_rows :: "('r \<Rightarrow> bool) \<Rightarrow> ('r \<Rightarrow> 'r) \<Rightarrow> 'r list \<Rightarrow> nat \<times> 'r list" where
  "updateMany_rows P f xs = (length (filter P xs), map (\<lambda>r. if P r then f r else r) xs)"

definition create_row :: "('r \<Rightarrow> 'k) \<Rightarrow> 'r \<Rightarrow> 'r list \<Rightarrow> 'r list result" where
  "create_row key r xs = (if has_row key (key r) xs then Inl UniqueViolation else Inr (xs @ [r]))"

lemma find_row_Nil [simp]: "find_row key k [] = None"
  by (simp add: find_row_def)

lemma find_row_Cons [simp]:
  "find_row key k (x # xs) = (if key x = k then Some x else find_row key k xs)"
  by (simp add: find_row_def)

lemma find_row_None_iff: "find_row key k xs = None \<longleftrightarrow> \<not> has_row key k xs"
  by (induction xs) (auto simp: has_row_def)

lemma distinct_mapD: "distinct (map f xs) \<Longrightarrow> x \<in> set xs \<Longrightarrow> y \<in> set xs \<Longrightarrow> f x = f y \<Longrightarrow> x = y"
  by (auto simp: distinct_map dest: inj_onD)

lemma find_row_SomeD: "find_row key k xs = Some r \<Longrightarrow> r \<in> set xs \<and> key r = k"
  by (induction xs) (auto split: if_splits)

lemma find_row_eq_Some_iff:
  "distinct (map key xs) \<Longrightarrow> find_row key k xs = Some r \<longleftrightarrow> r \<in> set xs \<and> key r = k"
proof (induction xs)
  case (Cons x xs)
  then show ?case by (auto simp: image_iff)
qed simp

lemma has_row_iff_find: "has_row key k xs \<longleftrightarrow> (\<exists>r. find_row key k xs = Some r)"
  using find_row_None_iff [of key k xs] by (cases "find_row key k xs") auto

lemma upd_row_Nil [simp]: "upd_row key k f [] = []"
  by (simp add: upd_row_def)

lemma upd_row_Cons [simp]:
  "upd_row key k f (x # xs) = (if key x = k then f x else x) # upd_row key k f xs"
  by (simp add: upd_row_def)

lemma map_upd_row:
  "(\<And>r. key r = k \<Longrightarrow> g (f r) = g r) \<Longrightarrow> map g (upd_row key k f xs) = map g xs"
  by (simp add: upd_row_def)

lemma find_row_upd_row:
  "(\<And>r. key (f r) = key r) \<Longrightarrow>
     find_row key j (upd_row key k f xs) =
       (if j = k then map_option f (find_row key k xs) else find_row key j xs)"
  by (induction xs) auto

lemma in_upd_row:
  "y \<in> set (upd_row key k f xs) \<longleftrightarrow>
     (\<exists>x \<in> set xs. y = (if key x = k then f x else x))"
  unfolding upd_row_def set_map image_iff ..

text \<open>The interface of a table: look a row up, modify the row of a key.\<close>

locale row_store =
  fixes lookup :: "'k \<Rightarrow> 't \<Rightarrow> 'r option"
    and modify :: "'k \<Rightarrow> ('r \<Rightarrow> 'r) \<Rightarrow> 't \<Rightarrow> 't"
    and keeps_key :: "('r \<Rightarrow> 'r) \<Rightarrow> bool"
  assumes lookup_modify:
    "keeps_key f \<Longrightarrow>
       lookup j (modify k f t) = (if j = k then map_option f (lookup k t) else lookup j t)"
begin

lemma lookup_modify_same: "keeps_key f \<Longrightarrow> lookup k (modify k f t) = map_option f (lookup k t)"
  by (simp add: lookup_modify)

lemma lookup_modify_other: "keeps_key f \<Longrightarrow> j \<noteq> k \<Longrightarrow> lookup j (modify k f t) = lookup j t"
  by (simp add: lookup_modify)

lemma lookup_modify_modify:
  "keeps_key f \<Longrightarrow> keeps_key g \<Longrightarrow>
     lookup j (modify k g (modify k f t)) = (if j = k then map_option (g \<circ> f) (lookup k t) else lookup j t)"
  by (simp add: lookup_modify option.map_comp)

lemma lookup_modify_commute:
  "keeps_key f \<Longrightarrow> keeps_key g \<Longrightarrow> k \<noteq> k' \<Longrightarrow>
     lookup j (modify k' g (modify k f t)) = lookup j (modify k f (modify k' g t))"
  by (simp add: lookup_modify)

end

interpretation rows: row_store "find_row key" "upd_row key" "\<lambda>f. \<forall>r. key (f r) = key r"
  for key :: "'r \<Rightarrow> 'k"
  by unfold_locales (simp add: find_row_upd_row)

section \<open>Sums over a table\<close>

text \<open>
  A rollup is a sum over the rows of a table. Updating the row of a key changes the sum by the
  difference of that row's contribution.
\<close>

definition sum_rows :: "('r \<Rightarrow> int) \<Rightarrow> 'r list \<Rightarrow> int" where
  "sum_rows g xs = sum_list (map g xs)"

lemma sum_rows_simps [simp]:
  "sum_rows g [] = 0"
  "sum_rows g (x # xs) = g x + sum_rows g xs"
  "sum_rows g (xs @ ys) = sum_rows g xs + sum_rows g ys"
  by (simp_all add: sum_rows_def)

lemma upd_row_absent: "k \<notin> key ` set xs \<Longrightarrow> upd_row key k f xs = xs"
  by (induction xs) auto

lemma sum_rows_upd_row:
  "distinct (map key xs) \<Longrightarrow> r \<in> set xs \<Longrightarrow> key r = k \<Longrightarrow>
     sum_rows g (upd_row key k f xs) = sum_rows g xs - g r + g (f r)"
proof (induction xs)
  case (Cons x xs)
  show ?case
  proof (cases "key x = k")
    case True
    with Cons.prems have "x = r" and "k \<notin> key ` set xs"
      by (auto simp: image_iff)
    with True show ?thesis by (simp add: upd_row_absent)
  next
    case False
    with Cons show ?thesis by auto
  qed
qed simp

lemma sum_rows_cong: "(\<And>x. x \<in> set xs \<Longrightarrow> g x = h x) \<Longrightarrow> sum_rows g xs = sum_rows h xs"
  by (induction xs) auto

lemma sum_rows_nonneg: "(\<And>x. x \<in> set xs \<Longrightarrow> 0 \<le> g x) \<Longrightarrow> 0 \<le> sum_rows g xs"
  by (induction xs) auto

lemma sum_rows_mono: "(\<And>x. x \<in> set xs \<Longrightarrow> g x \<le> h x) \<Longrightarrow> sum_rows g xs \<le> sum_rows h xs"
  by (induction xs) (auto intro: add_mono)

lemma sum_rows_member_le:
  "(\<And>x. x \<in> set xs \<Longrightarrow> 0 \<le> g x) \<Longrightarrow> r \<in> set xs \<Longrightarrow> g r \<le> sum_rows g xs"
proof (induction xs)
  case (Cons x xs)
  then show ?case
    using sum_rows_nonneg [of xs g] by (fastforce)
qed simp

lemma sum_rows_zero: "(\<And>x. x \<in> set xs \<Longrightarrow> g x = 0) \<Longrightarrow> sum_rows g xs = 0"
  by (induction xs) auto

lemma sum_rows_add: "sum_rows (\<lambda>x. g x + h x) xs = sum_rows g xs + sum_rows h xs"
  by (induction xs) auto

lemma sum_rows_unique_key:
  "distinct (map key xs) \<Longrightarrow> r \<in> set xs \<Longrightarrow>
     sum_rows (\<lambda>x. if key x = key r then g x else 0) xs = g r"
proof (induction xs)
  case (Cons x xs)
  show ?case
  proof (cases "key x = key r")
    case True
    with Cons.prems have "x = r" and "\<forall>y \<in> set xs. key y \<noteq> key r"
      by (auto simp: image_iff)
    then show ?thesis using True by (simp add: sum_rows_zero)
  next
    case False
    with Cons show ?thesis by auto
  qed
qed simp

section \<open>Updates by a condition\<close>

lemma length_filter_key:
  "distinct (map key xs) \<Longrightarrow> r \<in> set xs \<Longrightarrow>
     length (filter (\<lambda>x. key x = key r \<and> Q x) xs) = (if Q r then 1 else 0)"
proof (induction xs)
  case (Cons x xs)
  show ?case
  proof (cases "key x = key r")
    case True
    with Cons.prems have "x = r" and *: "\<forall>y \<in> set xs. key y \<noteq> key r"
      by (auto simp: image_iff)
    then have "filter (\<lambda>x. key x = key r \<and> Q x) xs = []"
      by (simp add: filter_empty_conv)
    with \<open>x = r\<close> show ?thesis by simp
  next
    case False
    with Cons show ?thesis by auto
  qed
qed simp

lemma updateMany_rows_key:
  assumes "distinct (map key xs)" "r \<in> set xs" "key r = k" "Q r"
  shows "updateMany_rows (\<lambda>x. key x = k \<and> Q x) f xs = (1, upd_row key k f xs)"
proof -
  have "(if key x = k \<and> Q x then f x else x) = (if key x = k then f x else x)" if "x \<in> set xs" for x
    using assms that by (metis distinct_map inj_on_contraD)
  then show ?thesis
    using length_filter_key [OF assms(1,2), of Q] assms(3,4)
    by (simp add: updateMany_rows_def upd_row_def)
qed

lemma updateMany_rows_count:
  "updateMany_rows P f xs = (1, ys) \<Longrightarrow> \<exists>r \<in> set xs. P r"
  by (auto simp: updateMany_rows_def) (metis One_nat_def filter_False length_0_conv nat.distinct(1))

section \<open>Computed results\<close>

lemma stage_Inr: "\<not> isl m \<Longrightarrow> m = Inr (projr m)"
  by (cases m) simp_all

lemma stage_pair: "\<not> isl m \<Longrightarrow> m = Inr (fst (projr m), snd (projr m))"
  by (cases m) simp_all

section \<open>Operations that are overtaken\<close>

text \<open>
  An operation that checks what it has read and writes later, without a lock: other requests lead from the
  state it read, \<open>s0\<close>, to the state it writes to, \<open>s\<close>. What it relies on are facts that later states keep.
\<close>

locale overtaking =
  fixes ok :: "'s \<Rightarrow> bool"
    and later :: "'s \<Rightarrow> 's \<Rightarrow> bool"
  assumes later_refl: "later s s"
    and later_trans: "later a b \<Longrightarrow> later b c \<Longrightarrow> later a c"
begin

lemma step: "ok s \<and> later a s \<Longrightarrow> (ok s \<Longrightarrow> ok t \<and> later s t) \<Longrightarrow> ok t \<and> later a t"
  using later_trans by blast

lemma overtaken_step:
  assumes "ok a \<Longrightarrow> ok s0 \<and> later a s0" "ok s0 \<Longrightarrow> ok s \<and> later s0 s" "ok a"
    "later s0 s \<Longrightarrow> ok s \<Longrightarrow> ok t \<and> later s t"
  shows "ok t \<and> later a t"
  using assms later_trans by blast

end

end
