(* ===== verification/Money.thy ===== *)
theory Money
  imports HL_Prelude
begin

text \<open>
  Money (\<open>backend/src/lib/money.ts\<close>, \<open>backend/src/lib/stripe.ts\<close>). A \<open>Prisma.Decimal\<close> is an exact
  decimal number; it is modelled as a rational, on which \<open>add\<close>, \<open>sub\<close> and \<open>mul\<close> are exact (their
  results stay below the 20 significant digits the decimal type carries, the columns being
  \<open>Decimal(12,2)\<close>, \<open>Decimal(14,4)\<close> and \<open>Decimal(5,2)\<close>). Rounding is explicit: \<open>toDecimalPlaces\<close> with
  \<open>ROUND_HALF_UP\<close> rounds to the nearest multiple, ties away from zero.
\<close>

type_synonym decimal = rat

definition toDecimalPlaces :: "nat \<Rightarrow> decimal \<Rightarrow> decimal" where
  "toDecimalPlaces n x =
     (let k = \<lfloor>\<bar>x\<bar> * 10 ^ n + 1 / 2\<rfloor>
      in (if x < 0 then - of_int k else of_int k) / 10 ^ n)"

text \<open>Currency totals, two decimal places; unit costs, four.\<close>

definition moneyDec :: "decimal \<Rightarrow> decimal" where
  "moneyDec x = toDecimalPlaces 2 x"

definition unitCostDec :: "decimal \<Rightarrow> decimal" where
  "unitCostDec x = toDecimalPlaces 4 x"

text \<open>
  \<open>toStripeCents\<close>: the integer cents sent to the card processor. \<open>Math.round\<close> rounds half up
  (towards plus infinity); negative amounts are refused first.
\<close>

definition toStripeCents :: "decimal \<Rightarrow> int result" where
  "toStripeCents amount =
     (if amount < 0 then Inl (AppError 400 ''Invalid amount for Stripe'')
      else Inr \<lfloor>amount * 100 + 1 / 2\<rfloor>)"

text \<open>The values with at most \<open>n\<close> decimal places, on which rounding is the identity.\<close>

definition has_dp :: "nat \<Rightarrow> decimal \<Rightarrow> bool" where
  "has_dp n x \<longleftrightarrow> (\<exists>k::int. x = of_int k / 10 ^ n)"

named_theorems dp_intros \<open>closure of the values with n decimal places\<close>

lemma has_dp_zero [dp_intros, simp]: "has_dp n 0"
  unfolding has_dp_def by (rule exI [of _ 0]) simp

lemma has_dp_add [dp_intros]: "has_dp n x \<Longrightarrow> has_dp n y \<Longrightarrow> has_dp n (x + y)"
  unfolding has_dp_def by (metis add_divide_distrib of_int_add)

lemma has_dp_diff [dp_intros]: "has_dp n x \<Longrightarrow> has_dp n y \<Longrightarrow> has_dp n (x - y)"
  unfolding has_dp_def by (metis diff_divide_distrib of_int_diff)

lemma has_dp_uminus [dp_intros]: "has_dp n x \<Longrightarrow> has_dp n (- x)"
  unfolding has_dp_def by (metis minus_divide_left of_int_minus)

lemma has_dp_mult_int [dp_intros]: "has_dp n x \<Longrightarrow> has_dp n (x * of_int k)"
  unfolding has_dp_def by (metis of_int_mult times_divide_eq_left)

lemma has_dp_of_int [dp_intros]: "has_dp n (of_int k)"
  unfolding has_dp_def by (rule exI [of _ "k * 10 ^ n"]) simp

lemma has_dp_toDecimalPlaces [dp_intros, simp]: "has_dp n (toDecimalPlaces n x)"
  unfolding has_dp_def toDecimalPlaces_def Let_def
  by (cases "x < 0") (auto intro: exI [of _ "- \<lfloor>\<bar>x\<bar> * 10 ^ n + 1 / 2\<rfloor>"])

lemma toDecimalPlaces_exact:
  assumes "has_dp n x"
  shows "toDecimalPlaces n x = x"
proof -
  obtain k :: int where k: "x = of_int k / 10 ^ n"
    using assms by (auto simp: has_dp_def)
  then have "\<bar>x\<bar> * 10 ^ n = of_int \<bar>k\<bar>" by simp
  then have "\<lfloor>\<bar>x\<bar> * 10 ^ n + 1 / 2\<rfloor> = \<bar>k\<bar>"
    unfolding floor_eq_iff by simp
  moreover have "x < 0 \<longleftrightarrow> k < 0" using k by (simp add: divide_less_0_iff)
  ultimately have "toDecimalPlaces n x = (if k < 0 then - of_int \<bar>k\<bar> else of_int \<bar>k\<bar>) / 10 ^ n"
    unfolding toDecimalPlaces_def Let_def by (simp only:)
  with k show ?thesis by simp
qed

lemma toDecimalPlaces_nonneg: "0 \<le> x \<Longrightarrow> 0 \<le> toDecimalPlaces n x"
  by (simp add: toDecimalPlaces_def)

lemma toDecimalPlaces_close: "\<bar>toDecimalPlaces n x - x\<bar> \<le> 1 / (2 * 10 ^ n)"
proof -
  define k where "k = \<lfloor>\<bar>x\<bar> * 10 ^ n + 1 / 2\<rfloor>"
  have p: "(0::rat) < 10 ^ n" by simp
  have "of_int k \<le> \<bar>x\<bar> * 10 ^ n + 1 / 2" "\<bar>x\<bar> * 10 ^ n + 1 / 2 < of_int k + 1"
    unfolding k_def by linarith+
  then have "- (1 / 2) \<le> of_int k - \<bar>x\<bar> * 10 ^ n" "of_int k - \<bar>x\<bar> * 10 ^ n \<le> 1 / 2" by linarith+
  then have "- (1 / 2) / 10 ^ n \<le> (of_int k - \<bar>x\<bar> * 10 ^ n) / 10 ^ n"
      "(of_int k - \<bar>x\<bar> * 10 ^ n) / 10 ^ n \<le> 1 / 2 / 10 ^ n"
    using p by (intro divide_right_mono; simp)+
  moreover have "(of_int k - \<bar>x\<bar> * 10 ^ n) / 10 ^ n = of_int k / 10 ^ n - \<bar>x\<bar>"
    by (simp add: diff_divide_distrib)
  ultimately have "\<bar>of_int k / 10 ^ n - \<bar>x\<bar>\<bar> \<le> 1 / (2 * 10 ^ n)" by (simp add: abs_le_iff)
  moreover have "toDecimalPlaces n x = (if x < 0 then - of_int k else of_int k) / 10 ^ n"
    unfolding toDecimalPlaces_def Let_def k_def ..
  ultimately show ?thesis by (cases "x < 0") (simp_all add: abs_le_iff)
qed

lemma toDecimalPlaces_mono_nonneg:
  "0 \<le> x \<Longrightarrow> x \<le> y \<Longrightarrow> toDecimalPlaces n x \<le> toDecimalPlaces n y"
  by (simp add: toDecimalPlaces_def Let_def divide_right_mono floor_mono mult_right_mono)

text \<open>The currency instances the services use.\<close>

abbreviation is_money :: "decimal \<Rightarrow> bool" where
  "is_money \<equiv> has_dp 2"

lemma moneyDec_money [dp_intros, simp]: "is_money (moneyDec x)"
  by (simp add: moneyDec_def)

lemma moneyDec_exact [simp]: "is_money x \<Longrightarrow> moneyDec x = x"
  by (simp add: moneyDec_def toDecimalPlaces_exact)

lemma moneyDec_idem: "moneyDec (moneyDec x) = moneyDec x"
  by simp

lemma moneyDec_zero [simp]: "moneyDec 0 = 0"
  by simp

lemma moneyDec_nonneg: "0 \<le> x \<Longrightarrow> 0 \<le> moneyDec x"
  by (simp add: moneyDec_def toDecimalPlaces_nonneg)

lemma moneyDec_mono: "0 \<le> x \<Longrightarrow> x \<le> y \<Longrightarrow> moneyDec x \<le> moneyDec y"
  by (simp add: moneyDec_def toDecimalPlaces_mono_nonneg)

lemma moneyDec_le_money: "0 \<le> x \<Longrightarrow> x \<le> y \<Longrightarrow> is_money y \<Longrightarrow> moneyDec x \<le> y"
  using moneyDec_mono [of x y] by simp

lemma moneyDec_close: "\<bar>moneyDec x - x\<bar> \<le> 1 / 200"
  using toDecimalPlaces_close [of 2 x] by (simp add: moneyDec_def)

lemma money_sum_list [dp_intros]: "(\<And>x. x \<in> set xs \<Longrightarrow> is_money x) \<Longrightarrow> is_money (sum_list xs)"
  by (induction xs) (auto intro: dp_intros)

end
