(* ===== verification/Data_Model.thy ===== *)
theory Data_Model
  imports Money
begin

text \<open>
  The database of \<open>backend/prisma/schema.prisma\<close>: one enumeration per \<open>enum\<close>, one record per
  \<open>model\<close> the modelled services read or write, and the record \<open>db\<close> of all tables. Identifiers
  are the opaque strings the database generates; instants are integer milliseconds; nullable
  columns are options. Rows that belong to exactly one parent (sale items and their lot
  allocations, refund lines, recalled lots and notifications, the drawers of a deposit) are kept
  inside it, the shape in which the services load them (\<open>include\<close>). Relation fields, timestamps
  no service reads, and free-text columns no decision depends on are left out.
\<close>

type_synonym ident = string
type_synonym time = int

section \<open>Enumerations\<close>

datatype role = CASHIER | STORE_ADMIN | COOP_ADMIN

datatype lot_status = LotACTIVE | LotQUARANTINED | LotRECALLED | LotEXPIRED | LotDEPLETED

datatype payment_status =
  PayPENDING | PayPAID | PayFAILED | PayREFUNDED | PayEXPIRED | PayREFUNDING

datatype payment_method = TERMINAL | CHECKOUT | CASH

datatype discount_bearer = BearerOPERATOR | BearerCOOP | BearerSHARED

datatype location_type = RETAIL_STORE | WAREHOUSE

datatype member_status =
  MemPENDING | MemACTIVE | MemWITHDRAWN | MemSUSPENDED | MemDECEASED | MemTRANSFERRED

datatype benefit_type =
  PERCENT_DISCOUNT | FIXED_DISCOUNT | FREE_DELIVERY | EARLY_ACCESS | EXCLUSIVE_PRODUCT
  | BULK_PRICING | BIRTHDAY_CREDIT | STORE_CREDIT | FREE_ITEM

datatype benefit_scope = ALL_PRODUCTS | CATEGORY | PRODUCT | STORE | NETWORK_WIDE

datatype benefit_period = PER_TRANSACTION | DAILY | MONTHLY | ANNUAL | LIFETIME

datatype refund_status = RefundPENDING | RefundSUCCEEDED | RefundFAILED

datatype deposit_status = DepRECORDED | DepCONFIRMED | DepDISPUTED

datatype recall_status = RecallDRAFT | RecallACTIVE | RecallCOMPLETED | RecallCANCELLED

datatype recall_severity = ADVISORY | VOLUNTARY | MANDATORY

datatype notification_channel = EMAIL | SMS | WHATSAPP

section \<open>Rows\<close>

record product =
  p_id :: ident
  p_storeId :: ident
  p_catalogItemId :: "ident option"
  p_sku :: string
  p_name :: string
  p_category :: string
  p_price :: decimal
  p_cost :: decimal
  p_stock :: int
  p_reserved :: int
  p_reorderAt :: int
  p_taxExempt :: bool

record lot =
  l_id :: ident
  l_lotNumber :: string
  l_barcode :: "string option"
  l_productId :: ident
  l_storeId :: ident
  l_supplierId :: "ident option"
  l_goodsReceiptLineId :: "ident option"
  l_harvestDate :: "time option"
  l_packDate :: "time option"
  l_expiryDate :: "time option"
  l_quantityReceived :: int
  l_quantityRemaining :: int
  l_quantityReserved :: int
  l_status :: lot_status
  l_countryOfOrigin :: "string option"
  l_receivedAt :: time
  l_unitCost :: decimal

record store =
  st_id :: ident
  st_name :: string
  st_address :: string
  st_locationType :: location_type
  st_operatorPercent :: decimal
  st_taxRate :: decimal
  st_refundPolicy :: string
  st_honorsNetworkBenefits :: bool
  st_memberDiscountBearer :: discount_bearer
  st_memberDiscountSharedPercent :: decimal
  st_isActive :: bool

record user =
  u_id :: ident
  u_storeId :: "ident option"
  u_role :: role
  u_email :: string
  u_passwordHash :: string
  u_failedLoginAttempts :: int
  u_lockedUntil :: "time option"
  u_mustChangePassword :: bool

record member =
  m_id :: ident
  m_memberNumber :: string
  m_name :: string
  m_email :: string
  m_phone :: string
  m_mailingAddress :: string
  m_status :: member_status
  m_joinedAt :: time
  m_approvedByUserId :: "ident option"
  m_approvedAt :: "time option"
  m_taxIdLast4 :: "string option"
  m_isEligibleToVote :: bool
  m_totalInvested :: decimal
  m_hasVotingRights :: bool
  m_householdPrimaryMemberId :: "ident option"

record member_benefit =
  mb_id :: ident
  mb_benefitType :: benefit_type
  mb_value :: decimal
  mb_scope :: benefit_scope
  mb_scopeRefId :: "string option"
  mb_startsAt :: time
  mb_endsAt :: "time option"
  mb_maxUsesPerPeriod :: "int option"
  mb_periodType :: benefit_period
  mb_minimumPurchaseAmount :: decimal
  mb_isActive :: bool
  mb_priority :: int
  mb_description :: string
  mb_createdAt :: time

record benefit_usage =
  bu_memberId :: ident
  bu_benefitId :: ident
  bu_saleId :: ident
  bu_amountSaved :: decimal
  bu_usedAt :: time

text \<open>A \<open>SaleItemLot\<close> row; also the shape of \<open>LotAllocation\<close> in the stock engine.\<close>

record lot_allocation =
  a_lotId :: ident
  a_quantity :: int
  a_unitCost :: decimal

record sale_item =
  si_id :: ident
  si_productId :: ident
  si_skuSnapshot :: string
  si_nameSnapshot :: string
  si_priceSnapshot :: decimal
  si_quantity :: int
  si_discountAmount :: decimal
  si_benefitId :: "ident option"
  si_benefitDiscountAmount :: decimal
  si_discountReason :: "string option"
  si_taxAmount :: decimal
  si_taxExempt :: bool
  si_refundedQuantity :: int
  si_lotAllocations :: "lot_allocation list"

record sale =
  s_id :: ident
  s_storeId :: ident
  s_cashierId :: ident
  s_memberId :: "ident option"
  s_subtotalBeforeDiscount :: decimal
  s_subtotal :: decimal
  s_discountAmount :: decimal
  s_memberDiscountAmount :: decimal
  s_memberDiscountBearer :: discount_bearer
  s_taxAmount :: decimal
  s_total :: decimal
  s_operatorPercent :: decimal
  s_operatorAmount :: decimal
  s_operatorBaseSnapshot :: "decimal option"
  s_coopAmount :: decimal
  s_paymentStatus :: payment_status
  s_paymentMethod :: "payment_method option"
  s_cardLast4 :: "string option"
  s_stripePaymentIntentId :: "string option"
  s_stripeCheckoutSessionId :: "string option"
  s_refundedAmount :: decimal
  s_refundedOperatorAmount :: decimal
  s_pendingRefundId :: "ident option"
  s_paidAt :: "time option"
  s_refundedAt :: "time option"
  s_reservationExpiresAt :: "time option"
  s_idempotencyKey :: "string option"
  s_createdAt :: time
  s_items :: "sale_item list"

record refund_line =
  rl_saleItemId :: ident
  rl_quantity :: int

record sale_refund =
  r_id :: ident
  r_saleId :: ident
  r_amount :: decimal
  r_operatorAmount :: decimal
  r_restock :: bool
  r_status :: refund_status
  r_stripeRefundId :: "string option"
  r_createdByUserId :: "ident option"
  r_createdAt :: time
  r_completedAt :: "time option"
  r_lines :: "refund_line list"

record write_off =
  w_storeId :: ident
  w_productId :: ident
  w_lotId :: "ident option"
  w_saleId :: "ident option"
  w_saleItemId :: "ident option"
  w_saleRefundId :: "ident option"
  w_quantity :: int
  w_reason :: string
  w_unitCost :: "decimal option"
  w_value :: "decimal option"

record stock_reconciliation =
  sr_storeId :: ident
  sr_saleId :: ident
  sr_productId :: ident
  sr_quantitySold :: int
  sr_stockBefore :: int
  sr_stockAfter :: int
  sr_reason :: string

record stock_adjustment =
  sa_productId :: ident
  sa_storeId :: ident
  sa_adjustedById :: ident
  sa_previousStock :: int
  sa_newStock :: int
  sa_delta :: int
  sa_reason :: string
  sa_lotId :: "ident option"

record cash_drawer =
  cd_id :: ident
  cd_storeId :: ident
  cd_openedByUserId :: ident
  cd_closedByUserId :: "ident option"
  cd_openingFloat :: decimal
  cd_expectedCash :: decimal
  cd_countedCash :: "decimal option"
  cd_variance :: "decimal option"
  cd_openedAt :: time
  cd_closedAt :: "time option"

record cash_deposit =
  dep_id :: ident
  dep_storeId :: ident
  dep_depositedByUserId :: ident
  dep_amount :: decimal
  dep_depositedAt :: time
  dep_bankReference :: "string option"
  dep_depositSlipUrl :: "string option"
  dep_status :: deposit_status
  dep_confirmedAmount :: "decimal option"
  dep_confirmedByUserId :: "ident option"
  dep_confirmedAt :: "time option"
  dep_disputedByUserId :: "ident option"
  dep_disputedAt :: "time option"
  dep_disputeReason :: "string option"
  dep_notes :: "string option"
  dep_drawerIds :: "ident list"

record payout =
  po_id :: ident
  po_storeId :: ident
  po_amount :: decimal
  po_note :: "string option"
  po_paidByUserId :: ident

record recall_lot =
  rcl_id :: ident
  rcl_lotId :: ident
  rcl_quantityAtRecall :: int
  rcl_quantityRecovered :: int
  rcl_quantityDisposed :: int

record recall_notification =
  rn_id :: ident
  rn_memberId :: ident
  rn_channel :: notification_channel
  rn_sentAt :: "time option"
  rn_acknowledgedAt :: "time option"
  rn_quantityPurchased :: int

record recall =
  rc_id :: ident
  rc_recallNumber :: string
  rc_initiatedByUserId :: ident
  rc_initiatedAt :: time
  rc_reason :: string
  rc_severity :: recall_severity
  rc_status :: recall_status
  rc_publicNotice :: "string option"
  rc_regulatorNotifiedAt :: "time option"
  rc_closedAt :: "time option"
  rc_updatedAt :: time
  rc_lots :: "recall_lot list"
  rc_notifications :: "recall_notification list"

record catalog_item =
  ci_id :: ident
  ci_sku :: string
  ci_name :: string
  ci_category :: string
  ci_maxShelfPrice :: decimal
  ci_taxExempt :: bool
  ci_isActive :: bool
  ci_unitsPerCase :: int
  ci_casesPerPallet :: "int option"
  ci_caseWeightKg :: "decimal option"
  ci_caseGtin :: "string option"

record processed_event =
  pe_id :: string
  pe_type :: string
  pe_saleId :: "ident option"

record audit_row =
  au_userId :: "ident option"
  au_storeId :: "ident option"
  au_action :: string
  au_entityType :: string
  au_entityId :: "ident option"

section \<open>The database\<close>

record db =
  db_products :: "product list"
  db_lots :: "lot list"
  db_stores :: "store list"
  db_users :: "user list"
  db_members :: "member list"
  db_benefits :: "member_benefit list"
  db_usages :: "benefit_usage list"
  db_sales :: "sale list"
  db_refunds :: "sale_refund list"
  db_writeOffs :: "write_off list"
  db_reconciliations :: "stock_reconciliation list"
  db_adjustments :: "stock_adjustment list"
  db_drawers :: "cash_drawer list"
  db_deposits :: "cash_deposit list"
  db_payouts :: "payout list"
  db_recalls :: "recall list"
  db_catalog :: "catalog_item list"
  db_events :: "processed_event list"
  db_audit :: "audit_row list"

definition empty_db :: db where
  "empty_db =
     \<lparr>db_products = [], db_lots = [], db_stores = [], db_users = [], db_members = [],
      db_benefits = [], db_usages = [], db_sales = [], db_refunds = [], db_writeOffs = [],
      db_reconciliations = [], db_adjustments = [], db_drawers = [], db_deposits = [],
      db_payouts = [], db_recalls = [], db_catalog = [], db_events = [], db_audit = []\<rparr>"

text \<open>
  The authenticated user of a request (\<open>backend/src/types/auth.ts\<close>). The flag
  \<open>mustChangePassword\<close> is checked by the HTTP middleware.
\<close>

record auth_user =
  au_id :: ident
  au_storeScope :: "ident option"
  au_role :: role
  au_mustChangePassword :: bool

section \<open>Row access\<close>

definition find_product :: "ident \<Rightarrow> db \<Rightarrow> product option" where
  "find_product i s = find_row p_id i (db_products s)"

definition find_lot :: "ident \<Rightarrow> db \<Rightarrow> lot option" where
  "find_lot i s = find_row l_id i (db_lots s)"

definition find_store :: "ident \<Rightarrow> db \<Rightarrow> store option" where
  "find_store i s = find_row st_id i (db_stores s)"

definition find_sale :: "ident \<Rightarrow> db \<Rightarrow> sale option" where
  "find_sale i s = find_row s_id i (db_sales s)"

text \<open>
  \<open>tx.lot.update\<close> and \<open>tx.product.update\<close> by id throw when the row is missing; the
  \<open>updateMany\<close> forms (and the raw \<open>UPDATE\<close> statements) return how many rows they changed.
\<close>

definition lot_update :: "ident \<Rightarrow> (lot \<Rightarrow> lot) \<Rightarrow> db \<Rightarrow> db result" where
  "lot_update i f s =
     bindE (update_row l_id i f (db_lots s)) (\<lambda>ls. Inr (s\<lparr>db_lots := ls\<rparr>))"

definition product_update :: "ident \<Rightarrow> (product \<Rightarrow> product) \<Rightarrow> db \<Rightarrow> db result" where
  "product_update i f s =
     bindE (update_row p_id i f (db_products s)) (\<lambda>ps. Inr (s\<lparr>db_products := ps\<rparr>))"

definition sale_update :: "ident \<Rightarrow> (sale \<Rightarrow> sale) \<Rightarrow> db \<Rightarrow> db result" where
  "sale_update i f s =
     bindE (update_row s_id i f (db_sales s)) (\<lambda>xs. Inr (s\<lparr>db_sales := xs\<rparr>))"

definition lot_updateMany :: "(lot \<Rightarrow> bool) \<Rightarrow> (lot \<Rightarrow> lot) \<Rightarrow> db \<Rightarrow> nat \<times> db" where
  "lot_updateMany P f s =
     (let (n, ls) = updateMany_rows P f (db_lots s) in (n, s\<lparr>db_lots := ls\<rparr>))"

definition product_updateMany :: "(product \<Rightarrow> bool) \<Rightarrow> (product \<Rightarrow> product) \<Rightarrow> db \<Rightarrow> nat \<times> db" where
  "product_updateMany P f s =
     (let (n, ps) = updateMany_rows P f (db_products s) in (n, s\<lparr>db_products := ps\<rparr>))"

text \<open>
  \<open>writeAuditLog\<close> (\<open>backend/src/lib/audit.ts\<close>): appends one row. The \<open>before\<close> / \<open>after\<close> JSON
  snapshots and the client address are not modelled; an insert into this table has no key to
  violate, so the rethrow of a failed write does not arise.
\<close>

definition writeAuditLog ::
  "ident option \<Rightarrow> ident option \<Rightarrow> string \<Rightarrow> string \<Rightarrow> ident option \<Rightarrow> db \<Rightarrow> db" where
  "writeAuditLog uid sid action etype eid s =
     s\<lparr>db_audit := db_audit s @
        [\<lparr>au_userId = uid, au_storeId = sid, au_action = action, au_entityType = etype,
          au_entityId = eid\<rparr>]\<rparr>"

lemma db_simps [simp]:
  "db_products (writeAuditLog u i a t e s) = db_products s"
  "db_lots (writeAuditLog u i a t e s) = db_lots s"
  "db_sales (writeAuditLog u i a t e s) = db_sales s"
  "db_refunds (writeAuditLog u i a t e s) = db_refunds s"
  "db_stores (writeAuditLog u i a t e s) = db_stores s"
  "db_recalls (writeAuditLog u i a t e s) = db_recalls s"
  "db_drawers (writeAuditLog u i a t e s) = db_drawers s"
  "db_deposits (writeAuditLog u i a t e s) = db_deposits s"
  "db_payouts (writeAuditLog u i a t e s) = db_payouts s"
  "db_users (writeAuditLog u i a t e s) = db_users s"
  by (simp_all add: writeAuditLog_def)

lemma lot_update_Inr_iff:
  "lot_update i f s = Inr s' \<longleftrightarrow>
     has_row l_id i (db_lots s) \<and> s' = s\<lparr>db_lots := upd_row l_id i f (db_lots s)\<rparr>"
  by (auto simp: lot_update_def update_row_def)

lemma product_update_Inr_iff:
  "product_update i f s = Inr s' \<longleftrightarrow>
     has_row p_id i (db_products s) \<and> s' = s\<lparr>db_products := upd_row p_id i f (db_products s)\<rparr>"
  by (auto simp: product_update_def update_row_def)

lemma sale_update_Inr_iff:
  "sale_update i f s = Inr s' \<longleftrightarrow>
     has_row s_id i (db_sales s) \<and> s' = s\<lparr>db_sales := upd_row s_id i f (db_sales s)\<rparr>"
  by (auto simp: sale_update_def update_row_def)

end
