(* ===== verification/Js_Base.thy ===== *)
theory Js_Base
  imports Data_Model
begin

text \<open>
  What the services use of JavaScript and its standard library: numbers of a request, white space,
  decimal digits, padding, the UTC calendar. Everything is executable.
\<close>

section \<open>Numbers\<close>

text \<open>A JavaScript number of the request: \<open>None\<close> when it is not finite.\<close>

type_synonym js_number = "decimal option"

definition non_negative :: "js_number \<Rightarrow> bool" where
  "non_negative x \<longleftrightarrow> (case x of None \<Rightarrow> False | Some d \<Rightarrow> 0 \<le> d)"

definition is_integer :: "rat \<Rightarrow> bool" where
  "is_integer q \<longleftrightarrow> of_int \<lfloor>q\<rfloor> = q"

definition js_int :: "js_number \<Rightarrow> int option" where
  "js_int x = (case x of None \<Rightarrow> None | Some d \<Rightarrow> if is_integer d then Some \<lfloor>d\<rfloor> else None)"

section \<open>Strings\<close>

text \<open>\<open>String.prototype.trim\<close>: white space at both ends goes.\<close>

definition js_space :: "char \<Rightarrow> bool" where
  "js_space c \<longleftrightarrow> (of_char c :: nat) \<in> {9, 10, 11, 12, 13, 32, 160}"

definition trim :: "string \<Rightarrow> string" where
  "trim s = rev (dropWhile js_space (rev (dropWhile js_space s)))"

definition trimmed :: "string option \<Rightarrow> string option" where
  "trimmed x = (case x of None \<Rightarrow> None | Some y \<Rightarrow> if trim y = [] then None else Some (trim y))"

text \<open>A string or null used as a condition: null and the empty string are false.\<close>

definition truthy :: "string option \<Rightarrow> bool" where
  "truthy x \<longleftrightarrow> (case x of None \<Rightarrow> False | Some y \<Rightarrow> y \<noteq> [])"

fun digits :: "nat \<Rightarrow> string" where
  "digits n = (if n < 10 then [char_of (n + 48)] else digits (n div 10) @ [char_of (n mod 10 + 48)])"

declare digits.simps [simp del]

text \<open>\<open>String(n)\<close> of an integer, \<open>s.padStart(w, c)\<close>, and \<open>Number(s)\<close> of a string of digits.\<close>

definition show_int :: "int \<Rightarrow> string" where
  "show_int n = (if n < 0 then ''-'' @ digits (nat (- n)) else digits (nat n))"

definition padStart :: "nat \<Rightarrow> char \<Rightarrow> string \<Rightarrow> string" where
  "padStart w c s = replicate (w - length s) c @ s"

definition is_digit :: "char \<Rightarrow> bool" where
  "is_digit c \<longleftrightarrow> (of_char c :: nat) \<ge> 48 \<and> (of_char c :: nat) \<le> 57"

definition parse_digits :: "string \<Rightarrow> int option" where
  "parse_digits s =
     (if list_all is_digit s then Some (foldl (\<lambda>n c. n * 10 + (int (of_char c) - 48)) 0 s) else None)"

definition lower_char :: "char \<Rightarrow> char" where
  "lower_char c = (if (of_char c :: nat) \<ge> 65 \<and> (of_char c :: nat) \<le> 90 then char_of ((of_char c :: nat) + 32) else c)"

definition toLowerCase :: "string \<Rightarrow> string" where
  "toLowerCase s = map lower_char s"

fun starts_with :: "string \<Rightarrow> string \<Rightarrow> bool" where
  "starts_with [] s = True"
| "starts_with (c # cs) [] = False"
| "starts_with (c # cs) (d # ds) = (c = d \<and> starts_with cs ds)"

fun contains_str :: "string \<Rightarrow> string \<Rightarrow> bool" where
  "contains_str [] pat = (pat = [])"
| "contains_str (c # cs) pat = (starts_with pat (c # cs) \<or> contains_str cs pat)"

section \<open>The calendar\<close>

text \<open>
  UTC calendar of an instant in milliseconds: the Gregorian year, month and day of a day number,
  counted from 1 March so that the leap day comes last (the arithmetic behind
  \<open>getUTCFullYear\<close>, \<open>getUTCMonth\<close>, \<open>getUTCDate\<close> and \<open>Date.UTC\<close>).
\<close>

definition day_ms :: int where
  "day_ms = 86400000"

definition civil_from_days :: "int \<Rightarrow> int \<times> int \<times> int" where
  "civil_from_days z0 =
     (let z = z0 + 719468;
          era = z div 146097;
          doe = z mod 146097;
          yoe = (doe - doe div 1460 + doe div 36524 - doe div 146096) div 365;
          doy = doe - (365 * yoe + yoe div 4 - yoe div 100);
          mp = (5 * doy + 2) div 153;
          d = doy - (153 * mp + 2) div 5 + 1;
          m = (if mp < 10 then mp + 3 else mp - 9);
          y = yoe + era * 400
      in (if m \<le> 2 then y + 1 else y, m, d))"

definition days_from_civil :: "int \<Rightarrow> int \<Rightarrow> int \<Rightarrow> int" where
  "days_from_civil y0 m d =
     (let y = (if m \<le> 2 then y0 - 1 else y0);
          era = y div 400;
          yoe = y mod 400;
          doy = (153 * (if m > 2 then m - 3 else m + 9) + 2) div 5 + d - 1;
          doe = yoe * 365 + yoe div 4 - yoe div 100 + doy
      in era * 146097 + doe - 719468)"

definition utc_date :: "time \<Rightarrow> int \<times> int \<times> int" where
  "utc_date t = civil_from_days (t div day_ms)"

definition date_utc :: "int \<Rightarrow> int \<Rightarrow> int \<Rightarrow> time" where
  "date_utc y m d = days_from_civil y m d * day_ms"

text \<open>\<open>toISOString().slice(0, 10)\<close>, for the years 0 to 9999, and the same without its dashes.\<close>

definition iso_day :: "time \<Rightarrow> string" where
  "iso_day t =
     (let (y, m, d) = utc_date t
      in padStart 4 CHR ''0'' (show_int y) @ ''-'' @ padStart 2 CHR ''0'' (show_int m) @ ''-''
         @ padStart 2 CHR ''0'' (show_int d))"

definition yyyymmdd :: "time \<Rightarrow> string" where
  "yyyymmdd t = filter (\<lambda>c. c \<noteq> CHR ''-'') (iso_day t)"

text \<open>\<open>Math.ceil(ms / MS_PER_DAY)\<close> and \<open>Math.floor(ms / MS_PER_DAY)\<close>\<close>

definition ceil_days :: "int \<Rightarrow> int" where
  "ceil_days ms = - ((- ms) div day_ms)"

definition floor_days :: "int \<Rightarrow> int" where
  "floor_days ms = ms div day_ms"

section \<open>Digits\<close>

lemma digits_nonempty: "digits n \<noteq> []"
  by (subst digits.simps) simp

lemma char_digit [simp]: "m < 10 \<Longrightarrow> (of_char (char_of (m + 48 :: nat)) :: nat) = m + 48"
  by simp

lemma digits_are_digits: "list_all is_digit (digits n)"
proof (induction n rule: digits.induct)
  case (1 n)
  have "is_digit (char_of (m + 48 :: nat))" if "m < 10" for m using that by (simp add: is_digit_def)
  then show ?case using 1 by (subst digits.simps) simp
qed

lemma parse_digits_digits: "parse_digits (digits n) = Some (int n)"
proof -
  have "foldl (\<lambda>k c. k * 10 + (int (of_char c) - 48)) 0 (digits n) = int n"
  proof (induction n rule: digits.induct)
    case (1 n)
    show ?case
    proof (cases "n < 10")
      case True
      then show ?thesis by (subst digits.simps) simp
    next
      case False
      then have "foldl (\<lambda>k c. k * 10 + (int (of_char c) - 48)) 0 (digits n)
          = int (n div 10) * 10 + int (n mod 10)"
        using 1 by (subst digits.simps) simp
      also have "\<dots> = int (n div 10 * 10 + n mod 10)" by (simp only: of_nat_add of_nat_mult of_nat_numeral)
      finally show ?thesis by (simp only: div_mult_mod_eq)
    qed
  qed
  then show ?thesis by (simp add: parse_digits_def digits_are_digits)
qed

lemma parse_padded: "parse_digits (padStart w CHR ''0'' (digits n)) = Some (int n)"
proof -
  have z: "foldl (\<lambda>k c. k * 10 + (int (of_char c) - 48)) 0 (replicate k CHR ''0'') = 0" for k
    by (induction k) simp_all
  have "list_all is_digit (replicate k CHR ''0'')" for k by (induction k) (simp_all add: is_digit_def)
  then show ?thesis
    using parse_digits_digits [of n] digits_are_digits [of n] z
    by (simp add: parse_digits_def padStart_def)
qed

end
