(* ===== verification/Locks.thy ===== *)
theory Locks
  imports Data_Model "HOL-Library.List_Lexorder" "HOL-Library.Char_ord" "HOL-Library.Product_Lexorder"
begin

text \<open>
  Row locks (\<open>backend/src/lib/locks.ts\<close>) and the rollup check (\<open>backend/src/lib/stockInvariant.ts\<close>).
  Transactions are modelled as atomic steps, so a \<open>SELECT \<dots> FOR UPDATE\<close> is its result: the
  current rows, in the order the query asks for. Identifiers are compared as character codes.
\<close>

section \<open>Lock queries\<close>

text \<open>\<open>[...new Set(ids.filter(Boolean))]\<close>: drop empty identifiers, keep first occurrences.\<close>

fun uniq :: "'a list \<Rightarrow> 'a list" where
  "uniq [] = []"
| "uniq (x # xs) = x # filter (\<lambda>y. y \<noteq> x) (uniq xs)"

definition lock_ids :: "ident list \<Rightarrow> ident list" where
  "lock_ids ids = uniq (filter (\<lambda>i. i \<noteq> []) ids)"

definition lockProducts :: "ident list \<Rightarrow> db \<Rightarrow> product list" where
  "lockProducts productIds s =
     (let ids = sort (lock_ids productIds)
      in if ids = [] then []
         else sort_key p_id (filter (\<lambda>p. p_id p \<in> set ids) (db_products s)))"

text \<open>FEFO order: \<open>productId, expiryDate NULLS LAST, receivedAt, id\<close>.\<close>

definition fefo_key :: "lot \<Rightarrow> ident \<times> bool \<times> time \<times> time \<times> ident" where
  "fefo_key l =
     (l_productId l, l_expiryDate l = None, (case l_expiryDate l of None \<Rightarrow> 0 | Some t \<Rightarrow> t),
      l_receivedAt l, l_id l)"

definition lockLots :: "ident list \<Rightarrow> db \<Rightarrow> lot list" where
  "lockLots lotIds s =
     (let ids = lock_ids lotIds
      in if ids = [] then []
         else sort_key fefo_key (filter (\<lambda>l. l_id l \<in> set ids) (db_lots s)))"

definition lockActiveLotsForProducts :: "ident list \<Rightarrow> ident \<Rightarrow> db \<Rightarrow> lot list" where
  "lockActiveLotsForProducts productIds storeId s =
     (let ids = lock_ids productIds
      in if ids = [] then []
         else sort_key fefo_key
           (filter (\<lambda>l. l_productId l \<in> set ids \<and> l_storeId l = storeId \<and> l_status l = LotACTIVE)
              (db_lots s)))"

lemma set_uniq [simp]: "set (uniq xs) = set xs"
  by (induction xs) auto

lemma distinct_uniq [simp]: "distinct (uniq xs)"
  by (induction xs) auto

lemma uniq_distinct: "distinct xs \<Longrightarrow> uniq xs = xs"
  by (induction xs) (auto simp: filter_id_conv)

lemma set_lock_ids [simp]: "set (lock_ids ids) = set ids - {[]}"
  by (auto simp: lock_ids_def)

lemma lock_ids_Nil: "lock_ids ids = [] \<longleftrightarrow> set ids \<subseteq> {[]}"
  using set_lock_ids [of ids] by (metis Diff_eq_empty_iff set_empty)

lemma set_lockProducts:
  "set (lockProducts ids s) = {p \<in> set (db_products s). p_id p \<in> set ids \<and> p_id p \<noteq> []}"
proof (cases "lock_ids ids = []")
  case True
  then show ?thesis by (auto simp: lockProducts_def lock_ids_Nil Let_def)
next
  case False
  then have "sort (lock_ids ids) \<noteq> []" by (metis set_empty set_sort)
  then show ?thesis by (auto simp: lockProducts_def Let_def)
qed

lemma set_lockLots:
  "set (lockLots ids s) = {l \<in> set (db_lots s). l_id l \<in> set ids \<and> l_id l \<noteq> []}"
  by (auto simp: lockLots_def Let_def lock_ids_Nil)

lemma set_lockActiveLots:
  "set (lockActiveLotsForProducts ids st s) =
     {l \<in> set (db_lots s). l_productId l \<in> set ids \<and> l_productId l \<noteq> [] \<and> l_storeId l = st
        \<and> l_status l = LotACTIVE}"
  by (auto simp: lockActiveLotsForProducts_def Let_def lock_ids_Nil)

lemma distinct_map_filter_sort:
  "distinct (map g xs) \<Longrightarrow> distinct (map g (sort_key k (filter P xs)))"
  by (auto simp: distinct_map inj_on_def)

lemma distinct_lockProducts:
  "distinct (map p_id (db_products s)) \<Longrightarrow> distinct (map p_id (lockProducts ids s))"
  by (simp add: lockProducts_def Let_def distinct_map_filter_sort)

lemma distinct_lockLots:
  "distinct (map l_id (db_lots s)) \<Longrightarrow> distinct (map l_id (lockLots ids s))"
  by (simp add: lockLots_def Let_def distinct_map_filter_sort)

lemma distinct_lockActiveLots:
  "distinct (map l_id (db_lots s)) \<Longrightarrow> distinct (map l_id (lockActiveLotsForProducts ids st s))"
  by (simp add: lockActiveLotsForProducts_def Let_def distinct_map_filter_sort)

section \<open>The rollup\<close>

text \<open>
  What a lot contributes to the cached counters of a product: its units when it is ACTIVE and
  belongs to the product.
\<close>

definition active_remaining :: "ident \<Rightarrow> lot \<Rightarrow> int" where
  "active_remaining pid l =
     (if l_productId l = pid \<and> l_status l = LotACTIVE then l_quantityRemaining l else 0)"

definition active_reserved :: "ident \<Rightarrow> lot \<Rightarrow> int" where
  "active_reserved pid l =
     (if l_productId l = pid \<and> l_status l = LotACTIVE then l_quantityReserved l else 0)"

definition product_stock :: "ident \<Rightarrow> product \<Rightarrow> int" where
  "product_stock pid p = (if p_id p = pid then p_stock p else 0)"

definition product_reserved :: "ident \<Rightarrow> product \<Rightarrow> int" where
  "product_reserved pid p = (if p_id p = pid then p_reserved p else 0)"

text \<open>How far the cached counters are from the sums over the lots.\<close>

definition stock_gap :: "db \<Rightarrow> ident \<Rightarrow> int" where
  "stock_gap s pid =
     sum_rows (product_stock pid) (db_products s) - sum_rows (active_remaining pid) (db_lots s)"

definition reserved_gap :: "db \<Rightarrow> ident \<Rightarrow> int" where
  "reserved_gap s pid =
     sum_rows (product_reserved pid) (db_products s) - sum_rows (active_reserved pid) (db_lots s)"

definition rollup_ok :: "db \<Rightarrow> bool" where
  "rollup_ok s \<longleftrightarrow> (\<forall>p \<in> set (db_products s). stock_gap s (p_id p) = 0 \<and> reserved_gap s (p_id p) = 0)"

text \<open>
  \<open>findStockRollupMismatches\<close>: the operator check \<open>npm run verify:stock\<close>. The report orders the
  products by store and SKU; each mismatch names the product with its cached and summed counters.
\<close>

record rollup_mismatch =
  mm_productId :: ident
  mm_sku :: string
  mm_storeId :: ident
  mm_stock :: int
  mm_reserved :: int
  mm_lotRemaining :: int
  mm_lotReserved :: int

definition findStockRollupMismatches :: "ident option \<Rightarrow> db \<Rightarrow> nat \<times> rollup_mismatch list" where
  "findStockRollupMismatches storeId s =
     (let inScope = (\<lambda>st. case storeId of None \<Rightarrow> True | Some i \<Rightarrow> i = [] \<or> st = i);
          prods = sort_key (\<lambda>p. (p_storeId p, p_sku p)) (filter (\<lambda>p. inScope (p_storeId p)) (db_products s));
          active = filter (\<lambda>l. l_status l = LotACTIVE \<and> inScope (l_storeId l)) (db_lots s);
          rem = (\<lambda>pid. sum_rows l_quantityRemaining (filter (\<lambda>l. l_productId l = pid) active));
          res = (\<lambda>pid. sum_rows l_quantityReserved (filter (\<lambda>l. l_productId l = pid) active))
      in (length prods,
          map (\<lambda>p. \<lparr>mm_productId = p_id p, mm_sku = p_sku p, mm_storeId = p_storeId p, mm_stock = p_stock p, mm_reserved = p_reserved p,
                    mm_lotRemaining = rem (p_id p), mm_lotReserved = res (p_id p)\<rparr>)
            (filter (\<lambda>p. rem (p_id p) \<noteq> p_stock p \<or> res (p_id p) \<noteq> p_reserved p) prods)))"

lemma sum_rows_filter: "sum_rows g (filter P xs) = sum_rows (\<lambda>x. if P x then g x else 0) xs"
  by (induction xs) auto

lemma sum_product_stock:
  "distinct (map p_id (db_products s)) \<Longrightarrow> p \<in> set (db_products s) \<Longrightarrow>
     sum_rows (product_stock (p_id p)) (db_products s) = p_stock p"
  unfolding product_stock_def by (rule sum_rows_unique_key)

lemma sum_product_reserved:
  "distinct (map p_id (db_products s)) \<Longrightarrow> p \<in> set (db_products s) \<Longrightarrow>
     sum_rows (product_reserved (p_id p)) (db_products s) = p_reserved p"
  unfolding product_reserved_def by (rule sum_rows_unique_key)

lemma findStockRollupMismatches_ids:
  assumes "distinct (map p_id (db_products s))"
  shows "mm_productId ` set (snd (findStockRollupMismatches None s))
    = {p_id p | p. p \<in> set (db_products s) \<and> \<not> (stock_gap s (p_id p) = 0 \<and> reserved_gap s (p_id p) = 0)}"
proof -
  have "sum_rows l_quantityRemaining (filter (\<lambda>l. l_productId l = pid)
            (filter (\<lambda>l. l_status l = LotACTIVE) (db_lots s)))
          = sum_rows (active_remaining pid) (db_lots s)"
       "sum_rows l_quantityReserved (filter (\<lambda>l. l_productId l = pid)
            (filter (\<lambda>l. l_status l = LotACTIVE) (db_lots s)))
          = sum_rows (active_reserved pid) (db_lots s)" for pid
    by (auto simp: sum_rows_filter active_remaining_def active_reserved_def intro: sum_rows_cong)
  then have "mm_productId ` set (snd (findStockRollupMismatches None s))
    = p_id ` {p \<in> set (db_products s). sum_rows (active_remaining (p_id p)) (db_lots s) \<noteq> p_stock p
        \<or> sum_rows (active_reserved (p_id p)) (db_lots s) \<noteq> p_reserved p}"
    by (simp add: findStockRollupMismatches_def Let_def image_image)
  moreover have "(sum_rows (active_remaining (p_id p)) (db_lots s) \<noteq> p_stock p
        \<or> sum_rows (active_reserved (p_id p)) (db_lots s) \<noteq> p_reserved p)
      = (\<not> (stock_gap s (p_id p) = 0 \<and> reserved_gap s (p_id p) = 0))" if "p \<in> set (db_products s)" for p
    using assms that by (auto simp: stock_gap_def reserved_gap_def sum_product_stock sum_product_reserved)
  ultimately show ?thesis by auto
qed

lemma findStockRollupMismatches_iff:
  assumes "distinct (map p_id (db_products s))"
  shows "snd (findStockRollupMismatches None s) = [] \<longleftrightarrow> rollup_ok s"
proof -
  have "snd (findStockRollupMismatches None s) = [] \<longleftrightarrow> mm_productId ` set (snd (findStockRollupMismatches None s)) = {}"
    by simp
  also have "\<dots> \<longleftrightarrow> rollup_ok s" unfolding findStockRollupMismatches_ids [OF assms] by (auto simp: rollup_ok_def)
  finally show ?thesis .
qed

end
