(* ===== verification/Stock_Engine.thy ===== *)
theory Stock_Engine
  imports Locks
begin

text \<open>
  The stock engine (\<open>backend/src/services/stockEngine.ts\<close>): the only code that changes lot
  quantities and the cached counters \<open>Product.stock\<close> and \<open>Product.reserved\<close>. Every operation runs
  inside a caller's transaction and takes the rows that caller has locked; the model passes those
  rows as arguments and the database as a state. The flag \<open>dev\<close> is \<open>NODE_ENV !== "production"\<close>: the
  development-time assertions on the locked rows run only under it.

  The first half of the file defines the operations, the second half proves the contract each
  keeps: from a database whose counters equal the sums over the lots and whose reservations are
  the given demand \<open>h\<close> per lot, an operation within its precondition returns, and leaves such a
  database for the demand it produces.
\<close>

section \<open>Development-time assertions\<close>

definition assertLockedLots :: "bool \<Rightarrow> lot list \<Rightarrow> ident list \<Rightarrow> unit result" where
  "assertLockedLots dev lots lotIds =
     (if \<not> dev then Inr ()
      else if \<forall>i \<in> set lotIds. i \<in> l_id ` set lots then Inr ()
      else Inl (JsError ''stockEngine: lot was not in the locked set''))"

text \<open>\<open>new Map(lots.map((l) => [l.id, l]))\<close>: a later row of the same id would win.\<close>

definition lotMap :: "lot list \<Rightarrow> ident \<Rightarrow> lot option" where
  "lotMap lots i = find_row l_id i (rev lots)"

definition assertLotsBelongToProduct :: "bool \<Rightarrow> product \<Rightarrow> lot list \<Rightarrow> ident list \<Rightarrow> unit result" where
  "assertLotsBelongToProduct dev product lots lotIds =
     (if \<not> dev then Inr ()
      else if \<forall>i \<in> set lotIds. (case lotMap lots i of None \<Rightarrow> True | Some l \<Rightarrow> l_productId l = p_id product)
      then Inr ()
      else Inl (JsError ''stockEngine: lot belongs to another product''))"

definition assertLotOps :: "bool \<Rightarrow> product \<Rightarrow> lot list \<Rightarrow> ident list \<Rightarrow> unit result" where
  "assertLotOps dev product lots lotIds =
     bindE (assertLockedLots dev lots lotIds)
       (\<lambda>_. assertLotsBelongToProduct dev product lots lotIds)"

section \<open>FEFO allocation\<close>

text \<open>A locked lot with the units already promised to earlier lines of the cart.\<close>

record working_lot =
  wl_lot :: lot
  wl_taken :: int

definition workingLotAvailable :: "working_lot \<Rightarrow> int" where
  "workingLotAvailable w =
     l_quantityRemaining (wl_lot w) - l_quantityReserved (wl_lot w) - wl_taken w"

definition totalAvailable :: "working_lot list \<Rightarrow> int" where
  "totalAvailable ws = sum_list (map (\<lambda>w. max 0 (workingLotAvailable w)) ws)"

text \<open>
  The \<open>for \<dots> of\<close> loop of \<open>allocateFefo\<close>: it stops once nothing remains, skips lots without
  available units, and takes what it can from the others. The result is the allocations, the
  updated working lots and what is still missing.
\<close>

fun fefo_loop :: "working_lot list \<Rightarrow> int \<Rightarrow> lot_allocation list \<times> working_lot list \<times> int" where
  "fefo_loop [] remaining = ([], [], remaining)"
| "fefo_loop (w # ws) remaining =
     (if remaining \<le> 0 then ([], w # ws, remaining)
      else let avail = max 0 (workingLotAvailable w) in
        if avail \<le> 0 then
          (let (as, ws', r) = fefo_loop ws remaining in (as, w # ws', r))
        else
          (let take = min remaining avail;
               (as, ws', r) = fefo_loop ws (remaining - take)
           in (\<lparr>a_lotId = l_id (wl_lot w), a_quantity = take, a_unitCost = l_unitCost (wl_lot w)\<rparr> # as,
               w\<lparr>wl_taken := wl_taken w + take\<rparr> # ws', r)))"

text \<open>
  What an offline sale still misses goes on the last lot: added to its allocation if it has one
  (\<open>allocations.find\<close> is the first match), appended otherwise.
\<close>

fun bump_alloc :: "ident \<Rightarrow> int \<Rightarrow> lot_allocation list \<Rightarrow> lot_allocation list option" where
  "bump_alloc i q [] = None"
| "bump_alloc i q (a # as) =
     (if a_lotId a = i then Some (a\<lparr>a_quantity := a_quantity a + q\<rparr> # as)
      else map_option (\<lambda>as'. a # as') (bump_alloc i q as))"

definition force_last ::
  "lot_allocation list \<Rightarrow> working_lot list \<Rightarrow> int \<Rightarrow> lot_allocation list \<times> working_lot list" where
  "force_last as ws remaining =
     (let target = last ws; i = l_id (wl_lot target) in
      ((case bump_alloc i remaining as of
          Some as' \<Rightarrow> as'
        | None \<Rightarrow> as @ [\<lparr>a_lotId = i, a_quantity = remaining, a_unitCost = l_unitCost (wl_lot target)\<rparr>]),
       butlast ws @ [target\<lparr>wl_taken := wl_taken target + remaining\<rparr>]))"

definition insufficient :: error where
  "insufficient = AppError 409 ''Insufficient stock for product''"

definition allocateFefo ::
  "bool \<Rightarrow> working_lot list \<Rightarrow> int \<Rightarrow> (lot_allocation list \<times> working_lot list) result" where
  "allocateFefo offlineSync lots quantity =
     (if totalAvailable lots < quantity \<and> \<not> offlineSync then Inl insufficient
      else if lots = [] then Inl insufficient
      else
        (let (as, ws, remaining) = fefo_loop lots quantity in
         if remaining > 0 \<and> offlineSync then Inr (force_last as ws remaining)
         else if remaining > 0 then Inl insufficient
         else Inr (as, ws)))"

section \<open>Reservations\<close>

definition alloc_total :: "lot_allocation list \<Rightarrow> int" where
  "alloc_total as = sum_list (map a_quantity as)"

definition reserve_lot :: "lot_allocation \<Rightarrow> db \<Rightarrow> db result" where
  "reserve_lot a =
     lot_update (a_lotId a) (\<lambda>l. l\<lparr>l_quantityReserved := l_quantityReserved l + a_quantity a\<rparr>)"

definition reserve :: "bool \<Rightarrow> product \<Rightarrow> lot list \<Rightarrow> lot_allocation list \<Rightarrow> db \<Rightarrow> db result" where
  "reserve dev product lots allocations s =
     bindE (assertLotOps dev product lots (map a_lotId allocations)) (\<lambda>_.
     bindE (forE allocations reserve_lot s)
       (product_update (p_id product)
          (\<lambda>p. p\<lparr>p_reserved := p_reserved p + alloc_total allocations\<rparr>)))"

definition release_lot :: "lot_allocation \<Rightarrow> db \<Rightarrow> db result" where
  "release_lot a s =
     (let (n, s') =
        lot_updateMany (\<lambda>l. l_id l = a_lotId a \<and> l_quantityReserved l \<ge> a_quantity a)
          (\<lambda>l. l\<lparr>l_quantityReserved := l_quantityReserved l - a_quantity a\<rparr>) s
      in if n \<noteq> 1 then Inl (AppError 500 ''Failed to release lot reservation'') else Inr s')"

definition release :: "bool \<Rightarrow> product \<Rightarrow> lot list \<Rightarrow> lot_allocation list \<Rightarrow> db \<Rightarrow> db result" where
  "release dev product lots allocations s =
     bindE (assertLotOps dev product lots (map a_lotId allocations)) (\<lambda>_.
     bindE (forE allocations release_lot s) (\<lambda>s1.
       let lineQty = alloc_total allocations;
           (n, s2) = product_updateMany
             (\<lambda>p. p_id p = p_id product \<and> p_storeId p = p_storeId product \<and> p_reserved p \<ge> lineQty)
             (\<lambda>p. p\<lparr>p_reserved := p_reserved p - lineQty\<rparr>) s1
       in if n \<noteq> 1 then Inl (AppError 500 ''Failed to release stock reservation'') else Inr s2))"

section \<open>Consumption\<close>

text \<open>After a decrement the row is read back; a lot that reached zero becomes DEPLETED.\<close>

definition deplete_if_zero :: "ident \<Rightarrow> db \<Rightarrow> db result" where
  "deplete_if_zero i s =
     (case find_lot i s of
        None \<Rightarrow> Inl RecordNotFound
      | Some lotAfter \<Rightarrow>
          if l_quantityRemaining lotAfter = 0
          then lot_update i (\<lambda>l. l\<lparr>l_status := LotDEPLETED\<rparr>) s
          else Inr s)"

definition consumeReserved_lot :: "lot_allocation \<Rightarrow> db \<Rightarrow> db result" where
  "consumeReserved_lot a s =
     bindE (lot_update (a_lotId a)
        (\<lambda>l. l\<lparr>l_quantityRemaining := l_quantityRemaining l - a_quantity a,
              l_quantityReserved := l_quantityReserved l - a_quantity a\<rparr>) s)
       (deplete_if_zero (a_lotId a))"

definition consumeReserved :: "bool \<Rightarrow> product \<Rightarrow> lot list \<Rightarrow> lot_allocation list \<Rightarrow> db \<Rightarrow> db result" where
  "consumeReserved dev product lots allocations s =
     bindE (assertLotOps dev product lots (map a_lotId allocations)) (\<lambda>_.
     bindE (forE allocations consumeReserved_lot s) (\<lambda>s1.
       let lineQty = alloc_total allocations;
           (n, s2) = product_updateMany
             (\<lambda>p. p_id p = p_id product \<and> p_storeId p = p_storeId product
                   \<and> p_reserved p \<ge> lineQty \<and> p_stock p \<ge> lineQty)
             (\<lambda>p. p\<lparr>p_stock := p_stock p - lineQty, p_reserved := p_reserved p - lineQty\<rparr>) s1
       in if n \<noteq> 1 then Inl (AppError 500 ''Failed to finalize product reservation rollup'') else Inr s2))"

text \<open>The raw \<open>UPDATE\<close> of the last-chance claim: only free units of an ACTIVE lot of the store.\<close>

definition claim_lot :: "product \<Rightarrow> lot_allocation \<Rightarrow> db \<Rightarrow> db result" where
  "claim_lot product a s =
     (let (n, s') = lot_updateMany
        (\<lambda>l. l_id l = a_lotId a \<and> l_storeId l = p_storeId product \<and> l_status l = LotACTIVE
              \<and> l_quantityRemaining l - l_quantityReserved l \<ge> a_quantity a)
        (\<lambda>l. l\<lparr>l_quantityRemaining := l_quantityRemaining l - a_quantity a,
              l_status := (if l_quantityRemaining l - a_quantity a = 0 then LotDEPLETED else l_status l)\<rparr>) s
      in if n \<noteq> 1 then Inl (AppError 409 ''Insufficient stock at payment finalization'') else Inr s')"

definition consumeDirect_lot :: "lot list \<Rightarrow> lot_allocation \<Rightarrow> db \<Rightarrow> db result" where
  "consumeDirect_lot lots a s =
     (if lotMap lots (a_lotId a) = None
      then Inl (AppError 500 ''Allocation references unlocked lot'')
      else bindE (lot_update (a_lotId a)
             (\<lambda>l. l\<lparr>l_quantityRemaining := l_quantityRemaining l - a_quantity a\<rparr>) s)
           (deplete_if_zero (a_lotId a)))"

definition consumeDirect ::
  "bool \<Rightarrow> product \<Rightarrow> lot list \<Rightarrow> lot_allocation list \<Rightarrow> bool \<Rightarrow> db \<Rightarrow> db result" where
  "consumeDirect dev product lots allocations requireAvailable s =
     bindE (assertLotOps dev product lots (map a_lotId allocations)) (\<lambda>_.
       let lineQty = alloc_total allocations in
       if requireAvailable then
         bindE (forE allocations (claim_lot product) s) (\<lambda>s1.
           let (n, s2) = product_updateMany
                 (\<lambda>p. p_id p = p_id product \<and> p_storeId p = p_storeId product
                       \<and> p_stock p - p_reserved p \<ge> lineQty)
                 (\<lambda>p. p\<lparr>p_stock := p_stock p - lineQty\<rparr>) s1
           in if n \<noteq> 1 then Inl (AppError 409 ''Insufficient stock at payment finalization'') else Inr s2)
       else
         bindE (forE allocations (consumeDirect_lot lots) s)
           (product_update (p_id product) (\<lambda>p. p\<lparr>p_stock := p_stock p - lineQty\<rparr>)))"

section \<open>Restocking a refund\<close>

text \<open>
  One iteration of \<open>restockToLots\<close>. The status test reads the locked snapshot, the DEPLETED test the
  row returned by the increment. The second component counts the units back on sale.
\<close>

definition restock_one :: "lot list \<Rightarrow> ident \<times> int \<Rightarrow> db \<times> int \<Rightarrow> (db \<times> int) result" where
  "restock_one lots row acc =
     (let (lotId, quantity) = row; (s, sellable) = acc in
      if quantity \<le> 0 then Inr (s, sellable)
      else case lotMap lots lotId of
        None \<Rightarrow> Inl (AppError 500 ''Restock references unlocked lot'')
      | Some locked \<Rightarrow>
          if l_status locked = LotRECALLED \<or> l_status locked = LotEXPIRED
          then Inl (AppError 409 ''Goods from a recalled/expired lot can't go back on sale - refund without restock'')
          else
            bindE (lot_update lotId (\<lambda>l. l\<lparr>l_quantityRemaining := l_quantityRemaining l + quantity\<rparr>) s) (\<lambda>s1.
            if l_status locked = LotQUARANTINED then Inr (s1, sellable)
            else
              bindE (case find_lot lotId s1 of
                       None \<Rightarrow> Inl RecordNotFound
                     | Some l \<Rightarrow>
                         if l_status l = LotDEPLETED \<and> l_quantityRemaining l > 0
                         then lot_update lotId (\<lambda>l. l\<lparr>l_status := LotACTIVE\<rparr>) s1
                         else Inr s1)
                (\<lambda>s2. Inr (s2, sellable + quantity))))"

definition restockToLots ::
  "bool \<Rightarrow> product \<Rightarrow> lot list \<Rightarrow> (ident \<times> int) list \<Rightarrow> db \<Rightarrow> db result" where
  "restockToLots dev product lots restorations s =
     bindE (assertLotOps dev product lots (map fst restorations)) (\<lambda>_.
     bindE (forE restorations (restock_one lots) (s, 0)) (\<lambda>(s1, sellable).
       if sellable > 0
       then product_update (p_id product) (\<lambda>p. p\<lparr>p_stock := p_stock p + sellable\<rparr>) s1
       else Inr s1))"

section \<open>Lots and products coming in\<close>

text \<open>
  The columns \<open>addLot\<close> takes from its caller; \<open>al_id\<close> is the identifier the database generates and
  \<open>now\<close> the default of \<open>receivedAt\<close>.
\<close>

record add_lot_input =
  al_id :: ident
  al_lotNumber :: string
  al_barcode :: "string option"
  al_storeId :: ident
  al_supplierId :: "ident option"
  al_goodsReceiptLineId :: "ident option"
  al_harvestDate :: "time option"
  al_packDate :: "time option"
  al_expiryDate :: "time option"
  al_quantity :: int
  al_countryOfOrigin :: "string option"
  al_receivedAt :: "time option"
  al_unitCost :: decimal
  al_status :: "lot_status option"

definition new_lot :: "time \<Rightarrow> product \<Rightarrow> add_lot_input \<Rightarrow> lot" where
  "new_lot now product d =
     \<lparr>l_id = al_id d, l_lotNumber = al_lotNumber d, l_barcode = al_barcode d,
      l_productId = p_id product, l_storeId = al_storeId d, l_supplierId = al_supplierId d,
      l_goodsReceiptLineId = al_goodsReceiptLineId d, l_harvestDate = al_harvestDate d,
      l_packDate = al_packDate d, l_expiryDate = al_expiryDate d,
      l_quantityReceived = al_quantity d, l_quantityRemaining = al_quantity d,
      l_quantityReserved = 0,
      l_status = (case al_status d of None \<Rightarrow> LotACTIVE | Some st \<Rightarrow> st),
      l_countryOfOrigin = al_countryOfOrigin d,
      l_receivedAt = (case al_receivedAt d of None \<Rightarrow> now | Some t \<Rightarrow> t),
      l_unitCost = al_unitCost d\<rparr>"

text \<open>
  The table has two further unique keys, \<open>(productId, lotNumber, storeId)\<close> and
  \<open>(storeId, barcode)\<close>; a null barcode never collides.
\<close>

definition lot_create :: "lot \<Rightarrow> db \<Rightarrow> db result" where
  "lot_create l s =
     (if (\<exists>r \<in> set (db_lots s).
            l_productId r = l_productId l \<and> l_lotNumber r = l_lotNumber l \<and> l_storeId r = l_storeId l
            \<or> l_barcode l \<noteq> None \<and> l_barcode r = l_barcode l \<and> l_storeId r = l_storeId l)
      then Inl UniqueViolation
      else bindE (create_row l_id l (db_lots s)) (\<lambda>ls. Inr (s\<lparr>db_lots := ls\<rparr>)))"

definition addLot :: "time \<Rightarrow> product \<Rightarrow> add_lot_input \<Rightarrow> db \<Rightarrow> (db \<times> lot) result" where
  "addLot now product d s =
     (if al_quantity d < 0 then Inl (AppError 400 ''addLot quantity must be non-negative'')
      else
        bindE (lot_create (new_lot now product d) s) (\<lambda>s1.
        bindE (if al_quantity d > 0 \<and> l_status (new_lot now product d) = LotACTIVE
               then product_update (p_id product) (\<lambda>p. p\<lparr>p_stock := p_stock p + al_quantity d\<rparr>) s1
               else Inr s1)
          (\<lambda>s2. Inr (s2, new_lot now product d))))"

record create_product_input =
  cp_id :: ident
  cp_storeId :: ident
  cp_catalogItemId :: "ident option"
  cp_sku :: string
  cp_name :: string
  cp_category :: string
  cp_price :: decimal
  cp_cost :: decimal
  cp_stock :: int
  cp_reorderAt :: int
  cp_taxExempt :: "bool option"

definition createProductRow :: "create_product_input \<Rightarrow> db \<Rightarrow> (db \<times> product) result" where
  "createProductRow d s =
     (if cp_stock d < 0 then Inl (AppError 400 ''createProductRow stock must be non-negative'')
      else
        let p = \<lparr>p_id = cp_id d, p_storeId = cp_storeId d, p_catalogItemId = cp_catalogItemId d,
                 p_sku = cp_sku d, p_name = cp_name d, p_category = cp_category d,
                 p_price = cp_price d, p_cost = cp_cost d, p_stock = cp_stock d, p_reserved = 0,
                 p_reorderAt = cp_reorderAt d,
                 p_taxExempt = (case cp_taxExempt d of None \<Rightarrow> False | Some b \<Rightarrow> b)\<rparr>
        in if (\<exists>r \<in> set (db_products s). p_storeId r = p_storeId p \<and> p_sku r = p_sku p)
           then Inl UniqueViolation
           else bindE (create_row p_id p (db_products s)) (\<lambda>ps. Inr (s\<lparr>db_products := ps\<rparr>, p)))"

section \<open>Single-lot adjustments\<close>

definition removeFromLot :: "bool \<Rightarrow> product \<Rightarrow> lot \<Rightarrow> int \<Rightarrow> db \<Rightarrow> db result" where
  "removeFromLot dev product lot qty s =
     bindE (assertLotOps dev product [lot] [l_id lot]) (\<lambda>_.
     if qty < 0 then Inl (AppError 400 ''removeFromLot qty must be non-negative'')
     else if qty = 0 then Inr s
     else
       let nextRemaining = l_quantityRemaining lot - qty;
           nextStatus = (if l_status lot = LotACTIVE \<and> nextRemaining = 0 then LotDEPLETED else l_status lot)
       in
       bindE (lot_update (l_id lot)
          (\<lambda>l. if nextStatus \<noteq> l_status lot
               then l\<lparr>l_quantityRemaining := nextRemaining, l_status := nextStatus\<rparr>
               else l\<lparr>l_quantityRemaining := nextRemaining\<rparr>) s) (\<lambda>s1.
       if l_status lot = LotACTIVE then
         let rollupDelta = (if nextStatus = LotACTIVE then nextRemaining else 0) - l_quantityRemaining lot
         in if rollupDelta \<noteq> 0
            then product_update (p_id product) (\<lambda>p. p\<lparr>p_stock := p_stock p + rollupDelta\<rparr>) s1
            else Inr s1
       else Inr s1))"

record set_remaining_result =
  sr_previousQty :: int
  sr_delta :: int
  sr_rollupDelta :: int
  sr_nextStatus :: lot_status

definition setLotRemaining ::
  "bool \<Rightarrow> product \<Rightarrow> lot \<Rightarrow> int \<Rightarrow> db \<Rightarrow> (db \<times> set_remaining_result) result" where
  "setLotRemaining dev product lot targetQty s =
     bindE (assertLotOps dev product [lot] [l_id lot]) (\<lambda>_.
     if targetQty < 0 then Inl (AppError 400 ''targetQty must be non-negative'')
     else if l_status lot = LotACTIVE \<and> targetQty < l_quantityReserved lot
     then Inl (AppError 409 ''Adjustment would drop a lot below units held by pending sales; settle them before approving'')
     else
       let previousQty = l_quantityRemaining lot;
           delta = targetQty - previousQty;
           nextStatus = (if l_status lot = LotACTIVE \<and> targetQty = 0 then LotDEPLETED
                         else if l_status lot = LotDEPLETED \<and> targetQty > 0 then LotACTIVE
                         else l_status lot);
           rollupDelta = (if nextStatus = LotACTIVE then targetQty else 0)
                         - (if l_status lot = LotACTIVE then previousQty else 0)
       in
       bindE (if delta \<noteq> 0 \<or> nextStatus \<noteq> l_status lot
              then lot_update (l_id lot)
                     (\<lambda>l. l\<lparr>l_quantityRemaining := targetQty, l_status := nextStatus\<rparr>) s
              else Inr s) (\<lambda>s1.
       bindE (if rollupDelta \<noteq> 0
              then product_update (p_id product) (\<lambda>p. p\<lparr>p_stock := p_stock p + rollupDelta\<rparr>) s1
              else Inr s1) (\<lambda>s2.
       Inr (s2, \<lparr>sr_previousQty = previousQty, sr_delta = delta, sr_rollupDelta = rollupDelta,
                 sr_nextStatus = nextStatus\<rparr>))))"

section \<open>Leaving and re-entering the sellable stock\<close>

definition leaveSellableRollup ::
  "bool \<Rightarrow> product \<Rightarrow> lot \<Rightarrow> lot_status \<Rightarrow> db \<Rightarrow> (db \<times> int) result" where
  "leaveSellableRollup dev product lot nextStatus s =
     bindE (assertLotOps dev product [lot] [l_id lot]) (\<lambda>_.
     if l_status lot \<noteq> LotACTIVE then
       bindE (lot_update (l_id lot) (\<lambda>l. l\<lparr>l_status := nextStatus\<rparr>) s) (\<lambda>s1. Inr (s1, 0))
     else
       let writeOffQty = max 0 (l_quantityRemaining lot) in
       bindE (lot_update (l_id lot) (\<lambda>l. l\<lparr>l_status := nextStatus\<rparr>) s) (\<lambda>s1.
       bindE (if writeOffQty > 0
              then product_update (p_id product) (\<lambda>p. p\<lparr>p_stock := p_stock p - writeOffQty\<rparr>) s1
              else Inr s1) (\<lambda>s2.
       Inr (s2, writeOffQty))))"

definition recallDepleteLot :: "bool \<Rightarrow> product \<Rightarrow> lot \<Rightarrow> db \<Rightarrow> (db \<times> int) result" where
  "recallDepleteLot dev product lot s =
     bindE (assertLotOps dev product [lot] [l_id lot]) (\<lambda>_.
     bindE (lot_update (l_id lot) (\<lambda>l. l\<lparr>l_quantityRemaining := 0, l_status := LotRECALLED\<rparr>) s) (\<lambda>s1.
     Inr (s1, max 0 (l_quantityRemaining lot))))"

definition returnToSellableRollup :: "bool \<Rightarrow> product \<Rightarrow> lot \<Rightarrow> db \<Rightarrow> db result" where
  "returnToSellableRollup dev product lot s =
     bindE (assertLotOps dev product [lot] [l_id lot]) (\<lambda>_.
     if l_status lot \<noteq> LotQUARANTINED then Inr s
     else
       bindE (lot_update (l_id lot) (\<lambda>l. l\<lparr>l_status := LotACTIVE\<rparr>) s) (\<lambda>s1.
       if l_quantityRemaining lot > 0
       then product_update (p_id product) (\<lambda>p. p\<lparr>p_stock := p_stock p + l_quantityRemaining lot\<rparr>) s1
       else Inr s1))"

end
