(* ===== verification/Stock_Contracts.thy ===== *)
theory Stock_Contracts
  imports Stock_Engine
begin

text \<open>
  The contract of the stock engine. \<open>stock_inv h s\<close> says that the lots are sound, that the units
  held on each lot are exactly the demand \<open>h\<close>, and that the cached counters of every product equal
  the sums over its ACTIVE lots. Each operation is proved total within its precondition and keeps
  \<open>stock_inv\<close> for the demand it leaves. The four per-lot loops of the engine are one interface,
  \<open>alloc_step\<close>, proved once and interpreted four times.
\<close>

section \<open>The invariant\<close>

text \<open>
  A sound lot: no negative quantity, an ACTIVE lot holds no more units than it has, a lot outside
  the sellable stock holds none, and a DEPLETED lot is empty.
\<close>

definition lot_ok :: "lot \<Rightarrow> bool" where
  "lot_ok l \<longleftrightarrow>
     0 \<le> l_quantityRemaining l \<and> 0 \<le> l_quantityReserved l
     \<and> (if l_status l = LotACTIVE then l_quantityReserved l \<le> l_quantityRemaining l
        else l_quantityReserved l = 0)
     \<and> (l_status l = LotDEPLETED \<longrightarrow> l_quantityRemaining l = 0)"

definition lots_inv :: "(ident \<Rightarrow> int) \<Rightarrow> db \<Rightarrow> bool" where
  "lots_inv h s \<longleftrightarrow>
     distinct (map p_id (db_products s)) \<and> distinct (map l_id (db_lots s))
     \<and> (\<forall>l \<in> set (db_lots s). lot_ok l \<and> l_quantityReserved l = h (l_id l))"

definition stock_inv :: "(ident \<Rightarrow> int) \<Rightarrow> db \<Rightarrow> bool" where
  "stock_inv h s \<longleftrightarrow> lots_inv h s \<and> rollup_ok s"

text \<open>The units a list of allocations puts on one lot.\<close>

definition alloc_qty :: "lot_allocation list \<Rightarrow> ident \<Rightarrow> int" where
  "alloc_qty as i = sum_rows (\<lambda>a. if a_lotId a = i then a_quantity a else 0) as"

text \<open>What the engine never changes: other tables, the keys of the rows it touches.\<close>

definition lot_key :: "lot \<Rightarrow> ident \<times> ident \<times> ident" where
  "lot_key l = (l_id l, l_productId l, l_storeId l)"

definition product_key :: "product \<Rightarrow> ident \<times> ident" where
  "product_key p = (p_id p, p_storeId p)"

definition stock_frame :: "db \<Rightarrow> db \<Rightarrow> bool" where
  "stock_frame s s' \<longleftrightarrow>
     (\<exists>ps ls. s' = s\<lparr>db_products := ps, db_lots := ls\<rparr>
        \<and> map product_key ps = map product_key (db_products s)
        \<and> map lot_key ls = map lot_key (db_lots s))"

lemma alloc_qty_simps [simp]:
  "alloc_qty [] i = 0"
  "alloc_qty (a # as) i = (if a_lotId a = i then a_quantity a else 0) + alloc_qty as i"
  "alloc_qty (as @ bs) i = alloc_qty as i + alloc_qty bs i"
  by (simp_all add: alloc_qty_def)

lemma alloc_total_simps [simp]:
  "alloc_total [] = 0" "alloc_total (a # as) = a_quantity a + alloc_total as"
  by (simp_all add: alloc_total_def)

lemma alloc_qty_nonneg: "\<forall>a \<in> set as. 0 \<le> a_quantity a \<Longrightarrow> 0 \<le> alloc_qty as i"
  by (auto simp: alloc_qty_def intro: sum_rows_nonneg)

lemma stock_frame_refl [simp]: "stock_frame s s"
  unfolding stock_frame_def by (intro exI [of _ "db_products s"] exI [of _ "db_lots s"]) simp

lemma stock_frame_keys:
  "stock_frame s s' \<Longrightarrow> map product_key (db_products s') = map product_key (db_products s)"
  "stock_frame s s' \<Longrightarrow> map lot_key (db_lots s') = map lot_key (db_lots s)"
  by (auto simp: stock_frame_def)

lemma stock_frame_trans: "stock_frame s t \<Longrightarrow> stock_frame t u \<Longrightarrow> stock_frame s u"
  unfolding stock_frame_def by (elim exE conjE) (simp, blast)

lemma stock_frame_lots:
  assumes "stock_frame s s'" "l \<in> set (db_lots s)"
  obtains l' where "l' \<in> set (db_lots s')" "l_id l' = l_id l" "l_productId l' = l_productId l"
    "l_storeId l' = l_storeId l"
proof -
  have "lot_key l \<in> set (map lot_key (db_lots s'))"
    using assms(2) unfolding stock_frame_keys(2) [OF assms(1)] by simp
  then show ?thesis using that by (auto simp: lot_key_def)
qed

lemma stock_frame_products:
  assumes "stock_frame s s'" "p \<in> set (db_products s)"
  obtains p' where "p' \<in> set (db_products s')" "p_id p' = p_id p" "p_storeId p' = p_storeId p"
proof -
  have "product_key p \<in> set (map product_key (db_products s'))"
    using assms(2) unfolding stock_frame_keys(1) [OF assms(1)] by simp
  then show ?thesis using that by (auto simp: product_key_def)
qed

lemma stock_frame_distinct:
  assumes "stock_frame s s'"
  shows "distinct (map p_id (db_products s')) \<longleftrightarrow> distinct (map p_id (db_products s))"
    and "distinct (map l_id (db_lots s')) \<longleftrightarrow> distinct (map l_id (db_lots s))"
proof -
  have "map fst (map product_key (db_products s')) = map fst (map product_key (db_products s))"
       "map fst (map lot_key (db_lots s')) = map fst (map lot_key (db_lots s))"
    using assms by (simp_all add: stock_frame_keys)
  then have "map p_id (db_products s') = map p_id (db_products s)"
       "map l_id (db_lots s') = map l_id (db_lots s)"
    by (simp_all add: product_key_def lot_key_def comp_def)
  then show "distinct (map p_id (db_products s')) \<longleftrightarrow> distinct (map p_id (db_products s))"
    and "distinct (map l_id (db_lots s')) \<longleftrightarrow> distinct (map l_id (db_lots s))"
    by simp_all
qed

lemma stock_frame_tables:
  "stock_frame s s' \<Longrightarrow> db_sales s' = db_sales s"
  "stock_frame s s' \<Longrightarrow> db_refunds s' = db_refunds s"
  "stock_frame s s' \<Longrightarrow> db_stores s' = db_stores s"
  "stock_frame s s' \<Longrightarrow> db_recalls s' = db_recalls s"
  by (auto simp: stock_frame_def)

section \<open>Single-row effects\<close>

lemma lots_inv_distinct:
  "lots_inv h s \<Longrightarrow> distinct (map l_id (db_lots s))"
  "lots_inv h s \<Longrightarrow> distinct (map p_id (db_products s))"
  by (simp_all add: lots_inv_def)

lemma stock_gap_lot:
  assumes "distinct (map l_id (db_lots s))" "l \<in> set (db_lots s)"
  shows "stock_gap (s\<lparr>db_lots := upd_row l_id (l_id l) f (db_lots s)\<rparr>) pid
           = stock_gap s pid + active_remaining pid l - active_remaining pid (f l)"
    and "reserved_gap (s\<lparr>db_lots := upd_row l_id (l_id l) f (db_lots s)\<rparr>) pid
           = reserved_gap s pid + active_reserved pid l - active_reserved pid (f l)"
  using assms by (simp_all add: stock_gap_def reserved_gap_def sum_rows_upd_row [where r = l])

lemma stock_gap_product:
  assumes "distinct (map p_id (db_products s))" "p \<in> set (db_products s)" "p_id (f p) = p_id p"
  shows "stock_gap (s\<lparr>db_products := upd_row p_id (p_id p) f (db_products s)\<rparr>) pid
           = stock_gap s pid + (if pid = p_id p then p_stock (f p) - p_stock p else 0)"
    and "reserved_gap (s\<lparr>db_products := upd_row p_id (p_id p) f (db_products s)\<rparr>) pid
           = reserved_gap s pid + (if pid = p_id p then p_reserved (f p) - p_reserved p else 0)"
  using assms
  by (simp_all add: stock_gap_def reserved_gap_def sum_rows_upd_row [where r = p]
        product_stock_def product_reserved_def)

lemma lots_inv_upd:
  assumes "lots_inv h s" "l \<in> set (db_lots s)" "l_id (f l) = l_id l" "lot_ok (f l)"
    and "l_quantityReserved (f l) = h' (l_id l)" "\<forall>i. i \<noteq> l_id l \<longrightarrow> h' i = h i"
  shows "lots_inv h' (s\<lparr>db_lots := upd_row l_id (l_id l) f (db_lots s)\<rparr>)"
proof -
  have uniq: "x = l" if "x \<in> set (db_lots s)" "l_id x = l_id l" for x
    using assms(1,2) that by (auto simp: lots_inv_def distinct_map inj_on_def)
  have "map l_id (upd_row l_id (l_id l) f (db_lots s)) = map l_id (db_lots s)"
    using uniq assms(3) by (auto simp: upd_row_def)
  moreover have "lot_ok y \<and> l_quantityReserved y = h' (l_id y)"
    if "y \<in> set (upd_row l_id (l_id l) f (db_lots s))" for y
  proof (cases "y = f l")
    case True
    then show ?thesis using assms(3-5) by simp
  next
    case False
    with that uniq have "y \<in> set (db_lots s)" "l_id y \<noteq> l_id l"
      unfolding in_upd_row by (auto split: if_splits)
    then show ?thesis using assms(1,6) by (auto simp: lots_inv_def)
  qed
  ultimately show ?thesis using assms(1) by (simp add: lots_inv_def)
qed

lemma lot_frame_upd:
  "l \<in> set (db_lots s) \<Longrightarrow> distinct (map l_id (db_lots s)) \<Longrightarrow> lot_key (f l) = lot_key l \<Longrightarrow>
     stock_frame s (s\<lparr>db_lots := upd_row l_id (l_id l) f (db_lots s)\<rparr>)"
  unfolding stock_frame_def
  by (rule exI [of _ "db_products s"], rule exI [of _ "upd_row l_id (l_id l) f (db_lots s)"])
    (auto simp: upd_row_def distinct_map inj_on_def)

lemma product_frame_upd:
  "(\<And>p. product_key (f p) = product_key p) \<Longrightarrow>
     stock_frame s (s\<lparr>db_products := upd_row p_id i f (db_products s)\<rparr>)"
  unfolding stock_frame_def
  by (rule exI [of _ "upd_row p_id i f (db_products s)"], rule exI [of _ "db_lots s"])
    (auto simp: upd_row_def)

lemma rollup_okD:
  assumes "rollup_ok s" "distinct (map p_id (db_products s))" "p \<in> set (db_products s)"
  shows "p_stock p = sum_rows (active_remaining (p_id p)) (db_lots s)"
    and "p_reserved p = sum_rows (active_reserved (p_id p)) (db_lots s)"
  using assms sum_product_stock [OF assms(2,3)] sum_product_reserved [OF assms(2,3)]
  by (auto simp: rollup_ok_def stock_gap_def reserved_gap_def)

lemma lots_inv_sums_nonneg:
  "lots_inv h s \<Longrightarrow> 0 \<le> sum_rows (active_remaining pid) (db_lots s)"
  "lots_inv h s \<Longrightarrow> 0 \<le> sum_rows (active_reserved pid) (db_lots s)"
  by (auto simp: lots_inv_def lot_ok_def active_remaining_def active_reserved_def
      intro!: sum_rows_nonneg)

section \<open>The per-lot loops\<close>

text \<open>
  One iteration of the loops in \<open>reserve\<close>, \<open>release\<close>, \<open>consumeReserved\<close> and the two forms of
  \<open>consumeDirect\<close>: on a lot with enough capacity the iteration succeeds and is a row update that
  moves \<open>dh\<close> units of demand and \<open>dr\<close> units of stock per allocated unit. \<open>adm\<close> is the extra test an
  iteration makes on the immutable columns of the lot.
\<close>

locale alloc_step =
  fixes step :: "lot_allocation \<Rightarrow> db \<Rightarrow> db result"
    and upd :: "int \<Rightarrow> lot \<Rightarrow> lot"
    and cap :: "lot \<Rightarrow> int"
    and adm :: "ident \<times> ident \<times> ident \<Rightarrow> bool"
    and dh dr :: int
  assumes step_eq:
      "lots_inv h s \<Longrightarrow> l \<in> set (db_lots s) \<Longrightarrow> l_id l = a_lotId a \<Longrightarrow> adm (lot_key l) \<Longrightarrow>
         0 < a_quantity a \<Longrightarrow> a_quantity a \<le> cap l \<Longrightarrow>
         step a s = Inr (s\<lparr>db_lots := upd_row l_id (l_id l) (upd (a_quantity a)) (db_lots s)\<rparr>)"
    and upd_key: "lot_key (upd q l) = lot_key l"
    and upd_ok: "lot_ok l \<Longrightarrow> 0 < q \<Longrightarrow> q \<le> cap l \<Longrightarrow> lot_ok (upd q l)"
    and upd_reserved: "l_quantityReserved (upd q l) = l_quantityReserved l + dh * q"
    and upd_cap: "lot_ok l \<Longrightarrow> 0 < q \<Longrightarrow> q \<le> cap l \<Longrightarrow> cap (upd q l) = cap l - q"
    and upd_active_remaining:
      "lot_ok l \<Longrightarrow> 0 < q \<Longrightarrow> q \<le> cap l \<Longrightarrow>
         active_remaining pid (upd q l)
           = active_remaining pid l + (if pid = l_productId l then dr * q else 0)"
    and upd_active_reserved:
      "lot_ok l \<Longrightarrow> 0 < q \<Longrightarrow> q \<le> cap l \<Longrightarrow>
         active_reserved pid (upd q l)
           = active_reserved pid l + (if pid = l_productId l then dh * q else 0)"
begin

lemma upd_id: "l_id (upd q l) = l_id l" "l_productId (upd q l) = l_productId l"
  using upd_key [of q l] by (simp_all add: lot_key_def)

lemma step_ok:
  assumes inv: "lots_inv h s" and l: "l \<in> set (db_lots s)" "l_id l = a_lotId a" "adm (lot_key l)"
    and q: "0 < a_quantity a" "a_quantity a \<le> cap l"
  obtains t where "step a s = Inr t" "lots_inv (\<lambda>i. h i + dh * alloc_qty [a] i) t"
    "stock_frame s t" "db_products t = db_products s"
    "\<forall>p. stock_gap t p = stock_gap s p - (if p = l_productId l then dr * a_quantity a else 0)"
    "\<forall>p. reserved_gap t p = reserved_gap s p - (if p = l_productId l then dh * a_quantity a else 0)"
    "\<forall>y \<in> set (db_lots t). \<exists>x \<in> set (db_lots s). lot_key y = lot_key x \<and> cap y = cap x - alloc_qty [a] (l_id x)"
proof -
  let ?t = "s\<lparr>db_lots := upd_row l_id (l_id l) (upd (a_quantity a)) (db_lots s)\<rparr>"
  have d: "distinct (map l_id (db_lots s))" and ok: "lot_ok l" and res: "l_quantityReserved l = h (l_id l)"
    using inv l(1) by (auto simp: lots_inv_def)
  have uniq: "x = l" if "x \<in> set (db_lots s)" "l_id x = l_id l" for x
    using d l(1) that by (auto simp: distinct_map inj_on_def)
  have "lots_inv (\<lambda>i. h i + dh * alloc_qty [a] i) ?t"
    by (rule lots_inv_upd [OF inv l(1)])
      (use l(2) ok q res in \<open>auto simp: upd_id upd_ok upd_reserved\<close>)
  moreover have "\<exists>x \<in> set (db_lots s). lot_key y = lot_key x \<and> cap y = cap x - alloc_qty [a] (l_id x)"
    if y: "y \<in> set (db_lots ?t)" for y
  proof -
    obtain x where x: "x \<in> set (db_lots s)"
      "y = (if l_id x = l_id l then upd (a_quantity a) x else x)"
      using y by (auto simp: in_upd_row)
    then show ?thesis
      using uniq [of x] ok q l(2) by (intro bexI [of _ x]) (auto simp: upd_key upd_cap)
  qed
  ultimately show ?thesis
    using step_eq [OF inv l q] lot_frame_upd [OF l(1) d, of "upd (a_quantity a)"]
    by (intro that [of ?t])
      (auto simp: upd_key stock_gap_lot [OF d l(1)] upd_active_remaining [OF ok q] upd_active_reserved [OF ok q])
qed

lemma loop_ok:
  assumes "lots_inv h s"
    and "\<forall>a \<in> set as. 0 < a_quantity a
           \<and> (\<exists>l \<in> set (db_lots s). l_id l = a_lotId a \<and> l_productId l = pid \<and> adm (lot_key l))"
    and "\<forall>l \<in> set (db_lots s). alloc_qty as (l_id l) \<le> cap l"
  shows "\<exists>t. forE as step s = Inr t \<and> lots_inv (\<lambda>i. h i + dh * alloc_qty as i) t
    \<and> stock_frame s t \<and> db_products t = db_products s
    \<and> (\<forall>p. stock_gap t p = stock_gap s p - (if p = pid then dr * alloc_total as else 0))
    \<and> (\<forall>p. reserved_gap t p = reserved_gap s p - (if p = pid then dh * alloc_total as else 0))
    \<and> (\<forall>y \<in> set (db_lots t). \<exists>x \<in> set (db_lots s).
          lot_key y = lot_key x \<and> cap y = cap x - alloc_qty as (l_id x))"
  using assms
proof (induction as arbitrary: h s)
  case Nil
  then show ?case by auto
next
  case (Cons a as)
  obtain l where l: "l \<in> set (db_lots s)" "l_id l = a_lotId a" "adm (lot_key l)" "l_productId l = pid"
    using Cons.prems(2) by auto
  have q: "0 < a_quantity a" using Cons.prems(2) by simp
  have "0 \<le> alloc_qty as (l_id l)"
    using Cons.prems(2) by (intro alloc_qty_nonneg) (auto intro: less_imp_le)
  moreover have "alloc_qty (a # as) (l_id l) \<le> cap l" using Cons.prems(3) l(1) by blast
  ultimately have c: "a_quantity a \<le> cap l" using l(2) by simp
  obtain t where t: "step a s = Inr t" "lots_inv (\<lambda>i. h i + dh * alloc_qty [a] i) t"
    "stock_frame s t" "db_products t = db_products s"
    "\<forall>p. stock_gap t p = stock_gap s p - (if p = l_productId l then dr * a_quantity a else 0)"
    "\<forall>p. reserved_gap t p = reserved_gap s p - (if p = l_productId l then dh * a_quantity a else 0)"
    "\<forall>y \<in> set (db_lots t). \<exists>x \<in> set (db_lots s). lot_key y = lot_key x \<and> cap y = cap x - alloc_qty [a] (l_id x)"
    by (rule step_ok [OF Cons.prems(1) l(1-3) q c])
  have "\<forall>a \<in> set as. 0 < a_quantity a
      \<and> (\<exists>l \<in> set (db_lots t). l_id l = a_lotId a \<and> l_productId l = pid \<and> adm (lot_key l))"
  proof
    fix b assume "b \<in> set as"
    then obtain m where m: "m \<in> set (db_lots s)" "l_id m = a_lotId b" "l_productId m = pid" "adm (lot_key m)"
      "0 < a_quantity b" using Cons.prems(2) by auto
    obtain m' where "m' \<in> set (db_lots t)" "l_id m' = l_id m" "l_productId m' = l_productId m"
      "l_storeId m' = l_storeId m" by (rule stock_frame_lots [OF t(3) m(1)])
    with m show "0 < a_quantity b
      \<and> (\<exists>l \<in> set (db_lots t). l_id l = a_lotId b \<and> l_productId l = pid \<and> adm (lot_key l))"
      by (auto simp: lot_key_def intro!: bexI [of _ m'])
  qed
  moreover have "\<forall>y \<in> set (db_lots t). alloc_qty as (l_id y) \<le> cap y"
  proof
    fix y assume "y \<in> set (db_lots t)"
    then obtain x where "x \<in> set (db_lots s)" "lot_key y = lot_key x" "cap y = cap x - alloc_qty [a] (l_id x)"
      using t(7) by blast
    then show "alloc_qty as (l_id y) \<le> cap y"
      using Cons.prems(3) by (auto simp: lot_key_def)
  qed
  ultimately obtain u where u: "forE as step t = Inr u"
    "lots_inv (\<lambda>i. h i + dh * alloc_qty [a] i + dh * alloc_qty as i) u"
    "stock_frame t u" "db_products u = db_products t"
    "\<forall>p. stock_gap u p = stock_gap t p - (if p = pid then dr * alloc_total as else 0)"
    "\<forall>p. reserved_gap u p = reserved_gap t p - (if p = pid then dh * alloc_total as else 0)"
    "\<forall>y \<in> set (db_lots u). \<exists>x \<in> set (db_lots t). lot_key y = lot_key x \<and> cap y = cap x - alloc_qty as (l_id x)"
    using Cons.IH [OF t(2)] by blast
  have "\<forall>y \<in> set (db_lots u). \<exists>x \<in> set (db_lots s).
      lot_key y = lot_key x \<and> cap y = cap x - alloc_qty (a # as) (l_id x)"
    using t(7) u(7) by (fastforce simp: lot_key_def)
  moreover have "(\<lambda>i. h i + dh * alloc_qty [a] i + dh * alloc_qty as i) = (\<lambda>i. h i + dh * alloc_qty (a # as) i)"
    by (simp add: algebra_simps)
  moreover have "stock_gap u p = stock_gap s p - (if p = pid then dr * alloc_total (a # as) else 0)"
      "reserved_gap u p = reserved_gap s p - (if p = pid then dh * alloc_total (a # as) else 0)" for p
    using t(5,6) [THEN spec, of p] u(5,6) [THEN spec, of p] l(4)
    by (cases "p = pid"; simp add: algebra_simps)+
  ultimately show ?case
    using t(1,4) u(1,2,4) stock_frame_trans [OF t(3) u(3)]
    by (intro exI [of _ u]) simp
qed

end

text \<open>The four loops of the engine are instances.\<close>

definition free_units :: "lot \<Rightarrow> int" where
  "free_units l =
     (if l_status l = LotACTIVE then l_quantityRemaining l - l_quantityReserved l else 0)"

lemma lot_update_in:
  "l \<in> set (db_lots s) \<Longrightarrow>
     lot_update (l_id l) f s = Inr (s\<lparr>db_lots := upd_row l_id (l_id l) f (db_lots s)\<rparr>)"
  by (auto simp: lot_update_Inr_iff has_row_def)

lemma lot_updateMany_in:
  assumes "lots_inv h s" "l \<in> set (db_lots s)" "Q l"
  shows "lot_updateMany (\<lambda>x. l_id x = l_id l \<and> Q x) f s
           = (1, s\<lparr>db_lots := upd_row l_id (l_id l) f (db_lots s)\<rparr>)"
  using updateMany_rows_key [of l_id "db_lots s" l "l_id l" Q f] assms
  by (simp add: lot_updateMany_def lots_inv_def)

lemma upd_row_upd_row:
  "(\<And>r. key (f r) = key r) \<Longrightarrow> upd_row key k g (upd_row key k f xs) = upd_row key k (g \<circ> f) xs"
  by (induction xs) auto

lemma upd_row_cong_key:
  "distinct (map key xs) \<Longrightarrow> r \<in> set xs \<Longrightarrow> f r = g r \<Longrightarrow>
     upd_row key (key r) f xs = upd_row key (key r) g xs"
  by (auto simp: upd_row_def distinct_map inj_on_def)

text \<open>A decrement followed by the read-back is one row update.\<close>

definition deplete :: "lot \<Rightarrow> lot" where
  "deplete l = (if l_quantityRemaining l = 0 then l\<lparr>l_status := LotDEPLETED\<rparr> else l)"

lemma decrement_deplete:
  assumes inv: "lots_inv h s" and l: "l \<in> set (db_lots s)" and key: "\<And>r. l_id (f r) = l_id r"
  shows "bindE (lot_update (l_id l) f s) (deplete_if_zero (l_id l))
           = Inr (s\<lparr>db_lots := upd_row l_id (l_id l) (deplete \<circ> f) (db_lots s)\<rparr>)"
proof -
  have d: "distinct (map l_id (db_lots s))" using inv by (simp add: lots_inv_def)
  let ?t = "s\<lparr>db_lots := upd_row l_id (l_id l) f (db_lots s)\<rparr>"
  have find: "find_lot (l_id l) ?t = Some (f l)"
    using find_row_eq_Some_iff [OF d, of "l_id l" l] l
    by (simp add: find_lot_def find_row_upd_row key)
  have fl: "f l \<in> set (db_lots ?t)" "l_id (f l) = l_id l"
    using l by (auto simp: in_upd_row key)
  show ?thesis
  proof (cases "l_quantityRemaining (f l) = 0")
    case True
    have "upd_row l_id (l_id l) (\<lambda>l. l\<lparr>l_status := LotDEPLETED\<rparr>) (upd_row l_id (l_id l) f (db_lots s))
        = upd_row l_id (l_id l) (deplete \<circ> f) (db_lots s)"
      unfolding upd_row_upd_row [of l_id f, OF key]
      by (rule upd_row_cong_key [OF d l]) (simp add: deplete_def True)
    then show ?thesis
      using True lot_update_in [OF l] lot_update_in [OF fl(1)] fl(2)
      by (simp add: deplete_if_zero_def find)
  next
    case False
    have "upd_row l_id (l_id l) (deplete \<circ> f) (db_lots s) = upd_row l_id (l_id l) f (db_lots s)"
      by (rule upd_row_cong_key [OF d l]) (simp add: deplete_def False)
    then show ?thesis using False lot_update_in [OF l] by (simp add: deplete_if_zero_def find)
  qed
qed

interpretation reserve_loop: alloc_step reserve_lot
  "\<lambda>q l. l\<lparr>l_quantityReserved := l_quantityReserved l + q\<rparr>" free_units "\<lambda>_. True" 1 0
proof unfold_locales
  fix h and s :: db and l :: lot and a :: lot_allocation
  assume "l \<in> set (db_lots s)" "l_id l = a_lotId a"
  then show "reserve_lot a s = Inr (s\<lparr>db_lots := upd_row l_id (l_id l)
      (\<lambda>l. l\<lparr>l_quantityReserved := l_quantityReserved l + a_quantity a\<rparr>) (db_lots s)\<rparr>)"
    using lot_update_in [of l s] by (simp add: reserve_lot_def)
qed (auto simp: lot_key_def lot_ok_def free_units_def active_remaining_def active_reserved_def split: if_splits)

interpretation release_loop: alloc_step release_lot
  "\<lambda>q l. l\<lparr>l_quantityReserved := l_quantityReserved l - q\<rparr>" l_quantityReserved "\<lambda>_. True" "-1" 0
proof unfold_locales
  fix h and s :: db and l :: lot and a :: lot_allocation
  assume "lots_inv h s" "l \<in> set (db_lots s)" "l_id l = a_lotId a" "a_quantity a \<le> l_quantityReserved l"
  then show "release_lot a s = Inr (s\<lparr>db_lots := upd_row l_id (l_id l)
      (\<lambda>l. l\<lparr>l_quantityReserved := l_quantityReserved l - a_quantity a\<rparr>) (db_lots s)\<rparr>)"
    using lot_updateMany_in [of h s l "\<lambda>x. a_quantity a \<le> l_quantityReserved x"]
    by (simp add: release_lot_def)
qed (auto simp: lot_key_def lot_ok_def active_remaining_def active_reserved_def split: if_splits)

interpretation consumeReserved_loop: alloc_step consumeReserved_lot
  "\<lambda>q. deplete \<circ> (\<lambda>l. l\<lparr>l_quantityRemaining := l_quantityRemaining l - q,
                          l_quantityReserved := l_quantityReserved l - q\<rparr>)"
  l_quantityReserved "\<lambda>_. True" "-1" "-1"
proof unfold_locales
  fix h and s :: db and l :: lot and a :: lot_allocation
  assume "lots_inv h s" "l \<in> set (db_lots s)" "l_id l = a_lotId a"
  then show "consumeReserved_lot a s = Inr (s\<lparr>db_lots := upd_row l_id (l_id l)
      (deplete \<circ> (\<lambda>l. l\<lparr>l_quantityRemaining := l_quantityRemaining l - a_quantity a,
                          l_quantityReserved := l_quantityReserved l - a_quantity a\<rparr>)) (db_lots s)\<rparr>)"
    using decrement_deplete [of h s l] by (simp add: consumeReserved_lot_def)
qed (auto simp: deplete_def lot_key_def lot_ok_def active_remaining_def active_reserved_def split: if_splits)

interpretation claim_loop: alloc_step "claim_lot product"
  "\<lambda>q l. l\<lparr>l_quantityRemaining := l_quantityRemaining l - q,
           l_status := (if l_quantityRemaining l - q = 0 then LotDEPLETED else l_status l)\<rparr>"
  free_units "\<lambda>(_, _, st). st = p_storeId product" 0 "-1"
  for product
proof unfold_locales
  fix h and s :: db and l :: lot and a :: lot_allocation
  assume a: "lots_inv h s" "l \<in> set (db_lots s)" "l_id l = a_lotId a"
    "case lot_key l of (_, _, st) \<Rightarrow> st = p_storeId product" "0 < a_quantity a" "a_quantity a \<le> free_units l"
  then have "l_storeId l = p_storeId product \<and> l_status l = LotACTIVE
      \<and> l_quantityRemaining l - l_quantityReserved l \<ge> a_quantity a"
    by (auto simp: lot_key_def free_units_def split: if_splits)
  then show "claim_lot product a s = Inr (s\<lparr>db_lots := upd_row l_id (l_id l)
      (\<lambda>l. l\<lparr>l_quantityRemaining := l_quantityRemaining l - a_quantity a,
             l_status := (if l_quantityRemaining l - a_quantity a = 0 then LotDEPLETED else l_status l)\<rparr>)
      (db_lots s)\<rparr>)"
    using lot_updateMany_in [OF a(1,2), of "\<lambda>x. l_storeId x = p_storeId product \<and> l_status x = LotACTIVE
      \<and> l_quantityRemaining x - l_quantityReserved x \<ge> a_quantity a"] a(3)
    by (simp add: claim_lot_def)
qed (auto simp: free_units_def lot_key_def lot_ok_def active_remaining_def active_reserved_def split: if_splits)

interpretation direct_loop: alloc_step "consumeDirect_lot lots"
  "\<lambda>q. deplete \<circ> (\<lambda>l. l\<lparr>l_quantityRemaining := l_quantityRemaining l - q\<rparr>)"
  free_units "\<lambda>(i, _, _). lotMap lots i \<noteq> None" 0 "-1"
  for lots
proof unfold_locales
  fix h and s :: db and l :: lot and a :: lot_allocation
  assume "lots_inv h s" "l \<in> set (db_lots s)" "l_id l = a_lotId a" "case lot_key l of (i, _, _) \<Rightarrow> lotMap lots i \<noteq> None"
  then show "consumeDirect_lot lots a s = Inr (s\<lparr>db_lots := upd_row l_id (l_id l)
      (deplete \<circ> (\<lambda>l. l\<lparr>l_quantityRemaining := l_quantityRemaining l - a_quantity a\<rparr>)) (db_lots s)\<rparr>)"
    using decrement_deplete [of h s l] by (simp add: consumeDirect_lot_def lot_key_def)
qed (auto simp: deplete_def free_units_def lot_key_def lot_ok_def active_remaining_def active_reserved_def split: if_splits)

section \<open>Contracts of the allocation operations\<close>

text \<open>
  The rows a caller passes: the product exists, every allocation is positive and names a lot of
  that product, and that lot is among the locked rows, which are rows of the database.
\<close>

definition rows_for :: "product \<Rightarrow> lot list \<Rightarrow> lot_allocation list \<Rightarrow> db \<Rightarrow> bool" where
  "rows_for product lots as s \<longleftrightarrow>
     product_key product \<in> product_key ` set (db_products s)
     \<and> lot_key ` set lots \<subseteq> lot_key ` set (db_lots s)
     \<and> (\<forall>a \<in> set as. 0 < a_quantity a \<and> a_lotId a \<in> l_id ` set lots
          \<and> (\<exists>l \<in> set (db_lots s). l_id l = a_lotId a \<and> l_productId l = p_id product))"

lemma rows_forD:
  assumes "rows_for product lots as s"
  shows "product_key product \<in> product_key ` set (db_products s)"
    and "lot_key ` set lots \<subseteq> lot_key ` set (db_lots s)"
    and "a \<in> set as \<Longrightarrow> 0 < a_quantity a"
    and "a \<in> set as \<Longrightarrow> a_lotId a \<in> l_id ` set lots"
    and "a \<in> set as \<Longrightarrow> \<exists>l \<in> set (db_lots s). l_id l = a_lotId a \<and> l_productId l = p_id product"
  using assms by (simp_all add: rows_for_def)

lemma rows_for_frame:
  assumes "rows_for product lots as s" "stock_frame s t"
  shows "rows_for product lots as t"
  unfolding rows_for_def
proof (intro conjI ballI)
  have k: "product_key ` set (db_products t) = product_key ` set (db_products s)"
       "lot_key ` set (db_lots t) = lot_key ` set (db_lots s)"
    using stock_frame_keys [OF assms(2)] by (metis list.set_map)+
  show "product_key product \<in> product_key ` set (db_products t)"
    unfolding k by (rule rows_forD(1) [OF assms(1)])
  show "lot_key ` set lots \<subseteq> lot_key ` set (db_lots t)"
    unfolding k by (rule rows_forD(2) [OF assms(1)])
next
  fix a assume a: "a \<in> set as"
  show "0 < a_quantity a" by (rule rows_forD(3) [OF assms(1) a])
  show "a_lotId a \<in> l_id ` set lots" by (rule rows_forD(4) [OF assms(1) a])
  obtain l where l: "l \<in> set (db_lots s)" "l_id l = a_lotId a" "l_productId l = p_id product"
    using rows_forD(5) [OF assms(1) a] by (elim bexE conjE)
  obtain m where "m \<in> set (db_lots t)" "l_id m = l_id l" "l_productId m = l_productId l" "l_storeId m = l_storeId l"
    by (rule stock_frame_lots [OF assms(2) l(1)])
  then show "\<exists>l \<in> set (db_lots t). l_id l = a_lotId a \<and> l_productId l = p_id product"
    using l(2,3) by (intro bexI [of _ m]) simp_all
qed

lemma lotMap_Some: "i \<in> l_id ` set lots \<Longrightarrow> \<exists>l. lotMap lots i = Some l"
  using has_row_iff_find [of l_id i "rev lots"] by (simp add: lotMap_def has_row_def)

lemma lotMap_SomeD: "lotMap lots i = Some l \<Longrightarrow> l \<in> set lots \<and> l_id l = i"
  unfolding lotMap_def by (drule find_row_SomeD) simp

lemma lot_key_unique:
  "distinct (map l_id (db_lots s)) \<Longrightarrow> lot_key m \<in> lot_key ` set (db_lots s) \<Longrightarrow>
     l \<in> set (db_lots s) \<Longrightarrow> l_id m = l_id l \<Longrightarrow> lot_key m = lot_key l"
  by (auto simp: lot_key_def distinct_map inj_on_def image_iff)

lemma both_checks:
  "P \<Longrightarrow> Q \<Longrightarrow>
     bindE (if \<not> dev then Inr () else if P then Inr () else Inl e)
       (\<lambda>_. if \<not> dev then Inr () else if Q then Inr () else Inl e') = Inr ()"
  by (cases dev) simp_all

lemma assertLotOps_ok:
  assumes rows: "rows_for product lots as s" and d: "distinct (map l_id (db_lots s))"
  shows "assertLotOps dev product lots (map a_lotId as) = Inr ()"
proof -
  have own: "l_productId m = p_id product" if a: "a \<in> set as" and m: "lotMap lots (a_lotId a) = Some m" for a m
  proof -
    have k: "m \<in> set lots" "l_id m = a_lotId a" using lotMap_SomeD [OF m] by simp_all
    obtain l where l: "l \<in> set (db_lots s)" "l_id l = a_lotId a" "l_productId l = p_id product"
      using rows_forD(5) [OF rows a] by (elim bexE conjE)
    have "lot_key m \<in> lot_key ` set (db_lots s)"
      by (rule subsetD [OF rows_forD(2) [OF rows] imageI [OF k(1)]])
    from lot_key_unique [OF d this l(1)] k(2) l(2,3) show ?thesis by (simp add: lot_key_def)
  qed
  have "\<forall>i \<in> set (map a_lotId as). i \<in> l_id ` set lots"
    using rows_forD(4) [OF rows] by simp
  moreover have "\<forall>i \<in> set (map a_lotId as).
      case lotMap lots i of None \<Rightarrow> True | Some l \<Rightarrow> l_productId l = p_id product"
    using own by (simp split: option.split)
  ultimately show ?thesis
    unfolding assertLotOps_def assertLockedLots_def assertLotsBelongToProduct_def
    by (rule both_checks)
qed

text \<open>The product update that closes an operation: it cancels the gap the loop left.\<close>

lemma close_rollup:
  assumes d: "distinct (map p_id (db_products t))" and p: "p \<in> set (db_products t)"
    and gaps: "\<forall>q \<in> p_id ` set (db_products t). stock_gap t q = (if q = p_id p then ds else 0)
                  \<and> reserved_gap t q = (if q = p_id p then dv else 0)"
    and f: "\<And>x. p_id (f x) = p_id x" "p_stock (f p) = p_stock p - ds" "p_reserved (f p) = p_reserved p - dv"
  shows "rollup_ok (t\<lparr>db_products := upd_row p_id (p_id p) f (db_products t)\<rparr>)"
proof -
  let ?u = "t\<lparr>db_products := upd_row p_id (p_id p) f (db_products t)\<rparr>"
  have "stock_gap ?u (p_id q) = 0 \<and> reserved_gap ?u (p_id q) = 0"
    if "q \<in> set (db_products ?u)" for q
  proof -
    have "p_id q \<in> p_id ` set (db_products t)"
      using that f(1) by (force simp: in_upd_row)
    with gaps have g: "stock_gap t (p_id q) = (if p_id q = p_id p then ds else 0)"
      "reserved_gap t (p_id q) = (if p_id q = p_id p then dv else 0)" by blast+
    show ?thesis
      using stock_gap_product [OF d p, of f "p_id q"] f g by simp
  qed
  then show ?thesis by (simp add: rollup_ok_def)
qed

lemma lots_inv_products:
  assumes "lots_inv h t" "\<And>p. p_id (f p) = p_id p"
  shows "lots_inv h (t\<lparr>db_products := upd_row p_id i f (db_products t)\<rparr>)"
  using assms by (simp add: lots_inv_def map_upd_row)

lemma product_update_in:
  "p \<in> set (db_products s) \<Longrightarrow>
     product_update (p_id p) f s = Inr (s\<lparr>db_products := upd_row p_id (p_id p) f (db_products s)\<rparr>)"
  by (auto simp: product_update_Inr_iff has_row_def)

lemma product_updateMany_in:
  assumes "distinct (map p_id (db_products s))" "p \<in> set (db_products s)" "Q p"
  shows "product_updateMany (\<lambda>x. p_id x = p_id p \<and> Q x) f s
           = (1, s\<lparr>db_products := upd_row p_id (p_id p) f (db_products s)\<rparr>)"
  using updateMany_rows_key [of p_id "db_products s" p "p_id p" Q f] assms
  by (simp add: product_updateMany_def)

lemma rows_for_product:
  assumes "rows_for product lots as s"
  obtains p where "p \<in> set (db_products s)" "p_id p = p_id product" "p_storeId p = p_storeId product"
  using assms by (auto simp: rows_for_def product_key_def)

text \<open>
  After a loop, the product row still carries the loop's total above the sums over its lots; the
  guards of the closing \<open>updateMany\<close> follow.
\<close>

lemma after_loop:
  assumes s: "stock_inv h s" and t: "lots_inv h' t" "db_products t = db_products s"
    and gaps: "\<forall>q. stock_gap t q = stock_gap s q - (if q = pid then ds else 0)"
      "\<forall>q. reserved_gap t q = reserved_gap s q - (if q = pid then dv else 0)"
    and p: "p \<in> set (db_products s)" "p_id p = pid"
  shows "distinct (map p_id (db_products t))" "p \<in> set (db_products t)"
    "\<forall>q \<in> p_id ` set (db_products t). stock_gap t q = (if q = p_id p then - ds else 0)
        \<and> reserved_gap t q = (if q = p_id p then - dv else 0)"
    "p_stock p = sum_rows (active_remaining pid) (db_lots t) - ds"
    "p_reserved p = sum_rows (active_reserved pid) (db_lots t) - dv"
proof -
  show d: "distinct (map p_id (db_products t))" and pt: "p \<in> set (db_products t)"
    using t p by (auto simp: lots_inv_def)
  show g: "\<forall>q \<in> p_id ` set (db_products t). stock_gap t q = (if q = p_id p then - ds else 0)
      \<and> reserved_gap t q = (if q = p_id p then - dv else 0)"
    using s gaps t(2) p(2) by (auto simp: stock_inv_def rollup_ok_def)
  have "stock_gap t (p_id p) = - ds" "reserved_gap t (p_id p) = - dv" using g pt by auto
  then show "p_stock p = sum_rows (active_remaining pid) (db_lots t) - ds"
    "p_reserved p = sum_rows (active_reserved pid) (db_lots t) - dv"
    using sum_product_stock [OF d pt] sum_product_reserved [OF d pt] p(2)
    by (simp_all add: stock_gap_def reserved_gap_def)
qed

text \<open>The common shape of the four contracts: a success that leaves the invariant.\<close>

definition engine_post ::
  "(lot \<Rightarrow> int) \<Rightarrow> (ident \<Rightarrow> int) \<Rightarrow> lot_allocation list \<Rightarrow> db \<Rightarrow> db \<Rightarrow> bool" where
  "engine_post cap h' as s t \<longleftrightarrow>
     stock_inv h' t \<and> stock_frame s t
     \<and> (\<forall>y \<in> set (db_lots t). \<exists>x \<in> set (db_lots s).
          lot_key y = lot_key x \<and> cap y = cap x - alloc_qty as (l_id x))"

lemma engine_close:
  assumes s: "stock_inv h s" and rows: "rows_for product lots as s"
    and loop: "\<exists>t. forE as step s = Inr t \<and> lots_inv (\<lambda>i. h i + dh * alloc_qty as i) t
      \<and> stock_frame s t \<and> db_products t = db_products s
      \<and> (\<forall>p. stock_gap t p = stock_gap s p - (if p = p_id product then dr * alloc_total as else 0))
      \<and> (\<forall>p. reserved_gap t p = reserved_gap s p - (if p = p_id product then dh * alloc_total as else 0))
      \<and> (\<forall>y \<in> set (db_lots t). \<exists>x \<in> set (db_lots s).
            lot_key y = lot_key x \<and> cap y = cap x - alloc_qty as (l_id x))"
  obtains t p where "forE as step s = Inr t" "lots_inv (\<lambda>i. h i + dh * alloc_qty as i) t"
    "p \<in> set (db_products t)" "p_id p = p_id product" "p_storeId p = p_storeId product"
    "p_stock p = sum_rows (active_remaining (p_id product)) (db_lots t) - dr * alloc_total as"
    "p_reserved p = sum_rows (active_reserved (p_id product)) (db_lots t) - dh * alloc_total as"
    "\<And>f. (\<And>x. product_key (f x) = product_key x) \<Longrightarrow> p_stock (f p) = p_stock p + dr * alloc_total as \<Longrightarrow>
       p_reserved (f p) = p_reserved p + dh * alloc_total as \<Longrightarrow>
       engine_post cap (\<lambda>i. h i + dh * alloc_qty as i) as s
         (t\<lparr>db_products := upd_row p_id (p_id p) f (db_products t)\<rparr>)"
proof -
  obtain t where t: "forE as step s = Inr t" "lots_inv (\<lambda>i. h i + dh * alloc_qty as i) t"
    "stock_frame s t" "db_products t = db_products s"
    "\<forall>p. stock_gap t p = stock_gap s p - (if p = p_id product then dr * alloc_total as else 0)"
    "\<forall>p. reserved_gap t p = reserved_gap s p - (if p = p_id product then dh * alloc_total as else 0)"
    "\<forall>y \<in> set (db_lots t). \<exists>x \<in> set (db_lots s).
       lot_key y = lot_key x \<and> cap y = cap x - alloc_qty as (l_id x)"
    using loop by (elim exE conjE)
  obtain p where p: "p \<in> set (db_products s)" "p_id p = p_id product" "p_storeId p = p_storeId product"
    by (rule rows_for_product [OF rows])
  note al = after_loop [OF s t(2,4,5,6) p(1,2)]
  have post: "engine_post cap (\<lambda>i. h i + dh * alloc_qty as i) as s
      (t\<lparr>db_products := upd_row p_id (p_id p) f (db_products t)\<rparr>)"
    if f: "\<And>x. product_key (f x) = product_key x" "p_stock (f p) = p_stock p + dr * alloc_total as"
      "p_reserved (f p) = p_reserved p + dh * alloc_total as" for f
  proof -
    have key: "p_id (f x) = p_id x" for x using f(1) [of x] by (simp add: product_key_def)
    have "rollup_ok (t\<lparr>db_products := upd_row p_id (p_id p) f (db_products t)\<rparr>)"
      by (rule close_rollup [OF al(1-3)]) (simp_all add: key f)
    moreover have "lots_inv (\<lambda>i. h i + dh * alloc_qty as i)
        (t\<lparr>db_products := upd_row p_id (p_id p) f (db_products t)\<rparr>)"
      by (rule lots_inv_products [OF t(2) key])
    ultimately show ?thesis
      using t(7) stock_frame_trans [OF t(3) product_frame_upd [of f, OF f(1)]]
      by (simp add: engine_post_def stock_inv_def)
  qed
  show ?thesis by (rule that [OF t(1,2) al(2) p(2,3) al(4,5) post])
qed

lemma rows_for_loop:
  "rows_for product lots as s \<Longrightarrow>
     \<forall>a \<in> set as. 0 < a_quantity a
       \<and> (\<exists>l \<in> set (db_lots s). l_id l = a_lotId a \<and> l_productId l = p_id product \<and> True)"
  by (auto simp: rows_for_def)

lemma reserve_ok:
  assumes s: "stock_inv h s" and rows: "rows_for product lots as s"
    and cap: "\<forall>l \<in> set (db_lots s). alloc_qty as (l_id l) \<le> free_units l"
  shows "\<exists>t. reserve dev product lots as s = Inr t
           \<and> engine_post free_units (\<lambda>i. h i + alloc_qty as i) as s t"
proof -
  have inv: "lots_inv h s" using s by (simp add: stock_inv_def)
  obtain t p where t: "forE as reserve_lot s = Inr t" "p \<in> set (db_products t)" "p_id p = p_id product"
    and post: "\<And>f. (\<And>x. product_key (f x) = product_key x) \<Longrightarrow> p_stock (f p) = p_stock p + 0 * alloc_total as \<Longrightarrow>
       p_reserved (f p) = p_reserved p + 1 * alloc_total as \<Longrightarrow>
       engine_post free_units (\<lambda>i. h i + 1 * alloc_qty as i) as s
         (t\<lparr>db_products := upd_row p_id (p_id p) f (db_products t)\<rparr>)"
    by (rule engine_close [OF s rows reserve_loop.loop_ok [OF inv rows_for_loop [OF rows] cap]]) blast
  then show ?thesis
    using assertLotOps_ok [OF rows] lots_inv_distinct(1) [OF inv]
      product_update_in [OF t(2), of "\<lambda>p. p\<lparr>p_reserved := p_reserved p + alloc_total as\<rparr>"]
      post [of "\<lambda>p. p\<lparr>p_reserved := p_reserved p + alloc_total as\<rparr>"]
    by (simp add: reserve_def product_key_def)
qed

lemma release_ok:
  assumes s: "stock_inv h s" and rows: "rows_for product lots as s" and cap: "\<forall>l \<in> set (db_lots s). alloc_qty as (l_id l) \<le> l_quantityReserved l"
  shows "\<exists>t. release dev product lots as s = Inr t
           \<and> engine_post l_quantityReserved (\<lambda>i. h i - alloc_qty as i) as s t"
proof -
  have inv: "lots_inv h s" using s by (simp add: stock_inv_def)
  obtain t p where t: "forE as release_lot s = Inr t" "lots_inv (\<lambda>i. h i + - 1 * alloc_qty as i) t"
      "p \<in> set (db_products t)" "p_id p = p_id product" "p_storeId p = p_storeId product"
      "p_reserved p = sum_rows (active_reserved (p_id product)) (db_lots t) - - 1 * alloc_total as"
    and post: "\<And>f. (\<And>x. product_key (f x) = product_key x) \<Longrightarrow> p_stock (f p) = p_stock p + 0 * alloc_total as \<Longrightarrow>
       p_reserved (f p) = p_reserved p + - 1 * alloc_total as \<Longrightarrow>
       engine_post l_quantityReserved (\<lambda>i. h i + - 1 * alloc_qty as i) as s
         (t\<lparr>db_products := upd_row p_id (p_id p) f (db_products t)\<rparr>)"
    by (rule engine_close [OF s rows release_loop.loop_ok
          [OF inv rows_for_loop [OF rows] cap]]) blast
  have "p_reserved p \<ge> alloc_total as"
    using t(6) lots_inv_sums_nonneg(2) [OF t(2)] by simp
  then have "product_updateMany (\<lambda>p. p_id p = p_id product \<and> p_storeId p = p_storeId product
        \<and> p_reserved p \<ge> alloc_total as) f t
      = (1, t\<lparr>db_products := upd_row p_id (p_id p) f (db_products t)\<rparr>)" for f
    using product_updateMany_in [OF lots_inv_distinct(2) [OF t(2)] t(3),
        of "\<lambda>x. p_storeId x = p_storeId product \<and> p_reserved x \<ge> alloc_total as"] t(4,5) by simp
  then show ?thesis
    using t(1) assertLotOps_ok [OF rows] lots_inv_distinct(1) [OF inv]
      post [of "\<lambda>p. p\<lparr>p_reserved := p_reserved p - alloc_total as\<rparr>"]
    by (simp add: release_def product_key_def Let_def)
qed

lemma consumeReserved_ok:
  assumes s: "stock_inv h s" and rows: "rows_for product lots as s" and cap: "\<forall>l \<in> set (db_lots s). alloc_qty as (l_id l) \<le> l_quantityReserved l"
  shows "\<exists>t. consumeReserved dev product lots as s = Inr t
           \<and> engine_post l_quantityReserved (\<lambda>i. h i - alloc_qty as i) as s t"
proof -
  have inv: "lots_inv h s" using s by (simp add: stock_inv_def)
  obtain t p where t: "forE as consumeReserved_lot s = Inr t" "lots_inv (\<lambda>i. h i + - 1 * alloc_qty as i) t"
      "p \<in> set (db_products t)" "p_id p = p_id product" "p_storeId p = p_storeId product"
      "p_stock p = sum_rows (active_remaining (p_id product)) (db_lots t) - - 1 * alloc_total as"
      "p_reserved p = sum_rows (active_reserved (p_id product)) (db_lots t) - - 1 * alloc_total as"
    and post: "\<And>f. (\<And>x. product_key (f x) = product_key x) \<Longrightarrow> p_stock (f p) = p_stock p + - 1 * alloc_total as \<Longrightarrow>
       p_reserved (f p) = p_reserved p + - 1 * alloc_total as \<Longrightarrow>
       engine_post l_quantityReserved (\<lambda>i. h i + - 1 * alloc_qty as i) as s
         (t\<lparr>db_products := upd_row p_id (p_id p) f (db_products t)\<rparr>)"
    by (rule engine_close [OF s rows consumeReserved_loop.loop_ok
          [OF inv rows_for_loop [OF rows] cap]]) blast
  have "p_reserved p \<ge> alloc_total as" "p_stock p \<ge> alloc_total as"
    using t(6,7) lots_inv_sums_nonneg [OF t(2)] by simp_all
  then have "product_updateMany (\<lambda>p. p_id p = p_id product \<and> p_storeId p = p_storeId product
        \<and> p_reserved p \<ge> alloc_total as \<and> p_stock p \<ge> alloc_total as) f t
      = (1, t\<lparr>db_products := upd_row p_id (p_id p) f (db_products t)\<rparr>)" for f
    using product_updateMany_in [OF lots_inv_distinct(2) [OF t(2)] t(3),
        of "\<lambda>x. p_storeId x = p_storeId product \<and> p_reserved x \<ge> alloc_total as \<and> p_stock x \<ge> alloc_total as"]
      t(4,5) by simp
  then show ?thesis
    using t(1) assertLotOps_ok [OF rows] lots_inv_distinct(1) [OF inv]
      post [of "\<lambda>p. p\<lparr>p_stock := p_stock p - alloc_total as, p_reserved := p_reserved p - alloc_total as\<rparr>"]
    by (simp add: consumeReserved_def product_key_def Let_def)
qed

text \<open>
  The two forms of \<open>consumeDirect\<close> take free units, so they leave the demand as it is. The claim of
  the last chance at payment also insists on the lot's store.
\<close>

lemma claim_guard:
  assumes "lots_inv h t"
  shows "sum_rows (active_reserved pid) (db_lots t) \<le> sum_rows (active_remaining pid) (db_lots t)"
  using assms
  by (intro sum_rows_mono) (auto simp: lots_inv_def lot_ok_def active_remaining_def active_reserved_def)

lemma consumeDirect_claim_ok:
  assumes s: "stock_inv h s" and rows: "rows_for product lots as s"
    and store: "\<forall>l \<in> set (db_lots s). l_productId l = p_id product \<longrightarrow> l_storeId l = p_storeId product"
    and cap: "\<forall>l \<in> set (db_lots s). alloc_qty as (l_id l) \<le> free_units l"
  shows "\<exists>t. consumeDirect dev product lots as True s = Inr t \<and> engine_post free_units h as s t"
proof -
  have inv: "lots_inv h s" using s by (simp add: stock_inv_def)
  have adm: "\<forall>a \<in> set as. 0 < a_quantity a \<and> (\<exists>l \<in> set (db_lots s). l_id l = a_lotId a
      \<and> l_productId l = p_id product \<and> (case lot_key l of (_, _, st) \<Rightarrow> st = p_storeId product))"
    using rows_forD(3,5) [OF rows] store by (fastforce simp: lot_key_def)
  obtain t p where t: "forE as (claim_lot product) s = Inr t" "lots_inv (\<lambda>i. h i + 0 * alloc_qty as i) t"
      "p \<in> set (db_products t)" "p_id p = p_id product" "p_storeId p = p_storeId product"
      "p_stock p = sum_rows (active_remaining (p_id product)) (db_lots t) - - 1 * alloc_total as"
      "p_reserved p = sum_rows (active_reserved (p_id product)) (db_lots t) - 0 * alloc_total as"
    and post: "\<And>f. (\<And>x. product_key (f x) = product_key x) \<Longrightarrow> p_stock (f p) = p_stock p + - 1 * alloc_total as \<Longrightarrow>
       p_reserved (f p) = p_reserved p + 0 * alloc_total as \<Longrightarrow>
       engine_post free_units (\<lambda>i. h i + 0 * alloc_qty as i) as s
         (t\<lparr>db_products := upd_row p_id (p_id p) f (db_products t)\<rparr>)"
    by (rule engine_close [OF s rows claim_loop.loop_ok [OF inv adm cap]]) blast
  have "p_stock p - p_reserved p \<ge> alloc_total as"
    using t(6,7) claim_guard [OF t(2), of "p_id product"] by simp
  then have "product_updateMany (\<lambda>p. p_id p = p_id product \<and> p_storeId p = p_storeId product
        \<and> p_stock p - p_reserved p \<ge> alloc_total as) f t
      = (1, t\<lparr>db_products := upd_row p_id (p_id p) f (db_products t)\<rparr>)" for f
    using product_updateMany_in [OF lots_inv_distinct(2) [OF t(2)] t(3),
        of "\<lambda>x. p_storeId x = p_storeId product \<and> p_stock x - p_reserved x \<ge> alloc_total as"] t(4,5) by simp
  then show ?thesis
    using t(1) assertLotOps_ok [OF rows] lots_inv_distinct(1) [OF inv]
      post [of "\<lambda>p. p\<lparr>p_stock := p_stock p - alloc_total as\<rparr>"]
    by (simp add: consumeDirect_def product_key_def Let_def)
qed

lemma consumeDirect_offline_ok:
  assumes s: "stock_inv h s" and rows: "rows_for product lots as s"
    and cap: "\<forall>l \<in> set (db_lots s). alloc_qty as (l_id l) \<le> free_units l"
  shows "\<exists>t. consumeDirect dev product lots as False s = Inr t \<and> engine_post free_units h as s t"
proof -
  have inv: "lots_inv h s" using s by (simp add: stock_inv_def)
  have "lotMap lots (a_lotId a) \<noteq> None" if "a \<in> set as" for a
    using lotMap_Some [OF rows_forD(4) [OF rows that]] by auto
  then have adm: "\<forall>a \<in> set as. 0 < a_quantity a \<and> (\<exists>l \<in> set (db_lots s). l_id l = a_lotId a
      \<and> l_productId l = p_id product \<and> (case lot_key l of (i, _, _) \<Rightarrow> lotMap lots i \<noteq> None))"
    using rows_forD(3,5) [OF rows] by (fastforce simp: lot_key_def)
  obtain t p where t: "forE as (consumeDirect_lot lots) s = Inr t"
      "p \<in> set (db_products t)" "p_id p = p_id product"
    and post: "\<And>f. (\<And>x. product_key (f x) = product_key x) \<Longrightarrow> p_stock (f p) = p_stock p + - 1 * alloc_total as \<Longrightarrow>
       p_reserved (f p) = p_reserved p + 0 * alloc_total as \<Longrightarrow>
       engine_post free_units (\<lambda>i. h i + 0 * alloc_qty as i) as s
         (t\<lparr>db_products := upd_row p_id (p_id p) f (db_products t)\<rparr>)"
    by (rule engine_close [OF s rows direct_loop.loop_ok [OF inv adm cap]]) blast
  then show ?thesis
    using assertLotOps_ok [OF rows] lots_inv_distinct(1) [OF inv]
      product_update_in [OF t(2), of "\<lambda>p. p\<lparr>p_stock := p_stock p - alloc_total as\<rparr>"]
      post [of "\<lambda>p. p\<lparr>p_stock := p_stock p - alloc_total as\<rparr>"]
    by (simp add: consumeDirect_def product_key_def)
qed

section \<open>Operations over the lines of a cart\<close>

text \<open>
  A service calls an engine operation once per line. Whatever the operation does to the demand, the
  loop over the lines does it for their concatenation, provided the lots can bear all lines
  together; the rows locked before the loop stay usable during it.
\<close>

locale cart_op =
  fixes op :: "product \<Rightarrow> lot list \<Rightarrow> lot_allocation list \<Rightarrow> db \<Rightarrow> db result"
    and cap :: "lot \<Rightarrow> int"
    and dh :: int
  assumes op_ok:
    "stock_inv h s \<Longrightarrow> rows_for p lots as s \<Longrightarrow> \<forall>l \<in> set (db_lots s). alloc_qty as (l_id l) \<le> cap l \<Longrightarrow>
       \<exists>t. op p lots as s = Inr t \<and> engine_post cap (\<lambda>i. h i + dh * alloc_qty as i) as s t"
begin

lemma lines_ok:
  "stock_inv h s \<Longrightarrow> \<forall>x \<in> set xs. rows_for (pr x) lots (al x) s \<Longrightarrow>
     \<forall>l \<in> set (db_lots s). alloc_qty (concat (map al xs)) (l_id l) \<le> cap l \<Longrightarrow>
     \<forall>x \<in> set xs. \<forall>s. step x s = op (pr x) lots (al x) s \<Longrightarrow>
     \<exists>t. forE xs step s = Inr t \<and> stock_inv (\<lambda>i. h i + dh * alloc_qty (concat (map al xs)) i) t
       \<and> stock_frame s t"
proof (induction xs arbitrary: h s)
  case Nil
  then show ?case by simp
next
  case (Cons x xs)
  have pos: "\<forall>y \<in> set xs. \<forall>a \<in> set (al y). 0 < a_quantity a"
    using Cons.prems(2) rows_forD(3) by (metis list.set_intros(2))
  have "0 \<le> alloc_qty (concat (map al xs)) i" for i
    by (rule alloc_qty_nonneg) (use pos in \<open>auto intro: less_imp_le\<close>)
  then have "\<forall>l \<in> set (db_lots s). alloc_qty (al x) (l_id l) \<le> cap l"
    using Cons.prems(3) by (fastforce intro: order_trans [rotated])
  then obtain t where t: "op (pr x) lots (al x) s = Inr t"
      "engine_post cap (\<lambda>i. h i + dh * alloc_qty (al x) i) (al x) s t"
    using op_ok [OF Cons.prems(1), of "pr x" lots "al x"] Cons.prems(2) by auto
  then have inv: "stock_inv (\<lambda>i. h i + dh * alloc_qty (al x) i) t" and frame: "stock_frame s t"
    and caps: "\<forall>y \<in> set (db_lots t). \<exists>z \<in> set (db_lots s).
        lot_key y = lot_key z \<and> cap y = cap z - alloc_qty (al x) (l_id z)"
    by (simp_all add: engine_post_def)
  have "\<forall>l \<in> set (db_lots t). alloc_qty (concat (map al xs)) (l_id l) \<le> cap l"
  proof
    fix y assume "y \<in> set (db_lots t)"
    then obtain z where z: "z \<in> set (db_lots s)" "lot_key y = lot_key z" "cap y = cap z - alloc_qty (al x) (l_id z)"
      using caps by blast
    then have "alloc_qty (concat (map al (x # xs))) (l_id z) \<le> cap z" using Cons.prems(3) by blast
    then show "alloc_qty (concat (map al xs)) (l_id y) \<le> cap y" using z by (simp add: lot_key_def)
  qed
  moreover have "\<forall>y \<in> set xs. rows_for (pr y) lots (al y) t"
    using Cons.prems(2) rows_for_frame [OF _ frame] by simp
  moreover have "\<forall>y \<in> set xs. \<forall>s. step y s = op (pr y) lots (al y) s" using Cons.prems(4) by simp
  ultimately obtain u where u: "forE xs step t = Inr u"
      "stock_inv (\<lambda>i. h i + dh * alloc_qty (al x) i + dh * alloc_qty (concat (map al xs)) i) u" "stock_frame t u"
    using Cons.IH [OF inv] by blast
  have "(\<lambda>i. h i + dh * alloc_qty (al x) i + dh * alloc_qty (concat (map al xs)) i)
      = (\<lambda>i. h i + dh * alloc_qty (concat (map al (x # xs))) i)"
    by (simp add: algebra_simps)
  then show ?case
    using t(1) u Cons.prems(4) stock_frame_trans [OF frame u(3)] by simp
qed

end

interpretation reserve_cart: cart_op "reserve dev" free_units 1 for dev
  by unfold_locales (use reserve_ok in simp)

interpretation release_cart: cart_op "release dev" l_quantityReserved "-1" for dev
  by unfold_locales (use release_ok in simp)

interpretation consumeReserved_cart: cart_op "consumeReserved dev" l_quantityReserved "-1" for dev
  by unfold_locales (use consumeReserved_ok in simp)

interpretation consumeDirect_cart: cart_op "\<lambda>p lots as. consumeDirect dev p lots as False" free_units 0 for dev
  by unfold_locales (use consumeDirect_offline_ok in simp)

end
