(* ===== verification/Fefo.thy ===== *)
theory Fefo
  imports Stock_Contracts "HOL-Library.Sublist"
begin

text \<open>
  Correctness of \<open>allocateFefo\<close> (\<open>stockEngine.ts\<close>): it succeeds exactly when the working lots hold
  enough free units, what it takes from the i-th lot is the closed form of the first-expired
  first-out rule, and the allocations it returns are positive and sum to the request.
\<close>

section \<open>The greedy loop\<close>

definition avail :: "working_lot \<Rightarrow> int" where
  "avail w = max 0 (workingLotAvailable w)"

text \<open>
  The rule: a lot gives what is still wanted after every lot that expires earlier has given all it
  has, up to what it has itself.
\<close>

definition fefo_share :: "working_lot list \<Rightarrow> int \<Rightarrow> nat \<Rightarrow> int" where
  "fefo_share ws q i =
     max 0 (min (avail (ws ! i)) (q - sum_list (map avail (take i ws))))"

lemma totalAvailable_avail: "totalAvailable ws = sum_list (map avail ws)"
  by (simp add: totalAvailable_def avail_def [abs_def])

lemma avail_nonneg [simp]: "0 \<le> avail w"
  by (simp add: avail_def)

lemma sum_avail_nonneg [simp]: "0 \<le> sum_list (map avail ws)"
  by (induction ws) (auto intro: add_nonneg_nonneg)

lemma avail_take:
  "0 \<le> t \<Longrightarrow> t \<le> avail w \<Longrightarrow> avail (w\<lparr>wl_taken := wl_taken w + t\<rparr>) = avail w - t"
  by (auto simp: avail_def workingLotAvailable_def)

text \<open>One iteration, with the skipped lot as a take of zero.\<close>

definition allocation_of :: "working_lot \<Rightarrow> int \<Rightarrow> lot_allocation" where
  "allocation_of w t =
     \<lparr>a_lotId = l_id (wl_lot w), a_quantity = t, a_unitCost = l_unitCost (wl_lot w)\<rparr>"

lemma allocation_of_sel [simp]:
  "a_lotId (allocation_of w t) = l_id (wl_lot w)" "a_quantity (allocation_of w t) = t"
  "a_unitCost (allocation_of w t) = l_unitCost (wl_lot w)"
  by (simp_all add: allocation_of_def)

lemma fefo_loop_done: "q \<le> 0 \<Longrightarrow> fefo_loop ws q = ([], ws, q)"
  by (cases ws) auto

lemma fefo_loop_Cons_pos:
  assumes "0 < q" "t = min q (avail w)" "fefo_loop ws (q - t) = (as, ws', r)"
  shows "fefo_loop (w # ws) q =
     ((if 0 < t then [allocation_of w t] else []) @ as, w\<lparr>wl_taken := wl_taken w + t\<rparr> # ws', r)"
proof (cases "avail w = 0")
  case True
  with assms have t: "t = 0" by simp
  have "max 0 (workingLotAvailable w) = 0" using True by (simp add: avail_def)
  then show ?thesis using assms t by (simp add: Let_def)
next
  case False
  then have "0 < t" "max 0 (workingLotAvailable w) = avail w" "0 < avail w"
    using assms avail_nonneg [of w] by (auto simp: avail_def)
  then show ?thesis using assms by (simp add: Let_def allocation_of_def)
qed

lemma fefo_loop_cases:
  assumes "fefo_loop (w # ws) q = (as, ws', r)" "0 < q"
  obtains t as1 ws1 where "t = min q (avail w)" "0 \<le> t" "fefo_loop ws (q - t) = (as1, ws1, r)"
    "as = (if 0 < t then [allocation_of w t] else []) @ as1"
    "ws' = w\<lparr>wl_taken := wl_taken w + t\<rparr> # ws1"
proof -
  obtain as1 ws1 r1 where l: "fefo_loop ws (q - min q (avail w)) = (as1, ws1, r1)"
    by (metis prod_cases3)
  show ?thesis
    by (rule that [of "min q (avail w)" as1 ws1])
      (use fefo_loop_Cons_pos [OF assms(2) refl l] assms l in auto)
qed

lemma fefo_share_done: "q \<le> 0 \<Longrightarrow> fefo_share ws q i = 0"
  using sum_avail_nonneg [of "take i ws"]
  unfolding fefo_share_def by (intro max_absorb1 min.coboundedI2) linarith

lemma fefo_share_Cons_0: "0 \<le> q \<Longrightarrow> fefo_share (w # ws) q 0 = min q (avail w)"
  by (simp add: fefo_share_def min.commute max_absorb2)

lemma fefo_share_Cons_Suc:
  "0 < q \<Longrightarrow> fefo_share (w # ws) q (Suc j) = fefo_share ws (q - min q (avail w)) j"
proof (cases "q \<le> avail w")
  case True
  have "q - (avail w + sum_list (map avail (take j ws))) \<le> 0"
    using True sum_avail_nonneg [of "take j ws"] by linarith
  then have "fefo_share (w # ws) q (Suc j) = 0"
    unfolding fefo_share_def by (intro max_absorb1 min.coboundedI2) simp
  then show ?thesis using True fefo_share_done [of 0] by simp
next
  case False
  then show ?thesis by (simp add: fefo_share_def algebra_simps)
qed

text \<open>Everything the loop promises, by one induction.\<close>

lemma fefo_loop_spec:
  "fefo_loop ws q = (as, ws', r) \<Longrightarrow> 0 \<le> q \<Longrightarrow>
     r = max 0 (q - totalAvailable ws) \<and> alloc_total as = q - r
     \<and> map wl_lot ws' = map wl_lot ws \<and> length ws' = length ws
     \<and> (\<forall>a \<in> set as. 0 < a_quantity a \<and> (\<exists>w \<in> set ws. a = allocation_of w (a_quantity a)))
     \<and> subseq (map a_lotId as) (map (l_id \<circ> wl_lot) ws)
     \<and> (\<forall>i < length ws. wl_taken (ws' ! i) = wl_taken (ws ! i) + fefo_share ws q i)"
proof (induction ws arbitrary: q as ws')
  case Nil
  then show ?case by (simp add: totalAvailable_def)
next
  case (Cons w ws)
  show ?case
  proof (cases "q \<le> 0")
    case True
    then have q: "q = 0" using Cons.prems by simp
    then show ?thesis
      using Cons.prems fefo_share_done [of 0 "w # ws"] sum_avail_nonneg [of "w # ws"]
      by (simp add: totalAvailable_avail)
  next
    case False
    obtain t as1 ws1 where t: "t = min q (avail w)" "0 \<le> t" "fefo_loop ws (q - t) = (as1, ws1, r)"
      "as = (if 0 < t then [allocation_of w t] else []) @ as1" "ws' = w\<lparr>wl_taken := wl_taken w + t\<rparr> # ws1"
      by (rule fefo_loop_cases [OF Cons.prems(1)]) (use False in simp)
    have qt: "0 \<le> q - t" using t(1) by simp
    note IH = Cons.IH [OF t(3) qt]
    have "r = max 0 (q - totalAvailable (w # ws))"
    proof -
      have "r = max 0 (q - t - sum_list (map avail ws))" using IH by (simp add: totalAvailable_avail)
      then show ?thesis
        using t(1) sum_avail_nonneg [of ws] unfolding totalAvailable_avail list.map sum_list.Cons by linarith
    qed
    moreover have "alloc_total as = q - r" using IH t(2,4) by simp
    moreover have "map wl_lot ws' = map wl_lot (w # ws)" "length ws' = length (w # ws)"
      using IH t(5) by simp_all
    moreover have "\<forall>a \<in> set as. 0 < a_quantity a \<and> (\<exists>x \<in> set (w # ws). a = allocation_of x (a_quantity a))"
      using IH t(4) by auto
    moreover have "subseq (map a_lotId as) (map (l_id \<circ> wl_lot) (w # ws))"
      using IH t(4) by (cases "0 < t") (simp_all add: comp_def list_emb_Cons)
    moreover have "wl_taken (ws' ! i) = wl_taken ((w # ws) ! i) + fefo_share (w # ws) q i"
      if "i < length (w # ws)" for i
      using IH that False t(1,5) by (cases i) (simp_all add: fefo_share_Cons_0 fefo_share_Cons_Suc)
    ultimately show ?thesis by blast
  qed
qed

lemma alloc_of_taken:
  assumes "fefo_loop ws q = (as, ws', r)" "distinct (map (l_id \<circ> wl_lot) ws)" "i < length ws"
  shows "alloc_qty as (l_id (wl_lot (ws ! i))) = wl_taken (ws' ! i) - wl_taken (ws ! i)"
  using assms
proof (induction ws arbitrary: q as ws' i)
  case (Cons w ws)
  show ?case
  proof (cases "q \<le> 0")
    case True
    then show ?thesis using Cons.prems by simp
  next
    case False
    obtain t as1 ws1 where t: "t = min q (avail w)" "0 \<le> t" "fefo_loop ws (q - t) = (as1, ws1, r)"
      "as = (if 0 < t then [allocation_of w t] else []) @ as1" "ws' = w\<lparr>wl_taken := wl_taken w + t\<rparr> # ws1"
      by (rule fefo_loop_cases [OF Cons.prems(1)]) (use False in simp)
    have ids: "a_lotId ` set as1 \<subseteq> (l_id \<circ> wl_lot) ` set ws"
    proof
      fix i assume "i \<in> a_lotId ` set as1"
      then obtain a where "a \<in> set as1" "i = a_lotId a" by blast
      moreover have "\<forall>a \<in> set as1. 0 < a_quantity a \<and> (\<exists>w \<in> set ws. a = allocation_of w (a_quantity a))"
        using fefo_loop_spec [OF t(3)] t(1) by simp
      ultimately obtain x where "x \<in> set ws" "a = allocation_of x (a_quantity a)" by blast
      then show "i \<in> (l_id \<circ> wl_lot) ` set ws"
        using \<open>i = a_lotId a\<close> allocation_of_sel(1) [of x "a_quantity a"] by simp
    qed
    show ?thesis
    proof (cases i)
      case 0
      have "alloc_qty as1 (l_id (wl_lot w)) = 0"
        unfolding alloc_qty_def
      proof (rule sum_rows_zero)
        fix a assume "a \<in> set as1"
        then have "a_lotId a \<in> (l_id \<circ> wl_lot) ` set ws" using ids by blast
        then show "(if a_lotId a = l_id (wl_lot w) then a_quantity a else 0) = 0"
          using Cons.prems(2) by auto
      qed
      then show ?thesis using t(2,4,5) 0 by auto
    next
      case (Suc j)
      then have "l_id (wl_lot w) \<noteq> l_id (wl_lot (ws ! j))" using Cons.prems(2,3) by (auto simp: image_iff)
      then show ?thesis using Cons.IH [OF t(3), of j] Cons.prems(2,3) t(4,5) Suc by auto
    qed
  qed
qed simp

section \<open>The allocation\<close>

lemma allocateFefo_strict:
  assumes "0 \<le> q"
  shows "allocateFefo False ws q =
    (if ws \<noteq> [] \<and> q \<le> totalAvailable ws
     then Inr (fst (fefo_loop ws q), fst (snd (fefo_loop ws q))) else Inl insufficient)"
proof -
  obtain as ws' r where l: "fefo_loop ws q = (as, ws', r)" by (metis prod_cases3)
  then show ?thesis
    using conjunct1 [OF fefo_loop_spec [OF l assms]] by (auto simp: allocateFefo_def)
qed

end
