(* ===== verification/Stock_Lots.thy ===== *)
theory Stock_Lots
  imports Fefo
begin

text \<open>
  Contracts of the engine operations that work on one lot (\<open>addLot\<close>, \<open>createProductRow\<close>,
  \<open>removeFromLot\<close>, \<open>setLotRemaining\<close>, \<open>leaveSellableRollup\<close>, \<open>recallDepleteLot\<close>,
  \<open>returnToSellableRollup\<close>) and of \<open>restockToLots\<close>: what each needs of the lot it is given, and
  that it keeps \<open>stock_inv\<close>.
\<close>

section \<open>One lot and its product\<close>

text \<open>
  The common core: a lot row is replaced, and the product's counters move by what the lot's
  contribution to the rollup moved.
\<close>

lemma one_lot_inv:
  assumes s: "stock_inv h s" and l: "l \<in> set (db_lots s)"
    and f: "l_id (f l) = l_id l" "l_productId (f l) = l_productId l" "lot_ok (f l)"
      "l_quantityReserved (f l) = l_quantityReserved l"
      "active_reserved (l_productId l) (f l) = active_reserved (l_productId l) l"
    and p: "p \<in> set (db_products s)" "p_id p = l_productId l"
    and g: "\<And>x. p_id (g x) = p_id x" "p_reserved (g p) = p_reserved p"
      "p_stock (g p) = p_stock p + active_remaining (l_productId l) (f l) - active_remaining (l_productId l) l"
  shows "stock_inv h (s\<lparr>db_lots := upd_row l_id (l_id l) f (db_lots s),
                        db_products := upd_row p_id (p_id p) g (db_products s)\<rparr>)"
proof -
  let ?t = "s\<lparr>db_lots := upd_row l_id (l_id l) f (db_lots s)\<rparr>"
  have inv: "lots_inv h s" and roll: "rollup_ok s" using s by (simp_all add: stock_inv_def)
  have d: "distinct (map l_id (db_lots s))" "distinct (map p_id (db_products ?t))"
    using lots_inv_distinct [OF inv] by simp_all
  have "l_quantityReserved l = h (l_id l)" using inv l by (simp add: lots_inv_def)
  then have t: "lots_inv h ?t"
    by (intro lots_inv_upd [of h s l f h, OF inv l f(1,3)]) (use f(4) in simp_all)
  have other: "active_remaining q (f l) = active_remaining q l" "active_reserved q (f l) = active_reserved q l"
    if "q \<noteq> l_productId l" for q
    using that f(2) by (simp_all add: active_remaining_def active_reserved_def)
  have "\<forall>q \<in> p_id ` set (db_products ?t).
      stock_gap ?t q = (if q = p_id p
          then active_remaining (l_productId l) l - active_remaining (l_productId l) (f l) else 0)
      \<and> reserved_gap ?t q = (if q = p_id p then 0 else 0)"
    using roll other f(5) p(2) by (auto simp: rollup_ok_def stock_gap_lot [OF d(1) l])
  from close_rollup [OF d(2) _ this, of g] p g
  have "rollup_ok (?t\<lparr>db_products := upd_row p_id (p_id p) g (db_products ?t)\<rparr>)" by simp
  moreover have "lots_inv h (?t\<lparr>db_products := upd_row p_id (p_id p) g (db_products ?t)\<rparr>)"
    by (rule lots_inv_products [OF t]) (rule g(1))
  ultimately show ?thesis by (simp add: stock_inv_def)
qed

lemma upd_row_same: "(\<And>r. r \<in> set xs \<Longrightarrow> key r = k \<Longrightarrow> f r = r) \<Longrightarrow> upd_row key k f xs = xs"
  by (induction xs) auto

lemma one_lot_inv_same:
  assumes s: "stock_inv h s" and l: "l \<in> set (db_lots s)"
    and f: "l_id (f l) = l_id l" "l_productId (f l) = l_productId l" "lot_ok (f l)"
      "l_quantityReserved (f l) = l_quantityReserved l"
      "active_reserved (l_productId l) (f l) = active_reserved (l_productId l) l"
      "active_remaining (l_productId l) (f l) = active_remaining (l_productId l) l"
    and p: "p \<in> set (db_products s)" "p_id p = l_productId l"
  shows "stock_inv h (s\<lparr>db_lots := upd_row l_id (l_id l) f (db_lots s)\<rparr>)"
proof -
  have "stock_inv h (s\<lparr>db_lots := upd_row l_id (l_id l) f (db_lots s),
          db_products := upd_row p_id (p_id p) (\<lambda>x. x) (db_products s)\<rparr>)"
    by (rule one_lot_inv [of h s l f p "\<lambda>x. x", OF s l f(1-5) p]) (simp_all add: f(6))
  moreover have "upd_row p_id (p_id p) (\<lambda>x. x) (db_products s) = db_products s" by (simp add: upd_row_same)
  ultimately show ?thesis by simp
qed

text \<open>An update that is skipped when it would change nothing is the update.\<close>

lemma opt_lot_update:
  assumes "distinct (map l_id (db_lots s))" "l \<in> set (db_lots s)" "\<not> c \<Longrightarrow> f l = l"
  shows "(if c then lot_update (l_id l) f s else Inr s) = Inr (s\<lparr>db_lots := upd_row l_id (l_id l) f (db_lots s)\<rparr>)"
proof (cases c)
  case True
  then show ?thesis using lot_update_in [OF assms(2)] by simp
next
  case False
  have "f r = r" if "r \<in> set (db_lots s)" "l_id r = l_id l" for r
    using that assms False by (metis distinct_map inj_onD)
  then show ?thesis using False by (simp add: upd_row_same)
qed

lemma opt_product_update:
  assumes "distinct (map p_id (db_products s))" "p \<in> set (db_products s)" "\<not> c \<Longrightarrow> f p = p"
  shows "(if c then product_update (p_id p) f s else Inr s)
    = Inr (s\<lparr>db_products := upd_row p_id (p_id p) f (db_products s)\<rparr>)"
proof (cases c)
  case True
  then show ?thesis using product_update_in [OF assms(2)] by simp
next
  case False
  have "f r = r" if "r \<in> set (db_products s)" "p_id r = p_id p" for r
    using that assms False by (metis distinct_map inj_onD)
  then show ?thesis using False by (simp add: upd_row_same)
qed

text \<open>The rows a single-lot operation is given: rows of the database that belong together.\<close>

definition lot_of :: "product \<Rightarrow> lot \<Rightarrow> db \<Rightarrow> bool" where
  "lot_of product lot s \<longleftrightarrow>
     product \<in> set (db_products s) \<and> lot \<in> set (db_lots s) \<and> l_productId lot = p_id product"

lemma assertLotOps_one: "l_productId lot = p_id product \<Longrightarrow> assertLotOps dev product [lot] [l_id lot] = Inr ()"
  by (simp add: assertLotOps_def assertLockedLots_def assertLotsBelongToProduct_def lotMap_def)

lemma lot_inv_row: "stock_inv h s \<Longrightarrow> l \<in> set (db_lots s) \<Longrightarrow> lot_ok l \<and> l_quantityReserved l = h (l_id l)"
  by (simp add: stock_inv_def lots_inv_def)

lemma lot_then_product:
  assumes "l \<in> set (db_lots s)" "p \<in> set (db_products s)"
  shows "bindE (lot_update (l_id l) f s) (product_update (p_id p) g)
    = Inr (s\<lparr>db_lots := upd_row l_id (l_id l) f (db_lots s),
             db_products := upd_row p_id (p_id p) g (db_products s)\<rparr>)"
  using lot_update_in [OF assms(1)] product_update_in [of p "s\<lparr>db_lots := upd_row l_id (l_id l) f (db_lots s)\<rparr>" g]
    assms(2) by simp

section \<open>Adjustments\<close>

text \<open>The state both updates leave.\<close>

definition moved :: "lot \<Rightarrow> (lot \<Rightarrow> lot) \<Rightarrow> product \<Rightarrow> int \<Rightarrow> db \<Rightarrow> db" where
  "moved lot f product d s =
     s\<lparr>db_lots := upd_row l_id (l_id lot) f (db_lots s),
       db_products := upd_row p_id (p_id product) (\<lambda>p. p\<lparr>p_stock := p_stock p + d\<rparr>) (db_products s)\<rparr>"

lemma moved_steps:
  assumes "stock_inv h s" "lot_of product lot s" "\<not> c \<Longrightarrow> f lot = lot" "\<not> c' \<Longrightarrow> d = 0"
  shows "bindE (if c then lot_update (l_id lot) f s else Inr s)
      (\<lambda>s1. bindE (if c' then product_update (p_id product) (\<lambda>p. p\<lparr>p_stock := p_stock p + d\<rparr>) s1 else Inr s1) k)
    = k (moved lot f product d s)"
proof -
  let ?s1 = "s\<lparr>db_lots := upd_row l_id (l_id lot) f (db_lots s)\<rparr>"
  have d: "distinct (map l_id (db_lots s))" "distinct (map p_id (db_products ?s1))"
    using assms(1) by (simp_all add: stock_inv_def lots_inv_def)
  have r: "lot \<in> set (db_lots s)" "product \<in> set (db_products ?s1)"
    using assms(2) by (simp_all add: lot_of_def)
  have "(if c then lot_update (l_id lot) f s else Inr s) = Inr ?s1"
    using assms(3) by (intro opt_lot_update [OF d(1) r(1)])
  moreover have "(if c' then product_update (p_id product) (\<lambda>p. p\<lparr>p_stock := p_stock p + d\<rparr>) ?s1 else Inr ?s1)
      = Inr (moved lot f product d s)"
    using opt_product_update [OF d(2) r(2), of c' "\<lambda>p. p\<lparr>p_stock := p_stock p + d\<rparr>"] assms(4)
    by (simp add: moved_def)
  ultimately show ?thesis by simp
qed

lemma moved_inv:
  assumes s: "stock_inv h s" and rows: "lot_of product lot s"
    and f: "l_id (f lot) = l_id lot" "l_productId (f lot) = l_productId lot" "lot_ok (f lot)"
      "l_quantityReserved (f lot) = l_quantityReserved lot"
      "active_reserved (l_productId lot) (f lot) = active_reserved (l_productId lot) lot"
    and d: "active_remaining (l_productId lot) (f lot) = active_remaining (l_productId lot) lot + d"
  shows "stock_inv h (moved lot f product d s)"
proof -
  have r: "lot \<in> set (db_lots s)" "product \<in> set (db_products s)" "p_id product = l_productId lot"
    using rows by (simp_all add: lot_of_def)
  show ?thesis
    unfolding moved_def
    by (rule one_lot_inv [of h s lot f product, OF s r(1) f r(2,3)]) (simp_all add: d)
qed

text \<open>Setting a count never needs a precondition: the engine refuses the bad targets itself.\<close>

definition set_status :: "lot \<Rightarrow> int \<Rightarrow> lot_status" where
  "set_status lot target =
     (if l_status lot = LotACTIVE \<and> target = 0 then LotDEPLETED
      else if l_status lot = LotDEPLETED \<and> target > 0 then LotACTIVE else l_status lot)"

definition set_delta :: "lot \<Rightarrow> int \<Rightarrow> int" where
  "set_delta lot target = (if set_status lot target = LotACTIVE then target else 0)
      - (if l_status lot = LotACTIVE then l_quantityRemaining lot else 0)"

lemma setLotRemaining_result:
  assumes s: "stock_inv h s" and rows: "lot_of product lot s"
  shows "setLotRemaining dev product lot target s =
    (if target < 0 then Inl (AppError 400 ''targetQty must be non-negative'')
     else if l_status lot = LotACTIVE \<and> target < l_quantityReserved lot
     then Inl (AppError 409 ''Adjustment would drop a lot below units held by pending sales; settle them before approving'')
     else Inr (moved lot (\<lambda>l. l\<lparr>l_quantityRemaining := target, l_status := set_status lot target\<rparr>) product
                 (set_delta lot target) s,
               \<lparr>sr_previousQty = l_quantityRemaining lot, sr_delta = target - l_quantityRemaining lot,
                sr_rollupDelta = set_delta lot target, sr_nextStatus = set_status lot target\<rparr>))"
proof -
  have own: "assertLotOps dev product [lot] [l_id lot] = Inr ()"
    by (rule assertLotOps_one) (use rows in \<open>simp add: lot_of_def\<close>)
  note m = moved_steps [OF s rows,
      of "target - l_quantityRemaining lot \<noteq> 0 \<or> set_status lot target \<noteq> l_status lot"
        "\<lambda>l. l\<lparr>l_quantityRemaining := target, l_status := set_status lot target\<rparr>"
        "set_delta lot target \<noteq> 0" "set_delta lot target"]
  show ?thesis
    unfolding setLotRemaining_def own bindE_simps Let_def set_status_def [symmetric] set_delta_def [symmetric]
    by (subst m) simp_all
qed

lemma setLotRemaining_ok:
  assumes s: "stock_inv h s" and rows: "lot_of product lot s"
    and guard: "0 \<le> target" "l_status lot = LotACTIVE \<longrightarrow> l_quantityReserved lot \<le> target"
  shows "stock_inv h (moved lot (\<lambda>l. l\<lparr>l_quantityRemaining := target, l_status := set_status lot target\<rparr>) product
                 (set_delta lot target) s)"
proof (rule moved_inv [OF s rows])
  have "lot_ok lot" using lot_inv_row [OF s] rows by (simp add: lot_of_def)
  then show "lot_ok (lot\<lparr>l_quantityRemaining := target, l_status := set_status lot target\<rparr>)"
    "active_reserved (l_productId lot) (lot\<lparr>l_quantityRemaining := target, l_status := set_status lot target\<rparr>)
      = active_reserved (l_productId lot) lot"
    using guard by (auto simp: lot_ok_def set_status_def active_reserved_def split: if_splits)
qed (auto simp: set_delta_def active_remaining_def)

lemma setLotRemaining_inv:
  assumes "stock_inv h s" "lot_of product lot s" "setLotRemaining dev product lot target s = Inr (t, r)"
  shows "stock_inv h t"
  using assms(3) setLotRemaining_ok [OF assms(1,2), of target]
  unfolding setLotRemaining_result [OF assms(1,2)] by (auto split: if_splits)

lemma moved_steps':
  assumes "stock_inv h s" "lot_of product lot s" "\<not> c \<Longrightarrow> f lot = lot" "\<not> c' \<Longrightarrow> d = 0"
  shows "bindE (if c then lot_update (l_id lot) f s else Inr s)
      (\<lambda>s1. if c' then product_update (p_id product) (\<lambda>p. p\<lparr>p_stock := p_stock p + d\<rparr>) s1 else Inr s1)
    = Inr (moved lot f product d s)"
proof -
  have "bindE (x :: db result) Inr = x" for x by (cases x) simp_all
  then show ?thesis using moved_steps [of h s product lot c f c' d Inr] assms by simp
qed

text \<open>Taking units away needs free units on the lot.\<close>

lemma removeFromLot_ok:
  assumes s: "stock_inv h s" and rows: "lot_of product lot s"
    and q: "0 \<le> qty" "qty \<le> l_quantityRemaining lot - l_quantityReserved lot"
  shows "\<exists>t. removeFromLot dev product lot qty s = Inr t \<and> stock_inv h t"
proof (cases "qty = 0")
  case True
  have "assertLotOps dev product [lot] [l_id lot] = Inr ()"
    by (rule assertLotOps_one) (use rows in \<open>simp add: lot_of_def\<close>)
  then show ?thesis using True s by (simp add: removeFromLot_def)
next
  case False
  define n where "n = l_quantityRemaining lot - qty"
  define st where "st = (if l_status lot = LotACTIVE \<and> n = 0 then LotDEPLETED else l_status lot)"
  define f :: "lot \<Rightarrow> lot" where "f = (\<lambda>l. if st \<noteq> l_status lot then l\<lparr>l_quantityRemaining := n, l_status := st\<rparr>
      else l\<lparr>l_quantityRemaining := n\<rparr>)"
  define d where "d = (if l_status lot = LotACTIVE
      then (if st = LotACTIVE then n else 0) - l_quantityRemaining lot else 0)"
  have own: "assertLotOps dev product [lot] [l_id lot] = Inr ()"
    by (rule assertLotOps_one) (use rows in \<open>simp add: lot_of_def\<close>)
  have ok: "lot_ok lot" using lot_inv_row [OF s] rows by (simp add: lot_of_def)
  have "removeFromLot dev product lot qty s = Inr (moved lot f product d s)"
  proof -
    have steps: "bindE (lot_update (l_id lot) f s) (\<lambda>s1. if l_status lot = LotACTIVE \<and> d \<noteq> 0
          then product_update (p_id product) (\<lambda>p. p\<lparr>p_stock := p_stock p + d\<rparr>) s1 else Inr s1)
        = Inr (moved lot f product d s)"
      using moved_steps' [OF s rows, of True f "l_status lot = LotACTIVE \<and> d \<noteq> 0" d] by (simp add: d_def)
    have guards: "\<not> qty < 0" "qty \<noteq> 0" using q(1) False by simp_all
    show ?thesis
    proof (cases "l_status lot = LotACTIVE")
      case True
      then have dd: "(if st = LotACTIVE then n else 0) - l_quantityRemaining lot = d" by (simp add: d_def)
      show ?thesis
        using steps guards unfolding removeFromLot_def own bindE_simps Let_def n_def [symmetric]
          st_def [symmetric] f_def [symmetric] dd
        by (simp only: True simp_thms if_True if_False)
    next
      case inactive: False
      show ?thesis
        using steps guards unfolding removeFromLot_def own bindE_simps Let_def n_def [symmetric]
          st_def [symmetric] f_def [symmetric]
        by (simp only: inactive simp_thms if_False)
    qed
  qed
  moreover have "stock_inv h (moved lot f product d s)"
  proof (rule moved_inv [OF s rows])
    show "lot_ok (f lot)" using ok q False by (auto simp: lot_ok_def f_def st_def n_def)
    show "active_reserved (l_productId lot) (f lot) = active_reserved (l_productId lot) lot"
      using ok q False by (auto simp: lot_ok_def f_def st_def n_def active_reserved_def)
    show "active_remaining (l_productId lot) (f lot) = active_remaining (l_productId lot) lot + d"
      by (auto simp: f_def st_def d_def active_remaining_def)
  qed (auto simp: f_def)
  ultimately show ?thesis by blast
qed

section \<open>Leaving and re-entering the sellable stock\<close>

text \<open>
  A lot may leave the sellable stock once nothing on it is held. What leaves is the whole
  remaining quantity.
\<close>

lemma leaveSellableRollup_ok:
  assumes s: "stock_inv h s" and rows: "lot_of product lot s"
    and held: "l_quantityReserved lot = 0" and st: "st \<noteq> LotACTIVE" "st = LotDEPLETED \<longrightarrow> l_quantityRemaining lot = 0"
  shows "leaveSellableRollup dev product lot st s
      = Inr (moved lot (\<lambda>l. l\<lparr>l_status := st\<rparr>) product (- active_remaining (l_productId lot) lot) s,
             active_remaining (l_productId lot) lot)"
    and "stock_inv h (moved lot (\<lambda>l. l\<lparr>l_status := st\<rparr>) product (- active_remaining (l_productId lot) lot) s)"
proof -
  have own: "assertLotOps dev product [lot] [l_id lot] = Inr ()"
    by (rule assertLotOps_one) (use rows in \<open>simp add: lot_of_def\<close>)
  have ok: "lot_ok lot" using lot_inv_row [OF s] rows by (simp add: lot_of_def)
  then have r: "max 0 (l_quantityRemaining lot) = l_quantityRemaining lot" by (simp add: lot_ok_def)
  show "leaveSellableRollup dev product lot st s
      = Inr (moved lot (\<lambda>l. l\<lparr>l_status := st\<rparr>) product (- active_remaining (l_productId lot) lot) s,
             active_remaining (l_productId lot) lot)"
  proof (cases "l_status lot = LotACTIVE")
    case True
    then have a: "active_remaining (l_productId lot) lot = l_quantityRemaining lot"
      by (simp add: active_remaining_def)
    have "bindE (if True then lot_update (l_id lot) (\<lambda>l. l\<lparr>l_status := st\<rparr>) s else Inr s)
        (\<lambda>s1. bindE (if 0 < l_quantityRemaining lot
            then product_update (p_id product) (\<lambda>p. p\<lparr>p_stock := p_stock p + - l_quantityRemaining lot\<rparr>) s1
            else Inr s1) (\<lambda>s2. Inr (s2, l_quantityRemaining lot)))
      = Inr (moved lot (\<lambda>l. l\<lparr>l_status := st\<rparr>) product (- l_quantityRemaining lot) s, l_quantityRemaining lot)"
      by (rule moved_steps [OF s rows]) (use ok in \<open>simp_all add: lot_ok_def\<close>)
    then show ?thesis
      unfolding leaveSellableRollup_def own bindE_simps Let_def r a diff_conv_add_uminus
      by (simp only: if_True True not_True_eq_False if_False simp_thms)
  next
    case False
    then have a: "active_remaining (l_productId lot) lot = 0" by (simp add: active_remaining_def)
    show ?thesis
      using moved_steps [OF s rows, of True "\<lambda>l. l\<lparr>l_status := st\<rparr>" False 0 "\<lambda>s2. Inr (s2, 0)"] False
      unfolding leaveSellableRollup_def own bindE_simps Let_def r a by simp
  qed
  show "stock_inv h (moved lot (\<lambda>l. l\<lparr>l_status := st\<rparr>) product (- active_remaining (l_productId lot) lot) s)"
    by (rule moved_inv [OF s rows])
      (use ok st held in \<open>auto simp: lot_ok_def active_reserved_def active_remaining_def\<close>)
qed

lemma recallDepleteLot_ok:
  assumes s: "stock_inv h s" and rows: "lot_of product lot s" and out: "l_status lot \<noteq> LotACTIVE"
  shows "recallDepleteLot dev product lot s
      = Inr (moved lot (\<lambda>l. l\<lparr>l_quantityRemaining := 0, l_status := LotRECALLED\<rparr>) product 0 s,
             l_quantityRemaining lot)"
    and "stock_inv h (moved lot (\<lambda>l. l\<lparr>l_quantityRemaining := 0, l_status := LotRECALLED\<rparr>) product 0 s)"
proof -
  have own: "assertLotOps dev product [lot] [l_id lot] = Inr ()"
    by (rule assertLotOps_one) (use rows in \<open>simp add: lot_of_def\<close>)
  have ok: "lot_ok lot" using lot_inv_row [OF s] rows by (simp add: lot_of_def)
  then have r: "max 0 (l_quantityRemaining lot) = l_quantityRemaining lot" by (simp add: lot_ok_def)
  show "recallDepleteLot dev product lot s
      = Inr (moved lot (\<lambda>l. l\<lparr>l_quantityRemaining := 0, l_status := LotRECALLED\<rparr>) product 0 s,
             l_quantityRemaining lot)"
    using moved_steps [OF s rows, of True "\<lambda>l. l\<lparr>l_quantityRemaining := 0, l_status := LotRECALLED\<rparr>"
          False 0 "\<lambda>s2. Inr (s2, l_quantityRemaining lot)"]
    unfolding recallDepleteLot_def own bindE_simps r by simp
  show "stock_inv h (moved lot (\<lambda>l. l\<lparr>l_quantityRemaining := 0, l_status := LotRECALLED\<rparr>) product 0 s)"
    by (rule moved_inv [OF s rows])
      (use ok out in \<open>auto simp: lot_ok_def active_reserved_def active_remaining_def\<close>)
qed

lemma returnToSellableRollup_ok:
  assumes s: "stock_inv h s" and rows: "lot_of product lot s"
  shows "\<exists>t. returnToSellableRollup dev product lot s = Inr t \<and> stock_inv h t"
proof (cases "l_status lot = LotQUARANTINED")
  case False
  have own: "assertLotOps dev product [lot] [l_id lot] = Inr ()"
    by (rule assertLotOps_one) (use rows in \<open>simp add: lot_of_def\<close>)
  then show ?thesis using False s by (simp add: returnToSellableRollup_def)
next
  case True
  have own: "assertLotOps dev product [lot] [l_id lot] = Inr ()"
    by (rule assertLotOps_one) (use rows in \<open>simp add: lot_of_def\<close>)
  have ok: "lot_ok lot" using lot_inv_row [OF s] rows by (simp add: lot_of_def)
  have "returnToSellableRollup dev product lot s
      = Inr (moved lot (\<lambda>l. l\<lparr>l_status := LotACTIVE\<rparr>) product (l_quantityRemaining lot) s)"
    using moved_steps' [OF s rows, of True "\<lambda>l. l\<lparr>l_status := LotACTIVE\<rparr>"
          "l_quantityRemaining lot > 0" "l_quantityRemaining lot"] True ok
    unfolding returnToSellableRollup_def own bindE_simps by (simp add: lot_ok_def)
  moreover have "stock_inv h (moved lot (\<lambda>l. l\<lparr>l_status := LotACTIVE\<rparr>) product (l_quantityRemaining lot) s)"
    by (rule moved_inv [OF s rows])
      (use ok True in \<open>auto simp: lot_ok_def active_reserved_def active_remaining_def\<close>)
  ultimately show ?thesis by blast
qed

section \<open>Lots and products coming in\<close>

lemma new_lot_sel [simp]:
  "l_id (new_lot now product d) = al_id d" "l_productId (new_lot now product d) = p_id product"
  "l_quantityRemaining (new_lot now product d) = al_quantity d"
  "l_quantityReserved (new_lot now product d) = 0"
  by (simp_all add: new_lot_def)

lemma addLot_inv:
  assumes s: "stock_inv h s" and fresh: "h (al_id d) = 0" and p: "product \<in> set (db_products s)"
    and empty: "l_status (new_lot now product d) = LotDEPLETED \<longrightarrow> al_quantity d = 0"
    and run: "addLot now product d s = Inr (t, l)"
  shows "stock_inv h t"
proof -
  let ?l = "new_lot now product d"
  let ?s1 = "s\<lparr>db_lots := db_lots s @ [?l]\<rparr>"
  define c where "c \<longleftrightarrow> al_quantity d > 0 \<and> l_status ?l = LotACTIVE"
  define q where "q = (if c then al_quantity d else 0)"
  have inv: "lots_inv h s" and roll: "rollup_ok s" using s by (simp_all add: stock_inv_def)
  have run': "0 \<le> al_quantity d" "al_id d \<notin> l_id ` set (db_lots s)"
      "(if c then product_update (p_id product) (\<lambda>p. p\<lparr>p_stock := p_stock p + al_quantity d\<rparr>) ?s1 else Inr ?s1) = Inr t"
    using run
    by (auto simp: addLot_def lot_create_def create_row_def has_row_def bindE_Inr_iff c_def split: if_splits)
  have p1: "distinct (map p_id (db_products ?s1))" "product \<in> set (db_products ?s1)"
    using lots_inv_distinct(2) [OF inv] p by simp_all
  have t: "t = ?s1\<lparr>db_products := upd_row p_id (p_id product) (\<lambda>p. p\<lparr>p_stock := p_stock p + q\<rparr>) (db_products ?s1)\<rparr>"
    using run'(3) opt_product_update [OF p1, of c "\<lambda>p. p\<lparr>p_stock := p_stock p + q\<rparr>"] by (simp add: q_def split: if_splits)
  have "lot_ok ?l" using run'(1) empty by (simp add: lot_ok_def)
  then have inv1: "lots_inv h ?s1" using inv run'(2) fresh by (auto simp: lots_inv_def)
  have "\<forall>x \<in> p_id ` set (db_products ?s1). stock_gap ?s1 x = (if x = p_id product then - q else 0)
      \<and> reserved_gap ?s1 x = (if x = p_id product then 0 else 0)"
    using roll run'(1)
    by (auto simp: rollup_ok_def stock_gap_def reserved_gap_def active_remaining_def active_reserved_def q_def c_def)
  from close_rollup [OF p1 this, of "\<lambda>p. p\<lparr>p_stock := p_stock p + q\<rparr>"] have "rollup_ok t" unfolding t by simp
  moreover have "lots_inv h t" unfolding t by (rule lots_inv_products [OF inv1]) simp
  ultimately show ?thesis by (simp add: stock_inv_def)
qed

text \<open>A product row without stock and without lots is consistent; \<open>createProduct\<close> adds its lot next.\<close>

lemma createProductRow_inv:
  assumes s: "stock_inv h s" and run: "createProductRow d s = Inr (t, p)"
    and zero: "cp_stock d = 0" and nolots: "\<forall>l \<in> set (db_lots s). l_productId l \<noteq> cp_id d"
  shows "stock_inv h t" "p \<in> set (db_products t)" "p_id p = cp_id d" "p_storeId p = cp_storeId d"
    "db_lots t = db_lots s"
proof -
  have t: "t = s\<lparr>db_products := db_products s @ [p]\<rparr>" "p_id p = cp_id d" "p_storeId p = cp_storeId d"
      "p_stock p = 0" "p_reserved p = 0" "cp_id d \<notin> p_id ` set (db_products s)"
    using run zero by (auto simp: createProductRow_def create_row_def has_row_def Let_def bindE_Inr_iff split: if_splits)
  have "\<forall>q \<in> set (db_products s). p_id q \<noteq> cp_id d" using t(6) by (auto simp: image_iff)
  then have "sum_rows (product_stock (cp_id d)) (db_products s) = 0"
      "sum_rows (product_reserved (cp_id d)) (db_products s) = 0"
      "sum_rows (active_remaining (cp_id d)) (db_lots s) = 0"
      "sum_rows (active_reserved (cp_id d)) (db_lots s) = 0"
    using nolots
    by (simp_all add: sum_rows_zero product_stock_def product_reserved_def active_remaining_def active_reserved_def)
  then have "rollup_ok t"
    using s t(2,4,5)
    by (simp add: t(1) stock_inv_def rollup_ok_def stock_gap_def reserved_gap_def)
      (simp add: product_stock_def product_reserved_def)
  moreover have "lots_inv h t" using s t(2,6) by (auto simp: t(1) stock_inv_def lots_inv_def)
  ultimately show "stock_inv h t" by (simp add: stock_inv_def)
  show "p \<in> set (db_products t)" "p_id p = cp_id d" "p_storeId p = cp_storeId d" "db_lots t = db_lots s"
    using t by simp_all
qed

section \<open>Restocking\<close>

text \<open>
  What one iteration does to the row: the units come back; a lot outside quarantine that had run
  out is on sale again.
\<close>

definition restocked :: "bool \<Rightarrow> int \<Rightarrow> lot \<Rightarrow> lot" where
  "restocked quarantined q l =
     (if \<not> quarantined \<and> l_status l = LotDEPLETED \<and> l_quantityRemaining l + q > 0
      then l\<lparr>l_quantityRemaining := l_quantityRemaining l + q, l_status := LotACTIVE\<rparr>
      else l\<lparr>l_quantityRemaining := l_quantityRemaining l + q\<rparr>)"

lemma restock_one_eq:
  assumes d: "distinct (map l_id (db_lots s))" and l: "l \<in> set (db_lots s)" and q: "0 < q"
    and m: "lotMap lots (l_id l) = Some m" "l_status m \<noteq> LotRECALLED" "l_status m \<noteq> LotEXPIRED"
  shows "restock_one lots (l_id l, q) (s, n) =
    Inr (s\<lparr>db_lots := upd_row l_id (l_id l) (restocked (l_status m = LotQUARANTINED) q) (db_lots s)\<rparr>,
         if l_status m = LotQUARANTINED then n else n + q)"
proof -
  let ?f = "\<lambda>l. l\<lparr>l_quantityRemaining := l_quantityRemaining l + q\<rparr>"
  let ?t = "s\<lparr>db_lots := upd_row l_id (l_id l) ?f (db_lots s)\<rparr>"
  have step: "lot_update (l_id l) ?f s = Inr ?t" by (rule lot_update_in [OF l])
  have find: "find_lot (l_id l) ?t = Some (?f l)"
    using find_row_eq_Some_iff [OF d, of "l_id l" l] l by (simp add: find_lot_def find_row_upd_row)
  have fl: "?f l \<in> set (db_lots ?t)" using l by (auto simp: in_upd_row)
  have same: "upd_row l_id (l_id l) (restocked b q) (db_lots s) = upd_row l_id (l_id l) ?f (db_lots s)"
    if "b \<or> \<not> (l_status l = LotDEPLETED \<and> l_quantityRemaining l + q > 0)" for b
    by (rule upd_row_cong_key [OF d l]) (use that in \<open>auto simp: restocked_def\<close>)
  have revive: "upd_row l_id (l_id l) (restocked False q) (db_lots s)
      = upd_row l_id (l_id l) (\<lambda>l. l\<lparr>l_status := LotACTIVE\<rparr>) (upd_row l_id (l_id l) ?f (db_lots s))"
    if "l_status l = LotDEPLETED" "l_quantityRemaining l + q > 0"
  proof -
    have "upd_row l_id (l_id l) (restocked False q) (db_lots s)
        = upd_row l_id (l_id l) ((\<lambda>l. l\<lparr>l_status := LotACTIVE\<rparr>) \<circ> ?f) (db_lots s)"
      by (rule upd_row_cong_key [OF d l]) (use that in \<open>simp add: restocked_def\<close>)
    then show ?thesis by (simp add: upd_row_upd_row)
  qed
  have skip: "\<not> q \<le> 0" using q by simp
  show ?thesis
  proof (cases "l_status m = LotQUARANTINED")
    case True
    then show ?thesis using skip m step same [of True] by (simp add: restock_one_def)
  next
    case notq: False
    show ?thesis
    proof (cases "l_status l = LotDEPLETED \<and> l_quantityRemaining l + q > 0")
      case True
      then show ?thesis
        using skip m step find notq revive lot_update_in [OF fl, of "\<lambda>l. l\<lparr>l_status := LotACTIVE\<rparr>"]
        by (simp add: restock_one_def)
    next
      case False
      then show ?thesis using skip m step find notq same [of False] by (auto simp: restock_one_def)
    qed
  qed
qed

text \<open>Restocking may bring a lot from DEPLETED to ACTIVE; otherwise keys and statuses stay.\<close>

definition lot_class :: "lot \<Rightarrow> (ident \<times> ident \<times> ident) \<times> lot_status" where
  "lot_class l = (lot_key l, if l_status l = LotDEPLETED then LotACTIVE else l_status l)"

definition class_frame :: "db \<Rightarrow> db \<Rightarrow> bool" where
  "class_frame s t \<longleftrightarrow> map lot_class (db_lots t) = map lot_class (db_lots s)"

lemma class_frame_refl [simp]: "class_frame s s"
  by (simp add: class_frame_def)

lemma class_frame_trans: "class_frame s t \<Longrightarrow> class_frame t u \<Longrightarrow> class_frame s u"
  by (simp add: class_frame_def)

lemma class_frame_upd:
  "(\<And>l. l \<in> set (db_lots s) \<Longrightarrow> l_id l = i \<Longrightarrow> lot_class (f l) = lot_class l) \<Longrightarrow>
     class_frame s (s\<lparr>db_lots := upd_row l_id i f (db_lots s)\<rparr>)"
  by (simp add: class_frame_def upd_row_def)

lemma class_frame_lot:
  assumes "class_frame s t" "l \<in> set (db_lots s)"
  obtains l' where "l' \<in> set (db_lots t)" "lot_class l' = lot_class l"
proof -
  have "lot_class l \<in> set (map lot_class (db_lots t))" using assms by (simp add: class_frame_def)
  then show ?thesis using that by auto
qed

text \<open>The state of the loop, and what an iteration needs of the lot it returns units to.\<close>

definition restock_inv :: "(ident \<Rightarrow> int) \<Rightarrow> db \<Rightarrow> ident \<Rightarrow> db \<times> int \<Rightarrow> bool" where
  "restock_inv h s pid acc \<longleftrightarrow>
     lots_inv h (fst acc) \<and> stock_frame s (fst acc) \<and> class_frame s (fst acc) \<and> db_products (fst acc) = db_products s \<and> 0 \<le> snd acc
     \<and> (\<forall>q. stock_gap (fst acc) q = stock_gap s q - (if q = pid then snd acc else 0)
           \<and> reserved_gap (fst acc) q = reserved_gap s q)"

definition restock_pre :: "lot list \<Rightarrow> ident \<Rightarrow> ident \<times> int \<Rightarrow> db \<times> int \<Rightarrow> bool" where
  "restock_pre lots pid row acc \<longleftrightarrow>
     (\<exists>m l. lotMap lots (fst row) = Some m \<and> l_status m \<noteq> LotRECALLED \<and> l_status m \<noteq> LotEXPIRED
        \<and> l \<in> set (db_lots (fst acc)) \<and> l_id l = fst row \<and> l_productId l = pid
        \<and> l_status l \<noteq> LotRECALLED \<and> l_status l \<noteq> LotEXPIRED
        \<and> (l_status l = LotQUARANTINED \<longleftrightarrow> l_status m = LotQUARANTINED))"

lemma restock_step:
  assumes inv: "restock_inv h s pid (t, n)" and pre: "restock_pre lots pid (i, q) (t, n)"
  shows "\<exists>acc'. restock_one lots (i, q) (t, n) = Inr acc' \<and> restock_inv h s pid acc'
     \<and> (\<forall>y. restock_pre lots pid y (t, n) \<longrightarrow> restock_pre lots pid y acc')"
proof (cases "q \<le> 0")
  case True
  then show ?thesis using inv by (simp add: restock_one_def)
next
  case q: False
  obtain m l where m: "lotMap lots i = Some m" "l_status m \<noteq> LotRECALLED" "l_status m \<noteq> LotEXPIRED"
    and l: "l \<in> set (db_lots t)" "l_id l = i" "l_productId l = pid" "l_status l \<noteq> LotRECALLED"
      "l_status l \<noteq> LotEXPIRED" "l_status l = LotQUARANTINED \<longleftrightarrow> l_status m = LotQUARANTINED"
    using pre by (auto simp: restock_pre_def)
  have tc: "class_frame s t" using inv by (simp add: restock_inv_def)
  have t: "lots_inv h t" "stock_frame s t" "db_products t = db_products s" "0 \<le> n"
      "\<And>q. stock_gap t q = stock_gap s q - (if q = pid then n else 0) \<and> reserved_gap t q = reserved_gap s q"
    using inv by (auto simp: restock_inv_def)
  have d: "distinct (map l_id (db_lots t))" by (rule lots_inv_distinct(1) [OF t(1)])
  define g where "g = restocked (l_status m = LotQUARANTINED) q"
  define u where "u = t\<lparr>db_lots := upd_row l_id (l_id l) g (db_lots t)\<rparr>"
  define n' where "n' = (if l_status m = LotQUARANTINED then n else n + q)"
  have run: "restock_one lots (i, q) (t, n) = Inr (u, n')"
    using restock_one_eq [OF d l(1), of q lots m n] q m l(2) by (simp add: u_def g_def n'_def)
  have ok: "lot_ok l" "l_quantityReserved l = h (l_id l)" using t(1) l(1) by (auto simp: lots_inv_def)
  have key: "lot_key (g r) = lot_key r" for r by (simp add: g_def restocked_def lot_key_def)
  have ids: "l_id (g r) = l_id r" "l_productId (g r) = l_productId r" for r
    using key [of r] by (simp_all add: lot_key_def)
  have u: "lots_inv h u"
    unfolding u_def
    by (rule lots_inv_upd [of h t l g h, OF t(1) l(1) ids(1)])
      (use ok q l(6) in \<open>auto simp: g_def restocked_def lot_ok_def split: if_splits\<close>)
  moreover have "stock_frame s u"
    unfolding u_def by (rule stock_frame_trans [OF t(2) lot_frame_upd [of l t g, OF l(1) d key]])
  moreover have "active_remaining x (g l) = active_remaining x l + (if x = pid then n' - n else 0)"
      "active_reserved x (g l) = active_reserved x l" for x
    using ok q l(3-6)
    by (cases "l_status l"; auto simp: g_def restocked_def active_remaining_def active_reserved_def n'_def lot_ok_def)+
  then have "stock_gap u x = stock_gap s x - (if x = pid then n' else 0) \<and> reserved_gap u x = reserved_gap s x" for x
    using t(5) [of x] by (simp add: u_def stock_gap_lot [OF d l(1)])
  moreover have "class_frame s u"
  proof -
    have "lot_class (g r) = lot_class r" if "r \<in> set (db_lots t)" "l_id r = l_id l" for r
    proof -
      have "r = l" using d that l(1) by (auto simp: distinct_map dest: inj_onD)
      then show ?thesis using l(6) by (auto simp: lot_class_def lot_key_def g_def restocked_def)
    qed
    then show ?thesis unfolding u_def by (intro class_frame_trans [OF tc class_frame_upd])
  qed
  ultimately have "restock_inv h s pid (u, n')"
    using t(3,4) q by (simp add: restock_inv_def u_def n'_def)
  moreover have "restock_pre lots pid y (u, n')" if y0: "restock_pre lots pid y (t, n)" for y
  proof -
    obtain m' l' where y: "lotMap lots (fst y) = Some m'" "l_status m' \<noteq> LotRECALLED" "l_status m' \<noteq> LotEXPIRED"
      "l' \<in> set (db_lots t)" "l_id l' = fst y" "l_productId l' = pid" "l_status l' \<noteq> LotRECALLED"
      "l_status l' \<noteq> LotEXPIRED" "l_status l' = LotQUARANTINED \<longleftrightarrow> l_status m' = LotQUARANTINED"
      using y0 by (auto simp: restock_pre_def)
    let ?k = "if l_id l' = l_id l then g l' else l'"
    have "l_status ?k \<noteq> LotRECALLED" "l_status ?k \<noteq> LotEXPIRED"
        "l_status ?k = LotQUARANTINED \<longleftrightarrow> l_status m' = LotQUARANTINED"
      using y(7-9) by (auto simp: g_def restocked_def)
    moreover have "?k \<in> set (db_lots u)" using y(4) by (force simp: u_def in_upd_row)
    ultimately show ?thesis
      using y ids by (auto simp: restock_pre_def intro!: exI [of _ ?k])
  qed
  ultimately show ?thesis using run by blast
qed

interpretation restock_loop: loop_body "restock_one lots" "restock_pre lots pid" "restock_inv h s pid"
  for lots pid h s
proof unfold_locales
  fix acc :: "db \<times> int" and row :: "ident \<times> int"
  assume "restock_inv h s pid acc" "restock_pre lots pid row acc"
  then show "\<exists>acc'. restock_one lots row acc = Inr acc' \<and> restock_inv h s pid acc'
      \<and> (\<forall>y. restock_pre lots pid y acc \<longrightarrow> restock_pre lots pid y acc')"
    using restock_step [of h s pid "fst acc" "snd acc" lots "fst row" "snd row"] by simp
qed

text \<open>Units may go back to lots of the product that are neither recalled nor expired.\<close>

lemma restockToLots_ok:
  assumes s: "stock_inv h s" and cls: "class_frame s0 s"
    and pk: "product_key product \<in> product_key ` set (db_products s)"
    and lots: "set lots \<subseteq> set (db_lots s0)" "\<forall>r \<in> set rows. \<exists>m \<in> set lots. l_id m = fst r
        \<and> l_productId m = p_id product \<and> l_status m \<noteq> LotRECALLED \<and> l_status m \<noteq> LotEXPIRED"
  shows "\<exists>t. restockToLots dev product lots rows s = Inr t \<and> stock_inv h t \<and> stock_frame s t \<and> class_frame s0 t"
proof -
  have inv: "lots_inv h s" and roll: "rollup_ok s" using s by (simp_all add: stock_inv_def)
  have "map (fst \<circ> (fst \<circ> lot_class)) (db_lots s) = map (fst \<circ> (fst \<circ> lot_class)) (db_lots s0)"
    using cls unfolding class_frame_def by (metis map_map)
  then have "map l_id (db_lots s) = map l_id (db_lots s0)" by (simp add: lot_class_def lot_key_def comp_def)
  then have d: "distinct (map l_id (db_lots s0))" using lots_inv_distinct(1) [OF inv] by simp
  have map: "lotMap lots (l_id m) = Some m" if m: "m \<in> set lots" for m
  proof -
    obtain k where k: "lotMap lots (l_id m) = Some k" using lotMap_Some [of "l_id m" lots] m by blast
    then have "k = m"
      using lotMap_SomeD [OF k] m lots(1) d by (auto simp: distinct_map dest!: inj_onD)
    with k show ?thesis by simp
  qed
  obtain p where p: "p \<in> set (db_products s)" "p_id p = p_id product"
    using pk by (auto simp: product_key_def)
  have pre: "restock_pre lots (p_id product) r (s, 0)" if r: "r \<in> set rows" for r
  proof -
    obtain m where m: "m \<in> set lots" "l_id m = fst r" "l_productId m = p_id product"
      "l_status m \<noteq> LotRECALLED" "l_status m \<noteq> LotEXPIRED" using lots(2) r by blast
    obtain l where l: "l \<in> set (db_lots s)" "lot_class l = lot_class m"
      using class_frame_lot [OF cls, of m] m(1) lots(1) by blast
    have "l_id l = fst r" "l_productId l = p_id product" using l(2) m(2,3) by (simp_all add: lot_class_def lot_key_def)
    moreover have "l_status l \<noteq> LotRECALLED" "l_status l \<noteq> LotEXPIRED"
        "l_status l = LotQUARANTINED \<longleftrightarrow> l_status m = LotQUARANTINED"
      using l(2) m(4,5) by (auto simp: lot_class_def split: if_splits)
    ultimately show ?thesis using map [OF m(1)] m l(1) by (auto simp: restock_pre_def)
  qed
  have "restock_inv h s (p_id product) (s, 0)" using inv by (simp add: restock_inv_def)
  then obtain t n where t: "forE rows (restock_one lots) (s, 0) = Inr (t, n)" "restock_inv h s (p_id product) (t, n)"
    using restock_loop.loop_total [of h s "p_id product" "(s, 0)" rows lots] pre by auto
  then have i: "lots_inv h t" "stock_frame s t" "db_products t = db_products s" "0 \<le> n"
      "\<forall>q. stock_gap t q = stock_gap s q - (if q = p_id product then n else 0)"
      "\<forall>q. reserved_gap t q = reserved_gap s q - (if q = p_id product then 0 else 0)"
    by (simp_all add: restock_inv_def)
  have ic: "class_frame s t" using t(2) by (simp add: restock_inv_def)
  note al = after_loop [OF s i(1,3,5,6) p]
  let ?g = "\<lambda>p. p\<lparr>p_stock := p_stock p + n\<rparr>"
  let ?u = "t\<lparr>db_products := upd_row p_id (p_id p) ?g (db_products t)\<rparr>"
  have own: "assertLotOps dev product lots (map fst rows) = Inr ()"
  proof -
    have "\<forall>i \<in> set (map fst rows). i \<in> l_id ` set lots" using lots(2) by (force simp: image_iff)
    moreover have "\<forall>i \<in> set (map fst rows). case lotMap lots i of None \<Rightarrow> True | Some l \<Rightarrow> l_productId l = p_id product"
    proof
      fix i assume "i \<in> set (map fst rows)"
      then obtain r m where "r \<in> set rows" "i = fst r" "m \<in> set lots" "l_id m = fst r" "l_productId m = p_id product"
        using lots(2) by fastforce
      then show "case lotMap lots i of None \<Rightarrow> True | Some l \<Rightarrow> l_productId l = p_id product"
        using map [of m] by simp
    qed
    ultimately show ?thesis
      unfolding assertLotOps_def assertLockedLots_def assertLotsBelongToProduct_def by (rule both_checks)
  qed
  have "(if n > 0 then product_update (p_id p) ?g t else Inr t) = Inr ?u"
    by (rule opt_product_update [OF al(1,2)]) (use i(4) in simp)
  then have "restockToLots dev product lots rows s = Inr ?u"
    using own t(1) unfolding restockToLots_def p(2) by simp
  moreover have "class_frame s0 ?u" using class_frame_trans [OF cls ic] by (simp add: class_frame_def)
  moreover have "rollup_ok ?u" by (rule close_rollup [OF al(1-3)]) simp_all
  moreover have "lots_inv h ?u" by (rule lots_inv_products [OF i(1)]) simp
  moreover have "stock_frame s ?u"
    by (rule stock_frame_trans [OF i(2) product_frame_upd]) (simp add: product_key_def)
  ultimately show ?thesis by (simp add: stock_inv_def)
qed

end
