(* ===== verification/Examples.thy ===== *)
theory Examples
  imports Data_Model
begin

text \<open>
  A small shop on which the witnesses of the properties are evaluated: one store, two products with
  three lots, a member, two benefits, an open drawer.
\<close>

definition ex_apples :: product where
  "ex_apples =
     \<lparr>p_id = ''P1'', p_storeId = ''S1'', p_catalogItemId = Some ''C1'', p_sku = ''APL'', p_name = ''Apples'',
      p_category = ''fruit'', p_price = 2, p_cost = 1, p_stock = 10, p_reserved = 0, p_reorderAt = 2,
      p_taxExempt = False\<rparr>"

definition ex_bread :: product where
  "ex_bread =
     \<lparr>p_id = ''P2'', p_storeId = ''S1'', p_catalogItemId = Some ''C2'', p_sku = ''BRD'', p_name = ''Bread'',
      p_category = ''bakery'', p_price = 5, p_cost = 2, p_stock = 4, p_reserved = 0, p_reorderAt = 1,
      p_taxExempt = True\<rparr>"

definition ex_lot :: "ident \<Rightarrow> ident \<Rightarrow> time option \<Rightarrow> int \<Rightarrow> lot" where
  "ex_lot i pid expiry q =
     \<lparr>l_id = i, l_lotNumber = i, l_barcode = None, l_productId = pid, l_storeId = ''S1'',
      l_supplierId = None, l_goodsReceiptLineId = None, l_harvestDate = None, l_packDate = None,
      l_expiryDate = expiry, l_quantityReceived = q, l_quantityRemaining = q, l_quantityReserved = 0,
      l_status = LotACTIVE, l_countryOfOrigin = None, l_receivedAt = 0, l_unitCost = 1\<rparr>"

definition ex_store :: store where
  "ex_store =
     \<lparr>st_id = ''S1'', st_name = ''Corner'', st_address = ''1 Main Street'', st_locationType = RETAIL_STORE, st_operatorPercent = 10,
      st_taxRate = 8, st_refundPolicy = [], st_honorsNetworkBenefits = True, st_memberDiscountBearer = BearerCOOP,
      st_memberDiscountSharedPercent = 50, st_isActive = True\<rparr>"

definition ex_benefit :: "ident \<Rightarrow> benefit_type \<Rightarrow> decimal \<Rightarrow> int option \<Rightarrow> member_benefit" where
  "ex_benefit i t v cap =
     \<lparr>mb_id = i, mb_benefitType = t, mb_value = v, mb_scope = ALL_PRODUCTS, mb_scopeRefId = None,
      mb_startsAt = 0, mb_endsAt = None, mb_maxUsesPerPeriod = cap, mb_periodType = PER_TRANSACTION,
      mb_minimumPurchaseAmount = 0, mb_isActive = True, mb_priority = 1, mb_description = [],
      mb_createdAt = 0\<rparr>"

definition ex_member :: "ident \<Rightarrow> string \<Rightarrow> member" where
  "ex_member i n =
     \<lparr>m_id = i, m_memberNumber = n, m_name = ''Mira'', m_email = ''mira@example.org'', m_phone = ''555'',
      m_mailingAddress = [], m_status = MemACTIVE, m_joinedAt = 0, m_approvedByUserId = Some ''U1'',
      m_approvedAt = Some 0, m_taxIdLast4 = None, m_isEligibleToVote = True, m_totalInvested = 0,
      m_hasVotingRights = False, m_householdPrimaryMemberId = None\<rparr>"

definition ex_drawer :: cash_drawer where
  "ex_drawer =
     \<lparr>cd_id = ''D1'', cd_storeId = ''S1'', cd_openedByUserId = ''U1'', cd_closedByUserId = None,
      cd_openingFloat = 100, cd_expectedCash = 100, cd_countedCash = None, cd_variance = None,
      cd_openedAt = 0, cd_closedAt = None\<rparr>"

definition ex_db :: db where
  "ex_db = empty_db
     \<lparr>db_products := [ex_apples, ex_bread],
      db_lots := [ex_lot ''L1'' ''P1'' (Some 100) 3, ex_lot ''L2'' ''P1'' (Some 200) 7, ex_lot ''L3'' ''P2'' None 4],
      db_stores := [ex_store],
      db_users := [\<lparr>u_id = ''U1'', u_storeId = Some ''S1'', u_role = STORE_ADMIN,
        u_email = ''admin@example.org'', u_passwordHash = ''hash'', u_failedLoginAttempts = 0, u_lockedUntil = None,
        u_mustChangePassword = False\<rparr>],
      db_members := [ex_member ''M1'' ''0001''],
      db_benefits := [ex_benefit ''B1'' PERCENT_DISCOUNT 10 None, ex_benefit ''B2'' FIXED_DISCOUNT 1 (Some 1)],
      db_drawers := [ex_drawer]\<rparr>"

definition ex_admin :: auth_user where
  "ex_admin = \<lparr>au_id = ''U1'', au_storeScope = Some ''S1'', au_role = STORE_ADMIN,
     au_mustChangePassword = False\<rparr>"

end
