(* ===== verification/Stock_Properties.thy ===== *)
theory Stock_Properties
  imports Fefo Stock_Lots Examples
begin

text \<open>
  The properties of the stock engine as a whole: the first-expired first-out rule, reservations that
  are undone without a trace, corrections of a lot on every branch, the operator's check of the
  roll-up, and the two ways a lot below zero or a drained lot with a hold breaks it.
\<close>

lemma ex_stock_inv: "stock_inv (\<lambda>i. 0) ex_db"
  by (simp add: stock_inv_def lots_inv_def rollup_ok_def lot_ok_def ex_db_def empty_db_def ex_lot_def ex_apples_def
      ex_bread_def stock_gap_def reserved_gap_def product_stock_def product_reserved_def active_remaining_def
      active_reserved_def)

section \<open>First expired, first out\<close>

lemma fefo_share_bounds: "0 \<le> fefo_share ws q i" "i < length ws \<Longrightarrow> fefo_share ws q i \<le> avail (ws ! i)"
  by (simp_all add: fefo_share_def)

lemma fefo_share_exhausts:
  assumes "i < j" "j < length ws" "0 < fefo_share ws q j"
  shows "fefo_share ws q i = avail (ws ! i)"
proof -
  have "take (Suc i) ws = take i ws @ [ws ! i]" using assms by (simp add: take_Suc_conv_app_nth)
  moreover have "take j ws = take (Suc i) ws @ take (j - Suc i) (drop (Suc i) ws)"
    using assms(1) by (metis Suc_leI le_add_diff_inverse take_add)
  ultimately have "sum_list (map avail (take i ws)) + avail (ws ! i) \<le> sum_list (map avail (take j ws))"
    using sum_avail_nonneg [of "take (j - Suc i) (drop (Suc i) ws)"] by simp
  moreover have "sum_list (map avail (take j ws)) < q" using assms(3) by (auto simp: fefo_share_def max_def min_def split: if_splits)
  ultimately show ?thesis by (simp add: fefo_share_def)
qed

lemma alloc_of_share:
  assumes "fefo_loop ws q = (as, ws', r)" "0 \<le> q" "distinct (map (l_id \<circ> wl_lot) ws)" "i < length ws"
  shows "alloc_qty as (l_id (wl_lot (ws ! i))) = fefo_share ws q i"
  using alloc_of_taken [OF assms(1,3,4)] fefo_loop_spec [OF assms(1,2)] assms(4) by simp

text \<open>
  C37: without the offline override \<open>allocateFefo\<close> refuses a request exactly when the free units of
  the working lots do not cover it. Otherwise the allocations are positive, in lot order, sum to the
  request, take no more from a lot than it has free, and take from a lot only when every lot before
  it (expiring earlier) has been emptied.
\<close>

theorem allocateFefo_fefo:
  assumes "0 \<le> q" "distinct (map (l_id \<circ> wl_lot) ws)"
  shows "case allocateFefo False ws q of
      Inl e \<Rightarrow> e = insufficient \<and> (ws = [] \<or> totalAvailable ws < q)
    | Inr (as, ws') \<Rightarrow>
        alloc_total as = q \<and> (\<forall>a \<in> set as. 0 < a_quantity a)
        \<and> subseq (map a_lotId as) (map (l_id \<circ> wl_lot) ws)
        \<and> (\<forall>i < length ws. alloc_qty as (l_id (wl_lot (ws ! i))) \<le> max 0 (workingLotAvailable (ws ! i)))
        \<and> (\<forall>j < length ws. 0 < alloc_qty as (l_id (wl_lot (ws ! j))) \<longrightarrow>
             (\<forall>i < j. alloc_qty as (l_id (wl_lot (ws ! i))) = max 0 (workingLotAvailable (ws ! i))))"
proof (cases "ws \<noteq> [] \<and> q \<le> totalAvailable ws")
  case True
  obtain as ws' r where l: "fefo_loop ws q = (as, ws', r)" by (metis prod_cases3)
  have share: "alloc_qty as (l_id (wl_lot (ws ! i))) = fefo_share ws q i" if "i < length ws" for i
    using alloc_of_share [OF l assms that] .
  have "alloc_qty as (l_id (wl_lot (ws ! i))) = avail (ws ! i)"
    if "j < length ws" "0 < alloc_qty as (l_id (wl_lot (ws ! j)))" "i < j" for i j
    using that fefo_share_exhausts [OF that(3,1)] share by simp
  moreover have "alloc_total as = q" "\<forall>a \<in> set as. 0 < a_quantity a" "subseq (map a_lotId as) (map (l_id \<circ> wl_lot) ws)"
    using fefo_loop_spec [OF l assms(1)] True by auto
  moreover have "\<forall>i < length ws. alloc_qty as (l_id (wl_lot (ws ! i))) \<le> avail (ws ! i)"
    using share fefo_share_bounds(2) by simp
  ultimately show ?thesis using True l by (simp add: allocateFefo_strict [OF assms(1)] avail_def)
next
  case False
  then have "allocateFefo False ws q = Inl insufficient" by (simp add: allocateFefo_strict [OF assms(1)])
  then show ?thesis using False by auto
qed

definition ex_working :: "working_lot list" where
  "ex_working = map (\<lambda>l. \<lparr>wl_lot = l, wl_taken = 0\<rparr>) [ex_lot ''L1'' ''P1'' (Some 100) 3, ex_lot ''L2'' ''P1'' (Some 200) 7]"

definition ex_takes :: "lot_allocation list" where
  "ex_takes = [allocation_of (ex_working ! 0) 3, allocation_of (ex_working ! 1) 1]"

definition ex_working_after :: "working_lot list" where
  "ex_working_after = [(ex_working ! 0)\<lparr>wl_taken := 3\<rparr>, (ex_working ! 1)\<lparr>wl_taken := 1\<rparr>]"

theorem allocateFefo_fefo_witness:
  "alloc_total ex_takes = 4 \<and> alloc_qty ex_takes ''L1'' = max 0 (workingLotAvailable (ex_working ! 0))"
proof -
  have r: "allocateFefo False ex_working 4 = Inr (ex_takes, ex_working_after)" by code_simp
  have d: "distinct (map (l_id \<circ> wl_lot) ex_working)" by code_simp
  have ids: "l_id (wl_lot (ex_working ! 1)) = ''L2''" "l_id (wl_lot (ex_working ! 0)) = ''L1''" "1 < length ex_working"
      "0 < alloc_qty ex_takes ''L2''"
    by code_simp+
  have "alloc_total ex_takes = 4 \<and> (\<forall>j < length ex_working. 0 < alloc_qty ex_takes (l_id (wl_lot (ex_working ! j))) \<longrightarrow>
      (\<forall>i < j. alloc_qty ex_takes (l_id (wl_lot (ex_working ! i))) = max 0 (workingLotAvailable (ex_working ! i))))"
    using allocateFefo_fefo [of 4 ex_working, unfolded r, OF _ d] by simp
  then show ?thesis using ids by (metis zero_less_one)
qed

lemma bump_alloc_total: "bump_alloc i q as = Some bs \<Longrightarrow> alloc_total bs = alloc_total as + q"
  by (induction i q as arbitrary: bs rule: bump_alloc.induct) (auto split: if_splits)

lemma alloc_total_snoc: "alloc_total (as @ [a]) = alloc_total as + a_quantity a"
  by (induction as) simp_all

text \<open>
  C39: an offline sale (cash already taken) is always allocated in full as long as the product has a
  single ACTIVE lot: what the lots lack is put on the last one.
\<close>

theorem allocateFefo_offline_total:
  assumes "0 \<le> q" "ws \<noteq> []"
  shows "\<exists>as ws'. allocateFefo True ws q = Inr (as, ws') \<and> alloc_total as = q \<and> length ws' = length ws"
proof -
  obtain as ws' r where l: "fefo_loop ws q = (as, ws', r)" by (metis prod_cases3)
  have t: "alloc_total as = q - r" "length ws' = length ws" using fefo_loop_spec [OF l assms(1)] by simp_all
  have r0: "0 \<le> r" using fefo_loop_spec [OF l assms(1)] by simp
  show ?thesis
  proof (cases "0 < r")
    case True
    have "alloc_total (fst (force_last as ws' r)) = q"
      using t(1) bump_alloc_total by (auto simp: force_last_def Let_def alloc_total_snoc split: option.splits)
    moreover have "length (snd (force_last as ws' r)) = length ws"
      using t(2) assms(2) by (cases ws') (auto simp: force_last_def Let_def)
    moreover have "allocateFefo True ws q = Inr (force_last as ws' r)"
      using True assms(2) l by (simp add: allocateFefo_def)
    ultimately show ?thesis by (metis prod.collapse)
  next
    case False
    then have "allocateFefo True ws q = Inr (as, ws')" using assms(2) l by (simp add: allocateFefo_def)
    then show ?thesis using False r0 t by simp
  qed
qed

theorem allocateFefo_offline_total_witness:
  "\<exists>as ws'. allocateFefo True ex_working 25 = Inr (as, ws') \<and> alloc_total as = 25"
proof -
  have "ex_working \<noteq> []" by (simp add: ex_working_def)
  then show ?thesis using allocateFefo_offline_total [of 25 ex_working] by auto
qed

section \<open>Reservations leave no trace\<close>

abbreviation held_more :: "lot_allocation list \<Rightarrow> lot list \<Rightarrow> lot list" where
  "held_more as \<equiv> map (\<lambda>l. l\<lparr>l_quantityReserved := l_quantityReserved l + alloc_qty as (l_id l)\<rparr>)"

abbreviation held_less :: "lot_allocation list \<Rightarrow> lot list \<Rightarrow> lot list" where
  "held_less as \<equiv> map (\<lambda>l. l\<lparr>l_quantityReserved := l_quantityReserved l - alloc_qty as (l_id l)\<rparr>)"

lemma reserve_lots_eq:
  "forE as reserve_lot s = Inr t \<Longrightarrow> t = s\<lparr>db_lots := held_more as (db_lots s)\<rparr>"
proof (induction as arbitrary: s)
  case (Cons a as)
  from Cons.prems obtain u where u: "reserve_lot a s = Inr u" "forE as reserve_lot u = Inr t"
    by (auto simp: bindE_Inr_iff)
  have "u = s\<lparr>db_lots := held_more [a] (db_lots s)\<rparr>"
    using u(1) by (auto simp: reserve_lot_def lot_update_Inr_iff upd_row_def)
  then show ?case using Cons.IH [OF u(2)] by (simp add: comp_def algebra_simps)
qed simp

lemma release_lot_eq:
  assumes "release_lot a s = Inr t" "distinct (map l_id (db_lots s))"
  shows "t = s\<lparr>db_lots := held_less [a] (db_lots s)\<rparr>"
proof -
  let ?P = "\<lambda>l. l_id l = a_lotId a \<and> l_quantityReserved l \<ge> a_quantity a"
  let ?f = "\<lambda>l::lot. l\<lparr>l_quantityReserved := l_quantityReserved l - a_quantity a\<rparr>"
  obtain ls where ls: "updateMany_rows ?P ?f (db_lots s) = (1, ls)" "t = s\<lparr>db_lots := ls\<rparr>"
    using assms(1) by (auto simp: release_lot_def lot_updateMany_def split: prod.splits if_splits)
  then obtain r where "r \<in> set (db_lots s)" "l_id r = a_lotId a" "l_quantityReserved r \<ge> a_quantity a"
    using updateMany_rows_count by blast
  then have "ls = upd_row l_id (a_lotId a) ?f (db_lots s)"
    using updateMany_rows_key [OF assms(2), of r "a_lotId a" "\<lambda>l. l_quantityReserved l \<ge> a_quantity a" ?f] ls(1) by simp
  then show ?thesis using ls(2) by (auto simp: upd_row_def)
qed

lemma release_lots_eq:
  "forE as release_lot s = Inr t \<Longrightarrow> distinct (map l_id (db_lots s)) \<Longrightarrow> t = s\<lparr>db_lots := held_less as (db_lots s)\<rparr>"
proof (induction as arbitrary: s)
  case (Cons a as)
  from Cons.prems(1) obtain u where u: "release_lot a s = Inr u" "forE as release_lot u = Inr t"
    by (auto simp: bindE_Inr_iff)
  have e: "u = s\<lparr>db_lots := held_less [a] (db_lots s)\<rparr>" by (rule release_lot_eq [OF u(1) Cons.prems(2)])
  then have "distinct (map l_id (db_lots u))" using Cons.prems(2) by (simp add: comp_def)
  from Cons.IH [OF u(2) this] show ?case by (simp add: e comp_def algebra_simps)
qed simp

lemma reserve_eq:
  assumes "reserve dev product lots as s = Inr t"
  shows "t = s\<lparr>db_lots := held_more as (db_lots s),
               db_products := upd_row p_id (p_id product) (\<lambda>p. p\<lparr>p_reserved := p_reserved p + alloc_total as\<rparr>) (db_products s)\<rparr>"
  using assms by (auto simp: reserve_def bindE_Inr_iff product_update_Inr_iff dest!: reserve_lots_eq)

lemma release_eq:
  assumes "release dev product lots as s = Inr t" "distinct (map l_id (db_lots s))" "distinct (map p_id (db_products s))"
  shows "t = s\<lparr>db_lots := held_less as (db_lots s),
               db_products := upd_row p_id (p_id product) (\<lambda>p. p\<lparr>p_reserved := p_reserved p - alloc_total as\<rparr>) (db_products s)\<rparr>"
proof -
  let ?P = "\<lambda>p. p_id p = p_id product \<and> p_storeId p = p_storeId product \<and> p_reserved p \<ge> alloc_total as"
  let ?f = "\<lambda>p::product. p\<lparr>p_reserved := p_reserved p - alloc_total as\<rparr>"
  obtain u where u: "forE as release_lot s = Inr u" "\<exists>ps. updateMany_rows ?P ?f (db_products u) = (1, ps) \<and> t = u\<lparr>db_products := ps\<rparr>"
    using assms(1) by (auto simp: release_def bindE_Inr_iff product_updateMany_def Let_def split: prod.splits if_splits)
  have e: "u = s\<lparr>db_lots := held_less as (db_lots s)\<rparr>" by (rule release_lots_eq [OF u(1) assms(2)])
  obtain ps where ps: "updateMany_rows ?P ?f (db_products s) = (1, ps)" "t = u\<lparr>db_products := ps\<rparr>" using u(2) e by auto
  obtain r where r: "r \<in> set (db_products s)" "?P r" using updateMany_rows_count [OF ps(1)] by blast
  have "ps = upd_row p_id (p_id product) ?f (db_products s)"
    using updateMany_rows_key [OF assms(3) r(1), of "p_id product"
        "\<lambda>p. p_storeId p = p_storeId product \<and> p_reserved p \<ge> alloc_total as" ?f] r(2) ps(1) by simp
  then show ?thesis using ps(2) e by simp
qed

text \<open>
  C38: on consistent stock, units that are free can always be reserved, and releasing them again
  restores every row of every table exactly: an abandoned card payment leaves no trace in the stock.
\<close>

theorem reserve_release_roundtrip:
  assumes "stock_inv h s" "rows_for product lots as s" "\<forall>l \<in> set (db_lots s). alloc_qty as (l_id l) \<le> free_units l"
  shows "\<exists>t. reserve dev product lots as s = Inr t \<and> release dev product lots as t = Inr s"
proof -
  obtain t where t: "reserve dev product lots as s = Inr t" "engine_post free_units (\<lambda>i. h i + alloc_qty as i) as s t"
    using reserve_ok [OF assms] by blast
  then have inv: "stock_inv (\<lambda>i. h i + alloc_qty as i) t" and fr: "stock_frame s t" by (simp_all add: engine_post_def)
  note e = reserve_eq [OF t(1)]
  have "alloc_qty as (l_id l) \<le> l_quantityReserved l" if l: "l \<in> set (db_lots t)" for l
  proof -
    obtain x where "x \<in> set (db_lots s)" "l = x\<lparr>l_quantityReserved := l_quantityReserved x + alloc_qty as (l_id x)\<rparr>"
      using l by (auto simp: e)
    then show ?thesis using assms(1) by (auto simp: stock_inv_def lots_inv_def lot_ok_def)
  qed
  then obtain u where u: "release dev product lots as t = Inr u"
    using release_ok [OF inv rows_for_frame [OF assms(2) fr], of dev] by blast
  have d: "distinct (map l_id (db_lots t))" "distinct (map p_id (db_products t))"
    using inv lots_inv_distinct by (auto simp: stock_inv_def)
  have "held_less as (db_lots t) = db_lots s" by (simp add: e comp_def map_idI)
  moreover have "upd_row p_id (p_id product) (\<lambda>p. p\<lparr>p_reserved := p_reserved p - alloc_total as\<rparr>) (db_products t) = db_products s"
    by (simp add: e upd_row_def comp_def map_idI)
  moreover have "db_lots t = held_more as (db_lots s)" by (simp add: e)
  ultimately have "u = s" using release_eq [OF u d] by (simp add: e)
  then show ?thesis using t(1) u by blast
qed

theorem reserve_release_roundtrip_witness:
  "\<exists>t. reserve True ex_apples (db_lots ex_db) ex_takes ex_db = Inr t
     \<and> release True ex_apples (db_lots ex_db) ex_takes t = Inr ex_db"
proof -
  have "rows_for ex_apples (db_lots ex_db) ex_takes ex_db"
    by (simp add: rows_for_def ex_takes_def ex_working_def allocation_of_def ex_db_def ex_lot_def ex_apples_def
        lot_key_def product_key_def)
  moreover have "\<forall>l \<in> set (db_lots ex_db). alloc_qty ex_takes (l_id l) \<le> free_units l"
    by (simp add: ex_takes_def ex_working_def allocation_of_def ex_db_def ex_lot_def free_units_def)
  ultimately show ?thesis by (rule reserve_release_roundtrip [OF ex_stock_inv])
qed

section \<open>The operator's check\<close>

text \<open>
  The check behind \<open>npm run verify:stock\<close> is exact: the products it reports are those whose
  cached stock or reservation counter differs from the sum over their ACTIVE lots, so it reports
  none if and only if the roll-up holds; and it looks at every product.
\<close>

theorem verify_stock_exact:
  assumes "distinct (map p_id (db_products s))"
  shows "mm_productId ` set (snd (findStockRollupMismatches None s))
      = {p_id p | p. p \<in> set (db_products s) \<and> \<not> (stock_gap s (p_id p) = 0 \<and> reserved_gap s (p_id p) = 0)}
    \<and> (snd (findStockRollupMismatches None s) = [] \<longleftrightarrow> rollup_ok s)
    \<and> fst (findStockRollupMismatches None s) = length (db_products s)"
  using findStockRollupMismatches_ids [OF assms] findStockRollupMismatches_iff [OF assms]
  by (simp add: findStockRollupMismatches_def Let_def)

theorem verify_stock_exact_witness:
  "snd (findStockRollupMismatches None ex_db) = [] \<and> fst (findStockRollupMismatches None ex_db) = 2"
proof -
  have "distinct (map p_id (db_products ex_db))" "length (db_products ex_db) = 2" by code_simp+
  moreover have "rollup_ok ex_db" using ex_stock_inv by (simp add: stock_inv_def)
  ultimately show ?thesis using verify_stock_exact [of ex_db] by simp
qed

section \<open>Corrections of a lot\<close>

text \<open>
  Setting the remaining units of a lot (a count, an adjustment) is refused exactly for a negative
  target and, on an ACTIVE lot, for a target below what pending sales hold; otherwise the lot has the
  target afterwards, the reported difference is the change, a drained ACTIVE lot is DEPLETED and a
  DEPLETED lot with units is ACTIVE again, and the product counters follow.
\<close>

theorem setLotRemaining_exact:
  assumes "stock_inv h s" "lot_of product lot s"
  shows "case setLotRemaining dev product lot target s of
      Inl e \<Rightarrow> target < 0 \<or> l_status lot = LotACTIVE \<and> target < l_quantityReserved lot
    | Inr (t, r) \<Rightarrow> 0 \<le> target \<and> stock_inv h t
        \<and> find_lot (l_id lot) t = Some (lot\<lparr>l_quantityRemaining := target, l_status := sr_nextStatus r\<rparr>)
        \<and> sr_delta r = target - l_quantityRemaining lot
        \<and> (sr_nextStatus r = LotACTIVE \<longleftrightarrow> l_status lot = LotACTIVE \<and> target \<noteq> 0 \<or> l_status lot = LotDEPLETED \<and> target \<noteq> 0)"
proof (cases "target < 0 \<or> l_status lot = LotACTIVE \<and> target < l_quantityReserved lot")
  case True
  then show ?thesis by (auto simp: setLotRemaining_result [OF assms])
next
  case False
  let ?f = "\<lambda>l::lot. l\<lparr>l_quantityRemaining := target, l_status := set_status lot target\<rparr>"
  have "lot \<in> set (db_lots s)" "distinct (map l_id (db_lots s))"
    using assms lots_inv_distinct by (auto simp: lot_of_def stock_inv_def)
  then have "find_lot (l_id lot) s = Some lot" by (simp add: find_lot_def find_row_eq_Some_iff)
  then have "find_lot (l_id lot) (moved lot ?f product (set_delta lot target) s) = Some (?f lot)"
    by (simp add: find_lot_def moved_def find_row_upd_row)
  moreover have "set_status lot target = LotACTIVE \<longleftrightarrow>
      l_status lot = LotACTIVE \<and> target \<noteq> 0 \<or> l_status lot = LotDEPLETED \<and> target \<noteq> 0"
    using False by (auto simp: set_status_def)
  moreover have "stock_inv h (moved lot ?f product (set_delta lot target) s)"
    by (rule setLotRemaining_ok [OF assms]) (use False in auto)
  moreover have "setLotRemaining dev product lot target s = Inr (moved lot ?f product (set_delta lot target) s,
      \<lparr>sr_previousQty = l_quantityRemaining lot, sr_delta = target - l_quantityRemaining lot,
       sr_rollupDelta = set_delta lot target, sr_nextStatus = set_status lot target\<rparr>)"
    using False unfolding setLotRemaining_result [OF assms] by simp
  ultimately show ?thesis using False by simp
qed

theorem setLotRemaining_exact_witness:
  "\<exists>t r. setLotRemaining True ex_apples (ex_lot ''L1'' ''P1'' (Some 100) 3) 0 ex_db = Inr (t, r)
     \<and> stock_inv (\<lambda>i. 0) t \<and> sr_delta r = -3"
proof -
  let ?l = "ex_lot ''L1'' ''P1'' (Some 100) 3"
  have rows: "lot_of ex_apples ?l ex_db" by (simp add: lot_of_def ex_db_def ex_lot_def ex_apples_def)
  have no: "\<not> (0 < (0::int) \<or> l_status ?l = LotACTIVE \<and> 0 < l_quantityReserved ?l)" "l_quantityRemaining ?l = 3"
    by (simp_all add: ex_lot_def)
  show ?thesis
  proof (cases "setLotRemaining True ex_apples ?l 0 ex_db")
    case (Inl e)
    then show ?thesis using setLotRemaining_exact [OF ex_stock_inv rows, where dev = True and target = 0] no by auto
  next
    case (Inr x)
    then show ?thesis using setLotRemaining_exact [OF ex_stock_inv rows, where dev = True and target = 0] no by (cases x) auto
  qed
qed

section \<open>A lot below zero\<close>

text \<open>
  An offline sale can leave an ACTIVE lot below zero with the roll-up still right. Taking such a
  lot out of sale (quarantine, expiry) then always breaks the roll-up: the status changes, but the
  negative units stay in \<open>Product.stock\<close>, because only positive units are written off.
\<close>

theorem negative_lot_leaves_phantom_stock:
  assumes rows: "lot_of product lot s" and d: "distinct (map l_id (db_lots s))" "distinct (map p_id (db_products s))"
    and ok: "rollup_ok s" and neg: "l_status lot = LotACTIVE" "l_quantityRemaining lot < 0" and st: "st \<noteq> LotACTIVE"
  shows "\<exists>t. leaveSellableRollup dev product lot st s = Inr (t, 0) \<and> stock_gap t (p_id product) = l_quantityRemaining lot
    \<and> \<not> rollup_ok t"
proof -
  let ?f = "\<lambda>l::lot. l\<lparr>l_status := st\<rparr>"
  let ?t = "s\<lparr>db_lots := upd_row l_id (l_id lot) ?f (db_lots s)\<rparr>"
  have r: "lot \<in> set (db_lots s)" "product \<in> set (db_products s)" "l_productId lot = p_id product"
    using rows by (simp_all add: lot_of_def)
  have "leaveSellableRollup dev product lot st s = Inr (?t, 0)"
    using neg lot_update_in [OF r(1), of ?f] by (simp add: leaveSellableRollup_def assertLotOps_one [OF r(3)])
  moreover have "stock_gap ?t (p_id product) = l_quantityRemaining lot"
    using stock_gap_lot [OF d(1) r(1), of ?f "p_id product"] ok neg(1) st r(2,3)
    by (simp add: rollup_ok_def active_remaining_def)
  moreover from this have "\<not> rollup_ok ?t"
    using r(2) neg(2) unfolding rollup_ok_def by (intro notI) (drule bspec [of _ _ product]; simp)
  ultimately show ?thesis by blast
qed

definition ex_oversold :: db where
  "ex_oversold = ex_db
     \<lparr>db_products := [ex_apples\<lparr>p_stock := -2\<rparr>], db_lots := [(ex_lot ''L2'' ''P1'' (Some 200) 7)\<lparr>l_quantityRemaining := -2\<rparr>]\<rparr>"

theorem negative_lot_leaves_phantom_stock_witness:
  "\<exists>t. leaveSellableRollup True (hd (db_products ex_oversold)) (hd (db_lots ex_oversold)) LotQUARANTINED ex_oversold = Inr (t, 0)
     \<and> \<not> rollup_ok t"
proof -
  have "rollup_ok ex_oversold"
    by (simp add: rollup_ok_def ex_oversold_def ex_lot_def ex_apples_def stock_gap_def
        reserved_gap_def product_stock_def product_reserved_def active_remaining_def active_reserved_def)
  moreover have "lot_of (hd (db_products ex_oversold)) (hd (db_lots ex_oversold)) ex_oversold"
    by (simp add: lot_of_def ex_oversold_def ex_lot_def ex_apples_def)
  moreover have "distinct (map l_id (db_lots ex_oversold))" "distinct (map p_id (db_products ex_oversold))"
      "l_status (hd (db_lots ex_oversold)) = LotACTIVE" "l_quantityRemaining (hd (db_lots ex_oversold)) < 0"
    by (simp_all add: ex_oversold_def ex_lot_def)
  ultimately show ?thesis
    using negative_lot_leaves_phantom_stock [of "hd (db_products ex_oversold)" "hd (db_lots ex_oversold)" ex_oversold
        LotQUARANTINED True] by blast
qed

end
