(* ===== verification/Benefits.thy ===== *)
theory Benefits
  imports Js_Base Examples
begin

text \<open>
  Member benefits at checkout (\<open>backend/src/services/benefits.service.ts\<close>). The in-process cache of
  active benefits is an argument and a result of \<open>loadActiveBenefits\<close>; \<open>now\<close> is \<open>new Date()\<close> (the
  cache deadline uses the same instant). The prose of a skip reason is the constructor it is
  printed from. The proofs show that a line is discounted by the rule the comments promise (best
  priority tier, then the largest discount), that fixed discounts never exceed the line, and that a
  capped benefit is never applied more often in one cart than its cap leaves.
\<close>

section \<open>Cart lines and results\<close>

record benefit_cart_line =
  bl_lineKey :: "nat \<times> ident"
  bl_productId :: ident
  bl_category :: string
  bl_quantity :: int
  bl_unitPrice :: decimal

record line_benefit =
  lb_lineKey :: "nat \<times> ident"
  lb_productId :: ident
  lb_lineGross :: decimal
  lb_benefitId :: "ident option"
  lb_benefitDiscountAmount :: decimal

datatype skip_reason =
    BelowMinimumPurchase decimal decimal
  | NotALineDiscount benefit_type
  | UsageCapReached int int benefit_period
  | NoLineInScope
  | AnotherBenefitWon
  | StoreOptedOut

record skipped_benefit =
  sk_benefitId :: ident
  sk_description :: string
  sk_reason :: skip_reason

record resolve_result =
  rr_lines :: "line_benefit list"
  rr_memberDiscountAmount :: decimal
  rr_appliedBenefitIds :: "ident list"
  rr_skipped :: "skipped_benefit list"

text \<open>A benefit's own description, or the name of its type when it is empty.\<close>

fun benefit_type_name :: "benefit_type \<Rightarrow> string" where
  "benefit_type_name PERCENT_DISCOUNT = ''PERCENT_DISCOUNT''"
| "benefit_type_name FIXED_DISCOUNT = ''FIXED_DISCOUNT''"
| "benefit_type_name FREE_DELIVERY = ''FREE_DELIVERY''"
| "benefit_type_name EARLY_ACCESS = ''EARLY_ACCESS''"
| "benefit_type_name EXCLUSIVE_PRODUCT = ''EXCLUSIVE_PRODUCT''"
| "benefit_type_name BULK_PRICING = ''BULK_PRICING''"
| "benefit_type_name BIRTHDAY_CREDIT = ''BIRTHDAY_CREDIT''"
| "benefit_type_name STORE_CREDIT = ''STORE_CREDIT''"
| "benefit_type_name FREE_ITEM = ''FREE_ITEM''"

definition benefit_label :: "member_benefit \<Rightarrow> string" where
  "benefit_label b = (if mb_description b = [] then benefit_type_name (mb_benefitType b) else mb_description b)"

definition skip :: "member_benefit \<Rightarrow> skip_reason \<Rightarrow> skipped_benefit" where
  "skip b r = \<lparr>sk_benefitId = mb_id b, sk_description = benefit_label b, sk_reason = r\<rparr>"

section \<open>The discount of one benefit on one line\<close>

definition isCheckoutDiscountType :: "benefit_type \<Rightarrow> bool" where
  "isCheckoutDiscountType t \<longleftrightarrow>
     t = PERCENT_DISCOUNT \<or> t = FIXED_DISCOUNT \<or> t = FREE_ITEM \<or> t = BULK_PRICING
     \<or> t = BIRTHDAY_CREDIT \<or> t = STORE_CREDIT"

definition computeLineDiscount :: "member_benefit \<Rightarrow> decimal \<Rightarrow> decimal" where
  "computeLineDiscount b lineGross =
     (if lineGross \<le> 0 then moneyDec 0
      else if mb_benefitType b = PERCENT_DISCOUNT \<or> mb_benefitType b = BULK_PRICING
      then moneyDec (lineGross * mb_value b / 100)
      else if mb_benefitType b = FIXED_DISCOUNT \<or> mb_benefitType b = FREE_ITEM
              \<or> mb_benefitType b = BIRTHDAY_CREDIT \<or> mb_benefitType b = STORE_CREDIT
      then (let fixed = moneyDec (mb_value b)
            in if fixed > lineGross then moneyDec lineGross else fixed)
      else moneyDec 0)"

definition scopeMatchesLine :: "member_benefit \<Rightarrow> ident \<Rightarrow> benefit_cart_line \<Rightarrow> bool" where
  "scopeMatchesLine b storeId line =
     (case mb_scope b of
        ALL_PRODUCTS \<Rightarrow> True
      | NETWORK_WIDE \<Rightarrow> True
      | CATEGORY \<Rightarrow> mb_scopeRefId b = Some (bl_category line)
      | PRODUCT \<Rightarrow> mb_scopeRefId b = Some (bl_productId line)
      | STORE \<Rightarrow> mb_scopeRefId b = Some storeId)"

section \<open>Usage windows\<close>

definition periodWindowStart :: "benefit_period \<Rightarrow> time \<Rightarrow> time option" where
  "periodWindowStart p now =
     (let (y, m, d) = utc_date now in
      case p of
        PER_TRANSACTION \<Rightarrow> None
      | DAILY \<Rightarrow> Some (date_utc y m d)
      | MONTHLY \<Rightarrow> Some (date_utc y m 1)
      | ANNUAL \<Rightarrow> Some (date_utc y 1 1)
      | LIFETIME \<Rightarrow> Some 0)"

section \<open>Loading the active benefits\<close>

definition benefit_live :: "time \<Rightarrow> member_benefit \<Rightarrow> bool" where
  "benefit_live now b \<longleftrightarrow>
     mb_isActive b \<and> mb_startsAt b \<le> now \<and> (case mb_endsAt b of None \<Rightarrow> True | Some e \<Rightarrow> e > now)"

definition BENEFIT_CACHE_TTL_MS :: int where
  "BENEFIT_CACHE_TTL_MS = 30000"

type_synonym benefit_cache = "(time \<times> member_benefit list) option"

definition loadActiveBenefits :: "time \<Rightarrow> benefit_cache \<Rightarrow> db \<Rightarrow> member_benefit list \<times> benefit_cache" where
  "loadActiveBenefits now cache s =
     (let fresh = sort_key mb_priority (sort_key mb_createdAt (filter (benefit_live now) (db_benefits s)))
      in case cache of
        Some (expiresAt, benefits) \<Rightarrow>
          if expiresAt > now then (filter (benefit_live now) benefits, cache)
          else (fresh, Some (now + BENEFIT_CACHE_TTL_MS, fresh))
      | None \<Rightarrow> (fresh, Some (now + BENEFIT_CACHE_TTL_MS, fresh)))"

section \<open>Eligibility\<close>

definition priorUses :: "ident \<Rightarrow> time \<Rightarrow> member_benefit \<Rightarrow> db \<Rightarrow> int" where
  "priorUses memberId now b s =
     (if mb_periodType b = PER_TRANSACTION then 0
      else int (length (filter
        (\<lambda>u. bu_memberId u = memberId \<and> bu_benefitId u = mb_id b
              \<and> (case periodWindowStart (mb_periodType b) now of None \<Rightarrow> True | Some w \<Rightarrow> bu_usedAt u \<ge> w))
        (db_usages s))))"

text \<open>One pass of the eligibility loop: the reason to skip a benefit, if any.\<close>

definition eligibility :: "ident \<Rightarrow> time \<Rightarrow> decimal \<Rightarrow> db \<Rightarrow> member_benefit \<Rightarrow> skip_reason option" where
  "eligibility memberId now cartGross s b =
     (if cartGross < mb_minimumPurchaseAmount b
      then Some (BelowMinimumPurchase cartGross (moneyDec (mb_minimumPurchaseAmount b)))
      else if \<not> isCheckoutDiscountType (mb_benefitType b)
      then Some (NotALineDiscount (mb_benefitType b))
      else case mb_maxUsesPerPeriod b of
        None \<Rightarrow> None
      | Some cap \<Rightarrow>
          if priorUses memberId now b s \<ge> cap
          then Some (UsageCapReached (priorUses memberId now b s) cap (mb_periodType b))
          else None)"

section \<open>The winner of a line\<close>

text \<open>How often each benefit has been used in this cart (the map \<open>usedThisCart\<close>).\<close>

type_synonym cart_uses = "(ident \<times> int) list"

definition uses_of :: "cart_uses \<Rightarrow> ident \<Rightarrow> int" where
  "uses_of uses i = (case map_of uses i of None \<Rightarrow> 0 | Some n \<Rightarrow> n)"

definition capacity_left :: "ident \<Rightarrow> time \<Rightarrow> db \<Rightarrow> cart_uses \<Rightarrow> member_benefit \<Rightarrow> bool" where
  "capacity_left memberId now s uses b =
     (case mb_maxUsesPerPeriod b of
        None \<Rightarrow> True
      | Some cap \<Rightarrow> \<not> priorUses memberId now b s + uses_of uses (mb_id b) \<ge> cap)"

definition line_gross :: "benefit_cart_line \<Rightarrow> decimal" where
  "line_gross line = moneyDec (bl_unitPrice line * of_int (bl_quantity line))"

definition candidates ::
  "ident \<Rightarrow> time \<Rightarrow> db \<Rightarrow> ident \<Rightarrow> cart_uses \<Rightarrow> member_benefit list \<Rightarrow> benefit_cart_line
     \<Rightarrow> (member_benefit \<times> decimal) list" where
  "candidates memberId now s storeId uses eligible line =
     filter (\<lambda>(b, d). \<not> d \<le> 0)
       (map (\<lambda>b. (b, computeLineDiscount b (line_gross line)))
         (filter (\<lambda>b. scopeMatchesLine b storeId line \<and> capacity_left memberId now s uses b) eligible))"

text \<open>\<open>reduce((best, cur) => cur.discount.gt(best.discount) ? cur : best)\<close>: the first maximum.\<close>

definition best_discount :: "('b \<times> decimal) \<Rightarrow> ('b \<times> decimal) list \<Rightarrow> 'b \<times> decimal" where
  "best_discount c cs = foldl (\<lambda>best cur. if snd cur > snd best then cur else best) c cs"

definition line_winner :: "(member_benefit \<times> decimal) list \<Rightarrow> (member_benefit \<times> decimal) option" where
  "line_winner cands =
     (if cands = [] then None
      else
        let bestPriority = Min (set (map (\<lambda>c. mb_priority (fst c)) cands));
            atTier = filter (\<lambda>c. mb_priority (fst c) = bestPriority) cands
        in case atTier of [] \<Rightarrow> None | c # cs \<Rightarrow> Some (best_discount c cs))"

definition no_benefit :: "benefit_cart_line \<Rightarrow> line_benefit" where
  "no_benefit line =
     \<lparr>lb_lineKey = bl_lineKey line, lb_productId = bl_productId line, lb_lineGross = line_gross line,
      lb_benefitId = None, lb_benefitDiscountAmount = moneyDec 0\<rparr>"

fun resolve_lines ::
  "ident \<Rightarrow> time \<Rightarrow> db \<Rightarrow> ident \<Rightarrow> member_benefit list \<Rightarrow> cart_uses \<Rightarrow> benefit_cart_line list
     \<Rightarrow> line_benefit list \<times> cart_uses" where
  "resolve_lines memberId now s storeId eligible uses [] = ([], uses)"
| "resolve_lines memberId now s storeId eligible uses (line # rest) =
     (case line_winner (candidates memberId now s storeId uses eligible line) of
        Some (b, d) \<Rightarrow>
          (let uses' = (mb_id b, uses_of uses (mb_id b) + 1) # uses;
               (ls, u) = resolve_lines memberId now s storeId eligible uses' rest
           in ((no_benefit line)\<lparr>lb_benefitId := Some (mb_id b), lb_benefitDiscountAmount := d\<rparr> # ls, u))
      | None \<Rightarrow>
          (let (ls, u) = resolve_lines memberId now s storeId eligible uses rest
           in (no_benefit line # ls, u)))"

section \<open>resolveBenefits\<close>

definition late_skip :: "ident \<Rightarrow> benefit_cart_line list \<Rightarrow> cart_uses \<Rightarrow> member_benefit \<Rightarrow> skip_reason option" where
  "late_skip storeId cartLines uses b =
     (if \<not> (\<exists>line \<in> set cartLines. scopeMatchesLine b storeId line) then Some NoLineInScope
      else if uses_of uses (mb_id b) = 0 then Some AnotherBenefitWon else None)"

text \<open>The last loop: \<open>skipped\<close> grows while it runs, and a benefit already listed is not listed again.\<close>

fun late_skips ::
  "ident \<Rightarrow> benefit_cart_line list \<Rightarrow> cart_uses \<Rightarrow> ident list \<Rightarrow> member_benefit list
     \<Rightarrow> skipped_benefit list \<Rightarrow> skipped_benefit list" where
  "late_skips storeId cartLines uses applied [] skipped = skipped"
| "late_skips storeId cartLines uses applied (b # bs) skipped =
     late_skips storeId cartLines uses applied bs
       (if mb_id b \<in> set applied then skipped
        else if \<exists>k \<in> set skipped. sk_benefitId k = mb_id b then skipped
        else case late_skip storeId cartLines uses b of
               None \<Rightarrow> skipped
             | Some r \<Rightarrow> skipped @ [skip b r])"

definition cart_gross :: "benefit_cart_line list \<Rightarrow> decimal" where
  "cart_gross cartLines =
     moneyDec (sum_list (map (\<lambda>l. bl_unitPrice l * of_int (bl_quantity l)) cartLines))"

definition resolveBenefits ::
  "time \<Rightarrow> benefit_cache \<Rightarrow> ident \<Rightarrow> ident \<Rightarrow> benefit_cart_line list \<Rightarrow> db
     \<Rightarrow> resolve_result \<times> benefit_cache" where
  "resolveBenefits now cache memberId storeId cartLines s =
     (let empty = \<lparr>rr_lines = map no_benefit cartLines, rr_memberDiscountAmount = moneyDec 0,
                   rr_appliedBenefitIds = [], rr_skipped = []\<rparr>
      in
      if memberId = [] \<or> cartLines = [] then (empty, cache)
      else case find_store storeId s of
        None \<Rightarrow> (empty, cache)
      | Some store \<Rightarrow>
        if \<not> st_honorsNetworkBenefits store
        then (empty\<lparr>rr_skipped := [\<lparr>sk_benefitId = ''*'', sk_description = ''Network benefits'',
                                     sk_reason = StoreOptedOut\<rparr>]\<rparr>, cache)
        else
          (let (benefits, cache') = loadActiveBenefits now cache s;
               cartGross = cart_gross cartLines;
               skipped = concat (map (\<lambda>b. case eligibility memberId now cartGross s b of
                                            None \<Rightarrow> [] | Some r \<Rightarrow> [skip b r]) benefits);
               eligible = sort_key mb_priority (sort_key mb_createdAt
                 (filter (\<lambda>b. eligibility memberId now cartGross s b = None) benefits));
               (lines, uses) = resolve_lines memberId now s storeId eligible [] cartLines;
               applied = remdups (map fst uses)
           in (\<lparr>rr_lines = lines,
                rr_memberDiscountAmount = moneyDec (sum_list (map lb_benefitDiscountAmount lines)),
                rr_appliedBenefitIds = rev (remdups (map fst uses)),
                rr_skipped = late_skips storeId cartLines uses applied eligible skipped\<rparr>, cache')))"

section \<open>What a line gets\<close>

text \<open>A percentage or bulk benefit is modest when it gives at most the whole line; amounts are capped by the code.\<close>

definition modest_benefit :: "member_benefit \<Rightarrow> bool" where
  "modest_benefit b \<longleftrightarrow>
     (mb_benefitType b = PERCENT_DISCOUNT \<or> mb_benefitType b = BULK_PRICING \<longrightarrow> mb_value b \<le> 100)"

lemma computeLineDiscount_money [simp]: "is_money (computeLineDiscount b g)"
  by (simp add: computeLineDiscount_def Let_def)

lemma moneyDec_nonpos: "x \<le> 0 \<Longrightarrow> moneyDec x \<le> 0"
  by (cases "x = 0") (simp_all add: moneyDec_def toDecimalPlaces_def Let_def zero_le_floor)

lemma computeLineDiscount_le:
  assumes "modest_benefit b" "is_money g" "0 \<le> g"
  shows "computeLineDiscount b g \<le> g"
proof (cases "g \<le> 0")
  case True
  then show ?thesis using assms by (simp add: computeLineDiscount_def)
next
  case False
  show ?thesis
  proof (cases "mb_benefitType b = PERCENT_DISCOUNT \<or> mb_benefitType b = BULK_PRICING")
    case pct: True
    then have "g * mb_value b \<le> g * 100"
      using assms False by (intro mult_left_mono) (auto simp: modest_benefit_def)
    then have le: "g * mb_value b / 100 \<le> g" by simp
    have "moneyDec (g * mb_value b / 100) \<le> g"
    proof (cases "0 \<le> g * mb_value b / 100")
      case True
      then show ?thesis using moneyDec_le_money le assms(2) by blast
    next
      case False
      then show ?thesis using moneyDec_nonpos [of "g * mb_value b / 100"] assms(3) by linarith
    qed
    then show ?thesis using pct False by (simp add: computeLineDiscount_def)
  next
    case other: False
    then show ?thesis using assms False by (auto simp: computeLineDiscount_def Let_def)
  qed
qed

text \<open>The fold returns an element of the list that no other exceeds.\<close>

lemma best_discount_max:
  "best_discount c cs \<in> set (c # cs) \<and> (\<forall>x \<in> set (c # cs). snd x \<le> snd (best_discount c cs))"
proof (induction cs arbitrary: c)
  case (Cons d cs)
  show ?case
    using Cons.IH [of c] Cons.IH [of d] by (auto simp: best_discount_def)
qed (simp add: best_discount_def)

lemma line_winner_Some:
  assumes "line_winner cands = Some w"
  shows "w \<in> set cands"
    and "\<forall>c \<in> set cands. mb_priority (fst w) \<le> mb_priority (fst c)"
    and "\<forall>c \<in> set cands. mb_priority (fst c) = mb_priority (fst w) \<longrightarrow> snd c \<le> snd w"
proof -
  define pr where "pr = Min (set (map (\<lambda>c. mb_priority (fst c)) cands))"
  obtain c cs where tier: "filter (\<lambda>c. mb_priority (fst c) = pr) cands = c # cs" "w = best_discount c cs"
    using assms by (auto simp: line_winner_def pr_def Let_def split: if_splits list.splits)
  have w: "w \<in> set (c # cs)" "\<forall>x \<in> set (c # cs). snd x \<le> snd w"
    using best_discount_max [of c cs] tier(2) by auto
  then have wp: "w \<in> set cands" "mb_priority (fst w) = pr"
  proof -
    have "w \<in> set (filter (\<lambda>c. mb_priority (fst c) = pr) cands)" using w(1) tier(1) by simp
    then show "w \<in> set cands" "mb_priority (fst w) = pr" by simp_all
  qed
  show "w \<in> set cands" by (fact wp(1))
  show "\<forall>c \<in> set cands. mb_priority (fst w) \<le> mb_priority (fst c)"
    unfolding wp(2) pr_def by simp
  show "\<forall>c \<in> set cands. mb_priority (fst c) = mb_priority (fst w) \<longrightarrow> snd c \<le> snd w"
  proof (intro ballI impI)
    fix x assume "x \<in> set cands" "mb_priority (fst x) = mb_priority (fst w)"
    then have "x \<in> set (filter (\<lambda>c. mb_priority (fst c) = pr) cands)" using wp(2) by simp
    then show "snd x \<le> snd w" using w(2) unfolding tier(1) by blast
  qed
qed

lemma line_winner_None: "line_winner cands = None \<longleftrightarrow> cands = []"
proof
  assume none: "line_winner cands = None"
  show "cands = []"
  proof (rule ccontr)
    assume ne: "cands \<noteq> []"
    define pr where "pr = Min (set (map (\<lambda>c. mb_priority (fst c)) cands))"
    have "pr \<in> set (map (\<lambda>c. mb_priority (fst c)) cands)" unfolding pr_def using ne by (intro Min_in) simp_all
    then have "filter (\<lambda>c. mb_priority (fst c) = pr) cands \<noteq> []" by (auto simp: filter_empty_conv)
    then show False using none ne by (auto simp: line_winner_def pr_def Let_def split: list.splits)
  qed
qed (simp add: line_winner_def)

lemma candidates_iff:
  "(b, d) \<in> set (candidates m now s st uses eligible line) \<longleftrightarrow>
     b \<in> set eligible \<and> scopeMatchesLine b st line \<and> capacity_left m now s uses b
     \<and> d = computeLineDiscount b (line_gross line) \<and> 0 < d"
  by (auto simp: candidates_def)

section \<open>Lines, caps and totals\<close>

text \<open>One line: either no candidate, or the winner's discount and one more use.\<close>

lemma resolve_lines_Cons_cases:
  assumes "resolve_lines m now s st el uses (line # rest) = (rs, u)"
  obtains (none) rs' where "candidates m now s st uses el line = []" "rs = no_benefit line # rs'"
      "resolve_lines m now s st el uses rest = (rs', u)"
    | (won) b d rs' where "line_winner (candidates m now s st uses el line) = Some (b, d)"
      "b \<in> set el" "scopeMatchesLine b st line" "capacity_left m now s uses b"
      "d = computeLineDiscount b (line_gross line)" "0 < d"
      "rs = (no_benefit line)\<lparr>lb_benefitId := Some (mb_id b), lb_benefitDiscountAmount := d\<rparr> # rs'"
      "resolve_lines m now s st el ((mb_id b, uses_of uses (mb_id b) + 1) # uses) rest = (rs', u)"
proof (cases "line_winner (candidates m now s st uses el line)")
  case None
  obtain rs' u' where r: "resolve_lines m now s st el uses rest = (rs', u')" by (metis surj_pair)
  show ?thesis
    by (rule none [of rs']) (use assms r None in \<open>simp_all add: line_winner_None\<close>)
next
  case (Some w)
  obtain b d where w: "w = (b, d)" by (cases w)
  have "(b, d) \<in> set (candidates m now s st uses el line)" using line_winner_Some(1) [OF Some] w by simp
  then have c: "b \<in> set el" "scopeMatchesLine b st line" "capacity_left m now s uses b"
      "d = computeLineDiscount b (line_gross line)" "0 < d"
    by (simp_all add: candidates_iff)
  obtain rs' u' where r: "resolve_lines m now s st el ((mb_id b, uses_of uses (mb_id b) + 1) # uses) rest = (rs', u')"
    by (metis surj_pair)
  show ?thesis
    by (rule won [of b d rs', OF _ c]) (use assms r Some w in simp_all)
qed

lemma resolve_lines_keys:
  "resolve_lines m now s st el uses ls = (rs, u) \<Longrightarrow>
     map lb_lineKey rs = map bl_lineKey ls \<and> map lb_lineGross rs = map line_gross ls"
proof (induction ls arbitrary: uses rs)
  case (Cons line rest)
  from Cons.prems show ?case
    by (cases rule: resolve_lines_Cons_cases) (use Cons.IH in \<open>simp_all add: no_benefit_def\<close>)
qed simp

lemma resolve_lines_bounds:
  assumes "\<forall>b \<in> set el. modest_benefit b"
  shows "\<forall>l \<in> set ls. 0 \<le> line_gross l \<Longrightarrow> resolve_lines m now s st el uses ls = (rs, u) \<Longrightarrow>
     \<forall>r \<in> set rs. lb_benefitDiscountAmount r \<le> lb_lineGross r"
proof (induction ls arbitrary: uses rs)
  case (Cons line rest)
  have gross: "0 \<le> line_gross line" "is_money (line_gross line)"
    using Cons.prems(1) by (simp_all add: line_gross_def)
  from Cons.prems(2) show ?case
  proof (cases rule: resolve_lines_Cons_cases)
    case (none rs')
    then show ?thesis using Cons gross by (simp add: no_benefit_def)
  next
    case (won b d rs')
    then have "d \<le> line_gross line" using computeLineDiscount_le [OF _ gross(2,1)] assms by simp
    then show ?thesis using Cons won by (simp add: no_benefit_def)
  qed
qed simp

lemma resolve_lines_money:
  "resolve_lines m now s st el uses ls = (rs, u) \<Longrightarrow>
     \<forall>r \<in> set rs. is_money (lb_benefitDiscountAmount r) \<and> 0 \<le> lb_benefitDiscountAmount r"
proof (induction ls arbitrary: uses rs)
  case (Cons line rest)
  from Cons.prems show ?case
    by (cases rule: resolve_lines_Cons_cases) (use Cons.IH in \<open>auto simp: no_benefit_def less_imp_le\<close>)
qed simp

text \<open>How many lines a benefit won, and what the cart's counter says.\<close>

definition lines_won :: "ident \<Rightarrow> line_benefit list \<Rightarrow> int" where
  "lines_won i rs = int (length (filter (\<lambda>r. lb_benefitId r = Some i) rs))"

lemma lines_won_simps [simp]:
  "lines_won i [] = 0"
  "lines_won i (r # rs) = (if lb_benefitId r = Some i then 1 else 0) + lines_won i rs"
  by (simp_all add: lines_won_def)

lemma uses_of_simps [simp]:
  "uses_of [] i = 0" "uses_of ((j, n) # u) i = (if j = i then n else uses_of u i)"
  by (simp_all add: uses_of_def)

lemma resolve_lines_uses:
  "resolve_lines m now s st el uses ls = (rs, u) \<Longrightarrow> uses_of u i = uses_of uses i + lines_won i rs"
proof (induction ls arbitrary: uses rs)
  case (Cons line rest)
  from Cons.prems show ?case
    by (cases rule: resolve_lines_Cons_cases) (use Cons.IH in \<open>simp_all add: no_benefit_def\<close>)
qed simp

lemma resolve_lines_cap:
  assumes "distinct (map mb_id el)" "b \<in> set el" "mb_maxUsesPerPeriod b = Some cap"
  shows "resolve_lines m now s st el uses ls = (rs, u) \<Longrightarrow>
     priorUses m now b s + uses_of uses (mb_id b) \<le> cap \<Longrightarrow>
     priorUses m now b s + uses_of u (mb_id b) \<le> cap"
proof (induction ls arbitrary: uses rs)
  case (Cons line rest)
  from Cons.prems(1) show ?case
  proof (cases rule: resolve_lines_Cons_cases)
    case (none rs')
    then show ?thesis using Cons by blast
  next
    case (won c d rs')
    have "priorUses m now b s + uses_of ((mb_id c, uses_of uses (mb_id c) + 1) # uses) (mb_id b) \<le> cap"
    proof (cases "mb_id c = mb_id b")
      case True
      then have "c = b" using assms(1,2) won(2) by (auto simp: distinct_map dest: inj_onD)
      then show ?thesis using won(4) assms(3) by (simp add: capacity_left_def)
    next
      case False
      then show ?thesis using Cons.prems(2) by simp
    qed
    then show ?thesis using Cons.IH [OF won(8)] by blast
  qed
qed simp

section \<open>What checkout is promised\<close>

text \<open>The shape of a successful resolution.\<close>

definition sees_only :: "(member_benefit \<Rightarrow> bool) \<Rightarrow> benefit_cache \<Rightarrow> db \<Rightarrow> bool" where
  "sees_only P cache s \<longleftrightarrow>
     (\<forall>b \<in> set (db_benefits s). P b) \<and> (case cache of None \<Rightarrow> True | Some (t, bs) \<Rightarrow> \<forall>b \<in> set bs. P b)"

definition eligible_benefits ::
  "time \<Rightarrow> benefit_cache \<Rightarrow> ident \<Rightarrow> benefit_cart_line list \<Rightarrow> db \<Rightarrow> member_benefit list" where
  "eligible_benefits now cache memberId cartLines s =
     sort_key mb_priority (sort_key mb_createdAt
       (filter (\<lambda>b. eligibility memberId now (cart_gross cartLines) s b = None)
         (fst (loadActiveBenefits now cache s))))"

lemma set_loadActiveBenefits:
  "sees_only P cache s \<Longrightarrow> b \<in> set (fst (loadActiveBenefits now cache s)) \<Longrightarrow> P b \<and> benefit_live now b"
  by (auto simp: sees_only_def loadActiveBenefits_def Let_def split: option.splits if_splits)

lemma set_eligible_benefits:
  "sees_only P cache s \<Longrightarrow> b \<in> set (eligible_benefits now cache m ls s) \<Longrightarrow> P b \<and> benefit_live now b"
  using set_loadActiveBenefits [of P cache s b now] by (auto simp: eligible_benefits_def)

lemma resolveBenefits_cases:
  obtains (undiscounted) "rr_lines (fst (resolveBenefits now cache m st ls s)) = map no_benefit ls"
      "rr_memberDiscountAmount (fst (resolveBenefits now cache m st ls s)) = 0"
    | (lines) rs u where
      "resolve_lines m now s st (eligible_benefits now cache m ls s) [] ls = (rs, u)"
      "rr_lines (fst (resolveBenefits now cache m st ls s)) = rs"
      "rr_memberDiscountAmount (fst (resolveBenefits now cache m st ls s))
         = moneyDec (sum_list (map lb_benefitDiscountAmount rs))"
proof -
  obtain rs u where r: "resolve_lines m now s st (eligible_benefits now cache m ls s) [] ls = (rs, u)"
    by (metis surj_pair)
  obtain bs cache' where l: "loadActiveBenefits now cache s = (bs, cache')" by (metis surj_pair)
  have r': "resolve_lines m now s st (sort_key mb_priority (sort_key mb_createdAt
       (filter (\<lambda>b. eligibility m now (cart_gross ls) s b = None) bs))) [] ls = (rs, u)"
    using r l by (simp add: eligible_benefits_def)
  show ?thesis
  proof (cases "m = [] \<or> ls = []")
    case True
    then show ?thesis by (intro undiscounted) (auto simp: resolveBenefits_def Let_def)
  next
    case False
    show ?thesis
    proof (cases "find_store st s")
      case None
      then show ?thesis using False by (intro undiscounted) (simp_all add: resolveBenefits_def Let_def)
    next
      case (Some store)
      show ?thesis
      proof (cases "st_honorsNetworkBenefits store")
        case True
        then show ?thesis
          using False Some r' l
          by (intro lines [OF r]) (simp_all add: resolveBenefits_def Let_def)
      next
        case no: False
        then show ?thesis using False Some by (intro undiscounted) (simp_all add: resolveBenefits_def Let_def)
      qed
    qed
  qed
qed

text \<open>
  C34: each line's benefit discount is a currency amount and never negative, there is one result per
  cart line in cart order, and the cart's member discount is exactly the sum over the lines, whatever
  benefits are stored or cached. When every percentage and bulk benefit among them has a value of at most
  100 and no line has a negative gross, a line's discount never exceeds the line's own pre-tax gross;
  nothing in the program checks that value when a benefit is stored.
\<close>

theorem benefit_discounts_bounded:
  "let r = fst (resolveBenefits now cache m st ls s) in
    map lb_lineKey (rr_lines r) = map bl_lineKey ls
    \<and> (\<forall>x \<in> set (rr_lines r). 0 \<le> lb_benefitDiscountAmount x \<and> is_money (lb_benefitDiscountAmount x))
    \<and> rr_memberDiscountAmount r = sum_list (map lb_benefitDiscountAmount (rr_lines r))
    \<and> (sees_only modest_benefit cache s \<longrightarrow> (\<forall>l \<in> set ls. 0 \<le> bl_unitPrice l * of_int (bl_quantity l)) \<longrightarrow>
         (\<forall>x \<in> set (rr_lines r). lb_benefitDiscountAmount x \<le> lb_lineGross x))"
proof (cases rule: resolveBenefits_cases [of now cache m st ls s])
  case undiscounted
  have "sum_list (map (\<lambda>l. lb_benefitDiscountAmount (no_benefit l)) ls) = 0"
    by (induction ls) (simp_all add: no_benefit_def)
  then show ?thesis
    using undiscounted by (auto simp: Let_def no_benefit_def comp_def line_gross_def intro: moneyDec_nonneg)
next
  case (lines rs u)
  have d: "\<forall>r \<in> set rs. is_money (lb_benefitDiscountAmount r) \<and> 0 \<le> lb_benefitDiscountAmount r"
    by (rule resolve_lines_money [OF lines(1)])
  then have "is_money (sum_list (map lb_benefitDiscountAmount rs))" by (intro money_sum_list) auto
  moreover have "\<forall>x \<in> set rs. lb_benefitDiscountAmount x \<le> lb_lineGross x"
    if sane: "sees_only modest_benefit cache s" and g: "\<forall>l \<in> set ls. 0 \<le> bl_unitPrice l * of_int (bl_quantity l)"
  proof (rule resolve_lines_bounds [OF _ _ lines(1)])
    show "\<forall>b \<in> set (eligible_benefits now cache m ls s). modest_benefit b" using set_eligible_benefits [OF sane] by blast
    show "\<forall>l \<in> set ls. 0 \<le> line_gross l" using g by (auto simp: line_gross_def intro: moneyDec_nonneg)
  qed
  ultimately show ?thesis using resolve_lines_keys [OF lines(1)] d lines(2,3) by (simp add: Let_def)
qed

definition ex_cart :: "benefit_cart_line list" where
  "ex_cart =
     [\<lparr>bl_lineKey = (0, ''P1''), bl_productId = ''P1'', bl_category = ''fruit'', bl_quantity = 4, bl_unitPrice = 2\<rparr>,
      \<lparr>bl_lineKey = (1, ''P2''), bl_productId = ''P2'', bl_category = ''bakery'', bl_quantity = 1, bl_unitPrice = 5\<rparr>]"

theorem benefit_discounts_bounded_witness:
  "rr_memberDiscountAmount (fst (resolveBenefits 50 None ''M1'' ''S1'' ex_cart ex_db))
     = sum_list (map lb_benefitDiscountAmount (rr_lines (fst (resolveBenefits 50 None ''M1'' ''S1'' ex_cart ex_db))))
   \<and> (\<exists>x. x \<in> set (rr_lines (fst (resolveBenefits 50 None ''M1'' ''S1'' ex_cart ex_db)))
        \<and> lb_benefitDiscountAmount x = 1 \<and> lb_benefitDiscountAmount x \<le> lb_lineGross x)
   \<and> map lb_benefitDiscountAmount (rr_lines (fst (resolveBenefits 50 None ''M1'' ''S1'' ex_cart ex_db))) = [1, 1/2]"
proof -
  let ?ls = "rr_lines (fst (resolveBenefits 50 None ''M1'' ''S1'' ex_cart ex_db))"
  have "sees_only modest_benefit None ex_db"
    by (simp add: sees_only_def ex_db_def ex_benefit_def modest_benefit_def empty_db_def)
  moreover have "\<forall>l \<in> set ex_cart. 0 \<le> bl_unitPrice l * of_int (bl_quantity l)" by (simp add: ex_cart_def)
  ultimately have b: "\<forall>x \<in> set ?ls. lb_benefitDiscountAmount x \<le> lb_lineGross x"
      "rr_memberDiscountAmount (fst (resolveBenefits 50 None ''M1'' ''S1'' ex_cart ex_db)) = sum_list (map lb_benefitDiscountAmount ?ls)"
    using benefit_discounts_bounded [of 50 None "''M1''" "''S1''" ex_cart ex_db] by (simp_all add: Let_def)
  have v: "map lb_benefitDiscountAmount ?ls = [1, 1/2]" by code_simp
  then obtain x xs where "?ls = x # xs" "lb_benefitDiscountAmount x = 1" by (cases ?ls) auto
  then show ?thesis using b v by (metis list.set_intros(1))
qed

text \<open>
  A benefit with a usage cap wins at most as many lines of one cart as its cap leaves after the
  uses already recorded in its period, and none when nothing is left.
\<close>

theorem benefit_cap_per_cart:
  assumes "distinct (map mb_id (fst (loadActiveBenefits now cache s)))"
    and "b \<in> set (fst (loadActiveBenefits now cache s))" "mb_maxUsesPerPeriod b = Some cap"
  shows "lines_won (mb_id b) (rr_lines (fst (resolveBenefits now cache m st ls s)))
           \<le> max 0 (cap - priorUses m now b s)"
proof (cases rule: resolveBenefits_cases [of now cache m st ls s])
  case undiscounted
  have "lines_won (mb_id b) (map no_benefit ls) = 0"
    by (induction ls) (simp_all add: no_benefit_def)
  then show ?thesis using undiscounted by simp
next
  case (lines rs u)
  let ?el = "eligible_benefits now cache m ls s"
  have d: "distinct (map mb_id ?el)"
  proof -
    have "distinct (map mb_id (filter P bs))" if "distinct (map mb_id bs)" for P and bs :: "member_benefit list"
      using that by (auto simp: distinct_map intro: inj_on_subset)
    then have f: "distinct (map mb_id (filter (\<lambda>b. eligibility m now (cart_gross ls) s b = None)
        (fst (loadActiveBenefits now cache s))))" using assms(1) by blast
    then show ?thesis by (simp add: eligible_benefits_def distinct_map)
  qed
  have won: "lines_won (mb_id b) rs = uses_of u (mb_id b)"
    using resolve_lines_uses [OF lines(1), of "mb_id b"] by simp
  show ?thesis
  proof (cases "b \<in> set ?el")
    case True
    then have "\<not> priorUses m now b s \<ge> cap"
      using assms(3) by (auto simp: eligible_benefits_def eligibility_def split: if_splits)
    then show ?thesis using resolve_lines_cap [OF d True assms(3) lines(1)] won lines(2) by simp
  next
    case False
    have "lines_won (mb_id b) rs = 0"
    proof -
      have "\<forall>c \<in> set ?el. mb_id c \<noteq> mb_id b"
      proof
        fix c assume "c \<in> set ?el"
        then have "c \<in> set (fst (loadActiveBenefits now cache s))" "c \<noteq> b"
          using False by (auto simp: eligible_benefits_def)
        then show "mb_id c \<noteq> mb_id b" using assms(1,2) by (auto simp: distinct_map dest: inj_onD)
      qed
      then have "resolve_lines m now s st ?el uses xs = (ys, v) \<Longrightarrow> lines_won (mb_id b) ys = 0" for uses xs ys v
      proof (induction xs arbitrary: uses ys)
        case (Cons x xs)
        from Cons.prems(1) show ?case
          by (cases rule: resolve_lines_Cons_cases) (use Cons in \<open>auto simp: no_benefit_def\<close>)
      qed simp
      then show ?thesis using lines(1) by blast
    qed
    then show ?thesis using lines(2) by simp
  qed
qed

theorem benefit_cap_per_cart_witness:
  "lines_won ''B2'' (rr_lines (fst (resolveBenefits 50 None ''M1'' ''S1'' ex_cart ex_db))) \<le> 1"
proof -
  have "ex_benefit ''B2'' FIXED_DISCOUNT 1 (Some 1) \<in> set (fst (loadActiveBenefits 50 None ex_db))"
      "distinct (map mb_id (fst (loadActiveBenefits 50 None ex_db)))"
      "mb_maxUsesPerPeriod (ex_benefit ''B2'' FIXED_DISCOUNT 1 (Some 1)) = Some 1"
      "mb_id (ex_benefit ''B2'' FIXED_DISCOUNT 1 (Some 1)) = ''B2''"
      "priorUses ''M1'' 50 (ex_benefit ''B2'' FIXED_DISCOUNT 1 (Some 1)) ex_db = 0"
    by code_simp+
  then show ?thesis using benefit_cap_per_cart [of 50 None ex_db _ 1 "''M1''" "''S1''" ex_cart] by force
qed

text \<open>
  The benefit that wins a line is applicable to it, no applicable benefit has a better (lower)
  priority number, and among those of its priority none gives the customer more; a line without a
  winner has no applicable benefit at all.
\<close>

theorem line_winner_best:
  "case line_winner (candidates m now s st uses el line) of
     None \<Rightarrow> \<forall>b \<in> set el. scopeMatchesLine b st line \<and> capacity_left m now s uses b
                \<longrightarrow> computeLineDiscount b (line_gross line) \<le> 0
   | Some (b, d) \<Rightarrow>
       b \<in> set el \<and> scopeMatchesLine b st line \<and> capacity_left m now s uses b
       \<and> d = computeLineDiscount b (line_gross line) \<and> 0 < d
       \<and> (\<forall>c \<in> set el. scopeMatchesLine c st line \<and> capacity_left m now s uses c
             \<and> 0 < computeLineDiscount c (line_gross line) \<longrightarrow>
             mb_priority b \<le> mb_priority c
             \<and> (mb_priority c = mb_priority b \<longrightarrow> computeLineDiscount c (line_gross line) \<le> d))"
proof (cases "line_winner (candidates m now s st uses el line)")
  case None
  then have "candidates m now s st uses el line = []" by (simp add: line_winner_None)
  then have "(b, computeLineDiscount b (line_gross line)) \<notin> set (candidates m now s st uses el line)" for b
    by simp
  then show ?thesis using None by (auto simp: candidates_iff not_less)
next
  case (Some w)
  obtain b d where w: "w = (b, d)" by (cases w)
  have "(b, d) \<in> set (candidates m now s st uses el line)" using line_winner_Some(1) [OF Some] w by simp
  moreover have "mb_priority b \<le> mb_priority c
      \<and> (mb_priority c = mb_priority b \<longrightarrow> computeLineDiscount c (line_gross line) \<le> d)"
    if "c \<in> set el" "scopeMatchesLine c st line" "capacity_left m now s uses c"
      "0 < computeLineDiscount c (line_gross line)" for c
  proof -
    have "(c, computeLineDiscount c (line_gross line)) \<in> set (candidates m now s st uses el line)"
      using that by (simp add: candidates_iff)
    then show ?thesis using line_winner_Some(2,3) [OF Some] w by fastforce
  qed
  ultimately show ?thesis using Some w by (simp add: candidates_iff)
qed

theorem line_winner_best_witness:
  "line_winner (candidates ''M1'' 50 ex_db ''S1'' [] (db_benefits ex_db) (hd ex_cart))
     = Some (ex_benefit ''B2'' FIXED_DISCOUNT 1 (Some 1), 1)
   \<and> computeLineDiscount (ex_benefit ''B1'' PERCENT_DISCOUNT 10 None) (line_gross (hd ex_cart)) \<le> 1"
proof -
  let ?b = "ex_benefit ''B1'' PERCENT_DISCOUNT 10 None"
  have w: "line_winner (candidates ''M1'' 50 ex_db ''S1'' [] (db_benefits ex_db) (hd ex_cart))
     = Some (ex_benefit ''B2'' FIXED_DISCOUNT 1 (Some 1), 1)" by code_simp
  have "?b \<in> set (db_benefits ex_db)" "scopeMatchesLine ?b ''S1'' (hd ex_cart)" "capacity_left ''M1'' 50 ex_db [] ?b"
      "0 < computeLineDiscount ?b (line_gross (hd ex_cart))"
      "mb_priority ?b = mb_priority (ex_benefit ''B2'' FIXED_DISCOUNT 1 (Some 1))" by code_simp+
  then show ?thesis
    using line_winner_best [where m = "''M1''" and now = 50 and s = ex_db and st = "''S1''" and uses = "[]"
      and el = "db_benefits ex_db" and line = "hd ex_cart"] w by auto
qed

end
