(* ===== verification/Pricing.thy ===== *)
theory Pricing
  imports Benefits
begin

text \<open>
  The money of a sale, as \<open>createSale\<close> computes it (\<open>backend/src/services/sales.service.ts\<close>, the
  pricing loop, the totals, the operator base and the guard on the co-op share). Everything here is
  pure; \<open>Sale_Create\<close> puts it into the transaction.
\<close>

section \<open>Inputs\<close>

text \<open>
  A line of the request. The quantity arrives as a number, so the integer test of the code is
  kept; the manual discount is an optional number of dollars. \<open>Number\<close> values are finite here
  (the HTTP schema rejects others).
\<close>

record line_input =
  li_productId :: ident
  li_quantity :: rat
  li_manualDiscount :: "decimal option"
  li_discountReason :: "string option"

definition qty :: "line_input \<Rightarrow> int" where
  "qty item = \<lfloor>li_quantity item\<rfloor>"

section \<open>One line\<close>

record line_draft =
  ld_productId :: ident
  ld_skuSnapshot :: string
  ld_nameSnapshot :: string
  ld_priceSnapshot :: decimal
  ld_quantity :: int
  ld_discountAmount :: decimal
  ld_benefitId :: "ident option"
  ld_benefitDiscountAmount :: decimal
  ld_discountReason :: "string option"
  ld_taxAmount :: decimal
  ld_taxExempt :: bool
  ld_gross :: decimal
  ld_net :: decimal
  ld_manual :: decimal

definition price_line ::
  "decimal \<Rightarrow> product \<Rightarrow> line_input \<Rightarrow> (ident option \<times> decimal) option \<Rightarrow> line_draft result" where
  "price_line taxRate p item benefit =
     (let lineGross = moneyDec (p_price p * of_int (qty item));
          manual = moneyDec (case li_manualDiscount item of None \<Rightarrow> 0 | Some d \<Rightarrow> d);
          benefitDiscount = moneyDec (case benefit of None \<Rightarrow> 0 | Some (i, d) \<Rightarrow> d)
      in
      if manual > lineGross - benefitDiscount
      then Inl (AppError 400 ''manualDiscount exceeds line amount after tier discount'')
      else
        let lineDiscount = moneyDec (benefitDiscount + manual);
            lineNet = moneyDec (lineGross - lineDiscount);
            lineTax = (if p_taxExempt p then moneyDec 0 else moneyDec (lineNet * taxRate / 100))
        in Inr \<lparr>ld_productId = p_id p, ld_skuSnapshot = p_sku p, ld_nameSnapshot = p_name p,
                ld_priceSnapshot = p_price p, ld_quantity = qty item, ld_discountAmount = lineDiscount,
                ld_benefitId = (case benefit of None \<Rightarrow> None | Some (i, d) \<Rightarrow> i),
                ld_benefitDiscountAmount = benefitDiscount,
                ld_discountReason = (if manual > 0 then map_option trim (li_discountReason item) else None),
                ld_taxAmount = lineTax, ld_taxExempt = p_taxExempt p,
                ld_gross = lineGross, ld_net = lineNet, ld_manual = manual\<rparr>)"

text \<open>
  The pricing loop. \<open>productOf\<close> is the map of locked products, \<open>benefitOf\<close> the map from a line key
  to its resolved benefit. A missing product cannot occur here (the code asserts it with \<open>!\<close>).
\<close>

fun price_lines ::
  "decimal \<Rightarrow> (ident \<Rightarrow> product option) \<Rightarrow> (nat \<times> ident \<Rightarrow> (ident option \<times> decimal) option)
     \<Rightarrow> nat \<Rightarrow> line_input list \<Rightarrow> line_draft list result" where
  "price_lines taxRate productOf benefitOf index [] = Inr []"
| "price_lines taxRate productOf benefitOf index (item # rest) =
     (case productOf (li_productId item) of
        None \<Rightarrow> Inl (JsError ''product is undefined'')
      | Some p \<Rightarrow>
          bindE (price_line taxRate p item (benefitOf (index, li_productId item))) (\<lambda>d.
          bindE (price_lines taxRate productOf benefitOf (Suc index) rest) (\<lambda>ds.
          Inr (d # ds))))"

section \<open>Totals and the split\<close>

record sale_totals =
  t_subtotalBeforeDiscount :: decimal
  t_subtotal :: decimal
  t_discountAmount :: decimal
  t_memberDiscountAmount :: decimal
  t_taxAmount :: decimal
  t_total :: decimal
  t_operatorPercent :: decimal
  t_operatorBase :: decimal
  t_operatorAmount :: decimal
  t_coopAmount :: decimal

definition operator_base :: "store \<Rightarrow> decimal \<Rightarrow> decimal \<Rightarrow> decimal \<Rightarrow> decimal" where
  "operator_base store subtotalBeforeDiscount subtotal memberDiscountAmount =
     (case st_memberDiscountBearer store of
        BearerCOOP \<Rightarrow> subtotalBeforeDiscount
      | BearerOPERATOR \<Rightarrow> subtotal
      | BearerSHARED \<Rightarrow>
          moneyDec (subtotal + memberDiscountAmount * (100 - st_memberDiscountSharedPercent store) / 100))"

definition sale_totals :: "store \<Rightarrow> line_draft list \<Rightarrow> sale_totals result" where
  "sale_totals store ds =
     (let subtotalBeforeDiscount = moneyDec (sum_list (map ld_gross ds));
          subtotal = moneyDec (sum_list (map ld_net ds));
          discountAmount = moneyDec (sum_list (map ld_discountAmount ds));
          memberDiscountAmount = moneyDec (sum_list (map ld_benefitDiscountAmount ds));
          taxAmount = moneyDec (sum_list (map ld_taxAmount ds));
          total = moneyDec (subtotal + taxAmount);
          operatorBase = operator_base store subtotalBeforeDiscount subtotal memberDiscountAmount;
          operatorAmount = moneyDec (operatorBase * st_operatorPercent store / 100);
          coopAmount = moneyDec (subtotal - operatorAmount)
      in if coopAmount < 0
         then Inl (AppError 400 ''Member discount exceeds co-op share; benefit configuration invalid'')
         else Inr \<lparr>t_subtotalBeforeDiscount = subtotalBeforeDiscount, t_subtotal = subtotal,
                   t_discountAmount = discountAmount, t_memberDiscountAmount = memberDiscountAmount,
                   t_taxAmount = taxAmount, t_total = total,
                   t_operatorPercent = st_operatorPercent store, t_operatorBase = operatorBase,
                   t_operatorAmount = operatorAmount, t_coopAmount = coopAmount\<rparr>)"

text \<open>The rows the manual discounts leave in the audit log.\<close>

definition manual_discounts :: "line_draft list \<Rightarrow> line_draft list" where
  "manual_discounts ds = filter (\<lambda>d. ld_manual d > 0) ds"

section \<open>Facts about lines\<close>

lemma price_line_money:
  assumes "price_line taxRate p item b = Inr d"
  shows "is_money (ld_gross d)" "is_money (ld_net d)" "is_money (ld_discountAmount d)"
    "is_money (ld_benefitDiscountAmount d)" "is_money (ld_taxAmount d)" "is_money (ld_manual d)"
  using assms by (auto simp: price_line_def Let_def split: if_splits)

lemma price_line_split:
  assumes "price_line taxRate p item b = Inr d"
  shows "ld_net d + ld_discountAmount d = ld_gross d"
    and "ld_discountAmount d = ld_benefitDiscountAmount d + ld_manual d"
    and "0 \<le> ld_net d"
    and "ld_taxAmount d = (if p_taxExempt p then 0 else moneyDec (ld_net d * taxRate / 100))"
    and "ld_gross d = moneyDec (p_price p * of_int (qty item))"
    and "ld_taxExempt d = p_taxExempt p" "ld_productId d = p_id p" "ld_quantity d = qty item"
    and "ld_priceSnapshot d = p_price p"
proof -
  define g where "g = moneyDec (p_price p * of_int (qty item))"
  define m where "m = moneyDec (case li_manualDiscount item of None \<Rightarrow> 0 | Some d \<Rightarrow> d)"
  define bd where "bd = moneyDec (case b of None \<Rightarrow> 0 | Some (i, d) \<Rightarrow> d)"
  have mon: "is_money g" "is_money m" "is_money bd" by (simp_all add: g_def m_def bd_def)
  have e: "moneyDec (bd + m) = bd + m" "moneyDec (g - (bd + m)) = g - (bd + m)"
    using mon by (auto intro!: moneyDec_exact dp_intros)
  have ok: "\<not> m > g - bd" and d: "ld_gross d = g" "ld_net d = g - (bd + m)" "ld_discountAmount d = bd + m"
      "ld_benefitDiscountAmount d = bd" "ld_manual d = m"
      "ld_taxAmount d = (if p_taxExempt p then moneyDec 0 else moneyDec (ld_net d * taxRate / 100))"
      "ld_taxExempt d = p_taxExempt p" "ld_productId d = p_id p" "ld_quantity d = qty item"
      "ld_priceSnapshot d = p_price p"
    using assms unfolding price_line_def g_def [symmetric] m_def [symmetric] bd_def [symmetric] Let_def e
    by (auto split: if_splits)
  show "ld_net d + ld_discountAmount d = ld_gross d" using d by simp
  show "ld_discountAmount d = ld_benefitDiscountAmount d + ld_manual d" using d by simp
  show "0 \<le> ld_net d" using d ok by simp
  show "ld_taxAmount d = (if p_taxExempt p then 0 else moneyDec (ld_net d * taxRate / 100))"
    using d(6) by simp
  show "ld_gross d = moneyDec (p_price p * of_int (qty item))" "ld_taxExempt d = p_taxExempt p"
    "ld_productId d = p_id p" "ld_quantity d = qty item" "ld_priceSnapshot d = p_price p"
    using d g_def by simp_all
qed

text \<open>What a priced line satisfies, independent of where it came from.\<close>

definition draft_ok :: "decimal \<Rightarrow> line_draft \<Rightarrow> bool" where
  "draft_ok taxRate d \<longleftrightarrow>
     is_money (ld_gross d) \<and> is_money (ld_net d) \<and> is_money (ld_discountAmount d)
     \<and> is_money (ld_benefitDiscountAmount d) \<and> is_money (ld_taxAmount d)
     \<and> ld_net d + ld_discountAmount d = ld_gross d
     \<and> ld_gross d = moneyDec (ld_priceSnapshot d * of_int (ld_quantity d))
     \<and> 0 \<le> ld_net d
     \<and> ld_taxAmount d = (if ld_taxExempt d then 0 else moneyDec (ld_net d * taxRate / 100))"

lemma price_line_ok: "price_line taxRate p item b = Inr d \<Longrightarrow> draft_ok taxRate d"
  using price_line_money [of taxRate p item b d] price_line_split [of taxRate p item b d]
  by (simp add: draft_ok_def)

lemma price_lines_ok:
  "price_lines taxRate productOf benefitOf k items = Inr ds \<Longrightarrow>
     length ds = length items \<and> (\<forall>d \<in> set ds. draft_ok taxRate d)
     \<and> map ld_quantity ds = map qty items
     \<and> (\<forall>i < length items. \<exists>p. productOf (li_productId (items ! i)) = Some p \<and> ld_productId (ds ! i) = p_id p)"
proof (induction items arbitrary: k ds)
  case (Cons item rest)
  then obtain p d ds' where d: "productOf (li_productId item) = Some p"
      "price_line taxRate p item (benefitOf (k, li_productId item)) = Inr d"
      "price_lines taxRate productOf benefitOf (Suc k) rest = Inr ds'" "ds = d # ds'"
    by (auto simp: bindE_Inr_iff split: option.splits)
  then show ?case
    using Cons.IH [OF d(3)] price_line_ok [OF d(2)] price_line_split(7,8) [OF d(2)]
    by (auto simp: nth_Cons split: nat.splits)
qed simp

lemma sum_net_discount:
  "\<forall>d \<in> set ds. draft_ok taxRate d \<Longrightarrow>
     sum_list (map ld_net ds) + sum_list (map ld_discountAmount ds) = sum_list (map ld_gross ds)"
  by (induction ds) (auto simp: draft_ok_def algebra_simps)

lemma drafts_money:
  assumes "\<forall>d \<in> set ds. draft_ok taxRate d"
  shows "is_money (sum_list (map ld_gross ds))" "is_money (sum_list (map ld_net ds))"
    "is_money (sum_list (map ld_discountAmount ds))" "is_money (sum_list (map ld_taxAmount ds))"
    "is_money (sum_list (map ld_benefitDiscountAmount ds))" "0 \<le> sum_list (map ld_net ds)"
  using assms by (induction ds) (auto simp: draft_ok_def intro: dp_intros)

lemma drafts_tax_nonneg:
  "\<forall>d \<in> set ds. draft_ok taxRate d \<Longrightarrow> 0 \<le> taxRate \<Longrightarrow> 0 \<le> sum_list (map ld_taxAmount ds)"
  by (induction ds) (auto simp: draft_ok_def intro!: add_nonneg_nonneg moneyDec_nonneg)

section \<open>The totals\<close>

lemma sale_totals_Inr:
  assumes "sale_totals store ds = Inr t" "\<forall>d \<in> set ds. draft_ok taxRate d"
  shows "t_subtotalBeforeDiscount t = sum_list (map ld_gross ds)" "t_subtotal t = sum_list (map ld_net ds)"
    "t_discountAmount t = sum_list (map ld_discountAmount ds)" "t_taxAmount t = sum_list (map ld_taxAmount ds)"
    "t_memberDiscountAmount t = sum_list (map ld_benefitDiscountAmount ds)"
    "t_total t = t_subtotal t + t_taxAmount t"
    "t_operatorBase t = operator_base store (t_subtotalBeforeDiscount t) (t_subtotal t) (t_memberDiscountAmount t)"
    "t_operatorAmount t = moneyDec (t_operatorBase t * st_operatorPercent store / 100)"
    "t_coopAmount t = t_subtotal t - t_operatorAmount t" "0 \<le> t_coopAmount t"
proof -
  note m = drafts_money [OF assms(2)]
  have sum: "moneyDec (sum_list (map ld_net ds) + sum_list (map ld_taxAmount ds))
      = sum_list (map ld_net ds) + sum_list (map ld_taxAmount ds)"
    by (rule moneyDec_exact [OF has_dp_add [OF m(2,4)]])
  have diff: "moneyDec (sum_list (map ld_net ds) - moneyDec x) = sum_list (map ld_net ds) - moneyDec x" for x
    by (rule moneyDec_exact [OF has_dp_diff [OF m(2) moneyDec_money]])
  note t = assms(1) [unfolded sale_totals_def Let_def]
  show "t_subtotalBeforeDiscount t = sum_list (map ld_gross ds)" "t_subtotal t = sum_list (map ld_net ds)"
    "t_discountAmount t = sum_list (map ld_discountAmount ds)" "t_taxAmount t = sum_list (map ld_taxAmount ds)"
    "t_memberDiscountAmount t = sum_list (map ld_benefitDiscountAmount ds)"
    using t m by (auto split: if_splits)
  show "t_total t = t_subtotal t + t_taxAmount t" using t m sum by (auto split: if_splits)
  show "t_operatorBase t = operator_base store (t_subtotalBeforeDiscount t) (t_subtotal t) (t_memberDiscountAmount t)"
    "t_operatorAmount t = moneyDec (t_operatorBase t * st_operatorPercent store / 100)"
    using t by (auto split: if_splits)
  show "t_coopAmount t = t_subtotal t - t_operatorAmount t" "0 \<le> t_coopAmount t"
    using t m diff by (auto split: if_splits)
qed

text \<open>
  C33: the totals of a sale are exact to the cent: the pre-tax subtotal and the tax are the sums of
  the lines, the customer pays subtotal plus tax, discounts are exactly what separates the subtotal
  from the undiscounted price, operator and co-op share the pre-tax subtotal without a remainder,
  and the co-op share is never negative.
\<close>

theorem sale_totals_exact:
  assumes "price_lines taxRate productOf benefitOf k items = Inr ds" "sale_totals store ds = Inr t"
  shows "t_subtotal t = sum_list (map ld_net ds) \<and> t_taxAmount t = sum_list (map ld_taxAmount ds)
    \<and> t_total t = t_subtotal t + t_taxAmount t
    \<and> t_subtotal t + t_discountAmount t = t_subtotalBeforeDiscount t
    \<and> t_operatorAmount t + t_coopAmount t = t_subtotal t \<and> 0 \<le> t_coopAmount t"
proof -
  have ok: "\<forall>d \<in> set ds. draft_ok taxRate d" using price_lines_ok [OF assms(1)] by blast
  show ?thesis
    using sale_totals_Inr [OF assms(2) ok] sum_net_discount [OF ok] by simp
qed

definition ex_items :: "line_input list" where
  "ex_items =
     [\<lparr>li_productId = ''P1'', li_quantity = 4, li_manualDiscount = Some (1/2), li_discountReason = Some ''bruised''\<rparr>,
      \<lparr>li_productId = ''P2'', li_quantity = 1, li_manualDiscount = None, li_discountReason = None\<rparr>]"

definition ex_product_of :: "ident \<Rightarrow> product option" where
  "ex_product_of i = find_row p_id i [ex_apples, ex_bread]"

definition ex_drafts :: "line_draft list" where
  "ex_drafts = (case price_lines 8 ex_product_of (\<lambda>_. None) 0 ex_items of Inl e \<Rightarrow> [] | Inr ds \<Rightarrow> ds)"

theorem sale_totals_exact_witness:
  "\<exists>t. sale_totals ex_store ex_drafts = Inr t \<and> t_total t = t_subtotal t + t_taxAmount t
     \<and> t_subtotal t = 25/2 \<and> t_total t = 131/10"
proof -
  have lines: "price_lines 8 ex_product_of (\<lambda>_. None) 0 ex_items = Inr ex_drafts" by code_simp
  have "case sale_totals ex_store ex_drafts of Inl e \<Rightarrow> False | Inr t \<Rightarrow> t_subtotal t = 25/2 \<and> t_total t = 131/10"
    by code_simp
  then obtain t where t: "sale_totals ex_store ex_drafts = Inr t" "t_subtotal t = 25/2" "t_total t = 131/10"
    by (auto split: sum.splits)
  then show ?thesis using sale_totals_exact [OF lines t(1)] by blast
qed

lemma operator_base_bounds:
  assumes ok: "\<forall>d \<in> set ds. draft_ok taxRate d"
    and b: "\<forall>d \<in> set ds. 0 \<le> ld_benefitDiscountAmount d \<and> ld_benefitDiscountAmount d \<le> ld_discountAmount d"
    and p: "0 \<le> st_memberDiscountSharedPercent store" "st_memberDiscountSharedPercent store \<le> 100"
  shows "sum_list (map ld_net ds)
      \<le> operator_base store (sum_list (map ld_gross ds)) (sum_list (map ld_net ds)) (sum_list (map ld_benefitDiscountAmount ds))
    \<and> operator_base store (sum_list (map ld_gross ds)) (sum_list (map ld_net ds)) (sum_list (map ld_benefitDiscountAmount ds))
      \<le> sum_list (map ld_gross ds)"
proof -
  let ?n = "sum_list (map ld_net ds)" and ?g = "sum_list (map ld_gross ds)"
    and ?b = "sum_list (map ld_benefitDiscountAmount ds)"
  let ?share = "?b * (100 - st_memberDiscountSharedPercent store) / 100"
  have "0 \<le> ?b \<and> ?b \<le> sum_list (map ld_discountAmount ds)"
    using b by (induction ds) (auto intro: add_mono)
  then have b': "0 \<le> ?b" "?n + ?b \<le> ?g" "?n \<le> ?g" using sum_net_discount [OF ok] by linarith+
  have "?b * (100 - st_memberDiscountSharedPercent store) \<le> ?b * 100"
    using p b'(1) by (intro mult_left_mono) simp_all
  then have "0 \<le> ?share" "?share \<le> ?b" using p b'(1) by simp_all
  then have s: "?n \<le> ?n + ?share" "?n + ?share \<le> ?g" using b' by linarith+
  have n0: "0 \<le> ?n" and mon: "is_money ?n" "is_money ?g" using drafts_money [OF ok] by simp_all
  have "?n \<le> moneyDec (?n + ?share)" using moneyDec_mono [OF n0 s(1)] mon(1) by simp
  moreover have "moneyDec (?n + ?share) \<le> ?g" using n0 s mon(2) by (intro moneyDec_le_money) simp_all
  ultimately show ?thesis using b' by (cases "st_memberDiscountBearer store") (simp_all add: operator_base_def)
qed

text \<open>
  Who funds a member discount decides the operator's base and nothing else does. The co-op
  bearing it leaves the operator paid as at full price, the operator bearing it pays him on what
  was charged, sharing it lies between; tax never enters, and with an operator percentage between
  0 and 100 his share is between zero and the undiscounted price.
\<close>

theorem operator_share_by_bearer:
  assumes "price_lines taxRate productOf benefitOf k items = Inr ds" "sale_totals store ds = Inr t"
    and "\<forall>d \<in> set ds. 0 \<le> ld_benefitDiscountAmount d \<and> ld_benefitDiscountAmount d \<le> ld_discountAmount d"
    and "0 \<le> st_memberDiscountSharedPercent store" "st_memberDiscountSharedPercent store \<le> 100"
    and "0 \<le> st_operatorPercent store" "st_operatorPercent store \<le> 100"
  shows "(st_memberDiscountBearer store = BearerCOOP \<longrightarrow> t_operatorBase t = t_subtotalBeforeDiscount t)
    \<and> (st_memberDiscountBearer store = BearerOPERATOR \<longrightarrow> t_operatorBase t = t_subtotal t)
    \<and> t_subtotal t \<le> t_operatorBase t \<and> t_operatorBase t \<le> t_subtotalBeforeDiscount t
    \<and> 0 \<le> t_operatorAmount t \<and> t_operatorAmount t \<le> t_subtotalBeforeDiscount t"
proof -
  have ok: "\<forall>d \<in> set ds. draft_ok taxRate d" using price_lines_ok [OF assms(1)] by blast
  note t = sale_totals_Inr [OF assms(2) ok]
  have base: "t_subtotal t \<le> t_operatorBase t" "t_operatorBase t \<le> t_subtotalBeforeDiscount t"
    using operator_base_bounds [OF ok assms(3-5)] by (simp_all add: t)
  have pos: "0 \<le> t_operatorBase t" using base(1) drafts_money(6) [OF ok] t(2) by linarith
  have "t_operatorBase t * st_operatorPercent store \<le> t_operatorBase t * 100"
    using pos assms(7) by (intro mult_left_mono) simp_all
  then have "t_operatorBase t * st_operatorPercent store / 100 \<le> t_subtotalBeforeDiscount t"
    using base(2) by simp
  moreover have "0 \<le> t_operatorBase t * st_operatorPercent store / 100" using pos assms(6) by simp
  moreover have "is_money (t_subtotalBeforeDiscount t)" using drafts_money(1) [OF ok] t(1) by simp
  ultimately have "0 \<le> t_operatorAmount t \<and> t_operatorAmount t \<le> t_subtotalBeforeDiscount t"
    unfolding t(8) using moneyDec_nonneg moneyDec_le_money by blast
  moreover have "st_memberDiscountBearer store = BearerCOOP \<longrightarrow> t_operatorBase t = t_subtotalBeforeDiscount t"
      "st_memberDiscountBearer store = BearerOPERATOR \<longrightarrow> t_operatorBase t = t_subtotal t"
    by (simp_all add: t(7) operator_base_def)
  ultimately show ?thesis using base by blast
qed

theorem operator_share_by_bearer_witness:
  "\<exists>t. sale_totals ex_store ex_drafts = Inr t \<and> t_operatorBase t = t_subtotalBeforeDiscount t
     \<and> t_operatorAmount t = 13/10"
proof -
  have lines: "price_lines 8 ex_product_of (\<lambda>_. None) 0 ex_items = Inr ex_drafts" by code_simp
  have "case sale_totals ex_store ex_drafts of Inl e \<Rightarrow> False | Inr t \<Rightarrow> t_operatorAmount t = 13/10"
    by code_simp
  then obtain t where t: "sale_totals ex_store ex_drafts = Inr t" "t_operatorAmount t = 13/10"
    by (auto split: sum.splits)
  have "list_all (\<lambda>d. 0 \<le> ld_benefitDiscountAmount d \<and> ld_benefitDiscountAmount d \<le> ld_discountAmount d) ex_drafts"
    by code_simp
  then have "\<forall>d \<in> set ex_drafts. 0 \<le> ld_benefitDiscountAmount d \<and> ld_benefitDiscountAmount d \<le> ld_discountAmount d"
    by (simp add: list_all_iff)
  then have "st_memberDiscountBearer ex_store = BearerCOOP \<longrightarrow> t_operatorBase t = t_subtotalBeforeDiscount t"
    using operator_share_by_bearer [OF lines t(1)] by (simp add: ex_store_def)
  then show ?thesis using t by (simp add: ex_store_def)
qed

text \<open>
  The guard on the co-op share refuses a sale exactly when the operator would be paid more than
  the customer pays before tax.
\<close>

theorem coop_guard_exact:
  assumes "price_lines taxRate productOf benefitOf k items = Inr ds"
  shows "(\<exists>t. sale_totals store ds = Inr t) \<longleftrightarrow>
    moneyDec (operator_base store (sum_list (map ld_gross ds)) (sum_list (map ld_net ds))
                (sum_list (map ld_benefitDiscountAmount ds)) * st_operatorPercent store / 100)
      \<le> sum_list (map ld_net ds)"
proof -
  have ok: "\<forall>d \<in> set ds. draft_ok taxRate d" using price_lines_ok [OF assms(1)] by blast
  note m = drafts_money [OF ok]
  have diff: "moneyDec (sum_list (map ld_net ds) - moneyDec x) = sum_list (map ld_net ds) - moneyDec x" for x
    by (rule moneyDec_exact [OF has_dp_diff [OF m(2) moneyDec_money]])
  show ?thesis using m diff by (simp add: sale_totals_def Let_def)
qed

theorem coop_guard_exact_witness: "\<exists>t. sale_totals ex_store ex_drafts = Inr t"
proof -
  have lines: "price_lines 8 ex_product_of (\<lambda>_. None) 0 ex_items = Inr ex_drafts" by code_simp
  have "moneyDec (operator_base ex_store (sum_list (map ld_gross ex_drafts)) (sum_list (map ld_net ex_drafts))
                (sum_list (map ld_benefitDiscountAmount ex_drafts)) * st_operatorPercent ex_store / 100)
      \<le> sum_list (map ld_net ex_drafts)" by code_simp
  then show ?thesis using coop_guard_exact [OF lines, of ex_store] by blast
qed

end
