(* ===== verification/Sale_Create.thy ===== *)
theory Sale_Create
  imports Stock_Lots Pricing
begin

text \<open>
  \<open>createSale\<close> (\<open>backend/src/services/sales.service.ts\<close>): validation, the idempotency key, the locked
  FEFO plan, the checks at the till, benefits and prices, and the two ways to commit (a PAID cash
  sale that consumes its lots, a PENDING card sale that reserves them), then the start of the card
  payment. Identifiers the database generates, the clock and the answers of Stripe are fields of
  \<open>sale_env\<close>. The body of \<open>prisma.$transaction\<close> is one function from the database to a result, whose
  error is the rollback; \<open>createSale\<close> itself returns the database with a result, because its
  transaction stays committed when the payment cannot be started.
\<close>

section \<open>Environment and inputs\<close>

record checkout_session =
  ck_id :: string
  ck_url :: "string option"
  ck_paymentIntent :: "string option"

record terminal_intent =
  ti_id :: string
  ti_clientSecret :: "string option"

text \<open>
  \<open>nv_checkout\<close> and \<open>nv_terminal\<close> answer \<open>stripe.checkout.sessions.create\<close> (given quantities and unit
  amounts in cents) and \<open>stripe.paymentIntents.create\<close> (given the amount in cents).
\<close>

record sale_env =
  nv_now :: time
  nv_dev :: bool
  nv_saleId :: ident
  nv_itemId :: "nat \<Rightarrow> ident"
  nv_cache :: benefit_cache
  nv_checkout :: "(int \<times> int) list \<Rightarrow> checkout_session result"
  nv_terminal :: "int \<Rightarrow> terminal_intent result"

record create_sale_input =
  cs_items :: "line_input list"
  cs_memberId :: "ident option"
  cs_paymentMethod :: payment_method
  cs_cardLast4 :: "string option"
  cs_idempotencyKey :: "string option"
  cs_offlineSync :: bool

definition RESERVATION_TTL_MS :: int where
  "RESERVATION_TTL_MS = 15 * 60 * 1000"

text \<open>\<open>input.idempotencyKey?.trim() || null\<close>\<close>

definition clean_key :: "string option \<Rightarrow> string option" where
  "clean_key k = (case k of None \<Rightarrow> None | Some x \<Rightarrow> if trim x = [] then None else Some (trim x))"

section \<open>Validation\<close>

fun add_need :: "ident \<Rightarrow> int \<Rightarrow> (ident \<times> int) list \<Rightarrow> (ident \<times> int) list" where
  "add_need i q [] = [(i, q)]"
| "add_need i q ((j, n) # rest) = (if i = j then (j, n + q) # rest else (j, n) # add_need i q rest)"

fun stockNeededByProduct :: "line_input list \<Rightarrow> (ident \<times> int) list \<Rightarrow> (ident \<times> int) list result" where
  "stockNeededByProduct [] acc = Inr acc"
| "stockNeededByProduct (item # rest) acc =
     (if \<not> is_integer (li_quantity item) \<or> li_quantity item \<le> 0
      then Inl (AppError 400 ''Each item quantity must be a positive integer'')
      else stockNeededByProduct rest (add_need (li_productId item) (qty item) acc))"

fun check_manual_discounts :: "role \<Rightarrow> line_input list \<Rightarrow> unit result" where
  "check_manual_discounts r [] = Inr ()"
| "check_manual_discounts r (line # rest) =
     (let manual = (case li_manualDiscount line of None \<Rightarrow> 0 | Some d \<Rightarrow> d) in
      if manual < 0 then Inl (AppError 400 ''manualDiscount cannot be negative'')
      else if manual > 0 \<and> r \<noteq> STORE_ADMIN \<and> r \<noteq> COOP_ADMIN
      then Inl (AppError 403 ''Only STORE_ADMIN or COOP_ADMIN may apply manual discounts'')
      else if manual > 0 \<and> \<not> truthy (map_option trim (li_discountReason line))
      then Inl (AppError 400 ''discountReason is required for manual discounts'')
      else check_manual_discounts r rest)"

section \<open>The FEFO plan of a cart\<close>

record negative_flag =
  nf_productId :: ident
  nf_quantitySold :: int
  nf_stockBefore :: int
  nf_stockAfter :: int

definition blocked_lot :: "ident \<Rightarrow> ident \<Rightarrow> db \<Rightarrow> bool" where
  "blocked_lot pid storeId s \<longleftrightarrow>
     (\<exists>l \<in> set (db_lots s). l_productId l = pid \<and> l_storeId l = storeId
        \<and> (l_status l = LotQUARANTINED \<or> l_status l = LotRECALLED) \<and> l_quantityRemaining l > 0)"

definition working_lots :: "lot list \<Rightarrow> ident \<Rightarrow> working_lot list" where
  "working_lots lots pid =
     map (\<lambda>l. \<lparr>wl_lot = l, wl_taken = 0\<rparr>) (filter (\<lambda>l. l_productId l = pid) lots)"

fun plan_lines ::
  "bool \<Rightarrow> ident \<Rightarrow> db \<Rightarrow> product list \<Rightarrow> (ident \<Rightarrow> working_lot list) \<Rightarrow> line_input list
     \<Rightarrow> (lot_allocation list list \<times> negative_flag list) result" where
  "plan_lines offline storeId s prods wm [] = Inr ([], [])"
| "plan_lines offline storeId s prods wm (item # rest) =
     (case find_row p_id (li_productId item) prods of
        None \<Rightarrow> Inl (JsError ''product is undefined'')
      | Some p \<Rightarrow>
          let lots = wm (li_productId item); beforeAvail = totalAvailable lots in
          if beforeAvail < qty item \<and> beforeAvail = 0 \<and> blocked_lot (p_id p) storeId s
          then Inl (AppError 409 ''Product unavailable - stock is quarantined or recalled'')
          else
            bindE (allocateFefo offline lots (qty item)) (\<lambda>(as, ws).
            bindE (plan_lines offline storeId s prods (wm(li_productId item := ws)) rest) (\<lambda>(ass, flags).
            Inr (as # ass,
                 (if offline \<and> beforeAvail < qty item
                  then [\<lparr>nf_productId = p_id p, nf_quantitySold = qty item, nf_stockBefore = p_stock p,
                         nf_stockAfter = p_stock p - qty item\<rparr>]
                  else []) @ flags))))"

section \<open>Checks at the till\<close>

definition pos_checks :: "ident \<Rightarrow> bool \<Rightarrow> bool \<Rightarrow> ident option \<Rightarrow> db \<Rightarrow> store result" where
  "pos_checks storeId isCash offline memberId s =
     (case find_store storeId s of
        None \<Rightarrow> Inl (AppError 404 ''Store not found'')
      | Some store \<Rightarrow>
          if \<not> st_isActive store then Inl (AppError 400 ''Store is inactive and cannot accept sales'')
          else if st_locationType store = WAREHOUSE
          then Inl (AppError 409 ''Point-of-sale sales are not taken at a warehouse'')
          else if isCash \<and> \<not> offline
               \<and> \<not> (\<exists>d \<in> set (db_drawers s). cd_storeId d = storeId \<and> cd_closedAt d = None)
          then Inl (AppError 409 ''Open a cash drawer before taking cash sales'')
          else if truthy memberId then
            (case find_row m_id (the memberId) (db_members s) of
               None \<Rightarrow> Inl (AppError 404 ''Member not found'')
             | Some m \<Rightarrow>
                 if m_status m \<noteq> MemACTIVE
                 then Inl (AppError 400 ''Member is not ACTIVE and cannot be attached to a sale'')
                 else Inr store)
          else Inr store)"

section \<open>Benefits of the cart\<close>

fun cart_lines :: "(ident \<Rightarrow> product option) \<Rightarrow> nat \<Rightarrow> line_input list \<Rightarrow> benefit_cart_line list" where
  "cart_lines productOf index [] = []"
| "cart_lines productOf index (item # rest) =
     (case productOf (li_productId item) of
        None \<Rightarrow> cart_lines productOf (Suc index) rest
      | Some p \<Rightarrow>
          \<lparr>bl_lineKey = (index, li_productId item), bl_productId = li_productId item,
           bl_category = p_category p, bl_quantity = qty item, bl_unitPrice = p_price p\<rparr>
          # cart_lines productOf (Suc index) rest)"

definition cart_benefits ::
  "sale_env \<Rightarrow> ident \<Rightarrow> ident option \<Rightarrow> (ident \<Rightarrow> product option) \<Rightarrow> line_input list \<Rightarrow> db
     \<Rightarrow> (nat \<times> ident \<Rightarrow> (ident option \<times> decimal) option) \<times> skipped_benefit list" where
  "cart_benefits nv storeId memberId productOf items s =
     (if truthy memberId then
        (let r = fst (resolveBenefits (nv_now nv) (nv_cache nv) (the memberId) storeId
                        (cart_lines productOf 0 items) s)
         in (\<lambda>k. map_option (\<lambda>l. (lb_benefitId l, lb_benefitDiscountAmount l))
                   (find_row lb_lineKey k (rev (rr_lines r))),
             rr_skipped r))
      else (\<lambda>_. None, []))"

section \<open>Rows of a sale\<close>

fun sale_items_of :: "(nat \<Rightarrow> ident) \<Rightarrow> nat \<Rightarrow> line_draft list \<Rightarrow> lot_allocation list list \<Rightarrow> sale_item list" where
  "sale_items_of itemId k (d # ds) (as # ass) =
     \<lparr>si_id = itemId k, si_productId = ld_productId d, si_skuSnapshot = ld_skuSnapshot d,
      si_nameSnapshot = ld_nameSnapshot d, si_priceSnapshot = ld_priceSnapshot d,
      si_quantity = ld_quantity d, si_discountAmount = ld_discountAmount d,
      si_benefitId = ld_benefitId d, si_benefitDiscountAmount = ld_benefitDiscountAmount d,
      si_discountReason = ld_discountReason d, si_taxAmount = ld_taxAmount d,
      si_taxExempt = ld_taxExempt d, si_refundedQuantity = 0, si_lotAllocations = as\<rparr>
     # sale_items_of itemId (Suc k) ds ass"
| "sale_items_of itemId k _ _ = []"

definition new_sale ::
  "sale_env \<Rightarrow> ident \<Rightarrow> auth_user \<Rightarrow> create_sale_input \<Rightarrow> string option \<Rightarrow> discount_bearer \<Rightarrow> sale_totals
     \<Rightarrow> sale_item list \<Rightarrow> sale" where
  "new_sale nv storeId cashier input key bearer t items =
     (let isCash = (cs_paymentMethod input = CASH) in
      \<lparr>s_id = nv_saleId nv, s_storeId = storeId, s_cashierId = au_id cashier,
       s_memberId = cs_memberId input, s_subtotalBeforeDiscount = t_subtotalBeforeDiscount t,
       s_subtotal = t_subtotal t, s_discountAmount = t_discountAmount t,
       s_memberDiscountAmount = t_memberDiscountAmount t, s_memberDiscountBearer = bearer,
       s_taxAmount = t_taxAmount t, s_total = t_total t, s_operatorPercent = t_operatorPercent t,
       s_operatorAmount = t_operatorAmount t, s_operatorBaseSnapshot = Some (t_operatorBase t),
       s_coopAmount = t_coopAmount t,
       s_paymentStatus = (if isCash then PayPAID else PayPENDING),
       s_paymentMethod = Some (cs_paymentMethod input),
       s_cardLast4 = (if isCash then None else cs_cardLast4 input),
       s_stripePaymentIntentId = None, s_stripeCheckoutSessionId = None, s_refundedAmount = 0,
       s_refundedOperatorAmount = 0, s_pendingRefundId = None,
       s_paidAt = (if isCash then Some (nv_now nv) else None), s_refundedAt = None,
       s_reservationExpiresAt = (if isCash then None else Some (nv_now nv + RESERVATION_TTL_MS)),
       s_idempotencyKey = key, s_createdAt = nv_now nv, s_items = items\<rparr>)"

definition sale_create :: "sale \<Rightarrow> db \<Rightarrow> db result" where
  "sale_create sale s =
     (if s_idempotencyKey sale \<noteq> None
         \<and> (\<exists>r \<in> set (db_sales s). s_idempotencyKey r = s_idempotencyKey sale)
      then Inl UniqueViolation
      else bindE (create_row s_id sale (db_sales s)) (\<lambda>xs. Inr (s\<lparr>db_sales := xs\<rparr>)))"

text \<open>One usage row per benefit that saved anything on this sale, in order of first use.\<close>

fun add_saving :: "ident \<Rightarrow> decimal \<Rightarrow> (ident \<times> decimal) list \<Rightarrow> (ident \<times> decimal) list" where
  "add_saving i q [] = [(i, q)]"
| "add_saving i q ((j, n) # rest) = (if i = j then (j, n + q) # rest else (j, n) # add_saving i q rest)"

definition savings_by_benefit :: "line_draft list \<Rightarrow> (ident \<times> decimal) list" where
  "savings_by_benefit drafts =
     foldl (\<lambda>acc d. case ld_benefitId d of
              None \<Rightarrow> acc
            | Some i \<Rightarrow> if i = [] \<or> ld_benefitDiscountAmount d \<le> 0 then acc
                        else add_saving i (ld_benefitDiscountAmount d) acc) [] drafts"

definition recordMemberBenefitUsages :: "time \<Rightarrow> ident \<Rightarrow> ident \<Rightarrow> line_draft list \<Rightarrow> db \<Rightarrow> db" where
  "recordMemberBenefitUsages now saleId memberId drafts s =
     s\<lparr>db_usages := db_usages s @
        map (\<lambda>(i, saved). \<lparr>bu_memberId = memberId, bu_benefitId = i, bu_saleId = saleId,
                           bu_amountSaved = moneyDec saved, bu_usedAt = now\<rparr>)
          (savings_by_benefit drafts)\<rparr>"

definition record_usages :: "sale_env \<Rightarrow> ident option \<Rightarrow> line_draft list \<Rightarrow> db \<Rightarrow> db" where
  "record_usages nv memberId drafts s =
     (if truthy memberId then recordMemberBenefitUsages (nv_now nv) (nv_saleId nv) (the memberId) drafts s
      else s)"

definition record_flags :: "ident \<Rightarrow> ident \<Rightarrow> negative_flag list \<Rightarrow> db \<Rightarrow> db" where
  "record_flags storeId saleId flags s =
     s\<lparr>db_reconciliations := db_reconciliations s @
        map (\<lambda>f. \<lparr>sr_storeId = storeId, sr_saleId = saleId, sr_productId = nf_productId f,
                   sr_quantitySold = nf_quantitySold f, sr_stockBefore = nf_stockBefore f,
                   sr_stockAfter = nf_stockAfter f, sr_reason = ''OFFLINE_SALE_NEGATIVE_STOCK''\<rparr>) flags\<rparr>"

section \<open>The transaction\<close>

record tx_result =
  tx_sale :: sale
  tx_replayed :: bool
  tx_queued :: bool
  tx_skips :: "skipped_benefit list"
  tx_drafts :: "line_draft list"

text \<open>The two loops over the cart's lines that move stock.\<close>

definition consume_line :: "sale_env \<Rightarrow> product list \<Rightarrow> lot list \<Rightarrow> line_input \<times> lot_allocation list \<Rightarrow> db \<Rightarrow> db result" where
  "consume_line nv prods lots line s =
     (case find_row p_id (li_productId (fst line)) prods of
        None \<Rightarrow> Inl (JsError ''product is undefined'')
      | Some p \<Rightarrow> consumeDirect (nv_dev nv) p lots (snd line) False s)"

definition reserve_line :: "sale_env \<Rightarrow> product list \<Rightarrow> lot list \<Rightarrow> line_input \<times> lot_allocation list \<Rightarrow> db \<Rightarrow> db result" where
  "reserve_line nv prods lots line s =
     (case find_row p_id (li_productId (fst line)) prods of
        None \<Rightarrow> Inl (JsError ''product is undefined'')
      | Some p \<Rightarrow> reserve (nv_dev nv) p lots (snd line) s)"

text \<open>What is decided before anything is written.\<close>

record sale_plan =
  pn_products :: "product list"
  pn_lots :: "lot list"
  pn_allocs :: "lot_allocation list list"
  pn_flags :: "negative_flag list"
  pn_store :: store
  pn_drafts :: "line_draft list"
  pn_totals :: sale_totals
  pn_skips :: "skipped_benefit list"

definition plan_sale ::
  "sale_env \<Rightarrow> ident \<Rightarrow> create_sale_input \<Rightarrow> ident list \<Rightarrow> db \<Rightarrow> sale_plan result" where
  "plan_sale nv storeId input productIds s =
     (let items = cs_items input;
          prods = filter (\<lambda>p. p_storeId p = storeId) (lockProducts productIds s)
      in
      if length prods \<noteq> length productIds
      then Inl (AppError 404 ''One or more products were not found for this store'')
      else
        let lots = lockActiveLotsForProducts productIds storeId s;
            productOf = (\<lambda>i. find_row p_id i prods)
        in
        bindE (plan_lines (cs_offlineSync input) storeId s prods (working_lots lots) items) (\<lambda>(allocs, flags).
        bindE (pos_checks storeId (cs_paymentMethod input = CASH) (cs_offlineSync input) (cs_memberId input) s) (\<lambda>store.
        let (benefitOf, skips) = cart_benefits nv storeId (cs_memberId input) productOf items s in
        bindE (price_lines (st_taxRate store) productOf benefitOf 0 items) (\<lambda>drafts.
        bindE (sale_totals store drafts) (\<lambda>totals.
        Inr \<lparr>pn_products = prods, pn_lots = lots, pn_allocs = allocs, pn_flags = flags, pn_store = store,
             pn_drafts = drafts, pn_totals = totals, pn_skips = skips\<rparr>)))))"

definition commit_sale ::
  "sale_env \<Rightarrow> ident \<Rightarrow> auth_user \<Rightarrow> create_sale_input \<Rightarrow> string option \<Rightarrow> sale_plan \<Rightarrow> db \<Rightarrow> (db \<times> tx_result) result" where
  "commit_sale nv storeId cashier input key plan s =
     (let isCash = (cs_paymentMethod input = CASH);
          lines = zip (cs_items input) (pn_allocs plan);
          step = (if isCash then consume_line else reserve_line);
          sale = new_sale nv storeId cashier input key (st_memberDiscountBearer (pn_store plan)) (pn_totals plan)
                   (sale_items_of (nv_itemId nv) 0 (pn_drafts plan) (pn_allocs plan))
      in
      bindE (forE lines (step nv (pn_products plan) (pn_lots plan)) s) (\<lambda>s1.
      bindE (sale_create sale s1) (\<lambda>s2.
      let s3 = record_usages nv (cs_memberId input) (pn_drafts plan) s2;
          s4 = (if isCash \<and> pn_flags plan \<noteq> [] then record_flags storeId (s_id sale) (pn_flags plan) s3 else s3)
      in Inr (s4, \<lparr>tx_sale = sale, tx_replayed = False, tx_queued = isCash \<and> pn_flags plan \<noteq> [],
                   tx_skips = pn_skips plan, tx_drafts = pn_drafts plan\<rparr>))))"

definition createSale_tx ::
  "sale_env \<Rightarrow> ident \<Rightarrow> auth_user \<Rightarrow> create_sale_input \<Rightarrow> string option \<Rightarrow> ident list \<Rightarrow> db \<Rightarrow> (db \<times> tx_result) result" where
  "createSale_tx nv storeId cashier input key productIds s =
     (case (case key of None \<Rightarrow> None | Some k \<Rightarrow> find_row s_idempotencyKey (Some k) (db_sales s)) of
        Some raced \<Rightarrow>
          if s_storeId raced \<noteq> storeId then Inl (AppError 409 ''idempotencyKey already used by another store'')
          else Inr (s, \<lparr>tx_sale = raced, tx_replayed = True, tx_queued = False, tx_skips = [], tx_drafts = []\<rparr>)
      | None \<Rightarrow>
          bindE (plan_sale nv storeId input productIds s) (\<lambda>plan.
          commit_sale nv storeId cashier input key plan s))"

section \<open>Starting the card payment\<close>

record create_sale_result =
  cr_sale :: sale
  cr_checkout :: "(string \<times> string) option"
  cr_terminal :: "(string \<times> string) option"
  cr_replayed :: bool
  cr_queued :: bool
  cr_skips :: "skipped_benefit list"

definition plain_result :: "sale \<Rightarrow> create_sale_result" where
  "plain_result sale =
     \<lparr>cr_sale = sale, cr_checkout = None, cr_terminal = None, cr_replayed = False, cr_queued = False,
      cr_skips = []\<rparr>"

fun checkout_lines :: "sale_item list \<Rightarrow> (int \<times> int) list result" where
  "checkout_lines [] = Inr []"
| "checkout_lines (i # is) =
     bindE (toStripeCents (si_priceSnapshot i)) (\<lambda>c.
     bindE (checkout_lines is) (\<lambda>rest. Inr ((si_quantity i, c) # rest)))"

definition startCheckoutPayment :: "sale_env \<Rightarrow> sale \<Rightarrow> db \<Rightarrow> (db \<times> create_sale_result) result" where
  "startCheckoutPayment nv sale s =
     bindE (checkout_lines (s_items sale)) (\<lambda>lines.
     bindE (nv_checkout nv lines) (\<lambda>session.
     case ck_url session of
       None \<Rightarrow> Inl (AppError 502 ''Stripe Checkout Session did not return a URL'')
     | Some url \<Rightarrow>
         if url = [] then Inl (AppError 502 ''Stripe Checkout Session did not return a URL'')
         else
         (let f = (\<lambda>x. x\<lparr>s_stripeCheckoutSessionId := Some (ck_id session),
                          s_stripePaymentIntentId := (case ck_paymentIntent session of
                             None \<Rightarrow> s_stripePaymentIntentId x | Some intentId \<Rightarrow> Some intentId)\<rparr>)
          in bindE (sale_update (s_id sale) f s) (\<lambda>s1.
             Inr (s1, (plain_result (f sale))\<lparr>cr_checkout := Some (ck_id session, url)\<rparr>)))))"

definition startTerminalPayment :: "sale_env \<Rightarrow> sale \<Rightarrow> db \<Rightarrow> (db \<times> create_sale_result) result" where
  "startTerminalPayment nv sale s =
     bindE (toStripeCents (s_total sale)) (\<lambda>amount.
     bindE (nv_terminal nv amount) (\<lambda>intent.
     case ti_clientSecret intent of
       None \<Rightarrow> Inl (AppError 502 ''Stripe PaymentIntent missing client_secret'')
     | Some secret \<Rightarrow>
         if secret = [] then Inl (AppError 502 ''Stripe PaymentIntent missing client_secret'')
         else
         (let f = (\<lambda>x. x\<lparr>s_stripePaymentIntentId := Some (ti_id intent)\<rparr>)
          in bindE (sale_update (s_id sale) f s) (\<lambda>s1.
             Inr (s1, (plain_result (f sale))\<lparr>cr_terminal := Some (ti_id intent, secret)\<rparr>)))))"

section \<open>createSale\<close>

definition audit_manual_discounts :: "ident \<Rightarrow> auth_user \<Rightarrow> sale \<Rightarrow> line_draft list \<Rightarrow> db \<Rightarrow> db" where
  "audit_manual_discounts storeId cashier sale drafts s =
     foldl (\<lambda>s d. writeAuditLog (Some (au_id cashier)) (Some storeId) ''SALE_MANUAL_DISCOUNT'' ''Sale''
                    (Some (s_id sale)) s) s (manual_discounts drafts)"

text \<open>After the transaction: the audit rows, then the payment of a card sale.\<close>

definition after_create ::
  "sale_env \<Rightarrow> ident \<Rightarrow> auth_user \<Rightarrow> payment_method \<Rightarrow> db \<times> tx_result \<Rightarrow> db \<times> create_sale_result result" where
  "after_create nv storeId cashier method st =
     (let (s, r) = st; s1 = audit_manual_discounts storeId cashier (tx_sale r) (tx_drafts r) s in
      if tx_replayed r then (s, Inr ((plain_result (tx_sale r))\<lparr>cr_replayed := True\<rparr>))
      else case method of
        CASH \<Rightarrow> (s1, Inr ((plain_result (tx_sale r))\<lparr>cr_queued := tx_queued r, cr_skips := tx_skips r\<rparr>))
      | CHECKOUT \<Rightarrow>
          (case startCheckoutPayment nv (tx_sale r) s1 of
             Inl e \<Rightarrow> (s1, Inl e)
           | Inr (s2, c) \<Rightarrow> (s2, Inr (c\<lparr>cr_skips := tx_skips r\<rparr>)))
      | TERMINAL \<Rightarrow>
          (case startTerminalPayment nv (tx_sale r) s1 of
             Inl e \<Rightarrow> (s1, Inl e)
           | Inr (s2, c) \<Rightarrow> (s2, Inr (c\<lparr>cr_skips := tx_skips r\<rparr>))))"

text \<open>
  \<open>s0\<close> is what the pre-check reads, \<open>s\<close> the database the transaction runs on: another request may
  have committed in between.
\<close>

definition createSale ::
  "sale_env \<Rightarrow> ident \<Rightarrow> auth_user \<Rightarrow> create_sale_input \<Rightarrow> db \<Rightarrow> db \<Rightarrow> db \<times> create_sale_result result" where
  "createSale nv storeId cashier input s0 s =
     (let isCash = (cs_paymentMethod input = CASH); key = clean_key (cs_idempotencyKey input) in
      if cs_items input = [] then (s, Inl (AppError 400 ''Sale must include at least one item''))
      else if cs_offlineSync input \<and> \<not> isCash
      then (s, Inl (AppError 400 ''offlineSync is only valid for CASH sales''))
      else if cs_offlineSync input \<and> key = None
      then (s, Inl (AppError 400 ''offlineSync requires an idempotencyKey''))
      else case (case key of None \<Rightarrow> None | Some k \<Rightarrow> find_row s_idempotencyKey (Some k) (db_sales s0)) of
        Some existing \<Rightarrow>
          if s_storeId existing \<noteq> storeId
          then (s, Inl (AppError 409 ''idempotencyKey already used by another store''))
          else (s, Inr ((plain_result existing)\<lparr>cr_replayed := True\<rparr>))
      | None \<Rightarrow>
          (case bindE (stockNeededByProduct (cs_items input) []) (\<lambda>needed.
                bindE (check_manual_discounts (au_role cashier) (cs_items input)) (\<lambda>_. Inr (map fst needed))) of
             Inl e \<Rightarrow> (s, Inl e)
           | Inr productIds \<Rightarrow>
               (case createSale_tx nv storeId cashier input key productIds s of
                  Inr st \<Rightarrow> after_create nv storeId cashier (cs_paymentMethod input) st
                | Inl (AppError c m) \<Rightarrow> (s, Inl (AppError c m))
                | Inl e \<Rightarrow>
                    (case (if e = UniqueViolation \<and> key \<noteq> None
                           then find_row s_idempotencyKey key (db_sales s) else None) of
                       Some existing \<Rightarrow>
                         if s_storeId existing = storeId
                         then (s, Inr ((plain_result existing)\<lparr>cr_replayed := True\<rparr>))
                         else (s, Inl (AppError 500 ''Checkout failed; no sale was created''))
                     | None \<Rightarrow> (s, Inl (AppError 500 ''Checkout failed; no sale was created''))))))"

end
