(* ===== verification/Sale_Invariant.thy ===== *)
theory Sale_Invariant
  imports Sale_Create
begin

text \<open>
  The invariant that ties the open sales to the stock: the units reserved on every lot are exactly
  the allocations of the sales still PENDING, every sale line points at lots of its product with
  positive quantities, and the cached counters equal the sums over the ACTIVE lots. \<open>createSale\<close>
  establishes it for the sale it adds.
\<close>

section \<open>The demand of the pending sales\<close>

definition sale_allocs :: "sale \<Rightarrow> lot_allocation list" where
  "sale_allocs x = concat (map si_lotAllocations (s_items x))"

definition sale_held :: "ident \<Rightarrow> sale \<Rightarrow> int" where
  "sale_held i x = (if s_paymentStatus x = PayPENDING then alloc_qty (sale_allocs x) i else 0)"

definition held :: "db \<Rightarrow> ident \<Rightarrow> int" where
  "held s i = sum_rows (sale_held i) (db_sales s)"

text \<open>A line's allocations: present, positive, on lots of the line's product, for the line's quantity.\<close>

definition item_ok :: "db \<Rightarrow> sale_item \<Rightarrow> bool" where
  "item_ok s it \<longleftrightarrow>
     si_productId it \<noteq> [] \<and> si_productId it \<in> p_id ` set (db_products s)
     \<and> si_lotAllocations it \<noteq> [] \<and> alloc_total (si_lotAllocations it) = si_quantity it
     \<and> (\<forall>a \<in> set (si_lotAllocations it). 0 < a_quantity a \<and> a_lotId a \<noteq> []
          \<and> (a_lotId a, si_productId it) \<in> (\<lambda>l. (l_id l, l_productId l)) ` set (db_lots s))"

definition sale_ok :: "db \<Rightarrow> sale \<Rightarrow> bool" where
  "sale_ok s x \<longleftrightarrow> s_items x \<noteq> [] \<and> (\<forall>it \<in> set (s_items x). item_ok s it)"

definition sys_inv :: "db \<Rightarrow> bool" where
  "sys_inv s \<longleftrightarrow>
     stock_inv (held s) s \<and> distinct (map s_id (db_sales s)) \<and> (\<forall>x \<in> set (db_sales s). sale_ok s x)
     \<and> (\<forall>l \<in> set (db_lots s). l_id l \<noteq> [])"

lemma sys_invD:
  assumes "sys_inv s"
  shows "stock_inv (held s) s" "lots_inv (held s) s" "rollup_ok s" "distinct (map s_id (db_sales s))"
    "x \<in> set (db_sales s) \<Longrightarrow> sale_ok s x" "l \<in> set (db_lots s) \<Longrightarrow> l_id l \<noteq> []"
    "distinct (map l_id (db_lots s))" "distinct (map p_id (db_products s))"
  using assms by (auto simp: sys_inv_def stock_inv_def lots_inv_def)

lemma frame_ids:
  assumes "stock_frame s t"
  shows "p_id ` set (db_products t) = p_id ` set (db_products s)"
    and "(\<lambda>l. (l_id l, l_productId l)) ` set (db_lots t) = (\<lambda>l. (l_id l, l_productId l)) ` set (db_lots s)"
    and "l_id ` set (db_lots t) = l_id ` set (db_lots s)"
proof -
  have "fst ` set (map product_key (db_products t)) = fst ` set (map product_key (db_products s))"
    "(\<lambda>(a, b, c). (a, b)) ` set (map lot_key (db_lots t)) = (\<lambda>(a, b, c). (a, b)) ` set (map lot_key (db_lots s))"
    "fst ` set (map lot_key (db_lots t)) = fst ` set (map lot_key (db_lots s))"
    by (simp_all only: stock_frame_keys [OF assms])
  then show "p_id ` set (db_products t) = p_id ` set (db_products s)"
    and "(\<lambda>l. (l_id l, l_productId l)) ` set (db_lots t) = (\<lambda>l. (l_id l, l_productId l)) ` set (db_lots s)"
    and "l_id ` set (db_lots t) = l_id ` set (db_lots s)"
    by (simp_all add: product_key_def lot_key_def image_image)
qed

lemma sale_ok_frame: "stock_frame s t \<Longrightarrow> sale_ok t x = sale_ok s x"
  by (simp add: sale_ok_def item_ok_def frame_ids)

lemma sale_ok_cong:
  "db_products s = db_products t \<Longrightarrow> db_lots s = db_lots t \<Longrightarrow> sale_ok s x = sale_ok t x"
  by (simp add: sale_ok_def item_ok_def)

lemma stock_inv_cong:
  "db_products s = db_products t \<Longrightarrow> db_lots s = db_lots t \<Longrightarrow> stock_inv h s = stock_inv h t"
  by (simp add: stock_inv_def lots_inv_def rollup_ok_def stock_gap_def reserved_gap_def)

text \<open>Other tables may change freely.\<close>

lemma sys_inv_cong:
  assumes "sys_inv s" "db_products t = db_products s" "db_lots t = db_lots s" "db_sales t = db_sales s"
  shows "sys_inv t"
proof -
  have "held t = held s" using assms(4) by (simp add: held_def fun_eq_iff)
  then show ?thesis
    using assms stock_inv_cong [of t s] sale_ok_cong [of t s] by (simp add: sys_inv_def)
qed

lemma alloc_qty_concat: "alloc_qty (concat ass) i = sum_rows (\<lambda>as. alloc_qty as i) ass"
  by (induction ass) simp_all

lemma sale_held_nonneg: "sale_ok s x \<Longrightarrow> 0 \<le> sale_held i x"
  unfolding sale_held_def sale_allocs_def
  by (auto intro!: alloc_qty_nonneg simp: sale_ok_def item_ok_def less_imp_le)

lemma sale_held_le_held:
  "\<forall>x \<in> set (db_sales s). sale_ok s x \<Longrightarrow> x \<in> set (db_sales s) \<Longrightarrow> sale_held i x \<le> held s i"
  unfolding held_def by (rule sum_rows_member_le) (auto intro: sale_held_nonneg)

section \<open>The plan of a cart\<close>

text \<open>The working lots of the plan: the locked lots of each product, with units still free.\<close>

definition plan_ok :: "lot list \<Rightarrow> (ident \<Rightarrow> working_lot list) \<Rightarrow> bool" where
  "plan_ok lots wm \<longleftrightarrow>
     distinct (map l_id lots)
     \<and> (\<forall>pid. map wl_lot (wm pid) = filter (\<lambda>l. l_productId l = pid) lots)
     \<and> (\<forall>pid. \<forall>w \<in> set (wm pid). 0 \<le> workingLotAvailable w)"

lemma plan_okD:
  assumes "plan_ok lots wm"
  shows "distinct (map (l_id \<circ> wl_lot) (wm pid))"
    and "w \<in> set (wm pid) \<Longrightarrow> wl_lot w \<in> set lots \<and> l_productId (wl_lot w) = pid \<and> 0 \<le> workingLotAvailable w"
proof -
  have e: "map wl_lot (wm pid) = filter (\<lambda>l. l_productId l = pid) lots" using assms by (simp add: plan_ok_def)
  have "map (l_id \<circ> wl_lot) (wm pid) = map l_id (filter (\<lambda>l. l_productId l = pid) lots)"
    by (simp flip: e)
  moreover have "distinct (map l_id (filter (\<lambda>l. l_productId l = pid) lots))"
    using assms by (auto simp: plan_ok_def distinct_map intro: inj_on_subset)
  ultimately show "distinct (map (l_id \<circ> wl_lot) (wm pid))" by simp
  assume w: "w \<in> set (wm pid)"
  then have "wl_lot w \<in> set (filter (\<lambda>l. l_productId l = pid) lots)" by (simp flip: e)
  then show "wl_lot w \<in> set lots \<and> l_productId (wl_lot w) = pid \<and> 0 \<le> workingLotAvailable w"
    using assms w by (auto simp: plan_ok_def)
qed

text \<open>One strict allocation: what it takes, and what it leaves.\<close>

lemma fefo_share_le: "fefo_share ws q i \<le> avail (ws ! i)"
  unfolding fefo_share_def using avail_nonneg [of "ws ! i"] by simp

lemma allocateFefo_plan:
  assumes run: "allocateFefo False ws q = Inr (as, ws')" and q: "0 < q"
    and d: "distinct (map (l_id \<circ> wl_lot) ws)" and pos: "\<forall>w \<in> set ws. 0 \<le> workingLotAvailable w"
  shows "alloc_total as = q" "as \<noteq> []"
    "\<forall>a \<in> set as. 0 < a_quantity a \<and> (\<exists>w \<in> set ws. a_lotId a = l_id (wl_lot w))"
    "map wl_lot ws' = map wl_lot ws"
    "\<forall>i < length ws. workingLotAvailable (ws' ! i)
        = workingLotAvailable (ws ! i) - alloc_qty as (l_id (wl_lot (ws ! i)))
        \<and> 0 \<le> workingLotAvailable (ws' ! i)"
proof -
  obtain r where l: "fefo_loop ws q = (as, ws', r)" and ok: "q \<le> totalAvailable ws"
    using run q by (auto simp: allocateFefo_strict split: if_splits) (metis prod.collapse)
  note sp = fefo_loop_spec [OF l less_imp_le [OF q]]
  have r: "r = 0" using sp ok by simp
  show tot: "alloc_total as = q" using sp r by simp
  then show "as \<noteq> []" using q by auto
  show "\<forall>a \<in> set as. 0 < a_quantity a \<and> (\<exists>w \<in> set ws. a_lotId a = l_id (wl_lot w))"
  proof
    fix a assume "a \<in> set as"
    then obtain w where "0 < a_quantity a" "w \<in> set ws" "a = allocation_of w (a_quantity a)" using sp by blast
    then show "0 < a_quantity a \<and> (\<exists>w \<in> set ws. a_lotId a = l_id (wl_lot w))"
      by (metis allocation_of_sel(1))
  qed
  show m: "map wl_lot ws' = map wl_lot ws" using sp by simp
  show "\<forall>i < length ws. workingLotAvailable (ws' ! i)
        = workingLotAvailable (ws ! i) - alloc_qty as (l_id (wl_lot (ws ! i)))
        \<and> 0 \<le> workingLotAvailable (ws' ! i)"
  proof (intro allI impI)
    fix i assume i: "i < length ws"
    then have lot: "wl_lot (ws' ! i) = wl_lot (ws ! i)" using m sp by (metis nth_map)
    have tk: "wl_taken (ws' ! i) = wl_taken (ws ! i) + fefo_share ws q i" using sp i by blast
    have a: "alloc_qty as (l_id (wl_lot (ws ! i))) = fefo_share ws q i"
      using alloc_of_taken [OF l d i] tk by simp
    have "avail (ws ! i) = workingLotAvailable (ws ! i)" using pos i by (simp add: avail_def)
    then show "workingLotAvailable (ws' ! i)
        = workingLotAvailable (ws ! i) - alloc_qty as (l_id (wl_lot (ws ! i)))
        \<and> 0 \<le> workingLotAvailable (ws' ! i)"
      using lot tk a fefo_share_le [of ws q i] by (simp add: workingLotAvailable_def)
  qed
qed

lemma plan_ok_step:
  assumes ok: "plan_ok lots wm" and run: "allocateFefo False (wm pid) q = Inr (as, ws')" and q: "0 < q"
  shows "plan_ok lots (wm(pid := ws'))"
    and "\<forall>p. \<forall>k < length (wm p). workingLotAvailable ((wm(pid := ws')) p ! k)
        = workingLotAvailable (wm p ! k) - alloc_qty as (l_id (wl_lot (wm p ! k)))"
proof -
  have av: "\<forall>w \<in> set (wm pid). 0 \<le> workingLotAvailable w" using plan_okD(2) [OF ok] by blast
  note al = allocateFefo_plan [OF run q plan_okD(1) [OF ok] av]
  have len: "length ws' = length (wm pid)" using al(4) by (metis length_map)
  show "plan_ok lots (wm(pid := ws'))"
    unfolding plan_ok_def
  proof (intro conjI allI ballI)
    show "distinct (map l_id lots)" using ok by (simp add: plan_ok_def)
    show "map wl_lot ((wm(pid := ws')) p) = filter (\<lambda>l. l_productId l = p) lots" for p
      using ok al(4) by (simp add: plan_ok_def)
    show "0 \<le> workingLotAvailable w" if w: "w \<in> set ((wm(pid := ws')) p)" for p w
    proof (cases "p = pid")
      case True
      then obtain k where "k < length ws'" "w = ws' ! k" using w by (auto simp: in_set_conv_nth)
      have "0 \<le> workingLotAvailable (ws' ! k)" using al(5) len \<open>k < length ws'\<close> by (metis (no_types))
      then show ?thesis using \<open>w = ws' ! k\<close> by simp
    next
      case False
      then show ?thesis using w plan_okD(2) [OF ok] by simp
    qed
  qed
  show "\<forall>p. \<forall>k < length (wm p). workingLotAvailable ((wm(pid := ws')) p ! k)
        = workingLotAvailable (wm p ! k) - alloc_qty as (l_id (wl_lot (wm p ! k)))"
  proof (intro allI impI)
    fix p k assume k: "k < length (wm p)"
    show "workingLotAvailable ((wm(pid := ws')) p ! k)
        = workingLotAvailable (wm p ! k) - alloc_qty as (l_id (wl_lot (wm p ! k)))"
    proof (cases "p = pid")
      case True
      then show ?thesis using al(5) k by simp
    next
      case False
      have other: "a_lotId a \<noteq> l_id (wl_lot (wm p ! k))" if a: "a \<in> set as" for a
      proof
        assume e: "a_lotId a = l_id (wl_lot (wm p ! k))"
        obtain w where w: "w \<in> set (wm pid)" "a_lotId a = l_id (wl_lot w)" using al(3) a by blast
        have "wl_lot w \<in> set lots" "wl_lot (wm p ! k) \<in> set lots" "l_productId (wl_lot w) = pid"
            "l_productId (wl_lot (wm p ! k)) = p"
          using plan_okD(2) [OF ok w(1)] plan_okD(2) [OF ok nth_mem [OF k]] by simp_all
        then show False using inj_onD [of l_id "set lots" "wl_lot w" "wl_lot (wm p ! k)"] ok e w(2) False
          by (simp add: plan_ok_def distinct_map)
      qed
      have "alloc_qty as (l_id (wl_lot (wm p ! k))) = 0"
        unfolding alloc_qty_def by (rule sum_rows_zero) (use other in auto)
      then show ?thesis using False by simp
    qed
  qed
qed

lemma plan_lines_ok:
  "plan_lines False st s prods wm items = Inr (ass, flags) \<Longrightarrow> plan_ok lots wm \<Longrightarrow> \<forall>item \<in> set items. 0 < qty item \<Longrightarrow>
     length ass = length items
     \<and> (\<forall>(item, as) \<in> set (zip items ass). (\<exists>p. find_row p_id (li_productId item) prods = Some p)
          \<and> as \<noteq> [] \<and> alloc_total as = qty item
          \<and> (\<forall>a \<in> set as. 0 < a_quantity a
               \<and> (\<exists>l \<in> set lots. l_id l = a_lotId a \<and> l_productId l = li_productId item)))
     \<and> (\<forall>pid. \<forall>w \<in> set (wm pid). alloc_qty (concat ass) (l_id (wl_lot w)) \<le> workingLotAvailable w)"
proof (induction items arbitrary: wm ass flags)
  case Nil
  then show ?case using plan_okD(2) [OF Nil(2)] by auto
next
  case (Cons item items)
  let ?pid = "li_productId item"
  obtain p as ws ass' flags' where p: "find_row p_id ?pid prods = Some p"
      and al: "allocateFefo False (wm ?pid) (qty item) = Inr (as, ws)"
      and rest: "plan_lines False st s prods (wm(?pid := ws)) items = Inr (ass', flags')" and ass: "ass = as # ass'"
    using Cons.prems(1) by (auto simp: bindE_Inr_iff Let_def split: option.splits if_splits)
  have q: "0 < qty item" using Cons.prems(3) by simp
  have av: "\<forall>w \<in> set (wm ?pid). 0 \<le> workingLotAvailable w" using plan_okD(2) [OF Cons.prems(2)] by blast
  note a = allocateFefo_plan [OF al q plan_okD(1) [OF Cons.prems(2)] av]
  note stp = plan_ok_step [OF Cons.prems(2) al q]
  have IH: "length ass' = length items"
    "\<forall>(item, as) \<in> set (zip items ass'). (\<exists>p. find_row p_id (li_productId item) prods = Some p)
          \<and> as \<noteq> [] \<and> alloc_total as = qty item
          \<and> (\<forall>a \<in> set as. 0 < a_quantity a
               \<and> (\<exists>l \<in> set lots. l_id l = a_lotId a \<and> l_productId l = li_productId item))"
    "\<forall>pid. \<forall>w \<in> set ((wm(?pid := ws)) pid). alloc_qty (concat ass') (l_id (wl_lot w)) \<le> workingLotAvailable w"
    using Cons.IH [OF rest stp(1)] Cons.prems(3) by simp_all
  have lotsok: "\<forall>a \<in> set as. 0 < a_quantity a \<and> (\<exists>l \<in> set lots. l_id l = a_lotId a \<and> l_productId l = ?pid)"
    using a(3) plan_okD(2) [OF Cons.prems(2)] by metis
  have "alloc_qty (concat ass) (l_id (wl_lot w)) \<le> workingLotAvailable w" if w: "w \<in> set (wm pid)" for pid w
  proof -
    obtain k where k: "k < length (wm pid)" "w = wm pid ! k" using w by (auto simp: in_set_conv_nth)
    have m: "map wl_lot ((wm(?pid := ws)) pid) = map wl_lot (wm pid)"
      using Cons.prems(2) stp(1) by (simp add: plan_ok_def)
    then have len: "k < length ((wm(?pid := ws)) pid)" using k(1) by (metis length_map)
    then have lot: "wl_lot ((wm(?pid := ws)) pid ! k) = wl_lot w" using m k by (metis nth_map)
    have "alloc_qty (concat ass') (l_id (wl_lot w)) \<le> workingLotAvailable ((wm(?pid := ws)) pid ! k)"
      using IH(3) nth_mem [OF len] lot by metis
    then show ?thesis using stp(2) k by (simp add: ass)
  qed
  then show ?case using IH p a(1,2) lotsok by (simp add: ass)
qed

section \<open>A planned cart can be committed\<close>

lemma lots_inv_lot_ok: "lots_inv h s \<Longrightarrow> l \<in> set (db_lots s) \<Longrightarrow> lot_ok l"
  by (simp add: lots_inv_def)

lemma plan_ok_init:
  assumes "lots_inv h s"
  shows "plan_ok (lockActiveLotsForProducts pids st s) (working_lots (lockActiveLotsForProducts pids st s))"
  unfolding plan_ok_def
proof (intro conjI allI ballI)
  show "distinct (map l_id (lockActiveLotsForProducts pids st s))"
    using lots_inv_distinct(1) [OF assms] by (rule distinct_lockActiveLots)
  show "map wl_lot (working_lots (lockActiveLotsForProducts pids st s) p)
      = filter (\<lambda>l. l_productId l = p) (lockActiveLotsForProducts pids st s)" for p
    by (simp add: working_lots_def comp_def)
  fix p w assume "w \<in> set (working_lots (lockActiveLotsForProducts pids st s) p)"
  then obtain l where l: "l \<in> set (db_lots s)" "l_status l = LotACTIVE" "w = \<lparr>wl_lot = l, wl_taken = 0\<rparr>"
    by (auto simp: working_lots_def set_lockActiveLots)
  then show "0 \<le> workingLotAvailable w"
    using lots_inv_lot_ok [OF assms l(1)] by (simp add: workingLotAvailable_def lot_ok_def)
qed

lemma free_units_nonneg: "lot_ok l \<Longrightarrow> 0 \<le> free_units l"
  by (simp add: free_units_def lot_ok_def)

lemma plan_sale_Inr:
  assumes "plan_sale nv st input pids s = Inr plan"
  shows "pn_products plan = filter (\<lambda>p. p_storeId p = st) (lockProducts pids s)"
    and "pn_lots plan = lockActiveLotsForProducts pids st s"
    and "plan_lines (cs_offlineSync input) st s (pn_products plan) (working_lots (pn_lots plan)) (cs_items input)
           = Inr (pn_allocs plan, pn_flags plan)"
    and "pos_checks st (cs_paymentMethod input = CASH) (cs_offlineSync input) (cs_memberId input) s
           = Inr (pn_store plan)"
    and "\<exists>b. price_lines (st_taxRate (pn_store plan)) (\<lambda>i. find_row p_id i (pn_products plan)) b 0 (cs_items input)
           = Inr (pn_drafts plan)"
    and "sale_totals (pn_store plan) (pn_drafts plan) = Inr (pn_totals plan)"
proof -
  obtain b sk where cb: "cart_benefits nv st (cs_memberId input)
      (\<lambda>i. find_row p_id i (filter (\<lambda>p. p_storeId p = st) (lockProducts pids s))) (cs_items input) s = (b, sk)"
    by (metis surj_pair)
  note run = assms [unfolded plan_sale_def Let_def cb prod.case]
  show "pn_products plan = filter (\<lambda>p. p_storeId p = st) (lockProducts pids s)"
    "pn_lots plan = lockActiveLotsForProducts pids st s"
    "plan_lines (cs_offlineSync input) st s (pn_products plan) (working_lots (pn_lots plan)) (cs_items input)
       = Inr (pn_allocs plan, pn_flags plan)"
    "pos_checks st (cs_paymentMethod input = CASH) (cs_offlineSync input) (cs_memberId input) s = Inr (pn_store plan)"
    "sale_totals (pn_store plan) (pn_drafts plan) = Inr (pn_totals plan)"
    using run by (auto simp: bindE_Inr_iff split: if_splits)
  show "\<exists>b. price_lines (st_taxRate (pn_store plan)) (\<lambda>i. find_row p_id i (pn_products plan)) b 0 (cs_items input)
       = Inr (pn_drafts plan)"
    using run by (intro exI [of _ b]) (auto simp: bindE_Inr_iff split: if_splits)
qed

definition line_product :: "product list \<Rightarrow> line_input \<times> lot_allocation list \<Rightarrow> product" where
  "line_product prods x = the (find_row p_id (li_productId (fst x)) prods)"

lemma plan_sale_ready:
  assumes s: "sys_inv s" and plan: "plan_sale nv st input pids s = Inr plan"
    and strict: "\<not> cs_offlineSync input" and q: "\<forall>item \<in> set (cs_items input). 0 < qty item"
  shows "length (pn_allocs plan) = length (cs_items input)"
    and "\<forall>x \<in> set (zip (cs_items input) (pn_allocs plan)).
           find_row p_id (li_productId (fst x)) (pn_products plan) = Some (line_product (pn_products plan) x)
           \<and> rows_for (line_product (pn_products plan) x) (pn_lots plan) (snd x) s
           \<and> snd x \<noteq> [] \<and> alloc_total (snd x) = qty (fst x)"
    and "\<forall>l \<in> set (db_lots s). alloc_qty (concat (pn_allocs plan)) (l_id l) \<le> free_units l"
proof -
  have inv: "lots_inv (held s) s" by (rule sys_invD(2) [OF s])
  note pl = plan_sale_Inr [OF plan]
  let ?lots = "pn_lots plan" and ?prods = "pn_products plan"
  have ok: "plan_ok ?lots (working_lots ?lots)" unfolding pl(2) by (rule plan_ok_init [OF inv])
  have lots: "set ?lots \<subseteq> set (db_lots s)" "\<forall>l \<in> set ?lots. l_status l = LotACTIVE"
    by (auto simp: pl(2) set_lockActiveLots)
  have prods: "set ?prods \<subseteq> set (db_products s)" by (auto simp: pl(1) set_lockProducts)
  have run: "plan_lines False st s ?prods (working_lots ?lots) (cs_items input) = Inr (pn_allocs plan, pn_flags plan)"
    using pl(3) strict by simp
  note L = plan_lines_ok [OF run ok q]
  show len: "length (pn_allocs plan) = length (cs_items input)" using L by blast
  have each: "\<forall>(item, as) \<in> set (zip (cs_items input) (pn_allocs plan)).
      (\<exists>p. find_row p_id (li_productId item) ?prods = Some p) \<and> as \<noteq> [] \<and> alloc_total as = qty item
      \<and> (\<forall>a \<in> set as. 0 < a_quantity a \<and> (\<exists>l \<in> set ?lots. l_id l = a_lotId a \<and> l_productId l = li_productId item))"
    using L by blast
  show "\<forall>x \<in> set (zip (cs_items input) (pn_allocs plan)).
           find_row p_id (li_productId (fst x)) ?prods = Some (line_product ?prods x)
           \<and> rows_for (line_product ?prods x) ?lots (snd x) s
           \<and> snd x \<noteq> [] \<and> alloc_total (snd x) = qty (fst x)"
  proof
    fix x assume x: "x \<in> set (zip (cs_items input) (pn_allocs plan))"
    obtain item as where xe: "x = (item, as)" by (cases x)
    obtain p where p: "find_row p_id (li_productId item) ?prods = Some p" and as: "as \<noteq> []" "alloc_total as = qty item"
      and al: "\<forall>a \<in> set as. 0 < a_quantity a \<and> (\<exists>l \<in> set ?lots. l_id l = a_lotId a \<and> l_productId l = li_productId item)"
      using each x xe by fast
    have pp: "p \<in> set (db_products s)" "p_id p = li_productId item" using find_row_SomeD [OF p] prods by auto
    have "rows_for p ?lots as s"
      unfolding rows_for_def
    proof (intro conjI ballI)
      show "product_key p \<in> product_key ` set (db_products s)" using pp(1) by simp
      show "lot_key ` set ?lots \<subseteq> lot_key ` set (db_lots s)" using lots(1) by (rule image_mono)
      fix a assume a: "a \<in> set as"
      show "0 < a_quantity a" using al a by blast
      obtain l where "l \<in> set ?lots" "l_id l = a_lotId a" "l_productId l = li_productId item" using al a by blast
      then show "a_lotId a \<in> l_id ` set ?lots" "\<exists>l \<in> set (db_lots s). l_id l = a_lotId a \<and> l_productId l = p_id p"
        using lots(1) pp(2) by (auto simp: image_iff intro!: bexI [of _ l])
    qed
    then show "find_row p_id (li_productId (fst x)) ?prods = Some (line_product ?prods x)
           \<and> rows_for (line_product ?prods x) ?lots (snd x) s
           \<and> snd x \<noteq> [] \<and> alloc_total (snd x) = qty (fst x)"
      using p as xe by (simp add: line_product_def)
  qed
  have ids: "a_lotId a \<in> l_id ` set ?lots" if a: "a \<in> set (concat (pn_allocs plan))" for a
  proof -
    obtain as where as: "as \<in> set (pn_allocs plan)" "a \<in> set as" using a by auto
    then obtain k where "k < length (pn_allocs plan)" "as = pn_allocs plan ! k" by (auto simp: in_set_conv_nth)
    then have "(cs_items input ! k, as) \<in> set (zip (cs_items input) (pn_allocs plan))"
      using len by (auto simp: set_zip)
    then obtain l where "l \<in> set ?lots" "l_id l = a_lotId a" using each as(2) by fast
    then show ?thesis by (metis imageI)
  qed
  show "\<forall>l \<in> set (db_lots s). alloc_qty (concat (pn_allocs plan)) (l_id l) \<le> free_units l"
  proof
    fix l assume l: "l \<in> set (db_lots s)"
    show "alloc_qty (concat (pn_allocs plan)) (l_id l) \<le> free_units l"
    proof (cases "l \<in> set ?lots")
      case True
      then have "\<lparr>wl_lot = l, wl_taken = 0\<rparr> \<in> set (working_lots ?lots (l_productId l))"
        by (auto simp: working_lots_def)
      then have "alloc_qty (concat (pn_allocs plan)) (l_id (wl_lot \<lparr>wl_lot = l, wl_taken = 0\<rparr>))
          \<le> workingLotAvailable \<lparr>wl_lot = l, wl_taken = 0\<rparr>"
        using L by blast
      then show ?thesis using lots(2) True by (simp add: workingLotAvailable_def free_units_def)
    next
      case False
      have "a_lotId a \<noteq> l_id l" if a: "a \<in> set (concat (pn_allocs plan))" for a
      proof
        assume "a_lotId a = l_id l"
        then obtain m where m: "m \<in> set ?lots" "l_id m = l_id l" using ids [OF a] by auto
        then have "m = l" using lots(1) l inj_onD [of l_id "set (db_lots s)" m l] sys_invD(7) [OF s]
          by (auto simp: distinct_map)
        then show False using m(1) False by simp
      qed
      then have "alloc_qty (concat (pn_allocs plan)) (l_id l) = 0"
        unfolding alloc_qty_def by (intro sum_rows_zero) auto
      then show ?thesis using free_units_nonneg lots_inv_lot_ok [OF inv l] by simp
    qed
  qed
qed

section \<open>The sale that is added\<close>

lemma sale_items_of_props:
  "length ds = length ass \<Longrightarrow>
     map si_lotAllocations (sale_items_of f k ds ass) = ass
     \<and> map si_productId (sale_items_of f k ds ass) = map ld_productId ds
     \<and> map si_quantity (sale_items_of f k ds ass) = map ld_quantity ds
     \<and> length (sale_items_of f k ds ass) = length ds"
  by (induction ds ass arbitrary: k rule: list_induct2) simp_all

lemma new_sale_sel [simp]:
  "s_id (new_sale nv st u input key b t is) = nv_saleId nv"
  "s_items (new_sale nv st u input key b t is) = is"
  "s_paymentStatus (new_sale nv st u input key b t is) = (if cs_paymentMethod input = CASH then PayPAID else PayPENDING)"
  "s_storeId (new_sale nv st u input key b t is) = st"
  "s_total (new_sale nv st u input key b t is) = t_total t"
  "s_idempotencyKey (new_sale nv st u input key b t is) = key"
  by (simp_all add: new_sale_def Let_def)

lemma record_tables [simp]:
  "db_products (record_usages nv m ds s) = db_products s" "db_lots (record_usages nv m ds s) = db_lots s"
  "db_sales (record_usages nv m ds s) = db_sales s"
  "db_products (record_flags st i fs s) = db_products s" "db_lots (record_flags st i fs s) = db_lots s"
  "db_sales (record_flags st i fs s) = db_sales s"
  by (simp_all add: record_usages_def recordMemberBenefitUsages_def record_flags_def)

lemma audit_tables [simp]:
  "db_products (audit_manual_discounts st u x ds s) = db_products s"
  "db_lots (audit_manual_discounts st u x ds s) = db_lots s"
  "db_sales (audit_manual_discounts st u x ds s) = db_sales s"
proof -
  have "db_products (foldl (\<lambda>s d. writeAuditLog a b c e f s) s xs) = db_products s
      \<and> db_lots (foldl (\<lambda>s d. writeAuditLog a b c e f s) s xs) = db_lots s
      \<and> db_sales (foldl (\<lambda>s d. writeAuditLog a b c e f s) s xs) = db_sales s" for a b c e f s and xs :: "line_draft list"
    by (induction xs arbitrary: s) simp_all
  then show "db_products (audit_manual_discounts st u x ds s) = db_products s"
    "db_lots (audit_manual_discounts st u x ds s) = db_lots s"
    "db_sales (audit_manual_discounts st u x ds s) = db_sales s"
    by (simp_all add: audit_manual_discounts_def)
qed

lemma sale_create_Inr:
  "sale_create x s = Inr t \<Longrightarrow> t = s\<lparr>db_sales := db_sales s @ [x]\<rparr> \<and> s_id x \<notin> s_id ` set (db_sales s)"
  by (auto simp: sale_create_def create_row_def has_row_def split: if_splits)

lemma add_sale_inv:
  assumes inv: "stock_inv (\<lambda>i. held s i + sale_held i x) t" and sales: "db_sales t = db_sales s"
    and s: "sys_inv s" and frame: "stock_frame s t" and x: "sale_ok t x" "s_id x \<notin> s_id ` set (db_sales s)"
  shows "sys_inv (t\<lparr>db_sales := db_sales t @ [x]\<rparr>)"
proof -
  let ?u = "t\<lparr>db_sales := db_sales t @ [x]\<rparr>"
  have "held ?u = (\<lambda>i. held s i + sale_held i x)" by (simp add: held_def sales fun_eq_iff)
  then have "stock_inv (held ?u) ?u" using inv stock_inv_cong [of ?u t] by simp
  moreover have "sale_ok ?u y" if "y \<in> set (db_sales ?u)" for y
    using that sales x(1) sys_invD(5) [OF s] sale_ok_frame [OF frame] sale_ok_cong [of ?u t] by auto
  moreover have "l_id l \<noteq> []" if "l \<in> set (db_lots ?u)" for l
  proof -
    have "l_id l \<in> l_id ` set (db_lots s)" using that frame_ids(3) [OF frame] by auto
    then obtain l' where "l' \<in> set (db_lots s)" "l_id l = l_id l'" by blast
    then show ?thesis using sys_invD(6) [OF s] by simp
  qed
  moreover have "distinct (map s_id (db_sales ?u))" using sys_invD(4) [OF s] x(2) sales by simp
  ultimately show ?thesis by (simp add: sys_inv_def)
qed

lemma zip_nth: "length xs = length ys \<Longrightarrow> k < length xs \<Longrightarrow> (xs ! k, ys ! k) \<in> set (zip xs ys)"
  by (auto simp: set_zip)

lemma planned_sale_ok:
  assumes s: "sys_inv s" and plan: "plan_sale nv st input pids s = Inr plan"
    and strict: "\<not> cs_offlineSync input" and q: "\<forall>item \<in> set (cs_items input). 0 < qty item"
    and ne: "cs_items input \<noteq> []" and x: "s_items x = sale_items_of f 0 (pn_drafts plan) (pn_allocs plan)"
  shows "sale_ok s x" and "sale_allocs x = concat (pn_allocs plan)"
proof -
  note R = plan_sale_ready [OF s plan strict q]
  obtain b where pl: "price_lines (st_taxRate (pn_store plan)) (\<lambda>i. find_row p_id i (pn_products plan)) b 0 (cs_items input)
           = Inr (pn_drafts plan)" using plan_sale_Inr(5) [OF plan] by blast
  note D = price_lines_ok [OF pl]
  let ?is = "sale_items_of f 0 (pn_drafts plan) (pn_allocs plan)"
  have len: "length (pn_drafts plan) = length (pn_allocs plan)" using D R(1) by simp
  note I = sale_items_of_props [OF len, of f 0]
  show "sale_allocs x = concat (pn_allocs plan)" using I x by (simp add: sale_allocs_def)
  have "item_ok s it" if it: "it \<in> set ?is" for it
  proof -
    obtain k where k: "k < length ?is" "it = ?is ! k" using it by (auto simp: in_set_conv_nth)
    then have kn: "k < length (cs_items input)" "k < length (pn_allocs plan)" "k < length (pn_drafts plan)"
      using I len R(1) by simp_all
    let ?item = "cs_items input ! k" and ?as = "pn_allocs plan ! k"
    have a: "si_lotAllocations it = ?as" using I k(1) unfolding k(2) by (metis nth_map)
    have p: "si_productId it = ld_productId (pn_drafts plan ! k)" using I k(1) kn(3) unfolding k(2) by (metis nth_map)
    have n: "si_quantity it = ld_quantity (pn_drafts plan ! k)" using I k(1) kn(3) unfolding k(2) by (metis nth_map)
    have nq: "ld_quantity (pn_drafts plan ! k) = qty ?item" using D kn by (metis nth_map)
    have "(?item, ?as) \<in> set (zip (cs_items input) (pn_allocs plan))" using zip_nth R(1) kn(1) by metis
    then have r: "find_row p_id (li_productId ?item) (pn_products plan) = Some (line_product (pn_products plan) (?item, ?as))"
        "rows_for (line_product (pn_products plan) (?item, ?as)) (pn_lots plan) ?as s" "?as \<noteq> []" "alloc_total ?as = qty ?item"
      using R(2) by (metis fst_conv snd_conv)+
    let ?p = "line_product (pn_products plan) (?item, ?as)"
    have pid: "si_productId it = p_id ?p" using D kn(1) r(1) p by fastforce
    have "?p \<in> set (lockProducts pids s)" using find_row_SomeD [OF r(1)] plan_sale_Inr(1) [OF plan] by simp
    then have pp: "?p \<in> set (db_products s)" "p_id ?p \<noteq> []" by (auto simp: set_lockProducts)
    have "0 < a_quantity a \<and> a_lotId a \<noteq> []
          \<and> (a_lotId a, p_id ?p) \<in> (\<lambda>l. (l_id l, l_productId l)) ` set (db_lots s)" if aa: "a \<in> set ?as" for a
    proof -
      obtain l where l: "l \<in> set (db_lots s)" "l_id l = a_lotId a" "l_productId l = p_id ?p"
        using rows_forD(5) [OF r(2) aa] by blast
      then show ?thesis using rows_forD(3) [OF r(2) aa] sys_invD(6) [OF s l(1)] by (auto simp: image_iff intro!: bexI [of _ l])
    qed
    then show ?thesis using pp r(3,4) a pid n nq by (simp add: item_ok_def)
  qed
  moreover have "?is \<noteq> []" using I D ne by auto
  ultimately show "sale_ok s x" by (simp add: sale_ok_def x)
qed

section \<open>Updating a sale\<close>

lemma held_upd:
  assumes "distinct (map s_id (db_sales s))" "x \<in> set (db_sales s)"
  shows "held (s\<lparr>db_sales := upd_row s_id (s_id x) f (db_sales s)\<rparr>) i = held s i - sale_held i x + sale_held i (f x)"
  using sum_rows_upd_row [OF assms refl, of "sale_held i" f] by (simp add: held_def)

text \<open>
  Replacing a sale row by one with the same id, and lines with the same product, quantity and
  allocations, on a stock state whose demand has moved by what the row's status change releases.
\<close>

definition sale_core :: "sale \<Rightarrow> (ident \<times> int \<times> lot_allocation list) list" where
  "sale_core x = map (\<lambda>it. (si_productId it, si_quantity it, si_lotAllocations it)) (s_items x)"

lemma sale_core_allocs: "sale_core x = sale_core y \<Longrightarrow> sale_allocs x = sale_allocs y"
proof -
  assume "sale_core x = sale_core y"
  then have "map (snd \<circ> snd) (sale_core x) = map (snd \<circ> snd) (sale_core y)" by simp
  then show ?thesis by (simp add: sale_allocs_def sale_core_def comp_def)
qed

lemma sale_core_ok: "sale_core x = sale_core y \<Longrightarrow> sale_ok s x = sale_ok s y"
proof -
  assume c: "sale_core x = sale_core y"
  define P where "P = (\<lambda>(pid, n, as). pid \<noteq> [] \<and> pid \<in> p_id ` set (db_products s) \<and> as \<noteq> [] \<and> alloc_total as = n
     \<and> (\<forall>a \<in> set as. 0 < a_quantity a \<and> a_lotId a \<noteq> []
          \<and> (a_lotId a, pid) \<in> (\<lambda>l. (l_id l, l_productId l)) ` set (db_lots s)))"
  have "sale_ok s z \<longleftrightarrow> sale_core z \<noteq> [] \<and> (\<forall>t \<in> set (sale_core z). P t)" for z
    unfolding sale_ok_def sale_core_def item_ok_def by (simp add: P_def)
  then show ?thesis using c by simp
qed

lemma upd_sale_core_inv:
  assumes inv: "stock_inv (\<lambda>i. held s i - sale_held i x + sale_held i (f x)) t" and sales: "db_sales t = db_sales s"
    and s: "sys_inv s" and frame: "stock_frame s t" and x: "x \<in> set (db_sales s)"
    and f: "\<And>y. s_id (f y) = s_id y" "\<And>y. sale_core (f y) = sale_core y"
  shows "sys_inv (t\<lparr>db_sales := upd_row s_id (s_id x) f (db_sales t)\<rparr>)"
proof -
  let ?u = "t\<lparr>db_sales := upd_row s_id (s_id x) f (db_sales t)\<rparr>"
  have ht: "held t = held s" by (simp add: held_def sales fun_eq_iff)
  have d: "distinct (map s_id (db_sales t))" using sys_invD(4) [OF s] sales by simp
  have "held ?u = (\<lambda>i. held s i - sale_held i x + sale_held i (f x))"
    using held_upd [OF d, of x f] x sales ht by (simp add: fun_eq_iff)
  then have "stock_inv (held ?u) ?u" using inv stock_inv_cong [of ?u t] by simp
  moreover have "sale_ok ?u y" if y: "y \<in> set (db_sales ?u)" for y
  proof -
    obtain z where z: "z \<in> set (db_sales s)" "y = (if s_id z = s_id x then f z else z)"
      using y sales unfolding in_upd_row by (auto simp: in_upd_row)
    then have "sale_core y = sale_core z" using f(2) by simp
    moreover have "sale_ok t z" using sys_invD(5) [OF s z(1)] sale_ok_frame [OF frame] by simp
    ultimately show ?thesis using sale_ok_cong [of ?u t y] sale_core_ok [of y z t] by simp
  qed
  moreover have "l_id l \<noteq> []" if "l \<in> set (db_lots ?u)" for l
  proof -
    have "l_id l \<in> l_id ` set (db_lots s)" using that frame_ids(3) [OF frame] by auto
    then obtain l' where "l' \<in> set (db_lots s)" "l_id l = l_id l'" by blast
    then show ?thesis using sys_invD(6) [OF s] by simp
  qed
  moreover have "distinct (map s_id (db_sales ?u))" using d f(1) by (simp add: map_upd_row)
  ultimately show ?thesis by (simp add: sys_inv_def)
qed

lemma upd_sale_inv:
  assumes "stock_inv (\<lambda>i. held s i - sale_held i x + sale_held i (f x)) t" "db_sales t = db_sales s"
    "sys_inv s" "stock_frame s t" "x \<in> set (db_sales s)"
    "\<And>y. s_id (f y) = s_id y" "\<And>y. s_items (f y) = s_items y"
  shows "sys_inv (t\<lparr>db_sales := upd_row s_id (s_id x) f (db_sales t)\<rparr>)"
  by (rule upd_sale_core_inv [of s x f t, OF assms(1-6)]) (simp add: sale_core_def assms(7))

lemma sale_update_core_inv:
  assumes s: "sys_inv s" and run: "sale_update i f s = Inr t"
    and f: "\<And>y. s_id (f y) = s_id y" "\<And>y. sale_core (f y) = sale_core y"
    and st: "\<And>x. x \<in> set (db_sales s) \<Longrightarrow> s_id x = i \<Longrightarrow>
      (s_paymentStatus (f x) = PayPENDING \<longleftrightarrow> s_paymentStatus x = PayPENDING)"
  shows "sys_inv t"
proof -
  obtain x where x: "x \<in> set (db_sales s)" "i = s_id x" and t: "t = s\<lparr>db_sales := upd_row s_id i f (db_sales s)\<rparr>"
    using run by (auto simp: sale_update_Inr_iff has_row_def)
  have "sale_held j (f x) = sale_held j x" for j
    using sale_core_allocs [OF f(2) [of x]] st [OF x(1)] x(2) by (simp add: sale_held_def)
  then show ?thesis
    using upd_sale_core_inv [of s x f s] sys_invD(1) [OF s] s x t f by simp
qed

lemma sale_update_inv:
  assumes "sys_inv s" "sale_update i f s = Inr t"
    and f: "\<And>y. s_id (f y) = s_id y" "\<And>y. s_items (f y) = s_items y" "\<And>y. s_paymentStatus (f y) = s_paymentStatus y"
  shows "sys_inv t"
  by (rule sale_update_core_inv [OF assms(1,2) f(1)]) (simp_all add: sale_core_def f)

section \<open>createSale keeps the invariant\<close>

lemma commit_sale_ok:
  assumes s: "sys_inv s" and plan: "plan_sale nv st input pids s = Inr plan"
    and strict: "\<not> cs_offlineSync input" and q: "\<forall>item \<in> set (cs_items input). 0 < qty item"
    and ne: "cs_items input \<noteq> []"
  shows "\<exists>t sale. forE (zip (cs_items input) (pn_allocs plan))
             ((if cs_paymentMethod input = CASH then consume_line else reserve_line) nv (pn_products plan) (pn_lots plan)) s = Inr t
           \<and> stock_frame s t
           \<and> sale = new_sale nv st u input key (st_memberDiscountBearer (pn_store plan)) (pn_totals plan)
                      (sale_items_of (nv_itemId nv) 0 (pn_drafts plan) (pn_allocs plan))
           \<and> sale_ok t sale \<and> stock_inv (\<lambda>i. held s i + sale_held i sale) t"
proof -
  define sale where "sale = new_sale nv st u input key (st_memberDiscountBearer (pn_store plan)) (pn_totals plan)
                      (sale_items_of (nv_itemId nv) 0 (pn_drafts plan) (pn_allocs plan))"
  note R = plan_sale_ready [OF s plan strict q]
  let ?xs = "zip (cs_items input) (pn_allocs plan)" and ?pr = "line_product (pn_products plan)"
  have items: "s_items sale = sale_items_of (nv_itemId nv) 0 (pn_drafts plan) (pn_allocs plan)" by (simp add: sale_def)
  note X = planned_sale_ok [OF s plan strict q ne items]
  have snds: "map snd ?xs = pn_allocs plan" using R(1) by simp
  have rows: "\<forall>x \<in> set ?xs. rows_for (?pr x) (pn_lots plan) (snd x) s" using R(2) by blast
  have caps: "\<forall>l \<in> set (db_lots s). alloc_qty (concat (map snd ?xs)) (l_id l) \<le> free_units l"
    using R(3) by (simp only: snds)
  have r: "\<forall>x \<in> set ?xs. \<forall>s. reserve_line nv (pn_products plan) (pn_lots plan) x s
      = reserve (nv_dev nv) (?pr x) (pn_lots plan) (snd x) s"
    and c: "\<forall>x \<in> set ?xs. \<forall>s. consume_line nv (pn_products plan) (pn_lots plan) x s
      = consumeDirect (nv_dev nv) (?pr x) (pn_lots plan) (snd x) False s"
    using R(2) by (simp_all add: reserve_line_def consume_line_def)
  have "\<exists>t. forE ?xs ((if cs_paymentMethod input = CASH then consume_line else reserve_line) nv (pn_products plan) (pn_lots plan)) s = Inr t
      \<and> stock_frame s t \<and> stock_inv (\<lambda>i. held s i + sale_held i sale) t"
  proof (cases "cs_paymentMethod input = CASH")
    case True
    then have h: "(\<lambda>i. held s i + sale_held i sale) = (\<lambda>i. held s i + 0 * alloc_qty (concat (map snd ?xs)) i)"
      by (simp add: sale_held_def sale_def)
    show ?thesis
      using consumeDirect_cart.lines_ok [OF sys_invD(1) [OF s] rows caps c] True unfolding h by auto
  next
    case False
    then have h: "(\<lambda>i. held s i + sale_held i sale) = (\<lambda>i. held s i + 1 * alloc_qty (concat (map snd ?xs)) i)"
      using X(2) snds by (simp add: sale_held_def fun_eq_iff) (simp add: sale_def)
    show ?thesis
      using reserve_cart.lines_ok [OF sys_invD(1) [OF s] rows caps r] False unfolding h by auto
  qed
  then obtain t where "forE ?xs ((if cs_paymentMethod input = CASH then consume_line else reserve_line) nv (pn_products plan) (pn_lots plan)) s = Inr t"
      "stock_frame s t" "stock_inv (\<lambda>i. held s i + sale_held i sale) t" by blast
  moreover have "sale_ok t sale" using X(1) sale_ok_frame [OF \<open>stock_frame s t\<close>] by simp
  ultimately show ?thesis using sale_def by blast
qed

lemma commit_sale_inv:
  assumes s: "sys_inv s" and plan: "plan_sale nv st input pids s = Inr plan"
    and strict: "\<not> cs_offlineSync input" and q: "\<forall>item \<in> set (cs_items input). 0 < qty item"
    and ne: "cs_items input \<noteq> []" and run: "commit_sale nv st u input key plan s = Inr (t, r)"
  shows "sys_inv t"
proof -
  obtain t1 sale where t1: "forE (zip (cs_items input) (pn_allocs plan))
             ((if cs_paymentMethod input = CASH then consume_line else reserve_line) nv (pn_products plan) (pn_lots plan)) s = Inr t1"
      "stock_frame s t1"
      "sale = new_sale nv st u input key (st_memberDiscountBearer (pn_store plan)) (pn_totals plan)
                      (sale_items_of (nv_itemId nv) 0 (pn_drafts plan) (pn_allocs plan))"
      "sale_ok t1 sale" "stock_inv (\<lambda>i. held s i + sale_held i sale) t1"
    using commit_sale_ok [OF s plan strict q ne] by blast
  obtain t2 where t2: "sale_create sale t1 = Inr t2"
      "t = (if cs_paymentMethod input = CASH \<and> pn_flags plan \<noteq> []
            then record_flags st (s_id sale) (pn_flags plan) (record_usages nv (cs_memberId input) (pn_drafts plan) t2)
            else record_usages nv (cs_memberId input) (pn_drafts plan) t2)"
    using run unfolding commit_sale_def Let_def t1(1) bindE_simps t1(3) [symmetric] by (auto simp: bindE_Inr_iff)
  have e: "t2 = t1\<lparr>db_sales := db_sales t1 @ [sale]\<rparr>" "s_id sale \<notin> s_id ` set (db_sales t1)"
    using sale_create_Inr [OF t2(1)] by simp_all
  have sales: "db_sales t1 = db_sales s" using t1(2) by (rule stock_frame_tables(1))
  have "sys_inv t2" unfolding e(1)
    by (rule add_sale_inv [OF t1(5) sales s t1(2,4)]) (use e(2) sales in simp)
  then show ?thesis using t2(2) sys_inv_cong [of t2 t] by (simp split: if_splits)
qed

lemma after_create_inv:
  assumes "sys_inv s" "after_create nv st u m (s, r) = (t, res)"
  shows "sys_inv t"
proof -
  let ?s1 = "audit_manual_discounts st u (tx_sale r) (tx_drafts r) s"
  have s1: "sys_inv ?s1" by (rule sys_inv_cong [OF assms(1)]) simp_all
  have "sys_inv s2" if "startCheckoutPayment nv x ?s1 = Inr (s2, c)" for s2 c x
    using that by (auto simp: startCheckoutPayment_def bindE_Inr_iff Let_def split: option.splits if_splits
        intro: sale_update_inv [OF s1])
  moreover have "sys_inv s2" if "startTerminalPayment nv x ?s1 = Inr (s2, c)" for s2 c x
    using that by (auto simp: startTerminalPayment_def bindE_Inr_iff Let_def split: option.splits if_splits
        intro: sale_update_inv [OF s1])
  ultimately show ?thesis
    using assms s1 by (auto simp: after_create_def Let_def split: if_splits payment_method.splits sum.splits prod.splits)
qed

lemma stockNeeded_pos:
  "stockNeededByProduct items acc = Inr m \<Longrightarrow> \<forall>item \<in> set items. 0 < qty item \<and> of_int (qty item) = li_quantity item"
proof (induction items arbitrary: acc)
  case (Cons item rest)
  then have "is_integer (li_quantity item)" "0 < li_quantity item" by (auto split: if_splits)
  then have e: "of_int (qty item) = li_quantity item" "0 < li_quantity item" by (simp_all add: is_integer_def qty_def)
  then have "0 < qty item" by (metis of_int_0_less_iff)
  then show ?case using Cons e by (auto split: if_splits)
qed simp

lemma createSale_inv:
  assumes "sys_inv s" "\<not> cs_offlineSync input" "createSale nv st u input s0 s = (t, r)"
  shows "sys_inv t"
proof (cases "t = s")
  case True
  then show ?thesis using assms(1) by simp
next
  case False
  let ?key = "clean_key (cs_idempotencyKey input)"
  obtain pids t1 r1 where ids: "\<exists>m. stockNeededByProduct (cs_items input) [] = Inr m" "cs_items input \<noteq> []"
      and tx: "createSale_tx nv st u input ?key pids s = Inr (t1, r1)"
      and aft: "after_create nv st u (cs_paymentMethod input) (t1, r1) = (t, r)"
    using assms(3) False unfolding createSale_def Let_def
    by (auto simp: bindE_Inr_iff split: if_splits option.splits sum.splits error.splits)
  have q: "\<forall>item \<in> set (cs_items input). 0 < qty item" using stockNeeded_pos ids(1) by blast
  have "sys_inv t1"
  proof (cases "t1 = s")
    case True
    then show ?thesis using assms(1) by simp
  next
    case False
    then obtain plan where "plan_sale nv st input pids s = Inr plan" "commit_sale nv st u input ?key plan s = Inr (t1, r1)"
      using tx by (auto simp: createSale_tx_def bindE_Inr_iff split: option.splits if_splits)
    then show ?thesis using commit_sale_inv [OF assms(1) _ assms(2) q ids(2)] by blast
  qed
  then show ?thesis using aft by (rule after_create_inv)
qed

text \<open>
  C1: \<open>createSale\<close> with stock checking on (every sale but the replay of an offline cash sale) keeps
  the system invariant, whatever it returns or throws, also when the payment provider fails after
  the commit: reservations are exactly the pending allocations and the counters equal the lots.
\<close>

theorem createSale_keeps_invariant:
  assumes "sys_inv s" "\<not> cs_offlineSync input" "createSale nv st u input s0 s = (t, r)"
  shows "sys_inv t"
  by (rule createSale_inv [OF assms])

section \<open>The example shop\<close>

lemma ex_db_inv: "sys_inv ex_db"
proof -
  have "held ex_db = (\<lambda>i. 0)" by (simp add: held_def ex_db_def empty_db_def fun_eq_iff)
  moreover have "lots_inv (\<lambda>i. 0) ex_db"
    by (simp add: lots_inv_def ex_db_def empty_db_def ex_lot_def ex_apples_def ex_bread_def lot_ok_def)
  moreover have "rollup_ok ex_db"
    by (simp add: rollup_ok_def ex_db_def empty_db_def ex_lot_def ex_apples_def ex_bread_def stock_gap_def
        reserved_gap_def product_stock_def product_reserved_def active_remaining_def active_reserved_def)
  ultimately show ?thesis
    by (simp add: sys_inv_def stock_inv_def) (simp add: ex_db_def empty_db_def ex_lot_def)
qed

definition ex_env :: sale_env where
  "ex_env =
     \<lparr>nv_now = 50, nv_dev = True, nv_saleId = ''X1'', nv_itemId = (\<lambda>k. if k = 0 then ''I1'' else ''I2''),
      nv_cache = None,
      nv_checkout = (\<lambda>ls. Inr \<lparr>ck_id = ''cs1'', ck_url = Some ''https'', ck_paymentIntent = None\<rparr>),
      nv_terminal = (\<lambda>a. Inr \<lparr>ti_id = ''pi1'', ti_clientSecret = Some ''sec''\<rparr>)\<rparr>"

definition ex_input :: "payment_method \<Rightarrow> create_sale_input" where
  "ex_input m = \<lparr>cs_items = ex_items, cs_memberId = Some ''M1'', cs_paymentMethod = m, cs_cardLast4 = None,
                 cs_idempotencyKey = Some '' key1 '', cs_offlineSync = False\<rparr>"

definition ex_pending :: db where
  "ex_pending = fst (createSale ex_env ''S1'' ex_admin (ex_input TERMINAL) ex_db ex_db)"

lemma ex_pending_sales:
  "map (\<lambda>x. (s_id x, s_paymentStatus x, s_total x, map (\<lambda>it. map (\<lambda>a. (a_lotId a, a_quantity a)) (si_lotAllocations it)) (s_items x)))
      (db_sales ex_pending)
    = [(''X1'', PayPENDING, 288/25, [[(''L1'', 3), (''L2'', 1)], [(''L3'', 1)]])]"
  by code_simp

lemma ex_pending_inv: "sys_inv ex_pending"
  using createSale_inv [OF ex_db_inv, of "ex_input TERMINAL" ex_env "''S1''" ex_admin ex_db]
  by (simp add: ex_pending_def ex_input_def) (metis prod.collapse)

lemma ex_input_checked: "\<not> cs_offlineSync (ex_input m)"
  by (simp add: ex_input_def)

theorem createSale_keeps_invariant_witness:
  "sys_inv ex_pending \<and> map s_paymentStatus (db_sales ex_pending) = [PayPENDING]"
proof -
  have "\<not> cs_offlineSync (ex_input TERMINAL)" by (simp add: ex_input_def)
  then have "sys_inv ex_pending"
    using createSale_keeps_invariant [OF ex_db_inv, of "ex_input TERMINAL" ex_env "''S1''" ex_admin ex_db]
    unfolding ex_pending_def by (metis prod.collapse)
  moreover have "map s_paymentStatus (db_sales ex_pending) = [PayPENDING]" by code_simp
  ultimately show ?thesis by blast
qed

end
