(* ===== verification/Sale_Settle.thy ===== *)
theory Sale_Settle
  imports Sale_Invariant
begin

text \<open>
  What happens to a PENDING card sale (\<open>backend/src/services/sales.service.ts\<close>): it is finalized when
  Stripe has the money, or failed or expired, which releases its units. The callers are modelled
  with it: \<open>confirmSalePayment\<close>, the webhook (\<open>backend/src/routes/stripe.webhook.ts\<close>) and the expiry
  job (\<open>backend/src/jobs/expirePendingSales.ts\<close>). Stripe's answers are arguments.
\<close>

section \<open>Finalizing\<close>

text \<open>A transaction rethrows its own \<open>AppError\<close> and turns every other error into a 500.\<close>

definition rethrow :: "string \<Rightarrow> 'a result \<Rightarrow> 'a result" where
  "rethrow msg r =
     (case r of
        Inr x \<Rightarrow> Inr x
      | Inl (AppError c m) \<Rightarrow> Inl (AppError c m)
      | Inl e \<Rightarrow> Inl (AppError 500 msg))"

text \<open>\<open>item.lotAllocations.map((a) => ({ lotId, quantity, unitCost: 0 }))\<close>\<close>

definition plain_allocs :: "sale_item \<Rightarrow> lot_allocation list" where
  "plain_allocs it = map (\<lambda>a. a\<lparr>a_unitCost := 0\<rparr>) (si_lotAllocations it)"

definition reservation_intact :: "lot list \<Rightarrow> lot_allocation list \<Rightarrow> bool" where
  "reservation_intact lots as \<longleftrightarrow>
     list_all (\<lambda>a. case lotMap lots (a_lotId a) of
                     None \<Rightarrow> False
                   | Some l \<Rightarrow> l_quantityReserved l \<ge> a_quantity a \<and> l_quantityRemaining l \<ge> a_quantity a) as"

definition finalize_item :: "bool \<Rightarrow> product list \<Rightarrow> lot list \<Rightarrow> sale_item \<Rightarrow> db \<Rightarrow> db result" where
  "finalize_item dev prods lots it s =
     (if si_lotAllocations it = [] then Inl (AppError 500 ''Sale item has no lot allocations'')
      else case find_row p_id (si_productId it) prods of
        None \<Rightarrow> Inl (AppError 500 ''Product missing at finalization'')
      | Some p \<Rightarrow>
          if reservation_intact lots (plain_allocs it)
          then consumeReserved dev p lots (plain_allocs it) s
          else consumeDirect dev p lots (plain_allocs it) True s)"

definition sale_products :: "sale \<Rightarrow> db \<Rightarrow> product list" where
  "sale_products x s = lockProducts (map si_productId (s_items x)) s"

definition sale_lots :: "sale \<Rightarrow> db \<Rightarrow> lot list" where
  "sale_lots x s = lockLots (map a_lotId (sale_allocs x)) s"

definition finalizePaidSale :: "bool \<Rightarrow> time \<Rightarrow> ident \<Rightarrow> db \<Rightarrow> (db \<times> sale) result" where
  "finalizePaidSale dev now saleId s =
     rethrow ''Unable to finalize paid sale''
       (case find_sale saleId s of
          None \<Rightarrow> Inl (AppError 404 ''Sale not found'')
        | Some x \<Rightarrow>
            (case s_paymentStatus x of
               PayPAID \<Rightarrow> Inr (s, x)
             | PayREFUNDED \<Rightarrow> Inl (AppError 409 ''Sale is already refunded'')
             | PayREFUNDING \<Rightarrow> Inl (AppError 409 ''Sale has a refund in progress'')
             | PayFAILED \<Rightarrow> Inl (AppError 409 ''Sale payment failed; create a new sale'')
             | PayEXPIRED \<Rightarrow> Inl (AppError 409 ''Sale reservation expired; create a new sale'')
             | PayPENDING \<Rightarrow>
                 if s_items x = [] then Inl (AppError 500 ''Sale has no line items'')
                 else
                   (let f = (\<lambda>y. y\<lparr>s_paymentStatus := PayPAID, s_paidAt := Some now,
                                   s_reservationExpiresAt := None\<rparr>)
                    in bindE (forE (s_items x) (finalize_item dev (sale_products x s) (sale_lots x s)) s) (\<lambda>s1.
                       bindE (sale_update saleId f s1) (\<lambda>s2. Inr (s2, f x))))))"

section \<open>Failing and expiring\<close>

definition release_item :: "bool \<Rightarrow> product list \<Rightarrow> lot list \<Rightarrow> sale_item \<Rightarrow> db \<Rightarrow> db result" where
  "release_item dev prods lots it s =
     (case find_row p_id (si_productId it) prods of
        None \<Rightarrow> Inl (AppError 500 ''Failed to release stock reservation'')
      | Some p \<Rightarrow> release dev p lots (plain_allocs it) s)"

definition releaseReservationForSale :: "bool \<Rightarrow> sale \<Rightarrow> db \<Rightarrow> db result" where
  "releaseReservationForSale dev x s =
     forE (s_items x) (release_item dev (sale_products x s) (sale_lots x s)) s"

fun status_name :: "payment_status \<Rightarrow> string" where
  "status_name PayPENDING = ''PENDING''"
| "status_name PayPAID = ''PAID''"
| "status_name PayFAILED = ''FAILED''"
| "status_name PayREFUNDED = ''REFUNDED''"
| "status_name PayEXPIRED = ''EXPIRED''"
| "status_name PayREFUNDING = ''REFUNDING''"

definition settleUnpaidSale :: "bool \<Rightarrow> payment_status \<Rightarrow> ident \<Rightarrow> db \<Rightarrow> (db \<times> sale) result" where
  "settleUnpaidSale dev nextStatus saleId s =
     rethrow (''Unable to mark sale '' @ status_name nextStatus)
       (case find_sale saleId s of
          None \<Rightarrow> Inl (AppError 404 ''Sale not found'')
        | Some x \<Rightarrow>
            if s_paymentStatus x \<in> {PayPAID, PayREFUNDED, PayREFUNDING}
            then Inl (AppError 409 (''Cannot mark '' @ status_name (s_paymentStatus x) @ '' sale as '' @ status_name nextStatus))
            else if s_paymentStatus x \<in> {PayFAILED, PayEXPIRED} then Inr (s, x)
            else
              (let f = (\<lambda>y. y\<lparr>s_paymentStatus := nextStatus, s_reservationExpiresAt := None\<rparr>)
               in bindE (releaseReservationForSale dev x s) (\<lambda>s1.
                  bindE (sale_update saleId f s1) (\<lambda>s2. Inr (s2, f x)))))"

definition markSalePaymentFailed :: "bool \<Rightarrow> ident \<Rightarrow> db \<Rightarrow> (db \<times> sale) result" where
  "markSalePaymentFailed dev = settleUnpaidSale dev PayFAILED"

definition markSaleExpired :: "bool \<Rightarrow> ident \<Rightarrow> db \<Rightarrow> (db \<times> sale) result" where
  "markSaleExpired dev = settleUnpaidSale dev PayEXPIRED"

section \<open>Asking Stripe\<close>

text \<open>
  What a client of Stripe reads: the payment status of a Checkout session with the id of its
  payment intent, and the status of a payment intent.
\<close>

record stripe_view =
  sv_configured :: bool
  sv_session :: "string \<Rightarrow> (string \<times> string option) result"
  sv_intent :: "string \<Rightarrow> string result"

definition isSalePaidInStripe :: "stripe_view \<Rightarrow> string option \<Rightarrow> string option \<Rightarrow> bool result" where
  "isSalePaidInStripe sv sessionId intentId =
     (let by_intent =
            (if truthy intentId
             then bindE (sv_intent sv (the intentId)) (\<lambda>st. Inr (st = ''succeeded''))
             else Inr False)
      in
      if \<not> sv_configured sv then Inr False
      else if truthy sessionId then
        bindE (sv_session sv (the sessionId)) (\<lambda>(status, pid).
          if status = ''paid'' then Inr True
          else case pid of
            Some i \<Rightarrow> bindE (sv_intent sv i) (\<lambda>st. Inr (st = ''succeeded''))
          | None \<Rightarrow> by_intent)
      else by_intent)"

definition confirmSalePayment ::
  "bool \<Rightarrow> time \<Rightarrow> stripe_view \<Rightarrow> ident \<Rightarrow> ident \<Rightarrow> db \<Rightarrow> (db \<times> sale) result" where
  "confirmSalePayment dev now sv saleId storeId s =
     (case find_sale saleId s of
        None \<Rightarrow> Inl (AppError 404 ''Sale not found for this store'')
      | Some x \<Rightarrow>
          if s_storeId x \<noteq> storeId then Inl (AppError 404 ''Sale not found for this store'')
          else if s_paymentStatus x = PayPAID then Inr (s, x)
          else if s_paymentStatus x \<noteq> PayPENDING
          then Inl (AppError 409 (''Cannot confirm sale in status '' @ status_name (s_paymentStatus x)))
          else if \<not> sv_configured sv then Inl (AppError 503 ''Stripe is not configured (STRIPE_SECRET_KEY missing)'')
          else if truthy (s_stripeCheckoutSessionId x) then
            bindE (sv_session sv (the (s_stripeCheckoutSessionId x))) (\<lambda>(status, _).
              if status \<noteq> ''paid'' then Inl (AppError 402 ''Checkout session is not paid yet'')
              else finalizePaidSale dev now saleId s)
          else if \<not> truthy (s_stripePaymentIntentId x)
          then Inl (AppError 409 ''Sale has no Stripe payment to confirm'')
          else
            bindE (sv_intent sv (the (s_stripePaymentIntentId x))) (\<lambda>status.
              if status \<noteq> ''succeeded'' then Inl (AppError 402 ''PaymentIntent has not succeeded yet'')
              else finalizePaidSale dev now saleId s))"

section \<open>The expiry job\<close>

record expiry_report =
  xr_finalized :: "ident list"
  xr_expired :: "ident list"

definition stale_sales :: "time \<Rightarrow> db \<Rightarrow> sale list" where
  "stale_sales now s =
     take 100 (sort_key (\<lambda>x. the (s_reservationExpiresAt x))
       (filter (\<lambda>x. s_paymentStatus x = PayPENDING
                    \<and> (case s_reservationExpiresAt x of None \<Rightarrow> False | Some t \<Rightarrow> t \<le> now)) (db_sales s)))"

text \<open>One sale of the job. Every error is caught and logged.\<close>

definition expire_one :: "bool \<Rightarrow> time \<Rightarrow> stripe_view \<Rightarrow> sale \<Rightarrow> db \<times> expiry_report \<Rightarrow> db \<times> expiry_report" where
  "expire_one dev now sv x acc =
     (let (s, r) = acc in
      case isSalePaidInStripe sv (s_stripeCheckoutSessionId x) (s_stripePaymentIntentId x) of
        Inl e \<Rightarrow> (s, r)
      | Inr True \<Rightarrow>
          (case finalizePaidSale dev now (s_id x) s of
             Inl e \<Rightarrow> (s, r)
           | Inr (s', _) \<Rightarrow> (s', r\<lparr>xr_finalized := xr_finalized r @ [s_id x]\<rparr>))
      | Inr False \<Rightarrow>
          (case markSaleExpired dev (s_id x) s of
             Inl e \<Rightarrow> (s, r)
           | Inr (s', _) \<Rightarrow> (s', r\<lparr>xr_expired := xr_expired r @ [s_id x]\<rparr>)))"

definition runExpirePendingSalesOnce :: "bool \<Rightarrow> time \<Rightarrow> stripe_view \<Rightarrow> db \<Rightarrow> db \<times> expiry_report" where
  "runExpirePendingSalesOnce dev now sv s =
     foldl (\<lambda>acc x. expire_one dev now sv x acc) (s, \<lparr>xr_finalized = [], xr_expired = []\<rparr>) (stale_sales now s)"

section \<open>The webhook\<close>

text \<open>
  A verified event: its id and type, the sale id in the object's metadata, the object's id, and for
  a Checkout session its payment status and payment intent.
\<close>

record stripe_event =
  ev_id :: string
  ev_type :: string
  ev_metaSaleId :: "string option"
  ev_objectId :: "string option"
  ev_paymentStatus :: string
  ev_paymentIntent :: "string option"

datatype webhook_response =
    Rejected nat
  | Received
  | Duplicate
  | Warned string
  | Failed500

definition saleIdFromEvent :: "stripe_event \<Rightarrow> db \<Rightarrow> ident option" where
  "saleIdFromEvent ev s =
     (if truthy (ev_metaSaleId ev) then ev_metaSaleId ev
      else if starts_with ''checkout.session.'' (ev_type ev) then
        (if \<not> truthy (ev_objectId ev) then None
         else map_option s_id (find_row s_stripeCheckoutSessionId (ev_objectId ev) (db_sales s)))
      else if starts_with ''payment_intent.'' (ev_type ev) then
        (if \<not> truthy (ev_objectId ev) then None
         else map_option s_id (find_row s_stripePaymentIntentId (ev_objectId ev) (db_sales s)))
      else None)"

definition claimStripeEvent :: "stripe_event \<Rightarrow> ident option \<Rightarrow> db \<Rightarrow> (db \<times> bool)" where
  "claimStripeEvent ev saleId s =
     (case create_row pe_id \<lparr>pe_id = ev_id ev, pe_type = ev_type ev, pe_saleId = saleId\<rparr> (db_events s) of
        Inl e \<Rightarrow> (s, False)
      | Inr es \<Rightarrow> (s\<lparr>db_events := es\<rparr>, True))"

definition drop_event :: "string \<Rightarrow> db \<Rightarrow> db" where
  "drop_event i s = s\<lparr>db_events := filter (\<lambda>e. pe_id e \<noteq> i) (db_events s)\<rparr>"

definition set_intent_if_missing :: "ident \<Rightarrow> string \<Rightarrow> db \<Rightarrow> db" where
  "set_intent_if_missing saleId i s =
     s\<lparr>db_sales := map (\<lambda>x. if s_id x = saleId \<and> s_stripePaymentIntentId x = None
                            then x\<lparr>s_stripePaymentIntentId := Some i\<rparr> else x) (db_sales s)\<rparr>"

text \<open>The \<open>switch\<close> on the event type. Its writes before an error stay (there is no transaction here).\<close>

definition dispatch_event :: "bool \<Rightarrow> time \<Rightarrow> stripe_event \<Rightarrow> ident option \<Rightarrow> db \<Rightarrow> db \<times> unit result" where
  "dispatch_event dev now ev saleId s =
     (let after = (\<lambda>s r. case r of Inl e \<Rightarrow> (s, Inl e) | Inr (s', _) \<Rightarrow> (s', Inr ())) in
      if \<not> truthy saleId then (s, Inr ())
      else if ev_type ev = ''checkout.session.completed'' then
        (if ev_paymentStatus ev = ''paid'' then
           (let s1 = (case ev_paymentIntent ev of None \<Rightarrow> s | Some i \<Rightarrow> set_intent_if_missing (the saleId) i s)
            in after s1 (finalizePaidSale dev now (the saleId) s1))
         else (s, Inr ()))
      else if ev_type ev = ''payment_intent.succeeded''
      then after s (finalizePaidSale dev now (the saleId) s)
      else if ev_type ev = ''payment_intent.payment_failed''
      then after s (markSalePaymentFailed dev (the saleId) s)
      else (s, Inr ()))"

definition handle_event :: "bool \<Rightarrow> time \<Rightarrow> stripe_event \<Rightarrow> db \<Rightarrow> db \<times> webhook_response" where
  "handle_event dev now ev s =
     (let saleId = saleIdFromEvent ev s; (s1, claimed) = claimStripeEvent ev saleId s in
      if \<not> claimed then (s1, Duplicate)
      else case dispatch_event dev now ev saleId s1 of
        (s2, Inr _) \<Rightarrow> (s2, Received)
      | (s2, Inl e) \<Rightarrow>
          (let s3 = drop_event (ev_id ev) s2 in
           case e of
             AppError c m \<Rightarrow>
               if c = 409 then (fst (claimStripeEvent ev saleId s3), Warned m) else (s3, Failed500)
           | _ \<Rightarrow> (s3, Failed500)))"

text \<open>The checks on the request: a signature, a raw body, a signature that verifies.\<close>

definition stripeWebhookHandler ::
  "bool \<Rightarrow> time \<Rightarrow> string option \<Rightarrow> bool \<Rightarrow> stripe_event option \<Rightarrow> db \<Rightarrow> db \<times> webhook_response" where
  "stripeWebhookHandler dev now signature rawBody verified s =
     (if \<not> truthy signature then (s, Rejected 400)
      else if \<not> rawBody then (s, Rejected 400)
      else case verified of
        None \<Rightarrow> (s, Rejected 400)
      | Some ev \<Rightarrow> handle_event dev now ev s)"

section \<open>A pending sale can always be settled\<close>

lemma alloc_qty_plain: "alloc_qty (plain_allocs it) i = alloc_qty (si_lotAllocations it) i"
proof -
  have "sum_rows g (map (\<lambda>a. a\<lparr>a_unitCost := 0\<rparr>) as) = sum_rows g as"
    if "\<And>a. g (a\<lparr>a_unitCost := 0\<rparr>) = g a" for g and as :: "lot_allocation list"
    using that by (induction as) simp_all
  then show ?thesis by (simp add: alloc_qty_def plain_allocs_def)
qed

lemma alloc_qty_plains: "alloc_qty (concat (map plain_allocs its)) i = alloc_qty (concat (map si_lotAllocations its)) i"
  by (induction its) (simp_all add: alloc_qty_plain)

lemma in_plain_allocs: "a \<in> set (plain_allocs it) \<Longrightarrow>
    \<exists>b \<in> set (si_lotAllocations it). a_lotId a = a_lotId b \<and> a_quantity a = a_quantity b"
  by (auto simp: plain_allocs_def)

definition item_product :: "product list \<Rightarrow> sale_item \<Rightarrow> product" where
  "item_product prods it = the (find_row p_id (si_productId it) prods)"

text \<open>The rows a sale's own settlement locks are the rows the engine needs.\<close>

lemma sale_rows:
  assumes s: "sys_inv s" and x: "sale_ok s x" and it: "it \<in> set (s_items x)"
  shows "find_row p_id (si_productId it) (sale_products x s) = Some (item_product (sale_products x s) it)"
    and "rows_for (item_product (sale_products x s) it) (sale_lots x s) (plain_allocs it) s"
    and "plain_allocs it \<noteq> []" "si_lotAllocations it \<noteq> []"
proof -
  have ok: "item_ok s it" using x it by (simp add: sale_ok_def)
  have pid: "si_productId it \<noteq> []" "si_productId it \<in> p_id ` set (db_products s)"
    using ok by (simp_all add: item_ok_def)
  show "si_lotAllocations it \<noteq> []" using ok by (simp add: item_ok_def)
  then show "plain_allocs it \<noteq> []" by (simp add: plain_allocs_def)
  obtain p where p: "p \<in> set (db_products s)" "p_id p = si_productId it" using pid(2) by auto
  then have pl: "p \<in> set (sale_products x s)" using it pid(1) by (auto simp: sale_products_def set_lockProducts)
  have d: "distinct (map p_id (sale_products x s))"
    unfolding sale_products_def by (rule distinct_lockProducts [OF sys_invD(8) [OF s]])
  have f: "find_row p_id (si_productId it) (sale_products x s) = Some p"
    using find_row_eq_Some_iff [OF d] pl p(2) by simp
  then show "find_row p_id (si_productId it) (sale_products x s) = Some (item_product (sale_products x s) it)"
    by (simp add: item_product_def)
  have ip: "item_product (sale_products x s) it = p" using f by (simp add: item_product_def)
  show "rows_for (item_product (sale_products x s) it) (sale_lots x s) (plain_allocs it) s"
    unfolding ip rows_for_def
  proof (intro conjI ballI)
    show "product_key p \<in> product_key ` set (db_products s)" using p(1) by simp
    show "lot_key ` set (sale_lots x s) \<subseteq> lot_key ` set (db_lots s)" by (auto simp: sale_lots_def set_lockLots)
    fix a assume "a \<in> set (plain_allocs it)"
    then obtain b where b: "b \<in> set (si_lotAllocations it)" "a_lotId a = a_lotId b" "a_quantity a = a_quantity b"
      using in_plain_allocs by blast
    then have c: "0 < a_quantity b" "a_lotId b \<noteq> []"
        "(a_lotId b, si_productId it) \<in> (\<lambda>l. (l_id l, l_productId l)) ` set (db_lots s)"
      using ok by (simp_all add: item_ok_def)
    show "0 < a_quantity a" using c(1) b(3) by simp
    obtain l where l: "l \<in> set (db_lots s)" "l_id l = a_lotId b" "l_productId l = si_productId it"
      using c(3) by auto
    then show "\<exists>l \<in> set (db_lots s). l_id l = a_lotId a \<and> l_productId l = p_id p" using b(2) p(2) by auto
    have "a_lotId b \<in> set (map a_lotId (sale_allocs x))" using b(1) it by (auto simp: sale_allocs_def)
    then have "l \<in> set (sale_lots x s)" using l c(2) by (auto simp: sale_lots_def set_lockLots)
    then show "a_lotId a \<in> l_id ` set (sale_lots x s)" using l(2) b(2) by (metis imageI)
  qed
qed

lemma pending_caps:
  assumes s: "sys_inv s" and x: "x \<in> set (db_sales s)" "s_paymentStatus x = PayPENDING"
  shows "\<forall>l \<in> set (db_lots s). alloc_qty (concat (map plain_allocs (s_items x))) (l_id l) \<le> l_quantityReserved l"
proof
  fix l assume l: "l \<in> set (db_lots s)"
  have "sale_held (l_id l) x \<le> held s (l_id l)"
    using sale_held_le_held x(1) sys_invD(5) [OF s] by blast
  moreover have "l_quantityReserved l = held s (l_id l)" using sys_invD(2) [OF s] l by (simp add: lots_inv_def)
  ultimately show "alloc_qty (concat (map plain_allocs (s_items x))) (l_id l) \<le> l_quantityReserved l"
    using x(2) by (simp add: alloc_qty_plains sale_held_def sale_allocs_def)
qed

lemma sum_rows_part_le:
  "x \<in> set xs \<Longrightarrow> (\<And>y. y \<in> set xs \<Longrightarrow> 0 \<le> f y) \<Longrightarrow> f x \<le> sum_rows f xs"
  by (rule sum_rows_member_le)

text \<open>The reservation of a pending sale is intact, so \<open>finalizePaidSale\<close> consumes what was reserved.\<close>

lemma pending_intact:
  assumes s: "sys_inv s" and x: "x \<in> set (db_sales s)" "s_paymentStatus x = PayPENDING" and it: "it \<in> set (s_items x)"
  shows "reservation_intact (sale_lots x s) (plain_allocs it)"
  unfolding reservation_intact_def list_all_iff
proof
  fix a assume a: "a \<in> set (plain_allocs it)"
  have ok: "sale_ok s x" using sys_invD(5) [OF s x(1)] .
  have posi: "0 < a_quantity b" if "b \<in> set (plain_allocs it')" "it' \<in> set (s_items x)" for b it'
    using rows_forD(3) [OF sale_rows(2) [OF s ok that(2)] that(1)] .
  have "a_lotId a \<in> l_id ` set (sale_lots x s)" by (rule rows_forD(4) [OF sale_rows(2) [OF s ok it] a])
  then obtain l where l: "lotMap (sale_lots x s) (a_lotId a) = Some l" using lotMap_Some by blast
  then have ls: "l \<in> set (db_lots s)" "l_id l = a_lotId a"
    using lotMap_SomeD [OF l] by (auto simp: sale_lots_def set_lockLots)
  have "a_quantity a \<le> alloc_qty (plain_allocs it) (a_lotId a)"
    using sum_rows_part_le [OF a, of "\<lambda>b. if a_lotId b = a_lotId a then a_quantity b else 0"] posi it
    by (fastforce simp: alloc_qty_def intro: less_imp_le)
  also have "\<dots> \<le> alloc_qty (concat (map plain_allocs (s_items x))) (a_lotId a)"
  proof -
    have "\<And>as. as \<in> set (map plain_allocs (s_items x)) \<Longrightarrow> 0 \<le> alloc_qty as (a_lotId a)"
      using posi by (fastforce intro: alloc_qty_nonneg less_imp_le)
    then show ?thesis
      unfolding alloc_qty_concat using it by (intro sum_rows_part_le) auto
  qed
  also have "\<dots> \<le> l_quantityReserved l" using pending_caps [OF s x] ls by metis
  finally have q: "a_quantity a \<le> l_quantityReserved l" .
  have "0 < a_quantity a" using posi a it by blast
  then have "l_quantityReserved l \<le> l_quantityRemaining l"
    using lots_inv_lot_ok [OF sys_invD(2) [OF s] ls(1)] q by (auto simp: lot_ok_def split: if_splits)
  then show "case lotMap (sale_lots x s) (a_lotId a) of None \<Rightarrow> False
      | Some l \<Rightarrow> l_quantityReserved l \<ge> a_quantity a \<and> l_quantityRemaining l \<ge> a_quantity a"
    using l q by simp
qed

lemma find_sale_iff: "sys_inv s \<Longrightarrow> find_sale i s = Some x \<longleftrightarrow> x \<in> set (db_sales s) \<and> s_id x = i"
  unfolding find_sale_def by (rule find_row_eq_Some_iff) (rule sys_invD(4))

lemma sale_update_in:
  "x \<in> set (db_sales s) \<Longrightarrow> sale_update (s_id x) f s = Inr (s\<lparr>db_sales := upd_row s_id (s_id x) f (db_sales s)\<rparr>)"
  by (auto simp: sale_update_Inr_iff has_row_def)

text \<open>Both settlements: the stock loop runs through and gives back exactly the sale's demand.\<close>

lemma settle_loops:
  assumes s: "sys_inv s" and x: "x \<in> set (db_sales s)" "s_paymentStatus x = PayPENDING"
  shows "\<exists>t. forE (s_items x) (finalize_item dev (sale_products x s) (sale_lots x s)) s = Inr t
           \<and> stock_inv (\<lambda>i. held s i - sale_held i x) t \<and> stock_frame s t"
    and "\<exists>t. releaseReservationForSale dev x s = Inr t
           \<and> stock_inv (\<lambda>i. held s i - sale_held i x) t \<and> stock_frame s t"
proof -
  have ok: "sale_ok s x" using sys_invD(5) [OF s x(1)] .
  let ?pr = "item_product (sale_products x s)" and ?lots = "sale_lots x s"
  have rows: "\<forall>it \<in> set (s_items x). rows_for (?pr it) ?lots (plain_allocs it) s" using sale_rows(2) [OF s ok] by blast
  note caps = pending_caps [OF s x]
  have h: "(\<lambda>i. held s i + - 1 * alloc_qty (concat (map plain_allocs (s_items x))) i) = (\<lambda>i. held s i - sale_held i x)"
    using x(2) by (simp add: alloc_qty_plains sale_held_def sale_allocs_def)
  have f: "\<forall>it \<in> set (s_items x). \<forall>t. finalize_item dev (sale_products x s) ?lots it t
      = consumeReserved dev (?pr it) ?lots (plain_allocs it) t"
    using sale_rows(1,4) [OF s ok] pending_intact [OF s x] by (simp add: finalize_item_def)
  show "\<exists>t. forE (s_items x) (finalize_item dev (sale_products x s) ?lots) s = Inr t
           \<and> stock_inv (\<lambda>i. held s i - sale_held i x) t \<and> stock_frame s t"
    using consumeReserved_cart.lines_ok [OF sys_invD(1) [OF s] rows caps f] unfolding h .
  have r: "\<forall>it \<in> set (s_items x). \<forall>t. release_item dev (sale_products x s) ?lots it t
      = release dev (?pr it) ?lots (plain_allocs it) t"
    using sale_rows(1) [OF s ok] by (simp add: release_item_def)
  show "\<exists>t. releaseReservationForSale dev x s = Inr t
           \<and> stock_inv (\<lambda>i. held s i - sale_held i x) t \<and> stock_frame s t"
    unfolding releaseReservationForSale_def
    using release_cart.lines_ok [OF sys_invD(1) [OF s] rows caps r] unfolding h .
qed

lemma settle_update:
  assumes s: "sys_inv s" and x: "x \<in> set (db_sales s)" "s_paymentStatus x = PayPENDING"
    and t: "stock_inv (\<lambda>i. held s i - sale_held i x) t" "stock_frame s t"
    and f: "\<And>y. s_id (f y) = s_id y" "\<And>y. s_items (f y) = s_items y" "s_paymentStatus (f x) \<noteq> PayPENDING"
  shows "sale_update (s_id x) f t = Inr (t\<lparr>db_sales := upd_row s_id (s_id x) f (db_sales t)\<rparr>)"
    and "sys_inv (t\<lparr>db_sales := upd_row s_id (s_id x) f (db_sales t)\<rparr>)"
proof -
  have sales: "db_sales t = db_sales s" using t(2) by (rule stock_frame_tables(1))
  show "sale_update (s_id x) f t = Inr (t\<lparr>db_sales := upd_row s_id (s_id x) f (db_sales t)\<rparr>)"
    by (rule sale_update_in) (simp add: sales x(1))
  have "sale_held i (f x) = 0" for i using f(3) by (simp add: sale_held_def)
  then have "stock_inv (\<lambda>i. held s i - sale_held i x + sale_held i (f x)) t" using t(1) by simp
  then show "sys_inv (t\<lparr>db_sales := upd_row s_id (s_id x) f (db_sales t)\<rparr>)"
    by (rule upd_sale_inv [OF _ sales s t(2) x(1)]) (simp_all add: f)
qed

text \<open>
  C2: once the customer has paid, a PENDING sale is always finalized: from the invariant
  \<open>finalizePaidSale\<close> cannot run into missing stock, a lost product row or a broken rollup; it returns
  the sale as PAID and keeps the invariant.
\<close>

theorem finalizePaidSale_total:
  assumes "sys_inv s" "find_sale i s = Some x" "s_paymentStatus x = PayPENDING"
  shows "\<exists>t y. finalizePaidSale dev now i s = Inr (t, y) \<and> s_paymentStatus y = PayPAID
           \<and> find_sale i t = Some y \<and> sys_inv t"
proof -
  have x: "x \<in> set (db_sales s)" "s_id x = i" using assms(1,2) by (simp_all add: find_sale_iff)
  have ne: "s_items x \<noteq> []" using sys_invD(5) [OF assms(1) x(1)] by (simp add: sale_ok_def)
  obtain t where t: "forE (s_items x) (finalize_item dev (sale_products x s) (sale_lots x s)) s = Inr t"
      "stock_inv (\<lambda>i. held s i - sale_held i x) t" "stock_frame s t"
    using settle_loops(1) [OF assms(1) x(1) assms(3)] by blast
  let ?f = "\<lambda>y. y\<lparr>s_paymentStatus := PayPAID, s_paidAt := Some now, s_reservationExpiresAt := None\<rparr>"
  let ?u = "t\<lparr>db_sales := upd_row s_id (s_id x) ?f (db_sales t)\<rparr>"
  have u: "sale_update (s_id x) ?f t = Inr ?u" "sys_inv ?u"
    by (rule settle_update [OF assms(1) x(1) assms(3) t(2,3)]; simp)+
  have "finalizePaidSale dev now i s = Inr (?u, ?f x)"
    using assms(2,3) ne t(1) u(1) x(2) by (simp add: finalizePaidSale_def rethrow_def)
  moreover have "find_sale i ?u = Some (?f x)"
    using find_sale_iff [OF u(2)] x stock_frame_tables(1) [OF t(3)] by (auto simp: in_upd_row)
  ultimately show ?thesis using u(2) by (intro exI [of _ ?u] exI [of _ "?f x"]) simp
qed

theorem finalizePaidSale_total_witness:
  "\<exists>t y. finalizePaidSale True 60 ''X1'' ex_pending = Inr (t, y) \<and> s_paymentStatus y = PayPAID \<and> sys_inv t"
proof -
  obtain x where x: "find_sale ''X1'' ex_pending = Some x" "s_paymentStatus x = PayPENDING"
  proof -
    have "case find_sale ''X1'' ex_pending of None \<Rightarrow> False | Some x \<Rightarrow> s_paymentStatus x = PayPENDING" by code_simp
    then show ?thesis using that by (auto split: option.splits)
  qed
  show ?thesis using finalizePaidSale_total [OF ex_pending_inv x] by blast
qed

text \<open>
  C3: a PENDING sale can always be failed or expired: the release of its units cannot go wrong, the
  sale gets the requested status, and afterwards nothing is reserved for it.
\<close>

theorem settleUnpaidSale_total:
  assumes "sys_inv s" "find_sale i s = Some x" "s_paymentStatus x = PayPENDING"
    and "next = PayFAILED \<or> next = PayEXPIRED"
  shows "\<exists>t y. settleUnpaidSale dev next i s = Inr (t, y) \<and> s_paymentStatus y = next
           \<and> find_sale i t = Some y \<and> sys_inv t \<and> (\<forall>j. held t j = held s j - sale_held j x)"
proof -
  have x: "x \<in> set (db_sales s)" "s_id x = i" using assms(1,2) by (simp_all add: find_sale_iff)
  obtain t where t: "releaseReservationForSale dev x s = Inr t"
      "stock_inv (\<lambda>i. held s i - sale_held i x) t" "stock_frame s t"
    using settle_loops(2) [OF assms(1) x(1) assms(3)] by blast
  let ?f = "\<lambda>y. y\<lparr>s_paymentStatus := next, s_reservationExpiresAt := None\<rparr>"
  let ?u = "t\<lparr>db_sales := upd_row s_id (s_id x) ?f (db_sales t)\<rparr>"
  have np: "s_paymentStatus (?f x) \<noteq> PayPENDING" using assms(4) by auto
  have u: "sale_update (s_id x) ?f t = Inr ?u" "sys_inv ?u"
    by (rule settle_update [of s x t ?f, OF assms(1) x(1) assms(3) t(2,3) _ _ np]; simp)+
  have sales: "db_sales t = db_sales s" using t(3) by (rule stock_frame_tables(1))
  have "settleUnpaidSale dev next i s = Inr (?u, ?f x)"
    using assms(2,3) t(1) u(1) x(2) by (simp add: settleUnpaidSale_def rethrow_def)
  moreover have "find_sale i ?u = Some (?f x)"
    using find_sale_iff [OF u(2)] x sales by (auto simp: in_upd_row)
  moreover have "held ?u j = held s j - sale_held j x" for j
  proof -
    have "held ?u j = held t j - sale_held j x + sale_held j (?f x)"
      using held_upd [of t x ?f j] sys_invD(4) [OF assms(1)] x(1) sales by simp
    moreover have "held t j = held s j" by (simp add: held_def sales)
    moreover have "sale_held j (?f x) = 0" using np by (simp add: sale_held_def)
    ultimately show ?thesis by simp
  qed
  ultimately show ?thesis using u(2) by (intro exI [of _ ?u] exI [of _ "?f x"]) simp
qed

theorem settleUnpaidSale_total_witness:
  "\<exists>t y. settleUnpaidSale True PayEXPIRED ''X1'' ex_pending = Inr (t, y) \<and> s_paymentStatus y = PayEXPIRED
     \<and> held t ''L1'' = 0 \<and> sys_inv t"
proof -
  obtain x where x: "find_sale ''X1'' ex_pending = Some x" "s_paymentStatus x = PayPENDING" "sale_held ''L1'' x = 3"
  proof -
    have "case find_sale ''X1'' ex_pending of None \<Rightarrow> False
        | Some x \<Rightarrow> s_paymentStatus x = PayPENDING \<and> sale_held ''L1'' x = 3" by code_simp
    then show ?thesis using that by (auto split: option.splits)
  qed
  have "held ex_pending ''L1'' = 3" by code_simp
  then show ?thesis using settleUnpaidSale_total [OF ex_pending_inv x(1,2), of PayEXPIRED True] x(3) by auto
qed

end
