(* ===== verification/Lot_Units.thy ===== *)
theory Lot_Units
  imports Sale_Settle
begin

text \<open>
  Units per lot. What a run of the stock engine takes from every single lot, whichever of its branches
  consumed them, and what the sales paid within a period took: the ledger by which a stock count that
  was queued offline works out what stood on the shelf, and by which a refund gives units back.
\<close>

section \<open>Units left on a lot\<close>

definition lot_left :: "db \<Rightarrow> ident \<Rightarrow> int" where
  "lot_left s j = sum_rows (\<lambda>l. if l_id l = j then l_quantityRemaining l else 0) (db_lots s)"

lemma lot_left_cong: "db_lots t = db_lots s \<Longrightarrow> lot_left t j = lot_left s j"
  by (simp add: lot_left_def)

lemma lot_left_find:
  assumes "distinct (map l_id (db_lots s))" "find_lot j s = Some l"
  shows "lot_left s j = l_quantityRemaining l"
proof -
  have "l \<in> set (db_lots s)" "l_id l = j" using find_row_SomeD assms(2) by (fastforce simp: find_lot_def)+
  then show ?thesis using sum_rows_unique_key [OF assms(1), of l l_quantityRemaining] by (simp add: lot_left_def)
qed

text \<open>The identity and the cost of the lots, which no movement of units changes.\<close>

definition lot_tags :: "db \<Rightarrow> (ident \<times> decimal) list" where
  "lot_tags s = map (\<lambda>l. (l_id l, l_unitCost l)) (db_lots s)"

lemma lot_tags_ids: "lot_tags t = lot_tags s \<Longrightarrow> map l_id (db_lots t) = map l_id (db_lots s)"
proof -
  assume "lot_tags t = lot_tags s"
  then have "map fst (lot_tags t) = map fst (lot_tags s)" by simp
  then show ?thesis by (simp add: lot_tags_def comp_def)
qed

lemma lot_tags_find:
  assumes "lot_tags t = lot_tags s" "find_lot j s = Some k"
  obtains k' where "find_lot j t = Some k'" "l_unitCost k' = l_unitCost k"
proof -
  have f: "map_option l_unitCost (find_lot j u) = map_of (lot_tags u) j" for u
  proof -
    have "map_option l_unitCost (find_row l_id j ls) = map_of (map (\<lambda>l. (l_id l, l_unitCost l)) ls) j" for ls
      by (induction ls) auto
    then show ?thesis by (simp add: find_lot_def lot_tags_def)
  qed
  have "map_option l_unitCost (find_lot j t) = Some (l_unitCost k)" using f [of t] f [of s] assms by simp
  then show thesis using that by (cases "find_lot j t") auto
qed

text \<open>A step that takes these allocations from the lots, and nothing else.\<close>

definition takes :: "lot_allocation list \<Rightarrow> db \<Rightarrow> db \<Rightarrow> bool" where
  "takes as s t \<longleftrightarrow> (distinct (map l_id (db_lots s)) \<longrightarrow>
     lot_tags t = lot_tags s \<and> db_sales t = db_sales s \<and> (\<forall>j. lot_left t j = lot_left s j - alloc_qty as j))"

lemma takes_none: "db_lots t = db_lots s \<Longrightarrow> db_sales t = db_sales s \<Longrightarrow> takes [] s t"
  by (simp add: takes_def lot_tags_def lot_left_def alloc_qty_def)

lemma takes_trans:
  assumes "takes as s t" "takes bs t u"
  shows "takes (as @ bs) s u"
  unfolding takes_def
proof
  assume d: "distinct (map l_id (db_lots s))"
  then have t: "lot_tags t = lot_tags s" "db_sales t = db_sales s" "\<forall>j. lot_left t j = lot_left s j - alloc_qty as j"
    using assms(1) by (simp_all add: takes_def)
  then have "distinct (map l_id (db_lots t))" using d lot_tags_ids by metis
  then show "lot_tags u = lot_tags s \<and> db_sales u = db_sales s \<and> (\<forall>j. lot_left u j = lot_left s j - alloc_qty (as @ bs) j)"
    using assms(2) t by (simp add: takes_def alloc_qty_def)
qed

lemma takes_after: "takes as s t \<Longrightarrow> db_lots u = db_lots t \<Longrightarrow> db_sales u = db_sales t \<Longrightarrow> takes as s u"
  using takes_trans [OF _ takes_none] by fastforce

lemma takes_row:
  assumes "has_row l_id i (db_lots s)"
    and f: "\<And>l. l_id (f l) = l_id l" "\<And>l. l_unitCost (f l) = l_unitCost l" "\<And>l. l_quantityRemaining (f l) = l_quantityRemaining l - q"
  shows "takes [\<lparr>a_lotId = i, a_quantity = q, a_unitCost = c\<rparr>] s (s\<lparr>db_lots := upd_row l_id i f (db_lots s)\<rparr>)"
proof -
  obtain r where r: "r \<in> set (db_lots s)" "l_id r = i"
    using assms(1) by (auto simp: has_row_def)
  have "lot_left (s\<lparr>db_lots := upd_row l_id i f (db_lots s)\<rparr>) j = lot_left s j - (if i = j then q else 0)"
    if "distinct (map l_id (db_lots s))" for j
    using sum_rows_upd_row [OF that r, of "\<lambda>l. if l_id l = j then l_quantityRemaining l else 0" f] f(1,3) r(2)
    by (simp add: lot_left_def)
  moreover have "lot_tags (s\<lparr>db_lots := upd_row l_id i f (db_lots s)\<rparr>) = lot_tags s"
    by (simp add: lot_tags_def map_upd_row f(1,2))
  ultimately show ?thesis by (simp add: takes_def alloc_qty_def)
qed

lemma takes_alloc:
  assumes "has_row l_id (a_lotId a) (db_lots s)" "\<And>l. l_id (f l) = l_id l" "\<And>l. l_unitCost (f l) = l_unitCost l"
    "\<And>l. l_quantityRemaining (f l) = l_quantityRemaining l - a_quantity a"
  shows "takes [a] s (s\<lparr>db_lots := upd_row l_id (a_lotId a) f (db_lots s)\<rparr>)"
  using takes_row [OF assms, of "a_unitCost a"] by (cases a) simp

lemma takes_loop:
  assumes "\<And>a u v. a \<in> set xs \<Longrightarrow> step a u = Inr v \<Longrightarrow> takes (f a) u v"
  shows "forE xs step s = Inr t \<Longrightarrow> takes (concat (map f xs)) s t"
  using assms
proof (induction xs arbitrary: s)
  case Nil
  then show ?case using takes_none by simp
next
  case (Cons x xs)
  obtain u where u: "step x s = Inr u" "forE xs step u = Inr t" using Cons.prems(1) by (auto simp: bindE_Inr_iff)
  have "takes (f x) s u" using Cons.prems(2) u(1) by simp
  moreover have "takes (concat (map f xs)) u t" by (rule Cons.IH [OF u(2)]) (simp add: Cons.prems(2))
  ultimately show ?case using takes_trans by simp
qed

section \<open>The engine\<close>

lemma deplete_takes: "deplete_if_zero i s = Inr t \<Longrightarrow> takes [] s t"
  by (auto simp: deplete_if_zero_def lot_update_Inr_iff takes_def lot_tags_def lot_left_def map_upd_row alloc_qty_def
      upd_row_def sum_rows_def comp_def if_distrib [of l_id] if_distrib [of l_quantityRemaining] split: option.splits if_splits
      cong: map_cong if_cong)

lemma decrement_takes:
  assumes "bindE (lot_update (a_lotId a) f s) (deplete_if_zero (a_lotId a)) = Inr t"
    and f: "\<And>l. l_id (f l) = l_id l" "\<And>l. l_unitCost (f l) = l_unitCost l"
      "\<And>l. l_quantityRemaining (f l) = l_quantityRemaining l - a_quantity a"
  shows "takes [a] s t"
proof -
  obtain u where u: "lot_update (a_lotId a) f s = Inr u" "deplete_if_zero (a_lotId a) u = Inr t"
    by (rule bindE_InrE [OF assms(1)])
  have "takes [a] s u" using u(1) takes_alloc [OF _ f, of s] by (auto simp: lot_update_Inr_iff)
  then show ?thesis using takes_trans [OF _ deplete_takes [OF u(2)]] by simp
qed

lemma consumeReserved_lot_takes: "consumeReserved_lot a s = Inr t \<Longrightarrow> takes [a] s t"
  unfolding consumeReserved_lot_def by (erule decrement_takes) simp_all

lemma consumeDirect_lot_takes: "consumeDirect_lot lots a s = Inr t \<Longrightarrow> takes [a] s t"
  unfolding consumeDirect_lot_def by (cases "lotMap lots (a_lotId a) = None") (simp, simp only: if_False, erule decrement_takes, simp_all)

lemma claim_lot_takes:
  assumes "claim_lot p a s = Inr t"
  shows "takes [a] s t"
  unfolding takes_def
proof
  assume d: "distinct (map l_id (db_lots s))"
  define Q where "Q = (\<lambda>l :: lot. l_storeId l = p_storeId p \<and> l_status l = LotACTIVE \<and> l_quantityRemaining l - l_quantityReserved l \<ge> a_quantity a)"
  define f where "f = (\<lambda>l :: lot. l\<lparr>l_quantityRemaining := l_quantityRemaining l - a_quantity a,
              l_status := (if l_quantityRemaining l - a_quantity a = 0 then LotDEPLETED else l_status l)\<rparr>)"
  have f: "l_id (f l) = l_id l" "l_unitCost (f l) = l_unitCost l" "l_quantityRemaining (f l) = l_quantityRemaining l - a_quantity a" for l :: lot
    by (simp_all add: f_def)
  obtain ls where ls: "updateMany_rows (\<lambda>l. l_id l = a_lotId a \<and> Q l) f (db_lots s) = (1, ls)" "t = s\<lparr>db_lots := ls\<rparr>"
    using assms(1) unfolding claim_lot_def lot_updateMany_def Let_def Q_def f_def by (auto split: prod.splits if_splits)
  obtain r where r: "r \<in> set (db_lots s)" "l_id r = a_lotId a" "Q r" using updateMany_rows_count [OF ls(1)] by blast
  have "ls = upd_row l_id (a_lotId a) f (db_lots s)"
    using updateMany_rows_key [where Q = Q and f = f, OF d r] ls(1) by simp
  moreover have "has_row l_id (a_lotId a) (db_lots s)" using r(1,2) by (force simp: has_row_def)
  ultimately have "takes [a] s t" using takes_alloc [OF _ f] ls(2) by simp
  then show "lot_tags t = lot_tags s \<and> db_sales t = db_sales s \<and> (\<forall>j. lot_left t j = lot_left s j - alloc_qty [a] j)"
    using d by (simp add: takes_def)
qed

lemma product_many_takes: "product_updateMany P f s = (n, t) \<Longrightarrow> takes [] s t"
  by (auto simp: product_updateMany_def split: prod.splits intro!: takes_none)

lemma single: "concat (map (\<lambda>a. [a]) as) = as"
  by (induction as) simp_all

lemma consumeReserved_takes:
  assumes "consumeReserved dev p lots as s = Inr t"
  shows "takes as s t"
proof -
  obtain u where u: "forE as consumeReserved_lot s = Inr u" "db_lots t = db_lots u" "db_sales t = db_sales u"
    using assms by (auto simp: consumeReserved_def bindE_Inr_iff Let_def product_updateMany_def split: prod.splits if_splits)
  have "takes as s u" using takes_loop [where f = "\<lambda>a. [a]", OF _ u(1)] consumeReserved_lot_takes by (simp add: single)
  then show ?thesis by (rule takes_after [OF _ u(2,3)])
qed

lemma product_update_takes: "product_update i f s = Inr t \<Longrightarrow> takes [] s t"
  by (auto simp: product_update_Inr_iff intro!: takes_none)

lemma consumeDirect_takes:
  assumes "consumeDirect dev p lots as strict s = Inr t"
  shows "takes as s t"
proof -
  have "\<exists>u. (forE as (claim_lot p) s = Inr u \<or> forE as (consumeDirect_lot lots) s = Inr u)
      \<and> db_lots t = db_lots u \<and> db_sales t = db_sales u"
    using assms by (auto simp: consumeDirect_def bindE_Inr_iff Let_def product_updateMany_def product_update_Inr_iff
        split: prod.splits if_splits)
  then obtain u where u: "forE as (claim_lot p) s = Inr u \<or> forE as (consumeDirect_lot lots) s = Inr u"
      "db_lots t = db_lots u" "db_sales t = db_sales u" by blast
  have "takes as s u"
    using u(1) takes_loop [where f = "\<lambda>a. [a]" and step = "claim_lot p" and xs = as and s = s and t = u]
      takes_loop [where f = "\<lambda>a. [a]" and step = "consumeDirect_lot lots" and xs = as and s = s and t = u]
      claim_lot_takes consumeDirect_lot_takes by (auto simp: single)
  then show ?thesis by (rule takes_after [OF _ u(2,3)])
qed

lemma reserve_lot_takes: "reserve_lot a s = Inr t \<Longrightarrow> takes [] s t"
proof -
  assume "reserve_lot a s = Inr t"
  then have "has_row l_id (a_lotId a) (db_lots s)"
      "t = s\<lparr>db_lots := upd_row l_id (a_lotId a) (\<lambda>l. l\<lparr>l_quantityReserved := l_quantityReserved l + a_quantity a\<rparr>) (db_lots s)\<rparr>"
    by (auto simp: reserve_lot_def lot_update_Inr_iff)
  then have "takes [\<lparr>a_lotId = a_lotId a, a_quantity = 0, a_unitCost = 0\<rparr>] s t"
    using takes_row [where q = 0 and c = 0 and i = "a_lotId a" and s = s
      and f = "\<lambda>l. l\<lparr>l_quantityReserved := l_quantityReserved l + a_quantity a\<rparr>"] by simp
  then show ?thesis by (simp add: takes_def alloc_qty_def)
qed

lemma concat_none: "concat (map (\<lambda>x. []) xs) = []"
  by (induction xs) simp_all

lemma reserve_takes:
  assumes "reserve dev p lots as s = Inr t"
  shows "takes [] s t"
proof -
  obtain u where u: "forE as reserve_lot s = Inr u" "db_lots t = db_lots u" "db_sales t = db_sales u"
    using assms by (auto simp: reserve_def bindE_Inr_iff product_update_Inr_iff)
  have "takes [] s u" using takes_loop [where f = "\<lambda>a. []", OF _ u(1)] reserve_lot_takes by (simp add: concat_none)
  then show ?thesis by (rule takes_after [OF _ u(2,3)])
qed

section \<open>Sales\<close>

text \<open>
  A PENDING sale that is finalized takes from every lot exactly the units of its allocations, through
  the reservation or (where that is gone) by a direct claim; so does a new cash sale, while a new card
  sale takes nothing yet.
\<close>

lemma takes_qty_cong: "takes as s t \<Longrightarrow> (\<And>j. alloc_qty bs j = alloc_qty as j) \<Longrightarrow> takes bs s t"
  by (simp add: takes_def)

lemma finalize_item_takes:
  assumes "finalize_item dev prods lots it s = Inr t"
  shows "takes (si_lotAllocations it) s t"
proof (rule takes_qty_cong)
  show "takes (plain_allocs it) s t"
    using assms consumeReserved_takes consumeDirect_takes by (auto simp: finalize_item_def split: if_splits option.splits)
  show "alloc_qty (si_lotAllocations it) j = alloc_qty (plain_allocs it) j" for j by (simp add: alloc_qty_plain)
qed

lemma finalizePaidSale_takes:
  assumes run: "finalizePaidSale dev p i e = Inr (f, y)" and x: "find_sale i e = Some x" "s_paymentStatus x = PayPENDING"
    and d: "distinct (map l_id (db_lots e))"
  shows "lot_tags f = lot_tags e \<and> (\<forall>j. lot_left f j = lot_left e j - alloc_qty (sale_allocs x) j)
    \<and> db_sales f = upd_row s_id i (\<lambda>y. y\<lparr>s_paymentStatus := PayPAID, s_paidAt := Some p, s_reservationExpiresAt := None\<rparr>) (db_sales e)"
proof -
  obtain u where u: "forE (s_items x) (finalize_item dev (sale_products x e) (sale_lots x e)) e = Inr u"
      "sale_update i (\<lambda>y. y\<lparr>s_paymentStatus := PayPAID, s_paidAt := Some p, s_reservationExpiresAt := None\<rparr>) u = Inr f"
    using run x by (auto simp: finalizePaidSale_def rethrow_def bindE_Inr_iff Let_def split: sum.splits if_splits error.splits)
  have "takes (concat (map si_lotAllocations (s_items x))) e u" by (rule takes_loop [OF _ u(1)]) (rule finalize_item_takes)
  then show ?thesis using u(2) d by (auto simp: takes_def sale_allocs_def sale_update_Inr_iff lot_tags_def lot_left_def)
qed

lemma plan_lines_length: "plan_lines off st s prods wm items = Inr (ass, flags) \<Longrightarrow> length ass = length items"
  by (induction items arbitrary: wm ass flags) (fastforce simp: bindE_Inr_iff Let_def split: option.splits if_splits)+

lemma createSale_tx_takes:
  assumes run: "createSale_tx nv st u input key pids e = Inr (f, r)" and d: "distinct (map l_id (db_lots e))"
  shows "f = e \<or> lot_tags f = lot_tags e \<and> (\<exists>x. db_sales f = db_sales e @ [x] \<and> s_id x \<notin> s_id ` set (db_sales e)
    \<and> s_paidAt x = (if cs_paymentMethod input = CASH then Some (nv_now nv) else None)
    \<and> (\<forall>j. lot_left f j = lot_left e j - (if cs_paymentMethod input = CASH then alloc_qty (sale_allocs x) j else 0)))"
proof (cases "\<exists>raced. (case key of None \<Rightarrow> None | Some k \<Rightarrow> find_row s_idempotencyKey (Some k) (db_sales e)) = Some raced")
  case True
  then show ?thesis using run by (auto simp: createSale_tx_def split: if_splits)
next
  case False
  then obtain plan where plan: "plan_sale nv st input pids e = Inr plan" and c: "commit_sale nv st u input key plan e = Inr (f, r)"
    using run by (auto simp: createSale_tx_def bindE_Inr_iff split: option.splits)
  let ?cash = "cs_paymentMethod input = CASH"
  let ?lines = "zip (cs_items input) (pn_allocs plan)"
  define x where "x = new_sale nv st u input key (st_memberDiscountBearer (pn_store plan)) (pn_totals plan)
                   (sale_items_of (nv_itemId nv) 0 (pn_drafts plan) (pn_allocs plan))"
  obtain s1 s2 where s1: "forE ?lines ((if ?cash then consume_line else reserve_line) nv (pn_products plan) (pn_lots plan)) e = Inr s1"
      and s2: "sale_create x s1 = Inr s2" and f: "db_lots f = db_lots s2" "db_sales f = db_sales s2"
  proof -
    obtain s1 where c1: "forE ?lines ((if ?cash then consume_line else reserve_line) nv (pn_products plan) (pn_lots plan)) e = Inr s1"
        and c2: "bindE (sale_create x s1) (\<lambda>s2.
          Inr (if ?cash \<and> pn_flags plan \<noteq> [] then record_flags st (s_id x) (pn_flags plan) (record_usages nv (cs_memberId input) (pn_drafts plan) s2)
               else record_usages nv (cs_memberId input) (pn_drafts plan) s2,
            \<lparr>tx_sale = x, tx_replayed = False, tx_queued = ?cash \<and> pn_flags plan \<noteq> [],
             tx_skips = pn_skips plan, tx_drafts = pn_drafts plan\<rparr>)) = Inr (f, r)"
      by (rule bindE_InrE [OF c [unfolded commit_sale_def Let_def, folded x_def]])
    obtain s2 where c3: "sale_create x s1 = Inr s2"
        and "f = (if ?cash \<and> pn_flags plan \<noteq> [] then record_flags st (s_id x) (pn_flags plan) (record_usages nv (cs_memberId input) (pn_drafts plan) s2)
               else record_usages nv (cs_memberId input) (pn_drafts plan) s2)"
      using c2 by (auto simp: bindE_Inr_iff)
    then show thesis by (intro that [OF c1 c3]) simp_all
  qed
  have len: "length (pn_allocs plan) = length (cs_items input)" using plan_lines_length [OF plan_sale_Inr(3) [OF plan]] .
  obtain b where "price_lines (st_taxRate (pn_store plan)) (\<lambda>i. find_row p_id i (pn_products plan)) b 0 (cs_items input)
      = Inr (pn_drafts plan)" using plan_sale_Inr(5) [OF plan] by blast
  then have len2: "length (pn_drafts plan) = length (pn_allocs plan)" using price_lines_ok len by metis
  have al: "sale_allocs x = concat (pn_allocs plan)"
    using sale_items_of_props [OF len2, of "nv_itemId nv" 0] by (simp add: sale_allocs_def x_def)
  have "takes (if ?cash then concat (map snd ?lines) else []) e s1"
  proof (cases ?cash)
    case True
    have "takes (concat (map snd ?lines)) e s1"
      by (rule takes_loop [OF _ s1]) (use True consumeDirect_takes in \<open>auto simp: consume_line_def split: option.splits\<close>)
    then show ?thesis using True by simp
  next
    case False
    have "takes (concat (map (\<lambda>x. []) ?lines)) e s1"
      by (rule takes_loop [OF _ s1]) (use False reserve_takes in \<open>auto simp: reserve_line_def split: option.splits\<close>)
    then show ?thesis using False by (simp add: concat_none)
  qed
  moreover have "map snd ?lines = pn_allocs plan" using len by simp
  moreover note sale_create_Inr [OF s2]
  moreover have "s_paidAt x = (if ?cash then Some (nv_now nv) else None)" by (simp add: x_def new_sale_def Let_def)
  ultimately show ?thesis using d f al by (auto simp: takes_def lot_tags_def lot_left_def alloc_qty_def split: if_splits)
qed

end
