(* ===== verification/Refunds.thy ===== *)
theory Refunds
  imports Sale_Settle
begin

text \<open>
  The refund protocol (\<open>backend/src/services/sales.service.ts\<close>): the plan of a refund, the claim in
  the database, the call to Stripe, and the finalization or abort, with the reconciliation of
  claims that got stuck. Divisions of the plan that are not exact use the decimal library's own
  \<open>mul\<close> and \<open>div\<close> (20 significant digits): they are parameters, and the theorems hold for any.
\<close>

section \<open>The plan\<close>

record decimal_ops =
  dmul :: "decimal \<Rightarrow> decimal \<Rightarrow> decimal"
  ddiv :: "decimal \<Rightarrow> decimal \<Rightarrow> decimal"

record refund_line_input =
  ri_saleItemId :: ident
  ri_quantity :: rat

record refund_plan_line =
  rp_saleItemId :: ident
  rp_productId :: ident
  rp_quantity :: int
  rp_lineAmount :: decimal
  rp_lineNet :: decimal
  rp_lineGross :: decimal

record refund_plan =
  rp_lines :: "refund_plan_line list"
  rp_amount :: decimal
  rp_operatorAmount :: decimal

definition si_remaining :: "sale_item \<Rightarrow> int" where
  "si_remaining it = si_quantity it - si_refundedQuantity it"

text \<open>Without a request: every unit that is left.\<close>

definition all_remaining :: "sale_item list \<Rightarrow> (sale_item \<times> int) list" where
  "all_remaining items = map (\<lambda>it. (it, si_remaining it)) (filter (\<lambda>it. si_remaining it > 0) items)"

fun requested_specs ::
  "sale_item list \<Rightarrow> ident list \<Rightarrow> refund_line_input list \<Rightarrow> (sale_item \<times> int) list result" where
  "requested_specs items seen [] = Inr []"
| "requested_specs items seen (row # rows) =
     (if \<not> is_integer (ri_quantity row) \<or> ri_quantity row \<le> 0
      then Inl (AppError 400 ''Refund quantity must be a positive integer'')
      else if ri_saleItemId row \<in> set seen
      then Inl (AppError 400 ''Duplicate saleItemId in refund items'')
      else case find_row si_id (ri_saleItemId row) items of
        None \<Rightarrow> Inl (AppError 400 ''saleItemId does not belong to this sale'')
      | Some it \<Rightarrow>
          if \<lfloor>ri_quantity row\<rfloor> > si_remaining it
          then Inl (AppError 400 ''Refund quantity exceeds remaining refundable units'')
          else bindE (requested_specs items (ri_saleItemId row # seen) rows) (\<lambda>specs.
               Inr ((it, \<lfloor>ri_quantity row\<rfloor>) # specs)))"

definition plan_line :: "decimal_ops \<Rightarrow> sale_item \<times> int \<Rightarrow> refund_plan_line" where
  "plan_line ops spec =
     (let (it, q) = spec;
          grossFull = si_priceSnapshot it * of_int (si_quantity it);
          netTotal = moneyDec (grossFull - si_discountAmount it);
          unitNet = ddiv ops netTotal (of_int (si_quantity it));
          unitTax = ddiv ops (si_taxAmount it) (of_int (si_quantity it));
          lineGross = moneyDec (si_priceSnapshot it * of_int q);
          lineNet = moneyDec (dmul ops unitNet (of_int q));
          lineTax = moneyDec (dmul ops unitTax (of_int q))
      in \<lparr>rp_saleItemId = si_id it, rp_productId = si_productId it, rp_quantity = q,
          rp_lineAmount = moneyDec (lineNet + lineTax), rp_lineNet = lineNet, rp_lineGross = lineGross\<rparr>)"

definition planned_quantity :: "refund_plan_line list \<Rightarrow> ident \<Rightarrow> int" where
  "planned_quantity lines i =
     (case find_row rp_saleItemId i lines of None \<Rightarrow> 0 | Some l \<Rightarrow> rp_quantity l)"

definition refunds_all_remaining :: "sale_item list \<Rightarrow> refund_plan_line list \<Rightarrow> bool" where
  "refunds_all_remaining items lines \<longleftrightarrow>
     list_all (\<lambda>it. si_refundedQuantity it + planned_quantity lines (si_id it) \<ge> si_quantity it) items"

definition operator_clawback :: "decimal_ops \<Rightarrow> sale \<Rightarrow> refund_plan_line list \<Rightarrow> decimal" where
  "operator_clawback ops x lines =
     (let operatorBase = (case s_operatorBaseSnapshot x of None \<Rightarrow> s_subtotal x | Some b \<Rightarrow> b) in
      if operatorBase = 0 then moneyDec 0
      else
        (let refundedOnBase =
               (if s_memberDiscountBearer x = BearerCOOP then sum_list (map rp_lineGross lines)
                else sum_list (map rp_lineNet lines))
         in moneyDec (ddiv ops (dmul ops (s_operatorAmount x) refundedOnBase) operatorBase)))"

definition planRefundLines ::
  "decimal_ops \<Rightarrow> sale \<Rightarrow> refund_line_input list option \<Rightarrow> refund_plan result" where
  "planRefundLines ops x requested =
     (let items = s_items x in
      bindE (case requested of
               None \<Rightarrow> Inr (all_remaining items)
             | Some [] \<Rightarrow> Inr (all_remaining items)
             | Some rows \<Rightarrow> requested_specs items [] rows) (\<lambda>specs.
      if specs = [] then Inl (AppError 409 ''Sale has no remaining refundable quantity'')
      else
        let lines = map (plan_line ops) specs;
            amount0 = moneyDec (sum_list (map rp_lineAmount lines));
            remainingCustomer = moneyDec (moneyDec (s_total x) - moneyDec (s_refundedAmount x));
            amount = (if amount0 > remainingCustomer then remainingCustomer else amount0)
        in
        if amount \<le> 0 then Inl (AppError 409 ''Nothing left to refund on this sale'')
        else if refunds_all_remaining items lines
        then Inr \<lparr>rp_lines = lines, rp_amount = remainingCustomer,
                  rp_operatorAmount = moneyDec (s_operatorAmount x - s_refundedOperatorAmount x)\<rparr>
        else Inr \<lparr>rp_lines = lines, rp_amount = amount, rp_operatorAmount = operator_clawback ops x lines\<rparr>))"

section \<open>The claim\<close>

record refund_input =
  rf_items :: "refund_line_input list option"
  rf_restock :: bool
  rf_createdByUserId :: "ident option"

record refund_claim =
  rfc_refundId :: ident
  rfc_amount :: decimal
  rfc_operatorAmount :: decimal
  rfc_restock :: bool

definition refund_update :: "ident \<Rightarrow> (sale_refund \<Rightarrow> sale_refund) \<Rightarrow> db \<Rightarrow> db result" where
  "refund_update i f s =
     bindE (update_row r_id i f (db_refunds s)) (\<lambda>rs. Inr (s\<lparr>db_refunds := rs\<rparr>))"

definition find_refund :: "ident \<Rightarrow> db \<Rightarrow> sale_refund option" where
  "find_refund i s = find_row r_id i (db_refunds s)"

definition claimRefundInDb ::
  "decimal_ops \<Rightarrow> time \<Rightarrow> ident \<Rightarrow> ident \<Rightarrow> ident \<Rightarrow> refund_input \<Rightarrow> db \<Rightarrow> (db \<times> refund_claim) result" where
  "claimRefundInDb ops now newId saleId storeId input s =
     (case find_sale saleId s of
        None \<Rightarrow> Inl (AppError 404 ''Sale not found for this store'')
      | Some x \<Rightarrow>
          if s_storeId x \<noteq> storeId then Inl (AppError 404 ''Sale not found for this store'')
          else if s_paymentStatus x = PayREFUNDING
          then Inl (AppError 409 ''A refund is already in progress for this sale'')
          else if s_paymentStatus x \<noteq> PayPAID
          then Inl (AppError 409 ''Only PAID sales can be refunded'')
          else
            bindE (planRefundLines ops x (rf_items input)) (\<lambda>plan.
            let refund = \<lparr>r_id = newId, r_saleId = saleId, r_amount = rp_amount plan,
                          r_operatorAmount = rp_operatorAmount plan, r_restock = rf_restock input,
                          r_status = RefundPENDING, r_stripeRefundId = None,
                          r_createdByUserId = rf_createdByUserId input, r_createdAt = now,
                          r_completedAt = None,
                          r_lines = map (\<lambda>l. \<lparr>rl_saleItemId = rp_saleItemId l, rl_quantity = rp_quantity l\<rparr>)
                                      (rp_lines plan)\<rparr>
            in
            bindE (create_row r_id refund (db_refunds s)) (\<lambda>rs.
            bindE (sale_update saleId (\<lambda>y. y\<lparr>s_paymentStatus := PayREFUNDING, s_pendingRefundId := Some newId\<rparr>)
                     (s\<lparr>db_refunds := rs\<rparr>)) (\<lambda>s2.
            Inr (s2, \<lparr>rfc_refundId = newId, rfc_amount = rp_amount plan,
                      rfc_operatorAmount = rp_operatorAmount plan, rfc_restock = rf_restock input\<rparr>)))))"

section \<open>Mapping returned units to the original lots\<close>

text \<open>
  The loop over an item's allocations: skip the units refunded before, then hand out what comes
  back; the second component is what could not be placed.
\<close>

fun restore_loop :: "lot_allocation list \<Rightarrow> int \<Rightarrow> int \<Rightarrow> (ident \<times> int) list \<times> int" where
  "restore_loop [] skp toRestore = ([], toRestore)"
| "restore_loop (a # as) skp toRestore =
     (if toRestore \<le> 0 then ([], toRestore)
      else
        let skipHere = min (a_quantity a) skp;
            capacity = a_quantity a - skipHere;
            restore = min capacity toRestore
        in if restore \<le> 0 then restore_loop as (skp - skipHere) toRestore
           else (let (rs, r) = restore_loop as (skp - skipHere) (toRestore - restore)
                 in ((a_lotId a, restore) # rs, r)))"

definition bump_refunded :: "ident \<Rightarrow> int \<Rightarrow> sale_item list \<Rightarrow> sale_item list" where
  "bump_refunded i q items =
     upd_row si_id i (\<lambda>it. it\<lparr>si_refundedQuantity := si_refundedQuantity it + q\<rparr>) items"

text \<open>\<open>saleItem.update({ refundedQuantity: { increment } })\<close> on the lines kept inside the sale row.\<close>

definition item_increment :: "ident \<Rightarrow> ident \<Rightarrow> int \<Rightarrow> db \<Rightarrow> db result" where
  "item_increment saleId i q s =
     sale_update saleId (\<lambda>x. x\<lparr>s_items := bump_refunded i q (s_items x)\<rparr>) s"

definition restock_line ::
  "bool \<Rightarrow> product list \<Rightarrow> lot list \<Rightarrow> ident \<Rightarrow> refund_line \<Rightarrow> db \<times> sale_item list \<Rightarrow> (db \<times> sale_item list) result" where
  "restock_line dev prods lots saleId line acc =
     (let (s, items) = acc in
      case find_row si_id (rl_saleItemId line) items of
        None \<Rightarrow> Inl (AppError 500 ''Refund line references missing SaleItem'')
      | Some it \<Rightarrow>
          if rl_quantity line > si_remaining it
          then Inl (AppError 409 ''Refund line exceeds remaining quantity at finalize'')
          else
            bindE (item_increment saleId (si_id it) (rl_quantity line) s) (\<lambda>s1.
            if si_lotAllocations it = []
            then Inl (AppError 500 ''Sale item has no lot allocations for restock'')
            else
              let (restorations, left) =
                    restore_loop (si_lotAllocations it) (si_refundedQuantity it) (rl_quantity line)
              in
              if left > 0 then Inl (AppError 500 ''Could not map refund restock to original lots'')
              else case find_row p_id (si_productId it) prods of
                None \<Rightarrow> Inl (AppError 500 ''Product missing at refund restock'')
              | Some p \<Rightarrow>
                  bindE (restockToLots dev p lots restorations s1) (\<lambda>s2.
                  Inr (s2, bump_refunded (si_id it) (rl_quantity line) items))))"

definition writeoff_line ::
  "sale \<Rightarrow> ident \<Rightarrow> refund_line \<Rightarrow> db \<times> sale_item list \<Rightarrow> (db \<times> sale_item list) result" where
  "writeoff_line x refundId line acc =
     (let (s, items) = acc in
      case find_row si_id (rl_saleItemId line) items of
        None \<Rightarrow> Inl (AppError 500 ''Refund line references missing SaleItem'')
      | Some it \<Rightarrow>
          if rl_quantity line > si_remaining it
          then Inl (AppError 409 ''Refund line exceeds remaining quantity at finalize'')
          else
            bindE (item_increment (s_id x) (si_id it) (rl_quantity line) s) (\<lambda>s1.
            Inr (s1\<lparr>db_writeOffs := db_writeOffs s1 @
                      [\<lparr>w_storeId = s_storeId x, w_productId = si_productId it, w_lotId = None,
                        w_saleId = Some (s_id x), w_saleItemId = Some (si_id it),
                        w_saleRefundId = Some refundId, w_quantity = rl_quantity line,
                        w_reason = ''REFUND_NO_RESTOCK'', w_unitCost = None, w_value = None\<rparr>]\<rparr>,
                 bump_refunded (si_id it) (rl_quantity line) items)))"

section \<open>Finalizing and aborting\<close>

definition restock_items :: "sale \<Rightarrow> sale_refund \<Rightarrow> sale_item list" where
  "restock_items x refund =
     concat (map (\<lambda>l. case find_row si_id (rl_saleItemId l) (s_items x) of None \<Rightarrow> [] | Some it \<Rightarrow> [it])
              (r_lines refund))"

definition refund_products :: "sale \<Rightarrow> sale_refund \<Rightarrow> db \<Rightarrow> product list" where
  "refund_products x refund s = lockProducts (map si_productId (restock_items x refund)) s"

definition refund_lots :: "sale \<Rightarrow> sale_refund \<Rightarrow> db \<Rightarrow> lot list" where
  "refund_lots x refund s =
     lockLots (concat (map (\<lambda>it. map a_lotId (si_lotAllocations it)) (restock_items x refund))) s"

definition return_goods :: "bool \<Rightarrow> sale \<Rightarrow> sale_refund \<Rightarrow> db \<Rightarrow> (db \<times> sale_item list) result" where
  "return_goods dev x refund s =
     (if r_restock refund
      then forE (r_lines refund)
             (restock_line dev (refund_products x refund s) (refund_lots x refund s) (s_id x)) (s, s_items x)
      else forE (r_lines refund) (writeoff_line x (r_id refund)) (s, s_items x))"

definition settle_refund :: "time \<Rightarrow> sale_refund \<Rightarrow> bool \<Rightarrow> sale \<Rightarrow> sale" where
  "settle_refund now refund fully y =
     y\<lparr>s_paymentStatus := (if fully then PayREFUNDED else PayPAID),
       s_refundedAt := (if fully then Some now else s_refundedAt y),
       s_refundedAmount := s_refundedAmount y + r_amount refund,
       s_refundedOperatorAmount := s_refundedOperatorAmount y + r_operatorAmount refund,
       s_pendingRefundId := None\<rparr>"

definition fully_refunded :: "sale_item list \<Rightarrow> bool" where
  "fully_refunded items \<longleftrightarrow> list_all (\<lambda>it. si_refundedQuantity it \<ge> si_quantity it) items"

definition finalizeSucceededRefund :: "bool \<Rightarrow> time \<Rightarrow> ident \<Rightarrow> db \<Rightarrow> (db \<times> sale) result" where
  "finalizeSucceededRefund dev now refundId s =
     (case find_refund refundId s of
        None \<Rightarrow> Inl (AppError 404 ''SaleRefund not found'')
      | Some refund \<Rightarrow>
          (case find_sale (r_saleId refund) s of
             None \<Rightarrow> Inl (AppError 404 ''Sale not found'')
           | Some x \<Rightarrow>
               if r_status refund = RefundSUCCEEDED then Inr (s, x)
               else if r_status refund = RefundFAILED
               then Inl (AppError 409 ''Cannot finalize a FAILED refund'')
               else
                 bindE (return_goods dev x refund s) (\<lambda>(s1, items).
                 let fully = fully_refunded items in
                 bindE (refund_update (r_id refund)
                          (\<lambda>r. r\<lparr>r_status := RefundSUCCEEDED, r_completedAt := Some now\<rparr>) s1) (\<lambda>s2.
                 bindE (sale_update (s_id x) (settle_refund now refund fully) s2) (\<lambda>s3.
                 let s4 = writeAuditLog (r_createdByUserId refund) (Some (s_storeId x)) ''SALE_REFUND''
                            ''Sale'' (Some (s_id x)) s3
                 in case find_sale (s_id x) s4 of
                      None \<Rightarrow> Inl RecordNotFound
                    | Some y \<Rightarrow> Inr (s4, y))))))"

definition abortFailedRefund :: "time \<Rightarrow> ident \<Rightarrow> db \<Rightarrow> (db \<times> sale) result" where
  "abortFailedRefund now refundId s =
     (case find_refund refundId s of
        None \<Rightarrow> Inl (AppError 404 ''SaleRefund not found'')
      | Some refund \<Rightarrow>
          if r_status refund = RefundSUCCEEDED
          then Inl (AppError 409 ''Cannot abort a SUCCEEDED refund'')
          else
            bindE (if r_status refund = RefundPENDING
                   then refund_update refundId (\<lambda>r. r\<lparr>r_status := RefundFAILED, r_completedAt := Some now\<rparr>) s
                   else Inr s) (\<lambda>s1.
            case find_sale (r_saleId refund) s1 of
              None \<Rightarrow> Inl (AppError 404 ''Sale not found'')
            | Some x \<Rightarrow>
                if s_paymentStatus x = PayREFUNDING \<and> s_pendingRefundId x = Some refundId
                then (let f = (\<lambda>y. y\<lparr>s_paymentStatus := PayPAID, s_pendingRefundId := None\<rparr>)
                      in bindE (sale_update (s_id x) f s1) (\<lambda>s2. Inr (s2, f x)))
                else Inr (s1, x)))"

section \<open>refundSale\<close>

text \<open>
  Stripe's side of a refund: whether a secret key is configured (\<open>getStripe\<close> throws without one), the payment intent of a Checkout session, the creation of a refund
  (payment intent, cents, our refund id), a refund's status, and the refunds of an intent as
  triples of id, status and our refund id from the metadata.
\<close>

record refund_stripe =
  rs_configured :: bool
  rs_sessionIntent :: "string \<Rightarrow> string option result"
  rs_create :: "string \<Rightarrow> int \<Rightarrow> ident \<Rightarrow> string result"
  rs_status :: "string \<Rightarrow> string result"
  rs_list :: "string \<Rightarrow> (string \<times> string \<times> ident option) list result"

definition getStripe :: "refund_stripe \<Rightarrow> unit result" where
  "getStripe st = (if rs_configured st then Inr () else Inl (AppError 503 ''Stripe is not configured (STRIPE_SECRET_KEY missing)''))"

definition resolvePaymentIntentId :: "refund_stripe \<Rightarrow> sale \<Rightarrow> string result" where
  "resolvePaymentIntentId st x =
     bindE (getStripe st) (\<lambda>_.
     bindE (if \<not> truthy (s_stripePaymentIntentId x) \<and> truthy (s_stripeCheckoutSessionId x)
            then rs_sessionIntent st (the (s_stripeCheckoutSessionId x))
            else Inr (s_stripePaymentIntentId x)) (\<lambda>i.
     if truthy i then Inr (the i) else Inl (AppError 409 ''Sale has no Stripe PaymentIntent to refund'')))"

text \<open>The \<open>try\<close> block after the claim: the state so far with the result.\<close>

definition refund_via_stripe ::
  "bool \<Rightarrow> time \<Rightarrow> refund_stripe \<Rightarrow> sale \<Rightarrow> refund_claim \<Rightarrow> db \<Rightarrow> db \<times> sale result" where
  "refund_via_stripe dev now st x claim s =
     (case bindE (resolvePaymentIntentId st x) (\<lambda>i.
           bindE (toStripeCents (rfc_amount claim)) (\<lambda>cents.
           rs_create st i cents (rfc_refundId claim))) of
        Inl e \<Rightarrow> (s, Inl e)
      | Inr stripeId \<Rightarrow>
          (case refund_update (rfc_refundId claim) (\<lambda>r. r\<lparr>r_stripeRefundId := Some stripeId\<rparr>) s of
             Inl e \<Rightarrow> (s, Inl e)
           | Inr s1 \<Rightarrow>
               (case finalizeSucceededRefund dev now (rfc_refundId claim) s1 of
                  Inl e \<Rightarrow> (s1, Inl e)
                | Inr (s2, y) \<Rightarrow> (s2, Inr y))))"

definition refundSale ::
  "decimal_ops \<Rightarrow> bool \<Rightarrow> time \<Rightarrow> refund_stripe \<Rightarrow> ident \<Rightarrow> ident \<Rightarrow> ident \<Rightarrow> refund_input \<Rightarrow> db \<Rightarrow> db \<times> sale result" where
  "refundSale ops dev now st newId saleId storeId input s =
     (case claimRefundInDb ops now newId saleId storeId input s of
        Inl e \<Rightarrow> (s, Inl e)
      | Inr (s1, claim) \<Rightarrow>
          (case find_sale saleId s1 of
             None \<Rightarrow> (s1, Inl RecordNotFound)
           | Some x \<Rightarrow>
               if s_paymentMethod x = Some CASH then
                 (case finalizeSucceededRefund dev now (rfc_refundId claim) s1 of
                    Inl e \<Rightarrow> (s1, Inl e)
                  | Inr (s2, y) \<Rightarrow> (s2, Inr y))
               else if getStripe st \<noteq> Inr () then (s1, Inl (projl (getStripe st)))
               else
                 (case refund_via_stripe dev now st x claim s1 of
                    (s2, Inr y) \<Rightarrow> (s2, Inr y)
                  | (s2, Inl e) \<Rightarrow>
                      (let stripeId = (case find_refund (rfc_refundId claim) s2 of
                                         None \<Rightarrow> None | Some r \<Rightarrow> r_stripeRefundId r);
                           s3 = (if truthy stripeId then s2
                                 else case abortFailedRefund now (rfc_refundId claim) s2 of
                                        Inl e' \<Rightarrow> s2 | Inr (s', _) \<Rightarrow> s')
                       in (s3, Inl (case e of
                             AppError c m \<Rightarrow> AppError c m
                           | _ \<Rightarrow> AppError 500
                               (if truthy stripeId
                                then ''Stripe refund recorded; finalizing inventory - reconciliation will complete if needed''
                                else ''Unable to refund sale'')))))))"

section \<open>Reconciling stuck claims\<close>

definition REFUNDING_RECONCILE_AFTER_MS :: int where
  "REFUNDING_RECONCILE_AFTER_MS = 2 * 60 * 1000"

datatype reconcile_outcome = Finalized | Aborted | Pending

definition pending_refund_of :: "sale \<Rightarrow> db \<Rightarrow> sale_refund option" where
  "pending_refund_of x s =
     (case (case s_pendingRefundId x of None \<Rightarrow> None | Some i \<Rightarrow> find_refund i s) of
        Some r \<Rightarrow> Some r
      | None \<Rightarrow>
          (case sort_key (\<lambda>r. - r_createdAt r)
                  (filter (\<lambda>r. r_saleId r = s_id x \<and> r_status r = RefundPENDING) (db_refunds s)) of
             [] \<Rightarrow> None | r # _ \<Rightarrow> Some r))"

text \<open>Stripe's status of the refund, after noting the Stripe id of a match found by listing.\<close>

definition remote_status :: "refund_stripe \<Rightarrow> sale \<Rightarrow> sale_refund \<Rightarrow> db \<Rightarrow> (db \<times> string option) result" where
  "remote_status st x refund s =
     bindE (getStripe st) (\<lambda>_.
     if truthy (r_stripeRefundId refund)
      then bindE (rs_status st (the (r_stripeRefundId refund))) (\<lambda>v. Inr (s, Some v))
      else
        bindE (resolvePaymentIntentId st x) (\<lambda>i.
        bindE (rs_list st i) (\<lambda>rows.
        case List.find (\<lambda>(_, _, m). m = Some (r_id refund)) rows of
          None \<Rightarrow> Inr (s, None)
        | Some (sid, v, _) \<Rightarrow>
            bindE (refund_update (r_id refund) (\<lambda>r. r\<lparr>r_stripeRefundId := Some sid\<rparr>) s) (\<lambda>s1.
            Inr (s1, Some v)))))"

definition reconcileRefundingSale ::
  "bool \<Rightarrow> time \<Rightarrow> refund_stripe \<Rightarrow> ident \<Rightarrow> db \<Rightarrow> db \<times> reconcile_outcome result" where
  "reconcileRefundingSale dev now st saleId s =
     (case find_sale saleId s of
        None \<Rightarrow> (s, Inr Pending)
      | Some x \<Rightarrow>
          if s_paymentStatus x \<noteq> PayREFUNDING then (s, Inr Pending)
          else case pending_refund_of x s of
            None \<Rightarrow>
              (case sale_update saleId (\<lambda>y. y\<lparr>s_paymentStatus := PayPAID, s_pendingRefundId := None\<rparr>) s of
                 Inl e \<Rightarrow> (s, Inl e) | Inr s1 \<Rightarrow> (s1, Inr Aborted))
          | Some refund \<Rightarrow>
              (case remote_status st x refund s of
                 Inl e \<Rightarrow> (s, Inl e)
               | Inr (s1, status) \<Rightarrow>
                   (let abort = (case abortFailedRefund now (r_id refund) s1 of
                                   Inl e \<Rightarrow> (s1, Inl e) | Inr (s2, _) \<Rightarrow> (s2, Inr Aborted))
                    in
                    if status = Some ''succeeded'' then
                      (case finalizeSucceededRefund dev now (r_id refund) s1 of
                         Inl e \<Rightarrow> (s1, Inl e) | Inr (s2, _) \<Rightarrow> (s2, Inr Finalized))
                    else if status = Some ''failed'' \<or> status = Some ''canceled'' then abort
                    else if \<not> truthy status \<and> now - r_createdAt refund \<ge> REFUNDING_RECONCILE_AFTER_MS
                    then abort
                    else (s1, Inr Pending))))"

record reconcile_report =
  rcr_finalized :: "ident list"
  rcr_aborted :: "ident list"
  rcr_pending :: "ident list"

definition stuck_sales :: "time \<Rightarrow> db \<Rightarrow> sale list" where
  "stuck_sales now s =
     (let cutoff = now - REFUNDING_RECONCILE_AFTER_MS;
          pending = (\<lambda>x. filter (\<lambda>r. r_saleId r = s_id x \<and> r_status r = RefundPENDING) (db_refunds s))
      in take 50 (sort_key s_createdAt
           (filter (\<lambda>x. s_paymentStatus x = PayREFUNDING
                        \<and> (list_ex (\<lambda>r. r_createdAt r \<le> cutoff) (pending x)
                            \<or> s_pendingRefundId x = None \<and> pending x = [])) (db_sales s))))"

definition reconcile_one ::
  "bool \<Rightarrow> time \<Rightarrow> refund_stripe \<Rightarrow> sale \<Rightarrow> db \<times> reconcile_report \<Rightarrow> db \<times> reconcile_report" where
  "reconcile_one dev now st x acc =
     (let (s, r) = acc in
      case reconcileRefundingSale dev now st (s_id x) s of
        (s1, Inr Finalized) \<Rightarrow> (s1, r\<lparr>rcr_finalized := rcr_finalized r @ [s_id x]\<rparr>)
      | (s1, Inr Aborted) \<Rightarrow> (s1, r\<lparr>rcr_aborted := rcr_aborted r @ [s_id x]\<rparr>)
      | (s1, Inr Pending) \<Rightarrow> (s1, r\<lparr>rcr_pending := rcr_pending r @ [s_id x]\<rparr>)
      | (s1, Inl e) \<Rightarrow> (s1, r\<lparr>rcr_pending := rcr_pending r @ [s_id x]\<rparr>))"

definition runReconcileRefundingSalesOnce ::
  "bool \<Rightarrow> time \<Rightarrow> refund_stripe \<Rightarrow> db \<Rightarrow> db \<times> reconcile_report" where
  "runReconcileRefundingSalesOnce dev now st s =
     foldl (\<lambda>acc x. reconcile_one dev now st x acc)
       (s, \<lparr>rcr_finalized = [], rcr_aborted = [], rcr_pending = []\<rparr>) (stuck_sales now s)"

end
