(* ===== verification/Lot_Ops.thy ===== *)
theory Lot_Ops
  imports Sale_Invariant Stock_Lots
begin

text \<open>
  The single-lot operations of the stock engine, seen from the services that call them one lot after
  the other (inventory, expiry, recalls, counts). The interface \<open>lot_op\<close> says what such an
  operation does to the row it is given and that it keeps the system invariant; a loop over the
  lots of a request then changes exactly those rows. It is interpreted on leaving the sellable
  stock, on returning to it, and on the depletion of a recalled lot.
\<close>

section \<open>Lots and the products they belong to\<close>

text \<open>The foreign keys of a lot: its product exists, in the store the lot is in.\<close>

definition lots_placed :: "db \<Rightarrow> bool" where
  "lots_placed s \<longleftrightarrow>
     (\<forall>l \<in> set (db_lots s). l_productId l \<noteq> []
        \<and> (l_productId l, l_storeId l) \<in> (\<lambda>p. (p_id p, p_storeId p)) ` set (db_products s))"

lemma lots_placed_frame:
  assumes "stock_frame s t" shows "lots_placed t \<longleftrightarrow> lots_placed s"
proof -
  have "set (map product_key (db_products t)) = set (map product_key (db_products s))"
    "set (map lot_key (db_lots t)) = set (map lot_key (db_lots s))"
    by (simp_all only: stock_frame_keys [OF assms])
  then have k: "product_key ` set (db_products t) = product_key ` set (db_products s)"
    "lot_key ` set (db_lots t) = lot_key ` set (db_lots s)" by simp_all
  have "lots_placed u \<longleftrightarrow> (\<forall>(i, pid, st) \<in> lot_key ` set (db_lots u).
      pid \<noteq> [] \<and> (pid, st) \<in> product_key ` set (db_products u))" for u
    by (auto simp: lots_placed_def lot_key_def product_key_def)
  from this [of t] this [of s] show ?thesis by (simp only: k)
qed

lemma lots_placed_cong:
  "db_lots t = db_lots s \<Longrightarrow> db_products t = db_products s \<Longrightarrow> lots_placed t = lots_placed s"
  by (simp add: lots_placed_def)

lemma placed_product:
  assumes "lots_placed s" "l \<in> set (db_lots s)"
  obtains p :: product where "p \<in> set (db_products s)" "p_id p = l_productId l" "p_storeId p = l_storeId l" "p_id p \<noteq> []"
  using assms by (auto simp: lots_placed_def)

lemma set_single: "set xs = {x} \<Longrightarrow> distinct xs \<Longrightarrow> xs = [x]"
proof (cases xs)
  case (Cons y ys)
  assume "set xs = {x}" "distinct xs"
  then have "y = x" "set ys \<subseteq> {x}" "x \<notin> set ys" using Cons by auto
  then have "set ys = {}" using subset_singletonD [of "set ys" x] by auto
  then show ?thesis using Cons \<open>y = x\<close> by simp
qed simp

text \<open>A lock query for one row finds that row and no other.\<close>

lemma lockProducts_one:
  assumes "sys_inv s" "p \<in> set (db_products s)" "p_id p \<noteq> []"
  shows "lockProducts [p_id p] s = [p]"
proof -
  have d: "distinct (map p_id (db_products s))" using sys_invD(8) [OF assms(1)] .
  have "set (lockProducts [p_id p] s) = {p}"
    using assms(2,3) d by (auto simp: set_lockProducts distinct_map inj_on_def)
  moreover have "distinct (lockProducts [p_id p] s)"
    using distinct_lockProducts [OF d, of "[p_id p]"] by (simp add: distinct_map)
  ultimately show ?thesis by (rule set_single)
qed

lemma lockLots_one:
  assumes "sys_inv s" "l \<in> set (db_lots s)"
  shows "lockLots [l_id l] s = [l]"
proof -
  have d: "distinct (map l_id (db_lots s))" using sys_invD(7) [OF assms(1)] .
  have "set (lockLots [l_id l] s) = {l}"
    using assms(2) d sys_invD(6) [OF assms] by (auto simp: set_lockLots distinct_map inj_on_def)
  moreover have "distinct (lockLots [l_id l] s)"
    using distinct_lockLots [OF d, of "[l_id l]"] by (simp add: distinct_map)
  ultimately show ?thesis by (rule set_single)
qed

section \<open>One lot moved\<close>

lemma frame_sys_inv:
  assumes "sys_inv s" "stock_inv (held s) t" "stock_frame s t"
  shows "sys_inv t"
proof -
  have sales: "db_sales t = db_sales s" using stock_frame_tables(1) [OF assms(3)] .
  have "held t = held s" using sales by (simp add: held_def fun_eq_iff)
  moreover have "l_id l \<noteq> []" if "l \<in> set (db_lots t)" for l
  proof -
    have "l_id l \<in> l_id ` set (db_lots s)" using that frame_ids(3) [OF assms(3)] by auto
    then obtain k where "k \<in> set (db_lots s)" "l_id l = l_id k" by blast
    then show ?thesis using sys_invD(6) [OF assms(1)] by simp
  qed
  ultimately show ?thesis
    using assms sales sale_ok_frame [OF assms(3)] by (simp add: sys_inv_def)
qed

lemma moved_frame:
  assumes "sys_inv s" "lot_of product lot s" "lot_key (f lot) = lot_key lot"
  shows "stock_frame s (moved lot f product d s)"
proof -
  have "stock_frame s (s\<lparr>db_lots := upd_row l_id (l_id lot) f (db_lots s)\<rparr>)"
    by (rule lot_frame_upd) (use assms sys_invD(7) in \<open>simp_all add: lot_of_def\<close>)
  moreover have "stock_frame (s\<lparr>db_lots := upd_row l_id (l_id lot) f (db_lots s)\<rparr>) (moved lot f product d s)"
    using product_frame_upd [of "\<lambda>p. p\<lparr>p_stock := p_stock p + d\<rparr>"
        "s\<lparr>db_lots := upd_row l_id (l_id lot) f (db_lots s)\<rparr>" "p_id product"]
    by (simp add: moved_def product_key_def)
  ultimately show ?thesis by (rule stock_frame_trans)
qed

lemma moved_sys_inv:
  assumes "sys_inv s" "lot_of product lot s" "lot_key (f lot) = lot_key lot"
    and "stock_inv (held s) (moved lot f product d s)"
  shows "sys_inv (moved lot f product d s)"
  by (rule frame_sys_inv [OF assms(1,4)], rule moved_frame) (fact assms)+

lemma moved_lots: "db_lots (moved lot f product d s) = upd_row l_id (l_id lot) f (db_lots s)"
  by (simp add: moved_def)

section \<open>The interface of a single-lot operation\<close>

locale lot_op =
  fixes op :: "product \<Rightarrow> lot \<Rightarrow> db \<Rightarrow> (db \<times> int) result"
    and pre :: "lot \<Rightarrow> bool" and upd :: "lot \<Rightarrow> lot" and units :: "lot \<Rightarrow> int"
  assumes op_ok: "sys_inv s \<Longrightarrow> lot_of p l s \<Longrightarrow> pre l \<Longrightarrow>
      \<exists>d. op p l s = Inr (moved l upd p d s, units l) \<and> sys_inv (moved l upd p d s)"
    and op_product: "p_id p = p_id q \<Longrightarrow> op p l s = op q l s"
    and upd_key: "lot_key (upd l) = lot_key l"
begin

text \<open>The body of a loop: the operation, then the write-off rows it gives rise to.\<close>

definition body :: "(lot \<Rightarrow> int \<Rightarrow> write_off list) \<Rightarrow> product \<times> lot \<Rightarrow> db \<Rightarrow> db result" where
  "body rows_of row s =
     bindE (op (fst row) (snd row) s) (\<lambda>(s1, n). Inr (s1\<lparr>db_writeOffs := db_writeOffs s1 @ rows_of (snd row) n\<rparr>))"

lemma op_step:
  assumes s: "sys_inv s" and l: "l \<in> set (db_lots s)" "pre l"
    and p: "\<exists>q \<in> set (db_products s). p_id q = p_id p" "l_productId l = p_id p"
  shows "\<exists>t. op p l s = Inr (t, units l) \<and> sys_inv t \<and> stock_frame s t
      \<and> db_lots t = upd_row l_id (l_id l) upd (db_lots s)"
proof -
  obtain q :: product where q: "q \<in> set (db_products s)" "p_id q = p_id p" using p(1) by auto
  have rows: "lot_of q l s" using q l p(2) by (simp add: lot_of_def)
  obtain d where "op q l s = Inr (moved l upd q d s, units l)" "sys_inv (moved l upd q d s)"
    using op_ok [OF s rows l(2)] by auto
  then show ?thesis
    using op_product [of q p l s] q(2) moved_frame [where f = upd, OF s rows upd_key] by (auto simp: moved_lots)
qed

text \<open>
  A loop over rows that name distinct lots of the database: it returns, every named lot is updated
  once, no other lot changes, the write-offs are appended in order, nothing else but product
  counters changes, the invariant is kept.
\<close>

lemma loop_ok:
  assumes s: "sys_inv s" and d: "distinct (map (l_id \<circ> snd) rs)"
    and rows: "\<forall>(p, l) \<in> set rs. l \<in> set (db_lots s) \<and> pre l \<and> l_productId l = p_id p
        \<and> p_id p \<in> p_id ` set (db_products s)"
  shows "\<exists>ps. forE rs (body rows_of) s = Inr (s\<lparr>db_products := ps,
        db_lots := map (\<lambda>l. if l_id l \<in> set (map (l_id \<circ> snd) rs) then upd l else l) (db_lots s),
        db_writeOffs := db_writeOffs s @ concat (map (\<lambda>r. rows_of (snd r) (units (snd r))) rs)\<rparr>)
      \<and> map product_key ps = map product_key (db_products s)
      \<and> sys_inv (s\<lparr>db_products := ps,
        db_lots := map (\<lambda>l. if l_id l \<in> set (map (l_id \<circ> snd) rs) then upd l else l) (db_lots s),
        db_writeOffs := db_writeOffs s @ concat (map (\<lambda>r. rows_of (snd r) (units (snd r))) rs)\<rparr>)"
  using s d rows
proof (induction rs arbitrary: s)
  case Nil
  have "s\<lparr>db_products := db_products s, db_lots := db_lots s, db_writeOffs := db_writeOffs s\<rparr> = s" by simp
  then show ?case using Nil.prems(1) by (intro exI [of _ "db_products s"]) simp
next
  case (Cons row rs)
  obtain p l where r: "row = (p, l)" by (cases row)
  have l: "l \<in> set (db_lots s)" "pre l" "l_productId l = p_id p" "\<exists>q \<in> set (db_products s). p_id q = p_id p"
    using Cons.prems(3) r by (auto simp: image_iff)
  obtain t where t: "op p l s = Inr (t, units l)" "sys_inv t" "stock_frame s t"
      "db_lots t = upd_row l_id (l_id l) upd (db_lots s)"
    using op_step [OF Cons.prems(1) l(1,2,4,3)] by blast
  obtain qs ls where qs: "t = s\<lparr>db_products := qs, db_lots := ls\<rparr>" "map product_key qs = map product_key (db_products s)"
    using t(3) by (auto simp: stock_frame_def)
  define u where "u = s\<lparr>db_products := qs, db_lots := ls, db_writeOffs := db_writeOffs s @ rows_of l (units l)\<rparr>"
  have u: "db_lots u = ls" "db_products u = qs" "db_writeOffs u = db_writeOffs s @ rows_of l (units l)"
    by (simp_all add: u_def)
  have ls: "ls = upd_row l_id (l_id l) upd (db_lots s)" using t(4) qs(1) by simp
  have inv: "sys_inv u" by (rule sys_inv_cong [OF t(2)]) (simp_all add: u_def qs(1))
  have "fst ` set (map product_key qs) = fst ` set (map product_key (db_products s))" by (simp only: qs(2))
  then have ids: "p_id ` set (db_products u) = p_id ` set (db_products s)"
    using u(2) by (simp add: product_key_def image_image)
  have keep: "\<forall>(p, k) \<in> set rs. k \<in> set (db_lots u) \<and> pre k \<and> l_productId k = p_id p
        \<and> p_id p \<in> p_id ` set (db_products u)"
  proof (clarify)
    fix p' k assume k: "(p', k) \<in> set rs"
    then have "l_id k \<noteq> l_id l" using Cons.prems(2) r by force
    moreover have k': "k \<in> set (db_lots s)" "pre k \<and> l_productId k = p_id p'" "p_id p' \<in> p_id ` set (db_products s)"
      using Cons.prems(3) k by auto
    ultimately show "k \<in> set (db_lots u) \<and> pre k \<and> l_productId k = p_id p' \<and> p_id p' \<in> p_id ` set (db_products u)"
      using u(1) ls ids by (auto simp: in_upd_row)
  qed
  let ?done = "\<lambda>s rs ps. s\<lparr>db_products := ps,
        db_lots := map (\<lambda>l. if l_id l \<in> set (map (l_id \<circ> snd) rs) then upd l else l) (db_lots s),
        db_writeOffs := db_writeOffs s @ concat (map (\<lambda>r. rows_of (snd r) (units (snd r))) rs)\<rparr>"
  have "distinct (map (l_id \<circ> snd) rs)" using Cons.prems(2) by (simp add: comp_def)
  from Cons.IH [OF inv this keep] obtain ps where v: "forE rs (body rows_of) u = Inr (?done u rs ps)"
      "map product_key ps = map product_key (db_products u)" "sys_inv (?done u rs ps)" by blast
  have lots: "map (\<lambda>l. if l_id l \<in> set (map (l_id \<circ> snd) rs) then upd l else l) (db_lots u)
      = map (\<lambda>k. if l_id k \<in> set (map (l_id \<circ> snd) (row # rs)) then upd k else k) (db_lots s)"
  proof -
    have key: "l_id (upd k) = l_id k" for k using upd_key [of k] by (simp add: lot_key_def)
    have "l_id l \<notin> l_id ` snd ` set rs" using Cons.prems(2) r by (auto simp: image_iff)
    then show ?thesis unfolding u(1) ls upd_row_def using r key by (auto simp: image_image)
  qed
  have "?done u rs ps = ?done s (row # rs) ps"
    unfolding lots u(3) by (simp add: r u_def)
  moreover have "body rows_of row s = Inr u" by (simp add: body_def r u_def t(1) qs(1))
  ultimately show ?case using v qs(2) u(2) by (intro exI [of _ ps]) simp
qed

end

section \<open>The operations of the engine\<close>

text \<open>Of the product row the operations use the identifier only.\<close>

lemma op_product:
  assumes "p_id p = p_id q"
  shows "leaveSellableRollup dev p l st s = leaveSellableRollup dev q l st s"
    and "recallDepleteLot dev p l s = recallDepleteLot dev q l s"
    and "returnToSellableRollup dev p l s = returnToSellableRollup dev q l s"
  unfolding leaveSellableRollup_def recallDepleteLot_def returnToSellableRollup_def
    assertLotOps_def assertLotsBelongToProduct_def assms by (rule refl)+

interpretation leave: lot_op "\<lambda>p l. leaveSellableRollup dev p l st"
    "\<lambda>l. l_quantityReserved l = 0 \<and> st \<noteq> LotACTIVE \<and> st \<noteq> LotDEPLETED"
    "\<lambda>l. l\<lparr>l_status := st\<rparr>" "\<lambda>l. active_remaining (l_productId l) l" for dev st
proof unfold_locales
  fix s p l assume s: "sys_inv s" and rows: "lot_of p l s"
    and pre: "l_quantityReserved l = 0 \<and> st \<noteq> LotACTIVE \<and> st \<noteq> LotDEPLETED"
  let ?d = "- active_remaining (l_productId l) l"
  have eq: "leaveSellableRollup dev p l st s
      = Inr (moved l (\<lambda>l. l\<lparr>l_status := st\<rparr>) p ?d s, active_remaining (l_productId l) l)"
    using leaveSellableRollup_ok(1) [OF sys_invD(1) [OF s] rows, of st dev] pre by simp
  have inv: "stock_inv (held s) (moved l (\<lambda>l. l\<lparr>l_status := st\<rparr>) p ?d s)"
    using leaveSellableRollup_ok(2) [OF sys_invD(1) [OF s] rows, of st] pre by simp
  have "sys_inv (moved l (\<lambda>l. l\<lparr>l_status := st\<rparr>) p ?d s)"
    by (rule moved_sys_inv [OF s rows _ inv]) (simp add: lot_key_def)
  with eq show "\<exists>d. leaveSellableRollup dev p l st s
      = Inr (moved l (\<lambda>l. l\<lparr>l_status := st\<rparr>) p d s, active_remaining (l_productId l) l)
      \<and> sys_inv (moved l (\<lambda>l. l\<lparr>l_status := st\<rparr>) p d s)" by blast
qed (rule op_product, assumption, simp add: lot_key_def)

interpretation recall_deplete: lot_op "recallDepleteLot dev" "\<lambda>l. l_status l \<noteq> LotACTIVE"
    "\<lambda>l. l\<lparr>l_quantityRemaining := 0, l_status := LotRECALLED\<rparr>" l_quantityRemaining for dev
proof unfold_locales
  fix s p l assume s: "sys_inv s" and rows: "lot_of p l s" and pre: "l_status l \<noteq> LotACTIVE"
  let ?f = "\<lambda>l. l\<lparr>l_quantityRemaining := 0, l_status := LotRECALLED\<rparr>"
  note * = recallDepleteLot_ok [OF sys_invD(1) [OF s] rows pre]
  have "sys_inv (moved l ?f p 0 s)"
    by (rule moved_sys_inv [OF s rows _ *(2)]) (simp add: lot_key_def)
  with *(1) show "\<exists>d. recallDepleteLot dev p l s = Inr (moved l ?f p d s, l_quantityRemaining l)
      \<and> sys_inv (moved l ?f p d s)" by blast
qed (rule op_product, assumption, simp add: lot_key_def)

definition return_op :: "bool \<Rightarrow> product \<Rightarrow> lot \<Rightarrow> db \<Rightarrow> (db \<times> int) result" where
  "return_op dev p l s = bindE (returnToSellableRollup dev p l s) (\<lambda>t. Inr (t, 0))"

lemma returnToSellableRollup_moved:
  assumes s: "stock_inv h s" and rows: "lot_of product lot s" and q: "l_status lot = LotQUARANTINED"
  shows "returnToSellableRollup dev product lot s
      = Inr (moved lot (\<lambda>l. l\<lparr>l_status := LotACTIVE\<rparr>) product (l_quantityRemaining lot) s)"
proof -
  have own: "assertLotOps dev product [lot] [l_id lot] = Inr ()"
    by (rule assertLotOps_one) (use rows in \<open>simp add: lot_of_def\<close>)
  have ok: "lot_ok lot" using lot_inv_row [OF s] rows by (simp add: lot_of_def)
  show ?thesis
    using moved_steps' [OF s rows, of True "\<lambda>l. l\<lparr>l_status := LotACTIVE\<rparr>"
          "l_quantityRemaining lot > 0" "l_quantityRemaining lot"] q ok
    unfolding returnToSellableRollup_def own bindE_simps by (simp add: lot_ok_def)
qed

interpretation return_sale: lot_op "return_op dev" "\<lambda>l. l_status l = LotQUARANTINED"
    "\<lambda>l. l\<lparr>l_status := LotACTIVE\<rparr>" "\<lambda>_. 0" for dev
proof unfold_locales
  fix s p l assume s: "sys_inv s" and rows: "lot_of p l s" and pre: "l_status l = LotQUARANTINED"
  let ?f = "\<lambda>l. l\<lparr>l_status := LotACTIVE\<rparr>"
  have eq: "returnToSellableRollup dev p l s = Inr (moved l ?f p (l_quantityRemaining l) s)"
    by (rule returnToSellableRollup_moved [OF sys_invD(1) [OF s] rows pre])
  have inv: "stock_inv (held s) (moved l ?f p (l_quantityRemaining l) s)"
    using returnToSellableRollup_ok [OF sys_invD(1) [OF s] rows, of dev] eq by simp
  have "sys_inv (moved l ?f p (l_quantityRemaining l) s)"
    by (rule moved_sys_inv [OF s rows _ inv]) (simp add: lot_key_def)
  with eq show "\<exists>d. return_op dev p l s = Inr (moved l ?f p d s, 0) \<and> sys_inv (moved l ?f p d s)"
    by (auto simp: return_op_def)
qed (simp only: return_op_def, rule arg_cong [where f = "\<lambda>r. bindE r (\<lambda>t. Inr (t, 0))"], rule op_product,
    assumption, simp add: lot_key_def)

end
