(* ===== verification/Refund_Proofs.thy ===== *)
theory Refund_Proofs
  imports Refunds Lot_Ops Lot_Units
begin

text \<open>
  Correctness of refunds: the amount is positive and never exceeds what is left of the sale, a full
  refund settles customer and operator to the cent, returned units go to exactly the lots they came
  from whatever the sequence of partial refunds, and the protocol keeps the money and stock
  invariants. Two theorems record where it gets stuck.
\<close>

section \<open>The example\<close>

text \<open>The cash sale of the example cart (four apples, one loaf), and the same with exact decimals.\<close>

definition ex_ops :: decimal_ops where
  "ex_ops = \<lparr>dmul = (*), ddiv = (/)\<rparr>"

definition ex_sale :: sale where
  "ex_sale =
     \<lparr>s_id = ''X1'', s_storeId = ''S1'', s_cashierId = ''U1'', s_memberId = Some ''M1'',
      s_subtotalBeforeDiscount = 13, s_subtotal = 11, s_discountAmount = 2, s_memberDiscountAmount = 3/2,
      s_memberDiscountBearer = BearerCOOP, s_taxAmount = 52/100, s_total = 1152/100, s_operatorPercent = 10,
      s_operatorAmount = 13/10, s_operatorBaseSnapshot = Some 13, s_coopAmount = 97/10, s_paymentStatus = PayPAID,
      s_paymentMethod = Some CASH, s_cardLast4 = None, s_stripePaymentIntentId = None,
      s_stripeCheckoutSessionId = None, s_refundedAmount = 0, s_refundedOperatorAmount = 0,
      s_pendingRefundId = None, s_paidAt = Some 50, s_refundedAt = None, s_reservationExpiresAt = None,
      s_idempotencyKey = Some ''key1'', s_createdAt = 50,
      s_items =
        [\<lparr>si_id = ''I1'', si_productId = ''P1'', si_skuSnapshot = ''APL'', si_nameSnapshot = ''Apples'',
          si_priceSnapshot = 2, si_quantity = 4, si_discountAmount = 3/2, si_benefitId = Some ''B2'',
          si_benefitDiscountAmount = 1, si_discountReason = Some ''bruised'', si_taxAmount = 52/100,
          si_taxExempt = False, si_refundedQuantity = 0,
          si_lotAllocations = [\<lparr>a_lotId = ''L1'', a_quantity = 3, a_unitCost = 1\<rparr>,
                               \<lparr>a_lotId = ''L2'', a_quantity = 1, a_unitCost = 1\<rparr>]\<rparr>,
         \<lparr>si_id = ''I2'', si_productId = ''P2'', si_skuSnapshot = ''BRD'', si_nameSnapshot = ''Bread'',
          si_priceSnapshot = 5, si_quantity = 1, si_discountAmount = 1/2, si_benefitId = Some ''B1'',
          si_benefitDiscountAmount = 1/2, si_discountReason = None, si_taxAmount = 0, si_taxExempt = True,
          si_refundedQuantity = 0,
          si_lotAllocations = [\<lparr>a_lotId = ''L3'', a_quantity = 1, a_unitCost = 1\<rparr>]\<rparr>]\<rparr>"

definition ex_paid :: db where
  "ex_paid = ex_db
     \<lparr>db_products := [ex_apples\<lparr>p_stock := 6\<rparr>, ex_bread\<lparr>p_stock := 3\<rparr>],
      db_lots := [(ex_lot ''L1'' ''P1'' (Some 100) 3)\<lparr>l_quantityRemaining := 0, l_status := LotDEPLETED\<rparr>,
                  (ex_lot ''L2'' ''P1'' (Some 200) 7)\<lparr>l_quantityRemaining := 6\<rparr>,
                  (ex_lot ''L3'' ''P2'' None 4)\<lparr>l_quantityRemaining := 3\<rparr>],
      db_usages := [\<lparr>bu_memberId = ''M1'', bu_benefitId = ''B2'', bu_saleId = ''X1'', bu_amountSaved = 1, bu_usedAt = 50\<rparr>,
                    \<lparr>bu_memberId = ''M1'', bu_benefitId = ''B1'', bu_saleId = ''X1'', bu_amountSaved = 1/2, bu_usedAt = 50\<rparr>],
      db_sales := [ex_sale],
      db_audit := [\<lparr>au_userId = Some ''U1'', au_storeId = Some ''S1'', au_action = ''SALE_MANUAL_DISCOUNT'',
                    au_entityType = ''Sale'', au_entityId = Some ''X1''\<rparr>]\<rparr>"

lemma ex_paid_created: "fst (createSale ex_env ''S1'' ex_admin (ex_input CASH) ex_db ex_db) = ex_paid"
  by code_simp

lemma ex_paid_inv: "sys_inv ex_paid"
  using createSale_inv [OF ex_db_inv, of "ex_input CASH" ex_env "''S1''" ex_admin ex_db]
  by (simp add: ex_paid_created [symmetric] ex_input_def) (metis prod.collapse)

definition ex_refund_input :: "bool \<Rightarrow> refund_input" where
  "ex_refund_input restock =
     \<lparr>rf_items = Some [\<lparr>ri_saleItemId = ''I1'', ri_quantity = 2\<rparr>], rf_restock = restock, rf_createdByUserId = None\<rparr>"

definition ex_claim :: refund_claim where
  "ex_claim = \<lparr>rfc_refundId = ''R1'', rfc_amount = 351/100, rfc_operatorAmount = 4/10, rfc_restock = True\<rparr>"

definition ex_pending_refund :: sale_refund where
  "ex_pending_refund =
     \<lparr>r_id = ''R1'', r_saleId = ''X1'', r_amount = 351/100, r_operatorAmount = 4/10, r_restock = True,
      r_status = RefundPENDING, r_stripeRefundId = None, r_createdByUserId = None, r_createdAt = 70,
      r_completedAt = None, r_lines = [\<lparr>rl_saleItemId = ''I1'', rl_quantity = 2\<rparr>]\<rparr>"

definition ex_refunding :: sale where
  "ex_refunding = ex_sale\<lparr>s_paymentStatus := PayREFUNDING, s_pendingRefundId := Some ''R1''\<rparr>"

definition ex_claimed :: db where
  "ex_claimed = ex_paid\<lparr>db_sales := [ex_refunding], db_refunds := [ex_pending_refund]\<rparr>"

lemma ex_claimed_result:
  "claimRefundInDb ex_ops 70 ''R1'' ''X1'' ''S1'' (ex_refund_input True) ex_paid = Inr (ex_claimed, ex_claim)"
  by code_simp

section \<open>Amounts\<close>

lemma planRefundLines_Inr:
  assumes "planRefundLines ops x req = Inr plan"
  defines "left \<equiv> moneyDec (moneyDec (s_total x) - moneyDec (s_refundedAmount x))"
  obtains specs where "rp_lines plan = map (plan_line ops) specs" "specs \<noteq> []"
    "0 < rp_amount plan" "rp_amount plan \<le> left"
    "refunds_all_remaining (s_items x) (rp_lines plan) \<Longrightarrow>
       rp_amount plan = left \<and> rp_operatorAmount plan = moneyDec (s_operatorAmount x - s_refundedOperatorAmount x)"
    "(req = None \<or> req = Some []) \<and> specs = all_remaining (s_items x)
     \<or> (\<exists>rows. req = Some rows \<and> requested_specs (s_items x) [] rows = Inr specs)"
  using assms(1)
  by (fastforce simp: planRefundLines_def left_def Let_def bindE_Inr_iff split: if_splits option.splits list.splits)

text \<open>
  C35: the amount of a planned refund is positive and never more than the part of the total not
  refunded yet; when the plan covers every unit that is left, the customer gets exactly that part,
  and the operator loses exactly what he still holds of his share.
\<close>

theorem refund_amount_bounds:
  assumes "planRefundLines ops x req = Inr plan" "is_money (s_total x)" "is_money (s_refundedAmount x)"
    and "is_money (s_operatorAmount x)" "is_money (s_refundedOperatorAmount x)"
  shows "0 < rp_amount plan \<and> rp_amount plan \<le> s_total x - s_refundedAmount x
    \<and> (refunds_all_remaining (s_items x) (rp_lines plan) \<longrightarrow>
         rp_amount plan = s_total x - s_refundedAmount x
         \<and> rp_operatorAmount plan = s_operatorAmount x - s_refundedOperatorAmount x)"
proof -
  have "moneyDec (moneyDec (s_total x) - moneyDec (s_refundedAmount x)) = s_total x - s_refundedAmount x"
      "moneyDec (s_operatorAmount x - s_refundedOperatorAmount x) = s_operatorAmount x - s_refundedOperatorAmount x"
    using assms(2-5) by (simp_all add: has_dp_diff)
  then show ?thesis using planRefundLines_Inr [OF assms(1)] by metis
qed

definition ex_plan :: refund_plan where
  "ex_plan = \<lparr>rp_lines = [\<lparr>rp_saleItemId = ''I1'', rp_productId = ''P1'', rp_quantity = 2,
     rp_lineAmount = 351/100, rp_lineNet = 325/100, rp_lineGross = 4\<rparr>], rp_amount = 351/100, rp_operatorAmount = 4/10\<rparr>"

lemma moneyDec_fixed: "moneyDec x = x \<Longrightarrow> is_money x"
  by (metis moneyDec_money)

theorem refund_amount_bounds_witness:
  "0 < rp_amount ex_plan \<and> rp_amount ex_plan \<le> s_total ex_sale - s_refundedAmount ex_sale"
proof -
  have plan: "planRefundLines ex_ops ex_sale (rf_items (ex_refund_input True)) = Inr ex_plan" by code_simp
  have "is_money (s_total ex_sale)" "is_money (s_refundedAmount ex_sale)" "is_money (s_operatorAmount ex_sale)"
      "is_money (s_refundedOperatorAmount ex_sale)"
    by (rule moneyDec_fixed, code_simp)+
  then show ?thesis using refund_amount_bounds [OF plan] by blast
qed

lemma requested_specs_ok:
  "requested_specs items seen rows = Inr specs \<Longrightarrow>
     (\<forall>(it, q) \<in> set specs. it \<in> set items \<and> 0 < q \<and> q \<le> si_remaining it)
     \<and> distinct (map (si_id \<circ> fst) specs) \<and> (si_id \<circ> fst) ` set specs \<inter> set seen = {}"
proof (induction items seen rows arbitrary: specs rule: requested_specs.induct)
  case (2 items seen row rows)
  let ?i = "ri_saleItemId row" and ?q = "\<lfloor>ri_quantity row\<rfloor>"
  obtain it rest where it: "find_row si_id ?i items = Some it" and q: "?q \<le> si_remaining it"
      and rest: "requested_specs items (?i # seen) rows = Inr rest" and specs: "specs = (it, ?q) # rest"
      and guards: "is_integer (ri_quantity row)" "0 < ri_quantity row" "?i \<notin> set seen"
    using "2.prems" by (auto simp: bindE_Inr_iff not_less not_le split: if_splits option.splits)
  have "0 < ?q" using guards(1,2) by (metis is_integer_def of_int_0_less_iff)
  then show ?case
    using "2.IH" [OF _ _ it _ rest] guards q find_row_SomeD [OF it] by (auto simp: specs)
qed simp

lemma all_remaining_ok:
  "distinct (map si_id items) \<Longrightarrow>
     (\<forall>(it, q) \<in> set (all_remaining items). it \<in> set items \<and> 0 < q \<and> q \<le> si_remaining it)
     \<and> distinct (map (si_id \<circ> fst) (all_remaining items))"
  by (auto simp: all_remaining_def comp_def distinct_map intro: inj_on_subset)

text \<open>
  A refund plan names lines of the sale, each at most once, with at least one unit and never
  more units than the line has left.
\<close>

theorem refund_quantities_bounded:
  assumes "planRefundLines ops x req = Inr plan" "distinct (map si_id (s_items x))"
  shows "distinct (map rp_saleItemId (rp_lines plan)) \<and> rp_lines plan \<noteq> []
    \<and> (\<forall>l \<in> set (rp_lines plan). \<exists>it \<in> set (s_items x). si_id it = rp_saleItemId l
          \<and> 0 < rp_quantity l \<and> rp_quantity l \<le> si_quantity it - si_refundedQuantity it)"
proof -
  obtain specs where sp: "rp_lines plan = map (plan_line ops) specs" "specs \<noteq> []"
      "(req = None \<or> req = Some []) \<and> specs = all_remaining (s_items x)
       \<or> (\<exists>rows. req = Some rows \<and> requested_specs (s_items x) [] rows = Inr specs)"
    using planRefundLines_Inr [OF assms(1)] by metis
  have ok: "(\<forall>(it, q) \<in> set specs. it \<in> set (s_items x) \<and> 0 < q \<and> q \<le> si_remaining it)
      \<and> distinct (map (si_id \<circ> fst) specs)"
  proof (rule disjE [OF sp(3)])
    assume "(req = None \<or> req = Some []) \<and> specs = all_remaining (s_items x)"
    then show ?thesis using all_remaining_ok [OF assms(2)] by simp
  next
    assume "\<exists>rows. req = Some rows \<and> requested_specs (s_items x) [] rows = Inr specs"
    then obtain rows where "requested_specs (s_items x) [] rows = Inr specs" by blast
    from requested_specs_ok [OF this] show ?thesis by blast
  qed
  have pl: "rp_saleItemId (plan_line ops spec) = si_id (fst spec)" "rp_quantity (plan_line ops spec) = snd spec" for spec
    by (simp_all add: plan_line_def Let_def split: prod.split)
  have "map rp_saleItemId (rp_lines plan) = map (si_id \<circ> fst) specs" by (simp add: sp(1) pl)
  then have "distinct (map rp_saleItemId (rp_lines plan))" using ok by (simp only:)
  moreover have "\<exists>it \<in> set (s_items x). si_id it = rp_saleItemId l
          \<and> 0 < rp_quantity l \<and> rp_quantity l \<le> si_quantity it - si_refundedQuantity it"
    if l: "l \<in> set (rp_lines plan)" for l
  proof -
    obtain it q where "(it, q) \<in> set specs" "l = plan_line ops (it, q)" using l sp(1) by auto
    then show ?thesis using ok by (auto simp: pl si_remaining_def)
  qed
  moreover have "rp_lines plan \<noteq> []" using sp(1,2) by simp
  ultimately show ?thesis by blast
qed

theorem refund_quantities_bounded_witness:
  "distinct (map rp_saleItemId (rp_lines ex_plan)) \<and> rp_lines ex_plan \<noteq> []"
proof -
  have plan: "planRefundLines ex_ops ex_sale (rf_items (ex_refund_input True)) = Inr ex_plan" by code_simp
  have "distinct (map si_id (s_items ex_sale))" by code_simp
  from refund_quantities_bounded [OF plan this] show ?thesis by metis
qed

section \<open>Units back to their lots\<close>

definition restored_on :: "lot_allocation list \<Rightarrow> int \<Rightarrow> int \<Rightarrow> ident \<Rightarrow> int" where
  "restored_on as skp q i = sum_rows (\<lambda>r. if fst r = i then snd r else 0) (fst (restore_loop as skp q))"

text \<open>What an allocation gives back: the overlap of its units with the units being returned.\<close>

definition give_back :: "lot_allocation \<Rightarrow> int \<Rightarrow> int \<Rightarrow> int" where
  "give_back a skp q = max 0 (min (a_quantity a - min (a_quantity a) skp) q)"

lemma restored_on_Nil [simp]: "restored_on [] skp q i = 0"
  by (simp add: restored_on_def)

lemma restored_on_done: "q \<le> 0 \<Longrightarrow> restored_on as skp q i = 0"
  by (cases as) (simp_all add: restored_on_def)

lemma restored_on_Cons:
  assumes "0 < q"
  shows "restored_on (a # as) skp q i
    = (if a_lotId a = i then give_back a skp q else 0)
      + restored_on as (skp - min (a_quantity a) skp) (q - give_back a skp q) i"
  using assms
  by (auto simp: restored_on_def give_back_def Let_def max_def split: prod.splits if_splits)

lemma restore_loop_step:
  assumes "0 < q" "sh = min (a_quantity a) skp" "re = min (a_quantity a - sh) q"
  shows "snd (restore_loop (a # as) skp q)
    = (if re \<le> 0 then snd (restore_loop as (skp - sh) q) else snd (restore_loop as (skp - sh) (q - re)))"
proof -
  obtain rs r where "restore_loop as (skp - sh) (q - re) = (rs, r)" by (metis surj_pair)
  moreover have "\<not> q \<le> 0" using assms(1) by simp
  ultimately show ?thesis
    unfolding restore_loop.simps Let_def assms(2) [symmetric] assms(3) [symmetric] by simp
qed

lemma restore_arith:
  assumes "0 \<le> A" "0 \<le> k" "0 < q" "0 \<le> T" "sh = min A k" "re = min (A - sh) (q::int)"
  shows "q - re - min (q - re) (max 0 (T - (k - sh))) = q - min q (max 0 (A + T - k))"
  using assms by (auto simp: min_def max_def split: if_splits)

lemma restore_loop_left:
  "\<forall>a \<in> set as. 0 \<le> a_quantity a \<Longrightarrow> 0 \<le> skp \<Longrightarrow> 0 \<le> q \<Longrightarrow>
     snd (restore_loop as skp q) = q - min q (max 0 (alloc_total as - skp))"
proof (induction as skp q rule: restore_loop.induct)
  case (2 a as skp q)
  show ?case
  proof (cases "q \<le> 0")
    case True
    then show ?thesis using 2 by simp
  next
    case False
    define sh where "sh = min (a_quantity a) skp"
    define re where "re = min (a_quantity a - sh) q"
    have tot: "0 \<le> alloc_total as"
      using "2.prems"(1) by (induction as) auto
    have b: "0 \<le> sh" "sh \<le> skp" "sh \<le> a_quantity a" "re \<le> q" "0 \<le> re"
      using "2.prems" False by (auto simp: sh_def re_def)
    show ?thesis
    proof (cases "re \<le> 0")
      case True
      then have "snd (restore_loop as (skp - sh) q) = q - min q (max 0 (alloc_total as - (skp - sh)))"
        using "2.IH"(1) [OF False refl refl refl] "2.prems" b by (simp add: sh_def re_def)
      moreover have "sh = a_quantity a" using True b False by (auto simp: re_def)
      ultimately show ?thesis
        using False True restore_loop_step [OF _ sh_def re_def, of as] by (simp add: algebra_simps)
    next
      case re: False
      have "snd (restore_loop as (skp - sh) (q - re))
          = q - re - min (q - re) (max 0 (alloc_total as - (skp - sh)))"
        using "2.IH"(2) [OF False refl refl refl] "2.prems" b re by (simp add: sh_def re_def)
      moreover have "snd (restore_loop (a # as) skp q) = snd (restore_loop as (skp - sh) (q - re))"
        using False re restore_loop_step [OF _ sh_def re_def, of as] by simp
      moreover have "q - re - min (q - re) (max 0 (alloc_total as - (skp - sh)))
          = q - min q (max 0 (a_quantity a + alloc_total as - skp))"
        by (rule restore_arith [OF _ _ _ tot sh_def re_def]) (use "2.prems" False in auto)
      ultimately show ?thesis by simp
    qed
  qed
qed simp

lemma restored_on_split:
  "\<forall>a \<in> set as. 0 \<le> a_quantity a \<Longrightarrow> 0 \<le> skp \<Longrightarrow> 0 \<le> q1 \<Longrightarrow> 0 \<le> q2 \<Longrightarrow>
     restored_on as skp (q1 + q2) i = restored_on as skp q1 i + restored_on as (skp + q1) q2 i"
proof (induction as arbitrary: skp q1 q2)
  case (Cons a as)
  show ?case
  proof (cases "q1 = 0 \<or> q2 = 0")
    case True
    then show ?thesis by (auto simp: restored_on_done)
  next
    case False
    then have p: "0 < q1" "0 < q2" "0 < q1 + q2" using Cons.prems by auto
    let ?g = "give_back a skp q1" and ?h = "give_back a (skp + q1) q2"
    have g: "give_back a skp (q1 + q2) = ?g + ?h"
      using p Cons.prems unfolding give_back_def by (simp add: min_def max_def)
    have s: "skp + q1 - min (a_quantity a) (skp + q1) = skp - min (a_quantity a) skp + (q1 - ?g)"
      using p Cons.prems unfolding give_back_def by (simp add: min_def max_def)
    have "restored_on as (skp - min (a_quantity a) skp) (q1 + q2 - give_back a skp (q1 + q2)) i
        = restored_on as (skp - min (a_quantity a) skp) (q1 - ?g) i
          + restored_on as (skp + q1 - min (a_quantity a) (skp + q1)) (q2 - ?h) i"
    proof -
      have e: "q1 + q2 - give_back a skp (q1 + q2) = (q1 - ?g) + (q2 - ?h)" using g by simp
      show ?thesis unfolding e s
        by (rule Cons.IH) (use Cons.prems p in \<open>auto simp: give_back_def\<close>)
    qed
    then show ?thesis
      using restored_on_Cons [OF p(1), of a as skp i] restored_on_Cons [OF p(2), of a as "skp + q1" i]
        restored_on_Cons [OF p(3), of a as skp i] g by simp
  qed
qed simp

lemma restored_on_all:
  "\<forall>a \<in> set as. 0 \<le> a_quantity a \<Longrightarrow> restored_on as 0 (alloc_total as) i = alloc_qty as i"
proof (induction as)
  case (Cons a as)
  have tot: "0 \<le> alloc_total as" using Cons.prems by (induction as) auto
  show ?case
  proof (cases "alloc_total (a # as) = 0")
    case True
    then have z: "a_quantity a = 0" "alloc_total as = 0" using Cons.prems tot by auto
    then have "alloc_qty as i = 0" using Cons by (simp add: restored_on_done)
    then show ?thesis using True z by (simp add: restored_on_done)
  next
    case False
    then have "0 < alloc_total (a # as)" using Cons.prems tot by auto
    then show ?thesis
      using restored_on_Cons [of "alloc_total (a # as)" a as 0 i] Cons tot by (simp add: give_back_def)
  qed
qed simp

text \<open>
  C32: returning the units of a sale line in two refunds puts on every lot exactly what one refund of
  the sum would, and returning the whole line puts back on every lot exactly what was taken from
  it: partial refunds never over-fill a lot and never lose a unit.
\<close>

theorem restock_follows_original_lots:
  assumes "\<forall>a \<in> set as. 0 \<le> a_quantity a" "0 \<le> skp" "0 \<le> q1" "0 \<le> q2"
  shows "restored_on as skp (q1 + q2) i = restored_on as skp q1 i + restored_on as (skp + q1) q2 i
    \<and> restored_on as 0 (alloc_total as) i = alloc_qty as i
    \<and> (snd (restore_loop as skp q1) = 0 \<longleftrightarrow> q1 \<le> max 0 (alloc_total as - skp))"
  using restored_on_split [OF assms] restored_on_all [OF assms(1)] restore_loop_left [OF assms(1-3)] assms(3)
  by auto

definition ex_allocs :: "lot_allocation list" where
  "ex_allocs = [\<lparr>a_lotId = ''L1'', a_quantity = 3, a_unitCost = 0\<rparr>, \<lparr>a_lotId = ''L2'', a_quantity = 1, a_unitCost = 0\<rparr>]"

theorem restock_follows_original_lots_witness:
  "restored_on ex_allocs 0 (2 + 2) ''L1'' = restored_on ex_allocs 0 2 ''L1'' + restored_on ex_allocs (0 + 2) 2 ''L1''
     \<and> restored_on ex_allocs 2 2 ''L2'' = 1"
proof
  show "restored_on ex_allocs 0 (2 + 2) ''L1'' = restored_on ex_allocs 0 2 ''L1'' + restored_on ex_allocs (0 + 2) 2 ''L1''"
    using restock_follows_original_lots [of ex_allocs 0 2 2 "''L1''"] by (simp add: ex_allocs_def)
  show "restored_on ex_allocs 2 2 ''L2'' = 1" by code_simp
qed

section \<open>Finalizing keeps the invariant\<close>

text \<open>
  A refund whose lines fit the sale: each line names a different item, with units the item still
  has; with restock, the item's lots may go back on sale.
\<close>

definition lots_returnable :: "db \<Rightarrow> sale_item \<Rightarrow> bool" where
  "lots_returnable s it \<longleftrightarrow>
     (\<forall>a \<in> set (si_lotAllocations it). \<forall>l \<in> set (db_lots s). l_id l = a_lotId a \<longrightarrow>
        l_status l \<noteq> LotRECALLED \<and> l_status l \<noteq> LotEXPIRED)"

definition refund_fits :: "db \<Rightarrow> bool \<Rightarrow> sale_item list \<Rightarrow> refund_line list \<Rightarrow> bool" where
  "refund_fits s restock items lines \<longleftrightarrow>
     distinct (map si_id items) \<and> distinct (map rl_saleItemId lines)
     \<and> (\<forall>it \<in> set items. 0 \<le> si_refundedQuantity it)
     \<and> (\<forall>l \<in> set lines. \<exists>it \<in> set items. si_id it = rl_saleItemId l \<and> 0 < rl_quantity l
           \<and> rl_quantity l \<le> si_remaining it \<and> (restock \<longrightarrow> lots_returnable s it))"

lemma bump_core:
  "map (\<lambda>it. (si_productId it, si_quantity it, si_lotAllocations it)) (bump_refunded i q items)
     = map (\<lambda>it. (si_productId it, si_quantity it, si_lotAllocations it)) items"
  by (simp add: bump_refunded_def map_upd_row)

lemma sale_core_bump: "sale_core (x\<lparr>s_items := bump_refunded i q (s_items x)\<rparr>) = sale_core x"
  by (simp add: sale_core_def bump_core)

lemma refund_fits_step:
  assumes fits: "refund_fits s b items (l # ls)" and it: "find_row si_id (rl_saleItemId l) items = Some it"
  shows "refund_fits s b (bump_refunded (si_id it) (rl_quantity l) items) ls"
proof -
  have i: "si_id it = rl_saleItemId l" "it \<in> set items" using find_row_SomeD [OF it] by auto
  have keys: "map si_id (bump_refunded j q items) = map si_id items" for j q
    by (simp add: bump_refunded_def map_upd_row)
  have q: "0 < rl_quantity l" using fits by (auto simp: refund_fits_def)
  have "0 \<le> si_refundedQuantity y" if "y \<in> set (bump_refunded (si_id it) (rl_quantity l) items)" for y
    using that fits q by (auto simp: bump_refunded_def in_upd_row refund_fits_def)
  moreover have "\<exists>y \<in> set (bump_refunded (si_id it) (rl_quantity l) items). si_id y = rl_saleItemId k
      \<and> 0 < rl_quantity k \<and> rl_quantity k \<le> si_remaining y \<and> (b \<longrightarrow> lots_returnable s y)"
    if k: "k \<in> set ls" for k
  proof -
    obtain y where y: "y \<in> set items" "si_id y = rl_saleItemId k" "0 < rl_quantity k" "rl_quantity k \<le> si_remaining y"
        "b \<longrightarrow> lots_returnable s y"
      using fits k by (auto simp: refund_fits_def)
    have "rl_saleItemId l \<notin> rl_saleItemId ` set ls" using fits by (simp add: refund_fits_def)
    then have "rl_saleItemId k \<noteq> rl_saleItemId l" using k by (metis imageI)
    then have "y \<in> set (bump_refunded (si_id it) (rl_quantity l) items)"
      using y(1,2) i(1) by (auto simp: bump_refunded_def in_upd_row intro!: bexI [of _ y])
    then show ?thesis using y by blast
  qed
  ultimately show ?thesis using fits keys by (simp add: refund_fits_def)
qed

text \<open>The state of the loop: the stock and sale invariants, the sale row in step with its items in memory.\<close>

definition return_state :: "db \<Rightarrow> sale \<Rightarrow> db \<Rightarrow> sale_item list \<Rightarrow> bool" where
  "return_state s x t items \<longleftrightarrow>
     sys_inv t \<and> class_frame s t \<and> map product_key (db_products t) = map product_key (db_products s)
     \<and> db_refunds t = db_refunds s \<and> find_sale (s_id x) t = Some (x\<lparr>s_items := items\<rparr>)
     \<and> sale_core (x\<lparr>s_items := items\<rparr>) = sale_core x"

lemma item_increment_ok:
  assumes st: "return_state s x t items" and np: "s_paymentStatus x \<noteq> PayPENDING"
  shows "\<exists>u. item_increment (s_id x) i q t = Inr u \<and> return_state s x u (bump_refunded i q items)
           \<and> db_lots u = db_lots t \<and> db_products u = db_products t"
proof -
  let ?f = "\<lambda>y. y\<lparr>s_items := bump_refunded i q (s_items y)\<rparr>"
  let ?x = "x\<lparr>s_items := items\<rparr>"
  have t: "sys_inv t" and x: "?x \<in> set (db_sales t)" "s_id ?x = s_id x"
    using st find_sale_iff by (auto simp: return_state_def)
  let ?u = "t\<lparr>db_sales := upd_row s_id (s_id x) ?f (db_sales t)\<rparr>"
  have run: "item_increment (s_id x) i q t = Inr ?u"
    using sale_update_in [OF x(1), of ?f] by (simp add: item_increment_def)
  have u: "sys_inv ?u"
    by (rule sale_update_core_inv [OF t run [unfolded item_increment_def]]) (simp_all add: sale_core_bump)
  have "?f ?x \<in> set (db_sales ?u)" using x by (auto simp: in_upd_row intro!: bexI [of _ ?x])
  then have "find_sale (s_id x) ?u = Some (x\<lparr>s_items := bump_refunded i q items\<rparr>)"
    using find_sale_iff [OF u] by simp
  then show ?thesis
    using run u st sale_core_bump [where x = "x\<lparr>s_items := items\<rparr>" and i = i and q = q]
    by (intro exI [of _ ?u]) (simp add: return_state_def class_frame_def)
qed

lemma alloc_total_nonneg: "\<forall>a \<in> set as. 0 \<le> a_quantity a \<Longrightarrow> 0 \<le> alloc_total as"
  by (induction as) auto

lemma restore_loop_ids:
  "r \<in> set (fst (restore_loop as skp q)) \<Longrightarrow> \<exists>a \<in> set as. a_lotId a = fst r"
proof (induction as arbitrary: skp q)
  case (Cons a as)
  define sh where "sh = min (a_quantity a) skp"
  define re where "re = min (a_quantity a - sh) q"
  obtain rs n where rs: "restore_loop as (skp - sh) (q - re) = (rs, n)" by (metis surj_pair)
  have "fst (restore_loop (a # as) skp q)
      = (if q \<le> 0 then [] else if re \<le> 0 then fst (restore_loop as (skp - sh) q) else (a_lotId a, re) # rs)"
    using rs unfolding restore_loop.simps Let_def sh_def [symmetric] re_def [symmetric] by simp
  then show ?case
    using Cons.prems Cons.IH [of "skp - sh" q] Cons.IH [of "skp - sh" "q - re"] rs by (auto split: if_splits)
qed simp

text \<open>One line of a restocking refund.\<close>

lemma restock_line_ok:
  assumes st: "return_state s x t items" and np: "s_paymentStatus x \<noteq> PayPENDING" and s: "sys_inv s"
    and fits: "refund_fits s True items (l # ls)"
    and prods: "\<forall>it \<in> set items. si_id it = rl_saleItemId l \<longrightarrow>
        (\<exists>p \<in> set (db_products s). find_row p_id (si_productId it) prods = Some p)"
    and lots: "set lots \<subseteq> set (db_lots s)"
      "\<forall>it \<in> set items. si_id it = rl_saleItemId l \<longrightarrow> (\<forall>a \<in> set (si_lotAllocations it). a_lotId a \<in> l_id ` set lots)"
  shows "\<exists>u it. restock_line dev prods lots (s_id x) l (t, items)
             = Inr (u, bump_refunded (si_id it) (rl_quantity l) items)
           \<and> find_row si_id (rl_saleItemId l) items = Some it
           \<and> return_state s x u (bump_refunded (si_id it) (rl_quantity l) items)"
proof -
  have di: "distinct (map si_id items)" using fits by (simp add: refund_fits_def)
  obtain it where it: "it \<in> set items" "si_id it = rl_saleItemId l" "0 < rl_quantity l"
      "rl_quantity l \<le> si_remaining it" "lots_returnable s it" "0 \<le> si_refundedQuantity it"
    using fits by (auto simp: refund_fits_def)
  have f: "find_row si_id (rl_saleItemId l) items = Some it" using find_row_eq_Some_iff [OF di] it(1,2) by simp
  let ?q = "rl_quantity l" and ?skp = "si_refundedQuantity it" and ?as = "si_lotAllocations it"
  obtain t1 where t1: "item_increment (s_id x) (si_id it) ?q t = Inr t1"
      "return_state s x t1 (bump_refunded (si_id it) ?q items)" "db_lots t1 = db_lots t" "db_products t1 = db_products t"
    using item_increment_ok [OF st np] by blast
  have tt: "sys_inv t" "x\<lparr>s_items := items\<rparr> \<in> set (db_sales t)" using st find_sale_iff by (auto simp: return_state_def)
  have iok: "item_ok t it" using sys_invD(5) [OF tt(1,2)] it(1) by (simp add: sale_ok_def)
  have ne: "?as \<noteq> []" and tot: "alloc_total ?as = si_quantity it" and pos: "\<forall>a \<in> set ?as. 0 \<le> a_quantity a"
    using iok by (auto simp: item_ok_def less_imp_le)
  have left: "snd (restore_loop ?as ?skp ?q) = 0"
    using restore_loop_left [OF pos it(6), of ?q] it(3,4) tot by (simp add: si_remaining_def)
  obtain rs where rs: "restore_loop ?as ?skp ?q = (rs, 0)" using left by (metis prod.collapse)
  obtain p where p: "p \<in> set (db_products s)" "find_row p_id (si_productId it) prods = Some p"
    using prods it(1,2) by blast
  have pid: "p_id p = si_productId it" using find_row_SomeD [OF p(2)] by simp
  have inv1: "stock_inv (held t1) t1" and cls1: "class_frame s t1"
      and keys1: "map product_key (db_products t1) = map product_key (db_products s)" and sys1: "sys_inv t1"
    using t1(2) sys_invD(1) by (auto simp: return_state_def)
  have pk: "product_key p \<in> product_key ` set (db_products t1)"
    using p(1) keys1 by (metis image_eqI list.set_map)
  have rows: "\<forall>r \<in> set rs. \<exists>m \<in> set lots. l_id m = fst r \<and> l_productId m = p_id p
      \<and> l_status m \<noteq> LotRECALLED \<and> l_status m \<noteq> LotEXPIRED"
  proof
    fix r assume "r \<in> set rs"
    then obtain a where a: "a \<in> set ?as" "a_lotId a = fst r" using restore_loop_ids [of r ?as ?skp ?q] rs by auto
    then obtain m where m: "m \<in> set lots" "l_id m = fst r" using lots(2) it(1,2) by fastforce
    have ms: "m \<in> set (db_lots s)" using m(1) lots(1) by blast
    obtain m' where m': "m' \<in> set (db_lots t)" "lot_class m' = lot_class m"
      using class_frame_lot [OF _ ms] st by (auto simp: return_state_def)
    obtain k where k: "k \<in> set (db_lots t)" "l_id k = a_lotId a" "l_productId k = si_productId it"
      using iok a(1) by (auto simp: item_ok_def)
    have "l_id m' = l_id k" using m'(2) m(2) a(2) k(2) by (simp add: lot_class_def lot_key_def)
    then have "m' = k" using sys_invD(7) [OF tt(1)] m'(1) k(1) by (auto simp: distinct_map dest: inj_onD)
    then have "l_productId m = p_id p" using m'(2) k(3) pid by (simp add: lot_class_def lot_key_def)
    then show "\<exists>m \<in> set lots. l_id m = fst r \<and> l_productId m = p_id p
      \<and> l_status m \<noteq> LotRECALLED \<and> l_status m \<noteq> LotEXPIRED"
      using m ms a it(5) by (auto simp: lots_returnable_def)
  qed
  obtain u where u: "restockToLots dev p lots rs t1 = Inr u" "stock_inv (held t1) u" "stock_frame t1 u" "class_frame s u"
    using restockToLots_ok [OF inv1 cls1 pk lots(1) rows] by blast
  have su: "sys_inv u" by (rule frame_sys_inv [OF sys1 u(2,3)])
  have "return_state s x u (bump_refunded (si_id it) ?q items)"
  proof -
    have "find_sale (s_id x) u = find_sale (s_id x) t1"
      using stock_frame_tables(1) [OF u(3)] by (simp add: find_sale_def)
    then show ?thesis
      using t1(2) su u(4) stock_frame_keys(1) [OF u(3)] stock_frame_tables(2) [OF u(3)]
      by (simp add: return_state_def)
  qed
  moreover have "restock_line dev prods lots (s_id x) l (t, items) = Inr (u, bump_refunded (si_id it) ?q items)"
    using f it(4) t1(1) ne rs p(2) u(1) by (simp add: restock_line_def)
  ultimately show ?thesis using f by blast
qed

lemma in_bump:
  assumes "y \<in> set (bump_refunded i q items)"
  obtains z where "z \<in> set items" "si_id y = si_id z" "si_productId y = si_productId z"
    "si_lotAllocations y = si_lotAllocations z" "si_quantity y = si_quantity z"
proof -
  obtain z where "z \<in> set items"
      "y = (if si_id z = i then z\<lparr>si_refundedQuantity := si_refundedQuantity z + q\<rparr> else z)"
    using assms by (auto simp: bump_refunded_def in_upd_row)
  then show ?thesis by (intro that [of z]) simp_all
qed

text \<open>What the locks of the refund give for every item that a line names.\<close>

definition refund_locks :: "db \<Rightarrow> product list \<Rightarrow> lot list \<Rightarrow> sale_item list \<Rightarrow> refund_line list \<Rightarrow> bool" where
  "refund_locks s prods lots items lines \<longleftrightarrow>
     set lots \<subseteq> set (db_lots s)
     \<and> (\<forall>l \<in> set lines. \<forall>it \<in> set items. si_id it = rl_saleItemId l \<longrightarrow>
          (\<exists>p \<in> set (db_products s). find_row p_id (si_productId it) prods = Some p)
          \<and> (\<forall>a \<in> set (si_lotAllocations it). a_lotId a \<in> l_id ` set lots))"

lemma refund_locks_step:
  assumes "refund_locks s prods lots items (l # ls)"
  shows "refund_locks s prods lots (bump_refunded i q items) ls"
  unfolding refund_locks_def
proof (intro conjI ballI impI)
  show "set lots \<subseteq> set (db_lots s)" using assms by (simp add: refund_locks_def)
  fix k y assume k: "k \<in> set ls" and y: "y \<in> set (bump_refunded i q items)" "si_id y = rl_saleItemId k"
  obtain z where z: "z \<in> set items" "si_id y = si_id z" "si_productId y = si_productId z"
      "si_lotAllocations y = si_lotAllocations z" by (rule in_bump [OF y(1)])
  have "(\<exists>p \<in> set (db_products s). find_row p_id (si_productId z) prods = Some p)
      \<and> (\<forall>a \<in> set (si_lotAllocations z). a_lotId a \<in> l_id ` set lots)"
    using assms k z(1,2) y(2) by (simp add: refund_locks_def)
  then show "\<exists>p \<in> set (db_products s). find_row p_id (si_productId y) prods = Some p"
    and "a \<in> set (si_lotAllocations y) \<Longrightarrow> a_lotId a \<in> l_id ` set lots" for a
    using z by simp_all
qed

lemma restock_lines_ok:
  assumes s: "sys_inv s" and np: "s_paymentStatus x \<noteq> PayPENDING"
  shows "return_state s x t items \<Longrightarrow> refund_fits s True items lines \<Longrightarrow> refund_locks s prods lots items lines \<Longrightarrow>
     \<exists>u items'. forE lines (restock_line dev prods lots (s_id x)) (t, items) = Inr (u, items') \<and> return_state s x u items'"
proof (induction lines arbitrary: t items)
  case (Cons l ls)
  have p: "\<forall>it \<in> set items. si_id it = rl_saleItemId l \<longrightarrow>
        (\<exists>p \<in> set (db_products s). find_row p_id (si_productId it) prods = Some p)"
    and lo: "set lots \<subseteq> set (db_lots s)"
      "\<forall>it \<in> set items. si_id it = rl_saleItemId l \<longrightarrow> (\<forall>a \<in> set (si_lotAllocations it). a_lotId a \<in> l_id ` set lots)"
    using Cons.prems(3) by (simp_all add: refund_locks_def)
  obtain u it where u: "restock_line dev prods lots (s_id x) l (t, items)
             = Inr (u, bump_refunded (si_id it) (rl_quantity l) items)"
      "find_row si_id (rl_saleItemId l) items = Some it"
      "return_state s x u (bump_refunded (si_id it) (rl_quantity l) items)"
    using restock_line_ok [OF Cons.prems(1) np s Cons.prems(2) p lo] by blast
  show ?case
    using Cons.IH [OF u(3) refund_fits_step [OF Cons.prems(2) u(2)] refund_locks_step [OF Cons.prems(3)]] u(1)
    by simp
qed simp

lemma writeoff_lines_ok:
  assumes np: "s_paymentStatus x \<noteq> PayPENDING"
  shows "return_state s x t items \<Longrightarrow> refund_fits s False items lines \<Longrightarrow>
     \<exists>u items'. forE lines (writeoff_line x rid) (t, items) = Inr (u, items') \<and> return_state s x u items'"
proof (induction lines arbitrary: t items)
  case (Cons l ls)
  have di: "distinct (map si_id items)" using Cons.prems(2) by (simp add: refund_fits_def)
  obtain it where it: "it \<in> set items" "si_id it = rl_saleItemId l" "rl_quantity l \<le> si_remaining it"
    using Cons.prems(2) by (auto simp: refund_fits_def)
  have f: "find_row si_id (rl_saleItemId l) items = Some it" using find_row_eq_Some_iff [OF di] it(1,2) by simp
  let ?items = "bump_refunded (si_id it) (rl_quantity l) items"
  obtain t1 where t1: "item_increment (s_id x) (si_id it) (rl_quantity l) t = Inr t1" "return_state s x t1 ?items"
    using item_increment_ok [OF Cons.prems(1) np] by blast
  obtain u where u: "writeoff_line x rid l (t, items) = Inr (u, ?items)" "db_products u = db_products t1"
      "db_lots u = db_lots t1" "db_sales u = db_sales t1" "db_refunds u = db_refunds t1"
    using f it(3) t1(1) by (simp add: writeoff_line_def)
  have "sys_inv u" by (rule sys_inv_cong [OF _ u(2-4)]) (use t1(2) in \<open>simp add: return_state_def\<close>)
  then have "return_state s x u ?items"
    using t1(2) u(2-5) by (simp add: return_state_def class_frame_def find_sale_def)
  then show ?case
    using Cons.IH [of u ?items] refund_fits_step [OF Cons.prems(2) f] u(1) by simp
qed simp

lemma return_goods_ok:
  assumes s: "sys_inv s" and x: "find_sale (s_id x) s = Some x" and np: "s_paymentStatus x \<noteq> PayPENDING"
    and fits: "refund_fits s (r_restock r) (s_items x) (r_lines r)"
  shows "\<exists>u items. return_goods dev x r s = Inr (u, items) \<and> return_state s x u items"
proof -
  have st: "return_state s x s (s_items x)" using s x by (simp add: return_state_def)
  show ?thesis
  proof (cases "r_restock r")
    case False
    then show ?thesis using writeoff_lines_ok [OF np st] fits by (simp add: return_goods_def)
  next
    case True
    have xs: "x \<in> set (db_sales s)" using x find_sale_iff [OF s] by simp
    have di: "distinct (map si_id (s_items x))" using fits by (simp add: refund_fits_def)
    have "refund_locks s (refund_products x r s) (refund_lots x r s) (s_items x) (r_lines r)"
      unfolding refund_locks_def
    proof (intro conjI ballI impI)
      show "set (refund_lots x r s) \<subseteq> set (db_lots s)" by (auto simp: refund_lots_def set_lockLots)
      fix l it assume l: "l \<in> set (r_lines r)" and it: "it \<in> set (s_items x)" "si_id it = rl_saleItemId l"
      have "find_row si_id (rl_saleItemId l) (s_items x) = Some it" using find_row_eq_Some_iff [OF di] it by simp
      then have ri: "it \<in> set (restock_items x r)" using l by (force simp: restock_items_def)
      have iok: "item_ok s it" using sys_invD(5) [OF s xs] it(1) by (simp add: sale_ok_def)
      obtain p where p: "p \<in> set (db_products s)" "p_id p = si_productId it" using iok by (auto simp: item_ok_def)
      then have "p \<in> set (refund_products x r s)"
        using ri iok by (auto simp: refund_products_def set_lockProducts item_ok_def)
      moreover have "distinct (map p_id (refund_products x r s))"
        unfolding refund_products_def by (rule distinct_lockProducts [OF sys_invD(8) [OF s]])
      ultimately have "find_row p_id (si_productId it) (refund_products x r s) = Some p"
        using find_row_eq_Some_iff p(2) by metis
      then show "\<exists>p \<in> set (db_products s). find_row p_id (si_productId it) (refund_products x r s) = Some p"
        using p(1) by blast
      fix a assume a: "a \<in> set (si_lotAllocations it)"
      then obtain k where k: "k \<in> set (db_lots s)" "l_id k = a_lotId a" "a_lotId a \<noteq> []"
        using iok by (auto simp: item_ok_def)
      then have "k \<in> set (refund_lots x r s)" using ri a by (auto simp: refund_lots_def set_lockLots)
      then show "a_lotId a \<in> l_id ` set (refund_lots x r s)" using k(2) by (metis imageI)
    qed
    then show ?thesis using restock_lines_ok [OF s np st] fits True by (simp add: return_goods_def)
  qed
qed

text \<open>
  What a finalized refund does to the two ledgers it touches, line by line: the refunded units of
  each sale item, and (when the goods go back on sale) the units left on each lot.
\<close>

definition units_back :: "refund_line list \<Rightarrow> ident \<Rightarrow> int" where
  "units_back lines i = sum_rows (\<lambda>l. if rl_saleItemId l = i then rl_quantity l else 0) lines"

definition add_back :: "refund_line list \<Rightarrow> sale_item \<Rightarrow> sale_item" where
  "add_back lines it = it\<lparr>si_refundedQuantity := si_refundedQuantity it + units_back lines (si_id it)\<rparr>"

definition line_returns :: "sale_item list \<Rightarrow> ident \<Rightarrow> refund_line \<Rightarrow> int" where
  "line_returns items j l =
     (case find_row si_id (rl_saleItemId l) items of
        None \<Rightarrow> 0
      | Some it \<Rightarrow> restored_on (si_lotAllocations it) (si_refundedQuantity it) (rl_quantity l) j)"

lemma add_back_Cons:
  "map (add_back (l # ls)) items = map (add_back ls) (bump_refunded (rl_saleItemId l) (rl_quantity l) items)"
  by (auto simp: add_back_def units_back_def bump_refunded_def upd_row_def)

lemma line_returns_bump:
  "rl_saleItemId k \<noteq> i \<Longrightarrow> line_returns (bump_refunded i q items) j k = line_returns items j k"
  by (simp add: line_returns_def bump_refunded_def find_row_upd_row)

lemma lot_left_upd:
  assumes "distinct (map l_id (db_lots s))" "has_row l_id i (db_lots s)"
  shows "lot_left (s\<lparr>db_lots := upd_row l_id i (\<lambda>l. l\<lparr>l_quantityRemaining := l_quantityRemaining l + q\<rparr>) (db_lots s)\<rparr>) j
    = lot_left s j + (if i = j then q else 0)"
proof -
  obtain r where "r \<in> set (db_lots s)" "l_id r = i"
    using assms(2) has_row_iff_find find_row_SomeD by metis
  then show ?thesis
    using sum_rows_upd_row [OF assms(1), of r i "\<lambda>l. if l_id l = j then l_quantityRemaining l else 0"
        "\<lambda>l. l\<lparr>l_quantityRemaining := l_quantityRemaining l + q\<rparr>"]
    by (simp add: lot_left_def)
qed

lemma lot_left_status:
  "lot_left (s\<lparr>db_lots := upd_row l_id i (l_status_update f) ls\<rparr>) j = lot_left (s\<lparr>db_lots := ls\<rparr>) j"
  unfolding lot_left_def by (induction ls) auto

lemma restock_one_left:
  assumes "restock_one lots (i, q) (s, n) = Inr (t, m)" "0 < q" "distinct (map l_id (db_lots s))"
  shows "distinct (map l_id (db_lots t)) \<and> (\<forall>j. lot_left t j = lot_left s j + (if i = j then q else 0))
    \<and> db_sales t = db_sales s"
  using assms
  by (auto simp: restock_one_def bindE_Inr_iff lot_update_Inr_iff lot_left_upd lot_left_status map_upd_row
      split: if_splits option.splits)

lemma restock_rows_left:
  "forE rows (restock_one lots) (s, n) = Inr (t, m) \<Longrightarrow> \<forall>r \<in> set rows. 0 < snd r \<Longrightarrow>
     distinct (map l_id (db_lots s)) \<Longrightarrow>
     distinct (map l_id (db_lots t)) \<and> (\<forall>j. lot_left t j = lot_left s j + sum_rows (\<lambda>r. if fst r = j then snd r else 0) rows)
       \<and> db_sales t = db_sales s"
proof (induction rows arbitrary: s n)
  case (Cons r rows)
  obtain u k where u: "restock_one lots (fst r, snd r) (s, n) = Inr (u, k)" "forE rows (restock_one lots) (u, k) = Inr (t, m)"
    using Cons.prems(1) by (auto simp: bindE_Inr_iff)
  show ?case
    using restock_one_left [OF u(1)] Cons.IH [OF u(2)] Cons.prems(2,3) by simp
qed simp

lemma restore_loop_pos: "r \<in> set (fst (restore_loop as skp q)) \<Longrightarrow> 0 < snd r"
  by (induction as skp q rule: restore_loop.induct) (auto simp: Let_def split: prod.splits if_splits)

lemma restock_line_left:
  assumes "restock_line dev prods lots sid l (s, items) = Inr (t, items')" "distinct (map l_id (db_lots s))"
  shows "items' = bump_refunded (rl_saleItemId l) (rl_quantity l) items \<and> distinct (map l_id (db_lots t))
    \<and> (\<forall>j. lot_left t j = lot_left s j + line_returns items j l)"
proof -
  obtain it s1 rs n p where it: "find_row si_id (rl_saleItemId l) items = Some it"
      "item_increment sid (si_id it) (rl_quantity l) s = Inr s1"
      "restore_loop (si_lotAllocations it) (si_refundedQuantity it) (rl_quantity l) = (rs, n)"
      "restockToLots dev p lots rs s1 = Inr t" "items' = bump_refunded (si_id it) (rl_quantity l) items"
    using assms(1) by (auto simp: restock_line_def bindE_Inr_iff split: option.splits if_splits prod.splits)
  have s1: "db_lots s1 = db_lots s"
    using it(2) by (auto simp: item_increment_def sale_update_Inr_iff)
  have id: "si_id it = rl_saleItemId l" using find_row_SomeD [OF it(1)] by simp
  obtain u m where u: "forE rs (restock_one lots) (s1, 0) = Inr (u, m)" "db_lots t = db_lots u"
    using it(4) by (auto simp: restockToLots_def bindE_Inr_iff product_update_Inr_iff split: if_splits)
  have pos: "\<forall>r \<in> set rs. 0 < snd r" using restore_loop_pos it(3) by (metis fst_conv)
  have "distinct (map l_id (db_lots u)) \<and> (\<forall>j. lot_left u j = lot_left s1 j + sum_rows (\<lambda>r. if fst r = j then snd r else 0) rs)"
    using restock_rows_left [OF u(1) pos] assms(2) s1 by simp
  then show ?thesis
    using it(1,3,5) id u(2) s1 by (simp add: lot_left_def line_returns_def restored_on_def)
qed

lemma restock_lines_left:
  "forE lines (restock_line dev prods lots sid) (s, items) = Inr (t, items') \<Longrightarrow>
     distinct (map l_id (db_lots s)) \<Longrightarrow> distinct (map rl_saleItemId lines) \<Longrightarrow>
     items' = map (add_back lines) items
     \<and> (\<forall>j. lot_left t j = lot_left s j + sum_rows (line_returns items j) lines)"
proof (induction lines arbitrary: s items)
  case Nil
  then show ?case by (simp add: add_back_def units_back_def)
next
  case (Cons l ls)
  obtain u its where u: "restock_line dev prods lots sid l (s, items) = Inr (u, its)"
      "forE ls (restock_line dev prods lots sid) (u, its) = Inr (t, items')"
    using Cons.prems(1) by (auto simp: bindE_Inr_iff)
  have st: "its = bump_refunded (rl_saleItemId l) (rl_quantity l) items" "distinct (map l_id (db_lots u))"
      "\<forall>j. lot_left u j = lot_left s j + line_returns items j l"
    using restock_line_left [OF u(1) Cons.prems(2)] by simp_all
  have "sum_rows (line_returns its j) ls = sum_rows (line_returns items j) ls" for j
    using Cons.prems(3) line_returns_bump [of _ "rl_saleItemId l"] by (intro sum_rows_cong) (auto simp: st(1) image_iff)
  then show ?case
    using Cons.IH [OF u(2) st(2)] Cons.prems(3) st by (simp add: add_back_Cons)
qed

lemma writeoff_lines_left:
  "forE lines (writeoff_line x rid) (s, items) = Inr (t, items') \<Longrightarrow>
     items' = map (add_back lines) items \<and> db_lots t = db_lots s"
proof (induction lines arbitrary: s items)
  case Nil
  then show ?case by (simp add: add_back_def units_back_def)
next
  case (Cons l ls)
  obtain u its where u: "writeoff_line x rid l (s, items) = Inr (u, its)"
      "forE ls (writeoff_line x rid) (u, its) = Inr (t, items')"
    using Cons.prems(1) by (auto simp: bindE_Inr_iff)
  have "its = bump_refunded (rl_saleItemId l) (rl_quantity l) items" "db_lots u = db_lots s"
    using u(1) find_row_SomeD [of si_id "rl_saleItemId l" items]
    by (auto simp: writeoff_line_def bindE_Inr_iff item_increment_def sale_update_Inr_iff split: option.splits if_splits)
  then show ?case using Cons.IH [OF u(2)] by (simp add: add_back_Cons)
qed

lemma return_goods_left:
  assumes "return_goods dev x r s = Inr (u, items)" "distinct (map l_id (db_lots s))" "distinct (map rl_saleItemId (r_lines r))"
  shows "items = map (add_back (r_lines r)) (s_items x)
    \<and> (\<forall>j. lot_left u j = lot_left s j + (if r_restock r then sum_rows (line_returns (s_items x) j) (r_lines r) else 0))"
proof (cases "r_restock r")
  case True
  then show ?thesis using restock_lines_left [OF _ assms(2,3)] assms(1) by (simp add: return_goods_def)
next
  case False
  then show ?thesis using writeoff_lines_left assms(1) by (fastforce simp: return_goods_def lot_left_def)
qed

lemma units_back_le:
  assumes fits: "refund_fits s b items lines" and it: "it \<in> set items"
  shows "0 \<le> units_back lines (si_id it) \<and> (units_back lines (si_id it) \<noteq> 0 \<longrightarrow> units_back lines (si_id it) \<le> si_remaining it)"
proof (cases "si_id it \<in> rl_saleItemId ` set lines")
  case False
  then have "units_back lines (si_id it) = 0" unfolding units_back_def by (intro sum_rows_zero if_not_P) (metis imageI)
  then show ?thesis by simp
next
  case True
  then obtain l where l: "l \<in> set lines" "rl_saleItemId l = si_id it" by auto
  have "units_back lines (si_id it) = rl_quantity l"
    using sum_rows_unique_key [of rl_saleItemId lines l rl_quantity] fits l by (simp add: units_back_def refund_fits_def)
  moreover obtain y where "y \<in> set items" "si_id y = rl_saleItemId l" "0 < rl_quantity l" "rl_quantity l \<le> si_remaining y"
    using fits l(1) by (auto simp: refund_fits_def)
  moreover have "y = it" using fits it calculation(2,3) l(2) distinct_mapD [of si_id items y it] by (simp add: refund_fits_def)
  ultimately show ?thesis by simp
qed

text \<open>
  C4: a claimed refund whose lines fit the sale, and whose lots (when the goods go back on sale) are
  neither recalled nor expired, is always finalized: the money of the sale moves by exactly the
  refund; the refunded quantity of every sale item rises by exactly the units of the refund's line for
  it and stays within the quantity sold; every lot gets exactly the units its line returns to it with
  restock and none without; the sale is REFUNDED when every unit is back and PAID again otherwise;
  and stock, reservations and counters stay consistent.
\<close>

theorem finalizeSucceededRefund_total:
  assumes "sys_inv s" "find_refund i s = Some r" "r_status r = RefundPENDING"
    and "find_sale (r_saleId r) s = Some x" "s_paymentStatus x \<noteq> PayPENDING"
    and "refund_fits s (r_restock r) (s_items x) (r_lines r)"
  shows "\<exists>t y. finalizeSucceededRefund dev now i s = Inr (t, y) \<and> sys_inv t
    \<and> s_refundedAmount y = s_refundedAmount x + r_amount r
    \<and> s_refundedOperatorAmount y = s_refundedOperatorAmount x + r_operatorAmount r
    \<and> s_pendingRefundId y = None \<and> s_total y = s_total x
    \<and> s_paymentStatus y = (if fully_refunded (s_items y) then PayREFUNDED else PayPAID)
    \<and> s_items y = map (add_back (r_lines r)) (s_items x)
    \<and> (\<forall>it \<in> set (s_items x). si_refundedQuantity it \<le> si_quantity it \<longrightarrow>
         si_refundedQuantity it \<le> si_refundedQuantity (add_back (r_lines r) it)
         \<and> si_refundedQuantity (add_back (r_lines r) it) \<le> si_quantity it)
    \<and> (\<forall>j. lot_left t j = lot_left s j
         + (if r_restock r then sum_rows (line_returns (s_items x) j) (r_lines r) else 0))"
proof -
  have xid: "s_id x = r_saleId r" "x \<in> set (db_sales s)" using find_sale_iff [OF assms(1)] assms(4) by simp_all
  obtain u items where u: "return_goods dev x r s = Inr (u, items)" "return_state s x u items"
    using return_goods_ok [OF assms(1) _ assms(5,6)] assms(4) xid(1) by metis
  have st: "sys_inv u" "db_refunds u = db_refunds s" "find_sale (s_id x) u = Some (x\<lparr>s_items := items\<rparr>)"
    using u(2) by (simp_all add: return_state_def)
  let ?g = "\<lambda>r. r\<lparr>r_status := RefundSUCCEEDED, r_completedAt := Some now\<rparr>"
  let ?u2 = "u\<lparr>db_refunds := upd_row r_id (r_id r) ?g (db_refunds u)\<rparr>"
  have "r \<in> set (db_refunds u)" using assms(2) st(2) find_row_SomeD by (fastforce simp: find_refund_def)
  then have r2: "refund_update (r_id r) ?g u = Inr ?u2"
    by (auto simp: refund_update_def update_row_def has_row_def)
  have s2: "sys_inv ?u2" by (rule sys_inv_cong [OF st(1)]) simp_all
  let ?x = "x\<lparr>s_items := items\<rparr>"
  let ?f = "settle_refund now r (fully_refunded items)"
  let ?u3 = "?u2\<lparr>db_sales := upd_row s_id (s_id x) ?f (db_sales ?u2)\<rparr>"
  have xin: "?x \<in> set (db_sales ?u2)" using find_sale_iff [OF st(1)] st(3) by simp
  have r3: "sale_update (s_id x) ?f ?u2 = Inr ?u3" using sale_update_in [OF xin, of ?f] by simp
  have s3: "sys_inv ?u3"
  proof (rule sale_update_core_inv [OF s2 r3])
    show "s_id (?f y) = s_id y" "sale_core (?f y) = sale_core y" for y
      by (simp_all add: settle_refund_def sale_core_def)
    fix y assume "y \<in> set (db_sales ?u2)" "s_id y = s_id x"
    then have "y = ?x" using sys_invD(4) [OF s2] xin inj_onD [of s_id "set (db_sales ?u2)" y ?x]
      by (simp add: distinct_map)
    then show "(s_paymentStatus (?f y) = PayPENDING) = (s_paymentStatus y = PayPENDING)"
      using assms(5) by (simp add: settle_refund_def)
  qed
  let ?u4 = "writeAuditLog (r_createdByUserId r) (Some (s_storeId x)) ''SALE_REFUND'' ''Sale'' (Some (s_id x)) ?u3"
  have s4: "sys_inv ?u4" by (rule sys_inv_cong [OF s3]) simp_all
  have "?f ?x \<in> set (db_sales ?u4)" using xin by (auto simp: in_upd_row intro!: bexI [of _ ?x])
  then have f4: "find_sale (s_id x) ?u4 = Some (?f ?x)"
    using find_sale_iff [OF s4] by (simp add: settle_refund_def)
  have "finalizeSucceededRefund dev now i s = Inr (?u4, ?f ?x)"
    using assms(2,3,4) u(1) r2 r3 f4 by (simp add: finalizeSucceededRefund_def Let_def)
  moreover have "items = map (add_back (r_lines r)) (s_items x)
      \<and> (\<forall>j. lot_left u j = lot_left s j + (if r_restock r then sum_rows (line_returns (s_items x) j) (r_lines r) else 0))"
    using return_goods_left [OF u(1) sys_invD(7) [OF assms(1)]] assms(6) by (simp add: refund_fits_def)
  moreover have "si_refundedQuantity it \<le> si_refundedQuantity (add_back (r_lines r) it)
         \<and> si_refundedQuantity (add_back (r_lines r) it) \<le> si_quantity it"
    if "it \<in> set (s_items x)" "si_refundedQuantity it \<le> si_quantity it" for it
    using units_back_le [OF assms(6) that(1)] that(2) by (auto simp: add_back_def si_remaining_def)
  ultimately show ?thesis using s4
    by (intro exI [of _ ?u4] exI [of _ "?f ?x"]) (simp add: settle_refund_def lot_left_def)
qed

lemma claimRefundInDb_Inr:
  assumes "claimRefundInDb ops now newId i st input s = Inr (t, c)"
  obtains x plan where "find_sale i s = Some x" "s_storeId x = st" "s_paymentStatus x = PayPAID"
    "planRefundLines ops x (rf_items input) = Inr plan"
    "\<exists>s1. db_products s1 = db_products s \<and> db_lots s1 = db_lots s \<and> db_sales s1 = db_sales s
        \<and> sale_update i (\<lambda>y. y\<lparr>s_paymentStatus := PayREFUNDING, s_pendingRefundId := Some newId\<rparr>) s1 = Inr t"
  using assms
  by (fastforce simp: claimRefundInDb_def bindE_Inr_iff Let_def split: option.splits if_splits)

lemma claimRefundInDb_inv:
  assumes s: "sys_inv s" and run: "claimRefundInDb ops now newId i st input s = Inr (t, c)"
  shows "sys_inv t"
proof -
  obtain x s1 where x: "find_sale i s = Some x" "s_paymentStatus x = PayPAID"
    and s1: "db_products s1 = db_products s" "db_lots s1 = db_lots s" "db_sales s1 = db_sales s"
      "sale_update i (\<lambda>y. y\<lparr>s_paymentStatus := PayREFUNDING, s_pendingRefundId := Some newId\<rparr>) s1 = Inr t"
    using claimRefundInDb_Inr [OF run] by metis
  have i1: "sys_inv s1" by (rule sys_inv_cong [OF s s1(1-3)])
  show ?thesis
  proof (rule sale_update_core_inv [OF i1 s1(4)])
    fix y assume "y \<in> set (db_sales s1)" "s_id y = i"
    then have "find_sale i s1 = Some y" using find_sale_iff [OF i1] by simp
    then have "y = x" using x(1) s1(3) by (simp add: find_sale_def)
    then show "(s_paymentStatus (y\<lparr>s_paymentStatus := PayREFUNDING, s_pendingRefundId := Some newId\<rparr>) = PayPENDING)
        = (s_paymentStatus y = PayPENDING)" using x(2) by simp
  qed (simp_all add: sale_core_def)
qed

lemma ex_claimed_inv: "sys_inv ex_claimed"
  by (rule claimRefundInDb_inv [OF ex_paid_inv ex_claimed_result])

theorem finalizeSucceededRefund_total_witness:
  "\<exists>t y. finalizeSucceededRefund True 80 ''R1'' ex_claimed = Inr (t, y) \<and> sys_inv t \<and> s_refundedAmount y = 351/100
     \<and> map si_refundedQuantity (s_items y) = [2, 0] \<and> lot_left t ''L1'' = lot_left ex_claimed ''L1'' + 2"
proof -
  have r: "find_refund ''R1'' ex_claimed = Some ex_pending_refund" by code_simp
  have x: "find_sale (r_saleId ex_pending_refund) ex_claimed = Some ex_refunding" by code_simp
  have st: "r_status ex_pending_refund = RefundPENDING" "s_paymentStatus ex_refunding \<noteq> PayPENDING" by code_simp+
  have "refund_fits ex_claimed (r_restock ex_pending_refund) (s_items ex_refunding) (r_lines ex_pending_refund)"
    by code_simp
  moreover have "s_refundedAmount ex_refunding + r_amount ex_pending_refund = 351/100" by code_simp
  moreover have "map (\<lambda>it. si_refundedQuantity (add_back (r_lines ex_pending_refund) it)) (s_items ex_refunding) = [2, 0]"
    by code_simp
  moreover have "(if r_restock ex_pending_refund
      then sum_rows (line_returns (s_items ex_refunding) ''L1'') (r_lines ex_pending_refund) else 0) = 2" by code_simp
  moreover note finalizeSucceededRefund_total [OF ex_claimed_inv r st(1) x st(2), of True 80]
  ultimately obtain t y where t: "finalizeSucceededRefund True 80 ''R1'' ex_claimed = Inr (t, y)" "sys_inv t"
      "s_refundedAmount y = 351/100" "s_items y = map (add_back (r_lines ex_pending_refund)) (s_items ex_refunding)"
      "lot_left t ''L1'' = lot_left ex_claimed ''L1'' + 2" by metis
  show ?thesis by (rule exI [of _ t], rule exI [of _ y]) (simp add: t(1,2,3,5), simp only: t(4), code_simp)
qed

section \<open>Where refunds get stuck\<close>

text \<open>
  C36: a claimed refund of a cash sale that could not be finalized at once is never reconciled. The
  sale has no Stripe id, so \<open>reconcileRefundingSale\<close> throws before it looks at anything else (409
  for want of a payment intent, 503 where no Stripe key is configured), for every answer of Stripe
  and at every later time, and leaves the sale REFUNDING.
\<close>

theorem cash_refund_never_reconciled:
  assumes "find_sale i s = Some x" "s_paymentStatus x = PayREFUNDING" "pending_refund_of x s = Some r"
    and "r_stripeRefundId r = None" "s_stripePaymentIntentId x = None" "s_stripeCheckoutSessionId x = None"
  shows "reconcileRefundingSale dev now st i s
    = (s, Inl (if rs_configured st then AppError 409 ''Sale has no Stripe PaymentIntent to refund''
               else AppError 503 ''Stripe is not configured (STRIPE_SECRET_KEY missing)''))"
  using assms
  by (simp add: reconcileRefundingSale_def remote_status_def resolvePaymentIntentId_def getStripe_def truthy_def)

text \<open>
  The state is reached by an ordinary refund: the lot is recalled after the cash sale, the refund
  asks to restock, the claim commits and the finalization refuses the recalled lot.
\<close>

definition ex_recalled :: db where
  "ex_recalled = ex_paid\<lparr>db_lots := map (\<lambda>l. l\<lparr>l_status := LotRECALLED, l_quantityRemaining := 0\<rparr>) (db_lots ex_paid)\<rparr>"

definition ex_stripe :: refund_stripe where
  "ex_stripe = \<lparr>rs_configured = True, rs_sessionIntent = (\<lambda>_. Inr None), rs_create = (\<lambda>_ _ _. Inr ''re1''), rs_status = (\<lambda>_. Inr ''succeeded''),
                rs_list = (\<lambda>_. Inr [])\<rparr>"

definition ex_stuck :: db where
  "ex_stuck = ex_claimed\<lparr>db_lots := db_lots ex_recalled\<rparr>"

lemma ex_stuck_reached:
  "refundSale ex_ops True 70 ex_stripe ''R1'' ''X1'' ''S1'' (ex_refund_input True) ex_recalled
     = (ex_stuck, Inl (AppError 409 ''Goods from a recalled/expired lot can't go back on sale - refund without restock''))"
  by code_simp

theorem cash_refund_never_reconciled_witness:
  "reconcileRefundingSale True 99999999 ex_stripe ''X1'' ex_stuck
     = (ex_stuck, Inl (AppError 409 ''Sale has no Stripe PaymentIntent to refund''))"
proof -
  have "find_sale ''X1'' ex_stuck = Some ex_refunding" "pending_refund_of ex_refunding ex_stuck = Some ex_pending_refund"
      "s_paymentStatus ex_refunding = PayREFUNDING" "r_stripeRefundId ex_pending_refund = None"
      "s_stripePaymentIntentId ex_refunding = None" "s_stripeCheckoutSessionId ex_refunding = None"
      "rs_configured ex_stripe" by code_simp+
  then show ?thesis using cash_refund_never_reconciled [of "''X1''" ex_stuck ex_refunding ex_pending_refund True 99999999 ex_stripe]
    by simp
qed

text \<open>
  A unit can become unrefundable. After one unit of a two-unit line whose net is one cent has
  been refunded with that cent, the plan for the other unit is refused because its amount is zero,
  although units are left; the sale never becomes REFUNDED.
\<close>

definition ex_penny_sale :: sale where
  "ex_penny_sale = ex_sale\<lparr>s_total := 1/100, s_refundedAmount := 1/100,
     s_items := [\<lparr>si_id = ''I1'', si_productId = ''P1'', si_skuSnapshot = ''APL'', si_nameSnapshot = ''Apples'',
          si_priceSnapshot = 5/1000, si_quantity = 2, si_discountAmount = 0, si_benefitId = None,
          si_benefitDiscountAmount = 0, si_discountReason = None, si_taxAmount = 0,
          si_taxExempt = False, si_refundedQuantity = 1,
          si_lotAllocations = [\<lparr>a_lotId = ''L1'', a_quantity = 2, a_unitCost = 1\<rparr>]\<rparr>]\<rparr>"

theorem penny_line_unrefundable:
  "planRefundLines ex_ops ex_penny_sale None = Inl (AppError 409 ''Nothing left to refund on this sale'')
   \<and> map si_remaining (s_items ex_penny_sale) = [1]"
  by code_simp

end
