(* ===== verification/Cash.thy ===== *)
theory Cash
  imports Pricing Examples Locks
begin

text \<open>
  Cash between the till and the bank: \<open>services/drawer.service.ts\<close>, \<open>services/cash.service.ts\<close> and
  \<open>services/settlement.service.ts\<close>. A shift's cash is bankable once its drawer is closed; a deposit
  covers it only after the co-op confirms it against the bank statement; settlement says what the
  co-op owes each store's operator and how much cash is still in the stores.

  \<open>openDrawer\<close>, \<open>closeDrawer\<close> and \<open>createPayout\<close> do not run in a transaction: they take the state
  their reads see and the state their write finds as two arguments.
\<close>

section \<open>Drawers\<close>

text \<open>\<open>findFirst\<close> with \<open>orderBy openedAt desc\<close>: the newest open drawer of the store.\<close>

definition getCurrentDrawer :: "ident \<Rightarrow> db \<Rightarrow> cash_drawer option" where
  "getCurrentDrawer storeId s =
     (case sort_key (\<lambda>d. - cd_openedAt d)
             (filter (\<lambda>d. cd_storeId d = storeId \<and> cd_closedAt d = None) (db_drawers s)) of
        [] \<Rightarrow> None | d # _ \<Rightarrow> Some d)"

definition openDrawer ::
  "time \<Rightarrow> ident \<Rightarrow> ident \<Rightarrow> auth_user \<Rightarrow> js_number \<Rightarrow> db \<Rightarrow> db \<Rightarrow> (db \<times> cash_drawer) result" where
  "openDrawer now newId storeId actor openingFloat s0 s =
     (if (au_role actor = CASHIER \<or> au_role actor = STORE_ADMIN) \<and> au_storeScope actor \<noteq> Some storeId
      then Inl (AppError 403 ''Cannot open a drawer for another store'')
      else if au_role actor \<noteq> CASHIER \<and> au_role actor \<noteq> STORE_ADMIN \<and> au_role actor \<noteq> COOP_ADMIN
      then Inl (AppError 403 ''Insufficient role to open cash drawer'')
      else if \<not> non_negative openingFloat
      then Inl (AppError 400 ''openingFloat must be a non-negative number'')
      else case find_store storeId s0 of
        None \<Rightarrow> Inl (AppError 404 ''Store not found'')
      | Some store \<Rightarrow>
          if st_locationType store = WAREHOUSE
          then Inl (AppError 409 ''Cash drawers are not opened at a warehouse'')
          else if getCurrentDrawer storeId s0 \<noteq> None
          then Inl (AppError 409 ''A cash drawer is already open for this store'')
          else
            let drawer = \<lparr>cd_id = newId, cd_storeId = storeId, cd_openedByUserId = au_id actor,
                  cd_closedByUserId = None, cd_openingFloat = moneyDec (the openingFloat),
                  cd_expectedCash = moneyDec 0, cd_countedCash = None, cd_variance = None,
                  cd_openedAt = now, cd_closedAt = None\<rparr>
            in bindE (create_row cd_id drawer (db_drawers s)) (\<lambda>ds.
               Inr (writeAuditLog (Some (au_id actor)) (Some storeId) ''CASH_DRAWER_OPEN'' ''CashDrawer'' (Some newId)
                      (s\<lparr>db_drawers := ds\<rparr>), drawer)))"

text \<open>Net cash of the sales rung up since the drawer was opened.\<close>

definition cash_sale_since :: "ident \<Rightarrow> time \<Rightarrow> sale \<Rightarrow> bool" where
  "cash_sale_since storeId t x \<longleftrightarrow>
     s_storeId x = storeId \<and> s_paymentMethod x = Some CASH
     \<and> (s_paymentStatus x = PayPAID \<or> s_paymentStatus x = PayREFUNDED \<or> s_paymentStatus x = PayREFUNDING)
     \<and> (case s_paidAt x of None \<Rightarrow> False | Some p \<Rightarrow> t \<le> p)"

definition net_cash_sales :: "ident \<Rightarrow> time \<Rightarrow> db \<Rightarrow> decimal" where
  "net_cash_sales storeId t s =
     sum_list (map (\<lambda>x. s_total x - s_refundedAmount x) (filter (cash_sale_since storeId t) (db_sales s)))"

definition drawer_update :: "ident \<Rightarrow> (cash_drawer \<Rightarrow> cash_drawer) \<Rightarrow> db \<Rightarrow> db result" where
  "drawer_update i f s = bindE (update_row cd_id i f (db_drawers s)) (\<lambda>ds. Inr (s\<lparr>db_drawers := ds\<rparr>))"

definition closeDrawer ::
  "time \<Rightarrow> ident \<Rightarrow> auth_user \<Rightarrow> js_number \<Rightarrow> db \<Rightarrow> db \<Rightarrow> (db \<times> cash_drawer) result" where
  "closeDrawer now storeId actor countedCash s0 s =
     (if au_role actor = CASHIER then Inl (AppError 403 ''Cashiers cannot close the cash drawer'')
      else if au_role actor = STORE_ADMIN \<and> au_storeScope actor \<noteq> Some storeId
      then Inl (AppError 403 ''Cannot close a drawer for another store'')
      else if au_role actor \<noteq> STORE_ADMIN \<and> au_role actor \<noteq> COOP_ADMIN
      then Inl (AppError 403 ''Insufficient role to close cash drawer'')
      else if \<not> non_negative countedCash
      then Inl (AppError 400 ''countedCash must be a non-negative number'')
      else case getCurrentDrawer storeId s0 of
        None \<Rightarrow> Inl (AppError 409 ''No open cash drawer for this store'')
      | Some drawer \<Rightarrow>
          let expectedCash = moneyDec (cd_openingFloat drawer + net_cash_sales storeId (cd_openedAt drawer) s0);
              counted = moneyDec (the countedCash);
              variance = moneyDec (counted - expectedCash);
              f = (\<lambda>d. d\<lparr>cd_closedByUserId := Some (au_id actor), cd_closedAt := Some now,
                         cd_expectedCash := expectedCash, cd_countedCash := Some counted,
                         cd_variance := Some variance\<rparr>)
          in bindE (drawer_update (cd_id drawer) f s) (\<lambda>s1.
             case find_row cd_id (cd_id drawer) (db_drawers s1) of
               None \<Rightarrow> Inl RecordNotFound
             | Some row \<Rightarrow>
                 Inr (writeAuditLog (Some (au_id actor)) (Some storeId) ''CASH_DRAWER_CLOSE'' ''CashDrawer''
                        (Some (cd_id row)) s1, row)))"

section \<open>Coverage of shifts by deposits\<close>

definition bankableCash :: "cash_drawer \<Rightarrow> decimal" where
  "bankableCash d =
     (case cd_countedCash d of
        None \<Rightarrow> moneyDec 0
      | Some c \<Rightarrow> (let net = c - cd_openingFloat d in moneyDec (if net < 0 then 0 else net)))"

record drawer_for_allocation =
  da_id :: ident
  da_closedAt :: time
  da_bankable :: decimal

record deposit_for_allocation =
  ca_confirmedAmount :: decimal
  ca_drawerIds :: "ident list"

text \<open>The map \<open>covered\<close> of the code; a shift that is not in it is not covered at all.\<close>

type_synonym coverage = "ident \<Rightarrow> decimal"

fun spread :: "drawer_for_allocation list \<Rightarrow> decimal \<Rightarrow> coverage \<Rightarrow> coverage" where
  "spread [] left cov = cov"
| "spread (d # ds) left cov =
     (if left \<le> 0 then cov
      else
        let already = cov (da_id d); remaining = da_bankable d - already in
        if remaining \<le> 0 then spread ds left cov
        else let take = (if left < remaining then left else remaining)
             in spread ds (left - take) (cov(da_id d := already + take)))"

definition linked_drawers :: "drawer_for_allocation list \<Rightarrow> deposit_for_allocation \<Rightarrow> drawer_for_allocation list" where
  "linked_drawers drawers dep =
     sort_key (\<lambda>d. (da_closedAt d, da_id d))
       (List.map_filter (\<lambda>i. find_row da_id i drawers) (ca_drawerIds dep))"

fun allocate_deposits ::
  "drawer_for_allocation list \<Rightarrow> deposit_for_allocation list \<Rightarrow> coverage \<Rightarrow> coverage" where
  "allocate_deposits drawers [] cov = cov"
| "allocate_deposits drawers (dep # deps) cov =
     allocate_deposits drawers deps
       (spread (linked_drawers drawers dep) (moneyDec (ca_confirmedAmount dep)) cov)"

definition allocateConfirmedDeposits ::
  "drawer_for_allocation list \<Rightarrow> deposit_for_allocation list \<Rightarrow> coverage" where
  "allocateConfirmedDeposits drawers deposits = allocate_deposits drawers deposits (\<lambda>_. 0)"

text \<open>
  The two queries of \<open>loadDrawerCoverage\<close> and their orders; PostgreSQL sorts a missing confirmation
  time last.
\<close>

definition closed_drawers :: "ident \<Rightarrow> db \<Rightarrow> cash_drawer list" where
  "closed_drawers storeId s =
     sort_key (\<lambda>d. (the (cd_closedAt d), cd_id d))
       (filter (\<lambda>d. cd_storeId d = storeId \<and> cd_closedAt d \<noteq> None) (db_drawers s))"

definition confirmed_key :: "cash_deposit \<Rightarrow> int \<times> time \<times> ident" where
  "confirmed_key p =
     (case dep_confirmedAt p of None \<Rightarrow> (1, 0, dep_id p) | Some t \<Rightarrow> (0, t, dep_id p))"

definition confirmed_deposits :: "ident \<Rightarrow> db \<Rightarrow> cash_deposit list" where
  "confirmed_deposits storeId s =
     sort_key confirmed_key
       (filter (\<lambda>p. dep_storeId p = storeId \<and> dep_status p = DepCONFIRMED) (db_deposits s))"

definition for_allocation :: "cash_drawer \<Rightarrow> drawer_for_allocation" where
  "for_allocation d = \<lparr>da_id = cd_id d, da_closedAt = the (cd_closedAt d), da_bankable = bankableCash d\<rparr>"

definition deposit_claim :: "cash_deposit \<Rightarrow> deposit_for_allocation" where
  "deposit_claim p =
     \<lparr>ca_confirmedAmount = (case dep_confirmedAmount p of None \<Rightarrow> 0 | Some a \<Rightarrow> a), ca_drawerIds = dep_drawerIds p\<rparr>"

record drawer_coverage =
  dc_id :: ident
  dc_closedAt :: time
  dc_bankable :: decimal
  dc_covered :: decimal
  dc_uncovered :: decimal

definition loadDrawerCoverage :: "ident \<Rightarrow> db \<Rightarrow> drawer_coverage list" where
  "loadDrawerCoverage storeId s =
     (let forAllocation = map for_allocation (closed_drawers storeId s);
          covered = allocateConfirmedDeposits forAllocation (map deposit_claim (confirmed_deposits storeId s))
      in map (\<lambda>d. let c = covered (da_id d) in
                \<lparr>dc_id = da_id d, dc_closedAt = da_closedAt d, dc_bankable = da_bankable d, dc_covered = c,
                 dc_uncovered = da_bankable d - c\<rparr>) forAllocation)"

section \<open>Deposits\<close>

definition loadActor :: "ident \<Rightarrow> db \<Rightarrow> user result" where
  "loadActor i s =
     (case find_row u_id i (db_users s) of None \<Rightarrow> Inl (AppError 403 ''Unknown user'') | Some u \<Rightarrow> Inr u)"

definition assertCanRecordForStore :: "user \<Rightarrow> ident \<Rightarrow> unit result" where
  "assertCanRecordForStore actor storeId =
     (if u_role actor = COOP_ADMIN then Inr ()
      else if u_role actor = STORE_ADMIN \<and> u_storeId actor = Some storeId then Inr ()
      else Inl (AppError 403 ''Only this store's STORE_ADMIN or a COOP_ADMIN may record deposits''))"

definition parsePositiveAmount :: "js_number \<Rightarrow> string \<Rightarrow> decimal result" where
  "parsePositiveAmount value field =
     (case value of
        None \<Rightarrow> Inl (AppError 400 (field @ '' must be a positive number''))
      | Some v \<Rightarrow>
          if v \<le> 0 \<or> moneyDec v \<le> 0 then Inl (AppError 400 (field @ '' must be a positive number''))
          else Inr (moneyDec v))"

record deposit_options =
  do_depositedAt :: "time option"
  do_depositSlipUrl :: "string option"
  do_notes :: "string option"

definition recordDeposit ::
  "time \<Rightarrow> ident \<Rightarrow> ident \<Rightarrow> js_number \<Rightarrow> ident list \<Rightarrow> ident \<Rightarrow> deposit_options \<Rightarrow> db \<Rightarrow> (db \<times> cash_deposit) result" where
  "recordDeposit now newId storeId amount drawerIds actorUserId opts s =
     bindE (parsePositiveAmount amount ''amount'') (\<lambda>recordedAmount.
     let ids = uniq drawerIds;
         depositedAt = (case do_depositedAt opts of None \<Rightarrow> now | Some t \<Rightarrow> t)
     in
     if ids = [] then Inl (AppError 400 ''A deposit must cover at least one closed cash drawer'')
     else if depositedAt > now then Inl (AppError 400 ''depositedAt cannot be in the future'')
     else
     bindE (loadActor actorUserId s) (\<lambda>actor.
     bindE (assertCanRecordForStore actor storeId) (\<lambda>_.
     if find_store storeId s = None then Inl (AppError 404 ''Store not found'')
     else
     let drawers = filter (\<lambda>d. cd_id d \<in> set ids) (db_drawers s);
         found = map cd_id drawers
     in
     if filter (\<lambda>i. i \<notin> set found) ids \<noteq> [] then Inl (AppError 404 ''Cash drawer not found'')
     else if filter (\<lambda>d. cd_storeId d \<noteq> storeId) drawers \<noteq> []
     then Inl (AppError 400 ''Cash drawers belong to another store'')
     else if filter (\<lambda>d. cd_closedAt d = None) drawers \<noteq> []
     then Inl (AppError 409 ''Only closed cash drawers can be deposited'')
     else if filter (\<lambda>d. dc_id d \<in> set found \<and> dc_uncovered d \<le> 0) (loadDrawerCoverage storeId s) \<noteq> []
     then Inl (AppError 409 ''Cash drawers are already fully covered by confirmed deposits'')
     else
     let deposit = \<lparr>dep_id = newId, dep_storeId = storeId, dep_depositedByUserId = u_id actor,
           dep_amount = recordedAmount, dep_depositedAt = depositedAt, dep_bankReference = None,
           dep_depositSlipUrl = trimmed (do_depositSlipUrl opts), dep_status = DepRECORDED,
           dep_confirmedAmount = None, dep_confirmedByUserId = None, dep_confirmedAt = None,
           dep_disputedByUserId = None, dep_disputedAt = None, dep_disputeReason = None,
           dep_notes = trimmed (do_notes opts), dep_drawerIds = ids\<rparr>
     in bindE (create_row dep_id deposit (db_deposits s)) (\<lambda>ds.
        Inr (writeAuditLog (Some (u_id actor)) (Some storeId) ''CASH_DEPOSIT_RECORD'' ''CashDeposit'' (Some newId)
               (s\<lparr>db_deposits := ds\<rparr>), deposit)))))"

fun deposit_status_name :: "deposit_status \<Rightarrow> string" where
  "deposit_status_name DepRECORDED = ''RECORDED''"
| "deposit_status_name DepCONFIRMED = ''CONFIRMED''"
| "deposit_status_name DepDISPUTED = ''DISPUTED''"

definition find_deposit :: "ident \<Rightarrow> db \<Rightarrow> cash_deposit option" where
  "find_deposit i s = find_row dep_id i (db_deposits s)"

text \<open>The \<open>updateMany\<close> guarded on the status, and the row read back.\<close>

definition claim_deposit ::
  "ident \<Rightarrow> deposit_status \<Rightarrow> (cash_deposit \<Rightarrow> cash_deposit) \<Rightarrow> db \<Rightarrow> (db \<times> cash_deposit) result" where
  "claim_deposit i st f s =
     (let (n, ds) = updateMany_rows (\<lambda>p. dep_id p = i \<and> dep_status p = st) f (db_deposits s);
          s1 = s\<lparr>db_deposits := ds\<rparr>
      in if n = 0 then Inl (AppError 409 ''Deposit was changed by another user; reload and retry'')
         else case find_deposit i s1 of None \<Rightarrow> Inl RecordNotFound | Some p \<Rightarrow> Inr (s1, p))"

record confirm_result =
  cfr_deposit :: cash_deposit
  cfr_discrepancy :: decimal
  cfr_hasDiscrepancy :: bool

definition confirmDeposit ::
  "time \<Rightarrow> ident \<Rightarrow> string option \<Rightarrow> js_number \<Rightarrow> ident \<Rightarrow> db \<Rightarrow> (db \<times> confirm_result) result" where
  "confirmDeposit now depositId bankReference actualAmount actorUserId s =
     (case trimmed bankReference of
        None \<Rightarrow> Inl (AppError 400 ''bankReference is required to confirm a deposit'')
      | Some reference \<Rightarrow>
     bindE (parsePositiveAmount actualAmount ''actualAmount'') (\<lambda>confirmedAmount.
     bindE (loadActor actorUserId s) (\<lambda>actor.
     if u_role actor \<noteq> COOP_ADMIN then Inl (AppError 403 ''Only COOP_ADMIN may confirm deposits'')
     else case find_deposit depositId s of
       None \<Rightarrow> Inl (AppError 404 ''Deposit not found'')
     | Some existing \<Rightarrow>
         if dep_status existing \<noteq> DepRECORDED
         then Inl (AppError 409 (''Only RECORDED deposits can be confirmed (status is ''
                                 @ deposit_status_name (dep_status existing) @ '')''))
         else
         bindE (claim_deposit depositId DepRECORDED
                  (\<lambda>p. p\<lparr>dep_status := DepCONFIRMED, dep_bankReference := Some reference,
                         dep_confirmedAmount := Some confirmedAmount, dep_confirmedByUserId := Some (u_id actor),
                         dep_confirmedAt := Some now\<rparr>) s) (\<lambda>(s1, deposit).
         let discrepancy = moneyDec (confirmedAmount - dep_amount existing) in
         Inr (writeAuditLog (Some (u_id actor)) (Some (dep_storeId deposit)) ''CASH_DEPOSIT_CONFIRM'' ''CashDeposit''
                (Some (dep_id deposit)) s1,
              \<lparr>cfr_deposit = deposit, cfr_discrepancy = discrepancy,
               cfr_hasDiscrepancy = (discrepancy \<noteq> 0)\<rparr>)))))"

definition disputeDeposit ::
  "time \<Rightarrow> ident \<Rightarrow> string option \<Rightarrow> ident \<Rightarrow> db \<Rightarrow> (db \<times> cash_deposit) result" where
  "disputeDeposit now depositId reason actorUserId s =
     (case trimmed reason of
        None \<Rightarrow> Inl (AppError 400 ''A reason is required to dispute a deposit'')
      | Some disputeReason \<Rightarrow>
     bindE (loadActor actorUserId s) (\<lambda>actor.
     case find_deposit depositId s of
       None \<Rightarrow> Inl (AppError 404 ''Deposit not found'')
     | Some existing \<Rightarrow>
         if dep_status existing = DepDISPUTED then Inl (AppError 409 ''Deposit is already disputed'')
         else if u_role actor \<noteq> COOP_ADMIN
           \<and> \<not> (u_role actor = STORE_ADMIN \<and> u_storeId actor = Some (dep_storeId existing)
                \<and> dep_status existing = DepRECORDED)
         then Inl (AppError 403 (if dep_status existing = DepCONFIRMED
                then ''Only COOP_ADMIN may dispute a confirmed deposit''
                else ''Only this store's STORE_ADMIN or a COOP_ADMIN may dispute this deposit''))
         else
         bindE (claim_deposit depositId (dep_status existing)
                  (\<lambda>p. p\<lparr>dep_status := DepDISPUTED, dep_disputedByUserId := Some (u_id actor),
                         dep_disputedAt := Some now, dep_disputeReason := Some disputeReason\<rparr>) s) (\<lambda>(s1, deposit).
         Inr (writeAuditLog (Some (u_id actor)) (Some (dep_storeId deposit)) ''CASH_DEPOSIT_DISPUTE'' ''CashDeposit''
                (Some (dep_id deposit)) s1, deposit))))"

section \<open>Cash positions\<close>

definition MS_PER_DAY :: int where
  "MS_PER_DAY = 24 * 60 * 60 * 1000"

record undeposited_drawer =
  ud_drawerId :: ident
  ud_closedAt :: time
  ud_bankableCash :: decimal
  ud_covered :: decimal
  ud_undeposited :: decimal
  ud_ageDays :: int

record undeposited_summary =
  us_totalUndeposited :: decimal
  us_oldestAgeDays :: "int option"
  us_drawers :: "undeposited_drawer list"

definition getUndepositedCash :: "ident \<Rightarrow> time \<Rightarrow> db \<Rightarrow> undeposited_summary result" where
  "getUndepositedCash storeId asOf s =
     (case find_store storeId s of
        None \<Rightarrow> Inl (AppError 404 ''Store not found'')
      | Some _ \<Rightarrow>
          let coverage = filter (\<lambda>d. dc_uncovered d > 0) (loadDrawerCoverage storeId s);
              drawers = map (\<lambda>d. \<lparr>ud_drawerId = dc_id d, ud_closedAt = dc_closedAt d,
                                  ud_bankableCash = moneyDec (dc_bankable d), ud_covered = moneyDec (dc_covered d),
                                  ud_undeposited = moneyDec (dc_uncovered d),
                                  ud_ageDays = (asOf - dc_closedAt d) div MS_PER_DAY\<rparr>) coverage
          in Inr \<lparr>us_totalUndeposited = moneyDec (sum_list (map dc_uncovered coverage)),
                  us_oldestAgeDays = (case drawers of [] \<Rightarrow> None | d # _ \<Rightarrow> Some (ud_ageDays d)),
                  us_drawers = drawers\<rparr>)"

record cash_position =
  cp_storeId :: ident
  cp_storeName :: string
  cp_graceDays :: int
  cp_cashOnHandByDrawer :: "undeposited_drawer list"
  cp_undepositedTotal :: decimal
  cp_oldestUndepositedAt :: "time option"
  cp_daysOutstanding :: int
  cp_pastGrace :: bool
  cp_pastDoubleGrace :: bool

text \<open>The grace period is a column of the co-operative's settings row.\<close>

definition buildCashPosition :: "store \<Rightarrow> int \<Rightarrow> time \<Rightarrow> db \<Rightarrow> cash_position result" where
  "buildCashPosition store graceDays asOf s =
     bindE (getUndepositedCash (st_id store) asOf s) (\<lambda>u.
     let oldest = (case us_drawers u of [] \<Rightarrow> None | d # _ \<Rightarrow> Some d);
         days = (case oldest of None \<Rightarrow> 0 | Some d \<Rightarrow> ud_ageDays d);
         hasCash = us_totalUndeposited u > 0
     in Inr \<lparr>cp_storeId = st_id store, cp_storeName = st_name store, cp_graceDays = graceDays,
             cp_cashOnHandByDrawer = us_drawers u, cp_undepositedTotal = us_totalUndeposited u,
             cp_oldestUndepositedAt = map_option ud_closedAt oldest, cp_daysOutstanding = days,
             cp_pastGrace = (hasCash \<and> days > graceDays),
             cp_pastDoubleGrace = (hasCash \<and> days > graceDays * 2)\<rparr>)"

definition getStoreCashPosition :: "int \<Rightarrow> ident \<Rightarrow> time \<Rightarrow> db \<Rightarrow> cash_position result" where
  "getStoreCashPosition graceDays storeId asOf s =
     (case find_store storeId s of
        None \<Rightarrow> Inl (AppError 404 ''Store not found'')
      | Some store \<Rightarrow> buildCashPosition store graceDays asOf s)"

fun positions_of :: "int \<Rightarrow> time \<Rightarrow> db \<Rightarrow> store list \<Rightarrow> cash_position list result" where
  "positions_of graceDays asOf s [] = Inr []"
| "positions_of graceDays asOf s (store # rest) =
     bindE (buildCashPosition store graceDays asOf s) (\<lambda>p.
     bindE (positions_of graceDays asOf s rest) (\<lambda>ps. Inr (p # ps)))"

definition retail_stores :: "db \<Rightarrow> store list" where
  "retail_stores s = sort_key st_name (filter (\<lambda>st. st_locationType st = RETAIL_STORE) (db_stores s))"

definition getNetworkCashPositions :: "int \<Rightarrow> time \<Rightarrow> db \<Rightarrow> cash_position list result" where
  "getNetworkCashPositions graceDays asOf s =
     bindE (positions_of graceDays asOf s (retail_stores s)) (\<lambda>ps.
     Inr (sort_key (\<lambda>p. (- cp_daysOutstanding p, - cp_undepositedTotal p, cp_storeName p)) ps))"

end
