(* ===== verification/Cash_Proofs.thy ===== *)
theory Cash_Proofs
  imports Cash "HOL-Library.Multiset"
begin

text \<open>
  Correctness of drawers and deposits: coverage is bounded by the shift and by the bank, fills the
  oldest shift first, and only grows when a deposit is confirmed; a closed drawer balances; one
  drawer per store is open unless two requests race.
\<close>

section \<open>Spreading one deposit\<close>

text \<open>A shift is covered by something between nothing and its cash.\<close>

definition cov_ok :: "drawer_for_allocation list \<Rightarrow> coverage \<Rightarrow> bool" where
  "cov_ok ds cov \<longleftrightarrow> (\<forall>d \<in> set ds. 0 \<le> cov (da_id d) \<and> cov (da_id d) \<le> da_bankable d)"

definition total_covered :: "drawer_for_allocation list \<Rightarrow> coverage \<Rightarrow> decimal" where
  "total_covered ds cov = sum_list (map (\<lambda>d. cov (da_id d)) ds)"

lemma distinct_da_inj: "distinct (map da_id ds) \<Longrightarrow> d \<in> set ds \<Longrightarrow> e \<in> set ds \<Longrightarrow> da_id d = da_id e \<Longrightarrow> d = e"
  by (auto simp: distinct_map inj_on_def)

lemma spread_cases:
  obtains (stop) "left \<le> 0" "spread (d # ds) left cov = cov"
  | (full) "0 < left" "da_bankable d \<le> cov (da_id d)" "spread (d # ds) left cov = spread ds left cov"
  | (take) t where "0 < t" "t \<le> left" "t \<le> da_bankable d - cov (da_id d)" "t = left \<or> t = da_bankable d - cov (da_id d)"
      "spread (d # ds) left cov = spread ds (left - t) (cov(da_id d := cov (da_id d) + t))"
proof -
  define t where "t = (if left < da_bankable d - cov (da_id d) then left else da_bankable d - cov (da_id d))"
  have "spread (d # ds) left cov = (if left \<le> 0 then cov
      else if da_bankable d - cov (da_id d) \<le> 0 then spread ds left cov
      else spread ds (left - t) (cov(da_id d := cov (da_id d) + t)))"
    by (simp add: t_def Let_def)
  then show thesis
    using stop full take [of t] by (cases "left \<le> 0"; cases "da_bankable d - cov (da_id d) \<le> 0")
      (auto simp: t_def split: if_splits)
qed

declare spread.simps(2) [simp del]

lemma spread_mono: "cov i \<le> spread ds left cov i"
proof (induction ds arbitrary: left cov)
  case (Cons d ds)
  show ?case
  proof (cases d ds left cov rule: spread_cases)
    case (take t)
    have "cov i \<le> (cov(da_id d := cov (da_id d) + t)) i" using take(1) by simp
    also have "\<dots> \<le> spread ds (left - t) (cov(da_id d := cov (da_id d) + t)) i" by (rule Cons.IH)
    finally show ?thesis using take(5) by simp
  qed (use Cons.IH in simp_all)
qed simp

lemma spread_other: "i \<notin> da_id ` set ds \<Longrightarrow> spread ds left cov i = cov i"
proof (induction ds arbitrary: left cov)
  case (Cons d ds)
  then show ?case by (cases d ds left cov rule: spread_cases) simp_all
qed simp

lemma spread_ok:
  assumes "distinct (map da_id ds)"
  shows "set es \<subseteq> set ds \<Longrightarrow> cov_ok ds cov \<Longrightarrow> cov_ok ds (spread es left cov)"
proof (induction es arbitrary: left cov)
  case (Cons d es)
  show ?case
  proof (cases d es left cov rule: spread_cases)
    case (take t)
    have "0 \<le> cov (da_id d)" using Cons.prems by (auto simp: cov_ok_def)
    moreover have "da_bankable e = da_bankable d" if "e \<in> set ds" "da_id e = da_id d" for e
      using distinct_da_inj [OF assms, of d e] that Cons.prems(1) by auto
    ultimately have "cov_ok ds (cov(da_id d := cov (da_id d) + t))"
      using Cons.prems(2) take(1,3) by (auto simp: cov_ok_def)
    then show ?thesis using Cons.IH Cons.prems(1) take(5) by simp
  qed (use Cons in simp_all)
qed simp

lemma total_covered_upd:
  "distinct (map da_id ds) \<Longrightarrow> d \<in> set ds \<Longrightarrow>
     total_covered ds (cov(da_id d := x)) = total_covered ds cov + (x - cov (da_id d))"
proof (induction ds)
  case (Cons e ds)
  show ?case
  proof (cases "da_id e = da_id d")
    case True
    then have "da_id d \<notin> da_id ` set ds" using Cons.prems(1) by auto
    then have "total_covered ds (cov(da_id d := x)) = total_covered ds cov"
      unfolding total_covered_def by (intro arg_cong [where f = sum_list] map_cong) (auto simp: image_iff)
    then show ?thesis using True by (simp add: total_covered_def)
  next
    case False
    then show ?thesis using Cons by (auto simp: total_covered_def)
  qed
qed simp

lemma spread_total_le:
  assumes "distinct (map da_id ds)"
  shows "set es \<subseteq> set ds \<Longrightarrow> 0 \<le> left \<Longrightarrow> total_covered ds (spread es left cov) \<le> total_covered ds cov + left"
proof (induction es arbitrary: left cov)
  case (Cons d es)
  show ?case
  proof (cases d es left cov rule: spread_cases)
    case (take t)
    have "total_covered ds (spread es (left - t) (cov(da_id d := cov (da_id d) + t)))
        \<le> total_covered ds (cov(da_id d := cov (da_id d) + t)) + (left - t)"
      by (rule Cons.IH) (use Cons.prems(1) take(2) in auto)
    then show ?thesis using total_covered_upd [OF assms, of d cov] Cons.prems(1) take(5) by simp
  qed (use Cons in simp_all)
qed simp

text \<open>Within one deposit a later shift is reached only when the earlier ones are full.\<close>

lemma spread_fills_first:
  "distinct (map da_id (xs @ d # ys)) \<Longrightarrow> cov (da_id d) < spread (xs @ d # ys) left cov (da_id d) \<Longrightarrow> e \<in> set xs \<Longrightarrow>
     da_bankable e \<le> spread (xs @ d # ys) left cov (da_id e)"
proof (induction xs arbitrary: left cov)
  case (Cons x xs)
  let ?rest = "xs @ d # ys"
  have x: "da_id x \<notin> da_id ` set ?rest" "distinct (map da_id ?rest)" using Cons.prems(1) by auto
  have keep: "spread ?rest l c (da_id x) = c (da_id x)" for l c by (rule spread_other [OF x(1)])
  show ?case
  proof (cases x ?rest left cov rule: spread_cases)
    case stop
    then show ?thesis using Cons.prems(2) by simp
  next
    case full
    then show ?thesis using Cons.IH [OF x(2), of cov left] Cons.prems(2,3) keep [of left cov] by auto
  next
    case (take t)
    let ?c = "cov(da_id x := cov (da_id x) + t)"
    have lt: "?c (da_id d) < spread ?rest (left - t) ?c (da_id d)" using Cons.prems(2) take(5) x(1) by auto
    then have "\<not> left - t \<le> 0" by (cases ?rest) (auto simp: spread.simps(2))
    then have "da_bankable x \<le> spread ?rest (left - t) ?c (da_id x)" using take(4) keep [of "left - t" ?c] by auto
    then show ?thesis using Cons.IH [OF x(2) lt] Cons.prems(3) unfolding append_Cons take(5)
      by (auto simp del: fun_upd_apply)
  qed
qed simp

section \<open>All confirmed deposits\<close>

lemma linked_subset: "set (linked_drawers drawers dep) \<subseteq> set drawers"
  by (auto simp: linked_drawers_def List.map_filter_def dest: find_row_SomeD split: option.splits)

lemma allocate_snoc:
  "allocate_deposits drawers (deps @ [dep]) cov
     = spread (linked_drawers drawers dep) (moneyDec (ca_confirmedAmount dep)) (allocate_deposits drawers deps cov)"
  by (induction deps arbitrary: cov) simp_all

lemma allocate_bounds:
  assumes "distinct (map da_id drawers)"
  shows "cov_ok drawers cov \<Longrightarrow> \<forall>dep \<in> set deps. 0 \<le> ca_confirmedAmount dep \<Longrightarrow>
     cov_ok drawers (allocate_deposits drawers deps cov)
     \<and> total_covered drawers (allocate_deposits drawers deps cov)
         \<le> total_covered drawers cov + sum_list (map (\<lambda>dep. moneyDec (ca_confirmedAmount dep)) deps)"
proof (induction deps arbitrary: cov)
  case (Cons dep deps)
  let ?c = "spread (linked_drawers drawers dep) (moneyDec (ca_confirmedAmount dep)) cov"
  have "cov_ok drawers ?c" by (rule spread_ok [OF assms linked_subset Cons.prems(1)])
  moreover have "total_covered drawers ?c \<le> total_covered drawers cov + moneyDec (ca_confirmedAmount dep)"
    by (rule spread_total_le [OF assms linked_subset]) (use Cons.prems(2) in \<open>simp add: moneyDec_nonneg\<close>)
  ultimately show ?case using Cons.IH [of ?c] Cons.prems(2) by fastforce
qed simp

text \<open>
  C40: the confirmed deposits never cover more of a shift than the cash it made, never less than
  nothing, and all together never more than the bank received.
\<close>

theorem coverage_bounded:
  assumes "distinct (map da_id drawers)" "\<forall>d \<in> set drawers. 0 \<le> da_bankable d"
    and "\<forall>dep \<in> set deposits. 0 \<le> ca_confirmedAmount dep"
  shows "(\<forall>d \<in> set drawers. 0 \<le> allocateConfirmedDeposits drawers deposits (da_id d)
            \<and> allocateConfirmedDeposits drawers deposits (da_id d) \<le> da_bankable d)
    \<and> sum_list (map (\<lambda>d. allocateConfirmedDeposits drawers deposits (da_id d)) drawers)
        \<le> sum_list (map (\<lambda>dep. moneyDec (ca_confirmedAmount dep)) deposits)"
proof -
  have "cov_ok drawers (\<lambda>_. 0)" using assms(2) by (simp add: cov_ok_def)
  moreover have "total_covered drawers (\<lambda>_. 0) = 0" by (simp add: total_covered_def sum_list_0)
  ultimately show ?thesis
    using allocate_bounds [OF assms(1), of "\<lambda>_. 0" deposits] assms(3)
    by (simp add: cov_ok_def total_covered_def allocateConfirmedDeposits_def)
qed

definition ex_shifts :: "drawer_for_allocation list" where
  "ex_shifts = [\<lparr>da_id = ''D1'', da_closedAt = 10, da_bankable = 100\<rparr>, \<lparr>da_id = ''D2'', da_closedAt = 20, da_bankable = 50\<rparr>]"

definition ex_claims :: "deposit_for_allocation list" where
  "ex_claims = [\<lparr>ca_confirmedAmount = 120, ca_drawerIds = [''D2'', ''D1'']\<rparr>, \<lparr>ca_confirmedAmount = 80, ca_drawerIds = [''D2'']\<rparr>]"

theorem coverage_bounded_witness:
  "map (\<lambda>d. allocateConfirmedDeposits ex_shifts ex_claims (da_id d)) ex_shifts = [100, 50]
   \<and> sum_list (map (\<lambda>d. allocateConfirmedDeposits ex_shifts ex_claims (da_id d)) ex_shifts)
        \<le> sum_list (map (\<lambda>dep. moneyDec (ca_confirmedAmount dep)) ex_claims)"
proof
  show "map (\<lambda>d. allocateConfirmedDeposits ex_shifts ex_claims (da_id d)) ex_shifts = [100, 50]" by code_simp
  have "distinct (map da_id ex_shifts)" by code_simp
  then show "sum_list (map (\<lambda>d. allocateConfirmedDeposits ex_shifts ex_claims (da_id d)) ex_shifts)
        \<le> sum_list (map (\<lambda>dep. moneyDec (ca_confirmedAmount dep)) ex_claims)"
    using coverage_bounded [of ex_shifts ex_claims] by (simp add: ex_shifts_def ex_claims_def)
qed

section \<open>Confirming a deposit\<close>

lemma filter_eq_singleton: "distinct l \<Longrightarrow> z \<in> set l \<Longrightarrow> filter (\<lambda>w. z = w) l = [z]"
  by (induction l) (auto intro!: filter_False)

lemma sort_key_snoc:
  assumes "distinct (map k (xs @ [x] @ ys))" "\<forall>y \<in> set (xs @ ys). k y \<le> k x"
  shows "sort_key k (xs @ x # ys) = sort_key k (xs @ ys) @ [x]"
proof (rule properties_for_sort_key)
  show "mset (sort_key k (xs @ ys) @ [x]) = mset (xs @ x # ys)" by simp
  show "sorted (map k (sort_key k (xs @ ys) @ [x]))" using assms(2) by (auto simp: sorted_append)
  fix z assume "z \<in> set (sort_key k (xs @ ys) @ [x])"
  have "distinct (map k (xs @ x # ys))" using assms(1) by simp
  then have inj: "inj_on k (set (xs @ x # ys))" "distinct (xs @ x # ys)" using distinct_map [of k "xs @ x # ys"] by blast+
  have one: "filter (\<lambda>w. k z = k w) l = [z]" if "set l = set (xs @ x # ys)" "distinct l" "z \<in> set l" for l
  proof -
    have "filter (\<lambda>w. k z = k w) l = filter (\<lambda>w. z = w) l"
      using inj(1) that(1,3) by (intro filter_cong) (auto simp: inj_on_def)
    then show ?thesis using that(2,3) by (simp add: filter_eq_singleton)
  qed
  show "filter (\<lambda>w. k z = k w) (sort_key k (xs @ ys) @ [x]) = filter (\<lambda>w. k z = k w) (xs @ x # ys)"
    using one [of "sort_key k (xs @ ys) @ [x]"] one [of "xs @ x # ys"] inj(2) \<open>z \<in> _\<close> by auto
qed

lemma claim_deposit_Inr:
  assumes "claim_deposit i st f s = Inr (t, p)"
  shows "t = s\<lparr>db_deposits := map (\<lambda>p. if dep_id p = i \<and> dep_status p = st then f p else p) (db_deposits s)\<rparr>"
  using assms by (auto simp: claim_deposit_def updateMany_rows_def Let_def split: if_splits option.splits)

lemma confirmDeposit_Inr:
  assumes "confirmDeposit now i ref amt actor s = Inr (t, r)"
  obtains e reference amount u where "find_deposit i s = Some e" "dep_status e = DepRECORDED" "0 < amount"
    "find_row u_id actor (db_users s) = Some u" "u_role u = COOP_ADMIN"
    "db_deposits t = map (\<lambda>p. if dep_id p = i \<and> dep_status p = DepRECORDED
        then p\<lparr>dep_status := DepCONFIRMED, dep_bankReference := Some reference, dep_confirmedAmount := Some amount,
               dep_confirmedByUserId := Some (u_id u), dep_confirmedAt := Some now\<rparr> else p) (db_deposits s)"
    "db_drawers t = db_drawers s" "cfr_discrepancy r = moneyDec (amount - dep_amount e)"
    "parsePositiveAmount amt ''actualAmount'' = Inr amount"
proof -
  from assms obtain reference amount u e st p where
    a: "parsePositiveAmount amt ''actualAmount'' = Inr amount" "loadActor actor s = Inr u"
    and b: "u_role u = COOP_ADMIN" and e: "find_deposit i s = Some e" "dep_status e = DepRECORDED"
    and c: "claim_deposit i DepRECORDED
        (\<lambda>p. p\<lparr>dep_status := DepCONFIRMED, dep_bankReference := Some reference, dep_confirmedAmount := Some amount,
               dep_confirmedByUserId := Some (u_id u), dep_confirmedAt := Some now\<rparr>) s = Inr (st, p)"
    and t: "t = writeAuditLog (Some (u_id u)) (Some (dep_storeId p)) ''CASH_DEPOSIT_CONFIRM'' ''CashDeposit'' (Some (dep_id p)) st"
      "cfr_discrepancy r = moneyDec (amount - dep_amount e)"
    by (auto simp: confirmDeposit_def bindE_Inr_iff Let_def split: option.splits if_splits prod.splits)
  have "0 < amount" using a(1) by (auto simp: parsePositiveAmount_def split: option.splits if_splits)
  moreover have "find_row u_id actor (db_users s) = Some u"
    using a(2) by (auto simp: loadActor_def split: option.splits)
  moreover have "db_deposits t = db_deposits st" "db_drawers t = db_drawers st" by (simp_all add: t(1) writeAuditLog_def)
  moreover note claim_deposit_Inr [OF c]
  ultimately show thesis by (intro that [where reference = reference, OF e _ _ b _ _ t(2) a(1)]) simp_all
qed

lemma confirmed_deposits_confirm:
  assumes d: "distinct (map dep_id (db_deposits s))" and e: "find_deposit i s = Some e" "dep_status e = DepRECORDED"
    and past: "\<forall>p \<in> set (db_deposits s). dep_status p = DepCONFIRMED \<longrightarrow> (\<exists>c < now. dep_confirmedAt p = Some c)"
    and f: "\<And>p. dep_id (f p) = dep_id p" "\<And>p. dep_storeId (f p) = dep_storeId p" "\<And>p. dep_status (f p) = DepCONFIRMED"
      "\<And>p. dep_confirmedAt (f p) = Some now"
    and t: "db_deposits t = map (\<lambda>p. if dep_id p = i \<and> dep_status p = DepRECORDED then f p else p) (db_deposits s)"
  shows "confirmed_deposits st t = (if dep_storeId e = st then confirmed_deposits st s @ [f e] else confirmed_deposits st s)"
proof -
  have ei: "e \<in> set (db_deposits s)" "dep_id e = i" using find_row_SomeD [of dep_id i "db_deposits s" e] e by (simp_all add: find_deposit_def)
  then obtain xs ys where xy: "db_deposits s = xs @ e # ys" by (meson split_list)
  have "dep_id e \<notin> dep_id ` (set xs \<union> set ys)" using d xy by auto
  then have no: "dep_id p \<noteq> i" if "p \<in> set xs \<or> p \<in> set ys" for p using ei(2) that by (metis UnI1 UnI2 imageI)
  let ?P = "\<lambda>p. dep_storeId p = st \<and> dep_status p = DepCONFIRMED"
  let ?g = "\<lambda>p. if dep_id p = i \<and> dep_status p = DepRECORDED then f p else p"
  have id: "map ?g xs = xs" "map ?g ys = ys" using no by (auto intro!: map_idI)
  have t': "filter ?P (db_deposits t) = filter ?P xs @ (if dep_storeId e = st then [f e] else []) @ filter ?P ys"
    unfolding t xy using id ei(2) e(2) f(2,3) by simp
  have s': "filter ?P (db_deposits s) = filter ?P xs @ filter ?P ys" using xy e(2) by simp
  show ?thesis
  proof (cases "dep_storeId e = st")
    case False
    then show ?thesis using t' s' by (simp add: confirmed_deposits_def)
  next
    case True
    have ck: "confirmed_key p \<le> confirmed_key (f e)" if "p \<in> set (filter ?P xs @ filter ?P ys)" for p
      using past xy that f(1,4) by (auto simp: confirmed_key_def)
    have "distinct (map dep_id (filter ?P xs @ [f e] @ filter ?P ys))"
      using d xy f(1) by (auto simp: distinct_map_filter)
    moreover have "dep_id p = snd (snd (confirmed_key p))" for p by (simp add: confirmed_key_def split: option.split)
    ultimately have "distinct (map confirmed_key (filter ?P xs @ [f e] @ filter ?P ys))"
      unfolding distinct_map by (auto simp: inj_on_def)
    then show ?thesis
      using sort_key_snoc [of confirmed_key "filter ?P xs" "f e" "filter ?P ys"] ck True t' s'
      by (simp add: confirmed_deposits_def)
  qed
qed

lemma load_dc:
  "map dc_id (loadDrawerCoverage st s) = map cd_id (closed_drawers st s)"
  "map dc_covered (loadDrawerCoverage st s)
     = map (\<lambda>d. allocateConfirmedDeposits (map for_allocation (closed_drawers st s))
                  (map deposit_claim (confirmed_deposits st s)) (cd_id d)) (closed_drawers st s)"
  by (simp_all add: loadDrawerCoverage_def Let_def for_allocation_def comp_def)

lemma total_covered_load:
  "total_covered (map for_allocation ds) cov = sum_list (map (\<lambda>d. cov (cd_id d)) ds)"
  by (simp add: total_covered_def for_allocation_def comp_def)

text \<open>
  Confirming a deposit never uncovers a shift: in every store each closed shift is covered by at
  least as much as before, and all shifts of the store together by at most the confirmed amount
  more. A deposit that is only recorded covers nothing.
\<close>

theorem confirm_only_covers:
  assumes run: "confirmDeposit now i ref amt actor s = Inr (t, r)"
    and d: "distinct (map dep_id (db_deposits s))" "distinct (map cd_id (db_drawers s))"
    and past: "\<forall>p \<in> set (db_deposits s). dep_status p = DepCONFIRMED \<longrightarrow> (\<exists>c < now. dep_confirmedAt p = Some c)"
    and amt: "amt = Some a"
  shows "map dc_id (loadDrawerCoverage st t) = map dc_id (loadDrawerCoverage st s)
    \<and> list_all2 (\<le>) (map dc_covered (loadDrawerCoverage st s)) (map dc_covered (loadDrawerCoverage st t))
    \<and> sum_list (map dc_covered (loadDrawerCoverage st t)) \<le> sum_list (map dc_covered (loadDrawerCoverage st s)) + moneyDec a"
proof -
  obtain e reference amount and u :: user where e: "find_deposit i s = Some e" "dep_status e = DepRECORDED" "0 < amount"
    and t: "db_deposits t = map (\<lambda>p. if dep_id p = i \<and> dep_status p = DepRECORDED
        then p\<lparr>dep_status := DepCONFIRMED, dep_bankReference := Some reference, dep_confirmedAmount := Some amount,
               dep_confirmedByUserId := Some (u_id u), dep_confirmedAt := Some now\<rparr> else p) (db_deposits s)"
    and dr: "db_drawers t = db_drawers s" and am: "parsePositiveAmount amt ''actualAmount'' = Inr amount"
    by (rule confirmDeposit_Inr [OF run]) (rule that; assumption)
  let ?f = "\<lambda>p. p\<lparr>dep_status := DepCONFIRMED, dep_bankReference := Some reference, dep_confirmedAmount := Some amount,
               dep_confirmedByUserId := Some (u_id u), dep_confirmedAt := Some now\<rparr>"
  have amount: "amount = moneyDec a" using am amt by (auto simp: parsePositiveAmount_def split: if_splits)
  let ?ds = "map for_allocation (closed_drawers st s)"
  let ?cs = "map deposit_claim (confirmed_deposits st s)"
  let ?old = "allocateConfirmedDeposits ?ds ?cs"
  have closed: "closed_drawers st t = closed_drawers st s" by (simp add: closed_drawers_def dr)
  have dis: "distinct (map da_id ?ds)"
    using d(2) by (auto simp: closed_drawers_def for_allocation_def comp_def distinct_map inj_on_def)
  have conf: "confirmed_deposits st t
      = (if dep_storeId e = st then confirmed_deposits st s @ [?f e] else confirmed_deposits st s)"
    by (rule confirmed_deposits_confirm [OF d(1) e(1,2) past _ _ _ _ t]) simp_all
  define new where "new = allocateConfirmedDeposits ?ds (map deposit_claim (confirmed_deposits st t))"
  have "new = ?old \<or> new = spread (linked_drawers ?ds (deposit_claim (?f e))) (moneyDec amount) ?old"
    using conf by (simp add: new_def allocateConfirmedDeposits_def allocate_snoc deposit_claim_def)
  then have res: "(\<forall>j. ?old j \<le> new j) \<and> total_covered ?ds new \<le> total_covered ?ds ?old + moneyDec amount"
  proof
    assume "new = ?old"
    then show ?thesis using e(3) by (simp add: moneyDec_nonneg)
  next
    assume n: "new = spread (linked_drawers ?ds (deposit_claim (?f e))) (moneyDec amount) ?old"
    have "0 \<le> moneyDec amount" using e(3) by (simp add: moneyDec_nonneg)
    then show ?thesis unfolding n using spread_mono spread_total_le [OF dis linked_subset] by blast
  qed
  have ma: "moneyDec amount = moneyDec a" by (simp add: amount moneyDec_idem)
  have ids: "map dc_id (loadDrawerCoverage st t) = map dc_id (loadDrawerCoverage st s)"
    unfolding load_dc closed ..
  have after: "map dc_covered (loadDrawerCoverage st t) = map (\<lambda>d. new (cd_id d)) (closed_drawers st s)"
    unfolding load_dc(2) [of st t] closed new_def ..
  have "list_all2 (\<le>) (map dc_covered (loadDrawerCoverage st s)) (map dc_covered (loadDrawerCoverage st t))"
    unfolding after load_dc(2) [of st s] by (rule list_all2I) (use res in \<open>auto simp: set_zip\<close>)
  moreover have "sum_list (map dc_covered (loadDrawerCoverage st t))
      \<le> sum_list (map dc_covered (loadDrawerCoverage st s)) + moneyDec a"
    using conjunct2 [OF res] unfolding after load_dc(2) [of st s] total_covered_load ma .
  ultimately show ?thesis using ids by blast
qed

definition ex_banked :: db where
  "ex_banked = ex_db
     \<lparr>db_users := [\<lparr>u_id = ''U9'', u_storeId = None, u_role = COOP_ADMIN,
        u_email = ''coop@example.org'', u_passwordHash = ''hash'', u_failedLoginAttempts = 0, u_lockedUntil = None,
        u_mustChangePassword = False\<rparr>],
      db_drawers := [ex_drawer\<lparr>cd_countedCash := Some 180, cd_closedAt := Some 10\<rparr>],
      db_deposits := [\<lparr>dep_id = ''C1'', dep_storeId = ''S1'', dep_depositedByUserId = ''U1'', dep_amount = 80,
         dep_depositedAt = 20, dep_bankReference = None, dep_depositSlipUrl = None, dep_status = DepRECORDED,
         dep_confirmedAmount = None, dep_confirmedByUserId = None, dep_confirmedAt = None,
         dep_disputedByUserId = None, dep_disputedAt = None, dep_disputeReason = None, dep_notes = None,
         dep_drawerIds = [''D1'']\<rparr>]\<rparr>"

theorem confirm_only_covers_witness:
  "map dc_covered (loadDrawerCoverage ''S1'' ex_banked) = [0]
   \<and> (\<exists>t r. confirmDeposit 30 ''C1'' (Some ''REF'') (Some 75) ''U9'' ex_banked = Inr (t, r)
        \<and> sum_list (map dc_covered (loadDrawerCoverage ''S1'' t)) \<le> 75)"
proof
  show old: "map dc_covered (loadDrawerCoverage ''S1'' ex_banked) = [0]" by code_simp
  have "case confirmDeposit 30 ''C1'' (Some ''REF'') (Some 75) ''U9'' ex_banked of Inl e \<Rightarrow> False | Inr _ \<Rightarrow> True" by code_simp
  then obtain t r where run: "confirmDeposit 30 ''C1'' (Some ''REF'') (Some 75) ''U9'' ex_banked = Inr (t, r)"
    by (cases "confirmDeposit 30 ''C1'' (Some ''REF'') (Some 75) ''U9'' ex_banked") auto
  have "moneyDec 75 = 75" by code_simp
  moreover have "distinct (map dep_id (db_deposits ex_banked))" "distinct (map cd_id (db_drawers ex_banked))"
      "\<forall>p \<in> set (db_deposits ex_banked). dep_status p = DepCONFIRMED \<longrightarrow> (\<exists>c < 30. dep_confirmedAt p = Some c)"
    by (simp_all add: ex_banked_def)
  ultimately have "sum_list (map dc_covered (loadDrawerCoverage ''S1'' t)) \<le> 75"
    using confirm_only_covers [OF run _ _ _ refl, of "''S1''"] old by simp
  then show "\<exists>t r. confirmDeposit 30 ''C1'' (Some ''REF'') (Some 75) ''U9'' ex_banked = Inr (t, r)
        \<and> sum_list (map dc_covered (loadDrawerCoverage ''S1'' t)) \<le> 75"
    using run by blast
qed

text \<open>
  Within one deposit the oldest linked shift is filled first: a shift gets something from it only
  if every linked shift that closed earlier is fully covered afterwards.
\<close>

theorem deposit_fills_oldest_first:
  assumes "distinct (map da_id drawers)" "distinct (ca_drawerIds dep)"
    and "linked_drawers drawers dep = xs @ d # ys"
    and "allocateConfirmedDeposits drawers deps (da_id d) < allocateConfirmedDeposits drawers (deps @ [dep]) (da_id d)"
  shows "\<forall>e \<in> set xs. da_closedAt e \<le> da_closedAt d
    \<and> da_bankable e \<le> allocateConfirmedDeposits drawers (deps @ [dep]) (da_id e)"
proof -
  have "distinct (map da_id (linked_drawers drawers dep))"
  proof -
    have "map da_id (List.map_filter (\<lambda>i. find_row da_id i drawers) is) = filter (\<lambda>i. find_row da_id i drawers \<noteq> None) is" for "is"
      by (induction "is") (auto simp: List.map_filter_simps dest: find_row_SomeD split: option.splits)
    then have "distinct (map da_id (List.map_filter (\<lambda>i. find_row da_id i drawers) (ca_drawerIds dep)))"
      using assms(2) by simp
    then show ?thesis by (auto simp: linked_drawers_def distinct_map)
  qed
  moreover have "sorted (map (\<lambda>d. (da_closedAt d, da_id d)) (xs @ d # ys))"
    unfolding assms(3) [symmetric] linked_drawers_def by simp
  ultimately show ?thesis
    using assms(3,4) spread_fills_first [of xs d ys] unfolding allocateConfirmedDeposits_def allocate_snoc
    by (fastforce simp: sorted_append)
qed

theorem deposit_fills_oldest_first_witness:
  "100 \<le> allocateConfirmedDeposits ex_shifts [hd ex_claims] ''D1''"
proof -
  have l: "linked_drawers ex_shifts (hd ex_claims) = [ex_shifts ! 0] @ ex_shifts ! 1 # []" by code_simp
  have "distinct (map da_id ex_shifts)" "distinct (ca_drawerIds (hd ex_claims))"
      "allocateConfirmedDeposits ex_shifts [] (da_id (ex_shifts ! 1))
         < allocateConfirmedDeposits ex_shifts ([] @ [hd ex_claims]) (da_id (ex_shifts ! 1))" by code_simp+
  from deposit_fills_oldest_first [OF this(1,2) l this(3)] show ?thesis by (simp add: ex_shifts_def)
qed

section \<open>Drawers\<close>

definition open_drawers :: "ident \<Rightarrow> db \<Rightarrow> cash_drawer list" where
  "open_drawers st s = filter (\<lambda>d. cd_storeId d = st \<and> cd_closedAt d = None) (db_drawers s)"

definition one_open :: "db \<Rightarrow> bool" where
  "one_open s \<longleftrightarrow> (\<forall>st. length (open_drawers st s) \<le> 1) \<and> distinct (map cd_id (db_drawers s))"

lemma getCurrentDrawer_alt:
  "getCurrentDrawer st s = (case sort_key (\<lambda>d. - cd_openedAt d) (open_drawers st s) of [] \<Rightarrow> None | d # _ \<Rightarrow> Some d)"
  by (simp add: getCurrentDrawer_def open_drawers_def)

lemma getCurrentDrawer_None: "getCurrentDrawer st s = None \<longleftrightarrow> open_drawers st s = []"
  by (cases "sort_key (\<lambda>d. - cd_openedAt d) (open_drawers st s)")
     (auto simp: getCurrentDrawer_alt dest: arg_cong [where f = length])

lemma getCurrentDrawer_SomeD: "getCurrentDrawer st s = Some d \<Longrightarrow> d \<in> set (open_drawers st s)"
  by (auto simp: getCurrentDrawer_alt split: list.splits) (metis list.set_intros(1) set_sort)

lemma one_open_current: "one_open s \<Longrightarrow> getCurrentDrawer st s = Some d \<Longrightarrow> open_drawers st s = [d]"
  using getCurrentDrawer_SomeD [of st s d] unfolding one_open_def
  by (metis One_nat_def length_0_conv length_Suc_conv le_Suc_eq le_zero_eq list.set_cases set_ConsD list.discI
      list.set_intros(1) empty_iff list.set(1) singletonD)

lemma openDrawer_Inr:
  assumes "openDrawer now i st actor fl s0 s = Inr (t, d)"
  shows "cd_storeId d = st" "cd_closedAt d = None" "cd_id d = i" "getCurrentDrawer st s0 = None"
    "\<not> has_row cd_id i (db_drawers s)" "db_drawers t = db_drawers s @ [d]"
  using assms
  by (auto simp: openDrawer_def create_row_def Let_def writeAuditLog_def split: option.splits if_splits)

text \<open>
  An undisturbed \<open>openDrawer\<close> keeps at most one drawer open per store and the drawer it returns is
  the current one.
\<close>

theorem openDrawer_exclusive:
  assumes "one_open s" "openDrawer now i st actor fl s s = Inr (t, d)"
  shows "one_open t \<and> getCurrentDrawer st t = Some d"
proof -
  note o = openDrawer_Inr [OF assms(2)]
  have none: "open_drawers st s = []" using o(4) by (simp add: getCurrentDrawer_None)
  have od: "open_drawers st' t = open_drawers st' s @ (if st' = st then [d] else [])" for st'
    using o(1,2,6) by (simp add: open_drawers_def)
  have "cd_id d \<notin> set (map cd_id (db_drawers s))" using o(3,5) by (auto simp: has_row_def)
  then have "distinct (map cd_id (db_drawers t))" using assms(1) o(6) by (simp add: one_open_def)
  then have "one_open t" using assms(1) none od by (simp add: one_open_def)
  moreover have "getCurrentDrawer st t = Some d" using none od by (simp add: getCurrentDrawer_alt)
  ultimately show ?thesis by blast
qed

definition ex_no_drawer :: db where
  "ex_no_drawer = ex_db\<lparr>db_drawers := []\<rparr>"

definition ex_new_drawer :: "ident \<Rightarrow> time \<Rightarrow> cash_drawer" where
  "ex_new_drawer i now = ex_drawer\<lparr>cd_id := i, cd_openingFloat := 50, cd_expectedCash := 0, cd_openedAt := now\<rparr>"

definition ex_opened :: "cash_drawer list \<Rightarrow> db" where
  "ex_opened ds = ex_no_drawer\<lparr>db_drawers := ds,
     db_audit := map (\<lambda>d. \<lparr>au_userId = Some ''U1'', au_storeId = Some ''S1'', au_action = ''CASH_DRAWER_OPEN'',
                          au_entityType = ''CashDrawer'', au_entityId = Some (cd_id d)\<rparr>) ds\<rparr>"

theorem openDrawer_exclusive_witness:
  "one_open (ex_opened [ex_new_drawer ''DA'' 5]) \<and> getCurrentDrawer ''S1'' (ex_opened [ex_new_drawer ''DA'' 5]) = Some (ex_new_drawer ''DA'' 5)"
proof -
  have "one_open ex_no_drawer" by (simp add: one_open_def open_drawers_def ex_no_drawer_def)
  moreover have "openDrawer 5 ''DA'' ''S1'' ex_admin (Some 50) ex_no_drawer ex_no_drawer
      = Inr (ex_opened [ex_new_drawer ''DA'' 5], ex_new_drawer ''DA'' 5)" by code_simp
  ultimately show ?thesis by (rule openDrawer_exclusive)
qed

text \<open>
  Two requests that both read before either writes are both accepted, and the store has two open
  drawers: nothing in the table or in the code makes the second one fail.
\<close>

theorem racing_opens_both_succeed:
  assumes "openDrawer now i st actor fl s0 s = Inr (s1, d)" "openDrawer now' j st actor' fl' s0 s1 = Inr (s2, d')"
  shows "\<not> one_open s2 \<and> {d, d'} \<subseteq> set (open_drawers st s2) \<and> cd_id d \<noteq> cd_id d'"
proof -
  note o = openDrawer_Inr [OF assms(1)] and o' = openDrawer_Inr [OF assms(2)]
  have "open_drawers st s2 = open_drawers st s @ [d, d']" using o(1,2,6) o'(1,2,6) by (simp add: open_drawers_def)
  moreover have "cd_id d \<noteq> cd_id d'" using o(3,6) o'(3,5) by (auto simp: has_row_def)
  ultimately show ?thesis by (auto simp: one_open_def not_le intro!: exI [of _ st])
qed

theorem racing_opens_both_succeed_witness:
  "\<not> one_open (ex_opened [ex_new_drawer ''DA'' 5, ex_new_drawer ''DB'' 6])"
proof -
  have "openDrawer 5 ''DA'' ''S1'' ex_admin (Some 50) ex_no_drawer ex_no_drawer
      = Inr (ex_opened [ex_new_drawer ''DA'' 5], ex_new_drawer ''DA'' 5)"
    "openDrawer 6 ''DB'' ''S1'' ex_admin (Some 50) ex_no_drawer (ex_opened [ex_new_drawer ''DA'' 5])
      = Inr (ex_opened [ex_new_drawer ''DA'' 5, ex_new_drawer ''DB'' 6], ex_new_drawer ''DB'' 6)"
    by code_simp+
  from racing_opens_both_succeed [OF this] show ?thesis by blast
qed

lemma no_open_after:
  "(\<And>z. z \<in> set xs \<Longrightarrow> cd_storeId z = st \<Longrightarrow> cd_closedAt z = None \<Longrightarrow> z = d0) \<Longrightarrow> (\<And>z. cd_closedAt (f z) \<noteq> None) \<Longrightarrow>
     filter (\<lambda>d. cd_storeId d = st \<and> cd_closedAt d = None) (upd_row cd_id (cd_id d0) f xs) = []"
  by (auto simp: upd_row_def filter_empty_conv)

lemma closeDrawer_Inr:
  assumes "closeDrawer now st actor counted s0 s = Inr (t, d)"
  obtains d0 c row where "getCurrentDrawer st s0 = Some d0" "counted = Some c" "0 \<le> c"
    "find_row cd_id (cd_id d0) (db_drawers s) = Some row"
    "d = row\<lparr>cd_closedByUserId := Some (au_id actor), cd_closedAt := Some now,
            cd_expectedCash := moneyDec (cd_openingFloat d0 + net_cash_sales st (cd_openedAt d0) s0),
            cd_countedCash := Some (moneyDec c),
            cd_variance := Some (moneyDec (moneyDec c - moneyDec (cd_openingFloat d0 + net_cash_sales st (cd_openedAt d0) s0)))\<rparr>"
    "db_drawers t = upd_row cd_id (cd_id d0) (\<lambda>row. row\<lparr>cd_closedByUserId := Some (au_id actor), cd_closedAt := Some now,
            cd_expectedCash := moneyDec (cd_openingFloat d0 + net_cash_sales st (cd_openedAt d0) s0),
            cd_countedCash := Some (moneyDec c),
            cd_variance := Some (moneyDec (moneyDec c - moneyDec (cd_openingFloat d0 + net_cash_sales st (cd_openedAt d0) s0)))\<rparr>)
        (db_drawers s)"
  using assms
  by (auto simp: closeDrawer_def Let_def bindE_Inr_iff drawer_update_def update_row_def non_negative_def writeAuditLog_def
      find_row_upd_row split: option.splits if_splits)

text \<open>
  Closing the drawer balances. With the amounts of the database in whole cents, the closed drawer
  expects its float plus the net takings in cash since it was opened, its variance is the counted
  cash less that, its bankable cash is what was counted above the float (never below zero), and the
  store has no open drawer afterwards.
\<close>

theorem closeDrawer_balances:
  assumes run: "closeDrawer now st actor counted s s = Inr (t, d)" and one: "one_open s"
    and money: "\<forall>d \<in> set (db_drawers s). is_money (cd_openingFloat d)"
      "\<forall>x \<in> set (db_sales s). is_money (s_total x) \<and> is_money (s_refundedAmount x)"
  shows "getCurrentDrawer st t = None
    \<and> cd_expectedCash d = cd_openingFloat d + net_cash_sales st (cd_openedAt d) s
    \<and> (\<exists>c. counted = Some c \<and> cd_countedCash d = Some (moneyDec c)
        \<and> cd_variance d = Some (moneyDec c - cd_expectedCash d)
        \<and> bankableCash d = max 0 (moneyDec c - cd_openingFloat d))"
proof -
  obtain d0 c row where d0: "getCurrentDrawer st s = Some d0" and c: "counted = Some c"
    and row: "find_row cd_id (cd_id d0) (db_drawers s) = Some row"
    and d: "d = row\<lparr>cd_closedByUserId := Some (au_id actor), cd_closedAt := Some now,
            cd_expectedCash := moneyDec (cd_openingFloat d0 + net_cash_sales st (cd_openedAt d0) s),
            cd_countedCash := Some (moneyDec c),
            cd_variance := Some (moneyDec (moneyDec c - moneyDec (cd_openingFloat d0 + net_cash_sales st (cd_openedAt d0) s)))\<rparr>"
    and t: "db_drawers t = upd_row cd_id (cd_id d0) (\<lambda>row. row\<lparr>cd_closedByUserId := Some (au_id actor), cd_closedAt := Some now,
            cd_expectedCash := moneyDec (cd_openingFloat d0 + net_cash_sales st (cd_openedAt d0) s),
            cd_countedCash := Some (moneyDec c),
            cd_variance := Some (moneyDec (moneyDec c - moneyDec (cd_openingFloat d0 + net_cash_sales st (cd_openedAt d0) s)))\<rparr>)
        (db_drawers s)"
    by (rule closeDrawer_Inr [OF run]) (rule that; assumption)
  have mem: "d0 \<in> set (db_drawers s)" using getCurrentDrawer_SomeD [OF d0] by (simp add: open_drawers_def)
  have same: "row = d0"
    using row mem one unfolding one_open_def by (metis find_row_eq_Some_iff option.inject)
  have "is_money (net_cash_sales st (cd_openedAt d0) s)"
    unfolding net_cash_sales_def using money(2) by (intro money_sum_list) (auto intro: has_dp_diff)
  then have e: "moneyDec (cd_openingFloat d0 + net_cash_sales st (cd_openedAt d0) s)
      = cd_openingFloat d0 + net_cash_sales st (cd_openedAt d0) s"
    using money(1) mem by (intro moneyDec_exact has_dp_add) auto
  have m: "is_money (moneyDec c)" "is_money (cd_openingFloat d0)" using money(1) mem by auto
  have "is_money (moneyDec c - (cd_openingFloat d0 + net_cash_sales st (cd_openedAt d0) s))"
    using m \<open>is_money (net_cash_sales st (cd_openedAt d0) s)\<close> by (intro has_dp_diff has_dp_add) auto
  moreover have "open_drawers st t = []"
  proof -
    have od: "open_drawers st s = [d0]" by (rule one_open_current [OF one d0])
    have "x = d0" if "x \<in> set (db_drawers s)" "cd_storeId x = st" "cd_closedAt x = None" for x
    proof -
      have "x \<in> set (open_drawers st s)" using that by (simp add: open_drawers_def)
      then show ?thesis by (simp add: od)
    qed
    then show ?thesis unfolding open_drawers_def t by (rule no_open_after) simp_all
  qed
  ultimately show ?thesis
    using c d m by (auto simp: getCurrentDrawer_None same e moneyDec_exact bankableCash_def Let_def has_dp_diff)
qed

definition ex_closed_drawer :: cash_drawer where
  "ex_closed_drawer = ex_drawer\<lparr>cd_closedByUserId := Some ''U1'', cd_closedAt := Some 9, cd_expectedCash := 100,
     cd_countedCash := Some 95, cd_variance := Some (-5)\<rparr>"

definition ex_closed_db :: db where
  "ex_closed_db = ex_db\<lparr>db_drawers := [ex_closed_drawer],
     db_audit := [\<lparr>au_userId = Some ''U1'', au_storeId = Some ''S1'', au_action = ''CASH_DRAWER_CLOSE'',
                   au_entityType = ''CashDrawer'', au_entityId = Some ''D1''\<rparr>]\<rparr>"

theorem closeDrawer_balances_witness:
  "getCurrentDrawer ''S1'' ex_closed_db = None \<and> cd_variance ex_closed_drawer = Some (-5)
   \<and> bankableCash ex_closed_drawer = max 0 (moneyDec 95 - cd_openingFloat ex_closed_drawer)"
proof -
  have run: "closeDrawer 9 ''S1'' ex_admin (Some 95) ex_db ex_db = Inr (ex_closed_db, ex_closed_drawer)" by code_simp
  have one: "one_open ex_db" by (simp add: one_open_def open_drawers_def ex_db_def)
  have "is_money 100" using has_dp_of_int [of 2 100] by simp
  then have "\<forall>d \<in> set (db_drawers ex_db). is_money (cd_openingFloat d)"
    "\<forall>x \<in> set (db_sales ex_db). is_money (s_total x) \<and> is_money (s_refundedAmount x)"
    by (simp_all add: ex_db_def ex_drawer_def empty_db_def)
  from closeDrawer_balances [OF run one this] show ?thesis by (auto simp: ex_closed_drawer_def)
qed

end
