(* ===== verification/Settlement.thy ===== *)
theory Settlement
  imports Cash
begin

text \<open>
  \<open>services/settlement.service.ts\<close>: what the co-op owes the operator of each store, from the snapshots
  on the sales net of refunds, less the payouts; the split of takings by card and cash; payouts.
\<close>

section \<open>Summaries\<close>

text \<open>The SQL predicate \<open>IS_CARD_SALE\<close>, two-valued by its \<open>COALESCE\<close>.\<close>

definition is_card_sale :: "sale \<Rightarrow> bool" where
  "is_card_sale x \<longleftrightarrow>
     s_paymentMethod x = Some TERMINAL \<or> s_paymentMethod x = Some CHECKOUT
     \<or> s_stripePaymentIntentId x \<noteq> None \<or> s_stripeCheckoutSessionId x \<noteq> None"

definition settled_sale :: "ident \<Rightarrow> sale \<Rightarrow> bool" where
  "settled_sale storeId x \<longleftrightarrow>
     s_storeId x = storeId
     \<and> (s_paymentStatus x = PayPAID \<or> s_paymentStatus x = PayREFUNDING \<or> s_paymentStatus x = PayREFUNDED)"

definition sale_net :: "sale \<Rightarrow> decimal" where
  "sale_net x = s_total x - s_refundedAmount x"

definition operator_net :: "sale \<Rightarrow> decimal" where
  "operator_net x = s_operatorAmount x - s_refundedOperatorAmount x"

definition sum_sales :: "(sale \<Rightarrow> bool) \<Rightarrow> (sale \<Rightarrow> decimal) \<Rightarrow> db \<Rightarrow> decimal" where
  "sum_sales P g s = sum_list (map g (filter P (db_sales s)))"

definition paid_out :: "ident \<Rightarrow> db \<Rightarrow> decimal" where
  "paid_out storeId s = sum_list (map po_amount (filter (\<lambda>p. po_storeId p = storeId) (db_payouts s)))"

record settlement_summary =
  ss_storeId :: ident
  ss_storeName :: string
  ss_grossSales :: decimal
  ss_operatorAccrued :: decimal
  ss_totalPaidOut :: decimal
  ss_currentlyOwed :: decimal
  ss_grossSalesCard :: decimal
  ss_grossSalesCash :: decimal
  ss_coopAmountCard :: decimal
  ss_coopAmountCash :: decimal
  ss_cashCollectedButNotDeposited :: decimal

definition getStoreSettlementSummary :: "ident \<Rightarrow> db \<Rightarrow> settlement_summary result" where
  "getStoreSettlementSummary storeId s =
     (case find_store storeId s of
        None \<Rightarrow> Inl (AppError 404 ''Store not found'')
      | Some store \<Rightarrow>
          let cash = (\<lambda>x. settled_sale storeId x \<and> \<not> is_card_sale x);
              gross = sum_sales (settled_sale storeId) sale_net s;
              accrued = sum_sales (settled_sale storeId) operator_net s;
              paidOut = paid_out storeId s;
              owed = accrued - paidOut;
              grossCash = sum_sales cash sale_net s;
              accruedCash = sum_sales cash operator_net s;
              grossCard = gross - grossCash;
              accruedCard = accrued - accruedCash;
              coopCash = grossCash - accruedCash;
              coopCard = grossCard - accruedCard;
              confirmedCashDeposits = 0
          in Inr \<lparr>ss_storeId = st_id store, ss_storeName = st_name store,
                  ss_grossSales = moneyDec gross, ss_operatorAccrued = moneyDec accrued,
                  ss_totalPaidOut = moneyDec paidOut, ss_currentlyOwed = moneyDec owed,
                  ss_grossSalesCard = moneyDec grossCard, ss_grossSalesCash = moneyDec grossCash,
                  ss_coopAmountCard = moneyDec coopCard, ss_coopAmountCash = moneyDec coopCash,
                  ss_cashCollectedButNotDeposited = moneyDec (coopCash - confirmedCashDeposits)\<rparr>)"

section \<open>Payouts\<close>

definition assertSettlementAccess :: "auth_user \<Rightarrow> ident \<Rightarrow> unit result" where
  "assertSettlementAccess actor storeId =
     (if au_role actor = COOP_ADMIN then Inr ()
      else if au_role actor = STORE_ADMIN then
        (if au_storeScope actor = None \<or> au_storeScope actor = Some [] \<or> au_storeScope actor \<noteq> Some storeId
         then Inl (AppError 403 ''STORE_ADMIN can only access settlement for their own store'')
         else Inr ())
      else Inl (AppError 403 ''Insufficient role for settlement''))"

record payout_result =
  pr_payout :: payout
  pr_summary :: settlement_summary
  pr_adminOverride :: bool

text \<open>
  \<open>createPayout\<close> reads what is owed (\<open>s0\<close>), inserts the payout (into \<open>s\<close>) and summarises again, in
  three separate transactions.
\<close>

definition createPayout ::
  "ident \<Rightarrow> ident \<Rightarrow> auth_user \<Rightarrow> js_number \<Rightarrow> string option \<Rightarrow> db \<Rightarrow> db \<Rightarrow> db \<times> payout_result result" where
  "createPayout newId storeId actor inputAmount note s0 s =
     (case inputAmount of
        None \<Rightarrow> (s, Inl (AppError 400 ''amount must be a positive number''))
      | Some a \<Rightarrow>
          let amount = moneyDec a in
          if a \<le> 0 \<or> amount \<le> 0 then (s, Inl (AppError 400 ''amount must be a positive number''))
          else case getStoreSettlementSummary storeId s0 of
            Inl e \<Rightarrow> (s, Inl e)
          | Inr before \<Rightarrow>
              if amount > ss_currentlyOwed before \<and> au_role actor \<noteq> COOP_ADMIN
              then (s, Inl (AppError 400 ''Payout amount exceeds currently owed''))
              else
                let adminOverride = (amount > ss_currentlyOwed before);
                    payout = \<lparr>po_id = newId, po_storeId = storeId, po_amount = amount,
                              po_note = trimmed note, po_paidByUserId = au_id actor\<rparr>
                in case create_row po_id payout (db_payouts s) of
                     Inl e \<Rightarrow> (s, Inl e)
                   | Inr ps \<Rightarrow>
                       let s1 = s\<lparr>db_payouts := ps\<rparr> in
                       (case getStoreSettlementSummary storeId s1 of
                          Inl e \<Rightarrow> (s1, Inl e)
                        | Inr summary \<Rightarrow>
                            (writeAuditLog (Some (au_id actor)) (Some storeId) ''PAYOUT_CREATE'' ''Payout'' (Some newId) s1,
                             Inr \<lparr>pr_payout = payout, pr_summary = summary, pr_adminOverride = adminOverride\<rparr>)))"

section \<open>The network\<close>

fun summaries_of :: "db \<Rightarrow> store list \<Rightarrow> settlement_summary list result" where
  "summaries_of s [] = Inr []"
| "summaries_of s (store # rest) =
     bindE (getStoreSettlementSummary (st_id store) s) (\<lambda>x.
     bindE (summaries_of s rest) (\<lambda>xs. Inr (x # xs)))"

record network_summary =
  nw_storeCount :: nat
  nw_grossSales :: decimal
  nw_operatorAccrued :: decimal
  nw_totalPaidOut :: decimal
  nw_currentlyOwed :: decimal
  nw_grossSalesCard :: decimal
  nw_grossSalesCash :: decimal
  nw_coopAmountCard :: decimal
  nw_coopAmountCash :: decimal
  nw_cashCollectedButNotDeposited :: decimal
  nw_stores :: "settlement_summary list"

definition getNetworkSettlementSummary :: "db \<Rightarrow> network_summary result" where
  "getNetworkSettlementSummary s =
     bindE (summaries_of s (retail_stores s)) (\<lambda>xs.
     let total = (\<lambda>g :: settlement_summary \<Rightarrow> decimal. moneyDec (sum_list (map g xs))) in
     Inr \<lparr>nw_storeCount = length xs, nw_grossSales = total ss_grossSales,
          nw_operatorAccrued = total ss_operatorAccrued, nw_totalPaidOut = total ss_totalPaidOut,
          nw_currentlyOwed = total ss_currentlyOwed, nw_grossSalesCard = total ss_grossSalesCard,
          nw_grossSalesCash = total ss_grossSalesCash, nw_coopAmountCard = total ss_coopAmountCard,
          nw_coopAmountCash = total ss_coopAmountCash,
          nw_cashCollectedButNotDeposited = total ss_cashCollectedButNotDeposited, nw_stores = xs\<rparr>)"

end
