(* ===== verification/Settlement_Proofs.thy ===== *)
theory Settlement_Proofs
  imports Settlement
begin

text \<open>
  Settlement in whole cents: every summary splits exactly into card and cash, co-op and operator; the
  network is the sum of its stores; a payout below COOP_ADMIN never overdraws what is owed unless
  another payout slips in between its check and its insert.
\<close>

definition money_db :: "db \<Rightarrow> bool" where
  "money_db s \<longleftrightarrow>
     (\<forall>x \<in> set (db_sales s). is_money (s_total x) \<and> is_money (s_refundedAmount x)
        \<and> is_money (s_operatorAmount x) \<and> is_money (s_refundedOperatorAmount x))
     \<and> (\<forall>p \<in> set (db_payouts s). is_money (po_amount p))"

lemma sum_sales_money:
  assumes "money_db s"
  shows "is_money (sum_sales P sale_net s)" "is_money (sum_sales P operator_net s)" "is_money (paid_out st s)"
  using assms unfolding money_db_def sum_sales_def paid_out_def
  by (auto intro!: money_sum_list has_dp_diff simp: sale_net_def operator_net_def)

text \<open>What a summary says, with the rounding gone.\<close>

lemma summary_exact:
  assumes m: "money_db s" and run: "getStoreSettlementSummary st s = Inr x"
  shows "ss_grossSales x = sum_sales (settled_sale st) sale_net s"
    "ss_operatorAccrued x = sum_sales (settled_sale st) operator_net s"
    "ss_totalPaidOut x = paid_out st s"
    "ss_currentlyOwed x = ss_operatorAccrued x - ss_totalPaidOut x"
    "ss_grossSales x = ss_grossSalesCard x + ss_grossSalesCash x"
    "ss_grossSales x = ss_operatorAccrued x + ss_coopAmountCard x + ss_coopAmountCash x"
    "ss_cashCollectedButNotDeposited x = ss_coopAmountCash x"
    "ss_grossSalesCash x = sum_sales (\<lambda>x. settled_sale st x \<and> \<not> is_card_sale x) sale_net s"
  using run sum_sales_money [OF m] has_dp_diff
  by (auto simp: getStoreSettlementSummary_def Let_def moneyDec_exact has_dp_diff split: option.splits)

lemma summary_money:
  "getStoreSettlementSummary st s = Inr x \<Longrightarrow>
     is_money (ss_grossSales x) \<and> is_money (ss_operatorAccrued x) \<and> is_money (ss_totalPaidOut x)
     \<and> is_money (ss_currentlyOwed x) \<and> is_money (ss_grossSalesCard x) \<and> is_money (ss_grossSalesCash x)
     \<and> is_money (ss_coopAmountCard x) \<and> is_money (ss_coopAmountCash x)"
  by (auto simp: getStoreSettlementSummary_def Let_def split: option.splits)

text \<open>
  The summary of a store adds up to the cent: gross sales are card plus cash, and operator plus
  co-op; what is owed is what the operator accrued, net of refunds, less what was paid out.
\<close>

theorem settlement_adds_up:
  assumes "money_db s" "getStoreSettlementSummary st s = Inr x"
  shows "ss_grossSales x = ss_grossSalesCard x + ss_grossSalesCash x
    \<and> ss_grossSales x = ss_operatorAccrued x + ss_coopAmountCard x + ss_coopAmountCash x
    \<and> ss_currentlyOwed x = sum_sales (settled_sale st) operator_net s - paid_out st s"
  using summary_exact [OF assms] by simp

definition ex_sold :: "ident \<Rightarrow> payment_method \<Rightarrow> decimal \<Rightarrow> decimal \<Rightarrow> sale" where
  "ex_sold i m tot share =
     \<lparr>s_id = i, s_storeId = ''S1'', s_cashierId = ''U1'', s_memberId = None, s_subtotalBeforeDiscount = tot,
      s_subtotal = tot, s_discountAmount = 0, s_memberDiscountAmount = 0, s_memberDiscountBearer = BearerCOOP,
      s_taxAmount = 0, s_total = tot, s_operatorPercent = 10, s_operatorAmount = share,
      s_operatorBaseSnapshot = Some tot, s_coopAmount = tot - share, s_paymentStatus = PayPAID,
      s_paymentMethod = Some m, s_cardLast4 = None, s_stripePaymentIntentId = None,
      s_stripeCheckoutSessionId = None, s_refundedAmount = 0, s_refundedOperatorAmount = 0,
      s_pendingRefundId = None, s_paidAt = Some 50, s_refundedAt = None, s_reservationExpiresAt = None,
      s_idempotencyKey = None, s_createdAt = 50, s_items = []\<rparr>"

definition ex_ledger :: "payout list \<Rightarrow> db" where
  "ex_ledger ps = ex_db\<lparr>db_sales := [ex_sold ''X1'' CASH 40 4, ex_sold ''X2'' TERMINAL 60 6], db_payouts := ps\<rparr>"

definition ex_payout :: "ident \<Rightarrow> decimal \<Rightarrow> payout" where
  "ex_payout i a = \<lparr>po_id = i, po_storeId = ''S1'', po_amount = a, po_note = None, po_paidByUserId = ''U1''\<rparr>"

definition ex_summary :: "decimal \<Rightarrow> settlement_summary" where
  "ex_summary paid =
     \<lparr>ss_storeId = ''S1'', ss_storeName = ''Corner'', ss_grossSales = 100, ss_operatorAccrued = 10,
      ss_totalPaidOut = paid, ss_currentlyOwed = 10 - paid, ss_grossSalesCard = 60, ss_grossSalesCash = 40,
      ss_coopAmountCard = 54, ss_coopAmountCash = 36, ss_cashCollectedButNotDeposited = 36\<rparr>"

lemma is_money_int: "is_money (of_int n)"
  by (rule has_dp_of_int)

lemma ex_ledger_money: "\<forall>p \<in> set ps. is_money (po_amount p) \<Longrightarrow> money_db (ex_ledger ps)"
  using is_money_int [of 40] is_money_int [of 4] is_money_int [of 60] is_money_int [of 6]
  by (simp add: money_db_def ex_ledger_def ex_sold_def)

theorem settlement_adds_up_witness:
  "sum_sales (settled_sale ''S1'') operator_net (ex_ledger [ex_payout ''P1'' 7]) - paid_out ''S1'' (ex_ledger [ex_payout ''P1'' 7]) = 3"
proof -
  have "is_money 7" using is_money_int [of 7] by simp
  then have "money_db (ex_ledger [ex_payout ''P1'' 7])" by (intro ex_ledger_money) (simp add: ex_payout_def)
  moreover have "getStoreSettlementSummary ''S1'' (ex_ledger [ex_payout ''P1'' 7]) = Inr (ex_summary 7)" by code_simp
  ultimately show ?thesis using settlement_adds_up [of "ex_ledger [ex_payout ''P1'' 7]" "''S1''" "ex_summary 7"]
    by (simp add: ex_summary_def)
qed

section \<open>The network\<close>

lemma summaries_money:
  "summaries_of s stores = Inr xs \<Longrightarrow> x \<in> set xs \<Longrightarrow> \<exists>st. getStoreSettlementSummary st s = Inr x"
  by (induction stores arbitrary: xs) (auto simp: bindE_Inr_iff)

lemma summaries_length: "summaries_of s stores = Inr xs \<Longrightarrow> length xs = length stores"
  by (induction stores arbitrary: xs) (auto simp: bindE_Inr_iff)

lemma sum_list_linear:
  "\<forall>x \<in> set xs. f x = g x + h x \<Longrightarrow> sum_list (map f xs) = sum_list (map g xs) + (sum_list (map h xs) :: decimal)"
  by (induction xs) auto

text \<open>
  The network view agrees with the stores: it covers every retail store once, each total is the
  sum over the stores to the cent, and the identities of a store hold for the network too.
\<close>

theorem network_is_sum_of_stores:
  assumes m: "money_db s" and run: "getNetworkSettlementSummary s = Inr n"
  shows "nw_storeCount n = length (retail_stores s)
    \<and> nw_currentlyOwed n = sum_list (map ss_currentlyOwed (nw_stores n))
    \<and> nw_grossSales n = sum_list (map ss_grossSales (nw_stores n))
    \<and> nw_grossSales n = nw_grossSalesCard n + nw_grossSalesCash n
    \<and> nw_operatorAccrued n = nw_currentlyOwed n + nw_totalPaidOut n"
proof -
  obtain xs where xs: "summaries_of s (retail_stores s) = Inr xs" and n: "nw_stores n = xs" "nw_storeCount n = length xs"
      "nw_grossSales n = moneyDec (sum_list (map ss_grossSales xs))"
      "nw_operatorAccrued n = moneyDec (sum_list (map ss_operatorAccrued xs))"
      "nw_totalPaidOut n = moneyDec (sum_list (map ss_totalPaidOut xs))"
      "nw_currentlyOwed n = moneyDec (sum_list (map ss_currentlyOwed xs))"
      "nw_grossSalesCard n = moneyDec (sum_list (map ss_grossSalesCard xs))"
      "nw_grossSalesCash n = moneyDec (sum_list (map ss_grossSalesCash xs))"
    using run by (auto simp: getNetworkSettlementSummary_def bindE_Inr_iff Let_def)
  have each: "\<exists>st. getStoreSettlementSummary st s = Inr x" if "x \<in> set xs" for x
    by (rule summaries_money [OF xs that])
  have ex: "moneyDec (sum_list (map g xs)) = sum_list (map g xs)"
    if "\<And>x st. getStoreSettlementSummary st s = Inr x \<Longrightarrow> is_money (g x)" for g
    by (intro moneyDec_exact money_sum_list) (use each that in auto)
  have e: "moneyDec (sum_list (map ss_grossSales xs)) = sum_list (map ss_grossSales xs)"
      "moneyDec (sum_list (map ss_operatorAccrued xs)) = sum_list (map ss_operatorAccrued xs)"
      "moneyDec (sum_list (map ss_totalPaidOut xs)) = sum_list (map ss_totalPaidOut xs)"
      "moneyDec (sum_list (map ss_currentlyOwed xs)) = sum_list (map ss_currentlyOwed xs)"
      "moneyDec (sum_list (map ss_grossSalesCard xs)) = sum_list (map ss_grossSalesCard xs)"
      "moneyDec (sum_list (map ss_grossSalesCash xs)) = sum_list (map ss_grossSalesCash xs)"
    by (rule ex; simp add: summary_money)+
  have "sum_list (map ss_grossSales xs) = sum_list (map ss_grossSalesCard xs) + sum_list (map ss_grossSalesCash xs)"
    by (rule sum_list_linear) (use each summary_exact(5) [OF m] in blast)
  moreover have "sum_list (map ss_operatorAccrued xs) = sum_list (map ss_currentlyOwed xs) + sum_list (map ss_totalPaidOut xs)"
    by (rule sum_list_linear) (use each summary_exact(4) [OF m] in fastforce)
  ultimately show ?thesis using n e summaries_length [OF xs] by simp
qed

theorem network_is_sum_of_stores_witness:
  "\<exists>n. getNetworkSettlementSummary (ex_ledger [ex_payout ''P1'' 7]) = Inr n \<and> nw_storeCount n = 1
     \<and> nw_operatorAccrued n = nw_currentlyOwed n + nw_totalPaidOut n"
proof -
  have "is_money 7" using is_money_int [of 7] by simp
  then have m: "money_db (ex_ledger [ex_payout ''P1'' 7])" by (intro ex_ledger_money) (simp add: ex_payout_def)
  have "\<not> isl (getNetworkSettlementSummary (ex_ledger [ex_payout ''P1'' 7]))" by code_simp
  then obtain n where n: "getNetworkSettlementSummary (ex_ledger [ex_payout ''P1'' 7]) = Inr n"
    by (cases "getNetworkSettlementSummary (ex_ledger [ex_payout ''P1'' 7])") simp_all
  have "length (retail_stores (ex_ledger [ex_payout ''P1'' 7])) = 1" by code_simp
  then show ?thesis using network_is_sum_of_stores [OF m n] n by simp
qed

section \<open>Payouts\<close>

lemma createPayout_Inr:
  assumes "createPayout i st actor amt note s0 s = (t, Inr r)"
  obtains a b where "amt = Some a" "0 < moneyDec a" "getStoreSettlementSummary st s0 = Inr b"
    "au_role actor = COOP_ADMIN \<or> moneyDec a \<le> ss_currentlyOwed b"
    "db_payouts t = db_payouts s @ [pr_payout r]" "db_sales t = db_sales s" "db_stores t = db_stores s"
    "po_amount (pr_payout r) = moneyDec a" "po_storeId (pr_payout r) = st"
    "getStoreSettlementSummary st (s\<lparr>db_payouts := db_payouts s @ [pr_payout r]\<rparr>) = Inr (pr_summary r)"
    "pr_adminOverride r \<longleftrightarrow> ss_currentlyOwed b < moneyDec a"
  using assms
  by (fastforce simp: createPayout_def create_row_def Let_def writeAuditLog_def split: option.splits sum.splits if_splits)

lemma paid_out_snoc:
  "paid_out st (s\<lparr>db_payouts := db_payouts s @ [p]\<rparr>) = paid_out st s + (if po_storeId p = st then po_amount p else 0)"
  by (simp add: paid_out_def)

text \<open>
  A payout that finds the state its check saw reduces what is owed by exactly its amount, and
  only a COOP_ADMIN can bring it below zero; the override flag is set exactly then.
\<close>

theorem payout_settles:
  assumes m: "money_db s" and run: "createPayout i st actor amt note s s = (t, Inr r)"
    and b: "getStoreSettlementSummary st s = Inr b"
  shows "ss_currentlyOwed (pr_summary r) = ss_currentlyOwed b - po_amount (pr_payout r)
    \<and> (au_role actor \<noteq> COOP_ADMIN \<longrightarrow> 0 \<le> ss_currentlyOwed (pr_summary r))
    \<and> (pr_adminOverride r \<longleftrightarrow> ss_currentlyOwed (pr_summary r) < 0)"
proof -
  obtain a where a: "0 < moneyDec a" "au_role actor = COOP_ADMIN \<or> moneyDec a \<le> ss_currentlyOwed b"
      "po_amount (pr_payout r) = moneyDec a" "po_storeId (pr_payout r) = st"
      "getStoreSettlementSummary st (s\<lparr>db_payouts := db_payouts s @ [pr_payout r]\<rparr>) = Inr (pr_summary r)"
      "pr_adminOverride r \<longleftrightarrow> ss_currentlyOwed b < moneyDec a"
    using createPayout_Inr [OF run] b by (metis Inr_inject)
  have m': "money_db (s\<lparr>db_payouts := db_payouts s @ [pr_payout r]\<rparr>)" using m a(3) by (auto simp: money_db_def)
  have "ss_currentlyOwed (pr_summary r) = ss_currentlyOwed b - moneyDec a"
    using summary_exact(2,3,4) [OF m b] summary_exact(2,3,4) [OF m' a(5)] a(3,4)
    by (simp add: paid_out_snoc sum_sales_def)
  then show ?thesis using a(2,3,6) by auto
qed

theorem payout_settles_witness:
  "\<exists>t r. createPayout ''P1'' ''S1'' ex_admin (Some 7) None (ex_ledger []) (ex_ledger []) = (t, Inr r)
     \<and> 0 \<le> ss_currentlyOwed (pr_summary r)"
proof -
  have m: "money_db (ex_ledger [])" by (rule ex_ledger_money) simp
  have b: "getStoreSettlementSummary ''S1'' (ex_ledger []) = Inr (ex_summary 0)" by code_simp
  have "\<not> isl (snd (createPayout ''P1'' ''S1'' ex_admin (Some 7) None (ex_ledger []) (ex_ledger [])))" by code_simp
  then obtain t r where run: "createPayout ''P1'' ''S1'' ex_admin (Some 7) None (ex_ledger []) (ex_ledger []) = (t, Inr r)"
    by (cases "createPayout ''P1'' ''S1'' ex_admin (Some 7) None (ex_ledger []) (ex_ledger [])"; cases "snd (createPayout ''P1'' ''S1'' ex_admin (Some 7) None (ex_ledger []) (ex_ledger []))") auto
  have "au_role ex_admin \<noteq> COOP_ADMIN" by (simp add: ex_admin_def)
  then show ?thesis using payout_settles [OF m run b] run by blast
qed

text \<open>
  Two payouts of a STORE_ADMIN whose checks both ran before either insert are both accepted; when
  together they exceed what is owed, the store is overpaid although each request passed the guard.
\<close>

theorem racing_payouts_overdraw:
  assumes m: "money_db s" and b: "getStoreSettlementSummary st s = Inr b"
    and one: "createPayout i st actor amt note s s = (s1, Inr r1)"
    and two: "createPayout j st actor amt' note' s s1 = (s2, Inr r2)"
    and big: "ss_currentlyOwed b < po_amount (pr_payout r1) + po_amount (pr_payout r2)"
  shows "ss_currentlyOwed (pr_summary r2) < 0"
proof -
  obtain a1 where a1: "db_payouts s1 = db_payouts s @ [pr_payout r1]" "db_sales s1 = db_sales s"
      "po_amount (pr_payout r1) = moneyDec a1" "po_storeId (pr_payout r1) = st"
    using createPayout_Inr [OF one] by metis
  obtain a2 where a2: "po_amount (pr_payout r2) = moneyDec a2" "po_storeId (pr_payout r2) = st"
      "getStoreSettlementSummary st (s1\<lparr>db_payouts := db_payouts s1 @ [pr_payout r2]\<rparr>) = Inr (pr_summary r2)"
    using createPayout_Inr [OF two] by metis
  have "money_db (s1\<lparr>db_payouts := db_payouts s1 @ [pr_payout r2]\<rparr>)"
    using m a1 a2(1) by (auto simp: money_db_def)
  from summary_exact(2,3,4) [OF this a2(3)] show ?thesis
    using summary_exact(2,3,4) [OF m b] a1 a2(1,2) big by (simp add: paid_out_def sum_sales_def)
qed

definition ex_paying :: "ident list \<Rightarrow> db" where
  "ex_paying ids = (ex_ledger (map (\<lambda>i. ex_payout i 7) ids))
     \<lparr>db_audit := map (\<lambda>i. \<lparr>au_userId = Some ''U1'', au_storeId = Some ''S1'', au_action = ''PAYOUT_CREATE'',
                          au_entityType = ''Payout'', au_entityId = Some i\<rparr>) ids\<rparr>"

definition ex_paid_result :: "ident \<Rightarrow> decimal \<Rightarrow> payout_result" where
  "ex_paid_result i paid = \<lparr>pr_payout = ex_payout i 7, pr_summary = ex_summary paid, pr_adminOverride = False\<rparr>"

theorem racing_payouts_overdraw_witness:
  "ss_currentlyOwed (pr_summary (ex_paid_result ''P2'' 14)) < 0"
proof -
  have m: "money_db (ex_ledger [])" by (rule ex_ledger_money) simp
  have b: "getStoreSettlementSummary ''S1'' (ex_ledger []) = Inr (ex_summary 0)" by code_simp
  have one: "createPayout ''P1'' ''S1'' ex_admin (Some 7) None (ex_ledger []) (ex_ledger [])
      = (ex_paying [''P1''], Inr (ex_paid_result ''P1'' 7))" by code_simp
  have two: "createPayout ''P2'' ''S1'' ex_admin (Some 7) None (ex_ledger []) (ex_paying [''P1''])
      = (ex_paying [''P1'', ''P2''], Inr (ex_paid_result ''P2'' 14))" by code_simp
  show ?thesis
    by (rule racing_payouts_overdraw [OF m b one two]) (simp add: ex_summary_def ex_paid_result_def ex_payout_def)
qed

end
