(* ===== verification/Inventory.thy ===== *)
theory Inventory
  imports Js_Base Locks Stock_Engine
begin

text \<open>
  Products and lots as a store manages them (\<open>backend/src/services/inventory.service.ts\<close>) and the
  daily expiry of lots (\<open>backend/src/jobs/expireLots.ts\<close>). Every change of a quantity goes through
  the stock engine; this file adds who may do it, the price ceiling of the catalog, and the rows
  that account for it. Results are views without unit costs for a cashier. Numbers of a request are
  finite (its schema rejects others) unless a function tests for it itself.
\<close>

section \<open>Views\<close>

definition roleSeesCost :: "role \<Rightarrow> bool" where
  "roleSeesCost r \<longleftrightarrow> r = STORE_ADMIN \<or> r = COOP_ADMIN"

record product_view =
  pv_id :: ident
  pv_storeId :: ident
  pv_catalogItemId :: "ident option"
  pv_sku :: string
  pv_name :: string
  pv_category :: string
  pv_price :: decimal
  pv_stock :: int
  pv_reserved :: int
  pv_available :: int
  pv_reorderAt :: int
  pv_taxExempt :: bool
  pv_lowStock :: bool
  pv_blockedByQuarantineOrRecall :: bool
  pv_cost :: "decimal option"

definition toProductView :: "product \<Rightarrow> role \<Rightarrow> bool \<Rightarrow> product_view" where
  "toProductView p r blocked =
     (let available = p_stock p - p_reserved p in
      \<lparr>pv_id = p_id p, pv_storeId = p_storeId p, pv_catalogItemId = p_catalogItemId p,
       pv_sku = p_sku p, pv_name = p_name p, pv_category = p_category p, pv_price = p_price p,
       pv_stock = p_stock p, pv_reserved = p_reserved p, pv_available = available,
       pv_reorderAt = p_reorderAt p, pv_taxExempt = p_taxExempt p,
       pv_lowStock = (available \<le> p_reorderAt p),
       pv_blockedByQuarantineOrRecall = (available \<le> 0 \<and> blocked),
       pv_cost = (if roleSeesCost r then Some (p_cost p) else None)\<rparr>)"

text \<open>
  \<open>groupBy\<close> with a positive sum: some QUARANTINED or RECALLED lot of the product still has units.
\<close>

definition blocked_lots :: "ident \<Rightarrow> ident \<Rightarrow> db \<Rightarrow> lot list" where
  "blocked_lots storeId pid s =
     filter (\<lambda>l. l_storeId l = storeId \<and> l_productId l = pid
        \<and> (l_status l = LotQUARANTINED \<or> l_status l = LotRECALLED) \<and> l_quantityRemaining l > 0) (db_lots s)"

definition blockedByRecall :: "ident \<Rightarrow> db \<Rightarrow> ident \<Rightarrow> bool" where
  "blockedByRecall storeId s pid \<longleftrightarrow>
     sum_list (map l_quantityRemaining (blocked_lots storeId pid s)) > 0"

definition listProducts :: "ident \<Rightarrow> auth_user \<Rightarrow> db \<Rightarrow> product_view list result" where
  "listProducts storeId actor s =
     (case find_store storeId s of
        None \<Rightarrow> Inl (AppError 404 ''Store not found'')
      | Some _ \<Rightarrow>
          Inr (map (\<lambda>p. toProductView p (au_role actor) (blockedByRecall storeId s (p_id p)))
                (sort_key p_category (sort_key p_name (filter (\<lambda>p. p_storeId p = storeId) (db_products s))))))"

record expiring_lot =
  xl_id :: ident
  xl_lotNumber :: string
  xl_productId :: ident
  xl_sku :: string
  xl_productName :: string
  xl_quantityRemaining :: int
  xl_quantityReserved :: int
  xl_expiryDate :: time
  xl_daysUntilExpiry :: int
  xl_unitCost :: "decimal option"

text \<open>\<open>select\<close> through the relation to the product; a lot without one cannot exist.\<close>

definition product_text :: "(product \<Rightarrow> string) \<Rightarrow> ident \<Rightarrow> db \<Rightarrow> string" where
  "product_text f pid s = (case find_product pid s of None \<Rightarrow> [] | Some p \<Rightarrow> f p)"

definition expires_by :: "time \<Rightarrow> lot \<Rightarrow> bool" where
  "expires_by t l = (case l_expiryDate l of None \<Rightarrow> False | Some e \<Rightarrow> e \<le> t)"

definition toExpiringLot :: "time \<Rightarrow> role \<Rightarrow> db \<Rightarrow> lot \<Rightarrow> expiring_lot" where
  "toExpiringLot now r s l =
     (let e = the (l_expiryDate l) in
      \<lparr>xl_id = l_id l, xl_lotNumber = l_lotNumber l, xl_productId = l_productId l,
       xl_sku = product_text p_sku (l_productId l) s,
       xl_productName = product_text p_name (l_productId l) s,
       xl_quantityRemaining = l_quantityRemaining l, xl_quantityReserved = l_quantityReserved l,
       xl_expiryDate = e, xl_daysUntilExpiry = ceil_days (e - now),
       xl_unitCost = (if roleSeesCost r then Some (l_unitCost l) else None)\<rparr>)"

definition listExpiringLots :: "time \<Rightarrow> ident \<Rightarrow> js_number \<Rightarrow> auth_user \<Rightarrow> db \<Rightarrow> expiring_lot list result" where
  "listExpiringLots now storeId days actor s =
     (case js_int days of
        None \<Rightarrow> Inl (AppError 400 ''days must be a non-negative integer'')
      | Some n \<Rightarrow>
          if n < 0 then Inl (AppError 400 ''days must be a non-negative integer'')
          else if find_store storeId s = None then Inl (AppError 404 ''Store not found'')
          else Inr (map (toExpiringLot now (au_role actor) s)
            (sort_key (\<lambda>l. the (l_expiryDate l)) (sort_key l_receivedAt
              (filter (\<lambda>l. l_storeId l = storeId \<and> l_status l = LotACTIVE \<and> expires_by (now + n * day_ms) l)
                (db_lots s))))))"

section \<open>Creating a product\<close>

record create_product =
  cr_catalogItemId :: "ident option"
  cr_sku :: "string option"
  cr_price :: "decimal option"
  cr_cost :: decimal
  cr_stock :: int
  cr_reorderAt :: int

definition find_catalog :: "create_product \<Rightarrow> db \<Rightarrow> catalog_item option" where
  "find_catalog d s =
     (if truthy (cr_catalogItemId d) then find_row ci_id (the (cr_catalogItemId d)) (db_catalog s)
      else if truthy (cr_sku d) then find_row ci_sku (trim (the (cr_sku d))) (db_catalog s)
      else None)"

text \<open>The price a new product starts with: the ceiling at a warehouse, at most the ceiling in a shop.\<close>

definition initial_price :: "store \<Rightarrow> catalog_item \<Rightarrow> create_product \<Rightarrow> decimal result" where
  "initial_price store catalog d =
     (if st_locationType store = WAREHOUSE then Inr (ci_maxShelfPrice catalog)
      else
        let price = moneyDec (the (cr_price d))
        in if price > ci_maxShelfPrice catalog
           then Inl (AppError 400 ''Price exceeds the co-op shelf ceiling for this SKU'')
           else Inr price)"

definition opening_lot :: "time \<Rightarrow> ident \<Rightarrow> ident \<Rightarrow> catalog_item \<Rightarrow> create_product \<Rightarrow> add_lot_input" where
  "opening_lot now lotId storeId catalog d =
     \<lparr>al_id = lotId, al_lotNumber = ''OPENING-'' @ ci_sku catalog @ ''-'' @ yyyymmdd now,
      al_barcode = None, al_storeId = storeId, al_supplierId = None, al_goodsReceiptLineId = None,
      al_harvestDate = None, al_packDate = None, al_expiryDate = None, al_quantity = cr_stock d,
      al_countryOfOrigin = None, al_receivedAt = None, al_unitCost = unitCostDec (cr_cost d),
      al_status = None\<rparr>"

text \<open>Opening stock goes into a lot of its own, with the adjustment that records it.\<close>

definition opening_stock ::
  "time \<Rightarrow> ident \<Rightarrow> ident \<Rightarrow> ident \<Rightarrow> auth_user \<Rightarrow> catalog_item \<Rightarrow> create_product \<Rightarrow> db \<Rightarrow> db result" where
  "opening_stock now pid lotId storeId actor catalog d s =
     (if cr_stock d > 0 then
        if \<not> cr_cost d \<ge> 0
        then Inl (AppError 400 ''cost is required when opening stock is greater than zero'')
        else case lockProducts [pid] s of
          [] \<Rightarrow> Inl (AppError 500 ''Failed to lock newly created product'')
        | locked # _ \<Rightarrow>
            bindE (addLot now locked (opening_lot now lotId storeId catalog d) s) (\<lambda>(s1, lot).
            Inr (s1\<lparr>db_adjustments := db_adjustments s1 @
                   [\<lparr>sa_productId = pid, sa_storeId = storeId, sa_adjustedById = au_id actor,
                     sa_previousStock = 0, sa_newStock = cr_stock d, sa_delta = cr_stock d,
                     sa_reason = ''OPENING_STOCK'', sa_lotId = Some (l_id lot)\<rparr>]\<rparr>))
      else Inr s)"

definition sku_taken :: "'a result \<Rightarrow> 'a result" where
  "sku_taken r =
     (case r of Inl UniqueViolation \<Rightarrow> Inl (AppError 409 ''SKU already exists for this store'') | _ \<Rightarrow> r)"

definition createProduct ::
  "time \<Rightarrow> ident \<Rightarrow> ident \<Rightarrow> ident \<Rightarrow> create_product \<Rightarrow> auth_user \<Rightarrow> db \<Rightarrow> (db \<times> product_view) result" where
  "createProduct now pid lotId storeId d actor s =
     (case find_store storeId s of
        None \<Rightarrow> Inl (AppError 400 ''Store not found or inactive'')
      | Some store \<Rightarrow>
          if \<not> st_isActive store then Inl (AppError 400 ''Store not found or inactive'')
          else if st_locationType store \<noteq> WAREHOUSE \<and> cr_price d = None
          then Inl (AppError 400 ''price is required at a retail store'')
          else sku_taken
            (case find_catalog d s of
               None \<Rightarrow> Inl (AppError 400 ''Product must link to an active CatalogItem (pass catalogItemId or a known sku)'')
             | Some catalog \<Rightarrow>
                 if \<not> ci_isActive catalog
                 then Inl (AppError 400 ''Product must link to an active CatalogItem (pass catalogItemId or a known sku)'')
                 else
                   bindE (initial_price store catalog d) (\<lambda>price.
                   bindE (createProductRow
                       \<lparr>cp_id = pid, cp_storeId = storeId, cp_catalogItemId = Some (ci_id catalog),
                        cp_sku = ci_sku catalog, cp_name = ci_name catalog, cp_category = ci_category catalog,
                        cp_price = price, cp_cost = unitCostDec (cr_cost d), cp_stock = 0,
                        cp_reorderAt = cr_reorderAt d, cp_taxExempt = Some (ci_taxExempt catalog)\<rparr> s)
                     (\<lambda>(s1, created).
                   bindE (opening_stock now pid lotId storeId actor catalog d s1) (\<lambda>s2.
                   let s3 = writeAuditLog (Some (au_id actor)) (Some storeId) ''PRODUCT_PRICE_CHANGE''
                              ''Product'' (Some pid) s2
                   in case find_product pid s3 of
                        None \<Rightarrow> Inl RecordNotFound
                      | Some p \<Rightarrow> Inr (s3, toProductView p (au_role actor) False))))))"

section \<open>Updating and deleting a product\<close>

definition getScopedProduct :: "ident \<Rightarrow> ident \<Rightarrow> db \<Rightarrow> product result" where
  "getScopedProduct productId storeId s =
     (case List.find (\<lambda>p. p_id p = productId \<and> p_storeId p = storeId) (db_products s) of
        None \<Rightarrow> Inl (AppError 404 ''Product not found for this store'')
      | Some p \<Rightarrow> Inr p)"

record update_product =
  up_sku :: "string option"
  up_name :: "string option"
  up_category :: "string option"
  up_taxExempt :: "bool option"
  up_price :: "decimal option"
  up_cost :: "decimal option"
  up_reorderAt :: "int option"

definition edits_identity :: "update_product \<Rightarrow> bool" where
  "edits_identity d \<longleftrightarrow>
     up_sku d \<noteq> None \<or> up_name d \<noteq> None \<or> up_category d \<noteq> None \<or> up_taxExempt d \<noteq> None"

text \<open>The ceiling is read again inside the transaction.\<close>

definition price_within_ceiling :: "store \<Rightarrow> product \<Rightarrow> decimal option \<Rightarrow> db \<Rightarrow> unit result" where
  "price_within_ceiling store existing nextPrice s =
     (case nextPrice of
        None \<Rightarrow> Inr ()
      | Some price \<Rightarrow>
          if \<not> truthy (p_catalogItemId existing) then Inr ()
          else case find_row ci_id (the (p_catalogItemId existing)) (db_catalog s) of
            None \<Rightarrow> Inl RecordNotFound
          | Some catalog \<Rightarrow>
              if st_locationType store = RETAIL_STORE \<and> price > ci_maxShelfPrice catalog
              then Inl (AppError 400 ''Price exceeds the co-op shelf ceiling for this SKU'')
              else Inr ())"

definition opt :: "'a option \<Rightarrow> 'a \<Rightarrow> 'a" where
  "opt x d = (case x of None \<Rightarrow> d | Some y \<Rightarrow> y)"

definition updateProduct ::
  "ident \<Rightarrow> ident \<Rightarrow> update_product \<Rightarrow> auth_user \<Rightarrow> db \<Rightarrow> (db \<times> product_view) result" where
  "updateProduct productId storeId d actor s =
     bindE (getScopedProduct productId storeId s) (\<lambda>existing.
     case find_store storeId s of
       None \<Rightarrow> Inl RecordNotFound
     | Some store \<Rightarrow>
         if edits_identity d
         then Inl (AppError 400 ''sku, name, category and taxExempt are owned by the CatalogItem - edit the catalog (COOP_ADMIN)'')
         else if up_cost d \<noteq> None \<and> au_role actor \<noteq> COOP_ADMIN
         then Inl (AppError 403 ''Only COOP_ADMIN may change product cost'')
         else if up_price d \<noteq> None \<and> st_locationType store = WAREHOUSE \<and> au_role actor \<noteq> COOP_ADMIN
         then Inl (AppError 403 ''Only COOP_ADMIN may change a warehouse product price'')
         else sku_taken
           (let nextPrice = map_option moneyDec (up_price d); nextCost = map_option unitCostDec (up_cost d) in
            bindE (price_within_ceiling store existing nextPrice s) (\<lambda>_.
            bindE (product_update productId
                (\<lambda>p. p\<lparr>p_price := opt nextPrice (p_price p), p_cost := opt nextCost (p_cost p),
                       p_reorderAt := opt (up_reorderAt d) (p_reorderAt p)\<rparr>) s) (\<lambda>s1.
            let s2 = (if nextPrice \<noteq> None \<and> p_price existing \<noteq> the nextPrice
                      then writeAuditLog (Some (au_id actor)) (Some storeId) ''PRODUCT_PRICE_CHANGE''
                             ''Product'' (Some productId) s1 else s1);
                s3 = (if nextCost \<noteq> None \<and> p_cost existing \<noteq> the nextCost
                      then writeAuditLog (Some (au_id actor)) (Some storeId) ''PRODUCT_COST_CHANGE''
                             ''Product'' (Some productId) s2 else s2)
            in case find_product productId s3 of
                 None \<Rightarrow> Inl RecordNotFound
               | Some p \<Rightarrow> Inr (s3, toProductView p (au_role actor) False)))))"

text \<open>
  Deleting a row that others refer to fails with a foreign key violation; stock adjustments are
  deleted with the product. \<open>elsewhere\<close> says whether a table outside this state (purchase orders,
  goods receipts, stock counts) refers to the product.
\<close>

definition product_referenced :: "ident \<Rightarrow> db \<Rightarrow> bool" where
  "product_referenced pid s \<longleftrightarrow>
     (\<exists>l \<in> set (db_lots s). l_productId l = pid)
     \<or> (\<exists>x \<in> set (db_sales s). \<exists>it \<in> set (s_items x). si_productId it = pid)
     \<or> (\<exists>r \<in> set (db_reconciliations s). sr_productId r = pid)"

definition deleteProduct :: "bool \<Rightarrow> ident \<Rightarrow> ident \<Rightarrow> db \<Rightarrow> db result" where
  "deleteProduct elsewhere productId storeId s =
     bindE (getScopedProduct productId storeId s) (\<lambda>_.
     if elsewhere \<or> product_referenced productId s
     then Inl (AppError 409 ''Product cannot be deleted because it is referenced by existing sales'')
     else Inr (s\<lparr>db_products := filter (\<lambda>p. p_id p \<noteq> productId) (db_products s),
                 db_adjustments := filter (\<lambda>a. sa_productId a \<noteq> productId) (db_adjustments s)\<rparr>))"

section \<open>Adjusting a lot\<close>

record adjust_input =
  aj_lotId :: ident
  aj_newQuantity :: js_number
  aj_reason :: string

record adjust_result =
  ar_product :: product_view
  ar_lotId :: ident
  ar_previousQty :: int
  ar_newQuantity :: int
  ar_delta :: int
  ar_reason :: string

text \<open>A decrease is written off at the lot's cost, an increase is an adjustment row.\<close>

definition account_adjustment ::
  "auth_user \<Rightarrow> product \<Rightarrow> lot \<Rightarrow> string \<Rightarrow> set_remaining_result \<Rightarrow> db \<Rightarrow> db" where
  "account_adjustment actor product lot reason r s =
     (if sr_delta r < 0 then
        s\<lparr>db_writeOffs := db_writeOffs s @
            [\<lparr>w_storeId = p_storeId product, w_productId = p_id product, w_lotId = Some (l_id lot),
              w_saleId = None, w_saleItemId = None, w_saleRefundId = None, w_quantity = - sr_delta r,
              w_reason = ''MANUAL:'' @ reason, w_unitCost = Some (l_unitCost lot),
              w_value = Some (moneyDec (l_unitCost lot * of_int (- sr_delta r)))\<rparr>]\<rparr>
      else
        s\<lparr>db_adjustments := db_adjustments s @
            [\<lparr>sa_productId = p_id product, sa_storeId = p_storeId product, sa_adjustedById = au_id actor,
              sa_previousStock = p_stock product, sa_newStock = p_stock product + sr_rollupDelta r,
              sa_delta = sr_rollupDelta r, sa_reason = reason, sa_lotId = Some (l_id lot)\<rparr>]\<rparr>)"

definition adjustLot ::
  "bool \<Rightarrow> ident \<Rightarrow> ident \<Rightarrow> auth_user \<Rightarrow> adjust_input \<Rightarrow> db \<Rightarrow> (db \<times> adjust_result) result" where
  "adjustLot dev productId storeId actor d s =
     (let reason = trim (aj_reason d) in
      if reason = [] then Inl (AppError 400 ''A non-empty reason is required for manual stock adjustments'')
      else case js_int (aj_newQuantity d) of
        None \<Rightarrow> Inl (AppError 400 ''newQuantity must be a non-negative integer'')
      | Some newQuantity \<Rightarrow>
          if newQuantity < 0 then Inl (AppError 400 ''newQuantity must be a non-negative integer'')
          else case lockProducts [productId] s of
            [] \<Rightarrow> Inl (AppError 404 ''Product not found for this store'')
          | product # _ \<Rightarrow>
              if p_storeId product \<noteq> storeId then Inl (AppError 404 ''Product not found for this store'')
              else case lockLots [aj_lotId d] s of
                [] \<Rightarrow> Inl (AppError 404 ''Lot not found for this product'')
              | lot # _ \<Rightarrow>
                  if l_productId lot \<noteq> productId \<or> l_storeId lot \<noteq> storeId
                  then Inl (AppError 404 ''Lot not found for this product'')
                  else
                    bindE (setLotRemaining dev product lot newQuantity s) (\<lambda>(s1, adjusted).
                    if sr_delta adjusted = 0
                    then Inl (AppError 400 ''newQuantity matches current lot quantity; no adjustment needed'')
                    else
                      let s2 = account_adjustment actor product lot reason adjusted s1;
                          s3 = writeAuditLog (Some (au_id actor)) (Some storeId) ''STOCK_ADJUSTMENT''
                                 ''Lot'' (Some (l_id lot)) s2
                      in case find_product productId s3 of
                           None \<Rightarrow> Inl RecordNotFound
                         | Some updated \<Rightarrow>
                             Inr (s3, \<lparr>ar_product = toProductView updated (au_role actor) False,
                                       ar_lotId = l_id lot, ar_previousQty = sr_previousQty adjusted,
                                       ar_newQuantity = newQuantity, ar_delta = sr_delta adjusted,
                                       ar_reason = reason\<rparr>)))"

section \<open>Lot lists and quarantine\<close>

text \<open>The supplier of a lot is shown by its identifier.\<close>

record lot_view =
  lv_id :: ident
  lv_lotNumber :: string
  lv_productId :: ident
  lv_sku :: string
  lv_productName :: string
  lv_storeId :: ident
  lv_status :: lot_status
  lv_quantityReceived :: int
  lv_quantityRemaining :: int
  lv_quantityReserved :: int
  lv_expiryDate :: "time option"
  lv_receivedAt :: time
  lv_countryOfOrigin :: "string option"
  lv_barcode :: "string option"
  lv_daysUntilExpiry :: "int option"
  lv_unitCost :: "decimal option"
  lv_supplier :: "ident option"

definition toLotListItem :: "time \<Rightarrow> role \<Rightarrow> db \<Rightarrow> lot \<Rightarrow> lot_view" where
  "toLotListItem now r s l =
     \<lparr>lv_id = l_id l, lv_lotNumber = l_lotNumber l, lv_productId = l_productId l,
      lv_sku = product_text p_sku (l_productId l) s,
      lv_productName = product_text p_name (l_productId l) s,
      lv_storeId = l_storeId l, lv_status = l_status l, lv_quantityReceived = l_quantityReceived l,
      lv_quantityRemaining = l_quantityRemaining l, lv_quantityReserved = l_quantityReserved l,
      lv_expiryDate = l_expiryDate l, lv_receivedAt = l_receivedAt l,
      lv_countryOfOrigin = l_countryOfOrigin l, lv_barcode = l_barcode l,
      lv_daysUntilExpiry = map_option (\<lambda>e. ceil_days (e - now)) (l_expiryDate l),
      lv_unitCost = (if roleSeesCost r then Some (l_unitCost l) else None),
      lv_supplier = (if roleSeesCost r then l_supplierId l else None)\<rparr>"

text \<open>\<open>ORDER BY "expiryDate" ASC\<close>: rows without a date come last.\<close>

definition expiry_key :: "lot \<Rightarrow> bool \<times> time" where
  "expiry_key l = (l_expiryDate l = None, opt (l_expiryDate l) 0)"

definition listLotsForProduct :: "time \<Rightarrow> ident \<Rightarrow> ident \<Rightarrow> auth_user \<Rightarrow> db \<Rightarrow> lot_view list result" where
  "listLotsForProduct now storeId productId actor s =
     bindE (getScopedProduct productId storeId s) (\<lambda>_.
     Inr (map (toLotListItem now (au_role actor) s)
       (sort_key expiry_key (sort_key l_receivedAt
         (filter (\<lambda>l. l_storeId l = storeId \<and> l_productId l = productId) (db_lots s))))))"

record lots_filter =
  lf_storeId :: ident
  lf_q :: "string option"
  lf_status :: "lot_status option"
  lf_expiryBefore :: "time option"
  lf_expiryAfter :: "time option"
  lf_productId :: "ident option"

definition matches_date :: "lots_filter \<Rightarrow> lot \<Rightarrow> bool" where
  "matches_date f l \<longleftrightarrow>
     lf_expiryBefore f = None \<and> lf_expiryAfter f = None
     \<or> (case l_expiryDate l of
          None \<Rightarrow> False
        | Some e \<Rightarrow> (case lf_expiryAfter f of None \<Rightarrow> True | Some t \<Rightarrow> t \<le> e)
                 \<and> (case lf_expiryBefore f of None \<Rightarrow> True | Some t \<Rightarrow> e \<le> t))"

definition matches_text :: "lots_filter \<Rightarrow> db \<Rightarrow> lot \<Rightarrow> bool" where
  "matches_text f s l =
     (case trimmed (lf_q f) of
        None \<Rightarrow> True
      | Some q \<Rightarrow>
          let has = (\<lambda>t. contains_str (toLowerCase t) (toLowerCase q)) in
          has (l_lotNumber l) \<or> map_option toLowerCase (l_barcode l) = Some (toLowerCase q)
          \<or> has (product_text p_sku (l_productId l) s) \<or> has (product_text p_name (l_productId l) s))"

definition listLots :: "time \<Rightarrow> lots_filter \<Rightarrow> auth_user \<Rightarrow> db \<Rightarrow> lot_view list result" where
  "listLots now f actor s =
     (if find_store (lf_storeId f) s = None then Inl (AppError 404 ''Store not found'')
      else Inr (map (toLotListItem now (au_role actor) s)
        (take 200 (sort_key expiry_key (sort_key l_lotNumber
          (filter (\<lambda>l. l_storeId l = lf_storeId f
               \<and> (case lf_status f of None \<Rightarrow> True | Some st \<Rightarrow> l_status l = st)
               \<and> (\<not> truthy (lf_productId f) \<or> lf_productId f = Some (l_productId l))
               \<and> matches_date f l \<and> matches_text f s l) (db_lots s)))))))"

definition quarantineLot ::
  "bool \<Rightarrow> time \<Rightarrow> auth_user \<Rightarrow> ident \<Rightarrow> ident \<Rightarrow> string \<Rightarrow> db \<Rightarrow> (db \<times> lot_view) result" where
  "quarantineLot dev now actor storeId lotId reason s =
     (if au_role actor \<noteq> STORE_ADMIN \<and> au_role actor \<noteq> COOP_ADMIN
      then Inl (AppError 403 ''Only STORE_ADMIN or COOP_ADMIN can quarantine lots'')
      else if trim reason = [] then Inl (AppError 400 ''Quarantine reason is required'')
      else case List.find (\<lambda>l. l_id l = lotId \<and> l_storeId l = storeId) (db_lots s) of
        None \<Rightarrow> Inl (AppError 404 ''Lot not found for this store'')
      | Some lot \<Rightarrow>
          if l_status lot = LotQUARANTINED then Inr (s, toLotListItem now (au_role actor) s lot)
          else if l_status lot \<noteq> LotACTIVE then Inl (AppError 409 ''Only ACTIVE lots can be quarantined'')
          else
            (case (lockProducts [l_productId lot] s, lockLots [l_id lot] s) of
               (lockedProduct # _, lockedLot # _) \<Rightarrow>
                 if l_status lockedLot \<noteq> LotACTIVE
                 then Inl (AppError 409 ''Only ACTIVE lots can be quarantined'')
                 else if l_quantityReserved lockedLot > 0
                 then Inl (AppError 409 ''Cannot quarantine lot with open reservations - finalize or expire pending sales first'')
                 else
                   bindE (leaveSellableRollup dev lockedProduct lockedLot LotQUARANTINED s) (\<lambda>(s1, _).
                   case find_lot (l_id lot) s1 of
                     None \<Rightarrow> Inl RecordNotFound
                   | Some lotAfter \<Rightarrow>
                       let s2 = writeAuditLog (Some (au_id actor)) (Some storeId) ''LOT_QUARANTINE''
                                  ''Lot'' (Some (l_id lot)) s1
                       in Inr (s2, toLotListItem now (au_role actor) s2 lotAfter))
             | _ \<Rightarrow> Inl (AppError 409 ''Only ACTIVE lots can be quarantined'')))"

section \<open>Expiring lots\<close>

record expire_report =
  er_expiredLotIds :: "ident list"
  er_skippedReserved :: "ident list"

definition due_lots :: "time \<Rightarrow> db \<Rightarrow> lot list" where
  "due_lots now s =
     take 200 (sort_key (\<lambda>l. the (l_expiryDate l))
       (filter (\<lambda>l. l_status l = LotACTIVE
          \<and> (case l_expiryDate l of None \<Rightarrow> False | Some e \<Rightarrow> e < now)) (db_lots s)))"

text \<open>The transaction of one lot: \<open>None\<close> when the locked rows no longer allow it.\<close>

definition expire_lot_tx :: "bool \<Rightarrow> lot \<Rightarrow> db \<Rightarrow> db option result" where
  "expire_lot_tx dev lot s =
     (case (lockProducts [l_productId lot] s, lockLots [l_id lot] s) of
        (product # _, locked # _) \<Rightarrow>
          if l_status locked \<noteq> LotACTIVE \<or> l_quantityReserved locked > 0 then Inr None
          else
            bindE (leaveSellableRollup dev product locked LotEXPIRED s) (\<lambda>(s1, writeOffQty).
            Inr (Some (if writeOffQty > 0
              then s1\<lparr>db_writeOffs := db_writeOffs s1 @
                     [\<lparr>w_storeId = l_storeId lot, w_productId = l_productId lot, w_lotId = Some (l_id lot),
                       w_saleId = None, w_saleItemId = None, w_saleRefundId = None,
                       w_quantity = writeOffQty, w_reason = ''EXPIRED'', w_unitCost = None, w_value = None\<rparr>]\<rparr>
              else s1)))
      | _ \<Rightarrow> Inr None)"

text \<open>
  One lot of the job; an error is logged and the job goes on. (A deadlock would end the run; the
  transactions of the model do not overlap, so there is none.)
\<close>

definition expire_lot_one :: "bool \<Rightarrow> lot \<Rightarrow> db \<times> expire_report \<Rightarrow> db \<times> expire_report" where
  "expire_lot_one dev lot acc =
     (let (s, r) = acc in
      if l_quantityReserved lot > 0
      then (s, r\<lparr>er_skippedReserved := er_skippedReserved r @ [l_id lot]\<rparr>)
      else case expire_lot_tx dev lot s of
        Inl e \<Rightarrow> (s, r)
      | Inr None \<Rightarrow> (s, r)
      | Inr (Some s') \<Rightarrow> (s', r\<lparr>er_expiredLotIds := er_expiredLotIds r @ [l_id lot]\<rparr>))"

definition runExpireLotsOnce :: "bool \<Rightarrow> time \<Rightarrow> db \<Rightarrow> db \<times> expire_report" where
  "runExpireLotsOnce dev now s =
     foldl (\<lambda>acc lot. expire_lot_one dev lot acc) (s, \<lparr>er_expiredLotIds = [], er_skippedReserved = []\<rparr>)
       (due_lots now s)"

end
