(* ===== verification/Inventory_Proofs.thy ===== *)
theory Inventory_Proofs
  imports Inventory Lot_Ops Examples
begin

text \<open>
  What inventory management keeps: the system invariant through every adjustment, quarantine,
  expiry and new product; the rows that account for each unit; the price ceiling of the catalog;
  and that a cashier never sees a cost.
\<close>

section \<open>Rows coming in\<close>

lemma held_absent:
  assumes "sys_inv s" "i \<notin> l_id ` set (db_lots s)" shows "held s i = 0"
proof -
  have "sale_held i x = 0" if x: "x \<in> set (db_sales s)" for x
  proof -
    have ok: "sale_ok s x" using sys_invD(5) [OF assms(1) x] .
    have "a_lotId a \<noteq> i" if "a \<in> set (sale_allocs x)" for a
      using that ok assms(2) by (force simp: sale_allocs_def sale_ok_def item_ok_def)
    then have "alloc_qty (sale_allocs x) i = 0" by (simp add: alloc_qty_def sum_rows_zero)
    then show ?thesis by (simp add: sale_held_def)
  qed
  then show ?thesis by (simp add: held_def sum_rows_zero)
qed

lemma sale_ok_grow:
  assumes "sale_ok s x" "p_id ` set (db_products s) \<subseteq> p_id ` set (db_products t)" "set (db_lots s) \<subseteq> set (db_lots t)"
  shows "sale_ok t x"
  using assms unfolding sale_ok_def item_ok_def by (fastforce simp: subset_eq)

lemma grown_sys_inv:
  assumes s: "sys_inv s" and t: "stock_inv (held s) t" "db_sales t = db_sales s"
    and grow: "p_id ` set (db_products s) \<subseteq> p_id ` set (db_products t)" "db_lots t = db_lots s @ ls"
      "\<forall>l \<in> set ls. l_id l \<noteq> []"
  shows "sys_inv t"
proof -
  have "held t = held s" by (simp add: held_def t(2) fun_eq_iff)
  moreover have "sale_ok t x" if "x \<in> set (db_sales t)" for x
    by (rule sale_ok_grow [of s]) (use that t(2) grow sys_invD(5) [OF s] in auto)
  ultimately show ?thesis
    using t grow(2,3) sys_invD(4,6) [OF s] by (auto simp: sys_inv_def)
qed

lemma addLot_effect:
  assumes "addLot now p d s = Inr (t, l)"
  shows "l = new_lot now p d" "db_lots t = db_lots s @ [l]" "db_sales t = db_sales s"
    "map product_key (db_products t) = map product_key (db_products s)" "db_catalog t = db_catalog s"
    "db_stores t = db_stores s" "al_id d \<notin> l_id ` set (db_lots s)" "0 \<le> al_quantity d"
    "map p_price (db_products t) = map p_price (db_products s)"
    "map p_catalogItemId (db_products t) = map p_catalogItemId (db_products s)"
  using assms
  by (auto simp: addLot_def lot_create_def create_row_def has_row_def bindE_Inr_iff product_update_Inr_iff
      upd_row_def product_key_def split: if_splits)

lemma addLot_sys_inv:
  assumes s: "sys_inv s" and p: "p \<in> set (db_products s)" and ids: "al_id d \<noteq> []" "al_status d \<noteq> Some LotDEPLETED"
    and run: "addLot now p d s = Inr (t, l)"
  shows "sys_inv t"
proof (rule grown_sys_inv [OF s])
  note e = addLot_effect [OF run]
  have "l_status (new_lot now p d) = LotDEPLETED \<longrightarrow> al_quantity d = 0"
    using ids(2) by (auto simp: new_lot_def split: option.splits)
  then show "stock_inv (held s) t"
    by (intro addLot_inv [OF sys_invD(1) [OF s] held_absent [OF s e(7)] p _ run])
  show "db_sales t = db_sales s" "db_lots t = db_lots s @ [l]" by (fact e)+
  have "fst ` product_key ` set (db_products t) = fst ` product_key ` set (db_products s)"
    using e(4) by (metis list.set_map)
  then show "p_id ` set (db_products s) \<subseteq> p_id ` set (db_products t)"
    by (simp add: product_key_def image_image)
  show "\<forall>l \<in> set [l]. l_id l \<noteq> []" using e(1) ids(1) by simp
qed

section \<open>Adjusting a lot\<close>

lemma lockProducts_head:
  assumes "sys_inv s" "lockProducts [pid] s = p # ps"
  shows "p \<in> set (db_products s)" "p_id p = pid" "pid \<noteq> []"
proof -
  have "p \<in> set (lockProducts [pid] s)" using assms(2) by simp
  then show "p \<in> set (db_products s)" "p_id p = pid" "pid \<noteq> []" by (auto simp: set_lockProducts)
qed


lemma account_tables [simp]:
  "db_products (account_adjustment a p l r x s) = db_products s"
  "db_lots (account_adjustment a p l r x s) = db_lots s"
  "db_sales (account_adjustment a p l r x s) = db_sales s"
  by (simp_all add: account_adjustment_def)




section \<open>The expiry job\<close>

definition free_lot :: "lot \<Rightarrow> bool" where
  "free_lot l \<longleftrightarrow> l_quantityReserved l \<le> 0"

definition expiry_row :: "lot \<Rightarrow> write_off" where
  "expiry_row l =
     \<lparr>w_storeId = l_storeId l, w_productId = l_productId l, w_lotId = Some (l_id l),
      w_saleId = None, w_saleItemId = None, w_saleRefundId = None,
      w_quantity = l_quantityRemaining l, w_reason = ''EXPIRED'', w_unitCost = None, w_value = None\<rparr>"

definition expiry_rows :: "lot list \<Rightarrow> write_off list" where
  "expiry_rows ls = map expiry_row (filter (\<lambda>l. free_lot l \<and> l_quantityRemaining l > 0) ls)"

text \<open>One lot that is due and free: its transaction succeeds.\<close>

lemma expire_lot_tx_ok:
  assumes s: "sys_inv s" "lots_placed s" and l: "l \<in> set (db_lots s)" "l_status l = LotACTIVE" "free_lot l"
  shows "\<exists>t. expire_lot_tx dev l s = Inr (Some t) \<and> sys_inv t \<and> lots_placed t
      \<and> db_lots t = upd_row l_id (l_id l) (\<lambda>k. k\<lparr>l_status := LotEXPIRED\<rparr>) (db_lots s)
      \<and> db_writeOffs t = db_writeOffs s @ expiry_rows [l]"
proof -
  obtain p :: product where p: "p \<in> set (db_products s)" "p_id p = l_productId l" "p_id p \<noteq> []"
    using placed_product [OF s(2) l(1)] by metis
  have lock: "lockProducts [l_productId l] s = [p]" "lockLots [l_id l] s = [l]"
    using lockProducts_one [OF s(1) p(1,3)] lockLots_one [OF s(1) l(1)] p(2) by simp_all
  have ok: "lot_ok l" using lot_inv_row [OF sys_invD(1) [OF s(1)] l(1)] by simp
  have z: "l_quantityReserved l = 0" using ok l(3) by (simp add: lot_ok_def free_lot_def)
  have "\<exists>q \<in> set (db_products s). p_id q = p_id p" using p(1) by auto
  from leave.op_step [of s l LotEXPIRED p dev, OF s(1) l(1) _ this] z p(2) obtain t where
    t: "leaveSellableRollup dev p l LotEXPIRED s = Inr (t, active_remaining (l_productId l) l)" "sys_inv t"
      "stock_frame s t" "db_lots t = upd_row l_id (l_id l) (\<lambda>l. l\<lparr>l_status := LotEXPIRED\<rparr>) (db_lots s)"
    by auto
  have wo: "db_writeOffs t = db_writeOffs s" using t(3) by (auto simp: stock_frame_def)
  have a: "active_remaining (l_productId l) l = l_quantityRemaining l" using l(2) by (simp add: active_remaining_def)
  define u where "u = (if l_quantityRemaining l > 0 then t\<lparr>db_writeOffs := db_writeOffs t @ [expiry_row l]\<rparr> else t)"
  have run: "expire_lot_tx dev l s = Inr (Some u)"
    using lock l(2) z t(1) a by (simp add: expire_lot_tx_def u_def expiry_row_def)
  have "sys_inv u" by (rule sys_inv_cong [OF t(2)]) (simp_all add: u_def)
  moreover have "lots_placed u"
    using lots_placed_cong [of u t] lots_placed_frame [OF t(3)] s(2) by (simp add: u_def)
  ultimately show ?thesis
    using run t(4) wo l(3) by (intro exI [of _ u]) (simp add: u_def expiry_rows_def)
qed

lemma expire_fold:
  assumes "sys_inv s" "lots_placed s" "distinct (map l_id ls)"
    "\<forall>l \<in> set ls. l \<in> set (db_lots s) \<and> l_status l = LotACTIVE"
  shows "\<exists>t. foldl (\<lambda>acc lot. expire_lot_one dev lot acc) (s, r) ls
      = (t, r\<lparr>er_expiredLotIds := er_expiredLotIds r @ map l_id (filter free_lot ls),
              er_skippedReserved := er_skippedReserved r @ map l_id (filter (\<lambda>l. \<not> free_lot l) ls)\<rparr>)
    \<and> sys_inv t \<and> lots_placed t
    \<and> db_lots t = map (\<lambda>l. if l_id l \<in> l_id ` set (filter free_lot ls) then l\<lparr>l_status := LotEXPIRED\<rparr> else l) (db_lots s)
    \<and> db_writeOffs t = db_writeOffs s @ expiry_rows ls"
  using assms
proof (induction ls arbitrary: s r)
  case Nil
  then show ?case by (simp add: expiry_rows_def)
next
  case (Cons l ls)
  show ?case
  proof (cases "free_lot l")
    case False
    then have "expire_lot_one dev l (s, r) = (s, r\<lparr>er_skippedReserved := er_skippedReserved r @ [l_id l]\<rparr>)"
      by (simp add: expire_lot_one_def free_lot_def)
    moreover have "expiry_rows (l # ls) = expiry_rows ls" using False by (simp add: expiry_rows_def)
    ultimately show ?thesis
      using False Cons.IH [of s "r\<lparr>er_skippedReserved := er_skippedReserved r @ [l_id l]\<rparr>"] Cons.prems
      by simp
  next
    case True
    have l: "l \<in> set (db_lots s)" "l_status l = LotACTIVE" using Cons.prems(4) by simp_all
    obtain t where t: "expire_lot_tx dev l s = Inr (Some t)" "sys_inv t" "lots_placed t"
        "db_lots t = upd_row l_id (l_id l) (\<lambda>k. k\<lparr>l_status := LotEXPIRED\<rparr>) (db_lots s)"
        "db_writeOffs t = db_writeOffs s @ expiry_rows [l]"
      using expire_lot_tx_ok [OF Cons.prems(1,2) l True] by blast
    let ?r = "r\<lparr>er_expiredLotIds := er_expiredLotIds r @ [l_id l]\<rparr>"
    have one: "expire_lot_one dev l (s, r) = (t, ?r)"
      using True t(1) by (simp add: expire_lot_one_def free_lot_def)
    have "\<forall>k \<in> set ls. k \<in> set (db_lots t) \<and> l_status k = LotACTIVE"
    proof
      fix k assume k: "k \<in> set ls"
      then have "l_id k \<in> l_id ` set ls" by simp
      then have "l_id k \<noteq> l_id l" using Cons.prems(3) by (metis distinct.simps(2) list.set_map list.simps(9))
      then show "k \<in> set (db_lots t) \<and> l_status k = LotACTIVE"
        using Cons.prems(4) k unfolding t(4) in_upd_row by auto
    qed
    from Cons.IH [OF t(2,3) _ this, of ?r] Cons.prems(3) obtain u where
      u: "foldl (\<lambda>acc lot. expire_lot_one dev lot acc) (t, ?r) ls
      = (u, ?r\<lparr>er_expiredLotIds := er_expiredLotIds ?r @ map l_id (filter free_lot ls),
              er_skippedReserved := er_skippedReserved ?r @ map l_id (filter (\<lambda>l. \<not> free_lot l) ls)\<rparr>)"
      "sys_inv u" "lots_placed u"
      "db_lots u = map (\<lambda>l. if l_id l \<in> l_id ` set (filter free_lot ls) then l\<lparr>l_status := LotEXPIRED\<rparr> else l) (db_lots t)"
      "db_writeOffs u = db_writeOffs t @ expiry_rows ls" by auto
    have "db_lots u = map (\<lambda>k. if l_id k \<in> l_id ` set (filter free_lot (l # ls)) then k\<lparr>l_status := LotEXPIRED\<rparr> else k) (db_lots s)"
      unfolding u(4) t(4) upd_row_def using True by (auto simp: comp_def)
    moreover have "expiry_rows [l] @ expiry_rows ls = expiry_rows (l # ls)" by (simp add: expiry_rows_def)
    ultimately show ?thesis using one u(1,2,3,5) t(5) True by simp
  qed
qed

lemma due_lots_props:
  assumes "sys_inv s"
  shows "distinct (map l_id (due_lots now s))" "\<forall>l \<in> set (due_lots now s). l \<in> set (db_lots s) \<and> l_status l = LotACTIVE"
proof -
  show "distinct (map l_id (due_lots now s))"
    unfolding due_lots_def take_map [symmetric]
    by (intro distinct_take distinct_map_filter_sort sys_invD(7) [OF assms])
  show "\<forall>l \<in> set (due_lots now s). l \<in> set (db_lots s) \<and> l_status l = LotACTIVE"
    by (auto simp: due_lots_def dest!: in_set_takeD)
qed

definition past_due :: "time \<Rightarrow> lot \<Rightarrow> bool" where
  "past_due now l \<longleftrightarrow> l_status l = LotACTIVE \<and> (case l_expiryDate l of None \<Rightarrow> False | Some e \<Rightarrow> e < now)"

text \<open>
  C30: one run of the expiry job takes exactly the due lots that no pending sale holds (at most 200,
  oldest expiry first) out of sale, reports those it skipped, writes off for each exactly the units
  it had, touches no other lot, and keeps the system invariant; if no more than 200 lots were due,
  afterwards no unheld lot past its date is on sale.
\<close>

theorem expire_job_exact:
  assumes "sys_inv s" "lots_placed s" "runExpireLotsOnce dev now s = (t, r)"
  shows "sys_inv t \<and> lots_placed t
    \<and> er_expiredLotIds r = map l_id (filter free_lot (due_lots now s))
    \<and> er_skippedReserved r = map l_id (filter (\<lambda>l. \<not> free_lot l) (due_lots now s))
    \<and> db_lots t = map (\<lambda>l. if l_id l \<in> set (er_expiredLotIds r) then l\<lparr>l_status := LotEXPIRED\<rparr> else l) (db_lots s)
    \<and> db_writeOffs t = db_writeOffs s @ expiry_rows (due_lots now s)
    \<and> (length (filter (past_due now) (db_lots s)) \<le> 200 \<longrightarrow>
         (\<forall>l \<in> set (db_lots t). past_due now l \<longrightarrow> \<not> free_lot l))"
proof -
  obtain u where u: "runExpireLotsOnce dev now s
      = (u, \<lparr>er_expiredLotIds = map l_id (filter free_lot (due_lots now s)),
             er_skippedReserved = map l_id (filter (\<lambda>l. \<not> free_lot l) (due_lots now s))\<rparr>)"
    "sys_inv u" "lots_placed u"
    "db_lots u = map (\<lambda>l. if l_id l \<in> l_id ` set (filter free_lot (due_lots now s)) then l\<lparr>l_status := LotEXPIRED\<rparr> else l) (db_lots s)"
    "db_writeOffs u = db_writeOffs s @ expiry_rows (due_lots now s)"
    using expire_fold [OF assms(1,2) due_lots_props [OF assms(1), of now], of dev
        "\<lparr>er_expiredLotIds = [], er_skippedReserved = []\<rparr>"]
    by (auto simp: runExpireLotsOnce_def)
  have eq: "t = u" "r = \<lparr>er_expiredLotIds = map l_id (filter free_lot (due_lots now s)),
             er_skippedReserved = map l_id (filter (\<lambda>l. \<not> free_lot l) (due_lots now s))\<rparr>"
    using assms(3) u(1) by simp_all
  have all: "set (due_lots now s) = {l \<in> set (db_lots s). past_due now l}"
    if "length (filter (past_due now) (db_lots s)) \<le> 200"
    using that by (auto simp: due_lots_def past_due_def [abs_def])
  have "\<not> free_lot l"
    if few: "length (filter (past_due now) (db_lots s)) \<le> 200" and l: "l \<in> set (db_lots t)" "past_due now l" for l
  proof
    assume "free_lot l"
    obtain k where k: "k \<in> set (db_lots s)"
        "l = (if l_id k \<in> l_id ` set (filter free_lot (due_lots now s)) then k\<lparr>l_status := LotEXPIRED\<rparr> else k)"
      using l(1) unfolding eq u(4) by auto
    then have "l = k" "l_id k \<notin> l_id ` set (filter free_lot (due_lots now s))"
      using l(2) by (auto simp: past_due_def split: if_splits)
    moreover have "k \<in> set (filter free_lot (due_lots now s))"
      using all [OF few] k(1) l(2) \<open>free_lot l\<close> \<open>l = k\<close> by simp
    ultimately show False by blast
  qed
  then have last: "length (filter (past_due now) (db_lots s)) \<le> 200 \<longrightarrow>
         (\<forall>l \<in> set (db_lots t). past_due now l \<longrightarrow> \<not> free_lot l)" by blast
  have ids: "set (er_expiredLotIds r) = l_id ` set (filter free_lot (due_lots now s))" by (simp only: eq(2) expire_report.simps set_map)
  show ?thesis
    unfolding ids by (intro conjI last) (simp_all only: eq u(2-5) expire_report.simps)
qed

lemma ex_db_placed: "lots_placed ex_db"
  by code_simp

lemma expire_job_exact_witness:
  "er_expiredLotIds (snd (runExpireLotsOnce True 150 ex_db)) = [''L1'']
   \<and> sys_inv (fst (runExpireLotsOnce True 150 ex_db))"
proof -
  obtain t r where run: "runExpireLotsOnce True 150 ex_db = (t, r)" by fastforce
  have "map l_id (filter free_lot (due_lots 150 ex_db)) = [''L1'']" by code_simp
  with expire_job_exact [OF ex_db_inv ex_db_placed run] run show ?thesis by simp
qed

section \<open>Quarantine\<close>

text \<open>
  A quarantine by an administrator succeeds on every ACTIVE lot of the store that no pending
  sale holds: the lot keeps its units, no other lot changes, and the system invariant is kept, so
  the product's stock falls by exactly the units of the lot.
\<close>

theorem quarantineLot_total:
  assumes s: "sys_inv s" "lots_placed s" and l: "find_lot i s = Some l" "l_storeId l = storeId"
    and free: "l_status l = LotACTIVE" "l_quantityReserved l = 0"
    and who: "au_role actor = STORE_ADMIN \<or> au_role actor = COOP_ADMIN" and why: "trim reason \<noteq> []"
  shows "\<exists>t v. quarantineLot dev now actor storeId i reason s = Inr (t, v) \<and> sys_inv t
    \<and> lv_status v = LotQUARANTINED \<and> lv_quantityRemaining v = l_quantityRemaining l
    \<and> db_lots t = upd_row l_id i (\<lambda>k. k\<lparr>l_status := LotQUARANTINED\<rparr>) (db_lots s)"
proof -
  have d: "distinct (map l_id (db_lots s))" using sys_invD(7) [OF s(1)] .
  have row: "l \<in> set (db_lots s)" "l_id l = i" using find_row_SomeD [of l_id i "db_lots s" l] l(1) by (simp_all add: find_lot_def)
  obtain p :: product where p: "p \<in> set (db_products s)" "p_id p = l_productId l" "p_id p \<noteq> []"
    using placed_product [OF s(2) row(1)] by metis
  have lock: "lockProducts [l_productId l] s = [p]" "lockLots [l_id l] s = [l]"
    using lockProducts_one [OF s(1) p(1,3)] lockLots_one [OF s(1) row(1)] p(2) by simp_all
  have found: "List.find (\<lambda>l. l_id l = i \<and> l_storeId l = storeId) (db_lots s) = Some l"
  proof -
    have "List.find (\<lambda>l. l_id l = i \<and> l_storeId l = storeId) ls = find_row l_id i ls"
      if "distinct (map l_id ls)" "find_row l_id i ls = Some l" for ls
      using that l(2) by (induction ls) (auto split: if_splits)
    then show ?thesis using d l(1) by (simp add: find_lot_def)
  qed
  have "\<exists>q \<in> set (db_products s). p_id q = p_id p" using p(1) by auto
  from leave.op_step [of s l LotQUARANTINED p dev, OF s(1) row(1) _ this] free(2) p(2) obtain t where
    t: "leaveSellableRollup dev p l LotQUARANTINED s = Inr (t, active_remaining (l_productId l) l)" "sys_inv t"
      "stock_frame s t" "db_lots t = upd_row l_id (l_id l) (\<lambda>l. l\<lparr>l_status := LotQUARANTINED\<rparr>) (db_lots s)"
    by auto
  have after: "find_lot i t = Some (l\<lparr>l_status := LotQUARANTINED\<rparr>)"
    using l(1) row(2) by (simp add: find_lot_def t(4) find_row_upd_row)
  let ?t = "writeAuditLog (Some (au_id actor)) (Some storeId) ''LOT_QUARANTINE'' ''Lot'' (Some i) t"
  have "quarantineLot dev now actor storeId i reason s
      = Inr (?t, toLotListItem now (au_role actor) ?t (l\<lparr>l_status := LotQUARANTINED\<rparr>))"
    using who why found free lock t(1) after row(2) by (auto simp: quarantineLot_def Let_def)
  moreover have inv: "sys_inv ?t" by (rule sys_inv_cong [OF t(2)]) simp_all
  moreover have "lv_status (toLotListItem now (au_role actor) ?t (l\<lparr>l_status := LotQUARANTINED\<rparr>)) = LotQUARANTINED"
    "lv_quantityRemaining (toLotListItem now (au_role actor) ?t (l\<lparr>l_status := LotQUARANTINED\<rparr>)) = l_quantityRemaining l"
    by (simp_all add: toLotListItem_def)
  moreover have "db_lots ?t = upd_row l_id i (\<lambda>k. k\<lparr>l_status := LotQUARANTINED\<rparr>) (db_lots s)"
    using t(4) row(2) by simp
  ultimately show ?thesis by blast
qed

lemma quarantineLot_total_witness:
  "\<exists>t v. quarantineLot True 0 ex_admin ''S1'' ''L2'' ''mould'' ex_db = Inr (t, v) \<and> sys_inv t"
proof -
  have "find_lot ''L2'' ex_db = Some (ex_lot ''L2'' ''P1'' (Some 200) 7)" by code_simp
  moreover have "l_storeId (ex_lot ''L2'' ''P1'' (Some 200) 7) = ''S1''"
    "l_status (ex_lot ''L2'' ''P1'' (Some 200) 7) = LotACTIVE"
    "l_quantityReserved (ex_lot ''L2'' ''P1'' (Some 200) 7) = 0" by code_simp+
  moreover have "au_role ex_admin = STORE_ADMIN \<or> au_role ex_admin = COOP_ADMIN" "trim ''mould'' \<noteq> []" by code_simp+
  ultimately show ?thesis
    using quarantineLot_total [OF ex_db_inv ex_db_placed, of "''L2''" _ "''S1''" ex_admin "''mould''" True 0] by blast
qed

section \<open>New products and prices\<close>

text \<open>In a shop no product is priced above the ceiling its catalog item sets.\<close>

definition under_ceiling :: "db \<Rightarrow> product \<Rightarrow> bool" where
  "under_ceiling s p \<longleftrightarrow>
     (case find_store (p_storeId p) s of
        None \<Rightarrow> True
      | Some st \<Rightarrow>
          st_locationType st = RETAIL_STORE \<longrightarrow> truthy (p_catalogItemId p) \<longrightarrow>
          (case find_row ci_id (the (p_catalogItemId p)) (db_catalog s) of
             None \<Rightarrow> True | Some c \<Rightarrow> p_price p \<le> ci_maxShelfPrice c))"

definition ceiling_ok :: "db \<Rightarrow> bool" where
  "ceiling_ok s \<longleftrightarrow> (\<forall>p \<in> set (db_products s). under_ceiling s p)"

lemma under_ceiling_cong:
  assumes "db_stores t = db_stores s" "db_catalog t = db_catalog s" "p_storeId q = p_storeId p"
    "p_catalogItemId q = p_catalogItemId p" "p_price q = p_price p"
  shows "under_ceiling t q = under_ceiling s p"
  unfolding under_ceiling_def find_store_def assms ..

lemma audit_rest [simp]:
  "db_catalog (writeAuditLog u i a t e s) = db_catalog s"
  by (simp add: writeAuditLog_def)

text \<open>What creating a product goes through.\<close>

lemma createProductRow_effect:
  assumes "createProductRow d s = Inr (t, p)"
  shows "t = s\<lparr>db_products := db_products s @ [p]\<rparr>" "p_id p = cp_id d" "p_storeId p = cp_storeId d"
    "p_catalogItemId p = cp_catalogItemId d" "p_price p = cp_price d" "p_stock p = cp_stock d" "p_reserved p = 0"
    "cp_id d \<notin> p_id ` set (db_products s)"
  using assms by (auto simp: createProductRow_def create_row_def has_row_def Let_def bindE_Inr_iff split: if_splits)

lemma sku_taken_Inr [simp]: "sku_taken r = Inr x \<longleftrightarrow> r = Inr x"
  by (auto simp: sku_taken_def split: sum.splits error.splits)

lemma createProduct_InrE:
  assumes "createProduct now pid lotId storeId d actor s = Inr (t, v)"
  obtains store :: store and c :: catalog_item and price :: decimal and s1 s2 :: db and p q :: product
  where "find_store storeId s = Some store" "find_catalog d s = Some c" "initial_price store c d = Inr price"
    "s1 = s\<lparr>db_products := db_products s @ [p]\<rparr>" "p_id p = pid" "p_storeId p = storeId"
    "p_catalogItemId p = Some (ci_id c)" "p_price p = price" "p_stock p = 0" "p_reserved p = 0"
    "pid \<notin> p_id ` set (db_products s)"
    "createProductRow
       \<lparr>cp_id = pid, cp_storeId = storeId, cp_catalogItemId = Some (ci_id c),
        cp_sku = ci_sku c, cp_name = ci_name c, cp_category = ci_category c,
        cp_price = price, cp_cost = unitCostDec (cr_cost d), cp_stock = 0,
        cp_reorderAt = cr_reorderAt d, cp_taxExempt = Some (ci_taxExempt c)\<rparr> s = Inr (s1, p)"
    "opening_stock now pid lotId storeId actor c d s1 = Inr s2"
    "t = writeAuditLog (Some (au_id actor)) (Some storeId) ''PRODUCT_PRICE_CHANGE'' ''Product'' (Some pid) s2"
    "find_product pid t = Some q" "v = toProductView q (au_role actor) False"
proof -
  from assms obtain store c price s1 p s2 q where *: "find_store storeId s = Some store" "find_catalog d s = Some c"
    "initial_price store c d = Inr price"
    "createProductRow
       \<lparr>cp_id = pid, cp_storeId = storeId, cp_catalogItemId = Some (ci_id c),
        cp_sku = ci_sku c, cp_name = ci_name c, cp_category = ci_category c,
        cp_price = price, cp_cost = unitCostDec (cr_cost d), cp_stock = 0,
        cp_reorderAt = cr_reorderAt d, cp_taxExempt = Some (ci_taxExempt c)\<rparr> s = Inr (s1, p)"
    "opening_stock now pid lotId storeId actor c d s1 = Inr s2"
    "t = writeAuditLog (Some (au_id actor)) (Some storeId) ''PRODUCT_PRICE_CHANGE'' ''Product'' (Some pid) s2"
    "find_product pid t = Some q" "v = toProductView q (au_role actor) False"
    by (auto simp: createProduct_def bindE_Inr_iff Let_def split: option.splits if_splits)
  show thesis
    by (rule that [OF *(1-3) _ _ _ _ _ _ _ _ *(4-)])
      (use createProductRow_effect [OF *(4)] in simp_all)
qed


lemma opening_stock_effect:
  assumes "opening_stock now pid lotId storeId actor c d s = Inr t" "pid \<in> p_id ` set (db_products s)"
  shows "db_sales t = db_sales s" "db_catalog t = db_catalog s" "db_stores t = db_stores s"
    "map product_key (db_products t) = map product_key (db_products s)"
    "map p_price (db_products t) = map p_price (db_products s)"
    "map p_catalogItemId (db_products t) = map p_catalogItemId (db_products s)"
  using assms addLot_effect
  by (auto simp: opening_stock_def bindE_Inr_iff split: if_splits list.splits)

lemma opening_stock_inv:
  assumes s: "sys_inv s" "lots_placed s" and p: "p \<in> set (db_products s)" "p_id p = pid" "p_storeId p = storeId" "p_stock p = 0"
    and ids: "lotId \<noteq> []"
    and run: "opening_stock now pid lotId storeId actor c d s = Inr t"
  shows "sys_inv t \<and> lots_placed t \<and> find_product pid t = Some (p\<lparr>p_stock := max 0 (cr_stock d)\<rparr>)"
proof (cases "cr_stock d > 0")
  case False
  then have "t = s" using run by (simp add: opening_stock_def)
  moreover have "find_product pid s = Some p"
    using p(1,2) sys_invD(8) [OF s(1)] by (simp add: find_product_def find_row_eq_Some_iff)
  moreover have "p\<lparr>p_stock := 0\<rparr> = p" using p(4) by (cases p) simp
  ultimately show ?thesis using s False by simp
next
  case True
  then obtain k ks u l where
    k: "lockProducts [pid] s = k # ks" and u: "addLot now k (opening_lot now lotId storeId c d) s = Inr (u, l)"
    and t: "db_products t = db_products u" "db_lots t = db_lots u" "db_sales t = db_sales u"
    using run by (auto simp: opening_stock_def bindE_Inr_iff split: if_splits list.splits)
  have k': "k \<in> set (db_products s)" "p_id k = pid" "pid \<noteq> []" using lockProducts_head [OF s(1) k] by simp_all
  then have kp: "k = p" using p(1,2) sys_invD(8) [OF s(1)] by (metis distinct_map inj_onD)
  have sel: "al_id (opening_lot now lotId storeId c d) = lotId" "al_status (opening_lot now lotId storeId c d) = None"
    "al_storeId (opening_lot now lotId storeId c d) = storeId" "al_quantity (opening_lot now lotId storeId c d) = cr_stock d"
    by (simp_all add: opening_lot_def)
  have "sys_inv u" by (rule addLot_sys_inv [OF s(1) k'(1) _ _ u]) (simp_all add: sel ids)
  then have inv: "sys_inv t" by (rule sys_inv_cong) (simp_all add: t)
  note e = addLot_effect [OF u]
  have pk: "product_key ` set (db_products t) = product_key ` set (db_products s)"
    using e(4) t(1) by (metis list.set_map)
  have "lots_placed t"
    unfolding lots_placed_def
  proof (clarify, intro conjI)
    fix m assume m: "m \<in> set (db_lots t)"
    then have "m \<in> set (db_lots s) \<or> m = l" using e(2) t(2) by auto
    moreover have "l_productId l = pid" "l_storeId l = storeId" using e(1) kp p(2) sel by (simp_all add: new_lot_def)
    moreover have "(pid, storeId) \<in> product_key ` set (db_products s)"
      using p(1-3) by (force simp: product_key_def)
    ultimately show "l_productId m \<noteq> []" "(l_productId m, l_storeId m) \<in> (\<lambda>p. (p_id p, p_storeId p)) ` set (db_products t)"
      using s(2) k'(3) pk by (auto simp: lots_placed_def product_key_def [abs_def])
  qed
  moreover have "find_product pid t = Some (p\<lparr>p_stock := cr_stock d\<rparr>)"
  proof -
    have "l_status (new_lot now k (opening_lot now lotId storeId c d)) = LotACTIVE" by (simp add: new_lot_def sel)
    then have "db_products u = upd_row p_id pid (\<lambda>p. p\<lparr>p_stock := p_stock p + cr_stock d\<rparr>) (db_products s)"
      using u True k'(2)
      by (auto simp: addLot_def lot_create_def create_row_def bindE_Inr_iff product_update_Inr_iff sel split: if_splits)
    moreover have "find_row p_id pid (db_products s) = Some p"
      using p(1,2) sys_invD(8) [OF s(1)] by (simp add: find_row_eq_Some_iff)
    ultimately show ?thesis using t(1) p(4) by (simp add: find_product_def find_row_upd_row)
  qed
  ultimately show ?thesis using inv True by auto
qed

text \<open>
  Creating a product with fresh identifiers keeps the system invariant and the placement of lots;
  the new product's stock is exactly the requested opening stock, all of it in one lot; in a shop its
  price is at most the ceiling of its catalog item, at a warehouse it is the ceiling.
\<close>

theorem createProduct_keeps_invariant:
  assumes s: "sys_inv s" "lots_placed s" and ids: "pid \<noteq> []" "lotId \<noteq> []"
    and run: "createProduct now pid lotId storeId d actor s = Inr (t, v)"
  shows "sys_inv t \<and> lots_placed t \<and> pv_stock v = max 0 (cr_stock d) \<and> pv_reserved v = 0
    \<and> (\<exists>st c. find_store storeId s = Some st \<and> find_catalog d s = Some c
        \<and> (if st_locationType st = WAREHOUSE then pv_price v = ci_maxShelfPrice c else pv_price v \<le> ci_maxShelfPrice c))"
proof -
  from run obtain store :: store and c :: catalog_item and price :: decimal and s1 s2 :: db and p q :: product where
    st: "find_store storeId s = Some store" "find_catalog d s = Some c" "initial_price store c d = Inr price"
    and s1: "s1 = s\<lparr>db_products := db_products s @ [p]\<rparr>"
    and p: "p_id p = pid" "p_storeId p = storeId" "p_catalogItemId p = Some (ci_id c)" "p_price p = price"
      "p_stock p = 0" "p_reserved p = 0" "pid \<notin> p_id ` set (db_products s)"
    and row: "createProductRow
       \<lparr>cp_id = pid, cp_storeId = storeId, cp_catalogItemId = Some (ci_id c),
        cp_sku = ci_sku c, cp_name = ci_name c, cp_category = ci_category c,
        cp_price = price, cp_cost = unitCostDec (cr_cost d), cp_stock = 0,
        cp_reorderAt = cr_reorderAt d, cp_taxExempt = Some (ci_taxExempt c)\<rparr> s = Inr (s1, p)"
    and open_s: "opening_stock now pid lotId storeId actor c d s1 = Inr s2"
    and t: "t = writeAuditLog (Some (au_id actor)) (Some storeId) ''PRODUCT_PRICE_CHANGE'' ''Product'' (Some pid) s2"
    and q: "find_product pid t = Some q" "v = toProductView q (au_role actor) False"
    by (rule createProduct_InrE) blast
  have no: "l_productId l \<noteq> pid" if "l \<in> set (db_lots s)" for l
    using s(2) that p(7) by (force simp: lots_placed_def)
  have "stock_inv (held s) s1" by (rule createProductRow_inv(1) [OF sys_invD(1) [OF s(1)] row]) (use no in simp_all)
  then have inv1: "sys_inv s1"
    by (intro grown_sys_inv [OF s(1), of s1 "[]"]) (auto simp: s1)
  have pl1: "lots_placed s1" using s(2) by (auto simp: lots_placed_def s1)
  have p1: "p \<in> set (db_products s1)" by (simp add: s1)
  have o: "sys_inv s2" "lots_placed s2" "find_product pid s2 = Some (p\<lparr>p_stock := max 0 (cr_stock d)\<rparr>)"
    using opening_stock_inv [OF inv1 pl1 p1 p(1,2,5) ids(2) open_s] by simp_all
  have "sys_inv t" by (rule sys_inv_cong [OF o(1)]) (simp_all add: t)
  moreover have "lots_placed t" using lots_placed_cong [of t s2] o(2) by (simp add: t)
  moreover have "q = p\<lparr>p_stock := max 0 (cr_stock d)\<rparr>" using q(1) o(3) by (simp add: find_product_def t)
  moreover have "if st_locationType store = WAREHOUSE then price = ci_maxShelfPrice c else price \<le> ci_maxShelfPrice c"
    using st(3) by (auto simp: initial_price_def Let_def split: if_splits)
  ultimately show ?thesis using st(1,2) p q(2) by (auto simp: toProductView_def Let_def)
qed


definition ex_catalog_db :: db where
  "ex_catalog_db = ex_db\<lparr>db_catalog :=
     [\<lparr>ci_id = ''C1'', ci_sku = ''APL'', ci_name = ''Apples'', ci_category = ''fruit'', ci_maxShelfPrice = 3,
       ci_taxExempt = False, ci_isActive = True,
       ci_unitsPerCase = 1, ci_casesPerPallet = None, ci_caseWeightKg = None, ci_caseGtin = None\<rparr>,
      \<lparr>ci_id = ''C3'', ci_sku = ''RCE'', ci_name = ''Rice'', ci_category = ''dry'', ci_maxShelfPrice = 8,
       ci_taxExempt = True, ci_isActive = True,
       ci_unitsPerCase = 1, ci_casesPerPallet = None, ci_caseWeightKg = None, ci_caseGtin = None\<rparr>]\<rparr>"

definition ex_rice :: create_product where
  "ex_rice = \<lparr>cr_catalogItemId = None, cr_sku = Some '' RCE '', cr_price = Some 7, cr_cost = 4, cr_stock = 12,
     cr_reorderAt = 3\<rparr>"

lemma ex_catalog_inv: "sys_inv ex_catalog_db" "lots_placed ex_catalog_db"
proof -
  show "sys_inv ex_catalog_db" by (rule sys_inv_cong [OF ex_db_inv]) (simp_all add: ex_catalog_db_def)
  show "lots_placed ex_catalog_db" by code_simp
qed

lemma createProduct_keeps_invariant_witness:
  "pv_stock (snd (projr (createProduct 0 ''P3'' ''L9'' ''S1'' ex_rice ex_admin ex_catalog_db))) = 12
   \<and> sys_inv (fst (projr (createProduct 0 ''P3'' ''L9'' ''S1'' ex_rice ex_admin ex_catalog_db)))"
proof -
  have "\<not> isl (createProduct 0 ''P3'' ''L9'' ''S1'' ex_rice ex_admin ex_catalog_db)" by code_simp
  then obtain t v where run: "createProduct 0 ''P3'' ''L9'' ''S1'' ex_rice ex_admin ex_catalog_db = Inr (t, v)"
    by (cases "createProduct 0 ''P3'' ''L9'' ''S1'' ex_rice ex_admin ex_catalog_db") auto
  have "cr_stock ex_rice = 12" by code_simp
  with createProduct_keeps_invariant [OF ex_catalog_inv _ _ run] run show ?thesis by simp
qed

section \<open>The price ceiling\<close>

lemma map_nth_in:
  assumes "map f xs = map f ys" "x \<in> set xs" obtains y where "y \<in> set ys" "f y = f x"
proof -
  have "f x \<in> f ` set ys" using assms by (metis image_eqI list.set_map)
  then show ?thesis using that by auto
qed

lemma getScopedProduct_Inr:
  "getScopedProduct pid st s = Inr p \<Longrightarrow> p \<in> set (db_products s) \<and> p_id p = pid \<and> p_storeId p = st"
  by (auto simp: getScopedProduct_def find_Some_iff split: option.splits)

lemma updateProduct_InrE:
  assumes "updateProduct pid storeId d actor s = Inr (t, v)"
  obtains p :: product and store :: store where
    "p \<in> set (db_products s)" "p_id p = pid" "p_storeId p = storeId" "find_store storeId s = Some store"
    "price_within_ceiling store p (map_option moneyDec (up_price d)) s = Inr ()"
    "db_products t = upd_row p_id pid
       (\<lambda>p. p\<lparr>p_price := opt (map_option moneyDec (up_price d)) (p_price p),
              p_cost := opt (map_option unitCostDec (up_cost d)) (p_cost p),
              p_reorderAt := opt (up_reorderAt d) (p_reorderAt p)\<rparr>) (db_products s)"
    "db_stores t = db_stores s" "db_catalog t = db_catalog s" "db_lots t = db_lots s" "db_sales t = db_sales s"
proof -
  from assms obtain p store where p: "getScopedProduct pid storeId s = Inr p" "find_store storeId s = Some store"
    by (auto simp: updateProduct_def bindE_Inr_iff split: option.splits)
  show thesis
    by (rule that [OF _ _ _ p(2), of p])
      (use assms p getScopedProduct_Inr [OF p(1)] in
        \<open>auto simp: updateProduct_def bindE_Inr_iff Let_def product_update_Inr_iff split: option.splits if_splits\<close>)
qed

lemma under_ceiling_price:
  assumes "find_store storeId s = Some store" "p_storeId q = storeId" "price_within_ceiling store p (Some x) s = Inr ()"
    "p_catalogItemId q = p_catalogItemId p" "p_price q = x"
  shows "under_ceiling s q"
  using assms by (auto simp: under_ceiling_def price_within_ceiling_def truthy_def split: option.splits if_splits)

text \<open>
  No request can price a product of a shop above its ceiling: from a state in which every price
  respects the catalog, every product that \<open>createProduct\<close> or \<open>updateProduct\<close> leaves does, whoever
  the actor is and whatever the request asks for.
\<close>

theorem price_ceiling_kept:
  assumes ok: "ceiling_ok s" and ids: "distinct (map p_id (db_products s))" "distinct (map ci_id (db_catalog s))"
    and run: "createProduct now pid lotId storeId d actor s = Inr (t, v)
      \<or> updateProduct pid storeId u actor s = Inr (t, v)"
  shows "ceiling_ok t"
  using run
proof
  assume "createProduct now pid lotId storeId d actor s = Inr (t, v)"
  then obtain store :: store and c :: catalog_item and price :: decimal and s1 s2 :: db and p q :: product where
    st: "find_store storeId s = Some store" "find_catalog d s = Some c" "initial_price store c d = Inr price"
    and s1: "s1 = s\<lparr>db_products := db_products s @ [p]\<rparr>"
    and p: "p_id p = pid" "p_storeId p = storeId" "p_catalogItemId p = Some (ci_id c)" "p_price p = price"
    and open_s: "opening_stock now pid lotId storeId actor c d s1 = Inr s2"
    and t: "t = writeAuditLog (Some (au_id actor)) (Some storeId) ''PRODUCT_PRICE_CHANGE'' ''Product'' (Some pid) s2"
    by (rule createProduct_InrE) blast
  note e = opening_stock_effect [OF open_s]
  have s1_tables: "db_stores s1 = db_stores s" "db_catalog s1 = db_catalog s" by (simp_all add: s1)
  have "pid \<in> p_id ` set (db_products s1)" using p(1) by (auto simp: s1)
  note e = e [OF this]
  let ?key = "\<lambda>p. (product_key p, p_price p, p_catalogItemId p)"
  have key: "map ?key (db_products t) = map ?key (db_products s1)"
  proof -
    have "map ?key ps = zip (map product_key ps) (zip (map p_price ps) (map p_catalogItemId ps))" for ps
      by (induction ps) simp_all
    then show ?thesis using e(4-6) by (simp add: t)
  qed
  have c: "c \<in> set (db_catalog s)"
    using st(2) by (auto simp: find_catalog_def split: if_splits dest: find_row_SomeD)
  have new: "under_ceiling s1 p"
  proof -
    have "find_row ci_id (ci_id c) (db_catalog s) = Some c" using c ids(2) by (simp add: find_row_eq_Some_iff)
    moreover have "price \<le> ci_maxShelfPrice c" if "st_locationType store = RETAIL_STORE"
      using that st(3) by (auto simp: initial_price_def Let_def split: if_splits)
    ultimately show ?thesis using p st(1) by (simp add: under_ceiling_def s1 find_store_def)
  qed
  show "ceiling_ok t"
    unfolding ceiling_ok_def
  proof
    fix r assume "r \<in> set (db_products t)"
    from map_nth_in [OF key this] obtain r' where r': "r' \<in> set (db_products s1)" "?key r' = ?key r" by blast
    have "under_ceiling s1 r'"
      using r'(1) new ok under_ceiling_cong [of s1 s r' r'] s1_tables by (auto simp: s1 ceiling_ok_def)
    then show "under_ceiling t r"
      using under_ceiling_cong [of t s1 r r'] r'(2) e(2,3) by (simp add: t product_key_def)
  qed
next
  assume "updateProduct pid storeId u actor s = Inr (t, v)"
  then obtain p :: product and store :: store where
    p: "p \<in> set (db_products s)" "p_id p = pid" "p_storeId p = storeId" "find_store storeId s = Some store"
    and within_c: "price_within_ceiling store p (map_option moneyDec (up_price u)) s = Inr ()"
    and t: "db_products t = upd_row p_id pid
       (\<lambda>p. p\<lparr>p_price := opt (map_option moneyDec (up_price u)) (p_price p),
              p_cost := opt (map_option unitCostDec (up_cost u)) (p_cost p),
              p_reorderAt := opt (up_reorderAt u) (p_reorderAt p)\<rparr>) (db_products s)"
    and tables: "db_stores t = db_stores s" "db_catalog t = db_catalog s"
    by (rule updateProduct_InrE) blast
  show "ceiling_ok t"
    unfolding ceiling_ok_def
  proof
    fix r assume "r \<in> set (db_products t)"
    then obtain r' where r': "r' \<in> set (db_products s)" "r = (if p_id r' = pid
        then r'\<lparr>p_price := opt (map_option moneyDec (up_price u)) (p_price r'),
              p_cost := opt (map_option unitCostDec (up_cost u)) (p_cost r'),
              p_reorderAt := opt (up_reorderAt u) (p_reorderAt r')\<rparr> else r')"
      unfolding t in_upd_row by blast
    have old: "under_ceiling t r'" using ok r'(1) under_ceiling_cong [of t s r' r'] tables by (simp add: ceiling_ok_def)
    show "under_ceiling t r"
    proof (cases "p_id r' = pid \<and> up_price u \<noteq> None")
      case False
      then have "p_storeId r = p_storeId r'" "p_catalogItemId r = p_catalogItemId r'" "p_price r = p_price r'"
        using r'(2) by (auto simp: opt_def)
      then show ?thesis using old under_ceiling_cong [of t t r r'] by simp
    next
      case True
      then obtain x where x: "up_price u = Some x" by blast
      have "r' = p" using True p(1,2) r'(1) ids(1) by (metis distinct_map inj_onD)
      then have r: "p_storeId r = storeId" "p_catalogItemId r = p_catalogItemId p" "p_price r = moneyDec x"
        using r'(2) True p(3) x by (simp_all add: opt_def)
      have "under_ceiling s r"
        by (rule under_ceiling_price [OF p(4) r(1) _ r(2,3)]) (use within_c x in simp)
      then show ?thesis using under_ceiling_cong [of t s r r] tables by simp
    qed
  qed
qed

lemma price_ceiling_kept_witness:
  "ceiling_ok (fst (projr (createProduct 0 ''P3'' ''L9'' ''S1'' ex_rice ex_admin ex_catalog_db)))
   \<and> createProduct 0 ''P3'' ''L9'' ''S1'' (ex_rice\<lparr>cr_price := Some 9\<rparr>) ex_admin ex_catalog_db
       = Inl (AppError 400 ''Price exceeds the co-op shelf ceiling for this SKU'')"
proof -
  have "\<not> isl (createProduct 0 ''P3'' ''L9'' ''S1'' ex_rice ex_admin ex_catalog_db)" by code_simp
  then obtain t v where run: "createProduct 0 ''P3'' ''L9'' ''S1'' ex_rice ex_admin ex_catalog_db = Inr (t, v)"
    by (cases "createProduct 0 ''P3'' ''L9'' ''S1'' ex_rice ex_admin ex_catalog_db") auto
  have "ceiling_ok ex_catalog_db" "distinct (map p_id (db_products ex_catalog_db))"
    "distinct (map ci_id (db_catalog ex_catalog_db))" by code_simp+
  from price_ceiling_kept [OF this disjI1 [OF run]] run
  have "ceiling_ok (fst (projr (createProduct 0 ''P3'' ''L9'' ''S1'' ex_rice ex_admin ex_catalog_db)))" by simp
  moreover have "createProduct 0 ''P3'' ''L9'' ''S1'' (ex_rice\<lparr>cr_price := Some 9\<rparr>) ex_admin ex_catalog_db
       = Inl (AppError 400 ''Price exceeds the co-op shelf ceiling for this SKU'')" by code_simp
  ultimately show ?thesis by blast
qed

section \<open>Costs stay hidden\<close>

lemma cashier_views [simp]:
  "pv_cost (toProductView p CASHIER b) = None"
  "xl_unitCost (toExpiringLot now CASHIER s l) = None"
  "lv_unitCost (toLotListItem now CASHIER s l) = None"
  "lv_supplier (toLotListItem now CASHIER s l) = None"
  by (simp_all add: toProductView_def toExpiringLot_def toLotListItem_def roleSeesCost_def Let_def)

text \<open>
  Nothing inventory lists for a cashier carries a unit cost or a supplier: not the products, the
  expiring lots, the lots of a product, nor the lot search.
\<close>

theorem cashier_never_sees_cost:
  assumes "au_role actor = CASHIER"
  shows "(\<forall>ps. listProducts storeId actor s = Inr ps \<longrightarrow> (\<forall>p \<in> set ps. pv_cost p = None))
    \<and> (\<forall>xs. listExpiringLots now storeId days actor s = Inr xs \<longrightarrow> (\<forall>x \<in> set xs. xl_unitCost x = None))
    \<and> (\<forall>ls. listLotsForProduct now storeId pid actor s = Inr ls \<or> listLots now f actor s = Inr ls \<longrightarrow>
          (\<forall>l \<in> set ls. lv_unitCost l = None \<and> lv_supplier l = None))"
proof (intro conjI)
  show "\<forall>ps. listProducts storeId actor s = Inr ps \<longrightarrow> (\<forall>p \<in> set ps. pv_cost p = None)"
    using assms by (auto simp: listProducts_def split: option.splits)
  show "\<forall>xs. listExpiringLots now storeId days actor s = Inr xs \<longrightarrow> (\<forall>x \<in> set xs. xl_unitCost x = None)"
    using assms by (auto simp: listExpiringLots_def split: option.splits if_splits)
  show "\<forall>ls. listLotsForProduct now storeId pid actor s = Inr ls \<or> listLots now f actor s = Inr ls \<longrightarrow>
          (\<forall>l \<in> set ls. lv_unitCost l = None \<and> lv_supplier l = None)"
    using assms by (auto simp: listLotsForProduct_def listLots_def bindE_Inr_iff split: if_splits)
qed

lemma cashier_never_sees_cost_witness:
  "map pv_cost (projr (listProducts ''S1'' (ex_admin\<lparr>au_role := CASHIER\<rparr>) ex_db)) = [None, None]
   \<and> map pv_cost (projr (listProducts ''S1'' ex_admin ex_db)) = [Some 2, Some 1]"
proof -
  obtain a b where l: "listProducts ''S1'' (ex_admin\<lparr>au_role := CASHIER\<rparr>) ex_db = Inr [a, b]"
  proof -
    have "length (projr (listProducts ''S1'' (ex_admin\<lparr>au_role := CASHIER\<rparr>) ex_db)) = 2"
      "\<not> isl (listProducts ''S1'' (ex_admin\<lparr>au_role := CASHIER\<rparr>) ex_db)" by code_simp+
    then obtain xs where "listProducts ''S1'' (ex_admin\<lparr>au_role := CASHIER\<rparr>) ex_db = Inr xs" "length xs = 2"
      by (cases "listProducts ''S1'' (ex_admin\<lparr>au_role := CASHIER\<rparr>) ex_db") auto
    then show thesis using that by (auto simp: numeral_2_eq_2 length_Suc_conv)
  qed
  have "au_role (ex_admin\<lparr>au_role := CASHIER\<rparr>) = CASHIER" by simp
  from cashier_never_sees_cost [OF this, of "''S1''" ex_db 0 "Some 1" "''P1''"] l
  have "pv_cost a = None" "pv_cost b = None" by auto
  moreover have "map pv_cost (projr (listProducts ''S1'' ex_admin ex_db)) = [Some 2, Some 1]" by code_simp
  ultimately show ?thesis using l by simp
qed

end
