(* ===== verification/Traceability.thy ===== *)
theory Traceability
  imports Js_Base Locks
begin

text \<open>
  Where the units of a lot went (\<open>backend/src/services/traceability.service.ts\<close>): from a lot, over
  the allocations of sold lines, to the sales and the members who bought it. The order of rows a
  query leaves open is the order of insertion.
\<close>

section \<open>Access\<close>

definition assertStoreResourceAccess :: "auth_user \<Rightarrow> ident \<Rightarrow> unit result" where
  "assertStoreResourceAccess actor resourceStoreId =
     (if au_role actor = COOP_ADMIN then Inr ()
      else if au_role actor \<noteq> STORE_ADMIN then Inl (AppError 403 ''Insufficient role for traceability'')
      else if \<not> truthy (au_storeScope actor) \<or> au_storeScope actor \<noteq> Some resourceStoreId
      then Inl (AppError 403 ''Cannot access another store's data'')
      else Inr ())"

section \<open>Downstream of a set of lots\<close>

definition SOLD_STATUSES :: "payment_status list" where
  "SOLD_STATUSES = [PayPAID, PayREFUNDING, PayREFUNDED]"

record trace_member =
  tm_memberId :: ident
  tm_memberNumber :: string
  tm_name :: string
  tm_email :: string
  tm_phone :: string
  tm_mailingAddress :: string
  tm_quantityPurchased :: int
  tm_saleIds :: "ident list"

record trace_sale =
  ts_saleId :: ident
  ts_storeId :: ident
  ts_storeName :: string
  ts_paymentStatus :: payment_status
  ts_paidAt :: "time option"
  ts_memberId :: "ident option"
  ts_quantityFromLot :: int
  ts_saleItemIds :: "ident list"

record downstream =
  dn_quantitySold :: int
  dn_sales :: "trace_sale list"
  dn_members :: "trace_member list"

text \<open>\<open>saleItemLot.findMany\<close> with its line, its sale, the sale's member and store.\<close>

type_synonym alloc_row = "sale \<times> sale_item \<times> lot_allocation"

definition allocations_of :: "ident list \<Rightarrow> db \<Rightarrow> alloc_row list" where
  "allocations_of lotIds s =
     concat (map (\<lambda>x. concat (map (\<lambda>it.
        map (\<lambda>a. (x, it, a)) (filter (\<lambda>a. a_lotId a \<in> set lotIds) (si_lotAllocations it)))
        (s_items x))) (db_sales s))"

definition sale_member :: "db \<Rightarrow> sale \<Rightarrow> member option" where
  "sale_member s x =
     (case s_memberId x of None \<Rightarrow> None | Some i \<Rightarrow> find_row m_id i (db_members s))"

definition store_name :: "ident \<Rightarrow> db \<Rightarrow> string" where
  "store_name i s = (case find_store i s of None \<Rightarrow> [] | Some st \<Rightarrow> st_name st)"

definition add_trace_sale :: "db \<Rightarrow> alloc_row \<Rightarrow> trace_sale list \<Rightarrow> trace_sale list" where
  "add_trace_sale s row rows =
     (let (x, it, a) = row in
      if has_row ts_saleId (s_id x) rows
      then upd_row ts_saleId (s_id x)
             (\<lambda>r. r\<lparr>ts_quantityFromLot := ts_quantityFromLot r + a_quantity a,
                    ts_saleItemIds := (if si_id it \<in> set (ts_saleItemIds r) then ts_saleItemIds r
                                       else ts_saleItemIds r @ [si_id it])\<rparr>) rows
      else rows @ [\<lparr>ts_saleId = s_id x, ts_storeId = s_storeId x, ts_storeName = store_name (s_storeId x) s,
                    ts_paymentStatus = s_paymentStatus x, ts_paidAt = s_paidAt x, ts_memberId = s_memberId x,
                    ts_quantityFromLot = a_quantity a, ts_saleItemIds = [si_id it]\<rparr>])"

definition add_trace_member :: "db \<Rightarrow> alloc_row \<Rightarrow> trace_member list \<Rightarrow> trace_member list" where
  "add_trace_member s row rows =
     (let (x, it, a) = row in
      case sale_member s x of
        None \<Rightarrow> rows
      | Some m \<Rightarrow>
          let rows' = (if has_row tm_memberId (m_id m) rows then rows
                       else rows @ [\<lparr>tm_memberId = m_id m, tm_memberNumber = m_memberNumber m,
                              tm_name = m_name m, tm_email = m_email m, tm_phone = m_phone m,
                              tm_mailingAddress = m_mailingAddress m, tm_quantityPurchased = 0,
                              tm_saleIds = []\<rparr>])
          in upd_row tm_memberId (m_id m)
               (\<lambda>r. r\<lparr>tm_quantityPurchased := tm_quantityPurchased r + a_quantity a,
                      tm_saleIds := (if s_id x \<in> set (tm_saleIds r) then tm_saleIds r
                                     else tm_saleIds r @ [s_id x])\<rparr>) rows')"

definition trace_alloc :: "db \<Rightarrow> alloc_row \<Rightarrow> downstream \<Rightarrow> downstream" where
  "trace_alloc s row d =
     (let (x, it, a) = row in
      if s_paymentStatus x \<notin> set SOLD_STATUSES then d
      else \<lparr>dn_quantitySold = dn_quantitySold d + a_quantity a,
            dn_sales = add_trace_sale s row (dn_sales d),
            dn_members = add_trace_member s row (dn_members d)\<rparr>)"

definition collectDownstream :: "ident list \<Rightarrow> db \<Rightarrow> downstream" where
  "collectDownstream lotIds s =
     (let d = fold (trace_alloc s) (allocations_of lotIds s)
                \<lparr>dn_quantitySold = 0, dn_sales = [], dn_members = []\<rparr>
      in \<lparr>dn_quantitySold = dn_quantitySold d,
          dn_sales = sort_key (\<lambda>r. case ts_paidAt r of None \<Rightarrow> 0 | Some t \<Rightarrow> t) (dn_sales d),
          dn_members = sort_key tm_memberNumber
            (map (\<lambda>r. r\<lparr>tm_saleIds := sort (tm_saleIds r)\<rparr>) (dn_members d))\<rparr>)"

section \<open>The forward trace\<close>

record lot_location =
  ll_lotId :: ident
  ll_lotNumber :: string
  ll_storeId :: ident
  ll_storeName :: string
  ll_status :: lot_status
  ll_quantityRemaining :: int
  ll_quantityReserved :: int
  ll_quantityReceived :: int

record forward_trace =
  ft_lotId :: ident
  ft_lotNumber :: string
  ft_productId :: ident
  ft_productSku :: string
  ft_productName :: string
  ft_locations :: "lot_location list"
  ft_quantitySold :: int
  ft_quantityRemaining :: int
  ft_sales :: "trace_sale list"
  ft_members :: "trace_member list"

text \<open>The lots taken for the same batch: same product row and lot number.\<close>

definition batch_lots :: "lot \<Rightarrow> db \<Rightarrow> lot list" where
  "batch_lots seed s =
     sort_key l_receivedAt (sort_key l_id
       (filter (\<lambda>l. l_productId l = l_productId seed \<and> l_lotNumber l = l_lotNumber seed) (db_lots s)))"

definition location_of :: "db \<Rightarrow> lot \<Rightarrow> lot_location" where
  "location_of s l =
     \<lparr>ll_lotId = l_id l, ll_lotNumber = l_lotNumber l, ll_storeId = l_storeId l,
      ll_storeName = store_name (l_storeId l) s, ll_status = l_status l,
      ll_quantityRemaining = l_quantityRemaining l, ll_quantityReserved = l_quantityReserved l,
      ll_quantityReceived = l_quantityReceived l\<rparr>"

definition traceForward :: "auth_user \<Rightarrow> ident \<Rightarrow> db \<Rightarrow> forward_trace result" where
  "traceForward actor lotId s =
     (case find_lot lotId s of
        None \<Rightarrow> Inl (AppError 404 ''Lot not found'')
      | Some seed \<Rightarrow>
          bindE (assertStoreResourceAccess actor (l_storeId seed)) (\<lambda>_.
          let batch = batch_lots seed s; down = collectDownstream (map l_id batch) s in
          Inr \<lparr>ft_lotId = l_id seed, ft_lotNumber = l_lotNumber seed, ft_productId = l_productId seed,
               ft_productSku = (case find_product (l_productId seed) s of None \<Rightarrow> [] | Some p \<Rightarrow> p_sku p),
               ft_productName = (case find_product (l_productId seed) s of None \<Rightarrow> [] | Some p \<Rightarrow> p_name p),
               ft_locations = map (location_of s) batch,
               ft_quantitySold = dn_quantitySold down,
               ft_quantityRemaining = sum_list (map l_quantityRemaining batch),
               ft_sales = dn_sales down, ft_members = dn_members down\<rparr>))"

end
