(* ===== verification/Trace_Proofs.thy ===== *)
theory Trace_Proofs
  imports Traceability Lot_Ops Examples
begin

text \<open>
  The forward trace is complete: every member with a sold line that took units of the lots is on
  the list, with all those units and all those sales. But the batch of a lot is the lot alone: a
  product row belongs to one store, so the search for the same batch at other stores finds nothing.
\<close>

section \<open>The outreach list is complete\<close>

definition sold_row :: "alloc_row \<Rightarrow> bool" where
  "sold_row row \<longleftrightarrow> s_paymentStatus (fst row) \<in> set SOLD_STATUSES"

text \<open>The rows by which a member holds units of the lots.\<close>

definition bought :: "db \<Rightarrow> ident \<Rightarrow> alloc_row list \<Rightarrow> alloc_row list" where
  "bought s i rows =
     filter (\<lambda>row. sold_row row \<and> map_option m_id (sale_member s (fst row)) = Some i) rows"

definition units_of :: "alloc_row list \<Rightarrow> int" where
  "units_of rows = sum_list (map (\<lambda>(x, it, a). a_quantity a) rows)"

definition member_row_ok :: "db \<Rightarrow> alloc_row list \<Rightarrow> trace_member list \<Rightarrow> ident \<Rightarrow> bool" where
  "member_row_ok s rows ms i \<longleftrightarrow>
     (case find_row tm_memberId i ms of
        None \<Rightarrow> bought s i rows = []
      | Some r \<Rightarrow> bought s i rows \<noteq> [] \<and> tm_quantityPurchased r = units_of (bought s i rows)
          \<and> set (tm_saleIds r) = s_id ` fst ` set (bought s i rows))"

lemma bought_snoc:
  "bought s i (rows @ [row]) = bought s i rows
     @ (if sold_row row \<and> map_option m_id (sale_member s (fst row)) = Some i then [row] else [])"
  by (simp add: bought_def)

lemma units_of_simps [simp]:
  "units_of [] = 0" "units_of (xs @ ys) = units_of xs + units_of ys" "units_of [(x, it, a)] = a_quantity a"
  by (simp_all add: units_of_def)

lemma find_row_append:
  "find_row key k (xs @ [y]) = (case find_row key k xs of None \<Rightarrow> if key y = k then Some y else None | Some r \<Rightarrow> Some r)"
  by (induction xs) auto

lemma member_row_skip:
  assumes "\<not> sold_row row \<or> sale_member s (fst row) = None"
  shows "member_row_ok s (rows @ [row]) ms i \<longleftrightarrow> member_row_ok s rows ms i"
proof -
  have "bought s i (rows @ [row]) = bought s i rows" using assms by (auto simp: bought_snoc)
  then show ?thesis by (simp only: member_row_ok_def)
qed

lemma add_member_ok:
  assumes ok: "\<forall>i. member_row_ok s rows ms i" and d: "distinct (map tm_memberId ms)" and sold: "sold_row row"
  shows "(\<forall>i. member_row_ok s (rows @ [row]) (add_trace_member s row ms) i)
    \<and> distinct (map tm_memberId (add_trace_member s row ms))"
proof -
  obtain x it a where row: "row = (x, it, a)" by (cases row)
  show ?thesis
  proof (cases "sale_member s x")
    case None
    then show ?thesis
      using ok d member_row_skip [of row s rows] by (simp add: row add_trace_member_def)
  next
    case (Some m)
    let ?new = "\<lparr>tm_memberId = m_id m, tm_memberNumber = m_memberNumber m, tm_name = m_name m,
       tm_email = m_email m, tm_phone = m_phone m, tm_mailingAddress = m_mailingAddress m,
       tm_quantityPurchased = 0, tm_saleIds = []\<rparr>"
    let ?ms = "if has_row tm_memberId (m_id m) ms then ms else ms @ [?new]"
    let ?f = "\<lambda>r. r\<lparr>tm_quantityPurchased := tm_quantityPurchased r + a_quantity a,
        tm_saleIds := (if s_id x \<in> set (tm_saleIds r) then tm_saleIds r else tm_saleIds r @ [s_id x])\<rparr>"
    have eq: "add_trace_member s row ms = upd_row tm_memberId (m_id m) ?f ?ms"
      using Some by (simp add: row add_trace_member_def Let_def)
    have d': "distinct (map tm_memberId ?ms)" using d by (auto simp: has_row_def)
    have look: "find_row tm_memberId i (add_trace_member s row ms)
        = (if i = m_id m then map_option ?f (find_row tm_memberId i ?ms) else find_row tm_memberId i ms)" for i
      unfolding eq by (simp add: find_row_upd_row find_row_append split: option.splits)
    have "member_row_ok s (rows @ [row]) (add_trace_member s row ms) i" for i
    proof (cases "i = m_id m")
      case False
      then have b: "bought s i (rows @ [row]) = bought s i rows" using Some by (simp add: bought_snoc row)
      have "member_row_ok s rows ms i" using ok ..
      then show ?thesis using False by (simp only: member_row_ok_def look b if_False)
    next
      case True
      have b: "bought s i (rows @ [row]) = bought s i rows @ [row]"
        using True Some sold by (simp add: bought_snoc row)
      have oki: "member_row_ok s rows ms i" using ok ..
      show ?thesis
      proof (cases "find_row tm_memberId i ms")
        case None
        then have "bought s i rows = []" "\<not> has_row tm_memberId (m_id m) ms"
          using oki True find_row_None_iff [of tm_memberId i ms] by (simp_all add: member_row_ok_def)
        then show ?thesis
          using None True unfolding member_row_ok_def look b by (simp add: find_row_append row)
      next
        case (Some r)
        then have "bought s i rows \<noteq> []" "tm_quantityPurchased r = units_of (bought s i rows)"
            "set (tm_saleIds r) = s_id ` fst ` set (bought s i rows)" "has_row tm_memberId (m_id m) ms"
          using oki True by (simp_all add: member_row_ok_def has_row_iff_find)
        then show ?thesis
          using Some True unfolding member_row_ok_def look b by (auto simp: row)
      qed
    qed
    moreover have "distinct (map tm_memberId (add_trace_member s row ms))"
      unfolding eq using d' by (simp add: map_upd_row)
    ultimately show ?thesis by blast
  qed
qed

text \<open>The rows of one sale, and what the list of sales says of it after some rows.\<close>

definition of_sale :: "ident \<Rightarrow> alloc_row list \<Rightarrow> alloc_row list" where
  "of_sale i rows = filter (\<lambda>row. sold_row row \<and> s_id (fst row) = i) rows"

definition describes :: "trace_sale \<Rightarrow> sale \<Rightarrow> bool" where
  "describes r x \<longleftrightarrow> ts_storeId r = s_storeId x \<and> ts_paymentStatus r = s_paymentStatus x
     \<and> ts_paidAt r = s_paidAt x \<and> ts_memberId r = s_memberId x"

definition sale_row_ok :: "alloc_row list \<Rightarrow> trace_sale list \<Rightarrow> ident \<Rightarrow> bool" where
  "sale_row_ok rows ss i \<longleftrightarrow>
     (case find_row ts_saleId i ss of
        None \<Rightarrow> of_sale i rows = []
      | Some r \<Rightarrow> of_sale i rows \<noteq> [] \<and> describes r (fst (hd (of_sale i rows)))
          \<and> ts_quantityFromLot r = units_of (of_sale i rows)
          \<and> set (ts_saleItemIds r) = (\<lambda>(x, it, a). si_id it) ` set (of_sale i rows))"

lemma of_sale_snoc:
  "of_sale i (rows @ [row]) = of_sale i rows @ (if sold_row row \<and> s_id (fst row) = i then [row] else [])"
  by (simp add: of_sale_def)

lemma add_sale_ok:
  assumes ok: "\<forall>i. sale_row_ok rows ss i" and d: "distinct (map ts_saleId ss)" and sold: "sold_row row"
  shows "(\<forall>i. sale_row_ok (rows @ [row]) (add_trace_sale s row ss) i) \<and> distinct (map ts_saleId (add_trace_sale s row ss))"
proof -
  obtain x it a where row: "row = (x, it, a)" by (cases row)
  let ?new = "\<lparr>ts_saleId = s_id x, ts_storeId = s_storeId x, ts_storeName = store_name (s_storeId x) s,
                    ts_paymentStatus = s_paymentStatus x, ts_paidAt = s_paidAt x, ts_memberId = s_memberId x,
                    ts_quantityFromLot = a_quantity a, ts_saleItemIds = [si_id it]\<rparr>"
  let ?f = "\<lambda>r. r\<lparr>ts_quantityFromLot := ts_quantityFromLot r + a_quantity a,
                    ts_saleItemIds := (if si_id it \<in> set (ts_saleItemIds r) then ts_saleItemIds r
                                       else ts_saleItemIds r @ [si_id it])\<rparr>"
  have eq: "add_trace_sale s row ss = (if has_row ts_saleId (s_id x) ss then upd_row ts_saleId (s_id x) ?f ss else ss @ [?new])"
    by (simp add: add_trace_sale_def row)
  have look: "find_row ts_saleId i (add_trace_sale s row ss) = (if i = s_id x
      then (case find_row ts_saleId i ss of None \<Rightarrow> Some ?new | Some r \<Rightarrow> Some (?f r)) else find_row ts_saleId i ss)" for i
    by (simp add: eq find_row_upd_row find_row_append has_row_iff_find split: option.split)
  have "sale_row_ok (rows @ [row]) (add_trace_sale s row ss) i" for i
  proof (cases "i = s_id x")
    case False
    then have o: "of_sale i (rows @ [row]) = of_sale i rows" by (simp add: of_sale_snoc row)
    have "sale_row_ok rows ss i" using ok ..
    then show ?thesis unfolding sale_row_ok_def look o if_not_P [OF False] .
  next
    case True
    have o: "of_sale i (rows @ [row]) = of_sale i rows @ [row]" using True sold by (simp add: of_sale_snoc row)
    have oki: "sale_row_ok rows ss i" using ok ..
    show ?thesis
    proof (cases "find_row ts_saleId i ss")
      case None
      then have "of_sale i rows = []" using oki by (simp add: sale_row_ok_def)
      then show ?thesis using None True unfolding sale_row_ok_def look o by (simp add: row describes_def)
    next
      case (Some r)
      then have r: "of_sale i rows \<noteq> []" "describes r (fst (hd (of_sale i rows)))" "ts_quantityFromLot r = units_of (of_sale i rows)"
          "set (ts_saleItemIds r) = (\<lambda>(x, it, a). si_id it) ` set (of_sale i rows)"
        using oki by (simp_all add: sale_row_ok_def)
      then have "describes (?f r) (fst (hd (of_sale i rows)))" by (simp add: describes_def)
      then show ?thesis
        using Some True r unfolding sale_row_ok_def look o by (simp add: row insert_absorb)
    qed
  qed
  moreover have "distinct (map ts_saleId (add_trace_sale s row ss))"
    unfolding eq using d by (auto simp: map_upd_row has_row_def)
  ultimately show ?thesis by blast
qed

lemma distinct_map_sort_key: "distinct (map f xs) \<Longrightarrow> distinct (map f (sort_key k xs))"
  by (simp add: distinct_map)

definition collected :: "db \<Rightarrow> alloc_row list \<Rightarrow> downstream" where
  "collected s rows = fold (trace_alloc s) rows \<lparr>dn_quantitySold = 0, dn_sales = [], dn_members = []\<rparr>"

lemma fold_members:
  "(\<forall>i. member_row_ok s rows (dn_members (collected s rows)) i) \<and> distinct (map tm_memberId (dn_members (collected s rows)))
   \<and> (\<forall>i. sale_row_ok rows (dn_sales (collected s rows)) i) \<and> distinct (map ts_saleId (dn_sales (collected s rows)))
   \<and> dn_quantitySold (collected s rows) = units_of (filter sold_row rows)"
proof (induction rows rule: rev_induct)
  case Nil
  then show ?case by (simp add: collected_def member_row_ok_def bought_def sale_row_ok_def of_sale_def)
next
  case (snoc row rows)
  obtain x it a where row: "row = (x, it, a)" by (cases row)
  show ?case
  proof (cases "sold_row row")
    case False
    then have "trace_alloc s row d = d" for d by (simp add: trace_alloc_def row sold_row_def)
    then have e: "collected s (rows @ [row]) = collected s rows" by (simp add: collected_def)
    have "of_sale i (rows @ [row]) = of_sale i rows" for i using False by (simp add: of_sale_snoc)
    then have "sale_row_ok (rows @ [row]) ss i = sale_row_ok rows ss i" for ss i by (simp only: sale_row_ok_def)
    then show ?thesis using snoc False member_row_skip [of row s rows] unfolding e by simp
  next
    case True
    have e: "collected s (rows @ [row])
        = \<lparr>dn_quantitySold = dn_quantitySold (collected s rows) + a_quantity a,
           dn_sales = add_trace_sale s row (dn_sales (collected s rows)),
           dn_members = add_trace_member s row (dn_members (collected s rows))\<rparr>"
      using True by (simp add: collected_def trace_alloc_def row sold_row_def)
    have "units_of (filter sold_row (rows @ [row])) = units_of (filter sold_row rows) + a_quantity a"
      using True by (simp add: row)
    then show ?thesis
      using add_member_ok [OF _ _ True] add_sale_ok [OF _ _ True] snoc by (simp only: e downstream.simps) blast
  qed
qed

text \<open>
  C31: the forward trace misses nobody and nothing. A sale is on its list exactly when it is sold (paid,
  being refunded or refunded) and took units of the lots; it is on it once, with its store, payment and
  member, the sum of the units it took and the set of its lines that took them. A member is on the outreach
  list exactly when one of their sold sales is; they are on it once, with the sum of all those units and the
  set of all those sales. The units sold are the sum over all sold allocations, with or without a member.
\<close>

theorem collectDownstream_complete:
  "distinct (map tm_memberId (dn_members (collectDownstream lotIds s)))
   \<and> tm_memberId ` set (dn_members (collectDownstream lotIds s)) = {i. bought s i (allocations_of lotIds s) \<noteq> []}
   \<and> (\<forall>r \<in> set (dn_members (collectDownstream lotIds s)).
        tm_quantityPurchased r = units_of (bought s (tm_memberId r) (allocations_of lotIds s))
        \<and> set (tm_saleIds r) = s_id ` fst ` set (bought s (tm_memberId r) (allocations_of lotIds s)))
   \<and> distinct (map ts_saleId (dn_sales (collectDownstream lotIds s)))
   \<and> ts_saleId ` set (dn_sales (collectDownstream lotIds s)) = {i. of_sale i (allocations_of lotIds s) \<noteq> []}
   \<and> (\<forall>r \<in> set (dn_sales (collectDownstream lotIds s)).
        describes r (fst (hd (of_sale (ts_saleId r) (allocations_of lotIds s))))
        \<and> ts_quantityFromLot r = units_of (of_sale (ts_saleId r) (allocations_of lotIds s))
        \<and> set (ts_saleItemIds r) = (\<lambda>(x, it, a). si_id it) ` set (of_sale (ts_saleId r) (allocations_of lotIds s)))
   \<and> dn_quantitySold (collectDownstream lotIds s) = units_of (filter sold_row (allocations_of lotIds s))"
proof -
  define d where "d = collectDownstream lotIds s"
  define rows where "rows = allocations_of lotIds s"
  define e where "e = collected s rows"
  have ok: "\<And>i. member_row_ok s rows (dn_members e) i" and de: "distinct (map tm_memberId (dn_members e))"
    and sok: "\<And>i. sale_row_ok rows (dn_sales e) i" and se: "distinct (map ts_saleId (dn_sales e))"
    and q: "dn_quantitySold e = units_of (filter sold_row rows)"
    using fold_members [of s rows] by (simp_all add: e_def)
  let ?g = "\<lambda>r. r\<lparr>tm_saleIds := sort (tm_saleIds r)\<rparr>"
  let ?k = "\<lambda>r. case ts_paidAt r of None \<Rightarrow> 0 | Some t \<Rightarrow> t"
  have d_eq: "dn_members d = sort_key tm_memberNumber (map ?g (dn_members e))" "dn_quantitySold d = dn_quantitySold e"
      "dn_sales d = sort_key ?k (dn_sales e)"
    by (simp_all add: d_def collectDownstream_def e_def rows_def collected_def Let_def)
  have set_d: "set (dn_members d) = ?g ` set (dn_members e)" "set (dn_sales d) = set (dn_sales e)" by (simp_all add: d_eq)
  have "distinct (map tm_memberId (map ?g (dn_members e)))" using de by (simp add: comp_def)
  then have dist: "distinct (map tm_memberId (dn_members d))" "distinct (map ts_saleId (dn_sales d))"
    unfolding d_eq using se by (blast intro: distinct_map_sort_key)+
  have row: "bought s (tm_memberId r) rows \<noteq> [] \<and> tm_quantityPurchased r = units_of (bought s (tm_memberId r) rows)
      \<and> set (tm_saleIds r) = s_id ` fst ` set (bought s (tm_memberId r) rows)" if "r \<in> set (dn_members e)" for r
  proof -
    have "find_row tm_memberId (tm_memberId r) (dn_members e) = Some r"
      using that de by (simp add: find_row_eq_Some_iff)
    then show ?thesis using ok [of "tm_memberId r"] by (simp add: member_row_ok_def)
  qed
  have srow: "of_sale (ts_saleId r) rows \<noteq> [] \<and> describes r (fst (hd (of_sale (ts_saleId r) rows)))
      \<and> ts_quantityFromLot r = units_of (of_sale (ts_saleId r) rows)
      \<and> set (ts_saleItemIds r) = (\<lambda>(x, it, a). si_id it) ` set (of_sale (ts_saleId r) rows)" if "r \<in> set (dn_sales e)" for r
  proof -
    have "find_row ts_saleId (ts_saleId r) (dn_sales e) = Some r" using that se by (simp add: find_row_eq_Some_iff)
    then show ?thesis using sok [of "ts_saleId r"] by (simp add: sale_row_ok_def)
  qed
  have "i \<in> tm_memberId ` set (dn_members e)" if "bought s i rows \<noteq> []" for i
    using ok [of i] that by (auto simp: member_row_ok_def split: option.splits dest!: find_row_SomeD)
  then have members: "tm_memberId ` set (dn_members d) = {i. bought s i rows \<noteq> []}"
    using row unfolding set_d by (auto simp: image_image)
  have "i \<in> ts_saleId ` set (dn_sales e)" if "of_sale i rows \<noteq> []" for i
    using sok [of i] that by (auto simp: sale_row_ok_def split: option.splits dest!: find_row_SomeD)
  then have sales: "ts_saleId ` set (dn_sales d) = {i. of_sale i rows \<noteq> []}" using srow unfolding set_d(2) by blast
  have "tm_quantityPurchased r = units_of (bought s (tm_memberId r) rows)
        \<and> set (tm_saleIds r) = s_id ` fst ` set (bought s (tm_memberId r) rows)" if r: "r \<in> set (dn_members d)" for r
  proof -
    obtain r0 where "r0 \<in> set (dn_members e)" "r = ?g r0" using r unfolding set_d(1) by blast
    then show ?thesis using row by simp
  qed
  then show ?thesis
    using dist q members sales srow unfolding d_def [symmetric] rows_def [symmetric] d_eq(2) set_d(2) by blast
qed

text \<open>Four apples of two lots, sold for cash to a member.\<close>

definition ex_traced :: db where
  "ex_traced = fst (createSale ex_env ''S1'' ex_admin (ex_input CASH) ex_db ex_db)"

definition ex_traced_rows :: "alloc_row list" where
  "ex_traced_rows = allocations_of [''L1'', ''L2''] ex_traced"

lemma collectDownstream_complete_witness:
  "dn_quantitySold (collectDownstream [''L1'', ''L2''] ex_traced) = 4
   \<and> (\<exists>r. r \<in> set (dn_sales (collectDownstream [''L1'', ''L2''] ex_traced)) \<and> ts_saleId r = ''X1''
        \<and> ts_quantityFromLot r = 4 \<and> ts_memberId r = Some ''M1'' \<and> set (ts_saleItemIds r) = {''I1''})
   \<and> (\<exists>r. r \<in> set (dn_members (collectDownstream [''L1'', ''L2''] ex_traced)) \<and> tm_memberId r = ''M1''
        \<and> tm_quantityPurchased r = 4)"
proof -
  note all = collectDownstream_complete [of "[''L1'', ''L2'']" ex_traced, folded ex_traced_rows_def]
  have v: "units_of (filter sold_row ex_traced_rows) = 4" "of_sale ''X1'' ex_traced_rows \<noteq> []"
      "bought ex_traced ''M1'' ex_traced_rows \<noteq> []" "units_of (of_sale ''X1'' ex_traced_rows) = 4"
      "units_of (bought ex_traced ''M1'' ex_traced_rows) = 4" "s_memberId (fst (hd (of_sale ''X1'' ex_traced_rows))) = Some ''M1''"
      "map (\<lambda>(x, it, a). si_id it) (of_sale ''X1'' ex_traced_rows) = [''I1'', ''I1'']"
    by code_simp+
  have "''X1'' \<in> ts_saleId ` set (dn_sales (collectDownstream [''L1'', ''L2''] ex_traced))"
    "''M1'' \<in> tm_memberId ` set (dn_members (collectDownstream [''L1'', ''L2''] ex_traced))"
    using all v(2,3) by blast+
  then obtain r m where r: "r \<in> set (dn_sales (collectDownstream [''L1'', ''L2''] ex_traced))" "ts_saleId r = ''X1''"
      and m: "m \<in> set (dn_members (collectDownstream [''L1'', ''L2''] ex_traced))" "tm_memberId m = ''M1''" by fastforce
  have "describes r (fst (hd (of_sale ''X1'' ex_traced_rows)))" "ts_quantityFromLot r = units_of (of_sale ''X1'' ex_traced_rows)"
      "set (ts_saleItemIds r) = (\<lambda>(x, it, a). si_id it) ` set (of_sale ''X1'' ex_traced_rows)"
      "tm_quantityPurchased m = units_of (bought ex_traced ''M1'' ex_traced_rows)"
      "dn_quantitySold (collectDownstream [''L1'', ''L2''] ex_traced) = units_of (filter sold_row ex_traced_rows)"
    using all r m by metis+
  moreover have "(\<lambda>(x, it, a). si_id it) ` set (of_sale ''X1'' ex_traced_rows) = {''I1''}"
    using arg_cong [OF v(7), of set] by simp
  ultimately show ?thesis using v r m by (auto simp: describes_def)
qed

section \<open>The batch at other stores\<close>

definition lots_unique :: "db \<Rightarrow> bool" where
  "lots_unique s \<longleftrightarrow>
     distinct (map (\<lambda>l. (l_productId l, l_lotNumber l, l_storeId l)) (db_lots s))"

text \<open>
  Tracing a lot forward never reaches another store. A product row belongs to one store and so
  do its lots, hence the lots of the same product and lot number are the lot itself: a batch with the
  same lot number received at a second store, under that store's product row, is not among the
  locations and its buyers are not on the list.
\<close>

theorem traceForward_stays_in_store:
  assumes "lots_placed s" "lots_unique s" "distinct (map p_id (db_products s))" "distinct (map l_id (db_lots s))"
    and "traceForward actor i s = Inr ft"
  shows "map ll_lotId (ft_locations ft) = [i]
    \<and> ft_members ft = dn_members (collectDownstream [i] s)"
proof -
  obtain seed where seed: "find_lot i s = Some seed" and ft: "ft_locations ft = map (location_of s) (batch_lots seed s)"
      "ft_members ft = dn_members (collectDownstream (map l_id (batch_lots seed s)) s)"
    using assms(5) by (auto simp: traceForward_def Let_def bindE_Inr_iff split: option.splits)
  have row: "seed \<in> set (db_lots s)" "l_id seed = i"
    using seed find_row_SomeD [of l_id i "db_lots s" seed] by (simp_all add: find_lot_def)
  have store: "l_storeId l = l_storeId k" if lk: "l \<in> set (db_lots s)" "k \<in> set (db_lots s)" "l_productId l = l_productId k" for l k
  proof -
    obtain p :: product where p: "p \<in> set (db_products s)" "p_id p = l_productId l" "p_storeId p = l_storeId l"
      using placed_product [OF assms(1) lk(1)] by metis
    obtain q :: product where q: "q \<in> set (db_products s)" "p_id q = l_productId k" "p_storeId q = l_storeId k"
      using placed_product [OF assms(1) lk(2)] by metis
    have "p = q" using p q lk(3) assms(3) by (metis distinct_map inj_onD)
    then show ?thesis using p q by simp
  qed
  have "set (batch_lots seed s) = {seed}"
  proof
    show "{seed} \<subseteq> set (batch_lots seed s)" using row by (simp add: batch_lots_def)
    show "set (batch_lots seed s) \<subseteq> {seed}"
    proof
      fix l assume "l \<in> set (batch_lots seed s)"
      then have l: "l \<in> set (db_lots s)" "l_productId l = l_productId seed" "l_lotNumber l = l_lotNumber seed"
        by (auto simp: batch_lots_def)
      then show "l \<in> {seed}"
        using assms(2) row(1) store [OF l(1) row(1) l(2)] by (auto simp: lots_unique_def distinct_map dest: inj_onD)
    qed
  qed
  moreover have "distinct (batch_lots seed s)"
    using assms(4) by (simp add: batch_lots_def distinct_map)
  ultimately have "batch_lots seed s = [seed]" by (rule set_single)
  then show ?thesis using ft row(2) by (simp add: location_of_def)
qed

text \<open>Two stores, each with its product row for the same catalog item and a lot of the same batch.\<close>

definition ex_batch_db :: db where
  "ex_batch_db = empty_db
     \<lparr>db_products := [ex_apples, ex_apples\<lparr>p_id := ''Q1'', p_storeId := ''S2''\<rparr>],
      db_lots := [(ex_lot ''L1'' ''P1'' (Some 100) 10)\<lparr>l_lotNumber := ''B7''\<rparr>,
                  (ex_lot ''M1'' ''Q1'' (Some 100) 10)\<lparr>l_lotNumber := ''B7'', l_storeId := ''S2''\<rparr>]\<rparr>"

lemma traceForward_stays_in_store_witness:
  "map ll_lotId (ft_locations (projr (traceForward (ex_admin\<lparr>au_role := COOP_ADMIN\<rparr>) ''L1'' ex_batch_db))) = [''L1'']
   \<and> map l_lotNumber (db_lots ex_batch_db) = [''B7'', ''B7'']"
proof -
  let ?r = "traceForward (ex_admin\<lparr>au_role := COOP_ADMIN\<rparr>) ''L1'' ex_batch_db"
  have "\<not> isl ?r" by code_simp
  then obtain ft where ft: "?r = Inr ft" by (cases ?r) auto
  have "lots_placed ex_batch_db" "lots_unique ex_batch_db" "distinct (map p_id (db_products ex_batch_db))"
    "distinct (map l_id (db_lots ex_batch_db))" by code_simp+
  from traceForward_stays_in_store [OF this ft] ft
  have "map ll_lotId (ft_locations (projr ?r)) = [''L1'']" by simp
  moreover have "map l_lotNumber (db_lots ex_batch_db) = [''B7'', ''B7'']" by code_simp
  ultimately show ?thesis by simp
qed

end
