(* ===== verification/Recall.thy ===== *)
theory Recall
  imports Traceability Refunds
begin

text \<open>
  Product recalls (\<open>backend/src/services/recall.service.ts\<close>): lots are quarantined when a recall is
  drafted, depleted when it is activated, put back on sale when it is cancelled. Operations that
  read before their transaction (or run without one) take the state of the read, \<open>s0\<close>, and the state
  of the write, \<open>s\<close>. Functions from keys to identifiers stand for the ids the database generates.
  The mail provider is a parameter.
\<close>

section \<open>Reading recalls\<close>

definition assertCoopAdmin :: "auth_user \<Rightarrow> unit result" where
  "assertCoopAdmin actor =
     (if au_role actor \<noteq> COOP_ADMIN then Inl (AppError 403 ''Only COOP_ADMIN can manage recalls'') else Inr ())"

definition find_recall :: "ident \<Rightarrow> db \<Rightarrow> recall option" where
  "find_recall i s = find_row rc_id i (db_recalls s)"

definition recall_update :: "ident \<Rightarrow> (recall \<Rightarrow> recall) \<Rightarrow> db \<Rightarrow> db result" where
  "recall_update i f s =
     bindE (update_row rc_id i f (db_recalls s)) (\<lambda>rs. Inr (s\<lparr>db_recalls := rs\<rparr>))"

text \<open>The greatest recall number of the day, plus one; a suffix that is no number yields \<open>NaN\<close>.\<close>

definition nextRecallNumber :: "time \<Rightarrow> db \<Rightarrow> string" where
  "nextRecallNumber now s =
     (let prefix = ''REC-'' @ yyyymmdd now @ ''-'';
          used = rev (sort (filter (starts_with prefix) (map rc_recallNumber (db_recalls s))))
      in prefix @ padStart 4 CHR ''0''
           (case used of
              [] \<Rightarrow> show_int 1
            | latest # _ \<Rightarrow>
                (case parse_digits (drop (length prefix) latest) of
                   None \<Rightarrow> ''NaN'' | Some n \<Rightarrow> show_int (n + 1))))"

section \<open>Initiating\<close>

record initiate_input =
  ii_lotIds :: "ident list"
  ii_reason :: string
  ii_severity :: recall_severity
  ii_publicNotice :: "string option"

definition recallable :: "lot \<Rightarrow> unit result" where
  "recallable l =
     (if l_status l \<noteq> LotACTIVE \<and> l_status l \<noteq> LotQUARANTINED
      then Inl (AppError 409 ''Lot cannot be recalled in its current status'')
      else if l_quantityReserved l > 0
      then Inl (AppError 409 ''Cannot recall lot with open reservations - finalize or expire pending sales first'')
      else Inr ())"

fun check_all :: "('a \<Rightarrow> unit result) \<Rightarrow> 'a list \<Rightarrow> unit result" where
  "check_all f [] = Inr ()"
| "check_all f (x # xs) = bindE (f x) (\<lambda>_. check_all f xs)"

text \<open>One lot of the request: out of sale if it was on sale, then a row of the recall.\<close>

definition quarantine_one :: "bool \<Rightarrow> product list \<Rightarrow> lot list \<Rightarrow> lot \<Rightarrow> db \<Rightarrow> db result" where
  "quarantine_one dev products locked l s =
     (if l_status l = LotACTIVE then
        (case (find_row p_id (l_productId l) products, find_row l_id (l_id l) locked) of
           (Some product, Some lockedLot) \<Rightarrow>
             bindE (leaveSellableRollup dev product lockedLot LotQUARANTINED s) (\<lambda>(s1, _). Inr s1)
         | _ \<Rightarrow> Inl (AppError 500 ''Missing locked product/lot at recall initiate''))
      else Inr s)"

definition recall_lot_of :: "(ident \<Rightarrow> ident) \<Rightarrow> lot \<Rightarrow> recall_lot" where
  "recall_lot_of rowId l =
     \<lparr>rcl_id = rowId (l_id l), rcl_lotId = l_id l, rcl_quantityAtRecall = l_quantityRemaining l,
      rcl_quantityRecovered = 0, rcl_quantityDisposed = 0\<rparr>"

definition initiateRecall ::
  "bool \<Rightarrow> time \<Rightarrow> ident \<Rightarrow> (ident \<Rightarrow> ident) \<Rightarrow> auth_user \<Rightarrow> initiate_input \<Rightarrow> db \<Rightarrow> (db \<times> recall) result" where
  "initiateRecall dev now newId rowId actor d s =
     bindE (assertCoopAdmin actor) (\<lambda>_.
     if trim (ii_reason d) = [] then Inl (AppError 400 ''Recall reason is required'')
     else
     let lotIds = uniq (ii_lotIds d) in
     if lotIds = [] then Inl (AppError 400 ''At least one lotId is required'')
     else
     let lots = filter (\<lambda>l. l_id l \<in> set lotIds) (db_lots s) in
     if length lots \<noteq> length lotIds then Inl (AppError 404 ''One or more lots were not found'')
     else
     bindE (check_all recallable lots) (\<lambda>_.
     let products = lockProducts (map l_productId lots) s;
         locked = lockLots (map l_id lots) s;
         recall = \<lparr>rc_id = newId, rc_recallNumber = nextRecallNumber now s,
           rc_initiatedByUserId = au_id actor, rc_initiatedAt = now, rc_reason = trim (ii_reason d),
           rc_severity = ii_severity d, rc_status = RecallDRAFT,
           rc_publicNotice = trimmed (ii_publicNotice d), rc_regulatorNotifiedAt = None,
           rc_closedAt = None, rc_updatedAt = now, rc_lots = map (recall_lot_of rowId) lots,
           rc_notifications = []\<rparr>
     in
     bindE (if rc_recallNumber recall \<in> rc_recallNumber ` set (db_recalls s) then Inl UniqueViolation
            else create_row rc_id recall (db_recalls s)) (\<lambda>rs.
     bindE (forE lots (quarantine_one dev products locked) (s\<lparr>db_recalls := rs\<rparr>)) (\<lambda>s1.
     Inr (writeAuditLog (Some (au_id actor)) (case lots of [] \<Rightarrow> None | l # _ \<Rightarrow> Some (l_storeId l))
            ''RECALL_INITIATE'' ''Recall'' (Some newId) s1, recall)))))"

section \<open>Impact\<close>

record affected_member =
  am_memberId :: ident
  am_memberNumber :: string
  am_name :: string
  am_email :: string
  am_phone :: string
  am_quantityPurchased :: int
  am_saleIds :: "ident list"

record recall_impact =
  ri_recallId :: ident
  ri_recallNumber :: string
  ri_status :: recall_status
  ri_affectedMembers :: "affected_member list"
  ri_unitsSold :: int
  ri_unitsOnShelves :: int
  ri_storesInvolved :: "(ident \<times> string) list"
  ri_exposure :: decimal
  ri_saleIds :: "ident list"

record impact_acc =
  ia_members :: "affected_member list"
  ia_stores :: "(ident \<times> string) list"
  ia_saleIds :: "ident list"
  ia_unitsSold :: int
  ia_exposure :: decimal

text \<open>\<open>[...new Set([...xs, ...ys])]\<close> keeps first occurrences.\<close>

definition add_affected :: "trace_member \<Rightarrow> affected_member list \<Rightarrow> affected_member list" where
  "add_affected m ms =
     (if has_row am_memberId (tm_memberId m) ms
      then upd_row am_memberId (tm_memberId m)
             (\<lambda>r. r\<lparr>am_quantityPurchased := am_quantityPurchased r + tm_quantityPurchased m,
                    am_saleIds := uniq (am_saleIds r @ tm_saleIds m)\<rparr>) ms
      else ms @ [\<lparr>am_memberId = tm_memberId m, am_memberNumber = tm_memberNumber m, am_name = tm_name m,
                  am_email = tm_email m, am_phone = tm_phone m,
                  am_quantityPurchased = tm_quantityPurchased m, am_saleIds = tm_saleIds m\<rparr>])"

definition set_store :: "ident \<Rightarrow> string \<Rightarrow> (ident \<times> string) list \<Rightarrow> (ident \<times> string) list" where
  "set_store i n xs = (if i \<in> fst ` set xs then upd_row fst i (\<lambda>_. (i, n)) xs else xs @ [(i, n)])"

text \<open>One recalled lot of the loop. A lot row cannot be missing (foreign key).\<close>

definition impact_of_lot :: "auth_user \<Rightarrow> db \<Rightarrow> recall_lot \<Rightarrow> impact_acc \<Rightarrow> impact_acc result" where
  "impact_of_lot actor s rl acc =
     (case find_lot (rcl_lotId rl) s of
        None \<Rightarrow> Inl (JsError ''Inconsistent query result'')
      | Some l \<Rightarrow>
          bindE (traceForward actor (rcl_lotId rl) s) (\<lambda>forward.
          Inr \<lparr>ia_members = fold add_affected (ft_members forward) (ia_members acc),
               ia_stores = set_store (l_storeId l) (store_name (l_storeId l) s) (ia_stores acc),
               ia_saleIds = uniq (ia_saleIds acc @ map ts_saleId (ft_sales forward)),
               ia_unitsSold = ia_unitsSold acc + ft_quantitySold forward,
               ia_exposure = ia_exposure acc + l_unitCost l * of_int (max 0 (l_quantityRemaining l))
                 + sum_list (map (\<lambda>m. l_unitCost l * of_int (tm_quantityPurchased m)) (ft_members forward))\<rparr>))"

definition units_on_shelves :: "db \<Rightarrow> recall_lot list \<Rightarrow> int" where
  "units_on_shelves s rls =
     sum_list (map (\<lambda>rl. case find_lot (rcl_lotId rl) s of None \<Rightarrow> 0 | Some l \<Rightarrow> max 0 (l_quantityRemaining l)) rls)"

definition previewRecallImpact :: "auth_user \<Rightarrow> ident \<Rightarrow> db \<Rightarrow> recall_impact result" where
  "previewRecallImpact actor recallId s =
     (if au_role actor \<noteq> COOP_ADMIN \<and> au_role actor \<noteq> STORE_ADMIN then Inl (AppError 403 ''Insufficient role'')
      else case find_recall recallId s of
        None \<Rightarrow> Inl (AppError 404 ''Recall not found'')
      | Some recall \<Rightarrow>
          bindE (forE (rc_lots recall) (impact_of_lot actor s)
              \<lparr>ia_members = [], ia_stores = [], ia_saleIds = [], ia_unitsSold = 0, ia_exposure = 0\<rparr>) (\<lambda>acc.
          Inr \<lparr>ri_recallId = rc_id recall, ri_recallNumber = rc_recallNumber recall, ri_status = rc_status recall,
               ri_affectedMembers = sort_key am_memberNumber (ia_members acc),
               ri_unitsSold = ia_unitsSold acc, ri_unitsOnShelves = units_on_shelves s (rc_lots recall),
               ri_storesInvolved = ia_stores acc, ri_exposure = moneyDec (ia_exposure acc),
               ri_saleIds = ia_saleIds acc\<rparr>))"

section \<open>Activating\<close>

text \<open>One recalled lot: its units are gone, and written off if there were any.\<close>

definition deplete_one ::
  "bool \<Rightarrow> product list \<Rightarrow> lot list \<Rightarrow> lot \<Rightarrow> db \<times> int \<Rightarrow> (db \<times> int) result" where
  "deplete_one dev products locked lot acc =
     (let (s, written) = acc in
      case (find_row p_id (l_productId lot) products, find_row l_id (l_id lot) locked) of
        (Some product, Some lockedLot) \<Rightarrow>
          bindE (recallDepleteLot dev product lockedLot s) (\<lambda>(s1, remaining).
          Inr (if remaining > 0
            then (s1\<lparr>db_writeOffs := db_writeOffs s1 @
                    [\<lparr>w_storeId = l_storeId lot, w_productId = l_productId lot, w_lotId = Some (l_id lot),
                      w_saleId = None, w_saleItemId = None, w_saleRefundId = None, w_quantity = remaining,
                      w_reason = ''RECALL'', w_unitCost = None, w_value = None\<rparr>]\<rparr>, written + remaining)
            else (s1, written)))
      | _ \<Rightarrow> Inl (AppError 500 ''Missing locked product/lot at recall activate''))"

definition recalled_lots :: "recall \<Rightarrow> db \<Rightarrow> lot list" where
  "recalled_lots recall s = concat (map (\<lambda>rl. filter (\<lambda>l. l_id l = rcl_lotId rl) (db_lots s)) (rc_lots recall))"

definition CHANNELS :: "notification_channel list" where
  "CHANNELS = [EMAIL, SMS, WHATSAPP]"

definition new_notifications ::
  "(ident \<Rightarrow> notification_channel \<Rightarrow> ident) \<Rightarrow> affected_member list \<Rightarrow> recall_notification list" where
  "new_notifications rowId ms =
     concat (map (\<lambda>m. map (\<lambda>c. \<lparr>rn_id = rowId (am_memberId m) c, rn_memberId = am_memberId m, rn_channel = c,
        rn_sentAt = None, rn_acknowledgedAt = None, rn_quantityPurchased = am_quantityPurchased m\<rparr>) CHANNELS) ms)"

record activate_result =
  at_recall :: recall
  at_notificationsCreated :: nat
  at_unitsWrittenOff :: int

text \<open>
  A second notification for the same member and channel would violate the unique key of the table.
\<close>

definition notify_key :: "recall_notification \<Rightarrow> ident \<times> notification_channel" where
  "notify_key n = (rn_memberId n, rn_channel n)"

definition activated_recall :: "time \<Rightarrow> string option \<Rightarrow> recall_notification list \<Rightarrow> recall \<Rightarrow> recall" where
  "activated_recall now publicNotice notes r =
     r\<lparr>rc_status := RecallACTIVE,
       rc_publicNotice := (case trimmed publicNotice of
                             None \<Rightarrow> (if truthy (rc_publicNotice r) then rc_publicNotice r else None)
                           | Some n \<Rightarrow> Some n),
       rc_updatedAt := now, rc_notifications := rc_notifications r @ notes\<rparr>"

definition activate_tx ::
  "bool \<Rightarrow> time \<Rightarrow> (ident \<Rightarrow> notification_channel \<Rightarrow> ident) \<Rightarrow> auth_user \<Rightarrow> ident \<Rightarrow> string option
     \<Rightarrow> recall_impact \<Rightarrow> db \<Rightarrow> (db \<times> activate_result) result" where
  "activate_tx dev now rowId actor recallId publicNotice impact s =
     (case find_recall recallId s of
        None \<Rightarrow> Inl (AppError 404 ''Recall not found'')
      | Some recall \<Rightarrow>
          if rc_status recall \<noteq> RecallDRAFT then Inl (AppError 409 ''Only DRAFT recalls can be activated'')
          else
            let lots = recalled_lots recall s;
                products = lockProducts (map l_productId lots) s;
                locked = lockLots (map rcl_lotId (rc_lots recall)) s;
                notes = new_notifications rowId (ri_affectedMembers impact);
                f = activated_recall now publicNotice notes
            in
            bindE (forE lots (deplete_one dev products locked) (s, 0)) (\<lambda>(s1, unitsWrittenOff).
            if \<not> distinct (map notify_key (rc_notifications recall @ notes)) then Inl UniqueViolation
            else
            bindE (recall_update recallId f s1) (\<lambda>s2.
            Inr (writeAuditLog (Some (au_id actor)) None ''RECALL_ACTIVATE'' ''Recall'' (Some recallId) s2,
                 \<lparr>at_recall = f recall, at_notificationsCreated = length notes,
                  at_unitsWrittenOff = unitsWrittenOff\<rparr>))))"

definition activateRecall ::
  "bool \<Rightarrow> time \<Rightarrow> (ident \<Rightarrow> notification_channel \<Rightarrow> ident) \<Rightarrow> auth_user \<Rightarrow> ident \<Rightarrow> string option
     \<Rightarrow> db \<Rightarrow> db \<Rightarrow> (db \<times> activate_result) result" where
  "activateRecall dev now rowId actor recallId publicNotice s0 s =
     bindE (assertCoopAdmin actor) (\<lambda>_.
     bindE (previewRecallImpact actor recallId s0) (\<lambda>impact.
     activate_tx dev now rowId actor recallId publicNotice impact s))"

section \<open>Notifying\<close>

text \<open>\<open>mail\<close> is the configured SMTP transport (\<open>None\<close>: the message is only logged); it may throw.\<close>

type_synonym mailer = "(string \<Rightarrow> unit result) option"

definition dispatchEmail :: "mailer \<Rightarrow> string \<Rightarrow> string result" where
  "dispatchEmail mail to =
     (case mail of None \<Rightarrow> Inr ''logged'' | Some send \<Rightarrow> bindE (send to) (\<lambda>_. Inr ''smtp''))"

definition dispatch_mode :: "mailer \<Rightarrow> recall_notification \<Rightarrow> member \<Rightarrow> string result" where
  "dispatch_mode mail n m =
     (case rn_channel n of
        EMAIL \<Rightarrow> if m_email m \<noteq> [] then dispatchEmail mail (m_email m) else Inr ''no_email''
      | SMS \<Rightarrow> Inr (if m_phone m \<noteq> [] then ''sms_logged'' else ''no_phone'')
      | WHATSAPP \<Rightarrow> Inr (if m_phone m \<noteq> [] then ''whatsapp_logged'' else ''no_phone''))"

fun bump_mode :: "string \<Rightarrow> (string \<times> nat) list \<Rightarrow> (string \<times> nat) list" where
  "bump_mode m [] = [(m, 1)]"
| "bump_mode m ((k, n) # xs) = (if k = m then (k, n + 1) # xs else (k, n) # bump_mode m xs)"

definition mark_sent :: "time \<Rightarrow> ident \<Rightarrow> recall \<Rightarrow> recall" where
  "mark_sent now i r = r\<lparr>rc_notifications := upd_row rn_id i (\<lambda>n. n\<lparr>rn_sentAt := Some now\<rparr>) (rc_notifications r)\<rparr>"

record dispatch_report =
  dr_sent :: nat
  dr_modes :: "(string \<times> nat) list"

text \<open>Each row is its own update: a failing mail server ends the loop, rows already sent stay marked.\<close>

fun dispatch_rows ::
  "time \<Rightarrow> mailer \<Rightarrow> ident \<Rightarrow> recall_notification list \<Rightarrow> db \<Rightarrow> dispatch_report \<Rightarrow> db \<times> dispatch_report result" where
  "dispatch_rows now mail recallId [] s r = (s, Inr r)"
| "dispatch_rows now mail recallId (n # ns) s r =
     (case find_row m_id (rn_memberId n) (db_members s) of
        None \<Rightarrow> (s, Inl (JsError ''Inconsistent query result''))
      | Some m \<Rightarrow>
          (case dispatch_mode mail n m of
             Inl e \<Rightarrow> (s, Inl e)
           | Inr mode \<Rightarrow>
               let r' = r\<lparr>dr_modes := bump_mode mode (dr_modes r)\<rparr> in
               if starts_with ''no_'' mode then dispatch_rows now mail recallId ns s r'
               else (case recall_update recallId (mark_sent now (rn_id n)) s of
                       Inl e \<Rightarrow> (s, Inl e)
                     | Inr s1 \<Rightarrow> dispatch_rows now mail recallId ns s1 (r'\<lparr>dr_sent := dr_sent r + 1\<rparr>))))"

definition dispatchRecallNotifications ::
  "time \<Rightarrow> mailer \<Rightarrow> auth_user \<Rightarrow> ident \<Rightarrow> db \<Rightarrow> db \<times> dispatch_report result" where
  "dispatchRecallNotifications now mail actor recallId s =
     (case assertCoopAdmin actor of
        Inl e \<Rightarrow> (s, Inl e)
      | Inr _ \<Rightarrow>
          (case find_recall recallId s of
             None \<Rightarrow> (s, Inl (AppError 404 ''Recall not found''))
           | Some recall \<Rightarrow>
               if rc_status recall \<noteq> RecallACTIVE
               then (s, Inl (AppError 409 ''Notifications only dispatch for ACTIVE recalls''))
               else
                 (case dispatch_rows now mail recallId (filter (\<lambda>n. rn_sentAt n = None) (rc_notifications recall)) s
                         \<lparr>dr_sent = 0, dr_modes = []\<rparr> of
                    (s1, Inl e) \<Rightarrow> (s1, Inl e)
                  | (s1, Inr r) \<Rightarrow>
                      (writeAuditLog (Some (au_id actor)) None ''RECALL_NOTIFY'' ''Recall'' (Some recallId) s1, Inr r))))"

definition acknowledgeNotification :: "time \<Rightarrow> auth_user \<Rightarrow> ident \<Rightarrow> db \<Rightarrow> db result" where
  "acknowledgeNotification now actor i s =
     bindE (assertCoopAdmin actor) (\<lambda>_.
     if \<not> (\<exists>r \<in> set (db_recalls s). has_row rn_id i (rc_notifications r))
     then Inl (AppError 404 ''Notification not found'')
     else Inr (s\<lparr>db_recalls := map (\<lambda>r. r\<lparr>rc_notifications :=
            upd_row rn_id i (\<lambda>n. n\<lparr>rn_acknowledgedAt := Some now\<rparr>) (rc_notifications r)\<rparr>) (db_recalls s)\<rparr>))"

section \<open>Recovery and disposal\<close>

definition recall_of_row :: "ident \<Rightarrow> db \<Rightarrow> recall option" where
  "recall_of_row i s = List.find (\<lambda>r. has_row rcl_id i (rc_lots r)) (db_recalls s)"

definition recall_lot_update :: "ident \<Rightarrow> (recall_lot \<Rightarrow> recall_lot) \<Rightarrow> db \<Rightarrow> db result" where
  "recall_lot_update i f s =
     (if recall_of_row i s = None then Inl RecordNotFound
      else Inr (s\<lparr>db_recalls := map (\<lambda>r. r\<lparr>rc_lots := upd_row rcl_id i f (rc_lots r)\<rparr>) (db_recalls s)\<rparr>))"

definition record_units ::
  "string \<Rightarrow> string \<Rightarrow> (int \<Rightarrow> recall_lot \<Rightarrow> recall_lot) \<Rightarrow> auth_user \<Rightarrow> ident \<Rightarrow> js_number \<Rightarrow> db \<Rightarrow> db \<Rightarrow> db result" where
  "record_units refusal action add actor i quantity s0 s =
     bindE (assertCoopAdmin actor) (\<lambda>_.
     case js_int quantity of
       None \<Rightarrow> Inl (AppError 400 ''quantity must be a positive integer'')
     | Some q \<Rightarrow>
         if q \<le> 0 then Inl (AppError 400 ''quantity must be a positive integer'')
         else case recall_of_row i s0 of
           None \<Rightarrow> Inl (AppError 404 ''RecallLot not found'')
         | Some recall \<Rightarrow>
             if rc_status recall \<noteq> RecallACTIVE then Inl (AppError 409 refusal)
             else bindE (recall_lot_update i (add q) s) (\<lambda>s1.
                  Inr (writeAuditLog (Some (au_id actor)) None action ''RecallLot'' (Some i) s1)))"

definition recordRecovery :: "auth_user \<Rightarrow> ident \<Rightarrow> js_number \<Rightarrow> db \<Rightarrow> db \<Rightarrow> db result" where
  "recordRecovery =
     record_units ''Recovery only allowed on ACTIVE recalls'' ''RECALL_RECOVERY''
       (\<lambda>q rl. rl\<lparr>rcl_quantityRecovered := rcl_quantityRecovered rl + q\<rparr>)"

definition recordDisposal :: "auth_user \<Rightarrow> ident \<Rightarrow> js_number \<Rightarrow> db \<Rightarrow> db \<Rightarrow> db result" where
  "recordDisposal =
     record_units ''Disposal only allowed on ACTIVE recalls'' ''RECALL_DISPOSAL''
       (\<lambda>q rl. rl\<lparr>rcl_quantityDisposed := rcl_quantityDisposed rl + q\<rparr>)"

section \<open>Refunding the purchases\<close>

text \<open>
  What \<open>refundSale\<close> needs for one sale: the decimal operations, Stripe, and the refund's new id.
  Each refund commits on its own.
\<close>

record recall_refunds =
  rr_refundedSaleIds :: "ident list"
  rr_errors :: "(ident \<times> error) list"

definition refund_recalled_one ::
  "decimal_ops \<Rightarrow> bool \<Rightarrow> time \<Rightarrow> refund_stripe \<Rightarrow> (ident \<Rightarrow> ident) \<Rightarrow> auth_user \<Rightarrow> ident
     \<Rightarrow> db \<times> recall_refunds \<Rightarrow> db \<times> recall_refunds" where
  "refund_recalled_one ops dev now st newId actor saleId acc =
     (let (s, r) = acc in
      case find_sale saleId s of
        None \<Rightarrow> (s, r)
      | Some x \<Rightarrow>
          if s_paymentStatus x = PayREFUNDED
          then (s, r\<lparr>rr_refundedSaleIds := rr_refundedSaleIds r @ [saleId]\<rparr>)
          else
            (case refundSale ops dev now st (newId saleId) saleId (s_storeId x)
                    \<lparr>rf_items = None, rf_restock = False, rf_createdByUserId = Some (au_id actor)\<rparr> s of
               (s1, Inr _) \<Rightarrow> (s1, r\<lparr>rr_refundedSaleIds := rr_refundedSaleIds r @ [saleId]\<rparr>)
             | (s1, Inl e) \<Rightarrow> (s1, r\<lparr>rr_errors := rr_errors r @ [(saleId, e)]\<rparr>)))"

definition refundRecalledPurchases ::
  "decimal_ops \<Rightarrow> bool \<Rightarrow> time \<Rightarrow> refund_stripe \<Rightarrow> (ident \<Rightarrow> ident) \<Rightarrow> auth_user \<Rightarrow> ident \<Rightarrow> db
     \<Rightarrow> db \<times> recall_refunds result" where
  "refundRecalledPurchases ops dev now st newId actor recallId s =
     (case bindE (assertCoopAdmin actor) (\<lambda>_. previewRecallImpact actor recallId s) of
        Inl e \<Rightarrow> (s, Inl e)
      | Inr impact \<Rightarrow>
          (case find_recall recallId s of
             None \<Rightarrow> (s, Inl (AppError 404 ''Recall not found''))
           | Some recall \<Rightarrow>
               if rc_status recall \<noteq> RecallACTIVE then (s, Inl (AppError 409 ''Refunds only for ACTIVE recalls''))
               else
                 (let (s1, r) = foldl (\<lambda>acc i. refund_recalled_one ops dev now st newId actor i acc)
                        (s, \<lparr>rr_refundedSaleIds = [], rr_errors = []\<rparr>) (ri_saleIds impact)
                  in (s1, Inr r))))"

section \<open>Closing and cancelling\<close>

record close_report =
  cr_recallId :: ident
  cr_recallNumber :: string
  cr_initiatedAt :: time
  cr_activatedAt :: time
  cr_regulatorNotifiedAt :: "time option"
  cr_closedAt :: time
  cr_membersNotified :: nat
  cr_notificationsSent :: nat
  cr_acknowledgements :: nat
  cr_acknowledgementRate :: decimal
  cr_unitsSold :: int
  cr_unitsRecovered :: int
  cr_unitsDisposed :: int
  cr_unitsWrittenOffAtActivate :: int
  cr_disposalRecords :: "(ident \<times> ident \<times> int \<times> int) list"

text \<open>The rate is a percentage with one decimal; the binary rounding of the division is not modelled.\<close>

definition acknowledgement_rate :: "recall_notification list \<Rightarrow> decimal" where
  "acknowledgement_rate ns =
     (let members = card (set (map rn_memberId ns));
          acked = card (set (map rn_memberId (filter (\<lambda>n. rn_acknowledgedAt n \<noteq> None) ns)))
      in if members = 0 then 0 else toDecimalPlaces 1 (of_nat acked / of_nat members * 100))"

definition recall_write_offs :: "recall \<Rightarrow> db \<Rightarrow> int" where
  "recall_write_offs recall s =
     sum_list (map w_quantity (filter (\<lambda>w. w_reason w = ''RECALL''
        \<and> (case w_lotId w of None \<Rightarrow> False | Some i \<Rightarrow> i \<in> rcl_lotId ` set (rc_lots recall))) (db_writeOffs s)))"

definition close_report_of :: "time \<Rightarrow> time option \<Rightarrow> recall \<Rightarrow> recall_impact \<Rightarrow> db \<Rightarrow> close_report" where
  "close_report_of now regulatorNotifiedAt recall impact s =
     \<lparr>cr_recallId = rc_id recall, cr_recallNumber = rc_recallNumber recall,
      cr_initiatedAt = rc_initiatedAt recall, cr_activatedAt = rc_updatedAt recall,
      cr_regulatorNotifiedAt = (case regulatorNotifiedAt of None \<Rightarrow> rc_regulatorNotifiedAt recall | Some t \<Rightarrow> Some t),
      cr_closedAt = now,
      cr_membersNotified = card (set (map rn_memberId (rc_notifications recall))),
      cr_notificationsSent = length (filter (\<lambda>n. rn_sentAt n \<noteq> None) (rc_notifications recall)),
      cr_acknowledgements = length (filter (\<lambda>n. rn_acknowledgedAt n \<noteq> None) (rc_notifications recall)),
      cr_acknowledgementRate = acknowledgement_rate (rc_notifications recall),
      cr_unitsSold = ri_unitsSold impact,
      cr_unitsRecovered = sum_list (map rcl_quantityRecovered (rc_lots recall)),
      cr_unitsDisposed = sum_list (map rcl_quantityDisposed (rc_lots recall)),
      cr_unitsWrittenOffAtActivate = recall_write_offs recall s,
      cr_disposalRecords = map (\<lambda>rl. (rcl_id rl, rcl_lotId rl, rcl_quantityDisposed rl, rcl_quantityRecovered rl)) (rc_lots recall)\<rparr>"

definition closeRecall ::
  "time \<Rightarrow> time option \<Rightarrow> auth_user \<Rightarrow> ident \<Rightarrow> db \<Rightarrow> db \<Rightarrow> (db \<times> close_report) result" where
  "closeRecall now regulatorNotifiedAt actor recallId s0 s =
     bindE (assertCoopAdmin actor) (\<lambda>_.
     case find_recall recallId s0 of
       None \<Rightarrow> Inl (AppError 404 ''Recall not found'')
     | Some recall \<Rightarrow>
         if rc_status recall \<noteq> RecallACTIVE then Inl (AppError 409 ''Only ACTIVE recalls can be closed'')
         else
           bindE (previewRecallImpact actor recallId s0) (\<lambda>impact.
           let report = close_report_of now regulatorNotifiedAt recall impact s0 in
           bindE (recall_update recallId (\<lambda>r. r\<lparr>rc_status := RecallCOMPLETED, rc_closedAt := Some now,
                    rc_regulatorNotifiedAt := cr_regulatorNotifiedAt report, rc_updatedAt := now\<rparr>) s) (\<lambda>s1.
           Inr (writeAuditLog (Some (au_id actor)) None ''RECALL_CLOSE'' ''Recall'' (Some recallId) s1, report))))"

text \<open>
  \<open>cancelRecall\<close>: which recall and which lots is decided on the first read; the transaction works on
  the rows it locks but does not look at the recall's status again.
\<close>

definition return_one :: "bool \<Rightarrow> product list \<Rightarrow> lot list \<Rightarrow> lot \<Rightarrow> db \<Rightarrow> db result" where
  "return_one dev products locked lot s =
     (case (find_row p_id (l_productId lot) products, find_row l_id (l_id lot) locked) of
        (Some product, Some lockedLot) \<Rightarrow> returnToSellableRollup dev product lockedLot s
      | _ \<Rightarrow> Inl (AppError 500 ''Missing locked product/lot at recall cancel''))"

definition cancelRecall ::
  "bool \<Rightarrow> time \<Rightarrow> auth_user \<Rightarrow> ident \<Rightarrow> db \<Rightarrow> db \<Rightarrow> (db \<times> recall) result" where
  "cancelRecall dev now actor recallId s0 s =
     bindE (assertCoopAdmin actor) (\<lambda>_.
     case find_recall recallId s0 of
       None \<Rightarrow> Inl (AppError 404 ''Recall not found'')
     | Some recall \<Rightarrow>
         if rc_status recall \<noteq> RecallDRAFT
         then Inl (AppError 409 ''Only DRAFT recalls can be cancelled (ACTIVE must be closed)'')
         else
           let restoring = filter (\<lambda>l. l_status l = LotQUARANTINED) (recalled_lots recall s0);
               products = lockProducts (map l_productId restoring) s;
               locked = lockLots (map l_id restoring) s
           in
           bindE (forE restoring (return_one dev products locked) s) (\<lambda>s1.
           bindE (recall_update recallId (\<lambda>r. r\<lparr>rc_status := RecallCANCELLED, rc_closedAt := Some now,
                    rc_updatedAt := now\<rparr>) s1) (\<lambda>s2.
           let s3 = writeAuditLog (Some (au_id actor)) None ''RECALL_CANCEL'' ''Recall'' (Some recallId) s2
           in case find_recall recallId s3 of
                None \<Rightarrow> Inl RecordNotFound
              | Some r \<Rightarrow> Inr (s3, r))))"

section \<open>Lists\<close>

definition listRecalls :: "auth_user \<Rightarrow> db \<Rightarrow> recall list result" where
  "listRecalls actor s =
     bindE (assertCoopAdmin actor) (\<lambda>_. Inr (sort_key (\<lambda>r. - rc_initiatedAt r) (db_recalls s)))"

definition getRecall :: "auth_user \<Rightarrow> ident \<Rightarrow> db \<Rightarrow> recall result" where
  "getRecall actor recallId s =
     (if au_role actor \<noteq> COOP_ADMIN \<and> au_role actor \<noteq> STORE_ADMIN then Inl (AppError 403 ''Insufficient role'')
      else case find_recall recallId s of
        None \<Rightarrow> Inl (AppError 404 ''Recall not found'')
      | Some r \<Rightarrow> Inr r)"

record store_banner =
  sb_recallId :: ident
  sb_recallNumber :: string
  sb_status :: recall_status
  sb_severity :: recall_severity
  sb_reason :: string
  sb_lotNumbers :: "string list"

definition banner_of :: "db \<Rightarrow> ident \<Rightarrow> recall \<Rightarrow> store_banner list" where
  "banner_of s storeId r =
     (let numbers = map l_lotNumber (filter (\<lambda>l. l_storeId l = storeId) (recalled_lots r s)) in
      if numbers = [] then []
      else [\<lparr>sb_recallId = rc_id r, sb_recallNumber = rc_recallNumber r, sb_status = rc_status r,
             sb_severity = rc_severity r, sb_reason = rc_reason r, sb_lotNumbers = uniq numbers\<rparr>])"

definition listActiveRecallsForStore :: "auth_user \<Rightarrow> ident \<Rightarrow> db \<Rightarrow> store_banner list result" where
  "listActiveRecallsForStore actor storeId s =
     (if (au_role actor = STORE_ADMIN \<or> au_role actor = CASHIER) \<and> au_storeScope actor \<noteq> Some storeId
      then Inl (AppError 403 ''Cannot access another store's data'')
      else if au_role actor \<noteq> STORE_ADMIN \<and> au_role actor \<noteq> CASHIER \<and> au_role actor \<noteq> COOP_ADMIN
      then Inl (AppError 403 ''Insufficient role'')
      else Inr (concat (map (banner_of s storeId)
        (filter (\<lambda>r. rc_status r = RecallDRAFT \<or> rc_status r = RecallACTIVE) (db_recalls s)))))"

end
