(* ===== verification/Recall_Proofs.thy ===== *)
theory Recall_Proofs
  imports Recall Lot_Ops Examples
begin

text \<open>
  What a recall does to the stock: drafting one stops every named lot from being sold at once,
  activating it makes the units disappear from stock and accounts for each of them, cancelling it
  undoes the draft. The last part shows what goes wrong when two recalls share a lot or when a
  cancellation races with an activation.
\<close>

section \<open>Loops over the lots of a recall\<close>

lemma forE_map: "forE (map g xs) f s = forE xs (\<lambda>x. f (g x)) s"
  by (induction xs arbitrary: s) (auto simp: bindE_def split: sum.splits)

lemma forE_cong:
  "(\<And>x s. x \<in> set xs \<Longrightarrow> f x s = g x s) \<Longrightarrow> forE xs f s = forE xs g s"
  by (induction xs arbitrary: s) (auto simp: bindE_def split: sum.splits)

lemma forE_filter:
  "(\<And>x s. x \<in> set xs \<Longrightarrow> \<not> P x \<Longrightarrow> f x s = Inr s) \<Longrightarrow> forE xs f s = forE (filter P xs) f s"
proof (induction xs arbitrary: s)
  case (Cons x xs)
  have "f x s = Inr s" if "\<not> P x" using Cons.prems that by simp
  moreover have "forE xs f t = forE (filter P xs) f t" for t using Cons by simp
  ultimately show ?case by (cases "P x") (auto simp: bindE_def split: sum.splits)
qed simp

lemma forE_noop: "(\<And>x. x \<in> set xs \<Longrightarrow> f x s = Inr s) \<Longrightarrow> forE xs f s = Inr s"
  by (induction xs) simp_all

lemma concat_nothing [simp]: "concat (map (\<lambda>x. []) xs) = []"
  by (induction xs) simp_all

lemma check_all_iff: "check_all f xs = Inr () \<longleftrightarrow> (\<forall>x \<in> set xs. f x = Inr ())"
  by (induction xs) (auto simp: bindE_def split: sum.splits)

text \<open>The locked rows of some lots: each lot itself, and its product.\<close>

lemma locked_rows:
  assumes s: "sys_inv s" "lots_placed s" and ls: "set ls \<subseteq> set (db_lots s)" "set ids = l_id ` set ls" and l: "l \<in> set ls"
  shows "find_row l_id (l_id l) (lockLots ids s) = Some l"
    and "\<exists>p. find_row p_id (l_productId l) (lockProducts (map l_productId ls) s) = Some p
          \<and> p \<in> set (db_products s) \<and> p_id p = l_productId l"
proof -
  have ll: "l \<in> set (db_lots s)" using ls l by auto
  have "l \<in> set (lockLots ids s)" using ll l ls(2) sys_invD(6) [OF s(1) ll] by (auto simp: set_lockLots)
  then show "find_row l_id (l_id l) (lockLots ids s) = Some l"
    using distinct_lockLots [OF sys_invD(7) [OF s(1)], of ids] by (simp add: find_row_eq_Some_iff)
  obtain p :: product where p: "p \<in> set (db_products s)" "p_id p = l_productId l" "p_id p \<noteq> []"
    using placed_product [OF s(2) ll] by metis
  then have "p \<in> set (lockProducts (map l_productId ls) s)" using l by (auto simp: set_lockProducts)
  then have "find_row p_id (l_productId l) (lockProducts (map l_productId ls) s) = Some p"
    using distinct_lockProducts [OF sys_invD(8) [OF s(1)], of "map l_productId ls"] p(2)
    by (simp add: find_row_eq_Some_iff)
  then show "\<exists>p. find_row p_id (l_productId l) (lockProducts (map l_productId ls) s) = Some p
          \<and> p \<in> set (db_products s) \<and> p_id p = l_productId l" using p by blast
qed

lemma key_in_subset:
  assumes "distinct (map key xs)" "set ys \<subseteq> set xs" "x \<in> set xs"
  shows "key x \<in> key ` set ys \<longleftrightarrow> x \<in> set ys"
proof
  assume "key x \<in> key ` set ys"
  then obtain y where "y \<in> set ys" "key y = key x" by force
  then show "x \<in> set ys" using assms by (auto simp: distinct_map dest: inj_onD)
qed simp

lemma distinct_filter_ids: "distinct (map l_id xs) \<Longrightarrow> distinct (map l_id (filter P xs))"
  by (simp add: distinct_map_filter)

lemma frame_lots_placed:
  "lots_placed s \<Longrightarrow> map product_key ps = map product_key (db_products s) \<Longrightarrow>
   (\<And>l. lot_key (f l) = lot_key l) \<Longrightarrow> db_products t = ps \<Longrightarrow> db_lots t = map f (db_lots s) \<Longrightarrow> lots_placed t"
proof -
  assume a: "lots_placed s" "map product_key ps = map product_key (db_products s)"
    "\<And>l. lot_key (f l) = lot_key l" "db_products t = ps" "db_lots t = map f (db_lots s)"
  have "stock_frame s (s\<lparr>db_products := ps, db_lots := map f (db_lots s)\<rparr>)"
    unfolding stock_frame_def using a by (intro exI [of _ ps] exI [of _ "map f (db_lots s)"]) (simp add: comp_def)
  then have "lots_placed (s\<lparr>db_products := ps, db_lots := map f (db_lots s)\<rparr>)" using a(1) lots_placed_frame by blast
  then show ?thesis using lots_placed_cong [of t "s\<lparr>db_products := ps, db_lots := map f (db_lots s)\<rparr>"] a by simp
qed

section \<open>Initiating\<close>

lemma quarantine_loop:
  assumes s: "sys_inv s" "lots_placed s" and ls: "set ls \<subseteq> set (db_lots s)" "distinct (map l_id ls)"
    and free: "\<forall>l \<in> set ls. l_quantityReserved l = 0"
  shows "\<exists>ps. forE ls (quarantine_one dev (lockProducts (map l_productId ls) s) (lockLots (map l_id ls) s)) s
      = Inr (s\<lparr>db_products := ps, db_lots := map (\<lambda>l. if l_id l \<in> l_id ` set (filter (\<lambda>l. l_status l = LotACTIVE) ls)
               then l\<lparr>l_status := LotQUARANTINED\<rparr> else l) (db_lots s)\<rparr>)
    \<and> map product_key ps = map product_key (db_products s)
    \<and> sys_inv (s\<lparr>db_products := ps, db_lots := map (\<lambda>l. if l_id l \<in> l_id ` set (filter (\<lambda>l. l_status l = LotACTIVE) ls)
               then l\<lparr>l_status := LotQUARANTINED\<rparr> else l) (db_lots s)\<rparr>)"
proof -
  let ?prods = "lockProducts (map l_productId ls) s" and ?locked = "lockLots (map l_id ls) s"
  let ?act = "filter (\<lambda>l. l_status l = LotACTIVE) ls"
  define pr where "pr l = the (find_row p_id (l_productId l) ?prods)" for l :: lot
  have rows: "find_row l_id (l_id l) ?locked = Some l" "find_row p_id (l_productId l) ?prods = Some (pr l)"
      "pr l \<in> set (db_products s)" "p_id (pr l) = l_productId l" if "l \<in> set ls" for l
    using locked_rows [OF s ls(1) _ that, of "map l_id ls"] by (auto simp: pr_def)
  have has: "l_productId l \<in> p_id ` set (db_products s)" if "l \<in> set ls" for l
    using rows(3,4) [OF that] by (metis image_eqI)
  have "forE ls (quarantine_one dev ?prods ?locked) u = forE ?act (quarantine_one dev ?prods ?locked) u" for u
    by (rule forE_filter) (simp add: quarantine_one_def)
  moreover have "forE ?act (quarantine_one dev ?prods ?locked) u
      = forE (map (\<lambda>l. (pr l, l)) ?act) (leave.body dev LotQUARANTINED (\<lambda>_ _. [])) u" for u
    unfolding forE_map
    by (rule forE_cong) (auto simp: quarantine_one_def leave.body_def rows bindE_def split: sum.splits)
  moreover have "\<exists>ps. forE (map (\<lambda>l. (pr l, l)) ?act) (leave.body dev LotQUARANTINED (\<lambda>_ _. [])) s
      = Inr (s\<lparr>db_products := ps, db_lots := map (\<lambda>l. if l_id l \<in> l_id ` set ?act
               then l\<lparr>l_status := LotQUARANTINED\<rparr> else l) (db_lots s), db_writeOffs := db_writeOffs s @ []\<rparr>)
    \<and> map product_key ps = map product_key (db_products s)
    \<and> sys_inv (s\<lparr>db_products := ps, db_lots := map (\<lambda>l. if l_id l \<in> l_id ` set ?act
               then l\<lparr>l_status := LotQUARANTINED\<rparr> else l) (db_lots s), db_writeOffs := db_writeOffs s @ []\<rparr>)"
  proof -
    have d: "distinct (map (l_id \<circ> snd) (map (\<lambda>l. (pr l, l)) ?act))"
      using distinct_filter_ids [OF ls(2)] by (simp add: comp_def)
    have "\<forall>(p, l) \<in> set (map (\<lambda>l. (pr l, l)) ?act). l \<in> set (db_lots s)
        \<and> (l_quantityReserved l = 0 \<and> LotQUARANTINED \<noteq> LotACTIVE \<and> LotQUARANTINED \<noteq> LotDEPLETED)
        \<and> l_productId l = p_id p \<and> p_id p \<in> p_id ` set (db_products s)"
      using rows ls(1) free has by auto
    from leave.loop_ok [OF s(1) d this, of dev "\<lambda>_ _. []"] show ?thesis
      by (simp add: image_image comp_def)
  qed
  ultimately show ?thesis by simp
qed

lemma initiateRecall_ok:
  assumes s: "sys_inv s" "lots_placed s" and who: "au_role actor = COOP_ADMIN" and why: "trim (ii_reason d) \<noteq> []"
    and ids: "ii_lotIds d \<noteq> []" "\<forall>i \<in> set (ii_lotIds d). \<exists>l. find_lot i s = Some l \<and> recallable l = Inr ()"
    and fresh: "newId \<notin> rc_id ` set (db_recalls s)" "nextRecallNumber now s \<notin> rc_recallNumber ` set (db_recalls s)"
  shows "\<exists>t r. initiateRecall dev now newId rowId actor d s = Inr (t, r) \<and> sys_inv t \<and> lots_placed t
    \<and> find_recall newId t = Some r \<and> rc_status r = RecallDRAFT
    \<and> map product_key (db_products t) = map product_key (db_products s)
    \<and> db_lots t = map (\<lambda>l. if l_id l \<in> set (ii_lotIds d) then l\<lparr>l_status := LotQUARANTINED\<rparr> else l) (db_lots s)
    \<and> map (\<lambda>rl. (rcl_lotId rl, rcl_quantityAtRecall rl)) (rc_lots r)
        = map (\<lambda>l. (l_id l, l_quantityRemaining l)) (filter (\<lambda>l. l_id l \<in> set (ii_lotIds d)) (db_lots s))"
proof -
  define ls where "ls = filter (\<lambda>l. l_id l \<in> set (uniq (ii_lotIds d))) (db_lots s)"
  have dl: "distinct (map l_id (db_lots s))" using sys_invD(7) [OF s(1)] .
  have found: "find_lot (l_id l) s = Some l" if "l \<in> set (db_lots s)" for l
    using that dl by (simp add: find_lot_def find_row_eq_Some_iff)
  have ok: "recallable l = Inr ()" if "l \<in> set ls" for l
    using that ids(2) found [of l] by (auto simp: ls_def)
  have free: "l_quantityReserved l = 0" "l_status l = LotACTIVE \<or> l_status l = LotQUARANTINED" if "l \<in> set ls" for l
  proof -
    have "lot_ok l" using that lot_inv_row [OF sys_invD(1) [OF s(1)]] by (simp add: ls_def)
    then show "l_quantityReserved l = 0" "l_status l = LotACTIVE \<or> l_status l = LotQUARANTINED"
      using ok [OF that] by (auto simp: recallable_def lot_ok_def split: if_splits)
  qed
  have lsd: "distinct (map l_id ls)" "set ls \<subseteq> set (db_lots s)"
    using distinct_filter_ids [OF dl] by (auto simp: ls_def)
  have idset: "l_id ` set ls = set (ii_lotIds d)"
  proof
    show "set (ii_lotIds d) \<subseteq> l_id ` set ls"
    proof
      fix i assume "i \<in> set (ii_lotIds d)"
      moreover then obtain l where "find_lot i s = Some l" using ids(2) by blast
      then have "l \<in> set (db_lots s)" "l_id l = i" using find_row_SomeD [of l_id i "db_lots s" l] by (simp_all add: find_lot_def)
      ultimately show "i \<in> l_id ` set ls" by (auto simp: ls_def)
    qed
  qed (auto simp: ls_def)
  have len: "length ls = length (uniq (ii_lotIds d))"
  proof -
    have "length ls = card (l_id ` set ls)" using lsd(1) by (metis distinct_card length_map list.set_map)
    then show ?thesis using idset distinct_card [of "uniq (ii_lotIds d)"] by simp
  qed
  define r where "r = \<lparr>rc_id = newId, rc_recallNumber = nextRecallNumber now s,
           rc_initiatedByUserId = au_id actor, rc_initiatedAt = now, rc_reason = trim (ii_reason d),
           rc_severity = ii_severity d, rc_status = RecallDRAFT,
           rc_publicNotice = trimmed (ii_publicNotice d), rc_regulatorNotifiedAt = None,
           rc_closedAt = None, rc_updatedAt = now, rc_lots = map (recall_lot_of rowId) ls,
           rc_notifications = []\<rparr>"
  let ?s1 = "s\<lparr>db_recalls := db_recalls s @ [r]\<rparr>"
  have s1: "sys_inv ?s1" by (rule sys_inv_cong [OF s(1)]) simp_all
  have p1: "lots_placed ?s1" using s(2) by (simp add: lots_placed_def)
  have lk: "lockProducts ids ?s1 = lockProducts ids s" "lockLots ids ?s1 = lockLots ids s" for ids
    by (simp_all add: lockProducts_def lockLots_def Let_def)
  obtain ps where loop: "forE ls (quarantine_one dev (lockProducts (map l_productId ls) s) (lockLots (map l_id ls) s)) ?s1
      = Inr (?s1\<lparr>db_products := ps, db_lots := map (\<lambda>l. if l_id l \<in> l_id ` set (filter (\<lambda>l. l_status l = LotACTIVE) ls)
               then l\<lparr>l_status := LotQUARANTINED\<rparr> else l) (db_lots s)\<rparr>)"
    "map product_key ps = map product_key (db_products s)"
    "sys_inv (?s1\<lparr>db_products := ps, db_lots := map (\<lambda>l. if l_id l \<in> l_id ` set (filter (\<lambda>l. l_status l = LotACTIVE) ls)
               then l\<lparr>l_status := LotQUARANTINED\<rparr> else l) (db_lots s)\<rparr>)"
    using quarantine_loop [OF s1 p1, of ls dev] lsd free(1) unfolding lk by auto
  have lots: "map (\<lambda>l. if l_id l \<in> l_id ` set (filter (\<lambda>l. l_status l = LotACTIVE) ls)
               then l\<lparr>l_status := LotQUARANTINED\<rparr> else l) (db_lots s)
      = map (\<lambda>l. if l_id l \<in> set (ii_lotIds d) then l\<lparr>l_status := LotQUARANTINED\<rparr> else l) (db_lots s)"
  proof (rule map_cong [OF refl])
    fix l assume l: "l \<in> set (db_lots s)"
    have same: "k = l" if "k \<in> set ls" "l_id k = l_id l" for k
      using that l lsd(2) dl by (metis distinct_map inj_onD subsetD)
    show "(if l_id l \<in> l_id ` set (filter (\<lambda>l. l_status l = LotACTIVE) ls) then l\<lparr>l_status := LotQUARANTINED\<rparr> else l)
        = (if l_id l \<in> set (ii_lotIds d) then l\<lparr>l_status := LotQUARANTINED\<rparr> else l)"
    proof (cases "l_id l \<in> set (ii_lotIds d) \<and> l_status l \<noteq> LotACTIVE")
      case True
      then have "l \<in> set ls" using l by (simp add: ls_def)
      then have "l_status l = LotQUARANTINED" using free(2) True by blast
      then have "l\<lparr>l_status := LotQUARANTINED\<rparr> = l" by (cases l) simp
      then show ?thesis by simp
    next
      case False
      then have "l_id l \<in> l_id ` set (filter (\<lambda>l. l_status l = LotACTIVE) ls) \<longleftrightarrow> l_id l \<in> set (ii_lotIds d)"
        using l same idset by (auto simp: ls_def)
      then show ?thesis by simp
    qed
  qed
  define t where "t = writeAuditLog (Some (au_id actor)) (case ls of [] \<Rightarrow> None | l # _ \<Rightarrow> Some (l_storeId l))
            ''RECALL_INITIATE'' ''Recall'' (Some newId)
     (?s1\<lparr>db_products := ps, db_lots := map (\<lambda>l. if l_id l \<in> set (ii_lotIds d) then l\<lparr>l_status := LotQUARANTINED\<rparr> else l) (db_lots s)\<rparr>)"
  have chk: "check_all recallable ls = Inr ()" using ok by (simp add: check_all_iff)
  have ne: "uniq (ii_lotIds d) \<noteq> []" using ids(1) by (metis set_empty set_uniq)
  have cr: "create_row rc_id r (db_recalls s) = Inr (db_recalls s @ [r])"
    using fresh(1) by (simp add: create_row_def has_row_def r_def)
  have num: "rc_recallNumber r \<notin> rc_recallNumber ` set (db_recalls s)" using fresh(2) by (simp add: r_def)
  have run: "initiateRecall dev now newId rowId actor d s = Inr (t, r)"
    unfolding initiateRecall_def Let_def ls_def [symmetric] r_def [symmetric]
    using who why ne len chk num cr loop(1) unfolding lots by (simp add: assertCoopAdmin_def t_def)
  have inv: "sys_inv t" by (rule sys_inv_cong [OF loop(3) [unfolded lots]]) (simp_all add: t_def)
  have pl: "lots_placed t"
    by (rule frame_lots_placed [OF s(2) loop(2), of "\<lambda>l. if l_id l \<in> set (ii_lotIds d) then l\<lparr>l_status := LotQUARANTINED\<rparr> else l"])
      (simp_all add: lot_key_def t_def)
  have fr: "find_recall newId t = Some r"
  proof -
    have "find_row rc_id newId (rs @ [r]) = Some r" if "newId \<notin> rc_id ` set rs" for rs
      using that by (induction rs) (auto simp: r_def)
    then show ?thesis using fresh(1) by (simp add: find_recall_def t_def)
  qed
  show ?thesis
    by (rule exI [of _ t], rule exI [of _ r], intro conjI run inv pl fr)
      (simp_all add: r_def t_def ls_def recall_lot_of_def comp_def loop(2))
qed

text \<open>
  C6: drafting a recall stops the sale of every named lot at once. For a co-op administrator, a
  reason, and lots that exist, are on sale or already quarantined and are not held by a pending sale, it
  always succeeds: afterwards each named lot is quarantined with its units, no other lot changed, the
  draft records each lot with the units it had, and the system invariant holds.
\<close>

theorem initiateRecall_stops_sale:
  assumes s: "sys_inv s" "lots_placed s" and who: "au_role actor = COOP_ADMIN" and why: "trim (ii_reason d) \<noteq> []"
    and ids: "ii_lotIds d \<noteq> []" "\<forall>i \<in> set (ii_lotIds d). \<exists>l. find_lot i s = Some l \<and> recallable l = Inr ()"
    and fresh: "newId \<notin> rc_id ` set (db_recalls s)" "nextRecallNumber now s \<notin> rc_recallNumber ` set (db_recalls s)"
  shows "\<exists>t r. initiateRecall dev now newId rowId actor d s = Inr (t, r) \<and> sys_inv t \<and> lots_placed t
    \<and> find_recall newId t = Some r \<and> rc_status r = RecallDRAFT
    \<and> db_lots t = map (\<lambda>l. if l_id l \<in> set (ii_lotIds d) then l\<lparr>l_status := LotQUARANTINED\<rparr> else l) (db_lots s)
    \<and> map (\<lambda>rl. (rcl_lotId rl, rcl_quantityAtRecall rl)) (rc_lots r)
        = map (\<lambda>l. (l_id l, l_quantityRemaining l)) (filter (\<lambda>l. l_id l \<in> set (ii_lotIds d)) (db_lots s))"
  using initiateRecall_ok [OF assms, of dev rowId] by blast

section \<open>Cancelling\<close>

lemma recalled_lots_props:
  assumes d: "distinct (map l_id (db_lots s))" and u: "distinct (map rcl_lotId (rc_lots r))"
  shows "set (recalled_lots r s) = {l \<in> set (db_lots s). l_id l \<in> rcl_lotId ` set (rc_lots r)}"
    and "distinct (map l_id (recalled_lots r s))"
proof -
  show "set (recalled_lots r s) = {l \<in> set (db_lots s). l_id l \<in> rcl_lotId ` set (rc_lots r)}"
    by (auto simp: recalled_lots_def)
  have "distinct (map l_id (concat (map (\<lambda>rl. filter (\<lambda>l. l_id l = rcl_lotId rl) (db_lots s)) rls)))"
    if "distinct (map rcl_lotId rls)" for rls
    using that
  proof (induction rls)
    case (Cons rl rls)
    have "distinct (map l_id (filter (\<lambda>l. l_id l = rcl_lotId rl) (db_lots s)))" by (rule distinct_filter_ids [OF d])
    then show ?case using Cons by (auto simp: image_iff)
  qed simp
  then show "distinct (map l_id (recalled_lots r s))" using u by (simp add: recalled_lots_def)
qed

lemma return_loop:
  assumes s: "sys_inv s" "lots_placed s" and ls: "set ls \<subseteq> set (db_lots s)" "distinct (map l_id ls)"
    and q: "\<forall>l \<in> set ls. l_status l = LotQUARANTINED"
  shows "\<exists>ps. forE ls (return_one dev (lockProducts (map l_productId ls) s) (lockLots (map l_id ls) s)) s
      = Inr (s\<lparr>db_products := ps, db_lots := map (\<lambda>l. if l_id l \<in> l_id ` set ls then l\<lparr>l_status := LotACTIVE\<rparr> else l) (db_lots s)\<rparr>)
    \<and> map product_key ps = map product_key (db_products s)
    \<and> sys_inv (s\<lparr>db_products := ps, db_lots := map (\<lambda>l. if l_id l \<in> l_id ` set ls then l\<lparr>l_status := LotACTIVE\<rparr> else l) (db_lots s)\<rparr>)"
proof -
  let ?prods = "lockProducts (map l_productId ls) s" and ?locked = "lockLots (map l_id ls) s"
  define pr where "pr l = the (find_row p_id (l_productId l) ?prods)" for l :: lot
  have rows: "find_row l_id (l_id l) ?locked = Some l" "find_row p_id (l_productId l) ?prods = Some (pr l)"
      "pr l \<in> set (db_products s)" "p_id (pr l) = l_productId l" if "l \<in> set ls" for l
    using locked_rows [OF s ls(1) _ that, of "map l_id ls"] by (auto simp: pr_def)
  have has: "l_productId l \<in> p_id ` set (db_products s)" if "l \<in> set ls" for l
    using rows(3,4) [OF that] by (metis image_eqI)
  have "forE ls (return_one dev ?prods ?locked) u
      = forE (map (\<lambda>l. (pr l, l)) ls) (return_sale.body dev (\<lambda>_ _. [])) u" for u
    unfolding forE_map
    by (rule forE_cong) (auto simp: return_one_def return_sale.body_def return_op_def rows bindE_def split: sum.splits)
  moreover have d: "distinct (map (l_id \<circ> snd) (map (\<lambda>l. (pr l, l)) ls))" using ls(2) by (simp add: comp_def)
  have "\<forall>(p, l) \<in> set (map (\<lambda>l. (pr l, l)) ls). l \<in> set (db_lots s) \<and> l_status l = LotQUARANTINED
        \<and> l_productId l = p_id p \<and> p_id p \<in> p_id ` set (db_products s)"
    using rows ls(1) q has by auto
  from return_sale.loop_ok [OF s(1) d this, of dev "\<lambda>_ _. []"]
  have "\<exists>ps. forE (map (\<lambda>l. (pr l, l)) ls) (return_sale.body dev (\<lambda>_ _. [])) s
      = Inr (s\<lparr>db_products := ps, db_lots := map (\<lambda>l. if l_id l \<in> l_id ` set ls then l\<lparr>l_status := LotACTIVE\<rparr> else l) (db_lots s)\<rparr>)
    \<and> map product_key ps = map product_key (db_products s)
    \<and> sys_inv (s\<lparr>db_products := ps, db_lots := map (\<lambda>l. if l_id l \<in> l_id ` set ls then l\<lparr>l_status := LotACTIVE\<rparr> else l) (db_lots s)\<rparr>)"
    by (simp add: image_image comp_def)
  ultimately show ?thesis by simp
qed

lemma find_recall_update:
  fixes f :: "recall \<Rightarrow> recall"
  assumes "find_recall i s = Some r" "db_recalls t = db_recalls s" "\<And>x. rc_id (f x) = rc_id x"
  shows "recall_update i f t = Inr (t\<lparr>db_recalls := upd_row rc_id i f (db_recalls t)\<rparr>)"
    and "find_recall i (t\<lparr>db_recalls := upd_row rc_id i f (db_recalls t)\<rparr>) = Some (f r)"
  using assms by (auto simp: find_recall_def recall_update_def update_row_def has_row_iff_find find_row_upd_row)

lemma cancelRecall_ok:
  assumes s: "sys_inv s" "lots_placed s" and who: "au_role actor = COOP_ADMIN"
    and r: "find_recall i s = Some r" "rc_status r = RecallDRAFT" "distinct (map rcl_lotId (rc_lots r))"
  shows "\<exists>t r'. cancelRecall dev now actor i s s = Inr (t, r') \<and> sys_inv t \<and> rc_status r' = RecallCANCELLED
    \<and> map product_key (db_products t) = map product_key (db_products s)
    \<and> find_recall i t = Some r' \<and> (\<forall>j. j \<noteq> i \<longrightarrow> find_recall j t = find_recall j s)
    \<and> db_lots t = map (\<lambda>l. if l_id l \<in> rcl_lotId ` set (rc_lots r) \<and> l_status l = LotQUARANTINED
                       then l\<lparr>l_status := LotACTIVE\<rparr> else l) (db_lots s)"
proof -
  have dl: "distinct (map l_id (db_lots s))" using sys_invD(7) [OF s(1)] .
  define ls where "ls = filter (\<lambda>l. l_status l = LotQUARANTINED) (recalled_lots r s)"
  note rl = recalled_lots_props [OF dl r(3)]
  have lsp: "set ls \<subseteq> set (db_lots s)" "distinct (map l_id ls)" "\<forall>l \<in> set ls. l_status l = LotQUARANTINED"
    using rl distinct_filter_ids [OF rl(2)] by (auto simp: ls_def)
  let ?lots = "map (\<lambda>l. if l_id l \<in> l_id ` set ls then l\<lparr>l_status := LotACTIVE\<rparr> else l) (db_lots s)"
  obtain ps where loop: "forE ls (return_one dev (lockProducts (map l_productId ls) s) (lockLots (map l_id ls) s)) s
      = Inr (s\<lparr>db_products := ps, db_lots := ?lots\<rparr>)" "sys_inv (s\<lparr>db_products := ps, db_lots := ?lots\<rparr>)"
      "map product_key ps = map product_key (db_products s)"
    using return_loop [OF s lsp] by blast
  have lots: "?lots = map (\<lambda>l. if l_id l \<in> rcl_lotId ` set (rc_lots r) \<and> l_status l = LotQUARANTINED
                       then l\<lparr>l_status := LotACTIVE\<rparr> else l) (db_lots s)"
  proof (rule map_cong [OF refl])
    fix l assume l: "l \<in> set (db_lots s)"
    have "l_id l \<in> l_id ` set ls \<longleftrightarrow> l \<in> set ls"
      by (rule key_in_subset [OF dl lsp(1) l])
    then show "(if l_id l \<in> l_id ` set ls then l\<lparr>l_status := LotACTIVE\<rparr> else l)
      = (if l_id l \<in> rcl_lotId ` set (rc_lots r) \<and> l_status l = LotQUARANTINED then l\<lparr>l_status := LotACTIVE\<rparr> else l)"
      using l rl(1) by (simp add: ls_def)
  qed
  let ?f = "\<lambda>r. r\<lparr>rc_status := RecallCANCELLED, rc_closedAt := Some now, rc_updatedAt := now\<rparr>"
  let ?u = "s\<lparr>db_products := ps, db_lots := ?lots\<rparr>"
  let ?v = "?u\<lparr>db_recalls := upd_row rc_id i ?f (db_recalls ?u)\<rparr>"
  have up: "recall_update i ?f ?u = Inr ?v" "find_recall i ?v = Some (?f r)"
    using find_recall_update [of i s r ?u ?f] r(1) by simp_all
  define t where "t = writeAuditLog (Some (au_id actor)) None ''RECALL_CANCEL'' ''Recall'' (Some i) ?v"
  have ft: "find_recall i t = Some (?f r)" using up(2) by (simp add: find_recall_def t_def)
  have run: "cancelRecall dev now actor i s s = Inr (t, ?f r)"
    unfolding cancelRecall_def Let_def
    using who r loop(1) up(1) ft by (simp add: assertCoopAdmin_def ls_def [symmetric] t_def)
  have inv: "sys_inv t" by (rule sys_inv_cong [OF loop(2)]) (simp_all add: t_def)
  have other: "\<forall>j. j \<noteq> i \<longrightarrow> find_recall j t = find_recall j s"
    by (simp add: t_def find_recall_def find_row_upd_row)
  show ?thesis
    by (rule exI [of _ t], rule exI [of _ "?f r"], intro conjI run inv ft other)
      (simp_all add: t_def lots loop(3))
qed

text \<open>
  Cancelling a draft that nobody touched in between always succeeds for a co-op administrator: the
  recall is CANCELLED, exactly its quarantined lots are on sale again with their units, no other lot
  changes and the system invariant holds.
\<close>

theorem cancelRecall_returns_lots:
  assumes s: "sys_inv s" "lots_placed s" and who: "au_role actor = COOP_ADMIN"
    and r: "find_recall i s = Some r" "rc_status r = RecallDRAFT" "distinct (map rcl_lotId (rc_lots r))"
  shows "\<exists>t r'. cancelRecall dev now actor i s s = Inr (t, r') \<and> sys_inv t \<and> rc_status r' = RecallCANCELLED
    \<and> find_recall i t = Some r' \<and> (\<forall>j. j \<noteq> i \<longrightarrow> find_recall j t = find_recall j s)
    \<and> db_lots t = map (\<lambda>l. if l_id l \<in> rcl_lotId ` set (rc_lots r) \<and> l_status l = LotQUARANTINED
                       then l\<lparr>l_status := LotACTIVE\<rparr> else l) (db_lots s)"
  using cancelRecall_ok [OF assms, of dev now] by blast

text \<open>Under the invariant the lots determine the stock of every product.\<close>

lemma stock_determined:
  assumes "sys_inv s"
  shows "map p_stock (db_products s) = map (\<lambda>i. sum_rows (active_remaining i) (db_lots s)) (map p_id (db_products s))"
  using rollup_okD(1) [OF sys_invD(3) [OF assms] sys_invD(8) [OF assms]] by (simp add: comp_def)

lemma map_product_key_id: "map product_key ps = map product_key qs \<Longrightarrow> map p_id ps = map p_id qs"
proof -
  assume "map product_key ps = map product_key qs"
  then have "map fst (map product_key ps) = map fst (map product_key qs)" by simp
  then show ?thesis by (simp add: product_key_def comp_def)
qed

text \<open>
  A draft is undone exactly by its cancellation: when every lot it named was on sale, initiating
  and then cancelling gives back the lots as they were, and with the invariant the stock of every
  product.
\<close>

theorem initiate_cancel_roundtrip:
  assumes s: "sys_inv s" "lots_placed s" and who: "au_role actor = COOP_ADMIN" and why: "trim (ii_reason d) \<noteq> []"
    and ids: "ii_lotIds d \<noteq> []" "\<forall>i \<in> set (ii_lotIds d). \<exists>l. find_lot i s = Some l \<and> l_status l = LotACTIVE \<and> l_quantityReserved l = 0"
    and fresh: "newId \<notin> rc_id ` set (db_recalls s)" "nextRecallNumber now s \<notin> rc_recallNumber ` set (db_recalls s)"
  shows "\<exists>t r u r'. initiateRecall dev now newId rowId actor d s = Inr (t, r)
    \<and> cancelRecall dev later actor newId t t = Inr (u, r') \<and> sys_inv u
    \<and> db_lots u = db_lots s \<and> map p_stock (db_products u) = map p_stock (db_products s)"
proof -
  have rec: "\<forall>i \<in> set (ii_lotIds d). \<exists>l. find_lot i s = Some l \<and> recallable l = Inr ()"
    using ids(2) by (fastforce simp: recallable_def)
  obtain t r where t: "initiateRecall dev now newId rowId actor d s = Inr (t, r)" "sys_inv t" "lots_placed t"
      "find_recall newId t = Some r" "rc_status r = RecallDRAFT"
      "map product_key (db_products t) = map product_key (db_products s)"
      "db_lots t = map (\<lambda>l. if l_id l \<in> set (ii_lotIds d) then l\<lparr>l_status := LotQUARANTINED\<rparr> else l) (db_lots s)"
      "map (\<lambda>rl. (rcl_lotId rl, rcl_quantityAtRecall rl)) (rc_lots r)
        = map (\<lambda>l. (l_id l, l_quantityRemaining l)) (filter (\<lambda>l. l_id l \<in> set (ii_lotIds d)) (db_lots s))"
    using initiateRecall_ok [OF s who why ids(1) rec fresh, of dev rowId] by blast
  have dl: "distinct (map l_id (db_lots s))" using sys_invD(7) [OF s(1)] .
  have act: "l_status l = LotACTIVE" if "l \<in> set (db_lots s)" "l_id l \<in> set (ii_lotIds d)" for l
  proof -
    have "find_lot (l_id l) s = Some l" using that(1) dl by (simp add: find_lot_def find_row_eq_Some_iff)
    then show ?thesis using ids(2) that(2) by auto
  qed
  have "map fst (map (\<lambda>rl. (rcl_lotId rl, rcl_quantityAtRecall rl)) (rc_lots r))
      = map fst (map (\<lambda>l. (l_id l, l_quantityRemaining l)) (filter (\<lambda>l. l_id l \<in> set (ii_lotIds d)) (db_lots s)))"
    by (simp only: t(8))
  then have rcl: "map rcl_lotId (rc_lots r) = map l_id (filter (\<lambda>l. l_id l \<in> set (ii_lotIds d)) (db_lots s))"
    by (simp add: comp_def)
  then have d: "distinct (map rcl_lotId (rc_lots r))" using distinct_filter_ids [OF dl] by simp
  have rset: "rcl_lotId ` set (rc_lots r) = l_id ` set (filter (\<lambda>l. l_id l \<in> set (ii_lotIds d)) (db_lots s))"
    using rcl by (metis list.set_map)
  obtain u r' where u: "cancelRecall dev later actor newId t t = Inr (u, r')" "sys_inv u"
      "map product_key (db_products u) = map product_key (db_products t)"
      "db_lots u = map (\<lambda>l. if l_id l \<in> rcl_lotId ` set (rc_lots r) \<and> l_status l = LotQUARANTINED
                       then l\<lparr>l_status := LotACTIVE\<rparr> else l) (db_lots t)"
    using cancelRecall_ok [OF t(2,3) who t(4,5) d, of dev later] by blast
  have lots: "db_lots u = db_lots s"
  proof -
    have "(\<lambda>l. if l_id l \<in> rcl_lotId ` set (rc_lots r) \<and> l_status l = LotQUARANTINED
        then l\<lparr>l_status := LotACTIVE\<rparr> else l) (if l_id l \<in> set (ii_lotIds d) then l\<lparr>l_status := LotQUARANTINED\<rparr> else l) = l"
      if l: "l \<in> set (db_lots s)" for l
    proof (cases "l_id l \<in> set (ii_lotIds d)")
      case True
      then have "l\<lparr>l_status := LotACTIVE\<rparr> = l" using act [OF l] by (cases l) simp
      then show ?thesis using True l rset by auto
    next
      case False
      then have "l_id l \<notin> rcl_lotId ` set (rc_lots r)" unfolding rset by auto
      then show ?thesis using False by simp
    qed
    then show ?thesis unfolding u(4) t(7) map_map comp_def by (intro map_idI)
  qed
  have "map p_stock (db_products u) = map p_stock (db_products s)"
    unfolding stock_determined [OF u(2)] stock_determined [OF s(1)] lots
    using map_product_key_id [OF u(3)] map_product_key_id [OF t(6)] by simp
  then show ?thesis using t(1) u(1,2) lots by blast
qed

section \<open>Activating\<close>

definition recall_row :: "lot \<Rightarrow> int \<Rightarrow> write_off list" where
  "recall_row l n = (if n > 0 then
     [\<lparr>w_storeId = l_storeId l, w_productId = l_productId l, w_lotId = Some (l_id l), w_saleId = None,
       w_saleItemId = None, w_saleRefundId = None, w_quantity = n, w_reason = ''RECALL'', w_unitCost = None,
       w_value = None\<rparr>] else [])"

text \<open>The loop of the code counts what the loop of the interface writes off.\<close>

lemma deplete_loop:
  assumes "\<And>l. l \<in> set ls \<Longrightarrow> find_row p_id (l_productId l) products = Some (pr l) \<and> find_row l_id (l_id l) locked = Some l"
  shows "forE ls (deplete_one dev products locked) (s, n)
    = bindE (forE (map (\<lambda>l. (pr l, l)) ls) (recall_deplete.body dev recall_row) s)
        (\<lambda>t. Inr (t, n + sum_list (map (\<lambda>l. max 0 (l_quantityRemaining l)) ls)))"
  using assms
proof (induction ls arbitrary: s n)
  case (Cons l ls)
  show ?case
  proof (cases "recallDepleteLot dev (pr l) l s")
    case (Inl e)
    then show ?thesis using Cons.prems by (simp add: deplete_one_def recall_deplete.body_def)
  next
    case (Inr x)
    obtain t k where x: "x = (t, k)" by (cases x)
    have k: "k = max 0 (l_quantityRemaining l)" using Inr x by (auto simp: recallDepleteLot_def bindE_Inr_iff)
    have "deplete_one dev products locked l (s, n) = Inr (t\<lparr>db_writeOffs := db_writeOffs t @ recall_row l k\<rparr>, n + k)"
      using Inr x Cons.prems [of l] k by (simp add: deplete_one_def recall_row_def)
    moreover have "recall_deplete.body dev recall_row (pr l, l) s = Inr (t\<lparr>db_writeOffs := db_writeOffs t @ recall_row l k\<rparr>)"
      using Inr x by (simp add: recall_deplete.body_def)
    ultimately show ?thesis using Cons k by (simp add: add.assoc)
  qed
qed simp

lemma deplete_total:
  assumes s: "sys_inv s" "lots_placed s" and ls: "set ls \<subseteq> set (db_lots s)" "distinct (map l_id ls)"
    and ids: "set ids = l_id ` set ls" and off: "\<forall>l \<in> set ls. l_status l \<noteq> LotACTIVE"
  shows "\<exists>ps. forE ls (deplete_one dev (lockProducts (map l_productId ls) s) (lockLots ids s)) (s, 0)
      = Inr (s\<lparr>db_products := ps, db_lots := map (\<lambda>l. if l_id l \<in> l_id ` set ls
               then l\<lparr>l_quantityRemaining := 0, l_status := LotRECALLED\<rparr> else l) (db_lots s),
             db_writeOffs := db_writeOffs s @ concat (map (\<lambda>l. recall_row l (l_quantityRemaining l)) ls)\<rparr>,
           sum_list (map l_quantityRemaining ls))
    \<and> map product_key ps = map product_key (db_products s)
    \<and> sys_inv (s\<lparr>db_products := ps, db_lots := map (\<lambda>l. if l_id l \<in> l_id ` set ls
               then l\<lparr>l_quantityRemaining := 0, l_status := LotRECALLED\<rparr> else l) (db_lots s),
             db_writeOffs := db_writeOffs s @ concat (map (\<lambda>l. recall_row l (l_quantityRemaining l)) ls)\<rparr>)"
proof -
  let ?prods = "lockProducts (map l_productId ls) s" and ?locked = "lockLots ids s"
  define pr where "pr l = the (find_row p_id (l_productId l) ?prods)" for l :: lot
  have rows: "find_row l_id (l_id l) ?locked = Some l" "find_row p_id (l_productId l) ?prods = Some (pr l)"
      "pr l \<in> set (db_products s)" "p_id (pr l) = l_productId l" if "l \<in> set ls" for l
    using locked_rows [OF s ls(1) ids that] by (auto simp: pr_def)
  have has: "l_productId l \<in> p_id ` set (db_products s)" if "l \<in> set ls" for l
    using rows(3,4) [OF that] by (metis image_eqI)
  have nn: "max 0 (l_quantityRemaining l) = l_quantityRemaining l" if "l \<in> set ls" for l
    using that ls(1) lot_inv_row [OF sys_invD(1) [OF s(1)], of l] by (auto simp: lot_ok_def)
  then have cnt: "sum_list (map (\<lambda>l. max 0 (l_quantityRemaining l)) ls) = sum_list (map l_quantityRemaining ls)"
    by (intro arg_cong [where f = sum_list] map_cong) simp_all
  have d: "distinct (map (l_id \<circ> snd) (map (\<lambda>l. (pr l, l)) ls))" using ls(2) by (simp add: comp_def)
  have "\<forall>(p, l) \<in> set (map (\<lambda>l. (pr l, l)) ls). l \<in> set (db_lots s) \<and> l_status l \<noteq> LotACTIVE
        \<and> l_productId l = p_id p \<and> p_id p \<in> p_id ` set (db_products s)"
    using rows ls(1) off has by auto
  from recall_deplete.loop_ok [OF s(1) d this, of dev recall_row]
  have "\<exists>ps. forE (map (\<lambda>l. (pr l, l)) ls) (recall_deplete.body dev recall_row) s
      = Inr (s\<lparr>db_products := ps, db_lots := map (\<lambda>l. if l_id l \<in> l_id ` set ls
               then l\<lparr>l_quantityRemaining := 0, l_status := LotRECALLED\<rparr> else l) (db_lots s),
             db_writeOffs := db_writeOffs s @ concat (map (\<lambda>l. recall_row l (l_quantityRemaining l)) ls)\<rparr>)
    \<and> map product_key ps = map product_key (db_products s)
    \<and> sys_inv (s\<lparr>db_products := ps, db_lots := map (\<lambda>l. if l_id l \<in> l_id ` set ls
               then l\<lparr>l_quantityRemaining := 0, l_status := LotRECALLED\<rparr> else l) (db_lots s),
             db_writeOffs := db_writeOffs s @ concat (map (\<lambda>l. recall_row l (l_quantityRemaining l)) ls)\<rparr>)"
    by (simp add: image_image comp_def)
  then show ?thesis
    using deplete_loop [of ls ?prods pr ?locked dev s 0] rows cnt by auto
qed

lemma add_affected_distinct:
  "distinct (map am_memberId ms) \<Longrightarrow> distinct (map am_memberId (fold add_affected ts ms))"
proof (induction ts arbitrary: ms)
  case (Cons t ts)
  have "distinct (map am_memberId (add_affected t ms))"
    using Cons.prems by (auto simp: add_affected_def map_upd_row has_row_def)
  then show ?case using Cons.IH by simp
qed simp

lemma preview_total:
  assumes who: "au_role actor = COOP_ADMIN" and r: "find_recall i s = Some r"
    and lots: "\<forall>rl \<in> set (rc_lots r). \<exists>l. find_lot (rcl_lotId rl) s = Some l"
  shows "\<exists>im. previewRecallImpact actor i s = Inr im \<and> distinct (map am_memberId (ri_affectedMembers im))"
proof -
  have "\<exists>acc'. forE rls (impact_of_lot actor s) acc = Inr acc' \<and> distinct (map am_memberId (ia_members acc'))"
    if "\<forall>rl \<in> set rls. \<exists>l. find_lot (rcl_lotId rl) s = Some l" "distinct (map am_memberId (ia_members acc))" for rls acc
    using that
  proof (induction rls arbitrary: acc)
    case (Cons rl rls)
    then obtain l where l: "find_lot (rcl_lotId rl) s = Some l" by auto
    have "\<exists>ft. traceForward actor (rcl_lotId rl) s = Inr ft"
      using l who by (simp add: traceForward_def assertStoreResourceAccess_def Let_def)
    then obtain acc1 where "impact_of_lot actor s rl acc = Inr acc1" "distinct (map am_memberId (ia_members acc1))"
      using l Cons.prems(2) add_affected_distinct by (auto simp: impact_of_lot_def)
    then show ?case using Cons.IH [of acc1] Cons.prems(1) by simp
  qed simp
  from this [OF lots, of "\<lparr>ia_members = [], ia_stores = [], ia_saleIds = [], ia_unitsSold = 0, ia_exposure = 0\<rparr>"]
  obtain acc where "forE (rc_lots r) (impact_of_lot actor s)
      \<lparr>ia_members = [], ia_stores = [], ia_saleIds = [], ia_unitsSold = 0, ia_exposure = 0\<rparr> = Inr acc"
    "distinct (map am_memberId (ia_members acc))" by auto
  then show ?thesis using who r by (simp add: previewRecallImpact_def distinct_map)
qed

lemma notify_keys:
  "map notify_key (new_notifications rowId ms) = concat (map (\<lambda>m. map (\<lambda>c. (am_memberId m, c)) CHANNELS) ms)"
  unfolding new_notifications_def map_concat map_map comp_def notify_key_def recall_notification.simps ..

lemma notify_keys_distinct:
  assumes "distinct (map am_memberId ms)"
  shows "distinct (map notify_key (new_notifications rowId ms))" "length (new_notifications rowId ms) = 3 * length ms"
proof -
  show "distinct (map notify_key (new_notifications rowId ms))"
    unfolding notify_keys using assms by (induction ms) (auto simp: CHANNELS_def)
  show "length (new_notifications rowId ms) = 3 * length ms"
    by (induction ms) (simp_all add: new_notifications_def CHANNELS_def)
qed

lemma activateRecall_ok:
  assumes s: "sys_inv s" "lots_placed s" and who: "au_role actor = COOP_ADMIN"
    and r: "find_recall i s = Some r" "rc_status r = RecallDRAFT" "distinct (map rcl_lotId (rc_lots r))"
      "rc_notifications r = []"
    and lots: "\<forall>rl \<in> set (rc_lots r). \<exists>l. find_lot (rcl_lotId rl) s = Some l \<and> l_status l \<noteq> LotACTIVE"
  shows "\<exists>t a im. activateRecall dev now rowId actor i notice s s = Inr (t, a) \<and> sys_inv t
    \<and> map product_key (db_products t) = map product_key (db_products s)
    \<and> find_recall i t = Some (at_recall a) \<and> rc_status (at_recall a) = RecallACTIVE
    \<and> db_lots t = map (\<lambda>l. if l_id l \<in> rcl_lotId ` set (rc_lots r)
                       then l\<lparr>l_quantityRemaining := 0, l_status := LotRECALLED\<rparr> else l) (db_lots s)
    \<and> db_writeOffs t = db_writeOffs s @ concat (map (\<lambda>l. recall_row l (l_quantityRemaining l)) (recalled_lots r s))
    \<and> at_unitsWrittenOff a = sum_list (map l_quantityRemaining (recalled_lots r s))
    \<and> previewRecallImpact actor i s = Inr im
    \<and> at_notificationsCreated a = 3 * length (ri_affectedMembers im)
    \<and> map notify_key (rc_notifications (at_recall a))
        = concat (map (\<lambda>m. map (\<lambda>c. (am_memberId m, c)) CHANNELS) (ri_affectedMembers im))"
proof -
  have dl: "distinct (map l_id (db_lots s))" using sys_invD(7) [OF s(1)] .
  note rl = recalled_lots_props [OF dl r(3)]
  let ?ls = "recalled_lots r s"
  have ex: "\<forall>rl \<in> set (rc_lots r). \<exists>l. find_lot (rcl_lotId rl) s = Some l" using lots by blast
  obtain im where im: "previewRecallImpact actor i s = Inr im" "distinct (map am_memberId (ri_affectedMembers im))"
    using preview_total [OF who r(1) ex] by blast
  have row: "find_lot (l_id l) s = Some l" if "l \<in> set (db_lots s)" for l
    using that dl by (simp add: find_lot_def find_row_eq_Some_iff)
  have off: "\<forall>l \<in> set ?ls. l_status l \<noteq> LotACTIVE"
    using lots row unfolding rl(1) by fastforce
  have ids: "set (map rcl_lotId (rc_lots r)) = l_id ` set ?ls"
  proof
    show "set (map rcl_lotId (rc_lots r)) \<subseteq> l_id ` set ?ls"
    proof
      fix j assume "j \<in> set (map rcl_lotId (rc_lots r))"
      then obtain rl where "rl \<in> set (rc_lots r)" "j = rcl_lotId rl" by auto
      moreover then obtain l where "find_lot j s = Some l" using ex by blast
      then have "l \<in> set (db_lots s)" "l_id l = j" using find_row_SomeD [of l_id j "db_lots s" l] by (simp_all add: find_lot_def)
      ultimately have "l \<in> set ?ls" unfolding rl(1) by simp
      then show "j \<in> l_id ` set ?ls" using \<open>l_id l = j\<close> by blast
    qed
  qed (auto simp: rl(1))
  have ls: "set ?ls \<subseteq> set (db_lots s)" using rl(1) by auto
  obtain ps where loop: "forE ?ls (deplete_one dev (lockProducts (map l_productId ?ls) s) (lockLots (map rcl_lotId (rc_lots r)) s)) (s, 0)
      = Inr (s\<lparr>db_products := ps, db_lots := map (\<lambda>l. if l_id l \<in> l_id ` set ?ls
               then l\<lparr>l_quantityRemaining := 0, l_status := LotRECALLED\<rparr> else l) (db_lots s),
             db_writeOffs := db_writeOffs s @ concat (map (\<lambda>l. recall_row l (l_quantityRemaining l)) ?ls)\<rparr>,
           sum_list (map l_quantityRemaining ?ls))"
    "sys_inv (s\<lparr>db_products := ps, db_lots := map (\<lambda>l. if l_id l \<in> l_id ` set ?ls
               then l\<lparr>l_quantityRemaining := 0, l_status := LotRECALLED\<rparr> else l) (db_lots s),
             db_writeOffs := db_writeOffs s @ concat (map (\<lambda>l. recall_row l (l_quantityRemaining l)) ?ls)\<rparr>)"
    "map product_key ps = map product_key (db_products s)"
    using deplete_total [OF s ls rl(2) ids off, of dev] by blast
  have keep: "map product_key (db_products (writeAuditLog u v w x y (s\<lparr>db_products := ps, db_lots := ll,
      db_writeOffs := ww, db_recalls := rr\<rparr>))) = map product_key (db_products s)" for u v w x y ll ww rr
    using loop(3) by simp
  let ?u = "s\<lparr>db_products := ps, db_lots := map (\<lambda>l. if l_id l \<in> l_id ` set ?ls
               then l\<lparr>l_quantityRemaining := 0, l_status := LotRECALLED\<rparr> else l) (db_lots s),
             db_writeOffs := db_writeOffs s @ concat (map (\<lambda>l. recall_row l (l_quantityRemaining l)) ?ls)\<rparr>"
  let ?notes = "new_notifications rowId (ri_affectedMembers im)"
  define g where "g = activated_recall now notice ?notes"
  let ?v = "?u\<lparr>db_recalls := upd_row rc_id i g (db_recalls ?u)\<rparr>"
  have up: "recall_update i g ?u = Inr ?v" "find_recall i ?v = Some (g r)"
    using find_recall_update [of i s r ?u g] r(1) by (simp_all add: g_def activated_recall_def)
  define t where "t = writeAuditLog (Some (au_id actor)) None ''RECALL_ACTIVATE'' ''Recall'' (Some i) ?v"
  define a where "a = \<lparr>at_recall = g r, at_notificationsCreated = length ?notes,
      at_unitsWrittenOff = sum_list (map l_quantityRemaining ?ls)\<rparr>"
  have dn: "distinct (map notify_key (rc_notifications r @ ?notes))" using notify_keys_distinct(1) [OF im(2)] r(4) by simp
  have "activate_tx dev now rowId actor i notice im s = Inr (t, a)"
    unfolding activate_tx_def Let_def
    using r(1,2) loop(1) dn up(1) by (simp add: g_def [symmetric] t_def a_def)
  then have run: "activateRecall dev now rowId actor i notice s s = Inr (t, a)"
    using who im(1) by (simp add: activateRecall_def assertCoopAdmin_def)
  have inv: "sys_inv t" by (rule sys_inv_cong [OF loop(2)]) (simp_all add: t_def)
  have fr: "find_recall i t = Some (at_recall a)" using up(2) by (simp add: find_recall_def t_def a_def)
  have lots_t: "db_lots t = map (\<lambda>l. if l_id l \<in> rcl_lotId ` set (rc_lots r)
                       then l\<lparr>l_quantityRemaining := 0, l_status := LotRECALLED\<rparr> else l) (db_lots s)"
    using ids by (simp add: t_def)
  have keys: "map notify_key (rc_notifications (at_recall a))
      = concat (map (\<lambda>m. map (\<lambda>c. (am_memberId m, c)) CHANNELS) (ri_affectedMembers im))"
    by (simp add: a_def g_def activated_recall_def r(4) notify_keys)
  have len: "at_notificationsCreated a = 3 * length (ri_affectedMembers im)"
    using notify_keys_distinct(2) [OF im(2)] by (simp add: a_def)
  have st: "rc_status (at_recall a) = RecallACTIVE" by (simp add: a_def g_def activated_recall_def)
  have wo: "db_writeOffs t = db_writeOffs s @ concat (map (\<lambda>l. recall_row l (l_quantityRemaining l)) (recalled_lots r s))"
    "at_unitsWrittenOff a = sum_list (map l_quantityRemaining (recalled_lots r s))"
    by (simp_all add: t_def a_def writeAuditLog_def)
  show ?thesis
    by (rule exI [of _ t], rule exI [of _ a], rule exI [of _ im], intro conjI run inv fr st lots_t wo im(1) len keys)
      (simp add: t_def loop(3))
qed

text \<open>
  C5: activating a draft whose lots are out of sale always succeeds for a co-op administrator. Every
  lot of the recall ends RECALLED with no units, no other lot changes, one write-off per lot that
  had units accounts for exactly those units, which are the total reported, every affected member
  gets one notification row per channel, and the system invariant holds.
\<close>

theorem activateRecall_accounts:
  assumes s: "sys_inv s" "lots_placed s" and who: "au_role actor = COOP_ADMIN"
    and r: "find_recall i s = Some r" "rc_status r = RecallDRAFT" "distinct (map rcl_lotId (rc_lots r))"
      "rc_notifications r = []"
    and lots: "\<forall>rl \<in> set (rc_lots r). \<exists>l. find_lot (rcl_lotId rl) s = Some l \<and> l_status l \<noteq> LotACTIVE"
  shows "\<exists>t a im. activateRecall dev now rowId actor i notice s s = Inr (t, a) \<and> sys_inv t
    \<and> find_recall i t = Some (at_recall a) \<and> rc_status (at_recall a) = RecallACTIVE
    \<and> db_lots t = map (\<lambda>l. if l_id l \<in> rcl_lotId ` set (rc_lots r)
                       then l\<lparr>l_quantityRemaining := 0, l_status := LotRECALLED\<rparr> else l) (db_lots s)
    \<and> db_writeOffs t = db_writeOffs s @ concat (map (\<lambda>l. recall_row l (l_quantityRemaining l)) (recalled_lots r s))
    \<and> at_unitsWrittenOff a = sum_list (map l_quantityRemaining (recalled_lots r s))
    \<and> previewRecallImpact actor i s = Inr im
    \<and> at_notificationsCreated a = 3 * length (ri_affectedMembers im)
    \<and> map notify_key (rc_notifications (at_recall a))
        = concat (map (\<lambda>m. map (\<lambda>c. (am_memberId m, c)) CHANNELS) (ri_affectedMembers im))"
  using activateRecall_ok [OF assms, of dev now rowId notice] by blast

section \<open>Overlapping recalls and races\<close>

text \<open>What activation does to the rows, without any assumption on the state.\<close>

lemma deplete_one_effect:
  assumes "deplete_one dev products locked l (s, n) = Inr (t, m)"
  shows "db_products t = db_products s"
    "db_lots t = upd_row l_id (l_id l) (\<lambda>k. k\<lparr>l_quantityRemaining := 0, l_status := LotRECALLED\<rparr>) (db_lots s)"
proof -
  obtain p k where pk: "find_row p_id (l_productId l) products = Some p" "find_row l_id (l_id l) locked = Some k"
    using assms by (auto simp: deplete_one_def split: option.splits)
  have "l_id k = l_id l" using find_row_SomeD [OF pk(2)] by simp
  then show "db_products t = db_products s"
    "db_lots t = upd_row l_id (l_id l) (\<lambda>k. k\<lparr>l_quantityRemaining := 0, l_status := LotRECALLED\<rparr>) (db_lots s)"
    using assms pk
    by (auto simp: deplete_one_def recallDepleteLot_def bindE_Inr_iff lot_update_Inr_iff split: if_splits)
qed

lemma deplete_loop_effect:
  "forE ls (deplete_one dev products locked) (s, n) = Inr (t, m) \<Longrightarrow>
     db_products t = db_products s
     \<and> db_lots t = map (\<lambda>l. if l_id l \<in> l_id ` set ls then l\<lparr>l_quantityRemaining := 0, l_status := LotRECALLED\<rparr> else l) (db_lots s)"
proof (induction ls arbitrary: s n)
  case (Cons l ls)
  then obtain u k where u: "deplete_one dev products locked l (s, n) = Inr (u, k)"
      "forE ls (deplete_one dev products locked) (u, k) = Inr (t, m)"
    by (auto simp: bindE_Inr_iff)
  note e = deplete_one_effect [OF u(1)]
  note ih = Cons.IH [OF u(2)]
  show ?case
    using ih unfolding e upd_row_def by (auto simp: comp_def)
qed simp

lemma activate_tx_InrE:
  assumes "activate_tx dev now rowId actor i notice im s = Inr (t, a)"
  obtains r :: recall where "find_recall i s = Some r" "rc_status r = RecallDRAFT"
    "db_products t = db_products s"
    "db_lots t = map (\<lambda>l. if l_id l \<in> l_id ` set (recalled_lots r s)
        then l\<lparr>l_quantityRemaining := 0, l_status := LotRECALLED\<rparr> else l) (db_lots s)"
proof -
  obtain r where r: "find_recall i s = Some r" "rc_status r = RecallDRAFT"
    using assms by (auto simp: activate_tx_def split: option.splits if_splits)
  obtain u k where u: "forE (recalled_lots r s) (deplete_one dev (lockProducts (map l_productId (recalled_lots r s)) s)
        (lockLots (map rcl_lotId (rc_lots r)) s)) (s, 0) = Inr (u, k)"
      "db_products t = db_products u" "db_lots t = db_lots u"
    using assms r
    by (auto simp: activate_tx_def Let_def bindE_Inr_iff recall_update_def split: if_splits)
  show thesis by (rule that [OF r]) (use deplete_loop_effect [OF u(1)] u(2,3) in simp_all)
qed

lemma sum_list_strict:
  fixes g h :: "'a \<Rightarrow> int"
  assumes "\<And>x. x \<in> set xs \<Longrightarrow> g x \<le> h x" "y \<in> set xs" "g y < h y"
  shows "sum_list (map g xs) < sum_list (map h xs)"
  using assms
proof (induction xs)
  case (Cons x xs)
  have le: "sum_list (map g xs) \<le> sum_list (map h xs)" by (rule sum_list_mono) (use Cons.prems(1) in auto)
  show ?case
  proof (cases "y \<in> set xs")
    case True
    then have "sum_list (map g xs) < sum_list (map h xs)" using Cons by auto
    moreover have "g x \<le> h x" using Cons.prems(1) by simp
    ultimately show ?thesis by simp
  next
    case False
    then show ?thesis using Cons.prems(2,3) le by auto
  qed
qed simp

text \<open>
  Activation relies on every lot of the recall being out of sale and does not check it. If one is
  on sale with units (because cancelling another recall of the same lot put it back), its units
  vanish from the lot but stay in \<open>Product.stock\<close>: the counters no longer match the lots.
\<close>

theorem activation_of_lot_on_sale_breaks_rollup:
  assumes s: "sys_inv s" "lots_placed s"
    and run: "activate_tx dev now rowId actor i notice im s = Inr (t, a)"
    and l: "find_recall i s = Some r" "rl \<in> set (rc_lots r)" "find_lot (rcl_lotId rl) s = Some l"
    and sale: "l_status l = LotACTIVE" "0 < l_quantityRemaining l"
  shows "\<not> rollup_ok t"
proof
  assume bad: "rollup_ok t"
  obtain r' :: recall where r': "find_recall i s = Some r'" and t: "db_products t = db_products s"
    "db_lots t = map (\<lambda>l. if l_id l \<in> l_id ` set (recalled_lots r' s)
        then l\<lparr>l_quantityRemaining := 0, l_status := LotRECALLED\<rparr> else l) (db_lots s)"
    using activate_tx_InrE [OF run] by blast
  have rr: "r' = r" using l(1) r' by simp
  have row: "l \<in> set (db_lots s)" "l_id l = rcl_lotId rl"
    using find_row_SomeD [of l_id "rcl_lotId rl" "db_lots s" l] l(3) by (simp_all add: find_lot_def)
  have inr: "l \<in> set (recalled_lots r s)" using row l(2) by (auto simp: recalled_lots_def)
  obtain p :: product where p: "p \<in> set (db_products s)" "p_id p = l_productId l"
    using placed_product [OF s(2) row(1)] by metis
  let ?f = "\<lambda>l. if l_id l \<in> l_id ` set (recalled_lots r s)
        then l\<lparr>l_quantityRemaining := 0, l_status := LotRECALLED\<rparr> else l"
  have "p_stock p = sum_rows (active_remaining (p_id p)) (db_lots s)"
    by (rule rollup_okD(1) [OF sys_invD(3,8) [OF s(1)] p(1)])
  moreover have "p_stock p = sum_rows (active_remaining (p_id p)) (db_lots t)"
    using rollup_okD(1) [OF bad, of p] sys_invD(8) [OF s(1)] p(1) t(1) by simp
  moreover have "sum_rows (active_remaining (p_id p)) (db_lots t) < sum_rows (active_remaining (p_id p)) (db_lots s)"
  proof -
    have le: "active_remaining (p_id p) (?f k) \<le> active_remaining (p_id p) k" if "k \<in> set (db_lots s)" for k
    proof -
      have "lot_ok k" using lot_inv_row [OF sys_invD(1) [OF s(1)] that] by simp
      then show ?thesis by (auto simp: active_remaining_def lot_ok_def)
    qed
    have lt: "active_remaining (p_id p) (?f l) < active_remaining (p_id p) l"
      using inr sale p(2) by (auto simp: active_remaining_def)
    have "sum_list (map (\<lambda>k. active_remaining (p_id p) (?f k)) (db_lots s)) < sum_list (map (active_remaining (p_id p)) (db_lots s))"
      by (rule sum_list_strict [where y = l]) (fact le row(1) lt)+
    then show ?thesis by (simp only: t(2) rr sum_rows_def map_map comp_def)
  qed
  ultimately show False by simp
qed

text \<open>
  Cancelling a recall puts a lot back on sale although another draft still quarantines it: the
  other recall stays a DRAFT that names the lot, and the lot is ACTIVE.
\<close>

theorem cancel_releases_lot_of_other_draft:
  assumes s: "sys_inv s" "lots_placed s" and who: "au_role actor = COOP_ADMIN"
    and r: "find_recall i s = Some r" "rc_status r = RecallDRAFT" "distinct (map rcl_lotId (rc_lots r))"
    and other: "i \<noteq> j" "find_recall j s = Some q" "rc_status q = RecallDRAFT"
    and lot: "k \<in> rcl_lotId ` set (rc_lots r)" "k \<in> rcl_lotId ` set (rc_lots q)"
      "find_lot k s = Some l" "l_status l = LotQUARANTINED"
  shows "\<exists>t r'. cancelRecall dev now actor i s s = Inr (t, r') \<and> find_recall j t = Some q
    \<and> find_lot k t = Some (l\<lparr>l_status := LotACTIVE\<rparr>)"
proof -
  obtain t r' where t: "cancelRecall dev now actor i s s = Inr (t, r')" "\<forall>j. j \<noteq> i \<longrightarrow> find_recall j t = find_recall j s"
    "db_lots t = map (\<lambda>l. if l_id l \<in> rcl_lotId ` set (rc_lots r) \<and> l_status l = LotQUARANTINED
                       then l\<lparr>l_status := LotACTIVE\<rparr> else l) (db_lots s)"
    using cancelRecall_ok [OF s who r, of dev now] by blast
  have look: "find_row l_id k (map f ls) = map_option f (find_row l_id k ls)"
    if "\<And>l. l_id (f l) = l_id l" for f :: "lot \<Rightarrow> lot" and ls
    using that by (induction ls) auto
  have id: "l_id l = k" using lot(3) find_row_SomeD [of l_id k "db_lots s" l] by (simp add: find_lot_def)
  have "find_lot k t = Some (l\<lparr>l_status := LotACTIVE\<rparr>)"
    using lot look [of "\<lambda>l. if l_id l \<in> rcl_lotId ` set (rc_lots r) \<and> l_status l = LotQUARANTINED
        then l\<lparr>l_status := LotACTIVE\<rparr> else l" "db_lots s"] id
    by (simp add: find_lot_def t(3))
  then show ?thesis using t(1,2) other(1,2) by metis
qed

text \<open>
  A cancellation that read the recall before an activation committed overrides it. The
  transaction does not look at the status again: it succeeds, the goods stay written off and the
  notifications created, and the recall ends CANCELLED.
\<close>

theorem cancel_overrides_activation:
  assumes s: "sys_inv s0" "lots_placed s0" and who: "au_role actor = COOP_ADMIN"
    and r: "find_recall i s0 = Some r" "rc_status r = RecallDRAFT" "distinct (map rcl_lotId (rc_lots r))"
      "rc_notifications r = []"
    and lots: "\<forall>rl \<in> set (rc_lots r). \<exists>l. find_lot (rcl_lotId rl) s0 = Some l \<and> l_status l \<noteq> LotACTIVE"
  shows "\<exists>s a t r'. activateRecall dev now rowId actor i notice s0 s0 = Inr (s, a)
    \<and> cancelRecall dev later actor i s0 s = Inr (t, r')
    \<and> rc_status (at_recall a) = RecallACTIVE \<and> rc_status r' = RecallCANCELLED
    \<and> rc_notifications r' = rc_notifications (at_recall a)
    \<and> find_recall i t = Some r' \<and> db_lots t = db_lots s"
proof -
  obtain s a where a: "activateRecall dev now rowId actor i notice s0 s0 = Inr (s, a)" "sys_inv s"
    "map product_key (db_products s) = map product_key (db_products s0)"
    "find_recall i s = Some (at_recall a)" "rc_status (at_recall a) = RecallACTIVE"
    "db_lots s = map (\<lambda>l. if l_id l \<in> rcl_lotId ` set (rc_lots r)
                       then l\<lparr>l_quantityRemaining := 0, l_status := LotRECALLED\<rparr> else l) (db_lots s0)"
    using activateRecall_ok [OF assms, of dev now rowId notice] by blast
  let ?ret = "filter (\<lambda>l. l_status l = LotQUARANTINED) (recalled_lots r s0)"
  let ?prods = "lockProducts (map l_productId ?ret) s" and ?locked = "lockLots (map l_id ?ret) s"
  have noop: "return_one dev ?prods ?locked l u = Inr u" if l: "l \<in> set ?ret" for l u
  proof -
    have l0: "l \<in> set (db_lots s0)" "l_id l \<in> rcl_lotId ` set (rc_lots r)"
      using l by (auto simp: recalled_lots_def)
    let ?k = "l\<lparr>l_quantityRemaining := 0, l_status := LotRECALLED\<rparr>"
    have "?k \<in> set (db_lots s)" unfolding a(6) using l0 by (auto simp: image_iff intro!: bexI [of _ l])
    moreover have "l_id ?k \<noteq> []" using sys_invD(6) [OF s(1) l0(1)] by simp
    ultimately have "?k \<in> set ?locked" using l by (auto simp: set_lockLots)
    then have k: "find_row l_id (l_id l) ?locked = Some ?k"
      using distinct_lockLots [OF sys_invD(7) [OF a(2)], of "map l_id ?ret"] by (simp add: find_row_eq_Some_iff)
    obtain p0 :: product where p0: "p0 \<in> set (db_products s0)" "p_id p0 = l_productId l" "p_id p0 \<noteq> []"
      using placed_product [OF s(2) l0(1)] by metis
    have "p_id p0 \<in> set (map p_id (db_products s))"
      using p0(1) map_product_key_id [OF a(3)] by simp
    then obtain p :: product where p: "p \<in> set (db_products s)" "p_id p = l_productId l" "p_id p \<noteq> []"
      using p0(2,3) by auto
    then have "p \<in> set ?prods" using l by (auto simp: set_lockProducts)
    then have q: "find_row p_id (l_productId l) ?prods = Some p"
      using distinct_lockProducts [OF sys_invD(8) [OF a(2)], of "map l_productId ?ret"] p(2)
      by (simp add: find_row_eq_Some_iff)
    have "assertLotOps dev p [?k] [l_id ?k] = Inr ()" by (rule assertLotOps_one) (simp add: p(2))
    then show ?thesis unfolding return_one_def k q by (simp add: returnToSellableRollup_def)
  qed
  have loop: "forE ?ret (return_one dev ?prods ?locked) s = Inr s"
    by (rule forE_noop) (rule noop)
  let ?f = "\<lambda>r. r\<lparr>rc_status := RecallCANCELLED, rc_closedAt := Some later, rc_updatedAt := later\<rparr>"
  let ?v = "s\<lparr>db_recalls := upd_row rc_id i ?f (db_recalls s)\<rparr>"
  have up: "recall_update i ?f s = Inr ?v" "find_recall i ?v = Some (?f (at_recall a))"
    using find_recall_update [of i s "at_recall a" s ?f] a(4) by simp_all
  define t where "t = writeAuditLog (Some (au_id actor)) None ''RECALL_CANCEL'' ''Recall'' (Some i) ?v"
  have ft: "find_recall i t = Some (?f (at_recall a))" using up(2) by (simp add: find_recall_def t_def)
  have run: "cancelRecall dev later actor i s0 s = Inr (t, ?f (at_recall a))"
    unfolding cancelRecall_def Let_def
    using who r(1,2) loop up(1) ft by (simp add: assertCoopAdmin_def t_def)
  show ?thesis
    by (rule exI [of _ s], rule exI [of _ a], rule exI [of _ t], rule exI [of _ "?f (at_recall a)"],
        intro conjI a(1,5) run ft) (simp_all add: t_def)
qed


section \<open>The properties on a small shop\<close>

definition ex_coop :: auth_user where
  "ex_coop = ex_admin\<lparr>au_role := COOP_ADMIN\<rparr>"

definition ex_initiate :: "ident list \<Rightarrow> initiate_input" where
  "ex_initiate ids = \<lparr>ii_lotIds = ids, ii_reason = ''listeria'', ii_severity = MANDATORY, ii_publicNotice = None\<rparr>"

definition ex_draft :: "ident \<Rightarrow> db \<Rightarrow> db" where
  "ex_draft i s = (case initiateRecall True 0 i (\<lambda>l. i @ l) ex_coop (ex_initiate [''L1'']) s of
      Inl e \<Rightarrow> s | Inr (t, r) \<Rightarrow> t)"

lemma shop_placed: "lots_placed ex_db"
  by code_simp

lemma ex_draft_ok:
  assumes "sys_inv s" "lots_placed s" "\<exists>l. find_lot ''L1'' s = Some l \<and> recallable l = Inr ()"
    "i \<notin> rc_id ` set (db_recalls s)" "nextRecallNumber 0 s \<notin> rc_recallNumber ` set (db_recalls s)"
  shows "sys_inv (ex_draft i s) \<and> lots_placed (ex_draft i s)"
proof -
  have "trim (ii_reason (ex_initiate [''L1''])) \<noteq> []" by code_simp
  then obtain t r where "initiateRecall True 0 i (\<lambda>l. i @ l) ex_coop (ex_initiate [''L1'']) s = Inr (t, r)"
      "sys_inv t" "lots_placed t"
    using initiateRecall_ok [of s ex_coop "ex_initiate [''L1'']" i 0 True "\<lambda>l. i @ l"] assms
    by (auto simp: ex_initiate_def ex_coop_def)
  then show ?thesis by (simp add: ex_draft_def)
qed

definition "ex_one = ex_draft ''R1'' ex_db"
definition "ex_two = ex_draft ''R2'' ex_one"

lemma ex_one_ok: "sys_inv ex_one" "lots_placed ex_one"
proof -
  have "find_lot ''L1'' ex_db = Some (ex_lot ''L1'' ''P1'' (Some 100) 3)"
    "recallable (ex_lot ''L1'' ''P1'' (Some 100) 3) = Inr ()" by code_simp+
  then have "sys_inv (ex_draft ''R1'' ex_db) \<and> lots_placed (ex_draft ''R1'' ex_db)"
    by (intro ex_draft_ok [OF ex_db_inv shop_placed]) (auto simp: ex_db_def empty_db_def)
  then show "sys_inv ex_one" "lots_placed ex_one" by (simp_all add: ex_one_def)
qed

lemma ex_two_ok: "sys_inv ex_two" "lots_placed ex_two"
proof -
  have "\<exists>l. find_lot ''L1'' ex_one = Some l \<and> recallable l = Inr ()"
    by (rule exI [of _ "(ex_lot ''L1'' ''P1'' (Some 100) 3)\<lparr>l_status := LotQUARANTINED\<rparr>"]) code_simp
  moreover have "''R2'' \<notin> rc_id ` set (db_recalls ex_one)"
    "nextRecallNumber 0 ex_one \<notin> rc_recallNumber ` set (db_recalls ex_one)" by code_simp+
  ultimately have "sys_inv (ex_draft ''R2'' ex_one) \<and> lots_placed (ex_draft ''R2'' ex_one)"
    by (intro ex_draft_ok [OF ex_one_ok])
  then show "sys_inv ex_two" "lots_placed ex_two" by (simp_all add: ex_two_def)
qed

definition ex_recall :: "ident \<Rightarrow> string \<Rightarrow> recall" where
  "ex_recall i n =
     \<lparr>rc_id = i, rc_recallNumber = n, rc_initiatedByUserId = ''U1'', rc_initiatedAt = 0,
      rc_reason = ''listeria'', rc_severity = MANDATORY, rc_status = RecallDRAFT, rc_publicNotice = None,
      rc_regulatorNotifiedAt = None, rc_closedAt = None, rc_updatedAt = 0,
      rc_lots = [\<lparr>rcl_id = i @ ''L1'', rcl_lotId = ''L1'', rcl_quantityAtRecall = 3,
        rcl_quantityRecovered = 0, rcl_quantityDisposed = 0\<rparr>],
      rc_notifications = []\<rparr>"

lemma ex_rows:
  "find_recall ''R1'' ex_two = Some (ex_recall ''R1'' ''REC-19700101-0001'')"
  "find_recall ''R2'' ex_two = Some (ex_recall ''R2'' ''REC-19700101-0002'')"
  "find_lot ''L1'' ex_two = Some ((ex_lot ''L1'' ''P1'' (Some 100) 3)\<lparr>l_status := LotQUARANTINED\<rparr>)"
  by code_simp+

lemma initiateRecall_stops_sale_witness:
  "\<exists>t r. initiateRecall True 0 ''R1'' id ex_coop (ex_initiate [''L1'']) ex_db = Inr (t, r) \<and> sys_inv t"
proof -
  have "find_lot ''L1'' ex_db = Some (ex_lot ''L1'' ''P1'' (Some 100) 3)"
    "recallable (ex_lot ''L1'' ''P1'' (Some 100) 3) = Inr ()"
    "trim (ii_reason (ex_initiate [''L1''])) \<noteq> []" by code_simp+
  then show ?thesis
    using initiateRecall_stops_sale [OF ex_db_inv shop_placed, of ex_coop "ex_initiate [''L1'']" "''R1''" 0 True id]
    by (auto simp: ex_coop_def ex_initiate_def ex_db_def empty_db_def)
qed

lemma cancelRecall_returns_lots_witness:
  "\<exists>t r'. cancelRecall True 9 ex_coop ''R1'' ex_two ex_two = Inr (t, r') \<and> sys_inv t
     \<and> map l_status (db_lots t) = [LotACTIVE, LotACTIVE, LotACTIVE]"
proof -
  have "map l_status (map (\<lambda>l. if l_id l \<in> rcl_lotId ` set (rc_lots (ex_recall ''R1'' ''REC-19700101-0001''))
          \<and> l_status l = LotQUARANTINED then l\<lparr>l_status := LotACTIVE\<rparr> else l) (db_lots ex_two))
      = [LotACTIVE, LotACTIVE, LotACTIVE]" by code_simp
  then show ?thesis
    using cancelRecall_returns_lots [OF ex_two_ok _ ex_rows(1), of ex_coop True 9]
    by (fastforce simp: ex_coop_def ex_recall_def)
qed

lemma initiate_cancel_roundtrip_witness:
  "\<exists>t r u r'. initiateRecall True 0 ''R1'' id ex_coop (ex_initiate [''L1'']) ex_db = Inr (t, r)
     \<and> cancelRecall True 9 ex_coop ''R1'' t t = Inr (u, r') \<and> db_lots u = db_lots ex_db"
proof -
  have "find_lot ''L1'' ex_db = Some (ex_lot ''L1'' ''P1'' (Some 100) 3)"
    "l_status (ex_lot ''L1'' ''P1'' (Some 100) 3) = LotACTIVE"
    "l_quantityReserved (ex_lot ''L1'' ''P1'' (Some 100) 3) = 0"
    "trim (ii_reason (ex_initiate [''L1''])) \<noteq> []" by code_simp+
  then show ?thesis
    using initiate_cancel_roundtrip [OF ex_db_inv shop_placed, of ex_coop "ex_initiate [''L1'']" "''R1''" 0 True id 9]
    by (fastforce simp: ex_coop_def ex_initiate_def ex_db_def empty_db_def)
qed

lemma activateRecall_accounts_witness:
  "\<exists>t a. activateRecall True 9 (\<lambda>i c. i) ex_coop ''R1'' None ex_two ex_two = Inr (t, a)
     \<and> sys_inv t \<and> at_unitsWrittenOff a = 3"
proof -
  have "sum_list (map l_quantityRemaining (recalled_lots (ex_recall ''R1'' ''REC-19700101-0001'') ex_two)) = 3"
    by code_simp
  then show ?thesis
    using activateRecall_accounts [OF ex_two_ok _ ex_rows(1), of ex_coop True 9 "\<lambda>i c. i" None] ex_rows(3)
    by (fastforce simp: ex_coop_def ex_recall_def)
qed

text \<open>The shop after a second recall of the same lot was cancelled.\<close>

definition "ex_released = ex_db\<lparr>db_recalls := [ex_recall ''R2'' ''REC-19700101-0002'']\<rparr>"

lemma ex_released_ok: "sys_inv ex_released" "lots_placed ex_released"
  by (rule sys_inv_cong [OF ex_db_inv], simp_all add: ex_released_def)
    (use shop_placed in \<open>simp add: lots_placed_def\<close>)

lemma activation_of_lot_on_sale_breaks_rollup_witness:
  "\<exists>t a. activate_tx True 9 (\<lambda>i c. i) ex_coop ''R2'' None
       \<lparr>ri_recallId = ''R2'', ri_recallNumber = [], ri_status = RecallDRAFT, ri_affectedMembers = [],
        ri_unitsSold = 0, ri_unitsOnShelves = 0, ri_storesInvolved = [], ri_exposure = 0, ri_saleIds = []\<rparr> ex_released
     = Inr (t, a) \<and> \<not> rollup_ok t"
proof -
  let ?im = "\<lparr>ri_recallId = ''R2'', ri_recallNumber = [], ri_status = RecallDRAFT, ri_affectedMembers = [],
        ri_unitsSold = 0, ri_unitsOnShelves = 0, ri_storesInvolved = [], ri_exposure = 0, ri_saleIds = []\<rparr>"
  have "case activate_tx True 9 (\<lambda>i c. i) ex_coop ''R2'' None ?im ex_released of Inl e \<Rightarrow> False | Inr x \<Rightarrow> True"
    by code_simp
  then obtain t a where run: "activate_tx True 9 (\<lambda>i c. i) ex_coop ''R2'' None ?im ex_released = Inr (t, a)"
    by (cases "activate_tx True 9 (\<lambda>i c. i) ex_coop ''R2'' None ?im ex_released") auto
  have rows: "find_recall ''R2'' ex_released = Some (ex_recall ''R2'' ''REC-19700101-0002'')"
    "find_lot ''L1'' ex_released = Some (ex_lot ''L1'' ''P1'' (Some 100) 3)" by code_simp+
  have "\<not> rollup_ok t"
    using activation_of_lot_on_sale_breaks_rollup [OF ex_released_ok run rows(1), of "hd (rc_lots (ex_recall ''R2'' []))"
        "ex_lot ''L1'' ''P1'' (Some 100) 3"] rows(2)
    by (simp add: ex_recall_def ex_lot_def)
  then show ?thesis using run by blast
qed

lemma cancel_releases_lot_of_other_draft_witness:
  "\<exists>t r'. cancelRecall True 9 ex_coop ''R1'' ex_two ex_two = Inr (t, r')
     \<and> find_recall ''R2'' t = Some (ex_recall ''R2'' ''REC-19700101-0002'')
     \<and> find_lot ''L1'' t = Some (ex_lot ''L1'' ''P1'' (Some 100) 3)"
  using cancel_releases_lot_of_other_draft [OF ex_two_ok _ ex_rows(1) _ _ _ ex_rows(2) _ _ _ ex_rows(3), of ex_coop True 9]
  by (simp add: ex_coop_def ex_recall_def ex_lot_def)

lemma cancel_overrides_activation_witness:
  "\<exists>s a t r'. activateRecall True 5 (\<lambda>i c. i) ex_coop ''R1'' None ex_two ex_two = Inr (s, a)
     \<and> cancelRecall True 9 ex_coop ''R1'' ex_two s = Inr (t, r') \<and> rc_status r' = RecallCANCELLED"
  using cancel_overrides_activation [OF ex_two_ok _ ex_rows(1), of ex_coop True 5 "\<lambda>i c. i" None 9] ex_rows(3)
  by (fastforce simp: ex_coop_def ex_recall_def)

end
