(* ===== verification/Barcode.thy ===== *)
theory Barcode
  imports Js_Base Locks Stock_Engine
begin

text \<open>
  Barcodes: the normal form of a scanned code, check digits and GS1 element strings
  (\<open>backend/src/lib/barcode.ts\<close>), and the registration and lookup of codes in a store
  (\<open>backend/src/services/barcode.service.ts\<close>). Codes are ASCII strings. The advisory lock of a
  store makes registrations run one after the other, so a registration is one step.
\<close>

section \<open>Normal form\<close>

definition code_of :: "char \<Rightarrow> nat" where
  "code_of c = of_char c"

definition GS :: char where
  "GS = char_of (29 :: nat)"

definition upper_char :: "char \<Rightarrow> char" where
  "upper_char c = (if code_of c \<ge> 97 \<and> code_of c \<le> 122 then char_of (code_of c - 32) else c)"

definition toUpperCase :: "string \<Rightarrow> string" where
  "toUpperCase s = map upper_char s"

definition is_letter :: "char \<Rightarrow> bool" where
  "is_letter c \<longleftrightarrow> (code_of c \<ge> 65 \<and> code_of c \<le> 90) \<or> (code_of c \<ge> 97 \<and> code_of c \<le> 122)"

text \<open>\<open>/^\d+$/\<close>\<close>

definition all_digits :: "string \<Rightarrow> bool" where
  "all_digits s \<longleftrightarrow> s \<noteq> [] \<and> list_all is_digit s"

text \<open>\<open>AIM_PREFIX\<close>: a closing bracket, a letter, a letter or digit.\<close>

fun aim_prefix :: "string \<Rightarrow> string option" where
  "aim_prefix (a # b # c # s) =
     (if a = CHR '']'' \<and> is_letter b \<and> (is_letter c \<or> is_digit c) then Some [a, b, c] else None)"
| "aim_prefix s = None"

definition GS1_SYMBOLOGIES :: "string list" where
  "GS1_SYMBOLOGIES = ['']C1'', '']E0'', '']D2'', '']Q3'']"

definition is_control :: "char \<Rightarrow> bool" where
  "is_control c \<longleftrightarrow> code_of c \<le> 28 \<or> code_of c = 30 \<or> code_of c = 31 \<or> code_of c = 127"

record normalized_barcode =
  nb_code :: string
  nb_symbology :: "string option"

definition pad_gtin :: "string \<Rightarrow> string" where
  "pad_gtin s =
     (if all_digits s \<and> (length s = 12 \<or> length s = 13 \<or> length s = 14) then padStart 14 CHR ''0'' s else s)"

definition normalizeBarcode :: "string \<Rightarrow> normalized_barcode" where
  "normalizeBarcode raw =
     (let s = trim raw;
          symbology = aim_prefix s;
          s = (case symbology of None \<Rightarrow> s | Some aim \<Rightarrow> drop (length aim) s);
          s = toUpperCase (trim (filter (\<lambda>c. \<not> is_control c) s))
      in \<lparr>nb_code = pad_gtin s, nb_symbology = symbology\<rparr>)"

section \<open>Check digits\<close>

definition digit_val :: "char \<Rightarrow> int" where
  "digit_val c = int (code_of c) - 48"

text \<open>Digits from the right, weighted 3, 1, 3, 1, and so on.\<close>

fun weighted :: "int \<Rightarrow> string \<Rightarrow> int" where
  "weighted w [] = 0"
| "weighted w (c # cs) = digit_val c * w + weighted (4 - w) cs"

definition gtinCheckDigitValid :: "string \<Rightarrow> bool" where
  "gtinCheckDigitValid ds =
     (if \<not> all_digits ds \<or> length ds < 8 then False
      else (10 - weighted 3 (rev (butlast ds)) mod 10) mod 10 = digit_val (last ds))"

text \<open>UPC-E to UPC-A; the last of the six body digits says where the zeros were dropped.\<close>

definition expandUpcE :: "string \<Rightarrow> string option" where
  "expandUpcE code =
     (if length code = 8 \<and> all_digits code \<and> hd code \<in> set ''01'' then
        let ns = code ! 0; d = take 6 (drop 1 code); check = code ! 7; last = d ! 5;
            body =
              (if last \<in> set ''012'' then [d ! 0, d ! 1, last] @ ''0000'' @ [d ! 2, d ! 3, d ! 4]
               else if last = CHR ''3'' then [d ! 0, d ! 1, d ! 2] @ ''00000'' @ [d ! 3, d ! 4]
               else if last = CHR ''4'' then [d ! 0, d ! 1, d ! 2, d ! 3] @ ''00000'' @ [d ! 4]
               else [d ! 0, d ! 1, d ! 2, d ! 3, d ! 4] @ ''0000'' @ [last]);
            upcA = [ns] @ body @ [check]
        in if gtinCheckDigitValid upcA then Some upcA else None
      else None)"

definition isValidGtin :: "string \<Rightarrow> bool" where
  "isValidGtin code =
     (if \<not> all_digits code then False
      else if length code = 14 then gtinCheckDigitValid code
      else if length code = 8 then gtinCheckDigitValid code \<or> expandUpcE code \<noteq> None
      else False)"

definition lookupCandidates :: "string \<Rightarrow> string list" where
  "lookupCandidates code =
     [code] @ (if length code = 8 then
                 (case expandUpcE code of None \<Rightarrow> [] | Some upcA \<Rightarrow> [padStart 14 CHR ''0'' upcA])
               else [])"

section \<open>GS1 element strings\<close>

record gs1_data =
  g_gtin :: "string option"
  g_lot :: "string option"
  g_expiry :: "string option"
  g_bestBefore :: "string option"
  g_serial :: "string option"

text \<open>The application identifiers of fixed length, and the greatest length of the others.\<close>

definition FIXED_AI_LENGTH :: "string \<Rightarrow> nat option" where
  "FIXED_AI_LENGTH = map_of
     [(''00'', 18), (''01'', 14), (''02'', 14), (''11'', 6), (''13'', 6), (''15'', 6), (''16'', 6), (''17'', 6)]"

definition VARIABLE_AI_MAX :: "string \<Rightarrow> nat option" where
  "VARIABLE_AI_MAX = map_of [(''10'', 20), (''21'', 20), (''30'', 8), (''37'', 8)]"

text \<open>\<open>YYMMDD\<close>; day 00 is the last day of the month, a day beyond the month is no date.\<close>

definition gs1Date :: "string \<Rightarrow> string option" where
  "gs1Date yymmdd =
     (if length yymmdd = 6 \<and> all_digits yymmdd then
        let year = 2000 + the (parse_digits (take 2 yymmdd));
            month = the (parse_digits (take 2 (drop 2 yymmdd)));
            day0 = the (parse_digits (take 2 (drop 4 yymmdd)))
        in if month < 1 \<or> month > 12 then None
           else
             let day = (if day0 = 0 then snd (snd (utc_date (date_utc year (month + 1) 0))) else day0);
                 d = date_utc year month day
             in if fst (snd (utc_date d)) \<noteq> month then None else Some (iso_day d)
      else None)"

type_synonym gs1_fields = "(string \<times> string) list"

text \<open>\<open>fields.set\<close> puts the pair in front, so a lookup finds the last value set.\<close>

definition toGs1Data :: "gs1_fields \<Rightarrow> gs1_data option" where
  "toGs1Data fs =
     (let gtin = (case map_of fs ''01'' of Some v \<Rightarrow> Some v | None \<Rightarrow> map_of fs ''02'') in
      if (case gtin of None \<Rightarrow> False | Some g \<Rightarrow> \<not> gtinCheckDigitValid g) then None
      else
        let data = \<lparr>g_gtin = gtin, g_lot = map_of fs ''10'',
              g_expiry = (case map_of fs ''17'' of None \<Rightarrow> None | Some v \<Rightarrow> gs1Date v),
              g_bestBefore = (case map_of fs ''15'' of None \<Rightarrow> None | Some v \<Rightarrow> gs1Date v),
              g_serial = map_of fs ''21''\<rparr>
        in if truthy (g_gtin data) \<or> truthy (g_lot data) then Some data else None)"

text \<open>
  The printed form: every \<open>(ai)value\<close> with an identifier of two to four digits; text that is no
  such group is passed over.
\<close>

function paren_fields :: "string \<Rightarrow> gs1_fields \<Rightarrow> gs1_fields" where
  "paren_fields s fs =
     (case s of
        [] \<Rightarrow> fs
      | c # rest \<Rightarrow>
          let ai = takeWhile is_digit rest; after = drop (length ai) rest in
          if c = CHR ''('' \<and> 2 \<le> length ai \<and> length ai \<le> 4 \<and> after \<noteq> [] \<and> hd after = CHR '')'' then
            let v = takeWhile (\<lambda>c. c \<noteq> CHR ''('') (tl after)
            in paren_fields (drop (length v) (tl after)) ((ai, filter (\<lambda>c. c \<noteq> GS) v) # fs)
          else paren_fields rest fs)"
  by pat_completeness auto

termination
  by (relation "measure (length \<circ> fst)") auto

declare paren_fields.simps [simp del]

text \<open>
  The scanned form. A field of variable length ends at the next separator or at the end of the data;
  what exceeds its greatest length is dropped. An unknown identifier ends the reading.
\<close>

function raw_fields :: "string \<Rightarrow> gs1_fields \<Rightarrow> gs1_fields option" where
  "raw_fields s fs =
     (if s = [] then Some fs
      else if hd s = GS then raw_fields (tl s) fs
      else
        let ai = take 2 s in
        case FIXED_AI_LENGTH ai of
          Some fixed \<Rightarrow>
            let v = take fixed (drop 2 s) in
            if length v \<noteq> fixed \<or> \<not> all_digits v then None
            else raw_fields (drop (2 + fixed) s) ((ai, v) # fs)
        | None \<Rightarrow>
            (case VARIABLE_AI_MAX ai of
               None \<Rightarrow> Some fs
             | Some m \<Rightarrow>
                 let v = takeWhile (\<lambda>c. c \<noteq> GS) (drop 2 s)
                 in raw_fields (drop (2 + length v) s) ((ai, take m v) # fs)))"
  by pat_completeness auto

termination
  by (relation "measure (length \<circ> fst)") auto

declare raw_fields.simps [simp del]

definition parseGs1 :: "string \<Rightarrow> gs1_data option" where
  "parseGs1 raw =
     (let n = normalizeBarcode raw; code = nb_code n in
      if code \<noteq> [] \<and> hd code = CHR ''('' then
        let fs = paren_fields code [] in if fs = [] then None else toGs1Data fs
      else
        let declaredGs1 = (case nb_symbology n of None \<Rightarrow> False | Some y \<Rightarrow> toUpperCase y \<in> set GS1_SYMBOLOGIES)
              \<or> GS \<in> set code;
            looksGs1 = (take 2 code \<in> {''01'', ''02''} \<and> length code \<ge> 16 \<and> all_digits (take 14 (drop 2 code)))
        in if \<not> declaredGs1 \<and> \<not> looksGs1 then None
           else case raw_fields code [] of
                  None \<Rightarrow> None
                | Some fs \<Rightarrow> if fs = [] then None else toGs1Data fs)"

section \<open>Registered codes\<close>

datatype barcode_kind = KindGTIN | KindINTERNAL

record product_barcode =
  pb_id :: ident
  pb_storeId :: ident
  pb_productId :: ident
  pb_code :: string
  pb_kind :: barcode_kind
  pb_label :: "string option"
  pb_createdByUserId :: "ident option"
  pb_createdAt :: time

text \<open>The tables a registration touches: the shop's database and its product barcodes.\<close>

record barcode_db =
  bd_db :: db
  bd_barcodes :: "product_barcode list"

definition assertBarcodeAdmin :: "auth_user \<Rightarrow> unit result" where
  "assertBarcodeAdmin actor =
     (if au_role actor \<noteq> STORE_ADMIN \<and> au_role actor \<noteq> COOP_ADMIN
      then Inl (AppError 403 ''Only STORE_ADMIN or COOP_ADMIN can manage barcodes'') else Inr ())"

definition MAX_CODE_LENGTH :: nat where
  "MAX_CODE_LENGTH = 80"

definition normalizeForStorage :: "string \<Rightarrow> string result" where
  "normalizeForStorage raw =
     (let code = nb_code (normalizeBarcode raw) in
      if code = [] then Inl (AppError 400 ''Barcode is empty'')
      else if length code > MAX_CODE_LENGTH then Inl (AppError 400 ''Barcode is longer than 80 characters'')
      else Inr code)"

text \<open>Prisma's case-insensitive comparison.\<close>

definition same_text :: "string \<Rightarrow> string \<Rightarrow> bool" where
  "same_text a b \<longleftrightarrow> toLowerCase a = toLowerCase b"

text \<open>\<open>except.productId\<close> and \<open>except.lotId\<close> name the row that may own the code.\<close>

definition assertBarcodeFree ::
  "ident \<Rightarrow> string \<Rightarrow> ident option \<Rightarrow> ident option \<Rightarrow> barcode_db \<Rightarrow> unit result" where
  "assertBarcodeFree storeId code exceptProduct exceptLot s =
     (if \<exists>b \<in> set (bd_barcodes s). pb_storeId b = storeId \<and> pb_code b = code
      then Inl (AppError 409 ''This barcode is already registered to a product'')
      else if \<exists>l \<in> set (db_lots (bd_db s)). l_storeId l = storeId \<and> l_barcode l = Some code
          \<and> (truthy exceptLot \<longrightarrow> l_id l \<noteq> the exceptLot)
      then Inl (AppError 409 ''This barcode is already a lot label'')
      else if \<exists>p \<in> set (db_products (bd_db s)). p_storeId p = storeId \<and> same_text (p_sku p) code
          \<and> (truthy exceptProduct \<longrightarrow> p_id p \<noteq> the exceptProduct)
      then Inl (AppError 409 ''This barcode is another product's SKU; a scan would be ambiguous'')
      else Inr ())"

definition claimLotBarcode :: "ident \<Rightarrow> string \<Rightarrow> ident option \<Rightarrow> barcode_db \<Rightarrow> string result" where
  "claimLotBarcode storeId raw exceptLot s =
     bindE (normalizeForStorage raw) (\<lambda>code.
     bindE (assertBarcodeFree storeId code None exceptLot s) (\<lambda>_. Inr code))"

section \<open>Looking a scan up\<close>

datatype matched_by = LOT_BARCODE | GS1 | PRODUCT_BARCODE | SKU | LOT_NUMBER

record barcode_match =
  bm_matchedBy :: matched_by
  bm_product :: product
  bm_lot :: "lot option"

record barcode_lookup =
  bl_raw :: string
  bl_code :: string
  bl_gs1 :: "gs1_data option"
  bl_matches :: "barcode_match list"

definition match_key :: "barcode_match \<Rightarrow> ident \<times> ident" where
  "match_key m = (p_id (bm_product m), case bm_lot m of None \<Rightarrow> [] | Some l \<Rightarrow> l_id l)"

definition push_match :: "barcode_match \<Rightarrow> barcode_match list \<Rightarrow> barcode_match list" where
  "push_match m ms = (if match_key m \<in> match_key ` set ms then ms else ms @ [m])"

text \<open>A row and the product its foreign key names.\<close>

definition with_product :: "db \<Rightarrow> ident \<Rightarrow> (product \<Rightarrow> barcode_match) \<Rightarrow> barcode_match list" where
  "with_product s pid f = (case find_product pid s of None \<Rightarrow> [] | Some p \<Rightarrow> [f p])"

definition lot_matches :: "matched_by \<Rightarrow> db \<Rightarrow> lot list \<Rightarrow> barcode_match list" where
  "lot_matches how s ls =
     concat (map (\<lambda>l. with_product s (l_productId l)
       (\<lambda>p. \<lparr>bm_matchedBy = how, bm_product = p, bm_lot = Some l\<rparr>)) ls)"

text \<open>The product a GTIN of an element string names, with the lot of its batch number when known.\<close>

definition gs1_matches :: "ident \<Rightarrow> gs1_data option \<Rightarrow> barcode_db \<Rightarrow> barcode_match list" where
  "gs1_matches storeId gs1 s =
     (case gs1 of
        None \<Rightarrow> []
      | Some g \<Rightarrow>
          if truthy (g_gtin g) then
            (case List.find (\<lambda>b. pb_storeId b = storeId
                 \<and> pb_code b \<in> set (lookupCandidates (nb_code (normalizeBarcode (the (g_gtin g)))))) (bd_barcodes s) of
               None \<Rightarrow> []
             | Some owner \<Rightarrow>
                 with_product (bd_db s) (pb_productId owner)
                   (\<lambda>p. \<lparr>bm_matchedBy = GS1, bm_product = p,
                          bm_lot = (if truthy (g_lot g)
                            then List.find (\<lambda>l. l_storeId l = storeId \<and> l_productId l = p_id p
                                   \<and> same_text (l_lotNumber l) (the (g_lot g))) (db_lots (bd_db s))
                            else None)\<rparr>))
          else [])"

definition barcode_matches :: "ident \<Rightarrow> string \<Rightarrow> barcode_db \<Rightarrow> barcode_match list" where
  "barcode_matches storeId code s =
     concat (map (\<lambda>b. with_product (bd_db s) (pb_productId b)
         (\<lambda>p. \<lparr>bm_matchedBy = PRODUCT_BARCODE, bm_product = p, bm_lot = None\<rparr>))
       (filter (\<lambda>b. pb_storeId b = storeId \<and> pb_code b \<in> set (lookupCandidates code)) (bd_barcodes s)))"

definition sku_matches :: "ident \<Rightarrow> string \<Rightarrow> db \<Rightarrow> barcode_match list" where
  "sku_matches storeId code s =
     map (\<lambda>p. \<lparr>bm_matchedBy = SKU, bm_product = p, bm_lot = None\<rparr>)
       (filter (\<lambda>p. p_storeId p = storeId \<and> same_text (p_sku p) code) (db_products s))"

definition lookupBarcode :: "ident \<Rightarrow> string \<Rightarrow> barcode_db \<Rightarrow> barcode_lookup result" where
  "lookupBarcode storeId raw s =
     (let code = nb_code (normalizeBarcode raw); d = bd_db s in
      if code = [] then Inl (AppError 400 ''Barcode is empty'')
      else
        let gs1 = parseGs1 raw;
            byLot = lot_matches LOT_BARCODE d
              (take 1 (filter (\<lambda>l. l_storeId l = storeId \<and> l_barcode l = Some code) (db_lots d)));
            matches = fold push_match
              (byLot @ gs1_matches storeId gs1 s @ barcode_matches storeId code s @ sku_matches storeId code d) [];
            matches = (if matches = []
              then fold push_match (lot_matches LOT_NUMBER d (take 20
                     (filter (\<lambda>l. l_storeId l = storeId \<and> same_text (l_lotNumber l) code) (db_lots d)))) []
              else matches)
        in Inr \<lparr>bl_raw = raw, bl_code = code, bl_gs1 = gs1, bl_matches = matches\<rparr>)"

section \<open>Registering\<close>

definition loadProductInStore :: "ident \<Rightarrow> ident \<Rightarrow> barcode_db \<Rightarrow> unit result" where
  "loadProductInStore storeId productId s =
     (case find_product productId (bd_db s) of
        None \<Rightarrow> Inl (AppError 404 ''Product not found'')
      | Some p \<Rightarrow> if p_storeId p \<noteq> storeId then Inl (AppError 404 ''Product not found'') else Inr ())"

definition listProductBarcodes :: "ident \<Rightarrow> ident \<Rightarrow> barcode_db \<Rightarrow> product_barcode list result" where
  "listProductBarcodes storeId productId s =
     bindE (loadProductInStore storeId productId s) (\<lambda>_.
     Inr (sort_key pb_createdAt (filter (\<lambda>b. pb_productId b = productId) (bd_barcodes s))))"

record barcode_input =
  bi_code :: string
  bi_kind :: "barcode_kind option"
  bi_label :: "string option"

definition stored_code :: "barcode_kind \<Rightarrow> string \<Rightarrow> string" where
  "stored_code kind code =
     (if kind = KindGTIN \<and> length code = 8 then last (lookupCandidates code) else code)"

definition addProductBarcode ::
  "time \<Rightarrow> ident \<Rightarrow> auth_user \<Rightarrow> ident \<Rightarrow> ident \<Rightarrow> barcode_input \<Rightarrow> barcode_db \<Rightarrow> (barcode_db \<times> product_barcode) result" where
  "addProductBarcode now newId actor storeId productId d s =
     bindE (assertBarcodeAdmin actor) (\<lambda>_.
     bindE (normalizeForStorage (bi_code d)) (\<lambda>code.
     let looksGtin = isValidGtin code;
         kind = (case bi_kind d of Some k \<Rightarrow> k | None \<Rightarrow> if looksGtin then KindGTIN else KindINTERNAL)
     in
     if kind = KindGTIN \<and> \<not> looksGtin
     then Inl (AppError 400 ''Not a valid UPC/EAN: wrong length or check digit. Register it as INTERNAL if it is a store code.'')
     else
       let stored = stored_code kind code in
       bindE (loadProductInStore storeId productId s) (\<lambda>_.
       bindE (assertBarcodeFree storeId stored (Some productId) None s) (\<lambda>_.
       let created = \<lparr>pb_id = newId, pb_storeId = storeId, pb_productId = productId, pb_code = stored,
             pb_kind = kind, pb_label = trimmed (bi_label d), pb_createdByUserId = Some (au_id actor),
             pb_createdAt = now\<rparr>
       in if \<exists>b \<in> set (bd_barcodes s). pb_id b = newId \<or> (pb_storeId b = storeId \<and> pb_code b = stored)
          then Inl UniqueViolation
          else Inr (s\<lparr>bd_barcodes := bd_barcodes s @ [created],
                      bd_db := writeAuditLog (Some (au_id actor)) (Some storeId) ''PRODUCT_BARCODE_ADD''
                        ''ProductBarcode'' (Some newId) (bd_db s)\<rparr>, created)))))"

definition removeProductBarcode :: "auth_user \<Rightarrow> ident \<Rightarrow> ident \<Rightarrow> barcode_db \<Rightarrow> barcode_db result" where
  "removeProductBarcode actor storeId barcodeId s =
     bindE (assertBarcodeAdmin actor) (\<lambda>_.
     case find_row pb_id barcodeId (bd_barcodes s) of
       None \<Rightarrow> Inl (AppError 404 ''Barcode not found'')
     | Some row \<Rightarrow>
         if pb_storeId row \<noteq> storeId then Inl (AppError 404 ''Barcode not found'')
         else Inr (s\<lparr>bd_barcodes := filter (\<lambda>b. pb_id b \<noteq> barcodeId) (bd_barcodes s),
                     bd_db := writeAuditLog (Some (au_id actor)) (Some storeId) ''PRODUCT_BARCODE_REMOVE''
                       ''ProductBarcode'' (Some barcodeId) (bd_db s)\<rparr>))"

text \<open>Sets or clears the label of a lot; the lots keep one label per store (a unique index).\<close>

definition write_label :: "ident \<Rightarrow> ident \<Rightarrow> string option \<Rightarrow> db \<Rightarrow> db result" where
  "write_label storeId lotId barcode s =
     (if barcode \<noteq> None \<and> (\<exists>l \<in> set (db_lots s). l_id l \<noteq> lotId \<and> l_storeId l = storeId \<and> l_barcode l = barcode)
      then Inl UniqueViolation
      else lot_update lotId (\<lambda>l. l\<lparr>l_barcode := barcode\<rparr>) s)"

definition setLotBarcode :: "auth_user \<Rightarrow> ident \<Rightarrow> ident \<Rightarrow> string option \<Rightarrow> barcode_db \<Rightarrow> barcode_db result" where
  "setLotBarcode actor storeId lotId raw s =
     bindE (assertBarcodeAdmin actor) (\<lambda>_.
     case find_lot lotId (bd_db s) of
       None \<Rightarrow> Inl (AppError 404 ''Lot not found'')
     | Some lot \<Rightarrow>
         if l_storeId lot \<noteq> storeId then Inl (AppError 404 ''Lot not found'')
         else
           bindE (case raw of
                    None \<Rightarrow> Inr None
                  | Some r \<Rightarrow> if trim r = [] then Inr None
                              else bindE (claimLotBarcode storeId r (Some lotId) s) (\<lambda>c. Inr (Some c)))
             (\<lambda>barcode.
           bindE (write_label storeId lotId barcode (bd_db s)) (\<lambda>d.
           Inr (s\<lparr>bd_db := writeAuditLog (Some (au_id actor)) (Some storeId) ''LOT_BARCODE_SET'' ''Lot''
                            (Some lotId) d\<rparr>))))"

end
