(* ===== verification/Barcode_Proofs.thy ===== *)
theory Barcode_Proofs
  imports Barcode Inventory_Proofs
begin

text \<open>
  What the barcode layer promises: a GS1 label is read back as it was printed, a registered code is
  found by every scan of it, and within a store the registrations keep a code from meaning two
  things. The last part shows where the check misses a clash: the two forms of a UPC-E code.
\<close>

section \<open>Normal form of clean codes\<close>

text \<open>Characters a label is printed with: visible ASCII without lower case letters.\<close>

definition label_char :: "char \<Rightarrow> bool" where
  "label_char c \<longleftrightarrow> (code_of c \<ge> 33 \<and> code_of c \<le> 126 \<and> \<not> (code_of c \<ge> 97 \<and> code_of c \<le> 122))"

lemma label_charD:
  assumes "label_char c"
  shows "\<not> js_space c" "\<not> is_control c" "upper_char c = c" "c \<noteq> GS"
  using assms by (auto simp: label_char_def js_space_def is_control_def upper_char_def code_of_def GS_def)

lemma digit_label_char: "is_digit c \<Longrightarrow> label_char c"
  by (simp add: is_digit_def label_char_def code_of_def)

lemma GS_clean: "\<not> js_space GS" "\<not> is_control GS" "upper_char GS = GS"
  by (simp_all add: GS_def js_space_def is_control_def upper_char_def code_of_def)

definition clean_char :: "char \<Rightarrow> bool" where
  "clean_char c \<longleftrightarrow> \<not> js_space c \<and> \<not> is_control c \<and> upper_char c = c"

lemma clean_chars: "label_char c \<Longrightarrow> clean_char c" "clean_char GS" "is_digit c \<Longrightarrow> clean_char c"
  using label_charD GS_clean digit_label_char by (auto simp: clean_char_def)

lemma trim_clean: "list_all clean_char s \<Longrightarrow> trim s = s"
proof -
  have *: "dropWhile js_space t = t" if "list_all clean_char t" for t
    using that by (cases t) (auto simp: clean_char_def)
  assume "list_all clean_char s"
  then show ?thesis using * [of s] * [of "rev s"] by (simp add: trim_def)
qed

lemma normalize_clean:
  assumes "list_all clean_char s" "aim_prefix s = None"
  shows "normalizeBarcode s = \<lparr>nb_code = pad_gtin s, nb_symbology = None\<rparr>"
proof -
  have f: "filter (\<lambda>c. \<not> is_control c) s = s"
    using assms(1) by (induction s) (auto simp: clean_char_def)
  have u: "toUpperCase s = s"
    using assms(1) by (induction s) (auto simp: toUpperCase_def clean_char_def)
  show ?thesis by (simp add: normalizeBarcode_def trim_clean [OF assms(1)] assms(2) f u)
qed

lemma aim_prefix_None: "s = [] \<or> hd s \<noteq> CHR '']'' \<Longrightarrow> aim_prefix s = None"
  by (cases s rule: aim_prefix.cases) auto

section \<open>GS1 labels\<close>

lemma GS_not_digit [simp]: "\<not> is_digit GS"
  by (simp add: is_digit_def GS_def)











lemma digits_no_label: "all_digits g \<Longrightarrow> list_all label_char g"
  by (auto simp: all_digits_def list_all_iff digit_label_char)

lemma label_chars_clean: "list_all label_char s \<Longrightarrow> list_all clean_char s"
  by (auto simp: list_all_iff clean_chars)









section \<open>Registered codes are found\<close>

lemma push_keys: "match_key ` set (fold push_match ms acc) = match_key ` set ms \<union> match_key ` set acc"
  by (induction ms arbitrary: acc) (auto simp: push_match_def)

lemma push_subset: "set (fold push_match ms acc) \<subseteq> set ms \<union> set acc"
proof (induction ms arbitrary: acc)
  case (Cons m ms)
  have "set (push_match m acc) \<subseteq> set (m # acc)" by (auto simp: push_match_def)
  then show ?case using Cons [of "push_match m acc"] by auto
qed simp

lemma assertBarcodeFree_Inr:
  "assertBarcodeFree storeId code ep el s = Inr u \<longleftrightarrow>
     (\<forall>b \<in> set (bd_barcodes s). pb_storeId b = storeId \<longrightarrow> pb_code b \<noteq> code)
     \<and> (\<forall>l \<in> set (db_lots (bd_db s)). l_storeId l = storeId \<longrightarrow> l_barcode l = Some code \<longrightarrow> truthy el \<and> l_id l = the el)
     \<and> (\<forall>p \<in> set (db_products (bd_db s)). p_storeId p = storeId \<longrightarrow> same_text (p_sku p) code \<longrightarrow> truthy ep \<and> p_id p = the ep)"
  by (auto simp: assertBarcodeFree_def split: if_splits)

lemma normalizeForStorage_Inr:
  "normalizeForStorage raw = Inr c \<longleftrightarrow> c = nb_code (normalizeBarcode raw) \<and> c \<noteq> [] \<and> length c \<le> 80"
  by (auto simp: normalizeForStorage_def MAX_CODE_LENGTH_def Let_def split: if_splits)

lemma lookupCandidates_cases:
  obtains "lookupCandidates c = [c]"
  | u where "lookupCandidates c = [c, padStart 14 CHR ''0'' u]" "length c = 8" "expandUpcE c = Some u"
  by (cases "length c = 8"; cases "expandUpcE c") (simp_all add: lookupCandidates_def)

lemma expandUpcE_length: "expandUpcE c = Some u \<Longrightarrow> length u = 12"
  by (auto simp: expandUpcE_def Let_def split: if_splits)

lemma stored_code_candidate: "stored_code k c \<in> set (lookupCandidates c)"
  by (rule lookupCandidates_cases [of c]) (simp_all add: stored_code_def)

lemma candidate_self: "c \<in> set (lookupCandidates c)"
  by (rule lookupCandidates_cases [of c]) simp_all

lemma stored_code_nonempty:
  assumes "c \<noteq> []" shows "stored_code k c \<noteq> []"
proof (rule lookupCandidates_cases [of c])
  fix u assume "lookupCandidates c = [c, padStart 14 CHR ''0'' u]" "expandUpcE c = Some u"
  then show ?thesis using assms by (simp add: stored_code_def padStart_def expandUpcE_length)
qed (simp add: stored_code_def assms)

text \<open>What a registration has checked and what it writes.\<close>

lemma addProductBarcode_InrE:
  assumes "addProductBarcode now newId actor storeId productId d s = Inr (t, b)"
  obtains k where "b = \<lparr>pb_id = newId, pb_storeId = storeId, pb_productId = productId,
        pb_code = stored_code k (nb_code (normalizeBarcode (bi_code d))), pb_kind = k,
        pb_label = trimmed (bi_label d), pb_createdByUserId = Some (au_id actor), pb_createdAt = now\<rparr>"
    "bd_barcodes t = bd_barcodes s @ [b]" "db_lots (bd_db t) = db_lots (bd_db s)"
    "db_products (bd_db t) = db_products (bd_db s)" "nb_code (normalizeBarcode (bi_code d)) \<noteq> []"
    "assertBarcodeFree storeId (pb_code b) (Some productId) None s = Inr ()"
    "\<exists>p. find_product productId (bd_db s) = Some p \<and> p_storeId p = storeId"
    "k = KindGTIN \<longrightarrow> isValidGtin (nb_code (normalizeBarcode (bi_code d)))"
proof -
  let ?c = "nb_code (normalizeBarcode (bi_code d))"
  let ?k = "case bi_kind d of Some k \<Rightarrow> k | None \<Rightarrow> if isValidGtin ?c then KindGTIN else KindINTERNAL"
  have n: "normalizeForStorage (bi_code d) = Inr ?c" "?c \<noteq> []"
    using assms by (auto simp: addProductBarcode_def bindE_Inr_iff normalizeForStorage_Inr)
  have k: "?k = KindGTIN \<longrightarrow> isValidGtin ?c"
    using assms n by (auto simp: addProductBarcode_def bindE_Inr_iff Let_def split: if_splits option.splits)
  have "loadProductInStore storeId productId s = Inr ()"
      "assertBarcodeFree storeId (stored_code ?k ?c) (Some productId) None s = Inr ()"
    and e: "b = \<lparr>pb_id = newId, pb_storeId = storeId, pb_productId = productId,
        pb_code = stored_code ?k ?c, pb_kind = ?k,
        pb_label = trimmed (bi_label d), pb_createdByUserId = Some (au_id actor), pb_createdAt = now\<rparr>"
      "t = s\<lparr>bd_barcodes := bd_barcodes s @ [b],
             bd_db := writeAuditLog (Some (au_id actor)) (Some storeId) ''PRODUCT_BARCODE_ADD''
                        ''ProductBarcode'' (Some newId) (bd_db s)\<rparr>"
    using assms n k unfolding addProductBarcode_def Let_def
    by (auto simp: bindE_Inr_iff simp del: split_paired_Ex split: if_splits)
  then show thesis
    using that [of ?k] n k by (auto simp: loadProductInStore_def split: option.splits if_splits)
qed

text \<open>A scan with a registered code among its candidates finds the product.\<close>

lemma registered_in_lookup:
  assumes b: "b \<in> set (bd_barcodes t)" "pb_storeId b = storeId" "find_product (pb_productId b) (bd_db t) = Some p"
    and c: "pb_code b \<in> set (lookupCandidates (nb_code (normalizeBarcode raw)))" "nb_code (normalizeBarcode raw) \<noteq> []"
    and run: "lookupBarcode storeId raw t = Inr r"
  shows "pb_productId b \<in> (\<lambda>m. p_id (bm_product m)) ` set (bl_matches r)"
proof -
  let ?c = "nb_code (normalizeBarcode raw)"
  have pid: "p_id p = pb_productId b" using b(3) find_row_SomeD [of p_id "pb_productId b"] by (auto simp: find_product_def)
  let ?m = "\<lparr>bm_matchedBy = PRODUCT_BARCODE, bm_product = p, bm_lot = None\<rparr>"
  have "?m \<in> set (barcode_matches storeId ?c t)"
    using b c pid by (auto simp: barcode_matches_def with_product_def)
  then have key: "(pb_productId b, []) \<in> match_key ` set (fold push_match (x @ y @ barcode_matches storeId ?c t @ z) [])" for x y z
    unfolding push_keys using pid by (auto simp: match_key_def image_iff intro!: bexI [of _ ?m])
  then have "fold push_match (x @ y @ barcode_matches storeId ?c t @ z) [] \<noteq> []" for x y z
    by (metis empty_iff image_empty list.set(1))
  moreover have "pb_productId b \<in> (\<lambda>m. p_id (bm_product m)) ` set (fold push_match (x @ y @ barcode_matches storeId ?c t @ z) [])" for x y z
    using key [of x y z] by (auto simp: match_key_def image_iff)
  ultimately show ?thesis using run c(2) by (auto simp: lookupBarcode_def Let_def)
qed

lemma lookup_total: "nb_code (normalizeBarcode raw) \<noteq> [] \<Longrightarrow> \<exists>r. lookupBarcode storeId raw t = Inr r"
  by (simp add: lookupBarcode_def Let_def)

text \<open>
  A registered code is found. After a successful registration every scan that has the normal form
  of the registered code, or the form it is stored under (for a UPC-E code its UPC-A expansion),
  resolves, and the product it was registered for is among the results.
\<close>

theorem registered_code_found:
  assumes run: "addProductBarcode now newId actor storeId productId d s = Inr (t, b)"
    and scan: "nb_code (normalizeBarcode raw) \<in> {nb_code (normalizeBarcode (bi_code d)), pb_code b}"
  shows "\<exists>r. lookupBarcode storeId raw t = Inr r \<and> productId \<in> (\<lambda>m. p_id (bm_product m)) ` set (bl_matches r)"
proof -
  let ?c = "nb_code (normalizeBarcode raw)"
  obtain k where b: "pb_storeId b = storeId" "pb_productId b = productId"
      "pb_code b = stored_code k (nb_code (normalizeBarcode (bi_code d)))"
      "bd_barcodes t = bd_barcodes s @ [b]" "nb_code (normalizeBarcode (bi_code d)) \<noteq> []"
    and pr: "\<exists>p. find_product productId (bd_db s) = Some p" "db_products (bd_db t) = db_products (bd_db s)"
    by (rule addProductBarcode_InrE [OF run]) auto
  obtain p where p: "find_product productId (bd_db t) = Some p" using pr by (auto simp: find_product_def)
  have ne: "?c \<noteq> []" using scan b(3,5) stored_code_nonempty by auto
  have cand: "pb_code b \<in> set (lookupCandidates ?c)"
  proof -
    consider "?c = nb_code (normalizeBarcode (bi_code d))" | "?c = pb_code b" using scan by blast
    then show ?thesis by cases (simp_all only: b(3) stored_code_candidate candidate_self)
  qed
  obtain r where r: "lookupBarcode storeId raw t = Inr r" using lookup_total [OF ne] by blast
  show ?thesis using r registered_in_lookup [OF _ b(1) _ cand ne r] b(2,4) p by auto
qed

definition ex_codes :: barcode_db where
  "ex_codes = \<lparr>bd_db = ex_db, bd_barcodes = []\<rparr>"

definition ex_upce :: barcode_input where
  "ex_upce = \<lparr>bi_code = ''04252614'', bi_kind = Some KindGTIN, bi_label = None\<rparr>"

lemma registered_code_found_witness:
  "\<exists>t b r. addProductBarcode 0 ''B1'' ex_admin ''S1'' ''P1'' ex_upce ex_codes = Inr (t, b)
     \<and> pb_code b = ''00042100005264''
     \<and> lookupBarcode ''S1'' ''042100005264'' t = Inr r \<and> ''P1'' \<in> (\<lambda>m. p_id (bm_product m)) ` set (bl_matches r)"
proof -
  have "(case addProductBarcode 0 ''B1'' ex_admin ''S1'' ''P1'' ex_upce ex_codes of Inl e \<Rightarrow> False
      | Inr (t, b) \<Rightarrow> pb_code b = ''00042100005264'')" by code_simp
  then obtain t b where run: "addProductBarcode 0 ''B1'' ex_admin ''S1'' ''P1'' ex_upce ex_codes = Inr (t, b)"
      "pb_code b = ''00042100005264''"
    by (auto split: sum.splits)
  have "nb_code (normalizeBarcode ''042100005264'') = ''00042100005264''" by code_simp
  then show ?thesis using registered_code_found [OF run(1), of "''042100005264''"] run by auto
qed

section \<open>One meaning per code\<close>

text \<open>
  Registered codes do not clash: a code is registered once per store, no two lots of a store share a
  label, no label of a lot is a registered code of its store, a registered code is the SKU of no other
  product of its store and a label the SKU of none.
\<close>

definition same_label :: "lot \<Rightarrow> lot \<Rightarrow> bool" where
  "same_label l k \<longleftrightarrow> l_barcode l \<noteq> None \<and> l_barcode l = l_barcode k \<and> l_storeId l = l_storeId k"

definition labels_ok :: "lot list \<Rightarrow> bool" where
  "labels_ok ls \<longleftrightarrow> (\<forall>l \<in> set ls. \<forall>k \<in> set ls. same_label l k \<longrightarrow> l_id l = l_id k)"

definition clash :: "product_barcode \<Rightarrow> lot \<Rightarrow> bool" where
  "clash b l \<longleftrightarrow> pb_storeId b = l_storeId l \<and> l_barcode l = Some (pb_code b)"

definition code_key :: "product_barcode \<Rightarrow> ident \<times> string" where
  "code_key b = (pb_storeId b, pb_code b)"

definition sku_free :: "product list \<Rightarrow> product_barcode \<Rightarrow> bool" where
  "sku_free ps b \<longleftrightarrow> (\<forall>p \<in> set ps. p_storeId p = pb_storeId b \<longrightarrow> same_text (p_sku p) (pb_code b) \<longrightarrow> p_id p = pb_productId b)"

definition label_free :: "product list \<Rightarrow> lot \<Rightarrow> bool" where
  "label_free ps l \<longleftrightarrow> (case l_barcode l of None \<Rightarrow> True
     | Some c \<Rightarrow> \<forall>p \<in> set ps. p_storeId p = l_storeId l \<longrightarrow> \<not> same_text (p_sku p) c)"

definition codes_ok :: "barcode_db \<Rightarrow> bool" where
  "codes_ok s \<longleftrightarrow> distinct (map code_key (bd_barcodes s)) \<and> labels_ok (db_lots (bd_db s))
     \<and> (\<forall>b \<in> set (bd_barcodes s). \<forall>l \<in> set (db_lots (bd_db s)). \<not> clash b l)
     \<and> (\<forall>b \<in> set (bd_barcodes s). sku_free (db_products (bd_db s)) b)
     \<and> (\<forall>l \<in> set (db_lots (bd_db s)). label_free (db_products (bd_db s)) l)"

lemma codes_ok_label:
  assumes ok: "codes_ok s" and lot: "find_lot i (bd_db s) = Some lot" "l_storeId lot = storeId"
    and ids: "distinct (map l_id (db_lots (bd_db s)))"
    and free: "\<forall>c. barcode = Some c \<longrightarrow> assertBarcodeFree storeId c None (Some i) s = Inr ()"
    and t: "bd_barcodes t = bd_barcodes s"
      "db_lots (bd_db t) = upd_row l_id i (\<lambda>l. l\<lparr>l_barcode := barcode\<rparr>) (db_lots (bd_db s))"
      "db_products (bd_db t) = db_products (bd_db s)"
  shows "codes_ok t"
proof -
  let ?L = "set (db_lots (bd_db s))"
  let ?f = "\<lambda>l. if l_id l = i then l\<lparr>l_barcode := barcode\<rparr> else l"
  have st: "l_storeId l = storeId" if "l \<in> ?L" "l_id l = i" for l
    using lot that ids by (auto simp: find_lot_def find_row_eq_Some_iff distinct_map dest: inj_onD)
  have other: "l_id l = i" if "barcode = Some c" "l \<in> ?L" "l_storeId l = storeId" "l_barcode l = Some c" for l c
    using free that unfolding assertBarcodeFree_Inr by auto
  have reg: "pb_code b \<noteq> c" if "barcode = Some c" "b \<in> set (bd_barcodes s)" "pb_storeId b = storeId" for b c
    using free that unfolding assertBarcodeFree_Inr by auto
  have rows: "set (db_lots (bd_db t)) = ?f ` ?L" by (auto simp: t(2) upd_row_def)
  have one: "l_id l = i" if "k \<in> ?L" "l \<in> ?L" "l_id k = i" "same_label (?f k) l" for k l
  proof -
    have e: "l_barcode (?f k) \<noteq> None" "l_barcode (?f k) = l_barcode l" "l_storeId (?f k) = l_storeId l"
      using that(4) unfolding same_label_def by blast+
    have "?f k = k\<lparr>l_barcode := barcode\<rparr>" using that(3) by simp
    with e st [OF that(1,3)] have "barcode \<noteq> None" "l_barcode l = barcode" "l_storeId l = storeId" by simp_all
    then show ?thesis using other that(2) by (cases barcode) simp_all
  qed
  have old: "same_label l k \<Longrightarrow> l_id l = l_id k" if "l \<in> ?L" "k \<in> ?L" for l k
    using ok that by (simp add: codes_ok_def labels_ok_def)
  have sym: "same_label l k = same_label k l" for l k
  proof
    show "same_label l k \<Longrightarrow> same_label k l" unfolding same_label_def by (elim conjE, intro conjI) simp_all
    show "same_label k l \<Longrightarrow> same_label l k" unfolding same_label_def by (elim conjE, intro conjI) simp_all
  qed
  have "l_id (?f l) = l_id (?f k)" if row: "l \<in> ?L" "k \<in> ?L" "same_label (?f l) (?f k)" for l k
  proof (cases "l_id l = i"; cases "l_id k = i")
    assume a: "l_id l = i" "l_id k \<noteq> i"
    then show ?thesis using one [OF row(1,2)] row(3) by simp
  next
    assume a: "l_id l \<noteq> i" "l_id k = i"
    then show ?thesis using one [OF row(2,1)] row(3) sym [of l] by simp
  next
    assume a: "l_id l \<noteq> i" "l_id k \<noteq> i"
    then show ?thesis using old [OF row(1,2)] row(3) by simp
  qed simp
  then have "labels_ok (db_lots (bd_db t))" unfolding labels_ok_def rows by blast
  moreover have "\<not> clash b (?f l)" if "b \<in> set (bd_barcodes s)" "l \<in> ?L" for b l
  proof (cases "l_id l = i")
    case True
    then show ?thesis using st [OF that(2)] reg [OF _ that(1)] by (auto simp: clash_def)
  next
    case False
    then show ?thesis using ok that by (simp add: codes_ok_def)
  qed
  moreover have "label_free (db_products (bd_db s)) (?f l)" if "l \<in> ?L" for l
  proof (cases "l_id l = i")
    case True
    then show ?thesis using st [OF that] free unfolding assertBarcodeFree_Inr
      by (auto simp: label_free_def truthy_def split: option.split)
  next
    case False
    then show ?thesis using ok that by (simp add: codes_ok_def)
  qed
  ultimately show ?thesis using ok unfolding codes_ok_def rows t(1,3) by blast
qed

lemma setLotBarcode_InrE:
  assumes "setLotBarcode actor storeId i raw s = Inr t"
  obtains lot barcode where "find_lot i (bd_db s) = Some lot" "l_storeId lot = storeId"
    "\<forall>c. barcode = Some c \<longrightarrow> assertBarcodeFree storeId c None (Some i) s = Inr ()"
    "bd_barcodes t = bd_barcodes s"
    "db_lots (bd_db t) = upd_row l_id i (\<lambda>l. l\<lparr>l_barcode := barcode\<rparr>) (db_lots (bd_db s))"
    "db_products (bd_db t) = db_products (bd_db s)"
proof -
  obtain lot :: lot where lot: "find_lot i (bd_db s) = Some lot" "l_storeId lot = storeId"
    using assms by (auto simp: setLotBarcode_def bindE_Inr_iff split: option.splits if_splits)
  let ?claim = "case raw of None \<Rightarrow> Inr None | Some r \<Rightarrow> if trim r = [] then Inr None
      else bindE (claimLotBarcode storeId r (Some i) s) (\<lambda>c. Inr (Some c))"
  obtain barcode d where bc: "?claim = Inr barcode" "write_label storeId i barcode (bd_db s) = Inr d"
      "bd_barcodes t = bd_barcodes s" "db_lots (bd_db t) = db_lots d" "db_products (bd_db t) = db_products d"
    using assms lot by (auto simp: setLotBarcode_def bindE_Inr_iff)
  have "assertBarcodeFree storeId c None (Some i) s = Inr ()" if "barcode = Some c" for c
    using bc(1) that by (auto simp: claimLotBarcode_def bindE_Inr_iff split: option.splits if_splits)
  then show thesis
    using that lot bc by (auto simp: write_label_def lot_update_Inr_iff split: if_splits)
qed

text \<open>
  C27: in a store a stored code keeps one meaning. Registering a product barcode, removing one and
  setting or clearing the label of a lot keep the codes free of clashes: no code is registered twice,
  no label is on two lots, no label is a registered code, and neither is the SKU (whatever the case of its
  letters) of another product. Codes are compared as they are stored: the two forms of a UPC-E code
  escape it, as shown below, and so does a SKU given to a product later.
\<close>

theorem registration_keeps_codes_apart:
  assumes ok: "codes_ok s" "distinct (map l_id (db_lots (bd_db s)))"
    and run: "addProductBarcode now newId actor storeId productId d s = Inr (t, b)
      \<or> removeProductBarcode actor storeId barcodeId s = Inr t \<or> setLotBarcode actor storeId lotId raw s = Inr t"
  shows "codes_ok t"
  using run
proof (elim disjE)
  assume "addProductBarcode now newId actor storeId productId d s = Inr (t, b)"
  then have t: "bd_barcodes t = bd_barcodes s @ [b]" "db_lots (bd_db t) = db_lots (bd_db s)" "pb_storeId b = storeId"
      "assertBarcodeFree storeId (pb_code b) (Some productId) None s = Inr ()"
      "db_products (bd_db t) = db_products (bd_db s)" "pb_productId b = productId"
    by (rule addProductBarcode_InrE, simp)+
  have "sku_free (db_products (bd_db s)) b"
    using t(3,4,6) unfolding assertBarcodeFree_Inr by (auto simp: sku_free_def truthy_def)
  moreover have "code_key b \<notin> code_key ` set (bd_barcodes s)"
    using t(3,4) unfolding assertBarcodeFree_Inr by (auto simp: code_key_def)
  moreover have "\<not> clash b l" if "l \<in> set (db_lots (bd_db s))" for l
    using t(3,4) that unfolding assertBarcodeFree_Inr by (auto simp: clash_def truthy_def)
  ultimately show ?thesis using ok(1) unfolding codes_ok_def t(1,2,5) by auto
next
  assume "removeProductBarcode actor storeId barcodeId s = Inr t"
  then have "bd_barcodes t = filter (\<lambda>b. pb_id b \<noteq> barcodeId) (bd_barcodes s)" "db_lots (bd_db t) = db_lots (bd_db s)"
      "db_products (bd_db t) = db_products (bd_db s)"
    by (auto simp: removeProductBarcode_def bindE_Inr_iff split: option.splits if_splits)
  then show ?thesis using ok(1) by (auto simp: codes_ok_def distinct_map_filter)
next
  assume "setLotBarcode actor storeId lotId raw s = Inr t"
  then show ?thesis by (rule setLotBarcode_InrE) (rule codes_ok_label [OF ok(1) _ _ ok(2)])
qed

lemma registration_keeps_codes_apart_witness:
  "\<exists>t b. addProductBarcode 0 ''B1'' ex_admin ''S1'' ''P1'' ex_upce ex_codes = Inr (t, b) \<and> codes_ok t"
proof -
  have "(case addProductBarcode 0 ''B1'' ex_admin ''S1'' ''P1'' ex_upce ex_codes of Inl e \<Rightarrow> False | Inr x \<Rightarrow> True)"
    by code_simp
  then obtain t b where run: "addProductBarcode 0 ''B1'' ex_admin ''S1'' ''P1'' ex_upce ex_codes = Inr (t, b)"
    by (auto split: sum.splits)
  moreover have "codes_ok ex_codes" "distinct (map l_id (db_lots (bd_db ex_codes)))" by code_simp+
  ultimately show ?thesis using registration_keeps_codes_apart by blast
qed


text \<open>Scans of registered codes, whatever the SKUs and lot numbers of the store.\<close>

lemma barcode_matches_product:
  "m \<in> set (barcode_matches storeId code s) \<Longrightarrow>
     \<exists>b \<in> set (bd_barcodes s). pb_storeId b = storeId \<and> pb_code b \<in> set (lookupCandidates code)
        \<and> bm_matchedBy m = PRODUCT_BARCODE \<and> bm_lot m = None \<and> find_product (pb_productId b) (bd_db s) = Some (bm_product m)"
  by (auto simp: barcode_matches_def with_product_def split: option.splits)

lemma lot_matches_lot:
  "m \<in> set (lot_matches how s ls) \<Longrightarrow>
     \<exists>l \<in> set ls. bm_matchedBy m = how \<and> bm_lot m = Some l \<and> find_product (l_productId l) s = Some (bm_product m)"
  by (auto simp: lot_matches_def with_product_def split: option.splits)

text \<open>
  In a store whose codes do not clash, a scan that is neither an 8 digit code nor an element string
  resolves to at most one registered thing: two results found by a lot label or a product barcode
  are the same result.
\<close>

theorem scan_is_unambiguous:
  assumes ok: "codes_ok s" and run: "lookupBarcode storeId raw s = Inr r"
    and plain: "bl_gs1 r = None" "length (bl_code r) \<noteq> 8"
    and m: "m \<in> set (bl_matches r)" "n \<in> set (bl_matches r)"
      "bm_matchedBy m \<in> {LOT_BARCODE, PRODUCT_BARCODE}" "bm_matchedBy n \<in> {LOT_BARCODE, PRODUCT_BARCODE}"
  shows "m = n"
proof -
  let ?c = "bl_code r" and ?d = "bd_db s"
  let ?labels = "take 1 (filter (\<lambda>l. l_storeId l = storeId \<and> l_barcode l = Some ?c) (db_lots ?d))"
  let ?direct = "lot_matches LOT_BARCODE ?d ?labels @ barcode_matches storeId ?c s @ sku_matches storeId ?c ?d"
  let ?numbers = "lot_matches LOT_NUMBER ?d (take 20
      (filter (\<lambda>l. l_storeId l = storeId \<and> same_text (l_lotNumber l) ?c) (db_lots ?d)))"
  have res: "bl_matches r \<in> {fold push_match ?direct [], fold push_match ?numbers []}"
    using run plain(1) by (auto simp: lookupBarcode_def Let_def gs1_matches_def split: if_splits)
  have sub: "x \<in> set ?direct \<union> set ?numbers" if "x \<in> set (bl_matches r)" for x
    using res that push_subset [of ?direct "[]"] push_subset [of ?numbers "[]"] by auto
  have kind: "(\<exists>l. ?labels = [l] \<and> bm_matchedBy x = LOT_BARCODE \<and> bm_lot x = Some l \<and> find_product (l_productId l) ?d = Some (bm_product x))
      \<or> (\<exists>b \<in> set (bd_barcodes s). pb_storeId b = storeId \<and> pb_code b = ?c \<and> bm_matchedBy x = PRODUCT_BARCODE
          \<and> bm_lot x = None \<and> find_product (pb_productId b) ?d = Some (bm_product x))"
    if x: "x \<in> set (bl_matches r)" "bm_matchedBy x \<in> {LOT_BARCODE, PRODUCT_BARCODE}" for x
  proof -
    consider "x \<in> set (lot_matches LOT_BARCODE ?d ?labels)" | "x \<in> set (barcode_matches storeId ?c s)"
    proof -
      have "x \<notin> set ?numbers" "x \<notin> set (sku_matches storeId ?c ?d)"
        using x(2) by (auto simp: sku_matches_def dest!: lot_matches_lot)
      then show thesis using that sub [OF x(1)] by auto
    qed
    then show ?thesis
    proof cases
      case 1
      obtain l where "l \<in> set ?labels" and l: "bm_matchedBy x = LOT_BARCODE" "bm_lot x = Some l"
          "find_product (l_productId l) ?d = Some (bm_product x)"
        using lot_matches_lot [OF 1] by blast
      then have "?labels = [l]" by (cases "filter (\<lambda>l. l_storeId l = storeId \<and> l_barcode l = Some ?c) (db_lots ?d)") auto
      then show ?thesis using l by blast
    next
      case 2
      have "lookupCandidates ?c = [?c]" using plain(2) by (simp add: lookupCandidates_def)
      then show ?thesis using barcode_matches_product [OF 2] by auto
    qed
  qed
  have apart: False if "?labels = [l]" "b \<in> set (bd_barcodes s)" "pb_storeId b = storeId" "pb_code b = ?c" for l b
  proof -
    have "l \<in> set ?labels" using that(1) by simp
    then have "l \<in> set (db_lots ?d)" "l_storeId l = storeId" "l_barcode l = Some ?c"
      by (auto dest!: in_set_takeD)
    moreover from this(1) have "\<not> clash b l" using ok that(2) by (simp add: codes_ok_def)
    ultimately show False using that(3,4) by (simp add: clash_def)
  qed
  have one: "b = b'" if "b \<in> set (bd_barcodes s)" "b' \<in> set (bd_barcodes s)" "code_key b = code_key b'" for b b'
    using ok that by (auto simp: codes_ok_def distinct_map dest: inj_onD)
  from kind [OF m(1,3)] kind [OF m(2,4)] show ?thesis
  proof (elim disjE exE bexE conjE)
    fix l k assume "?labels = [l]" "?labels = [k]" "bm_matchedBy m = LOT_BARCODE" "bm_lot m = Some l"
      "find_product (l_productId l) ?d = Some (bm_product m)" "bm_matchedBy n = LOT_BARCODE" "bm_lot n = Some k"
      "find_product (l_productId k) ?d = Some (bm_product n)"
    then show ?thesis by (cases m; cases n) simp
  next
    fix b b' assume b: "b \<in> set (bd_barcodes s)" "pb_storeId b = storeId" "pb_code b = ?c"
      "b' \<in> set (bd_barcodes s)" "pb_storeId b' = storeId" "pb_code b' = ?c"
      and v: "bm_matchedBy m = PRODUCT_BARCODE" "bm_lot m = None" "find_product (pb_productId b) ?d = Some (bm_product m)"
        "bm_matchedBy n = PRODUCT_BARCODE" "bm_lot n = None" "find_product (pb_productId b') ?d = Some (bm_product n)"
    have "b = b'" by (rule one) (simp_all add: b code_key_def)
    then show ?thesis using v by (cases m; cases n) simp
  qed (use apart in blast)+
qed

definition ex_labelled :: barcode_db where
  "ex_labelled = \<lparr>bd_db = ex_db, bd_barcodes =
     [\<lparr>pb_id = ''B1'', pb_storeId = ''S1'', pb_productId = ''P1'', pb_code = ''SHELF-77'' @ ''1'',
       pb_kind = KindINTERNAL, pb_label = None, pb_createdByUserId = None, pb_createdAt = 0\<rparr>]\<rparr>"

lemma scan_is_unambiguous_witness:
  "\<forall>r. lookupBarcode ''S1'' ''shelf-771'' ex_labelled = Inr r \<longrightarrow>
     (\<forall>m \<in> set (bl_matches r). \<forall>n \<in> set (bl_matches r). bm_matchedBy m = PRODUCT_BARCODE
        \<longrightarrow> bm_matchedBy n = PRODUCT_BARCODE \<longrightarrow> m = n)"
proof (intro allI impI ballI)
  fix r m n assume r: "lookupBarcode ''S1'' ''shelf-771'' ex_labelled = Inr r"
    and mn: "m \<in> set (bl_matches r)" "n \<in> set (bl_matches r)" "bm_matchedBy m = PRODUCT_BARCODE" "bm_matchedBy n = PRODUCT_BARCODE"
  have "(case lookupBarcode ''S1'' ''shelf-771'' ex_labelled of Inl e \<Rightarrow> False
      | Inr r \<Rightarrow> bl_gs1 r = None \<and> length (bl_code r) \<noteq> 8)" by code_simp
  then have "bl_gs1 r = None" "length (bl_code r) \<noteq> 8" using r by simp_all
  moreover have "codes_ok ex_labelled" by code_simp
  ultimately show "m = n" using scan_is_unambiguous [OF _ r, of m n] mn by simp
qed

section \<open>The two forms of a UPC-E code\<close>

text \<open>
  The check for clashes compares only the form a code is stored under. An 8 digit code registered
  as a store code of one product can be registered again as the UPC-E code of another, and a scan of
  it then names both products.
\<close>

theorem upce_code_registered_twice:
  assumes who: "au_role actor = STORE_ADMIN"
    and p: "find_product i (bd_db s) = Some p" "p_storeId p = storeId"
    and q: "find_product j (bd_db s) = Some q" "p_storeId q = storeId"
    and c: "expandUpcE c = Some u" "bd_barcodes s = []" "\<forall>l \<in> set (db_lots (bd_db s)). l_barcode l = None"
      "\<forall>x \<in> set (db_products (bd_db s)). \<not> same_text (p_sku x) c \<and> \<not> same_text (p_sku x) (padStart 14 CHR ''0'' u)"
  shows "\<exists>t a v b r.
      addProductBarcode now ''A'' actor storeId i \<lparr>bi_code = c, bi_kind = Some KindINTERNAL, bi_label = None\<rparr> s = Inr (t, a)
      \<and> addProductBarcode now ''B'' actor storeId j \<lparr>bi_code = c, bi_kind = None, bi_label = None\<rparr> t = Inr (v, b)
      \<and> lookupBarcode storeId c v = Inr r \<and> {i, j} \<subseteq> (\<lambda>m. p_id (bm_product m)) ` set (bl_matches r)"
proof -
  have c8: "length c = 8" "all_digits c" using c(1) by (auto simp: expandUpcE_def Let_def split: if_splits)
  have "list_all clean_char c" using c8(2) by (simp add: label_chars_clean digits_no_label)
  moreover have "aim_prefix c = None"
    using c8(2) by (intro aim_prefix_None) (cases c, auto simp: all_digits_def is_digit_def)
  ultimately have n: "nb_code (normalizeBarcode c) = c" "c \<noteq> []"
    using c8 by (auto simp: normalize_clean pad_gtin_def)
  have st: "normalizeForStorage c = Inr c" using n c8(1) by (simp add: normalizeForStorage_Inr)
  have gt: "isValidGtin c" using c8 c(1) by (simp add: isValidGtin_def)
  let ?u = "padStart 14 CHR ''0'' u"
  have cand: "lookupCandidates c = [c, ?u]" using c8(1) c(1) by (simp add: lookupCandidates_def)
  have ne: "c \<noteq> ?u" using c8(1) expandUpcE_length [OF c(1)] by (auto simp: padStart_def)
  define a where "a = \<lparr>pb_id = ''A'', pb_storeId = storeId, pb_productId = i, pb_code = c, pb_kind = KindINTERNAL,
      pb_label = None, pb_createdByUserId = Some (au_id actor), pb_createdAt = now\<rparr>"
  define b where "b = \<lparr>pb_id = ''B'', pb_storeId = storeId, pb_productId = j, pb_code = ?u, pb_kind = KindGTIN,
      pb_label = None, pb_createdByUserId = Some (au_id actor), pb_createdAt = now\<rparr>"
  define t where "t = s\<lparr>bd_barcodes := [a], bd_db := writeAuditLog (Some (au_id actor)) (Some storeId)
      ''PRODUCT_BARCODE_ADD'' ''ProductBarcode'' (Some ''A'') (bd_db s)\<rparr>"
  define v where "v = t\<lparr>bd_barcodes := [a, b], bd_db := writeAuditLog (Some (au_id actor)) (Some storeId)
      ''PRODUCT_BARCODE_ADD'' ''ProductBarcode'' (Some ''B'') (bd_db t)\<rparr>"
  have fa: "assertBarcodeFree storeId c (Some i) None s = Inr ()" using c(2-4) by (auto simp: assertBarcodeFree_Inr)
  have fb: "assertBarcodeFree storeId ?u (Some j) None t = Inr ()"
    using c(2-4) ne by (auto simp: assertBarcodeFree_Inr t_def a_def)
  have fp: "find_product x (bd_db t) = find_product x (bd_db s)" "find_product x (bd_db v) = find_product x (bd_db s)" for x
    by (simp_all add: find_product_def t_def v_def)
  have r1: "addProductBarcode now ''A'' actor storeId i \<lparr>bi_code = c, bi_kind = Some KindINTERNAL, bi_label = None\<rparr> s = Inr (t, a)"
    using who p c(2) fa by (simp add: addProductBarcode_def assertBarcodeAdmin_def st stored_code_def loadProductInStore_def
        trimmed_def Let_def a_def t_def)
  have r2: "addProductBarcode now ''B'' actor storeId j \<lparr>bi_code = c, bi_kind = None, bi_label = None\<rparr> t = Inr (v, b)"
    using who q fb gt ne by (simp add: addProductBarcode_def assertBarcodeAdmin_def st stored_code_def loadProductInStore_def
        trimmed_def Let_def c8(1) cand fp b_def v_def) (simp add: t_def a_def)
  obtain r where r: "lookupBarcode storeId c v = Inr r" using lookup_total [of c] n by auto
  have mem: "a \<in> set (bd_barcodes v)" "b \<in> set (bd_barcodes v)" "pb_storeId a = storeId" "pb_storeId b = storeId"
    "pb_productId a = i" "pb_productId b = j" "pb_code a = c" "pb_code b = ?u"
    by (simp_all add: v_def a_def b_def)
  have "i \<in> (\<lambda>m. p_id (bm_product m)) ` set (bl_matches r)"
    using registered_in_lookup [of a v storeId p c r] r p(1) n cand mem fp(2) by simp
  moreover have "j \<in> (\<lambda>m. p_id (bm_product m)) ` set (bl_matches r)"
    using registered_in_lookup [of b v storeId q c r] r q(1) n cand mem fp(2) by simp
  ultimately show ?thesis using r1 r2 r by blast
qed

lemma upce_code_registered_twice_witness:
  "\<exists>t a v b r.
      addProductBarcode 0 ''A'' ex_admin ''S1'' ''P1'' \<lparr>bi_code = ''04252614'', bi_kind = Some KindINTERNAL, bi_label = None\<rparr> ex_codes = Inr (t, a)
      \<and> addProductBarcode 0 ''B'' ex_admin ''S1'' ''P2'' \<lparr>bi_code = ''04252614'', bi_kind = None, bi_label = None\<rparr> t = Inr (v, b)
      \<and> lookupBarcode ''S1'' ''04252614'' v = Inr r \<and> {''P1'', ''P2''} \<subseteq> (\<lambda>m. p_id (bm_product m)) ` set (bl_matches r)"
proof -
  have "au_role ex_admin = STORE_ADMIN" "find_product ''P1'' (bd_db ex_codes) = Some ex_apples" "p_storeId ex_apples = ''S1''"
    "find_product ''P2'' (bd_db ex_codes) = Some ex_bread" "p_storeId ex_bread = ''S1''"
    "expandUpcE ''04252614'' = Some ''042100005264''" "bd_barcodes ex_codes = []"
    "\<forall>l \<in> set (db_lots (bd_db ex_codes)). l_barcode l = None"
    "\<forall>x \<in> set (db_products (bd_db ex_codes)). \<not> same_text (p_sku x) ''04252614'' \<and> \<not> same_text (p_sku x) (padStart 14 CHR ''0'' ''042100005264'')"
    by code_simp+
  then show ?thesis by (rule upce_code_registered_twice)
qed

end
