(* ===== verification/Purchasing.thy ===== *)
theory Purchasing
  imports Barcode
begin

text \<open>
  Suppliers, purchase orders and goods receipts (\<open>backend/src/services/purchasing.service.ts\<close>). The
  tables of the module stand beside the shop's database. An operation that reads before it writes
  takes the state of the read, \<open>s0\<close>, and the state of the write, \<open>s\<close>: the order is read without a lock,
  also inside the transaction of a receipt. The identifiers the database generates, the clock and
  the decimal division are parameters; a date string is given as what \<open>new Date\<close> makes of it.
\<close>

section \<open>Tables\<close>

datatype po_status = PoDRAFT | PoSUBMITTED | PoPARTIALLY_RECEIVED | PoRECEIVED | PoCANCELLED

record supplier =
  su_id :: ident
  su_name :: string
  su_contactName :: string
  su_email :: string
  su_phone :: string
  su_address :: string
  su_paymentTerms :: string
  su_leadTimeDays :: int
  su_isActive :: bool
  su_notes :: string

record supplier_product =
  sp_id :: ident
  sp_supplierId :: ident
  sp_productId :: ident
  sp_supplierSku :: string
  sp_caseSize :: int
  sp_caseCost :: decimal
  sp_unitCost :: decimal
  sp_minOrderQty :: int
  sp_isPreferred :: bool

record po_line =
  pol_id :: ident
  pol_productId :: ident
  pol_orderedQty :: int
  pol_receivedQty :: int
  pol_unitCost :: decimal
  pol_lineTotal :: decimal
  pol_shortClosed :: bool

record receipt_line =
  grl_id :: ident
  grl_poLineId :: ident
  grl_productId :: ident
  grl_quantityReceived :: int
  grl_quantityRejected :: int
  grl_rejectionReason :: "string option"
  grl_unitCostActual :: decimal
  grl_lotNumber :: "string option"
  grl_expiryDate :: "time option"
  grl_harvestDate :: "time option"
  grl_countryOfOrigin :: "string option"

record goods_receipt =
  gr_id :: ident
  gr_receivedByUserId :: ident
  gr_receivedAt :: time
  gr_invoiceNumber :: "string option"
  gr_notes :: "string option"
  gr_lines :: "receipt_line list"

record purchase_order =
  or_id :: ident
  or_poNumber :: string
  or_supplierId :: ident
  or_storeId :: "ident option"
  or_status :: po_status
  or_expectedDate :: "time option"
  or_submittedAt :: "time option"
  or_createdByUserId :: ident
  or_subtotal :: decimal
  or_tax :: decimal
  or_shipping :: decimal
  or_total :: decimal
  or_createdAt :: time
  or_lines :: "po_line list"
  or_receipts :: "goods_receipt list"

record purchase_db =
  pd_shop :: barcode_db
  pd_suppliers :: "supplier list"
  pd_links :: "supplier_product list"
  pd_orders :: "purchase_order list"
  pd_lastNumber :: int

definition pd_core :: "purchase_db \<Rightarrow> db" where
  "pd_core s = bd_db (pd_shop s)"

definition set_core :: "db \<Rightarrow> purchase_db \<Rightarrow> purchase_db" where
  "set_core d s = s\<lparr>pd_shop := (pd_shop s)\<lparr>bd_db := d\<rparr>\<rparr>"

definition audit_po ::
  "auth_user \<Rightarrow> ident option \<Rightarrow> string \<Rightarrow> string \<Rightarrow> ident \<Rightarrow> purchase_db \<Rightarrow> purchase_db" where
  "audit_po actor storeId action etype eid s =
     set_core (writeAuditLog (Some (au_id actor)) storeId action etype (Some eid) (pd_core s)) s"

section \<open>Access, totals and status\<close>

definition assertAdmin :: "auth_user \<Rightarrow> unit result" where
  "assertAdmin actor =
     (if au_role actor \<noteq> STORE_ADMIN \<and> au_role actor \<noteq> COOP_ADMIN
      then Inl (AppError 403 ''Cashiers cannot access purchasing'') else Inr ())"

definition assertPoStoreAccess :: "auth_user \<Rightarrow> ident option \<Rightarrow> unit result" where
  "assertPoStoreAccess actor storeId =
     bindE (assertAdmin actor) (\<lambda>_.
     if au_role actor = COOP_ADMIN then Inr ()
     else if storeId = None then Inl (AppError 403 ''Only COOP_ADMIN can create co-op-level purchase orders'')
     else if au_storeScope actor \<noteq> storeId
     then Inl (AppError 403 ''Cannot manage purchase orders for another store'')
     else Inr ())"

definition nextPoNumber :: "purchase_db \<Rightarrow> purchase_db \<times> string" where
  "nextPoNumber s =
     (let n = pd_lastNumber s + 1 in (s\<lparr>pd_lastNumber := n\<rparr>, ''PO-'' @ padStart 6 CHR ''0'' (show_int n)))"

text \<open>Quantities and unit costs of the lines, the tax and the shipping, to subtotal and total.\<close>

definition recomputePoTotals :: "(int \<times> decimal) list \<Rightarrow> decimal \<Rightarrow> decimal \<Rightarrow> decimal \<times> decimal" where
  "recomputePoTotals lines tax shipping =
     (let subtotal = moneyDec (sum_list (map (\<lambda>(q, c). c * of_int q) lines))
      in (subtotal, moneyDec (subtotal + tax + shipping)))"

definition lineIsComplete :: "po_line \<Rightarrow> bool" where
  "lineIsComplete l \<longleftrightarrow> pol_shortClosed l \<or> pol_receivedQty l \<ge> pol_orderedQty l"

definition derivePoStatus :: "po_line list \<Rightarrow> po_status \<Rightarrow> po_status" where
  "derivePoStatus lines current =
     (if current = PoCANCELLED \<or> current = PoDRAFT then current
      else if lines = [] then PoSUBMITTED
      else if list_all lineIsComplete lines then PoRECEIVED
      else if list_ex (\<lambda>l. pol_receivedQty l > 0 \<or> pol_shortClosed l) lines then PoPARTIALLY_RECEIVED
      else PoSUBMITTED)"

section \<open>Suppliers\<close>

definition find_supplier :: "ident \<Rightarrow> purchase_db \<Rightarrow> supplier option" where
  "find_supplier i s = find_row su_id i (pd_suppliers s)"

definition listSuppliers :: "bool \<Rightarrow> purchase_db \<Rightarrow> supplier list" where
  "listSuppliers activeOnly s =
     sort_key su_name (filter (\<lambda>x. activeOnly \<longrightarrow> su_isActive x) (pd_suppliers s))"

definition getSupplier :: "ident \<Rightarrow> purchase_db \<Rightarrow> supplier result" where
  "getSupplier i s = (case find_supplier i s of None \<Rightarrow> Inl (AppError 404 ''Supplier not found'') | Some x \<Rightarrow> Inr x)"

record supplier_input =
  sin_name :: "string option"
  sin_contactName :: "string option"
  sin_email :: "string option"
  sin_phone :: "string option"
  sin_address :: "string option"
  sin_paymentTerms :: "string option"
  sin_leadTimeDays :: "int option"
  sin_isActive :: "bool option"
  sin_notes :: "string option"

definition trim_or :: "string option \<Rightarrow> string \<Rightarrow> string" where
  "trim_or x d = (case x of None \<Rightarrow> d | Some y \<Rightarrow> trim y)"

definition createSupplier :: "ident \<Rightarrow> auth_user \<Rightarrow> supplier_input \<Rightarrow> purchase_db \<Rightarrow> (purchase_db \<times> supplier) result" where
  "createSupplier newId actor d s =
     bindE (assertAdmin actor) (\<lambda>_.
     let name = trim_or (sin_name d) [] in
     if name = [] then Inl (AppError 400 ''Supplier name is required'')
     else
       let x = \<lparr>su_id = newId, su_name = name, su_contactName = trim_or (sin_contactName d) [],
             su_email = trim_or (sin_email d) [], su_phone = trim_or (sin_phone d) [],
             su_address = trim_or (sin_address d) [],
             su_paymentTerms = (case trimmed (sin_paymentTerms d) of None \<Rightarrow> ''NET30'' | Some y \<Rightarrow> y),
             su_leadTimeDays = (case sin_leadTimeDays d of None \<Rightarrow> 7 | Some n \<Rightarrow> n),
             su_isActive = (case sin_isActive d of None \<Rightarrow> True | Some b \<Rightarrow> b),
             su_notes = trim_or (sin_notes d) []\<rparr>
       in bindE (create_row su_id x (pd_suppliers s)) (\<lambda>xs. Inr (s\<lparr>pd_suppliers := xs\<rparr>, x)))"

definition apply_supplier :: "supplier_input \<Rightarrow> supplier \<Rightarrow> supplier" where
  "apply_supplier d x =
     x\<lparr>su_name := trim_or (sin_name d) (su_name x), su_contactName := trim_or (sin_contactName d) (su_contactName x),
       su_email := trim_or (sin_email d) (su_email x), su_phone := trim_or (sin_phone d) (su_phone x),
       su_address := trim_or (sin_address d) (su_address x),
       su_paymentTerms := trim_or (sin_paymentTerms d) (su_paymentTerms x),
       su_leadTimeDays := (case sin_leadTimeDays d of None \<Rightarrow> su_leadTimeDays x | Some n \<Rightarrow> n),
       su_isActive := (case sin_isActive d of None \<Rightarrow> su_isActive x | Some b \<Rightarrow> b),
       su_notes := trim_or (sin_notes d) (su_notes x)\<rparr>"

definition updateSupplier :: "auth_user \<Rightarrow> ident \<Rightarrow> supplier_input \<Rightarrow> purchase_db \<Rightarrow> purchase_db result" where
  "updateSupplier actor i d s =
     bindE (assertAdmin actor) (\<lambda>_.
     bindE (getSupplier i s) (\<lambda>_.
     bindE (update_row su_id i (apply_supplier d) (pd_suppliers s)) (\<lambda>xs. Inr (s\<lparr>pd_suppliers := xs\<rparr>))))"

record link_input =
  li_supplierId :: ident
  li_linkProductId :: ident
  li_supplierSku :: "string option"
  li_caseSize :: "js_number option"
  li_caseCost :: decimal
  li_unitCost :: decimal
  li_minOrderQty :: "js_number option"
  li_isPreferred :: "bool option"

definition positive_or_one :: "js_number option \<Rightarrow> int option" where
  "positive_or_one x =
     (case x of None \<Rightarrow> Some 1
      | Some v \<Rightarrow> (case js_int v of None \<Rightarrow> None | Some n \<Rightarrow> if n < 1 then None else Some n))"

text \<open>The row of one supplier and one product is written; at most one supplier stays preferred.\<close>

definition link_key :: "supplier_product \<Rightarrow> ident \<times> ident" where
  "link_key l = (sp_supplierId l, sp_productId l)"

definition upsert_link :: "ident \<Rightarrow> link_input \<Rightarrow> int \<Rightarrow> int \<Rightarrow> supplier_product list \<Rightarrow> supplier_product list" where
  "upsert_link newId d caseSize minOrderQty links =
     (let links = (if li_isPreferred d = Some True
            then map (\<lambda>l. if sp_productId l = li_linkProductId d \<and> sp_isPreferred l then l\<lparr>sp_isPreferred := False\<rparr> else l) links
            else links);
          k = (li_supplierId d, li_linkProductId d)
      in if has_row link_key k links
         then upd_row link_key k (\<lambda>l. l\<lparr>sp_supplierSku := trim_or (li_supplierSku d) [], sp_caseSize := caseSize,
                sp_caseCost := moneyDec (li_caseCost d), sp_unitCost := unitCostDec (li_unitCost d),
                sp_minOrderQty := minOrderQty,
                sp_isPreferred := (case li_isPreferred d of None \<Rightarrow> sp_isPreferred l | Some b \<Rightarrow> b)\<rparr>) links
         else links @ [\<lparr>sp_id = newId, sp_supplierId = li_supplierId d, sp_productId = li_linkProductId d,
                sp_supplierSku = trim_or (li_supplierSku d) [], sp_caseSize = caseSize,
                sp_caseCost = moneyDec (li_caseCost d), sp_unitCost = unitCostDec (li_unitCost d),
                sp_minOrderQty = minOrderQty,
                sp_isPreferred = (case li_isPreferred d of None \<Rightarrow> False | Some b \<Rightarrow> b)\<rparr>])"

definition upsertSupplierProduct :: "ident \<Rightarrow> auth_user \<Rightarrow> link_input \<Rightarrow> purchase_db \<Rightarrow> purchase_db result" where
  "upsertSupplierProduct newId actor d s =
     bindE (assertAdmin actor) (\<lambda>_.
     case find_product (li_linkProductId d) (pd_core s) of
       None \<Rightarrow> Inl (AppError 404 ''Product not found'')
     | Some product \<Rightarrow>
         if au_role actor = STORE_ADMIN \<and> au_storeScope actor \<noteq> Some (p_storeId product)
         then Inl (AppError 403 ''Cannot link suppliers to another store's products'')
         else if find_supplier (li_supplierId d) s = None then Inl (AppError 404 ''Supplier not found'')
         else case positive_or_one (li_caseSize d) of
           None \<Rightarrow> Inl (AppError 400 ''caseSize must be a positive integer'')
         | Some caseSize \<Rightarrow>
             (case positive_or_one (li_minOrderQty d) of
                None \<Rightarrow> Inl (AppError 400 ''minOrderQty must be a positive integer'')
              | Some minOrderQty \<Rightarrow>
                  Inr (s\<lparr>pd_links := upsert_link newId d caseSize minOrderQty (pd_links s)\<rparr>)))"

section \<open>Purchase orders\<close>

datatype raw_date = DateMissing | DateInvalid | DateAt time

record po_line_input =
  pin_productId :: ident
  pin_orderedQty :: js_number
  pin_unitCost :: decimal

text \<open>\<open>undefined\<close> is the outer \<open>None\<close> of an optional field.\<close>

record create_po_input =
  cpo_supplierId :: ident
  cpo_storeId :: "ident option option"
  cpo_expectedDate :: raw_date
  cpo_tax :: "decimal option"
  cpo_shipping :: "decimal option"
  cpo_lines :: "po_line_input list"

record update_po_input =
  upo_expectedDate :: "raw_date option"
  upo_tax :: "decimal option"
  upo_shipping :: "decimal option"
  upo_lines :: "po_line_input list option"

definition find_order :: "ident \<Rightarrow> purchase_db \<Rightarrow> purchase_order option" where
  "find_order i s = find_row or_id i (pd_orders s)"

definition order_update :: "ident \<Rightarrow> (purchase_order \<Rightarrow> purchase_order) \<Rightarrow> purchase_db \<Rightarrow> purchase_db result" where
  "order_update i f s = bindE (update_row or_id i f (pd_orders s)) (\<lambda>os. Inr (s\<lparr>pd_orders := os\<rparr>))"

definition loadPo :: "ident \<Rightarrow> purchase_db \<Rightarrow> purchase_order result" where
  "loadPo i s = (case find_order i s of None \<Rightarrow> Inl (AppError 404 ''Purchase order not found'') | Some po \<Rightarrow> Inr po)"

text \<open>\<open>loadPo\<close> and \<open>assertCanAccessPo\<close>, which every operation on one order starts with.\<close>

definition accessPo :: "auth_user \<Rightarrow> ident \<Rightarrow> purchase_db \<Rightarrow> purchase_order result" where
  "accessPo actor i s =
     bindE (loadPo i s) (\<lambda>po. bindE (assertPoStoreAccess actor (or_storeId po)) (\<lambda>_. Inr po))"

definition listPurchaseOrders ::
  "auth_user \<Rightarrow> ident option option \<Rightarrow> po_status option \<Rightarrow> purchase_db \<Rightarrow> purchase_order list result" where
  "listPurchaseOrders actor filterStore filterStatus s =
     bindE (assertAdmin actor) (\<lambda>_.
     let inStore = (\<lambda>po. if au_role actor = STORE_ADMIN then or_storeId po = au_storeScope actor
           else case filterStore of None \<Rightarrow> True | Some st \<Rightarrow> or_storeId po = st)
     in Inr (sort_key (\<lambda>po. - or_createdAt po)
          (filter (\<lambda>po. inStore po \<and> (case filterStatus of None \<Rightarrow> True | Some st \<Rightarrow> or_status po = st)) (pd_orders s))))"

definition getPurchaseOrder :: "auth_user \<Rightarrow> ident \<Rightarrow> purchase_db \<Rightarrow> purchase_order result" where
  "getPurchaseOrder actor i s = accessPo actor i s"

text \<open>A line of the request with its total; the identifiers of the new rows are given per position.\<close>

definition draft_line :: "ident \<Rightarrow> po_line_input \<Rightarrow> po_line result" where
  "draft_line newId d =
     (case js_int (pin_orderedQty d) of
        None \<Rightarrow> Inl (AppError 400 ''orderedQty must be a positive integer'')
      | Some q \<Rightarrow>
          if q \<le> 0 then Inl (AppError 400 ''orderedQty must be a positive integer'')
          else
            let unitCost = unitCostDec (pin_unitCost d)
            in Inr \<lparr>pol_id = newId, pol_productId = pin_productId d, pol_orderedQty = q, pol_receivedQty = 0,
                    pol_unitCost = unitCost, pol_lineTotal = moneyDec (unitCost * of_int q),
                    pol_shortClosed = False\<rparr>)"

fun draft_lines :: "(nat \<Rightarrow> ident) \<Rightarrow> nat \<Rightarrow> po_line_input list \<Rightarrow> po_line list result" where
  "draft_lines lineId k [] = Inr []"
| "draft_lines lineId k (d # ds) =
     bindE (draft_line (lineId k) d) (\<lambda>l. bindE (draft_lines lineId (Suc k) ds) (\<lambda>ls. Inr (l # ls)))"

definition line_amounts :: "po_line list \<Rightarrow> (int \<times> decimal) list" where
  "line_amounts ls = map (\<lambda>l. (pol_orderedQty l, pol_unitCost l)) ls"

definition createPurchaseOrder ::
  "time \<Rightarrow> ident \<Rightarrow> (nat \<Rightarrow> ident) \<Rightarrow> auth_user \<Rightarrow> create_po_input \<Rightarrow> purchase_db \<Rightarrow> (purchase_db \<times> purchase_order) result" where
  "createPurchaseOrder now newId lineId actor d s =
     (let storeId = (case cpo_storeId d of None \<Rightarrow> au_storeScope actor | Some st \<Rightarrow> st) in
      bindE (assertPoStoreAccess actor storeId) (\<lambda>_.
      if cpo_lines d = [] then Inl (AppError 400 ''PO must include at least one line'')
      else case find_supplier (cpo_supplierId d) s of
        None \<Rightarrow> Inl (AppError 400 ''Supplier not found or inactive'')
      | Some supplier \<Rightarrow>
          if \<not> su_isActive supplier then Inl (AppError 400 ''Supplier not found or inactive'')
          else
            let tax = moneyDec (case cpo_tax d of None \<Rightarrow> 0 | Some t \<Rightarrow> t);
                shipping = moneyDec (case cpo_shipping d of None \<Rightarrow> 0 | Some t \<Rightarrow> t)
            in bindE (draft_lines lineId 0 (cpo_lines d)) (\<lambda>lines.
               let products = filter (\<lambda>p. p_id p \<in> pol_productId ` set lines) (db_products (pd_core s)) in
               if length products \<noteq> length lines then Inl (AppError 404 ''One or more products were not found'')
               else if truthy storeId \<and> list_ex (\<lambda>p. Some (p_storeId p) \<noteq> storeId) products
               then Inl (AppError 400 ''All PO lines must be products of the destination store'')
               else
                 let (subtotal, total) = recomputePoTotals (line_amounts lines) tax shipping in
                 case cpo_expectedDate d of
                   DateInvalid \<Rightarrow> Inl (JsError ''Invalid Date'')
                 | expected \<Rightarrow>
                     let (s1, number) = nextPoNumber s;
                         po = \<lparr>or_id = newId, or_poNumber = number, or_supplierId = cpo_supplierId d,
                           or_storeId = storeId, or_status = PoDRAFT,
                           or_expectedDate = Some (case expected of DateAt t \<Rightarrow> t
                              | _ \<Rightarrow> now + su_leadTimeDays supplier * day_ms),
                           or_submittedAt = None, or_createdByUserId = au_id actor, or_subtotal = subtotal,
                           or_tax = tax, or_shipping = shipping, or_total = total, or_createdAt = now,
                           or_lines = lines, or_receipts = []\<rparr>
                     in if or_poNumber po \<in> or_poNumber ` set (pd_orders s1) then Inl UniqueViolation
                        else bindE (create_row or_id po (pd_orders s1)) (\<lambda>os. Inr (s1\<lparr>pd_orders := os\<rparr>, po)))))"

text \<open>
  Editing a draft replaces its lines. Rows of a receipt point to the lines, so the deletion fails
  when the order got one since it was read.
\<close>

definition updatePurchaseOrder ::
  "(nat \<Rightarrow> ident) \<Rightarrow> auth_user \<Rightarrow> ident \<Rightarrow> update_po_input \<Rightarrow> purchase_db \<Rightarrow> purchase_db \<Rightarrow> purchase_db result" where
  "updatePurchaseOrder lineId actor i d s0 s =
     bindE (accessPo actor i s0) (\<lambda>po.
     if or_status po \<noteq> PoDRAFT then Inl (AppError 409 ''Only DRAFT purchase orders can be edited'')
     else
       let tax = (case upo_tax d of None \<Rightarrow> or_tax po | Some t \<Rightarrow> moneyDec t);
           shipping = (case upo_shipping d of None \<Rightarrow> or_shipping po | Some t \<Rightarrow> moneyDec t)
       in bindE (case upo_lines d of
                   None \<Rightarrow> Inr (or_lines po)
                 | Some ls \<Rightarrow> if ls = [] then Inl (AppError 400 ''PO must include at least one line'')
                              else draft_lines lineId 0 ls) (\<lambda>lines.
          let (subtotal, total) = recomputePoTotals (line_amounts lines) tax shipping in
          if upo_lines d \<noteq> None \<and> (\<exists>x \<in> set (pd_orders s). or_id x = i \<and> (\<exists>r \<in> set (or_receipts x). gr_lines r \<noteq> []))
          then Inl (JsError ''Foreign key constraint violated'')
          else case upo_expectedDate d of
            Some DateInvalid \<Rightarrow> Inl (JsError ''Invalid Date'')
          | expected \<Rightarrow>
              order_update i (\<lambda>x. x\<lparr>or_lines := (if upo_lines d = None then or_lines x else lines),
                or_tax := tax, or_shipping := shipping, or_subtotal := subtotal, or_total := total,
                or_expectedDate := (case expected of None \<Rightarrow> or_expectedDate x
                   | Some (DateAt t) \<Rightarrow> Some t | Some _ \<Rightarrow> None)\<rparr>) s))"

definition submitPurchaseOrder :: "time \<Rightarrow> auth_user \<Rightarrow> ident \<Rightarrow> purchase_db \<Rightarrow> purchase_db \<Rightarrow> purchase_db result" where
  "submitPurchaseOrder now actor i s0 s =
     bindE (accessPo actor i s0) (\<lambda>po.
     if or_status po \<noteq> PoDRAFT then Inl (AppError 409 ''Only DRAFT purchase orders can be submitted'')
     else if or_lines po = [] then Inl (AppError 400 ''Cannot submit an empty PO'')
     else
       bindE (order_update i (\<lambda>x. x\<lparr>or_status := PoSUBMITTED, or_submittedAt := Some now\<rparr>) s) (\<lambda>s1.
       Inr (audit_po actor (or_storeId po) ''PO_SUBMIT'' ''PurchaseOrder'' i s1)))"

definition cancelPurchaseOrder :: "auth_user \<Rightarrow> ident \<Rightarrow> purchase_db \<Rightarrow> purchase_db \<Rightarrow> purchase_db result" where
  "cancelPurchaseOrder actor i s0 s =
     bindE (accessPo actor i s0) (\<lambda>po.
     if or_status po \<noteq> PoDRAFT \<and> or_status po \<noteq> PoSUBMITTED
     then Inl (AppError 409 ''Only DRAFT or SUBMITTED POs can be cancelled'')
     else if list_ex (\<lambda>l. pol_receivedQty l > 0) (or_lines po)
     then Inl (AppError 409 ''Cannot cancel a PO that already has receipts'')
     else
       bindE (order_update i (\<lambda>x. x\<lparr>or_status := PoCANCELLED\<rparr>) s) (\<lambda>s1.
       Inr (audit_po actor (or_storeId po) ''PO_CANCEL'' ''PurchaseOrder'' i s1)))"

section \<open>Receiving\<close>

record receive_line =
  rv_poLineId :: ident
  rv_quantityReceived :: js_number
  rv_quantityRejected :: "js_number option"
  rv_rejectionReason :: "string option"
  rv_unitCostActual :: decimal
  rv_lotNumber :: "string option"
  rv_lotBarcode :: "string option"
  rv_expiryDate :: raw_date
  rv_harvestDate :: raw_date
  rv_countryOfOrigin :: "string option"
  rv_acknowledgeOverReceipt :: bool
  rv_closeShort :: bool
  rv_acknowledgeShortReceipt :: bool

record receive_input =
  rg_invoiceNumber :: "string option"
  rg_notes :: "string option"
  rg_lines :: "receive_line list"

definition parseOptionalDate :: "raw_date \<Rightarrow> time option result" where
  "parseOptionalDate v =
     (case v of DateMissing \<Rightarrow> Inr None | DateAt t \<Rightarrow> Inr (Some t)
      | DateInvalid \<Rightarrow> Inl (AppError 400 ''Invalid date value on receipt line''))"

text \<open>A count of units, zero allowed.\<close>

definition unit_count :: "js_number \<Rightarrow> string \<Rightarrow> int result" where
  "unit_count x msg =
     (case js_int x of None \<Rightarrow> Inl (AppError 400 msg)
      | Some n \<Rightarrow> if n < 0 then Inl (AppError 400 msg) else Inr n)"

text \<open>
  The checks of one received line: the accepted and rejected units, the units received so far with
  it, and whether the line is closed short.
\<close>

definition check_receive :: "receive_line \<Rightarrow> po_line \<Rightarrow> (int \<times> int \<times> int \<times> bool) result" where
  "check_receive raw poLine =
     (if pol_shortClosed poLine then Inl (AppError 409 ''PO line was already closed short'')
      else
        bindE (unit_count (rv_quantityReceived raw) ''quantityReceived must be a non-negative integer'') (\<lambda>qtyIn.
        bindE (case rv_quantityRejected raw of None \<Rightarrow> Inr 0
               | Some x \<Rightarrow> unit_count x ''quantityRejected must be a non-negative integer'') (\<lambda>qtyReject.
        if qtyIn = 0 \<and> qtyReject = 0 \<and> \<not> rv_closeShort raw
        then Inl (AppError 400 ''Receipt line must receive, reject, or close short'')
        else if qtyReject > 0 \<and> trimmed (rv_rejectionReason raw) = None
        then Inl (AppError 400 ''rejectionReason is required when rejecting units'')
        else
          let remaining = max 0 (pol_orderedQty poLine - pol_receivedQty poLine);
              nextReceived = pol_receivedQty poLine + qtyIn
          in if qtyIn > remaining \<and> \<not> rv_acknowledgeOverReceipt raw
             then Inl (AppError 409 ''Over-receipt: quantityReceived exceeds outstanding ordered qty - set acknowledgeOverReceipt to proceed'')
             else if rv_closeShort raw \<and> nextReceived \<ge> pol_orderedQty poLine
             then Inl (AppError 400 ''closeShort is only valid when the line remains short'')
             else if rv_closeShort raw \<and> \<not> rv_acknowledgeShortReceipt raw
             then Inl (AppError 409 ''Short-receipt: closing a line below orderedQty requires acknowledgeShortReceipt'')
             else Inr (qtyIn, qtyReject, nextReceived, rv_closeShort raw))))"

record cost_change =
  cc_productId :: ident
  cc_before :: decimal
  cc_after :: decimal
  cc_quantityReceived :: int
  cc_unitCostActual :: decimal

text \<open>
  What the loop over the received lines works on: the database, the lines and the locked products as
  held in memory, and the cost changes to report.
\<close>

record receive_state =
  rs_db :: purchase_db
  rs_lines :: "po_line list"
  rs_locked :: "product list"
  rs_costs :: "cost_change list"

definition weighted_cost :: "(decimal \<Rightarrow> decimal \<Rightarrow> decimal) \<Rightarrow> decimal \<Rightarrow> int \<Rightarrow> decimal \<Rightarrow> int \<Rightarrow> decimal" where
  "weighted_cost dv cost previousStock unitCostActual qtyIn =
     (if previousStock \<le> 0 then unitCostActual
      else unitCostDec (dv (unitCostDec cost * of_int previousStock + unitCostActual * of_int qtyIn)
                             (of_int (previousStock + qtyIn))))"

definition last_chars :: "nat \<Rightarrow> string \<Rightarrow> string" where
  "last_chars n s = drop (length s - n) s"

text \<open>
  The lot number: as supplied, or SKU, day and receipt; a number that the product has at its store
  gets the end of the receipt line appended.
\<close>

definition pick_lot_number ::
  "string option \<Rightarrow> product \<Rightarrow> time \<Rightarrow> ident \<Rightarrow> ident \<Rightarrow> db \<Rightarrow> string" where
  "pick_lot_number supplied product receivedAt receiptId rlineId s =
     (let n = (case supplied of Some x \<Rightarrow> x
            | None \<Rightarrow> p_sku product @ ''-'' @ yyyymmdd receivedAt @ ''-'' @ last_chars 8 receiptId)
      in if \<exists>l \<in> set (db_lots s). l_productId l = p_id product \<and> l_lotNumber l = n \<and> l_storeId l = p_storeId product
         then n @ ''-'' @ last_chars 4 rlineId else n)"

text \<open>The accepted units of one line: their lot, the stock adjustment, the average cost.\<close>

definition stock_receipt ::
  "(decimal \<Rightarrow> decimal \<Rightarrow> decimal) \<Rightarrow> time \<Rightarrow> ident \<Rightarrow> ident \<Rightarrow> ident \<Rightarrow> auth_user \<Rightarrow> ident \<Rightarrow> receive_line
    \<Rightarrow> po_line \<Rightarrow> int \<Rightarrow> time option \<Rightarrow> time option \<Rightarrow> receive_state \<Rightarrow> (receive_state \<times> string) result" where
  "stock_receipt dv now receiptId rlineId lotId actor supplierId raw poLine qtyIn expiryDate harvestDate r =
     (case (find_row p_id (pol_productId poLine) (rs_locked r), find_product (pol_productId poLine) (pd_core (rs_db r))) of
        (Some locked, Some product) \<Rightarrow>
          let s = rs_db r;
              unitCostActual = unitCostDec (rv_unitCostActual raw);
              lotNumber = pick_lot_number (trimmed (rv_lotNumber raw)) product now receiptId rlineId (pd_core s);
              previousStock = p_stock locked
          in
          bindE (if trimmed (rv_lotBarcode raw) = None then Inr None
                 else bindE (claimLotBarcode (p_storeId product) (the (rv_lotBarcode raw)) None (pd_shop s)) (\<lambda>c. Inr (Some c)))
            (\<lambda>lotBarcode.
          bindE (addLot now locked
              \<lparr>al_id = lotId, al_lotNumber = lotNumber, al_barcode = lotBarcode, al_storeId = p_storeId product,
               al_supplierId = Some supplierId, al_goodsReceiptLineId = Some rlineId, al_harvestDate = harvestDate,
               al_packDate = None, al_expiryDate = expiryDate, al_quantity = qtyIn,
               al_countryOfOrigin = trimmed (rv_countryOfOrigin raw), al_receivedAt = Some now,
               al_unitCost = unitCostActual, al_status = None\<rparr> (pd_core s))
            (\<lambda>(d1, lot).
          let d2 = d1\<lparr>db_adjustments := db_adjustments d1 @
                    [\<lparr>sa_productId = p_id product, sa_storeId = p_storeId product, sa_adjustedById = au_id actor,
                      sa_previousStock = previousStock, sa_newStock = previousStock + qtyIn, sa_delta = qtyIn,
                      sa_reason = ''RECEIPT'', sa_lotId = Some (l_id lot)\<rparr>]\<rparr>;
              locked' = upd_row p_id (p_id locked) (\<lambda>p. p\<lparr>p_stock := previousStock + qtyIn\<rparr>) (rs_locked r);
              newCost = weighted_cost dv (p_cost product) previousStock unitCostActual qtyIn
          in if unitCostActual = p_cost product
             then Inr (r\<lparr>rs_db := set_core d2 s, rs_locked := locked'\<rparr>, lotNumber)
             else
               bindE (product_update (p_id product) (\<lambda>p. p\<lparr>p_cost := newCost\<rparr>) d2) (\<lambda>d3.
               Inr (r\<lparr>rs_db := set_core d3 s, rs_locked := locked',
                      rs_costs := rs_costs r @ [\<lparr>cc_productId = p_id product, cc_before = unitCostDec (p_cost product),
                        cc_after = newCost, cc_quantityReceived = qtyIn, cc_unitCostActual = unitCostActual\<rparr>]\<rparr>,
                    lotNumber))))
      | _ \<Rightarrow> Inl (AppError 404 ''Product not found''))"

definition set_receipt_line :: "ident \<Rightarrow> ident \<Rightarrow> (goods_receipt \<Rightarrow> goods_receipt) \<Rightarrow> purchase_db \<Rightarrow> purchase_db result" where
  "set_receipt_line poId receiptId f s =
     order_update poId (\<lambda>x. x\<lparr>or_receipts := upd_row gr_id receiptId f (or_receipts x)\<rparr>) s"

definition receipt_ids :: "purchase_db \<Rightarrow> ident set" where
  "receipt_ids s = (\<Union>x \<in> set (pd_orders s). gr_id ` set (or_receipts x))"

definition receipt_line_ids :: "purchase_db \<Rightarrow> ident set" where
  "receipt_line_ids s = (\<Union>x \<in> set (pd_orders s). \<Union>g \<in> set (or_receipts x). grl_id ` set (gr_lines g))"

text \<open>
  One line of the receipt. The row of the order line is overwritten with the count held in memory.
\<close>

definition receive_one ::
  "(decimal \<Rightarrow> decimal \<Rightarrow> decimal) \<Rightarrow> time \<Rightarrow> ident \<Rightarrow> (nat \<Rightarrow> ident) \<Rightarrow> (nat \<Rightarrow> ident) \<Rightarrow> auth_user \<Rightarrow> purchase_order
    \<Rightarrow> nat \<times> receive_line \<Rightarrow> receive_state \<Rightarrow> receive_state result" where
  "receive_one dv now receiptId rlineIdOf lotIdOf actor po kraw r =
     (let (k, raw) = kraw; poId = or_id po; rlineId = rlineIdOf k in
      case find_row pol_id (rv_poLineId raw) (rs_lines r) of
        None \<Rightarrow> Inl (AppError 400 ''poLineId is not on this purchase order'')
      | Some poLine \<Rightarrow>
          bindE (check_receive raw poLine) (\<lambda>(qtyIn, qtyReject, nextReceived, shortClosed).
          bindE (parseOptionalDate (rv_expiryDate raw)) (\<lambda>expiryDate.
          bindE (parseOptionalDate (rv_harvestDate raw)) (\<lambda>harvestDate.
          let supplied = trimmed (rv_lotNumber raw);
              rline = \<lparr>grl_id = rlineId, grl_poLineId = pol_id poLine, grl_productId = pol_productId poLine,
                grl_quantityReceived = qtyIn, grl_quantityRejected = qtyReject,
                grl_rejectionReason = (if qtyReject > 0 then trimmed (rv_rejectionReason raw) else None),
                grl_unitCostActual = unitCostDec (rv_unitCostActual raw), grl_lotNumber = supplied,
                grl_expiryDate = expiryDate, grl_harvestDate = harvestDate,
                grl_countryOfOrigin = trimmed (rv_countryOfOrigin raw)\<rparr>
          in
          bindE (if rlineId \<in> receipt_line_ids (rs_db r) then Inl UniqueViolation
                 else set_receipt_line poId receiptId (\<lambda>g. g\<lparr>gr_lines := gr_lines g @ [rline]\<rparr>) (rs_db r)) (\<lambda>s1.
          bindE (if \<exists>x \<in> set (pd_orders s1). or_id x = poId \<and> has_row pol_id (pol_id poLine) (or_lines x)
                 then order_update poId (\<lambda>x. x\<lparr>or_lines := upd_row pol_id (pol_id poLine)
                        (\<lambda>l. l\<lparr>pol_receivedQty := nextReceived, pol_shortClosed := shortClosed\<rparr>) (or_lines x)\<rparr>) s1
                 else Inl RecordNotFound) (\<lambda>s2.
          bindE (if qtyIn > 0
                 then bindE (stock_receipt dv now receiptId rlineId (lotIdOf k) actor (or_supplierId po) raw poLine qtyIn
                          expiryDate harvestDate (r\<lparr>rs_db := s2\<rparr>)) (\<lambda>(r3, lotNumber).
                      if supplied = None
                      then bindE (set_receipt_line poId receiptId
                             (\<lambda>g. g\<lparr>gr_lines := upd_row grl_id rlineId (\<lambda>l. l\<lparr>grl_lotNumber := Some lotNumber\<rparr>) (gr_lines g)\<rparr>)
                             (rs_db r3)) (\<lambda>s3. Inr (r3\<lparr>rs_db := s3\<rparr>))
                      else Inr r3)
                 else Inr (r\<lparr>rs_db := s2\<rparr>)) (\<lambda>r4.
          Inr (r4\<lparr>rs_lines := upd_row pol_id (pol_id poLine)
                 (\<lambda>l. l\<lparr>pol_receivedQty := nextReceived, pol_shortClosed := shortClosed\<rparr>) (rs_lines r4)\<rparr>))))))))"

record receive_result =
  rr_receipt :: goods_receipt
  rr_order :: purchase_order
  rr_costChanges :: "cost_change list"

text \<open>The transaction: \<open>s0\<close> is the state the order was read in, \<open>s\<close> the one after the products are locked.\<close>

definition receive_tx ::
  "(decimal \<Rightarrow> decimal \<Rightarrow> decimal) \<Rightarrow> time \<Rightarrow> ident \<Rightarrow> (nat \<Rightarrow> ident) \<Rightarrow> (nat \<Rightarrow> ident) \<Rightarrow> auth_user \<Rightarrow> ident \<Rightarrow> receive_input
    \<Rightarrow> purchase_db \<Rightarrow> purchase_db \<Rightarrow> (purchase_db \<times> receive_result) result" where
  "receive_tx dv now receiptId rlineIdOf lotIdOf actor poId d s0 s =
     bindE (accessPo actor poId s0) (\<lambda>po.
     if or_status po \<noteq> PoSUBMITTED \<and> or_status po \<noteq> PoPARTIALLY_RECEIVED
     then Inl (AppError 409 ''PO is not open for receiving'')
     else
       let locked = lockProducts (map (\<lambda>l. pol_productId l)
             (concat (map (\<lambda>raw. filter (\<lambda>l. pol_id l = rv_poLineId raw) (or_lines po)) (rg_lines d)))) (pd_core s);
           receipt = \<lparr>gr_id = receiptId, gr_receivedByUserId = au_id actor, gr_receivedAt = now,
             gr_invoiceNumber = trimmed (rg_invoiceNumber d), gr_notes = trimmed (rg_notes d), gr_lines = []\<rparr>
       in
       bindE (if receiptId \<in> receipt_ids s then Inl UniqueViolation
              else order_update poId (\<lambda>x. x\<lparr>or_receipts := or_receipts x @ [receipt]\<rparr>) s) (\<lambda>s1.
       bindE (forE (enumerate 0 (rg_lines d)) (receive_one dv now receiptId rlineIdOf lotIdOf actor po)
           \<lparr>rs_db = s1, rs_lines = or_lines po, rs_locked = locked, rs_costs = []\<rparr>) (\<lambda>r.
       case find_order poId (rs_db r) of
         None \<Rightarrow> Inl RecordNotFound
       | Some refreshed \<Rightarrow>
           bindE (order_update poId (\<lambda>x. x\<lparr>or_status := derivePoStatus (or_lines refreshed) (or_status po)\<rparr>) (rs_db r))
             (\<lambda>s2.
           case find_order poId s2 of
             None \<Rightarrow> Inl RecordNotFound
           | Some updated \<Rightarrow>
               (case find_row gr_id receiptId (or_receipts updated) of
                  None \<Rightarrow> Inl RecordNotFound
                | Some full \<Rightarrow> Inr (s2, \<lparr>rr_receipt = full, rr_order = updated, rr_costChanges = rs_costs r\<rparr>))))))"

definition receiveGoods ::
  "(decimal \<Rightarrow> decimal \<Rightarrow> decimal) \<Rightarrow> time \<Rightarrow> ident \<Rightarrow> (nat \<Rightarrow> ident) \<Rightarrow> (nat \<Rightarrow> ident) \<Rightarrow> auth_user \<Rightarrow> ident \<Rightarrow> receive_input
    \<Rightarrow> purchase_db \<Rightarrow> purchase_db \<Rightarrow> (purchase_db \<times> receive_result) result" where
  "receiveGoods dv now receiptId rlineIdOf lotIdOf actor poId d s0 s =
     bindE (assertAdmin actor) (\<lambda>_.
     if rg_lines d = [] then Inl (AppError 400 ''Receipt must include at least one line'')
     else
       bindE (receive_tx dv now receiptId rlineIdOf lotIdOf actor poId d s0 s) (\<lambda>(s1, res).
       let storeId = or_storeId (rr_order res);
           s2 = audit_po actor storeId ''PO_RECEIVE'' ''GoodsReceipt'' receiptId s1;
           s3 = fold (\<lambda>c u. audit_po actor storeId ''PRODUCT_COST_CHANGE'' ''Product'' (cc_productId c) u)
                  (rr_costChanges res) s2
       in Inr (s3, res)))"

section \<open>Reorder suggestions\<close>

record pipeline =
  pi_onOrder :: int
  pi_openPoNumbers :: "string list"
  pi_draftOnOrder :: int
  pi_draftPoNumbers :: "string list"

definition add_once :: "string \<Rightarrow> string list \<Rightarrow> string list" where
  "add_once x xs = (if x \<in> set xs then xs else xs @ [x])"

text \<open>One order line joins the pipeline of its product.\<close>

definition add_pipeline :: "purchase_order \<times> po_line \<Rightarrow> pipeline \<Rightarrow> pipeline" where
  "add_pipeline row agg =
     (let (po, line) = row; outstanding = max 0 (pol_orderedQty line - pol_receivedQty line) in
      if outstanding \<le> 0 then agg
      else if or_status po = PoDRAFT
      then agg\<lparr>pi_draftOnOrder := pi_draftOnOrder agg + outstanding,
               pi_draftPoNumbers := add_once (or_poNumber po) (pi_draftPoNumbers agg)\<rparr>
      else agg\<lparr>pi_onOrder := pi_onOrder agg + outstanding,
               pi_openPoNumbers := add_once (or_poNumber po) (pi_openPoNumbers agg)\<rparr>)"

definition pipeline_lines :: "ident \<Rightarrow> purchase_db \<Rightarrow> (purchase_order \<times> po_line) list" where
  "pipeline_lines pid s =
     filter (\<lambda>(po, l). pol_productId l = pid \<and> \<not> pol_shortClosed l
          \<and> or_status po \<in> {PoDRAFT, PoSUBMITTED, PoPARTIALLY_RECEIVED})
       (concat (map (\<lambda>po. map (Pair po) (or_lines po)) (pd_orders s)))"

definition aggregateOpenPoPipeline :: "purchase_db \<Rightarrow> ident \<Rightarrow> pipeline" where
  "aggregateOpenPoPipeline s pid =
     fold add_pipeline (pipeline_lines pid s)
       \<lparr>pi_onOrder = 0, pi_openPoNumbers = [], pi_draftOnOrder = 0, pi_draftPoNumbers = []\<rparr>"

record reorder_line =
  ro_productId :: ident
  ro_sku :: string
  ro_name :: string
  ro_storeId :: ident
  ro_available :: int
  ro_pipeline :: pipeline
  ro_position :: int
  ro_reorderAt :: int
  ro_caseSize :: int
  ro_minOrderQty :: int
  ro_unitCost :: decimal
  ro_suggestedQty :: int
  ro_lineTotal :: decimal

record reorder_suggestion =
  rsg_supplierId :: ident
  rsg_supplierName :: string
  rsg_lines :: "reorder_line list"
  rsg_subtotal :: decimal

text \<open>\<open>Math.ceil(q / caseSize) * caseSize\<close>\<close>

definition suggested_qty :: "int \<Rightarrow> int \<Rightarrow> int \<Rightarrow> int \<Rightarrow> int" where
  "suggested_qty reorderAt position minOrderQty caseSize =
     (let deficit = reorderAt - position + 1; q = max deficit minOrderQty
      in if caseSize > 1 then - ((- q) div caseSize) * caseSize else q)"

text \<open>The line a product needs, with the supplier it is preferably bought from.\<close>

definition reorder_line_of :: "purchase_db \<Rightarrow> product \<Rightarrow> (supplier \<times> reorder_line) option" where
  "reorder_line_of s product =
     (let available = p_stock product - p_reserved product;
          pipe = aggregateOpenPoPipeline s (p_id product);
          position = available + pi_onOrder pipe
      in if position > p_reorderAt product then None
         else case List.find (\<lambda>l. sp_productId l = p_id product \<and> sp_isPreferred l) (pd_links s) of
           None \<Rightarrow> None
         | Some link \<Rightarrow>
             (case find_supplier (sp_supplierId link) s of
                None \<Rightarrow> None
              | Some supplier \<Rightarrow>
                  if \<not> su_isActive supplier then None
                  else
                    let q = suggested_qty (p_reorderAt product) position (sp_minOrderQty link) (sp_caseSize link);
                        unitCost = unitCostDec (sp_unitCost link)
                    in Some (supplier, \<lparr>ro_productId = p_id product, ro_sku = p_sku product, ro_name = p_name product,
                         ro_storeId = p_storeId product, ro_available = available, ro_pipeline = pipe,
                         ro_position = position, ro_reorderAt = p_reorderAt product, ro_caseSize = sp_caseSize link,
                         ro_minOrderQty = sp_minOrderQty link, ro_unitCost = unitCost, ro_suggestedQty = q,
                         ro_lineTotal = moneyDec (unitCost * of_int q)\<rparr>)))"

definition add_suggestion :: "supplier \<times> reorder_line \<Rightarrow> reorder_suggestion list \<Rightarrow> reorder_suggestion list" where
  "add_suggestion row groups =
     (let (x, line) = row;
          groups' = (if has_row rsg_supplierId (su_id x) groups then groups
             else groups @ [\<lparr>rsg_supplierId = su_id x, rsg_supplierName = su_name x, rsg_lines = [], rsg_subtotal = 0\<rparr>])
      in upd_row rsg_supplierId (su_id x) (\<lambda>g. g\<lparr>rsg_lines := rsg_lines g @ [line]\<rparr>) groups')"

definition suggestReorderDrafts :: "auth_user \<Rightarrow> ident \<Rightarrow> purchase_db \<Rightarrow> reorder_suggestion list result" where
  "suggestReorderDrafts actor storeId s =
     bindE (assertPoStoreAccess actor (Some storeId)) (\<lambda>_.
     let rows = concat (map (\<lambda>p. case reorder_line_of s p of None \<Rightarrow> [] | Some row \<Rightarrow> [row])
           (filter (\<lambda>p. p_storeId p = storeId) (db_products (pd_core s))));
         groups = fold add_suggestion rows []
     in Inr (sort_key rsg_supplierName
          (map (\<lambda>g. g\<lparr>rsg_subtotal := moneyDec (sum_list (map (\<lambda>l. moneyDec (ro_lineTotal l)) (rsg_lines g)))\<rparr>) groups)))"

end
