(* ===== verification/Purchase_Proofs.thy ===== *)
theory Purchase_Proofs
  imports Purchasing Inventory_Proofs
begin

text \<open>
  What receiving goods does to the stock and to the order: every accepted unit is on a new lot, in
  the product's stock and on the order line; nothing is over-received in silence; average costs stay
  between the costs they average. Then the reorder suggestions, and what goes wrong when receipts race
  or a draft is edited.
\<close>

section \<open>Costs and other attributes of a product\<close>

text \<open>What the stock invariant looks at in a product row.\<close>

definition stock_row :: "product \<Rightarrow> ident \<times> ident \<times> int \<times> int" where
  "stock_row p = (p_id p, p_storeId p, p_stock p, p_reserved p)"

lemma stock_row_D:
  assumes "map stock_row ps = map stock_row qs"
  shows "map p_id ps = map p_id qs" "map product_key ps = map product_key qs" "map (\<lambda>p. (product_key p, p_stock p)) ps = map (\<lambda>p. (product_key p, p_stock p)) qs"
proof -
  have "map (g \<circ> stock_row) ps = map (g \<circ> stock_row) qs" for g :: "ident \<times> ident \<times> int \<times> int \<Rightarrow> 'b"
    using assms by (metis map_map)
  from this [of fst] this [of "\<lambda>(a, b, c, d). (a, b)"] this [of "\<lambda>(a, b, c, d). ((a, b), c)"]
  show "map p_id ps = map p_id qs" "map product_key ps = map product_key qs"
    "map (\<lambda>p. (product_key p, p_stock p)) ps = map (\<lambda>p. (product_key p, p_stock p)) qs"
    by (simp_all add: comp_def stock_row_def product_key_def [abs_def])
qed

lemma sum_rows_via:
  "map k xs = map k ys \<Longrightarrow> sum_rows (\<lambda>x. f (k x)) xs = sum_rows (\<lambda>x. f (k x)) ys"
proof -
  assume "map k xs = map k ys"
  then have "map (f \<circ> k) xs = map (f \<circ> k) ys" by (metis map_map)
  then show ?thesis by (simp add: sum_rows_def comp_def)
qed

lemma attrs_sys_inv:
  assumes s: "sys_inv s" and t: "map stock_row (db_products t) = map stock_row (db_products s)"
    "db_lots t = db_lots s" "db_sales t = db_sales s"
  shows "sys_inv t"
proof -
  have gaps: "stock_gap t i = stock_gap s i" "reserved_gap t i = reserved_gap s i" for i
  proof -
    have "sum_rows (product_stock i) (db_products t) = sum_rows (product_stock i) (db_products s)"
      using sum_rows_via [OF t(1), of "\<lambda>(a, b, c, d). if a = i then c else 0"]
      by (simp add: product_stock_def [abs_def] stock_row_def)
    then show "stock_gap t i = stock_gap s i" by (simp add: stock_gap_def t(2))
    have "sum_rows (product_reserved i) (db_products t) = sum_rows (product_reserved i) (db_products s)"
      using sum_rows_via [OF t(1), of "\<lambda>(a, b, c, d). if a = i then d else 0"]
      by (simp add: product_reserved_def [abs_def] stock_row_def)
    then show "reserved_gap t i = reserved_gap s i" by (simp add: reserved_gap_def t(2))
  qed
  have ids: "p_id ` set (db_products t) = p_id ` set (db_products s)"
    using stock_row_D(1) [OF t(1)] by (metis list.set_map)
  have h: "held t = held s" using t(3) by (simp add: held_def fun_eq_iff)
  have "stock_gap t (p_id p) = 0 \<and> reserved_gap t (p_id p) = 0" if "p \<in> set (db_products t)" for p
  proof -
    have "p_id p \<in> p_id ` set (db_products s)" using that ids by blast
    then obtain q where "q \<in> set (db_products s)" "p_id p = p_id q" by blast
    then show ?thesis using sys_invD(3) [OF s] gaps by (simp add: rollup_ok_def)
  qed
  then have "rollup_ok t" by (simp add: rollup_ok_def)
  moreover have "lots_inv (held t) t"
    using sys_invD(2) [OF s] t(2) stock_row_D(1) [OF t(1)] by (simp add: lots_inv_def h)
  moreover have "sale_ok t x = sale_ok s x" for x
    using ids t(2) by (simp add: sale_ok_def item_ok_def)
  ultimately show ?thesis using s t by (simp add: sys_inv_def stock_inv_def)
qed

lemma addLot_product:
  assumes "p_id p = p_id q" shows "addLot now p d s = addLot now q d s"
proof -
  have "new_lot now p d = new_lot now q d" by (simp add: new_lot_def assms)
  then show ?thesis by (simp only: addLot_def assms)
qed

section \<open>One received line\<close>

text \<open>The stock of every product, with its key.\<close>

definition stocks :: "db \<Rightarrow> ((ident \<times> ident) \<times> int) list" where
  "stocks s = map (\<lambda>p. (product_key p, p_stock p)) (db_products s)"

definition raised :: "(ident \<Rightarrow> int) \<Rightarrow> (ident \<times> ident) \<times> int \<Rightarrow> (ident \<times> ident) \<times> int" where
  "raised u row = (case row of ((i, st), n) \<Rightarrow> ((i, st), n + u i))"

lemma raised_comp: "raised u (raised v row) = raised (\<lambda>i. v i + u i) row"
  by (cases row) (auto simp: raised_def)

lemma pd_core_set [simp]: "pd_core (set_core d s) = d" "pd_orders (set_core d s) = pd_orders s"
  by (simp_all add: pd_core_def set_core_def)

lemma pd_core_order [simp]: "pd_core (s\<lparr>pd_orders := os\<rparr>) = pd_core s"
  by (simp add: pd_core_def)

lemma stock_receipt_effect:
  assumes run: "stock_receipt dv now rid rlid lid actor vendor raw l q e h r = Inr (r', n)" and q: "0 < q"
  shows "pd_orders (rs_db r') = pd_orders (rs_db r)" "rs_lines r' = rs_lines r"
    "stocks (pd_core (rs_db r')) = map (raised (\<lambda>i. if i = pol_productId l then q else 0)) (stocks (pd_core (rs_db r)))"
    "sys_inv (pd_core (rs_db r)) \<Longrightarrow> lid \<noteq> [] \<Longrightarrow> sys_inv (pd_core (rs_db r'))"
    "\<exists>k. db_lots (pd_core (rs_db r')) = db_lots (pd_core (rs_db r)) @ [k] \<and> l_id k = lid
       \<and> l_productId k = pol_productId l \<and> l_status k = LotACTIVE \<and> l_quantityRemaining k = q
       \<and> l_unitCost k = unitCostDec (rv_unitCostActual raw)"
proof -
  let ?c = "pd_core (rs_db r)"
  obtain locked product :: product where row: "find_row p_id (pol_productId l) (rs_locked r) = Some locked"
      "find_product (pol_productId l) ?c = Some product"
    using run by (auto simp: stock_receipt_def split: option.splits)
  have ids: "p_id locked = pol_productId l" "p_id product = pol_productId l" "product \<in> set (db_products ?c)"
    using find_row_SomeD [OF row(1)] row(2) find_row_SomeD [of p_id "pol_productId l" "db_products ?c"]
    by (auto simp: find_product_def)
  define nc where "nc = weighted_cost dv (p_cost product) (p_stock locked) (unitCostDec (rv_unitCostActual raw)) q"
  obtain code d1 lot where lotrun: "addLot now locked
        \<lparr>al_id = lid, al_lotNumber = pick_lot_number (trimmed (rv_lotNumber raw)) product now rid rlid ?c,
         al_barcode = code, al_storeId = p_storeId product, al_supplierId = Some vendor,
         al_goodsReceiptLineId = Some rlid, al_harvestDate = h, al_packDate = None, al_expiryDate = e, al_quantity = q,
         al_countryOfOrigin = trimmed (rv_countryOfOrigin raw), al_receivedAt = Some now,
         al_unitCost = unitCostDec (rv_unitCostActual raw), al_status = None\<rparr> ?c = Inr (d1, lot)"
    and res: "pd_orders (rs_db r') = pd_orders (rs_db r)" "rs_lines r' = rs_lines r"
      "db_lots (pd_core (rs_db r')) = db_lots d1" "db_sales (pd_core (rs_db r')) = db_sales d1"
      "map stock_row (db_products (pd_core (rs_db r'))) = map stock_row (db_products d1)"
    using run row unfolding stock_receipt_def Let_def nc_def [symmetric]
    by (fastforce simp: bindE_Inr_iff product_update_Inr_iff upd_row_def stock_row_def split: if_splits)
  note ef = addLot_effect [OF lotrun]
  show "pd_orders (rs_db r') = pd_orders (rs_db r)" "rs_lines r' = rs_lines r" by (fact res)+
  show "\<exists>k. db_lots (pd_core (rs_db r')) = db_lots ?c @ [k] \<and> l_id k = lid
       \<and> l_productId k = pol_productId l \<and> l_status k = LotACTIVE \<and> l_quantityRemaining k = q
       \<and> l_unitCost k = unitCostDec (rv_unitCostActual raw)"
    using ef(1,2) res(3) by (simp add: new_lot_def ids(1))
  have "db_products d1 = upd_row p_id (pol_productId l) (\<lambda>p. p\<lparr>p_stock := p_stock p + q\<rparr>) (db_products ?c)"
    using lotrun q ids(1)
    by (auto simp: addLot_def lot_create_def new_lot_def create_row_def bindE_Inr_iff product_update_Inr_iff split: if_splits)
  moreover have "stocks (pd_core (rs_db r')) = stocks d1"
    using stock_row_D(3) [OF res(5)] by (simp add: stocks_def)
  ultimately show "stocks (pd_core (rs_db r')) = map (raised (\<lambda>i. if i = pol_productId l then q else 0)) (stocks ?c)"
    by (simp add: stocks_def upd_row_def raised_def product_key_def comp_def)
  assume s: "sys_inv ?c" "lid \<noteq> []"
  have "sys_inv d1"
    by (rule addLot_sys_inv [OF s(1) ids(3) _ _ lotrun [unfolded addLot_product [of locked product, simplified ids, OF refl]]])
      (simp_all add: s(2))
  then show "sys_inv (pd_core (rs_db r'))" by (rule attrs_sys_inv) (simp_all add: res)
qed


definition progress :: "int \<Rightarrow> bool \<Rightarrow> po_line \<Rightarrow> po_line" where
  "progress nx sc l = l\<lparr>pol_receivedQty := nx, pol_shortClosed := sc\<rparr>"

definition order_after :: "ident \<Rightarrow> receipt_line \<Rightarrow> ident \<Rightarrow> int \<Rightarrow> bool \<Rightarrow> purchase_order \<Rightarrow> purchase_order" where
  "order_after rid rl lid nx sc x =
     x\<lparr>or_receipts := upd_row gr_id rid (\<lambda>g. g\<lparr>gr_lines := gr_lines g @ [rl]\<rparr>) (or_receipts x),
       or_lines := upd_row pol_id lid (progress nx sc) (or_lines x)\<rparr>"

lemma order_update_Inr_iff:
  "order_update i f s = Inr t \<longleftrightarrow> has_row or_id i (pd_orders s) \<and> t = s\<lparr>pd_orders := upd_row or_id i f (pd_orders s)\<rparr>"
  by (auto simp: order_update_def update_row_def)

lemma raised_zero [simp]: "map (raised (\<lambda>i. 0)) xs = xs"
proof -
  have "raised (\<lambda>i. 0) = id" by (rule ext) (auto simp: raised_def)
  then show ?thesis by simp
qed

text \<open>The lot number is filled in on the new receipt line only, whose identifier is new.\<close>

lemma set_number_last:
  assumes new: "i \<notin> (\<Union>x \<in> set os. \<Union>g \<in> set (or_receipts x). grl_id ` set (gr_lines g))" and k: "grl_id rl = i"
    and f: "\<And>l. grl_id (f l) = grl_id l"
  shows "upd_row or_id pid (\<lambda>x. x\<lparr>or_receipts := upd_row gr_id rid (\<lambda>g. g\<lparr>gr_lines := upd_row grl_id i f (gr_lines g)\<rparr>) (or_receipts x)\<rparr>)
      (upd_row or_id pid (order_after rid rl lid nx sc) os) = upd_row or_id pid (order_after rid (f rl) lid nx sc) os"
proof -
  have "upd_row gr_id rid (\<lambda>g. g\<lparr>gr_lines := upd_row grl_id i f (gr_lines g)\<rparr>)
        (upd_row gr_id rid (\<lambda>g. g\<lparr>gr_lines := gr_lines g @ [rl]\<rparr>) (or_receipts x))
      = upd_row gr_id rid (\<lambda>g. g\<lparr>gr_lines := gr_lines g @ [f rl]\<rparr>) (or_receipts x)" if x: "x \<in> set os" for x
  proof -
    have "upd_row grl_id i f (gr_lines g @ [rl]) = gr_lines g @ [f rl]" if "g \<in> set (or_receipts x)" for g
    proof -
      have "upd_row grl_id i f (gr_lines g) = gr_lines g"
        using new x that by (intro upd_row_absent) auto
      then show ?thesis using k by (simp add: upd_row_def)
    qed
    then show ?thesis by (auto simp: upd_row_def)
  qed
  then show ?thesis by (auto simp: upd_row_def order_after_def)
qed

lemma receive_one_step:
  assumes run: "receive_one dv now rid rf lf actor po (k, raw) r = Inr r'"
  obtains l q rej nx sc rl where
    "find_row pol_id (rv_poLineId raw) (rs_lines r) = Some l" "check_receive raw l = Inr (q, rej, nx, sc)"
    "grl_poLineId rl = pol_id l" "grl_productId rl = pol_productId l" "grl_quantityReceived rl = q"
    "grl_id rl = rf k" "rf k \<notin> receipt_line_ids (rs_db r)"
    "pd_orders (rs_db r') = upd_row or_id (or_id po) (order_after rid rl (pol_id l) nx sc) (pd_orders (rs_db r))"
    "rs_lines r' = upd_row pol_id (pol_id l) (progress nx sc) (rs_lines r)"
    "stocks (pd_core (rs_db r')) = map (raised (\<lambda>i. if i = pol_productId l then q else 0)) (stocks (pd_core (rs_db r)))"
    "sys_inv (pd_core (rs_db r)) \<Longrightarrow> lf k \<noteq> [] \<Longrightarrow> sys_inv (pd_core (rs_db r'))"
proof -
  note run1 = run [unfolded receive_one_def Let_def prod.case]
  obtain l where l: "find_row pol_id (rv_poLineId raw) (rs_lines r) = Some l"
    using run1 by (cases "find_row pol_id (rv_poLineId raw) (rs_lines r)") simp_all
  note run2 = run1 [unfolded l option.case]
  obtain q rej nx sc where c: "check_receive raw l = Inr (q, rej, nx, sc)"
    using run2 by (auto simp: bindE_Inr_iff)
  note run3 = run2 [unfolded c bindE_simps prod.case]
  have q0: "0 \<le> q" using c
    by (auto simp: check_receive_def unit_count_def bindE_Inr_iff Let_def split: if_splits option.splits)
  obtain e h where eh: "parseOptionalDate (rv_expiryDate raw) = Inr e" "parseOptionalDate (rv_harvestDate raw) = Inr h"
    using run3 by (auto simp: bindE_Inr_iff)
  note run4 = run3 [unfolded eh bindE_simps]
  define rl where "rl = \<lparr>grl_id = rf k, grl_poLineId = pol_id l, grl_productId = pol_productId l,
                grl_quantityReceived = q, grl_quantityRejected = rej,
                grl_rejectionReason = (if rej > 0 then trimmed (rv_rejectionReason raw) else None),
                grl_unitCostActual = unitCostDec (rv_unitCostActual raw), grl_lotNumber = trimmed (rv_lotNumber raw),
                grl_expiryDate = e, grl_harvestDate = h,
                grl_countryOfOrigin = trimmed (rv_countryOfOrigin raw)\<rparr>"
  let ?os = "pd_orders (rs_db r)" and ?i = "or_id po"
  let ?os2 = "upd_row or_id ?i (order_after rid rl (pol_id l) nx sc) ?os"
  let ?s2 = "(rs_db r)\<lparr>pd_orders := ?os2\<rparr>"
  have comp2: "upd_row or_id ?i (\<lambda>x. x\<lparr>or_lines := upd_row pol_id (pol_id l) (progress nx sc) (or_lines x)\<rparr>)
      (upd_row or_id ?i (\<lambda>x. x\<lparr>or_receipts := upd_row gr_id rid (\<lambda>g. g\<lparr>gr_lines := gr_lines g @ [rl]\<rparr>) (or_receipts x)\<rparr>) ?os) = ?os2"
    by (auto simp: upd_row_def order_after_def)
  have new: "rf k \<notin> receipt_line_ids (rs_db r)"
    using run4 by (cases "rf k \<in> receipt_line_ids (rs_db r)") simp_all
  obtain r4 where r4: "(if q > 0
                 then bindE (stock_receipt dv now rid (rf k) (lf k) actor (or_supplierId po) raw l q e h (r\<lparr>rs_db := ?s2\<rparr>)) (\<lambda>(r3, lotNumber).
                      if trimmed (rv_lotNumber raw) = None
                      then bindE (set_receipt_line ?i rid
                             (\<lambda>g. g\<lparr>gr_lines := upd_row grl_id (rf k) (\<lambda>l. l\<lparr>grl_lotNumber := Some lotNumber\<rparr>) (gr_lines g)\<rparr>)
                             (rs_db r3)) (\<lambda>s3. Inr (r3\<lparr>rs_db := s3\<rparr>))
                      else Inr r3)
                 else Inr (r\<lparr>rs_db := ?s2\<rparr>)) = Inr r4"
      "r' = r4\<lparr>rs_lines := upd_row pol_id (pol_id l) (progress nx sc) (rs_lines r4)\<rparr>"
  proof -
    let ?s1 = "(rs_db r)\<lparr>pd_orders := upd_row or_id ?i (\<lambda>x. x\<lparr>or_receipts := upd_row gr_id rid
        (\<lambda>g. g\<lparr>gr_lines := gr_lines g @ [rl]\<rparr>) (or_receipts x)\<rparr>) ?os\<rparr>"
    note run5 = run4 [folded rl_def progress_def, unfolded if_not_P [OF new]]
    have s1: "set_receipt_line ?i rid (\<lambda>g. g\<lparr>gr_lines := gr_lines g @ [rl]\<rparr>) (rs_db r) = Inr ?s1"
      using run5 by (auto simp: bindE_Inr_iff set_receipt_line_def order_update_Inr_iff)
    have s2: "order_update ?i (\<lambda>x. x\<lparr>or_lines := upd_row pol_id (pol_id l) (progress nx sc) (or_lines x)\<rparr>) ?s1 = Inr ?s2"
      using run5 comp2 unfolding s1 bindE_simps by (auto simp: bindE_Inr_iff order_update_Inr_iff split: if_splits)
    note run6 = run5 [unfolded s1 bindE_simps]
    have ex: "\<exists>x \<in> set (pd_orders ?s1). or_id x = ?i \<and> has_row pol_id (pol_id l) (or_lines x)"
    proof (rule ccontr)
      assume no: "\<not> ?thesis"
      show False using run6 unfolding if_not_P [OF no] by simp
    qed
    note run7 = run6 [unfolded if_P [OF ex] s2 bindE_simps]
    show thesis by (rule bindE_InrE [OF run7]) (rule that, assumption, simp)
  qed
  show thesis
  proof (cases "q > 0")
    case False
    then have "q = 0" "r4 = r\<lparr>rs_db := ?s2\<rparr>" using q0 r4(1) by auto
    moreover from this(1) have "(\<lambda>i. if i = pol_productId l then q else 0) = (\<lambda>i. 0)" by (intro ext) simp
    then have "map (raised (\<lambda>i. if i = pol_productId l then q else 0)) xs = xs" for xs by (simp only: raised_zero)
    ultimately show thesis
      by (intro that [OF l c, of rl]) (simp_all add: rl_def new r4(2))
  next
    case True
    then obtain r3 n where r3: "stock_receipt dv now rid (rf k) (lf k) actor (or_supplierId po) raw l q e h (r\<lparr>rs_db := ?s2\<rparr>) = Inr (r3, n)"
      and r3': "(if trimmed (rv_lotNumber raw) = None
                      then bindE (set_receipt_line ?i rid
                             (\<lambda>g. g\<lparr>gr_lines := upd_row grl_id (rf k) (\<lambda>l. l\<lparr>grl_lotNumber := Some n\<rparr>) (gr_lines g)\<rparr>)
                             (rs_db r3)) (\<lambda>s3. Inr (r3\<lparr>rs_db := s3\<rparr>))
                      else Inr r3) = Inr r4"
      using r4(1) by (auto simp: bindE_Inr_iff)
    note e = stock_receipt_effect [OF r3 True]
    define rl' where "rl' = (if trimmed (rv_lotNumber raw) = None then rl\<lparr>grl_lotNumber := Some n\<rparr> else rl)"
    have os4: "pd_orders (rs_db r4) = upd_row or_id ?i (order_after rid rl' (pol_id l) nx sc) ?os"
      and core: "pd_core (rs_db r4) = pd_core (rs_db r3)" "rs_lines r4 = rs_lines r3"
      using r3' e(1) set_number_last [of "rf k" ?os rl "\<lambda>l. l\<lparr>grl_lotNumber := Some n\<rparr>" ?i rid "pol_id l" nx sc] new
      by (auto simp: rl'_def set_receipt_line_def bindE_Inr_iff order_update_Inr_iff receipt_line_ids_def rl_def split: if_splits)
    show thesis
      by (rule that [OF l c, of rl']) (use e core os4 new in \<open>simp_all add: rl_def rl'_def r4(2)\<close>)
  qed
qed


section \<open>The whole receipt\<close>

definition line_units :: "receipt_line list \<Rightarrow> ident \<Rightarrow> int" where
  "line_units rls i = sum_rows (\<lambda>rl. if grl_poLineId rl = i then grl_quantityReceived rl else 0) rls"

definition product_units :: "receipt_line list \<Rightarrow> ident \<Rightarrow> int" where
  "product_units rls i = sum_rows (\<lambda>rl. if grl_productId rl = i then grl_quantityReceived rl else 0) rls"

definition touched :: "receipt_line list \<Rightarrow> ident set" where
  "touched rls = grl_poLineId ` set rls"

lemma units_simps [simp]:
  "line_units [] i = 0" "line_units (rl # rls) i = (if grl_poLineId rl = i then grl_quantityReceived rl else 0) + line_units rls i"
  "product_units [] i = 0"
  "product_units (rl # rls) i = (if grl_productId rl = i then grl_quantityReceived rl else 0) + product_units rls i"
  "touched [] = {}" "touched (rl # rls) = insert (grl_poLineId rl) (touched rls)"
  by (simp_all add: line_units_def product_units_def touched_def)

text \<open>How far a line is, and how a list of lines stands after some receipt lines.\<close>

definition standing :: "po_line \<Rightarrow> int \<times> bool" where
  "standing l = (pol_receivedQty l, pol_shortClosed l)"

definition moved_lines :: "receipt_line list \<Rightarrow> po_line list \<Rightarrow> po_line list \<Rightarrow> bool" where
  "moved_lines rls ls ls' \<longleftrightarrow>
     (\<forall>i. map_option (\<lambda>l. (pol_productId l, pol_orderedQty l, pol_receivedQty l)) (find_row pol_id i ls')
        = map_option (\<lambda>l. (pol_productId l, pol_orderedQty l, pol_receivedQty l + line_units rls i)) (find_row pol_id i ls))
     \<and> (\<forall>i. i \<notin> touched rls \<longrightarrow> find_row pol_id i ls' = find_row pol_id i ls)"

definition written_lines :: "receipt_line list \<Rightarrow> po_line list \<Rightarrow> po_line list \<Rightarrow> po_line list \<Rightarrow> bool" where
  "written_lines rls mem ls ls' \<longleftrightarrow>
     (\<forall>i. map_option (\<lambda>l. (pol_productId l, pol_orderedQty l)) (find_row pol_id i ls')
            = map_option (\<lambda>l. (pol_productId l, pol_orderedQty l)) (find_row pol_id i ls))
     \<and> (\<forall>i. i \<in> touched rls \<longrightarrow> find_row pol_id i ls' = None
          \<or> map_option standing (find_row pol_id i ls') = map_option standing (find_row pol_id i mem))
     \<and> (\<forall>i. i \<notin> touched rls \<longrightarrow> find_row pol_id i ls' = find_row pol_id i ls)"

lemma check_receive_Inr:
  assumes "check_receive raw l = Inr (q, rej, nx, sc)"
  shows "js_int (rv_quantityReceived raw) = Some q" "0 \<le> q" "nx = pol_receivedQty l + q" "\<not> pol_shortClosed l"
    "\<not> rv_acknowledgeOverReceipt raw \<Longrightarrow> pol_receivedQty l \<le> pol_orderedQty l \<Longrightarrow> nx \<le> pol_orderedQty l"
    "sc = rv_closeShort raw" "sc \<Longrightarrow> rv_acknowledgeShortReceipt raw \<and> nx < pol_orderedQty l"
  using assms
  by (auto simp: check_receive_def unit_count_def bindE_Inr_iff Let_def split: if_splits option.splits)

lemma progress_id [simp]: "pol_id (progress nx sc l) = pol_id l"
  by (simp add: progress_def)

lemma find_order_after:
  "find_row or_id i (upd_row or_id i (order_after rid rl lid nx sc) os) = map_option (order_after rid rl lid nx sc) (find_row or_id i os)"
  by (simp add: find_row_upd_row order_after_def)

lemma receive_loop:
  assumes "forE krs (receive_one dv now rid rf lf actor po) r = Inr r'" "find_order (or_id po) (rs_db r) = Some x"
  shows "\<exists>rls x'. find_order (or_id po) (rs_db r') = Some x'
    \<and> x' = x\<lparr>or_receipts := upd_row gr_id rid (\<lambda>g. g\<lparr>gr_lines := gr_lines g @ rls\<rparr>) (or_receipts x), or_lines := or_lines x'\<rparr>
    \<and> list_all2 (\<lambda>(k, raw) rl. grl_poLineId rl = rv_poLineId raw \<and> js_int (rv_quantityReceived raw) = Some (grl_quantityReceived rl)) krs rls
    \<and> stocks (pd_core (rs_db r')) = map (raised (product_units rls)) (stocks (pd_core (rs_db r)))
    \<and> moved_lines rls (rs_lines r) (rs_lines r') \<and> written_lines rls (rs_lines r') (or_lines x) (or_lines x')
    \<and> (\<forall>rl \<in> set rls. \<exists>l. find_row pol_id (grl_poLineId rl) (rs_lines r) = Some l \<and> pol_productId l = grl_productId rl)
    \<and> (or_lines x = rs_lines r \<longrightarrow> or_lines x' = rs_lines r')
    \<and> ((\<forall>(k, raw) \<in> set krs. \<not> rv_acknowledgeOverReceipt raw) \<longrightarrow> distinct (map pol_id (rs_lines r)) \<longrightarrow> (\<forall>l \<in> set (rs_lines r). pol_receivedQty l \<le> pol_orderedQty l)
         \<longrightarrow> (\<forall>l \<in> set (rs_lines r'). pol_receivedQty l \<le> pol_orderedQty l))
    \<and> (sys_inv (pd_core (rs_db r)) \<longrightarrow> (\<forall>k. lf k \<noteq> []) \<longrightarrow> sys_inv (pd_core (rs_db r')))"
  using assms
proof (induction krs arbitrary: r x)
  case Nil
  then show ?case
    by (intro exI [of _ "[]"] exI [of _ x]) (auto simp: moved_lines_def written_lines_def upd_row_def)
next
  case (Cons kr krs)
  obtain k raw where kr: "kr = (k, raw)" by (cases kr)
  obtain t where t: "receive_one dv now rid rf lf actor po (k, raw) r = Inr t"
      "forE krs (receive_one dv now rid rf lf actor po) t = Inr r'"
    using Cons.prems(1) by (auto simp: kr bindE_Inr_iff)
  obtain l q rej nx sc rl where st:
    "find_row pol_id (rv_poLineId raw) (rs_lines r) = Some l" "check_receive raw l = Inr (q, rej, nx, sc)"
    "grl_poLineId rl = pol_id l" "grl_productId rl = pol_productId l" "grl_quantityReceived rl = q"
    "pd_orders (rs_db t) = upd_row or_id (or_id po) (order_after rid rl (pol_id l) nx sc) (pd_orders (rs_db r))"
    "rs_lines t = upd_row pol_id (pol_id l) (progress nx sc) (rs_lines r)"
    "stocks (pd_core (rs_db t)) = map (raised (\<lambda>i. if i = pol_productId l then q else 0)) (stocks (pd_core (rs_db r)))"
    and inv: "sys_inv (pd_core (rs_db r)) \<Longrightarrow> lf k \<noteq> [] \<Longrightarrow> sys_inv (pd_core (rs_db t))"
    by (rule receive_one_step [OF t(1)]) blast
  note ck = check_receive_Inr [OF st(2)]
  have lid: "pol_id l = rv_poLineId raw" using find_row_SomeD [OF st(1)] by simp
  let ?y = "order_after rid rl (pol_id l) nx sc x"
  have y: "find_order (or_id po) (rs_db t) = Some ?y"
    using Cons.prems(2) by (simp add: find_order_def st(6) find_order_after)
  obtain rls x' where ih: "find_order (or_id po) (rs_db r') = Some x'"
      "x' = ?y\<lparr>or_receipts := upd_row gr_id rid (\<lambda>g. g\<lparr>gr_lines := gr_lines g @ rls\<rparr>) (or_receipts ?y), or_lines := or_lines x'\<rparr>"
      "list_all2 (\<lambda>(k, raw) rl. grl_poLineId rl = rv_poLineId raw \<and> js_int (rv_quantityReceived raw) = Some (grl_quantityReceived rl)) krs rls"
      "stocks (pd_core (rs_db r')) = map (raised (product_units rls)) (stocks (pd_core (rs_db t)))"
      "moved_lines rls (rs_lines t) (rs_lines r')" "written_lines rls (rs_lines r') (or_lines ?y) (or_lines x')"
      "\<forall>rl \<in> set rls. \<exists>l. find_row pol_id (grl_poLineId rl) (rs_lines t) = Some l \<and> pol_productId l = grl_productId rl"
      "or_lines ?y = rs_lines t \<longrightarrow> or_lines x' = rs_lines r'"
      "(\<forall>(k, raw) \<in> set krs. \<not> rv_acknowledgeOverReceipt raw) \<longrightarrow> distinct (map pol_id (rs_lines t)) \<longrightarrow> (\<forall>l \<in> set (rs_lines t). pol_receivedQty l \<le> pol_orderedQty l)
         \<longrightarrow> (\<forall>l \<in> set (rs_lines r'). pol_receivedQty l \<le> pol_orderedQty l)"
      "sys_inv (pd_core (rs_db t)) \<longrightarrow> (\<forall>k. lf k \<noteq> []) \<longrightarrow> sys_inv (pd_core (rs_db r'))"
    using Cons.IH [OF t(2) y] by blast
  have row: "find_row pol_id i (rs_lines t) = (if i = pol_id l then Some (progress nx sc l) else find_row pol_id i (rs_lines r))" for i
    using st(1) by (simp add: st(7) find_row_upd_row lid)
  have yrow: "find_row pol_id i (or_lines ?y)
      = (if i = pol_id l then map_option (progress nx sc) (find_row pol_id i (or_lines x)) else find_row pol_id i (or_lines x))" for i
    by (simp add: order_after_def find_row_upd_row)
  have c1: "x' = x\<lparr>or_receipts := upd_row gr_id rid (\<lambda>g. g\<lparr>gr_lines := gr_lines g @ rl # rls\<rparr>) (or_receipts x), or_lines := or_lines x'\<rparr>"
    using ih(2) by (simp add: order_after_def upd_row_upd_row comp_def)
  have c2: "stocks (pd_core (rs_db r')) = map (raised (product_units (rl # rls))) (stocks (pd_core (rs_db r)))"
  proof -
    have "(\<lambda>i. (if i = pol_productId l then q else 0) + product_units rls i) = product_units (rl # rls)"
      by (rule ext) (auto simp: st(4,5))
    then show ?thesis unfolding ih(4) st(8) by (simp add: comp_def raised_comp)
  qed
  have c3: "moved_lines (rl # rls) (rs_lines r) (rs_lines r')"
    unfolding moved_lines_def
  proof (intro conjI allI impI)
    fix i
    have "map_option (\<lambda>l. (pol_productId l, pol_orderedQty l, pol_receivedQty l)) (find_row pol_id i (rs_lines r'))
        = map_option (\<lambda>l. (pol_productId l, pol_orderedQty l, pol_receivedQty l + line_units rls i)) (find_row pol_id i (rs_lines t))"
      using ih(5) by (simp add: moved_lines_def)
    then show "map_option (\<lambda>l. (pol_productId l, pol_orderedQty l, pol_receivedQty l)) (find_row pol_id i (rs_lines r'))
        = map_option (\<lambda>l. (pol_productId l, pol_orderedQty l, pol_receivedQty l + line_units (rl # rls) i)) (find_row pol_id i (rs_lines r))"
      using st(1,3,5) ck(3) by (simp add: row lid progress_def)
  next
    fix i assume "i \<notin> touched (rl # rls)"
    then show "find_row pol_id i (rs_lines r') = find_row pol_id i (rs_lines r)"
      using ih(5) st(3) by (simp add: moved_lines_def row)
  qed
  have c4: "written_lines (rl # rls) (rs_lines r') (or_lines x) (or_lines x')"
    unfolding written_lines_def
  proof (intro conjI allI impI)
    fix i
    show "map_option (\<lambda>l. (pol_productId l, pol_orderedQty l)) (find_row pol_id i (or_lines x'))
        = map_option (\<lambda>l. (pol_productId l, pol_orderedQty l)) (find_row pol_id i (or_lines x))"
      using ih(6) by (simp add: written_lines_def yrow progress_def option.map_comp comp_def)
  next
    fix i assume i: "i \<in> touched (rl # rls)"
    show "find_row pol_id i (or_lines x') = None \<or>
        map_option standing (find_row pol_id i (or_lines x')) = map_option standing (find_row pol_id i (rs_lines r'))"
    proof (cases "i \<in> touched rls")
      case True
      then show ?thesis using ih(6) by (simp add: written_lines_def)
    next
      case False
      then have "i = pol_id l" using i st(3) by simp
      moreover have "find_row pol_id i (or_lines x') = find_row pol_id i (or_lines ?y)"
          "find_row pol_id i (rs_lines r') = find_row pol_id i (rs_lines t)"
        using False ih(5,6) by (simp_all add: written_lines_def moved_lines_def)
      ultimately show ?thesis
        by (cases "find_row pol_id i (or_lines x)") (simp_all add: yrow row standing_def progress_def)
    qed
  next
    fix i assume "i \<notin> touched (rl # rls)"
    then show "find_row pol_id i (or_lines x') = find_row pol_id i (or_lines x)"
      using ih(6) st(3) by (simp add: written_lines_def yrow)
  qed
  have c5: "\<forall>rl \<in> set (rl # rls). \<exists>l. find_row pol_id (grl_poLineId rl) (rs_lines r) = Some l \<and> pol_productId l = grl_productId rl"
  proof -
    have "\<exists>k. find_row pol_id j (rs_lines r) = Some k \<and> pol_productId k = p"
      if "\<exists>k. find_row pol_id j (rs_lines t) = Some k \<and> pol_productId k = p" for j p
      using that st(1) by (auto simp: row lid progress_def split: if_splits)
    then show ?thesis using ih(7) st(1,3,4) lid by auto
  qed
  have c6: "or_lines x = rs_lines r \<longrightarrow> or_lines x' = rs_lines r'"
    using ih(8) by (simp add: order_after_def st(7))
  have c7: "(\<forall>(k, raw) \<in> set ((k, raw) # krs). \<not> rv_acknowledgeOverReceipt raw)
      \<longrightarrow> distinct (map pol_id (rs_lines r))
      \<longrightarrow> (\<forall>l \<in> set (rs_lines r). pol_receivedQty l \<le> pol_orderedQty l) \<longrightarrow> (\<forall>l \<in> set (rs_lines r'). pol_receivedQty l \<le> pol_orderedQty l)"
  proof (intro impI)
    assume a: "\<forall>(k, raw) \<in> set ((k, raw) # krs). \<not> rv_acknowledgeOverReceipt raw" "distinct (map pol_id (rs_lines r))" "\<forall>l \<in> set (rs_lines r). pol_receivedQty l \<le> pol_orderedQty l"
    have "pol_receivedQty m \<le> pol_orderedQty m" if m: "m \<in> set (rs_lines t)" for m
    proof -
      obtain n where n: "n \<in> set (rs_lines r)" "m = (if pol_id n = pol_id l then progress nx sc n else n)"
        using m unfolding st(7) in_upd_row by blast
      have same: "n = l" if "pol_id n = pol_id l"
        using that n(1) st(1) a(2) by (simp add: find_row_eq_Some_iff lid [symmetric] distinct_map inj_on_def)
      show ?thesis
      proof (cases "pol_id n = pol_id l")
        case True
        then have "m = progress nx sc l" "pol_receivedQty l \<le> pol_orderedQty l" using n a(3) same by auto
        then show ?thesis using ck(5) a(1) by (simp add: progress_def)
      next
        case False
        then show ?thesis using n a(3) by simp
      qed
    qed
    moreover have "distinct (map pol_id (rs_lines t))" using a(2) by (simp add: st(7) map_upd_row)
    ultimately show "\<forall>l \<in> set (rs_lines r'). pol_receivedQty l \<le> pol_orderedQty l" using a(1) ih(9) by simp
  qed
  have c8: "list_all2 (\<lambda>(k, raw) rl. grl_poLineId rl = rv_poLineId raw \<and> js_int (rv_quantityReceived raw) = Some (grl_quantityReceived rl))
      ((k, raw) # krs) (rl # rls)"
    using ih(3) st(3,5) ck(1) lid by simp
  have c9: "sys_inv (pd_core (rs_db r)) \<longrightarrow> (\<forall>k. lf k \<noteq> []) \<longrightarrow> sys_inv (pd_core (rs_db r'))"
    using inv ih(10) by blast
  show ?case
    unfolding kr by (intro exI [of _ "rl # rls"] exI [of _ x'] conjI ih(1) c1 c8 c2 c3 c4 c5 c6 c7 c9)
qed

lemma audit_po_simps [simp]:
  "pd_orders (audit_po actor st a e i s) = pd_orders s" "db_products (pd_core (audit_po actor st a e i s)) = db_products (pd_core s)"
  "db_lots (pd_core (audit_po actor st a e i s)) = db_lots (pd_core s)" "db_sales (pd_core (audit_po actor st a e i s)) = db_sales (pd_core s)"
  by (simp_all add: audit_po_def)

lemma fold_audit [simp]:
  "pd_orders (fold (\<lambda>c. audit_po actor st a e (cc_productId c)) cs s) = pd_orders s"
  "db_products (pd_core (fold (\<lambda>c. audit_po actor st a e (cc_productId c)) cs s)) = db_products (pd_core s)"
  "db_lots (pd_core (fold (\<lambda>c. audit_po actor st a e (cc_productId c)) cs s)) = db_lots (pd_core s)"
  "db_sales (pd_core (fold (\<lambda>c. audit_po actor st a e (cc_productId c)) cs s)) = db_sales (pd_core s)"
  by (induction cs arbitrary: s) simp_all

text \<open>
  What a successful receipt leaves: \<open>po\<close> is the order as it was read, \<open>x\<close> its row when the
  transaction wrote, \<open>mem\<close> the lines as counted in memory.
\<close>

lemma receiveGoods_InrE:
  assumes run: "receiveGoods dv now rid rf lf actor poId d s0 s = Inr (t, res)" and x: "find_order poId s = Some x"
  obtains po mem x' where "accessPo actor poId s0 = Inr po" "or_status po \<in> {PoSUBMITTED, PoPARTIALLY_RECEIVED}"
    "find_order poId t = Some x'" "or_status x' = derivePoStatus (or_lines x') (or_status po)" "rr_order res = x'"
    "list_all2 (\<lambda>(k, raw) rl. grl_poLineId rl = rv_poLineId raw \<and> js_int (rv_quantityReceived raw) = Some (grl_quantityReceived rl))
       (enumerate 0 (rg_lines d)) (gr_lines (rr_receipt res))"
    "or_receipts x' = or_receipts x @ [rr_receipt res]"
    "stocks (pd_core t) = map (raised (product_units (gr_lines (rr_receipt res)))) (stocks (pd_core s))"
    "moved_lines (gr_lines (rr_receipt res)) (or_lines po) mem"
    "written_lines (gr_lines (rr_receipt res)) mem (or_lines x) (or_lines x')"
    "or_lines x = or_lines po \<Longrightarrow> or_lines x' = mem"
    "\<forall>raw \<in> set (rg_lines d). \<not> rv_acknowledgeOverReceipt raw \<Longrightarrow> distinct (map pol_id (or_lines po))
      \<Longrightarrow> \<forall>l \<in> set (or_lines po). pol_receivedQty l \<le> pol_orderedQty l \<Longrightarrow> \<forall>l \<in> set mem. pol_receivedQty l \<le> pol_orderedQty l"
    "sys_inv (pd_core s) \<Longrightarrow> \<forall>k. lf k \<noteq> [] \<Longrightarrow> sys_inv (pd_core t)"
proof -
  obtain s1 where tx: "receive_tx dv now rid rf lf actor poId d s0 s = Inr (s1, res)"
    and t: "t = fold (\<lambda>c u. audit_po actor (or_storeId (rr_order res)) ''PRODUCT_COST_CHANGE'' ''Product'' (cc_productId c) u)
       (rr_costChanges res) (audit_po actor (or_storeId (rr_order res)) ''PO_RECEIVE'' ''GoodsReceipt'' rid s1)"
    using run by (auto simp: receiveGoods_def bindE_Inr_iff Let_def split: if_splits)
  obtain po where po: "accessPo actor poId s0 = Inr po" "or_status po \<in> {PoSUBMITTED, PoPARTIALLY_RECEIVED}"
    using tx by (auto simp: receive_tx_def bindE_Inr_iff split: if_splits)
  have pid: "or_id po = poId"
    using po(1) find_row_SomeD [of or_id poId "pd_orders s0" po]
    by (auto simp: accessPo_def loadPo_def find_order_def bindE_Inr_iff split: option.splits)
  define receipt where "receipt = \<lparr>gr_id = rid, gr_receivedByUserId = au_id actor, gr_receivedAt = now,
             gr_invoiceNumber = trimmed (rg_invoiceNumber d), gr_notes = trimmed (rg_notes d), gr_lines = []\<rparr>"
  let ?s1 = "s\<lparr>pd_orders := upd_row or_id poId (\<lambda>x. x\<lparr>or_receipts := or_receipts x @ [receipt]\<rparr>) (pd_orders s)\<rparr>"
  let ?x1 = "x\<lparr>or_receipts := or_receipts x @ [receipt]\<rparr>"
  have x1: "find_order (or_id po) ?s1 = Some ?x1"
    using x pid by (simp add: find_order_def find_row_upd_row)
  have new: "rid \<notin> receipt_ids s"
    using tx po by (auto simp: receive_tx_def Let_def split: if_splits)
  have open_po: "\<not> (or_status po \<noteq> PoSUBMITTED \<and> or_status po \<noteq> PoPARTIALLY_RECEIVED)" using po(2) by auto
  note tx1 = tx [unfolded receive_tx_def po(1) bindE_simps if_not_P [OF open_po] Let_def, folded receipt_def, unfolded if_not_P [OF new]]
  obtain u where u: "order_update poId (\<lambda>x. x\<lparr>or_receipts := or_receipts x @ [receipt]\<rparr>) s = Inr u" by (rule bindE_InrE [OF tx1])
  then have u1: "u = ?s1" by (simp add: order_update_Inr_iff)
  note tx2 = tx1 [unfolded u bindE_simps u1]
  obtain r locked where
    loop: "forE (enumerate 0 (rg_lines d)) (receive_one dv now rid rf lf actor po)
           \<lparr>rs_db = ?s1, rs_lines = or_lines po, rs_locked = locked, rs_costs = []\<rparr> = Inr r"
    and tx3: "(case find_order poId (rs_db r) of
         None \<Rightarrow> Inl RecordNotFound
       | Some refreshed \<Rightarrow>
           bindE (order_update poId (\<lambda>x. x\<lparr>or_status := derivePoStatus (or_lines refreshed) (or_status po)\<rparr>) (rs_db r))
             (\<lambda>s2.
           case find_order poId s2 of
             None \<Rightarrow> Inl RecordNotFound
           | Some updated \<Rightarrow>
               (case find_row gr_id rid (or_receipts updated) of
                  None \<Rightarrow> Inl RecordNotFound
                | Some full \<Rightarrow> Inr (s2, \<lparr>rr_receipt = full, rr_order = updated, rr_costChanges = rs_costs r\<rparr>)))) = Inr (s1, res)"
    by (rule bindE_InrE [OF tx2]) (rule that)
  obtain refreshed where f1: "find_order poId (rs_db r) = Some refreshed"
    using tx3 by (cases "find_order poId (rs_db r)") simp_all
  note tx4 = tx3 [unfolded f1 option.case]
  obtain s2 where f2: "order_update poId (\<lambda>x. x\<lparr>or_status := derivePoStatus (or_lines refreshed) (or_status po)\<rparr>) (rs_db r) = Inr s2"
    by (rule bindE_InrE [OF tx4])
  note tx5 = tx4 [unfolded f2 bindE_simps]
  obtain x' where f3: "find_order poId s2 = Some x'" using tx5 by (cases "find_order poId s2") simp_all
  have fin: "find_order poId (rs_db r) = Some refreshed"
      "order_update poId (\<lambda>x. x\<lparr>or_status := derivePoStatus (or_lines refreshed) (or_status po)\<rparr>) (rs_db r) = Inr s2"
      "find_order poId s2 = Some x'" "s1 = s2" "rr_order res = x'" "find_row gr_id rid (or_receipts x') = Some (rr_receipt res)"
    using f1 f2 f3 tx5 by (auto split: option.splits)
  obtain rls y where l: "find_order (or_id po) (rs_db r) = Some y"
    "y = ?x1\<lparr>or_receipts := upd_row gr_id rid (\<lambda>g. g\<lparr>gr_lines := gr_lines g @ rls\<rparr>) (or_receipts ?x1), or_lines := or_lines y\<rparr>"
    "list_all2 (\<lambda>(k, raw) rl. grl_poLineId rl = rv_poLineId raw \<and> js_int (rv_quantityReceived raw) = Some (grl_quantityReceived rl))
       (enumerate 0 (rg_lines d)) rls"
    "stocks (pd_core (rs_db r)) = map (raised (product_units rls)) (stocks (pd_core s))"
    "moved_lines rls (or_lines po) (rs_lines r)" "written_lines rls (rs_lines r) (or_lines x) (or_lines y)"
    "or_lines x = or_lines po \<longrightarrow> or_lines y = rs_lines r"
    "(\<forall>(k, raw) \<in> set (enumerate 0 (rg_lines d)). \<not> rv_acknowledgeOverReceipt raw) \<longrightarrow> distinct (map pol_id (or_lines po))
       \<longrightarrow> (\<forall>l \<in> set (or_lines po). pol_receivedQty l \<le> pol_orderedQty l) \<longrightarrow> (\<forall>l \<in> set (rs_lines r). pol_receivedQty l \<le> pol_orderedQty l)"
    "sys_inv (pd_core s) \<longrightarrow> (\<forall>k. lf k \<noteq> []) \<longrightarrow> sys_inv (pd_core (rs_db r))"
    using receive_loop [OF loop, unfolded receive_state.select_convs pd_core_order, OF x1]
    by - (elim exE conjE, rule that, (assumption | simp)+)
  have y: "refreshed = y" using l(1) fin(1) pid by simp
  have x': "x' = y\<lparr>or_status := derivePoStatus (or_lines y) (or_status po)\<rparr>" "pd_core s2 = pd_core (rs_db r)"
    using fin(2,3) l(1) pid y by (auto simp: order_update_Inr_iff find_order_def find_row_upd_row)
  have recs: "or_receipts x' = or_receipts x @ [receipt\<lparr>gr_lines := rls\<rparr>]" and rids: "rid \<notin> gr_id ` set (or_receipts x)"
  proof -
    have "x \<in> set (pd_orders s)" using x find_row_SomeD by (fastforce simp: find_order_def)
    then show a: "rid \<notin> gr_id ` set (or_receipts x)" using new by (auto simp: receipt_ids_def)
    have "or_receipts y = upd_row gr_id rid (\<lambda>g. g\<lparr>gr_lines := gr_lines g @ rls\<rparr>) (or_receipts x @ [receipt])"
      by (subst l(2)) simp
    also have "\<dots> = or_receipts x @ [receipt\<lparr>gr_lines := rls\<rparr>]"
      using upd_row_absent [OF a, of "\<lambda>g. g\<lparr>gr_lines := gr_lines g @ rls\<rparr>"] by (simp add: upd_row_def receipt_def)
    finally show "or_receipts x' = or_receipts x @ [receipt\<lparr>gr_lines := rls\<rparr>]" by (simp add: x'(1))
  qed
  have rec: "rr_receipt res = receipt\<lparr>gr_lines := rls\<rparr>"
  proof -
    have "find_row gr_id rid (rs @ [receipt\<lparr>gr_lines := rls\<rparr>]) = Some (receipt\<lparr>gr_lines := rls\<rparr>)"
      if "rid \<notin> gr_id ` set rs" for rs using that by (induction rs) (auto simp: receipt_def)
    then show ?thesis using fin(6) rids by (simp add: recs)
  qed
  have rls: "gr_lines (rr_receipt res) = rls" by (simp add: rec)
  have tt: "pd_orders t = pd_orders s2" "db_products (pd_core t) = db_products (pd_core s2)"
      "db_lots (pd_core t) = db_lots (pd_core s2)" "db_sales (pd_core t) = db_sales (pd_core s2)"
    by (simp_all add: t fin(4))
  show thesis
  proof (rule that [of po x' "rs_lines r", unfolded rls, OF po])
    show "find_order poId t = Some x'" using fin(3) tt(1) by (simp add: find_order_def)
    show "or_status x' = derivePoStatus (or_lines x') (or_status po)" by (simp add: x'(1))
    show "rr_order res = x'" by (fact fin)
    show "or_receipts x' = or_receipts x @ [rr_receipt res]" by (simp add: recs rec)
    show "stocks (pd_core t) = map (raised (product_units rls)) (stocks (pd_core s))"
      using l(4) tt(2) x'(2) by (simp add: stocks_def)
    show "written_lines rls (rs_lines r) (or_lines x) (or_lines x')" using l(6) by (simp add: x'(1))
    show "or_lines x = or_lines po \<Longrightarrow> or_lines x' = rs_lines r" using l(7) by (simp add: x'(1))
    show "\<forall>l \<in> set (rs_lines r). pol_receivedQty l \<le> pol_orderedQty l"
      if "\<forall>raw \<in> set (rg_lines d). \<not> rv_acknowledgeOverReceipt raw" "distinct (map pol_id (or_lines po))"
        "\<forall>l \<in> set (or_lines po). pol_receivedQty l \<le> pol_orderedQty l"
    proof -
      have "\<forall>(k, raw) \<in> set (enumerate 0 (rg_lines d)). \<not> rv_acknowledgeOverReceipt raw"
        using that(1) by (auto simp: in_set_enumerate_eq)
      then show ?thesis using l(8) that(2,3) by blast
    qed
    show "sys_inv (pd_core t)" if "sys_inv (pd_core s)" "\<forall>k. lf k \<noteq> []"
    proof -
      have "sys_inv (pd_core s2)" using l(9) that x'(2) by simp
      then show ?thesis by (rule sys_inv_cong) (simp_all add: tt)
    qed
  qed (fact l(3) l(5))+
qed

end
