(* ===== verification/Purchase_Properties.thy ===== *)
theory Purchase_Properties
  imports Purchase_Proofs
begin

text \<open>
  The properties of \<open>Purchasing\<close>: what a goods receipt does to the stock, the order and its status,
  that it keeps the invariant of the stock, when it may exceed the order, the average cost, two
  receipts that run at the same time, the products an edited draft may name, and the reorder proposal.
\<close>

section \<open>An order of three lines\<close>

definition ex_po_line :: "ident \<Rightarrow> ident \<Rightarrow> int \<Rightarrow> po_line" where
  "ex_po_line i pid q =
     \<lparr>pol_id = i, pol_productId = pid, pol_orderedQty = q, pol_receivedQty = 0, pol_unitCost = 2,
      pol_lineTotal = 2 * of_int q, pol_shortClosed = False\<rparr>"

definition ex_order :: "po_status \<Rightarrow> po_line list \<Rightarrow> purchase_order" where
  "ex_order st ls =
     \<lparr>or_id = ''O1'', or_poNumber = ''PO-000001'', or_supplierId = ''V1'', or_storeId = Some ''S1'',
      or_status = st, or_expectedDate = None, or_submittedAt = None, or_createdByUserId = ''U1'',
      or_subtotal = 0, or_tax = 0, or_shipping = 0, or_total = 0, or_createdAt = 0, or_lines = ls,
      or_receipts = []\<rparr>"

definition ex_purchases :: "po_status \<Rightarrow> po_line list \<Rightarrow> purchase_db" where
  "ex_purchases st ls =
     \<lparr>pd_shop = \<lparr>bd_db = ex_db, bd_barcodes = []\<rparr>, pd_suppliers = [\<lparr>su_id = ''V1'', su_name = ''Farm'', su_contactName = [],
        su_email = [], su_phone = [], su_address = [], su_paymentTerms = ''NET30'', su_leadTimeDays = 7,
        su_isActive = True, su_notes = []\<rparr>],
      pd_links = [\<lparr>sp_id = ''K1'', sp_supplierId = ''V1'', sp_productId = ''P2'', sp_supplierSku = [], sp_caseSize = 6,
        sp_caseCost = 12, sp_unitCost = 2, sp_minOrderQty = 1, sp_isPreferred = True\<rparr>],
      pd_orders = [ex_order st ls], pd_lastNumber = 1\<rparr>"

definition ex_receive :: "ident \<Rightarrow> int \<Rightarrow> decimal \<Rightarrow> receive_line" where
  "ex_receive i q c =
     \<lparr>rv_poLineId = i, rv_quantityReceived = Some (of_int q), rv_quantityRejected = None,
      rv_rejectionReason = None, rv_unitCostActual = c, rv_lotNumber = None, rv_lotBarcode = None,
      rv_expiryDate = DateMissing, rv_harvestDate = DateMissing, rv_countryOfOrigin = None,
      rv_acknowledgeOverReceipt = False, rv_closeShort = False, rv_acknowledgeShortReceipt = False\<rparr>"

definition ex_receipt :: "receive_line list \<Rightarrow> receive_input" where
  "ex_receipt ls = \<lparr>rg_invoiceNumber = None, rg_notes = None, rg_lines = ls\<rparr>"

definition ex_number :: "char \<Rightarrow> nat \<Rightarrow> ident" where
  "ex_number c k = [c, char_of (k + 65)]"

definition ex_lines :: "po_line list" where
  "ex_lines = [ex_po_line ''A'' ''P1'' 5, ex_po_line ''B'' ''P2'' 3]"


definition ex_open :: purchase_db where
  "ex_open = ex_purchases PoSUBMITTED ex_lines"

definition ex_run :: "receive_line list \<Rightarrow> (purchase_db \<times> receive_result) result" where
  "ex_run ls = receiveGoods (/) 5 ''R1'' (ex_number CHR ''r'') (ex_number CHR ''l'') ex_admin ''O1'' (ex_receipt ls) ex_open ex_open"

lemma not_islE: "\<not> isl m \<Longrightarrow> (\<And>t r. m = Inr (t, r) \<Longrightarrow> P) \<Longrightarrow> P"
  by (cases m) auto

section \<open>What a receipt leaves\<close>

lemma accessPo_Inr_iff:
  "accessPo actor i s = Inr po \<longleftrightarrow> find_order i s = Some po \<and> assertPoStoreAccess actor (or_storeId po) = Inr ()"
  by (auto simp: accessPo_def loadPo_def bindE_Inr_iff split: option.splits)

lemma list_all2_enumerate_map:
  assumes "list_all2 (\<lambda>(k, raw) rl. f rl = g raw \<and> P raw rl) (enumerate n raws) rls"
  shows "map f rls = map g raws"
  using assms by (induction raws arbitrary: n rls) (auto simp: list_all2_Cons1)


lemma moved_lines_row:
  assumes "moved_lines rls ls ls'" "find_row pol_id i ls = Some l"
  obtains l' where "find_row pol_id i ls' = Some l'" "pol_receivedQty l' = pol_receivedQty l + line_units rls i"
  using assms by (cases "find_row pol_id i ls'") (auto simp: moved_lines_def dest!: spec [of _ i])

lemma written_lines_row:
  assumes "written_lines rls mem ls ls'" "find_row pol_id i ls = Some l" "i \<in> touched rls" "find_row pol_id i mem = Some m"
  obtains l' where "find_row pol_id i ls' = Some l'" "pol_receivedQty l' = pol_receivedQty m"
proof -
  have "map_option (\<lambda>l. (pol_productId l, pol_orderedQty l)) (find_row pol_id i ls')
      = map_option (\<lambda>l. (pol_productId l, pol_orderedQty l)) (find_row pol_id i ls)"
    using assms(1) by (simp add: written_lines_def)
  then obtain l' where l: "find_row pol_id i ls' = Some l'" using assms(2) by (cases "find_row pol_id i ls'") auto
  have "find_row pol_id i ls' = None \<or> map_option standing (find_row pol_id i ls') = map_option standing (find_row pol_id i mem)"
    using assms(1,3) by (simp add: written_lines_def)
  then have "pol_receivedQty l' = pol_receivedQty m" using l assms(4) by (simp add: standing_def)
  then show thesis by (rule that [OF l])
qed

text \<open>
  C8: a receipt accounts for every unit, also when the order was read in an earlier state \<open>s0\<close> (before
  the transaction had the product locks) and other requests changed it since. The stock of each
  product rises, in the state the receipt writes to, by the units its receipt lines accept, and
  nothing else in the stock changes; the receipt stands last among the receipts of the order; every
  order line keeps its product and its ordered quantity. A line the receipt names gets the received
  quantity it had when it was read plus the units received on it, and every other line keeps what
  stands in the database: so a count that another receipt wrote in between is overwritten, and only
  when the lines were not changed in between does every line rise by exactly its units. The status is
  the one the lines then give, from the status read.
\<close>

theorem receipt_accounts_for_units:
  assumes run: "receiveGoods dv now rid rf lf actor poId d s0 s = Inr (t, res)"
    and x0: "find_order poId s0 = Some x0" and x: "find_order poId s = Some x"
  shows "let rls = gr_lines (rr_receipt res) in
    map grl_poLineId rls = map rv_poLineId (rg_lines d)
    \<and> stocks (pd_core t) = map (raised (product_units rls)) (stocks (pd_core s))
    \<and> (\<exists>x'. find_order poId t = Some x' \<and> or_receipts x' = or_receipts x @ [rr_receipt res]
         \<and> or_status x' = derivePoStatus (or_lines x') (or_status x0)
         \<and> (\<forall>i. map_option (\<lambda>l. (pol_productId l, pol_orderedQty l)) (find_row pol_id i (or_lines x'))
              = map_option (\<lambda>l. (pol_productId l, pol_orderedQty l)) (find_row pol_id i (or_lines x)))
         \<and> (\<forall>i. i \<notin> touched rls \<longrightarrow> find_row pol_id i (or_lines x') = find_row pol_id i (or_lines x))
         \<and> (\<forall>i l0 l'. i \<in> touched rls \<longrightarrow> find_row pol_id i (or_lines x0) = Some l0
              \<longrightarrow> find_row pol_id i (or_lines x') = Some l' \<longrightarrow> pol_receivedQty l' = pol_receivedQty l0 + line_units rls i)
         \<and> (or_lines x = or_lines x0 \<longrightarrow>
              (\<forall>i. map_option (\<lambda>l. (pol_productId l, pol_orderedQty l, pol_receivedQty l)) (find_row pol_id i (or_lines x'))
                = map_option (\<lambda>l. (pol_productId l, pol_orderedQty l, pol_receivedQty l + line_units rls i))
                    (find_row pol_id i (or_lines x)))))"
proof -
  let ?rls = "gr_lines (rr_receipt res)"
  obtain po mem x' where e: "accessPo actor poId s0 = Inr po" "find_order poId t = Some x'"
    "or_status x' = derivePoStatus (or_lines x') (or_status po)"
    "list_all2 (\<lambda>(k, raw) rl. grl_poLineId rl = rv_poLineId raw \<and> js_int (rv_quantityReceived raw) = Some (grl_quantityReceived rl))
       (enumerate 0 (rg_lines d)) ?rls"
    "or_receipts x' = or_receipts x @ [rr_receipt res]"
    "stocks (pd_core t) = map (raised (product_units ?rls)) (stocks (pd_core s))"
    "moved_lines ?rls (or_lines po) mem" "written_lines ?rls mem (or_lines x) (or_lines x')"
    "or_lines x = or_lines po \<Longrightarrow> or_lines x' = mem"
    by (rule receiveGoods_InrE [OF run x]) (rule that)
  have po: "po = x0" using e(1) x0 by (auto simp: accessPo_Inr_iff)
  have ids: "map grl_poLineId ?rls = map rv_poLineId (rg_lines d)"
    using list_all2_enumerate_map [OF e(4)] by blast
  have named: "pol_receivedQty l' = pol_receivedQty l0 + line_units ?rls i"
    if i: "i \<in> touched ?rls" "find_row pol_id i (or_lines x0) = Some l0" "find_row pol_id i (or_lines x') = Some l'" for i l0 l'
  proof -
    obtain m where m: "find_row pol_id i mem = Some m" "pol_receivedQty m = pol_receivedQty l0 + line_units ?rls i"
      using moved_lines_row [OF e(7)] i(2) po by metis
    have "map_option standing (Some l') = map_option standing (Some m)"
      using e(8) i(1,3) m(1) by (fastforce simp: written_lines_def)
    then show ?thesis using m(2) by (simp add: standing_def)
  qed
  moreover have "map_option (\<lambda>l. (pol_productId l, pol_orderedQty l, pol_receivedQty l)) (find_row pol_id i (or_lines x'))
      = map_option (\<lambda>l. (pol_productId l, pol_orderedQty l, pol_receivedQty l + line_units ?rls i)) (find_row pol_id i (or_lines x))"
    if "or_lines x = or_lines x0" for i
  proof -
    have "or_lines x' = mem" by (rule e(9)) (simp add: po that)
    then show ?thesis using e(7) unfolding po moved_lines_def that by (metis (no_types))
  qed
  moreover have "map_option (\<lambda>l. (pol_productId l, pol_orderedQty l)) (find_row pol_id i (or_lines x'))
      = map_option (\<lambda>l. (pol_productId l, pol_orderedQty l)) (find_row pol_id i (or_lines x))"
    "i \<notin> touched ?rls \<longrightarrow> find_row pol_id i (or_lines x') = find_row pol_id i (or_lines x)" for i
    using e(8) by (simp_all add: written_lines_def)
  moreover have "or_status x' = derivePoStatus (or_lines x') (or_status x0)" using e(3) po by (simp only:)
  ultimately show ?thesis
    unfolding Let_def using e(2,5,6) ids by blast
qed

text \<open>
  The witness is the receipt that is overtaken: three units are received on a line from an order read
  before another receipt of two units was written.
\<close>

definition ex_overtaking :: "(purchase_db \<times> receive_result) result" where
  "ex_overtaking = receiveGoods (/) 5 ''R2'' (ex_number CHR ''s'') (ex_number CHR ''m'') ex_admin ''O1''
     (ex_receipt [ex_receive ''A'' 3 3]) ex_open (fst (projr (ex_run [ex_receive ''A'' 2 3])))"

lemma receipt_accounts_for_units_witness:
  "\<exists>t res x'. ex_overtaking = Inr (t, res) \<and> map grl_poLineId (gr_lines (rr_receipt res)) = [''A'']
     \<and> find_order ''O1'' t = Some x' \<and> length (or_receipts x') = 2
     \<and> map_option pol_receivedQty (find_row pol_id ''A'' (or_lines x')) = Some (line_units (gr_lines (rr_receipt res)) ''A'')"
proof -
  let ?s = "fst (projr (ex_run [ex_receive ''A'' 2 3]))"
  let ?x0 = "ex_order PoSUBMITTED ex_lines"
  have "\<not> isl ex_overtaking" by code_simp
  then obtain t res where run: "ex_overtaking = Inr (t, res)" by (auto elim: not_islE)
  have x0: "find_order ''O1'' ex_open = Some ?x0" by code_simp
  have "case find_order ''O1'' ?s of None \<Rightarrow> False
      | Some x \<Rightarrow> length (or_receipts x) = 1 \<and> find_row pol_id ''A'' (or_lines x) \<noteq> None" by code_simp
  then obtain x where x: "find_order ''O1'' ?s = Some x" "length (or_receipts x) = 1" "find_row pol_id ''A'' (or_lines x) \<noteq> None"
    by (cases "find_order ''O1'' ?s") simp_all
  note p = receipt_accounts_for_units [OF run [unfolded ex_overtaking_def] x0 x(1), unfolded Let_def]
  then obtain x' where x': "find_order ''O1'' t = Some x'" "or_receipts x' = or_receipts x @ [rr_receipt res]"
      "map_option (\<lambda>l. (pol_productId l, pol_orderedQty l)) (find_row pol_id ''A'' (or_lines x'))
        = map_option (\<lambda>l. (pol_productId l, pol_orderedQty l)) (find_row pol_id ''A'' (or_lines x))"
      "\<And>l0 l'. ''A'' \<in> touched (gr_lines (rr_receipt res)) \<Longrightarrow> find_row pol_id ''A'' (or_lines ?x0) = Some l0
         \<Longrightarrow> find_row pol_id ''A'' (or_lines x') = Some l'
         \<Longrightarrow> pol_receivedQty l' = pol_receivedQty l0 + line_units (gr_lines (rr_receipt res)) ''A''" by blast
  have ids: "map grl_poLineId (gr_lines (rr_receipt res)) = [''A'']" using p by (simp add: ex_receipt_def ex_receive_def)
  then have "''A'' \<in> grl_poLineId ` set (gr_lines (rr_receipt res))" by (metis list.set_intros(1) list.set_map)
  then have t: "''A'' \<in> touched (gr_lines (rr_receipt res))" by (simp add: touched_def)
  obtain l' where l': "find_row pol_id ''A'' (or_lines x') = Some l'" using x'(3) x(3) by (cases "find_row pol_id ''A'' (or_lines x')") auto
  have "find_row pol_id ''A'' (or_lines ?x0) = Some (ex_po_line ''A'' ''P1'' 5)" by code_simp
  then have "pol_receivedQty l' = line_units (gr_lines (rr_receipt res)) ''A''"
    using x'(4) [OF t _ l', of "ex_po_line ''A'' ''P1'' 5"] by (simp add: ex_po_line_def)
  then show ?thesis using run ids x'(1,2) x(2) l' by (intro exI [of _ t] exI [of _ res] exI [of _ x']) simp
qed

text \<open>
  C7: a receipt keeps the invariant of the stock: counts and lots agree, nothing is negative, what the
  open sales hold is reserved. This is so for an order read earlier, whatever happened in between.
\<close>

theorem receipt_keeps_invariant:
  assumes "sys_inv (pd_core s)" "find_order poId s \<noteq> None" "\<forall>k. lf k \<noteq> []"
    and run: "receiveGoods dv now rid rf lf actor poId d s0 s = Inr (t, res)"
  shows "sys_inv (pd_core t)"
proof -
  obtain x where "find_order poId s = Some x" using assms(2) by auto
  from receiveGoods_InrE [OF run this] show ?thesis using assms(1,3) by metis
qed

lemma receipt_keeps_invariant_witness:
  "\<exists>t res. ex_run [ex_receive ''B'' 3 3] = Inr (t, res) \<and> sys_inv (pd_core t)"
proof -
  have "\<not> isl (ex_run [ex_receive ''B'' 3 3])" by code_simp
  then obtain t res where run: "ex_run [ex_receive ''B'' 3 3] = Inr (t, res)" by (auto elim: not_islE)
  have "find_order ''O1'' ex_open \<noteq> None" "pd_core ex_open = ex_db" by code_simp+
  then show ?thesis
    using receipt_keeps_invariant [OF _ _ _ run [unfolded ex_run_def]] run ex_db_inv by (simp add: ex_number_def)
qed

text \<open>
  Nothing is received beyond the order unnoticed. If no line of a receipt carries the
  acknowledgement, then on an order whose lines are not over-received none is afterwards.
\<close>

theorem over_receipt_needs_acknowledgement:
  assumes run: "receiveGoods dv now rid rf lf actor poId d s s = Inr (t, res)" and x: "find_order poId s = Some x"
    and ok: "distinct (map pol_id (or_lines x))" "\<forall>l \<in> set (or_lines x). pol_receivedQty l \<le> pol_orderedQty l"
    and none: "\<forall>raw \<in> set (rg_lines d). \<not> rv_acknowledgeOverReceipt raw"
  shows "\<exists>x'. find_order poId t = Some x' \<and> (\<forall>l \<in> set (or_lines x'). pol_receivedQty l \<le> pol_orderedQty l)"
proof -
  obtain po mem x' where e: "accessPo actor poId s = Inr po" "find_order poId t = Some x'"
      "or_lines x = or_lines po \<Longrightarrow> or_lines x' = mem"
      "\<forall>raw \<in> set (rg_lines d). \<not> rv_acknowledgeOverReceipt raw \<Longrightarrow> distinct (map pol_id (or_lines po))
        \<Longrightarrow> \<forall>l \<in> set (or_lines po). pol_receivedQty l \<le> pol_orderedQty l \<Longrightarrow> \<forall>l \<in> set mem. pol_receivedQty l \<le> pol_orderedQty l"
    by (rule receiveGoods_InrE [OF run x]) (rule that)
  have po: "po = x" using e(1) x by (auto simp: accessPo_Inr_iff)
  show ?thesis using e(2,3) e(4) [OF none] ok by (simp add: po)
qed

lemma over_receipt_needs_acknowledgement_witness:
  "\<exists>t res x'. ex_run [ex_receive ''A'' 5 3] = Inr (t, res) \<and> find_order ''O1'' t = Some x'
     \<and> (\<forall>l \<in> set (or_lines x'). pol_receivedQty l \<le> pol_orderedQty l)"
proof -
  have "\<not> isl (ex_run [ex_receive ''A'' 5 3])" by code_simp
  then obtain t res where run: "ex_run [ex_receive ''A'' 5 3] = Inr (t, res)" by (auto elim: not_islE)
  have x: "find_order ''O1'' ex_open = Some (ex_order PoSUBMITTED ex_lines)" by code_simp
  show ?thesis
    using over_receipt_needs_acknowledgement [OF run [unfolded ex_run_def] x] run
    by (simp add: ex_receipt_def ex_receive_def ex_order_def ex_lines_def ex_po_line_def)
qed

text \<open>
  Two receipts of one order that run at the same time lose a count. When the second one read the
  order before the first one wrote, each line of the second receipt ends with the count as read plus
  its own units: the units the first receipt counted there are gone from the order, while the stock
  rises by the units of both. So the order stays open for units that already came.
\<close>

theorem racing_receipts_lose_a_count:
  assumes one: "receiveGoods dv now1 rid1 rf1 lf1 actor1 poId d1 s s = Inr (t1, res1)"
    and two: "receiveGoods dv now2 rid2 rf2 lf2 actor2 poId d2 s t1 = Inr (t2, res2)"
    and x: "find_order poId s = Some x" and raw: "raw \<in> set (rg_lines d2)"
    and l: "find_row pol_id (rv_poLineId raw) (or_lines x) = Some l"
  shows "\<exists>x' l'. find_order poId t2 = Some x' \<and> find_row pol_id (rv_poLineId raw) (or_lines x') = Some l'
      \<and> pol_receivedQty l' = pol_receivedQty l + line_units (gr_lines (rr_receipt res2)) (rv_poLineId raw)
      \<and> stocks (pd_core t2) = map (raised (\<lambda>i. product_units (gr_lines (rr_receipt res1)) i
             + product_units (gr_lines (rr_receipt res2)) i)) (stocks (pd_core s))"
proof -
  let ?i = "rv_poLineId raw"
  obtain po1 mem1 x1 where a: "accessPo actor1 poId s = Inr po1" "find_order poId t1 = Some x1"
      "stocks (pd_core t1) = map (raised (product_units (gr_lines (rr_receipt res1)))) (stocks (pd_core s))"
      "moved_lines (gr_lines (rr_receipt res1)) (or_lines po1) mem1" "or_lines x = or_lines po1 \<Longrightarrow> or_lines x1 = mem1"
    by (rule receiveGoods_InrE [OF one x]) (rule that)
  have po1: "po1 = x" using a(1) x by (auto simp: accessPo_Inr_iff)
  obtain po2 mem2 x2 where b: "accessPo actor2 poId s = Inr po2" "find_order poId t2 = Some x2"
      "list_all2 (\<lambda>(k, raw) rl. grl_poLineId rl = rv_poLineId raw \<and> js_int (rv_quantityReceived raw) = Some (grl_quantityReceived rl))
         (enumerate 0 (rg_lines d2)) (gr_lines (rr_receipt res2))"
      "stocks (pd_core t2) = map (raised (product_units (gr_lines (rr_receipt res2)))) (stocks (pd_core t1))"
      "moved_lines (gr_lines (rr_receipt res2)) (or_lines po2) mem2"
      "written_lines (gr_lines (rr_receipt res2)) mem2 (or_lines x1) (or_lines x2)"
    by (rule receiveGoods_InrE [OF two a(2)]) (rule that)
  have po2: "po2 = x" using b(1) x by (auto simp: accessPo_Inr_iff)
  have "?i \<in> touched (gr_lines (rr_receipt res2))"
    using arg_cong [OF list_all2_enumerate_map [OF b(3)], of set] raw by (auto simp: touched_def)
  note touched = this
  obtain m1 where m1: "find_row pol_id ?i (or_lines x1) = Some m1"
    using moved_lines_row [OF a(4)] l a(5) po1 by metis
  obtain m2 where m2: "find_row pol_id ?i mem2 = Some m2"
      "pol_receivedQty m2 = pol_receivedQty l + line_units (gr_lines (rr_receipt res2)) ?i"
    using moved_lines_row [OF b(5)] l po2 by metis
  obtain l2 where "find_row pol_id ?i (or_lines x2) = Some l2" "pol_receivedQty l2 = pol_receivedQty m2"
    by (rule written_lines_row [OF b(6) m1 touched m2(1)])
  then show ?thesis using b(2,4) m2(2) a(3) by (simp add: raised_comp)
qed

lemma racing_receipts_lose_a_count_witness:
  "\<exists>t1 res1 t2 res2. receiveGoods (/) 5 ''R1'' (ex_number CHR ''r'') (ex_number CHR ''l'') ex_admin ''O1''
        (ex_receipt [ex_receive ''A'' 2 3]) ex_open ex_open = Inr (t1, res1)
     \<and> receiveGoods (/) 5 ''R2'' (ex_number CHR ''s'') (ex_number CHR ''m'') ex_admin ''O1''
        (ex_receipt [ex_receive ''A'' 3 3]) ex_open t1 = Inr (t2, res2)
     \<and> (\<exists>x' l'. find_order ''O1'' t2 = Some x' \<and> find_row pol_id ''A'' (or_lines x') = Some l'
          \<and> pol_receivedQty l' = line_units (gr_lines (rr_receipt res2)) ''A'')"
proof -
  let ?one = "receiveGoods (/) 5 ''R1'' (ex_number CHR ''r'') (ex_number CHR ''l'') ex_admin ''O1''
        (ex_receipt [ex_receive ''A'' 2 3]) ex_open ex_open"
  let ?two = "receiveGoods (/) 5 ''R2'' (ex_number CHR ''s'') (ex_number CHR ''m'') ex_admin ''O1''
        (ex_receipt [ex_receive ''A'' 3 3]) ex_open"
  have "(case ?one of Inl e \<Rightarrow> False | Inr (t, r) \<Rightarrow> \<not> isl (?two t))" by code_simp
  then obtain t1 res1 where one: "?one = Inr (t1, res1)" and "\<not> isl (?two t1)" by (auto split: sum.splits)
  then obtain t2 res2 where two: "?two t1 = Inr (t2, res2)" by (auto elim: not_islE)
  have x: "find_order ''O1'' ex_open = Some (ex_order PoSUBMITTED ex_lines)" by code_simp
  obtain x' l' where "find_order ''O1'' t2 = Some x'" "find_row pol_id ''A'' (or_lines x') = Some l'"
      "pol_receivedQty l' = line_units (gr_lines (rr_receipt res2)) ''A''"
    using racing_receipts_lose_a_count [OF one two x, of "ex_receive ''A'' 3 3" "ex_po_line ''A'' ''P1'' 5"]
    by (auto simp: ex_receipt_def ex_receive_def ex_order_def ex_lines_def ex_po_line_def)
  then show ?thesis using one two by blast
qed

section \<open>The average cost\<close>

text \<open>
  What the average relies on of the decimal division: a quotient rounded to 20 significant digits does
  not pass a cost of four decimal places, which such a quotient can represent.
\<close>

definition division_ok :: "(decimal \<Rightarrow> decimal \<Rightarrow> decimal) \<Rightarrow> bool" where
  "division_ok dv \<longleftrightarrow> (\<forall>a b c. 0 < b \<longrightarrow> has_dp 4 c \<longrightarrow> 0 \<le> c \<longrightarrow> c < 10 ^ 10 \<longrightarrow>
     (c * b \<le> a \<longrightarrow> c \<le> dv a b) \<and> (a \<le> c * b \<longrightarrow> dv a b \<le> c))"

lemma exact_division_ok: "division_ok (/)"
  by (simp add: division_ok_def le_divide_eq divide_le_eq)

lemma division_okD:
  assumes "division_ok dv" "0 < b" "has_dp 4 c" "0 \<le> c" "c < 10 ^ 10"
  shows "c * b \<le> a \<Longrightarrow> c \<le> dv a b" "a \<le> c * b \<Longrightarrow> dv a b \<le> c"
  using assms unfolding division_ok_def by blast+

text \<open>
  The average cost after a receipt lies between the cost so far and the cost paid; it is the cost
  paid when nothing was in stock.
\<close>

theorem average_cost_between:
  assumes "division_ok dv" "0 < q"
    and old: "has_dp 4 cost" "0 \<le> cost" "cost < 10 ^ 10" and paid: "has_dp 4 u" "0 \<le> u" "u < 10 ^ 10"
  shows "min cost u \<le> weighted_cost dv cost n u q \<and> weighted_cost dv cost n u q \<le> max cost u
    \<and> (n \<le> 0 \<longrightarrow> weighted_cost dv cost n u q = u)"
proof (cases "n \<le> 0")
  case True
  then show ?thesis by (simp add: weighted_cost_def)
next
  case False
  let ?b = "of_int (n + q) :: decimal" and ?a = "cost * of_int n + u * of_int q"
  have n: "(0::decimal) \<le> of_int n" "(0::decimal) \<le> of_int q" "0 < ?b" using False assms(2) by simp_all
  have "min cost u * ?b \<le> ?a" "?a \<le> max cost u * ?b"
    using n mult_right_mono [of "min cost u" cost "of_int n"] mult_right_mono [of "min cost u" u "of_int q"]
      mult_right_mono [of cost "max cost u" "of_int n"] mult_right_mono [of u "max cost u" "of_int q"]
    by (simp_all add: distrib_left)
  moreover have "has_dp 4 (min cost u)" "has_dp 4 (max cost u)" using old(1) paid(1) by (simp_all add: min_def max_def)
  ultimately have between: "min cost u \<le> dv ?a ?b" "dv ?a ?b \<le> max cost u"
    using division_okD [OF assms(1) n(3), of "min cost u" ?a] division_okD [OF assms(1) n(3), of "max cost u" ?a] old paid
    by simp_all
  have r: "unitCostDec (min cost u) = min cost u" "unitCostDec (max cost u) = max cost u" "unitCostDec cost = cost"
    using old(1) paid(1) by (simp_all add: unitCostDec_def toDecimalPlaces_exact min_def max_def)
  have "unitCostDec (min cost u) \<le> unitCostDec (dv ?a ?b)" "unitCostDec (dv ?a ?b) \<le> unitCostDec (max cost u)"
    unfolding unitCostDec_def using between old(2) paid(2)
    by (intro toDecimalPlaces_mono_nonneg; simp add: min_def split: if_splits)+
  then show ?thesis using False by (simp add: weighted_cost_def r)
qed

lemma average_cost_between_witness:
  "1 \<le> weighted_cost (/) 1 10 3 2 \<and> weighted_cost (/) 1 10 3 2 \<le> 3"
  using average_cost_between [OF exact_division_ok, of 2 1 3 10]
    has_dp_of_int [of 4 1] has_dp_of_int [of 4 3] by simp

section \<open>Reorder proposals\<close>

lemma proposed_lines:
  "l \<in> set (concat (map rsg_lines (fold add_suggestion rows gs))) \<Longrightarrow>
     l \<in> set (concat (map rsg_lines gs)) \<or> l \<in> snd ` set rows"
proof (induction rows arbitrary: gs)
  case Nil
  then show ?case by simp
next
  case (Cons row rows)
  have "l \<in> set (concat (map rsg_lines gs)) \<or> l = snd row"
    if "l \<in> set (concat (map rsg_lines (add_suggestion row gs)))"
    using that by (auto simp: add_suggestion_def upd_row_def Let_def split: prod.splits if_splits)
  then show ?case using Cons.IH [of "add_suggestion row gs"] Cons.prems by auto
qed

text \<open>The units on order: what the lines of sent orders still wait for.\<close>

definition outstanding :: "purchase_db \<Rightarrow> ident \<Rightarrow> int" where
  "outstanding s pid = sum_rows (\<lambda>(po, l). if or_status po = PoDRAFT then 0 else max 0 (pol_orderedQty l - pol_receivedQty l))
     (pipeline_lines pid s)"

lemma on_order_sum: "pi_onOrder (aggregateOpenPoPipeline s pid) = outstanding s pid"
proof -
  have "pi_onOrder (fold add_pipeline rows agg) = pi_onOrder agg
      + sum_rows (\<lambda>(po, l). if or_status po = PoDRAFT then 0 else max 0 (pol_orderedQty l - pol_receivedQty l)) rows" for rows agg
    by (induction rows arbitrary: agg) (auto simp: add_pipeline_def Let_def sum_rows_def)
  then show ?thesis by (simp add: aggregateOpenPoPipeline_def outstanding_def)
qed

lemma ceil_case:
  assumes "0 < (c::int)"
  shows "c dvd - ((- q) div c) * c" "q \<le> - ((- q) div c) * c" "c dvd n \<Longrightarrow> q \<le> n \<Longrightarrow> - ((- q) div c) * c \<le> n"
proof -
  show "c dvd - ((- q) div c) * c" by simp
  have "(- q) div c * c \<le> - q" using assms by (metis mult.commute pos_mod_sign minus_mod_eq_mult_div diff_ge_0_iff_ge minus_div_mult_eq_mod)
  then show "q \<le> - ((- q) div c) * c" by simp
  assume n: "c dvd n" "q \<le> n"
  then obtain k where k: "n = k * c" by (metis dvd_def mult.commute)
  have "- k = (- n) div c" using assms nonzero_mult_div_cancel_right [of c "- k"] by (simp add: k)
  also have "\<dots> \<le> (- q) div c" using n(2) assms by (intro zdiv_mono1) simp_all
  finally have "- ((- q) div c) * c \<le> k * c" using assms by (intro mult_right_mono) simp_all
  then show "- ((- q) div c) * c \<le> n" by (simp add: k)
qed

lemma suggested_qty_least:
  assumes "1 \<le> c"
  shows "a < p + suggested_qty a p m c" "m \<le> suggested_qty a p m c" "c dvd suggested_qty a p m c"
    "a < p + n \<Longrightarrow> m \<le> n \<Longrightarrow> c dvd n \<Longrightarrow> suggested_qty a p m c \<le> n"
proof -
  note ceil = ceil_case [where c = c and q = "max (a - p + 1) m"]
  have c: "0 < c" "c > 1 \<or> c = 1" using assms by auto
  show "a < p + suggested_qty a p m c" "m \<le> suggested_qty a p m c" "c dvd suggested_qty a p m c"
    using ceil(1,2) c by (auto simp: suggested_qty_def Let_def)
  show "suggested_qty a p m c \<le> n" if "a < p + n" "m \<le> n" "c dvd n"
  proof -
    have "max (a - p + 1) m \<le> n" using that by simp
    then show ?thesis using ceil(3) [OF c(1) that(3)] by (simp add: suggested_qty_def Let_def)
  qed
qed

text \<open>
  C28: a proposed order line is the least that serves. The product is in the store and its stock, less
  what is reserved, plus what sent orders still bring, has reached the reorder point; the quantity
  proposed lifts it above the point, is at least the supplier's minimum and a number of full cases, and
  no smaller quantity is all of this.
\<close>

theorem reorder_proposal_is_least:
  assumes "suggestReorderDrafts actor storeId s = Inr gs" "g \<in> set gs" "l \<in> set (rsg_lines g)"
    and cases: "\<forall>k \<in> set (pd_links s). 1 \<le> sp_caseSize k"
  shows "(\<exists>p \<in> set (db_products (pd_core s)). p_id p = ro_productId l \<and> p_storeId p = storeId \<and> p_reorderAt p = ro_reorderAt l
        \<and> ro_position l = p_stock p - p_reserved p + outstanding s (p_id p))
    \<and> ro_position l \<le> ro_reorderAt l \<and> ro_reorderAt l < ro_position l + ro_suggestedQty l
    \<and> ro_minOrderQty l \<le> ro_suggestedQty l \<and> ro_caseSize l dvd ro_suggestedQty l
    \<and> (\<forall>n. ro_reorderAt l < ro_position l + n \<longrightarrow> ro_minOrderQty l \<le> n \<longrightarrow> ro_caseSize l dvd n \<longrightarrow> ro_suggestedQty l \<le> n)"
proof -
  let ?rows = "concat (map (\<lambda>p. case reorder_line_of s p of None \<Rightarrow> [] | Some row \<Rightarrow> [row])
           (filter (\<lambda>p. p_storeId p = storeId) (db_products (pd_core s))))"
  obtain ga where "ga \<in> set (fold add_suggestion ?rows [])" "rsg_lines ga = rsg_lines g"
    using assms(1,2) by (auto simp: suggestReorderDrafts_def bindE_Inr_iff Let_def)
  then have "l \<in> set (concat (map rsg_lines (fold add_suggestion ?rows [])))" using assms(3) by (simp del: map_concat set_concat add: set_concat) metis
  from proposed_lines [OF this] have "l \<in> snd ` set ?rows" by simp
  then obtain row where row: "row \<in> set ?rows" "l = snd row" by (rule imageE)
  then have "(fst row, l) \<in> set ?rows" by (simp only: prod.collapse)
  then obtain x where "(x, l) \<in> set ?rows" by (rule that)
  then obtain p where p: "p \<in> set (db_products (pd_core s))" "p_storeId p = storeId" "reorder_line_of s p = Some (x, l)"
    by (auto split: option.splits)
  obtain k where k: "List.find (\<lambda>l. sp_productId l = p_id p \<and> sp_isPreferred l) (pd_links s) = Some k"
    using p(3) by (auto simp: reorder_line_of_def Let_def split: if_splits option.splits)
  have "1 \<le> sp_caseSize k" using cases k by (auto simp: find_Some_iff)
  note least = suggested_qty_least [OF this]
  have "ro_productId l = p_id p" "ro_reorderAt l = p_reorderAt p"
    "ro_position l = p_stock p - p_reserved p + outstanding s (p_id p)" "ro_position l \<le> p_reorderAt p"
    "ro_caseSize l = sp_caseSize k" "ro_minOrderQty l = sp_minOrderQty k"
    "ro_suggestedQty l = suggested_qty (p_reorderAt p) (ro_position l) (sp_minOrderQty k) (sp_caseSize k)"
    using p(3) k by (auto simp: reorder_line_of_def Let_def on_order_sum split: if_splits option.splits)
  then show ?thesis using least p(1,2) by metis
qed

definition ex_low :: purchase_db where
  "ex_low = set_core (ex_db\<lparr>db_products := [ex_bread\<lparr>p_stock := 1, p_reorderAt := 5\<rparr>]\<rparr>) (ex_purchases PoSUBMITTED [ex_po_line ''B'' ''P2'' 3])"

lemma reorder_proposal_is_least_witness:
  "\<exists>gs g l. suggestReorderDrafts ex_admin ''S1'' ex_low = Inr gs \<and> g \<in> set gs \<and> l \<in> set (rsg_lines g)
     \<and> ro_position l = 4 \<and> ro_suggestedQty l = 6
     \<and> (\<forall>n::int. 5 < 4 + n \<longrightarrow> 1 \<le> n \<longrightarrow> 6 dvd n \<longrightarrow> 6 \<le> n)"
proof -
  have ev: "(case suggestReorderDrafts ex_admin ''S1'' ex_low of Inr [g] \<Rightarrow>
      (case rsg_lines g of [l] \<Rightarrow> ro_position l = 4 \<and> ro_suggestedQty l = 6 \<and> ro_reorderAt l = 5 \<and> ro_minOrderQty l = 1
         \<and> ro_caseSize l = 6 | _ \<Rightarrow> False) | _ \<Rightarrow> False)" by code_simp
  then obtain g l where run: "suggestReorderDrafts ex_admin ''S1'' ex_low = Inr [g]" "rsg_lines g = [l]"
    and v: "ro_position l = 4" "ro_suggestedQty l = 6" "ro_reorderAt l = 5" "ro_minOrderQty l = 1" "ro_caseSize l = 6"
    by (auto split: sum.splits list.splits)
  have "\<forall>k \<in> set (pd_links ex_low). 1 \<le> sp_caseSize k" by code_simp
  then show ?thesis
    using reorder_proposal_is_least [OF run(1), of g l] run v by auto
qed

section \<open>Whose products an order names\<close>

lemma order_update_found:
  assumes "find_order i s = Some x" "\<And>y. or_id (f y) = or_id y"
  shows "\<exists>t. order_update i f s = Inr t \<and> find_order i t = Some (f x) \<and> pd_core t = pd_core s"
proof -
  have "has_row or_id i (pd_orders s)" using assms(1) find_row_SomeD [of or_id i "pd_orders s" x]
    by (auto simp: find_order_def has_row_def)
  then show ?thesis using assms by (simp add: order_update_Inr_iff find_order_def find_row_upd_row)
qed

text \<open>
  Only the creation of an order checks whose products it names. An order with a line on a product
  of another store is not created; but a draft of the store is edited to have such lines, whatever
  store, or no product at all, they name: no product is looked up.
\<close>

theorem draft_edit_skips_the_store_check:
  assumes po: "find_order i s = Some po" "or_status po = PoDRAFT" "or_receipts po = []" "distinct (map or_id (pd_orders s))"
    and access: "assertPoStoreAccess actor (or_storeId po) = Inr ()" "or_storeId po = Some store" "store \<noteq> []"
    and lines: "draft_lines lineId 0 ls = Inr lines" "ls \<noteq> []"
    and foreign: "p \<in> set (db_products (pd_core s))" "p_storeId p \<noteq> store" "p_id p \<in> pol_productId ` set lines"
  shows "(\<exists>t po'. updatePurchaseOrder lineId actor i
            \<lparr>upo_expectedDate = None, upo_tax = None, upo_shipping = None, upo_lines = Some ls\<rparr> s s = Inr t
          \<and> find_order i t = Some po' \<and> or_lines po' = lines \<and> or_status po' = PoDRAFT \<and> or_storeId po' = Some store)
    \<and> (\<forall>now newId d. cpo_storeId d = Some (Some store) \<longrightarrow> cpo_lines d = ls \<longrightarrow> isl (createPurchaseOrder now newId lineId actor d s))"
proof -
  obtain sub tot where tots: "recomputePoTotals (line_amounts lines) (or_tax po) (or_shipping po) = (sub, tot)" by fastforce
  define f where "f = (\<lambda>x. x\<lparr>or_lines := lines, or_tax := or_tax po, or_shipping := or_shipping po, or_subtotal := sub,
      or_total := tot, or_expectedDate := or_expectedDate x\<rparr> :: purchase_order)"
  obtain t where t: "order_update i f s = Inr t" "find_order i t = Some (f po)"
    using order_update_found [OF po(1), of f] by (auto simp: f_def)
  have acc: "accessPo actor i s = Inr po" using po(1) access(1) by (simp add: accessPo_Inr_iff)
  have none: "\<not> (\<exists>x \<in> set (pd_orders s). or_id x = i \<and> (\<exists>r \<in> set (or_receipts x). gr_lines r \<noteq> []))"
  proof safe
    fix x r assume x: "x \<in> set (pd_orders s)" "i = or_id x" "r \<in> set (or_receipts x)"
    have "po = x" using find_row_SomeD [of or_id i "pd_orders s" po] po(1,4) x(1,2)
      by (auto simp: find_order_def distinct_map dest: inj_onD)
    then show False using x(3) po(3) by simp
  qed
  have "updatePurchaseOrder lineId actor i
      \<lparr>upo_expectedDate = None, upo_tax = None, upo_shipping = None, upo_lines = Some ls\<rparr> s s = order_update i f s"
    using lines tots by (simp add: updatePurchaseOrder_def acc po(2) f_def Let_def if_not_P [OF none])
  then have edit: "\<exists>t po'. updatePurchaseOrder lineId actor i
            \<lparr>upo_expectedDate = None, upo_tax = None, upo_shipping = None, upo_lines = Some ls\<rparr> s s = Inr t
          \<and> find_order i t = Some po' \<and> or_lines po' = lines \<and> or_status po' = PoDRAFT \<and> or_storeId po' = Some store"
    using t po(2) access(2) by (auto simp: f_def)
  have "isl (createPurchaseOrder now newId lineId actor d s)"
    if d: "cpo_storeId d = Some (Some store)" "cpo_lines d = ls" for now newId d
  proof -
    let ?ps = "filter (\<lambda>p. p_id p \<in> pol_productId ` set lines) (db_products (pd_core s))"
    have "list_ex (\<lambda>p. Some (p_storeId p) \<noteq> Some store) ?ps"
      unfolding list_ex_iff using foreign by (auto intro!: bexI [of _ p])
    moreover have "truthy (Some store)" using access(3) by (simp add: truthy_def)
    ultimately show ?thesis
      using d access(1,2) lines by (simp add: createPurchaseOrder_def Let_def isl_def split: option.split)
  qed
  then show ?thesis using edit by blast
qed

definition ex_two_stores :: purchase_db where
  "ex_two_stores = set_core (ex_db\<lparr>db_products := [ex_apples, ex_bread\<lparr>p_storeId := ''S2''\<rparr>]\<rparr>) (ex_purchases PoDRAFT ex_lines)"

lemma draft_edit_skips_the_store_check_witness:
  "\<exists>t po'. updatePurchaseOrder (ex_number CHR ''n'') ex_admin ''O1''
       \<lparr>upo_expectedDate = None, upo_tax = None, upo_shipping = None,
        upo_lines = Some [\<lparr>pin_productId = ''P2'', pin_orderedQty = Some 3, pin_unitCost = 2\<rparr>]\<rparr> ex_two_stores ex_two_stores = Inr t
     \<and> find_order ''O1'' t = Some po' \<and> map pol_productId (or_lines po') = [''P2''] \<and> or_storeId po' = Some ''S1''"
proof -
  let ?ls = "[\<lparr>pin_productId = ''P2'', pin_orderedQty = Some 3, pin_unitCost = 2\<rparr>]"
  let ?l = "(ex_po_line ''nA'' ''P2'' 3)"
  have x: "find_order ''O1'' ex_two_stores = Some (ex_order PoDRAFT ex_lines)"
      "distinct (map or_id (pd_orders ex_two_stores))" by code_simp+
  have l: "draft_lines (ex_number CHR ''n'') 0 ?ls = Inr [?l]" by code_simp
  have a: "assertPoStoreAccess ex_admin (Some ''S1'') = Inr ()" by code_simp
  have p: "ex_bread\<lparr>p_storeId := ''S2''\<rparr> \<in> set (db_products (pd_core ex_two_stores))" "p_id (ex_bread\<lparr>p_storeId := ''S2''\<rparr>) = ''P2''"
    by code_simp+
  have o: "or_status (ex_order PoDRAFT ex_lines) = PoDRAFT" "or_receipts (ex_order PoDRAFT ex_lines) = []"
      "or_storeId (ex_order PoDRAFT ex_lines) = Some ''S1''" by (simp_all add: ex_order_def)
  obtain t po' where "updatePurchaseOrder (ex_number CHR ''n'') ex_admin ''O1''
       \<lparr>upo_expectedDate = None, upo_tax = None, upo_shipping = None, upo_lines = Some ?ls\<rparr> ex_two_stores ex_two_stores = Inr t"
     "find_order ''O1'' t = Some po'" "or_lines po' = [?l]" "or_storeId po' = Some ''S1''"
    using draft_edit_skips_the_store_check [OF x(1) o(1,2) x(2), of ex_admin "''S1''", unfolded o(3), OF a refl _ l _ p(1)] p(2)
    by (auto simp: ex_po_line_def)
  then show ?thesis by (simp add: ex_po_line_def)
qed

end
