(* ===== verification/Stock_Count.thy ===== *)
theory Stock_Count
  imports Barcode
begin

text \<open>
  Physical stock counts (\<open>backend/src/services/stockCount.service.ts\<close>) and the job that drafts cycle
  counts (\<open>backend/src/jobs/scheduleCycleCounts.ts\<close>). The counts, with their lines nested, stand
  beside the shop's database, with the columns of the co-operative's settings they use and the lock-out
  times of the users. \<open>s0\<close> is the state a transaction reads, \<open>s\<close> the one it writes to: its writes
  repeat the condition they rest on.
\<close>

section \<open>Floating-point numbers\<close>

text \<open>
  A JavaScript number is a double: the result of an operation is the exact one rounded to 53
  significant bits, ties to even. Overflow and subnormal numbers are out of the range of the scores
  computed here.
\<close>

function bits :: "int \<Rightarrow> int" where
  "bits n = (if n \<le> 0 then 0 else 1 + bits (n div 2))"
  by pat_completeness auto

termination
  by (relation "measure nat") auto

declare bits.simps [simp del]

definition pow2 :: "int \<Rightarrow> rat" where
  "pow2 k = (if 0 \<le> k then 2 ^ nat k else 1 / 2 ^ nat (- k))"

definition round_half_even :: "rat \<Rightarrow> int" where
  "round_half_even q =
     (let f = \<lfloor>q\<rfloor>; r = q - of_int f in if r < 1 / 2 \<or> r = 1 / 2 \<and> even f then f else f + 1)"

definition to_double :: "rat \<Rightarrow> rat" where
  "to_double x =
     (if x = 0 then 0
      else
        let (n, d) = quotient_of \<bar>x\<bar>;
            e0 = bits n - bits d;
            e = (if \<bar>x\<bar> \<ge> pow2 e0 then e0 else e0 - 1);
            unit = pow2 (e - 52)
        in sgn x * of_int (round_half_even (\<bar>x\<bar> / unit)) * unit)"

text \<open>\<open>Math.round(x * 1000) / 1000\<close> and \<open>Math.ceil(n * share)\<close>.\<close>

definition round_mills :: "rat \<Rightarrow> rat" where
  "round_mills x = to_double (of_int \<lfloor>to_double (x * 1000) + 1 / 2\<rfloor> / 1000)"

definition ceil_share :: "nat \<Rightarrow> rat \<Rightarrow> nat" where
  "ceil_share n share = nat \<lceil>to_double (of_nat n * to_double share)\<rceil>"

section \<open>Tables\<close>

datatype count_type = CountCYCLE | CountFULL | CountSPOT | CountRECEIVING_VERIFY

datatype count_status = CountDRAFT | CountIN_PROGRESS | CountCOMPLETED | CountCANCELLED

datatype line_status = LinePENDING | LineCOUNTED | LineRECOUNT_REQUIRED | LineRESOLVED

datatype shrinkage_reason =
    THEFT_SUSPECTED | DAMAGE | SPOILAGE | EXPIRY | RECEIVING_ERROR | COUNTING_ERROR | SYSTEM_ERROR | UNKNOWN

definition type_text :: "count_type \<Rightarrow> string" where
  "type_text t = (case t of CountCYCLE \<Rightarrow> ''CYCLE'' | CountFULL \<Rightarrow> ''FULL'' | CountSPOT \<Rightarrow> ''SPOT''
     | CountRECEIVING_VERIFY \<Rightarrow> ''RECEIVING_VERIFY'')"

definition reason_text :: "shrinkage_reason \<Rightarrow> string" where
  "reason_text r = (case r of THEFT_SUSPECTED \<Rightarrow> ''THEFT_SUSPECTED'' | DAMAGE \<Rightarrow> ''DAMAGE''
     | SPOILAGE \<Rightarrow> ''SPOILAGE'' | EXPIRY \<Rightarrow> ''EXPIRY'' | RECEIVING_ERROR \<Rightarrow> ''RECEIVING_ERROR''
     | COUNTING_ERROR \<Rightarrow> ''COUNTING_ERROR'' | SYSTEM_ERROR \<Rightarrow> ''SYSTEM_ERROR'' | UNKNOWN \<Rightarrow> ''UNKNOWN'')"

definition lot_status_text :: "lot_status \<Rightarrow> string" where
  "lot_status_text t = (case t of LotACTIVE \<Rightarrow> ''ACTIVE'' | LotQUARANTINED \<Rightarrow> ''QUARANTINED''
     | LotRECALLED \<Rightarrow> ''RECALLED'' | LotEXPIRED \<Rightarrow> ''EXPIRED'' | LotDEPLETED \<Rightarrow> ''DEPLETED'')"

record count_line =
  cl_id :: ident
  cl_productId :: ident
  cl_lotId :: "ident option"
  cl_expectedQuantity :: int
  cl_countedQuantity :: "int option"
  cl_countedByUserId :: "ident option"
  cl_countedAt :: "time option"
  cl_movementDuringCount :: "int option"
  cl_variance :: "int option"
  cl_varianceValue :: "decimal option"
  cl_reasonCode :: "shrinkage_reason option"
  cl_recountedQuantity :: "int option"
  cl_recountedByUserId :: "ident option"
  cl_recountedAt :: "time option"
  cl_countSubmissionKey :: "string option"
  cl_recountSubmissionKey :: "string option"
  cl_status :: line_status

record stock_count =
  ct_id :: ident
  ct_storeId :: ident
  ct_type :: count_type
  ct_status :: count_status
  ct_scheduledFor :: "time option"
  ct_startedAt :: "time option"
  ct_completedAt :: "time option"
  ct_createdByUserId :: "ident option"
  ct_countedByUserId :: "ident option"
  ct_approvedByUserId :: "ident option"
  ct_approvedAt :: "time option"
  ct_notes :: "string option"
  ct_createdAt :: time
  ct_lines :: "count_line list"

record count_settings =
  cs_varianceThresholdPercent :: decimal
  cs_varianceThresholdValue :: decimal
  cs_highValueThreshold :: decimal
  cs_cycleCountEnabled :: bool
  cs_cycleCountFrequencyDays :: int
  cs_cycleCountSize :: int

record count_db =
  cn_shop :: barcode_db
  cn_counts :: "stock_count list"
  cn_settings :: count_settings
  cn_lockedUntil :: "ident \<Rightarrow> time option"

definition cn_core :: "count_db \<Rightarrow> db" where
  "cn_core s = bd_db (cn_shop s)"

definition cn_set :: "db \<Rightarrow> count_db \<Rightarrow> count_db" where
  "cn_set d s = s\<lparr>cn_shop := (cn_shop s)\<lparr>bd_db := d\<rparr>\<rparr>"

definition cn_audit ::
  "ident option \<Rightarrow> ident option \<Rightarrow> string \<Rightarrow> string \<Rightarrow> ident \<Rightarrow> count_db \<Rightarrow> count_db" where
  "cn_audit user storeId action etype eid s = cn_set (writeAuditLog user storeId action etype (Some eid) (cn_core s)) s"

section \<open>Access\<close>

definition isStoreAdmin :: "auth_user \<Rightarrow> bool" where
  "isStoreAdmin actor \<longleftrightarrow> au_role actor = STORE_ADMIN \<or> au_role actor = COOP_ADMIN"

definition assertStoreAdmin :: "auth_user \<Rightarrow> string \<Rightarrow> unit result" where
  "assertStoreAdmin actor action =
     (if \<not> isStoreAdmin actor then Inl (AppError 403 (''Only STORE_ADMIN or COOP_ADMIN can '' @ action)) else Inr ())"

definition assertStoreAccess :: "auth_user \<Rightarrow> ident \<Rightarrow> unit result" where
  "assertStoreAccess actor storeId =
     (if au_role actor = COOP_ADMIN then Inr ()
      else if \<not> truthy (au_storeScope actor) \<or> au_storeScope actor \<noteq> Some storeId
      then Inl (AppError 404 ''Stock count not found'') else Inr ())"

definition find_count :: "ident \<Rightarrow> count_db \<Rightarrow> stock_count option" where
  "find_count i s = find_row ct_id i (cn_counts s)"

definition loadCount :: "auth_user \<Rightarrow> ident \<Rightarrow> count_db \<Rightarrow> stock_count result" where
  "loadCount actor countId s =
     (case find_count countId s of
        None \<Rightarrow> Inl (AppError 404 ''Stock count not found'')
      | Some c \<Rightarrow> bindE (assertStoreAccess actor (ct_storeId c)) (\<lambda>_. Inr c))"

definition uniq_ids :: "ident list \<Rightarrow> ident list" where
  "uniq_ids ids = uniq (filter (\<lambda>i. i \<noteq> []) (map trim ids))"

definition lot_blocked :: "lot \<Rightarrow> bool" where
  "lot_blocked l \<longleftrightarrow> l_status l = LotQUARANTINED \<or> l_status l = LotRECALLED"

definition countableLotWhere :: "ident \<Rightarrow> ident list option \<Rightarrow> lot \<Rightarrow> bool" where
  "countableLotWhere storeId productIds l \<longleftrightarrow>
     l_storeId l = storeId
     \<and> (case productIds of None \<Rightarrow> True | Some ids \<Rightarrow> l_productId l \<in> set ids)
     \<and> (l_status l = LotACTIVE \<or> lot_blocked l \<and> l_quantityRemaining l > 0)"

text \<open>A count whose lines have not been applied to the stock yet.\<close>

definition openCountWhere :: "ident \<Rightarrow> stock_count \<Rightarrow> bool" where
  "openCountWhere storeId c \<longleftrightarrow>
     ct_storeId c = storeId
     \<and> (ct_status c = CountDRAFT \<or> ct_status c = CountIN_PROGRESS
        \<or> ct_status c = CountCOMPLETED \<and> ct_approvedAt c = None)"

text \<open>The claims: an update of the count under a condition that the caller has read to hold.\<close>

definition count_claim ::
  "ident \<Rightarrow> (stock_count \<Rightarrow> bool) \<Rightarrow> (stock_count \<Rightarrow> stock_count) \<Rightarrow> string \<Rightarrow> count_db \<Rightarrow> count_db result" where
  "count_claim i P f msg s =
     (let (n, cs) = updateMany_rows (\<lambda>c. ct_id c = i \<and> P c) f (cn_counts s)
      in if n \<noteq> 1 then Inl (AppError 409 msg) else Inr (s\<lparr>cn_counts := cs\<rparr>))"

section \<open>Choosing what to count\<close>

definition NEAR_EXPIRY_DAYS :: int where "NEAR_EXPIRY_DAYS = 7"

datatype abc_class = ClassA | ClassB | ClassC

definition interval_cycles :: "abc_class \<Rightarrow> int" where
  "interval_cycles c = (case c of ClassA \<Rightarrow> 1 | ClassB \<Rightarrow> 2 | ClassC \<Rightarrow> 4)"

definition betterClass :: "abc_class \<Rightarrow> abc_class \<Rightarrow> abc_class" where
  "betterClass a b = (if a = ClassA \<or> b = ClassA then ClassA else if a = ClassB \<or> b = ClassB then ClassB else ClassC)"

datatype cycle_reason =
    VARIANCE_LAST_COUNT | NEAR_EXPIRY | HIGH_VALUE | HIGH_VELOCITY | NEVER_COUNTED | DUE

record cycle_candidate =
  cyc_productId :: ident
  cyc_sku :: string
  cyc_productName :: string
  cyc_abcClass :: abc_class
  cyc_reasons :: "cycle_reason list"
  cyc_valueOnHand :: decimal
  cyc_unitsSold :: int
  cyc_lastCountedAt :: "time option"
  cyc_score :: rat

record cycle_schedule =
  sch_storeId :: ident
  sch_generatedAt :: time
  sch_frequencyDays :: int
  sch_size :: int
  sch_selected :: "cycle_candidate list"
  sch_dueButDeferred :: int
  sch_alreadyOnOpenCount :: int

record product_risk =
  pr_sku :: string
  pr_name :: string
  pr_value :: decimal
  pr_nearExpiry :: bool

text \<open>Value on hand and nearest expiry of a product, over its countable lots.\<close>

definition near_expiry_lot :: "time \<Rightarrow> lot \<Rightarrow> bool" where
  "near_expiry_lot by_time l \<longleftrightarrow>
     l_status l = LotACTIVE \<and> l_quantityRemaining l > 0
     \<and> (case l_expiryDate l of None \<Rightarrow> False | Some t \<Rightarrow> t \<le> by_time)"

definition risk_of :: "time \<Rightarrow> db \<Rightarrow> lot list \<Rightarrow> ident \<Rightarrow> product_risk" where
  "risk_of by_time s lots pid =
     (let ls = filter (\<lambda>l. l_productId l = pid) lots
      in \<lparr>pr_sku = (case find_product pid s of None \<Rightarrow> [] | Some p \<Rightarrow> p_sku p),
          pr_name = (case find_product pid s of None \<Rightarrow> [] | Some p \<Rightarrow> p_name p),
          pr_value = sum_list (map (\<lambda>l. l_unitCost l * of_int (max 0 (l_quantityRemaining l))) ls),
          pr_nearExpiry = list_ex (near_expiry_lot by_time) ls\<rparr>)"

text \<open>Units of a product in the sales of a store that were paid in a period.\<close>

definition units_sold :: "ident \<Rightarrow> time \<Rightarrow> time \<Rightarrow> db \<Rightarrow> ident \<Rightarrow> int" where
  "units_sold storeId since until s pid =
     sum_list (map (\<lambda>x. sum_list (map (\<lambda>it. if si_productId it = pid then si_quantity it else 0) (s_items x)))
       (filter (\<lambda>x. s_storeId x = storeId
            \<and> (case s_paidAt x of None \<Rightarrow> False | Some t \<Rightarrow> since \<le> t \<and> t \<le> until)) (db_sales s)))"

definition on_open_count :: "ident \<Rightarrow> count_db \<Rightarrow> ident \<Rightarrow> bool" where
  "on_open_count storeId s pid \<longleftrightarrow>
     list_ex (\<lambda>c. openCountWhere storeId c \<and> list_ex (\<lambda>l. cl_productId l = pid) (ct_lines c)) (cn_counts s)"

text \<open>The approved lines of a product, and the last approved count that has one: its id and time.\<close>

definition approved_lines :: "ident \<Rightarrow> count_db \<Rightarrow> ident \<Rightarrow> (stock_count \<times> count_line) list" where
  "approved_lines storeId s pid =
     filter (\<lambda>(c, l). cl_productId l = pid)
       (concat (map (\<lambda>c. map (Pair c) (ct_lines c))
          (filter (\<lambda>c. ct_storeId c = storeId \<and> ct_approvedAt c \<noteq> None) (cn_counts s))))"

definition counted_at :: "stock_count \<Rightarrow> time" where
  "counted_at c = (case ct_startedAt c of Some t \<Rightarrow> t | None \<Rightarrow> (case ct_approvedAt c of Some t \<Rightarrow> t | None \<Rightarrow> 0))"

definition later_count :: "stock_count \<times> count_line \<Rightarrow> (ident \<times> time) option \<Rightarrow> (ident \<times> time) option" where
  "later_count row cur =
     (let c = fst row in
      case cur of None \<Rightarrow> Some (ct_id c, counted_at c)
      | Some (i, t) \<Rightarrow> if counted_at c > t then Some (ct_id c, counted_at c) else Some (i, t))"

definition last_count :: "ident \<Rightarrow> count_db \<Rightarrow> ident \<Rightarrow> (time \<times> bool) option" where
  "last_count storeId s pid =
     (let rows = approved_lines storeId s pid in
      case fold later_count rows None of
        None \<Rightarrow> None
      | Some (i, t) \<Rightarrow>
          Some (t, list_ex (\<lambda>(c, l). ct_id c = i \<and> (case cl_variance l of None \<Rightarrow> False | Some v \<Rightarrow> v \<noteq> 0)) rows))"

text \<open>What all products of the store are ranked against.\<close>

record ranking =
  rk_now :: time
  rk_frequencyDays :: int
  rk_highValue :: decimal
  rk_sellers :: "ident list"
  rk_maxValue :: rat
  rk_maxSold :: int

definition value_class :: "decimal \<Rightarrow> decimal \<Rightarrow> abc_class" where
  "value_class highValue v = (if v \<ge> highValue then ClassA else if v \<ge> highValue * (1 / 4) then ClassB else ClassC)"

fun index_of :: "'a \<Rightarrow> 'a list \<Rightarrow> nat option" where
  "index_of x [] = None"
| "index_of x (y # ys) = (if x = y then Some 0 else map_option Suc (index_of x ys))"

definition velocity_class :: "ident list \<Rightarrow> ident \<Rightarrow> abc_class" where
  "velocity_class sellers pid =
     (case index_of pid sellers of
        None \<Rightarrow> ClassC
      | Some rank \<Rightarrow>
          if rank < ceil_share (length sellers) (1 / 5) then ClassA
          else if rank < ceil_share (length sellers) (1 / 2) then ClassB else ClassC)"

text \<open>
  A product's standing: whether it is flagged and whether it is due, then its entry. The frequency is
  at least one day.
\<close>

definition abc_of :: "ranking \<Rightarrow> product_risk \<Rightarrow> ident \<Rightarrow> abc_class" where
  "abc_of rk risk pid = betterClass (value_class (rk_highValue rk) (pr_value risk)) (velocity_class (rk_sellers rk) pid)"

definition is_due :: "ranking \<Rightarrow> abc_class \<Rightarrow> (time \<times> bool) option \<Rightarrow> bool" where
  "is_due rk cls lst =
     (case lst of None \<Rightarrow> True
      | Some (t, v) \<Rightarrow>
          t + interval_cycles cls * rk_frequencyDays rk * day_ms \<le> rk_now rk + rk_frequencyDays rk * day_ms)"

definition is_flagged :: "product_risk \<Rightarrow> (time \<times> bool) option \<Rightarrow> bool" where
  "is_flagged risk lst \<longleftrightarrow> (case lst of None \<Rightarrow> False | Some (t, v) \<Rightarrow> v) \<or> pr_nearExpiry risk"

definition candidate_reasons :: "ranking \<Rightarrow> product_risk \<Rightarrow> (time \<times> bool) option \<Rightarrow> ident \<Rightarrow> cycle_reason list" where
  "candidate_reasons rk risk lst pid =
     (case lst of Some (t, True) \<Rightarrow> [VARIANCE_LAST_COUNT] | _ \<Rightarrow> [])
     @ (if pr_nearExpiry risk then [NEAR_EXPIRY] else [])
     @ (if value_class (rk_highValue rk) (pr_value risk) = ClassA then [HIGH_VALUE] else [])
     @ (if velocity_class (rk_sellers rk) pid = ClassA then [HIGH_VELOCITY] else [])
     @ (case lst of None \<Rightarrow> [NEVER_COUNTED] | Some _ \<Rightarrow> if is_due rk (abc_of rk risk pid) lst then [DUE] else [])"

definition score_of :: "ranking \<Rightarrow> product_risk \<Rightarrow> (time \<times> bool) option \<Rightarrow> ident \<Rightarrow> int \<Rightarrow> rat" where
  "score_of rk risk lst pid sold =
     (let staleness = (case lst of None \<Rightarrow> 1
            | Some (t, v) \<Rightarrow> min 1 (to_double (of_int (rk_now rk - t)
                / of_int (interval_cycles (abc_of rk risk pid) * rk_frequencyDays rk * day_ms))));
          byValue = (if rk_maxValue rk > 0 then to_double (to_double (pr_value risk) / rk_maxValue rk) else 0);
          bySales = (if rk_maxSold rk > 0 then to_double (of_int sold / of_int (rk_maxSold rk)) else 0)
      in round_mills (to_double (to_double (byValue + bySales) + staleness)))"

definition candidate_of :: "ranking \<Rightarrow> product_risk \<Rightarrow> (time \<times> bool) option \<Rightarrow> ident \<Rightarrow> int \<Rightarrow> cycle_candidate" where
  "candidate_of rk risk lst pid sold =
     \<lparr>cyc_productId = pid, cyc_sku = pr_sku risk, cyc_productName = pr_name risk, cyc_abcClass = abc_of rk risk pid,
      cyc_reasons = candidate_reasons rk risk lst pid, cyc_valueOnHand = moneyDec (pr_value risk), cyc_unitsSold = sold,
      cyc_lastCountedAt = map_option fst lst, cyc_score = score_of rk risk lst pid sold\<rparr>"

text \<open>
  The order of the schedule. Products of equal score are ordered by id with \<open>localeCompare\<close>; on the ids the database
  generates (lower-case letters and digits) that is the order of the characters.
\<close>

definition rank_key :: "bool \<times> cycle_candidate \<Rightarrow> bool \<times> rat \<times> ident" where
  "rank_key row = (\<not> fst row, - cyc_score (snd row), cyc_productId (snd row))"

text \<open>The products with countable lots, their risk and sales, and what they are ranked against.\<close>

definition countable_products :: "ident \<Rightarrow> count_db \<Rightarrow> ident list" where
  "countable_products storeId s = uniq (map l_productId (filter (countableLotWhere storeId None) (db_lots (cn_core s))))"

definition cycle_risk :: "time \<Rightarrow> ident \<Rightarrow> count_db \<Rightarrow> ident \<Rightarrow> product_risk" where
  "cycle_risk now storeId s =
     risk_of (now + NEAR_EXPIRY_DAYS * day_ms) (cn_core s) (filter (countableLotWhere storeId None) (db_lots (cn_core s)))"

definition cycle_sold :: "time \<Rightarrow> ident \<Rightarrow> count_db \<Rightarrow> ident \<Rightarrow> int" where
  "cycle_sold now storeId s = units_sold storeId (now - cs_cycleCountFrequencyDays (cn_settings s) * day_ms) now (cn_core s)"

definition cycle_ranking :: "time \<Rightarrow> ident \<Rightarrow> count_db \<Rightarrow> ranking" where
  "cycle_ranking now storeId s =
     (let ids = countable_products storeId s; sold = cycle_sold now storeId s;
          sellers = sort_key (\<lambda>i. (- sold i, i)) (filter (\<lambda>i. sold i > 0) ids)
      in \<lparr>rk_now = now, rk_frequencyDays = cs_cycleCountFrequencyDays (cn_settings s),
          rk_highValue = cs_highValueThreshold (cn_settings s), rk_sellers = sellers,
          rk_maxValue = Max (insert 0 (set (map (\<lambda>i. to_double (pr_value (cycle_risk now storeId s i))) ids))),
          rk_maxSold = Max (insert 0 (set (map sold sellers)))\<rparr>)"

text \<open>Products that are due or flagged, whether on an open count or not; then the ranking of those that are not.\<close>

definition wanted_products :: "time \<Rightarrow> ident \<Rightarrow> count_db \<Rightarrow> ident list" where
  "wanted_products now storeId s =
     (let rk = cycle_ranking now storeId s; risk = cycle_risk now storeId s; lst = last_count storeId s in
      filter (\<lambda>i. is_due rk (abc_of rk (risk i) i) (lst i) \<or> is_flagged (risk i) (lst i)) (countable_products storeId s))"

definition ranked_candidates :: "time \<Rightarrow> ident \<Rightarrow> count_db \<Rightarrow> (bool \<times> cycle_candidate) list" where
  "ranked_candidates now storeId s =
     (let rk = cycle_ranking now storeId s; risk = cycle_risk now storeId s; lst = last_count storeId s in
      sort_key rank_key
        (map (\<lambda>i. (is_flagged (risk i) (lst i), candidate_of rk (risk i) (lst i) i (cycle_sold now storeId s i)))
          (filter (\<lambda>i. \<not> on_open_count storeId s i) (wanted_products now storeId s))))"

definition generateCycleCountSchedule :: "time \<Rightarrow> ident \<Rightarrow> count_db \<Rightarrow> cycle_schedule" where
  "generateCycleCountSchedule now storeId s =
     (let wanted = wanted_products now storeId s;
          ranked = ranked_candidates now storeId s;
          size = cs_cycleCountSize (cn_settings s)
      in \<lparr>sch_storeId = storeId, sch_generatedAt = now, sch_frequencyDays = cs_cycleCountFrequencyDays (cn_settings s),
          sch_size = size,
          sch_selected = map snd (take (nat size) ranked), sch_dueButDeferred = max 0 (int (length ranked) - size),
          sch_alreadyOnOpenCount = int (length wanted) - int (length ranked)\<rparr>)"

section \<open>The counting view\<close>

record counter_line_view =
  cv_id :: ident
  cv_productId :: ident
  cv_sku :: string
  cv_productName :: string
  cv_lotId :: "ident option"
  cv_lotNumber :: "string option"
  cv_expiryDate :: "time option"
  cv_productBarcodes :: "string list"
  cv_lotBarcode :: "string option"
  cv_status :: line_status
  cv_countedByYou :: bool
  cv_recountByAnotherPerson :: bool

record counter_count_view =
  cw_id :: ident
  cw_storeId :: ident
  cw_type :: count_type
  cw_status :: count_status
  cw_scheduledFor :: "time option"
  cw_startedAt :: "time option"
  cw_completedAt :: "time option"
  cw_notes :: "string option"
  cw_lines :: "counter_line_view list"

definition line_lot :: "db \<Rightarrow> count_line \<Rightarrow> lot option" where
  "line_lot d l = (case cl_lotId l of None \<Rightarrow> None | Some i \<Rightarrow> find_lot i d)"

text \<open>Lines by product name and lot number, a line without a lot last.\<close>

definition line_key :: "db \<Rightarrow> count_line \<Rightarrow> string \<times> bool \<times> string" where
  "line_key d l =
     ((case find_product (cl_productId l) d of None \<Rightarrow> [] | Some p \<Rightarrow> p_name p),
      line_lot d l = None, (case line_lot d l of None \<Rightarrow> [] | Some k \<Rightarrow> l_lotNumber k))"

definition counter_line :: "auth_user \<Rightarrow> barcode_db \<Rightarrow> count_line \<Rightarrow> counter_line_view" where
  "counter_line actor b l =
     (let d = bd_db b; p = find_product (cl_productId l) d; k = line_lot d l in
      \<lparr>cv_id = cl_id l, cv_productId = cl_productId l, cv_sku = (case p of None \<Rightarrow> [] | Some q \<Rightarrow> p_sku q),
       cv_productName = (case p of None \<Rightarrow> [] | Some q \<Rightarrow> p_name q), cv_lotId = cl_lotId l,
       cv_lotNumber = map_option l_lotNumber k, cv_expiryDate = (case k of None \<Rightarrow> None | Some m \<Rightarrow> l_expiryDate m),
       cv_productBarcodes = map pb_code (filter (\<lambda>x. pb_productId x = cl_productId l) (bd_barcodes b)),
       cv_lotBarcode = (case k of None \<Rightarrow> None | Some m \<Rightarrow> l_barcode m), cv_status = cl_status l,
       cv_countedByYou = (cl_countedByUserId l = Some (au_id actor)),
       cv_recountByAnotherPerson =
         (cl_status l = LineRECOUNT_REQUIRED \<and> cl_countedByUserId l = Some (au_id actor))\<rparr>)"

definition getCountForCounter :: "auth_user \<Rightarrow> ident \<Rightarrow> count_db \<Rightarrow> counter_count_view result" where
  "getCountForCounter actor countId s =
     bindE (loadCount actor countId s) (\<lambda>c. Inr
       \<lparr>cw_id = ct_id c, cw_storeId = ct_storeId c, cw_type = ct_type c, cw_status = ct_status c,
        cw_scheduledFor = ct_scheduledFor c, cw_startedAt = ct_startedAt c, cw_completedAt = ct_completedAt c,
        cw_notes = ct_notes c,
        cw_lines = map (counter_line actor (cn_shop s)) (sort_key (line_key (cn_core s)) (ct_lines c))\<rparr>)"

section \<open>Creating counts\<close>

text \<open>A line as it is created. The ids of the lines are given per position.\<close>

definition new_line :: "ident \<Rightarrow> ident \<times> ident \<Rightarrow> count_line" where
  "new_line newId lp =
     \<lparr>cl_id = newId, cl_productId = snd lp, cl_lotId = Some (fst lp), cl_expectedQuantity = 0,
      cl_countedQuantity = None, cl_countedByUserId = None, cl_countedAt = None, cl_movementDuringCount = None,
      cl_variance = None, cl_varianceValue = None, cl_reasonCode = None, cl_recountedQuantity = None,
      cl_recountedByUserId = None, cl_recountedAt = None, cl_countSubmissionKey = None,
      cl_recountSubmissionKey = None, cl_status = LinePENDING\<rparr>"

definition line_ids :: "count_db \<Rightarrow> ident list" where
  "line_ids s = concat (map (\<lambda>c. map cl_id (ct_lines c)) (cn_counts s))"

record new_count =
  nc_storeId :: ident
  nc_type :: count_type
  nc_lots :: "(ident \<times> ident) list"
  nc_createdByUserId :: "ident option"
  nc_scheduledFor :: "time option"
  nc_notes :: "string option"

text \<open>One transaction; creations for one store run one after the other.\<close>

definition insertCount ::
  "time \<Rightarrow> ident \<Rightarrow> (nat \<Rightarrow> ident) \<Rightarrow> new_count \<Rightarrow> count_db \<Rightarrow> (count_db \<times> stock_count) result" where
  "insertCount now newId lineIdOf d s =
     (let productIds = uniq (map snd (nc_lots d));
          ls = map (\<lambda>(k, lp). new_line (lineIdOf k) lp) (enumerate 0 (nc_lots d));
          c = \<lparr>ct_id = newId, ct_storeId = nc_storeId d, ct_type = nc_type d, ct_status = CountDRAFT,
               ct_scheduledFor = nc_scheduledFor d, ct_startedAt = None, ct_completedAt = None,
               ct_createdByUserId = nc_createdByUserId d, ct_countedByUserId = None, ct_approvedByUserId = None,
               ct_approvedAt = None, ct_notes = nc_notes d, ct_createdAt = now, ct_lines = ls\<rparr>
      in if list_ex (on_open_count (nc_storeId d) s) productIds
         then Inl (AppError 409 ''Some products are already on an open count; finish or cancel that count first'')
         else if \<not> distinct (map fst (nc_lots d)) \<or> \<not> distinct (map cl_id ls @ line_ids s) then Inl UniqueViolation
         else bindE (create_row ct_id c (cn_counts s)) (\<lambda>cs.
           Inr (cn_audit (nc_createdByUserId d) (Some (nc_storeId d)) ''STOCK_COUNT_CREATE'' ''StockCount'' newId
                  (s\<lparr>cn_counts := cs\<rparr>), c)))"

definition lot_pair :: "lot \<Rightarrow> ident \<times> ident" where
  "lot_pair l = (l_id l, l_productId l)"

text \<open>The result is \<open>None\<close> when nothing is due.\<close>

definition scheduleCycleCount ::
  "time \<Rightarrow> ident \<Rightarrow> (nat \<Rightarrow> ident) \<Rightarrow> ident \<Rightarrow> count_db \<Rightarrow> count_db
    \<Rightarrow> (count_db \<times> (ident \<times> cycle_schedule) option) result" where
  "scheduleCycleCount now newId lineIdOf storeId s0 s =
     (let schedule = generateCycleCountSchedule now storeId s0 in
      if sch_selected schedule = [] then Inr (s, None)
      else
        let lots = filter (countableLotWhere storeId (Some (map cyc_productId (sch_selected schedule)))) (db_lots (cn_core s0))
        in bindE (insertCount now newId lineIdOf
              \<lparr>nc_storeId = storeId, nc_type = CountCYCLE, nc_lots = map lot_pair lots, nc_createdByUserId = None,
               nc_scheduledFor = Some now, nc_notes = Some ''Scheduled cycle count''\<rparr> s) (\<lambda>(t, c).
           Inr (t, Some (ct_id c, schedule))))"

record count_options =
  co_productIds :: "ident list"
  co_lotIds :: "ident list"
  co_scheduledFor :: "time option"
  co_notes :: "string option"

text \<open>The lots of the named products, and the lots named themselves.\<close>

definition product_lots :: "ident \<Rightarrow> ident list \<Rightarrow> db \<Rightarrow> (ident \<times> ident) list result" where
  "product_lots storeId ids d =
     (if ids = [] then Inr []
      else if length (filter (\<lambda>p. p_id p \<in> set ids \<and> p_storeId p = storeId) (db_products d)) \<noteq> length ids
      then Inl (AppError 404 ''Some products were not found for this store'')
      else
        let lots = filter (countableLotWhere storeId (Some ids)) (db_lots d)
        in if list_ex (\<lambda>i. i \<notin> set (map l_productId lots)) ids
           then Inl (AppError 400 ''Some products have no lots to count; count a specific lot instead'')
           else Inr (map lot_pair lots))"

definition named_lots :: "ident \<Rightarrow> ident list \<Rightarrow> db \<Rightarrow> (ident \<times> ident) list result" where
  "named_lots storeId ids d =
     (if ids = [] then Inr []
      else
        let lots = filter (\<lambda>l. l_id l \<in> set ids \<and> l_storeId l = storeId) (db_lots d)
        in if length lots \<noteq> length ids then Inl (AppError 404 ''Some lots were not found for this store'')
           else if list_ex (\<lambda>l. l_status l = LotEXPIRED) lots
           then Inl (AppError 400 ''EXPIRED lots have already been written off and cannot be counted'')
           else Inr (map lot_pair lots))"

definition count_selection ::
  "time \<Rightarrow> ident \<Rightarrow> count_type \<Rightarrow> count_options \<Rightarrow> count_db \<Rightarrow> (ident \<times> ident) list result" where
  "count_selection now storeId type opts s =
     (let productIds = uniq_ids (co_productIds opts); lotIds = uniq_ids (co_lotIds opts);
          hasIds = (productIds \<noteq> [] \<or> lotIds \<noteq> []); d = cn_core s
      in if type = CountFULL \<and> hasIds
         then Inl (AppError 400 ''FULL counts include every product; do not pass productIds or lotIds'')
         else if (type = CountSPOT \<or> type = CountRECEIVING_VERIFY) \<and> \<not> hasIds
         then Inl (AppError 400 (type_text type @ '' counts need productIds or lotIds''))
         else if type = CountFULL then Inr (map lot_pair (filter (countableLotWhere storeId None) (db_lots d)))
         else
           bindE (if type = CountCYCLE \<and> \<not> hasIds
                  then (let chosen = map cyc_productId (sch_selected (generateCycleCountSchedule now storeId s))
                        in if chosen = [] then Inl (AppError 400 ''No products are due for a cycle count'') else Inr chosen)
                  else Inr productIds) (\<lambda>ids.
           bindE (product_lots storeId ids d) (\<lambda>byProduct.
           bindE (named_lots storeId lotIds d) (\<lambda>byLot.
           Inr (byProduct @ filter (\<lambda>lp. fst lp \<notin> set (map fst byProduct)) byLot)))))"

definition createCount ::
  "time \<Rightarrow> ident \<Rightarrow> (nat \<Rightarrow> ident) \<Rightarrow> auth_user \<Rightarrow> ident \<Rightarrow> count_type \<Rightarrow> count_options \<Rightarrow> count_db \<Rightarrow> count_db
    \<Rightarrow> count_db \<times> counter_count_view result" where
  "createCount now newId lineIdOf actor storeId type opts s0 s =
     (case bindE (assertStoreAdmin actor ''create stock counts'') (\<lambda>_.
           bindE (assertStoreAccess actor storeId) (\<lambda>_.
           if (case find_store storeId (cn_core s0) of None \<Rightarrow> True | Some st \<Rightarrow> \<not> st_isActive st)
           then Inl (AppError 400 ''Store not found or inactive'')
           else bindE (count_selection now storeId type opts s0) (\<lambda>lots.
           if lots = [] then Inl (AppError 400 ''Nothing to count: no lots match this selection'')
           else insertCount now newId lineIdOf
               \<lparr>nc_storeId = storeId, nc_type = type, nc_lots = lots, nc_createdByUserId = Some (au_id actor),
                nc_scheduledFor = co_scheduledFor opts, nc_notes = trimmed (co_notes opts)\<rparr> s))) of
        Inl e \<Rightarrow> (s, Inl e)
      | Inr (t, c) \<Rightarrow> (t, getCountForCounter actor (ct_id c) t))"

section \<open>Starting\<close>

definition line_update :: "ident \<Rightarrow> ident \<Rightarrow> (count_line \<Rightarrow> count_line) \<Rightarrow> count_db \<Rightarrow> count_db" where
  "line_update countId lineId f s =
     s\<lparr>cn_counts := upd_row ct_id countId (\<lambda>c. c\<lparr>ct_lines := upd_row cl_id lineId f (ct_lines c)\<rparr>) (cn_counts s)\<rparr>"

definition frozen_line :: "db \<Rightarrow> count_line \<Rightarrow> count_line" where
  "frozen_line d l =
     l\<lparr>cl_expectedQuantity := (case line_lot d l of None \<Rightarrow> 0 | Some k \<Rightarrow> l_quantityRemaining k)\<rparr>"

text \<open>After the transaction the counting view is read.\<close>

definition with_counter_view :: "auth_user \<Rightarrow> ident \<Rightarrow> count_db \<Rightarrow> count_db result \<Rightarrow> count_db \<times> counter_count_view result" where
  "with_counter_view actor countId s m =
     (case m of Inl e \<Rightarrow> (s, Inl e) | Inr t \<Rightarrow> (t, getCountForCounter actor countId t))"

definition start_tx :: "time \<Rightarrow> auth_user \<Rightarrow> ident \<Rightarrow> count_db \<Rightarrow> count_db \<Rightarrow> count_db result" where
  "start_tx now actor countId s0 s =
     bindE (loadCount actor countId s0) (\<lambda>c.
     if ct_status c \<noteq> CountDRAFT then Inl (AppError 409 ''Only DRAFT counts can be started'')
     else if list_ex (\<lambda>l. cl_lotId l = None) (ct_lines c)
     then Inl (AppError 409 ''Count has product-level lines; every line must name a lot'')
     else
       let s1 = fold (\<lambda>l. line_update countId (cl_id l)
                  (\<lambda>r. r\<lparr>cl_expectedQuantity := cl_expectedQuantity (frozen_line (cn_core s0) l)\<rparr>)) (ct_lines c) s
       in bindE (count_claim countId (\<lambda>x. ct_status x = CountDRAFT)
              (\<lambda>x. x\<lparr>ct_status := CountIN_PROGRESS, ct_startedAt := Some now\<rparr>) ''Count was started by someone else'' s1) (\<lambda>s2.
          Inr (cn_audit (Some (au_id actor)) (Some (ct_storeId c)) ''STOCK_COUNT_START'' ''StockCount'' countId s2)))"

definition startCount ::
  "time \<Rightarrow> auth_user \<Rightarrow> ident \<Rightarrow> count_db \<Rightarrow> count_db \<Rightarrow> count_db \<times> counter_count_view result" where
  "startCount now actor countId s0 s =
     with_counter_view actor countId s
       (bindE (assertStoreAdmin actor ''start stock counts'') (\<lambda>_. start_tx now actor countId s0 s))"

section \<open>Counting a line\<close>

text \<open>The division is that of the decimal type, rounded to 20 significant digits.\<close>

definition exceedsRecountThreshold ::
  "(decimal \<Rightarrow> decimal \<Rightarrow> decimal) \<Rightarrow> count_settings \<Rightarrow> int \<Rightarrow> int \<Rightarrow> decimal \<Rightarrow> bool" where
  "exceedsRecountThreshold dv settings expectedAtCount variance varianceValue \<longleftrightarrow>
     (if variance = 0 then False
      else if \<bar>varianceValue\<bar> > cs_varianceThresholdValue settings then True
      else if expectedAtCount \<le> 0 then True
      else dv (of_int (\<bar>variance\<bar> * 100)) (of_int expectedAtCount) > cs_varianceThresholdPercent settings)"

definition otherCountersAvailable :: "time \<Rightarrow> ident \<Rightarrow> ident \<Rightarrow> count_db \<Rightarrow> nat" where
  "otherCountersAvailable now storeId excludeUserId s =
     length (filter (\<lambda>u. u_storeId u = Some storeId \<and> u_id u \<noteq> excludeUserId
          \<and> (u_role u = CASHIER \<or> u_role u = STORE_ADMIN)
          \<and> (case cn_lockedUntil s (u_id u) of None \<Rightarrow> True | Some t \<Rightarrow> t < now)) (db_users (cn_core s)))"

record count_submission =
  sub_idempotencyKey :: "string option"
  sub_countedAt :: "time option"
  sub_sentAt :: "time option"

record submit_result =
  sm_lineId :: ident
  sm_status :: line_status
  sm_replayed :: bool

definition all_lines :: "count_db \<Rightarrow> (ident \<times> count_line) list" where
  "all_lines s = concat (map (\<lambda>c. map (Pair (ct_id c)) (ct_lines c)) (cn_counts s))"

definition has_key :: "string \<Rightarrow> count_line \<Rightarrow> bool" where
  "has_key key l \<longleftrightarrow> cl_countSubmissionKey l = Some key \<or> cl_recountSubmissionKey l = Some key"

definition findSubmission :: "string \<Rightarrow> count_db \<Rightarrow> (ident \<times> count_line) option" where
  "findSubmission key s = List.find (\<lambda>(c, l). has_key key l) (all_lines s)"

definition replayOf :: "ident \<times> count_line \<Rightarrow> ident \<Rightarrow> ident \<Rightarrow> submit_result result" where
  "replayOf existing countId lineId =
     (if cl_id (snd existing) \<noteq> lineId \<or> fst existing \<noteq> countId
      then Inl (AppError 409 ''idempotencyKey was already used for a different count line'')
      else Inr \<lparr>sm_lineId = lineId, sm_status = cl_status (snd existing), sm_replayed = True\<rparr>)"

definition resolveCountedAt :: "count_submission \<Rightarrow> time option \<Rightarrow> time \<Rightarrow> time" where
  "resolveCountedAt sub startedAt now =
     (case sub_countedAt sub of
        None \<Rightarrow> now
      | Some t0 \<Rightarrow>
          let t1 = (case sub_sentAt sub of None \<Rightarrow> t0 | Some sent \<Rightarrow> t0 + (now - sent)); t2 = min t1 now
          in case startedAt of None \<Rightarrow> t2 | Some st \<Rightarrow> max t2 st)"

text \<open>Units of a lot in sales paid after the first time and not after the second.\<close>

definition lot_units_in :: "ident \<Rightarrow> sale \<Rightarrow> int" where
  "lot_units_in lotId x =
     sum_list (map (\<lambda>it. sum_list (map (\<lambda>a. if a_lotId a = lotId then a_quantity a else 0) (si_lotAllocations it))) (s_items x))"

definition units_paid :: "ident \<Rightarrow> time \<Rightarrow> time \<Rightarrow> db \<Rightarrow> int" where
  "units_paid lotId after until d =
     sum_list (map (lot_units_in lotId)
       (filter (\<lambda>x. case s_paidAt x of None \<Rightarrow> False | Some t \<Rightarrow> after < t \<and> t \<le> until) (db_sales d)))"

text \<open>The units of the lot at the moment of counting.\<close>

definition quantity_at_count :: "lot \<Rightarrow> time \<Rightarrow> time \<Rightarrow> db \<Rightarrow> int" where
  "quantity_at_count k countedAt now d =
     l_quantityRemaining k + (if countedAt < now then units_paid (l_id k) countedAt now d else 0)"

text \<open>What a first count and a recount write to the line.\<close>

definition counted_line ::
  "(decimal \<Rightarrow> decimal \<Rightarrow> decimal) \<Rightarrow> count_settings \<Rightarrow> auth_user \<Rightarrow> int \<Rightarrow> time \<Rightarrow> string option \<Rightarrow> int \<Rightarrow> int
    \<Rightarrow> decimal \<Rightarrow> bool \<Rightarrow> count_line \<Rightarrow> count_line" where
  "counted_line dv settings actor counted countedAt key expected atCount unitCost isRecount l =
     (let variance = counted - atCount; value = moneyDec (unitCost * of_int variance);
          l1 = l\<lparr>cl_movementDuringCount := Some (expected - atCount), cl_variance := Some variance,
                 cl_varianceValue := Some value\<rparr>
      in if isRecount
         then l1\<lparr>cl_recountedQuantity := Some counted, cl_recountedByUserId := Some (au_id actor),
                 cl_recountedAt := Some countedAt, cl_recountSubmissionKey := key, cl_status := LineRESOLVED\<rparr>
         else l1\<lparr>cl_countedQuantity := Some counted, cl_countedByUserId := Some (au_id actor),
                 cl_countedAt := Some countedAt, cl_countSubmissionKey := key,
                 cl_status := (if exceedsRecountThreshold dv settings atCount variance value
                    then LineRECOUNT_REQUIRED else LineCOUNTED)\<rparr>)"

text \<open>The checks on the line, in the state read: the line, and whether this is a recount.\<close>

definition countable_line :: "time \<Rightarrow> auth_user \<Rightarrow> stock_count \<Rightarrow> ident \<Rightarrow> count_db \<Rightarrow> (count_line \<times> bool) result" where
  "countable_line now actor c lineId s =
     (if ct_status c \<noteq> CountIN_PROGRESS then Inl (AppError 409 ''Lines can only be counted while the count is IN_PROGRESS'')
      else case find_row cl_id lineId (ct_lines c) of
        None \<Rightarrow> Inl (AppError 404 ''Count line not found'')
      | Some l \<Rightarrow>
          if \<not> truthy (cl_lotId l) then Inl (AppError 409 ''Count line has no lot'')
          else
            let isRecount = (cl_status l = LineRECOUNT_REQUIRED) in
            if \<not> isRecount \<and> cl_status l \<noteq> LinePENDING then Inl (AppError 409 ''This line has already been counted'')
            else if isRecount \<and> cl_countedByUserId l = Some (au_id actor)
                \<and> otherCountersAvailable now (ct_storeId c) (au_id actor) s > 0
            then Inl (AppError 409 ''A recount must be done by a different person from the first count'')
            else Inr (l, isRecount))"

text \<open>
  The conditional write of the line: a key that another line has in the same column is refused by the
  database; the result says whether the line still had the status it was read with.
\<close>

definition key_taken :: "string option \<Rightarrow> bool \<Rightarrow> ident \<Rightarrow> count_db \<Rightarrow> bool" where
  "key_taken key isRecount lineId s \<longleftrightarrow>
     key \<noteq> None \<and> list_ex (\<lambda>(c, l). cl_id l \<noteq> lineId
        \<and> (if isRecount then cl_recountSubmissionKey l else cl_countSubmissionKey l) = key) (all_lines s)"

definition claim_line ::
  "ident \<Rightarrow> count_line \<Rightarrow> (count_line \<Rightarrow> count_line) \<Rightarrow> count_db \<Rightarrow> count_db option" where
  "claim_line countId l f s =
     (case find_count countId s of
        None \<Rightarrow> None
      | Some c \<Rightarrow>
          (case find_row cl_id (cl_id l) (ct_lines c) of
             None \<Rightarrow> None
           | Some r \<Rightarrow> if cl_status r = cl_status l then Some (line_update countId (cl_id l) f s) else None))"

definition submit_key :: "count_submission \<Rightarrow> string option" where
  "submit_key sub = trimmed (sub_idempotencyKey sub)"

definition replay_or :: "string option \<Rightarrow> ident \<Rightarrow> ident \<Rightarrow> count_db \<Rightarrow> (count_db \<times> submit_result) result \<Rightarrow> count_db
    \<Rightarrow> (count_db \<times> submit_result) result" where
  "replay_or key countId lineId s0 other s =
     (case key of
        None \<Rightarrow> other
      | Some k \<Rightarrow>
          (case findSubmission k s0 of
             None \<Rightarrow> other
           | Some existing \<Rightarrow> bindE (replayOf existing countId lineId) (\<lambda>r. Inr (s, r))))"

definition submitCountLine ::
  "(decimal \<Rightarrow> decimal \<Rightarrow> decimal) \<Rightarrow> time \<Rightarrow> auth_user \<Rightarrow> ident \<Rightarrow> ident \<Rightarrow> js_number \<Rightarrow> count_submission
    \<Rightarrow> count_db \<Rightarrow> count_db \<Rightarrow> (count_db \<times> submit_result) result" where
  "submitCountLine dv now actor countId lineId countedQuantity sub s0 s =
     (case js_int countedQuantity of
        None \<Rightarrow> Inl (AppError 400 ''countedQuantity must be a non-negative whole number'')
      | Some counted \<Rightarrow>
          if counted < 0 then Inl (AppError 400 ''countedQuantity must be a non-negative whole number'')
          else
            let key = submit_key sub in
            bindE (loadCount actor countId s0) (\<lambda>c.
            replay_or key countId lineId s0
              (bindE (countable_line now actor c lineId s0) (\<lambda>(l, isRecount).
               case line_lot (cn_core s0) l of
                 None \<Rightarrow> Inl RecordNotFound
               | Some k \<Rightarrow>
                   let countedAt = resolveCountedAt sub (ct_startedAt c) now;
                       atCount = quantity_at_count k countedAt now (cn_core s0);
                       put = counted_line dv (cn_settings s0) actor counted countedAt key (cl_expectedQuantity l) atCount
                         (l_unitCost k) isRecount
                   in case claim_line countId l put s of
                        None \<Rightarrow> replay_or key countId lineId s (Inl (AppError 409 ''This line was just counted by someone else'')) s
                      | Some s1 \<Rightarrow>
                          if key_taken key isRecount lineId s then Inl UniqueViolation
                          else let s2 = (if truthy (ct_countedByUserId c) then s1
                                    else s1\<lparr>cn_counts := upd_row ct_id countId
                                           (\<lambda>x. x\<lparr>ct_countedByUserId := Some (au_id actor)\<rparr>) (cn_counts s1)\<rparr>)
                          in Inr (cn_audit (Some (au_id actor)) (Some (ct_storeId c)) ''STOCK_COUNT_LINE_COUNT'' ''StockCountLine'' lineId s2,
                                  \<lparr>sm_lineId = lineId, sm_status = cl_status (put l), sm_replayed = False\<rparr>))) s))"

section \<open>Completing, cancelling, listing\<close>

definition line_open :: "count_line \<Rightarrow> bool" where
  "line_open l \<longleftrightarrow> cl_status l \<noteq> LineCOUNTED \<and> cl_status l \<noteq> LineRESOLVED"

definition complete_tx :: "time \<Rightarrow> auth_user \<Rightarrow> ident \<Rightarrow> count_db \<Rightarrow> count_db \<Rightarrow> count_db result" where
  "complete_tx now actor countId s0 s =
     bindE (loadCount actor countId s0) (\<lambda>c.
     if ct_status c \<noteq> CountIN_PROGRESS then Inl (AppError 409 ''Only IN_PROGRESS counts can be completed'')
     else if list_ex line_open (ct_lines c)
     then Inl (AppError 409 ''Every line must be counted, and every recount done, before completing'')
     else
       bindE (count_claim countId (\<lambda>x. ct_status x = CountIN_PROGRESS)
           (\<lambda>x. x\<lparr>ct_status := CountCOMPLETED, ct_completedAt := Some now\<rparr>) ''Count was completed by someone else'' s) (\<lambda>s1.
       Inr (cn_audit (Some (au_id actor)) (Some (ct_storeId c)) ''STOCK_COUNT_COMPLETE'' ''StockCount'' countId s1)))"

definition completeCount ::
  "time \<Rightarrow> auth_user \<Rightarrow> ident \<Rightarrow> count_db \<Rightarrow> count_db \<Rightarrow> count_db \<times> counter_count_view result" where
  "completeCount now actor countId s0 s = with_counter_view actor countId s (complete_tx now actor countId s0 s)"

definition cancel_tx :: "auth_user \<Rightarrow> ident \<Rightarrow> count_db \<Rightarrow> count_db \<Rightarrow> count_db result" where
  "cancel_tx actor countId s0 s =
     bindE (loadCount actor countId s0) (\<lambda>c.
     if ct_status c = CountCANCELLED then Inl (AppError 409 ''Count is already cancelled'')
     else if ct_approvedAt c \<noteq> None
     then Inl (AppError 409 ''An approved count has already adjusted stock and cannot be cancelled'')
     else
       bindE (count_claim countId (\<lambda>x. ct_status x = ct_status c \<and> ct_approvedAt x = None)
           (\<lambda>x. x\<lparr>ct_status := CountCANCELLED\<rparr>) ''Count changed while cancelling; try again'' s) (\<lambda>s1.
       Inr (cn_audit (Some (au_id actor)) (Some (ct_storeId c)) ''STOCK_COUNT_CANCEL'' ''StockCount'' countId s1)))"

definition cancelCount ::
  "auth_user \<Rightarrow> ident \<Rightarrow> string \<Rightarrow> count_db \<Rightarrow> count_db \<Rightarrow> count_db \<times> counter_count_view result" where
  "cancelCount actor countId reason s0 s =
     with_counter_view actor countId s
       (bindE (assertStoreAdmin actor ''cancel stock counts'') (\<lambda>_.
        if trim reason = [] then Inl (AppError 400 ''A cancellation reason is required'')
        else cancel_tx actor countId s0 s))"

record count_summary =
  cy_id :: ident
  cy_type :: count_type
  cy_status :: count_status
  cy_scheduledFor :: "time option"
  cy_startedAt :: "time option"
  cy_completedAt :: "time option"
  cy_approvedAt :: "time option"
  cy_lineCount :: nat
  cy_scheduledBySystem :: bool
  cy_createdAt :: time

definition count_summary_of :: "stock_count \<Rightarrow> count_summary" where
  "count_summary_of c =
     \<lparr>cy_id = ct_id c, cy_type = ct_type c, cy_status = ct_status c, cy_scheduledFor = ct_scheduledFor c,
      cy_startedAt = ct_startedAt c, cy_completedAt = ct_completedAt c, cy_approvedAt = ct_approvedAt c,
      cy_lineCount = length (ct_lines c), cy_scheduledBySystem = (ct_createdByUserId c = None),
      cy_createdAt = ct_createdAt c\<rparr>"

definition listCounts :: "auth_user \<Rightarrow> ident \<Rightarrow> count_status option \<Rightarrow> count_db \<Rightarrow> count_summary list result" where
  "listCounts actor storeId status s =
     bindE (assertStoreAccess actor storeId) (\<lambda>_. Inr (map count_summary_of (take 100
       (sort_key (\<lambda>c. - ct_createdAt c) (filter (\<lambda>c. ct_storeId c = storeId
          \<and> (case status of None \<Rightarrow> True | Some st \<Rightarrow> ct_status c = st)) (cn_counts s))))))"

section \<open>Review\<close>

text \<open>Units sold of a line's lot between the start of the count and its (re)count.\<close>

definition sold_during_count :: "db \<Rightarrow> time option \<Rightarrow> count_line \<Rightarrow> int" where
  "sold_during_count d startedAt l =
     (let until = (case cl_recountedAt l of None \<Rightarrow> cl_countedAt l | Some t \<Rightarrow> Some t) in
      case (startedAt, until, cl_lotId l) of
        (Some st, Some t, Some i) \<Rightarrow> if i = [] then 0 else units_paid i st t d
      | _ \<Rightarrow> 0)"

record review_line_view =
  rv_id :: ident
  rv_productId :: ident
  rv_sku :: string
  rv_productName :: string
  rv_lotId :: "ident option"
  rv_lotNumber :: "string option"
  rv_lotStatus :: "lot_status option"
  rv_unitCost :: "decimal option"
  rv_status :: line_status
  rv_expectedQuantity :: int
  rv_soldDuringCount :: int
  rv_movementDuringCount :: "int option"
  rv_expectedAtCount :: "int option"
  rv_countedQuantity :: "int option"
  rv_countedByUserId :: "ident option"
  rv_recountedQuantity :: "int option"
  rv_recountedByUserId :: "ident option"
  rv_finalCountedQuantity :: "int option"
  rv_variance :: "int option"
  rv_varianceValue :: "decimal option"
  rv_reasonCode :: "shrinkage_reason option"

record review_count_view =
  rw_id :: ident
  rw_storeId :: ident
  rw_type :: count_type
  rw_status :: count_status
  rw_startedAt :: "time option"
  rw_completedAt :: "time option"
  rw_approvedAt :: "time option"
  rw_approvedByUserId :: "ident option"
  rw_lines :: "review_line_view list"
  rw_linesWithVariance :: nat
  rw_shrinkageValue :: decimal
  rw_overageValue :: decimal
  rw_netVarianceValue :: decimal

definition or_else :: "'a option \<Rightarrow> 'a option \<Rightarrow> 'a option" where
  "or_else a b = (case a of None \<Rightarrow> b | Some x \<Rightarrow> Some x)"

definition review_line :: "db \<Rightarrow> time option \<Rightarrow> count_line \<Rightarrow> review_line_view" where
  "review_line d startedAt l =
     (let p = find_product (cl_productId l) d; k = line_lot d l in
      \<lparr>rv_id = cl_id l, rv_productId = cl_productId l, rv_sku = (case p of None \<Rightarrow> [] | Some q \<Rightarrow> p_sku q),
       rv_productName = (case p of None \<Rightarrow> [] | Some q \<Rightarrow> p_name q), rv_lotId = cl_lotId l,
       rv_lotNumber = map_option l_lotNumber k, rv_lotStatus = map_option l_status k,
       rv_unitCost = map_option (\<lambda>m. unitCostDec (l_unitCost m)) k, rv_status = cl_status l,
       rv_expectedQuantity = cl_expectedQuantity l, rv_soldDuringCount = sold_during_count d startedAt l,
       rv_movementDuringCount = cl_movementDuringCount l,
       rv_expectedAtCount = map_option (\<lambda>m. cl_expectedQuantity l - m) (cl_movementDuringCount l),
       rv_countedQuantity = cl_countedQuantity l, rv_countedByUserId = cl_countedByUserId l,
       rv_recountedQuantity = cl_recountedQuantity l, rv_recountedByUserId = cl_recountedByUserId l,
       rv_finalCountedQuantity = or_else (cl_recountedQuantity l) (cl_countedQuantity l),
       rv_variance = cl_variance l, rv_varianceValue = map_option moneyDec (cl_varianceValue l),
       rv_reasonCode = cl_reasonCode l\<rparr>)"

definition has_variance :: "count_line \<Rightarrow> bool" where
  "has_variance l \<longleftrightarrow> (case cl_variance l of None \<Rightarrow> False | Some v \<Rightarrow> v \<noteq> 0)"

definition line_value :: "count_line \<Rightarrow> decimal" where
  "line_value l = (case cl_varianceValue l of None \<Rightarrow> 0 | Some v \<Rightarrow> v)"

definition buildReview :: "stock_count \<Rightarrow> db \<Rightarrow> review_count_view" where
  "buildReview c d =
     (let ls = sort_key (line_key d) (ct_lines c);
          vs = filter has_variance ls;
          shrinkage = sum_list (map (\<lambda>l. if line_value l < 0 then \<bar>line_value l\<bar> else 0) vs);
          overage = sum_list (map (\<lambda>l. if line_value l < 0 then 0 else line_value l) vs)
      in \<lparr>rw_id = ct_id c, rw_storeId = ct_storeId c, rw_type = ct_type c, rw_status = ct_status c,
          rw_startedAt = ct_startedAt c, rw_completedAt = ct_completedAt c, rw_approvedAt = ct_approvedAt c,
          rw_approvedByUserId = ct_approvedByUserId c, rw_lines = map (review_line d (ct_startedAt c)) ls,
          rw_linesWithVariance = length vs, rw_shrinkageValue = moneyDec shrinkage, rw_overageValue = moneyDec overage,
          rw_netVarianceValue = moneyDec (overage - shrinkage)\<rparr>)"

definition getCountForReview :: "auth_user \<Rightarrow> ident \<Rightarrow> count_db \<Rightarrow> review_count_view result" where
  "getCountForReview actor countId s =
     bindE (assertStoreAdmin actor ''review stock counts'') (\<lambda>_.
     bindE (loadCount actor countId s) (\<lambda>c.
     if ct_status c \<noteq> CountCOMPLETED
     then Inl (AppError 409 ''Expected quantities are only shown once counting is complete'')
     else Inr (buildReview c (cn_core s))))"

section \<open>Approval\<close>

text \<open>The reasons per line; a code that is no shrinkage reason is \<open>None\<close>.\<close>

record approve_options =
  ap_reasons :: "(ident \<times> shrinkage_reason option) list"
  ap_overrideBlockedLots :: bool
  ap_overrideReason :: "string option"

text \<open>What the loop works on: the database, the locked products and lots as held in memory.\<close>

record approve_state =
  av_db :: count_db
  av_products :: "product list"
  av_lots :: "lot list"

definition approve_reason :: "approve_options \<Rightarrow> count_line \<Rightarrow> shrinkage_reason" where
  "approve_reason opts l =
     (case map_of (ap_reasons opts) (cl_id l) of
        Some (Some r) \<Rightarrow> r
      | _ \<Rightarrow> (case cl_reasonCode l of Some r \<Rightarrow> r | None \<Rightarrow> UNKNOWN))"

definition count_adjustment ::
  "auth_user \<Rightarrow> ident \<Rightarrow> lot \<Rightarrow> string \<Rightarrow> int \<Rightarrow> int \<Rightarrow> db \<Rightarrow> db" where
  "count_adjustment actor storeId lot reason before change d =
     d\<lparr>db_adjustments := db_adjustments d @
         [\<lparr>sa_productId = l_productId lot, sa_storeId = storeId, sa_adjustedById = au_id actor, sa_previousStock = before,
           sa_newStock = before + change, sa_delta = change, sa_reason = reason, sa_lotId = Some (l_id lot)\<rparr>]\<rparr>"

definition count_writeoff :: "ident \<Rightarrow> lot \<Rightarrow> shrinkage_reason \<Rightarrow> int \<Rightarrow> db \<Rightarrow> db" where
  "count_writeoff storeId lot code quantity d =
     d\<lparr>db_writeOffs := db_writeOffs d @
         [\<lparr>w_storeId = storeId, w_productId = l_productId lot, w_lotId = Some (l_id lot), w_saleId = None,
           w_saleItemId = None, w_saleRefundId = None, w_quantity = quantity,
           w_reason = ''STOCK_COUNT:'' @ reason_text code, w_unitCost = Some (l_unitCost lot),
           w_value = Some (moneyDec (l_unitCost lot * of_int quantity))\<rparr>]\<rparr>"

definition account_count ::
  "auth_user \<Rightarrow> ident \<Rightarrow> lot \<Rightarrow> shrinkage_reason \<Rightarrow> int \<Rightarrow> set_remaining_result \<Rightarrow> db \<Rightarrow> db" where
  "account_count actor storeId lot code previousStock r d =
     (let reason = ''STOCK_COUNT:'' @ reason_text code
            @ (if lot_blocked lot then '' ('' @ lot_status_text (l_status lot) @ '' lot, override)'' else []);
          d1 = (if sr_rollupDelta r \<noteq> 0 then count_adjustment actor storeId lot reason previousStock (sr_rollupDelta r) d
                else if sr_delta r \<noteq> 0 then count_adjustment actor storeId lot reason (sr_previousQty r) (sr_delta r) d
                else d);
          d2 = (if sr_delta r < 0 then count_writeoff storeId lot code (- sr_delta r) d1 else d1)
      in if lot_blocked lot
         then writeAuditLog (Some (au_id actor)) (Some storeId) ''STOCK_COUNT_BLOCKED_LOT_OVERRIDE'' ''Lot'' (Some (l_id lot)) d2
         else d2)"

definition approve_line ::
  "bool \<Rightarrow> auth_user \<Rightarrow> ident \<Rightarrow> ident \<Rightarrow> approve_options \<Rightarrow> count_line \<Rightarrow> approve_state \<Rightarrow> approve_state result" where
  "approve_line dev actor countId storeId opts line r =
     (case cl_lotId line of
        None \<Rightarrow> Inl (AppError 409 ''Count line has no lot'')
      | Some lotId \<Rightarrow>
          if lotId = [] then Inl (AppError 409 ''Count line has no lot'')
          else case find_row l_id lotId (av_lots r) of
            None \<Rightarrow> Inl (JsError ''Cannot read properties of undefined'')
          | Some lot \<Rightarrow>
              let code = approve_reason opts line;
                  variance = (case cl_variance line of None \<Rightarrow> 0 | Some v \<Rightarrow> v);
                  targetQty = max 0 (l_quantityRemaining lot + variance);
                  s1 = line_update countId (cl_id line) (\<lambda>l. l\<lparr>cl_reasonCode := Some code\<rparr>) (av_db r)
              in case find_row p_id (l_productId lot) (av_products r) of
                   None \<Rightarrow> Inl (AppError 500 ''Product missing at count approval'')
                 | Some product \<Rightarrow>
                     bindE (setLotRemaining dev product lot targetQty (cn_core s1)) (\<lambda>(d1, res).
                     Inr \<lparr>av_db = cn_set (account_count actor storeId lot code (p_stock product) res d1) s1,
                          av_products = upd_row p_id (p_id product)
                            (\<lambda>p. p\<lparr>p_stock := p_stock product + sr_rollupDelta res\<rparr>) (av_products r),
                          av_lots = upd_row l_id lotId
                            (\<lambda>l. l\<lparr>l_quantityRemaining := targetQty, l_status := sr_nextStatus res\<rparr>) (av_lots r)\<rparr>))"

definition approve_tx ::
  "bool \<Rightarrow> time \<Rightarrow> auth_user \<Rightarrow> ident \<Rightarrow> approve_options \<Rightarrow> count_db \<Rightarrow> count_db \<Rightarrow> (count_db \<times> review_count_view) result" where
  "approve_tx dev now actor countId opts s0 s =
     bindE (loadCount actor countId s0) (\<lambda>c.
     if ct_status c \<noteq> CountCOMPLETED then Inl (AppError 409 ''Only COMPLETED counts can be approved'')
     else if ct_approvedAt c \<noteq> None then Inl (AppError 409 ''Count has already been approved'')
     else
       bindE (count_claim countId (\<lambda>x. ct_status x = CountCOMPLETED \<and> ct_approvedAt x = None)
           (\<lambda>x. x\<lparr>ct_approvedByUserId := Some (au_id actor), ct_approvedAt := Some now\<rparr>)
           ''Count was approved by someone else'' s) (\<lambda>s1.
       let ls = (case find_count countId s1 of None \<Rightarrow> [] | Some x \<Rightarrow> ct_lines x) in
       if list_ex (\<lambda>(i, code). i \<notin> set (map cl_id ls)) (ap_reasons opts)
       then Inl (AppError 400 ''reasons reference lines not on this count'')
       else
         let varying = filter has_variance ls;
             products = lockProducts (map cl_productId varying) (cn_core s1);
             lots = lockLots (concat (map (\<lambda>l. case cl_lotId l of None \<Rightarrow> [] | Some i \<Rightarrow> [i]) varying)) (cn_core s1)
         in if list_ex (\<lambda>l. case cl_lotId l of None \<Rightarrow> False
                 | Some i \<Rightarrow> (case find_row l_id i lots of None \<Rightarrow> False | Some k \<Rightarrow> lot_blocked k)) varying
               \<and> \<not> ap_overrideBlockedLots opts
            then Inl (AppError 409 ''Count would adjust QUARANTINED or RECALLED lots; approve with an explicit override'')
            else
              bindE (forE varying (approve_line dev actor countId (ct_storeId c) opts)
                  \<lparr>av_db = s1, av_products = products, av_lots = lots\<rparr>) (\<lambda>r.
              let s2 = cn_audit (Some (au_id actor)) (Some (ct_storeId c)) ''STOCK_COUNT_APPROVE'' ''StockCount'' countId (av_db r)
              in case find_count countId s2 of
                   None \<Rightarrow> Inl RecordNotFound
                 | Some x \<Rightarrow> Inr (s2, buildReview x (cn_core s2)))))"

definition approveCount ::
  "bool \<Rightarrow> time \<Rightarrow> auth_user \<Rightarrow> ident \<Rightarrow> approve_options \<Rightarrow> count_db \<Rightarrow> count_db \<Rightarrow> (count_db \<times> review_count_view) result" where
  "approveCount dev now actor countId opts s0 s =
     bindE (assertStoreAdmin actor ''approve stock counts'') (\<lambda>_.
     if list_ex (\<lambda>(i, code). code = None) (ap_reasons opts) then Inl (AppError 400 ''Unknown shrinkage reason'')
     else if ap_overrideBlockedLots opts \<and> trimmed (ap_overrideReason opts) = None
     then Inl (AppError 400 ''overrideReason is required when overriding QUARANTINED or RECALLED lots'')
     else approve_tx dev now actor countId opts s0 s)"

section \<open>The scheduler\<close>

record schedule_result =
  sx_enabled :: bool
  sx_createdCountIds :: "ident list"
  sx_skippedStoreIds :: "ident list"

text \<open>One store of one run; an error of its transaction is caught and logged.\<close>

definition schedule_store ::
  "time \<Rightarrow> (ident \<Rightarrow> ident) \<Rightarrow> (ident \<Rightarrow> nat \<Rightarrow> ident) \<Rightarrow> ident \<Rightarrow> count_db \<times> schedule_result \<Rightarrow> count_db \<times> schedule_result" where
  "schedule_store now countIdOf lineIdOf storeId sr =
     (let (s, r) = sr; notBefore = now - cs_cycleCountFrequencyDays (cn_settings s) * day_ms;
          skip = (s, r\<lparr>sx_skippedStoreIds := sx_skippedStoreIds r @ [storeId]\<rparr>)
      in if list_ex (\<lambda>c. openCountWhere storeId c \<and> ct_type c = CountCYCLE) (cn_counts s)
            \<or> list_ex (\<lambda>c. ct_storeId c = storeId \<and> ct_type c = CountCYCLE \<and> ct_status c \<noteq> CountCANCELLED
                  \<and> ct_createdAt c > notBefore) (cn_counts s)
         then skip
         else case scheduleCycleCount now (countIdOf storeId) (lineIdOf storeId) storeId s s of
           Inl e \<Rightarrow> (s, r)
         | Inr (t, None) \<Rightarrow> skip
         | Inr (t, Some (i, sched)) \<Rightarrow> (t, r\<lparr>sx_createdCountIds := sx_createdCountIds r @ [i]\<rparr>))"

definition runScheduleCycleCountsOnce ::
  "time \<Rightarrow> (ident \<Rightarrow> ident) \<Rightarrow> (ident \<Rightarrow> nat \<Rightarrow> ident) \<Rightarrow> count_db \<Rightarrow> count_db \<times> schedule_result" where
  "runScheduleCycleCountsOnce now countIdOf lineIdOf s =
     (if \<not> cs_cycleCountEnabled (cn_settings s) then (s, \<lparr>sx_enabled = False, sx_createdCountIds = [], sx_skippedStoreIds = []\<rparr>)
      else fold (\<lambda>st. schedule_store now countIdOf lineIdOf (st_id st)) (filter st_isActive (db_stores (cn_core s)))
             (s, \<lparr>sx_enabled = True, sx_createdCountIds = [], sx_skippedStoreIds = []\<rparr>))"

end
