(* ===== verification/Count_Proofs.thy ===== *)
theory Count_Proofs
  imports Stock_Count Inventory_Proofs
begin

text \<open>
  What stock counts promise: the counting view is blind, an approval moves every lot by its variance
  and accounts for the units, keeps the invariant of the stock and happens once; a queued count
  measures what an immediate one would have, and a retry never counts twice.
\<close>

section \<open>Blind counting\<close>

text \<open>What the person counting must not learn is blanked.\<close>

definition hide_line :: "count_line \<Rightarrow> count_line" where
  "hide_line l = l\<lparr>cl_expectedQuantity := 0, cl_countedQuantity := None, cl_movementDuringCount := None,
     cl_variance := None, cl_varianceValue := None, cl_reasonCode := None, cl_recountedQuantity := None\<rparr>"

definition hide_lot :: "lot \<Rightarrow> lot" where
  "hide_lot l = l\<lparr>l_quantityReceived := 0, l_quantityRemaining := 0, l_quantityReserved := 0\<rparr>"

definition hide_product :: "product \<Rightarrow> product" where
  "hide_product p = p\<lparr>p_stock := 0, p_reserved := 0\<rparr>"

definition hide_db :: "db \<Rightarrow> db" where
  "hide_db d = d\<lparr>db_lots := map hide_lot (db_lots d), db_products := map hide_product (db_products d), db_sales := []\<rparr>"

definition hide_count :: "stock_count \<Rightarrow> stock_count" where
  "hide_count c = c\<lparr>ct_lines := map hide_line (ct_lines c)\<rparr>"

definition hide :: "count_db \<Rightarrow> count_db" where
  "hide s = cn_set (hide_db (cn_core s)) (s\<lparr>cn_counts := map hide_count (cn_counts s)\<rparr>)"

lemma find_row_map: "(\<And>x. key (f x) = key x) \<Longrightarrow> find_row key k (map f xs) = map_option f (find_row key k xs)"
  by (induction xs) auto

lemma cn_set_simps [simp]:
  "cn_core (cn_set d s) = d" "cn_counts (cn_set d s) = cn_counts s" "cn_settings (cn_set d s) = cn_settings s"
  "cn_lockedUntil (cn_set d s) = cn_lockedUntil s" "bd_barcodes (cn_shop (cn_set d s)) = bd_barcodes (cn_shop s)"
  "cn_core (s\<lparr>cn_counts := cs\<rparr>) = cn_core s" "bd_db (cn_shop (cn_set d s)) = d"
  by (simp_all add: cn_set_def cn_core_def)

lemma hidden_rows:
  "find_product i (hide_db d) = map_option hide_product (find_product i d)"
  "line_lot (hide_db d) l = map_option hide_lot (line_lot d l)"
  "line_lot d (hide_line l) = line_lot d l"
  by (auto simp: find_product_def find_lot_def line_lot_def hide_db_def find_row_map hide_product_def hide_lot_def
      hide_line_def split: option.split)

lemma hidden_line_key: "line_key (hide_db d) (hide_line l) = line_key d l"
proof -
  have "cl_productId (hide_line l) = cl_productId l" by (simp add: hide_line_def)
  then show ?thesis
    by (auto simp: line_key_def hidden_rows hide_product_def hide_lot_def split: option.split)
qed

lemma hidden_counter_line:
  assumes "bd_db b' = hide_db (bd_db b)" "bd_barcodes b' = bd_barcodes b"
  shows "counter_line actor b' (hide_line l) = counter_line actor b l"
proof -
  have "cl_productId (hide_line l) = cl_productId l" "cl_id (hide_line l) = cl_id l" "cl_lotId (hide_line l) = cl_lotId l"
    "cl_status (hide_line l) = cl_status l" "cl_countedByUserId (hide_line l) = cl_countedByUserId l"
    by (simp_all add: hide_line_def)
  then show ?thesis
    by (cases "find_product (cl_productId l) (bd_db b)"; cases "line_lot (bd_db b) l")
      (simp_all add: counter_line_def Let_def hidden_rows assms hide_product_def hide_lot_def)
qed

lemma sort_key_map: "sort_key k (map f xs) = map f (sort_key (k \<circ> f) xs)"
proof -
  have "insort_key k (f x) (map f ys) = map f (insort_key (k \<circ> f) x ys)" for x ys
    by (induction ys) auto
  then show ?thesis by (induction xs) simp_all
qed

lemma hide_simps [simp]:
  "cn_core (hide s) = hide_db (cn_core s)" "cn_counts (hide s) = map hide_count (cn_counts s)"
  "bd_barcodes (cn_shop (hide s)) = bd_barcodes (cn_shop s)" "bd_db (cn_shop (hide s)) = hide_db (cn_core s)"
  by (simp_all add: hide_def cn_set_def cn_core_def)

lemma hide_count_simps [simp]:
  "ct_id (hide_count c) = ct_id c" "ct_storeId (hide_count c) = ct_storeId c" "ct_type (hide_count c) = ct_type c"
  "ct_status (hide_count c) = ct_status c" "ct_scheduledFor (hide_count c) = ct_scheduledFor c"
  "ct_startedAt (hide_count c) = ct_startedAt c" "ct_completedAt (hide_count c) = ct_completedAt c"
  "ct_notes (hide_count c) = ct_notes c" "ct_createdAt (hide_count c) = ct_createdAt c"
  "ct_lines (hide_count c) = map hide_line (ct_lines c)" "ct_approvedAt (hide_count c) = ct_approvedAt c"
  "ct_createdByUserId (hide_count c) = ct_createdByUserId c"
  by (simp_all add: hide_count_def)

lemma loadCount_hide: "loadCount actor i (hide s) = (case loadCount actor i s of Inl e \<Rightarrow> Inl e | Inr c \<Rightarrow> Inr (hide_count c))"
  by (auto simp: loadCount_def find_count_def find_row_map bindE_def split: option.splits sum.splits)

text \<open>
  What a submission answers. The status tells whether a first count was close enough to the system's
  figure, so COUNTED and RECOUNT_REQUIRED are one answer here.
\<close>

definition answer :: "(count_db \<times> submit_result) result \<Rightarrow> (ident \<times> bool \<times> line_status) result" where
  "answer m = bindE m (\<lambda>(t, r). Inr (sm_lineId r, sm_replayed r,
     if sm_status r = LineRECOUNT_REQUIRED then LineCOUNTED else sm_status r))"

lemma hide_line_simps [simp]:
  "cl_id (hide_line l) = cl_id l" "cl_lotId (hide_line l) = cl_lotId l" "cl_status (hide_line l) = cl_status l"
  "cl_countedByUserId (hide_line l) = cl_countedByUserId l" "cl_countSubmissionKey (hide_line l) = cl_countSubmissionKey l"
  "cl_recountSubmissionKey (hide_line l) = cl_recountSubmissionKey l" "ct_countedByUserId (hide_count c) = ct_countedByUserId c"
  "has_key key (hide_line l) = has_key key l"
  by (simp_all add: hide_line_def hide_count_def has_key_def)

lemma all_lines_hide: "all_lines (hide s) = map (\<lambda>(c, l). (c, hide_line l)) (all_lines s)"
  by (simp add: all_lines_def map_concat comp_def)

lemma find_map: "List.find P (map f xs) = map_option f (List.find (P \<circ> f) xs)"
  by (induction xs) simp_all

lemma findSubmission_hide: "findSubmission k (hide s) = map_option (\<lambda>(c, l). (c, hide_line l)) (findSubmission k s)"
  by (simp add: findSubmission_def all_lines_hide find_map comp_def case_prod_beta')

lemma key_taken_hide: "key_taken key b i (hide s) = key_taken key b i s"
  by (simp add: key_taken_def all_lines_hide list_ex_iff case_prod_beta)

lemma find_line_hide: "find_row cl_id i (map hide_line ls) = map_option hide_line (find_row cl_id i ls)"
  by (rule find_row_map) simp

lemma countable_line_hide:
  "countable_line now actor (hide_count c) i (hide s) = bindE (countable_line now actor c i s) (\<lambda>(l, b). Inr (hide_line l, b))"
proof -
  have "otherCountersAvailable now st u (hide s) = otherCountersAvailable now st u s" for st u
    by (simp add: otherCountersAvailable_def hide_def hide_db_def)
  then show ?thesis by (simp add: countable_line_def find_line_hide Let_def split: option.split)
qed

lemma claim_line_hide: "claim_line i (hide_line l) f (hide s) = None \<longleftrightarrow> claim_line i l g s = None"
  by (auto simp: claim_line_def find_count_def find_row_map find_line_hide split: option.split)

lemma replayOf_hide: "replayOf (c, hide_line l) i j = replayOf (c, l) i j"
  by (simp add: replayOf_def)

lemma replay_or_hide:
  assumes "answer m = answer m'"
  shows "answer (replay_or key i j (hide s0) m t) = answer (replay_or key i j s0 m' t')"
  using assms
  by (auto simp: replay_or_def findSubmission_hide replayOf_hide answer_def bindE_def split: option.split sum.split)

lemma counted_status:
  "cl_status (counted_line dv st actor n t key e q u b l) = (if b then LineRESOLVED
     else if exceedsRecountThreshold dv st q (n - q) (moneyDec (u * of_int (n - q))) then LineRECOUNT_REQUIRED else LineCOUNTED)"
  by (simp add: counted_line_def Let_def)

text \<open>The write of a count: the status is the only part of the answer a figure enters.\<close>

definition put_count ::
  "(decimal \<Rightarrow> decimal \<Rightarrow> decimal) \<Rightarrow> time \<Rightarrow> auth_user \<Rightarrow> ident \<Rightarrow> ident \<Rightarrow> int \<Rightarrow> count_submission
    \<Rightarrow> count_db \<Rightarrow> count_db \<Rightarrow> stock_count \<Rightarrow> count_line \<Rightarrow> bool \<Rightarrow> (count_db \<times> submit_result) result" where
  "put_count dv now actor i j counted sub s0 s c l b =
     (case line_lot (cn_core s0) l of
       None \<Rightarrow> Inl RecordNotFound
     | Some k \<Rightarrow>
         let countedAt = resolveCountedAt sub (ct_startedAt c) now;
             put = counted_line dv (cn_settings s0) actor counted countedAt (submit_key sub) (cl_expectedQuantity l)
               (quantity_at_count k countedAt now (cn_core s0)) (l_unitCost k) b
         in case claim_line i l put s of
              None \<Rightarrow> replay_or (submit_key sub) i j s (Inl (AppError 409 ''This line was just counted by someone else'')) s
            | Some s1 \<Rightarrow>
                if key_taken (submit_key sub) b j s then Inl UniqueViolation
                else let s2 = (if truthy (ct_countedByUserId c) then s1
                          else s1\<lparr>cn_counts := upd_row ct_id i
                                 (\<lambda>x. x\<lparr>ct_countedByUserId := Some (au_id actor)\<rparr>) (cn_counts s1)\<rparr>)
                in Inr (cn_audit (Some (au_id actor)) (Some (ct_storeId c)) ''STOCK_COUNT_LINE_COUNT'' ''StockCountLine'' j s2,
                        \<lparr>sm_lineId = j, sm_status = cl_status (put l), sm_replayed = False\<rparr>))"

lemma put_count_hide:
  "answer (put_count dv now actor i j n sub (hide s0) (hide s) (hide_count c) (hide_line l) b)
     = answer (put_count dv now actor i j n sub s0 s c l b)"
proof (cases "line_lot (cn_core s0) l")
  case None
  then show ?thesis by (simp add: put_count_def hidden_rows)
next
  case (Some k)
  let ?at = "resolveCountedAt sub (ct_startedAt c) now"
  let ?f = "counted_line dv (cn_settings (hide s0)) actor n ?at (submit_key sub) (cl_expectedQuantity (hide_line l))
      (quantity_at_count (hide_lot k) ?at now (hide_db (cn_core s0))) (l_unitCost (hide_lot k)) b"
  let ?g = "counted_line dv (cn_settings s0) actor n ?at (submit_key sub) (cl_expectedQuantity l)
      (quantity_at_count k ?at now (cn_core s0)) (l_unitCost k) b"
  have lost: "answer (replay_or (submit_key sub) i j (hide s) (Inl (AppError 409 ''This line was just counted by someone else'')) (hide s))
      = answer (replay_or (submit_key sub) i j s (Inl (AppError 409 ''This line was just counted by someone else'')) s)"
    by (rule replay_or_hide) simp
  show ?thesis
  proof (cases "claim_line i l ?g s")
    case None
    then have "claim_line i (hide_line l) ?f (hide s) = None" using claim_line_hide by blast
    then show ?thesis using Some None lost by (simp add: put_count_def hidden_rows Let_def)
  next
    case w: (Some s1)
    then obtain s1' where "claim_line i (hide_line l) ?f (hide s) = Some s1'" using claim_line_hide [of i l ?f s ?g] by auto
    then show ?thesis
      using Some w by (simp add: put_count_def hidden_rows Let_def key_taken_hide answer_def counted_status)
  qed
qed

lemma submitCountLine_stages:
  "submitCountLine dv now actor i j q sub s0 s =
     (case js_int q of
        None \<Rightarrow> Inl (AppError 400 ''countedQuantity must be a non-negative whole number'')
      | Some counted \<Rightarrow>
          if counted < 0 then Inl (AppError 400 ''countedQuantity must be a non-negative whole number'')
          else bindE (loadCount actor i s0) (\<lambda>c.
            replay_or (submit_key sub) i j s0
              (bindE (countable_line now actor c j s0) (\<lambda>(l, b). put_count dv now actor i j counted sub s0 s c l b)) s))"
  unfolding submitCountLine_def put_count_def Let_def ..

lemma submission_blind:
  "answer (submitCountLine dv now actor i j q sub (hide s0) (hide s)) = answer (submitCountLine dv now actor i j q sub s0 s)"
proof (cases "js_int q")
  case None
  then show ?thesis by (simp add: submitCountLine_stages)
next
  case (Some n)
  show ?thesis
  proof (cases "n < 0 \<or> isl (loadCount actor i s0)")
    case True
    then show ?thesis using Some by (auto simp: submitCountLine_stages loadCount_hide isl_def)
  next
    case False
    then obtain c where c: "loadCount actor i s0 = Inr c" "\<not> n < 0" by (cases "loadCount actor i s0") auto
    have "answer (bindE (countable_line now actor (hide_count c) j (hide s0))
          (\<lambda>(l, b). put_count dv now actor i j n sub (hide s0) (hide s) (hide_count c) l b))
        = answer (bindE (countable_line now actor c j s0) (\<lambda>(l, b). put_count dv now actor i j n sub s0 s c l b))"
      by (cases "countable_line now actor c j s0") (auto simp: countable_line_hide put_count_hide)
    from replay_or_hide [OF this] show ?thesis using Some c by (simp add: submitCountLine_stages loadCount_hide)
  qed
qed

text \<open>
  C9: counting is blind up to one bit. The view of the person counting and the list of counts do not
  depend, given the status of each line, on any expected quantity, variance, movement, reason or
  counted figure of the lines, nor on a quantity of a lot or product or on a sale: with all of them
  blanked they are the same. The answer to a submission, errors included, is the same too, except
  that a first count learns whether it must be counted again (COUNTED or RECOUNT_REQUIRED, which does depend
  on the variance and then stands as the status of the line). The review, which shows the figures, is
  given exactly to an admin with access to the store, and only once counting is complete. Other
  requests of the same person are not part of this: the product list shows the stock on hand.
\<close>

theorem counting_is_blind:
  "getCountForCounter actor i (hide s) = getCountForCounter actor i s
   \<and> listCounts actor storeId status (hide s) = listCounts actor storeId status s
   \<and> answer (submitCountLine dv now actor i j q sub (hide s0) (hide s)) = answer (submitCountLine dv now actor i j q sub s0 s)
   \<and> (\<not> isl (getCountForReview actor i s)) = (isStoreAdmin actor
        \<and> (case find_count i s of None \<Rightarrow> False
           | Some c \<Rightarrow> ct_status c = CountCOMPLETED \<and> assertStoreAccess actor (ct_storeId c) = Inr ()))"
proof (intro conjI)
  have summary: "count_summary_of (hide_count c) = count_summary_of c" for c by (simp add: count_summary_of_def)
  have "sort_key (line_key (hide_db d)) (map hide_line ls) = map hide_line (sort_key (line_key d) ls)" for d ls
    by (simp add: sort_key_map comp_def hidden_line_key)
  moreover have "counter_line actor (cn_shop (hide s)) (hide_line l) = counter_line actor (cn_shop s) l" for l
    by (rule hidden_counter_line) (simp_all add: cn_core_def)
  ultimately show "getCountForCounter actor i (hide s) = getCountForCounter actor i s"
    by (auto simp: getCountForCounter_def loadCount_hide bindE_def comp_def split: sum.split)
  show "listCounts actor storeId status (hide s) = listCounts actor storeId status s"
    by (cases status) (simp_all add: listCounts_def filter_map sort_key_map comp_def take_map summary)
  show "answer (submitCountLine dv now actor i j q sub (hide s0) (hide s)) = answer (submitCountLine dv now actor i j q sub s0 s)"
    by (rule submission_blind)
  show "(\<not> isl (getCountForReview actor i s)) = (isStoreAdmin actor
        \<and> (case find_count i s of None \<Rightarrow> False
           | Some c \<Rightarrow> ct_status c = CountCOMPLETED \<and> assertStoreAccess actor (ct_storeId c) = Inr ()))"
    by (auto simp: getCountForReview_def assertStoreAdmin_def loadCount_def bindE_def split: option.splits sum.splits)
qed

section \<open>One line of an approval\<close>

definition counted_to :: "lot \<Rightarrow> count_line \<Rightarrow> int" where
  "counted_to l line = max 0 (l_quantityRemaining l + (case cl_variance line of None \<Rightarrow> 0 | Some v \<Rightarrow> v))"

definition recounted :: "count_line \<Rightarrow> lot \<Rightarrow> lot" where
  "recounted line l = l\<lparr>l_quantityRemaining := counted_to l line, l_status := set_status l (counted_to l line)\<rparr>"

text \<open>The rows in memory are rows of the database.\<close>

definition mem_ok :: "approve_state \<Rightarrow> bool" where
  "mem_ok r \<longleftrightarrow> set (av_products r) \<subseteq> set (db_products (cn_core (av_db r)))
     \<and> set (av_lots r) \<subseteq> set (db_lots (cn_core (av_db r)))"

lemma account_count_tables [simp]:
  "db_products (account_count a st l code n res d) = db_products d"
  "db_lots (account_count a st l code n res d) = db_lots d"
  "db_sales (account_count a st l code n res d) = db_sales d"
  by (simp_all add: account_count_def count_adjustment_def count_writeoff_def Let_def writeAuditLog_def)

lemma line_update_simps [simp]: "cn_core (line_update c i f s) = cn_core s" "cn_settings (line_update c i f s) = cn_settings s"
  by (simp_all add: line_update_def cn_core_def)

definition units_written :: "ident \<Rightarrow> write_off list \<Rightarrow> int" where
  "units_written i ws = sum_rows (\<lambda>w. if w_lotId w = Some i then w_quantity w else 0) ws"

lemma units_written_simps [simp]: "units_written i [] = 0" "units_written i (xs @ ys) = units_written i xs + units_written i ys"
  by (simp_all add: units_written_def)

lemma account_count_writeOffs:
  "\<exists>ws. db_writeOffs (account_count a st l code n res d) = db_writeOffs d @ ws
     \<and> units_written i ws = (if i = l_id l then max 0 (- sr_delta res) else 0)"
  by (auto simp: account_count_def count_adjustment_def count_writeoff_def Let_def writeAuditLog_def units_written_def)

lemma writeOffs_moved [simp]: "db_writeOffs (moved l f p d s) = db_writeOffs s"
  by (simp add: moved_def)

lemma recounted_rows:
  assumes "distinct (map l_id ls)" "l \<in> set ls"
  shows "upd_row l_id (l_id l) (recounted line) ls = upd_row l_id (l_id l)
        (\<lambda>x. x\<lparr>l_quantityRemaining := counted_to l line, l_status := set_status l (counted_to l line)\<rparr>) ls"
  unfolding upd_row_def
proof (rule map_cong [OF refl])
  fix x assume "x \<in> set ls"
  then have "x = l" if "l_id x = l_id l" using that assms by (auto simp: distinct_map dest: inj_onD)
  then show "(if l_id x = l_id l then recounted line x else x)
      = (if l_id x = l_id l then x\<lparr>l_quantityRemaining := counted_to l line, l_status := set_status l (counted_to l line)\<rparr> else x)"
    by (cases "l_id x = l_id l") (simp_all add: recounted_def)
qed

lemma approve_line_InrE:
  assumes run: "approve_line dev actor cid storeId opts line r = Inr r'"
    and s: "sys_inv (cn_core (av_db r))" and m: "mem_ok r"
  obtains p l where "lot_of p l (cn_core (av_db r))" "cl_lotId line = Some (l_id l)" "l \<in> set (av_lots r)"
    "l_status l = LotACTIVE \<Longrightarrow> l_quantityReserved l \<le> counted_to l line"
    "r' = \<lparr>av_db = cn_set (account_count actor storeId l (approve_reason opts line) (p_stock p)
              \<lparr>sr_previousQty = l_quantityRemaining l, sr_delta = counted_to l line - l_quantityRemaining l,
               sr_rollupDelta = set_delta l (counted_to l line), sr_nextStatus = set_status l (counted_to l line)\<rparr>
              (moved l (recounted line) p (set_delta l (counted_to l line)) (cn_core (av_db r))))
            (line_update cid (cl_id line) (\<lambda>x. x\<lparr>cl_reasonCode := Some (approve_reason opts line)\<rparr>) (av_db r)),
          av_products = upd_row p_id (p_id p) (\<lambda>x. x\<lparr>p_stock := p_stock p + set_delta l (counted_to l line)\<rparr>) (av_products r),
          av_lots = upd_row l_id (l_id l) (\<lambda>x. x\<lparr>l_quantityRemaining := counted_to l line,
             l_status := set_status l (counted_to l line)\<rparr>) (av_lots r)\<rparr>"
proof -
  obtain i l p where l: "cl_lotId line = Some i" "find_row l_id i (av_lots r) = Some l"
    and p: "find_row p_id (l_productId l) (av_products r) = Some p"
    using run by (auto simp: approve_line_def Let_def split: option.splits if_splits)
  have l': "l \<in> set (av_lots r)" "l_id l = i" using find_row_SomeD [OF l(2)] by auto
  have rows: "lot_of p l (cn_core (av_db r))"
    using l' find_row_SomeD [OF p] m by (auto simp: lot_of_def mem_ok_def)
  note res = setLotRemaining_result [OF sys_invD(1) [OF s] rows, of dev "counted_to l line"]
  have ne: "i \<noteq> []" using l' m sys_invD(6) [OF s] by (auto simp: mem_ok_def)
  have g: "\<not> (l_status l = LotACTIVE \<and> counted_to l line < l_quantityReserved l)"
    using run l p ne res by (auto simp: approve_line_def Let_def counted_to_def [symmetric] bindE_Inr_iff split: if_splits)
  have pos: "\<not> counted_to l line < 0" by (simp add: counted_to_def)
  have same: "moved l (recounted line) p d s = moved l (\<lambda>x. x\<lparr>l_quantityRemaining := counted_to l line,
      l_status := set_status l (counted_to l line)\<rparr>) p d s" if "distinct (map l_id (db_lots s))" "l \<in> set (db_lots s)" for d s
  proof -
    note recounted_rows [OF that, of line]
    then show ?thesis by (simp add: moved_def)
  qed
  have dl: "distinct (map l_id (db_lots (cn_core (av_db r))))" "l \<in> set (db_lots (cn_core (av_db r)))"
    using sys_invD(7) [OF s] rows by (simp_all add: lot_of_def)
  show thesis
    by (rule that [OF rows _ l'(1)])
      (use run l p ne l' g pos in \<open>simp_all add: approve_line_def Let_def counted_to_def [symmetric] res [unfolded if_not_P [OF pos] if_not_P [OF g]] same [OF dl]\<close>)
qed

lemma recounted_key: "lot_key (recounted line l) = lot_key l" "l_id (recounted line l) = l_id l"
  by (simp_all add: recounted_def lot_key_def)

lemma approve_line_step:
  assumes run: "approve_line dev actor cid storeId opts line r = Inr r'"
    and s: "sys_inv (cn_core (av_db r))" and m: "mem_ok r"
  shows "\<exists>i. cl_lotId line = Some i \<and> sys_inv (cn_core (av_db r')) \<and> mem_ok r'
    \<and> (\<forall>j. find_lot j (cn_core (av_db r')) = (if j = i then map_option (recounted line) (find_lot j (cn_core (av_db r)))
                                             else find_lot j (cn_core (av_db r))))
    \<and> find_lot i (cn_core (av_db r)) \<noteq> None
    \<and> cn_counts (av_db r') = cn_counts (line_update cid (cl_id line) (\<lambda>x. x\<lparr>cl_reasonCode := Some (approve_reason opts line)\<rparr>) (av_db r))
    \<and> (\<forall>j. \<exists>ws. db_writeOffs (cn_core (av_db r')) = db_writeOffs (cn_core (av_db r)) @ ws
         \<and> units_written j ws = (case find_lot j (cn_core (av_db r)) of None \<Rightarrow> 0
             | Some l \<Rightarrow> if j = i then max 0 (l_quantityRemaining l - counted_to l line) else 0))"
proof -
  obtain p l where rows: "lot_of p l (cn_core (av_db r))" and i: "cl_lotId line = Some (l_id l)" and mem: "l \<in> set (av_lots r)"
    and g: "l_status l = LotACTIVE \<Longrightarrow> l_quantityReserved l \<le> counted_to l line"
    and r': "r' = \<lparr>av_db = cn_set (account_count actor storeId l (approve_reason opts line) (p_stock p)
              \<lparr>sr_previousQty = l_quantityRemaining l, sr_delta = counted_to l line - l_quantityRemaining l,
               sr_rollupDelta = set_delta l (counted_to l line), sr_nextStatus = set_status l (counted_to l line)\<rparr>
              (moved l (recounted line) p (set_delta l (counted_to l line)) (cn_core (av_db r))))
            (line_update cid (cl_id line) (\<lambda>x. x\<lparr>cl_reasonCode := Some (approve_reason opts line)\<rparr>) (av_db r)),
          av_products = upd_row p_id (p_id p) (\<lambda>x. x\<lparr>p_stock := p_stock p + set_delta l (counted_to l line)\<rparr>) (av_products r),
          av_lots = upd_row l_id (l_id l) (\<lambda>x. x\<lparr>l_quantityRemaining := counted_to l line,
             l_status := set_status l (counted_to l line)\<rparr>) (av_lots r)\<rparr>"
    by (rule approve_line_InrE [OF run s m]) (rule that)
  let ?d = "cn_core (av_db r)" and ?t = "counted_to l line"
  let ?m = "moved l (recounted line) p (set_delta l ?t) ?d"
  have dl: "distinct (map l_id (db_lots ?d))" "distinct (map p_id (db_products ?d))"
    using sys_invD(7,8) [OF s] by simp_all
  have l: "l \<in> set (db_lots ?d)" "p \<in> set (db_products ?d)" using rows by (simp_all add: lot_of_def)
  have one: "x = l" if "x \<in> set (db_lots ?d)" "l_id x = l_id l" for x
    using that l dl by (auto simp: distinct_map dest: inj_onD)
  have one_p: "x = p" if "x \<in> set (db_products ?d)" "p_id x = p_id p" for x
    using that l dl by (auto simp: distinct_map dest: inj_onD)
  note recounted_rows [OF dl(1) l(1), of line]
  then have m_eq: "?m = moved l (\<lambda>x. x\<lparr>l_quantityRemaining := ?t, l_status := set_status l ?t\<rparr>) p (set_delta l ?t) ?d"
    by (simp add: moved_def)
  have "stock_inv (held ?d) ?m" unfolding m_eq
    using setLotRemaining_ok [OF sys_invD(1) [OF s] rows, of ?t] g by (simp add: counted_to_def)
  then have "sys_inv ?m" by (intro moved_sys_inv [OF s rows]) (simp_all add: recounted_key)
  then have inv: "sys_inv (cn_core (av_db r'))" by (rule sys_inv_cong) (simp_all add: r')
  have find: "find_lot j (cn_core (av_db r')) = (if j = l_id l then map_option (recounted line) (find_lot j ?d) else find_lot j ?d)" for j
    by (simp add: r' find_lot_def moved_def find_row_upd_row recounted_key)
  have l0: "find_lot (l_id l) ?d = Some l" using dl l by (simp add: find_lot_def find_row_eq_Some_iff)
  have "set (av_products r') \<subseteq> set (db_products (cn_core (av_db r')))"
    using m one_p by (fastforce simp: mem_ok_def r' moved_def upd_row_def)
  moreover have "set (av_lots r') \<subseteq> set (db_lots (cn_core (av_db r')))"
    using m one by (fastforce simp: mem_ok_def r' moved_def upd_row_def recounted_def)
  ultimately have mem': "mem_ok r'" by (simp add: mem_ok_def)
  have ws: "\<exists>ws. db_writeOffs (cn_core (av_db r')) = db_writeOffs ?d @ ws
         \<and> units_written j ws = (case find_lot j ?d of None \<Rightarrow> 0
             | Some k \<Rightarrow> if j = l_id l then max 0 (l_quantityRemaining k - counted_to k line) else 0)" for j
  proof -
    obtain ws where "db_writeOffs (cn_core (av_db r')) = db_writeOffs ?d @ ws"
        "units_written j ws = (if j = l_id l then max 0 (l_quantityRemaining l - ?t) else 0)"
      using account_count_writeOffs [of actor storeId l "approve_reason opts line" "p_stock p"
          "\<lparr>sr_previousQty = l_quantityRemaining l, sr_delta = ?t - l_quantityRemaining l,
            sr_rollupDelta = set_delta l ?t, sr_nextStatus = set_status l ?t\<rparr>" ?m j]
      by (auto simp: r')
    then show ?thesis using l0 by (cases "find_lot j ?d") auto
  qed
  show ?thesis
    by (intro exI [of _ "l_id l"] conjI allI i inv mem' find ws) (simp_all add: l0, simp add: r')
qed

lemma approve_loop:
  assumes "forE ls (approve_line dev actor cid storeId opts) r = Inr r'" "sys_inv (cn_core (av_db r))" "mem_ok r"
    "distinct (map cl_lotId ls)"
  shows "sys_inv (cn_core (av_db r'))
    \<and> (\<forall>j. find_lot j (cn_core (av_db r')) = (case find_row cl_lotId (Some j) ls of None \<Rightarrow> find_lot j (cn_core (av_db r))
             | Some line \<Rightarrow> map_option (recounted line) (find_lot j (cn_core (av_db r)))))
    \<and> (\<forall>line \<in> set ls. \<exists>j l. cl_lotId line = Some j \<and> find_lot j (cn_core (av_db r)) = Some l)
    \<and> (\<forall>j. \<exists>ws. db_writeOffs (cn_core (av_db r')) = db_writeOffs (cn_core (av_db r)) @ ws
         \<and> units_written j ws = (case (find_lot j (cn_core (av_db r)), find_row cl_lotId (Some j) ls) of
             (Some l, Some line) \<Rightarrow> max 0 (l_quantityRemaining l - counted_to l line) | _ \<Rightarrow> 0))"
  using assms
proof (induction ls arbitrary: r)
  case Nil
  then show ?case by (auto split: option.split)
next
  case (Cons line ls)
  obtain t where t: "approve_line dev actor cid storeId opts line r = Inr t"
      "forE ls (approve_line dev actor cid storeId opts) t = Inr r'"
    using Cons.prems(1) by (auto simp: bindE_Inr_iff)
  obtain i where i: "cl_lotId line = Some i" and st: "sys_inv (cn_core (av_db t))" "mem_ok t"
    and find: "\<And>j. find_lot j (cn_core (av_db t)) = (if j = i then map_option (recounted line) (find_lot j (cn_core (av_db r)))
                                             else find_lot j (cn_core (av_db r)))"
    and some: "find_lot i (cn_core (av_db r)) \<noteq> None"
    and ws: "\<And>j. \<exists>ws. db_writeOffs (cn_core (av_db t)) = db_writeOffs (cn_core (av_db r)) @ ws
         \<and> units_written j ws = (case find_lot j (cn_core (av_db r)) of None \<Rightarrow> 0
             | Some l \<Rightarrow> if j = i then max 0 (l_quantityRemaining l - counted_to l line) else 0)"
    using approve_line_step [OF t(1) Cons.prems(2,3)] by blast
  have fresh: "find_row cl_lotId (Some i) ls = None"
    using Cons.prems(4) i by (auto simp: find_row_None_iff has_row_def image_iff)
  have dist: "distinct (map cl_lotId ls)" using Cons.prems(4) by simp
  note ih = Cons.IH [OF t(2) st dist]
  have a: "sys_inv (cn_core (av_db r'))" using ih by simp
  have b: "find_lot j (cn_core (av_db r')) = (case find_row cl_lotId (Some j) (line # ls) of None \<Rightarrow> find_lot j (cn_core (av_db r))
             | Some line \<Rightarrow> map_option (recounted line) (find_lot j (cn_core (av_db r))))" for j
    using ih find [of j] fresh i by (cases "j = i") (auto split: option.split)
  have c: "\<exists>j l. cl_lotId k = Some j \<and> find_lot j (cn_core (av_db r)) = Some l" if "k \<in> set (line # ls)" for k
  proof (cases "k = line")
    case True
    then show ?thesis using i some by auto
  next
    case False
    then have "\<exists>j l. cl_lotId k = Some j \<and> find_lot j (cn_core (av_db t)) = Some l" using ih that by auto
    then obtain j l where j: "cl_lotId k = Some j" "find_lot j (cn_core (av_db t)) = Some l" by blast
    then show ?thesis using find [of j] by (auto split: if_splits)
  qed
  have d: "\<exists>ws. db_writeOffs (cn_core (av_db r')) = db_writeOffs (cn_core (av_db r)) @ ws
         \<and> units_written j ws = (case (find_lot j (cn_core (av_db r)), find_row cl_lotId (Some j) (line # ls)) of
             (Some l, Some line) \<Rightarrow> max 0 (l_quantityRemaining l - counted_to l line) | _ \<Rightarrow> 0)" for j
  proof -
    obtain ws1 where 1: "db_writeOffs (cn_core (av_db t)) = db_writeOffs (cn_core (av_db r)) @ ws1"
        "units_written j ws1 = (case find_lot j (cn_core (av_db r)) of None \<Rightarrow> 0
             | Some l \<Rightarrow> if j = i then max 0 (l_quantityRemaining l - counted_to l line) else 0)"
      using ws by blast
    obtain ws2 where 2: "db_writeOffs (cn_core (av_db r')) = db_writeOffs (cn_core (av_db t)) @ ws2"
        "units_written j ws2 = (case (find_lot j (cn_core (av_db t)), find_row cl_lotId (Some j) ls) of
             (Some l, Some line) \<Rightarrow> max 0 (l_quantityRemaining l - counted_to l line) | _ \<Rightarrow> 0)"
      using ih by blast
    have "units_written j (ws1 @ ws2) = (case (find_lot j (cn_core (av_db r)), find_row cl_lotId (Some j) (line # ls)) of
             (Some l, Some line) \<Rightarrow> max 0 (l_quantityRemaining l - counted_to l line) | _ \<Rightarrow> 0)"
      using 1(2) 2(2) find [of j] fresh i by (cases "j = i") (auto split: option.splits)
    then show ?thesis using 1(1) 2(1) by (intro exI [of _ "ws1 @ ws2"]) simp
  qed
  show ?case using a b c d by blast
qed

section \<open>The approval\<close>

lemma count_claim_Inr:
  assumes "count_claim i P f msg s = Inr t"
  shows "cn_core t = cn_core s" "cn_settings t = cn_settings s" "cn_shop t = cn_shop s" "cn_lockedUntil t = cn_lockedUntil s"
    "cn_counts t = map (\<lambda>c. if ct_id c = i \<and> P c then f c else c) (cn_counts s)"
    "\<exists>c \<in> set (cn_counts s). ct_id c = i \<and> P c"
proof -
  have n: "length (filter (\<lambda>c. ct_id c = i \<and> P c) (cn_counts s)) = 1"
    using assms by (auto simp: count_claim_def updateMany_rows_def split: if_splits)
  then have "filter (\<lambda>c. ct_id c = i \<and> P c) (cn_counts s) \<noteq> []" by auto
  then show "\<exists>c \<in> set (cn_counts s). ct_id c = i \<and> P c" by (auto simp: filter_empty_conv)
  show "cn_core t = cn_core s" "cn_settings t = cn_settings s" "cn_shop t = cn_shop s" "cn_lockedUntil t = cn_lockedUntil s"
    "cn_counts t = map (\<lambda>c. if ct_id c = i \<and> P c then f c else c) (cn_counts s)"
    using assms by (auto simp: count_claim_def updateMany_rows_def cn_core_def split: if_splits)
qed

lemma cn_audit_simps [simp]:
  "cn_counts (cn_audit u st a e i s) = cn_counts s" "cn_settings (cn_audit u st a e i s) = cn_settings s"
  "cn_core (cn_audit u st a e i s) = writeAuditLog u st a e (Some i) (cn_core s)"
  by (simp_all add: cn_audit_def)

lemma find_lot_audit [simp]: "find_lot j (writeAuditLog u st a e i d) = find_lot j d"
  by (simp add: find_lot_def)

lemma writeOffs_audit [simp]: "db_writeOffs (writeAuditLog u st a e i d) = db_writeOffs d"
  by (simp add: writeAuditLog_def)

text \<open>The stages of an approval.\<close>

lemma approveCount_InrE:
  assumes run: "approveCount dev now actor cid opts s0 s = Inr (t, v)"
  obtains c s1 r r' where "loadCount actor cid s0 = Inr c"
    "count_claim cid (\<lambda>x. ct_status x = CountCOMPLETED \<and> ct_approvedAt x = None)
       (\<lambda>x. x\<lparr>ct_approvedByUserId := Some (au_id actor), ct_approvedAt := Some now\<rparr>) ''Count was approved by someone else'' s = Inr s1"
    "mem_ok r" "av_db r = s1" "isStoreAdmin actor"
    "forE (filter has_variance (case find_count cid s1 of None \<Rightarrow> [] | Some x \<Rightarrow> ct_lines x))
       (approve_line dev actor cid (ct_storeId c) opts) r = Inr r'"
    "t = cn_audit (Some (au_id actor)) (Some (ct_storeId c)) ''STOCK_COUNT_APPROVE'' ''StockCount'' cid (av_db r')"
    "\<exists>x. find_count cid t = Some x \<and> v = buildReview x (cn_core t)"
proof -
  have tx: "approve_tx dev now actor cid opts s0 s = Inr (t, v)" and adm: "isStoreAdmin actor"
    using run by (auto simp: approveCount_def assertStoreAdmin_def split: if_splits)
  obtain c where c: "loadCount actor cid s0 = Inr c" using tx unfolding approve_tx_def by (rule bindE_InrE)
  have g: "\<not> ct_status c \<noteq> CountCOMPLETED" "\<not> ct_approvedAt c \<noteq> None"
    using tx by (auto simp: approve_tx_def c split: if_splits)
  note tx1 = tx [unfolded approve_tx_def c bindE_simps if_not_P [OF g(1)] if_not_P [OF g(2)]]
  obtain s1 where s1: "count_claim cid (\<lambda>x. ct_status x = CountCOMPLETED \<and> ct_approvedAt x = None)
       (\<lambda>x. x\<lparr>ct_approvedByUserId := Some (au_id actor), ct_approvedAt := Some now\<rparr>) ''Count was approved by someone else'' s = Inr s1"
    by (rule bindE_InrE [OF tx1])
  note tx2 = tx1 [unfolded s1 bindE_simps Let_def]
  let ?ls = "case find_count cid s1 of None \<Rightarrow> [] | Some x \<Rightarrow> ct_lines x"
  let ?products = "lockProducts (map cl_productId (filter has_variance ?ls)) (cn_core s1)"
  let ?lots = "lockLots (concat (map (\<lambda>l. case cl_lotId l of None \<Rightarrow> [] | Some i \<Rightarrow> [i]) (filter has_variance ?ls))) (cn_core s1)"
  let ?r = "\<lparr>av_db = s1, av_products = ?products, av_lots = ?lots\<rparr>"
  have "\<exists>r'. forE (filter has_variance ?ls) (approve_line dev actor cid (ct_storeId c) opts) ?r = Inr r'
      \<and> (case find_count cid (cn_audit (Some (au_id actor)) (Some (ct_storeId c)) ''STOCK_COUNT_APPROVE'' ''StockCount'' cid (av_db r')) of
           None \<Rightarrow> Inl RecordNotFound
         | Some x \<Rightarrow> Inr (cn_audit (Some (au_id actor)) (Some (ct_storeId c)) ''STOCK_COUNT_APPROVE'' ''StockCount'' cid (av_db r'),
              buildReview x (cn_core (cn_audit (Some (au_id actor)) (Some (ct_storeId c)) ''STOCK_COUNT_APPROVE'' ''StockCount'' cid (av_db r'))))) = Inr (t, v)"
    using tx2 by (simp only: bindE_Inr_iff sum.distinct split: if_split_asm)
  then obtain r' where loop: "forE (filter has_variance ?ls) (approve_line dev actor cid (ct_storeId c) opts) ?r = Inr r'"
    and fin: "t = cn_audit (Some (au_id actor)) (Some (ct_storeId c)) ''STOCK_COUNT_APPROVE'' ''StockCount'' cid (av_db r')"
      "\<exists>x. find_count cid t = Some x \<and> v = buildReview x (cn_core t)"
    by (auto split: option.splits)
  have "mem_ok ?r" by (auto simp: mem_ok_def set_lockProducts set_lockLots)
  then show thesis using that [OF c s1 _ _ adm loop fin] by simp
qed

lemma distinct_map_filter: "distinct (map f xs) \<Longrightarrow> distinct (map f (filter P xs))"
  by (induction xs) auto

lemma claimed_lines:
  assumes "count_claim i P f msg s = Inr t" "\<forall>c \<in> set (cn_counts s). ct_id c = i \<longrightarrow> distinct (map cl_lotId (ct_lines c))"
    "\<And>x. ct_lines (f x) = ct_lines x" "\<And>x. ct_id (f x) = ct_id x"
  shows "distinct (map cl_lotId (filter Q (case find_count i t of None \<Rightarrow> [] | Some x \<Rightarrow> ct_lines x)))"
proof -
  note c = count_claim_Inr [OF assms(1)]
  have "find_count i t = map_option (\<lambda>c. if ct_id c = i \<and> P c then f c else c) (find_count i s)"
    unfolding find_count_def c(5) by (rule find_row_map) (simp add: assms(4))
  then show ?thesis
    using assms(2,3) find_row_SomeD [of ct_id i "cn_counts s"]
    by (auto simp: find_count_def intro!: distinct_map_filter split: option.split)
qed

text \<open>The loop changes nothing of the counts but reasons.\<close>

lemma approve_line_counts:
  assumes "approve_line dev actor cid storeId opts line r = Inr r'"
  shows "cn_counts (av_db r') = cn_counts (line_update cid (cl_id line) (\<lambda>x. x\<lparr>cl_reasonCode := Some (approve_reason opts line)\<rparr>) (av_db r))"
  using assms by (auto simp: approve_line_def Let_def bindE_Inr_iff split: option.splits if_splits)

definition bare :: "stock_count \<Rightarrow> stock_count" where
  "bare c = c\<lparr>ct_lines := map (\<lambda>l. l\<lparr>cl_reasonCode := None\<rparr>) (ct_lines c)\<rparr>"

lemma approve_loop_bare:
  "forE ls (approve_line dev actor cid storeId opts) r = Inr r' \<Longrightarrow> map bare (cn_counts (av_db r')) = map bare (cn_counts (av_db r))"
proof (induction ls arbitrary: r)
  case (Cons line ls)
  obtain t where t: "approve_line dev actor cid storeId opts line r = Inr t"
      "forE ls (approve_line dev actor cid storeId opts) t = Inr r'"
    using Cons.prems by (auto simp: bindE_Inr_iff)
  have "bare (c\<lparr>ct_lines := upd_row cl_id i (\<lambda>x. x\<lparr>cl_reasonCode := k\<rparr>) (ct_lines c)\<rparr>) = bare c" for c i k
    by (simp add: bare_def upd_row_def comp_def if_distrib cong: if_cong)
  then have "map bare (cn_counts (av_db t)) = map bare (cn_counts (av_db r))"
    by (simp add: approve_line_counts [OF t(1)] line_update_def upd_row_def)
  then show ?case using Cons.IH [OF t(2)] by simp
qed simp

lemma approve_loop_counts:
  assumes "forE ls (approve_line dev actor cid storeId opts) r = Inr r'" "x \<in> set (cn_counts (av_db r'))"
  shows "\<exists>y \<in> set (cn_counts (av_db r)). bare y = bare x"
proof -
  have "bare x \<in> bare ` set (cn_counts (av_db r))"
    using arg_cong [OF approve_loop_bare [OF assms(1)], of set] assms(2) by auto
  then show ?thesis by auto
qed

lemma bareD:
  assumes "bare y = bare x"
  shows "ct_id y = ct_id x" "ct_status y = ct_status x" "ct_approvedAt y = ct_approvedAt x" "ct_storeId y = ct_storeId x"
    "map cl_productId (ct_lines y) = map cl_productId (ct_lines x)" "map cl_status (ct_lines y) = map cl_status (ct_lines x)"
    "map cl_variance (ct_lines y) = map cl_variance (ct_lines x)" "map cl_id (ct_lines y) = map cl_id (ct_lines x)"
    "map cl_lotId (ct_lines y) = map cl_lotId (ct_lines x)"
proof -
  show "ct_id y = ct_id x" "ct_status y = ct_status x" "ct_approvedAt y = ct_approvedAt x" "ct_storeId y = ct_storeId x"
    using arg_cong [OF assms, of ct_id] arg_cong [OF assms, of ct_status] arg_cong [OF assms, of ct_approvedAt]
      arg_cong [OF assms, of ct_storeId] by (simp_all add: bare_def)
  have l: "map (\<lambda>l. l\<lparr>cl_reasonCode := None\<rparr>) (ct_lines y) = map (\<lambda>l. l\<lparr>cl_reasonCode := None\<rparr>) (ct_lines x)"
    using arg_cong [OF assms, of ct_lines] by (simp add: bare_def)
  show "map cl_productId (ct_lines y) = map cl_productId (ct_lines x)" "map cl_status (ct_lines y) = map cl_status (ct_lines x)"
    "map cl_variance (ct_lines y) = map cl_variance (ct_lines x)" "map cl_id (ct_lines y) = map cl_id (ct_lines x)"
    "map cl_lotId (ct_lines y) = map cl_lotId (ct_lines x)"
    using arg_cong [OF l, of "map cl_productId"] arg_cong [OF l, of "map cl_status"] arg_cong [OF l, of "map cl_variance"]
      arg_cong [OF l, of "map cl_id"] arg_cong [OF l, of "map cl_lotId"] by (simp_all add: comp_def)
qed

text \<open>
  C12: approving a count keeps the invariant of the stock, and the view returned is the review of the
  approved count.
\<close>

theorem approval_keeps_invariant:
  assumes "sys_inv (cn_core s)" "approveCount dev now actor cid opts s0 s = Inr (t, v)"
    "\<forall>c \<in> set (cn_counts s). ct_id c = cid \<longrightarrow> distinct (map cl_lotId (ct_lines c))"
  shows "sys_inv (cn_core t) \<and> (\<exists>x. find_count cid t = Some x \<and> v = buildReview x (cn_core t))"
proof -
  obtain c :: stock_count and s1 r r' where a: "count_claim cid (\<lambda>x. ct_status x = CountCOMPLETED \<and> ct_approvedAt x = None)
       (\<lambda>x. x\<lparr>ct_approvedByUserId := Some (au_id actor), ct_approvedAt := Some now\<rparr>) ''Count was approved by someone else'' s = Inr s1"
    "mem_ok r" "av_db r = s1" "forE (filter has_variance (case find_count cid s1 of None \<Rightarrow> [] | Some x \<Rightarrow> ct_lines x))
       (approve_line dev actor cid (ct_storeId c) opts) r = Inr r'"
    "t = cn_audit (Some (au_id actor)) (Some (ct_storeId c)) ''STOCK_COUNT_APPROVE'' ''StockCount'' cid (av_db r')"
    "\<exists>x. find_count cid t = Some x \<and> v = buildReview x (cn_core t)"
    by (rule approveCount_InrE [OF assms(2)]) (rule that)
  have "sys_inv (cn_core (av_db r'))"
    using approve_loop [OF a(4)] a(2,3) assms(1) count_claim_Inr [OF a(1)] claimed_lines [OF a(1) assms(3)] by simp
  then have "sys_inv (cn_core t)" by (rule sys_inv_cong) (simp_all add: a(5))
  then show ?thesis using a(6) by simp
qed

text \<open>
  C11: an approval moves every lot by its variance. The lot of a line with a variance ends with the
  units it holds at approval plus the variance, not below zero, so units sold since the line was
  counted stay sold; every other lot is untouched. The write-offs of the approval are, lot by lot,
  exactly the units that left, and the count can never be approved again, whatever an approver has read.
\<close>

theorem approval_applies_variances:
  assumes inv: "sys_inv (cn_core s)" and run: "approveCount dev now actor cid opts s0 s = Inr (t, v)"
    and c: "find_count cid s = Some c" "distinct (map ct_id (cn_counts s))" "distinct (map cl_lotId (ct_lines c))"
  shows "(\<forall>j. find_lot j (cn_core t) = (case find_row cl_lotId (Some j) (filter has_variance (ct_lines c)) of
             None \<Rightarrow> find_lot j (cn_core s)
           | Some line \<Rightarrow> map_option (\<lambda>l. l\<lparr>l_quantityRemaining := max 0 (l_quantityRemaining l + the (cl_variance line)),
               l_status := set_status l (max 0 (l_quantityRemaining l + the (cl_variance line)))\<rparr>) (find_lot j (cn_core s))))
    \<and> (\<forall>j. \<exists>ws. db_writeOffs (cn_core t) = db_writeOffs (cn_core s) @ ws
         \<and> units_written j ws = (case (find_lot j (cn_core s), find_lot j (cn_core t)) of
             (Some l, Some l') \<Rightarrow> max 0 (l_quantityRemaining l - l_quantityRemaining l') | _ \<Rightarrow> 0))
    \<and> (\<forall>dev' now' actor' opts' s0'. isl (approveCount dev' now' actor' cid opts' s0' t))"
proof (intro conjI allI)
  obtain d :: stock_count and s1 r r' where a: "count_claim cid (\<lambda>x. ct_status x = CountCOMPLETED \<and> ct_approvedAt x = None)
       (\<lambda>x. x\<lparr>ct_approvedByUserId := Some (au_id actor), ct_approvedAt := Some now\<rparr>) ''Count was approved by someone else'' s = Inr s1"
    "mem_ok r" "av_db r = s1" "forE (filter has_variance (case find_count cid s1 of None \<Rightarrow> [] | Some x \<Rightarrow> ct_lines x))
       (approve_line dev actor cid (ct_storeId d) opts) r = Inr r'"
    "t = cn_audit (Some (au_id actor)) (Some (ct_storeId d)) ''STOCK_COUNT_APPROVE'' ''StockCount'' cid (av_db r')"
    by (rule approveCount_InrE [OF run]) (rule that)
  note cl = count_claim_Inr [OF a(1)]
  have one: "x = c" if "x \<in> set (cn_counts s)" "ct_id x = cid" for x
    using distinct_mapD [OF c(2) that(1)] that(2) c(1) find_row_SomeD [of ct_id cid "cn_counts s" c] by (simp add: find_count_def)
  have claimed: "\<exists>y. find_count cid s1 = Some y \<and> ct_lines y = ct_lines c"
    using cl(5,6) c(1) one by (auto simp: find_count_def find_row_map)
  then have lines: "(case find_count cid s1 of None \<Rightarrow> [] | Some x \<Rightarrow> ct_lines x) = ct_lines c" by auto
  have lot: "\<exists>j. cl_lotId line = Some j" if "line \<in> set (filter has_variance (ct_lines c))" for line
    using approve_loop [OF a(4)] a(2,3) inv cl(1) c(3) that by (auto simp: lines distinct_map_filter)
  note loop = approve_loop [OF a(4), unfolded a(3) lines cl(1), OF inv a(2) distinct_map_filter [OF c(3)]]
  have rec: "recounted line l = l\<lparr>l_quantityRemaining := max 0 (l_quantityRemaining l + the (cl_variance line)),
               l_status := set_status l (max 0 (l_quantityRemaining l + the (cl_variance line)))\<rparr>"
    and to: "counted_to l line = max 0 (l_quantityRemaining l + the (cl_variance line))"
    if "has_variance line" for line l
    using that by (auto simp: recounted_def counted_to_def has_variance_def split: option.splits)
  have row: "has_variance line" if "find_row cl_lotId (Some j) (filter has_variance (ct_lines c)) = Some line" for j line
    using find_row_SomeD [OF that] by simp
  show lots: "find_lot j (cn_core t) = (case find_row cl_lotId (Some j) (filter has_variance (ct_lines c)) of
             None \<Rightarrow> find_lot j (cn_core s)
           | Some line \<Rightarrow> map_option (\<lambda>l. l\<lparr>l_quantityRemaining := max 0 (l_quantityRemaining l + the (cl_variance line)),
               l_status := set_status l (max 0 (l_quantityRemaining l + the (cl_variance line)))\<rparr>) (find_lot j (cn_core s)))" for j
  proof -
    have "find_lot j (cn_core t) = find_lot j (cn_core (av_db r'))" by (simp add: a(5))
    also have "\<dots> = (case find_row cl_lotId (Some j) (filter has_variance (ct_lines c)) of None \<Rightarrow> find_lot j (cn_core s)
             | Some line \<Rightarrow> map_option (recounted line) (find_lot j (cn_core s)))" using loop by blast
    finally have f: "find_lot j (cn_core t) = (case find_row cl_lotId (Some j) (filter has_variance (ct_lines c)) of
        None \<Rightarrow> find_lot j (cn_core s) | Some line \<Rightarrow> map_option (recounted line) (find_lot j (cn_core s)))" .
    show ?thesis
    proof (cases "find_row cl_lotId (Some j) (filter has_variance (ct_lines c))")
      case None
      then show ?thesis using f by simp
    next
      case (Some line)
      have "recounted line = (\<lambda>l. l\<lparr>l_quantityRemaining := max 0 (l_quantityRemaining l + the (cl_variance line)),
               l_status := set_status l (max 0 (l_quantityRemaining l + the (cl_variance line)))\<rparr>)"
        by (rule ext) (rule rec [OF row [OF Some]])
      then show ?thesis unfolding f Some by simp
    qed
  qed
  show "\<exists>ws. db_writeOffs (cn_core t) = db_writeOffs (cn_core s) @ ws
         \<and> units_written j ws = (case (find_lot j (cn_core s), find_lot j (cn_core t)) of
             (Some l, Some l') \<Rightarrow> max 0 (l_quantityRemaining l - l_quantityRemaining l') | _ \<Rightarrow> 0)" for j
  proof -
    obtain ws where "db_writeOffs (cn_core (av_db r')) = db_writeOffs (cn_core s) @ ws"
        "units_written j ws = (case (find_lot j (cn_core s), find_row cl_lotId (Some j) (filter has_variance (ct_lines c))) of
             (Some l, Some line) \<Rightarrow> max 0 (l_quantityRemaining l - counted_to l line) | _ \<Rightarrow> 0)"
      using loop by blast
    moreover have "(case (find_lot j (cn_core s), find_row cl_lotId (Some j) (filter has_variance (ct_lines c))) of
             (Some l, Some line) \<Rightarrow> max 0 (l_quantityRemaining l - counted_to l line) | _ \<Rightarrow> 0)
        = (case (find_lot j (cn_core s), find_lot j (cn_core t)) of
             (Some l, Some l') \<Rightarrow> max 0 (l_quantityRemaining l - l_quantityRemaining l') | _ \<Rightarrow> 0)"
    proof (cases "find_row cl_lotId (Some j) (filter has_variance (ct_lines c))")
      case None
      then show ?thesis using lots [of j] by (cases "find_lot j (cn_core s)") simp_all
    next
      case (Some line)
      then show ?thesis using lots [of j] to [OF row [OF Some]] by (cases "find_lot j (cn_core s)") simp_all
    qed
    ultimately show ?thesis by (intro exI [of _ ws]) (simp add: a(5))
  qed
  show "isl (approveCount dev' now' actor' cid opts' s0' t)" for dev' now' actor' opts' s0'
  proof (rule ccontr)
    assume "\<not> isl (approveCount dev' now' actor' cid opts' s0' t)"
    then obtain u w where again: "approveCount dev' now' actor' cid opts' s0' t = Inr (u, w)" by (cases "approveCount dev' now' actor' cid opts' s0' t") auto
    obtain s2 where "count_claim cid (\<lambda>x. ct_status x = CountCOMPLETED \<and> ct_approvedAt x = None)
       (\<lambda>x. x\<lparr>ct_approvedByUserId := Some (au_id actor'), ct_approvedAt := Some now'\<rparr>) ''Count was approved by someone else'' t = Inr s2"
      by (rule approveCount_InrE [OF again]) (rule that)
    then obtain x where x: "x \<in> set (cn_counts t)" "ct_id x = cid" "ct_approvedAt x = None"
      using count_claim_Inr(6) by blast
    then have "x \<in> set (cn_counts (av_db r'))" by (simp add: a(5))
    then obtain y where y: "y \<in> set (cn_counts s1)" "bare y = bare x" using approve_loop_counts [OF a(4)] a(3) by blast
    then have "ct_id y = cid" "ct_approvedAt y = None" using bareD(1,3) [OF y(2)] x by simp_all
    note y = y(1) this
    obtain z where z: "z \<in> set (cn_counts s)" "y = (if ct_id z = cid \<and> ct_status z = CountCOMPLETED \<and> ct_approvedAt z = None
        then z\<lparr>ct_approvedByUserId := Some (au_id actor), ct_approvedAt := Some now\<rparr> else z)"
      using y(1) unfolding cl(5) set_map by blast
    then have "ct_id z = cid" using y(2) by (simp split: if_splits)
    then have "z = c" using one z(1) by blast
    moreover have "ct_status c = CountCOMPLETED" "ct_approvedAt c = None" using cl(6) one by blast+
    ultimately show False using z(2) y(3) \<open>ct_id z = cid\<close> by simp
  qed
qed

end
