(* ===== verification/Count_Lifecycle.thy ===== *)
theory Count_Lifecycle
  imports Count_Proofs Lot_Units
begin

text \<open>
  Stock counts over time. An operation reads the counts before it writes, and another request can
  commit in between: a history therefore lets every operation read any earlier state. The writes repeat
  the status they rest on, and that is enough for the properties here.
\<close>

section \<open>What a submission does\<close>

lemma replay_or_cases:
  assumes "replay_or key cid lid s0 other s = Inr (t, r)"
  obtains (replay) k e where "key = Some k" "findSubmission k s0 = Some e" "replayOf e cid lid = Inr r" "t = s"
  | (other) "other = Inr (t, r)" "\<And>k. key = Some k \<Longrightarrow> findSubmission k s0 = None"
  using assms by (auto simp: replay_or_def bindE_Inr_iff split: option.splits)

text \<open>A submission is a replay, of an entry found in the state read or in the state written to, or it writes the line.\<close>

lemma submit_InrE:
  assumes run: "submitCountLine dv now actor cid lid q sub s0 s = Inr (t, r)"
  obtains (replay) c k e sx where "loadCount actor cid s0 = Inr c" "submit_key sub = Some k" "sx = s0 \<or> sx = s"
      "findSubmission k sx = Some e" "replayOf e cid lid = Inr r" "t = s"
  | (counted) c l isRecount k counted wr s1 where "loadCount actor cid s0 = Inr c" "js_int q = Some counted" "0 \<le> counted"
      "\<And>k. submit_key sub = Some k \<Longrightarrow> findSubmission k s0 = None"
      "countable_line now actor c lid s0 = Inr (l, isRecount)" "line_lot (cn_core s0) l = Some k"
      "wr = counted_line dv (cn_settings s0) actor counted (resolveCountedAt sub (ct_startedAt c) now) (submit_key sub)
         (cl_expectedQuantity l) (quantity_at_count k (resolveCountedAt sub (ct_startedAt c) now) now (cn_core s0)) (l_unitCost k) isRecount"
      "claim_line cid l wr s = Some s1" "\<not> key_taken (submit_key sub) isRecount lid s"
      "t = cn_audit (Some (au_id actor)) (Some (ct_storeId c)) ''STOCK_COUNT_LINE_COUNT'' ''StockCountLine'' lid
         (if truthy (ct_countedByUserId c) then s1
          else s1\<lparr>cn_counts := upd_row ct_id cid (\<lambda>x. x\<lparr>ct_countedByUserId := Some (au_id actor)\<rparr>) (cn_counts s1)\<rparr>)"
      "r = \<lparr>sm_lineId = lid, sm_status = cl_status (wr l), sm_replayed = False\<rparr>"
proof -
  obtain counted where q: "js_int q = Some counted" "0 \<le> counted"
    using run by (auto simp: submitCountLine_def split: option.splits if_splits)
  have n: "\<not> counted < 0" using q(2) by simp
  note run1 = run [unfolded submitCountLine_def q(1) option.case if_not_P [OF n] Let_def]
  obtain c where c: "loadCount actor cid s0 = Inr c" by (rule bindE_InrE [OF run1])
  note run2 = run1 [unfolded c bindE_simps]
  show thesis
  proof (cases rule: replay_or_cases [OF run2])
    case (1 k e)
    then show thesis using replay [OF c 1(1) _ 1(2,3,4)] by blast
  next
    case 2
    obtain l isRecount where l: "countable_line now actor c lid s0 = Inr (l, isRecount)"
      by (rule bindE_InrE [OF 2(1)]) auto
    note run3 = 2(1) [unfolded l bindE_simps prod.case]
    obtain k where k: "line_lot (cn_core s0) l = Some k" using run3 by (cases "line_lot (cn_core s0) l") simp_all
    define wr where "wr = counted_line dv (cn_settings s0) actor counted (resolveCountedAt sub (ct_startedAt c) now) (submit_key sub)
         (cl_expectedQuantity l) (quantity_at_count k (resolveCountedAt sub (ct_startedAt c) now) now (cn_core s0)) (l_unitCost k) isRecount"
    note run4 = run3 [unfolded k option.case, folded wr_def]
    show thesis
    proof (cases "claim_line cid l wr s")
      case None
      note run5 = run4 [unfolded None option.case]
      show thesis
        by (cases rule: replay_or_cases [OF run5]) (use replay [OF c] in \<open>blast, simp\<close>)
    next
      case (Some s1)
      have kt: "\<not> key_taken (submit_key sub) isRecount lid s" using run4 by (auto simp: Some)
      show thesis
        by (rule counted [OF c q 2(2) l k wr_def Some kt]) (use run4 in \<open>auto simp: Some kt\<close>)
    qed
  qed
qed

lemma line_update_counts:
  "cn_counts (line_update cid i f s) = map (\<lambda>c. if ct_id c = cid then c\<lparr>ct_lines := upd_row cl_id i f (ct_lines c)\<rparr> else c) (cn_counts s)"
  by (simp add: line_update_def upd_row_def)

lemma claim_lineD:
  assumes "claim_line cid l f s = Some t"
  obtains c r where "find_count cid s = Some c" "find_row cl_id (cl_id l) (ct_lines c) = Some r" "cl_status r = cl_status l"
    "t = line_update cid (cl_id l) f s"
  using assms by (auto simp: claim_line_def split: option.splits if_splits)

lemma countable_lineD:
  assumes "countable_line now actor c i s = Inr (l, isRecount)"
  shows "ct_status c = CountIN_PROGRESS" "find_row cl_id i (ct_lines c) = Some l" "cl_id l = i"
    "isRecount = (cl_status l = LineRECOUNT_REQUIRED)" "cl_status l = LinePENDING \<or> cl_status l = LineRECOUNT_REQUIRED"
    "isRecount \<Longrightarrow> cl_countedByUserId l = Some (au_id actor) \<Longrightarrow> otherCountersAvailable now (ct_storeId c) (au_id actor) s = 0"
  using assms find_row_SomeD [of cl_id i "ct_lines c" l]
  by (auto simp: countable_line_def Let_def split: if_splits option.splits)

lemma counted_line_fields [simp]:
  "cl_id (counted_line dv st actor n t key e q u isR l) = cl_id l"
  "cl_productId (counted_line dv st actor n t key e q u isR l) = cl_productId l"
  "cl_lotId (counted_line dv st actor n t key e q u isR l) = cl_lotId l"
  "cl_expectedQuantity (counted_line dv st actor n t key e q u isR l) = cl_expectedQuantity l"
  by (simp_all add: counted_line_def Let_def)

text \<open>The status written does not depend on the row.\<close>

lemma counted_line_status:
  "cl_status (counted_line dv st actor n t key e q u isR l) = cl_status (counted_line dv st actor n t key e q u isR l')"
  by (simp add: counted_line_def Let_def)

definition has_any :: "string \<Rightarrow> (ident \<times> count_line) list \<Rightarrow> bool" where
  "has_any k rows \<longleftrightarrow> list_ex (\<lambda>(c, l). has_key k l) rows"

lemma find_has: "List.find P xs = None \<longleftrightarrow> \<not> list_ex P xs"
  by (induction xs) auto

lemma find_list_ex: "list_ex P xs \<Longrightarrow> \<exists>x. List.find P xs = Some x \<and> x \<in> set xs \<and> P x"
  by (induction xs) auto

lemma in_all_lines: "(i, l) \<in> set (all_lines s) \<longleftrightarrow> (\<exists>c \<in> set (cn_counts s). ct_id c = i \<and> l \<in> set (ct_lines c))"
  by (auto simp: all_lines_def)

section \<open>Retries\<close>

text \<open>
  A retry never counts twice. When an entry with a key was accepted, any later submission with that key
  for the line, whatever its figure, changes nothing and answers with the status that stands for
  the entry, marked as a replay.
\<close>

theorem retry_is_replay:
  assumes one: "submitCountLine dv now actor cid lid q sub s s = Inr (t, r)" and key: "submit_key sub = Some k"
    and two: "js_int q' = Some n" "0 \<le> n" "submit_key sub' = Some k"
  shows "submitCountLine dv' now' actor cid lid q' sub' t t = Inr (t, r\<lparr>sm_replayed := True\<rparr>)"
proof -
  have "\<exists>c' e. loadCount actor cid t = Inr c' \<and> findSubmission k t = Some e \<and> replayOf e cid lid = Inr (r\<lparr>sm_replayed := True\<rparr>)"
  proof (cases rule: submit_InrE [OF one])
    case (1 c k' e sx)
    then show ?thesis using key by (auto simp: replayOf_def split: if_splits)
  next
    case (2 c l isRecount lot counted wr s1)
    have none: "\<not> has_key k m" if "(i, m) \<in> set (all_lines s)" for i m
      using 2(4) [OF key] that by (auto simp: findSubmission_def find_has list_ex_iff)
    obtain c0 r0 where cl: "find_count cid s = Some c0" "find_row cl_id (cl_id l) (ct_lines c0) = Some r0"
        "s1 = line_update cid (cl_id l) wr s"
      by (rule claim_lineD [OF 2(8)])
    have lid: "cl_id l = lid" using countable_lineD(3) [OF 2(5)] .
    define g where "g = (\<lambda>c1. if ct_id c1 = cid then (if truthy (ct_countedByUserId c)
        then c1\<lparr>ct_lines := upd_row cl_id lid wr (ct_lines c1)\<rparr>
        else c1\<lparr>ct_lines := upd_row cl_id lid wr (ct_lines c1), ct_countedByUserId := Some (au_id actor)\<rparr>) else c1 :: stock_count)"
    have t: "cn_counts t = map g (cn_counts s)"
      by (auto simp: 2(10) cl(3) line_update_counts upd_row_def lid g_def)
    have hk: "has_key k (wr m)" for m
      by (simp add: 2(7) has_key_def counted_line_def Let_def key)
    have st: "cl_status (wr m) = sm_status r" for m
      using counted_line_status by (simp add: 2(7,11))
    have id_wr: "cl_id (wr m) = cl_id m" for m by (simp add: 2(7))
    have only: "i = cid \<and> cl_id m = lid \<and> cl_status m = sm_status r" if m: "(i, m) \<in> set (all_lines t)" "has_key k m" for i m
    proof -
      obtain c1 where c1: "c1 \<in> set (cn_counts s)" "ct_id (g c1) = i" "m \<in> set (ct_lines (g c1))"
        using m(1) by (auto simp: in_all_lines t)
      show ?thesis
      proof (cases "ct_id c1 = cid")
        case False
        then show ?thesis using c1 m(2) none [of i m] by (auto simp: g_def in_all_lines)
      next
        case True
        then obtain m0 where m0: "m0 \<in> set (ct_lines c1)" "m = (if cl_id m0 = lid then wr m0 else m0)"
          using c1(3) by (auto simp: g_def in_upd_row split: if_splits)
        have "\<not> has_key k m0" by (rule none [of cid]) (use c1(1) True m0(1) in \<open>unfold in_all_lines, blast\<close>)
        then have "cl_id m0 = lid" using m0(2) m(2) by (auto split: if_splits)
        then show ?thesis using m0 st id_wr c1(2) True by (auto simp: g_def)
      qed
    qed
    have "r0 \<in> set (ct_lines c0)" "cl_id r0 = lid" "c0 \<in> set (cn_counts s)" "ct_id c0 = cid"
      using find_row_SomeD [OF cl(2)] cl(1) find_row_SomeD [of ct_id cid "cn_counts s" c0] lid by (auto simp: find_count_def)
    note row = this
    have "ct_lines (g c0) = upd_row cl_id lid wr (ct_lines c0)" "ct_id (g c0) = cid" by (simp_all add: g_def row(4))
    moreover have "wr r0 \<in> set (upd_row cl_id lid wr (ct_lines c0))"
      unfolding in_upd_row by (rule bexI [OF _ row(1)]) (simp add: row(2))
    moreover have "g c0 \<in> set (cn_counts t)" unfolding t set_map by (rule imageI) (rule row(3))
    ultimately have "(cid, wr r0) \<in> set (all_lines t)" unfolding in_all_lines by metis
    then have "list_ex (\<lambda>(c, l). has_key k l) (all_lines t)" using hk by (auto simp: list_ex_iff)
    from find_list_ex [OF this] obtain e where e: "findSubmission k t = Some e" "e \<in> set (all_lines t)" "has_key k (snd e)"
      by (auto simp: findSubmission_def)
    then have "fst e = cid \<and> cl_id (snd e) = lid \<and> cl_status (snd e) = sm_status r" using only [of "fst e" "snd e"] by simp
    moreover have "sm_lineId r = lid" by (simp add: 2(11))
    ultimately have rep: "replayOf e cid lid = Inr (r\<lparr>sm_replayed := True\<rparr>)" by (simp add: replayOf_def)
    have "find_count cid t = Some (g c0)"
      using cl(1) unfolding find_count_def t by (subst find_row_map) (auto simp: g_def)
    then have "loadCount actor cid t = Inr (g c0)"
      using 2(1) cl(1) by (auto simp: loadCount_def bindE_Inr_iff g_def split: option.splits)
    then show ?thesis using e(1) rep by blast
  qed
  then show ?thesis using two by (auto simp: submitCountLine_def replay_or_def Let_def)
qed

section \<open>Queued entries\<close>

text \<open>A first count that is no replay, spelled out.\<close>

lemma first_count:
  fixes now :: time and dv :: "decimal \<Rightarrow> decimal \<Rightarrow> decimal"
  assumes "loadCount actor cid s = Inr c" "ct_status c = CountIN_PROGRESS" "find_row cl_id lid (ct_lines c) = Some l"
    "truthy (cl_lotId l)" "cl_status l = LinePENDING" "line_lot (cn_core s) l = Some k" "js_int q = Some n" "0 \<le> n"
    "\<And>x. submit_key sub = Some x \<Longrightarrow> findSubmission x s = None"
  defines "at_time \<equiv> resolveCountedAt sub (ct_startedAt c) now"
  defines "f \<equiv> counted_line dv (cn_settings s) actor n at_time (submit_key sub) (cl_expectedQuantity l)
      (quantity_at_count k at_time now (cn_core s)) (l_unitCost k) False"
  shows "submitCountLine dv now actor cid lid q sub s s =
    (let s1 = line_update cid lid f s;
         s2 = (if truthy (ct_countedByUserId c) then s1
               else s1\<lparr>cn_counts := upd_row ct_id cid (\<lambda>x. x\<lparr>ct_countedByUserId := Some (au_id actor)\<rparr>) (cn_counts s1)\<rparr>)
     in Inr (cn_audit (Some (au_id actor)) (Some (ct_storeId c)) ''STOCK_COUNT_LINE_COUNT'' ''StockCountLine'' lid s2,
             \<lparr>sm_lineId = lid, sm_status = cl_status (f l), sm_replayed = False\<rparr>))"
proof -
  have fc: "find_count cid s = Some c" using assms(1) by (auto simp: loadCount_def bindE_Inr_iff split: option.splits)
  have id: "cl_id l = lid" using find_row_SomeD [OF assms(3)] by simp
  have cb: "countable_line now actor c lid s = Inr (l, False)"
    using assms(2-5) by (simp add: countable_line_def)
  have kt: "\<not> key_taken (submit_key sub) False lid s"
  proof (cases "submit_key sub")
    case (Some x)
    have "\<not> has_key x m" if "(i, m) \<in> set (all_lines s)" for i m
      using assms(9) [OF Some] that by (auto simp: findSubmission_def find_has list_ex_iff)
    then show ?thesis by (auto simp: key_taken_def Some list_ex_iff has_key_def)
  qed (simp add: key_taken_def)
  have cl: "claim_line cid l g s = Some (line_update cid lid g s)" for g
    using fc assms(3) id by (simp add: claim_line_def)
  have ro: "replay_or (submit_key sub) cid lid s X s = X" for X
    using assms(9) by (auto simp: replay_or_def split: option.split)
  have n: "\<not> n < 0" using assms(8) by simp
  show ?thesis
    unfolding submitCountLine_def assms(7) option.case if_not_P [OF n] assms(1) bindE_simps Let_def ro cb prod.case assms(6) cl
      if_not_P [OF kt] f_def at_time_def ..
qed

text \<open>
  What other requests may do between an entry's counting at \<open>T\<close> and its arrival: a PENDING sale is paid
  and finalized, a sale is made at the till (the cash sale takes its units at once, the card sale
  reserves them), and anything else that leaves the units of the lots and the payments alone.
\<close>

definition units_and_costs :: "db \<Rightarrow> (ident \<times> int \<times> decimal) list" where
  "units_and_costs d = map (\<lambda>l. (l_id l, l_quantityRemaining l, l_unitCost l)) (db_lots d)"

definition payments :: "db \<Rightarrow> (ident \<times> time option \<times> lot_allocation list) list" where
  "payments d = map (\<lambda>x. (s_id x, s_paidAt x, sale_allocs x)) (db_sales d)"

inductive sales_since :: "time \<Rightarrow> time \<Rightarrow> db \<Rightarrow> db \<Rightarrow> bool" for T now d where
  sales_none: "sales_since T now d d"
| sales_paid: "sales_since T now d e \<Longrightarrow> find_sale i e = Some x \<Longrightarrow> s_paymentStatus x = PayPENDING \<Longrightarrow> s_paidAt x = None
    \<Longrightarrow> T < p \<Longrightarrow> p \<le> now \<Longrightarrow> finalizePaidSale dev p i e = Inr (f, y) \<Longrightarrow> sales_since T now d f"
| sales_made: "sales_since T now d e \<Longrightarrow> T < nv_now nv \<Longrightarrow> nv_now nv \<le> now
    \<Longrightarrow> createSale_tx nv st u input key pids e = Inr (f, r) \<Longrightarrow> sales_since T now d f"
| sales_other: "sales_since T now d e \<Longrightarrow> units_and_costs f = units_and_costs e \<Longrightarrow> payments f = payments e \<Longrightarrow> sales_since T now d f"

definition paid_units :: "ident \<Rightarrow> time \<Rightarrow> time \<Rightarrow> sale \<Rightarrow> int" where
  "paid_units j T now x = (case s_paidAt x of None \<Rightarrow> 0 | Some t \<Rightarrow> if T < t \<and> t \<le> now then alloc_qty (sale_allocs x) j else 0)"

lemma lot_units_in_allocs: "lot_units_in j x = alloc_qty (sale_allocs x) j"
proof -
  have "sum_list (map (\<lambda>it. alloc_qty (si_lotAllocations it) j) its) = alloc_qty (concat (map si_lotAllocations its)) j" for its
    by (induction its) (simp_all add: alloc_qty_def)
  then show ?thesis by (simp add: lot_units_in_def sale_allocs_def alloc_qty_def sum_rows_def)
qed

lemma units_paid_rows: "units_paid j T now d = sum_rows (paid_units j T now) (db_sales d)"
proof -
  have "sum_list (map (lot_units_in j) (filter (\<lambda>x. case s_paidAt x of None \<Rightarrow> False | Some t \<Rightarrow> T < t \<and> t \<le> now) xs))
      = sum_rows (paid_units j T now) xs" for xs
    by (induction xs) (auto simp: paid_units_def lot_units_in_allocs split: option.split)
  then show ?thesis by (simp add: units_paid_def)
qed

lemma payments_units:
  assumes "payments f = payments e"
  shows "map s_id (db_sales f) = map s_id (db_sales e)" "units_paid j T now f = units_paid j T now e"
proof -
  let ?g = "\<lambda>(i, p, as). (case p of None \<Rightarrow> 0 | Some t \<Rightarrow> if T < t \<and> t \<le> now then alloc_qty as j else (0 :: int))"
  have "map fst (payments f) = map fst (payments e)" "sum_rows ?g (payments f) = sum_rows ?g (payments e)" by (simp_all add: assms)
  then show "map s_id (db_sales f) = map s_id (db_sales e)" "units_paid j T now f = units_paid j T now e"
    by (simp_all add: payments_def comp_def sum_rows_def units_paid_rows paid_units_def [abs_def])
qed

lemma units_and_costs_left:
  assumes "units_and_costs f = units_and_costs e"
  shows "lot_tags f = lot_tags e" "lot_left f j = lot_left e j"
proof -
  let ?g = "\<lambda>(i, n, c). if i = j then n else (0 :: int)"
  have "map (\<lambda>(i, n, c). (i, c)) (units_and_costs f) = map (\<lambda>(i, n, c). (i, c)) (units_and_costs e)"
    "sum_rows ?g (units_and_costs f) = sum_rows ?g (units_and_costs e)" by (simp_all add: assms)
  then show "lot_tags f = lot_tags e" "lot_left f j = lot_left e j"
    by (simp_all add: units_and_costs_def lot_tags_def lot_left_def comp_def sum_rows_def)
qed

text \<open>Whatever the sales of the gap took from a lot, the paid sales of the gap account for.\<close>

definition gap_ok :: "time \<Rightarrow> time \<Rightarrow> db \<Rightarrow> db \<Rightarrow> bool" where
  "gap_ok T now d e \<longleftrightarrow> lot_tags e = lot_tags d \<and> distinct (map s_id (db_sales e))
     \<and> (\<forall>j. lot_left e j + units_paid j T now e = lot_left d j + units_paid j T now d)"

lemma sales_since_accounts:
  assumes "sales_since T now d e" "distinct (map l_id (db_lots d))" "distinct (map s_id (db_sales d))"
  shows "gap_ok T now d e"
  using assms
proof (induction rule: sales_since.induct)
  case sales_none
  then show ?case by (simp add: gap_ok_def)
next
  case (sales_paid e i x p dev f y)
  have ih: "lot_tags e = lot_tags d" "distinct (map s_id (db_sales e))"
      "\<forall>j. lot_left e j + units_paid j T now e = lot_left d j + units_paid j T now d"
    using sales_paid.IH sales_paid.prems by (simp_all add: gap_ok_def)
  let ?f = "\<lambda>y. y\<lparr>s_paymentStatus := PayPAID, s_paidAt := Some p, s_reservationExpiresAt := None\<rparr>"
  have "distinct (map l_id (db_lots e))" using lot_tags_ids [OF ih(1)] sales_paid.prems(1) by simp
  then have run: "lot_tags f = lot_tags e" "\<forall>j. lot_left f j = lot_left e j - alloc_qty (sale_allocs x) j"
      "db_sales f = upd_row s_id i ?f (db_sales e)"
    using finalizePaidSale_takes [OF sales_paid.hyps(7,2,3)] by simp_all
  have x: "x \<in> set (db_sales e)" "s_id x = i" using find_row_SomeD sales_paid.hyps(2) by (fastforce simp: find_sale_def)+
  have "units_paid j T now f = units_paid j T now e + alloc_qty (sale_allocs x) j" for j
    using sum_rows_upd_row [OF ih(2) x, of "paid_units j T now" ?f] sales_paid.hyps(4,5,6)
    by (simp add: units_paid_rows run(3) paid_units_def sale_allocs_def)
  then show ?case using ih run by (simp add: gap_ok_def map_upd_row)
next
  case (sales_made e nv st u input key pids f r)
  have ih: "lot_tags e = lot_tags d" "distinct (map s_id (db_sales e))"
      "\<forall>j. lot_left e j + units_paid j T now e = lot_left d j + units_paid j T now d"
    using sales_made.IH sales_made.prems by (simp_all add: gap_ok_def)
  have "distinct (map l_id (db_lots e))" using lot_tags_ids [OF ih(1)] sales_made.prems(1) by simp
  note run = createSale_tx_takes [OF sales_made.hyps(4) this]
  show ?case
  proof (cases "f = e")
    case True
    then show ?thesis using ih by (simp add: gap_ok_def)
  next
    case False
    then obtain x where x: "lot_tags f = lot_tags e" "db_sales f = db_sales e @ [x]" "s_id x \<notin> s_id ` set (db_sales e)"
        "s_paidAt x = (if cs_paymentMethod input = CASH then Some (nv_now nv) else None)"
        "\<forall>j. lot_left f j = lot_left e j - (if cs_paymentMethod input = CASH then alloc_qty (sale_allocs x) j else 0)"
      using run by auto
    have "units_paid j T now f = units_paid j T now e + (if cs_paymentMethod input = CASH then alloc_qty (sale_allocs x) j else 0)" for j
      using x(4) sales_made.hyps(2,3) by (simp add: units_paid_rows x(2) paid_units_def)
    then show ?thesis using ih x by (simp add: gap_ok_def)
  qed
next
  case (sales_other e f)
  then show ?case using payments_units [OF sales_other.hyps(3)] units_and_costs_left [OF sales_other.hyps(2)]
    by (simp add: gap_ok_def)
qed

text \<open>
  C13: a first count queued offline measures what an immediate one would have. Let a pending line be
  counted at time \<open>T\<close>, once at once and once sent later, with a corrected time of \<open>T\<close>, and let nothing
  but sales change the lots meanwhile: any number of card sales paid and finalized, cash sales, new card
  sales, and requests that leave the units of the lots and the payments alone. Then both submissions
  write the same counts, with the same variance, movement, value and time, and give the same answer.
  Units that come back on a lot in the gap (a restocked refund) or leave it otherwise are outside it:
  the code does not reconstruct them.
\<close>

theorem queued_count_equals_immediate:
  assumes c: "loadCount actor cid s1 = Inr c" "ct_status c = CountIN_PROGRESS" "find_row cl_id lid (ct_lines c) = Some l"
      "truthy (cl_lotId l)" "cl_status l = LinePENDING" "ct_startedAt c = Some st" "st \<le> T" "T < now"
    and q: "js_int q = Some n" "0 \<le> n"
    and key: "\<And>x. submit_key \<lparr>sub_idempotencyKey = key, sub_countedAt = None, sub_sentAt = None\<rparr> = Some x \<Longrightarrow> findSubmission x s1 = None"
    and same: "cn_counts s2 = cn_counts s1" "cn_settings s2 = cn_settings s1"
    and ids: "distinct (map l_id (db_lots (cn_core s1)))" "distinct (map s_id (db_sales (cn_core s1)))"
    and lot: "find_lot (the (cl_lotId l)) (cn_core s1) \<noteq> None"
    and before: "list_all (\<lambda>x. case s_paidAt x of None \<Rightarrow> True | Some t \<Rightarrow> t \<le> T) (db_sales (cn_core s1))"
    and gap: "sales_since T now (cn_core s1) (cn_core s2)"
    and sent: "sub_sent = None \<and> counted = T \<or> (\<exists>x. sub_sent = Some x \<and> counted + (now - x) = T)"
  shows "\<exists>t1 t2 r.
      submitCountLine dv T actor cid lid q \<lparr>sub_idempotencyKey = key, sub_countedAt = None, sub_sentAt = None\<rparr> s1 s1 = Inr (t1, r)
    \<and> submitCountLine dv now actor cid lid q \<lparr>sub_idempotencyKey = key, sub_countedAt = Some counted, sub_sentAt = sub_sent\<rparr> s2 s2 = Inr (t2, r)
    \<and> cn_counts t2 = cn_counts t1"
proof -
  let ?a = "\<lparr>sub_idempotencyKey = key, sub_countedAt = None, sub_sentAt = None\<rparr>"
  let ?b = "\<lparr>sub_idempotencyKey = key, sub_countedAt = Some counted, sub_sentAt = sub_sent\<rparr>"
  have k: "submit_key ?b = submit_key ?a" by (simp add: submit_key_def)
  have fs: "findSubmission x s2 = findSubmission x s1" for x by (simp add: findSubmission_def all_lines_def same)
  have fc: "find_count i s2 = find_count i s1" for i by (simp add: find_count_def same)
  have c2: "loadCount actor cid s2 = Inr c" using c(1) by (simp add: loadCount_def fc)
  obtain i where i: "cl_lotId l = Some i" using c(4) by (cases "cl_lotId l") (simp_all add: truthy_def)
  have g: "lot_tags (cn_core s2) = lot_tags (cn_core s1)"
      "lot_left (cn_core s2) i + units_paid i T now (cn_core s2) = lot_left (cn_core s1) i + units_paid i T now (cn_core s1)"
    using sales_since_accounts [OF gap ids] by (simp_all add: gap_ok_def)
  have "paid_units i T now x = 0" if "x \<in> set (db_sales (cn_core s1))" for x
    using before that by (auto simp: paid_units_def list_all_iff split: option.splits)
  then have none: "units_paid i T now (cn_core s1) = 0" unfolding units_paid_rows by (intro sum_rows_zero)
  obtain k1 where k1: "find_lot i (cn_core s1) = Some k1" using lot i by auto
  obtain k2 where k2: "find_lot i (cn_core s2) = Some k2" "l_unitCost k2 = l_unitCost k1" by (rule lot_tags_find [OF g(1) k1])
  have "distinct (map l_id (db_lots (cn_core s2)))" using lot_tags_ids [OF g(1)] ids(1) by simp
  then have left: "lot_left (cn_core s1) i = l_quantityRemaining k1" "lot_left (cn_core s2) i = l_quantityRemaining k2"
    using lot_left_find k1 k2(1) ids(1) by blast+
  have lid: "l_id k1 = i" "l_id k2 = i" using k1 k2(1) find_row_SomeD by (fastforce simp: find_lot_def)+
  have ll: "line_lot (cn_core s1) l = Some k1" "line_lot (cn_core s2) l = Some k2" using k1 k2(1) i by (simp_all add: line_lot_def)
  have ta: "resolveCountedAt ?a (ct_startedAt c) T = T" by (simp add: resolveCountedAt_def)
  have tb: "resolveCountedAt ?b (ct_startedAt c) now = T"
    using sent c(6,7,8) by (auto simp: resolveCountedAt_def Let_def)
  have qa: "quantity_at_count k1 T T (cn_core s1) = l_quantityRemaining k1"
    and qb: "quantity_at_count k2 T now (cn_core s2) = l_quantityRemaining k1"
    using g(2) none left c(8) lid by (simp_all add: quantity_at_count_def)
  note a = first_count [where sub = ?a and dv = dv and now = T, OF c(1-5) ll(1) q key, unfolded ta qa]
  have key2: "findSubmission x s2 = None" if "submit_key ?b = Some x" for x using key that by (simp add: fs k)
  note b = first_count [where sub = ?b and dv = dv and now = now, OF c2 c(2-5) ll(2) q key2, unfolded tb qb k same(2) k2(2)]
  show ?thesis using a b by (auto simp: line_update_def same Let_def)
qed

section \<open>Well-formed counts\<close>

text \<open>The figures of a line at each status: a variance is what was found less what should have been there.\<close>

definition line_ok :: "count_line \<Rightarrow> bool" where
  "line_ok l \<longleftrightarrow> cl_lotId l \<noteq> None \<and>
     (case cl_status l of
        LinePENDING \<Rightarrow> cl_countedQuantity l = None \<and> cl_variance l = None \<and> cl_recountedQuantity l = None
      | LineCOUNTED \<Rightarrow> cl_recountedQuantity l = None \<and> (\<exists>q m. cl_countedQuantity l = Some q \<and> 0 \<le> q
            \<and> cl_movementDuringCount l = Some m \<and> cl_variance l = Some (q - (cl_expectedQuantity l - m)))
      | LineRECOUNT_REQUIRED \<Rightarrow> cl_recountedQuantity l = None \<and> (\<exists>q m. cl_countedQuantity l = Some q \<and> 0 \<le> q
            \<and> cl_movementDuringCount l = Some m \<and> cl_variance l = Some (q - (cl_expectedQuantity l - m)) \<and> cl_variance l \<noteq> Some 0)
      | LineRESOLVED \<Rightarrow> (\<exists>q m. cl_recountedQuantity l = Some q \<and> 0 \<le> q
            \<and> cl_movementDuringCount l = Some m \<and> cl_variance l = Some (q - (cl_expectedQuantity l - m))))"

definition count_ok :: "stock_count \<Rightarrow> bool" where
  "count_ok c \<longleftrightarrow> distinct (map cl_id (ct_lines c)) \<and> distinct (map cl_lotId (ct_lines c)) \<and> (\<forall>l \<in> set (ct_lines c). line_ok l)
     \<and> (ct_status c = CountDRAFT \<longrightarrow> (\<forall>l \<in> set (ct_lines c). cl_status l = LinePENDING))
     \<and> (ct_status c = CountCOMPLETED \<longrightarrow> (\<forall>l \<in> set (ct_lines c). \<not> line_open l))
     \<and> (ct_approvedAt c \<noteq> None \<longrightarrow> ct_status c = CountCOMPLETED)"

definition products_of :: "stock_count \<Rightarrow> ident set" where
  "products_of c = cl_productId ` set (ct_lines c)"

definition apart :: "stock_count list \<Rightarrow> bool" where
  "apart cs \<longleftrightarrow> (\<forall>c \<in> set cs. \<forall>c' \<in> set cs. openCountWhere (ct_storeId c) c \<longrightarrow> openCountWhere (ct_storeId c) c'
     \<longrightarrow> ct_id c \<noteq> ct_id c' \<longrightarrow> products_of c \<inter> products_of c' = {})"

definition counts_ok :: "count_db \<Rightarrow> bool" where
  "counts_ok s \<longleftrightarrow> distinct (map ct_id (cn_counts s)) \<and> (\<forall>c \<in> set (cn_counts s). count_ok c) \<and> apart (cn_counts s)"

text \<open>How a line and a count may have changed since they were read.\<close>

definition line_later :: "count_line \<Rightarrow> count_line \<Rightarrow> bool" where
  "line_later l l' \<longleftrightarrow> cl_id l' = cl_id l \<and> cl_productId l' = cl_productId l \<and> cl_lotId l' = cl_lotId l
     \<and> (\<not> line_open l \<longrightarrow> \<not> line_open l')"

definition count_later :: "stock_count \<Rightarrow> stock_count \<Rightarrow> bool" where
  "count_later c c' \<longleftrightarrow> ct_id c' = ct_id c \<and> ct_storeId c' = ct_storeId c \<and> list_all2 line_later (ct_lines c) (ct_lines c')
     \<and> (ct_status c \<noteq> CountDRAFT \<longrightarrow> ct_status c' \<noteq> CountDRAFT
          \<and> map cl_expectedQuantity (ct_lines c') = map cl_expectedQuantity (ct_lines c))
     \<and> (openCountWhere (ct_storeId c) c' \<longrightarrow> openCountWhere (ct_storeId c) c)"

lemma line_later_refl: "line_later l l" by (simp add: line_later_def)

lemma line_later_trans: "line_later a b \<Longrightarrow> line_later b c \<Longrightarrow> line_later a c"
  by (simp add: line_later_def)

lemma count_later_refl: "count_later c c"
  by (simp add: count_later_def list_all2_refl line_later_refl)

lemma count_later_trans:
  assumes "count_later a b" "count_later b c" shows "count_later a c"
proof -
  have "list_all2 line_later (ct_lines a) (ct_lines c)"
    using assms list_all2_trans [of line_later line_later line_later "ct_lines a" "ct_lines b" "ct_lines c", OF line_later_trans]
    by (simp add: count_later_def)
  then show ?thesis using assms unfolding count_later_def by simp
qed

lemma later_products: "count_later c c' \<Longrightarrow> products_of c' = products_of c"
proof -
  assume "count_later c c'"
  then have "list_all2 line_later (ct_lines c) (ct_lines c')" by (simp add: count_later_def)
  then have "map cl_productId (ct_lines c') = map cl_productId (ct_lines c)"
    by (induction rule: list_all2_induct) (simp_all add: line_later_def)
  then show ?thesis unfolding products_of_def by (metis list.set_map)
qed

definition counts_later :: "count_db \<Rightarrow> count_db \<Rightarrow> bool" where
  "counts_later s t \<longleftrightarrow> (\<forall>c \<in> set (cn_counts s). \<exists>c' \<in> set (cn_counts t). count_later c c')"

lemma counts_later_trans: "counts_later a b \<Longrightarrow> counts_later b c \<Longrightarrow> counts_later a c"
  unfolding counts_later_def by (meson count_later_trans)

text \<open>An operation that rewrites each count into a later well-formed one.\<close>

lemma rewritten_ok:
  assumes "counts_ok s" "cn_counts t = map g (cn_counts s)"
    "\<And>c. c \<in> set (cn_counts s) \<Longrightarrow> count_later c (g c) \<and> count_ok (g c)"
  shows "counts_ok t \<and> counts_later s t"
proof
  have id: "ct_id (g c) = ct_id c" "ct_storeId (g c) = ct_storeId c" if "c \<in> set (cn_counts s)" for c
    using assms(3) [OF that] by (simp_all add: count_later_def)
  have mp: "map ct_id (cn_counts t) = map ct_id (cn_counts s)" by (simp add: assms(2) id)
  have dist: "distinct (map ct_id (cn_counts t))" unfolding mp using assms(1) by (simp add: counts_ok_def)
  have each: "\<forall>c \<in> set (cn_counts t). count_ok c" using assms(3) by (simp add: assms(2))
  have "apart (cn_counts t)"
    unfolding apart_def
  proof (intro ballI impI)
    fix c c' assume a: "c \<in> set (cn_counts t)" "c' \<in> set (cn_counts t)" "openCountWhere (ct_storeId c) c"
      "openCountWhere (ct_storeId c) c'" "ct_id c \<noteq> ct_id c'"
    obtain d d' where d: "d \<in> set (cn_counts s)" "c = g d" "d' \<in> set (cn_counts s)" "c' = g d'"
      using a(1,2) by (auto simp: assms(2))
    have st: "ct_storeId d' = ct_storeId d" using a(4) id d by (simp add: openCountWhere_def)
    have "openCountWhere (ct_storeId d) d" "openCountWhere (ct_storeId d) d'"
      using a(3,4) assms(3) [OF d(1)] assms(3) [OF d(3)] id d st by (simp_all add: count_later_def)
    then have "products_of d \<inter> products_of d' = {}"
      using assms(1) d(1,3) a(5) id d(2,4) by (simp add: counts_ok_def apart_def)
    then show "products_of c \<inter> products_of c' = {}"
      using later_products [of d c] later_products [of d' c'] assms(3) [OF d(1)] assms(3) [OF d(3)] d(2,4) by simp
  qed
  then show "counts_ok t" using dist each by (simp add: counts_ok_def)
  show "counts_later s t" using assms by (auto simp: counts_later_def)
qed

section \<open>Histories\<close>

text \<open>
  \<open>run a s\<close>: \<open>s\<close> comes from \<open>a\<close>. An operation on a count reads a state \<open>s0\<close> and writes to a state
  \<open>s\<close> that came from it. Whatever else the shop does leaves the counts alone.
\<close>

inductive run :: "count_db \<Rightarrow> count_db \<Rightarrow> bool" where
  here: "run a a"
| shop: "run a s \<Longrightarrow> cn_counts t = cn_counts s \<Longrightarrow> run a t"
| insert: "run a s \<Longrightarrow> insertCount now i f d s = Inr (t, c) \<Longrightarrow> run a t"
| start: "run a s0 \<Longrightarrow> run s0 s \<Longrightarrow> start_tx now actor i s0 s = Inr t \<Longrightarrow> run a t"
| submit: "run a s0 \<Longrightarrow> run s0 s \<Longrightarrow> submitCountLine dv now actor i lid q sub s0 s = Inr (t, r) \<Longrightarrow> run a t"
| complete: "run a s0 \<Longrightarrow> run s0 s \<Longrightarrow> complete_tx now actor i s0 s = Inr t \<Longrightarrow> run a t"
| cancel: "run a s0 \<Longrightarrow> run s0 s \<Longrightarrow> cancel_tx actor i s0 s = Inr t \<Longrightarrow> run a t"
| approve: "run a s0 \<Longrightarrow> run s0 s \<Longrightarrow> approveCount dev now actor i opts s0 s = Inr (t, v) \<Longrightarrow> run a t"

text \<open>What one step keeps, given that the state read is earlier.\<close>

definition kept :: "count_db \<Rightarrow> count_db \<Rightarrow> bool" where
  "kept s t \<longleftrightarrow> (counts_ok s \<longrightarrow> counts_ok t \<and> counts_later s t)"

lemma loadCount_found: "loadCount actor i s = Inr c \<Longrightarrow> find_count i s = Some c"
  by (auto simp: loadCount_def bindE_Inr_iff split: option.splits)

lemma find_count_mem: "find_count i s = Some c \<Longrightarrow> c \<in> set (cn_counts s) \<and> ct_id c = i"
  using find_row_SomeD [of ct_id i "cn_counts s" c] by (simp add: find_count_def)

lemma same_count:
  assumes "counts_ok s" "c \<in> set (cn_counts s)" "d \<in> set (cn_counts s)" "ct_id c = ct_id d"
  shows "c = d"
  by (rule distinct_mapD [of ct_id "cn_counts s"]) (use assms in \<open>simp_all add: counts_ok_def\<close>)

text \<open>The count read, as it stands in the state written to.\<close>

lemma later_count_row:
  assumes "counts_ok s" "counts_later s0 s" "find_count i s0 = Some c" "d \<in> set (cn_counts s)" "ct_id d = i"
  shows "count_later c d"
proof -
  obtain c' where c': "c' \<in> set (cn_counts s)" "count_later c c'"
    using assms(2,3) find_count_mem by (force simp: counts_later_def)
  then have "ct_id c' = i" using find_count_mem [OF assms(3)] by (simp add: count_later_def)
  then have "c' = d" using same_count [OF assms(1)] assms(4,5) c'(1) by blast
  then show ?thesis using c'(2) by simp
qed

lemma new_line_simps [simp]:
  "cl_id (new_line i lp) = i" "cl_lotId (new_line i lp) = Some (fst lp)" "cl_productId (new_line i lp) = snd lp"
  "line_ok (new_line i lp)" "cl_status (new_line i lp) = LinePENDING"
  by (simp_all add: new_line_def line_ok_def)

lemma on_open_count_iff:
  "on_open_count storeId s pid \<longleftrightarrow> (\<exists>c \<in> set (cn_counts s). openCountWhere storeId c \<and> pid \<in> products_of c)"
  by (auto simp: on_open_count_def list_ex_iff products_of_def)

lemma map_enumerate_snd: "map (\<lambda>x. f (snd x)) (enumerate n xs) = map f xs"
  by (induction xs arbitrary: n) simp_all

lemma insert_kept:
  assumes "insertCount now i f d s = Inr (t, c)"
  shows "kept s t"
  unfolding kept_def
proof
  assume s: "counts_ok s"
  let ?ls = "map (\<lambda>(k, lp). new_line (f k) lp) (enumerate 0 (nc_lots d))"
  have r: "\<not> list_ex (on_open_count (nc_storeId d) s) (uniq (map snd (nc_lots d)))" "distinct (map fst (nc_lots d))"
    "distinct (map cl_id ?ls @ line_ids s)" "create_row ct_id c (cn_counts s) = Inr (cn_counts t)"
    "ct_lines c = ?ls" "ct_status c = CountDRAFT" "ct_approvedAt c = None" "ct_storeId c = nc_storeId d"
    using assms by (auto simp: insertCount_def Let_def bindE_Inr_iff split: if_splits)
  have t: "cn_counts t = cn_counts s @ [c]" and new: "ct_id c \<notin> ct_id ` set (cn_counts s)"
    using r(4) by (auto simp: create_row_def has_row_def split: if_splits)
  have "map cl_lotId ?ls = map (\<lambda>lp. Some (fst lp)) (nc_lots d)" "map cl_productId ?ls = map snd (nc_lots d)"
    using map_enumerate_snd [of "\<lambda>lp. Some (fst lp)"] map_enumerate_snd [of snd] by (simp_all add: comp_def case_prod_unfold)
  moreover have "map (\<lambda>lp. Some (fst lp)) (nc_lots d) = map Some (map fst (nc_lots d))" by simp
  ultimately have lots: "distinct (map cl_lotId ?ls)" and ps: "map cl_productId ?ls = map snd (nc_lots d)"
    using r(2) by (simp_all add: distinct_map inj_on_def del: map_map)
  have prods: "products_of c = set (map snd (nc_lots d))"
    unfolding products_of_def r(5) using arg_cong [OF ps, of set] by (simp only: set_map)
  have ok: "count_ok c"
    using lots r(3) unfolding count_ok_def r(5,6,7) by (auto simp: case_prod_unfold)
  have free: "products_of c \<inter> products_of c' = {}" if "c' \<in> set (cn_counts s)" "openCountWhere (nc_storeId d) c'" for c'
    using r(1) that prods by (auto simp: list_ex_iff on_open_count_iff)
  have "apart (cn_counts t)"
    unfolding apart_def t
  proof (intro ballI impI)
    fix x y assume x: "x \<in> set (cn_counts s @ [c])" "y \<in> set (cn_counts s @ [c])" "openCountWhere (ct_storeId x) x"
      "openCountWhere (ct_storeId x) y" "ct_id x \<noteq> ct_id y"
    have st: "ct_storeId y = ct_storeId x" using x(4) by (simp add: openCountWhere_def)
    consider "x \<in> set (cn_counts s)" "y \<in> set (cn_counts s)" | "x = c" "y \<in> set (cn_counts s)" | "y = c" "x \<in> set (cn_counts s)"
      using x(1,2,5) by auto
    then show "products_of x \<inter> products_of y = {}"
    proof cases
      case 1
      then show ?thesis using s x by (simp add: counts_ok_def apart_def)
    next
      case 2
      then show ?thesis using free [of y] x(4) r(8) by simp
    next
      case 3
      then show ?thesis using free [of x] x(3) r(8) st by auto
    qed
  qed
  then show "counts_ok t \<and> counts_later s t"
    using s ok new t by (auto simp: counts_ok_def counts_later_def intro: count_later_refl)
qed

text \<open>The writes of a start change expected quantities only.\<close>

lemma frozen_fold:
  "\<exists>e. cn_counts (fold (\<lambda>l. line_update i (cl_id l) (\<lambda>r. r\<lparr>cl_expectedQuantity := g l\<rparr>)) ls s)
     = map (\<lambda>c. if ct_id c = i then c\<lparr>ct_lines := map (\<lambda>r. r\<lparr>cl_expectedQuantity := e (cl_id r) (cl_expectedQuantity r)\<rparr>) (ct_lines c)\<rparr> else c) (cn_counts s)"
proof (induction ls arbitrary: s)
  case Nil
  have "c\<lparr>ct_lines := map (\<lambda>r. r\<lparr>cl_expectedQuantity := cl_expectedQuantity r\<rparr>) (ct_lines c)\<rparr> = c" for c :: stock_count by simp
  then show ?case by (intro exI [of _ "\<lambda>i q. q"]) (auto intro!: sym [OF map_idI])
next
  case (Cons l ls)
  let ?s = "line_update i (cl_id l) (\<lambda>r. r\<lparr>cl_expectedQuantity := g l\<rparr>) s"
  obtain e where e: "cn_counts (fold (\<lambda>l. line_update i (cl_id l) (\<lambda>r. r\<lparr>cl_expectedQuantity := g l\<rparr>)) ls ?s)
     = map (\<lambda>c. if ct_id c = i then c\<lparr>ct_lines := map (\<lambda>r. r\<lparr>cl_expectedQuantity := e (cl_id r) (cl_expectedQuantity r)\<rparr>) (ct_lines c)\<rparr> else c) (cn_counts ?s)"
    using Cons by blast
  have two: "map (\<lambda>r. r\<lparr>cl_expectedQuantity := e (cl_id r) (cl_expectedQuantity r)\<rparr>) (upd_row cl_id (cl_id l) (\<lambda>r. r\<lparr>cl_expectedQuantity := g l\<rparr>) rs)
      = map (\<lambda>r. r\<lparr>cl_expectedQuantity := e (cl_id r) (if cl_id r = cl_id l then g l else cl_expectedQuantity r)\<rparr>) rs" for rs
    by (simp add: upd_row_def)
  show ?case
    by (intro exI [of _ "\<lambda>j q. e j (if j = cl_id l then g l else q)"])
      (simp add: e line_update_counts two)
qed

lemma start_kept:
  assumes "counts_later s0 s" "start_tx now actor i s0 s = Inr t"
  shows "kept s t"
  unfolding kept_def
proof
  assume s: "counts_ok s"
  obtain c where c: "loadCount actor i s0 = Inr c" using assms(2) unfolding start_tx_def by (rule bindE_InrE)
  let ?s1 = "fold (\<lambda>l. line_update i (cl_id l) (\<lambda>r. r\<lparr>cl_expectedQuantity := cl_expectedQuantity (frozen_line (cn_core s0) l)\<rparr>)) (ct_lines c) s"
  obtain s2 where s2: "count_claim i (\<lambda>x. ct_status x = CountDRAFT) (\<lambda>x. x\<lparr>ct_status := CountIN_PROGRESS, ct_startedAt := Some now\<rparr>)
       ''Count was started by someone else'' ?s1 = Inr s2" "cn_counts t = cn_counts s2"
    using assms(2) by (auto simp: start_tx_def c Let_def bindE_Inr_iff split: if_splits)
  obtain ex where ex: "cn_counts ?s1 = map (\<lambda>c. if ct_id c = i then c\<lparr>ct_lines := map (\<lambda>r. r\<lparr>cl_expectedQuantity := ex (cl_id r) (cl_expectedQuantity r)\<rparr>) (ct_lines c)\<rparr> else c) (cn_counts s)"
    using frozen_fold [of i "\<lambda>l. cl_expectedQuantity (frozen_line (cn_core s0) l)" "ct_lines c" s] by blast
  define up where "up = (\<lambda>c. c\<lparr>ct_lines := map (\<lambda>r. r\<lparr>cl_expectedQuantity := ex (cl_id r) (cl_expectedQuantity r)\<rparr>) (ct_lines c)\<rparr> :: stock_count)"
  have e: "cn_counts ?s1 = map (\<lambda>c. if ct_id c = i then up c else c) (cn_counts s)" unfolding ex up_def ..
  have up: "\<exists>e. up c = c\<lparr>ct_lines := map (\<lambda>r. r\<lparr>cl_expectedQuantity := e r\<rparr>) (ct_lines c)\<rparr>" for c
    unfolding up_def by (rule exI) (rule refl)
  have same: "ct_id (up c) = ct_id c" "ct_status (up c) = ct_status c" for c using up [of c] by auto
  let ?g = "\<lambda>c. if ct_id c = i then (if ct_status c = CountDRAFT then (up c)\<lparr>ct_status := CountIN_PROGRESS, ct_startedAt := Some now\<rparr> else up c) else c"
  note cl = count_claim_Inr [OF s2(1)]
  have t: "cn_counts t = map ?g (cn_counts s)"
    unfolding s2(2) cl(5) e map_map by (rule map_cong [OF refl]) (simp add: same)
  have draft: "ct_status d = CountDRAFT" if "d \<in> set (cn_counts s)" "ct_id d = i" for d
  proof -
    obtain x where x: "x \<in> set (cn_counts ?s1)" "ct_id x = i" "ct_status x = CountDRAFT" using cl(6) by blast
    obtain d' where d': "d' \<in> set (cn_counts s)" "x = (if ct_id d' = i then up d' else d')"
      using x(1) unfolding e set_map by blast
    then have "ct_id d' = i" "ct_status d' = CountDRAFT" using x(2,3) same [of d'] by (simp_all split: if_splits)
    note d' = d'(1) this
    then have "d' = d" using same_count [OF s] that by blast
    then show ?thesis using d'(3) by simp
  qed
  show "counts_ok t \<and> counts_later s t"
  proof (rule rewritten_ok [OF s t])
    fix d assume d: "d \<in> set (cn_counts s)"
    have ok: "count_ok d" using s d by (simp add: counts_ok_def)
    show "count_later d (?g d) \<and> count_ok (?g d)"
    proof (cases "ct_id d = i")
      case True
      have pend: "\<forall>l \<in> set (ct_lines d). cl_status l = LinePENDING \<and> line_ok l" "ct_approvedAt d = None"
        using ok draft [OF d True] by (auto simp: count_ok_def)
      obtain e where u: "up d = d\<lparr>ct_lines := map (\<lambda>r. r\<lparr>cl_expectedQuantity := e r\<rparr>) (ct_lines d)\<rparr>" using up by blast
      have "list_all2 line_later (ct_lines d) (map (\<lambda>r. r\<lparr>cl_expectedQuantity := e r\<rparr>) (ct_lines d))"
        by (simp add: list_all2_map2 list_all2_refl line_later_def line_open_def)
      then show ?thesis
        using ok draft [OF d True] pend True u
        by (auto simp: count_later_def count_ok_def openCountWhere_def comp_def line_ok_def)
    qed (simp add: ok count_later_refl)
  qed
qed

text \<open>A submission writes one line, whose expected quantity is the one read.\<close>

lemma counted_line_ok:
  assumes "line_ok r" "cl_status r = (if isR then LineRECOUNT_REQUIRED else LinePENDING)" "cl_expectedQuantity r = e" "0 \<le> n"
  shows "line_ok (counted_line dv st a n t key e q u isR r)"
proof -
  have "\<not> exceedsRecountThreshold dv st q 0 x" for x by (simp add: exceedsRecountThreshold_def)
  then show ?thesis using assms by (auto simp: line_ok_def counted_line_def Let_def)
qed

lemma upd_row_later:
  assumes "distinct (map key xs)" "find_row key i xs = Some r" "P r (f r)" "\<And>x. P x x"
  shows "list_all2 P xs (upd_row key i f xs)"
proof -
  have "P x (if key x = i then f x else x)" if "x \<in> set xs" for x
  proof (cases "key x = i")
    case True
    then have "x = r" using distinct_mapD [OF assms(1) that] find_row_SomeD [OF assms(2)] by simp
    then show ?thesis using True assms(3) by simp
  qed (simp add: assms(4))
  then show ?thesis by (simp add: upd_row_def list_all2_map2 list_all2_same)
qed

lemma later_expected:
  assumes "count_later c d" "ct_status c \<noteq> CountDRAFT" "distinct (map cl_id (ct_lines d))" "find_row cl_id i (ct_lines c) = Some l"
    "find_row cl_id i (ct_lines d) = Some r"
  shows "cl_expectedQuantity r = cl_expectedQuantity l"
proof -
  have l2: "list_all2 line_later (ct_lines c) (ct_lines d)"
    and ex: "map cl_expectedQuantity (ct_lines d) = map cl_expectedQuantity (ct_lines c)"
    using assms(1,2) by (simp_all add: count_later_def)
  obtain n where n: "n < length (ct_lines c)" "ct_lines c ! n = l"
    using find_row_SomeD [OF assms(4)] by (auto simp: in_set_conv_nth)
  have len: "length (ct_lines d) = length (ct_lines c)" using l2 by (simp add: list_all2_lengthD)
  have "cl_id (ct_lines d ! n) = i"
    using list_all2_nthD [OF l2 n(1)] find_row_SomeD [OF assms(4)] n(2) by (simp add: line_later_def)
  moreover have "ct_lines d ! n \<in> set (ct_lines d)" using n(1) len by simp
  ultimately have "ct_lines d ! n = r" using distinct_mapD [OF assms(3)] find_row_SomeD [OF assms(5)] by simp
  moreover have "map cl_expectedQuantity (ct_lines d) ! n = map cl_expectedQuantity (ct_lines c) ! n" using ex by simp
  ultimately show ?thesis using n len by simp
qed

lemma submit_kept:
  assumes later: "counts_later s0 s" and run: "submitCountLine dv now actor cid lid q sub s0 s = Inr (t, r)"
  shows "kept s t"
  unfolding kept_def
proof
  assume s: "counts_ok s"
  show "counts_ok t \<and> counts_later s t"
  proof (cases rule: submit_InrE [OF run])
    case 1
    then show ?thesis using s by (auto simp: counts_later_def intro: count_later_refl)
  next
    case (2 c l isRecount k n wr s1)
    obtain d w where d: "find_count cid s = Some d" "find_row cl_id (cl_id l) (ct_lines d) = Some w" "cl_status w = cl_status l"
        "s1 = line_update cid (cl_id l) wr s"
      by (rule claim_lineD [OF 2(8)])
    note cl = countable_lineD [OF 2(5)]
    have dm: "d \<in> set (cn_counts s)" "ct_id d = cid" using find_count_mem [OF d(1)] by simp_all
    have dok: "count_ok d" using s dm(1) by (simp add: counts_ok_def)
    have cd: "count_later c d" by (rule later_count_row [OF s later loadCount_found [OF 2(1)] dm])
    have notdraft: "ct_status c \<noteq> CountDRAFT" using cl(1) by simp
    have ex: "cl_expectedQuantity w = cl_expectedQuantity l"
      by (rule later_expected [OF cd notdraft _ cl(2)]) (use dok d(2) cl(3) in \<open>simp_all add: count_ok_def\<close>)
    have wm: "w \<in> set (ct_lines d)" "cl_id w = lid" using find_row_SomeD [OF d(2)] cl(3) by simp_all
    have wok: "line_ok w" using dok wm(1) by (simp add: count_ok_def)
    have st: "cl_status w = (if isRecount then LineRECOUNT_REQUIRED else LinePENDING)" using cl(4,5) d(3) by auto
    have opn: "line_open w" using st by (auto simp: line_open_def)
    have wr: "cl_id (wr x) = cl_id x" "cl_productId (wr x) = cl_productId x" "cl_lotId (wr x) = cl_lotId x"
      "cl_expectedQuantity (wr x) = cl_expectedQuantity x" for x by (simp_all add: 2(7))
    have new: "line_ok (wr w)" unfolding 2(7) by (rule counted_line_ok [OF wok st ex 2(3)])
    define g where "g = (\<lambda>x. if ct_id x = cid then (if truthy (ct_countedByUserId c)
        then x\<lparr>ct_lines := upd_row cl_id lid wr (ct_lines x)\<rparr>
        else x\<lparr>ct_lines := upd_row cl_id lid wr (ct_lines x), ct_countedByUserId := Some (au_id actor)\<rparr>) else x :: stock_count)"
    have t: "cn_counts t = map g (cn_counts s)"
      by (auto simp: 2(10) d(4) line_update_counts upd_row_def cl(3) g_def)
    show ?thesis
    proof (rule rewritten_ok [OF s t])
      fix x assume x: "x \<in> set (cn_counts s)"
      have xok: "count_ok x" using s x by (simp add: counts_ok_def)
      show "count_later x (g x) \<and> count_ok (g x)"
      proof (cases "ct_id x = cid")
        case True
        then have xd: "x = d" using same_count [OF s x dm(1)] dm(2) by simp
        let ?ls = "upd_row cl_id lid wr (ct_lines d)"
        have fl: "find_row cl_id lid (ct_lines d) = Some w" using d(2) cl(3) by simp
        have dist: "distinct (map cl_id (ct_lines d))" using dok by (simp add: count_ok_def)
        have l2: "list_all2 line_later (ct_lines d) ?ls"
          by (rule upd_row_later [OF dist fl]) (simp_all add: line_later_def wr opn)
        have maps: "map cl_id ?ls = map cl_id (ct_lines d)" "map cl_lotId ?ls = map cl_lotId (ct_lines d)"
          "map cl_expectedQuantity ?ls = map cl_expectedQuantity (ct_lines d)"
          by (simp_all add: upd_row_def wr)
        have inj: "x = w" if "x \<in> set (ct_lines d)" "cl_id x = lid" for x
          by (rule distinct_mapD [OF dist]) (use that wm in simp_all)
        have ok: "line_ok y" if y: "y \<in> set ?ls" for y
        proof -
          obtain z :: count_line where z: "z \<in> set (ct_lines d)" "y = (if cl_id z = lid then wr z else z)"
            using y unfolding in_upd_row by blast
          show ?thesis using z inj [of z] new dok by (auto simp: count_ok_def)
        qed
        have dst: "ct_status d \<noteq> CountDRAFT" using cd notdraft by (simp add: count_later_def)
        have dnc: "ct_status d \<noteq> CountCOMPLETED" using dok wm(1) opn by (auto simp: count_ok_def)
        have same: "ct_id (g d) = ct_id d" "ct_storeId (g d) = ct_storeId d" "ct_status (g d) = ct_status d"
          "ct_approvedAt (g d) = ct_approvedAt d" "ct_lines (g d) = ?ls"
          by (simp_all add: g_def dm(2))
        have "count_later d (g d)"
          unfolding count_later_def same using l2 maps(3) dst by (simp add: openCountWhere_def same)
        moreover have "count_ok (g d)"
          unfolding count_ok_def same maps(1,2) using ok dok dst dnc by (auto simp: count_ok_def)
        ultimately show ?thesis by (simp add: xd)
      qed (simp add: g_def count_later_refl xok)
    qed
  qed
qed

text \<open>A conditional update of the count alone: its status and its times.\<close>

lemma claim_kept:
  assumes "count_claim i P f msg s = Inr t" "counts_ok s"
    "\<And>c. c \<in> set (cn_counts s) \<Longrightarrow> ct_id c = i \<Longrightarrow> P c \<Longrightarrow> count_later c (f c) \<and> count_ok (f c)"
  shows "counts_ok t \<and> counts_later s t"
proof (rule rewritten_ok [OF assms(2) count_claim_Inr(5) [OF assms(1)]])
  fix c assume c: "c \<in> set (cn_counts s)"
  have "count_ok c" using assms(2) c by (simp add: counts_ok_def)
  then show "count_later c (if ct_id c = i \<and> P c then f c else c) \<and> count_ok (if ct_id c = i \<and> P c then f c else c)"
    using assms(3) [OF c] count_later_refl by simp
qed

lemma complete_kept:
  assumes later: "counts_later s0 s" and run: "complete_tx now actor i s0 s = Inr t"
  shows "kept s t"
  unfolding kept_def
proof
  assume s: "counts_ok s"
  obtain c where c: "loadCount actor i s0 = Inr c" using run unfolding complete_tx_def by (rule bindE_InrE)
  have g: "ct_status c = CountIN_PROGRESS" "\<not> list_ex line_open (ct_lines c)"
    using run by (auto simp: complete_tx_def c split: if_splits)
  obtain s1 where s1: "count_claim i (\<lambda>x. ct_status x = CountIN_PROGRESS)
           (\<lambda>x. x\<lparr>ct_status := CountCOMPLETED, ct_completedAt := Some now\<rparr>) ''Count was completed by someone else'' s = Inr s1"
      "cn_counts t = cn_counts s1"
    using run by (auto simp: complete_tx_def c g bindE_Inr_iff)
  have "counts_ok s1 \<and> counts_later s s1"
  proof (rule claim_kept [OF s1(1) s])
    fix d assume d: "d \<in> set (cn_counts s)" "ct_id d = i" "ct_status d = CountIN_PROGRESS"
    have cd: "count_later c d" by (rule later_count_row [OF s later loadCount_found [OF c] d(1,2)])
    have "list_all2 line_later (ct_lines c) (ct_lines d)" using cd by (simp add: count_later_def)
    then have "\<forall>l \<in> set (ct_lines d). \<not> line_open l" using g(2)
      by (induction rule: list_all2_induct) (auto simp: line_later_def)
    then show "count_later d (d\<lparr>ct_status := CountCOMPLETED, ct_completedAt := Some now\<rparr>)
        \<and> count_ok (d\<lparr>ct_status := CountCOMPLETED, ct_completedAt := Some now\<rparr>)"
      using s d by (auto simp: counts_ok_def count_ok_def count_later_def list_all2_refl line_later_refl openCountWhere_def)
  qed
  then show "counts_ok t \<and> counts_later s t" by (simp add: counts_ok_def counts_later_def s1(2))
qed

lemma cancel_kept:
  assumes run: "cancel_tx actor i s0 s = Inr t"
  shows "kept s t"
  unfolding kept_def
proof
  assume s: "counts_ok s"
  obtain c where c: "loadCount actor i s0 = Inr c" using run unfolding cancel_tx_def by (rule bindE_InrE)
  obtain s1 where s1: "count_claim i (\<lambda>x. ct_status x = ct_status c \<and> ct_approvedAt x = None)
           (\<lambda>x. x\<lparr>ct_status := CountCANCELLED\<rparr>) ''Count changed while cancelling; try again'' s = Inr s1"
      "cn_counts t = cn_counts s1"
    using run by (auto simp: cancel_tx_def c bindE_Inr_iff split: if_splits)
  have "counts_ok s1 \<and> counts_later s s1"
  proof (rule claim_kept [OF s1(1) s])
    fix d assume d: "d \<in> set (cn_counts s)" "ct_status d = ct_status c \<and> ct_approvedAt d = None"
    then show "count_later d (d\<lparr>ct_status := CountCANCELLED\<rparr>) \<and> count_ok (d\<lparr>ct_status := CountCANCELLED\<rparr>)"
      using s by (auto simp: counts_ok_def count_ok_def count_later_def list_all2_refl line_later_refl openCountWhere_def)
  qed
  then show "counts_ok t \<and> counts_later s t" by (simp add: counts_ok_def counts_later_def s1(2))
qed

text \<open>An approval writes the approver and reasons, which well-formedness does not look at.\<close>

lemma bare_ok:
  "count_ok (bare c) = count_ok c" "count_later c (bare c)" "count_later (bare c) c"
proof -
  have l: "line_ok (l\<lparr>cl_reasonCode := r\<rparr>) = line_ok l" "line_open (l\<lparr>cl_reasonCode := r\<rparr>) = line_open l" for l :: count_line and r
    by (cases "cl_status l"; simp add: line_ok_def line_open_def)+
  show "count_ok (bare c) = count_ok c" by (simp add: count_ok_def bare_def comp_def l)
  show "count_later c (bare c)" "count_later (bare c) c"
    by (simp_all add: count_later_def bare_def comp_def list_all2_map1 list_all2_map2 list_all2_refl line_later_def l openCountWhere_def)
qed

lemma approve_kept:
  assumes run: "approveCount dev now actor i opts s0 s = Inr (t, v)"
  shows "kept s t"
  unfolding kept_def
proof
  assume s: "counts_ok s"
  obtain c :: stock_count and s1 r r' where a: "count_claim i (\<lambda>x. ct_status x = CountCOMPLETED \<and> ct_approvedAt x = None)
       (\<lambda>x. x\<lparr>ct_approvedByUserId := Some (au_id actor), ct_approvedAt := Some now\<rparr>) ''Count was approved by someone else'' s = Inr s1"
    "av_db r = s1" "forE (filter has_variance (case find_count i s1 of None \<Rightarrow> [] | Some x \<Rightarrow> ct_lines x))
       (approve_line dev actor i (ct_storeId c) opts) r = Inr r'"
    "t = cn_audit (Some (au_id actor)) (Some (ct_storeId c)) ''STOCK_COUNT_APPROVE'' ''StockCount'' i (av_db r')"
    by (rule approveCount_InrE [OF run]) (rule that)
  have s1: "counts_ok s1 \<and> counts_later s s1"
  proof (rule claim_kept [OF a(1) s])
    fix d assume d: "d \<in> set (cn_counts s)" "ct_status d = CountCOMPLETED \<and> ct_approvedAt d = None"
    then show "count_later d (d\<lparr>ct_approvedByUserId := Some (au_id actor), ct_approvedAt := Some now\<rparr>)
        \<and> count_ok (d\<lparr>ct_approvedByUserId := Some (au_id actor), ct_approvedAt := Some now\<rparr>)"
      using s by (auto simp: counts_ok_def count_ok_def count_later_def list_all2_refl line_later_refl openCountWhere_def)
  qed
  have bare: "map bare (cn_counts t) = map bare (cn_counts s1)" using approve_loop_bare [OF a(3)] by (simp add: a(4,2))
  let ?n = "length (cn_counts s1)"
  have len: "length (cn_counts t) = ?n" using arg_cong [OF bare, of length] by simp
  have each: "count_later (cn_counts s1 ! k) (cn_counts t ! k) \<and> count_ok (cn_counts t ! k)" if k: "k < ?n" for k
  proof -
    have b: "bare (cn_counts t ! k) = bare (cn_counts s1 ! k)"
      using arg_cong [OF bare, of "\<lambda>xs. xs ! k"] k len by simp
    have "count_ok (cn_counts s1 ! k)" using s1 k by (simp add: counts_ok_def)
    then have "count_ok (cn_counts t ! k)" using bare_ok(1) [of "cn_counts t ! k"] bare_ok(1) [of "cn_counts s1 ! k"] b by simp
    moreover have "count_later (cn_counts s1 ! k) (cn_counts t ! k)"
      using count_later_trans [OF bare_ok(2) bare_ok(3) [of "cn_counts t ! k", unfolded b]] .
    ultimately show ?thesis by simp
  qed
  define g where "g = (\<lambda>c. cn_counts t ! (LEAST k. k < ?n \<and> cn_counts s1 ! k = c))"
  have g: "g (cn_counts s1 ! k) = cn_counts t ! k" if "k < ?n" for k
  proof -
    have "distinct (cn_counts s1)" using s1 by (simp add: counts_ok_def distinct_map)
    then have "(LEAST j. j < ?n \<and> cn_counts s1 ! j = cn_counts s1 ! k) = k"
      using that by (intro Least_equality) (auto simp: nth_eq_iff_index_eq)
    then show ?thesis by (simp add: g_def)
  qed
  have t: "cn_counts t = map g (cn_counts s1)" by (rule nth_equalityI) (simp_all add: len g)
  have "counts_ok t \<and> counts_later s1 t"
  proof (rule rewritten_ok [OF _ t])
    show "counts_ok s1" using s1 by simp
    fix c assume "c \<in> set (cn_counts s1)"
    then obtain k where "k < ?n" "c = cn_counts s1 ! k" by (auto simp: in_set_conv_nth)
    then show "count_later c (g c) \<and> count_ok (g c)" using each g by simp
  qed
  then show "counts_ok t \<and> counts_later s t" using s1 counts_later_trans by blast
qed

interpretation counts: overtaking counts_ok counts_later
proof unfold_locales
  show "counts_later s s" for s by (auto simp: counts_later_def intro: count_later_refl)
  show "counts_later a c" if "counts_later a b" "counts_later b c" for a b c using that by (rule counts_later_trans)
qed

lemma keptD: "kept s t \<Longrightarrow> counts_ok s \<Longrightarrow> counts_ok t \<and> counts_later s t"
  by (simp add: kept_def)

lemma run_kept: "run a s \<Longrightarrow> counts_ok a \<Longrightarrow> counts_ok s \<and> counts_later a s"
proof (induction rule: run.induct)
  case (here a)
  then show ?case by (auto simp: counts_later_def intro: count_later_refl)
next
  case (shop a s t)
  then show ?case by (simp add: counts_ok_def counts_later_def)
next
  case (insert a s now i f d t c)
  show ?case by (rule counts.step [OF insert.IH [OF insert.prems]]) (rule keptD [OF insert_kept [OF insert.hyps(2)]])
next
  case (start a s0 s now actor i t)
  show ?case by (rule counts.overtaken_step [OF start.IH start.prems]) (assumption | rule keptD start_kept [OF _ start.hyps(3)])+
next
  case (submit a s0 s dv now actor i lid q sub t r)
  show ?case by (rule counts.overtaken_step [OF submit.IH submit.prems]) (assumption | rule keptD submit_kept [OF _ submit.hyps(3)])+
next
  case (complete a s0 s now actor i t)
  show ?case by (rule counts.overtaken_step [OF complete.IH complete.prems]) (assumption | rule keptD complete_kept [OF _ complete.hyps(3)])+
next
  case (cancel a s0 s actor i t)
  show ?case by (rule counts.overtaken_step [OF cancel.IH cancel.prems]) (assumption | rule keptD cancel_kept [OF cancel.hyps(3)])+
next
  case (approve a s0 s dev now actor i opts t v)
  show ?case by (rule counts.overtaken_step [OF approve.IH approve.prems]) (assumption | rule keptD approve_kept [OF approve.hyps(3)])+
qed

text \<open>
  C10: the figures of a count never disagree with its status. In every history, under any
  interleaving of reads and commits, a line's figures are those its status promises: a counted line has a
  figure that is not negative and a variance that is the final figure less the units expected at that
  moment, a completed count has no line left to count, and only completed counts are approved.
\<close>

theorem counts_stay_well_formed:
  assumes "cn_counts a = []" "run a s" "c \<in> set (cn_counts s)"
  shows "(\<forall>l \<in> set (ct_lines c). line_ok l)
    \<and> (ct_status c = CountCOMPLETED \<longrightarrow> (\<forall>l \<in> set (ct_lines c). cl_status l = LineCOUNTED \<or> cl_status l = LineRESOLVED))
    \<and> (ct_approvedAt c \<noteq> None \<longrightarrow> ct_status c = CountCOMPLETED)"
proof -
  have "counts_ok a" by (simp add: counts_ok_def apart_def assms(1))
  then have "count_ok c" using run_kept [OF assms(2)] assms(3) by (simp add: counts_ok_def)
  then show ?thesis by (auto simp: count_ok_def line_open_def)
qed

text \<open>
  C14: no product is on two open counts of a store, in any history that starts without counts.
\<close>

theorem no_product_on_two_open_counts:
  assumes "cn_counts a = []" "run a s" "c \<in> set (cn_counts s)" "d \<in> set (cn_counts s)" "ct_id c \<noteq> ct_id d"
    "openCountWhere storeId c" "openCountWhere storeId d" "l \<in> set (ct_lines c)" "m \<in> set (ct_lines d)"
  shows "cl_productId l \<noteq> cl_productId m"
proof -
  have "counts_ok a" by (simp add: counts_ok_def apart_def assms(1))
  then have "apart (cn_counts s)" using run_kept [OF assms(2)] by (simp add: counts_ok_def)
  moreover have "ct_storeId c = storeId" using assms(6) by (simp add: openCountWhere_def)
  ultimately have "products_of c \<inter> products_of d = {}" using assms by (simp add: apart_def)
  then show ?thesis using assms(8,9) by (auto simp: products_of_def)
qed

end
