(* ===== verification/Count_Schedule.thy ===== *)
theory Count_Schedule
  imports
    Count_Proofs "HOL-Library.Multiset"
begin

text \<open>
  The choice of the products of a cycle count and the job that drafts the counts.
\<close>

section \<open>The selection\<close>

definition flagged_candidate :: "cycle_candidate \<Rightarrow> bool" where
  "flagged_candidate c \<longleftrightarrow> VARIANCE_LAST_COUNT \<in> set (cyc_reasons c) \<or> NEAR_EXPIRY \<in> set (cyc_reasons c)"

definition better_candidate :: "cycle_candidate \<Rightarrow> cycle_candidate \<Rightarrow> bool" where
  "better_candidate a b \<longleftrightarrow> flagged_candidate a \<and> \<not> flagged_candidate b
     \<or> flagged_candidate a = flagged_candidate b \<and> (cyc_score a > cyc_score b \<or> cyc_score a = cyc_score b \<and> cyc_productId a \<le> cyc_productId b)"

lemma flagged_candidate_of: "flagged_candidate (candidate_of rk risk lst pid sold) \<longleftrightarrow> is_flagged risk lst"
  by (auto simp: flagged_candidate_def candidate_of_def candidate_reasons_def is_flagged_def split: option.splits bool.splits)

lemma rank_key_le:
  assumes "rank_key (fl, a) \<le> rank_key (fl', b)" "fl = flagged_candidate a" "fl' = flagged_candidate b"
  shows "better_candidate a b"
  using assms by (auto simp: rank_key_def better_candidate_def less_eq_prod_def)

lemma ranked_flags: "(fl, c) \<in> set (ranked_candidates now storeId s) \<Longrightarrow> fl = flagged_candidate c"
  by (auto simp: ranked_candidates_def Let_def flagged_candidate_of)

lemma ranked_sorted: "sorted_wrt better_candidate (map snd (ranked_candidates now storeId s))"
proof -
  have "sorted (map rank_key (ranked_candidates now storeId s))"
    unfolding ranked_candidates_def Let_def by simp
  then have "sorted_wrt (\<lambda>x y. rank_key x \<le> rank_key y) (ranked_candidates now storeId s)" by (simp add: sorted_map)
  then have "sorted_wrt (\<lambda>x y. better_candidate (snd x) (snd y)) (ranked_candidates now storeId s)"
  proof (rule sorted_wrt_mono_rel [rotated])
    fix x y assume "x \<in> set (ranked_candidates now storeId s)" "y \<in> set (ranked_candidates now storeId s)" "rank_key x \<le> rank_key y"
    then show "better_candidate (snd x) (snd y)"
      using rank_key_le [of "fst x" "snd x" "fst y" "snd y"] ranked_flags [of "fst x" "snd x"] ranked_flags [of "fst y" "snd y"] by simp
  qed
  then show ?thesis by (simp add: sorted_wrt_map)
qed

lemma map_sort_key_set: "set (map f (sort_key k xs)) = f ` set xs" by simp

lemma ranked_products:
  "set (map (cyc_productId \<circ> snd) (ranked_candidates now storeId s))
     = {i \<in> set (wanted_products now storeId s). \<not> on_open_count storeId s i}"
  "distinct (map (cyc_productId \<circ> snd) (ranked_candidates now storeId s))"
proof -
  let ?ids = "filter (\<lambda>i. \<not> on_open_count storeId s i) (wanted_products now storeId s)"
  let ?row = "\<lambda>i. (is_flagged (cycle_risk now storeId s i) (last_count storeId s i),
      candidate_of (cycle_ranking now storeId s) (cycle_risk now storeId s i) (last_count storeId s i) i (cycle_sold now storeId s i))"
  have r: "ranked_candidates now storeId s = sort_key rank_key (map ?row ?ids)" by (simp add: ranked_candidates_def Let_def)
  have id: "(cyc_productId \<circ> snd) (?row i) = i" for i by (simp add: candidate_of_def)
  show "set (map (cyc_productId \<circ> snd) (ranked_candidates now storeId s))
     = {i \<in> set (wanted_products now storeId s). \<not> on_open_count storeId s i}"
    unfolding r by (force simp: id image_image candidate_of_def)
  have "mset (map (cyc_productId \<circ> snd) (ranked_candidates now storeId s)) = mset (map (cyc_productId \<circ> snd) (map ?row ?ids))"
    unfolding r mset_map by simp
  also have "map (cyc_productId \<circ> snd) (map ?row ?ids) = ?ids" by (simp add: comp_def candidate_of_def)
  finally have "distinct (map (cyc_productId \<circ> snd) (ranked_candidates now storeId s)) = distinct ?ids"
    using mset_eq_imp_distinct_iff by blast
  then show "distinct (map (cyc_productId \<circ> snd) (ranked_candidates now storeId s))"
    by (simp add: wanted_products_def countable_products_def Let_def)
qed

lemma ranked_length: "length (ranked_candidates now storeId s) \<le> length (countable_products storeId s)"
proof -
  have "length (ranked_candidates now storeId s) \<le> length (wanted_products now storeId s)"
    by (simp add: ranked_candidates_def Let_def)
  also have "\<dots> \<le> length (countable_products storeId s)" by (simp add: wanted_products_def Let_def)
  finally show ?thesis .
qed

text \<open>
  C15: a cycle count goes where the risk is. The schedule holds at most the configured number of distinct
  products, each with a lot to count and none on an open count; flagged products come first, then higher
  scores; and unless something is deferred it misses no product with a countable lot that was never counted
  or has an active lot near its expiry, except those already on an open count.
\<close>

theorem cycle_schedule_by_risk:
  fixes s :: count_db
  shows "let sch = generateCycleCountSchedule now storeId s in
      length (sch_selected sch) \<le> nat (cs_cycleCountSize (cn_settings s))
    \<and> distinct (map cyc_productId (sch_selected sch))
    \<and> sorted_wrt better_candidate (sch_selected sch)
    \<and> (\<forall>c \<in> set (sch_selected sch). \<not> on_open_count storeId s (cyc_productId c)
         \<and> (\<exists>l \<in> set (db_lots (cn_core s)). countableLotWhere storeId None l \<and> l_productId l = cyc_productId c))
    \<and> (\<forall>l \<in> set (db_lots (cn_core s)). sch_dueButDeferred sch = 0 \<longrightarrow> countableLotWhere storeId None l
         \<longrightarrow> \<not> on_open_count storeId s (l_productId l)
         \<longrightarrow> last_count storeId s (l_productId l) = None \<or> near_expiry_lot (now + NEAR_EXPIRY_DAYS * day_ms) l
         \<longrightarrow> l_productId l \<in> cyc_productId ` set (sch_selected sch))"
  unfolding Let_def
proof (intro conjI ballI impI)
  let ?r = "ranked_candidates now storeId s" and ?n = "nat (cs_cycleCountSize (cn_settings s))"
  let ?sch = "generateCycleCountSchedule now storeId s"
  have sel: "sch_selected ?sch = map snd (take ?n ?r)" by (simp add: generateCycleCountSchedule_def Let_def)
  have part: "take ?n (map f ?r) = map f (take ?n ?r)" for f :: "bool \<times> cycle_candidate \<Rightarrow> 'x" by (rule take_map)
  show "length (sch_selected ?sch) \<le> ?n" by (simp add: sel)
  have "distinct (take ?n (map (cyc_productId \<circ> snd) ?r))" using ranked_products(2) by (rule distinct_take)
  then show "distinct (map cyc_productId (sch_selected ?sch))" by (simp add: sel take_map comp_def)
  show "sorted_wrt better_candidate (sch_selected ?sch)"
    using sorted_wrt_take [OF ranked_sorted, of ?n] by (simp add: sel take_map)
  fix c assume "c \<in> set (sch_selected ?sch)"
  then have "c \<in> snd ` set ?r" by (auto simp: sel dest: in_set_takeD)
  then have "cyc_productId c \<in> set (map (cyc_productId \<circ> snd) ?r)" by (auto simp: image_comp [symmetric])
  then have c: "cyc_productId c \<in> set (wanted_products now storeId s)" "\<not> on_open_count storeId s (cyc_productId c)"
    unfolding ranked_products(1) by simp_all
  then show "\<not> on_open_count storeId s (cyc_productId c)" by simp
  show "\<exists>l \<in> set (db_lots (cn_core s)). countableLotWhere storeId None l \<and> l_productId l = cyc_productId c"
    using c(1) by (auto simp: wanted_products_def countable_products_def Let_def)
next
  let ?sch = "generateCycleCountSchedule now storeId s"
  let ?r = "ranked_candidates now storeId s" and ?n = "nat (cs_cycleCountSize (cn_settings s))"
  fix l assume l: "l \<in> set (db_lots (cn_core s))" "sch_dueButDeferred ?sch = 0" "countableLotWhere storeId None l"
    "\<not> on_open_count storeId s (l_productId l)"
    "last_count storeId s (l_productId l) = None \<or> near_expiry_lot (now + NEAR_EXPIRY_DAYS * day_ms) l"
  have "int (length ?r) \<le> cs_cycleCountSize (cn_settings s)"
    using l(2) by (simp add: generateCycleCountSchedule_def Let_def)
  then have sel: "sch_selected ?sch = map snd ?r" by (simp add: generateCycleCountSchedule_def Let_def)
  have "pr_nearExpiry (cycle_risk now storeId s (l_productId l))" if "near_expiry_lot (now + NEAR_EXPIRY_DAYS * day_ms) l"
    using that l(1,3) by (auto simp: cycle_risk_def risk_of_def list_ex_iff)
  then have "l_productId l \<in> set (wanted_products now storeId s)"
    using l(1,3,5) by (auto simp: wanted_products_def countable_products_def Let_def is_due_def is_flagged_def)
  then have "l_productId l \<in> set (map (cyc_productId \<circ> snd) ?r)" unfolding ranked_products(1) using l(4) by simp
  then show "l_productId l \<in> cyc_productId ` set (sch_selected ?sch)" by (simp add: sel image_comp)
qed

section \<open>The job\<close>

lemma insertCount_InrE:
  assumes "insertCount now i f d s = Inr (t, c)"
  shows "cn_counts t = cn_counts s @ [c]" "ct_id c = i" "ct_storeId c = nc_storeId d" "ct_type c = nc_type d"
    "ct_status c = CountDRAFT" "ct_createdAt c = now" "cn_settings t = cn_settings s" "ct_approvedAt c = None"
    "cn_core t = writeAuditLog (nc_createdByUserId d) (Some (nc_storeId d)) ''STOCK_COUNT_CREATE'' ''StockCount'' (Some i) (cn_core s)"
  using assms by (auto simp: insertCount_def Let_def bindE_Inr_iff create_row_def cn_core_def cn_audit_def cn_set_def split: if_splits)

definition recent_cycle :: "time \<Rightarrow> ident \<Rightarrow> stock_count \<Rightarrow> bool" where
  "recent_cycle notBefore storeId c \<longleftrightarrow> ct_storeId c = storeId \<and> ct_type c = CountCYCLE
     \<and> (openCountWhere storeId c \<or> ct_status c \<noteq> CountCANCELLED \<and> ct_createdAt c > notBefore)"

text \<open>A store gets at most one draft, and only when it has no recent cycle count.\<close>

lemma schedule_store_step:
  assumes "schedule_store now cf lf st (s, r) = (t, r')"
  shows "cn_settings t = cn_settings s \<and>
    (cn_counts t = cn_counts s \<and> sx_createdCountIds r' = sx_createdCountIds r
     \<or> (\<exists>c. cn_counts t = cn_counts s @ [c] \<and> sx_createdCountIds r' = sx_createdCountIds r @ [ct_id c] \<and> ct_storeId c = st
          \<and> ct_type c = CountCYCLE \<and> ct_status c = CountDRAFT \<and> ct_createdAt c = now
          \<and> \<not> list_ex (recent_cycle (now - cs_cycleCountFrequencyDays (cn_settings s) * day_ms) st) (cn_counts s)))"
proof (cases "scheduleCycleCount now (cf st) (lf st) st s s")
  case (Inl e)
  then show ?thesis using assms by (auto simp: schedule_store_def Let_def split: if_splits)
next
  case (Inr x)
  obtain u res where x: "x = (u, res)" by (cases x)
  show ?thesis
  proof (cases res)
    case None
    have "u = s" using Inr by (auto simp: scheduleCycleCount_def x None Let_def bindE_Inr_iff split: if_splits)
    then show ?thesis using assms Inr by (auto simp: schedule_store_def Let_def x None split: if_splits)
  next
    case (Some p)
    obtain i sch where p: "p = (i, sch)" by (cases p)
    obtain c lots where c: "insertCount now (cf st) (lf st) \<lparr>nc_storeId = st, nc_type = CountCYCLE, nc_lots = lots, nc_createdByUserId = None,
               nc_scheduledFor = Some now, nc_notes = Some ''Scheduled cycle count''\<rparr> s = Inr (u, c)" "i = ct_id c"
      using Inr by (auto simp: scheduleCycleCount_def x Some p Let_def bindE_Inr_iff split: if_splits)
    show ?thesis
    proof (cases "list_ex (\<lambda>c. openCountWhere st c \<and> ct_type c = CountCYCLE) (cn_counts s)
            \<or> list_ex (\<lambda>c. ct_storeId c = st \<and> ct_type c = CountCYCLE \<and> ct_status c \<noteq> CountCANCELLED
                  \<and> ct_createdAt c > now - cs_cycleCountFrequencyDays (cn_settings s) * day_ms) (cn_counts s)")
      case True
      then show ?thesis using assms by (auto simp: schedule_store_def Let_def)
    next
      case False
      have "\<not> list_ex (recent_cycle (now - cs_cycleCountFrequencyDays (cn_settings s) * day_ms) st) (cn_counts s)"
        using False by (auto simp: list_ex_iff recent_cycle_def)
      moreover have "t = u" "sx_createdCountIds r' = sx_createdCountIds r @ [i]"
        using assms Inr False by (auto simp: schedule_store_def Let_def x Some p)
      ultimately show ?thesis using insertCount_InrE [OF c(1)] c(2) by simp
    qed
  qed
qed

lemma schedule_loop:
  assumes "fold (\<lambda>st. schedule_store now cf lf (st_id st)) sts (s, r) = (t, r')"
  shows "\<exists>new. cn_counts t = cn_counts s @ new \<and> sx_createdCountIds r' = sx_createdCountIds r @ map ct_id new
    \<and> distinct (map ct_storeId new)
    \<and> (\<forall>c \<in> set new. ct_type c = CountCYCLE \<and> ct_status c = CountDRAFT \<and> ct_createdAt c = now \<and> ct_storeId c \<in> st_id ` set sts
         \<and> \<not> list_ex (recent_cycle (now - cs_cycleCountFrequencyDays (cn_settings s) * day_ms) (ct_storeId c)) (cn_counts s))"
  using assms
proof (induction sts arbitrary: s r)
  case Nil
  then show ?case by simp
next
  case (Cons st sts)
  obtain u q where u: "schedule_store now cf lf (st_id st) (s, r) = (u, q)" by fastforce
  have run: "fold (\<lambda>st. schedule_store now cf lf (st_id st)) sts (u, q) = (t, r')" using Cons.prems u by simp
  obtain new where new: "cn_counts t = cn_counts u @ new" "sx_createdCountIds r' = sx_createdCountIds q @ map ct_id new"
    "distinct (map ct_storeId new)"
    "\<forall>c \<in> set new. ct_type c = CountCYCLE \<and> ct_status c = CountDRAFT \<and> ct_createdAt c = now \<and> ct_storeId c \<in> st_id ` set sts
         \<and> \<not> list_ex (recent_cycle (now - cs_cycleCountFrequencyDays (cn_settings u) * day_ms) (ct_storeId c)) (cn_counts u)"
    using Cons.IH [OF run] by blast
  have st: "cn_settings u = cn_settings s" using schedule_store_step [OF u] by simp
  consider "cn_counts u = cn_counts s" "sx_createdCountIds q = sx_createdCountIds r"
    | c where "cn_counts u = cn_counts s @ [c]" "sx_createdCountIds q = sx_createdCountIds r @ [ct_id c]" "ct_storeId c = st_id st"
        "ct_type c = CountCYCLE" "ct_status c = CountDRAFT" "ct_createdAt c = now"
        "\<not> list_ex (recent_cycle (now - cs_cycleCountFrequencyDays (cn_settings s) * day_ms) (st_id st)) (cn_counts s)"
    using schedule_store_step [OF u] by blast
  then show ?case
  proof cases
    case 1
    then show ?thesis using new st by (intro exI [of _ new]) auto
  next
    case 2
    have "recent_cycle nb (st_id st) c" for nb
      using 2(3-5) by (simp add: recent_cycle_def openCountWhere_def)
    then have "ct_storeId d \<noteq> st_id st" if "d \<in> set new" for d
      using new(4) that 2(1) by (auto simp: list_ex_iff)
    then show ?thesis using new st 2 by (intro exI [of _ "c # new"]) auto
  qed
qed

text \<open>
  The job drafts one count per store and cycle. A run only adds counts, those it reports, at most one
  per store, for active stores; a store with an open cycle count, or with one created less than the
  configured number of days ago and not cancelled, gets none.
\<close>

theorem scheduled_counts_are_spaced:
  assumes "runScheduleCycleCountsOnce now countIdOf lineIdOf s = (t, r)"
  shows "\<exists>new. cn_counts t = cn_counts s @ new \<and> sx_createdCountIds r = map ct_id new \<and> distinct (map ct_storeId new)
    \<and> (\<forall>c \<in> set new. ct_type c = CountCYCLE \<and> ct_status c = CountDRAFT
         \<and> (\<exists>st \<in> set (db_stores (cn_core s)). st_isActive st \<and> st_id st = ct_storeId c)
         \<and> (\<forall>d \<in> set (cn_counts s). ct_storeId d = ct_storeId c \<longrightarrow> ct_type d = CountCYCLE
              \<longrightarrow> \<not> openCountWhere (ct_storeId c) d
                \<and> (ct_status d \<noteq> CountCANCELLED \<longrightarrow> ct_createdAt d + cs_cycleCountFrequencyDays (cn_settings s) * day_ms \<le> now)))"
proof (cases "cs_cycleCountEnabled (cn_settings s)")
  case False
  then show ?thesis using assms by (auto simp: runScheduleCycleCountsOnce_def)
next
  case True
  then have "fold (\<lambda>st. schedule_store now countIdOf lineIdOf (st_id st)) (filter st_isActive (db_stores (cn_core s)))
      (s, \<lparr>sx_enabled = True, sx_createdCountIds = [], sx_skippedStoreIds = []\<rparr>) = (t, r)"
    using assms by (simp add: runScheduleCycleCountsOnce_def)
  from schedule_loop [OF this] obtain new where new: "cn_counts t = cn_counts s @ new" "sx_createdCountIds r = map ct_id new"
    "distinct (map ct_storeId new)"
    "\<forall>c \<in> set new. ct_type c = CountCYCLE \<and> ct_status c = CountDRAFT \<and> ct_storeId c \<in> st_id ` set (filter st_isActive (db_stores (cn_core s)))
         \<and> \<not> list_ex (recent_cycle (now - cs_cycleCountFrequencyDays (cn_settings s) * day_ms) (ct_storeId c)) (cn_counts s)"
    by auto
  have "\<not> openCountWhere (ct_storeId c) d
      \<and> (ct_status d \<noteq> CountCANCELLED \<longrightarrow> ct_createdAt d + cs_cycleCountFrequencyDays (cn_settings s) * day_ms \<le> now)"
    if "c \<in> set new" "d \<in> set (cn_counts s)" "ct_storeId d = ct_storeId c" "ct_type d = CountCYCLE" for c d
  proof -
    have "\<not> recent_cycle (now - cs_cycleCountFrequencyDays (cn_settings s) * day_ms) (ct_storeId c) d"
      using new(4) that(1,2) by (auto simp: list_ex_iff)
    then show ?thesis using that(3,4) by (auto simp: recent_cycle_def)
  qed
  moreover have "\<exists>st \<in> set (db_stores (cn_core s)). st_isActive st \<and> st_id st = ct_storeId c" if "c \<in> set new" for c
    using new(4) that by force
  ultimately show ?thesis using new by (intro exI [of _ new]) simp
qed

end
