(* ===== verification/Count_Examples.thy ===== *)
theory Count_Examples
  imports
    Count_Lifecycle Count_Schedule Examples
begin

text \<open>
  Counts of the small shop: a full count taken through its first stages, and a completed one in which one
  apple of the first lot is missing. The witnesses of the properties of stock counts are evaluated on them.
\<close>

definition ex_counting :: count_db where
  "ex_counting =
     \<lparr>cn_shop = \<lparr>bd_db = ex_db, bd_barcodes = []\<rparr>, cn_counts = [],
      cn_settings = \<lparr>cs_varianceThresholdPercent = 50, cs_varianceThresholdValue = 20, cs_highValueThreshold = 100,
        cs_cycleCountEnabled = True, cs_cycleCountFrequencyDays = 30, cs_cycleCountSize = 5\<rparr>,
      cn_lockedUntil = (\<lambda>_. None)\<rparr>"

definition ex_entry :: "string \<Rightarrow> count_submission" where
  "ex_entry key = \<lparr>sub_idempotencyKey = Some key, sub_countedAt = None, sub_sentAt = None\<rparr>"

definition ex_new_count :: new_count where
  "ex_new_count = \<lparr>nc_storeId = ''S1'', nc_type = CountFULL, nc_lots = [(''L1'', ''P1''), (''L3'', ''P2'')],
     nc_createdByUserId = Some ''U1'', nc_scheduledFor = None, nc_notes = None\<rparr>"

definition ex_line_id :: "nat \<Rightarrow> ident" where
  "ex_line_id k = (if k = 0 then ''k1'' else ''k2'')"

definition ex_drafted :: count_db where
  "ex_drafted = fst (projr (insertCount 5 ''K1'' ex_line_id ex_new_count ex_counting))"

definition ex_started :: count_db where
  "ex_started = projr (start_tx 10 ex_admin ''K1'' ex_drafted ex_drafted)"

definition ex_half :: count_db where
  "ex_half = fst (projr (submitCountLine (/) 20 ex_admin ''K1'' ''k1'' (Some 2) (ex_entry ''key1'') ex_started ex_started))"

text \<open>A completed count of the first lot, one unit short.\<close>

definition ex_short :: count_db where
  "ex_short = ex_counting\<lparr>cn_counts :=
     [\<lparr>ct_id = ''K1'', ct_storeId = ''S1'', ct_type = CountSPOT, ct_status = CountCOMPLETED, ct_scheduledFor = None,
       ct_startedAt = Some 10, ct_completedAt = Some 40, ct_createdByUserId = Some ''U1'', ct_countedByUserId = Some ''U1'',
       ct_approvedByUserId = None, ct_approvedAt = None, ct_notes = None, ct_createdAt = 5,
       ct_lines = [(new_line ''k1'' (''L1'', ''P1''))\<lparr>cl_expectedQuantity := 3, cl_countedQuantity := Some 2,
         cl_countedByUserId := Some ''U1'', cl_countedAt := Some 20, cl_movementDuringCount := Some 0,
         cl_variance := Some (-1), cl_varianceValue := Some (-1), cl_status := LineCOUNTED\<rparr>]\<rparr>]\<rparr>"

definition ex_options :: approve_options where
  "ex_options = \<lparr>ap_reasons = [], ap_overrideBlockedLots = False, ap_overrideReason = None\<rparr>"

definition ex_approval :: "count_db \<times> review_count_view" where
  "ex_approval = projr (approveCount False 50 ex_admin ''K1'' ex_options ex_short ex_short)"

text \<open>Every stage succeeds.\<close>

lemma ex_drafted_run:
  "insertCount 5 ''K1'' ex_line_id ex_new_count ex_counting
     = Inr (ex_drafted, snd (projr (insertCount 5 ''K1'' ex_line_id ex_new_count ex_counting)))"
  unfolding ex_drafted_def by (rule stage_pair) code_simp

lemma ex_started_run: "start_tx 10 ex_admin ''K1'' ex_drafted ex_drafted = Inr ex_started"
  unfolding ex_started_def by (rule stage_Inr) code_simp

lemma ex_half_run:
  "submitCountLine (/) 20 ex_admin ''K1'' ''k1'' (Some 2) (ex_entry ''key1'') ex_started ex_started
     = Inr (ex_half, \<lparr>sm_lineId = ''k1'', sm_status = LineCOUNTED, sm_replayed = False\<rparr>)"
proof -
  have "\<not> isl (submitCountLine (/) 20 ex_admin ''K1'' ''k1'' (Some 2) (ex_entry ''key1'') ex_started ex_started)" by code_simp
  moreover have "snd (projr (submitCountLine (/) 20 ex_admin ''K1'' ''k1'' (Some 2) (ex_entry ''key1'') ex_started ex_started))
     = \<lparr>sm_lineId = ''k1'', sm_status = LineCOUNTED, sm_replayed = False\<rparr>" by code_simp
  ultimately show ?thesis unfolding ex_half_def using stage_pair by metis
qed

lemma ex_approval_run:
  "approveCount False 50 ex_admin ''K1'' ex_options ex_short ex_short = Inr (fst ex_approval, snd ex_approval)"
  unfolding ex_approval_def by (rule stage_pair) code_simp

lemma ex_run: "run ex_counting ex_half"
proof -
  have "run ex_counting ex_drafted" by (rule run.insert [OF run.here ex_drafted_run])
  then have "run ex_counting ex_started" by (rule run.start [OF _ run.here ex_started_run])
  then show ?thesis by (rule run.submit [OF _ run.here ex_half_run])
qed

lemma ex_core: "sys_inv (cn_core ex_short)"
  using ex_db_inv by (simp add: cn_core_def ex_short_def ex_counting_def)

text \<open>A card sale of the example cart is made at time 50 and paid at time 60; three of its apples are of the first lot.\<close>

definition ex_reserved :: db where
  "ex_reserved = fst (projr (createSale_tx ex_env ''S1'' ex_admin (ex_input TERMINAL) (Some ''key1'') [''P1'', ''P2'']
     (cn_core ex_started)))"

definition ex_sold_meanwhile :: count_db where
  "ex_sold_meanwhile = cn_set (fst (projr (finalizePaidSale True 60 ''X1'' ex_reserved))) ex_started"

lemma ex_gap: "sales_since 12 70 (cn_core ex_started) (cn_core ex_sold_meanwhile)"
proof -
  have "\<not> isl (createSale_tx ex_env ''S1'' ex_admin (ex_input TERMINAL) (Some ''key1'') [''P1'', ''P2''] (cn_core ex_started))"
    by code_simp
  note made = stage_pair [OF this, folded ex_reserved_def]
  have now: "nv_now ex_env = 50" by code_simp
  have "sales_since 12 70 (cn_core ex_started) ex_reserved"
    by (rule sales_made [OF sales_none _ _ made]) (simp_all add: now)
  note one = this
  have "\<not> isl (finalizePaidSale True 60 ''X1'' ex_reserved)" by code_simp
  note paid = stage_pair [OF this]
  have "case find_sale ''X1'' ex_reserved of None \<Rightarrow> False
      | Some x \<Rightarrow> s_paymentStatus x = PayPENDING \<and> s_paidAt x = None" by code_simp
  then obtain x where "find_sale ''X1'' ex_reserved = Some x" "s_paymentStatus x = PayPENDING" "s_paidAt x = None"
    by (cases "find_sale ''X1'' ex_reserved") simp_all
  from sales_paid [OF one this _ _ paid] show ?thesis by (simp add: ex_sold_meanwhile_def)
qed

section \<open>A lot that expires between counting and approval\<close>

definition ex_expired :: count_db where
  "ex_expired = cn_set (fst (runExpireLotsOnce False 200 (cn_core ex_short))) ex_short"

text \<open>
  One missing unit is written off twice. The apple lot of three units is counted, one short; it
  expires before the approval and the job writes all three off; the approval still adjusts the
  expired lot and writes the missing one off again, four units of three received. A new count of the
  expired lot would have been refused.
\<close>

theorem expired_lot_written_off_twice:
  "units_written ''L1'' (db_writeOffs (cn_core ex_short)) = 0
   \<and> map_option l_status (find_lot ''L1'' (cn_core ex_expired)) = Some LotEXPIRED
   \<and> units_written ''L1'' (db_writeOffs (cn_core ex_expired)) = 3
   \<and> units_written ''L1'' (db_writeOffs (cn_core (fst (projr (approveCount False 210 ex_admin ''K1'' ex_options ex_expired ex_expired))))) = 4
   \<and> \<not> isl (approveCount False 210 ex_admin ''K1'' ex_options ex_expired ex_expired)
   \<and> named_lots ''S1'' [''L1''] (cn_core ex_expired) = Inl (AppError 400 ''EXPIRED lots have already been written off and cannot be counted'')"
  by (intro conjI; code_simp)

section \<open>Witnesses\<close>

theorem approval_keeps_invariant_witness: "sys_inv (cn_core (fst ex_approval))"
proof -
  have "list_all (\<lambda>c. ct_id c = ''K1'' \<longrightarrow> distinct (map cl_lotId (ct_lines c))) (cn_counts ex_short)" by code_simp
  then show ?thesis using approval_keeps_invariant [OF ex_core ex_approval_run] by (simp add: list_all_iff)
qed

theorem approval_applies_variances_witness:
  "find_lot ''L1'' (cn_core (fst ex_approval)) = Some ((ex_lot ''L1'' ''P1'' (Some 100) 3)\<lparr>l_quantityRemaining := 2\<rparr>)"
proof -
  let ?c = "the (find_count ''K1'' ex_short)"
  have "find_count ''K1'' ex_short \<noteq> None" by code_simp
  then have c: "find_count ''K1'' ex_short = Some ?c" by simp
  have d: "distinct (map ct_id (cn_counts ex_short))" "distinct (map cl_lotId (ct_lines ?c))" by code_simp+
  have row: "map_option cl_variance (find_row cl_lotId (Some ''L1'') (filter has_variance (ct_lines ?c))) = Some (Some (-1))"
    by code_simp
  have lot: "find_lot ''L1'' (cn_core ex_short) = Some (ex_lot ''L1'' ''P1'' (Some 100) 3)" by code_simp
  have st: "set_status (ex_lot ''L1'' ''P1'' (Some 100) 3) 2 = LotACTIVE" by code_simp
  show ?thesis
    using conjunct1 [OF approval_applies_variances [OF ex_core ex_approval_run c d], rule_format, of "''L1''"] row lot st
    by (auto simp: ex_lot_def split: option.splits)
qed

theorem retry_is_replay_witness:
  "submitCountLine (/) 99 ex_admin ''K1'' ''k1'' (Some 3) (ex_entry ''key1'') ex_half ex_half
     = Inr (ex_half, \<lparr>sm_lineId = ''k1'', sm_status = LineCOUNTED, sm_replayed = True\<rparr>)"
proof -
  have "submit_key (ex_entry ''key1'') = Some ''key1''" "js_int (Some 3) = Some 3" by code_simp+
  then show ?thesis using retry_is_replay [OF ex_half_run, of "''key1''" "Some 3" 3 "ex_entry ''key1''" "(/)" 99] by simp
qed

theorem queued_count_equals_immediate_witness:
  "\<exists>t1 t2 r.
      submitCountLine (/) 12 ex_admin ''K1'' ''k1'' (Some 2) \<lparr>sub_idempotencyKey = Some ''a'', sub_countedAt = None, sub_sentAt = None\<rparr>
        ex_started ex_started = Inr (t1, r)
    \<and> submitCountLine (/) 70 ex_admin ''K1'' ''k1'' (Some 2)
        \<lparr>sub_idempotencyKey = Some ''a'', sub_countedAt = Some 1012, sub_sentAt = Some 1070\<rparr> ex_sold_meanwhile ex_sold_meanwhile = Inr (t2, r)
    \<and> cn_counts t2 = cn_counts t1
    \<and> units_paid ''L1'' 12 70 (cn_core ex_sold_meanwhile) = 3"
proof -
  let ?c = "the (find_count ''K1'' ex_started)" and ?l = "the (find_row cl_id ''k1'' (ct_lines (the (find_count ''K1'' ex_started))))"
  have c: "\<not> isl (loadCount ex_admin ''K1'' ex_started)" "projr (loadCount ex_admin ''K1'' ex_started) = ?c" by code_simp+
  have l: "find_row cl_id ''k1'' (ct_lines ?c) = Some ?l" "truthy (cl_lotId ?l)" "cl_status ?l = LinePENDING"
    "ct_status ?c = CountIN_PROGRESS" "ct_startedAt ?c = Some 10" "find_lot (the (cl_lotId ?l)) (cn_core ex_started) \<noteq> None" by code_simp+
  have k: "findSubmission ''a'' ex_started = None" "submit_key \<lparr>sub_idempotencyKey = Some ''a'', sub_countedAt = None, sub_sentAt = None\<rparr> = Some ''a''"
    by code_simp+
  have s: "cn_counts ex_sold_meanwhile = cn_counts ex_started" "cn_settings ex_sold_meanwhile = cn_settings ex_started"
    by (simp_all add: ex_sold_meanwhile_def)
  have d: "distinct (map l_id (db_lots (cn_core ex_started)))" "distinct (map s_id (db_sales (cn_core ex_started)))"
    "list_all (\<lambda>x. case s_paidAt x of None \<Rightarrow> True | Some t \<Rightarrow> t \<le> 12) (db_sales (cn_core ex_started))" by code_simp+
  have n: "js_int (Some 2) = Some 2" by code_simp
  have u: "units_paid ''L1'' 12 70 (cn_core ex_sold_meanwhile) = 3" by code_simp
  have "\<exists>t1 t2 r.
      submitCountLine (/) 12 ex_admin ''K1'' ''k1'' (Some 2) \<lparr>sub_idempotencyKey = Some ''a'', sub_countedAt = None, sub_sentAt = None\<rparr>
        ex_started ex_started = Inr (t1, r)
    \<and> submitCountLine (/) 70 ex_admin ''K1'' ''k1'' (Some 2)
        \<lparr>sub_idempotencyKey = Some ''a'', sub_countedAt = Some 1012, sub_sentAt = Some 1070\<rparr> ex_sold_meanwhile ex_sold_meanwhile = Inr (t2, r)
    \<and> cn_counts t2 = cn_counts t1"
    by (rule queued_count_equals_immediate [where c = ?c and l = ?l and st = 10 and n = 2 and sub_sent = "Some 1070" and counted = 1012])
      (use stage_Inr [OF c(1)] c(2) l k s d n ex_gap in simp_all)
  then show ?thesis using u by blast
qed

theorem counts_stay_well_formed_witness:
  "line_ok (hd (ct_lines (the (find_count ''K1'' ex_half)))) \<and> ct_approvedAt (the (find_count ''K1'' ex_half)) = None"
proof -
  have f: "find_count ''K1'' ex_half \<noteq> None" "ct_lines (the (find_count ''K1'' ex_half)) \<noteq> []"
    "ct_status (the (find_count ''K1'' ex_half)) = CountIN_PROGRESS" by code_simp+
  then obtain c where c: "find_count ''K1'' ex_half = Some c" by auto
  have "cn_counts ex_counting = []" by (simp add: ex_counting_def)
  then have "(\<forall>l \<in> set (ct_lines c). line_ok l) \<and> (ct_approvedAt c \<noteq> None \<longrightarrow> ct_status c = CountCOMPLETED)"
    using counts_stay_well_formed [OF _ ex_run] find_count_mem [OF c] by blast
  moreover have "ct_status c = CountIN_PROGRESS" "ct_lines c \<noteq> []" using f c by simp_all
  ultimately show ?thesis using c by (cases "ct_approvedAt c") (simp_all add: hd_in_set)
qed

definition ex_one_lot :: "ident \<Rightarrow> ident \<Rightarrow> new_count" where
  "ex_one_lot lot pid = \<lparr>nc_storeId = ''S1'', nc_type = CountSPOT, nc_lots = [(lot, pid)],
     nc_createdByUserId = Some ''U1'', nc_scheduledFor = None, nc_notes = None\<rparr>"

definition ex_spot :: "count_db \<times> stock_count" where
  "ex_spot = projr (insertCount 5 ''K1'' (\<lambda>k. ''k1'') (ex_one_lot ''L1'' ''P1'') ex_counting)"

definition ex_two_spots :: "count_db \<times> stock_count" where
  "ex_two_spots = projr (insertCount 6 ''K2'' (\<lambda>k. ''k2'') (ex_one_lot ''L3'' ''P2'') (fst ex_spot))"

theorem no_product_on_two_open_counts_witness:
  "list_all (\<lambda>c. openCountWhere ''S1'' c) (cn_counts (fst ex_two_spots)) \<and> length (cn_counts (fst ex_two_spots)) = 2
   \<and> cl_productId (hd (ct_lines (cn_counts (fst ex_two_spots) ! 0))) \<noteq> cl_productId (hd (ct_lines (cn_counts (fst ex_two_spots) ! 1)))"
proof -
  have "insertCount 5 ''K1'' (\<lambda>k. ''k1'') (ex_one_lot ''L1'' ''P1'') ex_counting = Inr (fst ex_spot, snd ex_spot)"
    unfolding ex_spot_def by (rule stage_pair) code_simp
  then have one: "run ex_counting (fst ex_spot)" by (rule run.insert [OF run.here])
  have "insertCount 6 ''K2'' (\<lambda>k. ''k2'') (ex_one_lot ''L3'' ''P2'') (fst ex_spot) = Inr (fst ex_two_spots, snd ex_two_spots)"
    unfolding ex_two_spots_def by (rule stage_pair) code_simp
  then have two: "run ex_counting (fst ex_two_spots)" by (rule run.insert [OF one])
  have n: "length (cn_counts (fst ex_two_spots)) = 2" by code_simp
  have o: "list_all (\<lambda>c. openCountWhere ''S1'' c) (cn_counts (fst ex_two_spots))" by code_simp
  have d: "ct_id (cn_counts (fst ex_two_spots) ! 0) \<noteq> ct_id (cn_counts (fst ex_two_spots) ! 1)" by code_simp
  have l: "ct_lines (cn_counts (fst ex_two_spots) ! 0) \<noteq> []" "ct_lines (cn_counts (fst ex_two_spots) ! 1) \<noteq> []" by code_simp+
  have e: "cn_counts ex_counting = []" by (simp add: ex_counting_def)
  have m: "cn_counts (fst ex_two_spots) ! 0 \<in> set (cn_counts (fst ex_two_spots))"
    "cn_counts (fst ex_two_spots) ! 1 \<in> set (cn_counts (fst ex_two_spots))" using n by simp_all
  have w: "openCountWhere ''S1'' (cn_counts (fst ex_two_spots) ! 0)" "openCountWhere ''S1'' (cn_counts (fst ex_two_spots) ! 1)"
    using o m by (simp_all add: list_all_iff)
  show ?thesis using no_product_on_two_open_counts [OF e two m d w] o n l by (simp add: hd_in_set)
qed

theorem cycle_schedule_by_risk_witness:
  "''P2'' \<in> cyc_productId ` set (sch_selected (generateCycleCountSchedule 10 ''S1'' ex_counting))
   \<and> length (sch_selected (generateCycleCountSchedule 10 ''S1'' ex_counting)) \<le> 5"
proof -
  let ?l = "ex_lot ''L3'' ''P2'' None 4" and ?sch = "generateCycleCountSchedule 10 ''S1'' ex_counting"
  have size: "cs_cycleCountSize (cn_settings ex_counting) = 5" by code_simp
  have "length (countable_products ''S1'' ex_counting) = 2" by code_simp
  then have "length (ranked_candidates 10 ''S1'' ex_counting) \<le> 2" using ranked_length [of 10 "''S1''" ex_counting] by simp
  then have none: "sch_dueButDeferred ?sch = 0" using size by (simp add: generateCycleCountSchedule_def Let_def)
  have l: "?l \<in> set (db_lots (cn_core ex_counting))" "countableLotWhere ''S1'' None ?l" "\<not> on_open_count ''S1'' ex_counting (l_productId ?l)"
    "last_count ''S1'' ex_counting (l_productId ?l) = None" "l_productId ?l = ''P2''" by code_simp+
  have "l_productId ?l \<in> cyc_productId ` set (sch_selected ?sch)" "length (sch_selected ?sch) \<le> 5"
    using cycle_schedule_by_risk [of 10 "''S1''" ex_counting] l(1-4) none size unfolding Let_def by (blast, simp)
  then show ?thesis using l(5) by simp
qed

definition ex_recent :: count_db where
  "ex_recent = fst (projr (insertCount 9 ''K1'' (\<lambda>k. ''k1'') ((ex_one_lot ''L1'' ''P1'')\<lparr>nc_type := CountCYCLE\<rparr>) ex_counting))"

theorem scheduled_counts_are_spaced_witness:
  "cn_counts (fst (runScheduleCycleCountsOnce 10 (\<lambda>_. ''K9'') (\<lambda>_ k. ''k9'') ex_recent)) = cn_counts ex_recent"
proof -
  let ?run = "runScheduleCycleCountsOnce 10 (\<lambda>_. ''K9'') (\<lambda>_ k. ''k9'') ex_recent"
  have "?run = (fst ?run, snd ?run)" by simp
  from scheduled_counts_are_spaced [OF this] obtain new where new: "cn_counts (fst ?run) = cn_counts ex_recent @ new"
    "\<forall>c \<in> set new. (\<exists>st \<in> set (db_stores (cn_core ex_recent)). st_isActive st \<and> st_id st = ct_storeId c)
       \<and> (\<forall>d \<in> set (cn_counts ex_recent). ct_storeId d = ct_storeId c \<longrightarrow> ct_type d = CountCYCLE \<longrightarrow> \<not> openCountWhere (ct_storeId c) d)"
    by blast
  have "list_all (\<lambda>st. st_id st = ''S1'') (db_stores (cn_core ex_recent))" by code_simp
  moreover have "list_ex (\<lambda>d. ct_storeId d = ''S1'' \<and> ct_type d = CountCYCLE \<and> openCountWhere ''S1'' d) (cn_counts ex_recent)" by code_simp
  ultimately have "new = []" using new(2) by (cases new) (auto simp: list_all_iff list_ex_iff)
  then show ?thesis using new(1) by simp
qed

end
