(* ===== verification/Membership.thy ===== *)
theory Membership
  imports
    Stock_Count Refunds
begin

text \<open>
  Members as owners (\<open>backend/src/services/membership.service.ts\<close>, and the route of
  \<open>routes/membership.routes.ts\<close> that records an investment): applications, joining fees, capital
  investments and the rights they give, withdrawals, dividends, ballots. The tables of the module
  stand beside the shared database. An operation that checks what it has read before it opens its
  transaction takes the state of the read, \<open>s0\<close>, and the state it writes to, \<open>s\<close>. New ids, the clock,
  candidate member numbers and the encryption of tax ids are parameters.
\<close>

section \<open>Tables\<close>

datatype capital_status = CapPENDING | CapCONFIRMED | CapFAILED | CapREFUNDED

datatype fee_status = FeePENDING | FeeCONFIRMED | FeeFAILED

datatype allocation_method = BY_CAPITAL | BY_PATRONAGE | HYBRID

datatype dividend_status = DivDECLARED | DivALLOCATED | DivPAID | DivCANCELLED

datatype resolution_outcome = ResPENDING | ResPASSED | ResFAILED | ResTABLED

datatype ballot_status = BallotOPEN | BallotCLOSED | BallotCANCELLED

record investment =
  iv_id :: ident
  iv_memberId :: ident
  iv_amount :: decimal
  iv_paymentMethod :: string
  iv_paymentReference :: "string option"
  iv_paymentStatus :: capital_status
  iv_stripePaymentIntentId :: "string option"
  iv_confirmedByUserId :: "ident option"
  iv_subscriptionAgreementUrl :: "string option"
  iv_receivedAt :: "time option"
  iv_certificateNumber :: "string option"
  iv_refundedAt :: "time option"

record equity_account =
  eq_memberId :: ident
  eq_totalContributed :: decimal
  eq_distributedToDate :: decimal
  eq_currentBalance :: decimal
  eq_lastUpdatedAt :: time

record membership_fee =
  fe_id :: ident
  fe_memberId :: ident
  fe_amount :: decimal
  fe_paymentMethod :: string
  fe_paymentReference :: "string option"
  fe_paymentStatus :: fee_status
  fe_paidAt :: "time option"
  fe_confirmedByUserId :: "ident option"
  fe_confirmedAt :: "time option"

record board_resolution =
  br_id :: ident
  br_title :: string
  br_description :: string
  br_votedAt :: "time option"
  br_outcome :: resolution_outcome
  br_minutesUrl :: "string option"

record dividend_allocation =
  da_memberId :: ident
  da_memberWeight :: decimal
  da_amount :: decimal
  da_paymentStatus :: capital_status
  da_taxFormIssued :: bool

record dividend =
  dd_id :: ident
  dd_boardResolutionId :: ident
  dd_fiscalYear :: int
  dd_totalPoolAmount :: decimal
  dd_allocationMethod :: allocation_method
  dd_status :: dividend_status
  dd_allocations :: "dividend_allocation list"

record ballot_option =
  bo_id :: ident
  bo_label :: string
  bo_sortOrder :: nat

record ballot =
  bl_id :: ident
  bl_title :: string
  bl_description :: string
  bl_closesAt :: "time option"
  bl_status :: ballot_status
  bl_options :: "ballot_option list"

record member_vote =
  vo_id :: ident
  vo_ballotId :: ident
  vo_memberId :: ident
  vo_ballotOptionId :: ident
  vo_castAt :: time

text \<open>The one row of settings; what stock counts use of it is in \<open>count_settings\<close>.\<close>

record coop_settings = count_settings +
  cp_votingThresholdAmount :: decimal
  cp_fiscalYearEnd :: string
  cp_legalEntityName :: string
  cp_stateOfIncorporation :: string
  cp_cashDepositGraceDays :: int
  cp_mainWarehouseId :: "ident option"

text \<open>\<open>me_certificates\<close> is the last value drawn from the sequence of certificate numbers.\<close>

record member_db =
  me_core :: db
  me_settings :: "coop_settings option"
  me_investments :: "investment list"
  me_equity :: "equity_account list"
  me_fees :: "membership_fee list"
  me_resolutions :: "board_resolution list"
  me_dividends :: "dividend list"
  me_ballots :: "ballot list"
  me_votes :: "member_vote list"
  me_certificates :: nat

definition me_members :: "member_db \<Rightarrow> member list" where
  "me_members s = db_members (me_core s)"

definition me_set_members :: "member list \<Rightarrow> member_db \<Rightarrow> member_db" where
  "me_set_members ms s = s\<lparr>me_core := (me_core s)\<lparr>db_members := ms\<rparr>\<rparr>"

definition find_member :: "ident \<Rightarrow> member_db \<Rightarrow> member option" where
  "find_member i s = find_row m_id i (me_members s)"

definition member_update :: "ident \<Rightarrow> (member \<Rightarrow> member) \<Rightarrow> member_db \<Rightarrow> member_db result" where
  "member_update i f s = bindE (update_row m_id i f (me_members s)) (\<lambda>ms. Inr (me_set_members ms s))"

definition me_audit :: "ident option \<Rightarrow> string \<Rightarrow> string \<Rightarrow> ident \<Rightarrow> member_db \<Rightarrow> member_db" where
  "me_audit user action etype i s = s\<lparr>me_core := writeAuditLog user None action etype (Some i) (me_core s)\<rparr>"

section \<open>Access, numbers\<close>

definition assertMembershipAdmin :: "auth_user \<Rightarrow> unit result" where
  "assertMembershipAdmin actor =
     (if au_role actor \<noteq> COOP_ADMIN then Inl (AppError 403 ''Only COOP_ADMIN may perform this membership action'') else Inr ())"

definition assertMemberAdmin :: "auth_user \<Rightarrow> unit result" where
  "assertMemberAdmin actor =
     (if au_role actor \<noteq> STORE_ADMIN \<and> au_role actor \<noteq> COOP_ADMIN
      then Inl (AppError 403 ''Insufficient role for membership administration'') else Inr ())"

text \<open>Eight random candidates, the first that is free; else a longer one.\<close>

definition generateUniqueMemberNumber :: "(nat \<Rightarrow> string) \<Rightarrow> string \<Rightarrow> member_db \<Rightarrow> string" where
  "generateUniqueMemberNumber candidate longer s =
     (case List.find (\<lambda>n. \<not> has_row m_memberNumber n (me_members s)) (map candidate [0..<8]) of
        Some n \<Rightarrow> n | None \<Rightarrow> longer)"

definition nextCertificateNumber :: "member_db \<Rightarrow> member_db \<times> string" where
  "nextCertificateNumber s =
     (let n = me_certificates s + 1
      in (s\<lparr>me_certificates := n\<rparr>, ''EQ-'' @ padStart 6 CHR ''0'' (digits n)))"

section \<open>Settings\<close>

definition default_settings :: coop_settings where
  "default_settings =
     \<lparr>cs_varianceThresholdPercent = 10, cs_varianceThresholdValue = 25, cs_highValueThreshold = 500,
      cs_cycleCountEnabled = True, cs_cycleCountFrequencyDays = 30, cs_cycleCountSize = 20,
      cp_votingThresholdAmount = moneyDec 1000, cp_fiscalYearEnd = ''12-31'',
      cp_legalEntityName = ''Harvestlink Cooperative'', cp_stateOfIncorporation = [], cp_cashDepositGraceDays = 3,
      cp_mainWarehouseId = None\<rparr>"

definition getCooperativeSettings :: "member_db \<Rightarrow> member_db \<times> coop_settings" where
  "getCooperativeSettings s =
     (case me_settings s of
        Some c \<Rightarrow> (s, c)
      | None \<Rightarrow> (s\<lparr>me_settings := Some default_settings\<rparr>, default_settings))"

section \<open>Capital and rights\<close>

text \<open>The confirmed capital of a member, and the dividends paid out to it.\<close>

definition counts_as_capital :: "ident \<Rightarrow> investment \<Rightarrow> bool" where
  "counts_as_capital memberId i \<longleftrightarrow> iv_memberId i = memberId \<and> iv_paymentStatus i = CapCONFIRMED \<and> iv_refundedAt i = None"

definition confirmed_capital :: "ident \<Rightarrow> member_db \<Rightarrow> decimal" where
  "confirmed_capital memberId s = moneyDec (sum_list (map iv_amount (filter (counts_as_capital memberId) (me_investments s))))"

definition distributed_to :: "ident \<Rightarrow> member_db \<Rightarrow> decimal" where
  "distributed_to memberId s =
     moneyDec (sum_list (map da_amount (filter (\<lambda>a. da_memberId a = memberId \<and> da_paymentStatus a = CapCONFIRMED)
        (concat (map dd_allocations (me_dividends s))))))"

text \<open>
  The sums are read without a lock and written as absolute amounts: other transactions may commit in between.
  \<open>r\<close> is what the statements of the transaction see when they read, \<open>s\<close> the state in which its rows are written;
  undisturbed, they are the same. The settings are created when the transaction sees none.
\<close>

definition ensure_settings :: "member_db \<Rightarrow> member_db \<Rightarrow> (member_db \<times> coop_settings) result" where
  "ensure_settings r s =
     (case me_settings r of
        Some c \<Rightarrow> Inr (s, c)
      | None \<Rightarrow> if me_settings s = None then Inr (getCooperativeSettings s) else Inl UniqueViolation)"

definition recomputeVotingRights :: "ident \<Rightarrow> member_db \<Rightarrow> member_db \<Rightarrow> (member_db \<times> decimal \<times> bool) result" where
  "recomputeVotingRights memberId r s =
     (let totalInvested = confirmed_capital memberId r in
      bindE (ensure_settings r s) (\<lambda>(s1, settings).
      let hasVotingRights = (totalInvested \<ge> cp_votingThresholdAmount settings)
      in bindE (member_update memberId (\<lambda>m. m\<lparr>m_totalInvested := totalInvested, m_hasVotingRights := hasVotingRights\<rparr>) s1) (\<lambda>s2.
         Inr (s2, totalInvested, hasVotingRights))))"

definition refreshEquityAccount :: "time \<Rightarrow> ident \<Rightarrow> member_db \<Rightarrow> member_db \<Rightarrow> member_db result" where
  "refreshEquityAccount now memberId r s =
     (let totalContributed = confirmed_capital memberId r;
          distributedToDate = distributed_to memberId r;
          row = \<lparr>eq_memberId = memberId, eq_totalContributed = totalContributed, eq_distributedToDate = distributedToDate,
                 eq_currentBalance = moneyDec (totalContributed - distributedToDate), eq_lastUpdatedAt = now\<rparr>;
          s1 = s\<lparr>me_equity := (if has_row eq_memberId memberId (me_equity s)
                 then upd_row eq_memberId memberId (\<lambda>_. row) (me_equity s) else me_equity s @ [row])\<rparr>
      in bindE (recomputeVotingRights memberId r s1) (\<lambda>(s2, x). Inr s2))"

record settings_input =
  ui_votingThresholdAmount :: "decimal option"
  ui_fiscalYearEnd :: "string option"
  ui_legalEntityName :: "string option"
  ui_stateOfIncorporation :: "string option"
  ui_cashDepositGraceDays :: "decimal option"
  ui_varianceThresholdPercent :: "decimal option"
  ui_varianceThresholdValue :: "decimal option"
  ui_cycleCountEnabled :: "bool option"
  ui_cycleCountFrequencyDays :: "decimal option"
  ui_highValueThreshold :: "decimal option"
  ui_cycleCountSize :: "decimal option"
  ui_mainWarehouseId :: "ident option option"

definition whole_at_least_one :: "decimal option \<Rightarrow> bool" where
  "whole_at_least_one x \<longleftrightarrow> (case x of None \<Rightarrow> True | Some v \<Rightarrow> is_integer v \<and> 1 \<le> v)"

definition check_settings :: "settings_input \<Rightarrow> member_db \<Rightarrow> unit result" where
  "check_settings i s =
     bindE (case ui_mainWarehouseId i of
         Some (Some w) \<Rightarrow>
           (case find_store w (me_core s) of
              None \<Rightarrow> Inl (AppError 404 ''mainWarehouseId store not found'')
            | Some st \<Rightarrow> if st_locationType st \<noteq> WAREHOUSE
                then Inl (AppError 400 ''mainWarehouseId must reference a WAREHOUSE location'') else Inr ())
       | _ \<Rightarrow> Inr ()) (\<lambda>_.
     if \<not> whole_at_least_one (ui_cashDepositGraceDays i)
     then Inl (AppError 400 ''cashDepositGraceDays must be a whole number of at least 1'')
     else if (case ui_varianceThresholdPercent i of None \<Rightarrow> False | Some v \<Rightarrow> \<not> (0 \<le> v \<and> v \<le> 100))
     then Inl (AppError 400 ''varianceThresholdPercent must be between 0 and 100'')
     else if (case ui_varianceThresholdValue i of None \<Rightarrow> False | Some v \<Rightarrow> \<not> 0 \<le> v)
     then Inl (AppError 400 ''varianceThresholdValue must be zero or more'')
     else if (case ui_highValueThreshold i of None \<Rightarrow> False | Some v \<Rightarrow> \<not> v > 0)
     then Inl (AppError 400 ''highValueThreshold must be more than zero'')
     else if \<not> whole_at_least_one (ui_cycleCountFrequencyDays i)
     then Inl (AppError 400 ''cycleCountFrequencyDays must be a whole number of at least 1'')
     else if \<not> whole_at_least_one (ui_cycleCountSize i)
     then Inl (AppError 400 ''cycleCountSize must be a whole number of at least 1'')
     else Inr ())"

definition set_to :: "'a option \<Rightarrow> 'a \<Rightarrow> 'a" where
  "set_to x old = (case x of None \<Rightarrow> old | Some v \<Rightarrow> v)"

definition new_settings :: "settings_input \<Rightarrow> coop_settings \<Rightarrow> coop_settings" where
  "new_settings i c =
     c\<lparr>cp_votingThresholdAmount := set_to (map_option moneyDec (ui_votingThresholdAmount i)) (cp_votingThresholdAmount c),
       cp_fiscalYearEnd := set_to (map_option trim (ui_fiscalYearEnd i)) (cp_fiscalYearEnd c),
       cp_legalEntityName := set_to (map_option trim (ui_legalEntityName i)) (cp_legalEntityName c),
       cp_stateOfIncorporation := set_to (map_option trim (ui_stateOfIncorporation i)) (cp_stateOfIncorporation c),
       cp_cashDepositGraceDays := set_to (map_option floor (ui_cashDepositGraceDays i)) (cp_cashDepositGraceDays c),
       cs_varianceThresholdPercent := set_to (map_option moneyDec (ui_varianceThresholdPercent i)) (cs_varianceThresholdPercent c),
       cs_varianceThresholdValue := set_to (map_option moneyDec (ui_varianceThresholdValue i)) (cs_varianceThresholdValue c),
       cs_cycleCountEnabled := set_to (ui_cycleCountEnabled i) (cs_cycleCountEnabled c),
       cs_cycleCountFrequencyDays := set_to (map_option floor (ui_cycleCountFrequencyDays i)) (cs_cycleCountFrequencyDays c),
       cs_highValueThreshold := set_to (map_option moneyDec (ui_highValueThreshold i)) (cs_highValueThreshold c),
       cs_cycleCountSize := set_to (map_option floor (ui_cycleCountSize i)) (cs_cycleCountSize c),
       cp_mainWarehouseId := set_to (ui_mainWarehouseId i) (cp_mainWarehouseId c)\<rparr>"

text \<open>
  The update is committed by itself. A new voting threshold then recomputes the rights of every member, in a
  transaction of its own that follows: \<open>between\<close> is what others commit until it begins, \<open>rv m\<close> what it sees when it
  reads the figures of the member \<open>m\<close>.
\<close>

definition save_settings :: "settings_input \<Rightarrow> member_db \<Rightarrow> member_db \<times> coop_settings" where
  "save_settings i s =
     (let (s1, settings) = getCooperativeSettings s; updated = new_settings i settings
      in (s1\<lparr>me_settings := Some updated\<rparr>, updated))"

definition change_settings ::
  "auth_user \<Rightarrow> settings_input \<Rightarrow> member_db \<Rightarrow> member_db \<Rightarrow> (member_db \<times> coop_settings) result" where
  "change_settings actor i s0 s =
     bindE (assertMembershipAdmin actor) (\<lambda>_. bindE (check_settings i s0) (\<lambda>_. Inr (save_settings i s)))"

definition recompute_everybody :: "ident list \<Rightarrow> (ident \<Rightarrow> member_db) \<Rightarrow> member_db \<Rightarrow> member_db result" where
  "recompute_everybody ids rv s = forE ids (\<lambda>m x. bindE (recomputeVotingRights m (rv m) x) (\<lambda>(y, v). Inr y)) s"

definition updateCooperativeSettings ::
  "auth_user \<Rightarrow> settings_input \<Rightarrow> (member_db \<Rightarrow> member_db) \<Rightarrow> (ident \<Rightarrow> member_db) \<Rightarrow> member_db \<Rightarrow> member_db
    \<Rightarrow> member_db \<times> coop_settings result" where
  "updateCooperativeSettings actor i between rv s0 s =
     (case change_settings actor i s0 s of
        Inl e \<Rightarrow> (s, Inl e)
      | Inr (s1, updated) \<Rightarrow>
          if ui_votingThresholdAmount i = None then (s1, Inr updated)
          else let s2 = between s1 in
            (case recompute_everybody (map m_id (me_members s2)) rv s2 of
               Inl e \<Rightarrow> (s2, Inl e)
             | Inr s3 \<Rightarrow> (s3, Inr updated)))"

section \<open>Members\<close>

record member_filter =
  mf_q :: "string option"
  mf_status :: "member_status option"
  mf_page :: nat
  mf_pageSize :: nat

record member_page =
  mg_members :: "member list"
  mg_page :: nat
  mg_pageSize :: nat
  mg_total :: nat
  mg_totalPages :: nat

definition total_pages :: "nat \<Rightarrow> nat \<Rightarrow> nat" where
  "total_pages n perPage = (if n = 0 then 0 else (n + perPage - 1) div perPage)"

definition listMembers :: "member_filter \<Rightarrow> member_db \<Rightarrow> member_page" where
  "listMembers f s =
     (let has = (\<lambda>q t. contains_str (toLowerCase t) (toLowerCase q));
          rows = filter (\<lambda>m. (case mf_status f of None \<Rightarrow> True | Some st \<Rightarrow> m_status m = st)
              \<and> (case trimmed (mf_q f) of None \<Rightarrow> True
                 | Some q \<Rightarrow> has q (m_name m) \<or> has q (m_memberNumber m) \<or> has q (m_email m))) (me_members s)
      in \<lparr>mg_members = take (mf_pageSize f) (drop ((mf_page f - 1) * mf_pageSize f) (sort_key m_name rows)),
          mg_page = mf_page f, mg_pageSize = mf_pageSize f, mg_total = length rows,
          mg_totalPages = total_pages (length rows) (mf_pageSize f)\<rparr>)"

record create_member_input =
  cm_name :: string
  cm_email :: string
  cm_phone :: "string option"
  cm_mailingAddress :: "string option"
  cm_taxIdLast4 :: "string option"
  cm_householdPrimaryMemberId :: "ident option"
  cm_activate :: bool
  cm_joiningFeeAmount :: "decimal option"

definition last4 :: "string \<Rightarrow> string" where
  "last4 x = drop (length x - 4) x"

definition or_empty :: "string option \<Rightarrow> string" where
  "or_empty x = (case x of None \<Rightarrow> [] | Some y \<Rightarrow> trim y)"

definition new_member :: "time \<Rightarrow> (string \<Rightarrow> string) \<Rightarrow> auth_user \<Rightarrow> create_member_input \<Rightarrow> ident \<Rightarrow> string \<Rightarrow> member" where
  "new_member now encrypt actor input newId number =
     \<lparr>m_id = newId, m_memberNumber = number, m_name = trim (cm_name input), m_email = toLowerCase (trim (cm_email input)),
      m_phone = or_empty (cm_phone input), m_mailingAddress = or_empty (cm_mailingAddress input),
      m_status = (if cm_activate input then MemACTIVE else MemPENDING), m_joinedAt = now,
      m_approvedByUserId = (if cm_activate input then Some (au_id actor) else None),
      m_approvedAt = (if cm_activate input then Some now else None),
      m_taxIdLast4 = map_option (\<lambda>t. encrypt (last4 t)) (trimmed (cm_taxIdLast4 input)),
      m_isEligibleToVote = cm_activate input, m_totalInvested = moneyDec 0, m_hasVotingRights = False,
      m_householdPrimaryMemberId = cm_householdPrimaryMemberId input\<rparr>"

text \<open>
  One attempt, a transaction: member, equity account, joining fee. A household member that does not exist
  violates a foreign key.
\<close>

definition create_member_tx ::
  "time \<Rightarrow> (string \<Rightarrow> string) \<Rightarrow> auth_user \<Rightarrow> create_member_input \<Rightarrow> ident \<Rightarrow> ident \<Rightarrow> string \<Rightarrow> member_db
    \<Rightarrow> (member_db \<times> member) result" where
  "create_member_tx now encrypt actor input newId feeId number s =
     (let m = new_member now encrypt actor input newId number in
      if has_row m_id newId (me_members s) \<or> has_row m_memberNumber number (me_members s) then Inl UniqueViolation
      else if (case cm_householdPrimaryMemberId input of None \<Rightarrow> False | Some h \<Rightarrow> find_member h s = None)
      then Inl (JsError ''Foreign key constraint violated'')
      else if has_row eq_memberId newId (me_equity s) \<or> has_row fe_id feeId (me_fees s) then Inl UniqueViolation
      else Inr ((me_set_members (me_members s @ [m]) s)
          \<lparr>me_equity := me_equity s @ [\<lparr>eq_memberId = newId, eq_totalContributed = 0, eq_distributedToDate = 0,
              eq_currentBalance = 0, eq_lastUpdatedAt = now\<rparr>],
           me_fees := me_fees s @ [\<lparr>fe_id = feeId, fe_memberId = newId,
              fe_amount = moneyDec (case cm_joiningFeeAmount input of None \<Rightarrow> 100 | Some a \<Rightarrow> a), fe_paymentMethod = [],
              fe_paymentReference = None, fe_paymentStatus = FeePENDING, fe_paidAt = None, fe_confirmedByUserId = None,
              fe_confirmedAt = None\<rparr>]\<rparr>, m))"

text \<open>At most three attempts; only a taken unique key leads to the next.\<close>

fun create_attempts ::
  "nat \<Rightarrow> (nat \<Rightarrow> member_db \<Rightarrow> (member_db \<times> member) result) \<Rightarrow> member_db \<Rightarrow> (member_db \<times> member) result" where
  "create_attempts 0 tx s = Inl (AppError 500 ''Unable to allocate a unique memberNumber'')"
| "create_attempts (Suc n) tx s =
     (case tx (Suc n) s of
        Inl e \<Rightarrow> if e = UniqueViolation then create_attempts n tx s else Inl e
      | Inr r \<Rightarrow> Inr r)"

definition createMember ::
  "time \<Rightarrow> (string \<Rightarrow> string) \<Rightarrow> (nat \<Rightarrow> ident) \<Rightarrow> (nat \<Rightarrow> ident) \<Rightarrow> (nat \<Rightarrow> nat \<Rightarrow> string) \<Rightarrow> (nat \<Rightarrow> string) \<Rightarrow> auth_user
    \<Rightarrow> create_member_input \<Rightarrow> member_db \<Rightarrow> member_db \<Rightarrow> (member_db \<times> member) result" where
  "createMember now encrypt memberIds feeIds candidate longer actor input s0 s =
     bindE (assertMemberAdmin actor) (\<lambda>_.
     create_attempts 3 (\<lambda>n. create_member_tx now encrypt actor input (memberIds n) (feeIds n)
         (generateUniqueMemberNumber (candidate n) (longer n) s0)) s)"

definition getMemberByNumber :: "string \<Rightarrow> member_db \<Rightarrow> member result" where
  "getMemberByNumber number s =
     (case find_row m_memberNumber number (me_members s) of
        None \<Rightarrow> Inl (AppError 404 ''Member not found'') | Some m \<Rightarrow> Inr m)"

definition assertMemberActiveForSale :: "member \<Rightarrow> unit result" where
  "assertMemberActiveForSale m =
     (if m_status m \<noteq> MemACTIVE then Inl (AppError 400 ''Member is not ACTIVE and cannot be attached to a sale'') else Inr ())"

record update_member_input =
  um_name :: "string option"
  um_email :: "string option"
  um_phone :: "string option"
  um_mailingAddress :: "string option"
  um_taxIdLast4 :: "string option option"
  um_householdPrimaryMemberId :: "ident option option"
  um_isEligibleToVote :: "bool option"
  um_status :: "member_status option"

definition updated_member :: "(string \<Rightarrow> string) \<Rightarrow> update_member_input \<Rightarrow> member \<Rightarrow> member" where
  "updated_member encrypt i m =
     m\<lparr>m_name := set_to (map_option trim (um_name i)) (m_name m),
       m_email := set_to (map_option (\<lambda>e. toLowerCase (trim e)) (um_email i)) (m_email m),
       m_phone := set_to (map_option trim (um_phone i)) (m_phone m),
       m_mailingAddress := set_to (map_option trim (um_mailingAddress i)) (m_mailingAddress m),
       m_householdPrimaryMemberId := set_to (um_householdPrimaryMemberId i) (m_householdPrimaryMemberId m),
       m_isEligibleToVote := set_to (um_isEligibleToVote i) (m_isEligibleToVote m),
       m_status := set_to (um_status i) (m_status m),
       m_taxIdLast4 := set_to (map_option (\<lambda>t. if truthy t then Some (encrypt (last4 (trim (the t)))) else None) (um_taxIdLast4 i))
         (m_taxIdLast4 m)\<rparr>"

definition updateMember ::
  "(string \<Rightarrow> string) \<Rightarrow> auth_user \<Rightarrow> ident \<Rightarrow> update_member_input \<Rightarrow> member_db \<Rightarrow> member_db \<Rightarrow> member_db result" where
  "updateMember encrypt actor i input s0 s =
     bindE (assertMemberAdmin actor) (\<lambda>_.
     if find_member i s0 = None then Inl (AppError 404 ''Member not found'')
     else if um_status input = Some MemWITHDRAWN \<and> au_role actor \<noteq> COOP_ADMIN
     then Inl (AppError 403 ''Only COOP_ADMIN can mark a member WITHDRAWN after board review'')
     else if (case um_householdPrimaryMemberId input of Some (Some h) \<Rightarrow> find_member h s = None | _ \<Rightarrow> False)
     then Inl (JsError ''Foreign key constraint violated'')
     else member_update i (updated_member encrypt input) s)"

definition approveMember :: "time \<Rightarrow> ident \<Rightarrow> ident \<Rightarrow> member_db \<Rightarrow> member_db \<Rightarrow> member_db result" where
  "approveMember now memberId approvedByUserId s0 s =
     (case find_member memberId s0 of
        None \<Rightarrow> Inl (AppError 404 ''Member not found'')
      | Some existing \<Rightarrow>
          if m_status existing \<noteq> MemPENDING then Inl (AppError 409 ''Only PENDING members can be approved to ACTIVE'')
          else if \<not> has_row u_id approvedByUserId (db_users (me_core s0))
          then Inl (AppError 400 ''approvedByUserId is not a valid user'')
          else bindE (member_update memberId
                 (\<lambda>m. m\<lparr>m_status := MemACTIVE, m_approvedByUserId := Some approvedByUserId, m_approvedAt := Some now,
                        m_isEligibleToVote := True\<rparr>) s) (\<lambda>t.
               Inr (me_audit (Some approvedByUserId) ''MEMBER_APPROVE'' ''Member'' memberId t)))"

definition confirmMembershipFee ::
  "time \<Rightarrow> auth_user \<Rightarrow> ident \<Rightarrow> string option \<Rightarrow> string option \<Rightarrow> member_db \<Rightarrow> member_db \<Rightarrow> member_db result" where
  "confirmMembershipFee now actor feeId method ref s0 s =
     bindE (assertMembershipAdmin actor) (\<lambda>_.
     case find_row fe_id feeId (me_fees s0) of
       None \<Rightarrow> Inl (AppError 404 ''Membership fee not found'')
     | Some existing \<Rightarrow>
         if fe_paymentStatus existing = FeeCONFIRMED then Inr s
         else bindE (update_row fe_id feeId
                (\<lambda>f. f\<lparr>fe_paymentStatus := FeeCONFIRMED, fe_paidAt := Some now, fe_confirmedByUserId := Some (au_id actor),
                       fe_confirmedAt := Some now, fe_paymentMethod := set_to (map_option trim method) (fe_paymentMethod f),
                       fe_paymentReference := (if ref = None then fe_paymentReference f else ref)\<rparr>) (me_fees s)) (\<lambda>fs.
              Inr (me_audit (Some (au_id actor)) ''MEMBER_APPROVE'' ''MembershipFee'' feeId (s\<lparr>me_fees := fs\<rparr>))))"

definition requestWithdrawal :: "ident \<Rightarrow> string \<Rightarrow> member_db \<Rightarrow> member_db \<Rightarrow> member_db result" where
  "requestWithdrawal memberId reason s0 s =
     (if trim reason = [] then Inl (AppError 400 ''Withdrawal reason is required for board review'')
      else case find_member memberId s0 of
        None \<Rightarrow> Inl (AppError 404 ''Member not found'')
      | Some existing \<Rightarrow>
          if m_status existing = MemWITHDRAWN then Inl (AppError 409 ''Member is already WITHDRAWN'')
          else if m_status existing = MemSUSPENDED then Inl (AppError 409 ''Withdrawal request already pending board review'')
          else bindE (member_update memberId (\<lambda>m. m\<lparr>m_status := MemSUSPENDED, m_isEligibleToVote := False\<rparr>) s) (\<lambda>t.
               Inr (me_audit None ''MEMBER_WITHDRAW_REQUEST'' ''Member'' memberId t)))"

record purchase_page =
  ph_member :: member
  ph_sales :: "sale list"
  ph_page :: nat
  ph_pageSize :: nat
  ph_total :: nat
  ph_totalPages :: nat

definition getPurchaseHistory :: "ident \<Rightarrow> nat \<Rightarrow> nat \<Rightarrow> member_db \<Rightarrow> purchase_page result" where
  "getPurchaseHistory memberId page perPage s =
     (case find_member memberId s of
        None \<Rightarrow> Inl (AppError 404 ''Member not found'')
      | Some m \<Rightarrow>
          let rows = filter (\<lambda>x. s_memberId x = Some memberId) (db_sales (me_core s)) in
          Inr \<lparr>ph_member = m, ph_sales = take perPage (drop ((page - 1) * perPage) (sort_key (\<lambda>x. - s_createdAt x) rows)),
               ph_page = page, ph_pageSize = perPage, ph_total = length rows, ph_totalPages = total_pages (length rows) perPage\<rparr>)"

section \<open>Capital investments\<close>

record capital_options =
  ko_stripePaymentIntentId :: "string option"
  ko_paymentMethod :: "string option"
  ko_paymentReference :: "string option"
  ko_subscriptionAgreementUrl :: "string option"
  ko_confirmedByUserId :: "ident option"
  ko_confirm :: "bool option"

definition no_options :: capital_options where
  "no_options = \<lparr>ko_stripePaymentIntentId = None, ko_paymentMethod = None, ko_paymentReference = None,
     ko_subscriptionAgreementUrl = None, ko_confirmedByUserId = None, ko_confirm = None\<rparr>"

definition new_investment :: "time \<Rightarrow> ident \<Rightarrow> ident \<Rightarrow> decimal \<Rightarrow> capital_options \<Rightarrow> string option \<Rightarrow> investment" where
  "new_investment now newId memberId amount opts certificate =
     (let confirm = (ko_confirm opts \<noteq> Some False) in
      \<lparr>iv_id = newId, iv_memberId = memberId, iv_amount = moneyDec amount,
       iv_paymentMethod = (case ko_paymentMethod opts of Some m \<Rightarrow> trim m
          | None \<Rightarrow> if truthy (ko_stripePaymentIntentId opts) then ''card'' else []),
       iv_paymentReference = ko_paymentReference opts,
       iv_paymentStatus = (if confirm then CapCONFIRMED else CapPENDING),
       iv_stripePaymentIntentId = ko_stripePaymentIntentId opts,
       iv_confirmedByUserId = (if confirm then ko_confirmedByUserId opts else None),
       iv_subscriptionAgreementUrl = ko_subscriptionAgreementUrl opts,
       iv_receivedAt = (if confirm then Some now else None), iv_certificateNumber = certificate, iv_refundedAt = None\<rparr>)"

text \<open>The unique columns of an investment: id, Stripe payment, certificate number. Nulls never clash.\<close>

definition taken :: "(investment \<Rightarrow> string option) \<Rightarrow> investment \<Rightarrow> member_db \<Rightarrow> bool" where
  "taken col r s \<longleftrightarrow> col r \<noteq> None \<and> list_ex (\<lambda>x. iv_id x \<noteq> iv_id r \<and> col x = col r) (me_investments s)"

definition insert_investment :: "investment \<Rightarrow> member_db \<Rightarrow> member_db result" where
  "insert_investment r s =
     (if has_row iv_id (iv_id r) (me_investments s) \<or> taken iv_stripePaymentIntentId r s \<or> taken iv_certificateNumber r s
      then Inl UniqueViolation else Inr (s\<lparr>me_investments := me_investments s @ [r]\<rparr>))"

text \<open>The operations on capital: \<open>s0\<close> is read by the checks, \<open>r\<close> by the sums (with the transaction's own row).\<close>

definition recordCapitalInvestment ::
  "time \<Rightarrow> ident \<Rightarrow> ident \<Rightarrow> decimal \<Rightarrow> capital_options \<Rightarrow> member_db \<Rightarrow> member_db \<Rightarrow> member_db
    \<Rightarrow> (member_db \<times> investment) result" where
  "recordCapitalInvestment now newId memberId amount opts s0 r s =
     (if \<not> amount > 0 then Inl (AppError 400 ''Investment amount must be positive'')
      else if find_member memberId s0 = None then Inl (AppError 404 ''Member not found'')
      else
        let confirm = (ko_confirm opts \<noteq> Some False);
            (s1, certificate) = (if confirm then map_prod id Some (nextCertificateNumber s) else (s, None));
            row = new_investment now newId memberId amount opts certificate;
            seen = r\<lparr>me_investments := me_investments r @ [row]\<rparr>
        in bindE (insert_investment row s1) (\<lambda>s2.
           bindE (if confirm then refreshEquityAccount now memberId seen s2 else Inr s2) (\<lambda>s3.
           Inr (me_audit (ko_confirmedByUserId opts) ''CAPITAL_CONTRIBUTION'' ''CapitalInvestment'' newId s3, row))))"

definition recordCapitalContribution ::
  "time \<Rightarrow> ident \<Rightarrow> ident \<Rightarrow> decimal \<Rightarrow> string option \<Rightarrow> member_db \<Rightarrow> member_db \<Rightarrow> member_db
    \<Rightarrow> (member_db \<times> investment) result" where
  "recordCapitalContribution now newId memberId amount stripeId s0 r s =
     recordCapitalInvestment now newId memberId amount
       (no_options\<lparr>ko_stripePaymentIntentId := stripeId, ko_confirm := Some True\<rparr>) s0 r s"

text \<open>
  The route \<open>POST /contributions\<close> after the check of the role and of the body: it passes the payment id of Stripe, a string or null, where the service
  expects an object of options. A string has none of their properties, so every option is undefined.
\<close>

definition contributions_route ::
  "time \<Rightarrow> ident \<Rightarrow> ident \<Rightarrow> decimal \<Rightarrow> string option \<Rightarrow> member_db \<Rightarrow> member_db \<Rightarrow> member_db
    \<Rightarrow> (member_db \<times> investment) result" where
  "contributions_route now newId memberId amount stripePaymentIntentId s0 r s =
     recordCapitalInvestment now newId memberId amount no_options s0 r s"

record equity_view =
  ev_investments :: "investment list"
  ev_totalContributed :: decimal
  ev_totalInvested :: decimal
  ev_hasVotingRights :: bool
  ev_dividendsReceived :: "dividend_allocation list"
  ev_dividendsReceivedTotal :: decimal
  ev_currentBalance :: decimal
  ev_equityAccount :: "equity_account option"

definition getMemberEquity :: "ident \<Rightarrow> member_db \<Rightarrow> equity_view result" where
  "getMemberEquity memberId s =
     (case find_member memberId s of
        None \<Rightarrow> Inl (AppError 404 ''Member not found'')
      | Some m \<Rightarrow>
          let account = find_row eq_memberId memberId (me_equity s);
              allocations = filter (\<lambda>a. da_memberId a = memberId) (concat (map dd_allocations (me_dividends s)))
          in Inr \<lparr>ev_investments = filter (\<lambda>i. iv_memberId i = memberId) (me_investments s),
               ev_totalContributed = moneyDec (case account of None \<Rightarrow> 0 | Some e \<Rightarrow> eq_totalContributed e),
               ev_totalInvested = moneyDec (m_totalInvested m), ev_hasVotingRights = m_hasVotingRights m,
               ev_dividendsReceived = allocations, ev_dividendsReceivedTotal = moneyDec (sum_list (map da_amount allocations)),
               ev_currentBalance = moneyDec (case account of None \<Rightarrow> 0 | Some e \<Rightarrow> eq_currentBalance e),
               ev_equityAccount = account\<rparr>)"

definition update_investment :: "ident \<Rightarrow> (investment \<Rightarrow> investment) \<Rightarrow> member_db \<Rightarrow> member_db result" where
  "update_investment i f s = bindE (update_row iv_id i f (me_investments s)) (\<lambda>xs. Inr (s\<lparr>me_investments := xs\<rparr>))"

definition markInvestmentConfirmed ::
  "time \<Rightarrow> auth_user \<Rightarrow> ident \<Rightarrow> member_db \<Rightarrow> member_db \<Rightarrow> member_db \<Rightarrow> member_db result" where
  "markInvestmentConfirmed now actor investmentId s0 r s =
     bindE (assertMembershipAdmin actor) (\<lambda>_.
     case find_row iv_id investmentId (me_investments s0) of
       None \<Rightarrow> Inl (AppError 404 ''Investment not found'')
     | Some existing \<Rightarrow>
         if iv_paymentStatus existing = CapCONFIRMED then Inr s
         else
           let (s1, certificate) = (case iv_certificateNumber existing of
                 Some n \<Rightarrow> (s, n) | None \<Rightarrow> nextCertificateNumber s)
           in if taken iv_certificateNumber (existing\<lparr>iv_certificateNumber := Some certificate\<rparr>) s1 then Inl UniqueViolation
              else
                let f = (\<lambda>i. i\<lparr>iv_paymentStatus := CapCONFIRMED, iv_receivedAt := Some now,
                      iv_certificateNumber := Some certificate, iv_confirmedByUserId := Some (au_id actor)\<rparr>);
                    seen = r\<lparr>me_investments := upd_row iv_id investmentId f (me_investments r)\<rparr>
                in
                bindE (update_investment investmentId f s1) (\<lambda>s2.
                bindE (refreshEquityAccount now (iv_memberId existing) seen s2) (\<lambda>s3.
                Inr (me_audit (Some (au_id actor)) ''CAPITAL_CONTRIBUTION'' ''CapitalInvestment'' investmentId s3))))"

definition refundCapitalInvestment ::
  "time \<Rightarrow> auth_user \<Rightarrow> ident \<Rightarrow> member_db \<Rightarrow> member_db \<Rightarrow> member_db \<Rightarrow> member_db result" where
  "refundCapitalInvestment now actor investmentId s0 r s =
     bindE (assertMembershipAdmin actor) (\<lambda>_.
     case find_row iv_id investmentId (me_investments s0) of
       None \<Rightarrow> Inl (AppError 404 ''Investment not found'')
     | Some existing \<Rightarrow>
         if iv_paymentStatus existing \<noteq> CapCONFIRMED \<or> iv_refundedAt existing \<noteq> None
         then Inl (AppError 409 ''Only CONFIRMED, non-refunded investments can be refunded'')
         else
           let f = (\<lambda>i. i\<lparr>iv_paymentStatus := CapREFUNDED, iv_refundedAt := Some now\<rparr>);
               seen = r\<lparr>me_investments := upd_row iv_id investmentId f (me_investments r)\<rparr>
           in
           bindE (update_investment investmentId f s) (\<lambda>s1.
           bindE (refreshEquityAccount now (iv_memberId existing) seen s1) (\<lambda>s2.
           Inr (me_audit (Some (au_id actor)) ''CAPITAL_REFUND'' ''CapitalInvestment'' investmentId s2))))"

definition finalizeWithdrawal :: "auth_user \<Rightarrow> ident \<Rightarrow> member_db \<Rightarrow> member_db \<Rightarrow> member_db result" where
  "finalizeWithdrawal actor memberId s0 s =
     bindE (assertMembershipAdmin actor) (\<lambda>_.
     if find_member memberId s0 = None then Inl (AppError 404 ''Member not found'')
     else if list_ex (counts_as_capital memberId) (me_investments s0)
     then Inl (AppError 409 ''Refund all confirmed capital investments before finalizing WITHDRAWN status'')
     else
       bindE (member_update memberId
          (\<lambda>m. m\<lparr>m_status := MemWITHDRAWN, m_isEligibleToVote := False, m_hasVotingRights := False\<rparr>) s) (\<lambda>t.
       Inr (me_audit (Some (au_id actor)) ''MEMBER_WITHDRAW_FINALIZE'' ''Member'' memberId t)))"

section \<open>Board resolutions and dividends\<close>

definition createBoardResolution ::
  "auth_user \<Rightarrow> ident \<Rightarrow> string \<Rightarrow> string option \<Rightarrow> string option \<Rightarrow> member_db \<Rightarrow> member_db result" where
  "createBoardResolution actor newId title description minutesUrl s =
     bindE (assertMembershipAdmin actor) (\<lambda>_.
     bindE (create_row br_id \<lparr>br_id = newId, br_title = trim title, br_description = or_empty description, br_votedAt = None,
         br_outcome = ResPENDING, br_minutesUrl = minutesUrl\<rparr> (me_resolutions s)) (\<lambda>rs.
     Inr (s\<lparr>me_resolutions := rs\<rparr>)))"

definition passBoardResolution :: "time \<Rightarrow> auth_user \<Rightarrow> ident \<Rightarrow> member_db \<Rightarrow> member_db result" where
  "passBoardResolution now actor i s =
     bindE (assertMembershipAdmin actor) (\<lambda>_.
     bindE (update_row br_id i (\<lambda>r. r\<lparr>br_outcome := ResPASSED, br_votedAt := Some now\<rparr>) (me_resolutions s)) (\<lambda>rs.
     Inr (s\<lparr>me_resolutions := rs\<rparr>)))"

definition declareDividend ::
  "ident \<Rightarrow> ident \<Rightarrow> decimal \<Rightarrow> decimal \<Rightarrow> allocation_method \<Rightarrow> member_db \<Rightarrow> member_db \<Rightarrow> member_db result" where
  "declareDividend newId boardResolutionId fiscalYear totalPoolAmount allocationMethod s0 s =
     (case find_row br_id boardResolutionId (me_resolutions s0) of
        None \<Rightarrow> Inl (AppError 404 ''Board resolution not found'')
      | Some r \<Rightarrow>
          if br_outcome r \<noteq> ResPASSED
          then Inl (AppError 400 ''Dividend requires a BoardResolution whose outcome is PASSED (approved)'')
          else if \<not> totalPoolAmount > 0 then Inl (AppError 400 ''totalPoolAmount must be positive'')
          else if \<not> is_integer fiscalYear \<or> fiscalYear < 1900 then Inl (AppError 400 ''fiscalYear must be a valid calendar year'')
          else bindE (create_row dd_id \<lparr>dd_id = newId, dd_boardResolutionId = boardResolutionId, dd_fiscalYear = \<lfloor>fiscalYear\<rfloor>,
                 dd_totalPoolAmount = moneyDec totalPoolAmount, dd_allocationMethod = allocationMethod,
                 dd_status = DivDECLARED, dd_allocations = []\<rparr> (me_dividends s)) (\<lambda>ds. Inr (s\<lparr>me_dividends := ds\<rparr>)))"

definition fiscalYearBounds :: "int \<Rightarrow> time \<times> time" where
  "fiscalYearBounds y = (date_utc y 1 1, date_utc (y + 1) 1 1)"

text \<open>
  What the code uses of decimals here: product, quotient, and the decimal that a double prints as.
\<close>

record dividend_ops = decimal_ops +
  dtext :: "decimal \<Rightarrow> decimal"

text \<open>Purchases in a year per member, of members of every status, in the order of their first sale.\<close>

definition patronage_sale :: "int \<Rightarrow> sale \<Rightarrow> bool" where
  "patronage_sale year x \<longleftrightarrow>
     s_memberId x \<noteq> None \<and> fst (fiscalYearBounds year) \<le> s_createdAt x \<and> s_createdAt x < snd (fiscalYearBounds year)
     \<and> (s_paymentStatus x = PayPAID \<or> s_paymentStatus x = PayREFUNDED \<or> s_paymentStatus x = PayREFUNDING)"

definition patronage_by_member :: "int \<Rightarrow> db \<Rightarrow> (ident \<times> rat) list" where
  "patronage_by_member year d =
     (let rows = filter (patronage_sale year) (db_sales d) in
      map (\<lambda>i. (i, to_double (sum_list (map s_subtotal (filter (\<lambda>x. s_memberId x = Some i) rows)))))
        (uniq (map (the \<circ> s_memberId) rows)))"

definition double_sum :: "rat list \<Rightarrow> rat" where
  "double_sum xs = foldl (\<lambda>s v. to_double (s + v)) 0 xs"

definition member_weight :: "allocation_method \<Rightarrow> rat \<Rightarrow> rat \<Rightarrow> rat \<Rightarrow> rat \<Rightarrow> rat \<Rightarrow> rat" where
  "member_weight method share totalCapital totalPatronage capital patronage =
     (case method of
        BY_CAPITAL \<Rightarrow> capital
      | BY_PATRONAGE \<Rightarrow> patronage
      | HYBRID \<Rightarrow>
          let capitalNorm = (if totalCapital > 0 then to_double (capital / totalCapital) else 0);
              patronageNorm = (if totalPatronage > 0 then to_double (patronage / totalPatronage) else 0)
          in to_double (to_double (share * capitalNorm) + to_double (to_double (1 - share) * patronageNorm)))"

definition DEFAULT_HYBRID_CAPITAL_SHARE :: rat where
  "DEFAULT_HYBRID_CAPITAL_SHARE = 1 / 2"

text \<open>The members with a positive weight, and their weights as decimals.\<close>

definition dividend_weights :: "dividend_ops \<Rightarrow> rat \<Rightarrow> dividend \<Rightarrow> member_db \<Rightarrow> (ident \<times> decimal) list" where
  "dividend_weights ops share d s =
     (let members = filter (\<lambda>m. m_status m = MemACTIVE) (me_members s);
          patronage = patronage_by_member (dd_fiscalYear d) (me_core s);
          patronage_of = (\<lambda>i. case map_of patronage i of None \<Rightarrow> 0 | Some p \<Rightarrow> p);
          totalCapital = double_sum (map (\<lambda>m. to_double (m_totalInvested m)) members);
          totalPatronage = double_sum (map snd patronage);
          weight = (\<lambda>m. member_weight (dd_allocationMethod d) share totalCapital totalPatronage
             (to_double (m_totalInvested m)) (patronage_of (m_id m)))
      in map (\<lambda>m. (m_id m, dtext ops (weight m))) (filter (\<lambda>m. weight m > 0) members))"

text \<open>The row of a member; the column of the weight keeps six decimal places.\<close>

definition allocation_row :: "dividend_ops \<Rightarrow> decimal \<Rightarrow> decimal \<Rightarrow> ident \<times> decimal \<Rightarrow> dividend_allocation" where
  "allocation_row ops pool totalWeight w =
     \<lparr>da_memberId = fst w, da_memberWeight = toDecimalPlaces 6 (snd w),
      da_amount = moneyDec (ddiv ops (dmul ops pool (snd w)) totalWeight), da_paymentStatus = CapPENDING, da_taxFormIssued = False\<rparr>"

definition allocateDividend ::
  "dividend_ops \<Rightarrow> ident \<Rightarrow> rat option \<Rightarrow> member_db \<Rightarrow> member_db \<Rightarrow> (member_db \<times> dividend) result" where
  "allocateDividend ops dividendId hybridCapitalShare s0 s =
     (case find_row dd_id dividendId (me_dividends s0) of
        None \<Rightarrow> Inl (AppError 404 ''Dividend not found'')
      | Some d \<Rightarrow>
          if dd_status d \<noteq> DivDECLARED then Inl (AppError 409 ''Dividend already allocated or closed'')
          else
            let share = (case hybridCapitalShare of None \<Rightarrow> DEFAULT_HYBRID_CAPITAL_SHARE | Some x \<Rightarrow> x) in
            if share < 0 \<or> share > 1 then Inl (AppError 400 ''hybridCapitalShare must be between 0 and 1'')
            else
              let weights = dividend_weights ops share d s0; totalWeight = sum_list (map snd weights) in
              if totalWeight \<le> 0 then Inl (AppError 400 ''No members have positive weight for this allocation method'')
              else
                bindE (update_row dd_id dividendId
                    (\<lambda>x. x\<lparr>dd_allocations := map (allocation_row ops (dd_totalPoolAmount d) totalWeight) weights,
                           dd_status := DivALLOCATED\<rparr>) (me_dividends s)) (\<lambda>ds.
                case find_row dd_id dividendId ds of
                  None \<Rightarrow> Inl RecordNotFound
                | Some x \<Rightarrow> Inr (s\<lparr>me_dividends := ds\<rparr>, x)))"

section \<open>Ballots\<close>

definition createBallot ::
  "auth_user \<Rightarrow> ident \<Rightarrow> (nat \<Rightarrow> ident) \<Rightarrow> string \<Rightarrow> string option \<Rightarrow> string list \<Rightarrow> member_db \<Rightarrow> member_db result" where
  "createBallot actor newId optionIds title description options s =
     bindE (assertMembershipAdmin actor) (\<lambda>_.
     if options = [] then Inl (AppError 400 ''Ballot needs at least one option'')
     else bindE (create_row bl_id \<lparr>bl_id = newId, bl_title = trim title, bl_description = or_empty description, bl_closesAt = None,
            bl_status = BallotOPEN,
            bl_options = map (\<lambda>(i, label). \<lparr>bo_id = optionIds i, bo_label = trim label, bo_sortOrder = i\<rparr>) (enumerate 0 options)\<rparr>
            (me_ballots s)) (\<lambda>bs. Inr (s\<lparr>me_ballots := bs\<rparr>)))"

record vote_input =
  vi_ballotId :: ident
  vi_memberId :: ident
  vi_ballotOptionId :: ident

definition may_vote :: "time \<Rightarrow> vote_input \<Rightarrow> member_db \<Rightarrow> unit result" where
  "may_vote now i s =
     (case find_row bl_id (vi_ballotId i) (me_ballots s) of
        None \<Rightarrow> Inl (AppError 409 ''Ballot is not open for voting'')
      | Some b \<Rightarrow>
          if bl_status b \<noteq> BallotOPEN then Inl (AppError 409 ''Ballot is not open for voting'')
          else if (case bl_closesAt b of None \<Rightarrow> False | Some t \<Rightarrow> t < now) then Inl (AppError 409 ''Ballot voting period has ended'')
          else case find_member (vi_memberId i) s of
            None \<Rightarrow> Inl (AppError 404 ''Member not found'')
          | Some m \<Rightarrow>
              if m_status m \<noteq> MemACTIVE \<or> \<not> m_isEligibleToVote m then Inl (AppError 403 ''Member is not eligible to vote'')
              else if \<not> m_hasVotingRights m
              then Inl (AppError 403 ''Member does not have voting rights (capital investment below threshold)'')
              else if \<not> list_ex (\<lambda>o'. bo_id o' = vi_ballotOptionId i) (bl_options b) then Inl (AppError 400 ''Option is not on this ballot'')
              else Inr ())"

definition castVote :: "time \<Rightarrow> ident \<Rightarrow> vote_input \<Rightarrow> member_db \<Rightarrow> member_db \<Rightarrow> (member_db \<times> member_vote) result" where
  "castVote now newId i s0 s =
     bindE (may_vote now i s0) (\<lambda>_.
     let v = \<lparr>vo_id = newId, vo_ballotId = vi_ballotId i, vo_memberId = vi_memberId i, vo_ballotOptionId = vi_ballotOptionId i,
              vo_castAt = now\<rparr>
     in if has_row vo_id newId (me_votes s)
           \<or> list_ex (\<lambda>x. vo_ballotId x = vi_ballotId i \<and> vo_memberId x = vi_memberId i) (me_votes s)
        then Inl (AppError 409 ''Member has already voted on this ballot'')
        else Inr (s\<lparr>me_votes := me_votes s @ [v]\<rparr>, v))"

end
