(* ===== verification/Membership_Proofs.thy ===== *)
theory Membership_Proofs
  imports
    Membership Count_Proofs
begin

text \<open>
  The books of the members over time: what a member has invested, what the equity account says, who has
  voting rights, who has voted. Every operation that checks before it writes may have read an earlier
  state.
\<close>

section \<open>Frames\<close>

lemma me_simps [simp]:
  "me_members (me_set_members ms s) = ms" "me_investments (me_set_members ms s) = me_investments s"
  "me_equity (me_set_members ms s) = me_equity s" "me_settings (me_set_members ms s) = me_settings s"
  "me_votes (me_set_members ms s) = me_votes s" "me_dividends (me_set_members ms s) = me_dividends s"
  "me_members (me_audit u a e i s) = me_members s" "me_investments (me_audit u a e i s) = me_investments s"
  "me_equity (me_audit u a e i s) = me_equity s" "me_settings (me_audit u a e i s) = me_settings s"
  "me_votes (me_audit u a e i s) = me_votes s" "me_dividends (me_audit u a e i s) = me_dividends s"
  by (simp_all add: me_set_members_def me_audit_def me_members_def writeAuditLog_def)

lemma me_members_simps [simp]:
  "me_members (s\<lparr>me_settings := x1\<rparr>) = me_members s" "me_members (s\<lparr>me_investments := x2\<rparr>) = me_members s"
  "me_members (s\<lparr>me_equity := x3\<rparr>) = me_members s" "me_members (s\<lparr>me_fees := x4\<rparr>) = me_members s"
  "me_members (s\<lparr>me_resolutions := x5\<rparr>) = me_members s" "me_members (s\<lparr>me_dividends := x6\<rparr>) = me_members s"
  "me_members (s\<lparr>me_ballots := x7\<rparr>) = me_members s" "me_members (s\<lparr>me_votes := x8\<rparr>) = me_members s"
  "me_members (s\<lparr>me_certificates := x9\<rparr>) = me_members s"
  by (simp_all add: me_members_def)

lemma confirmed_capital_cong: "me_investments t = me_investments s \<Longrightarrow> confirmed_capital i t = confirmed_capital i s"
  by (simp add: confirmed_capital_def)

definition threshold :: "member_db \<Rightarrow> decimal" where
  "threshold s = cp_votingThresholdAmount (snd (getCooperativeSettings s))"

lemma settings_frame:
  assumes "getCooperativeSettings s = (t, c)"
  shows "t = s\<lparr>me_settings := Some c\<rparr>" "cp_votingThresholdAmount c = threshold s" "threshold t = threshold s"
proof -
  show t: "t = s\<lparr>me_settings := Some c\<rparr>" using assms by (auto simp: getCooperativeSettings_def split: option.splits)
  show c: "cp_votingThresholdAmount c = threshold s" using assms by (simp add: threshold_def)
  show "threshold t = threshold s" using c by (simp add: t threshold_def getCooperativeSettings_def)
qed

lemma threshold_cong: "me_settings t = me_settings s \<Longrightarrow> threshold t = threshold s"
  by (simp add: threshold_def getCooperativeSettings_def split: option.split)

section \<open>The books\<close>

text \<open>
  The books are right for all members outside a set, whose figures are about to be recomputed. What is right depends
  on a pair of flags: the first says that no sum of capital has been overtaken by another one so far, the second that
  no new threshold waits for its recomputation. Keys hold always, sums under the first flag, rights under both.
\<close>

type_synonym calm = "bool \<times> bool"

definition member_ok :: "calm \<Rightarrow> member_db \<Rightarrow> member \<Rightarrow> bool" where
  "member_ok p s m \<longleftrightarrow> (fst p \<longrightarrow> m_totalInvested m = confirmed_capital (m_id m) s
     \<and> (snd p \<longrightarrow> m_hasVotingRights m \<longrightarrow> threshold s \<le> m_totalInvested m))"

definition account_ok :: "calm \<Rightarrow> member_db \<Rightarrow> equity_account \<Rightarrow> bool" where
  "account_ok p s e \<longleftrightarrow> (fst p \<longrightarrow> eq_totalContributed e = confirmed_capital (eq_memberId e) s \<and> eq_distributedToDate e = 0
     \<and> eq_currentBalance e = eq_totalContributed e)"

definition vote_key :: "member_vote \<Rightarrow> ident \<times> ident" where
  "vote_key v = (vo_ballotId v, vo_memberId v)"

definition unpaid :: "member_db \<Rightarrow> bool" where
  "unpaid s \<longleftrightarrow> (\<forall>d \<in> set (me_dividends s). \<forall>a \<in> set (dd_allocations d). da_paymentStatus a = CapPENDING)"

definition keys_ok :: "member_db \<Rightarrow> bool" where
  "keys_ok s \<longleftrightarrow> distinct (map m_id (me_members s)) \<and> distinct (map iv_id (me_investments s))
     \<and> distinct (map eq_memberId (me_equity s)) \<and> distinct (map vote_key (me_votes s))
     \<and> (\<forall>i \<in> set (me_investments s). iv_memberId i \<in> m_id ` set (me_members s))
     \<and> (\<forall>e \<in> set (me_equity s). eq_memberId e \<in> m_id ` set (me_members s))"

definition books :: "calm \<Rightarrow> ident set \<Rightarrow> member_db \<Rightarrow> bool" where
  "books p X s \<longleftrightarrow> keys_ok s \<and> unpaid s \<and> (\<forall>m \<in> set (me_members s). m_id m \<notin> X \<longrightarrow> member_ok p s m)
     \<and> (\<forall>e \<in> set (me_equity s). eq_memberId e \<notin> X \<longrightarrow> account_ok p s e)"

text \<open>What later states keep of earlier ones.\<close>

definition ledger_later :: "member_db \<Rightarrow> member_db \<Rightarrow> bool" where
  "ledger_later s t \<longleftrightarrow> m_id ` set (me_members s) \<subseteq> m_id ` set (me_members t)
     \<and> (\<lambda>i. (iv_id i, iv_memberId i)) ` set (me_investments s) \<subseteq> (\<lambda>i. (iv_id i, iv_memberId i)) ` set (me_investments t)
     \<and> set (me_votes s) \<subseteq> set (me_votes t)"

lemma ledger_later_refl: "ledger_later s s" by (simp add: ledger_later_def)

lemma ledger_later_trans:
  assumes "ledger_later a b" "ledger_later b c" shows "ledger_later a c"
proof -
  note ab = assms(1) [unfolded ledger_later_def] and bc = assms(2) [unfolded ledger_later_def]
  show ?thesis
    unfolding ledger_later_def
    by (intro conjI subset_trans [OF conjunct1 [OF ab] conjunct1 [OF bc]]
        subset_trans [OF conjunct1 [OF conjunct2 [OF ab]] conjunct1 [OF conjunct2 [OF bc]]]
        subset_trans [OF conjunct2 [OF conjunct2 [OF ab]] conjunct2 [OF conjunct2 [OF bc]]])
qed

lemma distributed_zero: "unpaid s \<Longrightarrow> distributed_to i s = 0"
proof -
  assume u: "unpaid s"
  have "da_paymentStatus a = CapPENDING" if a: "a \<in> set (concat (map dd_allocations (me_dividends s)))" for a
  proof -
    obtain d :: dividend where "d \<in> set (me_dividends s)" "a \<in> set (dd_allocations d)"
      using a unfolding set_concat set_map by blast
    then show ?thesis using u unfolding unpaid_def by blast
  qed
  then have "filter (\<lambda>a. da_memberId a = i \<and> da_paymentStatus a = CapCONFIRMED) (concat (map dd_allocations (me_dividends s))) = []"
    by (intro filter_False) (simp del: set_concat)
  then show ?thesis by (simp only: distributed_to_def list.map sum_list.Nil moneyDec_zero)
qed

section \<open>Recomputing\<close>

lemma ensure_frame:
  assumes "ensure_settings r s = Inr (t, c)"
  shows "t = s\<lparr>me_settings := me_settings t\<rparr>" "cp_votingThresholdAmount c = threshold r" "threshold t = threshold s"
proof -
  have "t = s \<or> me_settings s = None \<and> (t, c) = getCooperativeSettings s"
    using assms by (auto simp: ensure_settings_def split: option.splits if_splits)
  then show "t = s\<lparr>me_settings := me_settings t\<rparr>" "threshold t = threshold s"
    using settings_frame [of s t c] by (auto simp: getCooperativeSettings_def split: option.splits)
  show "cp_votingThresholdAmount c = threshold r"
    using assms by (auto simp: ensure_settings_def threshold_def getCooperativeSettings_def split: option.splits if_splits)
qed

text \<open>What the sums of a transaction see of a member is what stands there when it writes.\<close>

definition same_view :: "ident \<Rightarrow> member_db \<Rightarrow> member_db \<Rightarrow> bool" where
  "same_view i r s \<longleftrightarrow> confirmed_capital i r = confirmed_capital i s \<and> threshold r = threshold s
     \<and> distributed_to i r = distributed_to i s"

lemma recompute_books:
  assumes run: "recomputeVotingRights i r s = Inr (t, v)" and see: "fst p \<longrightarrow> same_view i r s" and b: "books p X s" "\<forall>e \<in> set (me_equity s). eq_memberId e = i \<longrightarrow> account_ok p s e"
  shows "books p (X - {i}) t" "ledger_later s t" "i \<in> m_id ` set (me_members s)" "me_members t = upd_row m_id i
      (\<lambda>m. m\<lparr>m_totalInvested := confirmed_capital i r, m_hasVotingRights := (threshold r \<le> confirmed_capital i r)\<rparr>) (me_members s)"
    "threshold t = threshold s" "me_equity t = me_equity s" "me_investments t = me_investments s"
proof -
  obtain s1 c where c: "ensure_settings r s = Inr (s1, c)" using run by (auto simp: recomputeVotingRights_def Let_def bindE_Inr_iff)
  note sf = ensure_frame [OF c]
  have m1: "me_members s1 = me_members s" by (subst sf(1)) simp
  have r: "has_row m_id i (me_members s)" "t = me_set_members (upd_row m_id i
      (\<lambda>m. m\<lparr>m_totalInvested := confirmed_capital i r, m_hasVotingRights := (threshold r \<le> confirmed_capital i r)\<rparr>) (me_members s)) s1"
    using run by (auto simp: recomputeVotingRights_def c Let_def bindE_Inr_iff member_update_def update_row_def m1 sf(2) split: if_splits)
  show i: "i \<in> m_id ` set (me_members s)" using r(1) by (simp add: has_row_def)
  show m: "me_members t = upd_row m_id i
      (\<lambda>m. m\<lparr>m_totalInvested := confirmed_capital i r, m_hasVotingRights := (threshold r \<le> confirmed_capital i r)\<rparr>) (me_members s)"
    by (simp add: r(2))
  have same: "me_investments t = me_investments s" "me_equity t = me_equity s" "me_votes t = me_votes s" "me_dividends t = me_dividends s"
    unfolding r(2) me_simps by (subst sf(1), simp)+
  show "me_equity t = me_equity s" "me_investments t = me_investments s" by (fact same)+
  have cc: "confirmed_capital j t = confirmed_capital j s" for j by (rule confirmed_capital_cong) (fact same(1))
  have th: "threshold t = threshold s" using sf(3) by (simp add: r(2) threshold_cong [of "me_set_members x s1" s1 for x])
  then show "threshold t = threshold s" .
  have ids: "map m_id (me_members t) = map m_id (me_members s)" unfolding m by (rule map_upd_row) simp
  have idset: "m_id ` set (me_members t) = m_id ` set (me_members s)" using arg_cong [OF ids, of set] by simp
  have k: "keys_ok t" using b(1) ids idset by (simp add: books_def keys_ok_def same)
  have u: "unpaid t" using b(1) by (simp add: books_def unpaid_def same)
  have mo: "member_ok p t x" if x: "x \<in> set (me_members t)" "m_id x \<notin> X - {i}" for x
  proof -
    obtain y :: member where y: "y \<in> set (me_members s)" "x = (if m_id y = i then y\<lparr>m_totalInvested := confirmed_capital i r,
        m_hasVotingRights := (threshold r \<le> confirmed_capital i r)\<rparr> else y)"
      using x(1) unfolding m in_upd_row by blast
    show ?thesis
    proof (cases "m_id y = i")
      case True
      then show ?thesis using y(2) see by (simp add: member_ok_def cc th same_view_def)
    next
      case False
      then have "member_ok p s y" using b(1) y x(2) by (simp add: books_def)
      then show ?thesis using False y(2) by (auto simp: member_ok_def cc th)
    qed
  qed
  have ao: "account_ok p t e" if "e \<in> set (me_equity t)" "eq_memberId e \<notin> X - {i}" for e
    using b that by (auto simp: books_def account_ok_def cc same)
  show "books p (X - {i}) t" using k u mo ao by (simp add: books_def)
  show "ledger_later s t" by (simp add: ledger_later_def same idset)
qed

lemma recompute_dividends:
  assumes "recomputeVotingRights i r s = Inr (t, v)" shows "me_dividends t = me_dividends s"
proof -
  obtain s1 c where c: "ensure_settings r s = Inr (s1, c)" using assms by (auto simp: recomputeVotingRights_def Let_def bindE_Inr_iff)
  have "me_dividends s1 = me_dividends s" by (subst ensure_frame(1) [OF c]) simp
  then show ?thesis using assms
    by (auto simp: recomputeVotingRights_def Let_def bindE_Inr_iff c member_update_def)
qed

lemma refresh_books:
  assumes run: "refreshEquityAccount now i r s = Inr t" and see: "fst p \<longrightarrow> same_view i r s" and b: "books p {i} s"
  shows "books p {} t \<and> ledger_later s t"
proof -
  let ?row = "\<lparr>eq_memberId = i, eq_totalContributed = confirmed_capital i r, eq_distributedToDate = distributed_to i r,
                 eq_currentBalance = moneyDec (confirmed_capital i r - distributed_to i r), eq_lastUpdatedAt = now\<rparr>"
  let ?eq = "if has_row eq_memberId i (me_equity s)
                 then upd_row eq_memberId i (\<lambda>_. ?row) (me_equity s) else me_equity s @ [?row]"
  let ?s1 = "s\<lparr>me_equity := ?eq\<rparr>"
  obtain v where r: "recomputeVotingRights i r ?s1 = Inr (t, v)"
    using run by (auto simp: refreshEquityAccount_def Let_def bindE_Inr_iff)
  have un: "unpaid s" and keys: "keys_ok s" using b by (simp_all add: books_def)
  have row: "account_ok p x ?row" if "me_investments x = me_investments s" for x
    using distributed_zero [OF un] confirmed_capital_cong [OF that] see
    by (simp add: account_ok_def same_view_def) (simp add: confirmed_capital_def moneyDec_idem)
  have cc: "confirmed_capital j ?s1 = confirmed_capital j s" for j by (rule confirmed_capital_cong) simp
  have th: "threshold ?s1 = threshold s" by (rule threshold_cong) simp
  have mem: "i \<in> m_id ` set (me_members s)"
    using r by (auto simp: recomputeVotingRights_def ensure_settings_def Let_def bindE_Inr_iff member_update_def update_row_def has_row_def
        getCooperativeSettings_def split: if_splits option.splits)
  have eqs: "e \<in> set ?eq \<longleftrightarrow> e = ?row \<or> e \<in> set (me_equity s) \<and> eq_memberId e \<noteq> i" for e
    using keys by (auto simp: in_upd_row has_row_def)
  have ids: "distinct (map eq_memberId ?eq)"
  proof (cases "has_row eq_memberId i (me_equity s)")
    case True
    have "map eq_memberId (upd_row eq_memberId i (\<lambda>_. ?row) (me_equity s)) = map eq_memberId (me_equity s)"
      by (rule map_upd_row) simp
    then show ?thesis using True keys by (simp add: keys_ok_def)
  next
    case False
    then show ?thesis using keys by (auto simp: keys_ok_def has_row_def)
  qed
  have k1: "keys_ok ?s1" using keys ids mem eqs by (auto simp: keys_ok_def)
  have u1: "unpaid ?s1" using un by (simp add: unpaid_def)
  have m1: "member_ok p ?s1 m" if "m \<in> set (me_members s)" "m_id m \<noteq> i" for m
  proof -
    have "member_ok p s m" using b that by (simp add: books_def)
    then show ?thesis by (auto simp: member_ok_def cc th)
  qed
  have a1: "account_ok p ?s1 e" if "e \<in> set ?eq" for e
    using that eqs [of e] row [of ?s1] b by (auto simp: books_def account_ok_def cc)
  have b1: "books p {i} ?s1" using k1 u1 m1 a1 by (simp add: books_def)
  have all: "\<forall>e \<in> set (me_equity ?s1). eq_memberId e = i \<longrightarrow> account_ok p ?s1 e" using a1 by simp
  have see1: "fst p \<longrightarrow> same_view i r ?s1" using see cc th by (simp add: same_view_def distributed_to_def)
  have "books p ({i} - {i}) t" "ledger_later ?s1 t" using recompute_books(1,2) [OF r see1 b1 all] by simp_all
  then show ?thesis by (simp add: ledger_later_def)
qed

section \<open>What every operation keeps\<close>

definition books_kept :: "calm \<Rightarrow> member_db \<Rightarrow> member_db \<Rightarrow> bool" where
  "books_kept p s t \<longleftrightarrow> (books p {} s \<longrightarrow> books p {} t \<and> ledger_later s t)"

text \<open>An operation that leaves the money alone and takes rights away at most.\<close>

lemma soft_change:
  assumes same: "me_investments t = me_investments s" "me_equity t = me_equity s" "snd p \<Longrightarrow> threshold t = threshold s" "me_votes t = me_votes s"
    and pay: "unpaid s \<Longrightarrow> unpaid t"
    and mem: "me_members t = map f (me_members s)"
      "\<And>m. m \<in> set (me_members s) \<Longrightarrow> m_id (f m) = m_id m \<and> m_totalInvested (f m) = m_totalInvested m \<and> (m_hasVotingRights (f m) \<longrightarrow> m_hasVotingRights m)"
  shows "books_kept p s t"
  unfolding books_kept_def
proof
  assume b: "books p {} s"
  have ids: "map m_id (me_members t) = map m_id (me_members s)" unfolding mem(1) map_map by (rule map_cong) (simp_all add: mem(2))
  have idset: "m_id ` set (me_members t) = m_id ` set (me_members s)" using arg_cong [OF ids, of set] by simp
  have cc: "confirmed_capital j t = confirmed_capital j s" for j by (rule confirmed_capital_cong) (fact same(1))
  have k: "keys_ok t" using b ids idset by (simp add: books_def keys_ok_def same)
  have m: "member_ok p t x" if x: "x \<in> set (me_members t)" for x
  proof -
    obtain y :: member where y: "y \<in> set (me_members s)" "x = f y" using x unfolding mem(1) set_map by blast
    have "member_ok p s y" using b y(1) by (simp add: books_def)
    then show ?thesis using mem(2) [OF y(1)] y(2) by (auto simp: member_ok_def cc same)
  qed
  have e: "account_ok p t e" if "e \<in> set (me_equity t)" for e
  proof -
    have "account_ok p s e" using b that by (simp add: books_def same)
    then show ?thesis by (simp add: account_ok_def cc)
  qed
  have "unpaid t" using b pay by (simp add: books_def)
  then show "books p {} t \<and> ledger_later s t" using k m e by (simp add: books_def ledger_later_def same idset)
qed

lemma member_update_Inr:
  "member_update i f s = Inr t \<longleftrightarrow> has_row m_id i (me_members s) \<and> t = me_set_members (upd_row m_id i f (me_members s)) s"
  by (auto simp: member_update_def update_row_def bindE_Inr_iff)

lemma member_update_kept:
  assumes "member_update i f s = Inr u" "me_members t = me_members u" "me_investments t = me_investments u" "me_equity t = me_equity u"
    "me_settings t = me_settings u" "me_votes t = me_votes u" "me_dividends t = me_dividends u"
    "\<And>m. m_id (f m) = m_id m \<and> m_totalInvested (f m) = m_totalInvested m \<and> (m_hasVotingRights (f m) \<longrightarrow> m_hasVotingRights m)"
  shows "books_kept p s t"
proof (rule soft_change [where f = "\<lambda>m. if m_id m = i then f m else m"])
  have u: "u = me_set_members (upd_row m_id i f (me_members s)) s" using assms(1) by (simp add: member_update_Inr)
  show "me_members t = map (\<lambda>m. if m_id m = i then f m else m) (me_members s)" by (simp add: assms(2) u upd_row_def)
  show "threshold t = threshold s" by (rule threshold_cong) (simp add: assms(5) u)
qed (use assms in \<open>auto simp: member_update_Inr unpaid_def\<close>)

lemma plain_change:
  assumes "me_members t = me_members s" "me_investments t = me_investments s" "me_equity t = me_equity s" "snd p \<Longrightarrow> threshold t = threshold s"
    "me_votes t = me_votes s" "unpaid s \<Longrightarrow> unpaid t"
  shows "books_kept p s t"
  by (rule soft_change [where f = "\<lambda>m. m"]) (simp_all add: assms)

lemma updated_member_fields:
  "m_id (updated_member e i m) = m_id m" "m_totalInvested (updated_member e i m) = m_totalInvested m"
  "m_hasVotingRights (updated_member e i m) = m_hasVotingRights m"
  by (simp_all add: updated_member_def)

lemma updateMember_kept: "updateMember e actor i input s0 s = Inr t \<Longrightarrow> books_kept p s t"
  by (rule member_update_kept [where f = "updated_member e input" and i = i and u = t])
    (auto simp: updateMember_def updated_member_fields bindE_Inr_iff split: if_splits)

lemma approveMember_kept: "approveMember now i u s0 s = Inr t \<Longrightarrow> books_kept p s t"
  by (auto simp: approveMember_def bindE_Inr_iff split: option.splits if_splits intro!: member_update_kept)

lemma requestWithdrawal_kept: "requestWithdrawal i reason s0 s = Inr t \<Longrightarrow> books_kept p s t"
  by (auto simp: requestWithdrawal_def bindE_Inr_iff split: option.splits if_splits intro!: member_update_kept)

lemma finalizeWithdrawal_kept: "finalizeWithdrawal actor i s0 s = Inr t \<Longrightarrow> books_kept p s t"
  by (auto simp: finalizeWithdrawal_def bindE_Inr_iff split: option.splits if_splits intro!: member_update_kept)

lemma confirmMembershipFee_kept: "confirmMembershipFee now actor i method ref s0 s = Inr t \<Longrightarrow> books_kept p s t"
  by (rule plain_change) (auto simp: confirmMembershipFee_def bindE_Inr_iff unpaid_def split: option.splits if_splits intro!: threshold_cong)

lemma resolution_kept:
  "createBoardResolution actor i title desc url s = Inr t \<Longrightarrow> books_kept p s t"
  "passBoardResolution now actor i s = Inr t \<Longrightarrow> books_kept p s t"
  by (rule plain_change; auto simp: createBoardResolution_def passBoardResolution_def bindE_Inr_iff unpaid_def intro!: threshold_cong)+

lemma createBallot_kept: "createBallot actor i ids title desc opts s = Inr t \<Longrightarrow> books_kept p s t"
  by (rule plain_change) (auto simp: createBallot_def bindE_Inr_iff unpaid_def split: if_splits intro!: threshold_cong)

lemma declareDividend_kept:
  assumes "declareDividend i res year pool method s0 s = Inr t" shows "books_kept p s t"
proof -
  obtain d where "t = s\<lparr>me_dividends := me_dividends s @ [d]\<rparr>" "dd_allocations d = []"
    using assms by (auto simp: declareDividend_def bindE_Inr_iff create_row_def split: option.splits if_splits)
  then show ?thesis by (intro plain_change) (auto simp: unpaid_def intro!: threshold_cong)
qed

lemma allocateDividend_InrE:
  assumes "allocateDividend ops i h s0 s = Inr (t, x)"
  obtains d share ds where "find_row dd_id i (me_dividends s0) = Some d" "dd_status d = DivDECLARED"
    "share = (case h of None \<Rightarrow> DEFAULT_HYBRID_CAPITAL_SHARE | Some y \<Rightarrow> y)" "0 \<le> share" "share \<le> 1"
    "0 < sum_list (map snd (dividend_weights ops share d s0))"
    "update_row dd_id i (\<lambda>y. y\<lparr>dd_allocations := map (allocation_row ops (dd_totalPoolAmount d)
        (sum_list (map snd (dividend_weights ops share d s0)))) (dividend_weights ops share d s0), dd_status := DivALLOCATED\<rparr>) (me_dividends s) = Inr ds"
    "t = s\<lparr>me_dividends := ds\<rparr>" "find_row dd_id i ds = Some x"
  using assms by (auto simp: allocateDividend_def Let_def bindE_Inr_iff not_less not_le split: option.splits if_splits)

lemma allocateDividend_kept:
  assumes "allocateDividend ops i h s0 s = Inr (t, x)" shows "books_kept p s t"
proof -
  obtain d :: dividend and ws totalWeight ds where a: "update_row dd_id i (\<lambda>y. y\<lparr>dd_allocations := map (allocation_row ops (dd_totalPoolAmount d)
        totalWeight) ws, dd_status := DivALLOCATED\<rparr>) (me_dividends s) = Inr ds" "t = s\<lparr>me_dividends := ds\<rparr>"
    by (rule allocateDividend_InrE [OF assms]) (rule that)
  have "unpaid t" if "unpaid s"
    using that a by (auto simp: unpaid_def update_row_def in_upd_row allocation_row_def split: if_splits)
  then show ?thesis by (intro plain_change) (auto simp: a(2) intro!: threshold_cong)
qed

section \<open>New members\<close>

lemma new_member_fields:
  "m_id (new_member now e actor input i n) = i" "m_totalInvested (new_member now e actor input i n) = 0"
  "\<not> m_hasVotingRights (new_member now e actor input i n)"
  by (simp_all add: new_member_def)

lemma create_member_tx_kept:
  assumes run: "create_member_tx now e actor input i f n s = Inr (t, m)" shows "books_kept p s t"
  unfolding books_kept_def
proof
  assume b: "books p {} s"
  have new: "i \<notin> m_id ` set (me_members s)" "i \<notin> eq_memberId ` set (me_equity s)"
    using run by (auto simp: create_member_tx_def Let_def has_row_def split: if_splits)
  have t: "me_members t = me_members s @ [new_member now e actor input i n]" "me_investments t = me_investments s"
    "me_settings t = me_settings s" "me_votes t = me_votes s" "me_dividends t = me_dividends s"
    "me_equity t = me_equity s @ [\<lparr>eq_memberId = i, eq_totalContributed = 0, eq_distributedToDate = 0,
              eq_currentBalance = 0, eq_lastUpdatedAt = now\<rparr>]"
    using run by (auto simp: create_member_tx_def Let_def split: if_splits)
  have cc: "confirmed_capital j t = confirmed_capital j s" for j by (rule confirmed_capital_cong) (fact t(2))
  have th: "threshold t = threshold s" by (rule threshold_cong) (fact t(3))
  have keys: "keys_ok s" using b by (simp add: books_def)
  have none: "\<not> counts_as_capital i x" if "x \<in> set (me_investments s)" for x
    using keys new(1) that by (auto simp: keys_ok_def counts_as_capital_def)
  have "filter (counts_as_capital i) (me_investments s) = []" by (rule filter_False) (use none in blast)
  then have zero: "confirmed_capital i s = 0" by (simp add: confirmed_capital_def)
  have k: "keys_ok t" using keys new by (auto simp: keys_ok_def t(1,2,4,6) new_member_fields)
  have mo: "member_ok p t x" if x: "x \<in> set (me_members t)" for x
  proof (cases "x \<in> set (me_members s)")
    case True
    then have "member_ok p s x" using b by (simp add: books_def)
    then show ?thesis by (auto simp: member_ok_def cc th)
  next
    case False
    then have "x = new_member now e actor input i n" using x t(1) by simp
    then show ?thesis by (simp add: member_ok_def cc zero new_member_fields)
  qed
  have ao: "account_ok p t x" if x: "x \<in> set (me_equity t)" for x
  proof (cases "x \<in> set (me_equity s)")
    case True
    then have "account_ok p s x" using b by (simp add: books_def)
    then show ?thesis by (simp add: account_ok_def cc)
  next
    case False
    then show ?thesis using x by (simp add: t(6) account_ok_def cc zero)
  qed
  have "unpaid t" using b by (simp add: books_def unpaid_def t(5))
  then show "books p {} t \<and> ledger_later s t" using k mo ao by (auto simp: books_def ledger_later_def t(1,2,4))
qed

lemma create_attempts_Inr: "create_attempts n tx s = Inr r \<Longrightarrow> \<exists>k. tx k s = Inr r"
  by (induction n) (auto split: sum.splits if_splits)

lemma createMember_kept:
  assumes "createMember now e ids fees cand lng actor input s0 s = Inr (t, m)" shows "books_kept p s t"
proof -
  have "create_attempts 3 (\<lambda>n. create_member_tx now e actor input (ids n) (fees n)
         (generateUniqueMemberNumber (cand n) (lng n) s0)) s = Inr (t, m)"
    using assms by (auto simp: createMember_def bindE_Inr_iff)
  from create_attempts_Inr [OF this]
  obtain k where "create_member_tx now e actor input (ids k) (fees k) (generateUniqueMemberNumber (cand k) (lng k) s0) s = Inr (t, m)"
    by blast
  then show ?thesis by (rule create_member_tx_kept)
qed

section \<open>Money in and out\<close>

text \<open>The member's capital is due for recomputing once one of its investments has changed.\<close>

lemma touched_books:
  assumes b: "books p {} s" and t: "me_members t = me_members s" "me_equity t = me_equity s" "me_settings t = me_settings s"
      "me_votes t = me_votes s" "me_dividends t = me_dividends s"
    and others: "\<And>j. j \<noteq> i \<Longrightarrow> filter (counts_as_capital j) (me_investments t) = filter (counts_as_capital j) (me_investments s)"
    and inv: "distinct (map iv_id (me_investments t))" "\<forall>x \<in> set (me_investments t). iv_memberId x \<in> m_id ` set (me_members s)"
  shows "books p {i} t"
proof -
  have cc: "confirmed_capital j t = confirmed_capital j s" if "j \<noteq> i" for j using others [OF that] by (simp add: confirmed_capital_def)
  have th: "threshold t = threshold s" by (rule threshold_cong) (fact t(3))
  have k: "keys_ok t" using b inv by (simp add: books_def keys_ok_def t)
  have mo: "member_ok p t x" if x: "x \<in> set (me_members t)" "m_id x \<noteq> i" for x
  proof -
    have "member_ok p s x" using b x by (simp add: books_def t)
    then show ?thesis using cc [OF x(2)] th by (auto simp: member_ok_def)
  qed
  have ao: "account_ok p t x" if x: "x \<in> set (me_equity t)" "eq_memberId x \<noteq> i" for x
  proof -
    have "account_ok p s x" using b x by (simp add: books_def t)
    then show ?thesis using cc [OF x(2)] by (simp add: account_ok_def)
  qed
  have "unpaid t" using b by (simp add: books_def unpaid_def t)
  then show ?thesis using k mo ao by (simp add: books_def)
qed

lemma books_same:
  assumes "books p {} s" "me_members t = me_members s" "me_equity t = me_equity s" "me_settings t = me_settings s"
      "me_votes t = me_votes s" "me_dividends t = me_dividends s" "me_investments t = me_investments s"
  shows "books p {} t \<and> ledger_later s t"
proof -
  have "books_kept p s t" by (rule plain_change) (use assms in \<open>auto simp: unpaid_def intro!: threshold_cong\<close>)
  then show ?thesis using assms(1) by (simp add: books_kept_def)
qed

lemma new_investment_fields:
  "iv_id (new_investment now i m a opts c) = i" "iv_memberId (new_investment now i m a opts c) = m"
  "iv_paymentStatus (new_investment now i m a opts c) = (if ko_confirm opts \<noteq> Some False then CapCONFIRMED else CapPENDING)"
  "iv_amount (new_investment now i m a opts c) = moneyDec a" "iv_refundedAt (new_investment now i m a opts c) = None"
  by (simp_all add: new_investment_def Let_def)

text \<open>
  The investments of the member, the threshold and what was distributed are the same in what a transaction sees and
  in the state it writes to. Then its sums are the right ones, also with its own row.
\<close>

definition same_rows :: "ident \<Rightarrow> member_db \<Rightarrow> member_db \<Rightarrow> bool" where
  "same_rows i r s \<longleftrightarrow> filter (\<lambda>x. iv_memberId x = i) (me_investments r) = filter (\<lambda>x. iv_memberId x = i) (me_investments s)
     \<and> threshold r = threshold s \<and> distributed_to i r = distributed_to i s"

lemma same_rows_refl [simp]: "same_rows i s s"
  by (simp add: same_rows_def)

lemma capital_of_rows: "filter (counts_as_capital i) xs
    = filter (\<lambda>x. iv_paymentStatus x = CapCONFIRMED \<and> iv_refundedAt x = None) (filter (\<lambda>x. iv_memberId x = i) xs)"
  unfolding filter_filter by (rule filter_cong [OF refl]) (simp add: counts_as_capital_def conj_ac)

lemma same_rows_view: "same_rows i r s \<Longrightarrow> same_view i r s"
  by (simp add: same_rows_def same_view_def confirmed_capital_def capital_of_rows)

lemma same_rows_step:
  assumes "same_rows i r s" "\<And>xs. filter (\<lambda>x. iv_memberId x = i) (g xs) = h (filter (\<lambda>x. iv_memberId x = i) xs)"
    and "me_investments t = g (me_investments s)" "me_settings t = me_settings s" "me_dividends t = me_dividends s"
  shows "same_view i (r\<lparr>me_investments := g (me_investments r)\<rparr>) t"
  by (rule same_rows_view)
    (use assms in \<open>simp add: same_rows_def distributed_to_def threshold_cong [of "r\<lparr>me_investments := x\<rparr>" r for x] threshold_cong [of t s]\<close>)

lemma filter_member_update:
  assumes "\<And>x. iv_memberId (f x) = iv_memberId x"
  shows "filter (\<lambda>x. iv_memberId x = m) (upd_row iv_id i f xs) = upd_row iv_id i f (filter (\<lambda>x. iv_memberId x = m) xs)"
  by (induction xs) (simp_all add: assms)

text \<open>The stages of recording an investment.\<close>

lemma invest_InrE:
  assumes "recordCapitalInvestment now i m amount opts s0 v s = Inr (t, r)"
  obtains s1 s3 c where "0 < amount" "find_member m s0 \<noteq> None" "r = new_investment now i m amount opts c"
    "s1 = s\<lparr>me_certificates := me_certificates s1\<rparr>" "insert_investment r s1 = Inr (s1\<lparr>me_investments := me_investments s @ [r]\<rparr>)"
    "(if ko_confirm opts \<noteq> Some False
      then refreshEquityAccount now m (v\<lparr>me_investments := me_investments v @ [r]\<rparr>) (s1\<lparr>me_investments := me_investments s @ [r]\<rparr>)
      else Inr (s1\<lparr>me_investments := me_investments s @ [r]\<rparr>)) = Inr s3"
    "t = me_audit (ko_confirmedByUserId opts) ''CAPITAL_CONTRIBUTION'' ''CapitalInvestment'' i s3"
proof -
  let ?p = "if ko_confirm opts \<noteq> Some False then map_prod id Some (nextCertificateNumber s) else (s, None)"
  have g: "\<not> \<not> amount > 0" "find_member m s0 \<noteq> None"
    using assms by (auto simp: recordCapitalInvestment_def split: if_splits)
  note run1 = assms [unfolded recordCapitalInvestment_def if_not_P [OF g(1)] if_not_P [OF g(2)] Let_def]
  obtain s1 c where p: "?p = (s1, c)" by fastforce
  note run2 = run1 [unfolded p prod.case]
  have s1: "s1 = s\<lparr>me_certificates := me_certificates s1\<rparr>" "me_investments s1 = me_investments s"
    using p by (auto simp: nextCertificateNumber_def Let_def split: if_splits)
  obtain s2 where s2: "insert_investment (new_investment now i m amount opts c) s1 = Inr s2" by (rule bindE_InrE [OF run2])
  note run3 = run2 [unfolded s2 bindE_simps]
  let ?r = "new_investment now i m amount opts c"
  obtain s3 where s3: "(if ko_confirm opts \<noteq> Some False
      then refreshEquityAccount now m (v\<lparr>me_investments := me_investments v @ [?r]\<rparr>) s2 else Inr s2) = Inr s3"
    by (rule bindE_InrE [OF run3])
  note run4 = run3 [unfolded s3 bindE_simps]
  have "s2 = s1\<lparr>me_investments := me_investments s @ [new_investment now i m amount opts c]\<rparr>"
    using s2 s1(2) by (auto simp: insert_investment_def split: if_splits)
  then show thesis
    using that [of c s1 s3] g s1(1) s2 s3 run4 by auto
qed

lemma invest_kept:
  assumes later: "ledger_later s0 s" and see: "fst p \<Longrightarrow> same_rows m v s"
    and run: "recordCapitalInvestment now i m amount opts s0 v s = Inr (t, r)"
  shows "books_kept p s t"
  unfolding books_kept_def
proof
  assume b: "books p {} s"
  obtain s1 s3 :: member_db and c where a: "find_member m s0 \<noteq> None" "r = new_investment now i m amount opts c"
    "s1 = s\<lparr>me_certificates := me_certificates s1\<rparr>" "insert_investment r s1 = Inr (s1\<lparr>me_investments := me_investments s @ [r]\<rparr>)"
    "(if ko_confirm opts \<noteq> Some False
      then refreshEquityAccount now m (v\<lparr>me_investments := me_investments v @ [r]\<rparr>) (s1\<lparr>me_investments := me_investments s @ [r]\<rparr>)
      else Inr (s1\<lparr>me_investments := me_investments s @ [r]\<rparr>)) = Inr s3"
    "t = me_audit (ko_confirmedByUserId opts) ''CAPITAL_CONTRIBUTION'' ''CapitalInvestment'' i s3"
    by (rule invest_InrE [OF run]) (rule that)
  let ?s2 = "s1\<lparr>me_investments := me_investments s @ [r]\<rparr>"
  have f: "me_members ?s2 = me_members s" "me_equity ?s2 = me_equity s" "me_settings ?s2 = me_settings s" "me_votes ?s2 = me_votes s"
      "me_dividends ?s2 = me_dividends s" "me_investments s1 = me_investments s" by (subst a(3), simp)+
  have rid: "iv_id r = i" "iv_memberId r = m" by (simp_all add: a(2) new_investment_fields)
  have "m \<in> m_id ` set (me_members s0)" using a(1) find_row_SomeD [of m_id m "me_members s0"] by (force simp: find_member_def)
  then have mem: "m \<in> m_id ` set (me_members s)" using later unfolding ledger_later_def by blast
  have fresh: "i \<notin> iv_id ` set (me_investments s)" using a(4) f(6) rid by (auto simp: insert_investment_def has_row_def split: if_splits)
  have keys: "keys_ok s" using b by (simp add: books_def)
  have dist: "distinct (map iv_id (me_investments ?s2))" "\<forall>x \<in> set (me_investments ?s2). iv_memberId x \<in> m_id ` set (me_members s)"
    using keys fresh rid mem by (auto simp: keys_ok_def)
  have l2: "ledger_later s ?s2" unfolding ledger_later_def f(1,4) by auto
  have b2: "books p {m} ?s2"
    by (rule touched_books [OF b f(1-5) _ dist]) (simp add: counts_as_capital_def rid)
  have "books p {} s3 \<and> ledger_later ?s2 s3"
  proof (cases "ko_confirm opts = Some False")
    case False
    have "same_view m (v\<lparr>me_investments := me_investments v @ [r]\<rparr>) ?s2" if "fst p"
      by (rule same_rows_step [OF see [OF that], where g = "\<lambda>xs. xs @ [r]" and h = "\<lambda>xs. xs @ [r]"]) (simp_all add: rid f)
    then show ?thesis using a(5) refresh_books [OF _ _ b2] False by simp
  next
    case True
    then have s3: "s3 = ?s2" using a(5) by simp
    have st: "iv_paymentStatus r = CapPENDING" using True by (simp add: a(2) new_investment_fields)
    have cc: "confirmed_capital j ?s2 = confirmed_capital j s" for j by (simp add: confirmed_capital_def counts_as_capital_def st)
    have th: "threshold ?s2 = threshold s" by (rule threshold_cong) (fact f(3))
    have k: "keys_ok ?s2" using b2 by (simp add: books_def)
    have "member_ok p ?s2 x" if "x \<in> set (me_members ?s2)" for x
    proof -
      have "member_ok p s x" using b that f(1) by (simp add: books_def)
      then show ?thesis by (auto simp: member_ok_def cc th)
    qed
    moreover have "account_ok p ?s2 x" if "x \<in> set (me_equity ?s2)" for x
    proof -
      have "account_ok p s x" using b that f(2) by (simp add: books_def)
      then show ?thesis by (simp add: account_ok_def cc)
    qed
    moreover have "unpaid ?s2" using b2 by (simp add: books_def)
    ultimately show ?thesis using k by (simp add: s3 books_def ledger_later_refl)
  qed
  then have "books p {} s3" "ledger_later s s3" using ledger_later_trans [OF l2] by blast+
  moreover have "books p {} t \<and> ledger_later s3 t" by (rule books_same [OF calculation(1)]) (simp_all add: a(6))
  ultimately show "books p {} t \<and> ledger_later s t" using ledger_later_trans by blast
qed

text \<open>An investment read earlier is a row of the same member in the state written to.\<close>

lemma investment_row:
  assumes "ledger_later s0 s" "keys_ok s" "find_row iv_id i (me_investments s0) = Some e" "x \<in> set (me_investments s)" "iv_id x = i"
  shows "iv_memberId x = iv_memberId e"
proof -
  have e: "e \<in> set (me_investments s0)" "iv_id e = i" using find_row_SomeD [OF assms(3)] by simp_all
  have "(iv_id e, iv_memberId e) \<in> (\<lambda>i. (iv_id i, iv_memberId i)) ` set (me_investments s)"
    using assms(1) e(1) unfolding ledger_later_def by blast
  then obtain y :: investment where y: "y \<in> set (me_investments s)" "iv_id y = iv_id e" "iv_memberId y = iv_memberId e" by auto
  have "distinct (map iv_id (me_investments s))" using assms(2) by (simp add: keys_ok_def)
  then have "y = x" by (rule distinct_mapD [OF _ y(1) assms(4)]) (simp add: y(2) e(2) assms(5))
  then show ?thesis using y(3) by simp
qed

lemma update_investment_books:
  assumes later: "ledger_later s0 s" and b: "books p {} s" and e: "find_row iv_id i (me_investments s0) = Some e"
    and s1: "s1 = s\<lparr>me_certificates := c\<rparr>" and run: "update_investment i f s1 = Inr t"
    and f: "\<And>x. iv_id (f x) = iv_id x \<and> iv_memberId (f x) = iv_memberId x"
    and see: "fst p \<Longrightarrow> same_rows (iv_memberId e) r s"
  shows "books p {iv_memberId e} t \<and> ledger_later s t
    \<and> (fst p \<longrightarrow> same_view (iv_memberId e) (r\<lparr>me_investments := upd_row iv_id i f (me_investments r)\<rparr>) t)"
proof -
  have t: "t = s1\<lparr>me_investments := upd_row iv_id i f (me_investments s)\<rparr>"
    using run by (auto simp: update_investment_def update_row_def bindE_Inr_iff s1 split: if_splits)
  have keys: "keys_ok s" using b by (simp add: books_def)
  let ?key = "\<lambda>i. (iv_id i, iv_memberId i)"
  have pm: "map ?key (me_investments t) = map ?key (me_investments s)" unfolding t by (simp add: map_upd_row f)
  then have "map fst (map ?key (me_investments t)) = map fst (map ?key (me_investments s))" by simp
  then have ids: "map iv_id (me_investments t) = map iv_id (me_investments s)" by (simp add: comp_def)
  have keyset: "?key ` set (me_investments t) = ?key ` set (me_investments s)" using arg_cong [OF pm, of set] by simp
  have mids: "iv_memberId ` set (me_investments t) = iv_memberId ` set (me_investments s)"
    using arg_cong [OF keyset, of "image snd"] by (simp add: image_image)
  have mem: "\<forall>x \<in> set (me_investments t). iv_memberId x \<in> m_id ` set (me_members s)"
  proof
    fix x assume "x \<in> set (me_investments t)"
    then have "iv_memberId x \<in> iv_memberId ` set (me_investments s)" unfolding mids [symmetric] by (rule imageI)
    then obtain y :: investment where "y \<in> set (me_investments s)" "iv_memberId x = iv_memberId y" by blast
    then show "iv_memberId x \<in> m_id ` set (me_members s)" using keys by (simp add: keys_ok_def)
  qed
  have others: "filter (counts_as_capital j) (me_investments t) = filter (counts_as_capital j) (me_investments s)"
    if j: "j \<noteq> iv_memberId e" for j
  proof -
    have "filter (counts_as_capital j) (upd_row iv_id i f xs) = filter (counts_as_capital j) xs" if "set xs \<subseteq> set (me_investments s)" for xs
      using that
    proof (induction xs)
      case (Cons x xs)
      have "iv_memberId x = iv_memberId e" if "iv_id x = i"
        using investment_row [OF later keys e _ that] Cons.prems by simp
      then have "\<not> counts_as_capital j x" "\<not> counts_as_capital j (f x)" if "iv_id x = i"
        using that j f by (auto simp: counts_as_capital_def)
      then show ?case using Cons by auto
    qed simp
    then show ?thesis by (simp add: t)
  qed
  have fr: "me_members t = me_members s" "me_equity t = me_equity s" "me_settings t = me_settings s" "me_votes t = me_votes s"
      "me_dividends t = me_dividends s" by (simp_all add: t s1)
  have "books p {iv_memberId e} t"
    by (rule touched_books [OF b fr others _ mem]) (use ids keys in \<open>simp_all add: keys_ok_def\<close>)
  moreover have "same_view (iv_memberId e) (r\<lparr>me_investments := upd_row iv_id i f (me_investments r)\<rparr>) t" if "fst p"
    by (rule same_rows_step [OF see [OF that], where h = "upd_row iv_id i f"]) (simp_all add: filter_member_update f t s1)
  ultimately show ?thesis using keyset by (simp add: ledger_later_def fr)
qed

lemma settle_investment:
  assumes b: "books p {} s" and t1: "books p {m} t1 \<and> ledger_later s t1 \<and> (fst p \<longrightarrow> same_view m v t1)"
    and r: "refreshEquityAccount now m v t1 = Inr t2"
    and t: "t = me_audit u a e i t2"
  shows "books p {} t \<and> ledger_later s t"
proof -
  have t2: "books p {} t2 \<and> ledger_later t1 t2" using refresh_books [OF r] t1 by blast
  have "books p {} t \<and> ledger_later t2 t" by (rule books_same) (use t2 in \<open>simp_all add: t\<close>)
  then show ?thesis using t1 t2 ledger_later_trans by blast
qed

lemma mark_kept:
  assumes later: "ledger_later s0 s" and run: "markInvestmentConfirmed now actor i s0 v s = Inr t"
    and see: "\<And>e. fst p \<Longrightarrow> find_row iv_id i (me_investments s0) = Some e \<Longrightarrow> same_rows (iv_memberId e) v s"
  shows "books_kept p s t"
  unfolding books_kept_def
proof
  assume b: "books p {} s"
  obtain e where e: "find_row iv_id i (me_investments s0) = Some e"
    using run by (auto simp: markInvestmentConfirmed_def bindE_Inr_iff split: option.splits)
  show "books p {} t \<and> ledger_later s t"
  proof (cases "iv_paymentStatus e = CapCONFIRMED")
    case True
    then have "t = s" using run by (auto simp: markInvestmentConfirmed_def bindE_Inr_iff e)
    then show ?thesis using b ledger_later_refl by simp
  next
    case False
    obtain s1 n where n: "(case iv_certificateNumber e of Some n \<Rightarrow> (s, n) | None \<Rightarrow> nextCertificateNumber s) = (s1, n)" by fastforce
    have s1: "s1 = s\<lparr>me_certificates := me_certificates s1\<rparr>"
      using n by (auto simp: nextCertificateNumber_def Let_def split: option.splits)
    let ?f = "\<lambda>i. i\<lparr>iv_paymentStatus := CapCONFIRMED, iv_receivedAt := Some now,
                    iv_certificateNumber := Some n, iv_confirmedByUserId := Some (au_id actor)\<rparr> :: investment"
    let ?v = "v\<lparr>me_investments := upd_row iv_id i ?f (me_investments v)\<rparr>"
    obtain s2 s3 where a: "update_investment i ?f s1 = Inr s2" "refreshEquityAccount now (iv_memberId e) ?v s2 = Inr s3"
        "t = me_audit (Some (au_id actor)) ''CAPITAL_CONTRIBUTION'' ''CapitalInvestment'' i s3"
      using run by (auto simp: markInvestmentConfirmed_def bindE_Inr_iff e False n Let_def split: if_splits)
    have "books p {iv_memberId e} s2 \<and> ledger_later s s2 \<and> (fst p \<longrightarrow> same_view (iv_memberId e) ?v s2)"
      by (rule update_investment_books [OF later b e s1 a(1) _ see [OF _ e]]) simp_all
    then show ?thesis by (rule settle_investment [OF b _ a(2,3)])
  qed
qed

lemma refund_kept:
  assumes later: "ledger_later s0 s" and run: "refundCapitalInvestment now actor i s0 v s = Inr t"
    and see: "\<And>e. fst p \<Longrightarrow> find_row iv_id i (me_investments s0) = Some e \<Longrightarrow> same_rows (iv_memberId e) v s"
  shows "books_kept p s t"
  unfolding books_kept_def
proof
  assume b: "books p {} s"
  let ?f = "\<lambda>i. i\<lparr>iv_paymentStatus := CapREFUNDED, iv_refundedAt := Some now\<rparr> :: investment"
  let ?v = "v\<lparr>me_investments := upd_row iv_id i ?f (me_investments v)\<rparr>"
  obtain e s2 s3 where e: "find_row iv_id i (me_investments s0) = Some e" and a: "update_investment i ?f s = Inr s2"
      "refreshEquityAccount now (iv_memberId e) ?v s2 = Inr s3"
      "t = me_audit (Some (au_id actor)) ''CAPITAL_REFUND'' ''CapitalInvestment'' i s3"
    using run by (auto simp: refundCapitalInvestment_def Let_def bindE_Inr_iff split: option.splits if_splits)
  have "books p {iv_memberId e} s2 \<and> ledger_later s s2 \<and> (fst p \<longrightarrow> same_view (iv_memberId e) ?v s2)"
    by (rule update_investment_books [OF later b e _ a(1) _ see [OF _ e], of "me_certificates s"]) simp_all
  then show "books p {} t \<and> ledger_later s t" by (rule settle_investment [OF b _ a(2,3)])
qed

end
