(* ===== verification/Membership_Properties.thy ===== *)
theory Membership_Properties
  imports
    Membership_Proofs
begin

text \<open>
  Histories of the membership module, and what holds in all of them: capital, equity accounts and voting
  rights agree, one member has one vote, dividends stay within the rounding of the pool. Then the places
  where the module does not do what it means to.
\<close>

section \<open>A new threshold\<close>






section \<open>Histories\<close>
















section \<open>Capital, rights and votes\<close>




section \<open>The same payment twice\<close>

lemma refresh_shape:
  assumes "refreshEquityAccount now i r s = Inr t"
  shows "me_investments t = me_investments s" "me_members t = upd_row m_id i
      (\<lambda>m. m\<lparr>m_totalInvested := confirmed_capital i r, m_hasVotingRights := (threshold r \<le> confirmed_capital i r)\<rparr>) (me_members s)"
proof -
  obtain e s1 c where c: "ensure_settings r (s\<lparr>me_equity := e\<rparr>) = Inr (s1, c)" and t: "t = me_set_members (upd_row m_id i
      (\<lambda>m. m\<lparr>m_totalInvested := confirmed_capital i r, m_hasVotingRights := (cp_votingThresholdAmount c \<le> confirmed_capital i r)\<rparr>)
      (me_members s1)) s1"
    using assms by (auto simp: refreshEquityAccount_def recomputeVotingRights_def Let_def bindE_Inr_iff member_update_Inr)
  have s1: "me_members s1 = me_members s" "me_investments s1 = me_investments s" by (subst ensure_frame(1) [OF c], simp)+
  show "me_investments t = me_investments s" by (simp add: t s1)
  show "me_members t = upd_row m_id i
      (\<lambda>m. m\<lparr>m_totalInvested := confirmed_capital i r, m_hasVotingRights := (threshold r \<le> confirmed_capital i r)\<rparr>) (me_members s)"
    by (simp add: t s1 ensure_frame(2) [OF c])
qed

lemma invest_rows:
  assumes run: "recordCapitalInvestment now i m amount opts s0 x s = Inr (t, r)"
  shows "me_investments t = me_investments s @ [r]" "\<exists>c. r = new_investment now i m amount opts c"
    "\<not> taken iv_stripePaymentIntentId r s" "i \<notin> iv_id ` set (me_investments s)"
    "ko_confirm opts \<noteq> Some False \<Longrightarrow> me_members t = upd_row m_id m (\<lambda>y. y\<lparr>m_totalInvested
        := confirmed_capital m (x\<lparr>me_investments := me_investments x @ [r]\<rparr>), m_hasVotingRights
        := (threshold x \<le> confirmed_capital m (x\<lparr>me_investments := me_investments x @ [r]\<rparr>))\<rparr>) (me_members s)"
proof -
  obtain s1 s3 :: member_db and c where a: "r = new_investment now i m amount opts c"
    "s1 = s\<lparr>me_certificates := me_certificates s1\<rparr>" "insert_investment r s1 = Inr (s1\<lparr>me_investments := me_investments s @ [r]\<rparr>)"
    "(if ko_confirm opts \<noteq> Some False
      then refreshEquityAccount now m (x\<lparr>me_investments := me_investments x @ [r]\<rparr>) (s1\<lparr>me_investments := me_investments s @ [r]\<rparr>)
      else Inr (s1\<lparr>me_investments := me_investments s @ [r]\<rparr>)) = Inr s3"
    "t = me_audit (ko_confirmedByUserId opts) ''CAPITAL_CONTRIBUTION'' ''CapitalInvestment'' i s3"
    by (rule invest_InrE [OF run]) (rule that)
  have s1: "me_investments s1 = me_investments s" "me_members s1 = me_members s" by (subst a(2), simp)+
  show "\<exists>c. r = new_investment now i m amount opts c" using a(1) by blast
  show "me_investments t = me_investments s @ [r]" using a(4) refresh_shape(1) by (auto simp: a(5) split: if_splits)
  have "insert_investment r s1 \<noteq> Inl UniqueViolation" by (simp add: a(3))
  then show "\<not> taken iv_stripePaymentIntentId r s" "i \<notin> iv_id ` set (me_investments s)"
    by (auto simp: insert_investment_def taken_def s1 has_row_def a(1) new_investment_fields split: if_splits)
  have th: "threshold (x\<lparr>me_investments := y\<rparr>) = threshold x" for y by (rule threshold_cong) simp
  assume "ko_confirm opts \<noteq> Some False"
  then show "me_members t = upd_row m_id m (\<lambda>y. y\<lparr>m_totalInvested
        := confirmed_capital m (x\<lparr>me_investments := me_investments x @ [r]\<rparr>), m_hasVotingRights
        := (threshold x \<le> confirmed_capital m (x\<lparr>me_investments := me_investments x @ [r]\<rparr>))\<rparr>) (me_members s)"
    using a(4) refresh_shape(2) by (simp add: a(5) s1(2) th)
qed


text \<open>
  C25: The route that records a contribution drops the Stripe payment it is given, so the unique column that is to
  keep a payment from counting twice stays empty: the same payment posted twice raises the member's capital twice.
  The service, given the payment as it expects it, refuses the second recording.
\<close>
theorem contribution_recorded_twice:
  assumes first: "contributions_route now i k amount (Some p) s0 r s = Inr (t, v)"
    and second: "contributions_route now2 j k amount (Some p) t0 r2 t = Inr (u, w)"
    and proper: "recordCapitalContribution now i k amount (Some p) s0 r' s = Inr (t', v')" "p \<noteq> []" and ids: "i \<noteq> j"
  shows "(iv_stripePaymentIntentId v = None \<and> iv_stripePaymentIntentId w = None)
    \<and> (sum_list (map iv_amount (filter (counts_as_capital k) (me_investments u)))
      = sum_list (map iv_amount (filter (counts_as_capital k) (me_investments s))) + 2 * moneyDec amount)
    \<and> (isl (recordCapitalContribution now2 j k amount (Some p) t0 r2 t'))"
proof -
  note run1 = invest_rows [OF first [unfolded contributions_route_def]]
  note run2 = invest_rows [OF second [unfolded contributions_route_def]]
  note good = invest_rows [OF proper(1) [unfolded recordCapitalContribution_def]]
  obtain c1 c2 where r: "v = new_investment now i k amount no_options c1" "w = new_investment now2 j k amount no_options c2"
    using run1(2) run2(2) by blast
  have goal1: "iv_stripePaymentIntentId v = None \<and> iv_stripePaymentIntentId w = None"
    by (simp add: r new_investment_def no_options_def Let_def)
  have "counts_as_capital k v" "counts_as_capital k w" "iv_amount v = moneyDec amount" "iv_amount w = moneyDec amount"
    by (simp_all add: r counts_as_capital_def new_investment_fields no_options_def)
  then have goal2: "sum_list (map iv_amount (filter (counts_as_capital k) (me_investments u)))
      = sum_list (map iv_amount (filter (counts_as_capital k) (me_investments s))) + 2 * moneyDec amount"
    by (simp add: run1(1) run2(1))
  obtain c' where v': "v' = new_investment now i k amount (no_options\<lparr>ko_stripePaymentIntentId := Some p, ko_confirm := Some True\<rparr>) c'"
    using good(2) by blast
  have goal3: "isl (recordCapitalContribution now2 j k amount (Some p) t0 r2 t')"
  proof (rule ccontr)
    assume "\<not> isl (recordCapitalContribution now2 j k amount (Some p) t0 r2 t')"
    then obtain x y where "recordCapitalContribution now2 j k amount (Some p) t0 r2 t' = Inr (x, y)"
      by (cases "recordCapitalContribution now2 j k amount (Some p) t0 r2 t'") auto
    note again = invest_rows [OF this [unfolded recordCapitalContribution_def]]
    obtain c where y: "y = new_investment now2 j k amount (no_options\<lparr>ko_stripePaymentIntentId := Some p, ko_confirm := Some True\<rparr>) c"
      using again(2) by blast
    have "taken iv_stripePaymentIntentId y t'"
      using ids by (simp add: taken_def good(1) y v' new_investment_fields) (simp add: new_investment_def Let_def)
    then show False using again(3) by blast
  qed
  show ?thesis by (rule conjI [OF goal1 conjI [OF goal2 goal3]])
qed

end
