(* ===== verification/Membership_Dividends.thy ===== *)
theory Membership_Dividends
  imports
    Membership_Proofs
begin

text \<open>
  What the allocation of a dividend pays out: each member its share of the pool, to half a cent, and in all the
  pool to half a cent per member. Product and quotient of decimals may be off by a relative error.
\<close>

section \<open>Decimal arithmetic with a relative error\<close>

definition ops_within :: "rat \<Rightarrow> dividend_ops \<Rightarrow> bool" where
  "ops_within e ops \<longleftrightarrow> 0 \<le> e \<and> e \<le> 1
     \<and> (\<forall>x y. 0 \<le> x \<longrightarrow> 0 \<le> y \<longrightarrow> \<bar>dmul ops x y - x * y\<bar> \<le> e * (x * y))
     \<and> (\<forall>x y. 0 \<le> x \<longrightarrow> 0 < y \<longrightarrow> \<bar>ddiv ops x y - x / y\<bar> \<le> e * (x / y))
     \<and> (\<forall>x. 0 < x \<longrightarrow> 0 < dtext ops x)"

lemma rel_nonneg:
  assumes "\<bar>a - (b::rat)\<bar> \<le> e * b" "0 \<le> b" "e \<le> 1" shows "0 \<le> a" "a \<le> (1 + e) * b"
proof -
  have "e * b \<le> 1 * b" by (rule mult_right_mono [OF assms(3,2)])
  then have "e * b \<le> b" by simp
  then show "0 \<le> a" using assms(1) by linarith
  show "a \<le> (1 + e) * b" using assms(1) by (simp add: algebra_simps abs_le_iff)
qed

text \<open>The row of one member: its exact share, half a cent and the errors of two operations.\<close>

lemma allocation_close:
  assumes ops: "ops_within e ops" and p: "0 \<le> p" and w: "0 < w" "0 < tw"
  shows "0 \<le> da_amount (allocation_row ops p tw (i, w))"
    and "\<bar>da_amount (allocation_row ops p tw (i, w)) - p * (w / tw)\<bar> \<le> 1 / 200 + 3 * e * (p * (w / tw))"
proof -
  have e: "0 \<le> e" "e \<le> 1" using ops by (simp_all add: ops_within_def)
  let ?m = "dmul ops p w" let ?q = "ddiv ops ?m tw" let ?x = "p * (w / tw)"
  have pw: "0 \<le> p * w" using p w by simp
  have m: "\<bar>?m - p * w\<bar> \<le> e * (p * w)" using ops p w by (simp add: ops_within_def)
  have m0: "0 \<le> ?m" and m1: "?m \<le> (1 + e) * (p * w)" by (rule rel_nonneg [OF m pw e(2)])+
  have q: "\<bar>?q - ?m / tw\<bar> \<le> e * (?m / tw)" using ops m0 w by (simp add: ops_within_def)
  have q0: "0 \<le> ?q" by (rule rel_nonneg [OF q _ e(2)]) (use m0 w in simp)
  have x: "?m / tw \<le> (1 + e) * ?x" using m1 w(2) by (simp add: divide_right_mono)
  have "(p * w) / tw = ?x" by simp
  moreover have "\<bar>?m - p * w\<bar> / tw \<le> e * (p * w) / tw" using m w(2) by (simp add: divide_right_mono)
  moreover have "\<bar>?m / tw - (p * w) / tw\<bar> = \<bar>?m - p * w\<bar> / tw" using w(2) by (simp add: diff_divide_distrib [symmetric] abs_divide)
  ultimately have d1: "\<bar>?m / tw - ?x\<bar> \<le> e * ?x" by simp
  have x0: "0 \<le> ?x" using p w by simp
  have "e * (?m / tw) \<le> e * ((1 + e) * ?x)" using x e by (intro mult_left_mono)
  also have "\<dots> \<le> e * (2 * ?x)" using e x0 by (intro mult_left_mono mult_right_mono) simp_all
  also have "\<dots> = 2 * (e * ?x)" by (rule mult.left_commute)
  finally have d2: "e * (?m / tw) \<le> 2 * (e * ?x)" .
  have d3: "\<bar>?q - ?x\<bar> \<le> 3 * (e * ?x)" using q d1 d2 by linarith
  have d4: "\<bar>moneyDec ?q - ?q\<bar> \<le> 1 / 200" using toDecimalPlaces_close [of 2 ?q] by (simp add: moneyDec_def)
  have amt: "da_amount (allocation_row ops p tw (i, w)) = moneyDec ?q" by (simp add: allocation_row_def)
  show "0 \<le> da_amount (allocation_row ops p tw (i, w))" unfolding amt moneyDec_def by (rule toDecimalPlaces_nonneg [OF q0])
  have "\<bar>moneyDec ?q - ?x\<bar> \<le> 1 / 200 + 3 * (e * ?x)" using d3 d4 by linarith
  then show "\<bar>da_amount (allocation_row ops p tw (i, w)) - p * (w / tw)\<bar> \<le> 1 / 200 + 3 * e * (p * (w / tw))"
    unfolding amt by (simp only: mult.assoc)
qed

lemma allocation_member: "da_memberId (allocation_row ops p tw w) = fst w"
  by (simp add: allocation_row_def)

section \<open>The whole pool\<close>

lemma allocated_sum_close:
  assumes ops: "ops_within e ops" and p: "0 \<le> p" and tw: "0 < tw" and ws: "\<forall>w \<in> set ws. 0 < snd w"
  shows "\<bar>sum_list (map (da_amount \<circ> allocation_row ops p tw) ws) - p * (sum_list (map snd ws) / tw)\<bar>
    \<le> of_nat (length ws) / 200 + 3 * e * (p * (sum_list (map snd ws) / tw))"
  using ws
proof (induction ws)
  case (Cons x ws)
  obtain i w where x: "x = (i, w)" by (cases x)
  let ?a = "da_amount (allocation_row ops p tw x)" let ?s = "sum_list (map (da_amount \<circ> allocation_row ops p tw) ws)"
  let ?r = "sum_list (map snd ws)"
  have a: "\<bar>?a - p * (w / tw)\<bar> \<le> 1 / 200 + 3 * e * (p * (w / tw))"
    unfolding x by (rule allocation_close(2) [OF ops p _ tw]) (use Cons.prems in \<open>simp add: x\<close>)
  have s: "\<bar>?s - p * (?r / tw)\<bar> \<le> of_nat (length ws) / 200 + 3 * e * (p * (?r / tw))"
    by (rule Cons.IH) (use Cons.prems in simp)
  have sum: "p * ((w + ?r) / tw) = p * (w / tw) + p * (?r / tw)" by (simp add: add_divide_distrib distrib_left)
  have err: "3 * e * (p * ((w + ?r) / tw)) = 3 * e * (p * (w / tw)) + 3 * e * (p * (?r / tw))"
    unfolding sum by (simp only: distrib_left)
  have len: "(of_nat (length (x # ws)) :: rat) / 200 = 1 / 200 + of_nat (length ws) / 200" by (simp add: add_divide_distrib)
  have "\<bar>(?a + ?s) - p * ((w + ?r) / tw)\<bar> \<le> of_nat (length (x # ws)) / 200 + 3 * e * (p * ((w + ?r) / tw))"
    unfolding sum [symmetric] err len unfolding sum using a s by linarith
  then show ?case by (simp add: x comp_def)
qed simp

lemma dividend_weights_members:
  "set (map fst (dividend_weights ops share d s)) \<subseteq> m_id ` {m \<in> set (me_members s). m_status m = MemACTIVE}"
  by (auto simp: dividend_weights_def Let_def)

lemma dividend_weights_positive:
  "ops_within e ops \<Longrightarrow> w \<in> set (dividend_weights ops share d s) \<Longrightarrow> 0 < snd w"
  by (auto simp: dividend_weights_def Let_def ops_within_def)

lemma dividend_weights_distinct:
  "distinct (map m_id (me_members s)) \<Longrightarrow> distinct (map fst (dividend_weights ops share d s))"
  by (simp add: dividend_weights_def Let_def comp_def distinct_map_filter)

text \<open>
  C24: An allocation that succeeds gives every entitled member, an active one with a positive weight, exactly one
  pending row; its amount is not negative and within half a cent (and the relative error of two decimal operations)
  of the member's share of the pool; the rows together are within half a cent per member of the pool.
\<close>
theorem dividend_within_rounding:
  assumes ops: "ops_within e ops" and run: "allocateDividend ops i h s0 s = Inr (t, x)"
    and d: "find_row dd_id i (me_dividends s0) = Some d" "0 \<le> dd_totalPoolAmount d" and ids: "distinct (map m_id (me_members s0))"
    and ws: "ws = dividend_weights ops (case h of None \<Rightarrow> DEFAULT_HYBRID_CAPITAL_SHARE | Some y \<Rightarrow> y) d s0"
    and tw: "totalWeight = sum_list (map snd ws)"
  shows "(dd_status x = DivALLOCATED \<and> x \<in> set (me_dividends t) \<and> dd_id x = i)
    \<and> (map da_memberId (dd_allocations x) = map fst ws \<and> distinct (map fst ws)
      \<and> set (map fst ws) \<subseteq> m_id ` {m \<in> set (me_members s0). m_status m = MemACTIVE})
    \<and> (list_all2 (\<lambda>a w. 0 < snd w \<and> 0 \<le> da_amount a \<and> da_paymentStatus a = CapPENDING
      \<and> \<bar>da_amount a - dd_totalPoolAmount d * (snd w / totalWeight)\<bar>
          \<le> 1 / 200 + 3 * e * (dd_totalPoolAmount d * (snd w / totalWeight))) (dd_allocations x) ws)
    \<and> (\<bar>sum_list (map da_amount (dd_allocations x)) - dd_totalPoolAmount d\<bar>
      \<le> of_nat (length (dd_allocations x)) / 200 + 3 * e * dd_totalPoolAmount d)"
proof -
  obtain d' :: dividend and share ds where a: "find_row dd_id i (me_dividends s0) = Some d'" "dd_status d' = DivDECLARED"
    "share = (case h of None \<Rightarrow> DEFAULT_HYBRID_CAPITAL_SHARE | Some y \<Rightarrow> y)" "0 \<le> share" "share \<le> 1"
    "0 < sum_list (map snd (dividend_weights ops share d' s0))"
    "update_row dd_id i (\<lambda>y. y\<lparr>dd_allocations := map (allocation_row ops (dd_totalPoolAmount d')
        (sum_list (map snd (dividend_weights ops share d' s0)))) (dividend_weights ops share d' s0), dd_status := DivALLOCATED\<rparr>)
      (me_dividends s) = Inr ds"
    "t = s\<lparr>me_dividends := ds\<rparr>" "find_row dd_id i ds = Some x"
    by (rule allocateDividend_InrE [OF run]) (rule that)
  have dd: "d' = d" using a(1) d(1) by simp
  have w: "dividend_weights ops share d s0 = ws" by (simp add: ws a(3))
  have t0: "0 < totalWeight" using a(6) by (simp add: dd w tw)
  have x: "x \<in> set ds" "dd_id x = i" using find_row_SomeD [OF a(9)] by simp_all
  have "ds = upd_row dd_id i (\<lambda>y. y\<lparr>dd_allocations := map (allocation_row ops (dd_totalPoolAmount d) totalWeight) ws,
      dd_status := DivALLOCATED\<rparr>) (me_dividends s)"
    using a(7) by (auto simp: update_row_def dd w tw split: if_splits)
  with x(1) obtain y :: dividend where y: "y \<in> set (me_dividends s)" "x = (if dd_id y = i then y\<lparr>dd_allocations :=
      map (allocation_row ops (dd_totalPoolAmount d) totalWeight) ws, dd_status := DivALLOCATED\<rparr> else y)"
    by (auto simp only: in_upd_row)
  from y(2) have al: "dd_allocations x = map (allocation_row ops (dd_totalPoolAmount d) totalWeight) ws" "dd_status x = DivALLOCATED"
    using x(2) by (cases "dd_id y = i"; simp)+
  have goal1: "dd_status x = DivALLOCATED \<and> x \<in> set (me_dividends t) \<and> dd_id x = i" using al x by (simp add: a(8))
  have fst: "map da_memberId (dd_allocations x) = map fst ws" by (simp add: al(1) allocation_member)
  have goal2: "map da_memberId (dd_allocations x) = map fst ws \<and> distinct (map fst ws)
      \<and> set (map fst ws) \<subseteq> m_id ` {m \<in> set (me_members s0). m_status m = MemACTIVE}"
    using dividend_weights_distinct [OF ids] dividend_weights_members fst unfolding w [symmetric] by blast
  have pos: "0 < snd y" if "y \<in> set ws" for y using dividend_weights_positive [OF ops] that unfolding w [symmetric] by blast
  have row: "0 < snd y \<and> 0 \<le> da_amount (allocation_row ops (dd_totalPoolAmount d) totalWeight y)
      \<and> da_paymentStatus (allocation_row ops (dd_totalPoolAmount d) totalWeight y) = CapPENDING
      \<and> \<bar>da_amount (allocation_row ops (dd_totalPoolAmount d) totalWeight y) - dd_totalPoolAmount d * (snd y / totalWeight)\<bar>
          \<le> 1 / 200 + 3 * e * (dd_totalPoolAmount d * (snd y / totalWeight))" if "y \<in> set ws" for y
    using allocation_close [OF ops d(2) pos [OF that] t0, of "fst y"] pos [OF that] by (simp add: allocation_row_def)
  have goal3: "list_all2 (\<lambda>a w. 0 < snd w \<and> 0 \<le> da_amount a \<and> da_paymentStatus a = CapPENDING
      \<and> \<bar>da_amount a - dd_totalPoolAmount d * (snd w / totalWeight)\<bar>
          \<le> 1 / 200 + 3 * e * (dd_totalPoolAmount d * (snd w / totalWeight))) (dd_allocations x) ws"
    unfolding al(1) list_all2_map1 by (rule list.rel_refl_strong) (rule row)
  have "\<forall>y \<in> set ws. 0 < snd y" using pos by blast
  from allocated_sum_close [OF ops d(2) t0 this]
  have goal4: "\<bar>sum_list (map da_amount (dd_allocations x)) - dd_totalPoolAmount d\<bar>
      \<le> of_nat (length (dd_allocations x)) / 200 + 3 * e * dd_totalPoolAmount d"
    using t0 by (simp add: al(1) tw comp_def)
  show ?thesis by (rule conjI [OF goal1 conjI [OF goal2 conjI [OF goal3 goal4]]])
qed

end
