(* ===== verification/Membership_Examples.thy ===== *)
theory Membership_Examples
  imports
    Membership_Properties Membership_Dividends Examples
begin

text \<open>
  A small cooperative from its founding to its first vote, three equal members and their dividend: the inputs at
  which the properties of the module are evaluated.
\<close>

section \<open>From the founding to the first vote\<close>

definition ex_board :: auth_user where
  "ex_board = \<lparr>au_id = ''U9'', au_storeScope = None, au_role = COOP_ADMIN, au_mustChangePassword = False\<rparr>"

definition ex_founded :: member_db where
  "ex_founded = \<lparr>me_core = empty_db, me_settings = None, me_investments = [], me_equity = [], me_fees = [], me_resolutions = [],
     me_dividends = [], me_ballots = [], me_votes = [], me_certificates = 0\<rparr>"

definition ex_application :: create_member_input where
  "ex_application = \<lparr>cm_name = ''Mira'', cm_email = ''mira@example.org'', cm_phone = None, cm_mailingAddress = None,
     cm_taxIdLast4 = None, cm_householdPrimaryMemberId = None, cm_activate = True, cm_joiningFeeAmount = None\<rparr>"

definition ex_joined :: member_db where
  "ex_joined = fst (projr (createMember 1 (\<lambda>x. x) (\<lambda>n. ''M1'') (\<lambda>n. ''F1'') (\<lambda>n k. ''0001'') (\<lambda>n. ''00001'')
     ex_board ex_application ex_founded ex_founded))"

definition ex_invested :: member_db where
  "ex_invested = fst (projr (contributions_route 2 ''I1'' ''M1'' 1500 (Some ''pi_1'') ex_joined ex_joined ex_joined))"

definition ex_balloting :: member_db where
  "ex_balloting = projr (createBallot ex_board ''B1'' (\<lambda>k. if k = 0 then ''O1'' else ''O2'') ''Board'' None [''Yes'', ''No''] ex_invested)"

definition ex_vote :: vote_input where
  "ex_vote = \<lparr>vi_ballotId = ''B1'', vi_memberId = ''M1'', vi_ballotOptionId = ''O1''\<rparr>"






text \<open>Then the threshold is raised to 2000: the update, the vote that comes before the recomputation, the recomputation.\<close>

definition ex_threshold :: settings_input where
  "ex_threshold = \<lparr>ui_votingThresholdAmount = Some 2000, ui_fiscalYearEnd = None, ui_legalEntityName = None,
     ui_stateOfIncorporation = None, ui_cashDepositGraceDays = None, ui_varianceThresholdPercent = None,
     ui_varianceThresholdValue = None, ui_cycleCountEnabled = None, ui_cycleCountFrequencyDays = None,
     ui_highValueThreshold = None, ui_cycleCountSize = None, ui_mainWarehouseId = None\<rparr>"

definition ex_raised :: member_db where
  "ex_raised = fst (projr (change_settings ex_board ex_threshold ex_balloting ex_balloting))"







text \<open>A vote that is read after the threshold was raised and before the rights were recomputed is accepted.\<close>

lemma vote_before_recomputation:
  "\<not> isl (castVote 5 ''V1'' ex_vote ex_raised ex_raised)
   \<and> cp_votingThresholdAmount (snd (getCooperativeSettings ex_raised)) > confirmed_capital ''M1'' ex_raised"
  by code_simp

section \<open>Two investments at the same time\<close>







section \<open>Three equal members\<close>

definition ex_exact :: dividend_ops where
  "ex_exact = \<lparr>dmul = (*), ddiv = (/), dtext = (\<lambda>x. x)\<rparr>"

definition ex_pool :: dividend where
  "ex_pool = \<lparr>dd_id = ''D1'', dd_boardResolutionId = ''R1'', dd_fiscalYear = 2025, dd_totalPoolAmount = 200,
     dd_allocationMethod = BY_CAPITAL, dd_status = DivDECLARED, dd_allocations = []\<rparr>"

definition ex_equals :: member_db where
  "ex_equals = ex_founded\<lparr>me_core := empty_db\<lparr>db_members := map (\<lambda>i. (ex_member i i)\<lparr>m_totalInvested := 1000\<rparr>) [''M1'', ''M2'', ''M3'']\<rparr>,
     me_dividends := [ex_pool]\<rparr>"

section \<open>The same payment twice\<close>

text \<open>The service is asked twice, then the route is; the member is one of the three.\<close>

definition ex_posted :: "member_db \<times> investment" where
  "ex_posted = projr (contributions_route 2 ''I1'' ''M1'' 1500 (Some ''pi_1'') ex_equals ex_equals ex_equals)"

definition ex_posted_again :: "member_db \<times> investment" where
  "ex_posted_again = projr (contributions_route 3 ''I2'' ''M1'' 1500 (Some ''pi_1'') ex_equals (fst ex_posted) (fst ex_posted))"

definition ex_recorded :: "member_db \<times> investment" where
  "ex_recorded = projr (recordCapitalContribution 2 ''I1'' ''M1'' 1500 (Some ''pi_1'') ex_equals ex_equals ex_equals)"

lemma ex_posted_run: "contributions_route 2 ''I1'' ''M1'' 1500 (Some ''pi_1'') ex_equals ex_equals ex_equals = Inr (fst ex_posted, snd ex_posted)"
  unfolding ex_posted_def by (rule stage_pair) code_simp

lemma ex_posted_again_run:
  "contributions_route 3 ''I2'' ''M1'' 1500 (Some ''pi_1'') ex_equals (fst ex_posted) (fst ex_posted) = Inr (fst ex_posted_again, snd ex_posted_again)"
  unfolding ex_posted_again_def by (rule stage_pair) code_simp

lemma ex_recorded_run:
  "recordCapitalContribution 2 ''I1'' ''M1'' 1500 (Some ''pi_1'') ex_equals ex_equals ex_equals = Inr (fst ex_recorded, snd ex_recorded)"
  unfolding ex_recorded_def by (rule stage_pair) code_simp

theorem contribution_recorded_twice_witness:
  "sum_list (map iv_amount (filter (counts_as_capital ''M1'') (me_investments (fst ex_posted_again)))) = 3000
   \<and> isl (recordCapitalContribution 3 ''I2'' ''M1'' 1500 (Some ''pi_1'') ex_equals (fst ex_posted) (fst ex_recorded))"
proof -
  have "me_investments ex_equals = []" by (simp add: ex_equals_def ex_founded_def)
  moreover have "moneyDec 1500 = 1500" by code_simp
  ultimately show ?thesis using contribution_recorded_twice [OF ex_posted_run ex_posted_again_run ex_recorded_run] by simp
qed

section \<open>Dividends\<close>

lemma ex_weights: "dividend_weights ex_exact DEFAULT_HYBRID_CAPITAL_SHARE ex_pool ex_equals = [(''M1'', 1000), (''M2'', 1000), (''M3'', 1000)]"
  by code_simp

lemma ex_row:
  "allocation_row ex_exact 200 3000 (i, 1000)
    = \<lparr>da_memberId = i, da_memberWeight = 1000, da_amount = 6667 / 100, da_paymentStatus = CapPENDING, da_taxFormIssued = False\<rparr>"
proof -
  have "toDecimalPlaces 6 1000 = 1000" "moneyDec (200 * 1000 / 3000) = 6667 / 100" by code_simp+
  then show ?thesis by (simp add: allocation_row_def ex_exact_def)
qed

definition ex_allocated :: dividend where
  "ex_allocated = ex_pool\<lparr>dd_allocations := map (allocation_row ex_exact 200 3000) [(''M1'', 1000), (''M2'', 1000), (''M3'', 1000)],
     dd_status := DivALLOCATED\<rparr>"

lemma ex_dividend_run:
  "allocateDividend ex_exact ''D1'' None ex_equals ex_equals = Inr (ex_equals\<lparr>me_dividends := [ex_allocated]\<rparr>, ex_allocated)"
proof -
  have d: "me_dividends ex_equals = [ex_pool]" "dd_id ex_pool = ''D1''" "dd_status ex_pool = DivDECLARED" "dd_totalPoolAmount ex_pool = 200"
    by (simp_all add: ex_equals_def ex_pool_def)
  show ?thesis
    by (simp add: allocateDividend_def d ex_weights Let_def update_row_def has_row_def upd_row_def ex_allocated_def
        del: list.map) (simp add: d DEFAULT_HYBRID_CAPITAL_SHARE_def)
qed

lemma ex_allocated_amounts: "map da_amount (dd_allocations ex_allocated) = [6667 / 100, 6667 / 100, 6667 / 100]"
  by (simp add: ex_allocated_def ex_row)

theorem dividend_within_rounding_witness:
  "\<bar>sum_list (map da_amount (dd_allocations ex_allocated)) - 200\<bar> \<le> 3 / 200 \<and> dd_status ex_allocated = DivALLOCATED"
proof -
  have ops: "ops_within 0 ex_exact" by (simp add: ops_within_def ex_exact_def)
  have len: "length (dd_allocations ex_allocated) = 3" by (simp add: ex_allocated_def)
  have d: "find_row dd_id ''D1'' (me_dividends ex_equals) = Some ex_pool" "dd_totalPoolAmount ex_pool = 200" "0 \<le> dd_totalPoolAmount ex_pool"
    by (simp_all add: ex_equals_def ex_pool_def)
  have ids: "distinct (map m_id (me_members ex_equals))" by code_simp
  show ?thesis using dividend_within_rounding [OF ops ex_dividend_run d(1,3) ids refl refl] by (simp add: len d(2))
qed

text \<open>
  Every amount is rounded by itself and nothing takes up the difference: three members with equal capital and a
  pool of 200.00 are allocated 66.67 each, 200.01 in all, more than the board has declared.
\<close>
theorem dividend_exceeds_pool:
  "\<exists>t x. allocateDividend ex_exact ''D1'' None ex_equals ex_equals = Inr (t, x)
     \<and> map da_amount (dd_allocations x) = [6667 / 100, 6667 / 100, 6667 / 100]
     \<and> dd_totalPoolAmount x = 200 \<and> sum_list (map da_amount (dd_allocations x)) > dd_totalPoolAmount x"
proof (intro exI conjI)
  show "allocateDividend ex_exact ''D1'' None ex_equals ex_equals = Inr (ex_equals\<lparr>me_dividends := [ex_allocated]\<rparr>, ex_allocated)"
    by (rule ex_dividend_run)
  show pool: "dd_totalPoolAmount ex_allocated = 200" by (simp add: ex_allocated_def ex_pool_def)
  show "sum_list (map da_amount (dd_allocations ex_allocated)) > dd_totalPoolAmount ex_allocated"
    unfolding pool ex_allocated_amounts by simp
qed (rule ex_allocated_amounts)

end
