(* ===== verification/Access.thy ===== *)
theory Access
  imports
    Js_Base
begin

text \<open>
  Who may do what (\<open>backend/src/routes/auth.routes.ts\<close>, \<open>lib/passwordPolicy.ts\<close>, \<open>lib/storeScope.ts\<close>,
  \<open>middleware/auth.middleware.ts\<close>, \<open>requireRole.middleware.ts\<close> and \<open>requirePasswordChanged.middleware.ts\<close>).
  A handler is modelled from the point where its body has been parsed; a response with an error status is
  an \<open>AppError\<close>. Password hashing, the comparison with a hash, and signing and verifying a token are
  parameters. A handler that checks what it has read before it writes takes the state of the read, \<open>s0\<close>,
  and the state it writes to, \<open>s\<close>.
\<close>

section \<open>Passwords\<close>

definition PASSWORD_MIN_LENGTH :: nat where
  "PASSWORD_MIN_LENGTH = 12"

definition COMMON_PASSWORDS :: "string list" where
  "COMMON_PASSWORDS = map toLowerCase [
    ''password'', ''password1'', ''password12'', ''password123'', ''123456'', ''12345678'', ''123456789'',
    ''1234567890'', ''qwerty'', ''qwerty123'', ''abc123'', ''letmein'', ''welcome'', ''admin'', ''admin123'',
    ''administrator'', ''iloveyou'', ''monkey'', ''dragon'', ''master'', ''login'', ''princess'', ''football'',
    ''baseball'', ''soccer'', ''charlie'', ''aa123456'', ''donald'', ''password!'', ''passw0rd'', ''changeme'',
    ''changeme123'', ''harvestlink'', ''harvestlink123'', ''changemeadmin123!'', ''changemestore123!'',
    ''changemecashier123!'', ''secret'', ''secret123'', ''trustno1'', ''sunshine'', ''shadow'', ''superman'',
    ''batman'', ''access'', ''hello'', ''hello123'', ''freedom'', ''whatever'', ''qazwsx'', ''michael'', ''jennifer'',
    ''hunter'', ''buster'', ''soccer123'', ''hockey'', ''ranger'', ''jordan'', ''harley'', ''robert'', ''matthew'',
    ''andrew'', ''bailey'', ''pass1234'', ''1q2w3e4r'', ''1qaz2wsx'', ''zaq12wsx'', ''qwertyuiop'', ''asdfghjkl'',
    ''zxcvbnm'', ''111111'', ''000000'', ''666666'', ''888888'', ''654321'', ''7777777'', ''121212'', ''123123'',
    ''1234'', ''12345'', ''test'', ''test123'', ''testing'', ''guest'', ''root'', ''toor'', ''pass'', ''pass123'',
    ''p@ssw0rd'', ''p@ssword'', ''welcome1'', ''welcome123'', ''winter'', ''summer'', ''spring'', ''autumn'',
    ''lovely'', ''flower'', ''starwars'', ''startrek'', ''pokemon'', ''minecraft'', ''computer'', ''internet'',
    ''whatever1'', ''killer'', ''pepper'', ''cheese'', ''cookie'', ''maggie'', ''ginger'', ''pepper123'']"

definition assertPasswordPolicy :: "string \<Rightarrow> unit result" where
  "assertPasswordPolicy password =
     (if length password < PASSWORD_MIN_LENGTH then Inl (AppError 400 ''Password must be at least 12 characters'')
      else if toLowerCase password \<in> set COMMON_PASSWORDS
      then Inl (AppError 400 ''Password is too common; choose a stronger password'')
      else Inr ())"

section \<open>Store scope\<close>

definition resolveStoreScope :: "auth_user \<Rightarrow> ident option \<Rightarrow> ident result" where
  "resolveStoreScope actor requested =
     (if au_role actor = COOP_ADMIN
      then if \<not> truthy requested then Inl (AppError 400 ''storeId query/body parameter is required for COOP_ADMIN'')
           else Inr (the requested)
      else if \<not> truthy (au_storeScope actor) then Inl (AppError 403 ''User is not assigned to a store'')
      else if truthy requested \<and> requested \<noteq> au_storeScope actor
      then Inl (AppError 403 ''Cannot access another store's data'')
      else Inr (the (au_storeScope actor)))"

section \<open>Tokens\<close>

text \<open>The payload of a token, with the second at which it expires.\<close>

record token_claims =
  tc_sub :: ident
  tc_storeId :: "ident option"
  tc_role :: role
  tc_mustChangePassword :: bool
  tc_expiresAt :: time

record crypto =
  cy_hash :: "string \<Rightarrow> string"
  cy_matches :: "string \<Rightarrow> string \<Rightarrow> bool"
  cy_sign :: "token_claims \<Rightarrow> string"
  cy_verify :: "time \<Rightarrow> string \<Rightarrow> token_claims option"

definition TOKEN_EXPIRES_IN :: int where
  "TOKEN_EXPIRES_IN = 12 * 60 * 60"

definition MAX_FAILED_LOGINS :: int where
  "MAX_FAILED_LOGINS = 5"

definition LOCKOUT_MS :: int where
  "LOCKOUT_MS = 15 * 60 * 1000"

definition signToken :: "crypto \<Rightarrow> time \<Rightarrow> user \<Rightarrow> string" where
  "signToken cy now u =
     cy_sign cy \<lparr>tc_sub = u_id u, tc_storeId = u_storeId u, tc_role = u_role u,
       tc_mustChangePassword = u_mustChangePassword u, tc_expiresAt = now div 1000 + TOKEN_EXPIRES_IN\<rparr>"

record public_user =
  pu_id :: ident
  pu_email :: string
  pu_storeId :: "ident option"
  pu_role :: role
  pu_mustChangePassword :: bool

definition publicUser :: "user \<Rightarrow> public_user" where
  "publicUser u = \<lparr>pu_id = u_id u, pu_email = u_email u, pu_storeId = u_storeId u, pu_role = u_role u,
     pu_mustChangePassword = u_mustChangePassword u\<rparr>"

section \<open>The guards of a request\<close>

definition authMiddleware :: "crypto \<Rightarrow> time \<Rightarrow> string option \<Rightarrow> auth_user result" where
  "authMiddleware cy now header =
     (case header of
        None \<Rightarrow> Inl (AppError 401 ''Missing or invalid Authorization header'')
      | Some h \<Rightarrow>
          if \<not> starts_with ''Bearer '' h then Inl (AppError 401 ''Missing or invalid Authorization header'')
          else
            let token = trim (drop (length ''Bearer '') h) in
            if token = [] then Inl (AppError 401 ''Missing bearer token'')
            else case cy_verify cy now token of
              None \<Rightarrow> Inl (AppError 401 ''Invalid or expired token'')
            | Some d \<Rightarrow>
                if tc_sub d = [] then Inl (AppError 401 ''Invalid token payload'')
                else Inr \<lparr>au_id = tc_sub d, au_storeScope = tc_storeId d, au_role = tc_role d,
                       au_mustChangePassword = tc_mustChangePassword d\<rparr>)"

definition requirePasswordChanged :: "auth_user \<Rightarrow> unit result" where
  "requirePasswordChanged actor =
     (if au_mustChangePassword actor then Inl (AppError 403 ''Password change required before using the API'') else Inr ())"

definition requireRole :: "role list \<Rightarrow> auth_user option \<Rightarrow> unit result" where
  "requireRole allowed actor =
     (case actor of
        None \<Rightarrow> Inl (AppError 401 ''Authentication required'')
      | Some a \<Rightarrow> if au_role a \<notin> set allowed then Inl (AppError 403 ''Insufficient role'') else Inr ())"

text \<open>The guards of the routes that only a co-op administrator may use, in their order.\<close>

definition coop_only :: "crypto \<Rightarrow> time \<Rightarrow> string option \<Rightarrow> auth_user result" where
  "coop_only cy now header =
     bindE (authMiddleware cy now header) (\<lambda>actor.
     bindE (requirePasswordChanged actor) (\<lambda>_.
     bindE (requireRole [COOP_ADMIN] (Some actor)) (\<lambda>_. Inr actor)))"

section \<open>Signing in\<close>

definition find_user :: "ident \<Rightarrow> db \<Rightarrow> user option" where
  "find_user i s = find_row u_id i (db_users s)"

definition user_update :: "ident \<Rightarrow> (user \<Rightarrow> user) \<Rightarrow> db \<Rightarrow> (db \<times> user) result" where
  "user_update i f s =
     bindE (update_row u_id i f (db_users s)) (\<lambda>us.
     case find_row u_id i us of None \<Rightarrow> Inl RecordNotFound | Some u \<Rightarrow> Inr (s\<lparr>db_users := us\<rparr>, u))"

definition is_locked :: "time \<Rightarrow> user \<Rightarrow> bool" where
  "is_locked now u \<longleftrightarrow> (case u_lockedUntil u of None \<Rightarrow> False | Some t \<Rightarrow> t > now)"

definition normal_email :: "string \<Rightarrow> string" where
  "normal_email e = trim (toLowerCase e)"

definition login_failed :: "user \<Rightarrow> db \<Rightarrow> db" where
  "login_failed u s = writeAuditLog (Some (u_id u)) (u_storeId u) ''LOGIN_FAILURE'' ''Session'' (Some (u_id u)) s"

definition login ::
  "crypto \<Rightarrow> time \<Rightarrow> string \<Rightarrow> string \<Rightarrow> db \<Rightarrow> db \<Rightarrow> db \<times> (string \<times> public_user) result" where
  "login cy now email password s0 s =
     (case find_row u_email (normal_email email) (db_users s0) of
        None \<Rightarrow> (writeAuditLog None None ''LOGIN_FAILURE'' ''Session'' None s, Inl (AppError 401 ''Invalid email or password''))
      | Some user \<Rightarrow>
          if is_locked now user
          then (login_failed user s, Inl (AppError 423 ''Account locked due to repeated failed logins''))
          else if \<not> cy_matches cy password (u_passwordHash user)
          then
            let attempts = u_failedLoginAttempts user + 1;
                lock = attempts \<ge> MAX_FAILED_LOGINS;
                lockedUntil = (if lock then Some (now + LOCKOUT_MS) else u_lockedUntil user)
            in (case user_update (u_id user) (\<lambda>u. u\<lparr>u_failedLoginAttempts := attempts, u_lockedUntil := lockedUntil\<rparr>) s of
                  Inl e \<Rightarrow> (s, Inl (AppError 500 ''Unable to log in''))
                | Inr (t, u) \<Rightarrow>
                    (login_failed user t,
                     Inl (if lock then AppError 423 ''Account locked due to repeated failed logins''
                          else AppError 401 ''Invalid email or password'')))
          else
            (case user_update (u_id user) (\<lambda>u. u\<lparr>u_failedLoginAttempts := 0, u_lockedUntil := None\<rparr>) s of
               Inl e \<Rightarrow> (s, Inl (AppError 500 ''Unable to log in''))
             | Inr (t, u) \<Rightarrow>
                 (writeAuditLog (Some (u_id u)) (u_storeId u) ''LOGIN_SUCCESS'' ''Session'' (Some (u_id u)) t,
                  Inr (signToken cy now u, publicUser u))))"

section \<open>Changing a password\<close>

definition changePassword ::
  "crypto \<Rightarrow> time \<Rightarrow> auth_user \<Rightarrow> string \<Rightarrow> string \<Rightarrow> db \<Rightarrow> db \<Rightarrow> (db \<times> string \<times> public_user) result" where
  "changePassword cy now actor currentPassword newPassword s0 s =
     bindE (assertPasswordPolicy newPassword) (\<lambda>_.
     case find_user (au_id actor) s0 of
       None \<Rightarrow> Inl (AppError 401 ''User not found'')
     | Some user \<Rightarrow>
         if \<not> cy_matches cy currentPassword (u_passwordHash user) then Inl (AppError 401 ''Current password is incorrect'')
         else if currentPassword = newPassword
         then Inl (AppError 400 ''New password must differ from the current password'')
         else
           bindE (user_update (u_id user) (\<lambda>u. u\<lparr>u_passwordHash := cy_hash cy newPassword, u_mustChangePassword := False,
               u_failedLoginAttempts := 0, u_lockedUntil := None\<rparr>) s) (\<lambda>(t, u).
           Inr (writeAuditLog (Some (u_id u)) (u_storeId u) ''PASSWORD_CHANGE'' ''User'' (Some (u_id u)) t,
                signToken cy now u, publicUser u)))"

section \<open>Staff accounts\<close>

text \<open>A role and a store that go together; the store must exist and be active.\<close>

definition check_assignment :: "role \<Rightarrow> ident option \<Rightarrow> db \<Rightarrow> unit result" where
  "check_assignment role storeId s =
     (if role = COOP_ADMIN \<and> storeId \<noteq> None then Inl (AppError 400 ''COOP_ADMIN users must not be tied to a store'')
      else if role \<noteq> COOP_ADMIN \<and> \<not> truthy storeId
      then Inl (AppError 400 ''storeId is required for CASHIER and STORE_ADMIN'')
      else if truthy storeId
          \<and> (case find_store (the storeId) s of None \<Rightarrow> True | Some st \<Rightarrow> \<not> st_isActive st)
      then Inl (AppError 400 ''Store not found or inactive'')
      else Inr ())"

record register_input =
  rg_email :: string
  rg_password :: string
  rg_role :: role
  rg_storeId :: "ident option"

definition new_user :: "crypto \<Rightarrow> ident \<Rightarrow> register_input \<Rightarrow> user" where
  "new_user cy newId i =
     \<lparr>u_id = newId, u_storeId = rg_storeId i, u_role = rg_role i, u_email = normal_email (rg_email i),
      u_passwordHash = cy_hash cy (rg_password i), u_failedLoginAttempts = 0, u_lockedUntil = None, u_mustChangePassword = False\<rparr>"

definition registerUser ::
  "crypto \<Rightarrow> auth_user \<Rightarrow> ident \<Rightarrow> register_input \<Rightarrow> db \<Rightarrow> db \<Rightarrow> (db \<times> public_user) result" where
  "registerUser cy actor newId i s0 s =
     bindE (assertPasswordPolicy (rg_password i)) (\<lambda>_.
     bindE (check_assignment (rg_role i) (rg_storeId i) s0) (\<lambda>_.
     if has_row u_email (normal_email (rg_email i)) (db_users s0) then Inl (AppError 409 ''Email is already registered'')
     else
       let u = new_user cy newId i in
       if has_row u_id newId (db_users s) \<or> has_row u_email (u_email u) (db_users s) then Inl (AppError 500 ''Unable to register user'')
       else Inr (writeAuditLog (Some (au_id actor)) (u_storeId u) ''USER_CREATE'' ''User'' (Some newId)
              (s\<lparr>db_users := db_users s @ [u]\<rparr>), publicUser u)))"

record update_user_input =
  uu_role :: "role option"
  uu_storeId :: "ident option option"

definition updateUser ::
  "auth_user \<Rightarrow> ident \<Rightarrow> update_user_input \<Rightarrow> db \<Rightarrow> db \<Rightarrow> (db \<times> public_user) result" where
  "updateUser actor i input s0 s =
     (case find_user i s0 of
        None \<Rightarrow> Inl (AppError 404 ''User not found'')
      | Some target \<Rightarrow>
          let nextRole = (case uu_role input of None \<Rightarrow> u_role target | Some r \<Rightarrow> r);
              nextStoreId = (case uu_storeId input of None \<Rightarrow> u_storeId target | Some st \<Rightarrow> st)
          in bindE (check_assignment nextRole nextStoreId s0) (\<lambda>_.
             case user_update (u_id target) (\<lambda>u. u\<lparr>u_role := nextRole, u_storeId := nextStoreId\<rparr>) s of
               Inl e \<Rightarrow> Inl (AppError 500 ''Unable to update user'')
             | Inr (t, u) \<Rightarrow>
                 Inr (writeAuditLog (Some (au_id actor)) (u_storeId u) ''USER_ROLE_CHANGE'' ''User'' (Some (u_id u)) t, publicUser u)))"

end
