(* ===== verification/Access_Proofs.thy ===== *)
theory Access_Proofs
  imports
    Access Examples
begin

text \<open>
  What guards the accounts: how many passwords can be tried, that a role and a store always fit, how far a
  token reaches and for how long.
\<close>

section \<open>Passwords\<close>

lemma long_common_passwords:
  "filter (\<lambda>w. PASSWORD_MIN_LENGTH \<le> length w) COMMON_PASSWORDS
     = [''administrator'', ''harvestlink123'', ''changemeadmin123!'', ''changemestore123!'', ''changemecashier123!'']"
  by code_simp

text \<open>
  Of the list of common passwords only five entries are long enough to matter: a password is accepted exactly
  when it has twelve characters and is none of the five, in whatever case it is written.
\<close>
theorem password_policy_exact:
  "assertPasswordPolicy p = Inr () \<longleftrightarrow> 12 \<le> length p
     \<and> toLowerCase p \<notin> {''administrator'', ''harvestlink123'', ''changemeadmin123!'', ''changemestore123!'', ''changemecashier123!''}"
proof -
  have len: "length (toLowerCase p) = length p" by (simp add: toLowerCase_def)
  have "toLowerCase p \<in> set COMMON_PASSWORDS \<longleftrightarrow>
      toLowerCase p \<in> {''administrator'', ''harvestlink123'', ''changemeadmin123!'', ''changemestore123!'', ''changemecashier123!''}"
    if "12 \<le> length p"
  proof -
    have "toLowerCase p \<in> set COMMON_PASSWORDS \<longleftrightarrow> toLowerCase p \<in> set (filter (\<lambda>w. PASSWORD_MIN_LENGTH \<le> length w) COMMON_PASSWORDS)"
      using that by (simp add: PASSWORD_MIN_LENGTH_def len)
    then show ?thesis unfolding long_common_passwords list.set .
  qed
  then show ?thesis unfolding assertPasswordPolicy_def PASSWORD_MIN_LENGTH_def by (cases "length p < 12") auto
qed

section \<open>Guessing a password\<close>

lemma find_user_row:
  assumes "\<And>x. u_email (f x) = u_email x" "find_row u_email e us = Some u"
  shows "find_row u_email e (upd_row u_id (u_id u) f us) = Some (f u)"
  using assms(2) by (induction us) (auto simp: assms(1) split: if_splits)

lemma find_user_has: "find_row u_email e us = Some u \<Longrightarrow> has_row u_id (u_id u) us"
  by (auto simp: has_row_def dest: find_row_SomeD)

lemma user_update_found:
  assumes "has_row u_id i (db_users s)" "\<And>x. u_id (f x) = u_id x"
  shows "\<exists>u. user_update i f s = Inr (s\<lparr>db_users := upd_row u_id i f (db_users s)\<rparr>, u)"
proof -
  have "find_row u_id i (upd_row u_id i f (db_users s)) \<noteq> None"
    using assms by (auto simp: find_row_upd_row has_row_iff_find)
  then show ?thesis using assms by (auto simp: user_update_def update_row_def)
qed

lemma user_update_Inr:
  "user_update i f s = Inr (t, u) \<Longrightarrow> t = s\<lparr>db_users := upd_row u_id i f (db_users s)\<rparr> \<and> has_row u_id i (db_users s)
     \<and> find_row u_id i (upd_row u_id i f (db_users s)) = Some u"
  by (auto simp: user_update_def update_row_def bindE_Inr_iff split: if_splits option.splits)

lemma audit_users [simp]: "db_users (writeAuditLog u i a t e s) = db_users s" "db_stores (writeAuditLog u i a t e s) = db_stores s"
  by (simp_all add: writeAuditLog_def)

lemma login_failed_users [simp]: "db_users (login_failed u s) = db_users s" "db_stores (login_failed u s) = db_stores s"
  by (simp_all add: login_failed_def)

text \<open>A wrong password on an account that is not locked.\<close>

lemma wrong_guess:
  assumes u: "find_row u_email (normal_email email) (db_users s0) = Some u" "\<not> is_locked now u" "\<not> cy_matches cy pw (u_passwordHash u)"
    and row: "has_row u_id (u_id u) (db_users s)"
  shows "db_users (fst (login cy now email pw s0 s)) = upd_row u_id (u_id u)
      (\<lambda>x. x\<lparr>u_failedLoginAttempts := u_failedLoginAttempts u + 1,
             u_lockedUntil := (if u_failedLoginAttempts u + 1 \<ge> MAX_FAILED_LOGINS then Some (now + LOCKOUT_MS) else u_lockedUntil u)\<rparr>)
      (db_users s)"
proof -
  let ?f = "\<lambda>x. x\<lparr>u_failedLoginAttempts := u_failedLoginAttempts u + 1,
             u_lockedUntil := (if u_failedLoginAttempts u + 1 \<ge> MAX_FAILED_LOGINS then Some (now + LOCKOUT_MS) else u_lockedUntil u)\<rparr> :: user"
  obtain v where "user_update (u_id u) ?f s = Inr (s\<lparr>db_users := upd_row u_id (u_id u) ?f (db_users s)\<rparr>, v)"
    using user_update_found [OF row, of ?f] by auto
  then show ?thesis using u by (simp add: login_def Let_def)
qed

lemma locked_guess:
  "find_row u_email (normal_email email) (db_users s0) = Some u \<Longrightarrow> is_locked now u
     \<Longrightarrow> db_users (fst (login cy now email pw s0 s)) = db_users s"
  by (simp add: login_def)

text \<open>How many passwords of a sequence of sign-ins, one after the other, are compared with the account's.\<close>

fun guesses_tested :: "crypto \<Rightarrow> string \<Rightarrow> (time \<times> string) list \<Rightarrow> db \<Rightarrow> nat" where
  "guesses_tested cy email [] s = 0"
| "guesses_tested cy email ((now, pw) # gs) s =
     (case find_row u_email (normal_email email) (db_users s) of
        None \<Rightarrow> 0
      | Some u \<Rightarrow> if is_locked now u then 0 else 1)
     + guesses_tested cy email gs (fst (login cy now email pw s s))"

text \<open>What is left to try until a moment, from the account's counter and lock.\<close>

definition guesses_left :: "time \<Rightarrow> time \<Rightarrow> user \<Rightarrow> int" where
  "guesses_left start finish u =
     (if u_failedLoginAttempts u < MAX_FAILED_LOGINS
      then MAX_FAILED_LOGINS - u_failedLoginAttempts u + (finish - start) div LOCKOUT_MS
      else case u_lockedUntil u of None \<Rightarrow> 0 | Some l \<Rightarrow> max 0 ((finish - l) div LOCKOUT_MS + 1))"

definition lock_in_step :: "user \<Rightarrow> bool" where
  "lock_in_step u \<longleftrightarrow> (u_lockedUntil u = None \<longleftrightarrow> u_failedLoginAttempts u < MAX_FAILED_LOGINS)"

lemma guess_costs:
  assumes "lock_in_step u" "\<not> is_locked now u" "start \<le> now" "now \<le> finish"
    and v: "v = u\<lparr>u_failedLoginAttempts := u_failedLoginAttempts u + 1,
       u_lockedUntil := (if u_failedLoginAttempts u + 1 \<ge> MAX_FAILED_LOGINS then Some (now + LOCKOUT_MS) else u_lockedUntil u)\<rparr>"
  shows "lock_in_step v" "1 + guesses_left start finish v \<le> guesses_left start finish u"
proof -
  have L: "(0::int) < LOCKOUT_MS" by (simp add: LOCKOUT_MS_def)
  show "lock_in_step v" using assms(1) by (auto simp: v lock_in_step_def)
  have later: "max 0 ((finish - (now + LOCKOUT_MS)) div LOCKOUT_MS + 1) = (finish - now) div LOCKOUT_MS"
  proof -
    have "finish - now = (finish - (now + LOCKOUT_MS)) + 1 * LOCKOUT_MS" by simp
    then have "(finish - now) div LOCKOUT_MS = 1 + (finish - (now + LOCKOUT_MS)) div LOCKOUT_MS"
      using L by (metis add.commute div_mult_self1 less_irrefl)
    moreover have "0 \<le> (finish - now) div LOCKOUT_MS" using assms(4) L by (simp add: pos_imp_zdiv_nonneg_iff)
    ultimately show ?thesis by simp
  qed
  have mono: "(finish - now) div LOCKOUT_MS \<le> (finish - l) div LOCKOUT_MS" if "l \<le> now" for l
    using that L by (intro zdiv_mono1) simp_all
  show "1 + guesses_left start finish v \<le> guesses_left start finish u"
  proof (cases "u_failedLoginAttempts u < MAX_FAILED_LOGINS")
    case True
    then show ?thesis using later mono [OF assms(3)] by (auto simp: v guesses_left_def MAX_FAILED_LOGINS_def)
  next
    case False
    then obtain l where l: "u_lockedUntil u = Some l" "l \<le> now" using assms(1,2) by (auto simp: lock_in_step_def is_locked_def)
    then show ?thesis using False later mono [OF l(2)] by (simp add: v guesses_left_def)
  qed
qed

lemma guesses_left_nonneg:
  assumes "start \<le> finish" shows "0 \<le> guesses_left start finish u"
proof -
  have "0 \<le> (finish - start) div LOCKOUT_MS" using assms by (simp add: LOCKOUT_MS_def pos_imp_zdiv_nonneg_iff)
  then show ?thesis by (auto simp: guesses_left_def split: option.split)
qed

lemma guesses_bounded:
  assumes "find_row u_email (normal_email email) (db_users s) = Some u" "lock_in_step u" "start \<le> finish"
    and "\<forall>g \<in> set gs. start \<le> fst g \<and> fst g \<le> finish \<and> \<not> cy_matches cy (snd g) (u_passwordHash u)"
  shows "int (guesses_tested cy email gs s) \<le> guesses_left start finish u"
  using assms
proof (induction gs arbitrary: s u)
  case Nil
  then show ?case using guesses_left_nonneg by simp
next
  case (Cons g gs)
  obtain now pw where g: "g = (now, pw)" by (cases g)
  have wrong: "start \<le> now" "now \<le> finish" "\<not> cy_matches cy pw (u_passwordHash u)" using Cons.prems(4) by (simp_all add: g)
  let ?t = "fst (login cy now email pw s s)"
  show ?case
  proof (cases "is_locked now u")
    case True
    have "int (guesses_tested cy email gs ?t) \<le> guesses_left start finish u"
      by (rule Cons.IH) (use Cons.prems locked_guess [OF Cons.prems(1) True] in simp_all)
    then show ?thesis using Cons.prems(1) True by (simp add: g)
  next
    case False
    let ?f = "\<lambda>x. x\<lparr>u_failedLoginAttempts := u_failedLoginAttempts u + 1,
       u_lockedUntil := (if u_failedLoginAttempts u + 1 \<ge> MAX_FAILED_LOGINS then Some (now + LOCKOUT_MS) else u_lockedUntil u)\<rparr> :: user"
    note cost = guess_costs [OF Cons.prems(2) False wrong(1,2) refl]
    have "db_users ?t = upd_row u_id (u_id u) ?f (db_users s)"
      by (rule wrong_guess [OF Cons.prems(1) False wrong(3) find_user_has [OF Cons.prems(1)]])
    then have found: "find_row u_email (normal_email email) (db_users ?t) = Some (?f u)"
      using find_user_row [OF _ Cons.prems(1), of ?f] by simp
    have "int (guesses_tested cy email gs ?t) \<le> guesses_left start finish (?f u)"
      by (rule Cons.IH [OF found cost(1) Cons.prems(3)]) (use Cons.prems(4) in simp)
    then show ?thesis using Cons.prems(1) False cost(2) by (simp add: g)
  qed
qed

text \<open>
  C20: However many sign-ins are tried one after the other, whoever tries them: from an account without failed
  attempts, at most five wrong passwords and one more for every quarter of an hour are ever compared with its
  password.
\<close>
theorem guess_rate_bounded:
  assumes u: "find_row u_email (normal_email email) (db_users s) = Some u" "u_failedLoginAttempts u = 0" "u_lockedUntil u = None"
    and gs: "start \<le> finish" "\<forall>g \<in> set gs. start \<le> fst g \<and> fst g \<le> finish \<and> \<not> cy_matches cy (snd g) (u_passwordHash u)"
  shows "int (guesses_tested cy email gs s) \<le> 5 + (finish - start) div (15 * 60 * 1000)"
proof -
  have "lock_in_step u" using u(2,3) by (simp add: lock_in_step_def MAX_FAILED_LOGINS_def)
  from guesses_bounded [OF u(1) this gs] show ?thesis
    using u(2) by (simp add: guesses_left_def MAX_FAILED_LOGINS_def LOCKOUT_MS_def)
qed

definition ex_crypto :: crypto where
  "ex_crypto = \<lparr>cy_hash = (\<lambda>p. p), cy_matches = (=), cy_sign = (\<lambda>c. ''t''), cy_verify = (\<lambda>now t. None)\<rparr>"

definition ex_guesses :: "(time \<times> string) list" where
  "ex_guesses = map (\<lambda>i. (int i * 1000, ''guess'')) [0..<8]"

theorem guess_rate_bounded_witness:
  "guesses_tested ex_crypto ''ADMIN@example.org'' ex_guesses ex_db \<le> 5
   \<and> length ex_guesses = 8"
proof -
  have u: "find_row u_email (normal_email ''ADMIN@example.org'') (db_users ex_db) = Some (hd (db_users ex_db))"
    "u_failedLoginAttempts (hd (db_users ex_db)) = 0" "u_lockedUntil (hd (db_users ex_db)) = None"
    "u_passwordHash (hd (db_users ex_db)) = ''hash''" by code_simp+
  have "\<forall>g \<in> set ex_guesses. 0 \<le> fst g \<and> fst g \<le> 7000 \<and> \<not> cy_matches ex_crypto (snd g) (u_passwordHash (hd (db_users ex_db)))"
    unfolding u(4) by (auto simp: ex_guesses_def ex_crypto_def)
  from guess_rate_bounded [OF u(1-3) _ this] show ?thesis by (simp add: ex_guesses_def)
qed

text \<open>
  C21: The counter is read before the password is compared and written as an absolute number: sign-ins that overlap, so
  that all of them have read the account before any has written it, are all compared with the password and count as
  one failed attempt, however many they are; the account is not locked.
\<close>
theorem overlapping_guesses_count_once:
  assumes u: "find_row u_email (normal_email email) (db_users s) = Some u" "u_failedLoginAttempts u = 0" "u_lockedUntil u = None"
    and gs: "gs \<noteq> []" "\<forall>g \<in> set gs. \<not> cy_matches cy (snd g) (u_passwordHash u)"
  shows "find_row u_email (normal_email email) (db_users (fold (\<lambda>g t. fst (login cy (fst g) email (snd g) s t)) gs s))
    = Some (u\<lparr>u_failedLoginAttempts := 1, u_lockedUntil := None\<rparr>)"
proof -
  let ?f = "\<lambda>x. x\<lparr>u_failedLoginAttempts := 1, u_lockedUntil := None\<rparr> :: user"
  let ?step = "\<lambda>g t. fst (login cy (fst g) email (snd g) s t)"
  have free: "\<not> is_locked now u" for now by (simp add: is_locked_def u(3))
  have one: "db_users (?step g t) = upd_row u_id (u_id u) ?f (db_users t)"
    if "\<not> cy_matches cy (snd g) (u_passwordHash u)" "has_row u_id (u_id u) (db_users t)" for g t
    using wrong_guess [OF u(1) free that] by (simp add: u(2,3) MAX_FAILED_LOGINS_def)
  have has: "has_row u_id (u_id u) (upd_row u_id (u_id u) ?f us) = has_row u_id (u_id u) us" for us
  proof -
    have "map u_id (upd_row u_id (u_id u) ?f us) = map u_id us" by (rule map_upd_row) simp
    then have "set (map u_id (upd_row u_id (u_id u) ?f us)) = set (map u_id us)" by simp
    then show ?thesis by (simp add: has_row_def)
  qed
  have all: "db_users (fold ?step hs t) = db_users t"
    if "\<forall>g \<in> set hs. \<not> cy_matches cy (snd g) (u_passwordHash u)" "has_row u_id (u_id u) (db_users t)"
      "db_users t = upd_row u_id (u_id u) ?f us" for hs t us
    using that
  proof (induction hs arbitrary: t)
    case (Cons h hs)
    have step: "db_users (?step h t) = db_users t"
      using one [of h t] Cons.prems by (simp add: upd_row_def)
    have "db_users (fold ?step hs (?step h t)) = db_users (?step h t)"
      by (rule Cons.IH) (use Cons.prems step in simp_all)
    then show ?case using step by simp
  qed simp
  obtain h hs where h: "gs = h # hs" using gs(1) by (cases gs) auto
  have first: "db_users (?step h s) = upd_row u_id (u_id u) ?f (db_users s)"
    using one [of h s] gs(2) find_user_has [OF u(1)] by (simp add: h)
  have "db_users (fold ?step hs (?step h s)) = db_users (?step h s)"
    by (rule all [OF _ _ first]) (use gs(2) find_user_has [OF u(1)] has in \<open>simp_all add: h first\<close>)
  then show ?thesis using find_user_row [OF _ u(1), of ?f] by (simp add: h first)
qed

theorem overlapping_guesses_count_once_witness:
  "find_row u_email ''admin@example.org'' (db_users (fold (\<lambda>g t. fst (login ex_crypto (fst g) ''admin@example.org'' (snd g) ex_db t)) ex_guesses ex_db))
     = Some (hd (db_users ex_db)\<lparr>u_failedLoginAttempts := 1, u_lockedUntil := None\<rparr>) \<and> length ex_guesses = 8"
proof -
  have u: "find_row u_email (normal_email ''admin@example.org'') (db_users ex_db) = Some (hd (db_users ex_db))"
    "u_failedLoginAttempts (hd (db_users ex_db)) = 0" "u_lockedUntil (hd (db_users ex_db)) = None"
    "u_passwordHash (hd (db_users ex_db)) = ''hash''" "normal_email ''admin@example.org'' = ''admin@example.org''" by code_simp+
  have gs: "ex_guesses \<noteq> []" "\<forall>g \<in> set ex_guesses. \<not> cy_matches ex_crypto (snd g) (u_passwordHash (hd (db_users ex_db)))"
    unfolding u(4) by (auto simp: ex_guesses_def ex_crypto_def)
  show ?thesis using overlapping_guesses_count_once [OF u(1-3) gs] by (simp add: u(5) ex_guesses_def)
qed

section \<open>Roles and stores\<close>

definition assigned :: "db \<Rightarrow> user \<Rightarrow> bool" where
  "assigned s u \<longleftrightarrow> (if u_role u = COOP_ADMIN then u_storeId u = None
     else truthy (u_storeId u) \<and> the (u_storeId u) \<in> st_id ` set (db_stores s))"

definition staff_ok :: "db \<Rightarrow> bool" where
  "staff_ok s \<longleftrightarrow> distinct (map u_id (db_users s)) \<and> distinct (map u_email (db_users s)) \<and> (\<forall>u \<in> set (db_users s). assigned s u)"

definition stores_later :: "db \<Rightarrow> db \<Rightarrow> bool" where
  "stores_later s t \<longleftrightarrow> st_id ` set (db_stores s) \<subseteq> st_id ` set (db_stores t)"

interpretation staff: overtaking staff_ok stores_later
  by unfold_locales (auto simp: stores_later_def)

text \<open>Other requests leave the accounts alone; stores are never deleted.\<close>

inductive staff_history :: "db \<Rightarrow> db \<Rightarrow> bool" where
  here: "staff_history a a"
| other: "staff_history a s \<Longrightarrow> db_users t = db_users s \<Longrightarrow> stores_later s t \<Longrightarrow> staff_history a t"
| signin: "staff_history a s0 \<Longrightarrow> staff_history s0 s \<Longrightarrow> login cy now email pw s0 s = (t, r) \<Longrightarrow> staff_history a t"
| password: "staff_history a s0 \<Longrightarrow> staff_history s0 s \<Longrightarrow> changePassword cy now actor old new s0 s = Inr (t, x) \<Longrightarrow> staff_history a t"
| register: "staff_history a s0 \<Longrightarrow> staff_history s0 s \<Longrightarrow> registerUser cy actor i inp s0 s = Inr (t, v) \<Longrightarrow> staff_history a t"
| reassign: "staff_history a s0 \<Longrightarrow> staff_history s0 s \<Longrightarrow> updateUser actor i upd s0 s = Inr (t, v) \<Longrightarrow> staff_history a t"

lemma check_assignment_Inr:
  assumes "check_assignment r st s = Inr ()"
  shows "if r = COOP_ADMIN then st = None else truthy st \<and> the st \<in> st_id ` set (db_stores s)"
  using assms by (auto simp: check_assignment_def truthy_def find_store_def split: if_splits option.splits dest: find_row_SomeD)

text \<open>An update of one account that keeps its keys.\<close>

lemma account_kept:
  assumes t: "db_users t = upd_row u_id i f (db_users s)" "db_stores t = db_stores s"
    and f: "\<And>x. u_id (f x) = u_id x \<and> u_email (f x) = u_email x" "\<And>x. assigned s x \<Longrightarrow> assigned s (f x)" and ok: "staff_ok s"
  shows "staff_ok t \<and> stores_later s t"
proof -
  have a: "assigned t = assigned s" by (simp add: fun_eq_iff assigned_def t(2))
  have "map u_id (db_users t) = map u_id (db_users s)" "map u_email (db_users t) = map u_email (db_users s)"
    unfolding t(1) using f(1) by (simp_all add: map_upd_row)
  moreover have "assigned s x" if x: "x \<in> set (db_users t)" for x
  proof -
    obtain y :: user where y: "y \<in> set (db_users s)" "x = (if u_id y = i then f y else y)" using x unfolding t(1) in_upd_row by blast
    then show ?thesis using ok f(2) by (simp add: staff_ok_def)
  qed
  ultimately show ?thesis using ok by (simp add: staff_ok_def a stores_later_def t(2))
qed

lemma login_kept: "login cy now email pw s0 s = (t, r) \<Longrightarrow> staff_ok s \<Longrightarrow> staff_ok t \<and> stores_later s t"
proof -
  assume run: "login cy now email pw s0 s = (t, r)" and ok: "staff_ok s"
  have same: "staff_ok t \<and> stores_later s t" if "db_users t = db_users s" "db_stores t = db_stores s"
    using ok that by (simp add: staff_ok_def assigned_def stores_later_def)
  show ?thesis
  proof (cases "db_users t = db_users s \<and> db_stores t = db_stores s")
    case False
    then obtain i f where "db_users t = upd_row u_id i f (db_users s)" "db_stores t = db_stores s"
        "\<And>x. u_id (f x) = u_id x \<and> u_email (f x) = u_email x \<and> u_role (f x) = u_role x \<and> u_storeId (f x) = u_storeId x"
      using run by (auto simp: login_def Let_def split: option.splits sum.splits prod.splits if_splits dest!: user_update_Inr)
    then show ?thesis using account_kept [OF _ _ _ _ ok] by (simp add: assigned_def)
  qed (use same in simp)
qed

lemma changePassword_kept:
  "changePassword cy now actor old new s0 s = Inr (t, x) \<Longrightarrow> staff_ok s \<Longrightarrow> staff_ok t \<and> stores_later s t"
proof -
  assume run: "changePassword cy now actor old new s0 s = Inr (t, x)" and ok: "staff_ok s"
  obtain i v t1 where "user_update i (\<lambda>u. u\<lparr>u_passwordHash := cy_hash cy new, u_mustChangePassword := False,
      u_failedLoginAttempts := 0, u_lockedUntil := None\<rparr>) s = Inr (t1, v)" "db_users t = db_users t1" "db_stores t = db_stores t1"
    using run by (auto simp: changePassword_def bindE_Inr_iff split: option.splits if_splits)
  note up = user_update_Inr [OF this(1)] and t = this(2,3)
  show ?thesis
    by (rule account_kept [where f = "\<lambda>u. u\<lparr>u_passwordHash := cy_hash cy new, u_mustChangePassword := False,
      u_failedLoginAttempts := 0, u_lockedUntil := None\<rparr>" and i = i]) (use up t ok in \<open>simp_all add: assigned_def\<close>)
qed

lemma registerUser_kept:
  assumes run: "registerUser cy actor i inp s0 s = Inr (t, v)" and later: "stores_later s0 s" and ok: "staff_ok s"
  shows "staff_ok t \<and> stores_later s t"
proof -
  let ?u = "new_user cy i inp"
  have c: "check_assignment (rg_role inp) (rg_storeId inp) s0 = Inr ()" and t: "db_users t = db_users s @ [?u]" "db_stores t = db_stores s"
    and new: "\<not> has_row u_id i (db_users s)" "\<not> has_row u_email (u_email ?u) (db_users s)"
    using run by (auto simp: registerUser_def bindE_Inr_iff Let_def split: if_splits)
  have "assigned t ?u" using check_assignment_Inr [OF c] later
    by (auto simp: assigned_def new_user_def t(2) stores_later_def split: if_splits)
  moreover have "u_id ?u = i" by (simp add: new_user_def)
  moreover have "assigned t = assigned s" by (simp add: fun_eq_iff assigned_def t(2))
  ultimately show ?thesis using ok new by (auto simp: staff_ok_def t has_row_def stores_later_def)
qed

lemma updateUser_kept:
  assumes run: "updateUser actor i inp s0 s = Inr (t, v)" and later: "stores_later s0 s" and ok: "staff_ok s"
  shows "staff_ok t \<and> stores_later s t"
proof -
  obtain r st k t1 u where c: "check_assignment r st s0 = Inr ()"
    and up: "user_update k (\<lambda>u. u\<lparr>u_role := r, u_storeId := st\<rparr>) s = Inr (t1, u)" and t: "db_users t = db_users t1" "db_stores t = db_stores t1"
    using run by (auto simp: updateUser_def Let_def bindE_Inr_iff split: option.splits sum.splits)
  have "assigned s (x\<lparr>u_role := r, u_storeId := st\<rparr>)" for x
    using check_assignment_Inr [OF c] later by (auto simp: assigned_def stores_later_def split: if_splits)
  then show ?thesis using user_update_Inr [OF up] 
    by (intro account_kept [where f = "\<lambda>u. u\<lparr>u_role := r, u_storeId := st\<rparr>" and i = k, OF _ _ _ _ ok]) (simp_all add: t)
qed

lemma staff_history_kept: "staff_history a s \<Longrightarrow> staff_ok a \<Longrightarrow> staff_ok s \<and> stores_later a s"
proof (induction rule: staff_history.induct)
  case (here a)
  then show ?case by (simp add: stores_later_def)
next
  case (other a s t)
  have "staff_ok t" using other.IH [OF other.prems] other.hyps by (auto simp: staff_ok_def assigned_def stores_later_def)
  then show ?case using other.IH [OF other.prems] other.hyps(3) staff.later_trans by blast
next
  case (signin a s0 s cy now email pw t r)
  show ?case by (rule staff.overtaken_step [OF signin.IH signin.prems]) (assumption | rule login_kept [OF signin.hyps(3)])+
next
  case (password a s0 s cy now actor old new t x)
  show ?case by (rule staff.overtaken_step [OF password.IH password.prems]) (assumption | rule changePassword_kept [OF password.hyps(3)])+
next
  case (register a s0 s cy actor i inp t v)
  show ?case by (rule staff.overtaken_step [OF register.IH register.prems]) (assumption | rule registerUser_kept [OF register.hyps(3)])+
next
  case (reassign a s0 s actor i upd t v)
  show ?case by (rule staff.overtaken_step [OF reassign.IH reassign.prems]) (assumption | rule updateUser_kept [OF reassign.hyps(3)])+
qed

section \<open>Tokens\<close>

definition issued_claims :: "time \<Rightarrow> user \<Rightarrow> token_claims" where
  "issued_claims now u = \<lparr>tc_sub = u_id u, tc_storeId = u_storeId u, tc_role = u_role u,
     tc_mustChangePassword = u_mustChangePassword u, tc_expiresAt = now div 1000 + TOKEN_EXPIRES_IN\<rparr>"

text \<open>What is used of signing: the token of a payload verifies to it until it expires, and has no blanks at its ends.\<close>

definition signs :: "crypto \<Rightarrow> token_claims \<Rightarrow> bool" where
  "signs cy c \<longleftrightarrow> cy_sign cy c \<noteq> [] \<and> trim (cy_sign cy c) = cy_sign cy c
     \<and> (\<forall>now. cy_verify cy now (cy_sign cy c) = (if now div 1000 < tc_expiresAt c then Some c else None))"

lemma token_admits:
  assumes "signs cy (issued_claims issued u)" "u_id u \<noteq> []"
  shows "authMiddleware cy now (Some (''Bearer '' @ signToken cy issued u)) =
    (if now div 1000 < issued div 1000 + TOKEN_EXPIRES_IN
     then Inr \<lparr>au_id = u_id u, au_storeScope = u_storeId u, au_role = u_role u, au_mustChangePassword = u_mustChangePassword u\<rparr>
     else Inl (AppError 401 ''Invalid or expired token''))"
proof -
  have sg: "signToken cy issued u = cy_sign cy (issued_claims issued u)" by (simp add: signToken_def issued_claims_def)
  have "starts_with ''Bearer '' (''Bearer '' @ x)" for x by simp
  then show ?thesis using assms unfolding sg
    by (simp add: authMiddleware_def signs_def Let_def) (simp add: issued_claims_def)
qed

text \<open>
  C22: A token opens one store. In every history of sign-ins, password changes, registrations and reassignments that may
  overtake each other, take an account as it is when a token is signed for it. An administrator of the co-op has no
  store then, everybody else exactly one, which still exists whenever the token is used. The scope of a request with the
  token (\<open>resolveStoreScope\<close>) is that store, or the request is refused, whatever store it asks for, also when the
  account has been given another role or store since; and the token is refused after twelve hours.
\<close>
theorem staff_stay_in_their_store:
  assumes "staff_ok a" "staff_history a s0" "u \<in> set (db_users s0)" "staff_history s0 s"
    and token: "signs cy (issued_claims issued u)" "authMiddleware cy now (Some (''Bearer '' @ signToken cy issued u)) = Inr actor"
    and id: "u_id u \<noteq> []"
  shows "(u_role u = COOP_ADMIN \<longrightarrow> u_storeId u = None) \<and> now < issued + 12 * 60 * 60 * 1000
    \<and> (u_role u \<noteq> COOP_ADMIN \<longrightarrow> (\<exists>st \<in> set (db_stores s). u_storeId u = Some (st_id st)
         \<and> (\<forall>asked. resolveStoreScope actor asked \<in> {Inr (st_id st), Inl (AppError 403 ''Cannot access another store's data'')})))"
proof -
  have ok: "staff_ok s0" using staff_history_kept [OF assms(2,1)] by simp
  have as: "assigned s u"
    using ok assms(3) staff_history_kept [OF assms(4) ok] by (auto simp: staff_ok_def assigned_def stores_later_def split: if_splits)
  have actor: "au_role actor = u_role u" "au_storeScope actor = u_storeId u" "now div 1000 < issued div 1000 + TOKEN_EXPIRES_IN"
    using token_admits [OF token(1) id, of now] token(2) by (auto split: if_splits)
  have "\<exists>st \<in> set (db_stores s). u_storeId u = Some (st_id st)
      \<and> (\<forall>asked. resolveStoreScope actor asked \<in> {Inr (st_id st), Inl (AppError 403 ''Cannot access another store's data'')})"
    if r: "u_role u \<noteq> COOP_ADMIN"
  proof -
    obtain st where st: "st \<in> set (db_stores s)" "u_storeId u = Some (st_id st)" "truthy (u_storeId u)"
      using as r by (auto simp: assigned_def truthy_def split: option.splits)
    then show ?thesis using r actor(1,2) by (auto simp: resolveStoreScope_def)
  qed
  then show ?thesis using as actor(3) by (simp add: assigned_def TOKEN_EXPIRES_IN_def split: if_splits)
qed

text \<open>
  A token carries the role and the store of the moment it was signed: when a co-op administrator has been reassigned to a
  till, its token still opens what only co-op administrators may use, for the rest of its twelve hours.
\<close>
theorem old_token_keeps_old_role:
  assumes token: "signs cy (issued_claims issued u)" and u: "u_id u \<noteq> []" "u_role u = COOP_ADMIN" "\<not> u_mustChangePassword u"
    and run: "updateUser actor (u_id u) \<lparr>uu_role = Some CASHIER, uu_storeId = Some (Some st)\<rparr> s0 s = Inr (t, v)"
    and now: "now div 1000 < issued div 1000 + 12 * 60 * 60"
  shows "pu_role v = CASHIER \<and> pu_storeId v = Some st \<and> (\<exists>x \<in> set (db_users t). u_id x = u_id u \<and> u_role x = CASHIER)
    \<and> coop_only cy now (Some (''Bearer '' @ signToken cy issued u))
        = Inr \<lparr>au_id = u_id u, au_storeScope = u_storeId u, au_role = COOP_ADMIN, au_mustChangePassword = False\<rparr>"
proof -
  obtain t1 x where up: "user_update (u_id u) (\<lambda>u. u\<lparr>u_role := CASHIER, u_storeId := Some st\<rparr>) s = Inr (t1, x)"
    and t: "db_users t = db_users t1" "v = publicUser x"
    using run by (auto simp: updateUser_def find_user_def Let_def bindE_Inr_iff split: option.splits sum.splits dest!: find_row_SomeD)
  note x = user_update_Inr [OF up]
  have "x \<in> set (db_users t1)" "u_id x = u_id u" using x find_row_SomeD [of u_id "u_id u" _ x] by auto
  moreover from this have "u_role x = CASHIER" "u_storeId x = Some st" using x by (auto simp: in_upd_row)
  moreover have "coop_only cy now (Some (''Bearer '' @ signToken cy issued u))
        = Inr \<lparr>au_id = u_id u, au_storeScope = u_storeId u, au_role = COOP_ADMIN, au_mustChangePassword = False\<rparr>"
    using now u(2,3) unfolding coop_only_def token_admits [OF token u(1)]
    by (simp add: TOKEN_EXPIRES_IN_def requirePasswordChanged_def requireRole_def)
  ultimately show ?thesis by (auto simp: t publicUser_def)
qed

section \<open>A clerk and an administrator\<close>

definition ex_account :: "ident \<Rightarrow> role \<Rightarrow> ident option \<Rightarrow> user" where
  "ex_account i r st = \<lparr>u_id = i, u_storeId = st, u_role = r, u_email = i, u_passwordHash = ''hash'', u_failedLoginAttempts = 0,
     u_lockedUntil = None, u_mustChangePassword = False\<rparr>"

text \<open>A signature that knows one account.\<close>

definition ex_keys :: "user \<Rightarrow> crypto" where
  "ex_keys u = ex_crypto\<lparr>cy_verify := \<lambda>now t. if now div 1000 < TOKEN_EXPIRES_IN then Some (issued_claims 0 u) else None\<rparr>"

definition ex_staff :: db where
  "ex_staff = ex_db\<lparr>db_users := [ex_account ''U1'' STORE_ADMIN (Some ''S1''), ex_account ''U9'' COOP_ADMIN None]\<rparr>"

lemma ex_keys_signs: "signs (ex_keys u) (issued_claims 0 u)"
proof -
  have "trim ''t'' = ''t''" by code_simp
  then show ?thesis by (simp add: signs_def ex_keys_def ex_crypto_def issued_claims_def)
qed

lemma ex_staff_ok: "staff_ok ex_staff"
  by (simp add: staff_ok_def assigned_def ex_staff_def ex_account_def ex_db_def ex_store_def truthy_def)

theorem staff_stay_in_their_store_witness:
  "resolveStoreScope \<lparr>au_id = ''U1'', au_storeScope = Some ''S1'', au_role = STORE_ADMIN, au_mustChangePassword = False\<rparr> (Some ''S2'')
     \<noteq> Inr ''S2'' \<and> staff_ok ex_staff"
proof -
  let ?u = "ex_account ''U1'' STORE_ADMIN (Some ''S1'')"
  have u: "?u \<in> set (db_users ex_staff)" "u_id ?u \<noteq> []" "u_role ?u = STORE_ADMIN" "u_storeId ?u = Some ''S1''" "u_id ?u = ''U1''"
    "\<not> u_mustChangePassword ?u" by (simp_all add: ex_staff_def ex_account_def)
  have "authMiddleware (ex_keys ?u) 5 (Some (''Bearer '' @ signToken (ex_keys ?u) 0 ?u))
      = Inr \<lparr>au_id = ''U1'', au_storeScope = Some ''S1'', au_role = STORE_ADMIN, au_mustChangePassword = False\<rparr>"
    unfolding token_admits [OF ex_keys_signs u(2)] using u(3-6) by (simp add: TOKEN_EXPIRES_IN_def)
  from staff_stay_in_their_store [OF ex_staff_ok staff_history.here u(1) staff_history.here ex_keys_signs this u(2)]
  have *: "\<exists>st \<in> set (db_stores ex_staff). u_storeId ?u = Some (st_id st) \<and> (\<forall>asked.
      resolveStoreScope \<lparr>au_id = ''U1'', au_storeScope = Some ''S1'', au_role = STORE_ADMIN, au_mustChangePassword = False\<rparr> asked
        \<in> {Inr (st_id st), Inl (AppError 403 ''Cannot access another store's data'')})"
    using u(3) by simp
  obtain st :: store where st: "u_storeId ?u = Some (st_id st)" "resolveStoreScope
      \<lparr>au_id = ''U1'', au_storeScope = Some ''S1'', au_role = STORE_ADMIN, au_mustChangePassword = False\<rparr> (Some ''S2'')
        \<in> {Inr (st_id st), Inl (AppError 403 ''Cannot access another store's data'')}"
    using * by blast
  have "st_id st = ''S1''" using st(1) unfolding u(4) by simp
  then show ?thesis using st(2) ex_staff_ok by force
qed

theorem old_token_keeps_old_role_witness:
  "u_role (hd (tl (db_users (fst (projr (updateUser ex_admin ''U9'' \<lparr>uu_role = Some CASHIER, uu_storeId = Some (Some ''S1'')\<rparr> ex_staff ex_staff)))))) = CASHIER
   \<and> \<not> isl (coop_only (ex_keys (ex_account ''U9'' COOP_ADMIN None)) 5
        (Some (''Bearer '' @ signToken (ex_keys (ex_account ''U9'' COOP_ADMIN None)) 0 (ex_account ''U9'' COOP_ADMIN None))))"
proof -
  let ?u = "ex_account ''U9'' COOP_ADMIN None"
  have u: "u_id ?u \<noteq> []" "u_role ?u = COOP_ADMIN" "\<not> u_mustChangePassword ?u" "u_id ?u = ''U9''" by (simp_all add: ex_account_def)
  have "\<not> isl (updateUser ex_admin (u_id ?u) \<lparr>uu_role = Some CASHIER, uu_storeId = Some (Some ''S1'')\<rparr> ex_staff ex_staff)"
    unfolding u(4) by code_simp
  note run = stage_pair [OF this]
  have "u_role (hd (tl (db_users (fst (projr (updateUser ex_admin ''U9'' \<lparr>uu_role = Some CASHIER, uu_storeId = Some (Some ''S1'')\<rparr> ex_staff ex_staff)))))) = CASHIER"
    by code_simp
  then show ?thesis using old_token_keeps_old_role [OF ex_keys_signs u(1-3) run, of 5] by simp
qed

end
