(* ===== verification/Catalog.thy ===== *)
theory Catalog
  imports
    Inventory
begin

text \<open>
  The catalog of the network and its locations (\<open>backend/src/services/catalog.service.ts\<close>,
  \<open>services/stores.service.ts\<close>). A product of a location mirrors its catalog item; the item carries
  the ceiling of the shelf price. New ids and the clock are parameters. An operation that checks what it
  has read before it opens its transaction takes the state of the read, \<open>s0\<close>, and the state it writes
  to, \<open>s\<close>.
\<close>

section \<open>Disagreements of a backfill\<close>

datatype disagreement_field = FieldName | FieldCategory | FieldTaxExempt

datatype identity_value = Text string | Flag bool

record disagreement_value =
  dv_value :: identity_value
  dv_count :: nat
  dv_storeIds :: "ident list"

record catalog_disagreement =
  dg_id :: ident
  dg_sku :: string
  dg_field :: disagreement_field
  dg_values :: "disagreement_value list"
  dg_chosenValue :: string
  dg_resolvedAt :: "time option"
  dg_resolvedByUserId :: "ident option"
  dg_createdAt :: time

text \<open>The order of the enum.\<close>

definition field_rank :: "disagreement_field \<Rightarrow> nat" where
  "field_rank f = (case f of FieldName \<Rightarrow> 0 | FieldCategory \<Rightarrow> 1 | FieldTaxExempt \<Rightarrow> 2)"

definition assertCatalogAdmin :: "auth_user \<Rightarrow> unit result" where
  "assertCatalogAdmin actor =
     (if au_role actor \<noteq> COOP_ADMIN then Inl (AppError 403 ''Only COOP_ADMIN can manage the network catalog'') else Inr ())"

definition assertCatalogReader :: "auth_user \<Rightarrow> unit result" where
  "assertCatalogReader actor =
     (if au_role actor \<noteq> COOP_ADMIN \<and> au_role actor \<noteq> STORE_ADMIN
      then Inl (AppError 403 ''Insufficient role to read the network catalog'') else Inr ())"

definition getCatalogDisagreements :: "auth_user \<Rightarrow> catalog_disagreement list \<Rightarrow> catalog_disagreement list result" where
  "getCatalogDisagreements actor ds =
     bindE (assertCatalogReader actor) (\<lambda>_.
     Inr (sort_key dg_sku (sort_key (field_rank \<circ> dg_field) (filter (\<lambda>d. dg_resolvedAt d = None) ds))))"

record disagreement_input =
  di_sku :: string
  di_field :: disagreement_field
  di_chosenValue :: string
  di_values :: "disagreement_value list"

definition open_disagreement :: "string \<Rightarrow> disagreement_field \<Rightarrow> catalog_disagreement \<Rightarrow> bool" where
  "open_disagreement sku field d \<longleftrightarrow> dg_sku d = sku \<and> dg_field d = field \<and> dg_resolvedAt d = None"

definition upsertOpenCatalogDisagreement ::
  "time \<Rightarrow> ident \<Rightarrow> disagreement_input \<Rightarrow> catalog_disagreement list \<Rightarrow> catalog_disagreement list result" where
  "upsertOpenCatalogDisagreement now newId i ds =
     (case List.find (open_disagreement (di_sku i) (di_field i)) ds of
        Some d \<Rightarrow> update_row dg_id (dg_id d) (\<lambda>x. x\<lparr>dg_values := di_values i, dg_chosenValue := di_chosenValue i\<rparr>) ds
      | None \<Rightarrow> create_row dg_id \<lparr>dg_id = newId, dg_sku = di_sku i, dg_field = di_field i, dg_values = di_values i,
            dg_chosenValue = di_chosenValue i, dg_resolvedAt = None, dg_resolvedByUserId = None, dg_createdAt = now\<rparr> ds)"

definition resolveCatalogDisagreement ::
  "time \<Rightarrow> auth_user \<Rightarrow> ident \<Rightarrow> catalog_disagreement list \<Rightarrow> catalog_disagreement list \<Rightarrow> catalog_disagreement list result" where
  "resolveCatalogDisagreement now actor i ds0 ds =
     bindE (assertCatalogAdmin actor) (\<lambda>_.
     case find_row dg_id i ds0 of
       None \<Rightarrow> Inl (AppError 404 ''Catalog disagreement not found'')
     | Some d \<Rightarrow>
         if dg_resolvedAt d \<noteq> None then Inl (AppError 409 ''Catalog disagreement is already resolved'')
         else update_row dg_id i (\<lambda>x. x\<lparr>dg_resolvedAt := Some now, dg_resolvedByUserId := Some (au_id actor)\<rparr>) ds)"

section \<open>Catalog items\<close>

definition listCatalogItems :: "auth_user \<Rightarrow> db \<Rightarrow> catalog_item list result" where
  "listCatalogItems actor s =
     bindE (assertCatalogReader actor) (\<lambda>_. Inr (sort_key ci_category (sort_key ci_name (db_catalog s))))"

definition getCatalogItem :: "auth_user \<Rightarrow> ident \<Rightarrow> db \<Rightarrow> catalog_item result" where
  "getCatalogItem actor i s =
     bindE (assertCatalogReader actor) (\<lambda>_.
     case find_row ci_id i (db_catalog s) of None \<Rightarrow> Inl (AppError 404 ''Catalog item not found'') | Some c \<Rightarrow> Inr c)"

definition validatePack :: "decimal \<Rightarrow> decimal option \<Rightarrow> unit result" where
  "validatePack unitsPerCase casesPerPallet =
     (if \<not> is_integer unitsPerCase \<or> unitsPerCase < 1 then Inl (AppError 400 ''unitsPerCase must be an integer of at least 1'')
      else case casesPerPallet of
        None \<Rightarrow> Inr ()
      | Some n \<Rightarrow> if \<not> is_integer n \<or> n < 1 then Inl (AppError 400 ''casesPerPallet must be null or an integer of at least 1'') else Inr ())"

record create_catalog_input =
  cc_sku :: string
  cc_name :: string
  cc_category :: string
  cc_taxExempt :: "bool option"
  cc_isActive :: "bool option"
  cc_unitsPerCase :: decimal
  cc_casesPerPallet :: "decimal option"
  cc_caseWeightKg :: "decimal option"
  cc_caseGtin :: "string option"
  cc_maxShelfPrice :: decimal

definition catalog_sku_taken :: "'a result \<Rightarrow> 'a result" where
  "catalog_sku_taken r =
     (case r of Inl UniqueViolation \<Rightarrow> Inl (AppError 409 ''SKU already exists in the network catalog'') | _ \<Rightarrow> r)"

definition new_catalog_item :: "ident \<Rightarrow> create_catalog_input \<Rightarrow> catalog_item" where
  "new_catalog_item newId i =
     \<lparr>ci_id = newId, ci_sku = trim (cc_sku i), ci_name = trim (cc_name i), ci_category = trim (cc_category i),
      ci_maxShelfPrice = moneyDec (cc_maxShelfPrice i), ci_taxExempt = opt (cc_taxExempt i) False,
      ci_isActive = opt (cc_isActive i) True, ci_unitsPerCase = \<lfloor>cc_unitsPerCase i\<rfloor>,
      ci_casesPerPallet = map_option floor (cc_casesPerPallet i),
      ci_caseWeightKg = map_option (toDecimalPlaces 3) (cc_caseWeightKg i), ci_caseGtin = trimmed (cc_caseGtin i)\<rparr>"

definition createCatalogItem :: "auth_user \<Rightarrow> ident \<Rightarrow> create_catalog_input \<Rightarrow> db \<Rightarrow> (db \<times> catalog_item) result" where
  "createCatalogItem actor newId i s =
     bindE (assertCatalogAdmin actor) (\<lambda>_.
     bindE (validatePack (cc_unitsPerCase i) (cc_casesPerPallet i)) (\<lambda>_.
     if \<not> cc_maxShelfPrice i \<ge> 0 then Inl (AppError 400 ''maxShelfPrice must be zero or more'')
     else catalog_sku_taken
       (let item = new_catalog_item newId i in
        if has_row ci_id newId (db_catalog s) \<or> has_row ci_sku (ci_sku item) (db_catalog s) then Inl UniqueViolation
        else Inr (writeAuditLog (Some (au_id actor)) None ''CATALOG_ITEM_UPDATE'' ''CatalogItem'' (Some newId)
               (s\<lparr>db_catalog := db_catalog s @ [item]\<rparr>), item))))"

record update_catalog_input =
  uc_sku :: "string option"
  uc_name :: "string option"
  uc_category :: "string option"
  uc_taxExempt :: "bool option"
  uc_isActive :: "bool option"
  uc_unitsPerCase :: "decimal option"
  uc_casesPerPallet :: "decimal option option"
  uc_caseWeightKg :: "decimal option option"
  uc_caseGtin :: "string option option"
  uc_maxShelfPrice :: "decimal option"

definition updated_catalog_item :: "update_catalog_input \<Rightarrow> catalog_item \<Rightarrow> catalog_item" where
  "updated_catalog_item i c =
     c\<lparr>ci_sku := opt (map_option trim (uc_sku i)) (ci_sku c), ci_name := opt (map_option trim (uc_name i)) (ci_name c),
       ci_category := opt (map_option trim (uc_category i)) (ci_category c), ci_taxExempt := opt (uc_taxExempt i) (ci_taxExempt c),
       ci_isActive := opt (uc_isActive i) (ci_isActive c),
       ci_unitsPerCase := opt (map_option floor (uc_unitsPerCase i)) (ci_unitsPerCase c),
       ci_casesPerPallet := opt (map_option (map_option floor) (uc_casesPerPallet i)) (ci_casesPerPallet c),
       ci_caseWeightKg := opt (map_option (map_option (toDecimalPlaces 3)) (uc_caseWeightKg i)) (ci_caseWeightKg c),
       ci_caseGtin := opt (map_option trimmed (uc_caseGtin i)) (ci_caseGtin c),
       ci_maxShelfPrice := opt (map_option moneyDec (uc_maxShelfPrice i)) (ci_maxShelfPrice c)\<rparr>"

text \<open>The unique columns of catalog items and of the products of a location.\<close>

definition skus_clash :: "ident \<Rightarrow> db \<Rightarrow> bool" where
  "skus_clash i s \<longleftrightarrow>
     (case find_row ci_id i (db_catalog s) of
        None \<Rightarrow> False
      | Some c \<Rightarrow> list_ex (\<lambda>x. ci_id x \<noteq> i \<and> ci_sku x = ci_sku c) (db_catalog s))"

text \<open>Every product of the item takes over its identity.\<close>

definition propagate :: "ident \<Rightarrow> string \<Rightarrow> string \<Rightarrow> string \<Rightarrow> bool \<Rightarrow> db \<Rightarrow> db result" where
  "propagate i sku name category taxExempt s =
     (let ps = map (\<lambda>p. if p_catalogItemId p = Some i
                 then p\<lparr>p_sku := sku, p_name := name, p_category := category, p_taxExempt := taxExempt\<rparr> else p) (db_products s)
      in if distinct (map (\<lambda>p. (p_storeId p, p_sku p)) ps) then Inr (s\<lparr>db_products := ps\<rparr>) else Inl UniqueViolation)"

text \<open>A lower ceiling caps the price of the products in shops.\<close>

definition over_ceiling :: "ident \<Rightarrow> decimal \<Rightarrow> db \<Rightarrow> product \<Rightarrow> bool" where
  "over_ceiling i cap s p \<longleftrightarrow> p_catalogItemId p = Some i \<and> p_price p > cap
     \<and> (case find_store (p_storeId p) s of None \<Rightarrow> False | Some st \<Rightarrow> st_locationType st = RETAIL_STORE)"

definition clamp_one :: "auth_user \<Rightarrow> decimal \<Rightarrow> db \<Rightarrow> product \<Rightarrow> db result" where
  "clamp_one actor cap s p =
     bindE (product_update (p_id p) (\<lambda>x. x\<lparr>p_price := cap\<rparr>) s) (\<lambda>t.
     Inr (writeAuditLog (Some (au_id actor)) (Some (p_storeId p)) ''PRODUCT_PRICE_CHANGE'' ''Product'' (Some (p_id p)) t))"

definition clamp_prices :: "auth_user \<Rightarrow> ident \<Rightarrow> decimal \<Rightarrow> db \<Rightarrow> db result" where
  "clamp_prices actor i cap s = forE (filter (over_ceiling i cap s) (db_products s)) (\<lambda>p x. clamp_one actor cap x p) s"

definition catalog_tx :: "auth_user \<Rightarrow> ident \<Rightarrow> update_catalog_input \<Rightarrow> catalog_item \<Rightarrow> db \<Rightarrow> (db \<times> catalog_item) result" where
  "catalog_tx actor i input existing s =
     (let cap = opt (map_option moneyDec (uc_maxShelfPrice input)) (ci_maxShelfPrice existing)
      in bindE (update_row ci_id i (updated_catalog_item input) (db_catalog s)) (\<lambda>cs.
         let s1 = s\<lparr>db_catalog := cs\<rparr> in
         if skus_clash i s1 then Inl UniqueViolation
         else
           bindE (propagate i (opt (map_option trim (uc_sku input)) (ci_sku existing))
               (opt (map_option trim (uc_name input)) (ci_name existing))
               (opt (map_option trim (uc_category input)) (ci_category existing))
               (opt (uc_taxExempt input) (ci_taxExempt existing)) s1) (\<lambda>s2.
           bindE (if cap < ci_maxShelfPrice existing then clamp_prices actor i cap s2 else Inr s2) (\<lambda>s3.
           case find_row ci_id i cs of
             None \<Rightarrow> Inl RecordNotFound
           | Some updated \<Rightarrow>
               Inr (writeAuditLog (Some (au_id actor)) None ''CATALOG_ITEM_UPDATE'' ''CatalogItem'' (Some i) s3, updated)))))"

definition updateCatalogItem ::
  "auth_user \<Rightarrow> ident \<Rightarrow> update_catalog_input \<Rightarrow> db \<Rightarrow> db \<Rightarrow> (db \<times> catalog_item) result" where
  "updateCatalogItem actor i input s0 s =
     bindE (assertCatalogAdmin actor) (\<lambda>_.
     case find_row ci_id i (db_catalog s0) of
       None \<Rightarrow> Inl (AppError 404 ''Catalog item not found'')
     | Some existing \<Rightarrow>
         bindE (if uc_unitsPerCase input \<noteq> None \<or> uc_casesPerPallet input \<noteq> None
                then validatePack (opt (uc_unitsPerCase input) (of_int (ci_unitsPerCase existing)))
                  (opt (uc_casesPerPallet input) (map_option of_int (ci_casesPerPallet existing)))
                else Inr ()) (\<lambda>_.
         if (case uc_maxShelfPrice input of None \<Rightarrow> False | Some p \<Rightarrow> \<not> p \<ge> 0)
         then Inl (AppError 400 ''maxShelfPrice must be zero or more'')
         else catalog_sku_taken (catalog_tx actor i input existing s)))"

definition no_catalog_change :: update_catalog_input where
  "no_catalog_change = \<lparr>uc_sku = None, uc_name = None, uc_category = None, uc_taxExempt = None, uc_isActive = None,
     uc_unitsPerCase = None, uc_casesPerPallet = None, uc_caseWeightKg = None, uc_caseGtin = None, uc_maxShelfPrice = None\<rparr>"

definition deactivateCatalogItem :: "auth_user \<Rightarrow> ident \<Rightarrow> db \<Rightarrow> db \<Rightarrow> (db \<times> catalog_item) result" where
  "deactivateCatalogItem actor i s0 s = updateCatalogItem actor i (no_catalog_change\<lparr>uc_isActive := Some False\<rparr>) s0 s"

section \<open>Locations\<close>

definition assertStoreAccess_stores :: "auth_user \<Rightarrow> ident \<Rightarrow> unit result" where
  "assertStoreAccess_stores actor storeId =
     (if au_role actor = COOP_ADMIN then Inr ()
      else if \<not> truthy (au_storeScope actor) \<or> au_storeScope actor \<noteq> Some storeId
      then Inl (AppError 403 ''Cannot access another store'') else Inr ())"

definition assertWarehouseOperatorPercent :: "location_type \<Rightarrow> decimal \<Rightarrow> unit result" where
  "assertWarehouseOperatorPercent locationType operatorPercent =
     (if locationType = WAREHOUSE \<and> operatorPercent \<noteq> 0
      then Inl (AppError 400 ''A warehouse must have operatorPercent 0'') else Inr ())"

definition utcDayBounds :: "time \<Rightarrow> time \<times> time" where
  "utcDayBounds now = (let start = now div day_ms * day_ms in (start, start + day_ms - 1))"

record store_stats =
  ss_store :: store
  ss_todaysSales :: decimal
  ss_stockAlertCount :: nat
  ss_currentlyOwed :: "decimal option"

definition statsForStore :: "time \<Rightarrow> db \<Rightarrow> store \<Rightarrow> store_stats" where
  "statsForStore now s store =
     (let (start, finish) = utcDayBounds now;
          paid = (\<lambda>x. s_storeId x = st_id store \<and> (s_paymentStatus x = PayPAID \<or> s_paymentStatus x = PayREFUNDING \<or> s_paymentStatus x = PayREFUNDED));
          accrued = sum_list (map (\<lambda>x. s_operatorAmount x - s_refundedOperatorAmount x) (filter paid (db_sales s)));
          paidOut = sum_list (map po_amount (filter (\<lambda>p. po_storeId p = st_id store) (db_payouts s)))
      in \<lparr>ss_store = store,
          ss_todaysSales = moneyDec (sum_list (map (\<lambda>x. s_total x - s_refundedAmount x)
             (filter (\<lambda>x. paid x \<and> start \<le> s_createdAt x \<and> s_createdAt x \<le> finish) (db_sales s)))),
          ss_stockAlertCount = length (filter (\<lambda>p. p_storeId p = st_id store \<and> p_stock p - p_reserved p \<le> p_reorderAt p) (db_products s)),
          ss_currentlyOwed = Some (moneyDec (accrued - paidOut))\<rparr>)"

definition listStores :: "time \<Rightarrow> auth_user \<Rightarrow> location_type option \<Rightarrow> db \<Rightarrow> store_stats list result" where
  "listStores now actor kind s =
     (let wanted = (\<lambda>st. case kind of None \<Rightarrow> True | Some k \<Rightarrow> st_locationType st = k) in
      bindE (if au_role actor = COOP_ADMIN then Inr (sort_key st_name (filter wanted (db_stores s)))
             else if \<not> truthy (au_storeScope actor) then Inl (AppError 403 ''User is not assigned to a store'')
             else Inr (filter wanted (case find_store (the (au_storeScope actor)) s of None \<Rightarrow> [] | Some st \<Rightarrow> [st])))
        (\<lambda>stores.
      let rows = map (statsForStore now s) stores in
      Inr (if au_role actor = CASHIER then map (\<lambda>r. r\<lparr>ss_currentlyOwed := None\<rparr>) rows else rows)))"

definition getStore :: "ident \<Rightarrow> db \<Rightarrow> store result" where
  "getStore i s = (case find_store i s of None \<Rightarrow> Inl (AppError 404 ''Store not found'') | Some st \<Rightarrow> Inr st)"

definition percent_ok :: "decimal option \<Rightarrow> bool" where
  "percent_ok x \<longleftrightarrow> (case x of None \<Rightarrow> True | Some v \<Rightarrow> 0 \<le> v \<and> v \<le> 100)"

record create_store_input =
  ns_name :: string
  ns_address :: string
  ns_locationType :: "location_type option"
  ns_operatorPercent :: "decimal option"
  ns_taxRate :: "decimal option"
  ns_refundPolicy :: "string option"
  ns_isActive :: "bool option"

definition DEFAULT_REFUND_POLICY :: string where
  "DEFAULT_REFUND_POLICY = ''Returns accepted within 14 days with receipt. Refunds to original form of payment.''"

definition new_store :: "ident \<Rightarrow> create_store_input \<Rightarrow> store" where
  "new_store newId i =
     \<lparr>st_id = newId, st_name = trim (ns_name i), st_address = trim (ns_address i),
      st_locationType = opt (ns_locationType i) RETAIL_STORE, st_operatorPercent = toDecimalPlaces 2 (opt (ns_operatorPercent i) 0),
      st_taxRate = toDecimalPlaces 2 (opt (ns_taxRate i) 0), st_refundPolicy = opt (ns_refundPolicy i) DEFAULT_REFUND_POLICY,
      st_honorsNetworkBenefits = True, st_memberDiscountBearer = BearerCOOP, st_memberDiscountSharedPercent = 0,
      st_isActive = opt (ns_isActive i) True\<rparr>"

definition createStore :: "auth_user \<Rightarrow> ident \<Rightarrow> create_store_input \<Rightarrow> db \<Rightarrow> (db \<times> store) result" where
  "createStore actor newId i s =
     (if au_role actor \<noteq> COOP_ADMIN then Inl (AppError 403 ''Only COOP_ADMIN can create locations'')
      else
        let operatorPercent = opt (ns_operatorPercent i) 0 in
        bindE (assertWarehouseOperatorPercent (opt (ns_locationType i) RETAIL_STORE) operatorPercent) (\<lambda>_.
        if operatorPercent < 0 \<or> operatorPercent > 100 then Inl (AppError 400 ''operatorPercent must be between 0 and 100'')
        else if \<not> percent_ok (ns_taxRate i) then Inl (AppError 400 ''taxRate must be between 0 and 100'')
        else bindE (create_row st_id (new_store newId i) (db_stores s)) (\<lambda>ss. Inr (s\<lparr>db_stores := ss\<rparr>, new_store newId i))))"

record update_store_input =
  us_name :: "string option"
  us_address :: "string option"
  us_locationType :: "location_type option"
  us_operatorPercent :: "decimal option"
  us_taxRate :: "decimal option"
  us_refundPolicy :: "string option"
  us_isActive :: "bool option"

text \<open>What a change of the kind of a location, of its rate and of its tax must satisfy.\<close>

definition check_store_update :: "auth_user \<Rightarrow> update_store_input \<Rightarrow> store \<Rightarrow> db \<Rightarrow> unit result" where
  "check_store_update actor i existing s =
     (let nextType = opt (us_locationType i) (st_locationType existing) in
      if us_operatorPercent i \<noteq> None \<and> au_role actor \<noteq> COOP_ADMIN
      then Inl (AppError 403 ''Only COOP_ADMIN can change operatorPercent (future sales only; past sales keep snapshots)'')
      else if nextType \<noteq> st_locationType existing \<and> au_role actor \<noteq> COOP_ADMIN
      then Inl (AppError 403 ''Only COOP_ADMIN can change locationType'')
      else if nextType \<noteq> st_locationType existing
          \<and> (list_ex (\<lambda>l. l_storeId l = st_id existing) (db_lots s) \<or> list_ex (\<lambda>x. s_storeId x = st_id existing) (db_sales s))
      then Inl (AppError 409 ''locationType cannot change once a location has lots or sales'')
      else bindE (if nextType = WAREHOUSE
             then (case us_operatorPercent i of None \<Rightarrow> Inr () | Some v \<Rightarrow> assertWarehouseOperatorPercent nextType v)
             else if \<not> percent_ok (us_operatorPercent i) then Inl (AppError 400 ''operatorPercent must be between 0 and 100'')
             else Inr ()) (\<lambda>_.
           if \<not> percent_ok (us_taxRate i) then Inl (AppError 400 ''taxRate must be between 0 and 100'') else Inr ()))"

definition updated_store :: "update_store_input \<Rightarrow> location_type \<Rightarrow> store \<Rightarrow> store" where
  "updated_store i nextType st =
     st\<lparr>st_name := opt (us_name i) (st_name st), st_address := opt (us_address i) (st_address st),
        st_isActive := opt (us_isActive i) (st_isActive st), st_refundPolicy := opt (us_refundPolicy i) (st_refundPolicy st),
        st_locationType := opt (us_locationType i) (st_locationType st),
        st_operatorPercent := (if nextType = WAREHOUSE then 0
           else opt (map_option (toDecimalPlaces 2) (us_operatorPercent i)) (st_operatorPercent st)),
        st_taxRate := opt (map_option (toDecimalPlaces 2) (us_taxRate i)) (st_taxRate st)\<rparr>"

definition updateStore :: "ident \<Rightarrow> auth_user \<Rightarrow> update_store_input \<Rightarrow> db \<Rightarrow> db \<Rightarrow> (db \<times> store) result" where
  "updateStore storeId actor i s0 s =
     bindE (getStore storeId s0) (\<lambda>existing.
     bindE (check_store_update actor i existing s0) (\<lambda>_.
     let nextType = opt (us_locationType i) (st_locationType existing) in
     bindE (update_row st_id storeId (updated_store i nextType) (db_stores s)) (\<lambda>ss.
     case find_row st_id storeId ss of
       None \<Rightarrow> Inl RecordNotFound
     | Some updated \<Rightarrow>
         let t = s\<lparr>db_stores := ss\<rparr> in
         Inr (if (us_operatorPercent i \<noteq> None \<or> nextType = WAREHOUSE) \<and> st_operatorPercent existing \<noteq> st_operatorPercent updated
              then writeAuditLog (Some (au_id actor)) (Some storeId) ''STORE_OPERATOR_PERCENT_CHANGE'' ''Store'' (Some storeId) t
              else t, updated))))"

end
