(* ===== verification/Catalog_Proofs.thy ===== *)
theory Catalog_Proofs
  imports
    Catalog Inventory_Proofs
begin

text \<open>
  What the network promises about a product on a shelf: it mirrors its catalog item, and in a shop it is not
  dearer than the ceiling. Then the two requests that break the promise.
\<close>

section \<open>A product on its shelf\<close>

definition mirrors :: "product \<Rightarrow> catalog_item \<Rightarrow> bool" where
  "mirrors p c \<longleftrightarrow> p_sku p = ci_sku c \<and> p_name p = ci_name c \<and> p_category p = ci_category c \<and> p_taxExempt p = ci_taxExempt c"

definition in_shop :: "db \<Rightarrow> product \<Rightarrow> bool" where
  "in_shop s p \<longleftrightarrow> (\<exists>st \<in> set (db_stores s). st_id st = p_storeId p \<and> st_locationType st = RETAIL_STORE)"

definition shelf_ok :: "db \<Rightarrow> product \<Rightarrow> bool" where
  "shelf_ok s p \<longleftrightarrow> p_storeId p \<in> st_id ` set (db_stores s)
     \<and> (\<forall>i. p_catalogItemId p = Some i \<longrightarrow> (\<exists>c \<in> set (db_catalog s). ci_id c = i \<and> mirrors p c
          \<and> (in_shop s p \<longrightarrow> p_price p \<le> ci_maxShelfPrice c)))"

definition catalog_ok :: "db \<Rightarrow> bool" where
  "catalog_ok s \<longleftrightarrow> distinct (map p_id (db_products s)) \<and> distinct (map ci_id (db_catalog s)) \<and> distinct (map st_id (db_stores s))
     \<and> [] \<notin> ci_id ` set (db_catalog s) \<and> (\<forall>p \<in> set (db_products s). shelf_ok s p)"

text \<open>What of a product the promise is about.\<close>

definition shelf :: "product \<Rightarrow> ident \<times> ident \<times> ident option \<times> (string \<times> string \<times> string \<times> bool) \<times> decimal" where
  "shelf p = (p_id p, p_storeId p, p_catalogItemId p, (p_sku p, p_name p, p_category p, p_taxExempt p), p_price p)"

lemma shelf_ok_cong:
  assumes "db_stores t = db_stores s" "db_catalog t = db_catalog s" "shelf q = shelf p" shows "shelf_ok t q = shelf_ok s p"
  using assms by (simp add: shelf_ok_def shelf_def mirrors_def in_shop_def)

lemma same_shelves:
  assumes ok: "catalog_ok s" and t: "db_stores t = db_stores s" "db_catalog t = db_catalog s"
    and key: "map shelf (db_products t) = map shelf (db_products s)"
  shows "catalog_ok t"
proof -
  have "map fst (map shelf (db_products t)) = map fst (map shelf (db_products s))" using key by simp
  then have ids: "map p_id (db_products t) = map p_id (db_products s)" by (simp add: comp_def shelf_def)
  have "shelf_ok t q" if q: "q \<in> set (db_products t)" for q
  proof -
    obtain p :: product where p: "p \<in> set (db_products s)" "shelf p = shelf q" by (rule map_nth_in [OF key q])
    then show ?thesis using ok shelf_ok_cong [OF t p(2) [symmetric]] by (simp add: catalog_ok_def)
  qed
  then show ?thesis using ok ids by (simp add: catalog_ok_def t)
qed

section \<open>Products\<close>

lemma opening_stock_shelves:
  assumes "opening_stock now pid lotId storeId actor c d s = Inr t"
  shows "map shelf (db_products t) = map shelf (db_products s) \<and> db_stores t = db_stores s \<and> db_catalog t = db_catalog s"
  using assms
  by (auto simp: opening_stock_def bindE_Inr_iff addLot_def lot_create_def create_row_def product_update_Inr_iff upd_row_def shelf_def
      split: if_splits list.splits)

lemma createProductRow_new:
  assumes "createProductRow d s = Inr (t, p)"
  shows "p_sku p = cp_sku d" "p_name p = cp_name d" "p_category p = cp_category d"
    "cp_taxExempt d = Some x \<Longrightarrow> p_taxExempt p = x"
  using assms by (auto simp: createProductRow_def create_row_def has_row_def Let_def bindE_Inr_iff split: if_splits)

lemma createProduct_shelf:
  assumes ok: "catalog_ok s" and run: "createProduct now pid lotId storeId d actor s = Inr (t, v)"
  shows "catalog_ok t"
proof -
  obtain store :: store and c :: catalog_item and price :: decimal and s1 s2 :: db and p q :: product where
    st: "find_store storeId s = Some store" "find_catalog d s = Some c" "initial_price store c d = Inr price"
    and s1: "s1 = s\<lparr>db_products := db_products s @ [p]\<rparr>"
    and p: "p_id p = pid" "p_storeId p = storeId" "p_catalogItemId p = Some (ci_id c)" "p_price p = price"
      "p_stock p = 0" "p_reserved p = 0" "pid \<notin> p_id ` set (db_products s)"
    and row: "createProductRow
       \<lparr>cp_id = pid, cp_storeId = storeId, cp_catalogItemId = Some (ci_id c),
        cp_sku = ci_sku c, cp_name = ci_name c, cp_category = ci_category c,
        cp_price = price, cp_cost = unitCostDec (cr_cost d), cp_stock = 0,
        cp_reorderAt = cr_reorderAt d, cp_taxExempt = Some (ci_taxExempt c)\<rparr> s = Inr (s1, p)"
    and open_s: "opening_stock now pid lotId storeId actor c d s1 = Inr s2"
    and t: "t = writeAuditLog (Some (au_id actor)) (Some storeId) ''PRODUCT_PRICE_CHANGE'' ''Product'' (Some pid) s2"
    and q: "find_product pid t = Some q" "v = toProductView q (au_role actor) False"
    by (rule createProduct_InrE [OF run]) blast
  note new = createProductRow_new [OF row]
  have c: "c \<in> set (db_catalog s)" using st(2) by (auto simp: find_catalog_def split: if_splits dest: find_row_SomeD)
  have store: "store \<in> set (db_stores s)" "st_id store = storeId" using find_row_SomeD [of st_id storeId "db_stores s" store] st(1)
    by (simp_all add: find_store_def)
  have "price \<le> ci_maxShelfPrice c" if shop: "in_shop s p"
  proof -
    obtain x :: store where x: "x \<in> set (db_stores s)" "st_id x = storeId" "st_locationType x = RETAIL_STORE" using shop p(2) by (auto simp: in_shop_def)
    have "distinct (map st_id (db_stores s))" using ok by (simp add: catalog_ok_def)
    then have "x = store" by (rule distinct_mapD [OF _ x(1) store(1)]) (simp add: x store)
    then show ?thesis using st(3) x(3) by (auto simp: initial_price_def Let_def split: if_splits)
  qed
  then have sp: "shelf_ok s p" using c store p new by (auto simp: shelf_ok_def mirrors_def)
  have st1: "db_stores s1 = db_stores s" "db_catalog s1 = db_catalog s" by (simp_all add: s1)
  have "shelf_ok s1 x" if "x \<in> set (db_products s1)" for x
    using that sp ok shelf_ok_cong [OF st1 refl, of x] by (auto simp: s1 catalog_ok_def)
  then have "catalog_ok s1" using ok p(1,7) by (simp add: catalog_ok_def st1) (simp add: s1)
  from opening_stock_shelves [OF open_s] show ?thesis by (intro same_shelves [OF \<open>catalog_ok s1\<close>]) (simp_all add: t)
qed

lemma updateProduct_shelf:
  assumes ok: "catalog_ok s" and run: "updateProduct pid storeId u actor s = Inr (t, v)"
  shows "catalog_ok t"
proof -
  obtain p :: product and store :: store where
    p: "p \<in> set (db_products s)" "p_id p = pid" "p_storeId p = storeId" "find_store storeId s = Some store"
    and cap: "price_within_ceiling store p (map_option moneyDec (up_price u)) s = Inr ()"
    and t: "db_products t = upd_row p_id pid
       (\<lambda>p. p\<lparr>p_price := opt (map_option moneyDec (up_price u)) (p_price p),
              p_cost := opt (map_option unitCostDec (up_cost u)) (p_cost p),
              p_reorderAt := opt (up_reorderAt u) (p_reorderAt p)\<rparr>) (db_products s)"
    and tables: "db_stores t = db_stores s" "db_catalog t = db_catalog s"
    by (rule updateProduct_InrE [OF run]) blast
  have dist: "distinct (map p_id (db_products s))" "distinct (map ci_id (db_catalog s))" "distinct (map st_id (db_stores s))"
    using ok by (simp_all add: catalog_ok_def)
  have ids: "map p_id (db_products t) = map p_id (db_products s)" unfolding t by (rule map_upd_row) simp
  have "shelf_ok t q" if q: "q \<in> set (db_products t)" for q
  proof -
    obtain r :: product where r: "r \<in> set (db_products s)" "q = (if p_id r = pid
        then r\<lparr>p_price := opt (map_option moneyDec (up_price u)) (p_price r),
              p_cost := opt (map_option unitCostDec (up_cost u)) (p_cost r),
              p_reorderAt := opt (up_reorderAt u) (p_reorderAt r)\<rparr> else r)"
      using q unfolding t in_upd_row by blast
    have old: "shelf_ok s r" using ok r(1) by (simp add: catalog_ok_def)
    show ?thesis
    proof (cases "p_id r = pid \<and> up_price u \<noteq> None")
      case False
      then have "shelf q = shelf r" using r(2) by (auto simp: shelf_def opt_def)
      then show ?thesis using old shelf_ok_cong [OF tables] by simp
    next
      case True
      have rp: "r = p" by (rule distinct_mapD [OF dist(1) r(1) p(1)]) (use True p(2) in simp)
      have q': "p_storeId q = p_storeId p" "p_catalogItemId q = p_catalogItemId p" "mirrors q c = mirrors p c" for c
        using r(2) True rp by (simp_all add: mirrors_def)
      obtain x where x: "up_price u = Some x" "p_price q = moneyDec x" using r(2) True rp by (auto simp: opt_def)
      have price: "p_price q \<le> ci_maxShelfPrice c"
        if c: "c \<in> set (db_catalog s)" "p_catalogItemId p = Some (ci_id c)" and shop: "in_shop s p" for c
      proof -
        have ne: "ci_id c \<noteq> []" using ok c(1) unfolding catalog_ok_def by (metis imageI)
        obtain y :: store where y: "y \<in> set (db_stores s)" "st_id y = storeId" "st_locationType y = RETAIL_STORE" using shop p(3) by (auto simp: in_shop_def)
        have "find_store storeId s = Some y" using y dist(3) by (simp add: find_store_def find_row_eq_Some_iff)
        then have "st_locationType store = RETAIL_STORE" using p(4) y(3) by simp
        moreover have "find_row ci_id (ci_id c) (db_catalog s) = Some c" using c(1) dist(2) by (simp add: find_row_eq_Some_iff)
        ultimately show ?thesis using cap c(2) ne x by (auto simp: price_within_ceiling_def truthy_def split: if_splits)
      qed
      have shop: "in_shop t q = in_shop s p" by (simp add: in_shop_def tables q')
      have "\<exists>c \<in> set (db_catalog s). ci_id c = j \<and> mirrors p c \<and> (in_shop s p \<longrightarrow> p_price q \<le> ci_maxShelfPrice c)"
        if j: "p_catalogItemId p = Some j" for j
      proof -
        obtain c :: catalog_item where c: "c \<in> set (db_catalog s)" "ci_id c = j" "mirrors p c"
          using old [unfolded rp] j unfolding shelf_ok_def by blast
        then show ?thesis using price [OF c(1)] j by blast
      qed
      then show ?thesis using old [unfolded rp] unfolding shelf_ok_def tables shop q' by blast
    qed
  qed
  then show ?thesis using ok ids by (simp add: catalog_ok_def tables)
qed

lemma deleteProduct_shelf:
  assumes "catalog_ok s" "deleteProduct elsewhere pid storeId s = Inr t" shows "catalog_ok t"
  using assms
  by (auto simp: deleteProduct_def bindE_Inr_iff catalog_ok_def shelf_ok_def in_shop_def distinct_map_filter split: if_splits)

section \<open>Catalog items\<close>

lemma createCatalogItem_shelf:
  assumes ok: "catalog_ok s" and run: "createCatalogItem actor i inp s = Inr (t, c)" and i: "i \<noteq> []"
  shows "catalog_ok t"
proof -
  have t: "db_products t = db_products s" "db_stores t = db_stores s" "db_catalog t = db_catalog s @ [c]" and new: "\<not> has_row ci_id (ci_id c) (db_catalog s)" "ci_id c = i"
    using run by (auto simp: createCatalogItem_def bindE_Inr_iff catalog_sku_taken_def Let_def new_catalog_item_def
        split: if_splits sum.splits error.splits)
  have "shelf_ok t p" if "shelf_ok s p" for p using that by (auto simp: shelf_ok_def in_shop_def t)
  then show ?thesis using ok new i by (auto simp: catalog_ok_def t has_row_def)
qed

text \<open>The clamp sets exactly the prices of the products it was called for.\<close>

lemma clamp_loop:
  assumes "forE ps (\<lambda>p x. clamp_one actor cap x p) s = Inr t"
  shows "db_products t = map (\<lambda>p. if p_id p \<in> p_id ` set ps then p\<lparr>p_price := cap\<rparr> else p) (db_products s)
    \<and> db_stores t = db_stores s \<and> db_catalog t = db_catalog s"
  using assms
proof (induction ps arbitrary: s)
  case (Cons p ps)
  obtain u where u: "clamp_one actor cap s p = Inr u" "forE ps (\<lambda>p x. clamp_one actor cap x p) u = Inr t"
    using Cons.prems by (auto simp: bindE_Inr_iff)
  have "db_products u = upd_row p_id (p_id p) (\<lambda>x. x\<lparr>p_price := cap\<rparr>) (db_products s) \<and> db_stores u = db_stores s \<and> db_catalog u = db_catalog s"
    using u(1) by (auto simp: clamp_one_def bindE_Inr_iff product_update_Inr_iff)
  then show ?case using Cons.IH [OF u(2)] by (auto simp: upd_row_def)
qed simp

lemma catalog_tx_InrE:
  assumes "updateCatalogItem actor i inp s0 s = Inr (t, c)"
  obtains existing cap ps where "find_row ci_id i (db_catalog s0) = Some existing" "au_role actor = COOP_ADMIN"
    "cap = opt (map_option moneyDec (uc_maxShelfPrice inp)) (ci_maxShelfPrice existing)"
    "db_catalog t = upd_row ci_id i (updated_catalog_item inp) (db_catalog s)" "db_stores t = db_stores s"
    "find_row ci_id i (db_catalog t) = Some c"
    "ps = map (\<lambda>p. if p_catalogItemId p = Some i then p\<lparr>p_sku := opt (map_option trim (uc_sku inp)) (ci_sku existing),
         p_name := opt (map_option trim (uc_name inp)) (ci_name existing),
         p_category := opt (map_option trim (uc_category inp)) (ci_category existing),
         p_taxExempt := opt (uc_taxExempt inp) (ci_taxExempt existing)\<rparr> else p) (db_products s)"
    "db_products t = (if cap < ci_maxShelfPrice existing
       then map (\<lambda>p. if p_id p \<in> p_id ` set (filter (over_ceiling i cap s) ps) then p\<lparr>p_price := cap\<rparr> else p) ps else ps)"
proof -
  obtain existing where e: "find_row ci_id i (db_catalog s0) = Some existing" and who: "au_role actor = COOP_ADMIN"
    and run: "catalog_tx actor i inp existing s = Inr (t, c)"
    using assms by (auto simp: updateCatalogItem_def bindE_Inr_iff assertCatalogAdmin_def catalog_sku_taken_def
        split: option.splits if_splits sum.splits error.splits)
  let ?cap = "opt (map_option moneyDec (uc_maxShelfPrice inp)) (ci_maxShelfPrice existing)"
  let ?cs = "upd_row ci_id i (updated_catalog_item inp) (db_catalog s)"
  let ?ps = "map (\<lambda>p. if p_catalogItemId p = Some i then p\<lparr>p_sku := opt (map_option trim (uc_sku inp)) (ci_sku existing),
         p_name := opt (map_option trim (uc_name inp)) (ci_name existing),
         p_category := opt (map_option trim (uc_category inp)) (ci_category existing),
         p_taxExempt := opt (uc_taxExempt inp) (ci_taxExempt existing)\<rparr> else p) (db_products s)"
  let ?s2 = "s\<lparr>db_catalog := ?cs, db_products := ?ps\<rparr>"
  have cs: "update_row ci_id i (updated_catalog_item inp) (db_catalog s) = Inr ?cs"
    using run by (auto simp: catalog_tx_def Let_def bindE_def update_row_def split: if_splits)
  note run1 = run [unfolded catalog_tx_def Let_def cs bindE_simps]
  have nc: "\<not> skus_clash i (s\<lparr>db_catalog := ?cs\<rparr>)" using run1 by (auto split: if_splits)
  note run2 = run1 [unfolded if_not_P [OF nc]]
  have pr: "propagate i (opt (map_option trim (uc_sku inp)) (ci_sku existing)) (opt (map_option trim (uc_name inp)) (ci_name existing))
      (opt (map_option trim (uc_category inp)) (ci_category existing)) (opt (uc_taxExempt inp) (ci_taxExempt existing))
      (s\<lparr>db_catalog := ?cs\<rparr>) = Inr ?s2"
    by (rule bindE_InrE [OF run2]) (simp add: propagate_def Let_def split: if_splits)
  note run3 = run2 [unfolded pr bindE_simps]
  obtain s3 where s3: "(if ?cap < ci_maxShelfPrice existing then clamp_prices actor i ?cap ?s2 else Inr ?s2) = Inr s3"
    by (rule bindE_InrE [OF run3])
  note run4 = run3 [unfolded s3 bindE_simps]
  have c: "find_row ci_id i ?cs = Some c" and t: "t = writeAuditLog (Some (au_id actor)) None ''CATALOG_ITEM_UPDATE'' ''CatalogItem'' (Some i) s3"
    using run4 by (auto split: option.splits)
  have over: "over_ceiling i ?cap ?s2 = over_ceiling i ?cap s" by (simp add: fun_eq_iff over_ceiling_def find_store_def)
  have "db_products t = (if ?cap < ci_maxShelfPrice existing
       then map (\<lambda>p. if p_id p \<in> p_id ` set (filter (over_ceiling i ?cap s) ?ps) then p\<lparr>p_price := ?cap\<rparr> else p) ?ps else ?ps)
     \<and> db_stores t = db_stores s \<and> db_catalog t = ?cs"
  proof (cases "?cap < ci_maxShelfPrice existing")
    case True
    then have "forE (filter (over_ceiling i ?cap s) ?ps) (\<lambda>p x. clamp_one actor ?cap x p) ?s2 = Inr s3"
      using s3 by (simp add: clamp_prices_def over)
    from clamp_loop [OF this] show ?thesis using True by (simp add: t)
  qed (use s3 in \<open>auto simp: t\<close>)
  then show thesis using that [OF e who refl _ _ _ refl] c by simp
qed

lemma updateCatalogItem_shelf:
  assumes ok: "catalog_ok s" and run: "updateCatalogItem actor i inp s s = Inr (t, c)"
  shows "catalog_ok t"
proof -
  obtain existing :: catalog_item and cap :: decimal and ps :: "product list" where e: "find_row ci_id i (db_catalog s) = Some existing"
    and cap: "cap = opt (map_option moneyDec (uc_maxShelfPrice inp)) (ci_maxShelfPrice existing)"
    and t: "db_catalog t = upd_row ci_id i (updated_catalog_item inp) (db_catalog s)" "db_stores t = db_stores s"
    and ps: "ps = map (\<lambda>p. if p_catalogItemId p = Some i then p\<lparr>p_sku := opt (map_option trim (uc_sku inp)) (ci_sku existing),
         p_name := opt (map_option trim (uc_name inp)) (ci_name existing),
         p_category := opt (map_option trim (uc_category inp)) (ci_category existing),
         p_taxExempt := opt (uc_taxExempt inp) (ci_taxExempt existing)\<rparr> else p) (db_products s)"
    and pt: "db_products t = (if cap < ci_maxShelfPrice existing
       then map (\<lambda>p. if p_id p \<in> p_id ` set (filter (over_ceiling i cap s) ps) then p\<lparr>p_price := cap\<rparr> else p) ps else ps)"
    by (rule catalog_tx_InrE [OF run]) blast
  have dist: "distinct (map p_id (db_products s))" "distinct (map ci_id (db_catalog s))" "distinct (map st_id (db_stores s))"
    using ok by (simp_all add: catalog_ok_def)
  have uci: "ci_id (updated_catalog_item inp x) = ci_id x" for x by (simp add: updated_catalog_item_def)
  let ?e = "updated_catalog_item inp existing"
  have ex: "existing \<in> set (db_catalog s)" "ci_id existing = i" using find_row_SomeD [OF e] by simp_all
  have cids: "map ci_id (db_catalog t) = map ci_id (db_catalog s)" unfolding t(1) by (simp add: map_upd_row uci)
  have pids: "map p_id ps = map p_id (db_products s)" by (simp add: ps)
  have tids: "map p_id (db_products t) = map p_id (db_products s)" unfolding pt pids [symmetric] by simp
  have item: "?e \<in> set (db_catalog t)" "ci_id ?e = i" "ci_maxShelfPrice ?e = cap"
    using ex by (auto simp: t(1) in_upd_row uci) (simp add: updated_catalog_item_def cap)
  have "shelf_ok t q" if q: "q \<in> set (db_products t)" for q
  proof -
    obtain r :: product where r: "r \<in> set ps" "q = (if cap < ci_maxShelfPrice existing \<and> p_id r \<in> p_id ` set (filter (over_ceiling i cap s) ps)
        then r\<lparr>p_price := cap\<rparr> else r)" using q unfolding pt by (auto split: if_splits)
    obtain p :: product where p: "p \<in> set (db_products s)" "r = (if p_catalogItemId p = Some i then p\<lparr>p_sku := ci_sku ?e, p_name := ci_name ?e,
         p_category := ci_category ?e, p_taxExempt := ci_taxExempt ?e\<rparr> else p)"
      using r(1) by (auto simp: ps updated_catalog_item_def)
    have old: "shelf_ok s p" using ok p(1) by (simp add: catalog_ok_def)
    have keep: "p_storeId q = p_storeId p" "p_catalogItemId q = p_catalogItemId p" using r(2) p(2) by simp_all
    have shop: "in_shop t q = in_shop s p" by (simp add: in_shop_def t(2) keep)
    show ?thesis
    proof (cases "p_catalogItemId p = Some i")
      case False
      have "\<not> (p_id r \<in> p_id ` set (filter (over_ceiling i cap s) ps))"
      proof
        assume "p_id r \<in> p_id ` set (filter (over_ceiling i cap s) ps)"
        then obtain r' where r': "r' \<in> set ps" "p_id r' = p_id r" "p_catalogItemId r' = Some i" by (auto simp: over_ceiling_def)
        have "distinct (map p_id ps)" using dist(1) pids by simp
        then have "r' = r" by (rule distinct_mapD [OF _ r'(1) r(1)]) (simp add: r'(2))
        then show False using r'(3) False p(2) by simp
      qed
      then have qp: "q = p" using r(2) p(2) False by simp
      have "\<exists>c \<in> set (db_catalog t). ci_id c = j \<and> mirrors p c \<and> (in_shop s p \<longrightarrow> p_price p \<le> ci_maxShelfPrice c)"
        if j: "p_catalogItemId p = Some j" for j
      proof -
        obtain c' :: catalog_item where c': "c' \<in> set (db_catalog s)" "ci_id c' = j" "mirrors p c'" "in_shop s p \<longrightarrow> p_price p \<le> ci_maxShelfPrice c'"
          using old j by (auto simp: shelf_ok_def)
        then have "c' \<in> set (db_catalog t)" using j False unfolding t(1) in_upd_row by (intro bexI [of _ c']) auto
        then show ?thesis using c' by blast
      qed
      then show ?thesis using old shop by (simp add: shelf_ok_def qp t(2))
    next
      case True
      obtain c' :: catalog_item where c': "c' \<in> set (db_catalog s)" "ci_id c' = i" "in_shop s p \<longrightarrow> p_price p \<le> ci_maxShelfPrice c'"
        using old True by (auto simp: shelf_ok_def)
      have "c' = existing" by (rule distinct_mapD [OF dist(2) c'(1) ex(1)]) (simp add: c' ex)
      then have capped: "in_shop s p \<longrightarrow> p_price p \<le> ci_maxShelfPrice existing" using c'(3) by simp
      have m: "mirrors q ?e" using r(2) p(2) True by (simp add: mirrors_def)
      have "p_price q \<le> cap" if sh: "in_shop s p"
      proof (cases "cap < ci_maxShelfPrice existing \<and> p_id r \<in> p_id ` set (filter (over_ceiling i cap s) ps)")
        case False
        have pr: "p_price q = p_price p" "p_price r = p_price p" "p_storeId r = p_storeId p" "p_catalogItemId r = Some i"
          using r(2) p(2) True False by auto
        obtain x :: store where x: "x \<in> set (db_stores s)" "st_id x = p_storeId p" "st_locationType x = RETAIL_STORE" using sh by (auto simp: in_shop_def)
        then have fs: "find_store (p_storeId p) s = Some x" using dist(3) by (simp add: find_store_def find_row_eq_Some_iff)
        show ?thesis
        proof (rule ccontr)
          assume n: "\<not> p_price q \<le> cap"
          then have "over_ceiling i cap s r" using pr fs x(3) by (simp add: over_ceiling_def)
          moreover have "cap < ci_maxShelfPrice existing" using n pr(1) capped sh by simp
          ultimately show False using False r(1) by auto
        qed
      qed (use r(2) in simp)
      then show ?thesis using old item m shop True by (auto simp: shelf_ok_def t(2) keep)
    qed
  qed
  moreover have "[] \<notin> ci_id ` set (db_catalog t)"
    using ok arg_cong [OF cids, of set] by (simp add: catalog_ok_def)
  ultimately show ?thesis using dist tids cids by (simp add: catalog_ok_def t(2))
qed

section \<open>Locations\<close>

lemma createStore_shelf:
  assumes ok: "catalog_ok s" and run: "createStore actor i inp s = Inr (t, x)"
  shows "catalog_ok t"
proof -
  have t: "db_products t = db_products s" "db_catalog t = db_catalog s" "db_stores t = db_stores s @ [x]" "st_id x \<notin> st_id ` set (db_stores s)"
    using run by (auto simp: createStore_def Let_def bindE_Inr_iff create_row_def has_row_def new_store_def split: if_splits)
  have "shelf_ok t p" if "shelf_ok s p" for p
  proof -
    have "in_shop t p = in_shop s p" using that t(4) by (auto simp: in_shop_def t(3) shelf_ok_def)
    then show ?thesis using that by (simp add: shelf_ok_def t)
  qed
  then show ?thesis using ok t(4) by (simp add: catalog_ok_def t)
qed

lemma updateStore_InrE:
  assumes "updateStore i actor inp s0 s = Inr (t, x)"
  obtains existing where "find_store i s0 = Some existing" "check_store_update actor inp existing s0 = Inr ()"
    "db_stores t = upd_row st_id i (updated_store inp (opt (us_locationType inp) (st_locationType existing))) (db_stores s)"
    "find_row st_id i (db_stores t) = Some x" "db_products t = db_products s" "db_catalog t = db_catalog s"
proof -
  obtain existing where e: "find_store i s0 = Some existing"
    using assms by (auto simp: updateStore_def getStore_def bindE_Inr_iff split: option.splits)
  note run1 = assms [unfolded updateStore_def getStore_def e option.case bindE_simps]
  obtain u where chk: "check_store_update actor inp existing s0 = Inr u" by (rule bindE_InrE [OF run1])
  note run2 = run1 [unfolded chk bindE_simps Let_def]
  let ?ss = "upd_row st_id i (updated_store inp (opt (us_locationType inp) (st_locationType existing))) (db_stores s)"
  have ss: "update_row st_id i (updated_store inp (opt (us_locationType inp) (st_locationType existing))) (db_stores s) = Inr ?ss"
    by (rule bindE_InrE [OF run2]) (simp add: update_row_def split: if_splits)
  note run3 = run2 [unfolded ss bindE_simps]
  obtain y where y: "find_row st_id i ?ss = Some y" using run3 by (auto split: option.splits)
  note run4 = run3 [unfolded y option.case]
  have x: "x = y" and t: "db_stores t = ?ss" "db_products t = db_products s" "db_catalog t = db_catalog s"
    using run4 by (auto split: if_splits)
  show thesis by (rule that [OF e _ t(1)]) (use chk y x t in simp_all)
qed

lemma updateStore_shelf:
  assumes ok: "catalog_ok s" and run: "updateStore i actor inp s0 s = Inr (t, x)" and kind: "us_locationType inp \<noteq> Some RETAIL_STORE"
  shows "catalog_ok t"
proof -
  obtain existing :: store where t: "db_stores t = upd_row st_id i (updated_store inp (opt (us_locationType inp) (st_locationType existing))) (db_stores s)"
    "db_products t = db_products s" "db_catalog t = db_catalog s" by (rule updateStore_InrE [OF run]) (rule that)
  let ?f = "updated_store inp (opt (us_locationType inp) (st_locationType existing))"
  have f: "st_id (?f y) = st_id y" "st_locationType (?f y) = RETAIL_STORE \<Longrightarrow> st_locationType y = RETAIL_STORE" for y
    using kind by (auto simp: updated_store_def opt_def split: option.splits)
  have ids: "map st_id (db_stores t) = map st_id (db_stores s)" unfolding t(1) by (simp add: map_upd_row f(1))
  have idset: "st_id ` set (db_stores t) = st_id ` set (db_stores s)" using arg_cong [OF ids, of set] by simp
  have "shelf_ok t p" if p: "shelf_ok s p" for p
  proof -
    have "in_shop s p" if shop: "in_shop t p"
    proof -
      obtain x :: store where x: "x \<in> set (db_stores t)" "st_id x = p_storeId p" "st_locationType x = RETAIL_STORE"
        using shop by (auto simp: in_shop_def)
      obtain y :: store where y: "y \<in> set (db_stores s)" "x = (if st_id y = i then ?f y else y)"
        using x(1) unfolding t(1) in_upd_row by blast
      have "st_id y = p_storeId p" "st_locationType y = RETAIL_STORE"
        using x(2,3) y(2) f(1) f(2) [of y] by (cases "st_id y = i"; simp)+
      then show ?thesis using y(1) by (auto simp: in_shop_def)
    qed
    then show ?thesis using p idset unfolding shelf_ok_def t(3) by blast
  qed
  then show ?thesis using ok ids by (simp add: catalog_ok_def t(2,3))
qed

section \<open>Histories\<close>

text \<open>
  The requests about products, catalog and locations. An edit of an item or a location reads it in a state \<open>s0\<close>
  before its transaction, which may be any earlier one as long as no other request changed the item in between; a location
  does not become a shop. A product request is one step: its reads of the catalog are not overtaken. The rest of the
  program moves stock and costs.
\<close>

lemma updateCatalogItem_read:
  "find_row ci_id i (db_catalog s0) = find_row ci_id i (db_catalog s) \<Longrightarrow> updateCatalogItem actor i inp s0 s = updateCatalogItem actor i inp s s"
  by (simp add: updateCatalogItem_def)

inductive catalog_history :: "db \<Rightarrow> db \<Rightarrow> bool" where
  here: "catalog_history a a"
| other: "catalog_history a s \<Longrightarrow> db_stores t = db_stores s \<Longrightarrow> db_catalog t = db_catalog s
    \<Longrightarrow> map shelf (db_products t) = map shelf (db_products s) \<Longrightarrow> catalog_history a t"
| product_new: "catalog_history a s \<Longrightarrow> createProduct now pid lotId storeId d actor s = Inr (t, v) \<Longrightarrow> catalog_history a t"
| product_edit: "catalog_history a s \<Longrightarrow> updateProduct pid storeId u actor s = Inr (t, v) \<Longrightarrow> catalog_history a t"
| product_gone: "catalog_history a s \<Longrightarrow> deleteProduct elsewhere pid storeId s = Inr t \<Longrightarrow> catalog_history a t"
| item_new: "catalog_history a s \<Longrightarrow> i \<noteq> [] \<Longrightarrow> createCatalogItem actor i ci s = Inr (t, c) \<Longrightarrow> catalog_history a t"
| item_edit: "catalog_history a s \<Longrightarrow> find_row ci_id i (db_catalog s0) = find_row ci_id i (db_catalog s)
    \<Longrightarrow> updateCatalogItem actor i inp s0 s = Inr (t, c) \<Longrightarrow> catalog_history a t"
| item_off: "catalog_history a s \<Longrightarrow> find_row ci_id i (db_catalog s0) = find_row ci_id i (db_catalog s)
    \<Longrightarrow> deactivateCatalogItem actor i s0 s = Inr (t, c) \<Longrightarrow> catalog_history a t"
| store_new: "catalog_history a s \<Longrightarrow> createStore actor i ns s = Inr (t, x) \<Longrightarrow> catalog_history a t"
| store_edit: "catalog_history a s \<Longrightarrow> updateStore i actor us s0 s = Inr (t, x) \<Longrightarrow> us_locationType us \<noteq> Some RETAIL_STORE
    \<Longrightarrow> catalog_history a t"

lemma catalog_history_kept: "catalog_history a s \<Longrightarrow> catalog_ok a \<Longrightarrow> catalog_ok s"
proof (induction rule: catalog_history.induct)
  case (here a)
  then show ?case .
next
  case (other a s t)
  show ?case by (rule same_shelves [OF other.IH [OF other.prems] other.hyps(2-4)])
next
  case (product_new a s now pid lotId storeId d actor t v)
  show ?case by (rule createProduct_shelf [OF product_new.IH [OF product_new.prems] product_new.hyps(2)])
next
  case (product_edit a s pid storeId u actor t v)
  show ?case by (rule updateProduct_shelf [OF product_edit.IH [OF product_edit.prems] product_edit.hyps(2)])
next
  case (product_gone a s elsewhere pid storeId t)
  show ?case by (rule deleteProduct_shelf [OF product_gone.IH [OF product_gone.prems] product_gone.hyps(2)])
next
  case (item_new a s i actor ci t c)
  show ?case by (rule createCatalogItem_shelf [OF item_new.IH [OF item_new.prems] item_new.hyps(3,2)])
next
  case (item_edit a s i s0 actor inp t c)
  show ?case
    by (rule updateCatalogItem_shelf [OF item_edit.IH [OF item_edit.prems]
          item_edit.hyps(3) [unfolded updateCatalogItem_read [OF item_edit.hyps(2)]]])
next
  case (item_off a s i s0 actor t c)
  show ?case
    by (rule updateCatalogItem_shelf [OF item_off.IH [OF item_off.prems]
          item_off.hyps(3) [unfolded deactivateCatalogItem_def updateCatalogItem_read [OF item_off.hyps(2)]]])
next
  case (store_new a s actor i ns t x)
  show ?case by (rule createStore_shelf [OF store_new.IH [OF store_new.prems] store_new.hyps(2)])
next
  case (store_edit a s i actor us s0 t x)
  show ?case by (rule updateStore_shelf [OF store_edit.IH [OF store_edit.prems] store_edit.hyps(2,3)])
qed

text \<open>
  C19: In every history of the requests about products, catalog items and locations that run one after the other, in
  which no warehouse is turned into a shop, every product that is linked to a catalog item carries its SKU, name,
  category and tax exemption, and in a shop its price is at most the item's ceiling, also after the ceiling has been
  lowered. An edit of an item may even have read the item long before, as long as nobody edited that item since. A
  reopened warehouse and an overtaken edit are real exceptions, see below; so is a product request that reads the
  ceiling inside its transaction while an edit lowers it.
\<close>
theorem shelves_follow_the_catalog:
  assumes "catalog_ok a" "catalog_history a s" "p \<in> set (db_products s)" "p_catalogItemId p = Some (ci_id c)" "c \<in> set (db_catalog s)"
  shows "p_sku p = ci_sku c \<and> p_name p = ci_name c \<and> p_category p = ci_category c \<and> p_taxExempt p = ci_taxExempt c
    \<and> (\<forall>st \<in> set (db_stores s). st_id st = p_storeId p \<longrightarrow> st_locationType st = RETAIL_STORE \<longrightarrow> p_price p \<le> ci_maxShelfPrice c)"
proof -
  have ok: "catalog_ok s" using catalog_history_kept assms(1,2) by blast
  obtain c' :: catalog_item where c': "c' \<in> set (db_catalog s)" "ci_id c' = ci_id c" "mirrors p c'" "in_shop s p \<longrightarrow> p_price p \<le> ci_maxShelfPrice c'"
    using ok assms(3,4) unfolding catalog_ok_def shelf_ok_def by blast
  have "distinct (map ci_id (db_catalog s))" using ok by (simp add: catalog_ok_def)
  then have "c' = c" by (rule distinct_mapD [OF _ c'(1) assms(5) c'(2)])
  then show ?thesis using c'(3,4) by (auto simp: mirrors_def in_shop_def)
qed

section \<open>What breaks the promise\<close>

text \<open>
  C23: Whether a ceiling is lowered is decided by comparing it with the item read before the transaction. When another
  request has raised the ceiling in between, a ceiling that lies below the one in force is taken for a rise: it is
  written and no price is lowered, so products in shops stay dearer than their ceiling.
\<close>
theorem overtaken_ceiling_leaves_prices:
  assumes run: "updateCatalogItem actor i inp s0 s = Inr (t, c)"
    and old: "find_row ci_id i (db_catalog s0) = Some old" "uc_maxShelfPrice inp = Some v" "ci_maxShelfPrice old \<le> moneyDec v"
    and p: "p \<in> set (db_products s)" "p_catalogItemId p = Some i" "moneyDec v < p_price p"
    and shop: "st \<in> set (db_stores s)" "st_id st = p_storeId p" "st_locationType st = RETAIL_STORE"
  shows "c \<in> set (db_catalog t) \<and> ci_id c = i \<and> ci_maxShelfPrice c = moneyDec v \<and> st \<in> set (db_stores t)
    \<and> (\<exists>q \<in> set (db_products t). p_id q = p_id p \<and> p_storeId q = st_id st \<and> p_catalogItemId q = Some i \<and> p_price q > ci_maxShelfPrice c)"
proof -
  obtain existing :: catalog_item and cap :: decimal and ps :: "product list" where e: "find_row ci_id i (db_catalog s0) = Some existing"
    and cap: "cap = opt (map_option moneyDec (uc_maxShelfPrice inp)) (ci_maxShelfPrice existing)"
    and t: "db_catalog t = upd_row ci_id i (updated_catalog_item inp) (db_catalog s)" "db_stores t = db_stores s"
    and c: "find_row ci_id i (db_catalog t) = Some c"
    and ps: "ps = map (\<lambda>p. if p_catalogItemId p = Some i then p\<lparr>p_sku := opt (map_option trim (uc_sku inp)) (ci_sku existing),
         p_name := opt (map_option trim (uc_name inp)) (ci_name existing),
         p_category := opt (map_option trim (uc_category inp)) (ci_category existing),
         p_taxExempt := opt (uc_taxExempt inp) (ci_taxExempt existing)\<rparr> else p) (db_products s)"
    and pt: "db_products t = (if cap < ci_maxShelfPrice existing
       then map (\<lambda>p. if p_id p \<in> p_id ` set (filter (over_ceiling i cap s) ps) then p\<lparr>p_price := cap\<rparr> else p) ps else ps)"
    by (rule catalog_tx_InrE [OF run]) blast
  have "cap = moneyDec v" "existing = old" using cap old(1,2) e by (simp_all add: opt_def)
  then have tp: "db_products t = ps" using old(3) by (simp add: pt)
  note c' = find_row_SomeD [OF c]
  obtain d :: catalog_item where d: "d \<in> set (db_catalog s)" "c = (if ci_id d = i then updated_catalog_item inp d else d)"
    using conjunct1 [OF c'] unfolding t(1) in_upd_row by blast
  have "ci_maxShelfPrice c = moneyDec v"
    using d(2) conjunct2 [OF c'] old(2) by (cases "ci_id d = i") (simp_all add: updated_catalog_item_def opt_def)
  moreover have "\<exists>q \<in> set ps. p_id q = p_id p \<and> p_storeId q = p_storeId p \<and> p_catalogItemId q = Some i \<and> p_price q = p_price p"
    unfolding ps set_map bex_simps by (rule bexI [OF _ p(1)]) (simp add: p(2))
  ultimately show ?thesis using c' shop p(3) by (auto simp: tp t(2))
qed

text \<open>
  A warehouse price has no ceiling. A warehouse without lots and sales can be turned into a shop with its products,
  whose prices are not looked at.
\<close>
lemma reopened_warehouse_keeps_prices:
  assumes run: "updateStore i actor inp s s = Inr (t, x)" and kind: "us_locationType inp = Some RETAIL_STORE"
    and p: "p \<in> set (db_products s)" "p_storeId p = i" "p_catalogItemId p = Some (ci_id c)" "c \<in> set (db_catalog s)" "ci_maxShelfPrice c < p_price p"
  shows "p \<in> set (db_products t) \<and> c \<in> set (db_catalog t) \<and> in_shop t p \<and> ci_maxShelfPrice c < p_price p"
proof -
  obtain existing :: store where u: "db_stores t = upd_row st_id i (updated_store inp (opt (us_locationType inp) (st_locationType existing))) (db_stores s)"
    "find_row st_id i (db_stores t) = Some x" "db_products t = db_products s" "db_catalog t = db_catalog s"
    by (rule updateStore_InrE [OF run]) (rule that)
  note x = find_row_SomeD [OF u(2)]
  obtain y :: store where y: "x = (if st_id y = i then updated_store inp (opt (us_locationType inp) (st_locationType existing)) y else y)"
    using conjunct1 [OF x] unfolding u(1) in_upd_row by blast
  have "st_locationType x = RETAIL_STORE"
    using y conjunct2 [OF x] kind by (cases "st_id y = i") (simp_all add: updated_store_def opt_def)
  then show ?thesis using x p u(3,4) by (auto simp: in_shop_def)
qed

section \<open>Rates of a location\<close>

definition rates_ok :: "store \<Rightarrow> bool" where
  "rates_ok st \<longleftrightarrow> 0 \<le> st_operatorPercent st \<and> st_operatorPercent st \<le> 100 \<and> 0 \<le> st_taxRate st \<and> st_taxRate st \<le> 100
     \<and> (st_locationType st = WAREHOUSE \<longrightarrow> st_operatorPercent st = 0)"

lemma rounded_percent: "0 \<le> v \<Longrightarrow> v \<le> 100 \<Longrightarrow> 0 \<le> toDecimalPlaces 2 v \<and> toDecimalPlaces 2 v \<le> 100"
  using toDecimalPlaces_nonneg [of v 2] toDecimalPlaces_mono_nonneg [of v 100 2] toDecimalPlaces_exact [OF has_dp_of_int [of 2 100]]
  by simp

text \<open>A location never leaves the bounds of its rates, and a warehouse earns no commission.\<close>
lemma rates_kept:
  assumes ok: "\<forall>st \<in> set (db_stores s). rates_ok st" and ids: "distinct (map st_id (db_stores s))"
    and run: "createStore actor i ns s = Inr (t, x) \<or> updateStore i actor us s s = Inr (t, x)"
  shows "\<forall>st \<in> set (db_stores t). rates_ok st"
  using run
proof
  assume run: "createStore actor i ns s = Inr (t, x)"
  have t: "db_stores t = db_stores s @ [new_store i ns]" and tax: "percent_ok (ns_taxRate ns)"
    and op: "\<not> opt (ns_operatorPercent ns) 0 < 0" "\<not> opt (ns_operatorPercent ns) 0 > 100"
      "opt (ns_locationType ns) RETAIL_STORE = WAREHOUSE \<Longrightarrow> opt (ns_operatorPercent ns) 0 = 0"
    using run by (auto simp: createStore_def Let_def bindE_Inr_iff create_row_def assertWarehouseOperatorPercent_def split: if_splits)
  have "0 \<le> opt (ns_taxRate ns) 0 \<and> opt (ns_taxRate ns) 0 \<le> 100" using tax by (auto simp: percent_ok_def opt_def split: option.splits)
  then have "rates_ok (new_store i ns)"
    using op rounded_percent [of "opt (ns_operatorPercent ns) 0"] rounded_percent [of "opt (ns_taxRate ns) 0"]
      toDecimalPlaces_exact [OF has_dp_zero, of 2]
    by (auto simp: rates_ok_def new_store_def)
  then show ?thesis using ok by (simp add: t)
next
  assume run: "updateStore i actor us s s = Inr (t, x)"
  obtain existing :: store where e: "find_store i s = Some existing" "check_store_update actor us existing s = Inr ()"
    and t: "db_stores t = upd_row st_id i (updated_store us (opt (us_locationType us) (st_locationType existing))) (db_stores s)"
    by (rule updateStore_InrE [OF run]) (rule that)
  have ex: "existing \<in> set (db_stores s)" "st_id existing = i" using find_row_SomeD [of st_id i "db_stores s" existing] e(1) by (simp_all add: find_store_def)
  have chk: "percent_ok (us_taxRate us)" "opt (us_locationType us) (st_locationType existing) \<noteq> WAREHOUSE \<Longrightarrow> percent_ok (us_operatorPercent us)"
    using e(2) by (auto simp: check_store_update_def Let_def bindE_Inr_iff split: if_splits)
  have "rates_ok (updated_store us (opt (us_locationType us) (st_locationType existing)) existing)"
    using ok ex(1) chk rounded_percent toDecimalPlaces_exact [OF has_dp_zero, of 2]
    by (auto simp: rates_ok_def updated_store_def percent_ok_def opt_def split: option.splits)
  moreover have "y = existing" if "y \<in> set (db_stores s)" "st_id y = i" for y
    by (rule distinct_mapD [OF ids that(1) ex(1)]) (simp add: that(2) ex(2))
  ultimately show ?thesis using ok by (auto simp: t in_upd_row)
qed

end
