(* ===== verification/Catalog_Examples.thy ===== *)
theory Catalog_Examples
  imports
    Catalog_Proofs
begin

text \<open>A shop with one product, whose ceiling is lowered: undisturbed, and overtaken by a rise.\<close>

definition ex_head_office :: auth_user where
  "ex_head_office = \<lparr>au_id = ''U9'', au_storeScope = None, au_role = COOP_ADMIN, au_mustChangePassword = False\<rparr>"

definition ex_apples_item :: "decimal \<Rightarrow> catalog_item" where
  "ex_apples_item cap = \<lparr>ci_id = ''C1'', ci_sku = ''APL'', ci_name = ''Apples'', ci_category = ''fruit'', ci_maxShelfPrice = cap,
     ci_taxExempt = False, ci_isActive = True, ci_unitsPerCase = 1, ci_casesPerPallet = None, ci_caseWeightKg = None,
     ci_caseGtin = None\<rparr>"

definition ex_shelves :: "decimal \<Rightarrow> db" where
  "ex_shelves cap = empty_db\<lparr>db_products := [ex_apples], db_catalog := [ex_apples_item cap], db_stores := [ex_store]\<rparr>"

definition ex_lower :: update_catalog_input where
  "ex_lower = no_catalog_change\<lparr>uc_maxShelfPrice := Some (3 / 2)\<rparr>"

definition ex_lowered :: "db \<times> catalog_item" where
  "ex_lowered = projr (updateCatalogItem ex_head_office ''C1'' ex_lower (ex_shelves 3) (ex_shelves 3))"

definition ex_overtaken :: "db \<times> catalog_item" where
  "ex_overtaken = projr (updateCatalogItem ex_head_office ''C1'' ex_lower (ex_shelves 1) (ex_shelves 3))"

lemma ex_lowered_run: "updateCatalogItem ex_head_office ''C1'' ex_lower (ex_shelves 3) (ex_shelves 3) = Inr (fst ex_lowered, snd ex_lowered)"
  unfolding ex_lowered_def by (rule stage_pair) code_simp

lemma ex_overtaken_run: "updateCatalogItem ex_head_office ''C1'' ex_lower (ex_shelves 1) (ex_shelves 3) = Inr (fst ex_overtaken, snd ex_overtaken)"
  unfolding ex_overtaken_def by (rule stage_pair) code_simp

lemma ex_shelves_ok: "catalog_ok (ex_shelves 3)"
  by (simp add: catalog_ok_def shelf_ok_def mirrors_def in_shop_def ex_shelves_def ex_apples_item_def ex_apples_def ex_store_def empty_db_def)

theorem shelves_follow_the_catalog_witness:
  "map p_price (db_products (fst ex_lowered)) = [3 / 2] \<and> p_sku (hd (db_products (fst ex_lowered))) = ''APL''"
proof -
  have h: "catalog_history (ex_shelves 3) (fst ex_lowered)" by (rule catalog_history.item_edit [OF catalog_history.here refl ex_lowered_run])
  have p: "hd (db_products (fst ex_lowered)) \<in> set (db_products (fst ex_lowered))"
    "p_catalogItemId (hd (db_products (fst ex_lowered))) = Some (ci_id (hd (db_catalog (fst ex_lowered))))"
    "hd (db_catalog (fst ex_lowered)) \<in> set (db_catalog (fst ex_lowered))" by code_simp+
  have v: "map p_price (db_products (fst ex_lowered)) = [3 / 2]" "ci_sku (hd (db_catalog (fst ex_lowered))) = ''APL''" by code_simp+
  show ?thesis using shelves_follow_the_catalog [OF ex_shelves_ok h p] v by simp
qed

theorem overtaken_ceiling_leaves_prices_witness:
  "ci_maxShelfPrice (snd ex_overtaken) = 3 / 2 \<and> map p_price (db_products (fst ex_overtaken)) = [2]"
proof -
  have old: "find_row ci_id ''C1'' (db_catalog (ex_shelves 1)) = Some (ex_apples_item 1)" "uc_maxShelfPrice ex_lower = Some (3 / 2)"
    by (simp_all add: ex_shelves_def ex_apples_item_def ex_lower_def)
  have m: "moneyDec (3 / 2) = 3 / 2" by code_simp
  then have below: "ci_maxShelfPrice (ex_apples_item 1) \<le> moneyDec (3 / 2)" "moneyDec (3 / 2) < p_price ex_apples"
    by (simp_all add: ex_apples_item_def ex_apples_def)
  have p: "ex_apples \<in> set (db_products (ex_shelves 3))" "p_catalogItemId ex_apples = Some ''C1''" "ex_store \<in> set (db_stores (ex_shelves 3))"
    "st_id ex_store = p_storeId ex_apples" "st_locationType ex_store = RETAIL_STORE"
    by (simp_all add: ex_shelves_def ex_apples_def ex_store_def)
  have v: "map p_price (db_products (fst ex_overtaken)) = [2]" by code_simp
  show ?thesis using overtaken_ceiling_leaves_prices [OF ex_overtaken_run old below(1) p(1,2) below(2) p(3-5)] v m by simp
qed

end
