(* ===== verification/Spec2Isabelle.thy ===== *)
theory Spec2Isabelle
  imports
    HL_Prelude Money Data_Model Js_Base Locks Stock_Engine Stock_Contracts Fefo Stock_Lots Examples Stock_Properties
    Benefits Pricing Sale_Create Sale_Invariant Sale_Settle Lot_Units Refunds Refund_Proofs
    Cash Cash_Proofs Settlement Settlement_Proofs
    Lot_Ops Inventory Inventory_Proofs Traceability Trace_Proofs Recall Recall_Proofs
    Barcode Barcode_Proofs Purchasing Purchase_Proofs Purchase_Properties
    Stock_Count Count_Proofs Count_Lifecycle Count_Schedule Count_Examples
    Membership Membership_Proofs Membership_Properties Membership_Dividends Membership_Examples
    Access Access_Proofs Catalog Catalog_Proofs Catalog_Examples
begin

text \<open>
  \<^bold>\<open>Harvestlink: stock, sales, payments and refunds of a co-operative's shops.\<close>

  The backend under \<open>src/backend/src\<close> is a TypeScript service over PostgreSQL (Prisma). Its core
  keeps two things right under concurrency, crashes and an unreliable payment provider: the stock of
  every product, held as lots with an expiry order, and the money of every sale. This library
  translates that core and proves what makes it correct.

  \<^bold>\<open>Theories and the code they model\<close>
  \<^item> \<open>HL_Prelude\<close>: errors as values (\<open>lib/errors.ts\<close>), loops that may throw, tables as lists of rows
    (locale \<open>row_store\<close>), loop invariants (locale \<open>loop_body\<close>).
  \<^item> \<open>Money\<close>: \<open>lib/money.ts\<close> and \<open>toStripeCents\<close>; amounts with two decimals.
  \<^item> \<open>Data_Model\<close>: one record per table of \<open>prisma/schema.prisma\<close>, the database state \<open>db\<close>.
  \<^item> \<open>Js_Base\<close>: what the code uses of JavaScript's strings, numbers and dates.
  \<^item> \<open>Locks\<close>: \<open>lib/locks.ts\<close> (what the locking reads return, in which order) and
    \<open>lib/stockInvariant.ts\<close>.
  \<^item> \<open>Stock_Engine\<close>: \<open>services/stockEngine.ts\<close>; \<open>Stock_Contracts\<close>, \<open>Fefo\<close> \<open>Stock_Lots\<close> and \<open>Stock_Properties\<close> hold
    its contracts: which state each operation leaves, that it cannot fail on consistent stock, that
    it keeps the roll-up of lots into product counters.
  \<^item> \<open>Benefits\<close>: \<open>services/benefits.service.ts\<close>. \<open>Pricing\<close>: the pricing loop and the totals of
    \<open>createSale\<close>. \<open>Sale_Create\<close>: the rest of \<open>createSale\<close> and the start of card payments.
  \<^item> \<open>Sale_Invariant\<close>: the system invariant \<open>sys_inv\<close> and its preservation by \<open>createSale\<close>.
  \<^item> \<open>Sale_Settle\<close>: payment, failure and expiry of a pending sale, \<open>jobs/expirePendingSales.ts\<close>,
    \<open>routes/stripe.webhook.ts\<close>. \<open>Lot_Units\<close>: what every step of a sale takes from every single lot.
  \<^item> \<open>Refunds\<close> and \<open>Refund_Proofs\<close>: the refund half of \<open>services/sales.service.ts\<close> and
    \<open>jobs/reconcileRefundingSales.ts\<close>.
  \<^item> \<open>Cash\<close> and \<open>Cash_Proofs\<close>: \<open>services/drawer.service.ts\<close>, \<open>services/cash.service.ts\<close>.
    \<open>Settlement\<close> and \<open>Settlement_Proofs\<close>: \<open>services/settlement.service.ts\<close>.
  \<^item> \<open>Inventory\<close> and \<open>Inventory_Proofs\<close>: \<open>services/inventory.service.ts\<close> and \<open>jobs/expireLots.ts\<close>.
  \<^item> \<open>Traceability\<close> and \<open>Trace_Proofs\<close>: from a lot to the sales and members it reached
    (\<open>services/traceability.service.ts\<close>). \<open>Recall\<close> and \<open>Recall_Proofs\<close>: \<open>services/recall.service.ts\<close>.
  \<^item> \<open>Barcode\<close> and \<open>Barcode_Proofs\<close>: \<open>lib/barcode.ts\<close> (normalisation, check digits, UPC-E, GS1 element
    strings) and \<open>services/barcode.service.ts\<close> (registration of codes and lot labels, lookup).
  \<^item> \<open>Purchasing\<close>, \<open>Purchase_Proofs\<close> and \<open>Purchase_Properties\<close>: \<open>services/purchasing.service.ts\<close>, from
    the supplier to the goods receipt and the reorder proposal. A module with tables of its own has a
    state that holds them beside \<open>db\<close>.
  \<^item> \<open>Stock_Count\<close>: \<open>services/stockCount.service.ts\<close> and \<open>jobs/scheduleCycleCounts.ts\<close>; doubles are rationals
    rounded by \<open>to_double\<close>. \<open>Count_Proofs\<close>: blind counting and approval. \<open>Count_Lifecycle\<close>: histories of
    counts in which requests overtake each other, retries, and offline entries with the sales made since. \<open>Count_Schedule\<close>: which
    products a cycle count takes. \<open>Count_Examples\<close>: a count from draft to approval.
  \<^item> \<open>Membership\<close>: \<open>services/membership.service.ts\<close>. The total of a member's capital is summed without a lock and
    written afterwards, so operations that refresh it take a third state \<open>r\<close>, the one the sum sees; a new voting
    threshold is committed before the transaction that recomputes everybody's rights, with other requests in between.
    \<open>Membership_Proofs\<close>: what every operation keeps of the books of capital. \<open>Membership_Properties\<close>: histories whose
    states note how many new thresholds still wait for their recomputation and whether a sum has been overtaken;
    capital, rights, votes, and the capital that is lost when two investments overlap.
    \<open>Membership_Dividends\<close>: what an allocation pays out. \<open>Membership_Examples\<close>: a small cooperative.
  \<^item> \<open>Access\<close>: signing in, tokens, staff accounts and the scope of a request (\<open>routes/auth.routes.ts\<close>,
    \<open>lib/passwordPolicy.ts\<close>, \<open>lib/storeScope.ts\<close>, three files of \<open>middleware\<close>). \<open>Access_Proofs\<close>: how often an
    account can be guessed at, and which data a token opens.
  \<^item> \<open>Catalog\<close>: \<open>services/catalog.service.ts\<close> and \<open>services/stores.service.ts\<close>. \<open>Catalog_Proofs\<close>: histories in
    which products mirror their catalog items and keep below the ceilings, and the rates of a location.
    \<open>Catalog_Examples\<close>: a ceiling that is lowered.
  \<^item> \<open>Lot_Ops\<close>: lots that enter or leave sale one after the other.
  \<^item> \<open>Examples\<close>: a small shop on which properties are evaluated.

  \<^bold>\<open>How code corresponds to definitions\<close>. A function of the code is a definition of the same name.
  A table is a list of records in the order of insertion; rows that only exist inside a parent
  (sale items, lot allocations, refund lines, lots of a recall) are nested in it. A function that
  runs in one transaction returns an error or the new state: an error leaves the old state, which
  is the rollback. A function of several transactions returns the state it leaves and its result,
  because what was committed stays. Row locks make transactions on the same rows run one after the
  other, so a transaction is one step; \<open>createSale\<close> takes the snapshot its pre-check reads besides
  the state its transaction runs on, because a concurrent request can commit in between. An operation that checks
  what it read without a lock takes both states, \<open>s0\<close> of the read and \<open>s\<close> of the write: equal, they
  are an undisturbed run, different, one with another request in between. The clock,
  generated identifiers and the answers of Stripe (and whether a Stripe key is configured at all) are parameters. Decimals are exact rationals,
  rounded half up where the code rounds; multiplication and division inside \<open>planRefundLines\<close> and the
  division of the average cost (\<open>division_ok\<close> states what is used of it) and of dividends (\<open>ops_within\<close>: a relative error) are parameters, since \<open>decimal.js\<close> rounds them to its own precision before they are rounded.
  Audit rows are kept without their JSON payload.

  \<^bold>\<open>Interfaces\<close>. \<open>row_store\<close> (lookup and update laws of a table) and \<open>loop_body\<close> (a body that keeps
  an invariant, so its loop does) are interpreted on the list tables and on the loops of the stock
  engine; \<open>alloc_step\<close> (one write per allocation on the lot it names) on the five kinds of
  allocation write; \<open>cart_op\<close> (an operation on the lots of one product, run for every line) on
  reserving, releasing and consuming; \<open>overtaking\<close> (a request that writes what it has read before others wrote)
  on stock counts, the capital ledger and staff accounts; \<open>lot_op\<close> (an operation on one locked lot, run for a list of
  lots) on taking lots out of sale, depleting recalled ones and putting them back on sale.

  \<^bold>\<open>What the theorems show\<close> is stated before each property.

  \<^bold>\<open>Not modelled\<close>: HTTP parsing and the rate limiter, list and report queries, the report, receipt and
  shrinkage services, the user interface and the timers that start the jobs. Password hashing and the signing of
  tokens are parameters. Loops are structural recursion over finite lists, so no fuel is used
  and every definition is total.
\<close>

end
